(* ===== verification/MC_Prelude.thy ===== *)
theory MC_Prelude
  imports Complex_Main "HOL-Library.Word" "HOL-Library.Monad_Syntax"
begin

text \<open>
  Shared vocabulary of the development: the types every component uses (bytes, timestamps,
  results), the pieces of Python's standard library the sources call on strings and bytes
  (\<open>bytes.hex\<close>, \<open>bytes.fromhex\<close>, \<open>struct.pack('>Q')\<close>, \<open>rstrip\<close>), the generic model of a SQLite
  table as a list of rows in rowid order, and the lemma collections the component proofs use.
\<close>

section \<open>Types\<close>

type_synonym byte = "8 word"
type_synonym bytes = "byte list"

text \<open>\<open>time.time()\<close> values and the differences the code takes of them: exact rationals.\<close>

type_synonym timestamp = rat

named_theorems mc_defs \<open>definitions of the model, unfolded together\<close>
named_theorems mc_table \<open>laws of the table operations\<close>

section \<open>Results\<close>

text \<open>Sequencing of code that may raise: the first error wins.\<close>

definition bind_res :: "'e + 'a \<Rightarrow> ('a \<Rightarrow> 'e + 'b) \<Rightarrow> 'e + 'b" where
  "bind_res m f = (case m of Inl e \<Rightarrow> Inl e | Inr x \<Rightarrow> f x)"

lemma bind_res_simps [simp]:
  "bind_res (Inl e) f = Inl e"
  "bind_res (Inr x) f = f x"
  by (simp_all add: bind_res_def)

lemma bind_res_eq_Inr:
  "bind_res m f = Inr y \<longleftrightarrow> (\<exists>x. m = Inr x \<and> f x = Inr y)"
  by (cases m) simp_all

lemma bind_res_eq_Inl:
  "bind_res m f = Inl e \<longleftrightarrow> m = Inl e \<or> (\<exists>x. m = Inr x \<and> f x = Inl e)"
  by (cases m) simp_all

text \<open>An \<open>except\<close> clause that re-raises as another error.\<close>

lemma case_sum_eq_Inr:
  "(case m of Inl e \<Rightarrow> Inl (g e) | Inr x \<Rightarrow> f x) = Inr y \<longleftrightarrow> (\<exists>x. m = Inr x \<and> f x = Inr y)"
  by (cases m) simp_all

text \<open>A comprehension whose body may raise: the elements in order, stopping at the first error.\<close>

fun traverse_res :: "('a \<Rightarrow> 'e + 'b) \<Rightarrow> 'a list \<Rightarrow> 'e + 'b list" where
  "traverse_res f [] = Inr []"
| "traverse_res f (x # xs) = bind_res (f x) (\<lambda>y. bind_res (traverse_res f xs) (\<lambda>ys. Inr (y # ys)))"

lemma traverse_res_Inr_iff:
  "traverse_res f xs = Inr ys \<longleftrightarrow> map f xs = map Inr ys"
proof (induction xs arbitrary: ys)
  case (Cons x xs)
  then show ?case
    by (cases ys) (auto simp: bind_res_eq_Inr)
qed auto

lemma traverse_res_map:
  "(\<And>x. x \<in> set xs \<Longrightarrow> f x = Inr (g x)) \<Longrightarrow> traverse_res f xs = Inr (map g xs)"
  by (induction xs) simp_all

lemma traverse_res_length: "traverse_res f xs = Inr ys \<Longrightarrow> length ys = length xs"
  by (metis length_map traverse_res_Inr_iff)

lemma traverse_res_nth:
  "traverse_res f xs = Inr ys \<Longrightarrow> i < length xs \<Longrightarrow> f (xs ! i) = Inr (ys ! i)"
  by (metis length_map nth_map traverse_res_Inr_iff)

lemma bind_eq_Some_iff:
  "Option.bind m f = Some y \<longleftrightarrow> (\<exists>x. m = Some x \<and> f x = Some y)"
  by (cases m) simp_all

section \<open>Lists and strings\<close>

text \<open>Python's \<open>s.startswith(p)\<close>.\<close>

definition startswith :: "'a list \<Rightarrow> 'a list \<Rightarrow> bool" where
  "startswith xs p \<longleftrightarrow> take (length p) xs = p"

lemma startswith_append [simp]: "startswith (p @ xs) p"
  by (simp add: startswith_def)

lemma startswith_iff: "startswith xs p \<longleftrightarrow> (\<exists>ys. xs = p @ ys)"
  by (metis append_eq_conv_conj append_take_drop_id startswith_def)

text \<open>Python's \<open>s.rstrip(c)\<close> for one character.\<close>

definition rstrip_char :: "'a \<Rightarrow> 'a list \<Rightarrow> 'a list" where
  "rstrip_char c xs = rev (dropWhile (\<lambda>x. x = c) (rev xs))"

lemma dropWhile_replicate_append [simp]:
  "P c \<Longrightarrow> dropWhile P (replicate n c @ ys) = dropWhile P ys"
  by (induction n) simp_all

lemma rstrip_char_padding:
  assumes "xs = [] \<or> last xs \<noteq> c"
  shows "rstrip_char c (xs @ replicate n c) = xs"
  using assms by (cases xs rule: rev_cases) (auto simp: rstrip_char_def)

text \<open>No entry of the list is a prefix of a different entry.\<close>

definition prefix_free :: "'a list list \<Rightarrow> bool" where
  "prefix_free ps \<longleftrightarrow> (\<forall>p \<in> set ps. \<forall>q \<in> set ps. startswith q p \<longrightarrow> p = q)"

lemma prefix_free_append_inj:
  assumes pf: "prefix_free ps" and p: "p \<in> set ps" and q: "q \<in> set ps"
    and eq: "p @ x = q @ y"
  shows "p = q \<and> x = y"
proof -
  have "startswith q p \<or> startswith p q"
    using eq by (auto simp: startswith_iff append_eq_append_conv2)
  then have "p = q"
    using pf p q by (auto simp: prefix_free_def)
  with eq show ?thesis by simp
qed

section \<open>Bytes and integers\<close>

text \<open>\<open>b.hex()\<close> and \<open>bytes.fromhex(s)\<close> on lower and upper case digits (ASCII whitespace between
  bytes, which \<open>fromhex\<close> also skips, never occurs in what the sources write).\<close>

definition hex_digit :: "nat \<Rightarrow> char" where
  "hex_digit n = (if n < 10 then char_of (48 + n) else char_of (87 + n))"

definition hex_value :: "char \<Rightarrow> nat option" where
  "hex_value c =
     (let n = of_char c :: nat in
      if 48 \<le> n \<and> n \<le> 57 then Some (n - 48)
      else if 97 \<le> n \<and> n \<le> 102 then Some (n - 87)
      else if 65 \<le> n \<and> n \<le> 70 then Some (n - 55)
      else None)"

fun hex_of :: "bytes \<Rightarrow> string" where
  "hex_of [] = []"
| "hex_of (b # bs) = hex_digit (unat b div 16) # hex_digit (unat b mod 16) # hex_of bs"

fun fromhex :: "string \<Rightarrow> bytes option" where
  "fromhex [] = Some []"
| "fromhex [c] = None"
| "fromhex (c # d # cs) =
     (case (hex_value c, hex_value d) of
        (Some h, Some l) \<Rightarrow> map_option (\<lambda>bs. of_nat (16 * h + l) # bs) (fromhex cs)
      | _ \<Rightarrow> None)"

lemma hex_value_digit [simp]: "n < 16 \<Longrightarrow> hex_value (hex_digit n) = Some n"
  by (auto simp: hex_value_def hex_digit_def Let_def)

lemma unat_byte_less [simp]: "unat (b :: byte) < 256"
  using unsigned_less [of b, where 'a = nat] by simp

lemma fromhex_hex_of [simp]: "fromhex (hex_of bs) = Some bs"
proof (induction bs)
  case (Cons b bs)
  have "unat b div 16 < 16"
    using unat_byte_less [of b] by (simp add: less_mult_imp_div_less)
  moreover have "16 * (unat b div 16) + unat b mod 16 = unat b"
    by simp
  ultimately show ?case
    using Cons by simp
qed simp

lemma length_hex_of [simp]: "length (hex_of bs) = 2 * length bs"
  by (induction bs) simp_all

lemma hex_of_inj [simp]: "hex_of xs = hex_of ys \<longleftrightarrow> xs = ys"
  by (metis fromhex_hex_of option.inject)

text \<open>The big-endian digits of a number in base 256, as \<open>struct.pack\<close> writes them.\<close>

fun be_bytes :: "nat \<Rightarrow> nat \<Rightarrow> bytes" where
  "be_bytes 0 n = []"
| "be_bytes (Suc k) n = be_bytes k (n div 256) @ [of_nat (n mod 256)]"

lemma be_bytes_numeral:
  "be_bytes (numeral k) n = be_bytes (pred_numeral k) (n div 256) @ [of_nat (n mod 256)]"
  unfolding numeral_eq_Suc [of k] by (rule be_bytes.simps)

definition be_value :: "bytes \<Rightarrow> nat" where
  "be_value bs = foldl (\<lambda>acc b. 256 * acc + unat b) 0 bs"

lemma length_be_bytes [simp]: "length (be_bytes k n) = k"
  by (induction k arbitrary: n) simp_all

lemma unat_of_nat_byte [simp]: "unat (of_nat (n mod 256) :: byte) = n mod 256"
  by (simp add: unat_of_nat take_bit_eq_mod)

lemma be_value_snoc: "be_value (bs @ [b]) = 256 * be_value bs + unat b"
  by (simp add: be_value_def)

lemma be_value_be_bytes [simp]: "n < 256 ^ k \<Longrightarrow> be_value (be_bytes k n) = n"
proof (induction k arbitrary: n)
  case 0
  then show ?case by (simp add: be_value_def)
next
  case (Suc k)
  then have "n div 256 < 256 ^ k"
    by (simp add: less_mult_imp_div_less mult.commute)
  with Suc.IH show ?case
    by (simp add: be_value_snoc)
qed

lemma be_bytes_inj:
  "m < 256 ^ k \<Longrightarrow> n < 256 ^ k \<Longrightarrow> be_bytes k m = be_bytes k n \<Longrightarrow> m = n"
  by (metis be_value_be_bytes)

section \<open>Tables\<close>

text \<open>
  A SQLite table is the list of its rows in rowid order. \<open>SELECT ... WHERE key = k\<close> with
  \<open>fetchone()\<close> is \<open>find_by\<close>, \<open>UPDATE ... SET ... WHERE p\<close> is \<open>update_where\<close>,
  \<open>DELETE ... WHERE p\<close> is \<open>filter\<close> of the rest, \<open>INSERT\<close> appends.
\<close>

definition find_by :: "('r \<Rightarrow> 'k) \<Rightarrow> 'k \<Rightarrow> 'r list \<Rightarrow> 'r option" where
  "find_by key k rows = List.find (\<lambda>r. key r = k) rows"

definition update_where :: "('r \<Rightarrow> bool) \<Rightarrow> ('r \<Rightarrow> 'r) \<Rightarrow> 'r list \<Rightarrow> 'r list" where
  "update_where p f rows = map (\<lambda>r. if p r then f r else r) rows"

lemma find_by_Some [mc_table]:
  "find_by key k rows = Some r \<Longrightarrow> r \<in> set rows \<and> key r = k"
  by (auto simp: find_by_def find_Some_iff)

lemma find_by_None [mc_table]:
  "find_by key k rows = None \<longleftrightarrow> k \<notin> key ` set rows"
  by (auto simp: find_by_def find_None_iff)

lemma find_by_simps [simp]:
  "find_by key k [] = None"
  "find_by key k (r # rows) = (if key r = k then Some r else find_by key k rows)"
  by (simp_all add: find_by_def)

lemma find_by_append:
  "find_by key k (xs @ ys) =
     (case find_by key k xs of None \<Rightarrow> find_by key k ys | Some r \<Rightarrow> Some r)"
  by (induction xs) simp_all

lemma find_by_unique:
  "distinct (map key rows) \<Longrightarrow> r \<in> set rows \<Longrightarrow> find_by key (key r) rows = Some r"
  by (induction rows) auto

lemma update_where_simps [simp]:
  "update_where p f [] = []"
  "update_where p f (r # rows) = (if p r then f r else r) # update_where p f rows"
  by (simp_all add: update_where_def)

lemma set_update_where:
  "set (update_where p f rows) = (\<lambda>r. if p r then f r else r) ` set rows"
  by (simp add: update_where_def)

lemma length_update_where [simp]: "length (update_where p f rows) = length rows"
  by (simp add: update_where_def)

text \<open>A column the update does not write keeps its values, in particular a key column.\<close>

lemma map_update_where [simp]:
  "(\<And>r. col (f r) = col r) \<Longrightarrow> map col (update_where p f rows) = map col rows"
  by (simp add: update_where_def)

lemma find_by_update_where:
  assumes "\<And>r. key (f r) = key r"
  shows "find_by key k (update_where p f rows) =
           map_option (\<lambda>r. if p r then f r else r) (find_by key k rows)"
  using assms by (induction rows) auto

lemma find_by_update_same:
  assumes "\<And>r. key (f r) = key r"
  shows "find_by key k (update_where (\<lambda>r. key r = k) f rows) = map_option f (find_by key k rows)"
  using assms by (induction rows) auto

lemma find_by_update_other:
  assumes "\<And>r. key (f r) = key r" and "k' \<noteq> k"
  shows "find_by key k' (update_where (\<lambda>r. key r = k) f rows) = find_by key k' rows"
  using assms by (induction rows) auto

text \<open>\<open>INSERT ... ON CONFLICT(key) DO UPDATE\<close>: update the row of the key, or append a new one.\<close>

definition upsert :: "('r \<Rightarrow> 'k) \<Rightarrow> 'r \<Rightarrow> ('r \<Rightarrow> 'r) \<Rightarrow> 'r list \<Rightarrow> 'r list" where
  "upsert key new f rows =
     (if find_by key (key new) rows = None then rows @ [new] else update_where (\<lambda>r. key r = key new) f rows)"

lemma find_by_upsert [mc_table]:
  assumes "\<And>r. key (f r) = key r"
  shows "find_by key k (upsert key new f rows) =
    (if k = key new then Some (case find_by key k rows of None \<Rightarrow> new | Some r \<Rightarrow> f r) else find_by key k rows)"
  using assms
  by (auto simp: upsert_def find_by_append find_by_update_same find_by_update_other split: option.splits)

lemma set_upsert:
  "set (upsert key new f rows) \<subseteq> insert new (f ` set rows) \<union> set rows"
  by (auto simp: upsert_def set_update_where)

lemma distinct_upsert:
  assumes "\<And>r. key (f r) = key r" and "distinct (map key rows)"
  shows "distinct (map key (upsert key new f rows))"
  using assms find_by_None [of key "key new" rows] by (auto simp: upsert_def image_iff)

end
