(* ===== verification/Cbor_RFC.thy ===== *)
theory Cbor_RFC
  imports Cbor
begin

text \<open>
  The RFC 8949 deterministic encoding of the fragment of theory \<open>Cbor\<close>, with its decoder: the
  instance that shows \<open>cbor2_contract\<close> can be met. The model's own definitions never use it;
  the witnesses of the properties that assume the contract do.
\<close>

section \<open>Heads\<close>

definition cbor_head :: "nat \<Rightarrow> nat \<Rightarrow> bytes" where
  "cbor_head m n =
     (if n < 24 then [of_nat (32 * m + n)]
      else if n < 256 then of_nat (32 * m + 24) # be_bytes 1 n
      else if n < 65536 then of_nat (32 * m + 25) # be_bytes 2 n
      else if n < 4294967296 then of_nat (32 * m + 26) # be_bytes 4 n
      else of_nat (32 * m + 27) # be_bytes 8 n)"

definition take_be :: "nat \<Rightarrow> nat \<Rightarrow> bytes \<Rightarrow> (nat \<times> nat \<times> bytes) option" where
  "take_be k m r = (if length r < k then None else Some (m, be_value (take k r), drop k r))"

fun dec_head :: "bytes \<Rightarrow> (nat \<times> nat \<times> bytes) option" where
  "dec_head [] = None"
| "dec_head (b # r) =
     (let m = unat b div 32; a = unat b mod 32 in
      if a < 24 then Some (m, a, r)
      else if a = 24 then take_be 1 m r
      else if a = 25 then take_be 2 m r
      else if a = 26 then take_be 4 m r
      else if a = 27 then take_be 8 m r
      else None)"

lemma unat_head_byte:
  assumes "m < 8" and "a < 32"
  shows "unat (of_nat (32 * m + a) :: byte) = 32 * m + a"
proof -
  have "unat (of_nat n :: byte) = n mod 256" for n
    by (simp add: unat_of_nat take_bit_eq_mod)
  moreover have "32 * m + a < 256" using assms by linarith
  ultimately show ?thesis by (metis mod_less)
qed

lemma take_be_append [simp]: "n < 256 ^ k \<Longrightarrow> take_be k m (be_bytes k n @ r) = Some (m, n, r)"
  by (simp add: take_be_def)

lemma dec_head_byte:
  assumes "m < 8" and "a < 32"
  shows "dec_head (of_nat (32 * m + a) # r) =
    (if a < 24 then Some (m, a, r) else if a = 24 then take_be 1 m r
     else if a = 25 then take_be 2 m r else if a = 26 then take_be 4 m r
     else if a = 27 then take_be 8 m r else None)"
  using assms by (simp add: Let_def unat_head_byte del: of_nat_add of_nat_mult)

lemma dec_head_cbor_head:
  assumes "m < 8" and "n < 2 ^ 64"
  shows "dec_head (cbor_head m n @ r) = Some (m, n, r)"
  using assms by (auto simp: cbor_head_def dec_head_byte simp del: dec_head.simps of_nat_add of_nat_mult be_bytes.simps)

lemma length_cbor_head [simp]: "length (cbor_head m n) = head_size n"
  by (simp add: cbor_head_def head_size_def del: be_bytes.simps)

section \<open>Items\<close>

fun cbor_enc :: "pyval \<Rightarrow> bytes" where
  "cbor_enc (PInt i) = cbor_head 0 (nat i)"
| "cbor_enc (PBytes b) = cbor_head 2 (length b) @ b"
| "cbor_enc (PStr s) = cbor_head 3 (length s) @ map of_char s"
| "cbor_enc (PList vs) = cbor_head 4 (length vs) @ concat (map cbor_enc vs)"
| "cbor_enc (PDict kvs) =
     cbor_head 5 (length kvs) @ concat (map (\<lambda>(k, v). cbor_enc k @ cbor_enc v) kvs)"
| "cbor_enc _ = []"

primrec dec_n :: "nat \<Rightarrow> (bytes \<Rightarrow> ('a \<times> bytes) option) \<Rightarrow> bytes \<Rightarrow> ('a list \<times> bytes) option" where
  "dec_n 0 p bs = Some ([], bs)"
| "dec_n (Suc n) p bs =
     (case p bs of
        None \<Rightarrow> None
      | Some (x, r) \<Rightarrow> map_option (\<lambda>(xs, r'). (x # xs, r')) (dec_n n p r))"

definition dec_pair :: "(bytes \<Rightarrow> ('a \<times> bytes) option) \<Rightarrow> bytes \<Rightarrow> (('a \<times> 'a) \<times> bytes) option" where
  "dec_pair p bs =
     (case p bs of
        None \<Rightarrow> None
      | Some (k, r) \<Rightarrow> map_option (\<lambda>(v, r'). ((k, v), r')) (p r))"

primrec cbor_dec :: "nat \<Rightarrow> bytes \<Rightarrow> (pyval \<times> bytes) option" where
  "cbor_dec 0 bs = None"
| "cbor_dec (Suc f) bs =
     (case dec_head bs of
        None \<Rightarrow> None
      | Some (m, n, r) \<Rightarrow>
          if m = 0 then Some (PInt (int n), r)
          else if m = 2 then (if length r < n then None else Some (PBytes (take n r), drop n r))
          else if m = 3 then
            (if length r < n then None
             else Some (PStr (map (\<lambda>b. char_of (unat b)) (take n r)), drop n r))
          else if m = 4 then map_option (\<lambda>(vs, r'). (PList vs, r')) (dec_n n (cbor_dec f) r)
          else if m = 5 then map_option (\<lambda>(kvs, r'). (PDict kvs, r')) (dec_n n (dec_pair (cbor_dec f)) r)
          else None)"

definition cbor_loads :: "bytes \<Rightarrow> pyval option" where
  "cbor_loads bs =
     (case cbor_dec (length bs) bs of Some (v, []) \<Rightarrow> Some v | _ \<Rightarrow> None)"

section \<open>The contract holds\<close>

lemma dec_n_concat:
  assumes "\<And>x r. x \<in> set xs \<Longrightarrow> p (e x @ r) = Some (x, r)"
  shows "dec_n (length xs) p (concat (map e xs) @ r) = Some (xs, r)"
  using assms by (induction xs arbitrary: r) auto

lemma concat_member_length:
  "x \<in> set xs \<Longrightarrow> length (e x) \<le> length (concat (map e xs))"
  by (induction xs) auto

lemma unat_of_char_byte: "unat (of_char c :: byte) = of_char c"
proof -
  have "unat (of_nat (of_char c) :: byte) = of_char c mod 256"
    by (simp only: unat_of_nat take_bit_eq_mod) simp
  then show ?thesis by (simp add: of_nat_of_char)
qed

lemma map_char_of_of_char: "map (\<lambda>b. char_of (unat b)) (map (of_char :: char \<Rightarrow> byte) s) = s"
  by (simp add: unat_of_char_byte comp_def)

lemma length_cbor_enc: "cbor_plain v \<Longrightarrow> length (cbor_enc v) = cbor_size v"
proof (induction v rule: cbor_plain.induct)
  case (4 vs)
  then have "map (\<lambda>w. length (cbor_enc w)) vs = map cbor_size vs"
    by (simp add: list_all_iff)
  then have "sum_list (map (\<lambda>w. length (cbor_enc w)) vs) = sum_list (map cbor_size vs)"
    by (rule arg_cong)
  then show ?case by (simp add: length_concat comp_def)
next
  case (5 kvs)
  have "length (cbor_enc k @ cbor_enc v) = cbor_size k + cbor_size v" if "(k, v) \<in> set kvs" for k v
  proof -
    from 5(2) that have "is_uint_key k" "cbor_plain v" by (auto simp: list_all_iff)
    then show ?thesis using 5(1) [OF that, of k v] by (cases k) auto
  qed
  then have "map (\<lambda>kv. length (case kv of (k, v) \<Rightarrow> cbor_enc k @ cbor_enc v)) kvs
      = map (\<lambda>(k, v). cbor_size k + cbor_size v) kvs"
    by auto
  then have "sum_list (map (\<lambda>kv. length (case kv of (k, v) \<Rightarrow> cbor_enc k @ cbor_enc v)) kvs)
      = sum_list (map (\<lambda>(k, v). cbor_size k + cbor_size v) kvs)"
    by (rule arg_cong)
  then show ?case by (simp add: length_concat comp_def)
qed simp_all

lemma cbor_dec_enc:
  "cbor_plain v \<Longrightarrow> length (cbor_enc v) \<le> f \<Longrightarrow> cbor_dec f (cbor_enc v @ r) = Some (v, r)"
proof (induction f arbitrary: v r)
  case 0
  then have "cbor_size v = 0" by (simp add: length_cbor_enc)
  with 0 show ?case by (cases v) simp_all
next
  case (Suc f)
  have sub: "cbor_dec f (cbor_enc w @ r) = Some (w, r)"
    if "cbor_plain w" "length (cbor_enc w) \<le> f" for w r
    using Suc.IH that by blast
  show ?case
  proof (cases v)
    case (PInt i)
    with Suc.prems show ?thesis
      by (simp add: dec_head_cbor_head uint64_def nat_less_iff)
  next
    case (PBytes b)
    with Suc.prems show ?thesis by (simp add: dec_head_cbor_head)
  next
    case (PStr s)
    with Suc.prems show ?thesis by (simp add: dec_head_cbor_head map_char_of_of_char del: map_map)
  next
    case (PList vs)
    have "cbor_dec f (cbor_enc w @ r) = Some (w, r)" if "w \<in> set vs" for w r
    proof (rule sub)
      show "cbor_plain w" using Suc.prems(1) PList that by (simp add: list_all_iff)
      show "length (cbor_enc w) \<le> f"
        using Suc.prems(2) PList concat_member_length [OF that, of cbor_enc] head_size_pos [of "length vs"]
        by (simp del: head_size_pos)
    qed
    then have "dec_n (length vs) (cbor_dec f) (concat (map cbor_enc vs) @ r) = Some (vs, r)" for r
      by (rule dec_n_concat)
    with Suc.prems PList show ?thesis by (simp add: dec_head_cbor_head)
  next
    case (PDict kvs)
    let ?e = "\<lambda>(k, v). cbor_enc k @ cbor_enc v"
    have "dec_pair (cbor_dec f) (?e kv @ r) = Some (kv, r)" if "kv \<in> set kvs" for kv r
    proof -
      obtain k w where kv: "kv = (k, w)" by (cases kv)
      have pl: "cbor_plain k" "cbor_plain w"
        using Suc.prems(1) PDict that kv by (auto simp: list_all_iff intro: uint_key_plain)
      have "length (?e kv) \<le> f"
        using Suc.prems(2) PDict concat_member_length [OF that, of ?e] head_size_pos [of "length kvs"]
        by (simp del: head_size_pos)
      with pl show ?thesis by (simp add: kv dec_pair_def sub)
    qed
    then have "dec_n (length kvs) (dec_pair (cbor_dec f)) (concat (map ?e kvs) @ r) = Some (kvs, r)" for r
      by (rule dec_n_concat)
    with Suc.prems PDict show ?thesis by (simp add: dec_head_cbor_head)
  qed (use Suc.prems in simp_all)
qed

lemma cbor_rfc_contract: "cbor2_contract cbor_enc cbor_loads"
proof -
  have "cbor_loads (cbor_enc v) = Some v" if "cbor_plain v" for v
    using cbor_dec_enc [OF that order_refl, of "[]"] by (simp add: cbor_loads_def)
  then show ?thesis by (simp add: cbor2_contract_def length_cbor_enc)
qed

end
