(* ===== verification/External.thy ===== *)
theory External
  imports Cbor_RFC
begin

text \<open>
  The third-party functions MCAttach calls, as one record that every definition using them takes
  as its argument \<open>X\<close>: \<open>cbor2\<close> and PyNaCl (Ed25519 signatures, XChaCha20-Poly1305, sealed boxes),
  OpenSSL's SHA-256. What Python's \<open>str\<close>, \<open>int\<close>, \<open>bytes\<close>, \<open>operator.index\<close> and subscripting do on the objects \<open>cbor2\<close>
  builds from tags is a parameter too (\<open>py_repr\<close> and the \<open>other_\<close> fields), as is whether there is memory for a conversion
  that needs more than its argument (\<open>py_room\<close>). Keys are their raw bytes: an \<open>ed_sign\<close> key is the 32-byte seed
  \<open>SigningKey\<close> wraps, a verify key the 32-byte Ed25519 public key \<open>VerifyKey\<close> wraps. The contracts
  are the documented behaviour of these packages; each is a hypothesis of the properties that
  need it. \<open>ref_ext\<close> meets all of them together and is what the witnesses use.
\<close>

section \<open>The functions\<close>

text \<open>The exceptions of the conversions; \<open>PyRaised c\<close> is any other class \<open>c\<close>.\<close>

datatype py_exc = PyKeyError | PyIndexError | PyTypeError | PyValueError | PyOverflowError | PyMemoryError | PyRaised string

record ext =
  cbor_dumps :: "pyval \<Rightarrow> bytes"
  cbor_load :: "bytes \<Rightarrow> pyval option"
  ed_sign :: "bytes \<Rightarrow> bytes \<Rightarrow> bytes"
  ed_verify :: "bytes \<Rightarrow> bytes \<Rightarrow> bytes \<Rightarrow> bool"
  ed_public :: "bytes \<Rightarrow> bytes"
  sha256 :: "bytes \<Rightarrow> bytes"
  aead_encrypt :: "bytes \<Rightarrow> bytes \<Rightarrow> bytes \<Rightarrow> bytes \<Rightarrow> bytes"
  aead_decrypt :: "bytes \<Rightarrow> bytes \<Rightarrow> bytes \<Rightarrow> bytes \<Rightarrow> bytes option"
  pk_to_curve :: "bytes \<Rightarrow> bytes option"
  sk_to_curve :: "bytes \<Rightarrow> bytes"
  sealed_box :: "bytes \<Rightarrow> bytes \<Rightarrow> bytes \<Rightarrow> bytes"
  sealed_open :: "bytes \<Rightarrow> bytes \<Rightarrow> bytes option"
  py_repr :: "pyval \<Rightarrow> py_exc + string"
  py_room :: "pyval \<Rightarrow> bool"
  other_int :: "pyval \<Rightarrow> py_exc + int"
  other_index :: "pyval \<Rightarrow> py_exc + int"
  other_bytes :: "pyval \<Rightarrow> py_exc + bytes"
  other_item :: "pyval \<Rightarrow> int \<Rightarrow> py_exc + pyval"

section \<open>Contracts\<close>

definition cbor_contract :: "ext \<Rightarrow> bool" where
  "cbor_contract X \<longleftrightarrow> cbor2_contract (cbor_dumps X) (cbor_load X)"

text \<open>Ed25519: a signature has 64 bytes and verifies under the signer's public key.\<close>

definition sign_contract :: "ext \<Rightarrow> bool" where
  "sign_contract X \<longleftrightarrow>
     (\<forall>sk m. length (ed_sign X sk m) = 64 \<and> ed_verify X (ed_public X sk) m (ed_sign X sk m))"

definition sha256_contract :: "ext \<Rightarrow> bool" where
  "sha256_contract X \<longleftrightarrow> (\<forall>m. length (sha256 X m) = 32)"

text \<open>
  XChaCha20-Poly1305 with a fixed key, nonce and associated data: decryption inverts encryption,
  the ciphertext is 16 bytes longer than the plaintext, and what decrypts is the encryption of
  its plaintext (the cipher is an XOR and the tag is recomputed).
\<close>

definition aead_contract :: "ext \<Rightarrow> bool" where
  "aead_contract X \<longleftrightarrow>
     (\<forall>p a n k. aead_decrypt X (aead_encrypt X p a n k) a n k = Some p
              \<and> length (aead_encrypt X p a n k) = length p + 16)
     \<and> (\<forall>c a n k p. aead_decrypt X c a n k = Some p \<longrightarrow> c = aead_encrypt X p a n k)"

text \<open>
  Ed25519 keys of 32 bytes convert to X25519 (\<open>crypto_sign_ed25519_pk_to_curve25519\<close> raises, here \<open>None\<close>, on
  bytes that are not a valid point), and a sealed box made for the converted public key opens under the
  converted private key. The last argument of \<open>sealed_box\<close> is the ephemeral randomness.
\<close>

definition sealed_contract :: "ext \<Rightarrow> bool" where
  "sealed_contract X \<longleftrightarrow>
     (\<forall>sk. length sk = 32 \<longrightarrow> length (ed_public X sk) = 32
        \<and> (\<exists>pk. pk_to_curve X (ed_public X sk) = Some pk
             \<and> (\<forall>p r. sealed_open X (sk_to_curve X sk) (sealed_box X pk p r) = Some p)))"

lemma cbor_contractD:
  assumes "cbor_contract X" and "cbor_plain v"
  shows "cbor_load X (cbor_dumps X v) = Some v" and "length (cbor_dumps X v) = cbor_size v"
  using assms by (simp_all add: cbor_contract_def cbor2_contractD)

lemma sign_contractD:
  assumes "sign_contract X"
  shows "length (ed_sign X sk m) = 64" and "ed_verify X (ed_public X sk) m (ed_sign X sk m)"
  using assms by (simp_all add: sign_contract_def)

lemma aead_contractD:
  assumes "aead_contract X"
  shows "aead_decrypt X (aead_encrypt X p a n k) a n k = Some p"
    and "length (aead_encrypt X p a n k) = length p + 16"
    and "aead_decrypt X c a n k = Some p \<Longrightarrow> c = aead_encrypt X p a n k"
  using assms by (simp_all add: aead_contract_def)

lemma sealed_contractD:
  assumes "sealed_contract X" and "length sk = 32"
  shows "length (ed_public X sk) = 32"
    and "\<exists>pk. pk_to_curve X (ed_public X sk) = Some pk
           \<and> (\<forall>p r. sealed_open X (sk_to_curve X sk) (sealed_box X pk p r) = Some p)"
  using assms by (simp_all add: sealed_contract_def)

section \<open>An instance that meets them\<close>

definition pad_to :: "nat \<Rightarrow> bytes \<Rightarrow> bytes" where
  "pad_to n bs = take n (bs @ replicate n 0)"

lemma pad_to_id [simp]: "length bs = n \<Longrightarrow> pad_to n bs = bs"
  by (simp add: pad_to_def)

lemma length_pad_to [simp]: "length (pad_to n bs) = n"
  by (simp add: pad_to_def)

fun ref_room :: "pyval \<Rightarrow> bool" where
  "ref_room (PInt n) \<longleftrightarrow> n < 2 ^ 40"
| "ref_room _ \<longleftrightarrow> True"

definition ref_ext :: ext where
  "ref_ext = \<lparr>
     cbor_dumps = cbor_enc,
     cbor_load = cbor_loads,
     ed_sign = (\<lambda>sk m. pad_to 64 (pad_to 32 sk @ m)),
     ed_verify = (\<lambda>pk m s. s = pad_to 64 (pk @ m)),
     ed_public = pad_to 32,
     sha256 = pad_to 32,
     aead_encrypt = (\<lambda>p a n k. p @ replicate 16 0),
     aead_decrypt = (\<lambda>c a n k.
       if 16 \<le> length c \<and> drop (length c - 16) c = replicate 16 0
       then Some (take (length c - 16) c) else None),
     pk_to_curve = (\<lambda>pk. Some (pad_to 32 pk)),
     sk_to_curve = pad_to 32,
     sealed_box = (\<lambda>pk p r. pad_to 32 pk @ p),
     sealed_open = (\<lambda>sk c. if startswith c sk then Some (drop (length sk) c) else None),
     py_repr = (\<lambda>_. Inr []),
     py_room = ref_room,
     other_int = (\<lambda>_. Inl PyTypeError),
     other_index = (\<lambda>_. Inl PyTypeError),
     other_bytes = (\<lambda>_. Inl PyTypeError),
     other_item = (\<lambda>_ _. Inl PyTypeError) \<rparr>"

lemma ref_ext_contracts [simp]:
  "cbor_contract ref_ext" "sign_contract ref_ext" "sha256_contract ref_ext" "aead_contract ref_ext"
  "sealed_contract ref_ext"
  by (auto simp: ref_ext_def sealed_contract_def startswith_def cbor_contract_def cbor_rfc_contract sign_contract_def
      sha256_contract_def aead_contract_def split: if_splits)
    (metis append_take_drop_id)

end
