(* ===== verification/Py_Base64.thy ===== *)
theory Py_Base64
  imports MC_Prelude
begin

text \<open>
  Python's \<open>base64.urlsafe_b64encode\<close> and \<open>base64.urlsafe_b64decode\<close>, which the codec and the
  provider registry call. The decoder is the non-strict automaton of \<open>binascii.a2b_base64\<close>: it
  skips every character outside the alphabet, so it is modelled as the character-by-character
  machine with its four positions and its pad counter, not as the inverse of the encoder.
\<close>

section \<open>Alphabet\<close>

definition b64_char :: "nat \<Rightarrow> char" where
  "b64_char v =
     (if v < 26 then char_of (65 + v)
      else if v < 52 then char_of (71 + v)
      else if v < 62 then char_of (v - 4)
      else if v = 62 then CHR ''-'' else CHR ''_'')"

text \<open>\<open>table_a2b_base64\<close>: the standard alphabet.\<close>

definition a2b_value :: "char \<Rightarrow> nat option" where
  "a2b_value c =
     (let n = of_char c :: nat in
      if 65 \<le> n \<and> n \<le> 90 then Some (n - 65)
      else if 97 \<le> n \<and> n \<le> 122 then Some (n - 71)
      else if 48 \<le> n \<and> n \<le> 57 then Some (n + 4)
      else if n = 43 then Some 62
      else if n = 47 then Some 63
      else None)"

text \<open>\<open>_urlsafe_decode_translation\<close>: the two URL-safe characters become the standard ones.\<close>

definition urlsafe_translate :: "char \<Rightarrow> char" where
  "urlsafe_translate c = (if c = CHR ''-'' then CHR ''+'' else if c = CHR ''_'' then CHR ''/'' else c)"

definition is_ascii :: "char \<Rightarrow> bool" where
  "is_ascii c \<longleftrightarrow> (of_char c :: nat) < 128"

text \<open>Facts about all 64 characters, range by range.\<close>

lemma less_64_cases:
  "(v :: nat) < 64 \<longleftrightarrow> v < 26 \<or> (26 \<le> v \<and> v < 52) \<or> (52 \<le> v \<and> v < 62) \<or> v = 62 \<or> v = 63"
  by auto

lemma a2b_value_b64_char [simp]:
  assumes "v < 64"
  shows "a2b_value (urlsafe_translate (b64_char v)) = Some v"
  using assms unfolding less_64_cases
  by (elim disjE) (auto simp: a2b_value_def b64_char_def urlsafe_translate_def is_ascii_def
      Let_def char_of_eq_iff take_bit_eq_mod)

lemma is_ascii_b64_char [simp]:
  assumes "v < 64"
  shows "is_ascii (b64_char v)"
  using assms unfolding less_64_cases
  by (elim disjE) (auto simp: a2b_value_def b64_char_def urlsafe_translate_def is_ascii_def
      Let_def char_of_eq_iff take_bit_eq_mod)

lemma translate_b64_char_not_pad [simp]:
  assumes "v < 64"
  shows "urlsafe_translate (b64_char v) \<noteq> CHR ''=''"
proof
  assume "urlsafe_translate (b64_char v) = CHR ''=''"
  then have "a2b_value (CHR ''='') = Some v"
    using a2b_value_b64_char [OF assms] by simp
  then show False by (simp add: a2b_value_def)
qed

lemma b64_char_not_pad [simp]: "v < 64 \<Longrightarrow> b64_char v \<noteq> CHR ''=''"
  using translate_b64_char_not_pad [of v] by (auto simp: urlsafe_translate_def)

section \<open>Encoder\<close>

fun b64encode :: "nat list \<Rightarrow> string" where
  "b64encode [] = []"
| "b64encode [a] = [b64_char (a div 4), b64_char (a mod 4 * 16), CHR ''='', CHR ''='']"
| "b64encode [a, b] =
     [b64_char (a div 4), b64_char (a mod 4 * 16 + b div 16), b64_char (b mod 16 * 4), CHR ''='']"
| "b64encode (a # b # c # r) =
     b64_char (a div 4) # b64_char (a mod 4 * 16 + b div 16)
       # b64_char (b mod 16 * 4 + c div 64) # b64_char (c mod 64) # b64encode r"

definition urlsafe_b64encode :: "bytes \<Rightarrow> string" where
  "urlsafe_b64encode bs = b64encode (map unat bs)"

text \<open>\<open>urlsafe_b64encode(b).rstrip(b"=").decode("ascii")\<close>, the unpadded form both callers use.\<close>

definition b64url_nopad :: "bytes \<Rightarrow> string" where
  "b64url_nopad bs = rstrip_char CHR ''='' (urlsafe_b64encode bs)"

section \<open>Decoder\<close>

text \<open>
  \<open>binascii.a2b_base64(data, strict_mode=False)\<close>: \<open>quad_pos\<close>, \<open>leftchar\<close> and \<open>pads\<close> are the C
  function's variables; the result is \<open>None\<close> where it raises \<open>binascii.Error\<close>.
\<close>

fun a2b_base64 :: "nat \<Rightarrow> nat \<Rightarrow> nat \<Rightarrow> string \<Rightarrow> nat list option" where
  "a2b_base64 quad_pos leftchar pads [] = (if quad_pos = 0 then Some [] else None)"
| "a2b_base64 quad_pos leftchar pads (c # cs) =
     (if c = CHR ''='' then
        (if 2 \<le> quad_pos \<and> 4 \<le> quad_pos + Suc pads then Some []
         else a2b_base64 quad_pos leftchar (if 2 \<le> quad_pos then Suc pads else pads) cs)
      else
        (case a2b_value c of
           None \<Rightarrow> a2b_base64 quad_pos leftchar pads cs
         | Some v \<Rightarrow>
             (if quad_pos = 0 then a2b_base64 1 v 0 cs
              else if quad_pos = 1 then
                map_option (Cons (leftchar * 4 + v div 16)) (a2b_base64 2 (v mod 16) 0 cs)
              else if quad_pos = 2 then
                map_option (Cons (leftchar * 16 + v div 4)) (a2b_base64 3 (v mod 4) 0 cs)
              else map_option (Cons (leftchar * 64 + v)) (a2b_base64 0 0 0 cs))))"

text \<open>\<open>urlsafe_b64decode(s)\<close>: \<open>ValueError\<close> (here \<open>None\<close>) on a non-ASCII string or on bad data.\<close>

definition urlsafe_b64decode :: "string \<Rightarrow> bytes option" where
  "urlsafe_b64decode s =
     (if list_all is_ascii s
      then map_option (map of_nat) (a2b_base64 0 0 0 (map urlsafe_translate s))
      else None)"

text \<open>The padding the callers put back: \<open>"=" * (-len(body) % 4)\<close>.\<close>

definition b64_padding :: "string \<Rightarrow> string" where
  "b64_padding body = replicate (nat ((- int (length body)) mod 4)) CHR ''=''"

definition b64url_decode_unpadded :: "string \<Rightarrow> bytes option" where
  "b64url_decode_unpadded body = urlsafe_b64decode (body @ b64_padding body)"

section \<open>Round trip\<close>

lemma urlsafe_translate_pad [simp]: "urlsafe_translate c = CHR ''='' \<longleftrightarrow> c = CHR ''=''"
  by (simp add: urlsafe_translate_def)

lemma urlsafe_translate_pad_eq [simp]: "urlsafe_translate CHR ''='' = CHR ''=''"
  by simp

lemma b64_range_head [simp]: "(a :: nat) < 256 \<Longrightarrow> a div 4 < 64"
  by (simp add: less_mult_imp_div_less)

lemma b64_ranges [simp]:
  assumes "(b :: nat) < 256"
  shows "(a :: nat) mod 4 * 16 + b div 16 < 64" and "a mod 16 * 4 + b div 64 < 64"
    and "a mod 4 * 16 < 64" and "a mod 16 * 4 < 64"
proof -
  have "b div 16 < 16" "b div 64 < 4" using assms by (simp_all add: less_mult_imp_div_less)
  moreover have "a mod 4 < 4" "a mod 16 < 16" by simp_all
  ultimately show "a mod 4 * 16 + b div 16 < 64" "a mod 16 * 4 + b div 64 < 64"
    "a mod 4 * 16 < 64" "a mod 16 * 4 < 64"
    by linarith+
qed

lemma b64_recombine [simp]:
  assumes "(b :: nat) < 256"
  shows "b div 16 div 16 = 0" and "b div 16 mod 16 = b div 16"
    and "b div 64 div 4 = 0" and "b div 64 mod 4 = b div 64"
  using assms by (simp_all add: div_mult2_eq [symmetric] less_mult_imp_div_less)

lemma a2b_b64encode:
  "list_all (\<lambda>b. b < 256) bs \<Longrightarrow>
   a2b_base64 0 l p (map urlsafe_translate (b64encode bs)) = Some bs"
proof (induction bs arbitrary: l p rule: b64encode.induct)
  case (4 a b c r)
  then show ?case by (simp add: comp_def)
qed simp_all

lemma list_all_b64encode:
  "list_all (\<lambda>b. b < 256) bs \<Longrightarrow> list_all is_ascii (b64encode bs)"
  by (induction bs rule: b64encode.induct) (simp_all add: is_ascii_def [of "CHR ''=''"])

lemma urlsafe_roundtrip [simp]: "urlsafe_b64decode (urlsafe_b64encode bs) = Some bs"
proof -
  have h: "list_all (\<lambda>b. b < 256) (map unat bs)"
    by (simp add: list_all_iff)
  then show ?thesis
    by (simp add: urlsafe_b64decode_def urlsafe_b64encode_def list_all_b64encode a2b_b64encode comp_def)
qed

text \<open>The encoder's output is the unpadded text followed by the padding the decoder puts back.\<close>

lemma b64encode_split:
  "list_all (\<lambda>b. b < 256) bs \<Longrightarrow>
   \<exists>body. b64encode bs = body @ b64_padding body \<and> (body = [] \<or> last body \<noteq> CHR ''='')
     \<and> length body = (4 * length bs + 2) div 3"
proof (induction bs rule: b64encode.induct)
  case 1
  show ?case by (simp add: b64_padding_def)
next
  case (2 a)
  then show ?case
    by (intro exI [of _ "[b64_char (a div 4), b64_char (a mod 4 * 16)]"])
       (simp add: b64_padding_def numeral_2_eq_2)
next
  case (3 a b)
  then show ?case
    by (intro exI [of _ "[b64_char (a div 4), b64_char (a mod 4 * 16 + b div 16), b64_char (b mod 16 * 4)]"])
       (simp add: b64_padding_def)
next
  case (4 a b c r)
  then obtain body where body: "b64encode r = body @ b64_padding body"
    "body = [] \<or> last body \<noteq> CHR ''=''" "length body = (4 * length r + 2) div 3"
    by auto
  let ?q = "[b64_char (a div 4), b64_char (a mod 4 * 16 + b div 16),
             b64_char (b mod 16 * 4 + c div 64), b64_char (c mod 64)]"
  have "(- int (length (?q @ body))) mod 4 = (- int (length body)) mod 4"
    by (simp add: mod_minus_cong [of "4 + int (length body)" 4 "int (length body)"] del: add_uminus_conv_diff)
  then have "b64_padding (?q @ body) = b64_padding body"
    unfolding b64_padding_def by (rule arg_cong)
  moreover have "last (?q @ body) \<noteq> CHR ''=''"
    using body(2) by (auto simp: last_append)
  ultimately show ?case
    using body 4 by (intro exI [of _ "?q @ body"]) auto
qed

lemma b64url_nopad_facts:
  shows b64url_nopad_padding: "b64url_nopad bs @ b64_padding (b64url_nopad bs) = urlsafe_b64encode bs"
    and length_b64url_nopad: "length (b64url_nopad bs) = (4 * length bs + 2) div 3"
proof -
  have "list_all (\<lambda>b. b < 256) (map unat bs)"
    by (simp add: list_all_iff)
  from b64encode_split [OF this] obtain body where
    body: "urlsafe_b64encode bs = body @ b64_padding body" "body = [] \<or> last body \<noteq> CHR ''=''"
      "length body = (4 * length bs + 2) div 3"
    by (auto simp: urlsafe_b64encode_def)
  have "b64url_nopad bs = body"
    using body(2) by (simp add: b64url_nopad_def body(1) b64_padding_def rstrip_char_padding)
  with body show "b64url_nopad bs @ b64_padding (b64url_nopad bs) = urlsafe_b64encode bs"
    "length (b64url_nopad bs) = (4 * length bs + 2) div 3"
    by simp_all
qed

lemma b64url_roundtrip [simp]: "b64url_decode_unpadded (b64url_nopad bs) = Some bs"
  by (simp add: b64url_decode_unpadded_def b64url_nopad_padding)

lemma b64url_nopad_inj [simp]: "b64url_nopad xs = b64url_nopad ys \<longleftrightarrow> xs = ys"
  by (metis b64url_roundtrip option.inject)

text \<open>What the automaton skips: characters outside the alphabet, wherever they stand.\<close>

lemma a2b_skips_junk:
  assumes "list_all (\<lambda>c. a2b_value c = None \<and> c \<noteq> CHR ''='') junk"
  shows "a2b_base64 q l p (junk @ cs) = a2b_base64 q l p cs"
  using assms by (induction junk) auto

end
