(* ===== verification/Codec.thy ===== *)
theory Codec
  imports External Py_Base64
begin

text \<open>
  The MCA/1 message codec, \<open>src/meshsrv/attachments/codec.py\<close>: the message types and their
  domain labels, the field checks, one encode and one decode function per message, and the two
  transport encodings \<open>MCA1-TEXT\<close> and \<open>MCA1-CBOR\<close>.
\<close>

section \<open>Message types and constants\<close>

text \<open>What the module can raise: its own \<open>CodecError\<close>, or a bare \<open>KeyError\<close> from the label table.\<close>

datatype codec_error = CodecError | KeyError

definition PROTOCOL_VERSION :: int where "PROTOCOL_VERSION = 1"
definition OFFER_MAX_ASCII_BYTES :: nat where "OFFER_MAX_ASCII_BYTES = 180"
definition KEY_ANNOUNCE_MAX_ASCII_BYTES :: nat where "KEY_ANNOUNCE_MAX_ASCII_BYTES = 180"
definition MAX_MESSAGE_RAW_BYTES :: nat where "MAX_MESSAGE_RAW_BYTES = 2048"
definition TEXT_PREFIX :: string where "TEXT_PREFIX = ''MCA1:''"

datatype message_type =
    OFFER | ACK_RECEIVED | ACK_DOWNLOADED | ACK_PROVIDER_UNKNOWN | CANCEL
  | KEY_REQUEST | KEY_ANNOUNCE | KEY_ACK | REJECTED | EXPIRED | KEY_ROTATE

fun type_code :: "message_type \<Rightarrow> int" where
  "type_code OFFER = 1"
| "type_code ACK_RECEIVED = 2"
| "type_code ACK_DOWNLOADED = 3"
| "type_code ACK_PROVIDER_UNKNOWN = 4"
| "type_code CANCEL = 5"
| "type_code KEY_REQUEST = 6"
| "type_code KEY_ANNOUNCE = 7"
| "type_code KEY_ACK = 8"
| "type_code REJECTED = 9"
| "type_code EXPIRED = 10"
| "type_code KEY_ROTATE = 11"

definition all_message_types :: "message_type list" where
  "all_message_types =
     [OFFER, ACK_RECEIVED, ACK_DOWNLOADED, ACK_PROVIDER_UNKNOWN, CANCEL,
      KEY_REQUEST, KEY_ANNOUNCE, KEY_ACK, REJECTED, EXPIRED, KEY_ROTATE]"

text \<open>\<open>MessageType(value)\<close>: the member whose code equals the value, \<open>None\<close> for \<open>ValueError\<close>.\<close>

definition message_type_of :: "pyval \<Rightarrow> message_type option" where
  "message_type_of v = List.find (\<lambda>t. py_eq_int v (type_code t)) all_message_types"

definition simple_ack_type :: "message_type \<Rightarrow> bool" where
  "simple_ack_type t \<longleftrightarrow>
     t \<in> set [ACK_RECEIVED, ACK_DOWNLOADED, ACK_PROVIDER_UNKNOWN, CANCEL, REJECTED, EXPIRED]"

definition ascii_bytes :: "string \<Rightarrow> bytes" where
  "ascii_bytes s = map of_char s"

fun label_text :: "message_type \<Rightarrow> string option" where
  "label_text OFFER = Some ''MCA1/OFFER/v1''"
| "label_text KEY_ANNOUNCE = Some ''MCA1/KEY_ANNOUNCE/v1''"
| "label_text KEY_REQUEST = Some ''MCA1/KEY_REQUEST/v1''"
| "label_text KEY_ACK = Some ''MCA1/KEY_ACK/v1''"
| "label_text ACK_RECEIVED = Some ''MCA1/ACK_RECEIVED/v1''"
| "label_text ACK_DOWNLOADED = Some ''MCA1/ACK_DOWNLOADED/v1''"
| "label_text ACK_PROVIDER_UNKNOWN = Some ''MCA1/ACK_PROVIDER_UNKNOWN/v1''"
| "label_text CANCEL = Some ''MCA1/CANCEL/v1''"
| "label_text REJECTED = Some ''MCA1/REJECTED/v1''"
| "label_text EXPIRED = Some ''MCA1/EXPIRED/v1''"
| "label_text KEY_ROTATE = None"

definition domain_label :: "message_type \<Rightarrow> bytes option" where
  "domain_label t = map_option ascii_bytes (label_text t)"

lemma domain_label_None [simp]: "domain_label t = None \<longleftrightarrow> t = KEY_ROTATE"
  by (cases t) (simp_all add: domain_label_def)

section \<open>Field checks\<close>

definition require_bytes :: "pyval \<Rightarrow> nat \<Rightarrow> codec_error + bytes" where
  "require_bytes v n =
     (case v of PBytes b \<Rightarrow> if length b = n then Inr b else Inl CodecError | _ \<Rightarrow> Inl CodecError)"

definition require_uint :: "pyval \<Rightarrow> int \<Rightarrow> codec_error + int" where
  "require_uint v max_value =
     (case v of PInt i \<Rightarrow> if 0 \<le> i \<and> i \<le> max_value then Inr i else Inl CodecError
              | _ \<Rightarrow> Inl CodecError)"

definition decode_cbor_map :: "ext \<Rightarrow> bytes \<Rightarrow> codec_error + (pyval \<times> pyval) list" where
  "decode_cbor_map X raw =
     (if length raw = 0 then Inl CodecError
      else if MAX_MESSAGE_RAW_BYTES < length raw then Inl CodecError
      else case cbor_load X raw of
             None \<Rightarrow> Inl CodecError
           | Some v \<Rightarrow> (case v of PDict d \<Rightarrow> Inr d | _ \<Rightarrow> Inl CodecError))"

definition get_field :: "(pyval \<times> pyval) list \<Rightarrow> int \<Rightarrow> codec_error + pyval" where
  "get_field obj key = (case dict_get obj key of None \<Rightarrow> Inl CodecError | Some v \<Rightarrow> Inr v)"

definition check_version_and_type :: "(pyval \<times> pyval) list \<Rightarrow> message_type \<Rightarrow> codec_error + unit" where
  "check_version_and_type obj expected_type =
     bind_res (get_field obj 0) (\<lambda>version.
     if \<not> py_eq_int version PROTOCOL_VERSION then Inl CodecError
     else bind_res (get_field obj 1) (\<lambda>message_type.
     case message_type_of message_type of
       None \<Rightarrow> Inl CodecError
     | Some actual_type \<Rightarrow>
         if actual_type \<noteq> expected_type then Inl CodecError else Inr ()))"

definition sign_message :: "ext \<Rightarrow> bytes \<Rightarrow> message_type \<Rightarrow> bytes \<Rightarrow> codec_error + bytes" where
  "sign_message X signing_key t unsigned_canonical =
     (case domain_label t of
        None \<Rightarrow> Inl KeyError
      | Some label \<Rightarrow> Inr (ed_sign X signing_key (label @ unsigned_canonical)))"

definition verify_message :: "ext \<Rightarrow> bytes \<Rightarrow> message_type \<Rightarrow> bytes \<Rightarrow> bytes \<Rightarrow> codec_error + unit" where
  "verify_message X verify_key t unsigned_canonical sig =
     (case domain_label t of
        None \<Rightarrow> Inl KeyError
      | Some label \<Rightarrow>
          if ed_verify X verify_key (label @ unsigned_canonical) sig then Inr () else Inl CodecError)"

text \<open>The optional verification step the decoders share: skipped without a key.\<close>

definition verify_if_key :: "ext \<Rightarrow> bytes option \<Rightarrow> message_type \<Rightarrow> pyval \<Rightarrow> bytes \<Rightarrow> codec_error + unit" where
  "verify_if_key X verify_key t payload sig =
     (case verify_key of
        None \<Rightarrow> Inr ()
      | Some vk \<Rightarrow> verify_message X vk t (cbor_dumps X payload) sig)"

section \<open>OFFER\<close>

record offer_fields =
  o_provider_id :: bytes
  o_transfer_id :: bytes
  o_sender_key_id :: bytes
  o_kind :: int
  o_size_bucket :: int
  o_hard_expires_at :: int
  o_flags :: int
  o_signature :: "bytes option"

text \<open>The unsigned map both directions build; the signed one has the signature under key 9.\<close>

definition offer_items :: "bytes \<Rightarrow> bytes \<Rightarrow> bytes \<Rightarrow> int \<Rightarrow> int \<Rightarrow> int \<Rightarrow> int \<Rightarrow> (pyval \<times> pyval) list" where
  "offer_items provider_id transfer_id sender_key_id kind size_bucket hard_expires_at flags =
     [(PInt 0, PInt PROTOCOL_VERSION),
      (PInt 1, PInt (type_code OFFER)),
      (PInt 2, PBytes provider_id),
      (PInt 3, PBytes transfer_id),
      (PInt 4, PBytes sender_key_id),
      (PInt 5, PInt kind),
      (PInt 6, PInt size_bucket),
      (PInt 7, PInt hard_expires_at),
      (PInt 8, PInt flags)]"

definition encode_offer :: "ext \<Rightarrow> offer_fields \<Rightarrow> bytes \<Rightarrow> codec_error + bytes" where
  "encode_offer X f signing_key =
     bind_res (require_bytes (PBytes (o_provider_id f)) 8) (\<lambda>provider_id.
     bind_res (require_bytes (PBytes (o_transfer_id f)) 16) (\<lambda>transfer_id.
     bind_res (require_bytes (PBytes (o_sender_key_id f)) 8) (\<lambda>sender_key_id.
     bind_res (require_uint (PInt (o_kind f)) 255) (\<lambda>kind.
     bind_res (require_uint (PInt (o_size_bucket f)) 255) (\<lambda>size_bucket.
     bind_res (require_uint (PInt (o_hard_expires_at f)) (2 ^ 32 - 1)) (\<lambda>hard_expires_at.
     bind_res (require_uint (PInt (o_flags f)) 255) (\<lambda>flags.
     let items = offer_items provider_id transfer_id sender_key_id kind size_bucket hard_expires_at flags in
     bind_res (sign_message X signing_key OFFER (cbor_dumps X (PDict items))) (\<lambda>sig.
     Inr (cbor_dumps X (PDict (items @ [(PInt 9, PBytes sig)])))))))))))"

definition decode_offer :: "ext \<Rightarrow> bytes \<Rightarrow> bytes option \<Rightarrow> codec_error + offer_fields" where
  "decode_offer X raw verify_key =
     bind_res (decode_cbor_map X raw) (\<lambda>obj.
     bind_res (check_version_and_type obj OFFER) (\<lambda>_.
     bind_res (bind_res (get_field obj 2) (\<lambda>v. require_bytes v 8)) (\<lambda>provider_id.
     bind_res (bind_res (get_field obj 3) (\<lambda>v. require_bytes v 16)) (\<lambda>transfer_id.
     bind_res (bind_res (get_field obj 4) (\<lambda>v. require_bytes v 8)) (\<lambda>sender_key_id.
     bind_res (bind_res (get_field obj 5) (\<lambda>v. require_uint v 255)) (\<lambda>kind.
     bind_res (bind_res (get_field obj 6) (\<lambda>v. require_uint v 255)) (\<lambda>size_bucket.
     bind_res (bind_res (get_field obj 7) (\<lambda>v. require_uint v (2 ^ 32 - 1))) (\<lambda>hard_expires_at.
     bind_res (bind_res (get_field obj 8) (\<lambda>v. require_uint v 255)) (\<lambda>flags.
     bind_res (bind_res (get_field obj 9) (\<lambda>v. require_bytes v 64)) (\<lambda>sig.
     bind_res (verify_if_key X verify_key OFFER
       (PDict (offer_items provider_id transfer_id sender_key_id kind size_bucket hard_expires_at flags)) sig) (\<lambda>_.
     Inr \<lparr>o_provider_id = provider_id, o_transfer_id = transfer_id, o_sender_key_id = sender_key_id,
          o_kind = kind, o_size_bucket = size_bucket, o_hard_expires_at = hard_expires_at,
          o_flags = flags, o_signature = Some sig\<rparr>)))))))))))"

section \<open>KEY_ANNOUNCE, KEY_REQUEST, KEY_ACK\<close>

record key_announce_fields =
  ka_public_identity :: bytes
  ka_epoch :: int
  ka_signature :: "bytes option"

definition key_announce_items :: "bytes \<Rightarrow> int \<Rightarrow> (pyval \<times> pyval) list" where
  "key_announce_items public_identity epoch =
     [(PInt 0, PInt PROTOCOL_VERSION), (PInt 1, PInt (type_code KEY_ANNOUNCE)),
      (PInt 2, PBytes public_identity), (PInt 3, PInt epoch)]"

definition encode_key_announce :: "ext \<Rightarrow> key_announce_fields \<Rightarrow> bytes \<Rightarrow> codec_error + bytes" where
  "encode_key_announce X f signing_key =
     bind_res (require_bytes (PBytes (ka_public_identity f)) 32) (\<lambda>public_identity.
     bind_res (require_uint (PInt (ka_epoch f)) (2 ^ 32 - 1)) (\<lambda>epoch.
     let items = key_announce_items public_identity epoch in
     bind_res (sign_message X signing_key KEY_ANNOUNCE (cbor_dumps X (PDict items))) (\<lambda>sig.
     Inr (cbor_dumps X (PDict (items @ [(PInt 4, PBytes sig)]))))))"

definition decode_key_announce :: "ext \<Rightarrow> bytes \<Rightarrow> bool \<Rightarrow> codec_error + key_announce_fields" where
  "decode_key_announce X raw verify_against_self =
     bind_res (decode_cbor_map X raw) (\<lambda>obj.
     bind_res (check_version_and_type obj KEY_ANNOUNCE) (\<lambda>_.
     bind_res (bind_res (get_field obj 2) (\<lambda>v. require_bytes v 32)) (\<lambda>public_identity.
     bind_res (bind_res (get_field obj 3) (\<lambda>v. require_uint v (2 ^ 32 - 1))) (\<lambda>epoch.
     bind_res (bind_res (get_field obj 4) (\<lambda>v. require_bytes v 64)) (\<lambda>sig.
     bind_res (verify_if_key X (if verify_against_self then Some public_identity else None) KEY_ANNOUNCE
       (PDict (key_announce_items public_identity epoch)) sig) (\<lambda>_.
     Inr \<lparr>ka_public_identity = public_identity, ka_epoch = epoch, ka_signature = Some sig\<rparr>))))))"

record key_request_fields =
  kr_sender_key_id :: bytes
  kr_signature :: "bytes option"

definition key_request_items :: "bytes \<Rightarrow> (pyval \<times> pyval) list" where
  "key_request_items sender_key_id =
     [(PInt 0, PInt PROTOCOL_VERSION), (PInt 1, PInt (type_code KEY_REQUEST)), (PInt 2, PBytes sender_key_id)]"

definition encode_key_request :: "ext \<Rightarrow> key_request_fields \<Rightarrow> bytes \<Rightarrow> codec_error + bytes" where
  "encode_key_request X f signing_key =
     bind_res (require_bytes (PBytes (kr_sender_key_id f)) 8) (\<lambda>sender_key_id.
     let items = key_request_items sender_key_id in
     bind_res (sign_message X signing_key KEY_REQUEST (cbor_dumps X (PDict items))) (\<lambda>sig.
     Inr (cbor_dumps X (PDict (items @ [(PInt 3, PBytes sig)])))))"

definition decode_key_request :: "ext \<Rightarrow> bytes \<Rightarrow> bytes option \<Rightarrow> codec_error + key_request_fields" where
  "decode_key_request X raw verify_key =
     bind_res (decode_cbor_map X raw) (\<lambda>obj.
     bind_res (check_version_and_type obj KEY_REQUEST) (\<lambda>_.
     bind_res (bind_res (get_field obj 2) (\<lambda>v. require_bytes v 8)) (\<lambda>sender_key_id.
     bind_res (bind_res (get_field obj 3) (\<lambda>v. require_bytes v 64)) (\<lambda>sig.
     bind_res (verify_if_key X verify_key KEY_REQUEST (PDict (key_request_items sender_key_id)) sig) (\<lambda>_.
     Inr \<lparr>kr_sender_key_id = sender_key_id, kr_signature = Some sig\<rparr>)))))"

record key_ack_fields =
  kk_sender_key_id :: bytes
  kk_epoch :: int
  kk_signature :: "bytes option"

definition key_ack_items :: "bytes \<Rightarrow> int \<Rightarrow> (pyval \<times> pyval) list" where
  "key_ack_items sender_key_id epoch =
     [(PInt 0, PInt PROTOCOL_VERSION), (PInt 1, PInt (type_code KEY_ACK)),
      (PInt 2, PBytes sender_key_id), (PInt 3, PInt epoch)]"

definition encode_key_ack :: "ext \<Rightarrow> key_ack_fields \<Rightarrow> bytes \<Rightarrow> codec_error + bytes" where
  "encode_key_ack X f signing_key =
     bind_res (require_bytes (PBytes (kk_sender_key_id f)) 8) (\<lambda>sender_key_id.
     bind_res (require_uint (PInt (kk_epoch f)) (2 ^ 32 - 1)) (\<lambda>epoch.
     let items = key_ack_items sender_key_id epoch in
     bind_res (sign_message X signing_key KEY_ACK (cbor_dumps X (PDict items))) (\<lambda>sig.
     Inr (cbor_dumps X (PDict (items @ [(PInt 4, PBytes sig)]))))))"

definition decode_key_ack :: "ext \<Rightarrow> bytes \<Rightarrow> bytes option \<Rightarrow> codec_error + key_ack_fields" where
  "decode_key_ack X raw verify_key =
     bind_res (decode_cbor_map X raw) (\<lambda>obj.
     bind_res (check_version_and_type obj KEY_ACK) (\<lambda>_.
     bind_res (bind_res (get_field obj 2) (\<lambda>v. require_bytes v 8)) (\<lambda>sender_key_id.
     bind_res (bind_res (get_field obj 3) (\<lambda>v. require_uint v (2 ^ 32 - 1))) (\<lambda>epoch.
     bind_res (bind_res (get_field obj 4) (\<lambda>v. require_bytes v 64)) (\<lambda>sig.
     bind_res (verify_if_key X verify_key KEY_ACK (PDict (key_ack_items sender_key_id epoch)) sig) (\<lambda>_.
     Inr \<lparr>kk_sender_key_id = sender_key_id, kk_epoch = epoch, kk_signature = Some sig\<rparr>))))))"

section \<open>Simple acknowledgements\<close>

record simple_ack_fields =
  sa_message_type :: message_type
  sa_transfer_id :: bytes
  sa_signature :: "bytes option"

definition simple_ack_items :: "message_type \<Rightarrow> bytes \<Rightarrow> (pyval \<times> pyval) list" where
  "simple_ack_items t transfer_id =
     [(PInt 0, PInt PROTOCOL_VERSION), (PInt 1, PInt (type_code t)), (PInt 2, PBytes transfer_id)]"

definition encode_simple_ack :: "ext \<Rightarrow> message_type \<Rightarrow> bytes \<Rightarrow> bytes \<Rightarrow> codec_error + bytes" where
  "encode_simple_ack X t transfer_id signing_key =
     (if \<not> simple_ack_type t then Inl CodecError
      else bind_res (require_bytes (PBytes transfer_id) 16) (\<lambda>transfer_id.
        let items = simple_ack_items t transfer_id in
        bind_res (sign_message X signing_key t (cbor_dumps X (PDict items))) (\<lambda>sig.
        Inr (cbor_dumps X (PDict (items @ [(PInt 3, PBytes sig)]))))))"

definition decode_simple_ack :: "ext \<Rightarrow> bytes \<Rightarrow> message_type \<Rightarrow> bytes option \<Rightarrow> codec_error + simple_ack_fields" where
  "decode_simple_ack X raw expected_type verify_key =
     (if \<not> simple_ack_type expected_type then Inl CodecError
      else
       bind_res (decode_cbor_map X raw) (\<lambda>obj.
       bind_res (check_version_and_type obj expected_type) (\<lambda>_.
       bind_res (bind_res (get_field obj 2) (\<lambda>v. require_bytes v 16)) (\<lambda>transfer_id.
       bind_res (bind_res (get_field obj 3) (\<lambda>v. require_bytes v 64)) (\<lambda>sig.
       bind_res (verify_if_key X verify_key expected_type (PDict (simple_ack_items expected_type transfer_id)) sig) (\<lambda>_.
       Inr \<lparr>sa_message_type = expected_type, sa_transfer_id = transfer_id, sa_signature = Some sig\<rparr>))))))"

section \<open>Transport encodings\<close>

definition to_text :: "bytes \<Rightarrow> codec_error + string" where
  "to_text canonical_cbor =
     (if length canonical_cbor = 0 then Inl CodecError
      else Inr (TEXT_PREFIX @ b64url_nopad canonical_cbor))"

definition from_text :: "string \<Rightarrow> codec_error + bytes" where
  "from_text s =
     (if \<not> startswith s TEXT_PREFIX then Inl CodecError
      else if MAX_MESSAGE_RAW_BYTES < length s then Inl CodecError
      else case b64url_decode_unpadded (drop (length TEXT_PREFIX) s) of
             None \<Rightarrow> Inl CodecError
           | Some raw \<Rightarrow> if length raw = 0 then Inl CodecError else Inr raw)"

definition to_cbor :: "bytes \<Rightarrow> codec_error + bytes" where
  "to_cbor canonical_cbor = (if length canonical_cbor = 0 then Inl CodecError else Inr canonical_cbor)"

definition from_cbor :: "bytes \<Rightarrow> codec_error + bytes" where
  "from_cbor raw =
     (if length raw = 0 then Inl CodecError
      else if MAX_MESSAGE_RAW_BYTES < length raw then Inl CodecError
      else Inr raw)"

definition peek_message_type :: "ext \<Rightarrow> bytes \<Rightarrow> codec_error + message_type" where
  "peek_message_type X raw =
     bind_res (decode_cbor_map X raw) (\<lambda>obj.
     bind_res (get_field obj 0) (\<lambda>version.
     if \<not> py_eq_int version PROTOCOL_VERSION then Inl CodecError
     else bind_res (get_field obj 1) (\<lambda>message_type.
     case message_type_of message_type of None \<Rightarrow> Inl CodecError | Some t \<Rightarrow> Inr t)))"

section \<open>Lemmas on the checks\<close>

lemma message_type_of_code [simp]: "message_type_of (PInt (type_code t)) = Some t"
  by (cases t) (simp_all add: message_type_of_def all_message_types_def)

lemma message_type_of_sound: "message_type_of v = Some t \<Longrightarrow> py_eq_int v (type_code t)"
  by (auto simp: message_type_of_def find_Some_iff)

lemma type_code_range: "1 \<le> type_code t \<and> type_code t \<le> 11"
  by (cases t) simp_all

declare type_code.simps [simp del]

lemma type_code_bounds [simp]: "0 \<le> type_code t" "type_code t < 18446744073709551616"
  using type_code_range [of t] by simp_all

lemma uint64_type_code [simp]: "uint64 (type_code t)"
  by (simp add: uint64_def)

lemma head_size_type_code [simp]: "head_size (nat (type_code t)) = 1"
  using type_code_range [of t] by (simp add: head_size_def nat_less_iff)

lemma PROTOCOL_VERSION_simps [simp]: "uint64 PROTOCOL_VERSION" "head_size (nat PROTOCOL_VERSION) = 1"
  by (simp_all add: PROTOCOL_VERSION_def uint64_def head_size_def)

lemma simple_ack_label: "simple_ack_type t \<Longrightarrow> \<exists>l. domain_label t = Some l"
  by (cases t) (simp_all add: simple_ack_type_def domain_label_def)

lemma require_bytes_simps [simp]:
  "require_bytes (PBytes b) n = (if length b = n then Inr b else Inl CodecError)"
  by (simp add: require_bytes_def)

lemma require_uint_simps [simp]:
  "require_uint (PInt i) m = (if 0 \<le> i \<and> i \<le> m then Inr i else Inl CodecError)"
  by (simp add: require_uint_def)

lemma require_bytes_Inr: "require_bytes v n = Inr b \<longleftrightarrow> v = PBytes b \<and> length b = n"
  by (auto simp: require_bytes_def split: pyval.splits if_splits)

lemma require_uint_Inr: "require_uint v m = Inr i \<longleftrightarrow> v = PInt i \<and> 0 \<le> i \<and> i \<le> m"
  by (auto simp: require_uint_def split: pyval.splits if_splits)

lemma verify_if_key_Inr:
  assumes "domain_label t = Some label"
  shows "verify_if_key X key t payload sig = Inr u \<longleftrightarrow>
    (\<forall>vk. key = Some vk \<longrightarrow> ed_verify X vk (label @ cbor_dumps X payload) sig)"
  using assms by (auto simp: verify_if_key_def verify_message_def split: option.splits)

text \<open>Which check failed is never visible: every failure is \<open>CodecError\<close>.\<close>

definition only_codec_error :: "codec_error + 'a \<Rightarrow> bool" where
  "only_codec_error r \<longleftrightarrow> (\<forall>e. r = Inl e \<longrightarrow> e = CodecError)"

lemma only_codec_error_simps [simp, intro]:
  "only_codec_error (Inr x)" "only_codec_error (Inl CodecError)"
  by (simp_all add: only_codec_error_def)

lemma only_codec_error_bind [intro]:
  "only_codec_error m \<Longrightarrow> (\<And>x. m = Inr x \<Longrightarrow> only_codec_error (f x)) \<Longrightarrow> only_codec_error (bind_res m f)"
  by (cases m) (auto simp: only_codec_error_def)

lemma only_codec_error_checks [simp, intro]:
  "only_codec_error (require_bytes v n)"
  "only_codec_error (require_uint v m)"
  "only_codec_error (get_field obj k)"
  "only_codec_error (decode_cbor_map X raw)"
  by (auto simp: require_bytes_def require_uint_def get_field_def decode_cbor_map_def
      split: pyval.splits option.splits)

lemma only_codec_error_version [simp, intro]: "only_codec_error (check_version_and_type obj t)"
  unfolding check_version_and_type_def by (intro only_codec_error_bind) (auto split: option.splits)

lemma only_codec_error_labelled [intro]:
  assumes "t \<noteq> KEY_ROTATE"
  shows "only_codec_error (sign_message X sk t m)" "only_codec_error (verify_if_key X key t payload sig)"
  using assms domain_label_None [of t]
  by (auto simp: sign_message_def verify_if_key_def verify_message_def split: option.splits
      simp del: domain_label_None)

end
