(* ===== verification/Signed_Codec.thy ===== *)
theory Signed_Codec
  imports Codec
begin

text \<open>
  The interface the five message kinds of the codec share, as a locale: an encoder that checks the
  fields, signs the labelled canonical map and appends the signature under the last key, and a
  decoder that reads the same map back and verifies. What the callers rely on (round trip through
  both transport encodings, routing by \<open>peek_message_type\<close>, that an accepted message was verified,
  that only \<open>CodecError\<close> escapes) is proved once from the laws and holds for OFFER, KEY_ANNOUNCE,
  KEY_REQUEST, KEY_ACK and the simple acknowledgements by interpretation.
\<close>

section \<open>The interface\<close>

locale signed_codec =
  fixes enc :: "ext \<Rightarrow> 'f \<Rightarrow> bytes \<Rightarrow> codec_error + bytes"
    and dec :: "ext \<Rightarrow> bytes \<Rightarrow> 'k \<Rightarrow> codec_error + 'f"
    and items :: "'f \<Rightarrow> (pyval \<times> pyval) list"
    and sig_key :: int
    and ty :: "'f \<Rightarrow> message_type"
    and get_sig :: "'f \<Rightarrow> bytes option"
    and put_sig :: "bytes \<Rightarrow> 'f \<Rightarrow> 'f"
    and valid :: "'f \<Rightarrow> bool"
    and fits :: "'k \<Rightarrow> 'f \<Rightarrow> bool"
    and vkey :: "'k \<Rightarrow> 'f \<Rightarrow> bytes option"
  assumes enc_valid: "valid f \<Longrightarrow> enc X f sk =
      bind_res (sign_message X sk (ty f) (cbor_dumps X (PDict (items f)))) (\<lambda>s.
        Inr (cbor_dumps X (PDict (items f @ [(PInt sig_key, PBytes s)]))))"
    and enc_invalid: "\<not> valid f \<Longrightarrow> enc X f sk = Inl CodecError"
    and dec_items: "decode_cbor_map X raw = Inr (items f @ [(PInt sig_key, PBytes s)]) \<Longrightarrow>
      valid f \<Longrightarrow> length s = 64 \<Longrightarrow> fits k f \<Longrightarrow>
      dec X raw k = bind_res (verify_if_key X (vkey k f) (ty f) (PDict (items f)) s) (\<lambda>_. Inr (put_sig s f))"
    and dec_sound: "dec X raw k = Inr f \<Longrightarrow> valid f \<and> fits k f \<and>
      (\<exists>s. get_sig f = Some s \<and> length s = 64 \<and>
        verify_if_key X (vkey k f) (ty f) (PDict (items f)) s = Inr ())"
    and dec_only_codec_error: "only_codec_error (dec X raw k)"
    and labelled: "valid f \<Longrightarrow> domain_label (ty f) \<noteq> None"
    and items_plain: "valid f \<Longrightarrow> length s = 64 \<Longrightarrow> cbor_plain (PDict (items f @ [(PInt sig_key, PBytes s)]))"
    and items_small: "valid f \<Longrightarrow> length s = 64 \<Longrightarrow>
      cbor_size (PDict (items f @ [(PInt sig_key, PBytes s)])) \<le> 1024"
    and items_head: "valid f \<Longrightarrow> \<exists>r. items f = (PInt 0, PInt PROTOCOL_VERSION) # (PInt 1, PInt (type_code (ty f))) # r"
begin

lemma enc_only_codec_error: "only_codec_error (enc X f sk)"
proof (cases "valid f")
  case True
  then have "ty f \<noteq> KEY_ROTATE" using labelled by force
  with True show ?thesis by (auto simp: enc_valid)
qed (simp add: enc_invalid)

lemma enc_succeeds_iff: "(\<exists>raw. enc X f sk = Inr raw) \<longleftrightarrow> valid f"
proof
  assume "valid f"
  moreover then obtain l where "domain_label (ty f) = Some l" using labelled by blast
  ultimately show "\<exists>raw. enc X f sk = Inr raw" by (simp add: enc_valid sign_message_def)
qed (use enc_invalid in force)

text \<open>What the encoder writes is a map the decoder reads back unchanged.\<close>

lemma enc_output:
  assumes cbor: "cbor_contract X" and sign: "sign_contract X" and enc: "enc X f sk = Inr raw"
  obtains label s where "valid f" "domain_label (ty f) = Some label" "length s = 64"
    "s = ed_sign X sk (label @ cbor_dumps X (PDict (items f)))"
    "decode_cbor_map X raw = Inr (items f @ [(PInt sig_key, PBytes s)])"
    "0 < length raw" "length raw \<le> 1024"
    "length raw = cbor_size (PDict (items f @ [(PInt sig_key, PBytes s)]))"
proof -
  have v: "valid f" using enc enc_invalid by force
  then obtain label where l: "domain_label (ty f) = Some label" using labelled by blast
  define s where "s = ed_sign X sk (label @ cbor_dumps X (PDict (items f)))"
  have len: "length s = 64" using sign by (simp add: s_def sign_contractD)
  let ?d = "items f @ [(PInt sig_key, PBytes s)]"
  have raw: "raw = cbor_dumps X (PDict ?d)"
    using enc v l by (simp add: enc_valid sign_message_def s_def)
  have plain: "cbor_plain (PDict ?d)" using v len by (rule items_plain)
  have size: "length raw = cbor_size (PDict ?d)"
    using cbor_contractD(2) [OF cbor plain] by (simp add: raw)
  have pos: "0 < length raw" by (simp add: size)
  have small: "length raw \<le> 1024" unfolding size using v len by (rule items_small)
  have "cbor_load X raw = Some (PDict ?d)"
    using cbor_contractD(1) [OF cbor plain] by (simp add: raw)
  then have "decode_cbor_map X raw = Inr ?d"
    using pos small by (simp add: decode_cbor_map_def MAX_MESSAGE_RAW_BYTES_def)
  with that v l len s_def pos small size show ?thesis by blast
qed

lemma roundtrip:
  assumes cbor: "cbor_contract X" and sign: "sign_contract X" and enc: "enc X f sk = Inr raw"
    and k: "fits k f" "vkey k f = None \<or> vkey k f = Some (ed_public X sk)"
  shows "\<exists>s. length s = 64 \<and> dec X raw k = Inr (put_sig s f)"
proof -
  obtain label s where s: "valid f" "domain_label (ty f) = Some label" "length s = 64"
    "s = ed_sign X sk (label @ cbor_dumps X (PDict (items f)))"
    "decode_cbor_map X raw = Inr (items f @ [(PInt sig_key, PBytes s)])"
    using cbor sign enc by (rule enc_output)
  have "verify_if_key X (vkey k f) (ty f) (PDict (items f)) s = Inr ()"
    using k(2) s(2,4) sign by (auto simp: verify_if_key_Inr sign_contractD)
  with s k(1) show ?thesis by (auto simp: dec_items)
qed

lemma peek:
  assumes "cbor_contract X" and "sign_contract X" and "enc X f sk = Inr raw"
  shows "peek_message_type X raw = Inr (ty f)"
proof -
  obtain s where s: "valid f" "decode_cbor_map X raw = Inr (items f @ [(PInt sig_key, PBytes s)])"
    using assms by (rule enc_output)
  then obtain r where "items f = (PInt 0, PInt PROTOCOL_VERSION) # (PInt 1, PInt (type_code (ty f))) # r"
    using items_head by blast
  with s show ?thesis by (simp add: peek_message_type_def get_field_def)
qed

lemma text_roundtrip:
  assumes "cbor_contract X" and "sign_contract X" and "enc X f sk = Inr raw"
  shows "\<exists>t. to_text raw = Inr t \<and> from_text t = Inr raw"
proof -
  have "0 < length raw" "length raw \<le> 1024"
    using assms by (auto elim: enc_output)
  then show ?thesis
    by (simp add: to_text_def from_text_def TEXT_PREFIX_def startswith_def MAX_MESSAGE_RAW_BYTES_def
        length_b64url_nopad)
qed

lemma cbor_transport_roundtrip:
  assumes "cbor_contract X" and "sign_contract X" and "enc X f sk = Inr raw"
  shows "to_cbor raw = Inr raw \<and> from_cbor raw = Inr raw"
proof -
  have "0 < length raw" "length raw \<le> 1024"
    using assms by (auto elim: enc_output)
  then show ?thesis by (auto simp: to_cbor_def from_cbor_def MAX_MESSAGE_RAW_BYTES_def)
qed

text \<open>Authenticity: with a key, only a message whose labelled map that key verifies is accepted.\<close>

lemma accepted_verified:
  assumes "dec X raw k = Inr f" and "vkey k f = Some vk"
  shows "\<exists>label s. domain_label (ty f) = Some label \<and> get_sig f = Some s
           \<and> ed_verify X vk (label @ cbor_dumps X (PDict (items f))) s"
proof -
  from dec_sound [OF assms(1)] obtain s where
    v: "valid f" and s: "get_sig f = Some s"
      "verify_if_key X (vkey k f) (ty f) (PDict (items f)) s = Inr ()"
    by blast
  from v obtain label where l: "domain_label (ty f) = Some label" using labelled by blast
  with s(2) assms(2) have "ed_verify X vk (label @ cbor_dumps X (PDict (items f))) s"
    by (simp add: verify_if_key_Inr)
  with l s(1) show ?thesis by blast
qed

end

section \<open>The five instances\<close>

lemmas decoder_facts =
  bind_res_eq_Inr require_bytes_Inr require_uint_Inr

definition offer_valid :: "offer_fields \<Rightarrow> bool" where
  "offer_valid f \<longleftrightarrow>
     length (o_provider_id f) = 8 \<and> length (o_transfer_id f) = 16 \<and> length (o_sender_key_id f) = 8
     \<and> 0 \<le> o_kind f \<and> o_kind f \<le> 255 \<and> 0 \<le> o_size_bucket f \<and> o_size_bucket f \<le> 255
     \<and> 0 \<le> o_hard_expires_at f \<and> o_hard_expires_at f \<le> 2 ^ 32 - 1
     \<and> 0 \<le> o_flags f \<and> o_flags f \<le> 255"

definition items_of_offer :: "offer_fields \<Rightarrow> (pyval \<times> pyval) list" where
  "items_of_offer f = offer_items (o_provider_id f) (o_transfer_id f) (o_sender_key_id f) (o_kind f)
     (o_size_bucket f) (o_hard_expires_at f) (o_flags f)"

lemma head_size_bounds:
  "head_size n \<le> 9" "n < 2 ^ 32 \<Longrightarrow> head_size n \<le> 5" "n < 256 \<Longrightarrow> head_size n \<le> 2" "n < 24 \<Longrightarrow> head_size n = 1"
  by (simp_all add: head_size_def)

interpretation offer: signed_codec encode_offer decode_offer items_of_offer 9 "\<lambda>_. OFFER"
  o_signature "\<lambda>s f. f\<lparr>o_signature := Some s\<rparr>" offer_valid "\<lambda>_ _. True" "\<lambda>k _. k"
proof (unfold_locales, goal_cases)
  case (1 f X sk)
  then show ?case by (simp add: encode_offer_def offer_valid_def items_of_offer_def Let_def)
next
  case (2 f X sk)
  then show ?case by (auto simp: encode_offer_def offer_valid_def)
next
  case (3 X raw f s k)
  then show ?case
    by (cases f) (simp add: decode_offer_def items_of_offer_def offer_items_def offer_valid_def get_field_def
        check_version_and_type_def)
next
  case (4 X raw k f)
  then show ?case
    by (auto simp: decode_offer_def decoder_facts offer_valid_def items_of_offer_def)
next
  case (5 X raw k)
  show ?case
    unfolding decode_offer_def by (intro only_codec_error_bind) (auto intro: only_codec_error_labelled)
next
  case (6 f)
  show ?case by simp
next
  case (7 f s)
  then show ?case
    by (simp add: items_of_offer_def offer_items_def offer_valid_def int_key_def uint64_def PROTOCOL_VERSION_def)
next
  case (8 f s)
  then show ?case
    using head_size_bounds(1) [of "nat (o_kind f)"] head_size_bounds(1) [of "nat (o_size_bucket f)"]
      head_size_bounds(1) [of "nat (o_hard_expires_at f)"] head_size_bounds(1) [of "nat (o_flags f)"]
    by (simp add: items_of_offer_def offer_items_def offer_valid_def head_size_def [of "numeral _"]
        head_size_def [of 0] head_size_def [of "Suc _"])
next
  case (9 f)
  show ?case by (simp add: items_of_offer_def offer_items_def)
qed

definition key_announce_valid :: "key_announce_fields \<Rightarrow> bool" where
  "key_announce_valid f \<longleftrightarrow> length (ka_public_identity f) = 32 \<and> 0 \<le> ka_epoch f \<and> ka_epoch f \<le> 2 ^ 32 - 1"

definition items_of_key_announce :: "key_announce_fields \<Rightarrow> (pyval \<times> pyval) list" where
  "items_of_key_announce f = key_announce_items (ka_public_identity f) (ka_epoch f)"

interpretation announce: signed_codec encode_key_announce decode_key_announce items_of_key_announce 4 "\<lambda>_. KEY_ANNOUNCE"
  ka_signature "\<lambda>s f. f\<lparr>ka_signature := Some s\<rparr>" key_announce_valid "\<lambda>_ _. True" "\<lambda>b f. if b then Some (ka_public_identity f) else None"
proof (unfold_locales, goal_cases)
  case (1 f X sk)
  then show ?case by (simp add: encode_key_announce_def decode_key_announce_def key_announce_valid_def items_of_key_announce_def key_announce_items_def Let_def)
next
  case (2 f X sk)
  then show ?case by (auto simp: encode_key_announce_def decode_key_announce_def key_announce_valid_def items_of_key_announce_def key_announce_items_def)
next
  case (3 X raw f s k)
  then show ?case
    by (cases f) (simp add: encode_key_announce_def decode_key_announce_def key_announce_valid_def items_of_key_announce_def key_announce_items_def get_field_def check_version_and_type_def)
next
  case (4 X raw k f)
  then show ?case by (auto simp: encode_key_announce_def decode_key_announce_def key_announce_valid_def items_of_key_announce_def key_announce_items_def decoder_facts split: if_splits)
next
  case (5 X raw k)
  show ?case
    unfolding decode_key_announce_def by (intro only_codec_error_bind) (auto intro: only_codec_error_labelled)
next
  case (6 f)
  then show ?case by simp
next
  case (7 f s)
  then show ?case by (simp add: encode_key_announce_def decode_key_announce_def key_announce_valid_def items_of_key_announce_def key_announce_items_def int_key_def uint64_def PROTOCOL_VERSION_def)
next
  case (8 f s)
  then show ?case
    using head_size_bounds(1) [of "nat (ka_epoch f)"]
    by (simp add: encode_key_announce_def decode_key_announce_def key_announce_valid_def items_of_key_announce_def key_announce_items_def head_size_def [of "numeral _"] head_size_def [of 0] head_size_def [of "Suc _"])
next
  case (9 f)
  show ?case by (simp add: encode_key_announce_def decode_key_announce_def key_announce_valid_def items_of_key_announce_def key_announce_items_def)
qed

definition key_request_valid :: "key_request_fields \<Rightarrow> bool" where
  "key_request_valid f \<longleftrightarrow> length (kr_sender_key_id f) = 8"

definition items_of_key_request :: "key_request_fields \<Rightarrow> (pyval \<times> pyval) list" where
  "items_of_key_request f = key_request_items (kr_sender_key_id f)"

interpretation key_request: signed_codec encode_key_request decode_key_request items_of_key_request 3 "\<lambda>_. KEY_REQUEST"
  kr_signature "\<lambda>s f. f\<lparr>kr_signature := Some s\<rparr>" key_request_valid "\<lambda>_ _. True" "\<lambda>k _. k"
proof (unfold_locales, goal_cases)
  case (1 f X sk)
  then show ?case by (simp add: encode_key_request_def decode_key_request_def key_request_valid_def items_of_key_request_def key_request_items_def Let_def)
next
  case (2 f X sk)
  then show ?case by (auto simp: encode_key_request_def decode_key_request_def key_request_valid_def items_of_key_request_def key_request_items_def)
next
  case (3 X raw f s k)
  then show ?case
    by (cases f) (simp add: encode_key_request_def decode_key_request_def key_request_valid_def items_of_key_request_def key_request_items_def get_field_def check_version_and_type_def)
next
  case (4 X raw k f)
  then show ?case by (auto simp: encode_key_request_def decode_key_request_def key_request_valid_def items_of_key_request_def key_request_items_def decoder_facts split: if_splits)
next
  case (5 X raw k)
  show ?case
    unfolding decode_key_request_def by (intro only_codec_error_bind) (auto intro: only_codec_error_labelled)
next
  case (6 f)
  then show ?case by simp
next
  case (7 f s)
  then show ?case by (simp add: encode_key_request_def decode_key_request_def key_request_valid_def items_of_key_request_def key_request_items_def int_key_def uint64_def PROTOCOL_VERSION_def)
next
  case (8 f s)
  then show ?case
    by (simp add: encode_key_request_def decode_key_request_def key_request_valid_def items_of_key_request_def key_request_items_def head_size_def [of "numeral _"] head_size_def [of 0] head_size_def [of "Suc _"])
next
  case (9 f)
  show ?case by (simp add: encode_key_request_def decode_key_request_def key_request_valid_def items_of_key_request_def key_request_items_def)
qed

definition key_ack_valid :: "key_ack_fields \<Rightarrow> bool" where
  "key_ack_valid f \<longleftrightarrow> length (kk_sender_key_id f) = 8 \<and> 0 \<le> kk_epoch f \<and> kk_epoch f \<le> 2 ^ 32 - 1"

definition items_of_key_ack :: "key_ack_fields \<Rightarrow> (pyval \<times> pyval) list" where
  "items_of_key_ack f = key_ack_items (kk_sender_key_id f) (kk_epoch f)"

interpretation key_ack: signed_codec encode_key_ack decode_key_ack items_of_key_ack 4 "\<lambda>_. KEY_ACK"
  kk_signature "\<lambda>s f. f\<lparr>kk_signature := Some s\<rparr>" key_ack_valid "\<lambda>_ _. True" "\<lambda>k _. k"
proof (unfold_locales, goal_cases)
  case (1 f X sk)
  then show ?case by (simp add: encode_key_ack_def decode_key_ack_def key_ack_valid_def items_of_key_ack_def key_ack_items_def Let_def)
next
  case (2 f X sk)
  then show ?case by (auto simp: encode_key_ack_def decode_key_ack_def key_ack_valid_def items_of_key_ack_def key_ack_items_def)
next
  case (3 X raw f s k)
  then show ?case
    by (cases f) (simp add: encode_key_ack_def decode_key_ack_def key_ack_valid_def items_of_key_ack_def key_ack_items_def get_field_def check_version_and_type_def)
next
  case (4 X raw k f)
  then show ?case by (auto simp: encode_key_ack_def decode_key_ack_def key_ack_valid_def items_of_key_ack_def key_ack_items_def decoder_facts split: if_splits)
next
  case (5 X raw k)
  show ?case
    unfolding decode_key_ack_def by (intro only_codec_error_bind) (auto intro: only_codec_error_labelled)
next
  case (6 f)
  then show ?case by simp
next
  case (7 f s)
  then show ?case by (simp add: encode_key_ack_def decode_key_ack_def key_ack_valid_def items_of_key_ack_def key_ack_items_def int_key_def uint64_def PROTOCOL_VERSION_def)
next
  case (8 f s)
  then show ?case
    using head_size_bounds(1) [of "nat (kk_epoch f)"]
    by (simp add: encode_key_ack_def decode_key_ack_def key_ack_valid_def items_of_key_ack_def key_ack_items_def head_size_def [of "numeral _"] head_size_def [of 0] head_size_def [of "Suc _"])
next
  case (9 f)
  show ?case by (simp add: encode_key_ack_def decode_key_ack_def key_ack_valid_def items_of_key_ack_def key_ack_items_def)
qed

text \<open>The simple acknowledgements take the expected type beside the key.\<close>

definition simple_ack_valid :: "simple_ack_fields \<Rightarrow> bool" where
  "simple_ack_valid f \<longleftrightarrow> simple_ack_type (sa_message_type f) \<and> length (sa_transfer_id f) = 16"

definition items_of_simple_ack :: "simple_ack_fields \<Rightarrow> (pyval \<times> pyval) list" where
  "items_of_simple_ack f = simple_ack_items (sa_message_type f) (sa_transfer_id f)"

definition encode_ack_fields :: "ext \<Rightarrow> simple_ack_fields \<Rightarrow> bytes \<Rightarrow> codec_error + bytes" where
  "encode_ack_fields X f sk = encode_simple_ack X (sa_message_type f) (sa_transfer_id f) sk"

definition decode_ack_fields :: "ext \<Rightarrow> bytes \<Rightarrow> message_type \<times> bytes option \<Rightarrow> codec_error + simple_ack_fields" where
  "decode_ack_fields X raw k = decode_simple_ack X raw (fst k) (snd k)"

interpretation simple_ack: signed_codec encode_ack_fields decode_ack_fields items_of_simple_ack 3 sa_message_type
  sa_signature "\<lambda>s f. f\<lparr>sa_signature := Some s\<rparr>" simple_ack_valid "\<lambda>k f. fst k = sa_message_type f" "\<lambda>k _. snd k"
proof (unfold_locales, goal_cases)
  case (1 f X sk)
  then show ?case by (simp add: encode_simple_ack_def decode_simple_ack_def simple_ack_valid_def items_of_simple_ack_def simple_ack_items_def encode_ack_fields_def decode_ack_fields_def Let_def)
next
  case (2 f X sk)
  then show ?case by (auto simp: encode_simple_ack_def decode_simple_ack_def simple_ack_valid_def items_of_simple_ack_def simple_ack_items_def encode_ack_fields_def decode_ack_fields_def)
next
  case (3 X raw f s k)
  then show ?case
    by (cases f) (simp add: encode_simple_ack_def decode_simple_ack_def simple_ack_valid_def items_of_simple_ack_def simple_ack_items_def encode_ack_fields_def decode_ack_fields_def get_field_def check_version_and_type_def)
next
  case (4 X raw k f)
  then show ?case by (auto simp: encode_simple_ack_def decode_simple_ack_def simple_ack_valid_def items_of_simple_ack_def simple_ack_items_def encode_ack_fields_def decode_ack_fields_def decoder_facts split: if_splits)
next
  case (5 X raw k)
  show ?case
    unfolding decode_simple_ack_def decode_ack_fields_def
    by (auto intro!: only_codec_error_bind only_codec_error_labelled simp: simple_ack_type_def)
next
  case (6 f)
  then show ?case by (auto simp: simple_ack_valid_def simple_ack_type_def)
next
  case (7 f s)
  then show ?case by (simp add: encode_simple_ack_def decode_simple_ack_def simple_ack_valid_def items_of_simple_ack_def simple_ack_items_def encode_ack_fields_def decode_ack_fields_def int_key_def uint64_def PROTOCOL_VERSION_def)
next
  case (8 f s)
  then show ?case
    by (simp add: encode_simple_ack_def decode_simple_ack_def simple_ack_valid_def items_of_simple_ack_def simple_ack_items_def encode_ack_fields_def decode_ack_fields_def head_size_def [of "numeral _"] head_size_def [of 0] head_size_def [of "Suc _"])
next
  case (9 f)
  show ?case by (simp add: encode_simple_ack_def decode_simple_ack_def simple_ack_valid_def items_of_simple_ack_def simple_ack_items_def encode_ack_fields_def decode_ack_fields_def)
qed

end
