(* ===== verification/Codec_Properties.thy ===== *)
theory Codec_Properties
  imports Signed_Codec
begin

text \<open>
  What the codec promises its callers, stated over \<open>src/meshsrv/attachments/codec.py\<close>'s own
  functions: round trips over both transports, exact sizes, domain separation of signatures,
  authenticity of what a decoder accepts, and that \<open>CodecError\<close> is the only exception.
\<close>

section \<open>Labels\<close>

lemma of_char_byte_inj [simp]: "(of_char c :: byte) = of_char d \<longleftrightarrow> c = d"
  by (metis unat_of_char_byte of_char_eq_iff)

lemma ascii_bytes_inj [simp]: "ascii_bytes s = ascii_bytes t \<longleftrightarrow> s = t"
  unfolding ascii_bytes_def by (rule inj_map_eq_map) (simp add: inj_def)

lemma startswith_ascii_bytes [simp]: "startswith (ascii_bytes s) (ascii_bytes p) \<longleftrightarrow> startswith s p"
  using ascii_bytes_inj [of "take (length p) s" p]
  by (simp add: startswith_def ascii_bytes_def take_map)

definition all_labels :: "string list" where
  "all_labels = map (\<lambda>t. the (label_text t))
     [OFFER, KEY_ANNOUNCE, KEY_REQUEST, KEY_ACK, ACK_RECEIVED, ACK_DOWNLOADED,
      ACK_PROVIDER_UNKNOWN, CANCEL, REJECTED, EXPIRED]"

lemma all_labels_prefix_free: "prefix_free all_labels"
  unfolding prefix_free_def all_labels_def startswith_def by simp

lemma ascii_labels_prefix_free: "prefix_free (map ascii_bytes all_labels)"
  using all_labels_prefix_free by (auto simp: prefix_free_def)

lemma label_in_all: "domain_label t = Some l \<Longrightarrow> l \<in> set (map ascii_bytes all_labels)"
  by (cases t) (auto simp: all_labels_def domain_label_def)

lemma domain_label_inj: "domain_label t = Some l \<Longrightarrow> domain_label u = Some l \<Longrightarrow> t = u"
  by (cases t; cases u) (auto simp: domain_label_def)

section \<open>Sizes\<close>

lemma offer_length:
  assumes "cbor_contract X" and "sign_contract X" and "encode_offer X f sk = Inr raw"
  shows "offer_valid f" and "length raw = 114 + head_size (nat (o_kind f)) + head_size (nat (o_size_bucket f))
    + head_size (nat (o_hard_expires_at f)) + head_size (nat (o_flags f))"
proof -
  obtain s where s: "offer_valid f" "length s = 64"
    "length raw = cbor_size (PDict (items_of_offer f @ [(PInt 9, PBytes s)]))"
    using assms by (rule offer.enc_output)
  then show "offer_valid f" "length raw = 114 + head_size (nat (o_kind f)) + head_size (nat (o_size_bucket f))
    + head_size (nat (o_hard_expires_at f)) + head_size (nat (o_flags f))"
    by (simp_all add: items_of_offer_def offer_items_def offer_valid_def head_size_def [of "numeral _"]
        head_size_def [of 0] head_size_def [of "Suc _"])
qed

lemma length_to_text:
  "to_text raw = Inr t \<Longrightarrow> length t = 5 + (4 * length raw + 2) div 3"
  by (auto simp: to_text_def TEXT_PREFIX_def length_b64url_nopad split: if_splits)

lemma to_text_succeeds: "0 < length raw \<Longrightarrow> \<exists>t. to_text raw = Inr t"
  by (simp add: to_text_def)

section \<open>Properties\<close>

text \<open>C13. Round trip of an OFFER over the text transport: what \<open>encode_offer\<close> writes can always be
  wrapped by \<open>to_text\<close>, \<open>from_text\<close> recovers the same bytes, \<open>peek_message_type\<close> routes them as an
  OFFER, and \<open>decode_offer\<close> under the signer's own public key returns every field, with the signature
  filled in.\<close>

theorem offer_roundtrip:
  assumes "cbor_contract X" and "sign_contract X" and "encode_offer X f sk = Inr raw"
  shows "\<exists>t s. to_text raw = Inr t \<and> from_text t = Inr raw \<and> peek_message_type X raw = Inr OFFER
           \<and> length s = 64 \<and> decode_offer X raw (Some (ed_public X sk)) = Inr (f\<lparr>o_signature := Some s\<rparr>)"
  using offer.text_roundtrip [OF assms] offer.peek [OF assms]
    offer.roundtrip [OF assms, of "Some (ed_public X sk)"] by auto

definition sample_offer :: offer_fields where
  "sample_offer = \<lparr>o_provider_id = replicate 8 7, o_transfer_id = replicate 16 1, o_sender_key_id = replicate 8 2,
     o_kind = 1, o_size_bucket = 3, o_hard_expires_at = 1750000000, o_flags = 0, o_signature = None\<rparr>"

lemma sample_offer_encodes: "\<exists>raw. encode_offer ref_ext sample_offer sk = Inr raw"
  using offer.enc_succeeds_iff [of ref_ext sample_offer sk] by (simp add: offer_valid_def sample_offer_def)

theorem offer_roundtrip_witness:
  "\<exists>raw t s. encode_offer ref_ext sample_offer [1, 2, 3] = Inr raw \<and> to_text raw = Inr t \<and> from_text t = Inr raw
     \<and> length s = 64
     \<and> decode_offer ref_ext raw (Some (ed_public ref_ext [1, 2, 3])) = Inr (sample_offer\<lparr>o_signature := Some s\<rparr>)"
proof -
  obtain raw where raw: "encode_offer ref_ext sample_offer [1, 2, 3] = Inr raw"
    using sample_offer_encodes by blast
  from offer_roundtrip [OF _ _ raw] raw show ?thesis by auto
qed

text \<open>The same round trip for the three key-exchange messages and the simple acknowledgements: each
  decoder, given the signer's public key (KEY_ANNOUNCE: its own announced key, as the code does),
  returns the encoded fields with a 64-byte signature.\<close>

theorem control_messages_roundtrip:
  assumes "cbor_contract X" and "sign_contract X"
  shows "(encode_key_request X kr sk = Inr raw1 \<longrightarrow>
           (\<exists>s. length s = 64 \<and> decode_key_request X raw1 (Some (ed_public X sk)) = Inr (kr\<lparr>kr_signature := Some s\<rparr>)))
    \<and> (encode_key_ack X kk sk = Inr raw2 \<longrightarrow>
           (\<exists>s. length s = 64 \<and> decode_key_ack X raw2 (Some (ed_public X sk)) = Inr (kk\<lparr>kk_signature := Some s\<rparr>)))
    \<and> (ka_public_identity ka = ed_public X sk \<longrightarrow> encode_key_announce X ka sk = Inr raw3 \<longrightarrow>
           (\<exists>s. length s = 64 \<and> decode_key_announce X raw3 True = Inr (ka\<lparr>ka_signature := Some s\<rparr>)))
    \<and> (encode_simple_ack X t tid sk = Inr raw4 \<longrightarrow>
           (\<exists>s. length s = 64 \<and> decode_simple_ack X raw4 t (Some (ed_public X sk))
             = Inr \<lparr>sa_message_type = t, sa_transfer_id = tid, sa_signature = Some s\<rparr>))"
proof (intro conjI impI)
  assume "encode_key_request X kr sk = Inr raw1"
  from key_request.roundtrip [OF assms this, of "Some (ed_public X sk)"]
  show "\<exists>s. length s = 64 \<and> decode_key_request X raw1 (Some (ed_public X sk)) = Inr (kr\<lparr>kr_signature := Some s\<rparr>)"
    by simp
next
  assume "encode_key_ack X kk sk = Inr raw2"
  from key_ack.roundtrip [OF assms this, of "Some (ed_public X sk)"]
  show "\<exists>s. length s = 64 \<and> decode_key_ack X raw2 (Some (ed_public X sk)) = Inr (kk\<lparr>kk_signature := Some s\<rparr>)"
    by simp
next
  assume "ka_public_identity ka = ed_public X sk" "encode_key_announce X ka sk = Inr raw3"
  with announce.roundtrip [OF assms, of ka sk raw3 True]
  show "\<exists>s. length s = 64 \<and> decode_key_announce X raw3 True = Inr (ka\<lparr>ka_signature := Some s\<rparr>)"
    by simp
next
  let ?f = "\<lparr>sa_message_type = t, sa_transfer_id = tid, sa_signature = None\<rparr>"
  assume "encode_simple_ack X t tid sk = Inr raw4"
  with simple_ack.roundtrip [OF assms, of ?f sk raw4 "(t, Some (ed_public X sk))"]
  show "\<exists>s. length s = 64 \<and> decode_simple_ack X raw4 t (Some (ed_public X sk))
      = Inr \<lparr>sa_message_type = t, sa_transfer_id = tid, sa_signature = Some s\<rparr>"
    by (simp add: encode_ack_fields_def decode_ack_fields_def)
qed

theorem control_messages_roundtrip_witness:
  "\<exists>raw s. encode_simple_ack ref_ext REJECTED (replicate 16 5) [9] = Inr raw \<and> length s = 64
     \<and> decode_simple_ack ref_ext raw REJECTED (Some (ed_public ref_ext [9]))
         = Inr \<lparr>sa_message_type = REJECTED, sa_transfer_id = replicate 16 5, sa_signature = Some s\<rparr>"
proof -
  have "\<exists>raw. encode_simple_ack ref_ext REJECTED (replicate 16 5) [9] = Inr raw"
    by (simp add: encode_simple_ack_def simple_ack_type_def sign_message_def domain_label_def Let_def)
  then obtain raw where raw: "encode_simple_ack ref_ext REJECTED (replicate 16 5) [9] = Inr raw" ..
  from control_messages_roundtrip [of ref_ext _ _ _ _ _ _ _ REJECTED "replicate 16 5" raw] raw show ?thesis by auto
qed

text \<open>Domain separation: the byte strings signed for two message types never coincide, and for the
  same type they coincide only for the same canonical map, so a signature is never valid for a message
  of another type or content.\<close>

theorem signed_bytes_separate:
  assumes "cbor_contract X" and "cbor_plain v" and "cbor_plain w"
    and "domain_label t = Some l" and "domain_label u = Some m"
    and "l @ cbor_dumps X v = m @ cbor_dumps X w"
  shows "t = u \<and> v = w"
proof -
  have lm: "l = m \<and> cbor_dumps X v = cbor_dumps X w"
    using ascii_labels_prefix_free label_in_all label_in_all assms(6)
    by (rule prefix_free_append_inj) (rule assms)+
  moreover have "v = w"
    using assms(1-3) lm by (auto simp: cbor_contract_def dest: cbor2_contract_inj)
  ultimately show ?thesis using assms(4,5) domain_label_inj by blast
qed

theorem signed_bytes_separate_witness:
  "\<not> (\<exists>v w. cbor_plain v \<and> cbor_plain w \<and>
        the (domain_label ACK_RECEIVED) @ cbor_dumps ref_ext v = the (domain_label CANCEL) @ cbor_dumps ref_ext w)"
proof -
  have "domain_label ACK_RECEIVED = Some (the (domain_label ACK_RECEIVED))"
    "domain_label CANCEL = Some (the (domain_label CANCEL))"
    by (simp_all add: domain_label_def)
  then show ?thesis
    using signed_bytes_separate [of ref_ext _ _ ACK_RECEIVED _ CANCEL] by fastforce
qed

text \<open>C14. Authenticity: a decoder that is given a verify key returns a message only if that key verifies
  the returned signature over the label of the message type followed by the canonical map of exactly the
  returned fields. For KEY_ANNOUNCE the key is the announced identity itself. This covers all five decoders.\<close>

theorem accepted_messages_verified:
  shows "(decode_offer X raw (Some vk) = Inr off \<longrightarrow>
           (\<exists>l s. domain_label OFFER = Some l \<and> o_signature off = Some s
             \<and> ed_verify X vk (l @ cbor_dumps X (PDict (items_of_offer off))) s))
    \<and> (decode_key_announce X raw True = Inr ann \<longrightarrow>
           (\<exists>l s. domain_label KEY_ANNOUNCE = Some l \<and> ka_signature ann = Some s
             \<and> ed_verify X (ka_public_identity ann) (l @ cbor_dumps X (PDict (items_of_key_announce ann))) s))
    \<and> (decode_key_request X raw (Some vk) = Inr req \<longrightarrow>
           (\<exists>l s. domain_label KEY_REQUEST = Some l \<and> kr_signature req = Some s
             \<and> ed_verify X vk (l @ cbor_dumps X (PDict (items_of_key_request req))) s))
    \<and> (decode_key_ack X raw (Some vk) = Inr kack \<longrightarrow>
           (\<exists>l s. domain_label KEY_ACK = Some l \<and> kk_signature kack = Some s
             \<and> ed_verify X vk (l @ cbor_dumps X (PDict (items_of_key_ack kack))) s))
    \<and> (decode_simple_ack X raw t (Some vk) = Inr ack \<longrightarrow> sa_message_type ack = t \<and>
           (\<exists>l s. domain_label t = Some l \<and> sa_signature ack = Some s
             \<and> ed_verify X vk (l @ cbor_dumps X (PDict (items_of_simple_ack ack))) s))"
proof (intro conjI impI)
  assume "decode_key_request X raw (Some vk) = Inr req"
  from key_request.accepted_verified [OF this]
  show "\<exists>l s. domain_label KEY_REQUEST = Some l \<and> kr_signature req = Some s
      \<and> ed_verify X vk (l @ cbor_dumps X (PDict (items_of_key_request req))) s" by blast
next
  assume "decode_key_ack X raw (Some vk) = Inr kack"
  from key_ack.accepted_verified [OF this]
  show "\<exists>l s. domain_label KEY_ACK = Some l \<and> kk_signature kack = Some s
      \<and> ed_verify X vk (l @ cbor_dumps X (PDict (items_of_key_ack kack))) s" by blast
next
  assume "decode_offer X raw (Some vk) = Inr off"
  from offer.accepted_verified [OF this]
  show "\<exists>l s. domain_label OFFER = Some l \<and> o_signature off = Some s
      \<and> ed_verify X vk (l @ cbor_dumps X (PDict (items_of_offer off))) s" by blast
next
  assume "decode_key_announce X raw True = Inr ann"
  from announce.accepted_verified [OF this]
  show "\<exists>l s. domain_label KEY_ANNOUNCE = Some l \<and> ka_signature ann = Some s
      \<and> ed_verify X (ka_public_identity ann) (l @ cbor_dumps X (PDict (items_of_key_announce ann))) s" by simp
next
  assume "decode_simple_ack X raw t (Some vk) = Inr ack"
  then have d: "decode_ack_fields X raw (t, Some vk) = Inr ack" by (simp add: decode_ack_fields_def)
  from simple_ack.dec_sound [OF d] show ty: "sa_message_type ack = t" by simp
  from simple_ack.accepted_verified [OF d, of vk] ty
  show "\<exists>l s. domain_label t = Some l \<and> sa_signature ack = Some s
      \<and> ed_verify X vk (l @ cbor_dumps X (PDict (items_of_simple_ack ack))) s" by simp
qed

theorem accepted_messages_verified_witness:
  "\<exists>raw off l s. decode_offer ref_ext raw (Some (ed_public ref_ext [4])) = Inr off \<and> domain_label OFFER = Some l
     \<and> o_signature off = Some s
     \<and> ed_verify ref_ext (ed_public ref_ext [4]) (l @ cbor_dumps ref_ext (PDict (items_of_offer off))) s"
proof -
  obtain raw where "encode_offer ref_ext sample_offer [4] = Inr raw" using sample_offer_encodes by blast
  from offer.roundtrip [OF _ _ this, of "Some (ed_public ref_ext [4])"] obtain off where
    "decode_offer ref_ext raw (Some (ed_public ref_ext [4])) = Inr off" by auto
  then show ?thesis using accepted_messages_verified by blast
qed

text \<open>Size of an OFFER: at most 125 canonical bytes, at most 122 when \<open>kind\<close>, \<open>size_bucket\<close> and
  \<open>flags\<close> are below 24, and in both cases the text form stays within \<open>OFFER_MAX_ASCII_BYTES\<close>, the
  ceiling of the radio message.\<close>

theorem offer_fits_radio_message:
  assumes "cbor_contract X" and "sign_contract X" and "encode_offer X f sk = Inr raw"
  shows "length raw \<le> 125
    \<and> (o_kind f < 24 \<and> o_size_bucket f < 24 \<and> o_flags f < 24 \<longrightarrow> length raw \<le> 122)
    \<and> (\<exists>t. to_text raw = Inr t \<and> length t \<le> OFFER_MAX_ASCII_BYTES)"
proof -
  have v: "offer_valid f" using assms by (rule offer_length)
  then have b: "head_size (nat (o_kind f)) \<le> 2" "head_size (nat (o_size_bucket f)) \<le> 2"
    "head_size (nat (o_flags f)) \<le> 2" "head_size (nat (o_hard_expires_at f)) \<le> 5"
    by (auto simp: offer_valid_def intro!: head_size_bounds)
  have len: "length raw \<le> 125" "0 < length raw"
    using offer_length(2) [OF assms] b by linarith+
  moreover have "length raw \<le> 122" if "o_kind f < 24 \<and> o_size_bucket f < 24 \<and> o_flags f < 24"
  proof -
    have "head_size (nat (o_kind f)) = 1" "head_size (nat (o_size_bucket f)) = 1" "head_size (nat (o_flags f)) = 1"
      using that v by (simp_all add: head_size_def offer_valid_def nat_less_iff)
    with offer_length(2) [OF assms] b(4) show ?thesis by linarith
  qed
  moreover obtain t where "to_text raw = Inr t" using to_text_succeeds [OF len(2)] ..
  moreover then have "length t \<le> OFFER_MAX_ASCII_BYTES"
    using length_to_text [of raw t] len(1) by (simp add: OFFER_MAX_ASCII_BYTES_def)
  ultimately show ?thesis by blast
qed

theorem offer_fits_radio_message_witness:
  "\<exists>raw. encode_offer ref_ext sample_offer [1] = Inr raw \<and> length raw \<le> 122"
proof -
  obtain raw where raw: "encode_offer ref_ext sample_offer [1] = Inr raw" using sample_offer_encodes by blast
  from offer_fits_radio_message [OF _ _ raw] raw show ?thesis by (auto simp: sample_offer_def)
qed

text \<open>The documented maximum of 122 canonical bytes (168 text bytes) is not the maximum the encoder
  allows: with \<open>kind\<close>, \<open>size_bucket\<close> and \<open>flags\<close> at the 255 its checks admit, an OFFER has 125 canonical
  bytes and 172 text bytes.\<close>

definition widest_offer :: offer_fields where
  "widest_offer = sample_offer\<lparr>o_kind := 255, o_size_bucket := 255, o_hard_expires_at := 2 ^ 32 - 1, o_flags := 255\<rparr>"

theorem widest_offer_size:
  assumes "cbor_contract X" and "sign_contract X"
  shows "\<exists>raw t. encode_offer X widest_offer sk = Inr raw \<and> length raw = 125
           \<and> to_text raw = Inr t \<and> length t = 172"
proof -
  have "offer_valid widest_offer" by (simp add: offer_valid_def widest_offer_def sample_offer_def)
  then obtain raw where raw: "encode_offer X widest_offer sk = Inr raw"
    using offer.enc_succeeds_iff by blast
  from offer_length(2) [OF assms raw] have len: "length raw = 125"
    by (simp add: widest_offer_def head_size_def)
  then obtain t where "to_text raw = Inr t" using to_text_succeeds [of raw] by auto
  with raw len length_to_text [OF this] show ?thesis by auto
qed

theorem widest_offer_size_witness:
  "\<exists>raw t. encode_offer ref_ext widest_offer [1] = Inr raw \<and> length raw = 125 \<and> to_text raw = Inr t \<and> length t = 172"
  using widest_offer_size [of ref_ext "[1]"] by simp

text \<open>Uniform errors: whatever the input, every encoder and decoder of the module returns or raises
  \<open>CodecError\<close>; the label table's \<open>KeyError\<close> (it has no entry for KEY_ROTATE) never escapes.\<close>

theorem codec_raises_only_CodecError:
  "only_codec_error (encode_offer X off sk) \<and> only_codec_error (decode_offer X raw key)
   \<and> only_codec_error (encode_key_announce X ann sk) \<and> only_codec_error (decode_key_announce X raw b)
   \<and> only_codec_error (encode_key_request X kr sk) \<and> only_codec_error (decode_key_request X raw key)
   \<and> only_codec_error (encode_key_ack X kk sk) \<and> only_codec_error (decode_key_ack X raw key)
   \<and> only_codec_error (encode_simple_ack X t tid sk) \<and> only_codec_error (decode_simple_ack X raw t key)
   \<and> only_codec_error (peek_message_type X raw) \<and> only_codec_error (from_text txt)"
proof (intro conjI)
  let ?f = "\<lparr>sa_message_type = t, sa_transfer_id = tid, sa_signature = None\<rparr>"
  show "only_codec_error (encode_simple_ack X t tid sk)"
    using simple_ack.enc_only_codec_error [of X ?f sk] by (simp add: encode_ack_fields_def)
  show "only_codec_error (decode_simple_ack X raw t key)"
    using simple_ack.dec_only_codec_error [of X raw "(t, key)"] by (simp add: decode_ack_fields_def)
  show "only_codec_error (peek_message_type X raw)"
    unfolding peek_message_type_def by (intro only_codec_error_bind) (auto split: option.splits)
  show "only_codec_error (from_text txt)"
    by (auto simp: from_text_def split: option.splits)
qed (rule offer.enc_only_codec_error offer.dec_only_codec_error announce.enc_only_codec_error
    announce.dec_only_codec_error key_request.enc_only_codec_error key_request.dec_only_codec_error
    key_ack.enc_only_codec_error key_ack.dec_only_codec_error)+

text \<open>\<open>from_text\<close> is lenient: four ASCII characters outside the Base64 alphabet put in front of the body
  of an accepted text change nothing, so many texts that are not well-formed Base64URL are accepted as
  the same message.\<close>

theorem from_text_ignores_junk:
  assumes "from_text (TEXT_PREFIX @ body) = Inr raw" and "length body + 9 \<le> MAX_MESSAGE_RAW_BYTES"
    and "length junk = 4"
    and "list_all (\<lambda>c. is_ascii c \<and> a2b_value (urlsafe_translate c) = None \<and> c \<noteq> CHR ''='') junk"
  shows "from_text (TEXT_PREFIX @ junk @ body) = Inr raw"
proof -
  have pad: "b64_padding (junk @ body) = b64_padding body"
  proof -
    have "(- int (length (junk @ body))) mod 4 = (- int (length body)) mod 4"
      using assms(3) by (simp add: mod_minus_cong [of "4 + int (length body)" 4 "int (length body)"] del: add_uminus_conv_diff)
    then show ?thesis unfolding b64_padding_def by (rule arg_cong)
  qed
  have "list_all (\<lambda>c. a2b_value c = None \<and> c \<noteq> CHR ''='') (map urlsafe_translate junk)"
    using assms(4) by (simp add: list_all_iff)
  then have "b64url_decode_unpadded (junk @ body) = b64url_decode_unpadded body"
    using assms(4) by (auto simp: b64url_decode_unpadded_def urlsafe_b64decode_def pad a2b_skips_junk list_all_iff)
  then show ?thesis
    using assms(1,2,3) by (simp add: from_text_def startswith_def MAX_MESSAGE_RAW_BYTES_def TEXT_PREFIX_def split: if_splits)
qed

theorem from_text_ignores_junk_witness:
  "from_text ''MCA1:QUJD'' = Inr [65, 66, 67] \<and> from_text ''MCA1:!!??QUJD'' = Inr [65, 66, 67]"
proof -
  have ok: "from_text (TEXT_PREFIX @ ''QUJD'') = Inr [65, 66, 67]"
    by (simp add: from_text_def startswith_def TEXT_PREFIX_def MAX_MESSAGE_RAW_BYTES_def b64url_decode_unpadded_def
        b64_padding_def urlsafe_b64decode_def is_ascii_def urlsafe_translate_def a2b_value_def)
  have "from_text (TEXT_PREFIX @ ''!!??'' @ ''QUJD'') = Inr [65, 66, 67]"
    by (rule from_text_ignores_junk [OF ok])
       (simp_all add: MAX_MESSAGE_RAW_BYTES_def is_ascii_def urlsafe_translate_def a2b_value_def)
  with ok show ?thesis by (simp add: TEXT_PREFIX_def)
qed

end
