(* ===== verification/Crypto.thy ===== *)
theory Crypto
  imports External
begin

text \<open>
  Chunk and header encryption, \<open>src/meshsrv/attachments/crypto.py\<close>: the chunk plan of a file, the
  deterministic nonces, the associated data, and the four AEAD wrappers. Sizes and indices are
  Python integers, hence \<open>int\<close>.
\<close>

section \<open>Constants and checks\<close>

datatype crypto_error = CryptoError

definition DATA_KEY_BYTES :: nat where "DATA_KEY_BYTES = 32"
definition NONCE_PREFIX_BYTES :: nat where "NONCE_PREFIX_BYTES = 16"
definition NONCE_BYTES :: nat where "NONCE_BYTES = 24"
definition NONCE_SUFFIX_BYTES :: nat where "NONCE_SUFFIX_BYTES = NONCE_BYTES - NONCE_PREFIX_BYTES"
definition HEADER_NONCE_SUFFIX :: bytes where "HEADER_NONCE_SUFFIX = replicate NONCE_SUFFIX_BYTES 255"
definition CHUNK_SIZE_BYTES :: int where "CHUNK_SIZE_BYTES = 256 * 1024"
definition TAG_BYTES :: int where "TAG_BYTES = 16"
definition AAD_VERSION :: int where "AAD_VERSION = 1"
definition ROLE_CHUNK :: string where "ROLE_CHUNK = ''chunk''"
definition ROLE_HEADER :: string where "ROLE_HEADER = ''header''"

definition require_length :: "bytes \<Rightarrow> nat \<Rightarrow> crypto_error + unit" where
  "require_length v expected = (if length v \<noteq> expected then Inl CryptoError else Inr ())"

section \<open>Nonces and associated data\<close>

definition chunk_nonce :: "bytes \<Rightarrow> int \<Rightarrow> crypto_error + bytes" where
  "chunk_nonce nonce_prefix index =
     bind_res (require_length nonce_prefix NONCE_PREFIX_BYTES) (\<lambda>_.
     if index < 0 \<or> 2 ^ 64 \<le> index then Inl CryptoError
     else Inr (nonce_prefix @ be_bytes 8 (nat index)))"

definition header_nonce :: "bytes \<Rightarrow> crypto_error + bytes" where
  "header_nonce nonce_prefix =
     bind_res (require_length nonce_prefix NONCE_PREFIX_BYTES) (\<lambda>_.
     Inr (nonce_prefix @ HEADER_NONCE_SUFFIX))"

definition aad_items :: "bytes \<Rightarrow> string \<Rightarrow> int \<Rightarrow> int \<Rightarrow> int \<Rightarrow> (pyval \<times> pyval) list" where
  "aad_items transfer_id role index chunk_count plain_size =
     [(PInt 0, PInt AAD_VERSION), (PInt 1, PBytes transfer_id), (PInt 2, PStr role),
      (PInt 3, PInt index), (PInt 4, PInt chunk_count), (PInt 5, PInt plain_size)]"

definition aad :: "ext \<Rightarrow> bytes \<Rightarrow> string \<Rightarrow> int \<Rightarrow> int \<Rightarrow> int \<Rightarrow> crypto_error + bytes" where
  "aad X transfer_id role index chunk_count plain_size =
     bind_res (require_length transfer_id 16) (\<lambda>_.
     Inr (cbor_dumps X (PDict (aad_items transfer_id role index chunk_count plain_size))))"

section \<open>Chunk plan\<close>

record chunk_plan =
  cp_plain_size :: int
  cp_chunk_count :: int

definition for_size :: "int \<Rightarrow> int \<Rightarrow> crypto_error + chunk_plan" where
  "for_size plain_size chunk_size =
     (if plain_size < 0 then Inl CryptoError
      else if chunk_size \<le> 0 then Inl CryptoError
      else Inr \<lparr>cp_plain_size = plain_size,
                cp_chunk_count = (if 0 < plain_size then max 1 (- (- plain_size div chunk_size)) else 1)\<rparr>)"

definition bounds :: "chunk_plan \<Rightarrow> int \<Rightarrow> int \<Rightarrow> crypto_error + int \<times> int" where
  "bounds plan index chunk_size =
     (if index < 0 \<or> cp_chunk_count plan \<le> index then Inl CryptoError
      else let start = index * chunk_size
           in Inr (start, min (start + chunk_size) (cp_plain_size plan)))"

definition ciphertext_size :: "int \<Rightarrow> crypto_error + int" where
  "ciphertext_size plain_size =
     bind_res (for_size plain_size CHUNK_SIZE_BYTES) (\<lambda>plan.
     Inr (plain_size + cp_chunk_count plan * TAG_BYTES))"

text \<open>The bytes one chunk covers: \<open>fh.seek(start); fh.read(end - start)\<close>.\<close>

definition chunk_slice :: "bytes \<Rightarrow> int \<Rightarrow> int \<Rightarrow> bytes" where
  "chunk_slice content start stop = take (nat (stop - start)) (drop (nat start) content)"

section \<open>AEAD wrappers\<close>

definition encrypt_chunk :: "ext \<Rightarrow> bytes \<Rightarrow> bytes \<Rightarrow> bytes \<Rightarrow> int \<Rightarrow> int \<Rightarrow> int \<Rightarrow> bytes \<Rightarrow> crypto_error + bytes" where
  "encrypt_chunk X data_key nonce_prefix transfer_id index chunk_count plain_size plaintext =
     bind_res (require_length data_key DATA_KEY_BYTES) (\<lambda>_.
     bind_res (chunk_nonce nonce_prefix index) (\<lambda>nonce.
     bind_res (aad X transfer_id ROLE_CHUNK index chunk_count plain_size) (\<lambda>ad.
     Inr (aead_encrypt X plaintext ad nonce data_key))))"

definition decrypt_chunk :: "ext \<Rightarrow> bytes \<Rightarrow> bytes \<Rightarrow> bytes \<Rightarrow> int \<Rightarrow> int \<Rightarrow> int \<Rightarrow> bytes \<Rightarrow> crypto_error + bytes" where
  "decrypt_chunk X data_key nonce_prefix transfer_id index chunk_count plain_size ciphertext =
     bind_res (require_length data_key DATA_KEY_BYTES) (\<lambda>_.
     bind_res (chunk_nonce nonce_prefix index) (\<lambda>nonce.
     bind_res (aad X transfer_id ROLE_CHUNK index chunk_count plain_size) (\<lambda>ad.
     case aead_decrypt X ciphertext ad nonce data_key of None \<Rightarrow> Inl CryptoError | Some p \<Rightarrow> Inr p)))"

definition encrypt_header :: "ext \<Rightarrow> bytes \<Rightarrow> bytes \<Rightarrow> bytes \<Rightarrow> int \<Rightarrow> int \<Rightarrow> bytes \<Rightarrow> crypto_error + bytes" where
  "encrypt_header X data_key nonce_prefix transfer_id chunk_count plain_size header_plaintext =
     bind_res (require_length data_key DATA_KEY_BYTES) (\<lambda>_.
     bind_res (header_nonce nonce_prefix) (\<lambda>nonce.
     bind_res (aad X transfer_id ROLE_HEADER 0 chunk_count plain_size) (\<lambda>ad.
     Inr (aead_encrypt X header_plaintext ad nonce data_key))))"

definition decrypt_header :: "ext \<Rightarrow> bytes \<Rightarrow> bytes \<Rightarrow> bytes \<Rightarrow> int \<Rightarrow> int \<Rightarrow> bytes \<Rightarrow> crypto_error + bytes" where
  "decrypt_header X data_key nonce_prefix transfer_id chunk_count plain_size ciphertext =
     bind_res (require_length data_key DATA_KEY_BYTES) (\<lambda>_.
     bind_res (header_nonce nonce_prefix) (\<lambda>nonce.
     bind_res (aad X transfer_id ROLE_HEADER 0 chunk_count plain_size) (\<lambda>ad.
     case aead_decrypt X ciphertext ad nonce data_key of None \<Rightarrow> Inl CryptoError | Some p \<Rightarrow> Inr p)))"

text \<open>The sender's chunk loop (\<open>sender._step_encrypting\<close>): every chunk of the plan is read and encrypted, in
  order; a raising chunk stops the loop.\<close>

definition encrypt_chunks :: "ext \<Rightarrow> bytes \<Rightarrow> bytes \<Rightarrow> bytes \<Rightarrow> int \<Rightarrow> bytes \<Rightarrow> crypto_error + bytes list" where
  "encrypt_chunks X data_key nonce_prefix transfer_id plain_size content =
     bind_res (for_size plain_size CHUNK_SIZE_BYTES) (\<lambda>plan.
     traverse_res (\<lambda>index.
       bind_res (bounds plan index CHUNK_SIZE_BYTES) (\<lambda>(start, stop).
       encrypt_chunk X data_key nonce_prefix transfer_id index (cp_chunk_count plan) plain_size
         (chunk_slice content start stop)))
       [0..cp_chunk_count plan - 1])"

section \<open>Lemmas\<close>

lemma require_length_Inr [simp]: "require_length v n = Inr u \<longleftrightarrow> length v = n"
  by (simp add: require_length_def)

text \<open>The ceiling division of the plan.\<close>

lemma for_size_count:
  assumes "for_size n c = Inr plan"
  shows "cp_plain_size plan = n" and "0 \<le> n" and "0 < c" and "1 \<le> cp_chunk_count plan"
    and "n \<le> cp_chunk_count plan * c" and "0 < n \<Longrightarrow> (cp_chunk_count plan - 1) * c < n"
    and "n = 0 \<Longrightarrow> cp_chunk_count plan = 1"
proof -
  have n: "0 \<le> n" and c: "0 < c"
    and plan: "plan = \<lparr>cp_plain_size = n, cp_chunk_count = (if 0 < n then max 1 (- (- n div c)) else 1)\<rparr>"
    using assms by (auto simp: for_size_def split: if_splits)
  define d where "d = - n div c"
  define m where "m = - n mod c"
  have q: "- n = d * c + m" "0 \<le> m" "m < c"
    using c by (simp_all add: d_def m_def)
  then have up: "n \<le> - d * c" and lo: "(- d - 1) * c < n"
    by (simp_all add: left_diff_distrib)
  have "1 \<le> - d" if "0 < n"
    using up that c by (smt (verit) mult_nonpos_nonneg)
  then show "cp_plain_size plan = n" "0 \<le> n" "0 < c" "1 \<le> cp_chunk_count plan"
    "n \<le> cp_chunk_count plan * c" "0 < n \<Longrightarrow> (cp_chunk_count plan - 1) * c < n"
    "n = 0 \<Longrightarrow> cp_chunk_count plan = 1"
    using n c up lo by (auto simp: plan d_def)
qed

lemma slices_prefix:
  assumes "0 < c" and "int (length data) = n"
  shows "concat (map (\<lambda>i. chunk_slice data (i * c) (min (i * c + c) n)) [0..int k - 1])
    = take (nat (int k * c)) data"
proof (induction k)
  case (Suc k)
  have "[0..int (Suc k) - 1] = [0..int k - 1] @ [int k]"
    using upto_rec2 [of 0 "int k"] by simp
  moreover have "take (nat (min (int k * c + c) n - int k * c)) (drop (nat (int k * c)) data)
    = take (nat c) (drop (nat (int k * c)) data)"
    using assms by (cases "int k * c + c \<le> n") (auto simp: nat_diff_distrib min_def nat_le_iff)
  moreover have "nat (int (Suc k) * c) = nat (int k * c) + nat c"
    using assms(1) by (simp add: algebra_simps nat_add_distrib)
  ultimately show ?case
    using Suc.IH by (simp add: chunk_slice_def take_add)
qed simp

lemma bounds_in_plan:
  assumes "for_size n c = Inr plan" and "i \<in> set [0..cp_chunk_count plan - 1]"
  shows "bounds plan i c = Inr (i * c, min (i * c + c) n)" and "i * c \<le> n"
    and "0 < n \<Longrightarrow> i * c < min (i * c + c) n"
proof -
  note p = for_size_count [OF assms(1)]
  have i: "0 \<le> i" "i \<le> cp_chunk_count plan - 1"
    using assms(2) by auto
  show "bounds plan i c = Inr (i * c, min (i * c + c) n)"
    using i p by (simp add: bounds_def Let_def)
  have le: "i * c \<le> (cp_chunk_count plan - 1) * c"
    using i p(3) by (intro mult_right_mono) simp_all
  show "i * c < min (i * c + c) n" if "0 < n"
    using p(3) p(6) [OF that] le unfolding min_def by (simp, linarith)
  show "i * c \<le> n"
    using le p(2,6,7) by (cases "n = 0") auto
qed

lemma plan_concat:
  assumes "for_size (int (length data)) c = Inr plan"
  shows "concat (map (\<lambda>i. chunk_slice data (i * c) (min (i * c + c) (int (length data))))
           [0..cp_chunk_count plan - 1]) = data"
proof -
  note p = for_size_count [OF assms]
  have "concat (map (\<lambda>i. chunk_slice data (i * c) (min (i * c + c) (int (length data))))
          [0..int (nat (cp_chunk_count plan)) - 1]) = take (nat (int (nat (cp_chunk_count plan)) * c)) data"
    by (rule slices_prefix) (simp_all add: p)
  then show ?thesis
    using p by (simp add: nat_le_iff le_nat_iff)
qed

lemma length_chunk_slice:
  "0 \<le> s \<Longrightarrow> e \<le> int (length data) \<Longrightarrow> s \<le> e \<Longrightarrow> int (length (chunk_slice data s e)) = e - s"
  by (simp add: chunk_slice_def min_def) arith

lemma replicate_8: "replicate 8 x = [x, x, x, x, x, x, x, x]"
  by (simp add: eval_nat_numeral)

lemma header_suffix_be_bytes: "HEADER_NONCE_SUFFIX = be_bytes 8 (2 ^ 64 - 1)"
  by (simp add: HEADER_NONCE_SUFFIX_def NONCE_SUFFIX_BYTES_def NONCE_BYTES_def NONCE_PREFIX_BYTES_def be_bytes_numeral replicate_8)

lemma be_bytes_8_eq_iff:
  "m < 2 ^ 64 \<Longrightarrow> n < 2 ^ 64 \<Longrightarrow> be_bytes 8 m = be_bytes 8 n \<longleftrightarrow> m = n"
  using be_bytes_inj [of m 8 n] by auto

lemma chunk_nonce_Inr:
  "chunk_nonce p i = Inr a \<longleftrightarrow> length p = 16 \<and> 0 \<le> i \<and> i < 2 ^ 64 \<and> a = p @ be_bytes 8 (nat i)"
  by (auto simp: chunk_nonce_def bind_res_eq_Inr NONCE_PREFIX_BYTES_def split: if_splits)

lemma header_nonce_Inr: "header_nonce p = Inr h \<longleftrightarrow> length p = 16 \<and> h = p @ HEADER_NONCE_SUFFIX"
  by (auto simp: header_nonce_def bind_res_eq_Inr NONCE_PREFIX_BYTES_def)

text \<open>The arguments the AEAD wrappers accept.\<close>

definition aead_args :: "bytes \<Rightarrow> bytes \<Rightarrow> bytes \<Rightarrow> int \<Rightarrow> bool" where
  "aead_args data_key nonce_prefix transfer_id index \<longleftrightarrow>
     length data_key = 32 \<and> length nonce_prefix = 16 \<and> length transfer_id = 16 \<and> 0 \<le> index \<and> index < 2 ^ 64"

definition chunk_aad :: "ext \<Rightarrow> bytes \<Rightarrow> int \<Rightarrow> int \<Rightarrow> int \<Rightarrow> bytes" where
  "chunk_aad X tid i cc n = cbor_dumps X (PDict (aad_items tid ROLE_CHUNK i cc n))"

definition header_aad :: "ext \<Rightarrow> bytes \<Rightarrow> int \<Rightarrow> int \<Rightarrow> bytes" where
  "header_aad X tid cc n = cbor_dumps X (PDict (aad_items tid ROLE_HEADER 0 cc n))"

lemma encrypt_chunk_Inr:
  "encrypt_chunk X dk np tid i cc n p = Inr ct \<longleftrightarrow>
     aead_args dk np tid i \<and> ct = aead_encrypt X p (chunk_aad X tid i cc n) (np @ be_bytes 8 (nat i)) dk"
  by (auto simp: encrypt_chunk_def bind_res_eq_Inr chunk_nonce_Inr aad_def aead_args_def chunk_aad_def DATA_KEY_BYTES_def)

lemma decrypt_chunk_Inr:
  "decrypt_chunk X dk np tid i cc n ct = Inr p \<longleftrightarrow>
     aead_args dk np tid i \<and> aead_decrypt X ct (chunk_aad X tid i cc n) (np @ be_bytes 8 (nat i)) dk = Some p"
  by (auto simp: decrypt_chunk_def bind_res_eq_Inr chunk_nonce_Inr aad_def aead_args_def chunk_aad_def DATA_KEY_BYTES_def
      split: option.splits)

lemma encrypt_header_Inr:
  "encrypt_header X dk np tid cc n p = Inr ct \<longleftrightarrow>
     aead_args dk np tid 0 \<and> ct = aead_encrypt X p (header_aad X tid cc n) (np @ HEADER_NONCE_SUFFIX) dk"
  by (auto simp: encrypt_header_def bind_res_eq_Inr header_nonce_Inr aad_def aead_args_def header_aad_def DATA_KEY_BYTES_def)

lemma decrypt_header_Inr:
  "decrypt_header X dk np tid cc n ct = Inr p \<longleftrightarrow>
     aead_args dk np tid 0 \<and> aead_decrypt X ct (header_aad X tid cc n) (np @ HEADER_NONCE_SUFFIX) dk = Some p"
  by (auto simp: decrypt_header_def bind_res_eq_Inr header_nonce_Inr aad_def aead_args_def header_aad_def DATA_KEY_BYTES_def
      split: option.splits)

text \<open>The associated data determines the transfer, role, index, chunk count and size it was built from.\<close>

lemma aad_items_inj:
  assumes "cbor_contract X" and "length tid < 2 ^ 64" "length tid' < 2 ^ 64"
    and "role \<in> {ROLE_CHUNK, ROLE_HEADER}" "role' \<in> {ROLE_CHUNK, ROLE_HEADER}"
    and "list_all uint64 [i, cc, n, i', cc', n']"
    and "cbor_dumps X (PDict (aad_items tid role i cc n)) = cbor_dumps X (PDict (aad_items tid' role' i' cc' n'))"
  shows "tid = tid' \<and> role = role' \<and> i = i' \<and> cc = cc' \<and> n = n'"
proof -
  have "cbor_plain (PDict (aad_items tid role i cc n))" "cbor_plain (PDict (aad_items tid' role' i' cc' n'))"
    using assms(2-6) by (auto simp: aad_items_def AAD_VERSION_def uint64_def ROLE_CHUNK_def ROLE_HEADER_def
        ascii_text_def int_key_def)
  then have "PDict (aad_items tid role i cc n) = PDict (aad_items tid' role' i' cc' n')"
    using assms(1,7) by (metis cbor_contractD(1) option.inject)
  then show ?thesis
    by (simp add: aad_items_def)
qed

text \<open>The pieces of a file under the fixed chunk size, and what the sender's loop makes of them.\<close>

definition pieces :: "bytes \<Rightarrow> int \<Rightarrow> bytes list" where
  "pieces content count = map (\<lambda>i. chunk_slice content (i * CHUNK_SIZE_BYTES)
     (min (i * CHUNK_SIZE_BYTES + CHUNK_SIZE_BYTES) (int (length content)))) [0..count - 1]"

lemma encrypt_chunks_Inr:
  assumes "encrypt_chunks X dk np tid (int (length content)) content = Inr cts"
  obtains plan where "for_size (int (length content)) CHUNK_SIZE_BYTES = Inr plan"
    and "concat (pieces content (cp_chunk_count plan)) = content"
    and "length (pieces content (cp_chunk_count plan)) = nat (cp_chunk_count plan)"
    and "length cts = nat (cp_chunk_count plan)"
    and "\<And>i. i < length cts \<Longrightarrow> encrypt_chunk X dk np tid (int i) (cp_chunk_count plan) (int (length content))
           (pieces content (cp_chunk_count plan) ! i) = Inr (cts ! i)"
proof -
  let ?n = "int (length content)" and ?c = CHUNK_SIZE_BYTES
  obtain plan where plan: "for_size ?n ?c = Inr plan"
    and t: "traverse_res (\<lambda>index. bind_res (bounds plan index ?c) (\<lambda>(start, stop).
       encrypt_chunk X dk np tid index (cp_chunk_count plan) ?n (chunk_slice content start stop)))
       [0..cp_chunk_count plan - 1] = Inr cts"
    using assms by (auto simp: encrypt_chunks_def bind_res_eq_Inr)
  show ?thesis
  proof (rule that [OF plan])
    show "concat (pieces content (cp_chunk_count plan)) = content"
      using plan_concat [OF plan] by (simp add: pieces_def)
    show len: "length (pieces content (cp_chunk_count plan)) = nat (cp_chunk_count plan)"
      by (simp add: pieces_def)
    show l: "length cts = nat (cp_chunk_count plan)"
      using traverse_res_length [OF t] by simp
    fix i assume i: "i < length cts"
    then have "int i \<in> set [0..cp_chunk_count plan - 1]" and nth: "[0..cp_chunk_count plan - 1] ! i = int i"
      using l by (auto simp: nth_upto)
    with traverse_res_nth [OF t, of i] i l bounds_in_plan(1) [OF plan, of "int i"]
    show "encrypt_chunk X dk np tid (int i) (cp_chunk_count plan) ?n
        (pieces content (cp_chunk_count plan) ! i) = Inr (cts ! i)"
      by (simp add: pieces_def)
  qed
qed

lemma sum_lengths_offset:
  "length xs = length ys \<Longrightarrow> (\<And>i. i < length xs \<Longrightarrow> length (xs ! i) = length (ys ! i) + k)
    \<Longrightarrow> sum_list (map length xs) = sum_list (map length ys) + length ys * k"
proof (induction xs ys rule: list_induct2)
  case (Cons x xs y ys)
  have "length x = length y + k"
    using Cons.prems [of 0] by simp
  moreover have "sum_list (map length xs) = sum_list (map length ys) + length ys * k"
    using Cons.IH Cons.prems [of "Suc _"] by simp
  ultimately show ?case by simp
qed simp

end
