(* ===== verification/Crypto_Properties.thy ===== *)
theory Crypto_Properties
  imports Crypto
begin

text \<open>
  What the encryption layer promises: the chunk plan tiles the file, no nonce is used twice under a
  key, the associated data pins a ciphertext to its place, sizes are exact, and a chunk decrypts to
  what was encrypted and to nothing else.
\<close>

text \<open>The chunk plan covers the file exactly: every index below \<open>chunk_count\<close> has bounds, each chunk
  starts where the previous one ended, none is longer than the chunk size nor empty (unless the file
  is), and the pieces read at those bounds concatenate to the file.\<close>

theorem plan_tiles_file:
  assumes "for_size (int (length content)) c = Inr plan"
  shows "\<exists>bs. traverse_res (\<lambda>i. bounds plan i c) [0..cp_chunk_count plan - 1] = Inr bs
     \<and> concat (map (\<lambda>(s, e). chunk_slice content s e) bs) = content
     \<and> list_all (\<lambda>(s, e). e - s \<le> c \<and> (0 < length content \<longrightarrow> s < e)) bs
     \<and> (\<forall>i. Suc i < length bs \<longrightarrow> snd (bs ! i) = fst (bs ! Suc i))"
proof -
  let ?n = "int (length content)"
  let ?bs = "map (\<lambda>i. (i * c, min (i * c + c) ?n)) [0..cp_chunk_count plan - 1]"
  note b = bounds_in_plan [OF assms]
  have "traverse_res (\<lambda>i. bounds plan i c) [0..cp_chunk_count plan - 1] = Inr ?bs"
    by (rule traverse_res_map) (rule b(1))
  moreover have "concat (map (\<lambda>(s, e). chunk_slice content s e) ?bs) = content"
    using plan_concat [OF assms] by (simp add: comp_def)
  moreover have "list_all (\<lambda>(s, e). e - s \<le> c \<and> (0 < length content \<longrightarrow> s < e)) ?bs"
    using b(3) by (auto simp: list_all_iff)
  moreover have "snd (?bs ! i) = fst (?bs ! Suc i)" if "Suc i < length ?bs" for i
    using that b(2) [of "int (Suc i)"] by (simp add: nth_upto algebra_simps)
  ultimately show ?thesis by blast
qed

theorem plan_tiles_file_witness:
  "for_size (int (length [1, 2, 3, 4, 5 :: byte])) 2 = Inr \<lparr>cp_plain_size = 5, cp_chunk_count = 3\<rparr>
   \<and> (\<exists>bs. traverse_res (\<lambda>i. bounds \<lparr>cp_plain_size = 5, cp_chunk_count = 3\<rparr> i 2) [0..2] = Inr bs
        \<and> concat (map (\<lambda>(s, e). chunk_slice [1, 2, 3, 4, 5] s e) bs) = [1, 2, 3, 4, 5])"
proof -
  have p: "for_size (int (length [1, 2, 3, 4, 5 :: byte])) 2 = Inr \<lparr>cp_plain_size = 5, cp_chunk_count = 3\<rparr>"
    by (simp add: for_size_def)
  from plan_tiles_file [OF this] p show ?thesis by auto
qed

text \<open>Nonces under one prefix: two chunk nonces are equal only for the same index, and a chunk nonce
  equals the header's only at index \<open>2^64 - 1\<close>, which no chunk plan of a file below \<open>2^64\<close> bytes has.\<close>

theorem nonces_unique:
  assumes "chunk_nonce p i = Inr a" and "chunk_nonce p j = Inr b" and "header_nonce p = Inr h"
  shows "length a = NONCE_BYTES \<and> (a = b \<longleftrightarrow> i = j) \<and> (a = h \<longleftrightarrow> i = 2 ^ 64 - 1)
     \<and> (for_size n CHUNK_SIZE_BYTES = Inr plan \<and> n < 2 ^ 64 \<and> i < cp_chunk_count plan \<longrightarrow> a \<noteq> h)"
proof -
  have i: "0 \<le> i" "i < 2 ^ 64" "a = p @ be_bytes 8 (nat i)" "length p = 16"
    and j: "0 \<le> j" "j < 2 ^ 64" "b = p @ be_bytes 8 (nat j)"
    and h: "h = p @ be_bytes 8 (2 ^ 64 - 1)"
    using assms by (simp_all add: chunk_nonce_Inr header_nonce_Inr header_suffix_be_bytes)
  have "a = h \<longleftrightarrow> i = 2 ^ 64 - 1"
    using i(1,2) by (simp add: i(3) h be_bytes_8_eq_iff nat_less_iff) (simp add: nat_eq_iff)
  moreover have "cp_chunk_count plan < 2 ^ 64" if "for_size n CHUNK_SIZE_BYTES = Inr plan" "n < 2 ^ 64"
    using for_size_count(6,7) [OF that(1)] for_size_count(2) [OF that(1)] that(2)
    by (cases "n = 0") (auto simp: CHUNK_SIZE_BYTES_def)
  moreover have "a = b \<longleftrightarrow> i = j"
    using i(1,2) j(1,2) by (simp add: i(3) j(3) be_bytes_8_eq_iff nat_less_iff eq_nat_nat_iff)
  moreover have "length a = NONCE_BYTES"
    by (simp add: i NONCE_BYTES_def)
  ultimately show ?thesis
    by fastforce
qed

theorem nonces_unique_witness:
  "\<exists>a b h. chunk_nonce (replicate 16 5) 0 = Inr a \<and> chunk_nonce (replicate 16 5) 1 = Inr b
     \<and> header_nonce (replicate 16 5) = Inr h \<and> a \<noteq> b \<and> a \<noteq> h"
proof -
  obtain a b h where n: "chunk_nonce (replicate 16 5) 0 = Inr a" "chunk_nonce (replicate 16 5) 1 = Inr b"
    "header_nonce (replicate 16 5) = Inr h"
    by (simp add: chunk_nonce_def header_nonce_def require_length_def NONCE_PREFIX_BYTES_def)
  from nonces_unique [OF n] n show ?thesis by auto
qed

text \<open>The associated data determines the transfer, the role (header or chunk), the chunk index, the chunk
  count and the plaintext size: two calls of \<open>_aad\<close> on values in the 64-bit range that return the same
  bytes had the same arguments, so a header can never pass for a chunk, nor one chunk for another.\<close>

theorem aad_binds:
  assumes "cbor_contract X" and "role \<in> {ROLE_CHUNK, ROLE_HEADER}" and "role' \<in> {ROLE_CHUNK, ROLE_HEADER}"
    and "list_all uint64 [i, cc, n, i', cc', n']"
    and "aad X tid role i cc n = Inr a" and "aad X tid' role' i' cc' n' = Inr a"
  shows "tid = tid' \<and> role = role' \<and> i = i' \<and> cc = cc' \<and> n = n'"
  using assms(5,6) by (intro aad_items_inj [OF assms(1) _ _ assms(2-4)]) (auto simp: aad_def bind_res_eq_Inr)

theorem aad_binds_witness:
  "\<exists>a b. aad ref_ext (replicate 16 1) ROLE_CHUNK 0 2 300000 = Inr a
     \<and> aad ref_ext (replicate 16 1) ROLE_HEADER 0 2 300000 = Inr b \<and> a \<noteq> b"
proof -
  obtain a b where "aad ref_ext (replicate 16 1) ROLE_CHUNK 0 2 300000 = Inr a"
    "aad ref_ext (replicate 16 1) ROLE_HEADER 0 2 300000 = Inr b"
    by (simp add: aad_def require_length_def)
  then show ?thesis
    using aad_binds [of ref_ext ROLE_CHUNK ROLE_HEADER 0 2 300000 0 2 300000 "replicate 16 1" a "replicate 16 1"]
    by (auto simp: uint64_def ROLE_CHUNK_def ROLE_HEADER_def)
qed

text \<open>Sizes are exact: when the sender's chunk loop encrypts a whole file, the ciphertext it produces has
  exactly the size \<open>ciphertext_size\<close> announces for the plaintext, and the receiver's formula
  \<open>sum(chunk sizes) - chunk_count * TAG_BYTES\<close> gives the plaintext size back.\<close>

theorem ciphertext_size_exact:
  assumes "aead_contract X" and "encrypt_chunks X dk np tid (int (length content)) content = Inr cts"
  shows "ciphertext_size (int (length content)) = Inr (int (sum_list (map length cts)))
    \<and> int (sum_list (map length cts)) - int (length cts) * TAG_BYTES = int (length content)"
proof -
  obtain plan where plan: "for_size (int (length content)) CHUNK_SIZE_BYTES = Inr plan"
    and conc: "concat (pieces content (cp_chunk_count plan)) = content"
    and len: "length (pieces content (cp_chunk_count plan)) = nat (cp_chunk_count plan)" "length cts = nat (cp_chunk_count plan)"
    and enc: "\<And>i. i < length cts \<Longrightarrow> encrypt_chunk X dk np tid (int i) (cp_chunk_count plan) (int (length content))
           (pieces content (cp_chunk_count plan) ! i) = Inr (cts ! i)"
    using encrypt_chunks_Inr [OF assms(2)] by metis
  have "sum_list (map length cts) = length content + length cts * 16"
    using sum_lengths_offset [of cts "pieces content (cp_chunk_count plan)" 16] enc len
      length_concat [of "pieces content (cp_chunk_count plan)"]
    by (simp add: conc encrypt_chunk_Inr aead_contractD [OF assms(1)])
  then show ?thesis
    using plan len for_size_count(4) [OF plan] by (simp add: ciphertext_size_def TAG_BYTES_def)
qed

theorem ciphertext_size_exact_witness:
  "\<exists>cts. encrypt_chunks ref_ext (replicate 32 1) (replicate 16 2) (replicate 16 3) 3 [7, 8, 9] = Inr cts
     \<and> ciphertext_size 3 = Inr (int (sum_list (map length cts)))"
proof -
  obtain cts where c: "encrypt_chunks ref_ext (replicate 32 1) (replicate 16 2) (replicate 16 3) (int (length [7, 8, 9 :: byte])) [7, 8, 9] = Inr cts"
    by (simp add: encrypt_chunks_def for_size_def CHUNK_SIZE_BYTES_def bounds_def encrypt_chunk_def chunk_nonce_def
        require_length_def aad_def DATA_KEY_BYTES_def NONCE_PREFIX_BYTES_def Let_def)
  then show ?thesis
    using ciphertext_size_exact [OF _ c] by simp
qed

text \<open>\<open>ct\<close> is \<open>p\<close> sealed under this key, nonce and associated data.\<close>

definition sealed_at :: "ext \<Rightarrow> bytes \<Rightarrow> bytes \<Rightarrow> bytes \<Rightarrow> bytes \<Rightarrow> bytes \<Rightarrow> bool" where
  "sealed_at X key nonce ad p ct \<longleftrightarrow> ct = aead_encrypt X p ad nonce key"

text \<open>C15. A ciphertext belongs to one place. A chunk decrypts to what was encrypted at its place, and whatever
  \<open>decrypt_chunk\<close> or \<open>decrypt_header\<close> returns is a plaintext whose encryption there is the received ciphertext. The place is
  pinned: the two calls give the AEAD a nonce and associated data of their own for every transfer, role, index, chunk count
  and size, so the nonces of two chunks of one file differ, a chunk never has the nonce of the header, and a ciphertext that
  is accepted at another place is one the AEAD accepts under other associated data.\<close>

theorem decrypt_inverts_encrypt:
  assumes "aead_contract X" "cbor_contract X" and "list_all uint64 [cc, n, cc', n']" and "j < cc'" "cc' < 2 ^ 64"
  shows "(encrypt_chunk X dk np tid i cc n p = Inr ct \<longleftrightarrow> decrypt_chunk X dk np tid i cc n ct = Inr p)
    \<and> (encrypt_header X dk np tid cc n p = Inr ct \<longleftrightarrow> decrypt_header X dk np tid cc n ct = Inr p)
    \<and> (decrypt_chunk X dk np tid i cc n ct = Inr p \<and> decrypt_chunk X dk np tid' j cc' n' ct' = Inr p' \<longrightarrow>
        (\<exists>nonce ad nonce' ad'. sealed_at X dk nonce ad p ct \<and> sealed_at X dk nonce' ad' p' ct' \<and> (nonce = nonce' \<longleftrightarrow> i = j)
           \<and> (ad = ad' \<longleftrightarrow> tid = tid' \<and> i = j \<and> cc = cc' \<and> n = n')))
    \<and> (decrypt_header X dk np tid cc n ct = Inr p \<and> decrypt_chunk X dk np tid' j cc' n' ct' = Inr p' \<longrightarrow>
        (\<exists>nonce ad nonce' ad'. sealed_at X dk nonce ad p ct \<and> sealed_at X dk nonce' ad' p' ct' \<and> nonce \<noteq> nonce' \<and> ad \<noteq> ad'))"
proof (intro conjI impI)
  note aead = aead_contractD [OF assms(1)]
  show "encrypt_chunk X dk np tid i cc n p = Inr ct \<longleftrightarrow> decrypt_chunk X dk np tid i cc n ct = Inr p"
    "encrypt_header X dk np tid cc n p = Inr ct \<longleftrightarrow> decrypt_header X dk np tid cc n ct = Inr p"
    using aead by (auto simp: encrypt_chunk_Inr decrypt_chunk_Inr encrypt_header_Inr decrypt_header_Inr)
  have inj: "tid = tid' \<and> role = role' \<and> i = j \<and> cc = cc' \<and> n = n'"
    if "cbor_dumps X (PDict (aad_items tid role i cc n)) = cbor_dumps X (PDict (aad_items tid' role' j cc' n'))"
      "length tid = 16" "length tid' = 16" "role \<in> {ROLE_CHUNK, ROLE_HEADER}" "role' \<in> {ROLE_CHUNK, ROLE_HEADER}" "uint64 i" "uint64 j" for role role' i
    using that assms(3) by (intro aad_items_inj [OF assms(2)]) simp_all
  have roles: "ROLE_CHUNK \<noteq> ROLE_HEADER" by (simp add: ROLE_CHUNK_def ROLE_HEADER_def)
  {
    assume d: "decrypt_chunk X dk np tid i cc n ct = Inr p \<and> decrypt_chunk X dk np tid' j cc' n' ct' = Inr p'"
    then have args: "aead_args dk np tid i" "aead_args dk np tid' j" by (simp_all add: decrypt_chunk_Inr)
    then have u: "uint64 i" "uint64 j" "length tid = 16" "length tid' = 16" "0 \<le> i" "0 \<le> j" "i < 2 ^ 64" "j < 2 ^ 64"
      by (simp_all add: aead_args_def uint64_def)
    have "sealed_at X dk (np @ be_bytes 8 (nat i)) (chunk_aad X tid i cc n) p ct"
      "sealed_at X dk (np @ be_bytes 8 (nat j)) (chunk_aad X tid' j cc' n') p' ct'"
      using d aead(3) by (simp_all add: decrypt_chunk_Inr sealed_at_def)
    moreover have "np @ be_bytes 8 (nat i) = np @ be_bytes 8 (nat j) \<longleftrightarrow> i = j"
      using u by (simp add: be_bytes_8_eq_iff nat_less_iff eq_nat_nat_iff)
    moreover have "chunk_aad X tid i cc n = chunk_aad X tid' j cc' n' \<longleftrightarrow> tid = tid' \<and> i = j \<and> cc = cc' \<and> n = n'"
      using inj [of ROLE_CHUNK i ROLE_CHUNK] u unfolding chunk_aad_def by auto
    ultimately show "\<exists>nonce ad nonce' ad'. sealed_at X dk nonce ad p ct \<and> sealed_at X dk nonce' ad' p' ct' \<and> (nonce = nonce' \<longleftrightarrow> i = j)
           \<and> (ad = ad' \<longleftrightarrow> tid = tid' \<and> i = j \<and> cc = cc' \<and> n = n')" by blast
  next
    assume d: "decrypt_header X dk np tid cc n ct = Inr p \<and> decrypt_chunk X dk np tid' j cc' n' ct' = Inr p'"
    then have u: "uint64 j" "length tid = 16" "length tid' = 16" "0 \<le> j" "j < 2 ^ 64 - 1"
      using assms(4,5) by (auto simp: decrypt_chunk_Inr decrypt_header_Inr aead_args_def uint64_def)
    have "sealed_at X dk (np @ HEADER_NONCE_SUFFIX) (header_aad X tid cc n) p ct"
      "sealed_at X dk (np @ be_bytes 8 (nat j)) (chunk_aad X tid' j cc' n') p' ct'"
      using d aead(3) by (simp_all add: decrypt_chunk_Inr decrypt_header_Inr sealed_at_def)
    moreover have "np @ HEADER_NONCE_SUFFIX \<noteq> np @ be_bytes 8 (nat j)"
      using u by (simp add: header_suffix_be_bytes be_bytes_8_eq_iff nat_less_iff nat_eq_iff)
    moreover have "header_aad X tid cc n \<noteq> chunk_aad X tid' j cc' n'"
      using inj [of ROLE_HEADER 0 ROLE_CHUNK] u roles unfolding chunk_aad_def header_aad_def by (auto simp: uint64_def)
    ultimately show "\<exists>nonce ad nonce' ad'. sealed_at X dk nonce ad p ct \<and> sealed_at X dk nonce' ad' p' ct' \<and> nonce \<noteq> nonce' \<and> ad \<noteq> ad'"
      by blast
  }
qed

theorem decrypt_inverts_encrypt_witness:
  "\<exists>ct ct' nonce ad nonce' ad'. encrypt_chunk ref_ext (replicate 32 1) (replicate 16 2) (replicate 16 3) 0 2 300000 [7, 8, 9] = Inr ct
     \<and> decrypt_chunk ref_ext (replicate 32 1) (replicate 16 2) (replicate 16 3) 0 2 300000 ct = Inr [7, 8, 9]
     \<and> encrypt_chunk ref_ext (replicate 32 1) (replicate 16 2) (replicate 16 3) 1 2 300000 [7] = Inr ct'
     \<and> sealed_at ref_ext (replicate 32 1) nonce ad [7, 8, 9] ct \<and> sealed_at ref_ext (replicate 32 1) nonce' ad' [7] ct' \<and> nonce \<noteq> nonce' \<and> ad \<noteq> ad'"
proof -
  let ?k = "replicate 32 1" and ?p = "replicate 16 2" and ?t = "replicate 16 3"
  obtain ct ct' where c: "encrypt_chunk ref_ext ?k ?p ?t 0 2 300000 [7, 8, 9] = Inr ct" "encrypt_chunk ref_ext ?k ?p ?t 1 2 300000 [7] = Inr ct'"
    by (simp add: encrypt_chunk_Inr aead_args_def)
  have u: "list_all uint64 [2, 300000, 2, 300000]" by (simp add: uint64_def)
  note at = decrypt_inverts_encrypt [OF ref_ext_contracts(4,1) u]
  have "decrypt_chunk ref_ext ?k ?p ?t 0 2 300000 ct = Inr [7, 8, 9]" using c(1) at [of 1 ?k ?p ?t 0 "[7, 8, 9]" ct] by simp
  moreover have "decrypt_chunk ref_ext ?k ?p ?t 1 2 300000 ct' = Inr [7]" using c(2) at [of 1 ?k ?p ?t 1 "[7]" ct'] by simp
  ultimately show ?thesis
    using c at [of 1 ?k ?p ?t 0 "[7, 8, 9]" ct ?t ct' "[7]"] by auto
qed

end
