(* ===== verification/Identity.thy ===== *)
theory Identity
  imports External
begin

text \<open>
  The workspace's MCA principal, \<open>src/meshsrv/attachments/identity.py\<close>: key identifiers, the
  Ed25519-to-X25519 conversions with their length checks, and the one principal a workspace may have,
  kept in the \<open>mca_principal\<close> table with its private seed in a file of the principal's \<open>keys/\<close>
  directory. Hex columns hold the hex text the code writes. The fresh key \<open>SigningKey.generate()\<close>
  draws is the argument \<open>seed\<close>.
\<close>

datatype identity_error =
    IdentityError
  | FileExistsError
  | SodiumError

section \<open>Key identifiers and conversions\<close>

definition IDENTITY_KEY_FILE :: string where "IDENTITY_KEY_FILE = ''identity_ed25519.seed''"

definition compute_key_id :: "ext \<Rightarrow> bytes \<Rightarrow> identity_error + string" where
  "compute_key_id X public_identity =
     (if length public_identity \<noteq> 32 then Inl IdentityError
      else Inr (hex_of (take 8 (sha256 X public_identity))))"

definition compute_fingerprint :: "ext \<Rightarrow> bytes \<Rightarrow> identity_error + string" where
  "compute_fingerprint X public_identity =
     (if length public_identity \<noteq> 32 then Inl IdentityError
      else Inr (hex_of (sha256 X public_identity)))"

definition derive_x25519_public :: "ext \<Rightarrow> bytes \<Rightarrow> identity_error + bytes" where
  "derive_x25519_public X public_identity =
     (if length public_identity \<noteq> 32 then Inl IdentityError
      else case pk_to_curve X public_identity of None \<Rightarrow> Inl SodiumError | Some pk \<Rightarrow> Inr pk)"

definition derive_x25519_private :: "ext \<Rightarrow> bytes \<Rightarrow> identity_error + bytes" where
  "derive_x25519_private X seed =
     (if length seed \<noteq> 32 then Inl IdentityError else Inr (sk_to_curve X seed))"

section \<open>The principal\<close>

record mca_principal =
  mp_workspace_id :: string
  mp_principal_id :: string
  mp_key_id :: string
  mp_epoch :: int
  mp_public_identity :: bytes
  mp_public_x25519 :: bytes
  mp_private_key_file :: string
  mp_created_at :: timestamp
  mp_status :: string

text \<open>A row of \<open>mca_principal\<close> stores both public keys as hex text.\<close>

record principal_row =
  pr_workspace_id :: string
  pr_principal_id :: string
  pr_key_id :: string
  pr_epoch :: int
  pr_public_identity :: string
  pr_public_x25519 :: string
  pr_private_key_file :: string
  pr_status :: string
  pr_created_at :: timestamp

text \<open>The state the module works on: the table, and the seed files under each principal's \<open>keys/\<close>.\<close>

record identity_state =
  is_rows :: "principal_row list"
  is_keys :: "string \<times> string \<rightharpoonup> bytes"

definition row_to_principal :: "principal_row \<Rightarrow> mca_principal option" where
  "row_to_principal row =
     (case (fromhex (pr_public_identity row), fromhex (pr_public_x25519 row)) of
        (Some pid, Some px) \<Rightarrow>
          Some \<lparr>mp_workspace_id = pr_workspace_id row, mp_principal_id = pr_principal_id row,
                mp_key_id = pr_key_id row, mp_epoch = pr_epoch row, mp_public_identity = pid,
                mp_public_x25519 = px, mp_private_key_file = pr_private_key_file row,
                mp_created_at = pr_created_at row, mp_status = pr_status row\<rparr>
      | _ \<Rightarrow> None)"

definition load_principal :: "identity_state \<Rightarrow> string \<Rightarrow> mca_principal option" where
  "load_principal st workspace_id = Option.bind (find_by pr_workspace_id workspace_id (is_rows st)) row_to_principal"

definition create_principal ::
  "ext \<Rightarrow> identity_state \<Rightarrow> string \<Rightarrow> bytes \<Rightarrow> timestamp \<Rightarrow> identity_error + identity_state \<times> mca_principal" where
  "create_principal X st workspace_id seed now =
     (if load_principal st workspace_id \<noteq> None then Inl IdentityError
      else let public_identity = ed_public X seed in
        bind_res (derive_x25519_public X public_identity) (\<lambda>public_x25519.
        bind_res (compute_key_id X public_identity) (\<lambda>key_id.
        if is_keys st (key_id, IDENTITY_KEY_FILE) \<noteq> None then Inl FileExistsError
        else Inr
          (\<lparr>is_rows = is_rows st @
             [\<lparr>pr_workspace_id = workspace_id, pr_principal_id = key_id, pr_key_id = key_id, pr_epoch = 0,
               pr_public_identity = hex_of public_identity, pr_public_x25519 = hex_of public_x25519,
               pr_private_key_file = IDENTITY_KEY_FILE, pr_status = ''ACTIVE'', pr_created_at = now\<rparr>],
            is_keys = (is_keys st)((key_id, IDENTITY_KEY_FILE) \<mapsto> seed)\<rparr>,
           \<lparr>mp_workspace_id = workspace_id, mp_principal_id = key_id, mp_key_id = key_id, mp_epoch = 0,
            mp_public_identity = public_identity, mp_public_x25519 = public_x25519,
            mp_private_key_file = IDENTITY_KEY_FILE, mp_created_at = now, mp_status = ''ACTIVE''\<rparr>))))"

definition ensure_principal ::
  "ext \<Rightarrow> identity_state \<Rightarrow> string \<Rightarrow> bytes \<Rightarrow> timestamp \<Rightarrow> identity_error + identity_state \<times> mca_principal" where
  "ensure_principal X st workspace_id seed now =
     (case load_principal st workspace_id of
        Some p \<Rightarrow> Inr (st, p)
      | None \<Rightarrow> create_principal X st workspace_id seed now)"

definition load_signing_key :: "ext \<Rightarrow> identity_state \<Rightarrow> mca_principal \<Rightarrow> identity_error + bytes" where
  "load_signing_key X st pr =
     (case is_keys st (mp_principal_id pr, mp_private_key_file pr) of
        None \<Rightarrow> Inl IdentityError
      | Some seed \<Rightarrow>
          if length seed \<noteq> 32 then Inl IdentityError
          else if ed_public X seed \<noteq> mp_public_identity pr then Inl IdentityError
          else Inr seed)"

section \<open>Lemmas\<close>

lemma compute_key_id_Inr:
  "compute_key_id X pk = Inr k \<longleftrightarrow> length pk = 32 \<and> k = hex_of (take 8 (sha256 X pk))"
  by (auto simp: compute_key_id_def)

lemma load_signing_key_Inr:
  "load_signing_key X st p = Inr sk \<longleftrightarrow>
     is_keys st (mp_principal_id p, mp_private_key_file p) = Some sk \<and> length sk = 32
     \<and> ed_public X sk = mp_public_identity p"
  by (auto simp: load_signing_key_def split: option.splits if_splits)

text \<open>What the table holds in every state these operations reach.\<close>

definition identity_ok :: "ext \<Rightarrow> identity_state \<Rightarrow> bool" where
  "identity_ok X st \<longleftrightarrow> distinct (map pr_workspace_id (is_rows st))
     \<and> (\<forall>r \<in> set (is_rows st). \<exists>p sk. row_to_principal r = Some p \<and> load_signing_key X st p = Inr sk
          \<and> compute_key_id X (mp_public_identity p) = Inr (mp_key_id p))"

lemma load_principal_None:
  assumes "identity_ok X st"
  shows "load_principal st w = None \<longleftrightarrow> w \<notin> pr_workspace_id ` set (is_rows st)"
proof -
  have "row_to_principal r \<noteq> None" if "find_by pr_workspace_id w (is_rows st) = Some r" for r
    using assms find_by_Some [OF that] by (auto simp: identity_ok_def)
  then show ?thesis
    by (auto simp: load_principal_def find_by_None [symmetric] split: bind_splits)
qed

lemma create_principal_Inr:
  assumes "create_principal X st w seed now = Inr (st', p)"
  obtains pkx kid where "load_principal st w = None" and "derive_x25519_public X (ed_public X seed) = Inr pkx"
    and "compute_key_id X (ed_public X seed) = Inr kid" and "is_keys st (kid, IDENTITY_KEY_FILE) = None"
    and "mp_public_identity p = ed_public X seed" and "mp_key_id p = kid" and "mp_principal_id p = kid"
    and "mp_private_key_file p = IDENTITY_KEY_FILE"
    and "\<exists>r. is_rows st' = is_rows st @ [r] \<and> pr_workspace_id r = w \<and> row_to_principal r = Some p"
    and "is_keys st' = (is_keys st)((kid, IDENTITY_KEY_FILE) \<mapsto> seed)"
  using assms
  by (auto simp: create_principal_def Let_def bind_res_eq_Inr row_to_principal_def split: if_splits)

text \<open>A workspace gets exactly one principal: from a consistent state, \<open>ensure_principal\<close> returns the stored
  principal unchanged when there is one and otherwise mints it; afterwards the table still has at most
  one row per workspace, every row's seed file matches its public identity, a second call returns the
  same principal and changes nothing, and \<open>load_signing_key\<close> yields a key whose public half is it.\<close>

theorem ensure_principal_once:
  assumes "identity_ok X st" and "length seed = 32" and "ensure_principal X st w seed now = Inr (st', p)"
  shows "identity_ok X st' \<and> load_principal st' w = Some p
     \<and> ensure_principal X st' w seed' now' = Inr (st', p)
     \<and> (\<exists>sk. load_signing_key X st' p = Inr sk \<and> ed_public X sk = mp_public_identity p)
     \<and> compute_key_id X (mp_public_identity p) = Inr (mp_key_id p)
     \<and> (load_principal st w = Some p \<and> st' = st \<or> load_principal st w = None \<and> mp_public_identity p = ed_public X seed)"
proof (cases "load_principal st w")
  case (Some q)
  then have q: "st' = st" "p = q"
    using assms(3) by (auto simp: ensure_principal_def)
  obtain r where "find_by pr_workspace_id w (is_rows st) = Some r" "row_to_principal r = Some q"
    using Some by (auto simp: load_principal_def bind_eq_Some_iff)
  then show ?thesis
    using assms(1) q Some find_by_Some [of pr_workspace_id w "is_rows st" r]
    by (fastforce simp: identity_ok_def ensure_principal_def load_signing_key_Inr)
next
  case None
  then have "create_principal X st w seed now = Inr (st', p)"
    using assms(3) by (simp add: ensure_principal_def)
  then obtain pkx kid r where fresh: "is_keys st (kid, IDENTITY_KEY_FILE) = None"
    and kid: "compute_key_id X (ed_public X seed) = Inr kid"
    and p: "mp_public_identity p = ed_public X seed" "mp_key_id p = kid" "mp_principal_id p = kid"
      "mp_private_key_file p = IDENTITY_KEY_FILE"
    and rows: "is_rows st' = is_rows st @ [r]" "pr_workspace_id r = w" "row_to_principal r = Some p"
    and keys: "is_keys st' = (is_keys st)((kid, IDENTITY_KEY_FILE) \<mapsto> seed)"
    by (elim create_principal_Inr) blast
  have w: "w \<notin> pr_workspace_id ` set (is_rows st)"
    using None load_principal_None [OF assms(1)] by blast
  have old: "load_signing_key X st q = Inr sk \<Longrightarrow> load_signing_key X st' q = Inr sk" for q sk
    using fresh by (auto simp: load_signing_key_Inr keys)
  have new: "load_signing_key X st' p = Inr seed"
    using assms(2) p by (simp add: load_signing_key_Inr keys)
  have "identity_ok X st'"
    unfolding identity_ok_def rows(1)
  proof (intro conjI ballI)
    show "distinct (map pr_workspace_id (is_rows st @ [r]))"
      using assms(1) w rows(2) by (simp add: identity_ok_def)
    fix s assume "s \<in> set (is_rows st @ [r])"
    then show "\<exists>p sk. row_to_principal s = Some p \<and> load_signing_key X st' p = Inr sk
        \<and> compute_key_id X (mp_public_identity p) = Inr (mp_key_id p)"
      using assms(1) old new rows(3) p kid by (fastforce simp: identity_ok_def)
  qed
  moreover have "load_principal st' w = Some p"
    using w rows by (simp add: load_principal_def find_by_append find_by_None [THEN iffD2])
  ultimately show ?thesis
    using None new p kid by (simp add: ensure_principal_def load_signing_key_Inr)
qed

theorem ensure_principal_once_witness:
  "\<exists>st' p. ensure_principal ref_ext \<lparr>is_rows = [], is_keys = Map.empty\<rparr> ''w'' (replicate 32 7) 0 = Inr (st', p)
     \<and> identity_ok ref_ext st' \<and> load_principal st' ''w'' = Some p"
proof -
  let ?st = "\<lparr>is_rows = [], is_keys = Map.empty\<rparr>"
  obtain st' p where e: "ensure_principal ref_ext ?st ''w'' (replicate 32 7) 0 = Inr (st', p)"
    by (simp add: ensure_principal_def load_principal_def create_principal_def derive_x25519_public_def
        compute_key_id_def ref_ext_def Let_def)
  have "identity_ok ref_ext ?st"
    by (simp add: identity_ok_def)
  from ensure_principal_once [OF this _ e] e show ?thesis by simp
qed

end
