(* ===== verification/Py_Convert.thy ===== *)
theory Py_Convert
  imports External
begin

text \<open>
  What Python's subscripting and the constructors \<open>int\<close>, \<open>bytes\<close> and \<open>str\<close> do on the objects \<open>cbor2\<close>
  returns, with the exception each one raises. These run on untrusted manifest contents, so every
  case counts: \<open>bytes(5)\<close> is five zero bytes, \<open>bytes({1: 2})\<close> is its keys, \<open>int(b' 12 ')\<close> is 12. The objects
  \<open>cbor2\<close> builds from tags other than numbers (\<open>UUID\<close>, \<open>set\<close>, an e-mail message, ...) have conversions of their own, which
  are parameters. \<open>bytes(n)\<close> and \<open>int\<close> of a \<open>Decimal\<close> with a large exponent need memory their argument does not have, and
  raise \<open>MemoryError\<close> without it.
\<close>

section \<open>Subscripting\<close>

definition py_index :: "'a list \<Rightarrow> int \<Rightarrow> py_exc + 'a" where
  "py_index xs i =
     (let j = (if i < 0 then i + int (length xs) else i) in
      if 0 \<le> j \<and> j < int (length xs) then Inr (xs ! nat j) else Inl PyIndexError)"

definition dict_index :: "(pyval \<times> pyval) list \<Rightarrow> int \<Rightarrow> py_exc + pyval" where
  "dict_index d k = (case dict_get d k of None \<Rightarrow> Inl PyKeyError | Some v \<Rightarrow> Inr v)"

fun py_getitem :: "ext \<Rightarrow> pyval \<Rightarrow> int \<Rightarrow> py_exc + pyval" where
  "py_getitem X (PDict d) k = dict_index d k"
| "py_getitem X (PList vs) k = py_index vs k"
| "py_getitem X (PBytes b) k = bind_res (py_index b k) (\<lambda>x. Inr (PInt (uint x)))"
| "py_getitem X (PStr s) k = bind_res (py_index s k) (\<lambda>c. Inr (PStr [c]))"
| "py_getitem X (POther q n) k = other_item X (POther q n) k"
| "py_getitem X _ k = Inl PyTypeError"

section \<open>Integers\<close>

text \<open>\<open>int(text)\<close>: surrounding whitespace, an optional sign, decimal digits with single underscores between
  them; more than 4300 digits is a \<open>ValueError\<close> too.\<close>

definition py_space :: "char \<Rightarrow> bool" where
  "py_space c = (let n = of_char c :: nat in (9 \<le> n \<and> n \<le> 13) \<or> (28 \<le> n \<and> n \<le> 32))"

definition py_strip :: "string \<Rightarrow> string" where
  "py_strip s = rev (dropWhile py_space (rev (dropWhile py_space s)))"

definition digit_value :: "char \<Rightarrow> nat option" where
  "digit_value c = (let n = of_char c :: nat in if 48 \<le> n \<and> n \<le> 57 then Some (n - 48) else None)"

fun int_digits :: "nat \<Rightarrow> nat \<Rightarrow> bool \<Rightarrow> string \<Rightarrow> nat option" where
  "int_digits acc count after_digit [] = (if after_digit \<and> count \<le> 4300 then Some acc else None)"
| "int_digits acc count after_digit (c # cs) =
     (if c = CHR ''_'' then (if after_digit then int_digits acc count False cs else None)
      else case digit_value c of
             None \<Rightarrow> None
           | Some d \<Rightarrow> int_digits (10 * acc + d) (count + 1) True cs)"

definition int_of_text :: "string \<Rightarrow> py_exc + int" where
  "int_of_text s =
     (let t = py_strip s;
          r = (case t of
                 c # cs \<Rightarrow> if c = CHR ''-'' then map_option (\<lambda>n. - int n) (int_digits 0 0 False cs)
                          else if c = CHR ''+'' then map_option int (int_digits 0 0 False cs)
                          else map_option int (int_digits 0 0 False t)
               | [] \<Rightarrow> None)
      in case r of None \<Rightarrow> Inl PyValueError | Some i \<Rightarrow> Inr i)"

definition rat_trunc :: "rat \<Rightarrow> int" where
  "rat_trunc q = (if 0 \<le> q then \<lfloor>q\<rfloor> else \<lceil>q\<rceil>)"

fun py_int :: "ext \<Rightarrow> pyval \<Rightarrow> py_exc + int" where
  "py_int X (PInt i) = Inr i"
| "py_int X (PBool b) = Inr (if b then 1 else 0)"
| "py_int X (PNum q) = (if py_room X (PNum q) then Inr (rat_trunc q) else Inl PyMemoryError)"
| "py_int X (PStr s) = int_of_text s"
| "py_int X (PBytes b) = int_of_text (map (\<lambda>x. char_of (unat x)) b)"
| "py_int X PInf = Inl PyOverflowError"
| "py_int X PNaN = Inl PyValueError"
| "py_int X (POther q n) = other_int X (POther q n)"
| "py_int X _ = Inl PyTypeError"

section \<open>Bytes and text\<close>

text \<open>One element of an iterable given to \<open>bytes\<close>.\<close>

definition byte_of_element :: "ext \<Rightarrow> pyval \<Rightarrow> py_exc + byte" where
  "byte_of_element X v =
     bind_res (case v of PInt i \<Rightarrow> Inr i | PBool b \<Rightarrow> Inr (if b then 1 else 0) | POther q n \<Rightarrow> other_index X v | _ \<Rightarrow> Inl PyTypeError)
       (\<lambda>i. if 0 \<le> i \<and> i < 256 then Inr (of_int i) else Inl PyValueError)"

definition zero_bytes :: "ext \<Rightarrow> int \<Rightarrow> py_exc + bytes" where
  "zero_bytes X n =
     (if 2 ^ 63 \<le> n \<or> n < - (2 ^ 63) then Inl PyOverflowError
      else if n < 0 then Inl PyValueError
      else if \<not> py_room X (PInt n) then Inl PyMemoryError
      else Inr (replicate (nat n) 0))"

fun py_bytes :: "ext \<Rightarrow> pyval \<Rightarrow> py_exc + bytes" where
  "py_bytes X (PBytes b) = Inr b"
| "py_bytes X (PInt n) = zero_bytes X n"
| "py_bytes X (PBool b) = zero_bytes X (if b then 1 else 0)"
| "py_bytes X (PList vs) = traverse_res (byte_of_element X) vs"
| "py_bytes X (PDict d) = traverse_res (byte_of_element X) (map fst d)"
| "py_bytes X (POther q n) = other_bytes X (POther q n)"
| "py_bytes X _ = Inl PyTypeError"

definition py_str :: "ext \<Rightarrow> pyval \<Rightarrow> py_exc + string" where
  "py_str X v =
     (case v of PStr s \<Rightarrow> Inr s | _ \<Rightarrow> py_repr X v)"

lemma py_str_PStr [simp]: "py_str X (PStr s) = Inr s"
  by (simp add: py_str_def)

end
