(* ===== verification/Manifest.thy ===== *)
theory Manifest
  imports Crypto Identity Py_Convert
begin

text \<open>
  The manifest blob, \<open>src/meshsrv/attachments/manifest.py\<close>: the encrypted header, the sealed recipient
  envelopes, and the canonical-CBOR blob that carries both. \<open>Escaped e\<close> stands for a Python exception
  the module's \<open>except (KeyError, TypeError, ValueError)\<close> clauses do not catch.
\<close>

datatype manifest_error =
    ManifestError
  | Escaped py_exc
  | FromCrypto crypto_error
  | FromIdentity identity_error

text \<open>The handler the three decoders share. \<open>ManifestError\<close> is itself a \<open>ValueError\<close>.\<close>

fun catch_malformed :: "py_exc + 'a \<Rightarrow> manifest_error + 'a" where
  "catch_malformed (Inr x) = Inr x"
| "catch_malformed (Inl PyKeyError) = Inl ManifestError"
| "catch_malformed (Inl PyTypeError) = Inl ManifestError"
| "catch_malformed (Inl PyValueError) = Inl ManifestError"
| "catch_malformed (Inl PyIndexError) = Inl (Escaped PyIndexError)"
| "catch_malformed (Inl PyOverflowError) = Inl (Escaped PyOverflowError)"
| "catch_malformed (Inl PyMemoryError) = Inl (Escaped PyMemoryError)"
| "catch_malformed (Inl (PyRaised c)) = Inl (Escaped (PyRaised c))"

definition MANIFEST_VERSION :: int where "MANIFEST_VERSION = 1"

section \<open>Header\<close>

record manifest_header =
  mh_file_name :: string
  mh_mime_type :: string
  mh_plain_size :: int
  mh_plain_sha256 :: bytes
  mh_chunk_count :: int
  mh_comment :: "string option"

definition header_items :: "manifest_header \<Rightarrow> (pyval \<times> pyval) list" where
  "header_items h =
     [(PInt 0, PStr (mh_file_name h)), (PInt 1, PStr (mh_mime_type h)), (PInt 2, PInt (mh_plain_size h)),
      (PInt 3, PBytes (mh_plain_sha256 h)), (PInt 4, PInt (mh_chunk_count h))]
     @ (case mh_comment h of None \<Rightarrow> [] | Some c \<Rightarrow> [(PInt 5, PStr c)])"

definition encode_header :: "ext \<Rightarrow> manifest_header \<Rightarrow> manifest_error + bytes" where
  "encode_header X h =
     (if length (mh_plain_sha256 h) \<noteq> 32 then Inl ManifestError
      else Inr (cbor_dumps X (PDict (header_items h))))"

definition load_dict :: "ext \<Rightarrow> bytes \<Rightarrow> manifest_error + (pyval \<times> pyval) list" where
  "load_dict X raw =
     (case cbor_load X raw of
        None \<Rightarrow> Inl ManifestError
      | Some v \<Rightarrow> (case v of PDict obj \<Rightarrow> Inr obj | _ \<Rightarrow> Inl ManifestError))"

definition decode_header :: "ext \<Rightarrow> bytes \<Rightarrow> manifest_error + manifest_header" where
  "decode_header X raw =
     bind_res (load_dict X raw) (\<lambda>obj. catch_malformed (
       bind_res (bind_res (dict_index obj 0) (py_str X)) (\<lambda>file_name.
       bind_res (bind_res (dict_index obj 1) (py_str X)) (\<lambda>mime_type.
       bind_res (bind_res (dict_index obj 2) (py_int X)) (\<lambda>plain_size.
       bind_res (bind_res (dict_index obj 3) (py_bytes X)) (\<lambda>plain_sha256.
       bind_res (bind_res (dict_index obj 4) (py_int X)) (\<lambda>chunk_count.
       bind_res (case dict_get obj 5 of None \<Rightarrow> Inr None
                 | Some v \<Rightarrow> bind_res (py_str X v) (\<lambda>s. Inr (Some s))) (\<lambda>comment.
       Inr \<lparr>mh_file_name = file_name, mh_mime_type = mime_type, mh_plain_size = plain_size,
            mh_plain_sha256 = plain_sha256, mh_chunk_count = chunk_count, mh_comment = comment\<rparr>))))))))"

section \<open>Recipient envelopes\<close>

record recipient_secret =
  rs_data_key :: bytes
  rs_nonce_prefix :: bytes
  rs_receipt_secret :: bytes
  rs_chunk_count :: int

record recipient_envelope =
  re_recipient_key_id :: bytes
  re_sealed_envelope :: bytes

definition secret_items :: "recipient_secret \<Rightarrow> (pyval \<times> pyval) list" where
  "secret_items s =
     [(PInt 0, PBytes (rs_data_key s)), (PInt 1, PBytes (rs_nonce_prefix s)),
      (PInt 2, PBytes (rs_receipt_secret s)), (PInt 3, PInt (rs_chunk_count s))]"

definition encode_recipient_secret :: "ext \<Rightarrow> recipient_secret \<Rightarrow> manifest_error + bytes" where
  "encode_recipient_secret X s =
     (if length (rs_data_key s) \<noteq> DATA_KEY_BYTES then Inl ManifestError
      else if length (rs_nonce_prefix s) \<noteq> NONCE_PREFIX_BYTES then Inl ManifestError
      else if length (rs_receipt_secret s) \<noteq> 32 then Inl ManifestError
      else Inr (cbor_dumps X (PDict (secret_items s))))"

definition decode_recipient_secret :: "ext \<Rightarrow> bytes \<Rightarrow> manifest_error + recipient_secret" where
  "decode_recipient_secret X raw =
     bind_res (load_dict X raw) (\<lambda>obj. catch_malformed (
       bind_res (bind_res (dict_index obj 0) (py_bytes X)) (\<lambda>data_key.
       bind_res (bind_res (dict_index obj 1) (py_bytes X)) (\<lambda>nonce_prefix.
       bind_res (bind_res (dict_index obj 2) (py_bytes X)) (\<lambda>receipt_secret.
       bind_res (bind_res (dict_index obj 3) (py_int X)) (\<lambda>chunk_count.
       Inr \<lparr>rs_data_key = data_key, rs_nonce_prefix = nonce_prefix,
            rs_receipt_secret = receipt_secret, rs_chunk_count = chunk_count\<rparr>))))))"

text \<open>\<open>r\<close> is the ephemeral randomness of the sealed box.\<close>

definition seal_recipient_secret :: "ext \<Rightarrow> recipient_secret \<Rightarrow> bytes \<Rightarrow> bytes \<Rightarrow> manifest_error + bytes" where
  "seal_recipient_secret X s recipient_public_identity r =
     (case derive_x25519_public X recipient_public_identity of
        Inl e \<Rightarrow> Inl (FromIdentity e)
      | Inr x25519_public \<Rightarrow>
          bind_res (encode_recipient_secret X s) (\<lambda>p. Inr (sealed_box X x25519_public p r)))"

definition open_recipient_secret :: "ext \<Rightarrow> bytes \<Rightarrow> bytes \<Rightarrow> manifest_error + recipient_secret" where
  "open_recipient_secret X sealed recipient_signing_key =
     (case derive_x25519_private X recipient_signing_key of
        Inl e \<Rightarrow> Inl (FromIdentity e)
      | Inr x25519_private \<Rightarrow>
          (case sealed_open X x25519_private sealed of
             None \<Rightarrow> Inl ManifestError
           | Some plaintext \<Rightarrow> decode_recipient_secret X plaintext))"

section \<open>The blob\<close>

definition blob_items :: "bytes \<Rightarrow> bytes \<Rightarrow> bytes \<Rightarrow> recipient_envelope list \<Rightarrow> (pyval \<times> pyval) list" where
  "blob_items transfer_id nonce header_ciphertext recipients =
     [(PInt 0, PInt MANIFEST_VERSION), (PInt 1, PBytes transfer_id),
      (PInt 2, PDict [(PInt 0, PBytes nonce), (PInt 1, PBytes header_ciphertext)]),
      (PInt 3, PList (map (\<lambda>r. PDict [(PInt 0, PBytes (re_recipient_key_id r)),
                                      (PInt 1, PBytes (re_sealed_envelope r))]) recipients))]"

definition build_manifest_blob ::
  "ext \<Rightarrow> bytes \<Rightarrow> bytes \<Rightarrow> bytes \<Rightarrow> manifest_header \<Rightarrow> recipient_envelope list \<Rightarrow> manifest_error + bytes" where
  "build_manifest_blob X transfer_id data_key nonce_prefix header recipients =
     (if length transfer_id \<noteq> 16 then Inl ManifestError
      else if recipients = [] then Inl ManifestError
      else bind_res (encode_header X header) (\<lambda>header_plaintext.
        case encrypt_header X data_key nonce_prefix transfer_id (mh_chunk_count header)
               (mh_plain_size header) header_plaintext of
          Inl e \<Rightarrow> Inl (FromCrypto e)
        | Inr header_ciphertext \<Rightarrow>
            (case header_nonce nonce_prefix of
               Inl e \<Rightarrow> Inl (FromCrypto e)
             | Inr nonce \<Rightarrow> Inr (cbor_dumps X (PDict (blob_items transfer_id nonce header_ciphertext recipients))))))"

record parsed_manifest_blob =
  pb_version :: int
  pb_transfer_id :: bytes
  pb_header_nonce :: bytes
  pb_header_ciphertext :: bytes
  pb_recipients :: "recipient_envelope list"

definition parse_recipient :: "ext \<Rightarrow> pyval \<Rightarrow> py_exc + recipient_envelope" where
  "parse_recipient X r =
     bind_res (bind_res (py_getitem X r 0) (py_bytes X)) (\<lambda>recipient_key_id.
     bind_res (bind_res (py_getitem X r 1) (py_bytes X)) (\<lambda>sealed_envelope.
     Inr \<lparr>re_recipient_key_id = recipient_key_id, re_sealed_envelope = sealed_envelope\<rparr>))"

definition parse_manifest_blob :: "ext \<Rightarrow> bytes \<Rightarrow> manifest_error + parsed_manifest_blob" where
  "parse_manifest_blob X raw =
     bind_res (load_dict X raw) (\<lambda>obj.
     bind_res (catch_malformed (
       bind_res (bind_res (dict_index obj 0) (py_int X)) (\<lambda>version.
       bind_res (bind_res (dict_index obj 1) (py_bytes X)) (\<lambda>transfer_id.
       bind_res (dict_index obj 2) (\<lambda>encrypted_header.
       bind_res (bind_res (py_getitem X encrypted_header 0) (py_bytes X)) (\<lambda>nonce.
       bind_res (bind_res (py_getitem X encrypted_header 1) (py_bytes X)) (\<lambda>header_ciphertext.
       bind_res (dict_index obj 3) (\<lambda>recipients_raw.
       bind_res (case recipients_raw of
                   PList rs \<Rightarrow> if rs = [] then Inl PyValueError else traverse_res (parse_recipient X) rs
                 | _ \<Rightarrow> Inl PyValueError) (\<lambda>recipients.
       Inr \<lparr>pb_version = version, pb_transfer_id = transfer_id, pb_header_nonce = nonce,
            pb_header_ciphertext = header_ciphertext, pb_recipients = recipients\<rparr>))))))))) (\<lambda>parsed.
     if pb_version parsed \<noteq> MANIFEST_VERSION then Inl ManifestError
     else if length (pb_transfer_id parsed) \<noteq> 16 then Inl ManifestError
     else Inr parsed))"

definition decrypt_manifest_header ::
  "ext \<Rightarrow> parsed_manifest_blob \<Rightarrow> bytes \<Rightarrow> bytes \<Rightarrow> int \<Rightarrow> int \<Rightarrow> manifest_error + manifest_header" where
  "decrypt_manifest_header X parsed data_key nonce_prefix chunk_count plain_size =
     (case decrypt_header X data_key nonce_prefix (pb_transfer_id parsed) chunk_count plain_size
             (pb_header_ciphertext parsed) of
        Inl e \<Rightarrow> Inl ManifestError
      | Inr plaintext \<Rightarrow> decode_header X plaintext)"

definition find_recipient_envelope :: "parsed_manifest_blob \<Rightarrow> bytes \<Rightarrow> manifest_error + recipient_envelope" where
  "find_recipient_envelope parsed recipient_key_id =
     (case find_by re_recipient_key_id recipient_key_id (pb_recipients parsed) of
        None \<Rightarrow> Inl ManifestError
      | Some entry \<Rightarrow> Inr entry)"

section \<open>Lemmas\<close>

text \<open>Values inside the fragment \<open>cbor2\<close> round trips: ASCII text of moderate length, 64-bit sizes.\<close>

definition header_plain :: "manifest_header \<Rightarrow> bool" where
  "header_plain h \<longleftrightarrow> ascii_text (mh_file_name h) \<and> ascii_text (mh_mime_type h)
     \<and> (\<forall>c. mh_comment h = Some c \<longrightarrow> ascii_text c \<and> length c < 2 ^ 32)
     \<and> length (mh_file_name h) < 2 ^ 32 \<and> length (mh_mime_type h) < 2 ^ 32
     \<and> uint64 (mh_plain_size h) \<and> uint64 (mh_chunk_count h)"

definition envelope_plain :: "recipient_envelope \<Rightarrow> bool" where
  "envelope_plain e \<longleftrightarrow> length (re_recipient_key_id e) < 2 ^ 64 \<and> length (re_sealed_envelope e) < 2 ^ 64"

lemma head_size_le [simp]: "head_size n \<le> 9"
  by (simp add: head_size_def)

lemma header_items_plain:
  assumes "header_plain h" and "length (mh_plain_sha256 h) = 32"
  shows "cbor_plain (PDict (header_items h))"
  using assms by (auto simp: header_plain_def header_items_def uint64_def int_key_def split: option.splits)

lemma header_items_size:
  assumes "header_plain h" and "length (mh_plain_sha256 h) = 32"
  shows "cbor_size (PDict (header_items h)) + 16 < 2 ^ 64"
proof -
  let ?comment = "case mh_comment h of None \<Rightarrow> 0 | Some c \<Rightarrow> 18 + length c"
  have "cbor_size (PDict (header_items h)) \<le> 150 + length (mh_file_name h) + length (mh_mime_type h) + ?comment"
    using assms(2) head_size_le [of 0] head_size_le [of 1] head_size_le [of 2] head_size_le [of 3] head_size_le [of 4]
      head_size_le [of 5] head_size_le [of "Suc (Suc (Suc (Suc (Suc 0))))"]
      head_size_le [of "Suc (Suc (Suc (Suc (Suc (Suc 0)))))"] head_size_le [of 32] head_size_le [of "length (mh_file_name h)"]
      head_size_le [of "length (mh_mime_type h)"] head_size_le [of "nat (mh_plain_size h)"]
      head_size_le [of "nat (mh_chunk_count h)"] head_size_le [of "length (the (mh_comment h))"]
    by (cases "mh_comment h") (simp_all add: header_items_def del: head_size_le)
  moreover have "?comment < 2 ^ 33"
    using assms(1) by (auto simp: header_plain_def split: option.splits)
  moreover have "length (mh_file_name h) < 2 ^ 32" "length (mh_mime_type h) < 2 ^ 32"
    using assms(1) by (simp_all add: header_plain_def)
  ultimately show ?thesis
    by simp
qed

lemma decode_encode_header:
  assumes "cbor_contract X" and "header_plain h" and "encode_header X h = Inr raw"
  shows "decode_header X raw = Inr h" and "length raw + 16 < 2 ^ 64"
proof -
  have r: "raw = cbor_dumps X (PDict (header_items h))" "length (mh_plain_sha256 h) = 32"
    using assms(3) by (auto simp: encode_header_def split: if_splits)
  note c = cbor_contractD [OF assms(1) header_items_plain [OF assms(2) r(2)]]
  show "length raw + 16 < 2 ^ 64"
    using header_items_size [OF assms(2) r(2)] c(2) r(1) by simp
  show "decode_header X raw = Inr h"
    by (simp add: decode_header_def load_dict_def r(1) c(1))
      (simp add: header_items_def dict_index_def split: option.split)
qed

lemma decode_encode_secret:
  assumes "cbor_contract X" and "uint64 (rs_chunk_count s)" and "encode_recipient_secret X s = Inr raw"
  shows "decode_recipient_secret X raw = Inr s"
proof -
  have r: "raw = cbor_dumps X (PDict (secret_items s))" "length (rs_data_key s) = 32"
    "length (rs_nonce_prefix s) = 16" "length (rs_receipt_secret s) = 32"
    using assms(3) by (auto simp: encode_recipient_secret_def DATA_KEY_BYTES_def NONCE_PREFIX_BYTES_def split: if_splits)
  have "cbor_plain (PDict (secret_items s))"
    using assms(2) r by (simp add: secret_items_def uint64_def int_key_def)
  then show ?thesis
    by (simp add: decode_recipient_secret_def load_dict_def r(1) cbor_contractD [OF assms(1)])
      (simp add: secret_items_def dict_index_def)
qed

lemma open_seal:
  assumes "cbor_contract X" and "sealed_contract X" and "length sk = 32" and "uint64 (rs_chunk_count s)"
    and "seal_recipient_secret X s (ed_public X sk) r = Inr sealed"
  shows "open_recipient_secret X sealed sk = Inr s"
proof -
  obtain pk where pk: "pk_to_curve X (ed_public X sk) = Some pk"
    "\<And>p r. sealed_open X (sk_to_curve X sk) (sealed_box X pk p r) = Some p"
    using sealed_contractD [OF assms(2,3)] by blast
  obtain p where "encode_recipient_secret X s = Inr p" "sealed = sealed_box X pk p r"
    using assms(5) sealed_contractD(1) [OF assms(2,3)]
    by (auto simp: seal_recipient_secret_def derive_x25519_public_def pk(1) bind_res_eq_Inr)
  then show ?thesis
    using decode_encode_secret [OF assms(1,4)] assms(3)
    by (simp add: open_recipient_secret_def derive_x25519_private_def pk(2))
qed

lemma parse_recipients:
  "traverse_res (parse_recipient X) (map (\<lambda>r. PDict [(PInt 0, PBytes (re_recipient_key_id r)),
     (PInt 1, PBytes (re_sealed_envelope r))]) rs) = Inr rs"
  by (induction rs) (simp_all add: parse_recipient_def dict_index_def)

lemma parse_built:
  assumes "cbor_contract X" and "length tid = 16" and "length nonce < 2 ^ 64" and "length ct < 2 ^ 64"
    and "rs \<noteq> []" and "length rs < 2 ^ 64" and "list_all envelope_plain rs"
  shows "parse_manifest_blob X (cbor_dumps X (PDict (blob_items tid nonce ct rs)))
    = Inr \<lparr>pb_version = 1, pb_transfer_id = tid, pb_header_nonce = nonce, pb_header_ciphertext = ct, pb_recipients = rs\<rparr>"
proof -
  have "cbor_plain (PDict (blob_items tid nonce ct rs))"
    using assms by (auto simp: blob_items_def uint64_def int_key_def MANIFEST_VERSION_def list_all_iff envelope_plain_def)
  then have "load_dict X (cbor_dumps X (PDict (blob_items tid nonce ct rs))) = Inr (blob_items tid nonce ct rs)"
    by (simp add: load_dict_def cbor_contractD [OF assms(1)])
  then show ?thesis
    using assms(2,5) by (simp add: parse_manifest_blob_def)
      (simp add: blob_items_def dict_index_def parse_recipients MANIFEST_VERSION_def)
qed

end
