(* ===== verification/Manifest_Properties.thy ===== *)
theory Manifest_Properties
  imports Manifest
begin

text \<open>
  The manifest as the two ends use it: what the sender builds, each addressed recipient can open, and
  which exceptions the decoders let through.
\<close>

lemma manifest_opens:
  assumes "cbor_contract X" and "aead_contract X" and "sealed_contract X" and "length sk = 32"
    and "header_plain h" and "uint64 (rs_chunk_count s)"
    and "seal_recipient_secret X s (ed_public X sk) r = Inr sealed"
    and "list_all envelope_plain rs" and "length rs < 2 ^ 64"
    and "find_by re_recipient_key_id kid rs = Some \<lparr>re_recipient_key_id = kid, re_sealed_envelope = sealed\<rparr>"
    and "build_manifest_blob X tid (rs_data_key s) (rs_nonce_prefix s) h rs = Inr blob"
  shows "\<exists>parsed env. parse_manifest_blob X blob = Inr parsed \<and> pb_transfer_id parsed = tid
     \<and> find_recipient_envelope parsed kid = Inr env
     \<and> open_recipient_secret X (re_sealed_envelope env) sk = Inr s
     \<and> decrypt_manifest_header X parsed (rs_data_key s) (rs_nonce_prefix s) (mh_chunk_count h) (mh_plain_size h) = Inr h"
proof -
  obtain raw ct nonce where tid: "length tid = 16" "rs \<noteq> []" and raw: "encode_header X h = Inr raw"
    and ct: "encrypt_header X (rs_data_key s) (rs_nonce_prefix s) tid (mh_chunk_count h) (mh_plain_size h) raw = Inr ct"
    and nonce: "header_nonce (rs_nonce_prefix s) = Inr nonce"
    and blob: "blob = cbor_dumps X (PDict (blob_items tid nonce ct rs))"
    using assms(11) by (auto simp: build_manifest_blob_def bind_res_eq_Inr case_sum_eq_Inr split: if_splits)
  note hdr = decode_encode_header [OF assms(1,5) raw]
  have "length ct < 2 ^ 64" "length nonce < 2 ^ 64"
    using ct nonce hdr(2) by (simp_all add: encrypt_header_Inr header_nonce_Inr aead_contractD [OF assms(2)]
        HEADER_NONCE_SUFFIX_def NONCE_SUFFIX_BYTES_def NONCE_BYTES_def)
  then have parse: "parse_manifest_blob X blob = Inr \<lparr>pb_version = 1, pb_transfer_id = tid, pb_header_nonce = nonce,
      pb_header_ciphertext = ct, pb_recipients = rs\<rparr>"
    unfolding blob using parse_built assms(1,8,9) tid by blast
  have "decrypt_header X (rs_data_key s) (rs_nonce_prefix s) tid (mh_chunk_count h) (mh_plain_size h) ct = Inr raw"
    using ct by (simp add: encrypt_header_Inr decrypt_header_Inr aead_contractD [OF assms(2)])
  with parse show ?thesis
    using hdr(1) assms(10) open_seal [OF assms(1,3,4,6,7)]
    by (simp add: find_recipient_envelope_def decrypt_manifest_header_def)
qed

definition sample_header :: manifest_header where
  "sample_header = \<lparr>mh_file_name = ''a.txt'', mh_mime_type = ''text/plain'', mh_plain_size = 3,
     mh_plain_sha256 = replicate 32 9, mh_chunk_count = 1, mh_comment = Some ''hi''\<rparr>"

definition sample_secret :: recipient_secret where
  "sample_secret = \<lparr>rs_data_key = replicate 32 1, rs_nonce_prefix = replicate 16 2,
     rs_receipt_secret = replicate 32 3, rs_chunk_count = 1\<rparr>"

text \<open>C16. The whole manifest path round trips: when the sender seals a secret to the recipient's identity and
  builds the blob around it, the recipient parses the blob, finds its own envelope by key id, opens it
  with its signing key to the very same secret, and the header decrypts, under the secret's key and the
  announced sizes, to the header the sender wrote.\<close>

theorem manifest_roundtrip:
  assumes "cbor_contract X" and "aead_contract X" and "sealed_contract X" and "length sk = 32"
    and "header_plain h" and "uint64 (rs_chunk_count s)"
    and "seal_recipient_secret X s (ed_public X sk) r = Inr sealed"
    and "list_all envelope_plain rs" and "length rs < 2 ^ 64"
    and "find_by re_recipient_key_id kid rs = Some \<lparr>re_recipient_key_id = kid, re_sealed_envelope = sealed\<rparr>"
    and "build_manifest_blob X tid (rs_data_key s) (rs_nonce_prefix s) h rs = Inr blob"
  shows "\<exists>parsed env. parse_manifest_blob X blob = Inr parsed \<and> pb_transfer_id parsed = tid
     \<and> find_recipient_envelope parsed kid = Inr env
     \<and> open_recipient_secret X (re_sealed_envelope env) sk = Inr s
     \<and> decrypt_manifest_header X parsed (rs_data_key s) (rs_nonce_prefix s) (mh_chunk_count h) (mh_plain_size h) = Inr h"
  by (rule manifest_opens [OF assms])

theorem manifest_roundtrip_witness:
  "\<exists>sealed blob parsed env.
     seal_recipient_secret ref_ext sample_secret (ed_public ref_ext (replicate 32 5)) [] = Inr sealed
     \<and> build_manifest_blob ref_ext (replicate 16 6) (replicate 32 1) (replicate 16 2) sample_header
         [\<lparr>re_recipient_key_id = replicate 8 4, re_sealed_envelope = sealed\<rparr>] = Inr blob
     \<and> parse_manifest_blob ref_ext blob = Inr parsed \<and> find_recipient_envelope parsed (replicate 8 4) = Inr env
     \<and> open_recipient_secret ref_ext (re_sealed_envelope env) (replicate 32 5) = Inr sample_secret
     \<and> decrypt_manifest_header ref_ext parsed (replicate 32 1) (replicate 16 2) 1 3 = Inr sample_header"
proof -
  have items: "cbor_plain (PDict (secret_items sample_secret))"
    by (simp add: secret_items_def sample_secret_def uint64_def int_key_def)
  obtain sealed where s: "seal_recipient_secret ref_ext sample_secret (ed_public ref_ext (replicate 32 5)) [] = Inr sealed"
    and sealed: "sealed = replicate 32 5 @ cbor_dumps ref_ext (PDict (secret_items sample_secret))"
    by (simp add: seal_recipient_secret_def derive_x25519_public_def encode_recipient_secret_def sample_secret_def
        DATA_KEY_BYTES_def NONCE_PREFIX_BYTES_def ref_ext_def)
  have small: "length sealed < 2 ^ 64"
    using cbor_contractD(2) [OF ref_ext_contracts(1) items]
    by (simp add: sealed secret_items_def sample_secret_def head_size_def [of "numeral _"] head_size_def [of 0] head_size_def [of "Suc _"])
  let ?rs = "[\<lparr>re_recipient_key_id = replicate 8 4, re_sealed_envelope = sealed\<rparr>]"
  obtain blob where b: "build_manifest_blob ref_ext (replicate 16 6) (rs_data_key sample_secret) (rs_nonce_prefix sample_secret) sample_header ?rs = Inr blob"
    by (simp add: build_manifest_blob_def encode_header_def sample_header_def encrypt_header_def header_nonce_def
        require_length_def DATA_KEY_BYTES_def NONCE_PREFIX_BYTES_def aad_def sample_secret_def)
  have hp: "header_plain sample_header" and u: "uint64 (rs_chunk_count sample_secret)"
    by (simp_all add: header_plain_def sample_header_def ascii_text_def uint64_def sample_secret_def)
  have k: "rs_data_key sample_secret = replicate 32 1" "rs_nonce_prefix sample_secret = replicate 16 2"
    "mh_chunk_count sample_header = 1" "mh_plain_size sample_header = 3"
    by (simp_all add: sample_secret_def sample_header_def)
  show ?thesis
    using manifest_roundtrip [OF ref_ext_contracts(1,4,5) _ hp u s _ _ _ b, of "replicate 8 4"] s b small
    unfolding k by (simp add: envelope_plain_def) blast
qed

text \<open>
  The exceptions the conversions raise by themselves, and those only an object with conversions of its own raises. The
  three classes of the \<open>except\<close> clauses are caught.
\<close>

definition object_raises :: "ext \<Rightarrow> py_exc \<Rightarrow> bool" where
  "object_raises X x \<longleftrightarrow>
     (\<exists>v. other_int X v = Inl x \<or> other_index X v = Inl x \<or> other_bytes X v = Inl x \<or> (\<exists>k. other_item X v k = Inl x) \<or> py_repr X v = Inl x)"

definition caught :: "py_exc \<Rightarrow> bool" where
  "caught x \<longleftrightarrow> x \<in> {PyKeyError, PyTypeError, PyValueError}"

definition expected_exc :: "ext \<Rightarrow> py_exc \<Rightarrow> bool" where
  "expected_exc X x \<longleftrightarrow> caught x \<or> x = PyOverflowError \<or> x = PyMemoryError \<or> object_raises X x"

lemma catch_malformed_Inl: "catch_malformed m = Inl e \<longleftrightarrow> (\<exists>x. m = Inl x \<and> e = (if caught x then ManifestError else Escaped x))"
  by (cases m rule: catch_malformed.cases) (auto simp: caught_def)

lemma traverse_res_Inl: "traverse_res f xs = Inl x \<Longrightarrow> \<exists>y \<in> set xs. f y = Inl x"
  by (induction xs) (auto simp: bind_res_eq_Inl)

lemma int_of_text_exc: "int_of_text s = Inl x \<Longrightarrow> x = PyValueError"
  by (auto simp: int_of_text_def Let_def split: option.splits list.splits if_splits)

lemma conversion_exc:
  "py_int X v = Inl x \<Longrightarrow> expected_exc X x" "py_bytes X v = Inl x \<Longrightarrow> expected_exc X x" "py_str X v = Inl x \<Longrightarrow> expected_exc X x"
  "dict_index d k = Inl x \<Longrightarrow> expected_exc X x" "py_getitem X v k = Inl x \<Longrightarrow> expected_exc X x \<or> x = PyIndexError"
proof -
  have el: "byte_of_element X u = Inl x \<Longrightarrow> expected_exc X x" for u
    by (cases u) (auto simp: byte_of_element_def bind_res_eq_Inl expected_exc_def caught_def object_raises_def split: if_splits)
  show "py_int X v = Inl x \<Longrightarrow> expected_exc X x"
    by (cases v) (auto simp: expected_exc_def caught_def object_raises_def dest: int_of_text_exc split: if_splits)
  show "py_bytes X v = Inl x \<Longrightarrow> expected_exc X x"
    by (cases v) (auto simp: zero_bytes_def dest!: traverse_res_Inl dest: el split: if_splits, auto simp: expected_exc_def caught_def object_raises_def)
  show "py_str X v = Inl x \<Longrightarrow> expected_exc X x"
    by (cases v) (auto simp: py_str_def expected_exc_def object_raises_def)
  show d: "dict_index d k = Inl x \<Longrightarrow> expected_exc X x" for d
    by (auto simp: dict_index_def expected_exc_def caught_def split: option.splits)
  have i: "py_index ys k = Inl x \<Longrightarrow> x = PyIndexError" for ys :: "'a list"
    by (auto simp: py_index_def Let_def split: if_splits)
  show "py_getitem X v k = Inl x \<Longrightarrow> expected_exc X x \<or> x = PyIndexError"
    by (cases v) (auto simp: bind_res_eq_Inl py_index_def Let_def dest: d split: if_splits, auto simp: expected_exc_def caught_def object_raises_def)
qed

text \<open>C21. The decoders report malformed input as \<open>ManifestError\<close> except in the cases the \<open>except\<close> clauses miss:
  from \<open>parse_manifest_blob\<close> only \<open>IndexError\<close>, \<open>OverflowError\<close>, \<open>MemoryError\<close> and what an object \<open>cbor2\<close> built from a tag
  raises by itself can escape, from the header and secret decoders the same without \<open>IndexError\<close>. And they do escape: a blob whose \<open>encrypted_header\<close> is an empty CBOR array, or whose header
  nonce is the integer \<open>2^63\<close> or one there is no memory for, makes \<open>parse_manifest_blob\<close> raise them.\<close>

theorem manifest_errors:
  "(parse_manifest_blob X raw = Inl e \<longrightarrow>
      e = ManifestError \<or> (\<exists>x. e = Escaped x \<and> \<not> caught x \<and> (x = PyIndexError \<or> x = PyOverflowError \<or> x = PyMemoryError \<or> object_raises X x)))
   \<and> (decode_header X raw = Inl e' \<longrightarrow>
      e' = ManifestError \<or> (\<exists>x. e' = Escaped x \<and> \<not> caught x \<and> (x = PyOverflowError \<or> x = PyMemoryError \<or> object_raises X x)))
   \<and> (decode_recipient_secret X raw = Inl e'' \<longrightarrow>
      e'' = ManifestError \<or> (\<exists>x. e'' = Escaped x \<and> \<not> caught x \<and> (x = PyOverflowError \<or> x = PyMemoryError \<or> object_raises X x)))
   \<and> (cbor_contract X \<longrightarrow>
        parse_manifest_blob X (cbor_dumps X (PDict [(PInt 0, PInt 1), (PInt 1, PBytes (replicate 16 0)), (PInt 2, PList [])]))
          = Inl (Escaped PyIndexError)
      \<and> parse_manifest_blob X (cbor_dumps X (PDict [(PInt 0, PInt 1), (PInt 1, PBytes (replicate 16 0)), (PInt 2, PDict [(PInt 0, PInt (2 ^ 63))])]))
          = Inl (Escaped PyOverflowError)
      \<and> (\<not> py_room X (PInt (2 ^ 45)) \<longrightarrow>
          parse_manifest_blob X (cbor_dumps X (PDict [(PInt 0, PInt 1), (PInt 1, PBytes (replicate 16 0)), (PInt 2, PDict [(PInt 0, PInt (2 ^ 45))])]))
            = Inl (Escaped PyMemoryError)))"
proof (intro conjI impI)
  have ld: "load_dict X raw = Inl x \<Longrightarrow> x = ManifestError" for x
    by (auto simp: load_dict_def split: option.splits pyval.splits)
  have rec: "parse_recipient X r = Inl x \<Longrightarrow> expected_exc X x \<or> x = PyIndexError" for r x
    by (auto simp: parse_recipient_def bind_res_eq_Inl dest: conversion_exc)
  have recs: "(case rr of PList rs \<Rightarrow> if rs = [] then Inl PyValueError else traverse_res (parse_recipient X) rs | _ \<Rightarrow> Inl PyValueError) = Inl x
      \<Longrightarrow> expected_exc X x \<or> x = PyIndexError" for rr x
    by (cases rr) (auto simp: expected_exc_def [of X PyValueError] caught_def dest!: traverse_res_Inl dest: rec split: if_splits)
  show "e = ManifestError \<or> (\<exists>x. e = Escaped x \<and> \<not> caught x \<and> (x = PyIndexError \<or> x = PyOverflowError \<or> x = PyMemoryError \<or> object_raises X x))"
    if "parse_manifest_blob X raw = Inl e"
    using that unfolding parse_manifest_blob_def bind_res_eq_Inl [of "load_dict X raw"] bind_res_eq_Inl [of "catch_malformed _"]
    by (auto dest!: ld simp: catch_malformed_Inl bind_res_eq_Inl caught_def
        dest: conversion_exc [unfolded expected_exc_def caught_def] recs [unfolded expected_exc_def caught_def] split: if_splits)
  show "e' = ManifestError \<or> (\<exists>x. e' = Escaped x \<and> \<not> caught x \<and> (x = PyOverflowError \<or> x = PyMemoryError \<or> object_raises X x))"
    if "decode_header X raw = Inl e'"
    using that unfolding decode_header_def bind_res_eq_Inl [of "load_dict X raw"]
    by (auto dest!: ld simp: catch_malformed_Inl bind_res_eq_Inl dest: conversion_exc [unfolded expected_exc_def] split: option.splits if_splits)
  show "e'' = ManifestError \<or> (\<exists>x. e'' = Escaped x \<and> \<not> caught x \<and> (x = PyOverflowError \<or> x = PyMemoryError \<or> object_raises X x))"
    if "decode_recipient_secret X raw = Inl e''"
    using that unfolding decode_recipient_secret_def bind_res_eq_Inl [of "load_dict X raw"]
    by (auto dest!: ld simp: catch_malformed_Inl bind_res_eq_Inl dest: conversion_exc [unfolded expected_exc_def] split: if_splits)
  assume c: "cbor_contract X"
  show "parse_manifest_blob X (cbor_dumps X (PDict [(PInt 0, PInt 1), (PInt 1, PBytes (replicate 16 0)), (PInt 2, PList [])]))
      = Inl (Escaped PyIndexError)"
    by (simp add: parse_manifest_blob_def load_dict_def cbor_contractD(1) [OF c] uint64_def int_key_def dict_index_def py_index_def)
  show "parse_manifest_blob X (cbor_dumps X (PDict [(PInt 0, PInt 1), (PInt 1, PBytes (replicate 16 0)), (PInt 2, PDict [(PInt 0, PInt (2 ^ 63))])]))
      = Inl (Escaped PyOverflowError)"
    by (simp add: parse_manifest_blob_def load_dict_def cbor_contractD(1) [OF c] uint64_def int_key_def dict_index_def zero_bytes_def)
  assume "\<not> py_room X (PInt (2 ^ 45))"
  then show "parse_manifest_blob X (cbor_dumps X (PDict [(PInt 0, PInt 1), (PInt 1, PBytes (replicate 16 0)), (PInt 2, PDict [(PInt 0, PInt (2 ^ 45))])]))
      = Inl (Escaped PyMemoryError)"
    by (simp add: parse_manifest_blob_def load_dict_def cbor_contractD(1) [OF c] uint64_def int_key_def dict_index_def zero_bytes_def)
qed

theorem manifest_errors_witness:
  "parse_manifest_blob ref_ext (cbor_dumps ref_ext (PDict [(PInt 0, PInt 1), (PInt 1, PBytes (replicate 16 0)), (PInt 2, PList [])]))
     = Inl (Escaped PyIndexError)
   \<and> parse_manifest_blob ref_ext (cbor_dumps ref_ext (PDict [(PInt 0, PInt 1), (PInt 1, PBytes (replicate 16 0)), (PInt 2, PDict [(PInt 0, PInt (2 ^ 45))])]))
     = Inl (Escaped PyMemoryError)"
proof -
  have "\<not> py_room ref_ext (PInt (2 ^ 45))" by (simp add: ref_ext_def)
  then show ?thesis using manifest_errors [of ref_ext] by simp
qed

end
