(* ===== verification/Fixed_Window.thy ===== *)
theory Fixed_Window
  imports MC_Prelude
begin

text \<open>
  The rate-limit shape several modules persist: a row holding the start of the current window and a
  counter, reset by the first event after the window has passed. The locale states what one gated
  attempt does to the row, and derives what the limit is worth over a whole run: at most \<open>limit\<close>
  events per window, hence at most twice the limit in any interval as long as the window. It is
  interpreted on the KEY_ANNOUNCE quota, the automatic KEY_REQUEST quota and both ACK quotas. The second
  shape is a minimum interval between two accepted events, kept as the time of the last one. Both are
  about the accepted attempts of a run, which the base locale defines.
\<close>

section \<open>Runs of gated attempts\<close>

text \<open>An attempt returns the new state and whether it was accepted; a run's accepted attempts, by time.\<close>

fun accepted_run :: "('db \<Rightarrow> 'e \<Rightarrow> 'db \<times> bool) \<Rightarrow> ('e \<Rightarrow> timestamp) \<Rightarrow> 'db \<Rightarrow> 'e list \<Rightarrow> timestamp list" where
  "accepted_run attempt time_of db [] = []"
| "accepted_run attempt time_of db (e # es) =
     (if snd (attempt db e) then time_of e # accepted_run attempt time_of (fst (attempt db e)) es
      else accepted_run attempt time_of (fst (attempt db e)) es)"

definition count_in :: "timestamp \<Rightarrow> timestamp \<Rightarrow> timestamp list \<Rightarrow> int" where
  "count_in a b ts = int (length (filter (\<lambda>t. a \<le> t \<and> t < b) ts))"

lemma count_in_simps [simp]:
  "count_in a b [] = 0"
  "count_in a b (t # ts) = (if a \<le> t \<and> t < b then 1 else 0) + count_in a b ts"
  by (simp_all add: count_in_def)

lemma count_in_nonneg [simp]: "0 \<le> count_in a b ts"
  by (simp add: count_in_def)

lemma count_in_mono: "a' \<le> a \<Longrightarrow> b \<le> b' \<Longrightarrow> count_in a b ts \<le> count_in a' b' ts"
  by (induction ts) auto

lemma count_in_late: "(\<And>t. t \<in> set ts \<Longrightarrow> b \<le> t) \<Longrightarrow> count_in a b ts = 0"
  by (induction ts) (auto simp: not_less)

locale gated =
  fixes attempt :: "'db \<Rightarrow> 'e \<Rightarrow> 'db \<times> bool"
    and time_of :: "'e \<Rightarrow> timestamp"
begin

abbreviation accepted :: "'db \<Rightarrow> 'e list \<Rightarrow> timestamp list" where
  "accepted \<equiv> accepted_run attempt time_of"

lemma accepted_times: "set (accepted db es) \<subseteq> time_of ` set es"
  by (induction es arbitrary: db) auto

end

section \<open>A minimum interval\<close>

locale min_interval = gated attempt time_of
  for attempt :: "'db \<Rightarrow> 'e \<Rightarrow> 'db \<times> bool" and time_of :: "'e \<Rightarrow> timestamp" +
  fixes last_at :: "'db \<Rightarrow> timestamp option"
    and gap :: timestamp
  assumes keeps: "attempt db e = (db', False) \<Longrightarrow> last_at db' = last_at db"
    and spaced: "attempt db e = (db', True) \<Longrightarrow> last_at db' = Some (time_of e) \<and> (\<forall>l. last_at db = Some l \<longrightarrow> gap \<le> time_of e - l)"
begin

lemma next_accepted:
  "last_at db = Some l \<Longrightarrow> accepted db es = t # ts \<Longrightarrow> gap \<le> t - l"
proof (induction es arbitrary: db)
  case (Cons e es)
  then show ?case
    using spaced [of db e "fst (attempt db e)"] keeps [of db e "fst (attempt db e)"]
    by (cases "attempt db e") (auto split: if_splits)
qed simp

theorem interval_run: "successively (\<lambda>t u. gap \<le> u - t) (accepted db es)"
proof (induction es arbitrary: db)
  case (Cons e es)
  show ?case
  proof (cases "snd (attempt db e)")
    case True
    then have "last_at (fst (attempt db e)) = Some (time_of e)"
      using spaced [of db e "fst (attempt db e)"] by (simp add: prod_eq_iff)
    then show ?thesis
      using True Cons.IH [of "fst (attempt db e)"] next_accepted [of "fst (attempt db e)" "time_of e" es]
      by (cases "accepted (fst (attempt db e)) es") auto
  qed (simp add: Cons.IH)
qed simp

end

section \<open>A fixed window\<close>

locale fixed_window = gated attempt time_of
  for attempt :: "'db \<Rightarrow> 'e \<Rightarrow> 'db \<times> bool" and time_of :: "'e \<Rightarrow> timestamp" +
  fixes row :: "'db \<Rightarrow> (timestamp \<times> int) option"
    and window :: timestamp
    and limit :: int
  assumes window_pos: "0 < window" and limit_pos: "1 \<le> limit"
    and refused: "attempt db e = (db', False) \<Longrightarrow>
      row db' = row db \<or> row db' = None \<and> (\<forall>s c. row db = Some (s, c) \<longrightarrow> window \<le> time_of e - s)"
    and accepted_new: "attempt db e = (db', True) \<Longrightarrow>
      row db = None \<or> (\<exists>s c. row db = Some (s, c) \<and> window \<le> time_of e - s) \<Longrightarrow> row db' = Some (time_of e, 1)"
    and accepted_more: "attempt db e = (db', True) \<Longrightarrow> row db = Some (s, c) \<Longrightarrow> time_of e - s < window \<Longrightarrow>
      c < limit \<and> row db' = Some (s, c + 1)"
begin

text \<open>A run from a row \<open>(s, c)\<close>, or from a row \<open>(s, c)\<close> that was pruned after its window.\<close>

definition from_row :: "timestamp \<Rightarrow> int \<Rightarrow> 'db \<Rightarrow> 'e list \<Rightarrow> bool" where
  "from_row s c db es \<longleftrightarrow> c \<le> limit \<and> 0 \<le> c \<and> (\<forall>e \<in> set es. s \<le> time_of e)
     \<and> (row db = Some (s, c) \<or> row db = None \<and> (\<forall>e \<in> set es. s + window \<le> time_of e))"

lemma from_row_step:
  assumes "from_row s c db (e # es)" and "sorted (map time_of (e # es))"
  obtains (refuse) "\<not> snd (attempt db e)" and "from_row s c (fst (attempt db e)) es"
  | (more) "snd (attempt db e)" and "time_of e < s + window" and "c < limit"
      and "from_row s (c + 1) (fst (attempt db e)) es"
  | (reset) "snd (attempt db e)" and "s + window \<le> time_of e"
      and "from_row (time_of e) 1 (fst (attempt db e)) es"
proof -
  obtain db' ok where a: "attempt db e = (db', ok)"
    by (cases "attempt db e")
  have later: "\<forall>e' \<in> set es. time_of e \<le> time_of e'"
    using assms(2) by auto
  show ?thesis
  proof (cases ok)
    case False
    then show ?thesis
      using a later refused [of db e db'] assms(1) that(1) by (fastforce simp: from_row_def)
  next
    case True
    with a have a: "attempt db e = (db', True)" by simp
    show ?thesis
    proof (cases "time_of e < s + window")
      case inside: True
      with assms(1) have "row db = Some (s, c)"
        by (auto simp: from_row_def)
      with accepted_more [OF a this] inside show ?thesis
        using a assms(1) that(2) by (auto simp: from_row_def)
    next
      case outside: False
      with assms(1) accepted_new [OF a] have "row db' = Some (time_of e, 1)"
        by (auto simp: from_row_def)
      with outside show ?thesis
        using a later limit_pos that(3) by (auto simp: from_row_def)
    qed
  qed
qed

lemma run_bounds:
  assumes "from_row s c db es" and "sorted (map time_of es)"
  shows "count_in a (s + window) (accepted db es) \<le> limit - c
    \<and> count_in a (s + 2 * window) (accepted db es) \<le> 2 * limit - c
    \<and> count_in x (x + window) (accepted db es) \<le> 2 * limit"
  using assms
proof (induction es arbitrary: db s c a x)
  case Nil
  then show ?case
    using limit_pos by (auto simp: from_row_def)
next
  case (Cons e es)
  note IH = Cons.IH
  have srt: "sorted (map time_of es)"
    using Cons.prems(2) by simp
  have later: "\<forall>t \<in> set (accepted (fst (attempt db e)) es). time_of e \<le> t"
    using accepted_times [of "fst (attempt db e)" es] Cons.prems(2) by auto
  have c: "c \<le> limit"
    using Cons.prems(1) by (simp add: from_row_def)
  show ?case
  proof (rule from_row_step [OF Cons.prems])
    assume "\<not> snd (attempt db e)" "from_row s c (fst (attempt db e)) es"
    then show ?case
      using IH [OF _ srt] by simp
  next
    assume st: "snd (attempt db e)" "time_of e < s + window" "from_row s (c + 1) (fst (attempt db e)) es"
    have "x + window \<le> s + 2 * window" if "x \<le> time_of e"
      using that st(2) by simp
    then show ?case
      using IH [OF st(3) srt, of a x] IH [OF st(3) srt, of x x] st(1) Cons.prems(1) window_pos
        count_in_mono [of x x "x + window" "s + 2 * window" "accepted (fst (attempt db e)) es"]
      by (auto simp: from_row_def)
  next
    assume st: "snd (attempt db e)" "s + window \<le> time_of e" "from_row (time_of e) 1 (fst (attempt db e)) es"
    have zero: "count_in a (s + window) (accepted (fst (attempt db e)) es) = 0"
      using later st(2) by (intro count_in_late) auto
    have "count_in a (s + 2 * window) (accepted (fst (attempt db e)) es) \<le> limit - 1"
      using IH [OF st(3) srt, of a x] st(2)
        count_in_mono [of a a "s + 2 * window" "time_of e + window" "accepted (fst (attempt db e)) es"] by auto
    moreover have "count_in x (x + window) (accepted (fst (attempt db e)) es) \<le> limit - 1" if "x \<le> time_of e"
      using IH [OF st(3) srt, of x x] that
        count_in_mono [of x x "x + window" "time_of e + window" "accepted (fst (attempt db e)) es"] by auto
    ultimately show ?case
      using IH [OF st(3) srt, of a x] st(1,2) c zero limit_pos by auto
  qed
qed

text \<open>From an empty table, or a row whose window is over before the run starts.\<close>

theorem quota_run:
  assumes "sorted (map time_of es)"
    and "row db = None \<or> (\<exists>s c. from_row s c db es)"
  shows "count_in x (x + window) (accepted db es) \<le> 2 * limit"
proof (cases "es = []")
  case True
  then show ?thesis
    using limit_pos by simp
next
  case False
  then obtain e es' where es: "es = e # es'"
    by (cases es) auto
  have "\<exists>s c. from_row s c db es"
  proof (cases "row db = None")
    case True
    have "from_row (time_of e - window) 0 db es"
      using True assms(1) es window_pos limit_pos by (auto simp: from_row_def)
    then show ?thesis by blast
  next
    case False
    with assms(2) show ?thesis by blast
  qed
  then show ?thesis
    using run_bounds assms(1) by blast
qed

end

end
