(* ===== verification/Key_Request_Retry.thy ===== *)
theory Key_Request_Retry
  imports MC_Prelude
begin

text \<open>
  The retry policy of a user-started KEY_REQUEST, \<open>src/meshsrv/attachments/key_request_retry.py\<close>: two
  persisted numbers per contact and the schedule over them.
\<close>

definition RETRY_DELAYS_S :: "timestamp list" where
  "RETRY_DELAYS_S = [10 * 60, 30 * 60, 2 * 3600, 6 * 3600]"

definition MAX_ATTEMPTS :: int where "MAX_ATTEMPTS = int (length RETRY_DELAYS_S)"

datatype retry_action = ACTION_NONE | ACTION_RETRY | ACTION_GIVE_UP

definition delay_after :: "int \<Rightarrow> timestamp" where
  "delay_after attempts = RETRY_DELAYS_S ! nat (max 1 (min attempts MAX_ATTEMPTS) - 1)"

definition first_attempt :: "timestamp \<Rightarrow> int \<times> timestamp" where
  "first_attempt now = (1, now + delay_after 1)"

definition after_retry_sent :: "int \<Rightarrow> timestamp \<Rightarrow> int \<times> timestamp" where
  "after_retry_sent attempts now =
     (let count = min (attempts + 1) MAX_ATTEMPTS in (count, now + delay_after count))"

definition is_running :: "int \<Rightarrow> timestamp option \<Rightarrow> bool" where
  "is_running attempts next_retry_at \<longleftrightarrow> 0 < attempts \<and> next_retry_at \<noteq> None"

definition is_no_answer :: "int \<Rightarrow> timestamp option \<Rightarrow> bool" where
  "is_no_answer attempts next_retry_at \<longleftrightarrow> MAX_ATTEMPTS \<le> attempts \<and> next_retry_at = None"

definition due_action :: "int \<Rightarrow> timestamp option \<Rightarrow> timestamp \<Rightarrow> retry_action" where
  "due_action attempts next_retry_at now =
     (if \<not> is_running attempts next_retry_at \<or> now < the next_retry_at then ACTION_NONE
      else if MAX_ATTEMPTS \<le> attempts then ACTION_GIVE_UP else ACTION_RETRY)"

text \<open>Rounded up to a multiple of 30 seconds.\<close>

definition seconds_until_next :: "timestamp option \<Rightarrow> timestamp \<Rightarrow> int option" where
  "seconds_until_next next_retry_at now =
     (case next_retry_at of None \<Rightarrow> None
      | Some t \<Rightarrow> Some (- \<lfloor>- max 0 (t - now) / 30\<rfloor> * 30))"

definition POSTPONE_UNSENT_S :: timestamp where "POSTPONE_UNSENT_S = 60"

section \<open>Lemmas\<close>

lemma MAX_ATTEMPTS_eq: "MAX_ATTEMPTS = 4"
  by (simp add: MAX_ATTEMPTS_def RETRY_DELAYS_S_def)

text \<open>Every delay of the schedule is one of the four listed; none is below ten minutes.\<close>

lemma delay_after_bounds: "600 \<le> delay_after n" "delay_after n \<le> 21600"
proof -
  have "nat (max 1 (min n MAX_ATTEMPTS) - 1) \<in> {0, 1, 2, 3}"
    by (auto simp: MAX_ATTEMPTS_eq)
  then show "600 \<le> delay_after n" "delay_after n \<le> 21600"
    by (auto simp: delay_after_def RETRY_DELAYS_S_def)
qed

lemma due_action_simps:
  "due_action n t now = ACTION_RETRY \<longleftrightarrow> 0 < n \<and> n < 4 \<and> (\<exists>u. t = Some u \<and> u \<le> now)"
  "due_action n t now = ACTION_GIVE_UP \<longleftrightarrow> 4 \<le> n \<and> (\<exists>u. t = Some u \<and> u \<le> now)"
  by (auto simp: due_action_def is_running_def MAX_ATTEMPTS_eq)

end
