(* ===== verification/Key_Exchange.thy ===== *)
theory Key_Exchange
  imports Codec Identity Fixed_Window Key_Request_Retry
begin

text \<open>
  The key-exchange coordinator, \<open>src/meshsrv/attachments/key_exchange.py\<close>, with the contact vocabulary of
  \<open>contacts.py\<close> and the service's retry of one key request. The four tables are lists of rows; the hex
  columns that hold public identities are modelled by the bytes they encode (the code writes them with
  \<open>.hex()\<close> and reads them with \<open>bytes.fromhex\<close> only). A method is a function from the state to the new state
  and its outcome: an exception (\<open>Inl\<close>) or a value, since a method may raise after it has committed. \<open>now_fn\<close>
  is the argument \<open>now\<close>. A lookup without \<open>ORDER BY\<close> takes the first row in rowid order.
\<close>

section \<open>State\<close>

definition DEFAULT_MAX_ANNOUNCES_PER_HOUR :: int where "DEFAULT_MAX_ANNOUNCES_PER_HOUR = 12"
definition MIN_SECONDS_BETWEEN_ANNOUNCES_TO_SAME_ADDRESS :: timestamp where
  "MIN_SECONDS_BETWEEN_ANNOUNCES_TO_SAME_ADDRESS = 10 * 60"
definition MIN_SECONDS_BETWEEN_KEY_REQUESTS_TO_SAME_ADDRESS :: timestamp where
  "MIN_SECONDS_BETWEEN_KEY_REQUESTS_TO_SAME_ADDRESS = 10 * 60"
definition QUOTA_WINDOW_SECONDS :: timestamp where "QUOTA_WINDOW_SECONDS = 3600"
definition DEFAULT_MAX_AUTO_KEY_REQUESTS_PER_HOUR :: int where "DEFAULT_MAX_AUTO_KEY_REQUESTS_PER_HOUR = 12"

datatype ke_error =
    RateLimited
  | KeyExchangeError
  | KE_Codec codec_error
  | KE_Identity identity_error
  | KE_ValueError
  | KE_IntegrityError

datatype address_status = MCA_READY | KEY_UNVERIFIED | KEY_CHANGED | KEY_UNKNOWN

type_synonym address_key = "string \<times> string \<times> string"

record binding_row =
  b_id :: string
  b_workspace_id :: string
  b_adapter_id :: string
  b_transport_address :: string
  b_principal_id :: string
  b_sender_key_id :: string
  b_public_identity :: bytes
  b_key_epoch :: int
  b_bound_at :: timestamp
  b_tofu_confirmed_at :: "timestamp option"
  b_pending_public_identity :: "bytes option"
  b_pending_key_epoch :: "int option"
  b_pending_detected_at :: "timestamp option"

record contact_row =
  c_workspace_id :: string
  c_adapter_id :: string
  c_source_address :: string
  c_last_announce_sent_at :: "timestamp option"
  c_last_request_sent_at :: "timestamp option"
  c_key_request_attempts :: int
  c_key_request_next_retry_at :: "timestamp option"

record quota_row =
  q_workspace_id :: string
  q_window_start_at :: timestamp
  q_count :: int

record ke_state =
  ke_bindings :: "binding_row list"
  ke_contacts :: "contact_row list"
  ke_quota :: "quota_row list"
  ke_auto_quota :: "quota_row list"
  ke_ids :: identity_state

record ke_config =
  kc_principal :: mca_principal
  kc_adapter_id :: string
  kc_max_per_hour :: int
  kc_min_interval :: timestamp
  kc_min_key_request_interval :: timestamp
  kc_max_auto_key_requests_per_hour :: int

definition b_key :: "binding_row \<Rightarrow> address_key" where
  "b_key b = (b_workspace_id b, b_adapter_id b, b_transport_address b)"

definition c_key :: "contact_row \<Rightarrow> address_key" where
  "c_key c = (c_workspace_id c, c_adapter_id c, c_source_address c)"

definition addr_key :: "ke_config \<Rightarrow> string \<Rightarrow> address_key" where
  "addr_key K address = (mp_workspace_id (kc_principal K), kc_adapter_id K, address)"

section \<open>Status\<close>

definition binding_status :: "binding_row \<Rightarrow> address_status" where
  "binding_status b =
     (if b_pending_public_identity b \<noteq> None then KEY_CHANGED
      else if b_tofu_confirmed_at b \<noteq> None then MCA_READY
      else KEY_UNVERIFIED)"

text \<open>\<open>_row_to_binding\<close>: an empty pending identity reads as none.\<close>

definition row_to_binding :: "binding_row \<Rightarrow> binding_row" where
  "row_to_binding b =
     b\<lparr>b_pending_public_identity :=
         (if b_pending_public_identity b = Some [] then None else b_pending_public_identity b)\<rparr>"

definition get_binding :: "ke_config \<Rightarrow> ke_state \<Rightarrow> string \<Rightarrow> binding_row option" where
  "get_binding K st source_address =
     map_option row_to_binding (find_by b_key (addr_key K source_address) (ke_bindings st))"

definition get_binding_by_key_id :: "ke_config \<Rightarrow> ke_state \<Rightarrow> string \<Rightarrow> binding_row option" where
  "get_binding_by_key_id K st sender_key_id =
     map_option row_to_binding
       (find_by (\<lambda>b. (b_workspace_id b, b_adapter_id b, b_sender_key_id b)) (addr_key K sender_key_id) (ke_bindings st))"

definition get_status :: "ke_config \<Rightarrow> ke_state \<Rightarrow> string \<Rightarrow> address_status" where
  "get_status K st source_address =
     (case get_binding K st source_address of None \<Rightarrow> KEY_UNKNOWN | Some b \<Rightarrow> binding_status b)"

section \<open>Rate limits\<close>

definition new_contact :: "ke_config \<Rightarrow> string \<Rightarrow> contact_row" where
  "new_contact K address =
     \<lparr>c_workspace_id = mp_workspace_id (kc_principal K), c_adapter_id = kc_adapter_id K, c_source_address = address,
      c_last_announce_sent_at = None, c_last_request_sent_at = None, c_key_request_attempts = 0,
      c_key_request_next_retry_at = None\<rparr>"

text \<open>The window test and the bump both quota tables share, each on its own table.\<close>

definition quota_full :: "quota_row list \<Rightarrow> string \<Rightarrow> int \<Rightarrow> timestamp \<Rightarrow> bool" where
  "quota_full rows workspace_id limit now =
     (case find_by q_workspace_id workspace_id rows of
        None \<Rightarrow> False
      | Some r \<Rightarrow> now - q_window_start_at r < QUOTA_WINDOW_SECONDS \<and> limit \<le> q_count r)"

definition quota_bump :: "quota_row list \<Rightarrow> string \<Rightarrow> timestamp \<Rightarrow> quota_row list" where
  "quota_bump rows workspace_id now =
     (case find_by q_workspace_id workspace_id rows of
        Some r \<Rightarrow>
          if QUOTA_WINDOW_SECONDS \<le> now - q_window_start_at r
          then upsert q_workspace_id \<lparr>q_workspace_id = workspace_id, q_window_start_at = now, q_count = 1\<rparr>
                 (\<lambda>r. r\<lparr>q_window_start_at := now, q_count := 1\<rparr>) rows
          else update_where (\<lambda>r. q_workspace_id r = workspace_id) (\<lambda>r. r\<lparr>q_count := q_count r + 1\<rparr>) rows
      | None \<Rightarrow>
          upsert q_workspace_id \<lparr>q_workspace_id = workspace_id, q_window_start_at = now, q_count = 1\<rparr>
            (\<lambda>r. r\<lparr>q_window_start_at := now, q_count := 1\<rparr>) rows)"

definition check_rate_limits :: "ke_config \<Rightarrow> ke_state \<Rightarrow> string \<Rightarrow> timestamp \<Rightarrow> ke_error + unit" where
  "check_rate_limits K st source_address now =
     bind_res
       (case Option.bind (find_by c_key (addr_key K source_address) (ke_contacts st)) c_last_announce_sent_at of
          Some sent_at \<Rightarrow> if now - sent_at < kc_min_interval K then Inl RateLimited else Inr ()
        | None \<Rightarrow> Inr ())
       (\<lambda>_. if quota_full (ke_quota st) (mp_workspace_id (kc_principal K)) (kc_max_per_hour K) now
            then Inl RateLimited else Inr ())"

definition record_announce_sent :: "ke_config \<Rightarrow> ke_state \<Rightarrow> string \<Rightarrow> timestamp \<Rightarrow> ke_state" where
  "record_announce_sent K st source_address now =
     st\<lparr>ke_contacts := upsert c_key ((new_contact K source_address)\<lparr>c_last_announce_sent_at := Some now\<rparr>)
                         (\<lambda>c. c\<lparr>c_last_announce_sent_at := Some now\<rparr>) (ke_contacts st),
        ke_quota := quota_bump (ke_quota st) (mp_workspace_id (kc_principal K)) now\<rparr>"

definition build_and_record_announce ::
  "ext \<Rightarrow> ke_config \<Rightarrow> ke_state \<Rightarrow> string \<Rightarrow> timestamp \<Rightarrow> bool \<Rightarrow> ke_state \<times> (ke_error + bytes)" where
  "build_and_record_announce X K st source_address now bypass_rate_limit =
     (case (if bypass_rate_limit then Inr () else check_rate_limits K st source_address now) of
        Inl e \<Rightarrow> (st, Inl e)
      | Inr _ \<Rightarrow>
          (case load_signing_key X (ke_ids st) (kc_principal K) of
             Inl e \<Rightarrow> (st, Inl (KE_Identity e))
           | Inr signing_key \<Rightarrow>
               (case encode_key_announce X
                       \<lparr>ka_public_identity = mp_public_identity (kc_principal K), ka_epoch = mp_epoch (kc_principal K),
                        ka_signature = None\<rparr> signing_key of
                  Inl e \<Rightarrow> (st, Inl (KE_Codec e))
                | Inr announce \<Rightarrow> (record_announce_sent K st source_address now, Inr announce))))"

definition force_announce ::
  "ext \<Rightarrow> ke_config \<Rightarrow> ke_state \<Rightarrow> string \<Rightarrow> timestamp \<Rightarrow> ke_state \<times> (ke_error + bytes)" where
  "force_announce X K st source_address now = build_and_record_announce X K st source_address now True"

definition check_key_request_rate_limit :: "ke_config \<Rightarrow> ke_state \<Rightarrow> string \<Rightarrow> timestamp \<Rightarrow> ke_error + unit" where
  "check_key_request_rate_limit K st source_address now =
     (case Option.bind (find_by c_key (addr_key K source_address) (ke_contacts st)) c_last_request_sent_at of
        Some sent_at \<Rightarrow> if now - sent_at < kc_min_key_request_interval K then Inl RateLimited else Inr ()
      | None \<Rightarrow> Inr ())"

definition record_key_request_sent :: "ke_config \<Rightarrow> ke_state \<Rightarrow> string \<Rightarrow> timestamp \<Rightarrow> ke_state" where
  "record_key_request_sent K st source_address now =
     st\<lparr>ke_contacts := upsert c_key ((new_contact K source_address)\<lparr>c_last_request_sent_at := Some now\<rparr>)
                         (\<lambda>c. c\<lparr>c_last_request_sent_at := Some now\<rparr>) (ke_contacts st)\<rparr>"

definition check_auto_key_request_quota :: "ke_config \<Rightarrow> ke_state \<Rightarrow> timestamp \<Rightarrow> ke_error + unit" where
  "check_auto_key_request_quota K st now =
     (if quota_full (ke_auto_quota st) (mp_workspace_id (kc_principal K)) (kc_max_auto_key_requests_per_hour K) now
      then Inl RateLimited else Inr ())"

definition record_auto_key_request_sent :: "ke_config \<Rightarrow> ke_state \<Rightarrow> timestamp \<Rightarrow> ke_state" where
  "record_auto_key_request_sent K st now =
     st\<lparr>ke_auto_quota := quota_bump (ke_auto_quota st) (mp_workspace_id (kc_principal K)) now\<rparr>"

section \<open>Incoming messages\<close>

datatype route_type = DIRECT | CHANNEL | CHAT | MANUAL

record delivery_envelope =
  e_logical_message :: bytes
  e_route_type :: route_type
  e_source_address :: "string option"

definition handle_key_request ::
  "ext \<Rightarrow> ke_config \<Rightarrow> ke_state \<Rightarrow> delivery_envelope \<Rightarrow> timestamp \<Rightarrow> ke_state \<times> (ke_error + bytes option)" where
  "handle_key_request X K st envelope now =
     (if e_route_type envelope \<noteq> DIRECT then (st, Inr None)
      else case e_source_address envelope of
        None \<Rightarrow> (st, Inr None)
      | Some source_address \<Rightarrow>
          (case decode_key_request X (e_logical_message envelope) None of
             Inl e \<Rightarrow> (st, Inl (KE_Codec e))
           | Inr _ \<Rightarrow>
               (let r = build_and_record_announce X K st source_address now False
                in (fst r, map_sum id Some (snd r)))))"

text \<open>What an announced identity does to the row of its address.\<close>

definition new_binding :: "ke_config \<Rightarrow> string \<Rightarrow> string \<Rightarrow> key_announce_fields \<Rightarrow> timestamp \<Rightarrow> binding_row" where
  "new_binding K source_address sender_key_id f now =
     \<lparr>b_id = kc_adapter_id K @ '':'' @ source_address, b_workspace_id = mp_workspace_id (kc_principal K),
      b_adapter_id = kc_adapter_id K, b_transport_address = source_address, b_principal_id = sender_key_id,
      b_sender_key_id = sender_key_id, b_public_identity = ka_public_identity f, b_key_epoch = ka_epoch f,
      b_bound_at = now, b_tofu_confirmed_at = None, b_pending_public_identity = None,
      b_pending_key_epoch = None, b_pending_detected_at = None\<rparr>"

definition rebind :: "string \<Rightarrow> bytes \<Rightarrow> int \<Rightarrow> timestamp \<Rightarrow> binding_row \<Rightarrow> binding_row" where
  "rebind key_id public_identity epoch now b =
     b\<lparr>b_principal_id := key_id, b_sender_key_id := key_id, b_public_identity := public_identity,
       b_key_epoch := epoch, b_bound_at := now, b_pending_public_identity := None,
       b_pending_key_epoch := None, b_pending_detected_at := None\<rparr>"

definition update_binding :: "ke_config \<Rightarrow> string \<Rightarrow> (binding_row \<Rightarrow> binding_row) \<Rightarrow> ke_state \<Rightarrow> ke_state" where
  "update_binding K address f st =
     st\<lparr>ke_bindings := update_where (\<lambda>b. b_key b = addr_key K address) f (ke_bindings st)\<rparr>"

definition apply_announce ::
  "ke_config \<Rightarrow> ke_state \<Rightarrow> string \<Rightarrow> string \<Rightarrow> key_announce_fields \<Rightarrow> timestamp \<Rightarrow> ke_error + ke_state" where
  "apply_announce K st source_address sender_key_id f now =
     (case find_by b_key (addr_key K source_address) (ke_bindings st) of
        None \<Rightarrow>
          (let row = new_binding K source_address sender_key_id f now in
           if b_id row \<in> b_id ` set (ke_bindings st) then Inl KE_IntegrityError
           else Inr (st\<lparr>ke_bindings := ke_bindings st @ [row]\<rparr>))
      | Some existing \<Rightarrow>
          if b_tofu_confirmed_at existing = None
          then Inr (update_binding K source_address (rebind sender_key_id (ka_public_identity f) (ka_epoch f) now) st)
          else if b_public_identity existing = ka_public_identity f
          then Inr (if ka_epoch f \<noteq> b_key_epoch existing
                    then update_binding K source_address (\<lambda>b. b\<lparr>b_key_epoch := ka_epoch f\<rparr>) st else st)
          else Inr (update_binding K source_address
                 (\<lambda>b. b\<lparr>b_pending_public_identity := Some (ka_public_identity f),
                        b_pending_key_epoch := Some (ka_epoch f), b_pending_detected_at := Some now\<rparr>) st))"

definition own_key_ack :: "ext \<Rightarrow> ke_config \<Rightarrow> ke_state \<Rightarrow> ke_error + bytes" where
  "own_key_ack X K st =
     (case load_signing_key X (ke_ids st) (kc_principal K) of
        Inl e \<Rightarrow> Inl (KE_Identity e)
      | Inr signing_key \<Rightarrow>
          (case fromhex (mp_key_id (kc_principal K)) of
             None \<Rightarrow> Inl KE_ValueError
           | Some key_id \<Rightarrow>
               (case encode_key_ack X \<lparr>kk_sender_key_id = key_id, kk_epoch = mp_epoch (kc_principal K), kk_signature = None\<rparr>
                       signing_key of
                  Inl e \<Rightarrow> Inl (KE_Codec e) | Inr ack \<Rightarrow> Inr ack)))"

definition handle_key_announce ::
  "ext \<Rightarrow> ke_config \<Rightarrow> ke_state \<Rightarrow> delivery_envelope \<Rightarrow> timestamp \<Rightarrow> ke_state \<times> (ke_error + bytes option)" where
  "handle_key_announce X K st envelope now =
     (case e_source_address envelope of
        None \<Rightarrow> (st, Inr None)
      | Some source_address \<Rightarrow>
          (case decode_key_announce X (e_logical_message envelope) True of
             Inl e \<Rightarrow> (st, Inl (KE_Codec e))
           | Inr f \<Rightarrow>
               (case compute_key_id X (ka_public_identity f) of
                  Inl e \<Rightarrow> (st, Inl (KE_Identity e))
                | Inr sender_key_id \<Rightarrow>
                    (case apply_announce K st source_address sender_key_id f now of
                       Inl e \<Rightarrow> (st, Inl e)
                     | Inr st' \<Rightarrow> (st', map_sum id Some (own_key_ack X K st'))))))"

definition handle_key_ack :: "ext \<Rightarrow> delivery_envelope \<Rightarrow> ke_error + unit" where
  "handle_key_ack X envelope =
     (case decode_key_ack X (e_logical_message envelope) None of Inl e \<Rightarrow> Inl (KE_Codec e) | Inr _ \<Rightarrow> Inr ())"

definition handle_incoming ::
  "ext \<Rightarrow> ke_config \<Rightarrow> ke_state \<Rightarrow> delivery_envelope \<Rightarrow> timestamp \<Rightarrow> ke_state \<times> (ke_error + bytes option)" where
  "handle_incoming X K st envelope now =
     (case peek_message_type X (e_logical_message envelope) of
        Inl _ \<Rightarrow> (st, Inr None)
      | Inr message_type \<Rightarrow>
          if message_type = KEY_REQUEST then handle_key_request X K st envelope now
          else if message_type = KEY_ANNOUNCE then handle_key_announce X K st envelope now
          else if message_type = KEY_ACK then (st, map_sum id (\<lambda>_. None) (handle_key_ack X envelope))
          else (st, Inr None))"

section \<open>Explicit user actions\<close>

definition confirm_tofu :: "ke_config \<Rightarrow> ke_state \<Rightarrow> string \<Rightarrow> timestamp \<Rightarrow> ke_state" where
  "confirm_tofu K st source_address now =
     update_binding K source_address (\<lambda>b. b\<lparr>b_tofu_confirmed_at := Some now\<rparr>) st"

definition accept_pending_key_change ::
  "ext \<Rightarrow> ke_config \<Rightarrow> ke_state \<Rightarrow> string \<Rightarrow> timestamp \<Rightarrow> ke_state \<times> (ke_error + unit)" where
  "accept_pending_key_change X K st source_address now =
     (case find_by b_key (addr_key K source_address) (ke_bindings st) of
        None \<Rightarrow> (st, Inl KeyExchangeError)
      | Some row \<Rightarrow>
          (case b_pending_public_identity row of
             None \<Rightarrow> (st, Inl KeyExchangeError)
           | Some new_public_identity \<Rightarrow>
               (case compute_key_id X new_public_identity of
                  Inl e \<Rightarrow> (st, Inl (KE_Identity e))
                | Inr new_key_id \<Rightarrow>
                    (case b_pending_key_epoch row of
                       None \<Rightarrow> (st, Inl KE_IntegrityError)
                     | Some epoch \<Rightarrow>
                         (update_binding K source_address
                            (\<lambda>b. (rebind new_key_id new_public_identity epoch now b)\<lparr>b_tofu_confirmed_at := None\<rparr>) st,
                          Inr ())))))"

definition reject_pending_key_change :: "ke_config \<Rightarrow> ke_state \<Rightarrow> string \<Rightarrow> ke_state \<times> (ke_error + unit)" where
  "reject_pending_key_change K st source_address =
     (if \<exists>b \<in> set (ke_bindings st). b_key b = addr_key K source_address \<and> b_pending_public_identity b \<noteq> None
      then (st\<lparr>ke_bindings := update_where
                 (\<lambda>b. b_key b = addr_key K source_address \<and> b_pending_public_identity b \<noteq> None)
                 (\<lambda>b. b\<lparr>b_pending_public_identity := None, b_pending_key_epoch := None, b_pending_detected_at := None\<rparr>)
                 (ke_bindings st)\<rparr>, Inr ())
      else (st, Inl KeyExchangeError))"

section \<open>Key-request series\<close>

definition upsert_series :: "ke_config \<Rightarrow> ke_state \<Rightarrow> string \<Rightarrow> int \<Rightarrow> timestamp option \<Rightarrow> ke_state" where
  "upsert_series K st source_address attempts next_retry_at =
     st\<lparr>ke_contacts := upsert c_key
          ((new_contact K source_address)\<lparr>c_key_request_attempts := attempts, c_key_request_next_retry_at := next_retry_at\<rparr>)
          (\<lambda>c. c\<lparr>c_key_request_attempts := attempts, c_key_request_next_retry_at := next_retry_at\<rparr>) (ke_contacts st)\<rparr>"

definition start_key_request_series :: "ke_config \<Rightarrow> ke_state \<Rightarrow> string \<Rightarrow> timestamp \<Rightarrow> ke_state" where
  "start_key_request_series K st source_address now =
     (let r = first_attempt now in upsert_series K st source_address (fst r) (Some (snd r)))"

definition advance_key_request_series :: "ke_config \<Rightarrow> ke_state \<Rightarrow> string \<Rightarrow> int \<Rightarrow> timestamp option \<Rightarrow> ke_state" where
  "advance_key_request_series K st source_address attempts next_retry_at =
     upsert_series K st source_address attempts next_retry_at"

definition end_key_request_series :: "ke_config \<Rightarrow> ke_state \<Rightarrow> string \<Rightarrow> ke_state" where
  "end_key_request_series K st source_address = upsert_series K st source_address 0 None"

definition list_key_request_series :: "ke_config \<Rightarrow> ke_state \<Rightarrow> (string \<times> int \<times> timestamp option) list" where
  "list_key_request_series K st =
     map (\<lambda>c. (c_source_address c, c_key_request_attempts c, c_key_request_next_retry_at c))
       (filter (\<lambda>c. c_workspace_id c = mp_workspace_id (kc_principal K) \<and> c_adapter_id c = kc_adapter_id K
                  \<and> 0 < c_key_request_attempts c) (ke_contacts st))"

definition build_key_request :: "ext \<Rightarrow> ke_config \<Rightarrow> ke_state \<Rightarrow> ke_error + bytes" where
  "build_key_request X K st =
     (case load_signing_key X (ke_ids st) (kc_principal K) of
        Inl e \<Rightarrow> Inl (KE_Identity e)
      | Inr signing_key \<Rightarrow>
          (case fromhex (mp_key_id (kc_principal K)) of
             None \<Rightarrow> Inl KE_ValueError
           | Some key_id \<Rightarrow>
               (case encode_key_request X \<lparr>kr_sender_key_id = key_id, kr_signature = None\<rparr> signing_key of
                  Inl e \<Rightarrow> Inl (KE_Codec e) | Inr m \<Rightarrow> Inr m)))"

text \<open>
  \<open>service._retry_one_key_request\<close>: \<open>contact_gone\<close> is the outcome of \<open>_contact_exists_fn\<close>, \<open>send\<close> the delivery
  adapter's \<open>encode\<close>-and-\<open>send\<close> (\<open>True\<close> when the receipt says sent; \<open>DeliveryError\<close> and a false receipt are
  \<open>False\<close>), \<open>None\<close> when there is no adapter. The flag of the result says whether a request went out.
\<close>

definition retry_one_key_request ::
  "ext \<Rightarrow> ke_config \<Rightarrow> bool \<Rightarrow> (bytes \<Rightarrow> bool) option \<Rightarrow> ke_state \<Rightarrow> string \<Rightarrow> int \<Rightarrow> timestamp option \<Rightarrow> timestamp
    \<Rightarrow> ke_state \<times> (ke_error + bool)" where
  "retry_one_key_request X K contact_gone send st address attempts next_retry_at now =
     (if get_binding K st address \<noteq> None \<or> contact_gone then (end_key_request_series K st address, Inr False)
      else case due_action attempts next_retry_at now of
        ACTION_NONE \<Rightarrow> (st, Inr False)
      | ACTION_GIVE_UP \<Rightarrow> (advance_key_request_series K st address attempts None, Inr False)
      | ACTION_RETRY \<Rightarrow>
          (let postponed = (advance_key_request_series K st address attempts (Some (now + POSTPONE_UNSENT_S)), Inr False) in
           case send of
             None \<Rightarrow> postponed
           | Some transmit \<Rightarrow>
               if bind_res (check_key_request_rate_limit K st address now) (\<lambda>_. check_auto_key_request_quota K st now)
                    = Inl RateLimited
               then postponed
               else (case build_key_request X K st of
                       Inl e \<Rightarrow> (st, Inl e)
                     | Inr message \<Rightarrow>
                         if \<not> transmit message then postponed
                         else (let st1 = record_key_request_sent K st address now;
                                   st2 = record_auto_key_request_sent K st1 now;
                                   r = after_retry_sent attempts now
                               in (advance_key_request_series K st2 address (fst r) (Some (snd r)), Inr True)))))"

text \<open>
  \<open>service._retry_key_requests\<close>: the snapshot of the running series is walked in order; an exception in one
  series is logged and stops nothing. \<open>gone\<close> and \<open>send\<close> are per address.
\<close>

definition retry_key_requests ::
  "ext \<Rightarrow> ke_config \<Rightarrow> bool \<Rightarrow> (string \<Rightarrow> bool) \<Rightarrow> (string \<Rightarrow> (bytes \<Rightarrow> bool) option) \<Rightarrow> ke_state \<Rightarrow> timestamp \<Rightarrow> ke_state" where
  "retry_key_requests X K vault_locked gone send st now =
     (if vault_locked then st
      else fold (\<lambda>(address, attempts, next_retry_at) st.
             if \<not> is_running attempts next_retry_at then st
             else fst (retry_one_key_request X K (gone address) (send address) st address attempts next_retry_at now))
           (list_key_request_series K st) st)"

section \<open>Contacts\<close>

datatype contact_status = CS_KEY_UNKNOWN | CS_CONFIRMATION_REQUIRED | CS_TRUSTED | CS_KEY_CHANGED

fun status_to_public :: "address_status \<Rightarrow> contact_status" where
  "status_to_public KEY_UNKNOWN = CS_KEY_UNKNOWN"
| "status_to_public KEY_UNVERIFIED = CS_CONFIRMATION_REQUIRED"
| "status_to_public MCA_READY = CS_TRUSTED"
| "status_to_public KEY_CHANGED = CS_KEY_CHANGED"

definition contact_status :: "ke_config \<Rightarrow> ke_state \<Rightarrow> string \<Rightarrow> contact_status" where
  "contact_status K st source_address = status_to_public (get_status K st source_address)"

datatype contact_error = ContactError | ContactOther ke_error

text \<open>\<open>except KeyExchangeError\<close>, the base class of \<open>RateLimited\<close> too.\<close>

fun as_contact_error :: "ke_error \<Rightarrow> contact_error" where
  "as_contact_error KeyExchangeError = ContactError"
| "as_contact_error RateLimited = ContactError"
| "as_contact_error e = ContactOther e"

definition confirm_binding :: "ke_config \<Rightarrow> ke_state \<Rightarrow> string \<Rightarrow> timestamp \<Rightarrow> ke_state \<times> (contact_error + unit)" where
  "confirm_binding K st source_address now =
     (if get_binding K st source_address = None then (st, Inl ContactError)
      else (confirm_tofu K st source_address now, Inr ()))"

definition accept_key_change ::
  "ext \<Rightarrow> ke_config \<Rightarrow> ke_state \<Rightarrow> string \<Rightarrow> timestamp \<Rightarrow> ke_state \<times> (contact_error + unit)" where
  "accept_key_change X K st source_address now =
     (let r = accept_pending_key_change X K st source_address now in (fst r, map_sum as_contact_error id (snd r)))"

definition reject_key_change :: "ke_config \<Rightarrow> ke_state \<Rightarrow> string \<Rightarrow> ke_state \<times> (contact_error + unit)" where
  "reject_key_change K st source_address =
     (let r = reject_pending_key_change K st source_address in (fst r, map_sum as_contact_error id (snd r)))"

end
