(* ===== verification/Key_Exchange_Properties.thy ===== *)
theory Key_Exchange_Properties
  imports Key_Exchange Signed_Codec
begin

text \<open>
  Trust on first use and rate limiting: the invariant of the bindings table over every reachable state,
  what messages can and cannot do to a confirmed key, the two quotas and the retry schedule.
\<close>

section \<open>Lookups under updates\<close>

lemma find_update_binding:
  assumes "\<And>b. b_key (f b) = b_key b"
  shows "find_by b_key k (ke_bindings (update_binding K a f st)) =
    (if k = addr_key K a then map_option f (find_by b_key k (ke_bindings st)) else find_by b_key k (ke_bindings st))"
  using assms find_by_update_same [of b_key f] find_by_update_other [of b_key f] by (auto simp: update_binding_def)

lemma b_key_updates [simp]:
  "b_key (b\<lparr>b_tofu_confirmed_at := t\<rparr>) = b_key b"
  "b_key (b\<lparr>b_key_epoch := e\<rparr>) = b_key b"
  "b_key (b\<lparr>b_pending_public_identity := pp, b_pending_key_epoch := pe, b_pending_detected_at := d\<rparr>) = b_key b"
  "b_key (rebind k p e now b) = b_key b"
  "b_key ((rebind k p e now b)\<lparr>b_tofu_confirmed_at := t\<rparr>) = b_key b"
  by (simp_all add: b_key_def rebind_def)

lemma b_key_new_binding [simp]: "b_key (new_binding K a kid f now) = addr_key K a"
  by (simp add: b_key_def addr_key_def new_binding_def)

lemma b_id_new_binding [simp]: "b_id (new_binding K a kid f now) = kc_adapter_id K @ '':'' @ a"
  by (simp add: new_binding_def)

lemma addr_key_inj [simp]: "addr_key K a = addr_key K a' \<longleftrightarrow> a = a'"
  by (simp add: addr_key_def)

lemma update_binding_simps [simp]:
  "ke_contacts (update_binding K a f st) = ke_contacts st" "ke_quota (update_binding K a f st) = ke_quota st"
  "ke_auto_quota (update_binding K a f st) = ke_auto_quota st" "ke_ids (update_binding K a f st) = ke_ids st"
  by (simp_all add: update_binding_def)

lemma bindings_of_announcing [simp]:
  "ke_bindings (record_announce_sent K st a now) = ke_bindings st"
  "ke_bindings (fst (build_and_record_announce X K st a now bypass)) = ke_bindings st"
  by (auto simp: record_announce_sent_def build_and_record_announce_def split: sum.splits)

lemma bindings_of_series [simp]:
  "ke_bindings (upsert_series K st a n t) = ke_bindings st"
  "ke_bindings (record_key_request_sent K st a now) = ke_bindings st"
  "ke_bindings (record_auto_key_request_sent K st now) = ke_bindings st"
  by (simp_all add: upsert_series_def record_key_request_sent_def record_auto_key_request_sent_def)

text \<open>The bindings table changes only through \<open>apply_announce\<close> when a message comes in.\<close>

lemma handle_incoming_bindings:
  obtains (same) "ke_bindings (fst (handle_incoming X K st env now)) = ke_bindings st"
  | (announce) a f kid st' where "e_source_address env = Some a" "decode_key_announce X (e_logical_message env) True = Inr f"
      "compute_key_id X (ka_public_identity f) = Inr kid" "apply_announce K st a kid f now = Inr st'"
      "fst (handle_incoming X K st env now) = st'"
proof (cases "peek_message_type X (e_logical_message env) = Inr KEY_ANNOUNCE")
  case True
  then have eq: "handle_incoming X K st env now = handle_key_announce X K st env now"
    by (simp add: handle_incoming_def)
  show ?thesis
  proof (cases "fst (handle_incoming X K st env now) = st")
    case False
    then show ?thesis
      using that(2) unfolding eq by (auto simp: handle_key_announce_def split: option.splits sum.splits)
  qed (auto intro: that(1))
next
  case False
  then have "ke_bindings (fst (handle_incoming X K st env now)) = ke_bindings st"
    by (auto simp: handle_incoming_def handle_key_request_def Let_def split: option.splits sum.splits)
  then show ?thesis
    by (rule that(1))
qed

section \<open>Invariant\<close>

definition binding_ok :: "ext \<Rightarrow> binding_row \<Rightarrow> bool" where
  "binding_ok X b \<longleftrightarrow>
     compute_key_id X (b_public_identity b) = Inr (b_sender_key_id b) \<and> b_principal_id b = b_sender_key_id b
     \<and> (\<forall>p. b_pending_public_identity b = Some p \<longrightarrow>
          b_tofu_confirmed_at b \<noteq> None \<and> b_pending_key_epoch b \<noteq> None \<and> length p = 32 \<and> p \<noteq> b_public_identity b)"

definition ke_ok :: "ext \<Rightarrow> ke_state \<Rightarrow> bool" where
  "ke_ok X st \<longleftrightarrow> distinct (map b_key (ke_bindings st)) \<and> (\<forall>b \<in> set (ke_bindings st). binding_ok X b)"

lemma ke_okD: "ke_ok X st \<Longrightarrow> find_by b_key k (ke_bindings st) = Some b \<Longrightarrow> binding_ok X b"
  using find_by_Some by (fastforce simp: ke_ok_def)

lemma ke_ok_update:
  assumes "ke_ok X st" and "\<And>b. b_key (f b) = b_key b"
    and "\<And>b. find_by b_key (addr_key K a) (ke_bindings st) = Some b \<Longrightarrow> binding_ok X (f b)"
  shows "ke_ok X (update_binding K a f st)"
proof -
  have "find_by b_key (b_key b) (ke_bindings st) = Some b" if "b \<in> set (ke_bindings st)" for b
    using assms(1) that find_by_unique by (fastforce simp: ke_ok_def)
  then have "binding_ok X (f b)" if "b \<in> set (ke_bindings st)" "b_key b = addr_key K a" for b
    using assms(3) that by metis
  then show ?thesis
    using assms(1,2) by (auto simp: ke_ok_def update_binding_def set_update_where)
qed

lemma row_to_binding_ok: "binding_ok X b \<Longrightarrow> row_to_binding b = b"
  by (cases "b_pending_public_identity b") (auto simp: binding_ok_def row_to_binding_def)

lemma get_binding_ok: "ke_ok X st \<Longrightarrow> get_binding K st a = find_by b_key (addr_key K a) (ke_bindings st)"
proof (cases "find_by b_key (addr_key K a) (ke_bindings st)")
  case (Some b)
  moreover assume "ke_ok X st"
  ultimately show ?thesis
    using ke_okD [of X st "addr_key K a" b] row_to_binding_ok [of X b] by (simp add: get_binding_def)
qed (simp add: get_binding_def)

lemma binding_ok_rebind:
  "compute_key_id X p = Inr kid \<Longrightarrow> binding_ok X (rebind kid p e now b)"
  "compute_key_id X p = Inr kid \<Longrightarrow> binding_ok X ((rebind kid p e now b)\<lparr>b_tofu_confirmed_at := t\<rparr>)"
  by (simp_all add: binding_ok_def rebind_def)

lemma apply_announce_ok:
  assumes ok: "ke_ok X st" and kid: "compute_key_id X (ka_public_identity f) = Inr kid"
    and ap: "apply_announce K st a kid f now = Inr st'"
  shows "ke_ok X st'"
proof (cases "find_by b_key (addr_key K a) (ke_bindings st)")
  case None
  then have "st' = st\<lparr>ke_bindings := ke_bindings st @ [new_binding K a kid f now]\<rparr>"
    using ap by (auto simp: apply_announce_def Let_def split: if_splits)
  moreover have "binding_ok X (new_binding K a kid f now)"
    using kid by (simp add: binding_ok_def new_binding_def)
  moreover have "addr_key K a \<notin> b_key ` set (ke_bindings st)"
    using None by (simp add: find_by_None)
  ultimately show ?thesis
    using ok by (auto simp: ke_ok_def)
next
  case (Some b)
  have bok: "binding_ok X b"
    using ke_okD [OF ok Some] .
  have len: "length (ka_public_identity f) = 32"
    using kid by (simp add: compute_key_id_Inr)
  show ?thesis
    using ap Some ok bok kid len
    by (auto simp: apply_announce_def binding_ok_rebind split: if_splits intro!: ke_ok_update [OF ok])
      (auto simp: binding_ok_def)
qed

text \<open>Every operation of the coordinator and of the service that uses it, as one step.\<close>

inductive ke_step :: "ext \<Rightarrow> ke_config \<Rightarrow> ke_state \<Rightarrow> ke_state \<Rightarrow> bool" for X K where
  incoming: "ke_step X K st (fst (handle_incoming X K st env now))"
| force: "ke_step X K st (fst (force_announce X K st a now))"
| confirm: "ke_step X K st (confirm_tofu K st a now)"
| accept: "ke_step X K st (fst (accept_pending_key_change X K st a now))"
| reject: "ke_step X K st (fst (reject_pending_key_change K st a))"
| request: "ke_step X K st (record_key_request_sent K st a now)"
| auto_request: "ke_step X K st (record_auto_key_request_sent K st now)"
| series: "ke_step X K st (upsert_series K st a n t)"

inductive_cases ke_stepE: "ke_step X K st st'"

lemma accept_ok:
  assumes "ke_ok X st"
  shows "ke_ok X (fst (accept_pending_key_change X K st a now))"
proof (cases "snd (accept_pending_key_change X K st a now)")
  case (Inr u)
  then obtain b p kid e where "find_by b_key (addr_key K a) (ke_bindings st) = Some b"
    "b_pending_public_identity b = Some p" "compute_key_id X p = Inr kid" "b_pending_key_epoch b = Some e"
    "fst (accept_pending_key_change X K st a now)
       = update_binding K a (\<lambda>b. (rebind kid p e now b)\<lparr>b_tofu_confirmed_at := None\<rparr>) st"
    by (auto simp: accept_pending_key_change_def split: option.splits sum.splits)
  then show ?thesis
    using assms by (auto simp: binding_ok_rebind intro!: ke_ok_update [OF assms])
next
  case (Inl e)
  then have "fst (accept_pending_key_change X K st a now) = st"
    by (auto simp: accept_pending_key_change_def split: option.splits sum.splits)
  then show ?thesis
    using assms by simp
qed

lemma reject_ok:
  assumes "ke_ok X st"
  shows "ke_ok X (fst (reject_pending_key_change K st a))"
proof -
  have "binding_ok X (b\<lparr>b_pending_public_identity := None, b_pending_key_epoch := None, b_pending_detected_at := None\<rparr>)"
    if "binding_ok X b" for b
    using that by (simp add: binding_ok_def)
  then show ?thesis
    using assms by (auto simp: reject_pending_key_change_def ke_ok_def set_update_where)
qed

lemma incoming_ok: "ke_ok X st \<Longrightarrow> ke_ok X (fst (handle_incoming X K st env now))"
proof (rule handle_incoming_bindings [of X K st env now])
  assume "ke_ok X st" and "ke_bindings (fst (handle_incoming X K st env now)) = ke_bindings st"
  then show ?thesis by (simp add: ke_ok_def)
qed (auto intro: apply_announce_ok)

lemma confirm_ok: "ke_ok X st \<Longrightarrow> ke_ok X (confirm_tofu K st a now)"
  unfolding confirm_tofu_def by (rule ke_ok_update) (auto dest: ke_okD simp: binding_ok_def)

lemma ke_ok_bindings: "ke_bindings st' = ke_bindings st \<Longrightarrow> ke_ok X st \<Longrightarrow> ke_ok X st'"
  by (simp add: ke_ok_def)

lemma ke_step_ok: "ke_step X K st st' \<Longrightarrow> ke_ok X st \<Longrightarrow> ke_ok X st'"
  by (elim ke_stepE) (auto intro: incoming_ok confirm_ok accept_ok reject_ok elim: ke_ok_bindings [rotated]
      simp: force_announce_def)

inductive ke_reachable :: "ext \<Rightarrow> ke_config \<Rightarrow> ke_state \<Rightarrow> bool" for X K where
  start: "ke_bindings st = [] \<Longrightarrow> ke_reachable X K st"
| step: "ke_reachable X K st \<Longrightarrow> ke_step X K st st' \<Longrightarrow> ke_reachable X K st'"

lemma reachable_ok: "ke_reachable X K st \<Longrightarrow> ke_ok X st"
proof (induction rule: ke_reachable.induct)
  case (start st)
  then show ?case by (simp add: ke_ok_def)
qed (rule ke_step_ok)

text \<open>What an announcement does to the row of its own address, and that it does nothing to the others.\<close>

definition announced_row :: "string \<Rightarrow> key_announce_fields \<Rightarrow> timestamp \<Rightarrow> binding_row \<Rightarrow> binding_row" where
  "announced_row kid f now b =
     (if b_tofu_confirmed_at b = None then rebind kid (ka_public_identity f) (ka_epoch f) now b
      else if b_public_identity b = ka_public_identity f then b\<lparr>b_key_epoch := ka_epoch f\<rparr>
      else b\<lparr>b_pending_public_identity := Some (ka_public_identity f), b_pending_key_epoch := Some (ka_epoch f),
             b_pending_detected_at := Some now\<rparr>)"

lemma apply_announce_find:
  assumes "apply_announce K st a kid f now = Inr st'"
  shows "find_by b_key k (ke_bindings st') =
    (if k = addr_key K a
     then Some (case find_by b_key k (ke_bindings st) of None \<Rightarrow> new_binding K a kid f now | Some b \<Rightarrow> announced_row kid f now b)
     else find_by b_key k (ke_bindings st))"
proof (cases "find_by b_key (addr_key K a) (ke_bindings st)")
  case None
  then show ?thesis
    using assms by (auto simp: apply_announce_def Let_def find_by_append split: if_splits option.splits)
next
  case (Some b)
  then show ?thesis
    using assms by (auto simp: apply_announce_def find_update_binding announced_row_def split: if_splits)
qed

lemma announced_row_trust:
  "b_tofu_confirmed_at (announced_row kid f now b) = b_tofu_confirmed_at b"
  "b_tofu_confirmed_at b \<noteq> None \<Longrightarrow> b_public_identity (announced_row kid f now b) = b_public_identity b"
  "b_tofu_confirmed_at b \<noteq> None \<Longrightarrow> b_sender_key_id (announced_row kid f now b) = b_sender_key_id b"
  "b_tofu_confirmed_at b \<noteq> None \<Longrightarrow> binding_status (announced_row kid f now b) = MCA_READY \<Longrightarrow> binding_status b = MCA_READY"
  by (auto simp: announced_row_def rebind_def binding_status_def split: if_splits)

lemma new_binding_unconfirmed: "b_tofu_confirmed_at (new_binding K a kid f now) = None"
  by (simp add: new_binding_def)

lemma peek_of_check:
  assumes "decode_cbor_map X raw = Inr obj" and "check_version_and_type obj t = Inr ()"
  shows "peek_message_type X raw = Inr t"
  using assms
  by (cases "get_field obj 0"; cases "get_field obj 1")
    (auto simp: check_version_and_type_def peek_message_type_def split: if_splits option.splits)

lemma decode_announce_identity:
  assumes "decode_key_announce X raw True = Inr f"
  shows "\<exists>kid. compute_key_id X (ka_public_identity f) = Inr kid" and "peek_message_type X raw = Inr KEY_ANNOUNCE"
proof -
  obtain obj v where d: "decode_cbor_map X raw = Inr obj" "check_version_and_type obj KEY_ANNOUNCE = Inr ()"
    and v: "get_field obj 2 = Inr v"
    using assms by (cases "decode_cbor_map X raw"; cases "check_version_and_type (projr (decode_cbor_map X raw)) KEY_ANNOUNCE";
      cases "get_field (projr (decode_cbor_map X raw)) 2") (auto simp: decode_key_announce_def)
  from d show "peek_message_type X raw = Inr KEY_ANNOUNCE"
    by (rule peek_of_check)
  obtain pk where pk: "require_bytes v 32 = Inr pk"
    using assms d v by (cases "require_bytes v 32") (auto simp: decode_key_announce_def)
  with assms have "ka_public_identity f = pk"
    by (auto simp: decode_key_announce_def d v bind_res_eq_Inr)
  with pk show "\<exists>kid. compute_key_id X (ka_public_identity f) = Inr kid"
    by (simp add: require_bytes_Inr compute_key_id_def)
qed

section \<open>A sample workspace\<close>

definition sample_principal :: mca_principal where
  "sample_principal = \<lparr>mp_workspace_id = ''w'', mp_principal_id = ''p'', mp_key_id = hex_of (replicate 8 9), mp_epoch = 0,
     mp_public_identity = replicate 32 9, mp_public_x25519 = replicate 32 9, mp_private_key_file = ''k'',
     mp_created_at = 0, mp_status = ''ACTIVE''\<rparr>"

definition sample_config :: ke_config where
  "sample_config = \<lparr>kc_principal = sample_principal, kc_adapter_id = ''mesh'', kc_max_per_hour = 12, kc_min_interval = 600,
     kc_min_key_request_interval = 600, kc_max_auto_key_requests_per_hour = 12\<rparr>"

definition empty_ke :: ke_state where
  "empty_ke = \<lparr>ke_bindings = [], ke_contacts = [], ke_quota = [], ke_auto_quota = [],
     ke_ids = \<lparr>is_rows = [], is_keys = [(''p'', ''k'') \<mapsto> replicate 32 9]\<rparr>\<rparr>"

lemma sample_announce: "\<exists>raw f. decode_key_announce ref_ext raw True = Inr f \<and> ka_public_identity f = replicate 32 n"
proof -
  let ?f = "\<lparr>ka_public_identity = replicate 32 n, ka_epoch = 0, ka_signature = None\<rparr>"
  obtain raw where raw: "encode_key_announce ref_ext ?f (replicate 32 n) = Inr raw"
    using announce.enc_succeeds_iff [of ref_ext ?f "replicate 32 n"] by (auto simp: key_announce_valid_def)
  have "ed_public ref_ext (replicate 32 n) = replicate 32 n"
    by (simp add: ref_ext_def)
  with announce.roundtrip [OF _ _ raw, of True] obtain s where
    "decode_key_announce ref_ext raw True = Inr (?f\<lparr>ka_signature := Some s\<rparr>)" by auto
  then show ?thesis by fastforce
qed

section \<open>Properties\<close>

text \<open>C5. Invariant of the bindings table: in every state reachable from an empty table by incoming messages,
  user actions and the retry machinery, in any order, an address has at most one row; its key id is the one
  derived from its public identity; and a parked replacement key exists only beside a confirmed one, differs
  from it and carries its epoch. Hence \<open>KEY_CHANGED\<close> always means a confirmed key is being contested.\<close>

theorem bindings_invariant:
  assumes "ke_reachable X K st"
  shows "distinct (map b_key (ke_bindings st))
     \<and> (\<forall>b \<in> set (ke_bindings st).
          compute_key_id X (b_public_identity b) = Inr (b_sender_key_id b) \<and> b_principal_id b = b_sender_key_id b
          \<and> (binding_status b = KEY_CHANGED \<longrightarrow> b_tofu_confirmed_at b \<noteq> None \<and> b_pending_key_epoch b \<noteq> None
               \<and> b_pending_public_identity b \<noteq> Some (b_public_identity b)))"
  using reachable_ok [OF assms] by (fastforce simp: ke_ok_def binding_ok_def binding_status_def split: if_splits)

theorem bindings_invariant_witness:
  "\<exists>raw b. fst (handle_incoming ref_ext sample_config empty_ke
             \<lparr>e_logical_message = raw, e_route_type = DIRECT, e_source_address = Some ''a''\<rparr> 5)
           = empty_ke\<lparr>ke_bindings := [b]\<rparr>
     \<and> compute_key_id ref_ext (b_public_identity b) = Inr (b_sender_key_id b)"
proof -
  obtain raw f where d: "decode_key_announce ref_ext raw True = Inr f"
    using sample_announce by blast
  let ?env = "\<lparr>e_logical_message = raw, e_route_type = DIRECT, e_source_address = Some ''a''\<rparr>"
  let ?st = "fst (handle_incoming ref_ext sample_config empty_ke ?env 5)"
  note id = decode_announce_identity [OF d]
  obtain b where st: "?st = empty_ke\<lparr>ke_bindings := [b]\<rparr>"
    using id by (auto simp: handle_incoming_def handle_key_announce_def d apply_announce_def empty_ke_def Let_def)
  have "ke_reachable ref_ext sample_config ?st"
    by (rule ke_reachable.step [OF ke_reachable.start ke_step.incoming]) (simp add: empty_ke_def)
  from bindings_invariant [OF this] show ?thesis
    unfolding st using st by auto
qed

text \<open>C6. Trust is never created or moved by a message: whatever arrives, from any address, the set of confirmed
  bindings is untouched - every address that is confirmed afterwards was confirmed before, at the same time and
  for the same identity and key id, and every confirmed address stays so. A different announced key can at most
  be parked as pending.\<close>

theorem messages_never_move_trust:
  assumes "ke_ok X st" and "fst (handle_incoming X K st env now) = st'"
  shows "(\<forall>a t pk kid. (\<exists>b. get_binding K st a = Some b \<and> b_tofu_confirmed_at b = Some t
              \<and> b_public_identity b = pk \<and> b_sender_key_id b = kid)
          \<longleftrightarrow> (\<exists>b'. get_binding K st' a = Some b' \<and> b_tofu_confirmed_at b' = Some t
              \<and> b_public_identity b' = pk \<and> b_sender_key_id b' = kid))
       \<and> (\<forall>a. get_status K st' a = MCA_READY \<longrightarrow> get_status K st a = MCA_READY)"
proof -
  have ok': "ke_ok X st'"
    using incoming_ok assms by blast
  note g = get_binding_ok [OF assms(1), of K] get_binding_ok [OF ok', of K]
  show ?thesis
  proof (rule handle_incoming_bindings [of X K st env now])
    assume "ke_bindings (fst (handle_incoming X K st env now)) = ke_bindings st"
    then show ?thesis
      using assms(2) by (simp add: get_status_def g)
  next
    fix c f kid s
    assume "apply_announce K st c kid f now = Inr s" "fst (handle_incoming X K st env now) = s"
    then have ap: "apply_announce K st c kid f now = Inr st'"
      using assms(2) by simp
    note f = apply_announce_find [OF ap] announced_row_trust new_binding_unconfirmed
    have "(\<exists>b. get_binding K st a = Some b \<and> b_tofu_confirmed_at b = Some t \<and> b_public_identity b = pk \<and> b_sender_key_id b = k)
      \<longleftrightarrow> (\<exists>b'. get_binding K st' a = Some b' \<and> b_tofu_confirmed_at b' = Some t \<and> b_public_identity b' = pk
            \<and> b_sender_key_id b' = k)" for a t pk k
      by (auto simp: g f split: option.splits)
    moreover have "get_status K st' a = MCA_READY \<longrightarrow> get_status K st a = MCA_READY" for a
      using f(5) [of _ kid f now] f(2) [of kid f now] f(6) [of K c kid f now]
      by (auto simp: get_status_def g f(1) binding_status_def split: option.splits if_splits)
    ultimately show ?thesis by blast
  qed
qed

theorem messages_never_move_trust_witness:
  "\<exists>raw st'. fst (handle_incoming ref_ext sample_config empty_ke
             \<lparr>e_logical_message = raw, e_route_type = DIRECT, e_source_address = Some ''a''\<rparr> 5) = st'
     \<and> st' \<noteq> empty_ke \<and> get_status sample_config st' ''a'' \<noteq> MCA_READY"
proof -
  obtain raw f where d: "decode_key_announce ref_ext raw True = Inr f"
    using sample_announce by blast
  let ?env = "\<lparr>e_logical_message = raw, e_route_type = DIRECT, e_source_address = Some ''a''\<rparr>"
  let ?st = "fst (handle_incoming ref_ext sample_config empty_ke ?env 5)"
  have "?st \<noteq> empty_ke"
    using decode_announce_identity [OF d]
    by (auto simp: handle_incoming_def handle_key_announce_def d apply_announce_def empty_ke_def Let_def)
  moreover have "ke_ok ref_ext empty_ke" "get_status sample_config empty_ke ''a'' \<noteq> MCA_READY"
    by (simp_all add: ke_ok_def empty_ke_def get_status_def get_binding_def)
  ultimately show ?thesis
    using messages_never_move_trust [of ref_ext empty_ke sample_config ?env 5 ?st] by blast
qed

section \<open>Quotas\<close>

definition ke_window :: "ke_config \<Rightarrow> quota_row list \<Rightarrow> (timestamp \<times> int) option" where
  "ke_window K rows = map_option (\<lambda>r. (q_window_start_at r, q_count r)) (find_by q_workspace_id (mp_workspace_id (kc_principal K)) rows)"

lemma quota_bump_window:
  "ke_window K rows = None \<or> (\<exists>s c. ke_window K rows = Some (s, c) \<and> QUOTA_WINDOW_SECONDS \<le> now - s) \<Longrightarrow>
     ke_window K (quota_bump rows (mp_workspace_id (kc_principal K)) now) = Some (now, 1)"
  "ke_window K rows = Some (s, c) \<Longrightarrow> now - s < QUOTA_WINDOW_SECONDS \<Longrightarrow>
     ke_window K (quota_bump rows (mp_workspace_id (kc_principal K)) now) = Some (s, c + 1)"
  by (auto simp: ke_window_def quota_bump_def find_by_upsert find_by_update_same split: option.splits)

lemma quota_full_window:
  "\<not> quota_full rows (mp_workspace_id (kc_principal K)) m now \<Longrightarrow> ke_window K rows = Some (s, c) \<Longrightarrow>
     now - s < QUOTA_WINDOW_SECONDS \<Longrightarrow> c < m"
  by (auto simp: ke_window_def quota_full_def)

text \<open>One automatic reply: accepted when the message is produced.\<close>

definition announce_attempt :: "ext \<Rightarrow> ke_config \<Rightarrow> ke_state \<Rightarrow> string \<times> timestamp \<Rightarrow> ke_state \<times> bool" where
  "announce_attempt X K st e =
     (let r = build_and_record_announce X K st (fst e) (snd e) False in (fst r, \<not> isl (snd r)))"

lemma announce_attempt_cases:
  "announce_attempt X K st (a, now) = (st', False) \<Longrightarrow> st' = st"
  "announce_attempt X K st (a, now) = (st', True) \<Longrightarrow>
     check_rate_limits K st a now = Inr () \<and> st' = record_announce_sent K st a now"
  by (auto simp: announce_attempt_def build_and_record_announce_def Let_def split: sum.splits)

lemma check_rate_limits_Inr:
  "check_rate_limits K st a now = Inr () \<longleftrightarrow>
     (\<forall>c t. find_by c_key (addr_key K a) (ke_contacts st) = Some c \<and> c_last_announce_sent_at c = Some t \<longrightarrow> kc_min_interval K \<le> now - t)
     \<and> \<not> quota_full (ke_quota st) (mp_workspace_id (kc_principal K)) (kc_max_per_hour K) now"
  by (cases "find_by c_key (addr_key K a) (ke_contacts st)")
    (auto simp: check_rate_limits_def not_le split: option.splits if_splits)

interpretation announce_quota: fixed_window "announce_attempt X K" snd "\<lambda>st. ke_window K (ke_quota st)"
  QUOTA_WINDOW_SECONDS "max 1 (kc_max_per_hour K)" for X K
proof (unfold_locales, goal_cases)
  case (3 db e db')
  then show ?case by (cases e) (auto dest: announce_attempt_cases)
next
  case (4 db e db')
  then show ?case
    by (cases e) (auto dest!: announce_attempt_cases simp: record_announce_sent_def quota_bump_window)
next
  case (5 db e db' s c)
  then show ?case
    using quota_full_window [of "ke_quota db" K "kc_max_per_hour K" "snd e" s c]
    by (cases e) (auto dest!: announce_attempt_cases simp: record_announce_sent_def quota_bump_window check_rate_limits_Inr)
qed (simp_all add: QUOTA_WINDOW_SECONDS_def)

text \<open>Replies to one address.\<close>

definition announce_to :: "ext \<Rightarrow> ke_config \<Rightarrow> string \<Rightarrow> ke_state \<Rightarrow> string \<times> timestamp \<Rightarrow> ke_state \<times> bool" where
  "announce_to X K a st e = (let r = announce_attempt X K st e in (fst r, snd r \<and> fst e = a))"

definition last_announce :: "ke_config \<Rightarrow> string \<Rightarrow> ke_state \<Rightarrow> timestamp option" where
  "last_announce K a st = Option.bind (find_by c_key (addr_key K a) (ke_contacts st)) c_last_announce_sent_at"

lemma c_key_contact [simp]:
  "c_key (new_contact K a) = addr_key K a"
  "c_key (c\<lparr>c_last_announce_sent_at := t\<rparr>) = c_key c"
  "c_key (c\<lparr>c_last_request_sent_at := t\<rparr>) = c_key c"
  "c_key (c\<lparr>c_key_request_attempts := n, c_key_request_next_retry_at := t\<rparr>) = c_key c"
  by (simp_all add: c_key_def new_contact_def addr_key_def)

lemma c_key_series [simp]:
  "c_key ((new_contact K a)\<lparr>c_key_request_attempts := n, c_key_request_next_retry_at := t\<rparr>) = addr_key K a"
  "c_key ((new_contact K a)\<lparr>c_last_announce_sent_at := t\<rparr>) = addr_key K a"
  "c_key ((new_contact K a)\<lparr>c_last_request_sent_at := t\<rparr>) = addr_key K a"
  by (simp_all add: c_key_def new_contact_def addr_key_def)

lemma new_contact_request [simp]: "c_last_request_sent_at (new_contact K a) = None"
  by (simp add: new_contact_def)

lemma last_announce_record:
  "last_announce K a (record_announce_sent K st b now) = (if a = b then Some now else last_announce K a st)"
  by (auto simp: last_announce_def record_announce_sent_def find_by_upsert split: option.splits)

lemma check_rate_limits_last:
  "check_rate_limits K st a now = Inr () \<Longrightarrow> last_announce K a st = Some l \<Longrightarrow> kc_min_interval K \<le> now - l"
  by (auto simp: check_rate_limits_Inr last_announce_def bind_eq_Some_iff)

interpretation announce_interval: min_interval "announce_to X K a" snd "last_announce K a" "kc_min_interval K" for X K a
proof (unfold_locales, goal_cases)
  case (1 db e db')
  then show ?case
    by (cases e; cases "snd (announce_attempt X K db e)"; cases "announce_attempt X K db e")
      (auto simp: announce_to_def last_announce_record dest!: announce_attempt_cases)
next
  case (2 db e db')
  then have st: "announce_attempt X K db (a, snd e) = (db', True)"
    by (cases e; cases "announce_attempt X K db e") (auto simp: announce_to_def Let_def)
  show ?case
    using announce_attempt_cases(2) [OF st] check_rate_limits_last [of K db a "snd e"]
    by (auto simp: last_announce_record)
qed

text \<open>Automatic KEY_ANNOUNCE replies are bounded: over any run of incoming requests in time order, from a
  fresh quota row, at most twice \<open>max_announces_per_hour\<close> replies fall into any interval of an hour (the
  code's window is fixed, not rolling, so the bound is twice the configured number), and consecutive replies to the
  same address are at least \<open>min_seconds_between_announces\<close> apart.\<close>

theorem announce_rate_bounded:
  assumes "sorted (map snd es)" and "find_by q_workspace_id (mp_workspace_id (kc_principal K)) (ke_quota st) = None"
  shows "count_in x (x + QUOTA_WINDOW_SECONDS) (accepted_run (announce_attempt X K) snd st es) \<le> 2 * max 1 (kc_max_per_hour K)
    \<and> successively (\<lambda>t u. kc_min_interval K \<le> u - t) (accepted_run (announce_to X K a) snd st es)"
proof
  show "count_in x (x + QUOTA_WINDOW_SECONDS) (accepted_run (announce_attempt X K) snd st es) \<le> 2 * max 1 (kc_max_per_hour K)"
    using assms by (intro announce_quota.quota_run) (simp_all add: ke_window_def)
  show "successively (\<lambda>t u. kc_min_interval K \<le> u - t) (accepted_run (announce_to X K a) snd st es)"
    by (rule announce_interval.interval_run)
qed

theorem announce_rate_bounded_witness:
  "accepted_run (announce_attempt ref_ext sample_config) snd empty_ke [(''a'', 0), (''a'', 10), (''b'', 20)] = [0, 20]
   \<and> count_in 0 3600 (accepted_run (announce_attempt ref_ext sample_config) snd empty_ke [(''a'', 0), (''a'', 10), (''b'', 20)]) \<le> 24"
proof
  have enc: "\<exists>raw. encode_key_announce ref_ext \<lparr>ka_public_identity = replicate 32 9, ka_epoch = 0, ka_signature = None\<rparr> (replicate 32 9) = Inr raw"
    using announce.enc_succeeds_iff [of ref_ext _ "replicate 32 9"] by (auto simp: key_announce_valid_def)
  have key: "load_signing_key ref_ext (ke_ids empty_ke) sample_principal = Inr (replicate 32 9)"
    by (simp add: load_signing_key_def sample_principal_def empty_ke_def ref_ext_def)
  show "accepted_run (announce_attempt ref_ext sample_config) snd empty_ke [(''a'', 0), (''a'', 10), (''b'', 20)] = [0, 20]"
    using enc key
    by (auto simp: announce_attempt_def build_and_record_announce_def check_rate_limits_def record_announce_sent_def
        sample_config_def sample_principal_def empty_ke_def quota_full_def quota_bump_def upsert_def c_key_def addr_key_def new_contact_def
        QUOTA_WINDOW_SECONDS_def)
  show "count_in 0 3600 (accepted_run (announce_attempt ref_ext sample_config) snd empty_ke [(''a'', 0), (''a'', 10), (''b'', 20)]) \<le> 24"
    using announce_rate_bounded [of "[(''a'', 0), (''a'', 10), (''b'', 20)]" sample_config empty_ke 0 ref_ext]
    by (simp add: empty_ke_def sample_config_def QUOTA_WINDOW_SECONDS_def)
qed

section \<open>The retry series\<close>

definition series_of :: "ke_config \<Rightarrow> ke_state \<Rightarrow> string \<Rightarrow> int \<times> timestamp option" where
  "series_of K st a =
     (case find_by c_key (addr_key K a) (ke_contacts st) of
        None \<Rightarrow> (0, None) | Some c \<Rightarrow> (c_key_request_attempts c, c_key_request_next_retry_at c))"

text \<open>One look of the service at the series of one address; accepted when a request went out.\<close>

definition retry_tick :: "ext \<Rightarrow> ke_config \<Rightarrow> string \<Rightarrow> ke_state \<Rightarrow> timestamp \<times> bool \<times> (bytes \<Rightarrow> bool) option \<Rightarrow> ke_state \<times> bool" where
  "retry_tick X K a st e =
     (let n = fst (series_of K st a); t = snd (series_of K st a) in
      if \<not> is_running n t then (st, False)
      else let r = retry_one_key_request X K (fst (snd e)) (snd (snd e)) st a n t (fst e) in (fst r, snd r = Inr True))"

lemma series_of_upsert [simp]: "series_of K (upsert_series K st a n t) a = (n, t)"
  by (auto simp: series_of_def upsert_series_def find_by_upsert split: option.splits)

lemma retry_tick_cases:
  assumes "retry_tick X K a st (now, gone, send) = (st', ok)"
  obtains (idle) "\<not> ok" "st' = st"
  | (kept) n t where "\<not> ok" "st' = upsert_series K st a n t" "n = fst (series_of K st a) \<or> n = 0"
  | (sent) "ok" "0 < fst (series_of K st a)" "fst (series_of K st a) < 4"
      "check_key_request_rate_limit K st a now = Inr ()" "check_auto_key_request_quota K st now = Inr ()"
      "st' = upsert_series K (record_auto_key_request_sent K (record_key_request_sent K st a now) now) a
               (fst (series_of K st a) + 1) (Some (now + delay_after (fst (series_of K st a) + 1)))"
proof -
  let ?n = "fst (series_of K st a)" and ?t = "snd (series_of K st a)"
  let ?r = "retry_one_key_request X K gone send st a ?n ?t now"
  show ?thesis
  proof (cases "is_running ?n ?t \<and> ok")
    case True
    then have r: "?r = (st', Inr True)"
      using assms by (auto simp: retry_tick_def Let_def prod_eq_iff)
    have "due_action ?n ?t now = ACTION_RETRY"
      using r by (auto simp: retry_one_key_request_def split: if_splits retry_action.splits)
    then have n: "0 < ?n" "?n < 4" "min (?n + 1) MAX_ATTEMPTS = ?n + 1"
      by (auto simp: due_action_simps MAX_ATTEMPTS_eq)
    have lim: "check_key_request_rate_limit K st a now \<in> {Inr (), Inl RateLimited}"
      "check_auto_key_request_quota K st now \<in> {Inr (), Inl RateLimited}"
      by (auto simp: check_key_request_rate_limit_def check_auto_key_request_quota_def split: option.splits)
    show ?thesis
      using r n lim True
      by (intro that(3))
        (auto simp: retry_one_key_request_def Let_def after_retry_sent_def advance_key_request_series_def
          split: if_splits retry_action.splits option.splits sum.splits)
  next
    case False
    then show ?thesis
      using assms that(1,2)
      by (auto simp: retry_tick_def Let_def retry_one_key_request_def advance_key_request_series_def end_key_request_series_def
          split: if_splits retry_action.splits option.splits sum.splits)
  qed
qed

lemma series_length:
  assumes "0 \<le> fst (series_of K st a)"
  shows "int (length (accepted_run (retry_tick X K a) fst st es)) \<le> max 0 (4 - fst (series_of K st a))
    \<and> (fst (series_of K st a) = 0 \<longrightarrow> accepted_run (retry_tick X K a) fst st es = [])"
  using assms
proof (induction es arbitrary: st)
  case (Cons e es)
  obtain now gone send where e: "e = (now, gone, send)"
    by (cases e)
  obtain st' ok where r: "retry_tick X K a st (now, gone, send) = (st', ok)"
    by (cases "retry_tick X K a st (now, gone, send)")
  from r show ?case
  proof (cases rule: retry_tick_cases)
    case idle
    then show ?thesis
      using Cons.IH [OF Cons.prems] r e by simp
  next
    case (kept n t)
    then show ?thesis
      using Cons.IH [of st'] Cons.prems r e by auto
  next
    case sent
    then show ?thesis
      using Cons.IH [of st'] r e by auto
  qed
qed simp

definition last_request :: "ke_config \<Rightarrow> string \<Rightarrow> ke_state \<Rightarrow> timestamp option" where
  "last_request K a st = Option.bind (find_by c_key (addr_key K a) (ke_contacts st)) c_last_request_sent_at"

lemma last_request_simps [simp]:
  "last_request K a (upsert_series K st b n t) = last_request K a st"
  "last_request K a (record_auto_key_request_sent K st now) = last_request K a st"
  "last_request K a (record_key_request_sent K st b now) = (if a = b then Some now else last_request K a st)"
  by (auto simp: last_request_def upsert_series_def record_auto_key_request_sent_def record_key_request_sent_def
      find_by_upsert split: option.splits)

lemma check_key_request_rate_limit_last:
  "check_key_request_rate_limit K st a now = Inr () \<longleftrightarrow>
     (\<forall>l. last_request K a st = Some l \<longrightarrow> kc_min_key_request_interval K \<le> now - l)"
  by (auto simp: check_key_request_rate_limit_def last_request_def not_less split: option.splits if_splits)

interpretation retry_interval: min_interval "retry_tick X K a" fst "last_request K a" "kc_min_key_request_interval K" for X K a
proof (unfold_locales, goal_cases)
  case (1 db e db')
  then show ?case
    by (cases e) (auto elim!: retry_tick_cases)
next
  case (2 db e db')
  then show ?case
    by (cases e) (auto elim!: retry_tick_cases simp: check_key_request_rate_limit_last)
qed

text \<open>The looks at all addresses, in one sequence.\<close>

definition retry_any :: "ext \<Rightarrow> ke_config \<Rightarrow> ke_state \<Rightarrow> string \<times> timestamp \<times> bool \<times> (bytes \<Rightarrow> bool) option \<Rightarrow> ke_state \<times> bool" where
  "retry_any X K st e = retry_tick X K (fst e) st (snd e)"

lemma auto_quota_simps [simp]:
  "ke_auto_quota (upsert_series K st a n t) = ke_auto_quota st"
  "ke_auto_quota (record_key_request_sent K st a now) = ke_auto_quota st"
  "ke_auto_quota (record_auto_key_request_sent K st now) = quota_bump (ke_auto_quota st) (mp_workspace_id (kc_principal K)) now"
  by (simp_all add: upsert_series_def record_key_request_sent_def record_auto_key_request_sent_def)

interpretation auto_request_quota: fixed_window "retry_any X K" "\<lambda>e. fst (snd e)" "\<lambda>st. ke_window K (ke_auto_quota st)"
  QUOTA_WINDOW_SECONDS "max 1 (kc_max_auto_key_requests_per_hour K)" for X K
proof (unfold_locales, goal_cases)
  case (3 db e db')
  then show ?case
    by (cases e) (auto simp: retry_any_def elim!: retry_tick_cases)
next
  case (4 db e db')
  then show ?case
    by (cases e) (auto simp: retry_any_def quota_bump_window elim!: retry_tick_cases)
next
  case (5 db e db' s c)
  then show ?case
    using quota_full_window [of "ke_auto_quota db" K "kc_max_auto_key_requests_per_hour K" "fst (snd e)" s c]
    by (cases e) (auto simp: retry_any_def quota_bump_window check_auto_key_request_quota_def elim!: retry_tick_cases split: if_splits)
qed (simp_all add: QUOTA_WINDOW_SECONDS_def)

text \<open>The automatic retries of a key request: after the user's request (attempt 1 of the series), however the
  worker ticks, at most three more requests go out for that address - four in all; consecutive ones keep the
  per-address minimum interval; a series with four attempts sends nothing more and is closed as "no answer" once
  its last wait is over; and over all addresses together, from a fresh quota row, no hour holds more than twice
  the configured number of automatic requests.\<close>

theorem retry_series_bounded:
  assumes "st1 = start_key_request_series K st a now"
  shows "length (accepted_run (retry_tick X K a) fst st1 es) \<le> 3
    \<and> successively (\<lambda>t u. kc_min_key_request_interval K \<le> u - t) (accepted_run (retry_tick X K a) fst st1 es)
    \<and> (series_of K st2 a = (4, Some t) \<and> t \<le> now2 \<and> get_binding K st2 a = None \<longrightarrow>
         (let r = retry_tick X K a st2 (now2, False, send) in \<not> snd r \<and> is_no_answer 4 (snd (series_of K (fst r) a))))
    \<and> (sorted (map (\<lambda>e. fst (snd e)) all) \<and> find_by q_workspace_id (mp_workspace_id (kc_principal K)) (ke_auto_quota st2) = None \<longrightarrow>
         count_in x (x + QUOTA_WINDOW_SECONDS) (accepted_run (retry_any X K) (\<lambda>e. fst (snd e)) st2 all)
           \<le> 2 * max 1 (kc_max_auto_key_requests_per_hour K))"
proof (intro conjI impI)
  have "series_of K st1 a = (1, Some (now + delay_after 1))"
    by (simp add: assms start_key_request_series_def first_attempt_def)
  then show "length (accepted_run (retry_tick X K a) fst st1 es) \<le> 3"
    using series_length [of K st1 a X es] by simp
  show "successively (\<lambda>t u. kc_min_key_request_interval K \<le> u - t) (accepted_run (retry_tick X K a) fst st1 es)"
    by (rule retry_interval.interval_run)
  assume "series_of K st2 a = (4, Some t) \<and> t \<le> now2 \<and> get_binding K st2 a = None"
  then show "let r = retry_tick X K a st2 (now2, False, send) in \<not> snd r \<and> is_no_answer 4 (snd (series_of K (fst r) a))"
    by (simp add: retry_tick_def retry_one_key_request_def due_action_def is_running_def MAX_ATTEMPTS_eq
        advance_key_request_series_def is_no_answer_def)
next
  assume "sorted (map (\<lambda>e. fst (snd e)) all) \<and> find_by q_workspace_id (mp_workspace_id (kc_principal K)) (ke_auto_quota st2) = None"
  then show "count_in x (x + QUOTA_WINDOW_SECONDS) (accepted_run (retry_any X K) (\<lambda>e. fst (snd e)) st2 all)
      \<le> 2 * max 1 (kc_max_auto_key_requests_per_hour K)"
    by (intro auto_request_quota.quota_run) (simp_all add: ke_window_def)
qed

theorem retry_series_bounded_witness:
  "length (accepted_run (retry_tick ref_ext sample_config ''a'') fst (start_key_request_series sample_config empty_ke ''a'' 0)
     [(600, False, Some (\<lambda>_. True)), (2400, False, Some (\<lambda>_. True))]) \<le> 3"
  using retry_series_bounded [OF refl, where X = ref_ext and K = sample_config and st = empty_ke and a = "''a''" and now = 0] by blast

section \<open>Key changes\<close>

text \<open>The key-change workflow: when a validly self-signed KEY_ANNOUNCE with another identity arrives for an address
  whose key is trusted, the address becomes \<open>KEY_CHANGED\<close> and keeps the trusted identity; rejecting the change
  makes it \<open>MCA_READY\<close> again with that identity, accepting it installs the new identity under its own key id,
  unconfirmed; neither path ever shows the new key as trusted, and further confirmation is needed.\<close>

theorem key_change_workflow:
  assumes "ke_ok X st" and "get_binding K st a = Some b" and "get_status K st a = MCA_READY"
    and "e_source_address env = Some a" and "decode_key_announce X (e_logical_message env) True = Inr f"
    and "ka_public_identity f \<noteq> b_public_identity b"
    and "st1 = fst (handle_incoming X K st env now)"
  shows "get_status K st1 a = KEY_CHANGED
    \<and> (\<exists>b1. get_binding K st1 a = Some b1 \<and> b_public_identity b1 = b_public_identity b)
    \<and> (\<exists>b2. get_binding K (fst (reject_pending_key_change K st1 a)) a = Some b2 \<and> b_public_identity b2 = b_public_identity b
         \<and> binding_status b2 = MCA_READY)
    \<and> (\<exists>b3. get_binding K (fst (accept_pending_key_change X K st1 a now')) a = Some b3
         \<and> b_public_identity b3 = ka_public_identity f \<and> Inr (b_sender_key_id b3) = compute_key_id X (ka_public_identity f)
         \<and> binding_status b3 = KEY_UNVERIFIED)"
proof -
  obtain kid where kid: "compute_key_id X (ka_public_identity f) = Inr kid"
    and peek: "peek_message_type X (e_logical_message env) = Inr KEY_ANNOUNCE"
    using decode_announce_identity [OF assms(5)] by blast
  have row: "find_by b_key (addr_key K a) (ke_bindings st) = Some b"
    using assms(1,2) by (simp add: get_binding_ok)
  have conf: "b_tofu_confirmed_at b \<noteq> None" and pend: "b_pending_public_identity b = None"
    using assms(2,3) by (auto simp: get_status_def binding_status_def split: if_splits)
  have inv: "ke_ok X st1" "ke_ok X (fst (reject_pending_key_change K st1 a))" "ke_ok X (fst (accept_pending_key_change X K st1 a now'))"
    using assms(1) incoming_ok reject_ok accept_ok unfolding assms(7) by blast+
  let ?b1 = "b\<lparr>b_pending_public_identity := Some (ka_public_identity f), b_pending_key_epoch := Some (ka_epoch f),
             b_pending_detected_at := Some now\<rparr>"
  obtain s where s: "apply_announce K st a kid f now = Inr s"
    using conf assms(6) by (auto simp: apply_announce_def row)
  then have st1: "st1 = s"
    using assms(4,5,7) peek kid by (simp add: handle_incoming_def handle_key_announce_def)
  have row1: "find_by b_key (addr_key K a) (ke_bindings st1) = Some ?b1"
    using apply_announce_find [OF s, of "addr_key K a"] row conf assms(6) by (simp add: st1 announced_row_def)
  have mem: "?b1 \<in> set (ke_bindings st1)" "b_key ?b1 = addr_key K a"
    using find_by_Some [OF row1] by simp_all
  have rej: "find_by b_key (addr_key K a) (ke_bindings (fst (reject_pending_key_change K st1 a)))
      = Some (?b1\<lparr>b_pending_public_identity := None, b_pending_key_epoch := None, b_pending_detected_at := None\<rparr>)"
    using mem row1 by (subst reject_pending_key_change_def) (auto simp: find_by_update_where)
  have acc: "find_by b_key (addr_key K a) (ke_bindings (fst (accept_pending_key_change X K st1 a now')))
      = Some ((rebind kid (ka_public_identity f) (ka_epoch f) now' ?b1)\<lparr>b_tofu_confirmed_at := None\<rparr>)"
    using row1 kid by (simp add: accept_pending_key_change_def find_update_binding)
  show ?thesis
    using conf pend kid rej acc row1 inv
    by (simp add: get_status_def get_binding_ok binding_status_def rebind_def)
qed

theorem key_change_workflow_witness:
  "\<exists>st raw. get_status sample_config st ''a'' = MCA_READY
     \<and> get_status sample_config (fst (handle_incoming ref_ext sample_config st
          \<lparr>e_logical_message = raw, e_route_type = DIRECT, e_source_address = Some ''a''\<rparr> 9)) ''a'' = KEY_CHANGED"
proof -
  obtain raw f where d: "decode_key_announce ref_ext raw True = Inr f" "ka_public_identity f = replicate 32 7"
    using sample_announce by blast
  let ?b = "\<lparr>b_id = ''mesh:a'', b_workspace_id = ''w'', b_adapter_id = ''mesh'', b_transport_address = ''a'',
    b_principal_id = hex_of (replicate 8 6), b_sender_key_id = hex_of (replicate 8 6), b_public_identity = replicate 32 6,
    b_key_epoch = 0, b_bound_at = 0, b_tofu_confirmed_at = Some 1, b_pending_public_identity = None,
    b_pending_key_epoch = None, b_pending_detected_at = None\<rparr>"
  let ?st = "empty_ke\<lparr>ke_bindings := [?b]\<rparr>"
  have "ke_ok ref_ext ?st" "get_binding sample_config ?st ''a'' = Some ?b" "get_status sample_config ?st ''a'' = MCA_READY"
    by (simp_all add: ke_ok_def binding_ok_def compute_key_id_def ref_ext_def get_binding_def b_key_def addr_key_def
        sample_config_def sample_principal_def row_to_binding_def get_status_def binding_status_def)
  with key_change_workflow [OF this, of "\<lparr>e_logical_message = raw, e_route_type = DIRECT, e_source_address = Some ''a''\<rparr>" f _ 9] d
  show ?thesis by auto
qed

text \<open>The lookup by key id ignores trust: a KEY_ANNOUNCE is not bound to an address, so the same announcement
  received from \<open>a\<close> first (a replay, say) and then from its owner \<open>b\<close> leaves two rows with one key id. After the
  user has confirmed \<open>b\<close>, the address is \<open>MCA_READY\<close>, yet \<open>get_binding_by_key_id\<close>, which the receiver uses to
  admit offers, returns the unconfirmed row of \<open>a\<close> (the first in rowid order; the query has no \<open>ORDER BY\<close> and no
  trust filter), so offers signed with the confirmed key are treated as coming from an unverified one.\<close>

theorem replayed_announce_shadows:
  assumes "ke_bindings st = []" and "a \<noteq> b" and "decode_key_announce X raw True = Inr f"
    and "compute_key_id X (ka_public_identity f) = Inr kid"
    and "st1 = fst (handle_incoming X K st \<lparr>e_logical_message = raw, e_route_type = DIRECT, e_source_address = Some a\<rparr> t1)"
    and "st2 = fst (handle_incoming X K st1 \<lparr>e_logical_message = raw, e_route_type = DIRECT, e_source_address = Some b\<rparr> t2)"
    and "st3 = confirm_tofu K st2 b t3"
  shows "get_status K st3 b = MCA_READY \<and> (\<exists>r. get_binding_by_key_id K st3 kid = Some r \<and> b_transport_address r = a
    \<and> binding_status r = KEY_UNVERIFIED)"
proof -
  have peek: "peek_message_type X raw = Inr KEY_ANNOUNCE"
    using decode_announce_identity [OF assms(3)] by blast
  have st1: "st1 = st\<lparr>ke_bindings := [new_binding K a kid f t1]\<rparr>"
    using assms by (simp add: handle_incoming_def peek handle_key_announce_def apply_announce_def Let_def)
  have st2: "st2 = st\<lparr>ke_bindings := [new_binding K a kid f t1, new_binding K b kid f t2]\<rparr>"
    using assms by (simp add: handle_incoming_def peek handle_key_announce_def apply_announce_def Let_def st1)
  show ?thesis
    using assms(2)
    by (simp add: assms(7) st2 confirm_tofu_def update_binding_def get_status_def get_binding_def get_binding_by_key_id_def
        binding_status_def row_to_binding_def) (simp add: new_binding_def addr_key_def)
qed

theorem replayed_announce_shadows_witness:
  "\<exists>raw kid. get_status sample_config (confirm_tofu sample_config (fst (handle_incoming ref_ext sample_config
       (fst (handle_incoming ref_ext sample_config empty_ke
          \<lparr>e_logical_message = raw, e_route_type = DIRECT, e_source_address = Some ''x''\<rparr> 1))
       \<lparr>e_logical_message = raw, e_route_type = DIRECT, e_source_address = Some ''y''\<rparr> 2)) ''y'' 3) ''y'' = MCA_READY
     \<and> kid = hex_of (replicate 8 7)"
proof -
  obtain raw f where d: "decode_key_announce ref_ext raw True = Inr f" "ka_public_identity f = replicate 32 7"
    using sample_announce by blast
  have "compute_key_id ref_ext (ka_public_identity f) = Inr (hex_of (replicate 8 7))"
    by (simp add: d(2) compute_key_id_def ref_ext_def)
  from replayed_announce_shadows [OF _ _ d(1) this refl refl refl, of empty_ke "''x''" "''y''" sample_config 1 2 3]
  show ?thesis by (auto simp: empty_ke_def)
qed

end
