(* ===== verification/MCA_DB.thy ===== *)
theory MCA_DB
  imports MC_Prelude
begin

text \<open>
  The attachments database the sender and the receiver share (\<open>src/meshsrv/attachments/db/migrations.py\<close>):
  one record per table, with the columns the two state machines read or write, and the database as the
  record of its tables. Rows are in rowid order. \<open>NULL\<close> is \<open>None\<close>. The surrogate keys of the event table are
  not read anywhere and are left out; the keys of attachments and replies are drawn from the supply \<open>uuid\<close>
  (\<open>uuid.uuid4().hex\<close>), whose next index is \<open>db_next\<close>. The vault is off: a sealed column holds its plain
  value, as \<open>codec_of(conn)\<close> does without a vault.
\<close>

section \<open>Attachments\<close>

datatype direction = Sent | Received

text \<open>The \<open>state\<close> column: the constants of \<open>sender.py\<close> and \<open>receiver.py\<close>; the three they share are shared here.\<close>

datatype att_state =
    DRAFT | VALIDATING | ENCRYPTING | QUEUED_UPLOAD | UPLOADING | READY_TO_SEND | SENT | RECEIVED | DOWNLOADED
  | REVOKED | FAILED_VALIDATION | FAILED_UPLOAD | FAILED_RADIO
  | OFFER_RECEIVED | WAITING_KEY | WAITING_PROVIDER | WAITING_NETWORK | WAITING_CONSENT | DOWNLOADING | VERIFYING
  | AVAILABLE | FAILED
  | ST_EXPIRED | ST_REJECTED | CANCELLED

record attachment =
  a_id :: string
  a_workspace_id :: string
  a_transfer_id :: string
  a_direction :: direction
  a_principal_id :: string
  a_sender_principal_id :: "string option"
  a_sender_public_identity :: "bytes option"
  a_provider_id :: "string option"
  a_state :: att_state
  a_file_name :: "string option"
  a_mime_type :: "string option"
  a_plain_size :: "int option"
  a_cipher_size :: "int option"
  a_plain_sha256 :: "string option"
  a_created_at :: timestamp
  a_hard_expires_at :: int
  a_download_grace_seconds :: int
  a_saved_path :: "string option"
  a_error_code :: "string option"
  a_draft_comment :: "string option"
  a_pending_offer_cbor :: "bytes option"
  a_reply_route_type :: "string option"
  a_reply_route_id :: "string option"
  a_reply_adapter_id :: "string option"
  a_reply_connector_profile_id :: "string option"
  a_reply_destination_address :: "string option"
  a_client_request_id :: "string option"
  a_canonical_hash :: "string option"

record event =
  ev_attachment_id :: string
  ev_occurred_at :: timestamp
  ev_event_type :: string

section \<open>Outgoing replies and quotas\<close>

datatype reply_state = PENDING | REPLY_SENT | UNDELIVERABLE

record reply =
  r_id :: string
  r_attachment_id :: string
  r_event_type :: string
  r_message :: bytes
  r_state :: reply_state
  r_attempts :: int
  r_created_at :: timestamp
  r_next_attempt_at :: timestamp
  r_sent_at :: "timestamp option"
  r_last_error :: "string option"
  r_adapter_id :: "string option"
  r_connector_profile_id :: "string option"
  r_route_type :: "string option"
  r_route_id :: "string option"
  r_destination_address :: "string option"

record ack_quota =
  aq_workspace_id :: string
  aq_scope :: string
  aq_window_start_at :: timestamp
  aq_count :: int

section \<open>Sender tables\<close>

record recipient_row =
  rc_id :: string
  rc_attachment_id :: string
  rc_envelope_id :: string
  rc_recipient_principal_id :: "string option"
  rc_recipient_public_identity :: "bytes option"
  rc_receipt_secret_hash :: "string option"
  rc_received_at :: "timestamp option"
  rc_downloaded_at :: "timestamp option"

datatype delivery_state = D_PENDING | D_SENT | D_FAILED | D_RECEIVED | D_DOWNLOADED | D_PROVIDER_UNKNOWN

record delivery_row =
  dl_id :: string
  dl_attachment_id :: string
  dl_adapter_id :: string
  dl_connector_profile_id :: string
  dl_route_type :: string
  dl_route_id :: string
  dl_idempotency_key :: string
  dl_state :: delivery_state
  dl_sent_at :: "timestamp option"
  dl_ack_at :: "timestamp option"
  dl_external_message_id :: "string option"
  dl_error_code :: "string option"

record sender_state =
  ss_attachment_id :: string
  ss_data_key :: bytes
  ss_nonce_prefix :: bytes
  ss_manifest_blob :: bytes
  ss_manifest_sha256 :: bytes
  ss_upload_id :: "string option"
  ss_upload_token :: "string option"
  ss_revoke_token :: "string option"
  ss_created_at :: timestamp
  ss_updated_at :: timestamp

record revoke_state =
  rv_attachment_id :: string
  rv_revoke_token :: string
  rv_delete_after :: int
  rv_created_at :: int
  rv_updated_at :: int

record tombstone =
  tb_transfer_id :: string
  tb_workspace_id :: string
  tb_reason :: string
  tb_tombstoned_at :: timestamp
  tb_purge_after :: timestamp

section \<open>The database\<close>

record mca_db =
  db_attachments :: "attachment list"
  db_events :: "event list"
  db_replies :: "reply list"
  db_ack_quota :: "ack_quota list"
  db_recipients :: "recipient_row list"
  db_deliveries :: "delivery_row list"
  db_sender_state :: "sender_state list"
  db_revoke_state :: "revoke_state list"
  db_tombstones :: "tombstone list"
  db_next :: nat

text \<open>A uuid source; \<open>fresh uuid db\<close> draws the next one.\<close>

type_synonym uuid_source = "nat \<Rightarrow> string"

definition record_event :: "mca_db \<Rightarrow> string \<Rightarrow> timestamp \<Rightarrow> string \<Rightarrow> mca_db" where
  "record_event db attachment_id now event_type =
     db\<lparr>db_events := db_events db @
          [\<lparr>ev_attachment_id = attachment_id, ev_occurred_at = now, ev_event_type = event_type\<rparr>]\<rparr>"

definition find_attachment :: "mca_db \<Rightarrow> string \<Rightarrow> attachment option" where
  "find_attachment db attachment_id = find_by a_id attachment_id (db_attachments db)"

definition update_attachment :: "string \<Rightarrow> (attachment \<Rightarrow> attachment) \<Rightarrow> mca_db \<Rightarrow> mca_db" where
  "update_attachment attachment_id f db =
     db\<lparr>db_attachments := update_where (\<lambda>a. a_id a = attachment_id) f (db_attachments db)\<rparr>"

definition state_of :: "mca_db \<Rightarrow> string \<Rightarrow> att_state option" where
  "state_of db attachment_id = map_option a_state (find_attachment db attachment_id)"

section \<open>Lemmas\<close>

lemma find_update_attachment:
  assumes "\<And>a. a_id (f a) = a_id a"
  shows "find_attachment (update_attachment i f db) j =
    (if i = j then map_option f (find_attachment db j) else find_attachment db j)"
  using assms find_by_update_same [of a_id f] find_by_update_other [of a_id f]
  by (auto simp: find_attachment_def update_attachment_def)

lemma record_event_simps [simp]:
  "db_attachments (record_event db i t e) = db_attachments db"
  "db_replies (record_event db i t e) = db_replies db"
  "db_ack_quota (record_event db i t e) = db_ack_quota db"
  "db_next (record_event db i t e) = db_next db"
  "find_attachment (record_event db i t e) j = find_attachment db j"
  "state_of (record_event db i t e) j = state_of db j"
  "db_recipients (record_event db i t e) = db_recipients db"
  "db_deliveries (record_event db i t e) = db_deliveries db"
  "db_sender_state (record_event db i t e) = db_sender_state db"
  "db_revoke_state (record_event db i t e) = db_revoke_state db"
  "db_tombstones (record_event db i t e) = db_tombstones db"
  by (simp_all add: record_event_def find_attachment_def state_of_def)

lemma update_attachment_simps [simp]:
  "db_events (update_attachment i f db) = db_events db"
  "db_replies (update_attachment i f db) = db_replies db"
  "db_ack_quota (update_attachment i f db) = db_ack_quota db"
  "db_next (update_attachment i f db) = db_next db"
  "db_recipients (update_attachment i f db) = db_recipients db"
  "db_deliveries (update_attachment i f db) = db_deliveries db"
  "db_sender_state (update_attachment i f db) = db_sender_state db"
  "db_revoke_state (update_attachment i f db) = db_revoke_state db"
  "db_tombstones (update_attachment i f db) = db_tombstones db"
  by (simp_all add: update_attachment_def)

lemma find_attachment_id: "find_attachment db i = Some a \<Longrightarrow> a_id a = i \<and> a \<in> set (db_attachments db)"
  using find_by_Some [of a_id i "db_attachments db" a] by (simp add: find_attachment_def)

end
