(* ===== verification/Outbox.thy ===== *)
theory Outbox
  imports MCA_DB Codec Identity
begin

text \<open>
  The outbox of signed control messages: \<open>enqueue_control_message\<close>, the dispatch-side functions and the reply
  quota of \<open>src/meshsrv/attachments/receiver.py\<close>, and the service's dispatch loop over them
  (\<open>service._dispatch_outgoing_replies\<close>). A function that raises returns \<open>Inl\<close>; the worker then rolls the
  connection back, so the database it leaves is the last committed one. Every \<open>now\<close> is the clock value the
  code reads or is given.
\<close>

section \<open>Environment\<close>

record mca_env =
  env_X :: ext
  env_principal :: mca_principal
  env_ids :: identity_state
  env_uuid :: uuid_source

datatype mca_error =
    ReceiverError
  | FromCodec codec_error
  | FromIdentityStore identity_error
  | ValueError
  | IntegrityError
  | ProviderRegistryError

section \<open>Enqueueing\<close>

text \<open>The five route columns, in the order of \<open>_reply_route_snapshot\<close>.\<close>

record route_snapshot =
  rs_adapter_id :: "string option"
  rs_connector_profile_id :: "string option"
  rs_route_type :: "string option"
  rs_route_id :: "string option"
  rs_destination_address :: "string option"

definition no_route :: route_snapshot where
  "no_route = \<lparr>rs_adapter_id = None, rs_connector_profile_id = None, rs_route_type = None, rs_route_id = None,
     rs_destination_address = None\<rparr>"

record reply_route =
  rr_adapter_id :: string
  rr_connector_profile_id :: string
  rr_route_type :: string
  rr_route_id :: string
  rr_destination_address :: string

text \<open>The three values the \<open>route\<close> argument takes: the default sentinel, \<open>None\<close>, or a route.\<close>

datatype route_arg = DERIVE_REPLY_ROUTE | NoRoute | GivenRoute reply_route

definition control_already_enqueued :: "mca_db \<Rightarrow> string \<Rightarrow> string \<Rightarrow> bool" where
  "control_already_enqueued db attachment_id event_type \<longleftrightarrow>
     list_ex (\<lambda>r. r_attachment_id r = attachment_id \<and> r_event_type r = event_type) (db_replies db)"

definition reply_route_snapshot :: "mca_db \<Rightarrow> string \<Rightarrow> route_snapshot" where
  "reply_route_snapshot db attachment_id =
     (case find_attachment db attachment_id of
        None \<Rightarrow> no_route
      | Some a \<Rightarrow> \<lparr>rs_adapter_id = a_reply_adapter_id a, rs_connector_profile_id = a_reply_connector_profile_id a,
                  rs_route_type = a_reply_route_type a, rs_route_id = a_reply_route_id a,
                  rs_destination_address = a_reply_destination_address a\<rparr>)"

definition snapshot_of :: "mca_db \<Rightarrow> string \<Rightarrow> route_arg \<Rightarrow> route_snapshot" where
  "snapshot_of db attachment_id route =
     (case route of
        DERIVE_REPLY_ROUTE \<Rightarrow> reply_route_snapshot db attachment_id
      | NoRoute \<Rightarrow> no_route
      | GivenRoute r \<Rightarrow> \<lparr>rs_adapter_id = Some (rr_adapter_id r), rs_connector_profile_id = Some (rr_connector_profile_id r),
           rs_route_type = Some (rr_route_type r), rs_route_id = Some (rr_route_id r),
           rs_destination_address = Some (rr_destination_address r)\<rparr>)"

definition new_reply :: "string \<Rightarrow> string \<Rightarrow> string \<Rightarrow> bytes \<Rightarrow> timestamp \<Rightarrow> route_snapshot \<Rightarrow> reply" where
  "new_reply reply_id attachment_id event_type frame now s =
     \<lparr>r_id = reply_id, r_attachment_id = attachment_id, r_event_type = event_type, r_message = frame, r_state = PENDING,
      r_attempts = 0, r_created_at = now, r_next_attempt_at = now, r_sent_at = None, r_last_error = None,
      r_adapter_id = rs_adapter_id s, r_connector_profile_id = rs_connector_profile_id s, r_route_type = rs_route_type s,
      r_route_id = rs_route_id s, r_destination_address = rs_destination_address s\<rparr>"

definition enqueue_control_message ::
  "mca_env \<Rightarrow> mca_db \<Rightarrow> string \<Rightarrow> bytes \<Rightarrow> message_type \<Rightarrow> string \<Rightarrow> timestamp \<Rightarrow> route_arg
    \<Rightarrow> mca_error + mca_db \<times> bytes option" where
  "enqueue_control_message E db attachment_id transfer_id message_type event_type now route =
     (if control_already_enqueued db attachment_id event_type then Inr (db, None)
      else case load_signing_key (env_X E) (env_ids E) (env_principal E) of
        Inl e \<Rightarrow> Inl (FromIdentityStore e)
      | Inr signing_key \<Rightarrow>
          (case encode_simple_ack (env_X E) message_type transfer_id signing_key of
             Inl e \<Rightarrow> Inl (FromCodec e)
           | Inr frame \<Rightarrow>
               Inr (db\<lparr>db_replies := db_replies db @
                         [new_reply (env_uuid E (db_next db)) attachment_id event_type frame now (snapshot_of db attachment_id route)],
                       db_next := Suc (db_next db)\<rparr>,
                    Some frame)))"

section \<open>Dispatch\<close>

definition OUTGOING_REPLY_BACKOFF_BASE_SECONDS :: int where "OUTGOING_REPLY_BACKOFF_BASE_SECONDS = 30"
definition OUTGOING_REPLY_BACKOFF_CEILING_SECONDS :: int where "OUTGOING_REPLY_BACKOFF_CEILING_SECONDS = 3600"
definition MAX_OUTGOING_REPLY_SENDS_PER_DISPATCH :: nat where "MAX_OUTGOING_REPLY_SENDS_PER_DISPATCH = 5"

definition fetch_due_outgoing_replies :: "mca_db \<Rightarrow> string \<Rightarrow> timestamp \<Rightarrow> nat \<Rightarrow> reply list" where
  "fetch_due_outgoing_replies db workspace_id now limit =
     take limit (sort_key r_created_at
       (filter (\<lambda>r. (\<exists>a \<in> set (db_attachments db). a_id a = r_attachment_id r \<and> a_workspace_id a = workspace_id)
                  \<and> r_state r = PENDING \<and> r_next_attempt_at r \<le> now) (db_replies db)))"

definition update_reply :: "string \<Rightarrow> (reply \<Rightarrow> reply) \<Rightarrow> mca_db \<Rightarrow> mca_db" where
  "update_reply reply_id f db = db\<lparr>db_replies := update_where (\<lambda>r. r_id r = reply_id) f (db_replies db)\<rparr>"

definition mark_reply_sent :: "mca_db \<Rightarrow> string \<Rightarrow> timestamp \<Rightarrow> mca_db" where
  "mark_reply_sent db reply_id now =
     (let db' = update_reply reply_id (\<lambda>r. r\<lparr>r_state := REPLY_SENT, r_sent_at := Some now\<rparr>) db in
      case find_by r_id reply_id (db_replies db) of
        None \<Rightarrow> db'
      | Some row \<Rightarrow> record_event db' (r_attachment_id row) now (r_event_type row))"

definition reply_backoff :: "int \<Rightarrow> int" where
  "reply_backoff attempts =
     min (OUTGOING_REPLY_BACKOFF_BASE_SECONDS * 2 ^ nat (attempts - 1)) OUTGOING_REPLY_BACKOFF_CEILING_SECONDS"

definition mark_reply_attempt_failed :: "mca_db \<Rightarrow> string \<Rightarrow> timestamp \<Rightarrow> string \<Rightarrow> mca_db" where
  "mark_reply_attempt_failed db reply_id now error_code =
     (let attempts = (case find_by r_id reply_id (db_replies db) of Some row \<Rightarrow> r_attempts row | None \<Rightarrow> 0) + 1 in
      update_reply reply_id
        (\<lambda>r. r\<lparr>r_attempts := attempts, r_next_attempt_at := now + of_int (reply_backoff attempts),
               r_last_error := Some (take 200 error_code)\<rparr>) db)"

definition mark_reply_undeliverable :: "mca_db \<Rightarrow> string \<Rightarrow> timestamp \<Rightarrow> string \<Rightarrow> mca_db" where
  "mark_reply_undeliverable db reply_id now error_code =
     update_reply reply_id (\<lambda>r. r\<lparr>r_state := UNDELIVERABLE, r_last_error := Some (take 200 error_code)\<rparr>) db"

section \<open>Reply quota\<close>

definition ACK_PER_SOURCE_LIMIT :: int where "ACK_PER_SOURCE_LIMIT = 5"
definition ACK_PER_SOURCE_WINDOW_SECONDS :: timestamp where "ACK_PER_SOURCE_WINDOW_SECONDS = 600"
definition ACK_GLOBAL_LIMIT :: int where "ACK_GLOBAL_LIMIT = 30"
definition ACK_GLOBAL_WINDOW_SECONDS :: timestamp where "ACK_GLOBAL_WINDOW_SECONDS = 3600"
definition ACK_QUOTA_GLOBAL_SCOPE :: string where "ACK_QUOTA_GLOBAL_SCOPE = ''__global__''"
definition ACK_QUOTA_CLEANUP_BATCH :: nat where "ACK_QUOTA_CLEANUP_BATCH = 50"
definition ACK_QUOTA_STALE_AFTER_SECONDS :: timestamp where "ACK_QUOTA_STALE_AFTER_SECONDS = 86400"

definition aq_key :: "ack_quota \<Rightarrow> string \<times> string" where
  "aq_key q = (aq_workspace_id q, aq_scope q)"

definition ack_quota_row :: "ack_quota list \<Rightarrow> string \<Rightarrow> string \<Rightarrow> ack_quota option" where
  "ack_quota_row rows workspace_id scope = find_by aq_key (workspace_id, scope) rows"

definition quota_would_exceed :: "ack_quota option \<Rightarrow> timestamp \<Rightarrow> timestamp \<Rightarrow> int \<Rightarrow> bool" where
  "quota_would_exceed row now window_seconds limit =
     (case row of
        None \<Rightarrow> False
      | Some q \<Rightarrow> if window_seconds \<le> now - aq_window_start_at q then False else limit \<le> aq_count q)"

definition ack_quota_bump :: "ack_quota list \<Rightarrow> string \<Rightarrow> string \<Rightarrow> timestamp \<Rightarrow> timestamp \<Rightarrow> ack_quota list" where
  "ack_quota_bump rows workspace_id scope now window_seconds =
     (let reset = upsert aq_key \<lparr>aq_workspace_id = workspace_id, aq_scope = scope, aq_window_start_at = now, aq_count = 1\<rparr>
                    (\<lambda>q. q\<lparr>aq_window_start_at := now, aq_count := 1\<rparr>) rows in
      case ack_quota_row rows workspace_id scope of
        None \<Rightarrow> reset
      | Some q \<Rightarrow>
          if window_seconds \<le> now - aq_window_start_at q then reset
          else update_where (\<lambda>q. aq_key q = (workspace_id, scope)) (\<lambda>q. q\<lparr>aq_count := aq_count q + 1\<rparr>) rows)"

text \<open>\<open>DELETE ... WHERE rowid IN (SELECT ... LIMIT n)\<close>: the first \<open>n\<close> stale rows go.\<close>

fun delete_first :: "nat \<Rightarrow> ('r \<Rightarrow> bool) \<Rightarrow> 'r list \<Rightarrow> 'r list" where
  "delete_first 0 p rows = rows"
| "delete_first (Suc n) p [] = []"
| "delete_first (Suc n) p (r # rows) = (if p r then delete_first n p rows else r # delete_first (Suc n) p rows)"

definition stale_quota :: "string \<Rightarrow> timestamp \<Rightarrow> ack_quota \<Rightarrow> bool" where
  "stale_quota workspace_id now q \<longleftrightarrow>
     aq_workspace_id q = workspace_id \<and> aq_scope q \<noteq> ACK_QUOTA_GLOBAL_SCOPE
     \<and> ACK_QUOTA_STALE_AFTER_SECONDS < now - aq_window_start_at q"

definition check_and_record_reply_quota ::
  "ack_quota list \<Rightarrow> string \<Rightarrow> string \<Rightarrow> timestamp \<Rightarrow> ack_quota list \<times> bool" where
  "check_and_record_reply_quota rows workspace_id source_address now =
     (let rows1 = delete_first ACK_QUOTA_CLEANUP_BATCH (stale_quota workspace_id now) rows in
      if quota_would_exceed (ack_quota_row rows1 workspace_id source_address) now ACK_PER_SOURCE_WINDOW_SECONDS ACK_PER_SOURCE_LIMIT
      then (rows1, False)
      else if quota_would_exceed (ack_quota_row rows1 workspace_id ACK_QUOTA_GLOBAL_SCOPE) now ACK_GLOBAL_WINDOW_SECONDS ACK_GLOBAL_LIMIT
      then (rows1, False)
      else (ack_quota_bump (ack_quota_bump rows1 workspace_id source_address now ACK_PER_SOURCE_WINDOW_SECONDS)
              workspace_id ACK_QUOTA_GLOBAL_SCOPE now ACK_GLOBAL_WINDOW_SECONDS, True))"

section \<open>The dispatch loop\<close>

definition is_contact_id :: "string \<Rightarrow> bool" where
  "is_contact_id s \<longleftrightarrow> (case s of [] \<Rightarrow> False | c # cs \<Rightarrow> c = CHR ''!'' \<and> length cs = 8
     \<and> list_all (\<lambda>d. let n = of_char d :: nat in (48 \<le> n \<and> n \<le> 57) \<or> (97 \<le> n \<and> n \<le> 102)) cs)"

text \<open>A delivery adapter: its identity, and what \<open>encode\<close> and \<open>send\<close> do with a reply - raise, or return a receipt.\<close>

datatype send_outcome = SendRaises | NotSent | SendOk

record delivery_adapter =
  ad_adapter_id :: string
  ad_connector_profile_id :: string
  ad_send :: "reply \<Rightarrow> send_outcome"

text \<open>The first failing route check, as the error token the row is closed with.\<close>

definition route_error :: "delivery_adapter \<Rightarrow> reply \<Rightarrow> string option" where
  "route_error A r =
     (if r_route_type r = None \<or> r_route_id r = None then Some ''reply_route_missing''
      else if r_route_type r \<noteq> Some ''DIRECT'' then Some ''reply_route_not_direct''
      else if \<not> is_contact_id (the (r_route_id r)) \<or> r_destination_address r = None
           \<or> \<not> is_contact_id (the (r_destination_address r)) then Some ''reply_route_invalid_contact''
      else if r_destination_address r \<noteq> r_route_id r then Some ''reply_destination_mismatch''
      else if r_adapter_id r \<noteq> Some (ad_adapter_id A) then Some ''reply_adapter_mismatch''
      else if r_connector_profile_id r \<noteq> Some (ad_connector_profile_id A) then Some ''reply_connector_mismatch''
      else None)"

text \<open>One reply; the second component lists the replies handed to the radio.\<close>

definition dispatch_reply :: "delivery_adapter \<Rightarrow> string \<Rightarrow> timestamp \<Rightarrow> reply \<Rightarrow> mca_db \<times> reply list \<Rightarrow> mca_db \<times> reply list" where
  "dispatch_reply A workspace_id now r acc =
     (let db = fst acc; sent = snd acc in
      case route_error A r of
        Some code \<Rightarrow> (mark_reply_undeliverable db (r_id r) now code, sent)
      | None \<Rightarrow>
          (let q = check_and_record_reply_quota (db_ack_quota db) workspace_id (the (r_route_id r)) now;
               db1 = db\<lparr>db_ack_quota := fst q\<rparr> in
           if \<not> snd q then (db1, sent)
           else case ad_send A r of
             SendRaises \<Rightarrow> (mark_reply_attempt_failed db1 (r_id r) now ''delivery_error'', sent @ [r])
           | NotSent \<Rightarrow> (mark_reply_attempt_failed db1 (r_id r) now ''delivery_receipt_not_sent'', sent @ [r])
           | SendOk \<Rightarrow> (mark_reply_sent db1 (r_id r) now, sent @ [r])))"

definition dispatch_outgoing_replies :: "delivery_adapter option \<Rightarrow> mca_db \<Rightarrow> string \<Rightarrow> timestamp \<Rightarrow> mca_db \<times> reply list" where
  "dispatch_outgoing_replies adapter db workspace_id now =
     (case adapter of
        None \<Rightarrow> (db, [])
      | Some A \<Rightarrow> fold (dispatch_reply A workspace_id now)
                  (fetch_due_outgoing_replies db workspace_id now MAX_OUTGOING_REPLY_SENDS_PER_DISPATCH) (db, []))"

end
