(* ===== verification/Outbox_Properties.thy ===== *)
theory Outbox_Properties
  imports Outbox Fixed_Window
begin

text \<open>
  The outbox's promises: one message per attachment and event, never altered and never lost, retried with a
  bounded backoff, handed only to the route it was pinned to, within both quotas - and the head-of-line
  blocking the quota causes.
\<close>

section \<open>Rows under updates\<close>

lemma update_reply_simps [simp]:
  "db_attachments (update_reply i f db) = db_attachments db" "db_next (update_reply i f db) = db_next db"
  "db_ack_quota (update_reply i f db) = db_ack_quota db" "db_events (update_reply i f db) = db_events db"
  "db_replies (update_reply i f db) = update_where (\<lambda>r. r_id r = i) f (db_replies db)"
  by (simp_all add: update_reply_def)

text \<open>What no dispatch changes of a row.\<close>

definition reply_core :: "reply \<Rightarrow> string \<times> string \<times> string \<times> bytes \<times> timestamp \<times> route_snapshot" where
  "reply_core r = (r_id r, r_attachment_id r, r_event_type r, r_message r, r_created_at r,
     \<lparr>rs_adapter_id = r_adapter_id r, rs_connector_profile_id = r_connector_profile_id r, rs_route_type = r_route_type r,
      rs_route_id = r_route_id r, rs_destination_address = r_destination_address r\<rparr>)"

lemma reply_core_eq:
  "reply_core r' = reply_core r \<Longrightarrow> r_id r' = r_id r \<and> r_attachment_id r' = r_attachment_id r \<and> r_event_type r' = r_event_type r
     \<and> r_message r' = r_message r"
  by (simp add: reply_core_def)

lemma reply_core_updates [simp]:
  "reply_core (r\<lparr>r_state := s, r_sent_at := t\<rparr>) = reply_core r"
  "reply_core (r\<lparr>r_state := s, r_last_error := e\<rparr>) = reply_core r"
  "reply_core (r\<lparr>r_attempts := n, r_next_attempt_at := u, r_last_error := e\<rparr>) = reply_core r"
  by (simp_all add: reply_core_def)

text \<open>\<open>touches ids db db'\<close>: row by row the same core, and only rows with one of the ids differ.\<close>

definition touches :: "string set \<Rightarrow> reply list \<Rightarrow> reply list \<Rightarrow> bool" where
  "touches ids xs ys \<longleftrightarrow> list_all2 (\<lambda>x y. reply_core y = reply_core x \<and> (r_id x \<notin> ids \<longrightarrow> y = x)) xs ys"

lemma touches_refl: "touches ids xs xs"
  by (simp add: touches_def list_all2_same)

lemma touches_trans:
  assumes "touches ids xs ys" and "touches ids ys zs"
  shows "touches ids xs zs"
  unfolding touches_def
  by (rule list_all2_trans [OF _ assms [unfolded touches_def]]) (metis reply_core_eq)

lemma touches_update: "(\<And>r. reply_core (f r) = reply_core r) \<Longrightarrow> i \<in> ids \<Longrightarrow> touches ids xs (update_where (\<lambda>r. r_id r = i) f xs)"
  by (auto simp: touches_def update_where_def list_all2_map2 intro: list_all2_same [THEN iffD2])

lemma touches_core: "touches ids xs ys \<Longrightarrow> map reply_core ys = map reply_core xs"
  by (auto simp: touches_def list_all2_conv_all_nth intro: nth_equalityI)

lemma touches_mem: "touches ids xs ys \<Longrightarrow> x \<in> set xs \<Longrightarrow> r_id x \<notin> ids \<Longrightarrow> x \<in> set ys"
  by (auto simp: touches_def list_all2_conv_all_nth in_set_conv_nth)

lemma dispatch_reply_touches:
  "touches {r_id r} (db_replies (fst acc)) (db_replies (fst (dispatch_reply A ws now r acc)))"
  "db_attachments (fst (dispatch_reply A ws now r acc)) = db_attachments (fst acc)"
  "db_next (fst (dispatch_reply A ws now r acc)) = db_next (fst acc)"
  by (auto simp: dispatch_reply_def Let_def mark_reply_undeliverable_def mark_reply_attempt_failed_def mark_reply_sent_def
      split: option.splits send_outcome.splits intro!: touches_refl touches_update)

lemma touches_mono: "ids \<subseteq> ids' \<Longrightarrow> touches ids xs ys \<Longrightarrow> touches ids' xs ys"
  unfolding touches_def by (erule list_all2_mono) auto

lemma fold_dispatch_touches:
  "touches (r_id ` set rs) (db_replies (fst acc)) (db_replies (fst (fold (dispatch_reply A ws now) rs acc)))
   \<and> db_next (fst (fold (dispatch_reply A ws now) rs acc)) = db_next (fst acc)"
proof (induction rs arbitrary: acc)
  case (Cons r rs)
  have "touches (r_id ` set (r # rs)) (db_replies (fst acc)) (db_replies (fst (dispatch_reply A ws now r acc)))"
    by (rule touches_mono [OF _ dispatch_reply_touches(1)]) simp
  moreover have "touches (r_id ` set (r # rs)) (db_replies (fst (dispatch_reply A ws now r acc)))
      (db_replies (fst (fold (dispatch_reply A ws now) (r # rs) acc)))"
    using Cons [of "dispatch_reply A ws now r acc"] by (auto intro: touches_mono [rotated])
  ultimately show ?case
    using Cons [of "dispatch_reply A ws now r acc"] dispatch_reply_touches(3) touches_trans by auto
qed (simp add: touches_refl)

lemma fetch_due_pending: "r \<in> set (fetch_due_outgoing_replies db ws now n) \<Longrightarrow> r \<in> set (db_replies db) \<and> r_state r = PENDING"
  using set_take_subset [of n] by (fastforce simp: fetch_due_outgoing_replies_def)

lemma dispatch_touches:
  "\<exists>ids. touches ids (db_replies db) (db_replies (fst (dispatch_outgoing_replies A db ws now)))
     \<and> (\<forall>i \<in> ids. \<exists>r \<in> set (db_replies db). r_id r = i \<and> r_state r = PENDING)
     \<and> db_next (fst (dispatch_outgoing_replies A db ws now)) = db_next db"
proof (cases A)
  case None
  then show ?thesis
    by (auto simp: dispatch_outgoing_replies_def intro!: exI [of _ "{}"] touches_refl)
next
  case (Some a)
  then show ?thesis
    using fold_dispatch_touches [of "fetch_due_outgoing_replies db ws now MAX_OUTGOING_REPLY_SENDS_PER_DISPATCH" "(db, [])" a ws now]
      fetch_due_pending by (fastforce simp: dispatch_outgoing_replies_def)
qed

section \<open>Invariant\<close>

definition outbox_ok :: "mca_env \<Rightarrow> mca_db \<Rightarrow> bool" where
  "outbox_ok E db \<longleftrightarrow> distinct (map (\<lambda>r. (r_attachment_id r, r_event_type r)) (db_replies db))
     \<and> distinct (map r_id (db_replies db)) \<and> (\<forall>r \<in> set (db_replies db). \<exists>n < db_next db. r_id r = env_uuid E n)"

inductive outbox_step :: "mca_env \<Rightarrow> mca_db \<Rightarrow> mca_db \<Rightarrow> bool" for E where
  enqueue: "enqueue_control_message E db aid tid mt ev now route = Inr (db', frame) \<Longrightarrow> outbox_step E db db'"
| dispatch: "outbox_step E db (fst (dispatch_outgoing_replies A db ws now))"

inductive_cases outbox_stepE: "outbox_step E db db'"

inductive outbox_reachable :: "mca_env \<Rightarrow> mca_db \<Rightarrow> bool" for E where
  start: "db_replies db = [] \<Longrightarrow> outbox_reachable E db"
| step: "outbox_reachable E db \<Longrightarrow> outbox_step E db db' \<Longrightarrow> outbox_reachable E db'"

lemma enqueue_Inr:
  assumes "enqueue_control_message E db aid tid mt ev now route = Inr (db', frame)"
  obtains (old) "control_already_enqueued db aid ev" "db' = db" "frame = None"
  | (new) f where "\<not> control_already_enqueued db aid ev" "frame = Some f"
      "db' = db\<lparr>db_replies := db_replies db @
         [new_reply (env_uuid E (db_next db)) aid ev f now (snapshot_of db aid route)], db_next := Suc (db_next db)\<rparr>"
  using assms by (auto simp: enqueue_control_message_def split: if_splits sum.splits)

lemma enqueue_ok:
  assumes "outbox_ok E db" and "inj (env_uuid E)"
    and "enqueue_control_message E db aid tid mt ev now route = Inr (db', frame)"
  shows "outbox_ok E db'"
  using assms(3)
proof (cases rule: enqueue_Inr)
  case (new f)
  have "env_uuid E (db_next db) \<notin> r_id ` set (db_replies db)"
    using assms(1,2) by (fastforce simp: outbox_ok_def inj_def)
  moreover have "(aid, ev) \<notin> (\<lambda>r. (r_attachment_id r, r_event_type r)) ` set (db_replies db)"
    using new(1) by (auto simp: control_already_enqueued_def list_ex_iff)
  ultimately show ?thesis
    using assms(1) new(3) by (auto simp: outbox_ok_def new_reply_def less_Suc_eq)
qed (use assms(1) in simp)

lemma dispatch_ok:
  assumes "outbox_ok E db"
  shows "outbox_ok E (fst (dispatch_outgoing_replies A db ws now))"
proof -
  let ?db' = "fst (dispatch_outgoing_replies A db ws now)"
  have core: "map reply_core (db_replies ?db') = map reply_core (db_replies db)" and nxt: "db_next ?db' = db_next db"
    using dispatch_touches [of db A ws now] touches_core by blast+
  have "map r_id (db_replies ?db') = map r_id (db_replies db)"
    using arg_cong [OF core, of "map fst"] by (simp add: reply_core_def comp_def)
  moreover have "map (\<lambda>r. (r_attachment_id r, r_event_type r)) (db_replies ?db') = map (\<lambda>r. (r_attachment_id r, r_event_type r)) (db_replies db)"
    using arg_cong [OF core, of "map (\<lambda>(i, a, e, x). (a, e))"] by (simp add: reply_core_def comp_def)
  ultimately show ?thesis
    using assms nxt unfolding outbox_ok_def by (metis (no_types, lifting) image_eqI image_iff list.set_map)
qed

lemma outbox_reachable_ok: "outbox_reachable E db \<Longrightarrow> inj (env_uuid E) \<Longrightarrow> outbox_ok E db"
proof (induction rule: outbox_reachable.induct)
  case (start db)
  then show ?case by (simp add: outbox_ok_def)
next
  case (step db db')
  from step.hyps(2) show ?case
    by (rule outbox_stepE) (use step enqueue_ok dispatch_ok in blast)+
qed

section \<open>Quotas\<close>

lemma delete_first_set: "set (delete_first n p rows) \<subseteq> set rows"
  by (induction n p rows rule: delete_first.induct) auto

lemma distinct_delete_first: "distinct (map key rows) \<Longrightarrow> distinct (map key (delete_first n p rows))"
  using delete_first_set by (induction n p rows rule: delete_first.induct) (auto, fastforce)

lemma find_delete_first:
  assumes "distinct (map key rows)"
  shows "find_by key k (delete_first n p rows) = find_by key k rows
    \<or> find_by key k (delete_first n p rows) = None \<and> (\<exists>r. find_by key k rows = Some r \<and> p r)"
  using assms
proof (induction n p rows rule: delete_first.induct)
  case (3 n p r rows)
  have "find_by key (key r) (delete_first n p rows) = None"
    using 3(3) delete_first_set [of n p rows] by (auto simp: find_by_None)
  with 3 show ?case by auto
qed simp_all

definition ack_window :: "string \<Rightarrow> string \<Rightarrow> ack_quota list \<Rightarrow> (timestamp \<times> int) option" where
  "ack_window ws scope rows = map_option (\<lambda>q. (aq_window_start_at q, aq_count q)) (ack_quota_row rows ws scope)"

lemma aq_key_updates [simp]:
  "aq_key (q\<lparr>aq_count := n\<rparr>) = aq_key q" "aq_key (q\<lparr>aq_window_start_at := t\<rparr>) = aq_key q" "aq_key (q\<lparr>aq_window_start_at := t, aq_count := n\<rparr>) = aq_key q"
  by (simp_all add: aq_key_def)

lemma ack_window_bump:
  "ack_window ws scope rows = None \<or> (\<exists>s c. ack_window ws scope rows = Some (s, c) \<and> w \<le> now - s) \<Longrightarrow>
     ack_window ws scope (ack_quota_bump rows ws scope now w) = Some (now, 1)"
  "ack_window ws scope rows = Some (s, c) \<Longrightarrow> now - s < w \<Longrightarrow>
     ack_window ws scope (ack_quota_bump rows ws scope now w) = Some (s, c + 1)"
  "scope' \<noteq> scope \<Longrightarrow> ack_window ws scope' (ack_quota_bump rows ws scope now w) = ack_window ws scope' rows"
  by (auto simp: ack_window_def ack_quota_row_def ack_quota_bump_def Let_def find_by_upsert find_by_update_same
      find_by_update_other aq_key_def [of "ack_quota.make _ _ _ _"] split: option.splits)
    (auto simp: aq_key_def find_by_upsert find_by_update_other split: if_splits)

lemma distinct_ack_bump: "distinct (map aq_key rows) \<Longrightarrow> distinct (map aq_key (ack_quota_bump rows ws scope now w))"
  by (auto simp: ack_quota_bump_def Let_def intro!: distinct_upsert split: option.splits)

lemma would_exceed_window:
  "\<not> quota_would_exceed (ack_quota_row rows ws scope) now w m \<Longrightarrow> ack_window ws scope rows = Some (s, c) \<Longrightarrow> now - s < w \<Longrightarrow> c < m"
  by (auto simp: quota_would_exceed_def ack_window_def split: option.splits if_splits)

lemma ack_window_cleanup:
  assumes "distinct (map aq_key rows)"
  shows "ack_window ws scope (delete_first n (stale_quota ws' now) rows) = ack_window ws scope rows
    \<or> ack_window ws scope (delete_first n (stale_quota ws' now) rows) = None
      \<and> scope \<noteq> ACK_QUOTA_GLOBAL_SCOPE \<and> (\<forall>s c. ack_window ws scope rows = Some (s, c) \<longrightarrow> 86400 < now - s)"
  using find_delete_first [OF assms, of "(ws, scope)" n "stale_quota ws' now"] find_by_Some [of aq_key "(ws, scope)" rows]
  by (auto simp: ack_window_def ack_quota_row_def stale_quota_def aq_key_def ACK_QUOTA_STALE_AFTER_SECONDS_def)

text \<open>One consultation of the quota by the dispatch loop: for a valid contact id, on a table whose primary key holds.\<close>

definition ack_attempt :: "string \<Rightarrow> ack_quota list \<Rightarrow> string \<times> timestamp \<Rightarrow> ack_quota list \<times> bool" where
  "ack_attempt ws rows e =
     (if is_contact_id (fst e) \<and> distinct (map aq_key rows)
      then check_and_record_reply_quota rows ws (fst e) (snd e) else (rows, False))"

lemma contact_not_global: "is_contact_id s \<Longrightarrow> s \<noteq> ACK_QUOTA_GLOBAL_SCOPE"
  by (auto simp: is_contact_id_def ACK_QUOTA_GLOBAL_SCOPE_def)

lemma ack_attempt_cases:
  assumes "ack_attempt ws rows (src, now) = (rows', ok)"
  obtains (invalid) "\<not> ok" "rows' = rows"
  | (refuse) "\<not> ok" "distinct (map aq_key rows)" "rows' = delete_first ACK_QUOTA_CLEANUP_BATCH (stale_quota ws now) rows"
  | (grant) rows1 where "ok" "distinct (map aq_key rows)" "src \<noteq> ACK_QUOTA_GLOBAL_SCOPE"
      "rows1 = delete_first ACK_QUOTA_CLEANUP_BATCH (stale_quota ws now) rows"
      "\<not> quota_would_exceed (ack_quota_row rows1 ws src) now ACK_PER_SOURCE_WINDOW_SECONDS ACK_PER_SOURCE_LIMIT"
      "\<not> quota_would_exceed (ack_quota_row rows1 ws ACK_QUOTA_GLOBAL_SCOPE) now ACK_GLOBAL_WINDOW_SECONDS ACK_GLOBAL_LIMIT"
      "rows' = ack_quota_bump (ack_quota_bump rows1 ws src now ACK_PER_SOURCE_WINDOW_SECONDS) ws ACK_QUOTA_GLOBAL_SCOPE now
                 ACK_GLOBAL_WINDOW_SECONDS"
proof (cases "is_contact_id src \<and> distinct (map aq_key rows)")
  case False
  then show ?thesis
    using assms by (intro that(1)) (auto simp: ack_attempt_def)
next
  case True
  let ?rows1 = "delete_first ACK_QUOTA_CLEANUP_BATCH (stale_quota ws now) rows"
  let ?full = "quota_would_exceed (ack_quota_row ?rows1 ws src) now ACK_PER_SOURCE_WINDOW_SECONDS ACK_PER_SOURCE_LIMIT
    \<or> quota_would_exceed (ack_quota_row ?rows1 ws ACK_QUOTA_GLOBAL_SCOPE) now ACK_GLOBAL_WINDOW_SECONDS ACK_GLOBAL_LIMIT"
  have eq: "(rows', ok) = check_and_record_reply_quota rows ws src now"
    using assms True by (simp add: ack_attempt_def)
  have src: "src \<noteq> ACK_QUOTA_GLOBAL_SCOPE"
    using True contact_not_global by blast
  show ?thesis
  proof (cases ?full)
    case full: True
    then have "check_and_record_reply_quota rows ws src now = (?rows1, False)"
      unfolding check_and_record_reply_quota_def Let_def by presburger
    then show ?thesis
      using eq True by (intro that(2)) simp_all
  next
    case room: False
    then have "check_and_record_reply_quota rows ws src now
      = (ack_quota_bump (ack_quota_bump ?rows1 ws src now ACK_PER_SOURCE_WINDOW_SECONDS) ws ACK_QUOTA_GLOBAL_SCOPE now
           ACK_GLOBAL_WINDOW_SECONDS, True)"
      unfolding check_and_record_reply_quota_def Let_def by presburger
    then show ?thesis
      using eq True src room by (intro that(3)) simp_all
  qed
qed

lemma windows_order: "ACK_PER_SOURCE_WINDOW_SECONDS \<le> 86400" "ACK_GLOBAL_WINDOW_SECONDS \<le> 86400"
  "0 < ACK_PER_SOURCE_WINDOW_SECONDS" "0 < ACK_GLOBAL_WINDOW_SECONDS"
  by (simp_all add: ACK_PER_SOURCE_WINDOW_SECONDS_def ACK_GLOBAL_WINDOW_SECONDS_def)

interpretation ack_global: fixed_window "ack_attempt ws" snd "ack_window ws ACK_QUOTA_GLOBAL_SCOPE"
  ACK_GLOBAL_WINDOW_SECONDS ACK_GLOBAL_LIMIT for ws
proof (unfold_locales, goal_cases)
  case (3 db e db')
  then show ?case
    by (cases e) (auto elim!: ack_attempt_cases dest: ack_window_cleanup)
next
  case (4 db e db')
  obtain src now where e: "e = (src, now)" by (cases e)
  from 4(1) [unfolded e] show ?case
  proof (cases rule: ack_attempt_cases)
    case (grant rows1)
    then show ?thesis
      using 4(2) ack_window_cleanup [OF grant(2), of ws ACK_QUOTA_GLOBAL_SCOPE ACK_QUOTA_CLEANUP_BATCH ws now] e
      by (auto simp: ack_window_bump intro!: ack_window_bump(1))
  qed simp_all
next
  case (5 db e db' s c)
  obtain src now where e: "e = (src, now)" by (cases e)
  from 5(1) [unfolded e] show ?case
  proof (cases rule: ack_attempt_cases)
    case (grant rows1)
    then have w: "ack_window ws ACK_QUOTA_GLOBAL_SCOPE rows1 = Some (s, c)"
      using 5(2) ack_window_cleanup [OF grant(2), of ws ACK_QUOTA_GLOBAL_SCOPE ACK_QUOTA_CLEANUP_BATCH ws now] by auto
    show ?thesis
      using 5(3) e grant(3,7) would_exceed_window [OF grant(6) w] w by (auto simp: ack_window_bump intro!: ack_window_bump(2))
  qed simp_all
qed (simp_all add: windows_order ACK_GLOBAL_LIMIT_def)

text \<open>The share of one source.\<close>

definition ack_attempt_from :: "string \<Rightarrow> string \<Rightarrow> ack_quota list \<Rightarrow> string \<times> timestamp \<Rightarrow> ack_quota list \<times> bool" where
  "ack_attempt_from ws a rows e = (let r = ack_attempt ws rows e in (fst r, snd r \<and> fst e = a))"

lemma ack_attempt_from_False:
  assumes "ack_attempt_from ws a rows (src, now) = (rows', False)" and "a \<noteq> ACK_QUOTA_GLOBAL_SCOPE"
  shows "ack_window ws a rows' = ack_window ws a rows
    \<or> ack_window ws a rows' = None \<and> (\<forall>s c. ack_window ws a rows = Some (s, c) \<longrightarrow> ACK_PER_SOURCE_WINDOW_SECONDS \<le> now - s)"
proof -
  obtain ok where r: "ack_attempt ws rows (src, now) = (rows', ok)" "\<not> ok \<or> src \<noteq> a"
    using assms(1) by (cases "ack_attempt ws rows (src, now)") (auto simp: ack_attempt_from_def)
  from r(1) show ?thesis
  proof (cases rule: ack_attempt_cases)
    case refuse
    then show ?thesis
      using ack_window_cleanup [OF refuse(2), of ws a ACK_QUOTA_CLEANUP_BATCH ws now] windows_order(1) by fastforce
  next
    case (grant rows1)
    then show ?thesis
      using r(2) assms(2) ack_window_cleanup [OF grant(2), of ws a ACK_QUOTA_CLEANUP_BATCH ws now] windows_order(1)
      by (fastforce simp: ack_window_bump)
  qed simp
qed

lemma ack_attempt_from_True:
  assumes "ack_attempt_from ws a rows (src, now) = (rows', True)"
  shows "ack_window ws a rows = None \<or> (\<exists>s c. ack_window ws a rows = Some (s, c) \<and> ACK_PER_SOURCE_WINDOW_SECONDS \<le> now - s)
      \<Longrightarrow> ack_window ws a rows' = Some (now, 1)"
    and "ack_window ws a rows = Some (s, c) \<Longrightarrow> now - s < ACK_PER_SOURCE_WINDOW_SECONDS
      \<Longrightarrow> c < ACK_PER_SOURCE_LIMIT \<and> ack_window ws a rows' = Some (s, c + 1)"
proof -
  have r: "ack_attempt ws rows (a, now) = (rows', True)"
    using assms by (cases "ack_attempt ws rows (src, now)") (auto simp: ack_attempt_from_def)
  obtain rows1 where g: "distinct (map aq_key rows)" "a \<noteq> ACK_QUOTA_GLOBAL_SCOPE"
      "rows1 = delete_first ACK_QUOTA_CLEANUP_BATCH (stale_quota ws now) rows"
      "\<not> quota_would_exceed (ack_quota_row rows1 ws a) now ACK_PER_SOURCE_WINDOW_SECONDS ACK_PER_SOURCE_LIMIT"
      "rows' = ack_quota_bump (ack_quota_bump rows1 ws a now ACK_PER_SOURCE_WINDOW_SECONDS) ws ACK_QUOTA_GLOBAL_SCOPE now
                 ACK_GLOBAL_WINDOW_SECONDS"
    using r by (rule ack_attempt_cases) auto
  note c = ack_window_cleanup [OF g(1), of ws a ACK_QUOTA_CLEANUP_BATCH ws now, folded g(3)] windows_order(1)
  note b = ack_window_bump(3) [OF g(2), of ws _ now ACK_GLOBAL_WINDOW_SECONDS]
  show "ack_window ws a rows' = Some (now, 1)"
    if "ack_window ws a rows = None \<or> (\<exists>s c. ack_window ws a rows = Some (s, c) \<and> ACK_PER_SOURCE_WINDOW_SECONDS \<le> now - s)"
    using that c unfolding g(5) b by (intro ack_window_bump(1)) auto
  show "c < ACK_PER_SOURCE_LIMIT \<and> ack_window ws a rows' = Some (s, c + 1)"
    if "ack_window ws a rows = Some (s, c)" "now - s < ACK_PER_SOURCE_WINDOW_SECONDS"
  proof -
    have w: "ack_window ws a rows1 = Some (s, c)"
      using c that by fastforce
    then show ?thesis
      using would_exceed_window [OF g(4) w that(2)] ack_window_bump(2) [OF w that(2)] unfolding g(5) b by blast
  qed
qed

interpretation ack_source: fixed_window "ack_attempt_from ws (CHR ''!'' # a)" snd "ack_window ws (CHR ''!'' # a)"
  ACK_PER_SOURCE_WINDOW_SECONDS ACK_PER_SOURCE_LIMIT for ws a
proof (unfold_locales, goal_cases)
  case (3 db e db')
  then show ?case
    by (cases e) (auto dest!: ack_attempt_from_False simp: ACK_QUOTA_GLOBAL_SCOPE_def)
next
  case (4 db e db')
  then show ?case
    by (cases e) (auto dest: ack_attempt_from_True)
next
  case (5 db e db' s c)
  then show ?case
    by (cases e) (auto dest: ack_attempt_from_True)
qed (simp_all add: windows_order ACK_PER_SOURCE_LIMIT_def)

section \<open>A sample environment\<close>

definition sample_env :: mca_env where
  "sample_env = \<lparr>env_X = ref_ext,
     env_principal = \<lparr>mp_workspace_id = ''w'', mp_principal_id = ''p'', mp_key_id = hex_of (replicate 8 9), mp_epoch = 0,
       mp_public_identity = replicate 32 9, mp_public_x25519 = replicate 32 9, mp_private_key_file = ''k'',
       mp_created_at = 0, mp_status = ''ACTIVE''\<rparr>,
     env_ids = \<lparr>is_rows = [], is_keys = [(''p'', ''k'') \<mapsto> replicate 32 9]\<rparr>,
     env_uuid = (\<lambda>n. replicate n CHR ''i'')\<rparr>"

definition empty_db :: mca_db where
  "empty_db = \<lparr>db_attachments = [], db_events = [], db_replies = [], db_ack_quota = [], db_recipients = [], db_deliveries = [],
     db_sender_state = [], db_revoke_state = [], db_tombstones = [], db_next = 0\<rparr>"

section \<open>Properties\<close>

text \<open>C4. Every control message is decided once and kept for good: whatever sequence of enqueues and dispatch passes
  produced the outbox, there is at most one row per attachment and event; a further step keeps every row with
  its message and its pinned route, and leaves a row that was sent or given up on exactly as it is, so nothing is
  ever sent again after that or lost before it. (Row ids come from a uuid source that does not repeat.)\<close>

theorem outbox_exactly_once:
  assumes "inj (env_uuid E)" and "outbox_reachable E db"
  shows "distinct (map (\<lambda>r. (r_attachment_id r, r_event_type r)) (db_replies db))
    \<and> (\<forall>db'. outbox_step E db db' \<longrightarrow>
         (\<forall>r \<in> set (db_replies db). \<exists>r' \<in> set (db_replies db'). reply_core r' = reply_core r \<and> (r_state r \<noteq> PENDING \<longrightarrow> r' = r)))"
proof (intro conjI allI impI ballI)
  have ok: "outbox_ok E db"
    using outbox_reachable_ok assms by blast
  then show "distinct (map (\<lambda>r. (r_attachment_id r, r_event_type r)) (db_replies db))"
    by (simp add: outbox_ok_def)
  fix db' r assume st: "outbox_step E db db'" and r: "r \<in> set (db_replies db)"
  from st show "\<exists>r' \<in> set (db_replies db'). reply_core r' = reply_core r \<and> (r_state r \<noteq> PENDING \<longrightarrow> r' = r)"
  proof (rule outbox_stepE)
    fix aid tid mt ev now route frame
    assume "enqueue_control_message E db aid tid mt ev now route = Inr (db', frame)"
    then show ?thesis
      using r by (cases rule: enqueue_Inr) auto
  next
    fix A ws now assume db': "db' = fst (dispatch_outgoing_replies A db ws now)"
    obtain ids where t: "touches ids (db_replies db) (db_replies db')"
      and pend: "\<forall>i \<in> ids. \<exists>r \<in> set (db_replies db). r_id r = i \<and> r_state r = PENDING"
      using dispatch_touches [of db A ws now] db' by blast
    have "r_id r \<notin> ids" if "r_state r \<noteq> PENDING"
      using that pend ok r by (auto simp: outbox_ok_def distinct_map dest: inj_onD)
    moreover have "\<exists>r' \<in> set (db_replies db'). reply_core r' = reply_core r"
      using touches_core [OF t] r by (metis (no_types, lifting) image_eqI image_iff list.set_map)
    ultimately show ?thesis
      using touches_mem [OF t r] by blast
  qed
qed

theorem outbox_exactly_once_witness:
  "\<exists>db f db'. enqueue_control_message sample_env empty_db ''att'' (replicate 16 1) ACK_RECEIVED ''ack_received_sent'' 5 DERIVE_REPLY_ROUTE
       = Inr (db, Some f)
     \<and> length (db_replies db) = 1 \<and> distinct (map (\<lambda>r. (r_attachment_id r, r_event_type r)) (db_replies db))
     \<and> enqueue_control_message sample_env db ''att'' (replicate 16 1) ACK_RECEIVED ''ack_received_sent'' 9 DERIVE_REPLY_ROUTE = Inr (db, None)"
proof -
  obtain db f where q: "enqueue_control_message sample_env empty_db ''att'' (replicate 16 1) ACK_RECEIVED ''ack_received_sent'' 5 DERIVE_REPLY_ROUTE
      = Inr (db, Some f)" "length (db_replies db) = 1" "control_already_enqueued db ''att'' ''ack_received_sent''"
    by (simp add: enqueue_control_message_def control_already_enqueued_def empty_db_def sample_env_def load_signing_key_def
        ref_ext_def encode_simple_ack_def simple_ack_type_def sign_message_def domain_label_def Let_def new_reply_def)
  have "outbox_reachable sample_env db"
    by (rule outbox_reachable.step [OF outbox_reachable.start outbox_step.enqueue [OF q(1)]]) (simp add: empty_db_def)
  moreover have "inj (env_uuid sample_env)"
    by (simp add: sample_env_def inj_def)
  ultimately show ?thesis
    using outbox_exactly_once q by (fastforce simp: enqueue_control_message_def)
qed

text \<open>C18. Replies respect both quotas: over any run of consultations in time order, starting from an empty quota table,
  no hour holds more than 60 sends (twice the global limit of 30, the window being fixed) and, for any one source
  address, no ten minutes hold more than 10 (twice 5), even though stale per-source rows are pruned on the way.\<close>

theorem reply_rate_bounded:
  assumes "sorted (map snd es)"
  shows "count_in x (x + ACK_GLOBAL_WINDOW_SECONDS) (accepted_run (ack_attempt ws) snd [] es) \<le> 2 * ACK_GLOBAL_LIMIT
    \<and> count_in x (x + ACK_PER_SOURCE_WINDOW_SECONDS) (accepted_run (ack_attempt_from ws (CHR ''!'' # a)) snd [] es)
        \<le> 2 * ACK_PER_SOURCE_LIMIT"
  using assms ack_global.quota_run [of es ws "[]"] ack_source.quota_run [of es ws a "[]"]
  by (simp add: ack_window_def ack_quota_row_def)

theorem reply_rate_bounded_witness:
  "accepted_run (ack_attempt ''w'') snd [] [(''!0000000a'', 0), (''!0000000a'', 1), (''nobody'', 2)] = [0, 1]
   \<and> count_in 0 ACK_GLOBAL_WINDOW_SECONDS (accepted_run (ack_attempt ''w'') snd [] [(''!0000000a'', 0), (''!0000000a'', 1), (''nobody'', 2)]) \<le> 60"
proof
  show "accepted_run (ack_attempt ''w'') snd [] [(''!0000000a'', 0), (''!0000000a'', 1), (''nobody'', 2)] = [0, 1]"
    by (simp add: ack_attempt_def is_contact_id_def check_and_record_reply_quota_def ACK_QUOTA_CLEANUP_BATCH_def
        ack_quota_row_def quota_would_exceed_def ack_quota_bump_def upsert_def aq_key_def ACK_QUOTA_GLOBAL_SCOPE_def
        stale_quota_def ACK_QUOTA_STALE_AFTER_SECONDS_def ACK_PER_SOURCE_LIMIT_def ACK_PER_SOURCE_WINDOW_SECONDS_def
        ACK_GLOBAL_LIMIT_def ACK_GLOBAL_WINDOW_SECONDS_def numeral_eq_Suc Let_def)
  show "count_in 0 ACK_GLOBAL_WINDOW_SECONDS (accepted_run (ack_attempt ''w'') snd [] [(''!0000000a'', 0), (''!0000000a'', 1), (''nobody'', 2)]) \<le> 60"
    using reply_rate_bounded [of "[(''!0000000a'', 0), (''!0000000a'', 1), (''nobody'', 2)]" 0 "''w''"]
    by (simp add: ACK_GLOBAL_LIMIT_def)
qed

lemma dispatch_sent:
  "set (snd (fold (dispatch_reply A ws now) rs acc)) \<subseteq> set (snd acc) \<union> {r \<in> set rs. route_error A r = None}
   \<and> length (snd (fold (dispatch_reply A ws now) rs acc)) \<le> length (snd acc) + length rs"
proof (induction rs arbitrary: acc)
  case (Cons r rs)
  have "set (snd (dispatch_reply A ws now r acc)) \<subseteq> set (snd acc) \<union> {x. x = r \<and> route_error A r = None}"
    "length (snd (dispatch_reply A ws now r acc)) \<le> Suc (length (snd acc))"
    by (auto simp: dispatch_reply_def Let_def split: option.splits send_outcome.splits if_splits)
  with Cons [of "dispatch_reply A ws now r acc"] show ?case
    by fastforce
qed simp

text \<open>Dispatch fails closed on the route: every message a dispatch pass hands to the radio was a due, pending row,
  pinned to a DIRECT route whose destination is that very contact, and to this adapter and connector profile; a
  pass hands out at most five.\<close>

theorem dispatch_fail_closed:
  assumes "r \<in> set (snd (dispatch_outgoing_replies (Some A) db ws now))"
  shows "r \<in> set (db_replies db) \<and> r_state r = PENDING \<and> r_next_attempt_at r \<le> now
     \<and> r_route_type r = Some ''DIRECT'' \<and> r_destination_address r = r_route_id r
     \<and> (\<exists>a. r_route_id r = Some a \<and> is_contact_id a)
     \<and> r_adapter_id r = Some (ad_adapter_id A) \<and> r_connector_profile_id r = Some (ad_connector_profile_id A)
     \<and> length (snd (dispatch_outgoing_replies (Some A) db ws now)) \<le> 5"
proof -
  let ?due = "fetch_due_outgoing_replies db ws now MAX_OUTGOING_REPLY_SENDS_PER_DISPATCH"
  note d = dispatch_sent [of A ws now ?due "(db, [])"]
  have r: "r \<in> set ?due" "route_error A r = None"
    using assms d by (auto simp: dispatch_outgoing_replies_def)
  have "r \<in> set (db_replies db) \<and> r_state r = PENDING \<and> r_next_attempt_at r \<le> now"
    using r(1) by (auto simp: fetch_due_outgoing_replies_def dest!: in_set_takeD)
  moreover have "length (snd (dispatch_outgoing_replies (Some A) db ws now)) \<le> 5"
    using d by (simp add: dispatch_outgoing_replies_def fetch_due_outgoing_replies_def MAX_OUTGOING_REPLY_SENDS_PER_DISPATCH_def)
  ultimately show ?thesis
    using r(2) by (auto simp: route_error_def split: if_splits)
qed

definition sample_reply :: "string \<Rightarrow> string \<Rightarrow> timestamp \<Rightarrow> reply" where
  "sample_reply i a t = \<lparr>r_id = i, r_attachment_id = ''att'', r_event_type = i, r_message = [], r_state = PENDING, r_attempts = 0,
     r_created_at = t, r_next_attempt_at = t, r_sent_at = None, r_last_error = None, r_adapter_id = Some ''mesh'',
     r_connector_profile_id = Some ''c'', r_route_type = Some ''DIRECT'', r_route_id = Some a, r_destination_address = Some a\<rparr>"

definition sample_attachment :: attachment where
  "sample_attachment = \<lparr>a_id = ''att'', a_workspace_id = ''w'', a_transfer_id = hex_of (replicate 16 1), a_direction = Received,
     a_principal_id = ''p'', a_sender_principal_id = None, a_sender_public_identity = None, a_provider_id = None,
     a_state = WAITING_CONSENT, a_file_name = None, a_mime_type = None, a_plain_size = None, a_cipher_size = None,
     a_plain_sha256 = None, a_created_at = 0, a_hard_expires_at = 100, a_download_grace_seconds = 3600, a_saved_path = None,
     a_error_code = None, a_draft_comment = None, a_pending_offer_cbor = None, a_reply_route_type = None,
     a_reply_route_id = None, a_reply_adapter_id = None, a_reply_connector_profile_id = None,
     a_reply_destination_address = None, a_client_request_id = None, a_canonical_hash = None\<rparr>"

definition sample_adapter :: delivery_adapter where
  "sample_adapter = \<lparr>ad_adapter_id = ''mesh'', ad_connector_profile_id = ''c'', ad_send = (\<lambda>_. SendOk)\<rparr>"

lemma delete_first_Nil [simp]: "delete_first n p [] = []"
  by (cases n) simp_all

lemma sample_dispatch:
  "snd (dispatch_outgoing_replies (Some sample_adapter)
      (empty_db\<lparr>db_attachments := [sample_attachment], db_replies := [sample_reply ''r1'' ''!0000000a'' 0]\<rparr>) ''w'' 7)
    = [sample_reply ''r1'' ''!0000000a'' 0]"
proof -
  let ?r = "sample_reply ''r1'' ''!0000000a'' 0"
  have "route_error sample_adapter ?r = None"
    by (simp add: route_error_def sample_reply_def sample_adapter_def is_contact_id_def)
  moreover have "snd (check_and_record_reply_quota [] ''w'' (the (r_route_id ?r)) 7)"
    by (simp add: check_and_record_reply_quota_def ack_quota_row_def quota_would_exceed_def)
  moreover have "fetch_due_outgoing_replies (empty_db\<lparr>db_attachments := [sample_attachment], db_replies := [?r]\<rparr>) ''w'' 7
      MAX_OUTGOING_REPLY_SENDS_PER_DISPATCH = [?r]"
    by (simp add: fetch_due_outgoing_replies_def sample_attachment_def sample_reply_def MAX_OUTGOING_REPLY_SENDS_PER_DISPATCH_def)
  ultimately show ?thesis
    by (simp add: dispatch_outgoing_replies_def dispatch_reply_def empty_db_def sample_adapter_def)
qed

theorem dispatch_fail_closed_witness:
  "sample_reply ''r1'' ''!0000000a'' 0 \<in> set (snd (dispatch_outgoing_replies (Some sample_adapter)
      (empty_db\<lparr>db_attachments := [sample_attachment], db_replies := [sample_reply ''r1'' ''!0000000a'' 0]\<rparr>) ''w'' 7))
   \<and> r_route_type (sample_reply ''r1'' ''!0000000a'' 0) = Some ''DIRECT''"
  using dispatch_fail_closed [of "sample_reply ''r1'' ''!0000000a'' 0" sample_adapter
      "empty_db\<lparr>db_attachments := [sample_attachment], db_replies := [sample_reply ''r1'' ''!0000000a'' 0]\<rparr>" "''w''" 7]
  by (simp add: sample_dispatch)

text \<open>A failed send is retried, never lost, with an exponential backoff: the row keeps its message and stays in
  its state, its attempt counter grows by one, and the next attempt is scheduled between 30 seconds and an hour
  later - 30 seconds after the first failure, twice as long after each further one, an hour from the eighth on.\<close>

theorem reply_backoff_bounds:
  assumes "find_by r_id i (db_replies db) = Some r" and "0 \<le> r_attempts r"
  shows "\<exists>r'. find_by r_id i (db_replies (mark_reply_attempt_failed db i now code)) = Some r'
     \<and> reply_core r' = reply_core r \<and> r_state r' = r_state r \<and> r_attempts r' = r_attempts r + 1
     \<and> 30 \<le> r_next_attempt_at r' - now \<and> r_next_attempt_at r' - now \<le> 3600
     \<and> (r_attempts r < 7 \<longrightarrow> r_next_attempt_at r' - now = 30 * 2 ^ nat (r_attempts r))
     \<and> (7 \<le> r_attempts r \<longrightarrow> r_next_attempt_at r' - now = 3600)"
proof -
  obtain n where n: "r_attempts r = int n"
    using assms(2) zero_le_imp_eq_int by blast
  have low: "(30 :: int) \<le> 30 * 2 ^ n"
    by simp
  have mid: "30 * 2 ^ n \<le> (3600 :: int)" if "n < 7"
    using power_increasing [of n 6 "2 :: int"] that by simp
  have high: "(3600 :: int) \<le> 30 * 2 ^ n" if "7 \<le> n"
    using power_increasing [of 7 n "2 :: int"] that by simp
  have b: "reply_backoff (int n + 1) = (if n < 7 then 30 * 2 ^ n else 3600)"
    using mid high by (simp add: reply_backoff_def OUTGOING_REPLY_BACKOFF_BASE_SECONDS_def OUTGOING_REPLY_BACKOFF_CEILING_SECONDS_def)
  let ?r' = "r\<lparr>r_attempts := r_attempts r + 1, r_next_attempt_at := now + of_int (reply_backoff (r_attempts r + 1)),
               r_last_error := Some (take 200 code)\<rparr>"
  have "find_by r_id i (db_replies (mark_reply_attempt_failed db i now code)) = Some ?r'"
    using assms(1) by (simp add: mark_reply_attempt_failed_def update_reply_def find_by_update_same Let_def)
  moreover have "(30 :: rat) \<le> of_int (reply_backoff (int n + 1))" "of_int (reply_backoff (int n + 1)) \<le> (3600 :: rat)"
    using low mid high of_int_le_iff [of 30 "reply_backoff (int n + 1)", where 'a = rat]
      of_int_le_iff [of "reply_backoff (int n + 1)" 3600, where 'a = rat] by (auto simp: b)
  ultimately show ?thesis
    using n b by auto
qed

theorem reply_backoff_bounds_witness:
  "\<exists>r'. find_by r_id ''r1'' (db_replies (mark_reply_attempt_failed (empty_db\<lparr>db_replies := [sample_reply ''r1'' ''!0000000a'' 0]\<rparr>) ''r1'' 7 ''x''))
      = Some r' \<and> r_next_attempt_at r' = 37"
  using reply_backoff_bounds [of "''r1''" "empty_db\<lparr>db_replies := [sample_reply ''r1'' ''!0000000a'' 0]\<rparr>" "sample_reply ''r1'' ''!0000000a'' 0" 7 "''x''"]
  by (auto simp: sample_reply_def)


definition exhausted_for :: "string \<Rightarrow> string \<Rightarrow> timestamp \<Rightarrow> ack_quota list \<Rightarrow> bool" where
  "exhausted_for ws src now rows \<longleftrightarrow> distinct (map aq_key rows)
     \<and> (\<exists>q. ack_quota_row rows ws src = Some q \<and> now - aq_window_start_at q < ACK_PER_SOURCE_WINDOW_SECONDS
              \<and> ACK_PER_SOURCE_LIMIT \<le> aq_count q)"

lemma exhausted_refused:
  assumes "exhausted_for ws src now rows"
  shows "\<not> snd (check_and_record_reply_quota rows ws src now)
    \<and> exhausted_for ws src now (fst (check_and_record_reply_quota rows ws src now))"
proof -
  let ?rows = "delete_first ACK_QUOTA_CLEANUP_BATCH (stale_quota ws now) rows"
  obtain q where q: "find_by aq_key (ws, src) rows = Some q" "now - aq_window_start_at q < ACK_PER_SOURCE_WINDOW_SECONDS"
    "ACK_PER_SOURCE_LIMIT \<le> aq_count q" and d: "distinct (map aq_key rows)"
    using assms by (auto simp: exhausted_for_def ack_quota_row_def)
  have "\<not> stale_quota ws now q"
    using q(2) by (simp add: stale_quota_def ACK_QUOTA_STALE_AFTER_SECONDS_def ACK_PER_SOURCE_WINDOW_SECONDS_def)
  then have "find_by aq_key (ws, src) ?rows = Some q"
    using find_delete_first [OF d, of "(ws, src)" ACK_QUOTA_CLEANUP_BATCH "stale_quota ws now"] q(1) by auto
  then show ?thesis
    using q distinct_delete_first [OF d]
    by (simp add: check_and_record_reply_quota_def exhausted_for_def ack_quota_row_def quota_would_exceed_def Let_def)
qed

lemma dispatch_all_limited:
  assumes "\<And>r. r \<in> set rs \<Longrightarrow> route_error A r = None \<and> r_route_id r = Some src"
    and "exhausted_for ws src now (db_ack_quota (fst acc))"
  shows "snd (fold (dispatch_reply A ws now) rs acc) = snd acc
    \<and> db_replies (fst (fold (dispatch_reply A ws now) rs acc)) = db_replies (fst acc)"
  using assms
proof (induction rs arbitrary: acc)
  case (Cons r rs)
  have "exhausted_for ws src now (db_ack_quota (fst (dispatch_reply A ws now r acc)))"
    "snd (dispatch_reply A ws now r acc) = snd acc"
    "db_replies (fst (dispatch_reply A ws now r acc)) = db_replies (fst acc)"
    using Cons.prems(1) [of r] exhausted_refused [OF Cons.prems(2)] by (simp_all add: dispatch_reply_def Let_def)
  then show ?case
    using Cons.IH [of "dispatch_reply A ws now r acc"] Cons.prems(1) by simp
qed simp

text \<open>Head-of-line blocking: while the oldest due replies that a pass fetches all go to one source whose own quota is
  used up, the pass sends nothing and leaves every outbox row as it is, so the next pass fetches the same rows
  and the due replies for every other source wait behind them until that source's ten-minute window ends.\<close>

theorem quota_head_of_line:
  assumes "\<forall>r \<in> set (fetch_due_outgoing_replies db ws now MAX_OUTGOING_REPLY_SENDS_PER_DISPATCH).
             route_error A r = None \<and> r_route_id r = Some src"
    and "distinct (map aq_key (db_ack_quota db))" and "ack_quota_row (db_ack_quota db) ws src = Some q"
    and "now - aq_window_start_at q < ACK_PER_SOURCE_WINDOW_SECONDS" and "ACK_PER_SOURCE_LIMIT \<le> aq_count q"
  shows "snd (dispatch_outgoing_replies (Some A) db ws now) = []
    \<and> db_replies (fst (dispatch_outgoing_replies (Some A) db ws now)) = db_replies db"
  using assms dispatch_all_limited [of "fetch_due_outgoing_replies db ws now MAX_OUTGOING_REPLY_SENDS_PER_DISPATCH" A src ws now "(db, [])"]
  by (simp add: dispatch_outgoing_replies_def exhausted_for_def)

definition blocked_db :: mca_db where
  "blocked_db = empty_db\<lparr>db_attachments := [sample_attachment],
     db_replies := map (\<lambda>i. sample_reply i ''!0000000a'' 0) [''r1'', ''r2'', ''r3'', ''r4'', ''r5''] @ [sample_reply ''r6'' ''!0000000b'' 1],
     db_ack_quota := [\<lparr>aq_workspace_id = ''w'', aq_scope = ''!0000000a'', aq_window_start_at = 0, aq_count = 5\<rparr>]\<rparr>"

theorem quota_head_of_line_witness:
  "sample_reply ''r6'' ''!0000000b'' 1 \<in> set (db_replies blocked_db)
   \<and> snd (dispatch_outgoing_replies (Some sample_adapter) blocked_db ''w'' 7) = []"
proof
  show "sample_reply ''r6'' ''!0000000b'' 1 \<in> set (db_replies blocked_db)"
    by (simp add: blocked_db_def)
  have "fetch_due_outgoing_replies blocked_db ''w'' 7 MAX_OUTGOING_REPLY_SENDS_PER_DISPATCH
      = map (\<lambda>i. sample_reply i ''!0000000a'' 0) [''r1'', ''r2'', ''r3'', ''r4'', ''r5'']"
    by (simp add: fetch_due_outgoing_replies_def blocked_db_def sample_attachment_def sample_reply_def
        MAX_OUTGOING_REPLY_SENDS_PER_DISPATCH_def)
  moreover have "route_error sample_adapter (sample_reply i ''!0000000a'' 0) = None" for i
    by (simp add: route_error_def sample_reply_def sample_adapter_def is_contact_id_def)
  ultimately show "snd (dispatch_outgoing_replies (Some sample_adapter) blocked_db ''w'' 7) = []"
    using quota_head_of_line [of blocked_db "''w''" 7 sample_adapter "''!0000000a''"
        "\<lparr>aq_workspace_id = ''w'', aq_scope = ''!0000000a'', aq_window_start_at = 0, aq_count = 5\<rparr>"]
    by (auto simp: sample_reply_def blocked_db_def empty_db_def ack_quota_row_def aq_key_def ACK_PER_SOURCE_WINDOW_SECONDS_def ACK_PER_SOURCE_LIMIT_def)
qed

end
