(* ===== verification/Py_Text.thy ===== *)
theory Py_Text
  imports MC_Prelude
begin

text \<open>
  What the sources use of Python's \<open>str\<close> and of UTF-8. A text is the list of its characters, with code points
  below 256 (the model's character type); bytes are full 8-bit bytes. \<open>utf8_step\<close> is the strict UTF-8 decoder as
  a state machine - the pending bytes of an incomplete sequence and what the next byte may be - so that whole-buffer
  decoding and incremental decoding are the same machine.
\<close>

section \<open>Characters\<close>

definition ord :: "char \<Rightarrow> nat" where "ord c = of_char c"

text \<open>\<open>str.isspace\<close> and \<open>str.isprintable\<close> of one character.\<close>

definition text_space :: "char \<Rightarrow> bool" where
  "text_space c \<longleftrightarrow> (9 \<le> ord c \<and> ord c \<le> 13) \<or> (28 \<le> ord c \<and> ord c \<le> 32) \<or> ord c = 133 \<or> ord c = 160"

definition printable :: "char \<Rightarrow> bool" where
  "printable c \<longleftrightarrow> (32 \<le> ord c \<and> ord c \<le> 126) \<or> (161 \<le> ord c \<and> ord c \<noteq> 173)"

definition char_lower :: "char \<Rightarrow> char" where
  "char_lower c = (if (65 \<le> ord c \<and> ord c \<le> 90) \<or> (192 \<le> ord c \<and> ord c \<le> 222 \<and> ord c \<noteq> 215)
                    then char_of (ord c + 32) else c)"

definition lower :: "string \<Rightarrow> string" where "lower s = map char_lower s"

section \<open>Stripping and splitting\<close>

definition lstrip_of :: "('a \<Rightarrow> bool) \<Rightarrow> 'a list \<Rightarrow> 'a list" where
  "lstrip_of p s = dropWhile p s"

definition rstrip_of :: "('a \<Rightarrow> bool) \<Rightarrow> 'a list \<Rightarrow> 'a list" where
  "rstrip_of p s = rev (dropWhile p (rev s))"

definition strip_of :: "('a \<Rightarrow> bool) \<Rightarrow> 'a list \<Rightarrow> 'a list" where
  "strip_of p s = rstrip_of p (lstrip_of p s)"

text \<open>\<open>s.rsplit(c, 1)[-1]\<close>: what follows the last \<open>c\<close>, or all of \<open>s\<close>.\<close>

definition after_last :: "'a \<Rightarrow> 'a list \<Rightarrow> 'a list" where
  "after_last c s = rev (takeWhile (\<lambda>x. x \<noteq> c) (rev s))"

text \<open>\<open>s.split(c, 1)[0]\<close>.\<close>

definition before_first :: "'a \<Rightarrow> 'a list \<Rightarrow> 'a list" where
  "before_first c s = takeWhile (\<lambda>x. x \<noteq> c) s"

definition endswith :: "'a list \<Rightarrow> 'a list \<Rightarrow> bool" where
  "endswith s p \<longleftrightarrow> startswith (rev s) (rev p)"

lemma set_strip_of: "set (strip_of p s) \<subseteq> set s"
  by (auto simp: strip_of_def rstrip_of_def lstrip_of_def dest!: set_dropWhileD)

lemma set_rstrip_of: "set (rstrip_of p s) \<subseteq> set s"
  by (auto simp: rstrip_of_def dest!: set_dropWhileD)

lemma after_last_no: "c \<notin> set (after_last c s)"
  by (auto simp: after_last_def dest: set_takeWhileD)

lemma set_after_last: "set (after_last c s) \<subseteq> set s"
  by (auto simp: after_last_def dest: set_takeWhileD)

lemma hd_lstrip: "lstrip_of p s \<noteq> [] \<Longrightarrow> \<not> p (hd (lstrip_of p s))"
  by (simp add: lstrip_of_def hd_dropWhile)

lemma last_rstrip: "rstrip_of p s \<noteq> [] \<Longrightarrow> \<not> p (last (rstrip_of p s))"
  by (simp add: rstrip_of_def hd_dropWhile last_rev)

lemma strip_of_id:
  assumes "s \<noteq> []" and "\<not> p (hd s)" and "\<not> p (last s)"
  shows "strip_of p s = s"
proof -
  have "dropWhile p s = s"
    using assms(1,2) by (cases s) simp_all
  moreover have "dropWhile p (rev s) = rev s"
    using assms(1,3) by (cases s rule: rev_cases) simp_all
  ultimately show ?thesis
    by (simp add: strip_of_def rstrip_of_def lstrip_of_def)
qed

section \<open>Decimal integers\<close>

text \<open>\<open>str(n)\<close>.\<close>

definition dec_digit :: "nat \<Rightarrow> char" where "dec_digit d = char_of (48 + d)"

fun dec_of :: "nat \<Rightarrow> string" where
  "dec_of n = (if n < 10 then [dec_digit n] else dec_of (n div 10) @ [dec_digit (n mod 10)])"

declare dec_of.simps [simp del]

definition dec_of_int :: "int \<Rightarrow> string" where
  "dec_of_int i = (if i < 0 then CHR ''-'' # dec_of (nat (- i)) else dec_of (nat i))"

lemma dec_digit_inj: "m < 10 \<Longrightarrow> n < 10 \<Longrightarrow> dec_digit m = dec_digit n \<Longrightarrow> m = n"
  by (simp add: dec_digit_def char_of_eq_iff take_bit_eq_mod)

lemma dec_of_nonempty [simp]: "dec_of n \<noteq> []"
  by (subst dec_of.simps) simp

lemma dec_of_digits: "c \<in> set (dec_of n) \<Longrightarrow> 48 \<le> ord c \<and> ord c \<le> 57"
proof (induction n rule: less_induct)
  case (less n)
  have "ord (dec_digit d) = 48 + d" if "d < 10" for d
    using that by (simp add: ord_def dec_digit_def take_bit_eq_mod)
  then have "48 \<le> ord (dec_digit d) \<and> ord (dec_digit d) \<le> 57" if "d < 10" for d
    using that by simp
  then show ?case
    using less.prems less.IH [of "n div 10"] by (subst (asm) dec_of.simps) (auto split: if_splits)
qed

lemma dec_of_inj: "dec_of m = dec_of n \<Longrightarrow> m = n"
proof (induction m arbitrary: n rule: less_induct)
  case (less m)
  show ?case
  proof (cases "m < 10 \<or> n < 10")
    case True
    then show ?thesis
      using less.prems dec_digit_inj [of m n]
      by (auto simp: dec_of.simps [of m] dec_of.simps [of n] split: if_splits)
        (metis append_is_Nil_conv butlast.simps(2) butlast_snoc dec_of_nonempty)+
  next
    case False
    then have "dec_of (m div 10) = dec_of (n div 10)" "m mod 10 = n mod 10"
      using less.prems dec_digit_inj [of "m mod 10" "n mod 10"] by (simp_all add: dec_of.simps [of m] dec_of.simps [of n])
    then show ?thesis
      using less.IH [of "m div 10" "n div 10"] False by (metis One_nat_def div_less_dividend div_mult_mod_eq not_less one_less_numeral_iff semiring_norm(76) zero_less_numeral order.strict_trans2)
  qed
qed

section \<open>UTF-8\<close>

text \<open>The decoder state: \<open>U_start\<close> between characters; \<open>U_need k lo hi\<close> inside one, with \<open>k\<close> more bytes to come, the
  next of which lies in \<open>lo..hi\<close> (the ranges exclude overlong forms, surrogates and code points above 0x10FFFF).\<close>

datatype utf8_state = U_start | U_need nat nat nat | U_error

definition utf8_step :: "utf8_state \<Rightarrow> byte \<Rightarrow> utf8_state" where
  "utf8_step st b =
     (let n = unat b in
      case st of
        U_error \<Rightarrow> U_error
      | U_need k lo hi \<Rightarrow>
          if lo \<le> n \<and> n \<le> hi then (if k \<le> 1 then U_start else U_need (k - 1) 128 191) else U_error
      | U_start \<Rightarrow>
          if n < 128 then U_start
          else if 194 \<le> n \<and> n \<le> 223 then U_need 1 128 191
          else if n = 224 then U_need 2 160 191
          else if n = 237 then U_need 2 128 159
          else if 225 \<le> n \<and> n \<le> 239 then U_need 2 128 191
          else if n = 240 then U_need 3 144 191
          else if 241 \<le> n \<and> n \<le> 243 then U_need 3 128 191
          else if n = 244 then U_need 3 128 143
          else U_error)"

definition utf8_run :: "utf8_state \<Rightarrow> bytes \<Rightarrow> utf8_state" where
  "utf8_run st bs = foldl utf8_step st bs"

definition utf8_valid :: "bytes \<Rightarrow> bool" where
  "utf8_valid bs \<longleftrightarrow> utf8_run U_start bs = U_start"

lemma utf8_run_append: "utf8_run st (xs @ ys) = utf8_run (utf8_run st xs) ys"
  by (simp add: utf8_run_def)

lemma utf8_run_error [simp]: "utf8_run U_error bs = U_error"
  by (induction bs) (simp_all add: utf8_run_def utf8_step_def)

text \<open>\<open>text.encode('utf-8')\<close>, and \<open>encoded[:n].decode('utf-8', errors='ignore')\<close> of such an encoding: the
  characters that fit whole.\<close>

definition utf8_char :: "char \<Rightarrow> bytes" where
  "utf8_char c = (if ord c < 128 then [of_nat (ord c)] else [of_nat (192 + ord c div 64), of_nat (128 + ord c mod 64)])"

definition utf8_encode :: "string \<Rightarrow> bytes" where
  "utf8_encode s = concat (map utf8_char s)"

fun utf8_take :: "nat \<Rightarrow> string \<Rightarrow> string" where
  "utf8_take n [] = []"
| "utf8_take n (c # s) =
     (if length (utf8_char c) \<le> n then c # utf8_take (n - length (utf8_char c)) s else [])"

lemma utf8_take_length: "length (utf8_encode (utf8_take n s)) \<le> n"
  by (induction n s rule: utf8_take.induct) (auto simp: utf8_encode_def)

lemma set_utf8_take: "set (utf8_take n s) \<subseteq> set s"
  by (induction n s rule: utf8_take.induct) auto

end
