(* ===== verification/Mime_Allowlist.thy ===== *)
theory Mime_Allowlist
  imports Py_Text
begin

text \<open>
  Content types and file names, \<open>src/meshsrv/attachments/mime_allowlist.py\<close>: sniffing a type from the leading
  bytes, the incremental text validator, and the sanitizer that turns an untrusted name into a display name.
  \<open>validate_json_document\<close> is the standard library's parser on a file and is not modelled.
\<close>

section \<open>Sniffing\<close>

definition ALLOWED_MIME_TYPES :: "string list" where
  "ALLOWED_MIME_TYPES = [''image/jpeg'', ''image/png'', ''image/webp'', ''application/pdf'', ''text/plain'', ''text/csv'', ''application/json'']"

definition ALLOWED_EXTENSIONS :: "string list" where
  "ALLOWED_EXTENSIONS = [''.jpg'', ''.jpeg'', ''.png'', ''.webp'', ''.pdf'', ''.txt'', ''.log'', ''.csv'', ''.json'']"

definition TEXT_FAMILY_MIME_TYPES :: "string list" where
  "TEXT_FAMILY_MIME_TYPES = [''text/plain'', ''text/csv'', ''application/json'']"

definition GENERIC_MIME_TYPE :: string where "GENERIC_MIME_TYPE = ''application/octet-stream''"

definition byte_literal :: "string \<Rightarrow> bytes" where "byte_literal s = map of_char s"

text \<open>\<open>bytes.lstrip()\<close> removes ASCII whitespace.\<close>

definition byte_space :: "byte \<Rightarrow> bool" where
  "byte_space b \<longleftrightarrow> b = 32 \<or> (9 \<le> unat b \<and> unat b \<le> 13)"

definition sniff_mime_type :: "bytes \<Rightarrow> string option" where
  "sniff_mime_type head_bytes =
     (if startswith head_bytes [255, 216, 255] then Some ''image/jpeg''
      else if startswith head_bytes [137, 80, 78, 71, 13, 10, 26, 10] then Some ''image/png''
      else if 12 \<le> length head_bytes \<and> take 4 head_bytes = byte_literal ''RIFF''
              \<and> take 4 (drop 8 head_bytes) = byte_literal ''WEBP'' then Some ''image/webp''
      else if startswith head_bytes (byte_literal ''%PDF-'') then Some ''application/pdf''
      else if 0 \<in> set head_bytes then None
      else if \<not> utf8_valid head_bytes then None
      else let stripped = lstrip_of byte_space head_bytes in
        if take 1 stripped = byte_literal ''{'' \<or> take 1 stripped = byte_literal ''['' then Some ''application/json''
        else if of_char CHR '','' \<in> set (before_first 10 head_bytes) then Some ''text/csv''
        else Some ''text/plain'')"

definition has_binary_control_bytes :: "bytes \<Rightarrow> bool" where
  "has_binary_control_bytes head_bytes \<longleftrightarrow>
     list_ex (\<lambda>b. unat b < 32 \<and> b \<notin> set [9, 10, 13, 12, 27]) head_bytes \<or> 127 \<in> set head_bytes"

definition detect_mime_type :: "bytes \<Rightarrow> bool \<Rightarrow> string" where
  "detect_mime_type head_bytes text_clean =
     (case sniff_mime_type head_bytes of
        None \<Rightarrow> GENERIC_MIME_TYPE
      | Some sniffed \<Rightarrow>
          if sniffed \<in> set TEXT_FAMILY_MIME_TYPES \<and> (\<not> text_clean \<or> has_binary_control_bytes head_bytes) then GENERIC_MIME_TYPE
          else sniffed)"

definition is_allowed_mime_type :: "string \<Rightarrow> bool" where
  "is_allowed_mime_type mime_type \<longleftrightarrow> mime_type \<in> set ALLOWED_MIME_TYPES"

definition is_allowed_extension :: "string \<Rightarrow> bool" where
  "is_allowed_extension file_name \<longleftrightarrow> list_ex (endswith (lower file_name)) ALLOWED_EXTENSIONS"

section \<open>File names\<close>

definition mime_extensions :: "string \<Rightarrow> string list option" where
  "mime_extensions mime_type = map_of
     [(''image/jpeg'', [''.jpg'', ''.jpeg'']), (''image/png'', [''.png'']), (''image/webp'', [''.webp'']),
      (''application/pdf'', [''.pdf'']), (''text/plain'', [''.txt'', ''.log'']), (''text/csv'', [''.csv'']),
      (''application/json'', [''.json''])] mime_type"

definition allowed_extensions_for_mime :: "string \<Rightarrow> string list" where
  "allowed_extensions_for_mime mime_type = (case mime_extensions mime_type of None \<Rightarrow> [] | Some es \<Rightarrow> es)"

definition canonical_extension :: "string \<Rightarrow> string option" where
  "canonical_extension mime_type = map_option hd (mime_extensions mime_type)"

definition MAX_SOURCE_NAME_CODE_POINTS :: nat where "MAX_SOURCE_NAME_CODE_POINTS = 255"

definition truncate_code_points :: "string \<Rightarrow> int option \<Rightarrow> string" where
  "truncate_code_points text max_code_points =
     (case max_code_points of
        None \<Rightarrow> text
      | Some m \<Rightarrow> if m \<le> 0 then [] else take (nat m) text)"

text \<open>The argument is always a string here; a non-string gives \<open>''attachment''\<close> too.\<close>

definition sanitize_display_name :: "string \<Rightarrow> string" where
  "sanitize_display_name raw_filename =
     (let base = after_last CHR ''/'' (map (\<lambda>c. if c = CHR 0x5C then CHR ''/'' else c) raw_filename);
          printed = filter printable base;
          stripped = strip_of (\<lambda>c. c = CHR ''.'') (strip_of text_space printed)
      in if stripped = [] then ''attachment'' else stripped)"

definition normalize_file_name_for_mime :: "string \<Rightarrow> string \<Rightarrow> int option \<Rightarrow> string" where
  "normalize_file_name_for_mime file_name mime_type max_code_points = truncate_code_points file_name max_code_points"

text \<open>\<open>file_name.rsplit('.', 1)[0]\<close> when there is a dot.\<close>

definition before_last_dot :: "string \<Rightarrow> string" where
  "before_last_dot s = take (length s - length (after_last CHR ''.'' s) - 1) s"

definition normalize_known_extension :: "string \<Rightarrow> string \<Rightarrow> int option \<Rightarrow> string" where
  "normalize_known_extension file_name mime_type max_code_points =
     (case mime_extensions mime_type of
        None \<Rightarrow> truncate_code_points file_name max_code_points
      | Some extensions \<Rightarrow>
          (case List.find (endswith (lower file_name)) extensions of
             Some e \<Rightarrow>
               (let k = length file_name - length e in
                truncate_code_points (take k file_name) (map_option (\<lambda>m. m - int (length e)) max_code_points)
                @ drop k file_name)
           | None \<Rightarrow>
               (let canonical = hd extensions;
                    stem = (if CHR ''.'' \<in> set file_name then before_last_dot file_name else file_name)
                in truncate_code_points stem (map_option (\<lambda>m. m - int (length canonical)) max_code_points) @ canonical)))"

section \<open>The text validator\<close>

text \<open>\<open>TextStreamValidator\<close>: the decoder's state and the verdict so far.\<close>

record text_validator =
  tv_decoder :: utf8_state
  tv_clean :: bool

definition tv_init :: text_validator where
  "tv_init = \<lparr>tv_decoder = U_start, tv_clean = True\<rparr>"

definition tv_feed :: "text_validator \<Rightarrow> bytes \<Rightarrow> text_validator" where
  "tv_feed v chunk =
     (if \<not> tv_clean v then v
      else if 0 \<in> set chunk then v\<lparr>tv_clean := False\<rparr>
      else let d = utf8_run (tv_decoder v) chunk in
        if d = U_error then v\<lparr>tv_clean := False\<rparr> else v\<lparr>tv_decoder := d\<rparr>)"

definition tv_finish :: "text_validator \<Rightarrow> bool" where
  "tv_finish v \<longleftrightarrow> tv_clean v \<and> tv_decoder v = U_start"

section \<open>Properties\<close>

lemma tv_feeds:
  "tv_finish (fold (\<lambda>c v. tv_feed v c) chunks v) \<longleftrightarrow>
     tv_clean v \<and> 0 \<notin> set (concat chunks) \<and> utf8_run (tv_decoder v) (concat chunks) = U_start"
proof (induction chunks arbitrary: v)
  case Nil
  then show ?case by (simp add: tv_finish_def utf8_run_def)
next
  case (Cons c chunks)
  show ?case
    using Cons.IH [of "tv_feed v c"] by (auto simp: tv_feed_def utf8_run_append Let_def)
qed

text \<open>C20. The incremental text validator gives the verdict of the whole stream, however the stream is cut into chunks:
  a multi-byte character split across a boundary is neither an error nor a way past the check.\<close>

theorem text_validator_chunking:
  "tv_finish (fold (\<lambda>c v. tv_feed v c) chunks tv_init) \<longleftrightarrow> 0 \<notin> set (concat chunks) \<and> utf8_valid (concat chunks)"
  by (simp add: tv_feeds tv_init_def utf8_valid_def)

lemma sniff_allowed: "sniff_mime_type h = Some m \<Longrightarrow> m \<in> set ALLOWED_MIME_TYPES"
  by (auto simp: sniff_mime_type_def ALLOWED_MIME_TYPES_def Let_def split: if_splits)

end
