(* ===== verification/Workspace.thy ===== *)
theory Workspace
  imports Mime_Allowlist
begin

text \<open>
  File naming in an MCA workspace, \<open>src/meshsrv/attachments/workspace.py\<close>: the principal directory, and the name a
  received file is saved under. A directory is the list of the names it holds; a saved path is the pair of the
  principal's directory and the file name inside its \<open>files/\<close>. Symbolic links are not modelled, so \<open>resolve()\<close> is the
  identity and its containment checks hold by the checks on the name. What the operating system reports (the sizes in
  \<open>files/\<close>, \<open>shutil.disk_usage\<close>) is an argument; ratios are exact. Directory creation is not modelled.
\<close>

datatype workspace_error = WorkspacePathError

definition principal_id_pattern :: "string \<Rightarrow> bool" where
  "principal_id_pattern s \<longleftrightarrow> length s = 16 \<and>
     list_all (\<lambda>c. (48 \<le> ord c \<and> ord c \<le> 57) \<or> (97 \<le> ord c \<and> ord c \<le> 102)) s"

definition validate_principal_id :: "string \<Rightarrow> workspace_error + string" where
  "validate_principal_id principal_id =
     (let clean = lower (strip_of text_space principal_id) in
      if principal_id_pattern clean then Inr clean else Inl WorkspacePathError)"

definition resolve_saved_path :: "string \<Rightarrow> string \<Rightarrow> workspace_error + string \<times> string" where
  "resolve_saved_path principal_id requested_file_name =
     bind_res (validate_principal_id principal_id) (\<lambda>dir.
     if CHR 0x00 \<in> set requested_file_name then Inl WorkspacePathError
     else if CHR ''/'' \<in> set requested_file_name \<or> CHR 0x5C \<in> set requested_file_name then Inl WorkspacePathError
     else let stripped = strip_of text_space requested_file_name in
       if stripped \<in> set ['''', ''.'', ''..''] then Inl WorkspacePathError
       else Inr (dir, stripped))"

text \<open>\<open>PurePath.suffix\<close> and \<open>PurePath.stem\<close>: the last dot counts when it is neither first nor last.\<close>

definition path_suffix :: "string \<Rightarrow> string" where
  "path_suffix name =
     (let e = after_last CHR ''.'' name; i = length name - length e - 1 in
      if CHR ''.'' \<in> set name \<and> 0 < i \<and> e \<noteq> [] then CHR ''.'' # e else [])"

definition path_stem :: "string \<Rightarrow> string" where
  "path_stem name = take (length name - length (path_suffix name)) name"

definition renamed :: "string \<Rightarrow> nat \<Rightarrow> string" where
  "renamed name counter = path_stem name @ '' ('' @ dec_of counter @ '')'' @ path_suffix name"

text \<open>The \<open>while True\<close> loop over the counter.\<close>

partial_function (option) next_free_name :: "string list \<Rightarrow> string \<Rightarrow> nat \<Rightarrow> string option" where
  "next_free_name existing name counter =
     (if renamed name counter \<in> set existing then next_free_name existing name (counter + 1)
      else Some (renamed name counter))"

definition unique_file_name :: "string list \<Rightarrow> string \<Rightarrow> string \<Rightarrow> workspace_error + (string \<times> string) option" where
  "unique_file_name existing principal_id requested_file_name =
     bind_res (resolve_saved_path principal_id requested_file_name) (\<lambda>(dir, name).
     if name \<notin> set existing then Inr (Some (dir, name))
     else Inr (map_option (Pair dir) (next_free_name existing name 2)))"

datatype low_disk_level = DISK_OK | DISK_WARN | DISK_BLOCK

definition is_over_quota :: "int list \<Rightarrow> int \<Rightarrow> int \<Rightarrow> bool" where
  "is_over_quota file_sizes max_bytes additional_bytes \<longleftrightarrow> max_bytes < sum_list file_sizes + additional_bytes"

definition low_disk_level_of :: "nat \<times> nat \<Rightarrow> string \<Rightarrow> workspace_error + low_disk_level" where
  "low_disk_level_of usage principal_id =
     bind_res (validate_principal_id principal_id) (\<lambda>_.
     let (total, free) = usage; free_ratio = of_nat free / of_nat total :: rat in
     if total = 0 then Inr DISK_OK
     else if free_ratio < 5 / 100 then Inr DISK_BLOCK
     else if free_ratio < 15 / 100 then Inr DISK_WARN
     else Inr DISK_OK)"

section \<open>Lemmas\<close>

lemma renamed_inj: "renamed name m = renamed name n \<Longrightarrow> m = n"
  by (simp add: renamed_def dec_of_inj)

lemma finite_taken: "finite {k. renamed name k \<in> set existing}"
proof -
  have "inj_on (renamed name) {k. renamed name k \<in> set existing}"
    by (auto intro: inj_onI renamed_inj)
  then show ?thesis
    by (rule inj_on_finite [of _ _ "set existing"]) auto
qed

lemma next_free_name_returns:
  "\<exists>k \<ge> c. next_free_name existing name c = Some (renamed name k) \<and> renamed name k \<notin> set existing"
proof (induction "card {k. c \<le> k \<and> renamed name k \<in> set existing}" arbitrary: c rule: less_induct)
  case less
  show ?case
  proof (cases "renamed name c \<in> set existing")
    case True
    have "{k. Suc c \<le> k \<and> renamed name k \<in> set existing} \<subset> {k. c \<le> k \<and> renamed name k \<in> set existing}"
    proof (rule psubsetI)
      have "c \<in> {k. c \<le> k \<and> renamed name k \<in> set existing}" "c \<notin> {k. Suc c \<le> k \<and> renamed name k \<in> set existing}"
        using True by simp_all
      then show "{k. Suc c \<le> k \<and> renamed name k \<in> set existing} \<noteq> {k. c \<le> k \<and> renamed name k \<in> set existing}"
        by metis
    qed auto
    moreover have "finite {k. c \<le> k \<and> renamed name k \<in> set existing}"
      by (rule finite_subset [OF _ finite_taken [of name existing]]) auto
    ultimately obtain k where "Suc c \<le> k" "next_free_name existing name (Suc c) = Some (renamed name k)"
      "renamed name k \<notin> set existing"
      using less [of "Suc c"] psubset_card_mono by blast
    then show ?thesis
      using True by (subst next_free_name.simps) (auto intro!: exI [of _ k])
  next
    case False
    then show ?thesis
      by (subst next_free_name.simps) auto
  qed
qed

lemma resolve_saved_path_safe:
  assumes "resolve_saved_path p f = Inr (dir, name)"
  shows "principal_id_pattern dir" and "set name \<inter> {CHR 0x00, CHR ''/'', CHR 0x5C} = {}" and "name \<notin> {'''', ''.'', ''..''}"
proof -
  have name: "name = strip_of text_space f" and f: "set f \<inter> {CHR 0x00, CHR ''/'', CHR 0x5C} = {}"
    and "name \<notin> {'''', ''.'', ''..''}" "principal_id_pattern dir"
    using assms by (auto simp: resolve_saved_path_def bind_res_eq_Inr validate_principal_id_def Let_def split: if_splits)
  then show "principal_id_pattern dir" "name \<notin> {'''', ''.'', ''..''}"
    by simp_all
  show "set name \<inter> {CHR 0x00, CHR ''/'', CHR 0x5C} = {}"
    using f set_strip_of [of text_space f] by (auto simp: name)
qed

lemma split_at_last:
  assumes "c \<in> set s"
  shows "take (length s - length (after_last c s) - 1) s @ c # after_last c s = s"
proof -
  have "dropWhile (\<lambda>x. x \<noteq> c) (rev s) \<noteq> []"
    using assms by (simp add: dropWhile_eq_Nil_conv)
  then obtain xs where xs: "dropWhile (\<lambda>x. x \<noteq> c) (rev s) = c # xs"
    by (metis (mono_tags, lifting) hd_Cons_tl hd_dropWhile)
  have s: "s = rev xs @ c # after_last c s"
    using arg_cong [OF takeWhile_dropWhile_id [of "\<lambda>x. x \<noteq> c" "rev s"], of rev] by (simp add: xs after_last_def)
  then have "length s - length (after_last c s) - 1 = length (rev xs)"
    by (metis add_diff_cancel_right' diff_Suc_1 diff_diff_left length_Cons length_append plus_1_eq_Suc add.commute)
  with s show ?thesis
    by (metis append_eq_conv_conj)
qed

lemma path_stem_suffix: "path_stem name @ path_suffix name = name"
  using split_at_last [of "CHR ''.''" name] by (simp add: path_stem_def path_suffix_def Let_def)

lemma renamed_safe:
  assumes "set name \<inter> {CHR 0x00, CHR ''/'', CHR 0x5C} = {}"
  shows "set (renamed name k) \<inter> {CHR 0x00, CHR ''/'', CHR 0x5C} = {} \<and> renamed name k \<notin> {'''', ''.'', ''..''}"
proof
  have "set (path_stem name) \<union> set (path_suffix name) = set name"
    by (metis path_stem_suffix set_append)
  moreover have "CHR 0x00 \<notin> set (dec_of k)" "CHR ''/'' \<notin> set (dec_of k)" "CHR 0x5C \<notin> set (dec_of k)"
    using dec_of_digits [of "CHR 0x00" k] dec_of_digits [of "CHR ''/''" k] dec_of_digits [of "CHR 0x5C" k]
    by (auto simp: ord_def)
  ultimately show "set (renamed name k) \<inter> {CHR 0x00, CHR ''/'', CHR 0x5C} = {}"
    using assms by (auto simp: renamed_def)
  have "CHR ''('' \<in> set (renamed name k)"
    by (simp add: renamed_def)
  then show "renamed name k \<notin> {'''', ''.'', ''..''}"
    by auto
qed

section \<open>Properties\<close>

text \<open>C19. A received file never lands outside \<open>files/\<close> and never overwrites another file: whatever name is requested,
  either the name is refused, or the loop ends with a name that is free, that holds no separator and no NUL and is
  not empty or a dot name, inside the directory of a well-formed principal id.\<close>

theorem unique_file_name_safe:
  "unique_file_name existing p f = Inl WorkspacePathError
   \<or> (\<exists>dir name. unique_file_name existing p f = Inr (Some (dir, name)) \<and> name \<notin> set existing
        \<and> principal_id_pattern dir \<and> set name \<inter> {CHR 0x00, CHR ''/'', CHR 0x5C} = {} \<and> name \<notin> {'''', ''.'', ''..''})"
proof (cases "resolve_saved_path p f")
  case (Inl e)
  then show ?thesis
    by (cases e) (simp add: unique_file_name_def)
next
  case (Inr r)
  obtain dir name where r: "r = (dir, name)"
    by (cases r)
  note safe = resolve_saved_path_safe [OF Inr [unfolded r]]
  show ?thesis
  proof (cases "name \<in> set existing")
    case True
    obtain k where k: "next_free_name existing name 2 = Some (renamed name k)" "renamed name k \<notin> set existing"
      using next_free_name_returns [of 2 existing name] by blast
    moreover note renamed_safe [OF safe(2), of k]
    ultimately show ?thesis
      using k True safe(1) Inr by (simp add: unique_file_name_def r)
  qed (use safe Inr in \<open>simp add: unique_file_name_def r\<close>)
qed


lemma sanitize_chars:
  assumes "c \<in> set (sanitize_display_name f)"
  shows "printable c \<and> c \<noteq> CHR ''/'' \<and> c \<noteq> CHR 0x5C"
proof (cases "sanitize_display_name f = ''attachment''")
  case True
  then show ?thesis
    using assms by (auto simp: printable_def ord_def)
next
  case False
  let ?base = "after_last CHR ''/'' (map (\<lambda>c. if c = CHR 0x5C then CHR ''/'' else c) f)"
  have "c \<in> set (filter printable ?base)"
    using assms False set_strip_of [of "\<lambda>c. c = CHR ''.''"] set_strip_of [of text_space "filter printable ?base"]
    by (fastforce simp: sanitize_display_name_def Let_def split: if_splits)
  then show ?thesis
    using after_last_no [of "CHR ''/''"] set_after_last [of "CHR ''/''"] by (fastforce split: if_splits)
qed

text \<open>The sanitizer's character guarantees hold for every name: printable characters only (so no NUL, CR or LF), no
  separator, not empty, and neither \<open>.\<close> nor \<open>..\<close>.\<close>

theorem sanitize_safe:
  "list_all printable (sanitize_display_name f) \<and> set (sanitize_display_name f) \<inter> {CHR 0x00, CHR ''/'', CHR 0x5C} = {}
   \<and> sanitize_display_name f \<notin> {'''', ''.'', ''..''}"
proof -
  let ?d = "\<lambda>c. c = CHR ''.''"
  have "sanitize_display_name f \<noteq> []" "sanitize_display_name f = ''attachment'' \<or> (\<exists>s. sanitize_display_name f = strip_of ?d s)"
    by (auto simp: sanitize_display_name_def Let_def)
  moreover have "last (strip_of ?d s) \<noteq> CHR ''.''" if "strip_of ?d s \<noteq> []" for s
    using last_rstrip [of ?d] that by (simp add: strip_of_def)
  ultimately have "last (sanitize_display_name f) \<noteq> CHR ''.''"
    by auto
  moreover have "\<not> printable CHR 0x00"
    by (simp add: printable_def ord_def)
  ultimately show ?thesis
    using sanitize_chars \<open>sanitize_display_name f \<noteq> []\<close> by (auto simp: list_all_iff)
qed

text \<open>The stronger claim in the sanitizer's comment, that its result is always safe to hand to
  \<open>resolve_saved_path\<close>, fails: dots are stripped after whitespace, so \<open>''. .''\<close> becomes a single space, which
  \<open>resolve_saved_path\<close> refuses.\<close>

theorem sanitized_name_refused:
  "sanitize_display_name ''. .'' = '' '' \<and> unique_file_name existing p (sanitize_display_name ''. .'') = Inl WorkspacePathError"
proof -
  have "sanitize_display_name ''. .'' = '' ''"
    by (simp add: sanitize_display_name_def after_last_def printable_def ord_def strip_of_def rstrip_of_def lstrip_of_def text_space_def)
  moreover have "resolve_saved_path p '' '' = Inl WorkspacePathError"
    by (cases "validate_principal_id p")
      (simp_all add: resolve_saved_path_def validate_principal_id_def Let_def strip_of_def rstrip_of_def lstrip_of_def
        text_space_def ord_def split: if_splits)
  ultimately show ?thesis
    by (simp add: unique_file_name_def)
qed

end
