(* ===== verification/Relay.thy ===== *)
theory Relay
  imports External Py_Text Py_Base64 "HOL-Library.Char_ord" "HOL-Library.List_Lexorder"
begin

text \<open>
  What the node knows of a Relay: the provider rows of the local registry (\<open>src/meshsrv/attachments/provider_registry.py\<close>,
  the lookups and identifier codecs), the signed object descriptor and its verification
  (\<open>src/meshsrv/attachments/relay_client.py\<close>), and the client interface the two transfer state machines call. The state
  machines receive their client as an argument; \<open>relay_client\<close> is that argument: what each download request
  returns or raises. HTTP, JSON parsing and retries are inside the client.
\<close>

section \<open>Provider registry\<close>

datatype registry_error = RegistryError

definition encode_provider_id :: "bytes \<Rightarrow> registry_error + string" where
  "encode_provider_id raw = (if length raw \<noteq> 8 then Inl RegistryError else Inr (b64url_nopad raw))"

definition b64url_decode :: "string \<Rightarrow> nat \<Rightarrow> registry_error + bytes" where
  "b64url_decode text expected_length =
     (case b64url_decode_unpadded text of
        None \<Rightarrow> Inl RegistryError
      | Some d \<Rightarrow> if length d \<noteq> expected_length then Inl RegistryError else Inr d)"

definition decode_provider_id :: "string \<Rightarrow> registry_error + bytes" where
  "decode_provider_id text = b64url_decode text 8"

definition compute_provider_id :: "ext \<Rightarrow> string \<Rightarrow> bytes \<Rightarrow> registry_error + string" where
  "compute_provider_id X origin service_public_key =
     (if length service_public_key \<noteq> 32 then Inl RegistryError
      else Inr (b64url_nopad (take 8 (sha256 X (utf8_encode origin @ [10] @ service_public_key)))))"

text \<open>The columns of a provider row that the transfer code reads.\<close>

record provider_row =
  pv_provider_id :: string
  pv_workspace_id :: string
  pv_origin :: string
  pv_service_public_key :: bytes
  pv_upload_allowed :: bool
  pv_enabled :: bool
  pv_max_ciphertext_bytes :: int
  pv_min_ttl_seconds :: "int option"
  pv_max_ttl_seconds :: "int option"

definition resolve :: "provider_row list \<Rightarrow> string \<Rightarrow> string \<Rightarrow> provider_row option" where
  "resolve rows workspace_id provider_id = find_by (\<lambda>p. (pv_provider_id p, pv_workspace_id p)) (provider_id, workspace_id) rows"

section \<open>Object descriptors\<close>

record descriptor_chunk =
  dc_index :: int
  dc_size :: int
  dc_sha256 :: bytes

text \<open>A time as a Relay serializes it: absent, whole epoch seconds, or ISO 8601 text.\<close>

datatype relay_time = TimeNull | TimeNum int | TimeText string

record object_descriptor =
  d_provider_id :: string
  d_transfer_id :: bytes
  d_total_size :: int
  d_ciphertext_sha256 :: bytes
  d_manifest_size :: int
  d_manifest_sha256 :: bytes
  d_chunks :: "descriptor_chunk list"
  d_committed_at :: relay_time
  d_hard_expires_at :: relay_time
  d_delete_after :: relay_time
  d_encrypted_manifest :: bytes
  d_service_signature :: bytes

text \<open>JSON values and their compact rendering, \<open>json.dumps(..., ensure_ascii=False, separators=(',', ':'))\<close>.\<close>

datatype json = JNull | JInt int | JStr string | JList "json list" | JObj "(string \<times> json) list"

definition json_char :: "char \<Rightarrow> string" where
  "json_char c =
     (if c = CHR 0x22 then [CHR 0x5C, CHR 0x22]
      else if c = CHR 0x5C then [CHR 0x5C, CHR 0x5C]
      else if ord c = 8 then [CHR 0x5C, CHR ''b'']
      else if ord c = 9 then [CHR 0x5C, CHR ''t'']
      else if ord c = 10 then [CHR 0x5C, CHR ''n'']
      else if ord c = 12 then [CHR 0x5C, CHR ''f'']
      else if ord c = 13 then [CHR 0x5C, CHR ''r'']
      else if ord c < 32 then [CHR 0x5C, CHR ''u'', CHR ''0'', CHR ''0'', hex_digit (ord c div 16), hex_digit (ord c mod 16)]
      else [c])"

definition json_string :: "string \<Rightarrow> string" where
  "json_string s = CHR 0x22 # concat (map json_char s) @ [CHR 0x22]"

fun comma_separated :: "string list \<Rightarrow> string" where
  "comma_separated [] = []"
| "comma_separated [x] = x"
| "comma_separated (x # y # xs) = x @ '','' @ comma_separated (y # xs)"

fun json_dumps :: "json \<Rightarrow> string" where
  "json_dumps JNull = ''null''"
| "json_dumps (JInt i) = dec_of_int i"
| "json_dumps (JStr s) = json_string s"
| "json_dumps (JList vs) = ''['' @ comma_separated (map json_dumps vs) @ '']''"
| "json_dumps (JObj kvs) = ''{'' @ comma_separated (map (\<lambda>(k, v). json_string k @ '':'' @ json_dumps v) kvs) @ ''}''"

fun normalize_json :: "json \<Rightarrow> json" where
  "normalize_json (JList vs) = JList (map normalize_json vs)"
| "normalize_json (JObj kvs) = JObj (sort_key fst (map (\<lambda>(k, v). (k, normalize_json v)) kvs))"
| "normalize_json v = v"

definition canonical_json :: "json \<Rightarrow> string" where
  "canonical_json v = json_dumps (normalize_json v)"

definition DESCRIPTOR_SIGNATURE_DOMAIN :: string where
  "DESCRIPTOR_SIGNATURE_DOMAIN = ''MCA-RELAY-DESCRIPTOR-V1''"

fun json_time :: "relay_time \<Rightarrow> json" where
  "json_time TimeNull = JNull"
| "json_time (TimeNum n) = JInt n"
| "json_time (TimeText s) = JStr s"

definition signed_descriptor :: "object_descriptor \<Rightarrow> json" where
  "signed_descriptor d = JObj
     [(''domain'', JStr DESCRIPTOR_SIGNATURE_DOMAIN), (''protocol'', JStr ''MCA/1''),
      (''provider_id'', JStr (d_provider_id d)), (''transfer_id'', JStr (b64url_nopad (d_transfer_id d))),
      (''total_size'', JInt (d_total_size d)), (''ciphertext_sha256'', JStr (hex_of (d_ciphertext_sha256 d))),
      (''manifest_size'', JInt (d_manifest_size d)), (''manifest_sha256'', JStr (hex_of (d_manifest_sha256 d))),
      (''chunks'', JList (map (\<lambda>c. JObj [(''index'', JInt (dc_index c)), (''size'', JInt (dc_size c)),
         (''sha256'', JStr (hex_of (dc_sha256 c)))]) (d_chunks d))),
      (''committed_at'', json_time (d_committed_at d)), (''hard_expires_at'', json_time (d_hard_expires_at d)),
      (''delete_after'', json_time (d_delete_after d))]"

definition descriptor_message :: "object_descriptor \<Rightarrow> bytes" where
  "descriptor_message d = utf8_encode (canonical_json (signed_descriptor d))"

text \<open>\<open>verify_descriptor_signature\<close> raises \<open>RelayVerificationError\<close> exactly when this is false.\<close>

definition verify_descriptor_signature :: "ext \<Rightarrow> object_descriptor \<Rightarrow> bytes \<Rightarrow> bool" where
  "verify_descriptor_signature X d service_public_key \<longleftrightarrow>
     length service_public_key = 32 \<and> ed_verify X service_public_key (descriptor_message d) (d_service_signature d)"

section \<open>The client\<close>

text \<open>What a request raises: the three \<open>RelayError\<close> kinds a caller tells apart (an HTTP error carries its status and the
  Relay's error code), or an exception that is none of them.\<close>

datatype relay_error = RelayUnavailableError | RelayHTTPError int string | OtherRelayError | NotARelayError

record relay_client =
  rc_get_descriptor :: "bytes \<Rightarrow> relay_error + object_descriptor"
  rc_get_chunk :: "bytes \<Rightarrow> int \<Rightarrow> relay_error + bytes"
  rc_complete :: "bytes \<Rightarrow> bytes \<Rightarrow> relay_error + unit"

end
