(* ===== verification/Receiver.thy ===== *)
theory Receiver
  imports Outbox Key_Exchange Manifest Relay Workspace
begin

text \<open>
  The receiver state machine, \<open>src/meshsrv/attachments/receiver.py\<close> from the admission of an OFFER to the verified file.
  Its world is the database, the workspace's \<open>files/\<close> and \<open>quarantine/\<close> directories, and the receipts sent to the
  Relay. An operation that raises leaves the database at its last commit (the worker rolls the connection back), while
  files already written stay. The vault is off. Text follows the convention of \<open>Py_Text\<close>.
\<close>

section \<open>World and parameters\<close>

record recv_world =
  w_db :: mca_db
  w_files :: "(string \<times> bytes) list"
  w_quarantine :: "(string \<times> bytes) list"
  w_receipts :: "(bytes \<times> bytes) list"

text \<open>What a call is given: identity, bindings, providers, the network flag, the auto-accept setting, and the client
  \<open>RelayClient(origin)\<close> would build.\<close>

record recv_ctx =
  rx_env :: mca_env
  rx_config :: ke_config
  rx_keys :: ke_state
  rx_providers :: "provider_row list"
  rx_network :: bool
  rx_auto_accept :: bool
  rx_new_client :: "string \<Rightarrow> relay_client"
  rx_mca_dir :: string

datatype receive_error =
    Raised mca_error
  | EscapedManifest manifest_error
  | EscapedWorkspace workspace_error
  | EscapedRelay

record receive_result =
  rcv_attachment_id :: string
  rcv_state :: att_state
  rcv_replies :: "bytes list"

abbreviation rx_workspace :: "recv_ctx \<Rightarrow> string" where
  "rx_workspace C \<equiv> mp_workspace_id (env_principal (rx_env C))"

section \<open>Constants and helpers\<close>

definition TERMINAL_STATES :: "att_state list" where
  "TERMINAL_STATES = [AVAILABLE, ST_EXPIRED, ST_REJECTED, CANCELLED, FAILED]"

definition EXPIRABLE_STATES :: "att_state list" where
  "EXPIRABLE_STATES = [OFFER_RECEIVED, WAITING_KEY, WAITING_PROVIDER, WAITING_NETWORK, WAITING_CONSENT]"

definition EVENT_ACK_RECEIVED_SENT :: string where "EVENT_ACK_RECEIVED_SENT = ''ack_received_sent''"
definition EVENT_ACK_PROVIDER_UNKNOWN_SENT :: string where "EVENT_ACK_PROVIDER_UNKNOWN_SENT = ''ack_provider_unknown_sent''"
definition EVENT_ACK_DOWNLOADED_SENT :: string where "EVENT_ACK_DOWNLOADED_SENT = ''ack_downloaded_sent''"
definition EVENT_EXPIRED_SENT :: string where "EVENT_EXPIRED_SENT = ''expired_sent''"
definition DEFAULT_DOWNLOAD_GRACE_SECONDS :: int where "DEFAULT_DOWNLOAD_GRACE_SECONDS = 3600"
definition MAX_PENDING_RECEIVED_PER_SOURCE :: nat where "MAX_PENDING_RECEIVED_PER_SOURCE = 20"
definition MAX_PENDING_RECEIVED_GLOBAL :: nat where "MAX_PENDING_RECEIVED_GLOBAL = 200"
definition AUTO_ACCEPT_MAX_BYTES :: int where "AUTO_ACCEPT_MAX_BYTES = 50 * 1024 * 1024"
definition AUTO_ACCEPT_MAX_FILES :: nat where "AUTO_ACCEPT_MAX_FILES = 20"
definition AUTO_ACCEPT_WINDOW_SECONDS :: timestamp where "AUTO_ACCEPT_WINDOW_SECONDS = 86400"
definition AUTO_ACCEPT_QUOTA_CODE :: string where "AUTO_ACCEPT_QUOTA_CODE = ''auto_accept_quota''"
definition EVENT_AUTO_ACCEPTED :: string where "EVENT_AUTO_ACCEPTED = ''auto_accepted''"
definition EVENT_CONSENT_GIVEN :: string where "EVENT_CONSENT_GIVEN = ''consent_given''"
definition EVENT_AUTO_ACCEPT_HELD :: string where "EVENT_AUTO_ACCEPT_HELD = ''auto_accept_held''"
definition MAX_RECEIVED_COMMENT_BYTES :: nat where "MAX_RECEIVED_COMMENT_BYTES = 1000"

definition is_terminal :: "att_state \<Rightarrow> bool" where
  "is_terminal state \<longleftrightarrow> state \<in> set TERMINAL_STATES"

definition find_by_transfer_id :: "mca_db \<Rightarrow> string \<Rightarrow> string \<Rightarrow> attachment option" where
  "find_by_transfer_id db workspace_id transfer_id_hex =
     find_by (\<lambda>a. (a_workspace_id a, a_transfer_id a, a_direction a)) (workspace_id, transfer_id_hex, Received) (db_attachments db)"

definition set_state :: "mca_db \<Rightarrow> string \<Rightarrow> att_state \<Rightarrow> string option \<Rightarrow> mca_db" where
  "set_state db attachment_id new_state error_code =
     update_attachment attachment_id (\<lambda>a. a\<lparr>a_state := new_state, a_error_code := error_code\<rparr>) db"

definition result :: "string \<Rightarrow> att_state \<Rightarrow> bytes list \<Rightarrow> receive_result" where
  "result attachment_id state replies = \<lparr>rcv_attachment_id = attachment_id, rcv_state = state, rcv_replies = replies\<rparr>"

section \<open>Admission\<close>

definition live_received :: "string \<Rightarrow> attachment \<Rightarrow> bool" where
  "live_received workspace_id a \<longleftrightarrow> a_workspace_id a = workspace_id \<and> a_direction a = Received \<and> \<not> is_terminal (a_state a)"

definition would_exceed_inbound_admission_limit :: "mca_db \<Rightarrow> string \<Rightarrow> string option \<Rightarrow> bool" where
  "would_exceed_inbound_admission_limit db workspace_id source_address \<longleftrightarrow>
     (let live = filter (live_received workspace_id) (db_attachments db) in
      MAX_PENDING_RECEIVED_GLOBAL \<le> length live
      \<or> (source_address \<noteq> None
         \<and> MAX_PENDING_RECEIVED_PER_SOURCE \<le> length (filter (\<lambda>a. a_reply_route_id a = source_address) live)))"

section \<open>Auto-accept\<close>

text \<open>The join of attachments with their \<open>auto_accepted\<close> events, one element per pair.\<close>

definition auto_accepted_rows :: "mca_db \<Rightarrow> string \<Rightarrow> string \<Rightarrow> timestamp \<Rightarrow> string \<Rightarrow> attachment list" where
  "auto_accepted_rows db workspace_id sender_principal_id now exclude_id =
     concat (map (\<lambda>a. map (\<lambda>e. a)
       (filter (\<lambda>e. ev_attachment_id e = a_id a \<and> ev_event_type e = EVENT_AUTO_ACCEPTED
                  \<and> now - AUTO_ACCEPT_WINDOW_SECONDS \<le> ev_occurred_at e) (db_events db)))
       (filter (\<lambda>a. a_workspace_id a = workspace_id \<and> a_direction a = Received
                  \<and> a_sender_principal_id a = Some sender_principal_id
                  \<and> a_state a \<in> set [DOWNLOADING, VERIFYING, AVAILABLE] \<and> a_id a \<noteq> exclude_id) (db_attachments db)))"

definition auto_accept_usage :: "mca_db \<Rightarrow> string \<Rightarrow> string option \<Rightarrow> timestamp \<Rightarrow> string \<Rightarrow> nat \<times> int" where
  "auto_accept_usage db workspace_id sender_principal_id now exclude_id =
     (case sender_principal_id of
        None \<Rightarrow> (0, 0)
      | Some s \<Rightarrow>
          (let rows = auto_accepted_rows db workspace_id s now exclude_id in
           (length rows, sum_list (map (\<lambda>a. case a_plain_size a of None \<Rightarrow> 0 | Some n \<Rightarrow> n) rows))))"

definition clean_received_comment :: "string option \<Rightarrow> string option" where
  "clean_received_comment comment =
     (case comment of
        None \<Rightarrow> None
      | Some s \<Rightarrow>
          (let text = strip_of text_space (filter (\<lambda>c. ord c = 10 \<or> (32 \<le> ord c \<and> ord c \<noteq> 127)) s) in
           if text = [] then None
           else let capped = (if MAX_RECEIVED_COMMENT_BYTES < length (utf8_encode text)
                              then rstrip_of text_space (utf8_take MAX_RECEIVED_COMMENT_BYTES text) else text)
                in if capped = [] then None else Some capped))"

definition consent_or_auto_accept :: "mca_db \<Rightarrow> string \<Rightarrow> timestamp \<Rightarrow> bool \<Rightarrow> receive_error + mca_db \<times> att_state" where
  "consent_or_auto_accept db attachment_id now auto_accept =
     (if \<not> auto_accept then Inr (set_state db attachment_id WAITING_CONSENT None, WAITING_CONSENT)
      else case find_attachment db attachment_id of
        None \<Rightarrow> Inl (Raised ReceiverError)
      | Some row \<Rightarrow>
          (let usage = auto_accept_usage db (a_workspace_id row) (a_sender_principal_id row) now attachment_id in
           if a_sender_principal_id row = None \<or> AUTO_ACCEPT_MAX_FILES \<le> fst usage then
             Inr (set_state db attachment_id WAITING_CONSENT
                    (if a_sender_principal_id row \<in> {None, Some []} then None else Some AUTO_ACCEPT_QUOTA_CODE), WAITING_CONSENT)
           else Inr (record_event (set_state db attachment_id DOWNLOADING None) attachment_id now EVENT_AUTO_ACCEPTED, DOWNLOADING)))"

section \<open>Provider and network routing\<close>

text \<open>The \<open>on_provider_unknown\<close> callback both callers build.\<close>

definition send_provider_unknown_ack :: "recv_ctx \<Rightarrow> string \<Rightarrow> bytes \<Rightarrow> timestamp \<Rightarrow> mca_db \<Rightarrow> receive_error + mca_db \<times> bytes option" where
  "send_provider_unknown_ack C attachment_id transfer_id now db =
     (case enqueue_control_message (rx_env C) db attachment_id transfer_id ACK_PROVIDER_UNKNOWN EVENT_ACK_PROVIDER_UNKNOWN_SENT now DERIVE_REPLY_ROUTE of
        Inl e \<Rightarrow> Inl (Raised e)
      | Inr r \<Rightarrow> Inr r)"

definition resolve_provider_or_wait ::
  "recv_ctx \<Rightarrow> mca_db \<Rightarrow> string \<Rightarrow> string option \<Rightarrow> timestamp \<Rightarrow> (mca_db \<Rightarrow> receive_error + mca_db \<times> bytes option) option \<Rightarrow> bool
    \<Rightarrow> receive_error + mca_db \<times> receive_result" where
  "resolve_provider_or_wait C db attachment_id provider_id_text now on_provider_unknown auto_accept =
     (case Option.bind provider_id_text (resolve (rx_providers C) (rx_workspace C)) of
        None \<Rightarrow>
          bind_res (case on_provider_unknown of None \<Rightarrow> Inr (db, None) | Some f \<Rightarrow> f db) (\<lambda>(db1, ack).
          Inr (set_state db1 attachment_id WAITING_PROVIDER None,
               result attachment_id WAITING_PROVIDER (case ack of None \<Rightarrow> [] | Some r \<Rightarrow> [r])))
      | Some provider \<Rightarrow>
          if rx_network C then
            bind_res (consent_or_auto_accept db attachment_id now auto_accept) (\<lambda>(db1, new_state).
            Inr (db1, result attachment_id new_state []))
          else Inr (set_state db attachment_id WAITING_NETWORK None, result attachment_id WAITING_NETWORK []))"


section \<open>Steps of a waiting attachment\<close>

text \<open>An uncaught exception: the database returns to the state of the last commit.\<close>

definition finish :: "recv_world \<Rightarrow> receive_error + mca_db \<times> receive_result \<Rightarrow> recv_world \<times> (receive_error + receive_result)" where
  "finish W r = (case r of Inl e \<Rightarrow> (W, Inl e) | Inr (db, res) \<Rightarrow> (W\<lparr>w_db := db\<rparr>, Inr res))"

definition provider_text :: "bytes \<Rightarrow> receive_error + string" where
  "provider_text raw = (case encode_provider_id raw of Inl e \<Rightarrow> Inl (Raised ProviderRegistryError) | Inr t \<Rightarrow> Inr t)"

text \<open>\<open>VerifyKey(k)\<close> refuses a key that is not 32 bytes.\<close>

definition binding_ready :: "binding_row option \<Rightarrow> bool" where
  "binding_ready b \<longleftrightarrow> (case b of None \<Rightarrow> False | Some b \<Rightarrow> binding_status b = MCA_READY)"

definition step_waiting_key :: "recv_ctx \<Rightarrow> recv_world \<Rightarrow> attachment \<Rightarrow> timestamp \<Rightarrow> bool \<Rightarrow> recv_world \<times> (receive_error + receive_result)" where
  "step_waiting_key C W row now auto_accept =
     (let db = w_db W; attachment_id = a_id row; X = env_X (rx_env C);
          waiting = (W, Inr (result attachment_id WAITING_KEY [])) in
      case a_pending_offer_cbor row of
        None \<Rightarrow> waiting
      | Some pending_raw \<Rightarrow>
          (case decode_offer X pending_raw None of
             Inl e \<Rightarrow> (W, Inl (Raised (FromCodec e)))
           | Inr unverified \<Rightarrow>
               (case get_binding_by_key_id (rx_config C) (rx_keys C) (hex_of (o_sender_key_id unverified)) of
                  None \<Rightarrow> waiting
                | Some binding \<Rightarrow>
                    if binding_status binding \<noteq> MCA_READY then waiting
                    else if length (b_public_identity binding) \<noteq> 32 then (W, Inl (Raised ValueError))
                    else (case decode_offer X pending_raw (Some (b_public_identity binding)) of
                      Inl _ \<Rightarrow>
                        (W\<lparr>w_db := update_attachment attachment_id (\<lambda>a. a\<lparr>a_pending_offer_cbor := None\<rparr>)
                             (set_state db attachment_id FAILED (Some ''pending_offer_signature_invalid''))\<rparr>,
                         Inr (result attachment_id FAILED []))
                    | Inr _ \<Rightarrow>
                        finish W (bind_res (provider_text (o_provider_id unverified)) (\<lambda>provider_id_text.
                          resolve_provider_or_wait C
                            (update_attachment attachment_id (\<lambda>a. a\<lparr>a_sender_principal_id := Some (b_principal_id binding),
                               a_sender_public_identity := Some (b_public_identity binding), a_pending_offer_cbor := None\<rparr>) db)
                            attachment_id (Some provider_id_text) now
                            (Some (send_provider_unknown_ack C attachment_id (o_transfer_id unverified) now)) auto_accept))))))"

definition step_waiting_provider :: "recv_ctx \<Rightarrow> recv_world \<Rightarrow> attachment \<Rightarrow> timestamp \<Rightarrow> bool \<Rightarrow> recv_world \<times> (receive_error + receive_result)" where
  "step_waiting_provider C W row now auto_accept =
     (case fromhex (a_transfer_id row) of
        None \<Rightarrow> (W, Inl (Raised ValueError))
      | Some transfer_id \<Rightarrow>
          finish W (resolve_provider_or_wait C (w_db W) (a_id row) (a_provider_id row) now
            (Some (send_provider_unknown_ack C (a_id row) transfer_id now)) auto_accept))"

definition step_waiting_network :: "recv_ctx \<Rightarrow> recv_world \<Rightarrow> attachment \<Rightarrow> timestamp \<Rightarrow> bool \<Rightarrow> recv_world \<times> (receive_error + receive_result)" where
  "step_waiting_network C W row now auto_accept =
     (if \<not> rx_network C then (W, Inr (result (a_id row) WAITING_NETWORK []))
      else finish W (bind_res (consent_or_auto_accept (w_db W) (a_id row) now auto_accept) (\<lambda>(db, new_state).
             Inr (db, result (a_id row) new_state []))))"

section \<open>User actions, expiry, cancellation\<close>

definition begin_download :: "mca_db \<Rightarrow> string \<Rightarrow> timestamp \<Rightarrow> mca_error + mca_db" where
  "begin_download db attachment_id now =
     (case find_attachment db attachment_id of
        None \<Rightarrow> Inl ReceiverError
      | Some row \<Rightarrow>
          if a_state row \<noteq> WAITING_CONSENT then Inl ReceiverError
          else Inr (record_event (set_state db attachment_id DOWNLOADING None) attachment_id now EVENT_CONSENT_GIVEN))"

definition reject :: "mca_db \<Rightarrow> string \<Rightarrow> timestamp \<Rightarrow> mca_error + mca_db" where
  "reject db attachment_id now =
     (case find_attachment db attachment_id of
        None \<Rightarrow> Inl ReceiverError
      | Some row \<Rightarrow>
          if a_state row \<noteq> WAITING_CONSENT then Inl ReceiverError
          else Inr (set_state db attachment_id ST_REJECTED None))"

definition expire :: "mca_env \<Rightarrow> mca_db \<Rightarrow> string \<Rightarrow> timestamp \<Rightarrow> mca_error + mca_db \<times> att_state" where
  "expire E db attachment_id now =
     (case find_attachment db attachment_id of
        None \<Rightarrow> Inl ReceiverError
      | Some row \<Rightarrow>
          if a_state row \<notin> set EXPIRABLE_STATES then Inr (db, a_state row)
          else if a_hard_expires_at row \<le> 0 then Inr (db, a_state row)
          else if now < of_int (a_hard_expires_at row) then Inr (db, a_state row)
          else case fromhex (a_transfer_id row) of
            None \<Rightarrow> Inl ValueError
          | Some transfer_id \<Rightarrow>
              bind_res (enqueue_control_message E
                 (record_event (set_state db attachment_id ST_EXPIRED None) attachment_id now ''expired'')
                 attachment_id transfer_id EXPIRED EVENT_EXPIRED_SENT now DERIVE_REPLY_ROUTE) (\<lambda>(db1, _).
              Inr (db1, ST_EXPIRED)))"

definition apply_cancelled :: "mca_db \<Rightarrow> string \<Rightarrow> timestamp \<Rightarrow> mca_error + mca_db \<times> att_state" where
  "apply_cancelled db attachment_id now =
     (case find_attachment db attachment_id of
        None \<Rightarrow> Inl ReceiverError
      | Some row \<Rightarrow>
          if is_terminal (a_state row) then Inr (db, a_state row)
          else Inr (record_event (set_state db attachment_id CANCELLED None) attachment_id now ''cancelled'', CANCELLED))"

section \<open>Download\<close>

definition quarantine :: "recv_world \<Rightarrow> string \<Rightarrow> bytes \<Rightarrow> recv_world" where
  "quarantine W transfer_id_hex content =
     W\<lparr>w_quarantine := upsert fst (transfer_id_hex @ ''.bin'', content) (\<lambda>_. (transfer_id_hex @ ''.bin'', content)) (w_quarantine W)\<rparr>"

definition fail :: "recv_world \<Rightarrow> string \<Rightarrow> string \<Rightarrow> recv_world \<times> (receive_error + receive_result)" where
  "fail W attachment_id error_code =
     (W\<lparr>w_db := set_state (w_db W) attachment_id FAILED (Some error_code)\<rparr>, Inr (result attachment_id FAILED []))"

definition wait_network :: "recv_world \<Rightarrow> string \<Rightarrow> recv_world \<times> (receive_error + receive_result)" where
  "wait_network W attachment_id =
     (W\<lparr>w_db := set_state (w_db W) attachment_id WAITING_NETWORK None\<rparr>, Inr (result attachment_id WAITING_NETWORK []))"

definition is_auto_accepted :: "mca_db \<Rightarrow> string \<Rightarrow> bool" where
  "is_auto_accepted db attachment_id \<longleftrightarrow>
     list_ex (\<lambda>e. ev_attachment_id e = attachment_id \<and> ev_event_type e = EVENT_AUTO_ACCEPTED) (db_events db)
     \<and> \<not> list_ex (\<lambda>e. ev_attachment_id e = attachment_id \<and> ev_event_type e = EVENT_CONSENT_GIVEN) (db_events db)"


text \<open>The manifest part of a download: the recipient secret and the header, or what the stage raises.\<close>

definition open_manifest ::
  "recv_ctx \<Rightarrow> object_descriptor \<Rightarrow> int \<Rightarrow> int \<Rightarrow> manifest_error + recipient_secret \<times> manifest_header" where
  "open_manifest C d chunk_count plain_size =
     (let E = rx_env C; X = env_X E in
      bind_res (parse_manifest_blob X (d_encrypted_manifest d)) (\<lambda>parsed.
      case fromhex (mp_key_id (env_principal E)) of
        None \<Rightarrow> Inl (Escaped PyValueError)
      | Some key_id \<Rightarrow>
          bind_res (find_recipient_envelope parsed key_id) (\<lambda>envelope.
          case load_signing_key X (env_ids E) (env_principal E) of
            Inl e \<Rightarrow> Inl (FromIdentity e)
          | Inr signing_key \<Rightarrow>
              bind_res (open_recipient_secret X (re_sealed_envelope envelope) signing_key) (\<lambda>secret.
              bind_res (decrypt_manifest_header X parsed (rs_data_key secret) (rs_nonce_prefix secret) chunk_count plain_size) (\<lambda>header.
              Inr (secret, header))))))"

text \<open>The chunk loop from index \<open>i\<close> on, and how it ends.\<close>

datatype chunks_end =
    Assembled bytes
  | ChunksWait
  | ChunksFail string "bytes option"
  | ChunksRaise

fun fetch_chunks ::
  "ext \<Rightarrow> relay_client \<Rightarrow> bytes \<Rightarrow> recipient_secret \<Rightarrow> int \<Rightarrow> int \<Rightarrow> int \<Rightarrow> descriptor_chunk list \<Rightarrow> bytes \<Rightarrow> chunks_end" where
  "fetch_chunks X client transfer_id secret chunk_count plain_size i [] assembled = Assembled assembled"
| "fetch_chunks X client transfer_id secret chunk_count plain_size i (expected_chunk # rest) assembled =
     (case rc_get_chunk client transfer_id i of
        Inl RelayUnavailableError \<Rightarrow> ChunksWait
      | Inl (RelayHTTPError _ _) \<Rightarrow> ChunksFail ''chunk_fetch_failed'' None
      | Inl _ \<Rightarrow> ChunksRaise
      | Inr ciphertext \<Rightarrow>
          if sha256 X ciphertext \<noteq> dc_sha256 expected_chunk then ChunksFail ''chunk_digest_mismatch'' (Some ciphertext)
          else (case decrypt_chunk X (rs_data_key secret) (rs_nonce_prefix secret) transfer_id i chunk_count plain_size ciphertext of
                  Inl _ \<Rightarrow> ChunksFail ''chunk_aead_failed'' (Some ciphertext)
                | Inr p \<Rightarrow> fetch_chunks X client transfer_id secret chunk_count plain_size (i + 1) rest (assembled @ p)))"

definition type_mismatch :: "manifest_header \<Rightarrow> bytes \<Rightarrow> bool" where
  "type_mismatch header assembled \<longleftrightarrow>
     (let declared = mh_mime_type header; sniffed = sniff_mime_type (take 64 assembled) in
      (startswith declared ''image/'' \<or> startswith (case sniffed of None \<Rightarrow> [] | Some m \<Rightarrow> m) ''image/'') \<and> sniffed \<noteq> Some declared)"

definition safe_name :: "string \<Rightarrow> string" where
  "safe_name file_name =
     (let s = strip_of (\<lambda>c. c = CHR ''.'') (take MAX_SOURCE_NAME_CODE_POINTS (sanitize_display_name file_name)) in
      if s = [] then ''attachment'' else s)"

definition path_text :: "recv_ctx \<Rightarrow> string \<times> string \<Rightarrow> string" where
  "path_text C p = rx_mca_dir C @ ''/'' @ fst p @ ''/files/'' @ snd p"

text \<open>After every check has passed: the file is written, the receipt sent, the row completed, the ACK enqueued. The naming
  loop always ends, so its \<open>None\<close> case is never taken.\<close>

definition save_download ::
  "recv_ctx \<Rightarrow> relay_client \<Rightarrow> recv_world \<Rightarrow> attachment \<Rightarrow> bytes \<Rightarrow> recipient_secret \<Rightarrow> manifest_header \<Rightarrow> bytes \<Rightarrow> timestamp
    \<Rightarrow> recv_world \<times> (receive_error + receive_result)" where
  "save_download C client W row transfer_id secret header assembled now =
     (case unique_file_name (map fst (w_files W)) (mp_principal_id (env_principal (rx_env C))) (safe_name (mh_file_name header)) of
        Inl e \<Rightarrow> (W, Inl (EscapedWorkspace e))
      | Inr None \<Rightarrow> (W, Inl EscapedRelay)
      | Inr (Some path) \<Rightarrow>
          (let W1 = W\<lparr>w_files := w_files W @ [(snd path, assembled)], w_receipts := w_receipts W @ [(transfer_id, rs_receipt_secret secret)]\<rparr> in
           if rc_complete client transfer_id (rs_receipt_secret secret) = Inl NotARelayError then (W1, Inl EscapedRelay)
           else
             (let db1 = update_attachment (a_id row) (\<lambda>a. a\<lparr>a_state := AVAILABLE, a_error_code := None,
                    a_file_name := Some (mh_file_name header), a_mime_type := Some (mh_mime_type header),
                    a_plain_size := Some (mh_plain_size header), a_plain_sha256 := Some (hex_of (mh_plain_sha256 header)),
                    a_saved_path := Some (path_text C path), a_draft_comment := clean_received_comment (mh_comment header)\<rparr>) (w_db W) in
              case enqueue_control_message (rx_env C) db1 (a_id row) transfer_id ACK_DOWNLOADED EVENT_ACK_DOWNLOADED_SENT now DERIVE_REPLY_ROUTE of
                Inl e \<Rightarrow> (W1, Inl (Raised e))
              | Inr (db2, ack) \<Rightarrow> (W1\<lparr>w_db := db2\<rparr>, Inr (result (a_id row) AVAILABLE (case ack of None \<Rightarrow> [] | Some r \<Rightarrow> [r]))))))"

definition over_byte_quota :: "mca_db \<Rightarrow> attachment \<Rightarrow> int \<Rightarrow> timestamp \<Rightarrow> bool" where
  "over_byte_quota db row plain_size now \<longleftrightarrow> is_auto_accepted db (a_id row)
     \<and> AUTO_ACCEPT_MAX_BYTES
       < snd (auto_accept_usage db (a_workspace_id row) (a_sender_principal_id row) now (a_id row)) + plain_size"

text \<open>From a verified descriptor on.\<close>

definition download_object ::
  "recv_ctx \<Rightarrow> relay_client \<Rightarrow> recv_world \<Rightarrow> attachment \<Rightarrow> bytes \<Rightarrow> object_descriptor \<Rightarrow> timestamp
    \<Rightarrow> recv_world \<times> (receive_error + receive_result)" where
  "download_object C client W row transfer_id d now =
     (let X = env_X (rx_env C); tid = a_transfer_id row; chunk_count = int (length (d_chunks d));
          plain_size = sum_list (map dc_size (d_chunks d)) - chunk_count * TAG_BYTES in
      case open_manifest C d chunk_count plain_size of
        Inl ManifestError \<Rightarrow> fail (quarantine W tid (d_encrypted_manifest d)) (a_id row) ''manifest_invalid''
      | Inl e \<Rightarrow> (W, Inl (EscapedManifest e))
      | Inr (secret, header) \<Rightarrow>
          if mh_chunk_count header \<noteq> chunk_count \<or> mh_plain_size header \<noteq> plain_size then fail W (a_id row) ''header_size_mismatch''
          else if over_byte_quota (w_db W) row plain_size now then
            (W\<lparr>w_db := record_event (set_state (w_db W) (a_id row) WAITING_CONSENT (Some AUTO_ACCEPT_QUOTA_CODE)) (a_id row) now EVENT_AUTO_ACCEPT_HELD\<rparr>,
             Inr (result (a_id row) WAITING_CONSENT []))
          else (case fetch_chunks X client transfer_id secret chunk_count plain_size 0 (d_chunks d) [] of
                  ChunksWait \<Rightarrow> wait_network W (a_id row)
                | ChunksFail code evidence \<Rightarrow>
                    fail (case evidence of None \<Rightarrow> W | Some b \<Rightarrow> quarantine W tid b) (a_id row) code
                | ChunksRaise \<Rightarrow> (W, Inl EscapedRelay)
                | Assembled assembled \<Rightarrow>
                    if sha256 X assembled \<noteq> mh_plain_sha256 header then fail (quarantine W tid assembled) (a_id row) ''plaintext_digest_mismatch''
                    else if type_mismatch header assembled then fail (quarantine W tid assembled) (a_id row) ''type_mismatch''
                    else save_download C client W row transfer_id secret header assembled now))"

definition step_downloading :: "recv_ctx \<Rightarrow> recv_world \<Rightarrow> attachment \<Rightarrow> relay_client option \<Rightarrow> timestamp \<Rightarrow> recv_world \<times> (receive_error + receive_result)" where
  "step_downloading C W row client_arg now =
     (case fromhex (a_transfer_id row) of
        None \<Rightarrow> (W, Inl (Raised ValueError))
      | Some transfer_id \<Rightarrow>
          (case Option.bind (a_provider_id row) (resolve (rx_providers C) (rx_workspace C)) of
             None \<Rightarrow> fail W (a_id row) ''provider_missing''
           | Some provider \<Rightarrow>
               (let client = (case client_arg of Some c \<Rightarrow> c | None \<Rightarrow> rx_new_client C (pv_origin provider)) in
                case rc_get_descriptor client transfer_id of
                  Inl RelayUnavailableError \<Rightarrow> wait_network W (a_id row)
                | Inl (RelayHTTPError _ code) \<Rightarrow> fail W (a_id row) (''relay_'' @ code)
                | Inl _ \<Rightarrow> (W, Inl EscapedRelay)
                | Inr d \<Rightarrow>
                    if \<not> verify_descriptor_signature (env_X (rx_env C)) d (pv_service_public_key provider)
                    then fail W (a_id row) ''descriptor_signature_invalid''
                    else download_object C client W row transfer_id d now)))"


section \<open>Entry points\<close>

definition run_step ::
  "recv_ctx \<Rightarrow> recv_world \<Rightarrow> string \<Rightarrow> relay_client option \<Rightarrow> timestamp \<Rightarrow> bool \<Rightarrow> recv_world \<times> (receive_error + receive_result)" where
  "run_step C W attachment_id client now auto_accept =
     (case find_attachment (w_db W) attachment_id of
        None \<Rightarrow> (W, Inl (Raised ReceiverError))
      | Some row \<Rightarrow>
          (case a_state row of
             WAITING_KEY \<Rightarrow> step_waiting_key C W row now auto_accept
           | WAITING_PROVIDER \<Rightarrow> step_waiting_provider C W row now auto_accept
           | WAITING_NETWORK \<Rightarrow> step_waiting_network C W row now auto_accept
           | DOWNLOADING \<Rightarrow> step_downloading C W row client now
           | VERIFYING \<Rightarrow> step_downloading C W row client now
           | state \<Rightarrow> (W, Inr (result attachment_id state []))))"

definition effective_source :: "string option \<Rightarrow> reply_route option \<Rightarrow> string option" where
  "effective_source source_address reply_route =
     (case source_address of Some s \<Rightarrow> Some s | None \<Rightarrow> map_option rr_route_id reply_route)"

text \<open>The row an admitted OFFER creates. \<open>binding\<close> is the sender's binding when it is \<open>MCA_READY\<close>.\<close>

definition new_received ::
  "mca_env \<Rightarrow> string \<Rightarrow> bytes \<Rightarrow> offer_fields \<Rightarrow> string \<Rightarrow> binding_row option \<Rightarrow> string option \<Rightarrow> reply_route option \<Rightarrow> timestamp \<Rightarrow> attachment" where
  "new_received E attachment_id raw_offer f provider_id_text binding source reply_route now =
     \<lparr>a_id = attachment_id, a_workspace_id = mp_workspace_id (env_principal E), a_transfer_id = hex_of (o_transfer_id f),
      a_direction = Received, a_principal_id = mp_principal_id (env_principal E),
      a_sender_principal_id = map_option b_principal_id binding, a_sender_public_identity = map_option b_public_identity binding,
      a_provider_id = Some provider_id_text, a_state = OFFER_RECEIVED, a_file_name = None, a_mime_type = None, a_plain_size = None,
      a_cipher_size = None, a_plain_sha256 = None, a_created_at = now, a_hard_expires_at = o_hard_expires_at f,
      a_download_grace_seconds = DEFAULT_DOWNLOAD_GRACE_SECONDS, a_saved_path = None, a_error_code = None, a_draft_comment = None,
      a_pending_offer_cbor = (if binding = None then Some raw_offer else None),
      a_reply_route_type = (if source = None then None else Some ''DIRECT''), a_reply_route_id = source,
      a_reply_adapter_id = map_option rr_adapter_id reply_route, a_reply_connector_profile_id = map_option rr_connector_profile_id reply_route,
      a_reply_destination_address = (case reply_route of None \<Rightarrow> source | Some r \<Rightarrow> Some (rr_destination_address r)),
      a_client_request_id = None, a_canonical_hash = None\<rparr>"

text \<open>From the INSERT to the first commit: the row, its event and the ACK_RECEIVED. \<open>UNIQUE(workspace_id, transfer_id)\<close> covers
  both directions, so a transfer id this workspace itself sent is an \<open>IntegrityError\<close>.\<close>

definition admit_offer ::
  "recv_ctx \<Rightarrow> mca_db \<Rightarrow> bytes \<Rightarrow> offer_fields \<Rightarrow> binding_row option \<Rightarrow> timestamp \<Rightarrow> string option \<Rightarrow> reply_route option \<Rightarrow> bool
    \<Rightarrow> receive_error + mca_db \<times> string \<times> bytes list" where
  "admit_offer C db raw_offer f binding now source reply_route defer_replies =
     (let E = rx_env C; attachment_id = env_uuid E (db_next db) in
      bind_res (provider_text (o_provider_id f)) (\<lambda>provider_id_text.
      if \<exists>a \<in> set (db_attachments db). a_workspace_id a = rx_workspace C \<and> a_transfer_id a = hex_of (o_transfer_id f)
      then Inl (Raised IntegrityError)
      else
        (let db1 = record_event (db\<lparr>db_attachments := db_attachments db @
                      [new_received E attachment_id raw_offer f provider_id_text binding source reply_route now],
                    db_next := Suc (db_next db)\<rparr>) attachment_id now ''offer_received'' in
         if defer_replies then Inr (db1, attachment_id, [])
         else (case enqueue_control_message E db1 attachment_id (o_transfer_id f) ACK_RECEIVED EVENT_ACK_RECEIVED_SENT now DERIVE_REPLY_ROUTE of
                 Inl e \<Rightarrow> Inl (Raised e)
               | Inr (db2, ack) \<Rightarrow> Inr (db2, attachment_id, case ack of None \<Rightarrow> [] | Some r \<Rightarrow> [r])))))"

text \<open>After the first commit.\<close>

definition route_offer ::
  "recv_ctx \<Rightarrow> recv_world \<Rightarrow> string \<Rightarrow> bytes list \<Rightarrow> offer_fields \<Rightarrow> bool \<Rightarrow> timestamp \<Rightarrow> bool \<Rightarrow> recv_world \<times> (receive_error + receive_result)" where
  "route_offer C W attachment_id replies f ready now defer_replies =
     (if \<not> ready then
        (W\<lparr>w_db := set_state (w_db W) attachment_id WAITING_KEY None\<rparr>, Inr (result attachment_id WAITING_KEY replies))
      else finish W (bind_res (provider_text (o_provider_id f)) (\<lambda>provider_id_text.
             bind_res (resolve_provider_or_wait C (w_db W) attachment_id (Some provider_id_text) now
               (if defer_replies then None else Some (send_provider_unknown_ack C attachment_id (o_transfer_id f) now)) (rx_auto_accept C))
             (\<lambda>(db, r). Inr (db, result attachment_id (rcv_state r) (replies @ rcv_replies r))))))"

definition handle_offer ::
  "recv_ctx \<Rightarrow> recv_world \<Rightarrow> bytes \<Rightarrow> timestamp \<Rightarrow> string option \<Rightarrow> reply_route option \<Rightarrow> bool \<Rightarrow> recv_world \<times> (receive_error + receive_result)" where
  "handle_offer C W raw_offer now source_address reply_route defer_replies =
     (let X = env_X (rx_env C) in
      case decode_offer X raw_offer None of
        Inl _ \<Rightarrow> (W, Inl (Raised ReceiverError))
      | Inr f \<Rightarrow>
          (case find_by_transfer_id (w_db W) (rx_workspace C) (hex_of (o_transfer_id f)) of
             Some existing \<Rightarrow>
               if is_terminal (a_state existing) then (W, Inr (result (a_id existing) (a_state existing) []))
               else run_step C W (a_id existing) None now (rx_auto_accept C)
           | None \<Rightarrow>
               (let found = get_binding_by_key_id (rx_config C) (rx_keys C) (hex_of (o_sender_key_id f));
                    ready = binding_ready found;
                    source = effective_source source_address reply_route in
                if ready \<and> length (b_public_identity (the found)) \<noteq> 32 then (W, Inl (Raised ValueError))
                else if ready \<and> isl (decode_offer X raw_offer (Some (b_public_identity (the found))))
                then (W, Inl (Raised ReceiverError))
                else if reply_route \<noteq> None \<and> source_address \<noteq> None \<and> Some (rr_route_id (the reply_route)) \<noteq> source_address
                then (W, Inl (Raised ReceiverError))
                else if would_exceed_inbound_admission_limit (w_db W) (rx_workspace C) source
                then (W, Inl (Raised ReceiverError))
                else (case admit_offer C (w_db W) raw_offer f (if ready then found else None) now source reply_route defer_replies of
                        Inl e \<Rightarrow> (W, Inl e)
                      | Inr (db, attachment_id, replies) \<Rightarrow>
                          route_offer C (W\<lparr>w_db := db\<rparr>) attachment_id replies f ready now defer_replies))))"

section \<open>Maintenance\<close>

definition missing_ack_rows :: "mca_db \<Rightarrow> string \<Rightarrow> nat \<Rightarrow> attachment list" where
  "missing_ack_rows db workspace_id limit =
     take limit (sort_key a_created_at
       (filter (\<lambda>a. a_workspace_id a = workspace_id \<and> a_direction a = Received
                  \<and> \<not> control_already_enqueued db (a_id a) EVENT_ACK_RECEIVED_SENT) (db_attachments db)))"

fun enqueue_acks :: "mca_env \<Rightarrow> attachment list \<Rightarrow> timestamp \<Rightarrow> mca_db \<Rightarrow> nat \<Rightarrow> mca_error + mca_db \<times> nat" where
  "enqueue_acks E [] now db enqueued = Inr (db, enqueued)"
| "enqueue_acks E (row # rows) now db enqueued =
     (case fromhex (a_transfer_id row) of
        None \<Rightarrow> enqueue_acks E rows now db enqueued
      | Some transfer_id \<Rightarrow>
          bind_res (enqueue_control_message E db (a_id row) transfer_id ACK_RECEIVED EVENT_ACK_RECEIVED_SENT now DERIVE_REPLY_ROUTE) (\<lambda>(db1, ack).
          enqueue_acks E rows now db1 (if ack = None then enqueued else Suc enqueued)))"

definition enqueue_missing_acks :: "mca_env \<Rightarrow> mca_db \<Rightarrow> timestamp \<Rightarrow> nat \<Rightarrow> mca_error + mca_db \<times> nat" where
  "enqueue_missing_acks E db now limit =
     enqueue_acks E (missing_ack_rows db (mp_workspace_id (env_principal E)) limit) now db 0"

text \<open>The loop over the ids selected up front; a raising step ends it.\<close>

fun run_steps :: "recv_ctx \<Rightarrow> string list \<Rightarrow> timestamp \<Rightarrow> recv_world \<times> (receive_error + receive_result list) \<Rightarrow> recv_world \<times> (receive_error + receive_result list)" where
  "run_steps C [] now acc = acc"
| "run_steps C (i # ids) now acc =
     (case snd acc of
        Inl e \<Rightarrow> acc
      | Inr results \<Rightarrow>
          (let r = run_step C (fst acc) i None now False in
           run_steps C ids now (fst r, case snd r of Inl e \<Rightarrow> Inl e | Inr x \<Rightarrow> Inr (results @ [x]))))"

definition reconcile_pending :: "recv_ctx \<Rightarrow> recv_world \<Rightarrow> timestamp \<Rightarrow> recv_world \<times> (receive_error + receive_result list)" where
  "reconcile_pending C W now =
     run_steps C (map a_id (filter (\<lambda>a. a_workspace_id a = rx_workspace C \<and> a_direction a = Received
        \<and> a_state a \<in> set [WAITING_KEY, WAITING_PROVIDER, WAITING_NETWORK]) (db_attachments (w_db W)))) now (W, Inr [])"

end
