(* ===== verification/Receiver_Properties.thy ===== *)
theory Receiver_Properties
  imports Receiver Outbox_Properties Codec_Properties Key_Exchange_Properties
begin

text \<open>
  The receiver's promises over every interleaving of offers, steps, user actions, expiry, cancellation and outbox
  dispatch: rows move only along the state diagram and terminal rows never change; nothing gets past
  \<open>WAITING_KEY\<close> without an OFFER that verified under a trusted key; the number of live rows stays bounded.
\<close>

section \<open>One row\<close>

text \<open>The columns nothing changes after admission.\<close>

definition att_core :: "attachment \<Rightarrow> (string \<times> string \<times> string \<times> direction) \<times> (string option \<times> int \<times> timestamp) \<times> string option list" where
  "att_core a = ((a_id a, a_workspace_id a, a_transfer_id a, a_direction a),
     (a_provider_id a, a_hard_expires_at a, a_created_at a),
     [a_reply_route_type a, a_reply_route_id a, a_reply_adapter_id a, a_reply_connector_profile_id a, a_reply_destination_address a])"

text \<open>The state diagram.\<close>

definition recv_edge :: "att_state \<Rightarrow> att_state \<Rightarrow> bool" where
  "recv_edge s t \<longleftrightarrow>
     s \<in> {OFFER_RECEIVED, WAITING_KEY} \<and> t \<in> {WAITING_PROVIDER, WAITING_NETWORK, WAITING_CONSENT, DOWNLOADING}
   \<or> s = OFFER_RECEIVED \<and> t = WAITING_KEY
   \<or> s = WAITING_KEY \<and> t = FAILED
   \<or> s = WAITING_PROVIDER \<and> t \<in> {WAITING_NETWORK, WAITING_CONSENT, DOWNLOADING}
   \<or> s = WAITING_NETWORK \<and> t \<in> {WAITING_CONSENT, DOWNLOADING}
   \<or> s = WAITING_CONSENT \<and> t \<in> {DOWNLOADING, ST_REJECTED}
   \<or> s \<in> {DOWNLOADING, VERIFYING} \<and> t \<in> {WAITING_NETWORK, WAITING_CONSENT, FAILED, AVAILABLE}
   \<or> s \<in> set EXPIRABLE_STATES \<and> t = ST_EXPIRED
   \<or> \<not> is_terminal s \<and> t = CANCELLED"

text \<open>The OFFER a row was made from, and that it verified under the pinned sender key.\<close>

definition offer_of :: "attachment \<Rightarrow> offer_fields \<Rightarrow> bool" where
  "offer_of a f \<longleftrightarrow> a_transfer_id a = hex_of (o_transfer_id f) \<and> a_provider_id a = Some (b64url_nopad (o_provider_id f))
     \<and> a_hard_expires_at a = o_hard_expires_at f"

definition verified_row :: "ext \<Rightarrow> attachment \<Rightarrow> bool" where
  "verified_row X a \<longleftrightarrow> (\<exists>raw f pk. a_sender_public_identity a = Some pk \<and> decode_offer X raw (Some pk) = Inr f \<and> offer_of a f)"

definition past_key :: "att_state \<Rightarrow> bool" where
  "past_key s \<longleftrightarrow> s \<in> {WAITING_PROVIDER, WAITING_NETWORK, WAITING_CONSENT, DOWNLOADING, VERIFYING, AVAILABLE, ST_REJECTED}"

definition row_ok :: "ext \<Rightarrow> attachment \<Rightarrow> bool" where
  "row_ok X a \<longleftrightarrow> (past_key (a_state a) \<longrightarrow> verified_row X a)
     \<and> (\<forall>raw. a_pending_offer_cbor a = Some raw \<longrightarrow> (\<exists>f. decode_offer X raw None = Inr f \<and> offer_of a f))"

definition row_move :: "ext \<Rightarrow> attachment \<Rightarrow> attachment \<Rightarrow> bool" where
  "row_move X a a' \<longleftrightarrow> att_core a' = att_core a \<and>
     (a_direction a = Received \<longrightarrow>
        (a_state a' = a_state a \<or> recv_edge (a_state a) (a_state a')) \<and> (is_terminal (a_state a) \<longrightarrow> a' = a)
        \<and> (row_ok X a \<longrightarrow> row_ok X a'))"

lemma att_coreD:
  "att_core a' = att_core a \<Longrightarrow> a_id a' = a_id a \<and> a_workspace_id a' = a_workspace_id a \<and> a_transfer_id a' = a_transfer_id a
     \<and> a_direction a' = a_direction a \<and> a_provider_id a' = a_provider_id a \<and> a_hard_expires_at a' = a_hard_expires_at a
     \<and> a_reply_route_id a' = a_reply_route_id a"
  by (simp add: att_core_def)

lemma att_core_updates [simp]:
  "att_core (a\<lparr>a_state := s\<rparr>) = att_core a" "att_core (a\<lparr>a_error_code := e\<rparr>) = att_core a"
  "att_core (a\<lparr>a_pending_offer_cbor := p\<rparr>) = att_core a"
  "att_core (a\<lparr>a_sender_principal_id := q\<rparr>) = att_core a" "att_core (a\<lparr>a_sender_public_identity := k\<rparr>) = att_core a"
  "att_core (a\<lparr>a_file_name := n\<rparr>) = att_core a" "att_core (a\<lparr>a_mime_type := n\<rparr>) = att_core a"
  "att_core (a\<lparr>a_plain_size := z\<rparr>) = att_core a" "att_core (a\<lparr>a_plain_sha256 := n\<rparr>) = att_core a"
  "att_core (a\<lparr>a_saved_path := n\<rparr>) = att_core a" "att_core (a\<lparr>a_draft_comment := n\<rparr>) = att_core a"
  by (simp_all add: att_core_def)

lemma att_core_imp_id: "(\<And>a. att_core (f a) = att_core a) \<Longrightarrow> a_id (f a) = a_id a"
  by (metis att_coreD)

lemma row_move_refl [simp]: "row_move X a a"
  by (simp add: row_move_def)

lemma row_moveI:
  assumes "att_core a' = att_core a"
    and "a_direction a = Received \<Longrightarrow> (a_state a' = a_state a \<or> recv_edge (a_state a) (a_state a')) \<and> \<not> is_terminal (a_state a)"
    and "row_ok X a \<Longrightarrow> a_direction a = Received \<Longrightarrow> row_ok X a'"
  shows "row_move X a a'"
  using assms unfolding row_move_def by metis

lemma offer_of_core: "att_core a' = att_core a \<Longrightarrow> offer_of a' f = offer_of a f"
  using att_coreD [of a' a] by (simp add: offer_of_def)

lemma verified_row_cong:
  "att_core a' = att_core a \<Longrightarrow> a_sender_public_identity a' = a_sender_public_identity a \<Longrightarrow> verified_row X a' = verified_row X a"
  using offer_of_core [of a' a] unfolding verified_row_def by simp

lemma row_okI:
  assumes "row_ok X a" and "att_core a' = att_core a" and "a_sender_public_identity a' = a_sender_public_identity a"
    and "a_pending_offer_cbor a' \<in> {None, a_pending_offer_cbor a}" and "past_key (a_state a') \<Longrightarrow> verified_row X a"
  shows "row_ok X a'"
  using assms offer_of_core [OF assms(2)] verified_row_cong [OF assms(2,3)] by (auto simp: row_ok_def)

section \<open>The table\<close>

definition moves :: "ext \<Rightarrow> mca_db \<Rightarrow> mca_db \<Rightarrow> bool" where
  "moves X db db' \<longleftrightarrow> list_all2 (row_move X) (db_attachments db) (db_attachments db') \<and> db_next db \<le> db_next db'"

lemma moves_refl [simp]: "moves X db db"
  by (simp add: moves_def list_all2_same)

lemma moves_cong:
  "db_attachments db1 = db_attachments db2 \<Longrightarrow> db_next db2 \<le> db_next db1 \<Longrightarrow> moves X db db2 \<Longrightarrow> moves X db db1"
  by (simp add: moves_def)

lemma moves_record_event [simp]: "moves X db (record_event db' i t e) = moves X db db'"
  by (simp add: moves_def)

lemma find_attachment_unique:
  assumes "distinct (map a_id (db_attachments db))" and "find_attachment db i = Some row" and "a \<in> set (db_attachments db)" and "a_id a = i"
  shows "a = row"
  using assms find_by_unique [of a_id "db_attachments db" a] by (simp add: find_attachment_def)

lemma update_moves:
  assumes "distinct (map a_id (db_attachments db))" and "find_attachment db i = Some row" and "row_move X row (f row)"
  shows "moves X db (update_attachment i f db)"
proof -
  have "row_move X a (if a_id a = i then f a else a)" if "a \<in> set (db_attachments db)" for a
    using assms(3) find_attachment_unique [OF assms(1,2) that] by auto
  then show ?thesis
    by (simp add: moves_def update_attachment_def update_where_def list_all2_map2 list_all2_same)
qed


lemma set_state_moves:
  assumes "distinct (map a_id (db_attachments db))" and "find_attachment db i = Some row"
    and "a_direction row = Received \<Longrightarrow> (t = a_state row \<or> recv_edge (a_state row) t) \<and> \<not> is_terminal (a_state row) \<and> (past_key t \<longrightarrow> verified_row X row)"
  shows "moves X db (set_state db i t e)"
  unfolding set_state_def
proof (rule update_moves [OF assms(1,2)])
  let ?row = "row\<lparr>a_state := t, a_error_code := e\<rparr>"
  have core: "att_core ?row = att_core row"
    by (simp only: att_core_updates)
  have "row_ok X ?row" if "row_ok X row" "a_direction row = Received"
    by (rule row_okI [OF that(1) core]) (use assms(3) that(2) in simp_all)
  then show "row_move X row ?row"
    by (intro row_moveI core) (use assms(3) in simp_all)
qed

lemma enqueue_moves:
  assumes "enqueue_control_message E db i tid mt ev now route = Inr (db', frame)"
  shows "db_attachments db' = db_attachments db" and "db_next db \<le> db_next db'" and "moves X db0 db \<Longrightarrow> moves X db0 db'"
proof -
  show a: "db_attachments db' = db_attachments db" "db_next db \<le> db_next db'"
    using assms by (auto simp: enqueue_control_message_def case_sum_eq_Inr split: if_splits)
  show "moves X db0 db'" if "moves X db0 db"
    using a that by (simp add: moves_def)
qed

text \<open>Routing of a row that has verified: it ends in one of the four states after the key.\<close>

lemma consent_moves:
  assumes "distinct (map a_id (db_attachments db))" and "find_attachment db i = Some row"
    and "a_direction row = Received \<Longrightarrow> verified_row X row \<and> a_state row \<in> {OFFER_RECEIVED, WAITING_KEY, WAITING_PROVIDER, WAITING_NETWORK}"
    and "consent_or_auto_accept db i now auto = Inr (db', t)"
  shows "moves X db db'" and "t \<in> {WAITING_CONSENT, DOWNLOADING}"
proof -
  have "moves X db (set_state db i t' e)" if "t' \<in> {WAITING_CONSENT, DOWNLOADING}" for t' e
    using assms(3) that by (intro set_state_moves [OF assms(1,2)]) (auto simp: recv_edge_def is_terminal_def TERMINAL_STATES_def)
  then show "moves X db db'" "t \<in> {WAITING_CONSENT, DOWNLOADING}"
    using assms(2,4) by (auto simp: consent_or_auto_accept_def Let_def split: if_splits)
qed

lemma resolve_moves:
  assumes "distinct (map a_id (db_attachments db))" and "find_attachment db i = Some row"
    and "a_direction row = Received \<Longrightarrow> verified_row X row \<and> a_state row \<in> {OFFER_RECEIVED, WAITING_KEY, WAITING_PROVIDER}"
    and "resolve_provider_or_wait C db i ptext now unknown auto = Inr (db', r)"
    and "\<And>f. unknown = Some f \<Longrightarrow> \<exists>tid. f = send_provider_unknown_ack C i tid now"
  shows "moves X db db'"
proof (cases "Option.bind ptext (resolve (rx_providers C) (rx_workspace C))")
  case None
  obtain db1 ack where u: "(case unknown of None \<Rightarrow> Inr (db, None) | Some f \<Rightarrow> f db) = Inr (db1, ack)"
    and db': "db' = set_state db1 i WAITING_PROVIDER None"
    using assms(4) None by (auto simp: resolve_provider_or_wait_def bind_res_eq_Inr)
  have n: "db_attachments db1 = db_attachments db \<and> db_next db \<le> db_next db1"
  proof (cases unknown)
    case (Some f)
    then show ?thesis
      using u assms(5) [of f] enqueue_moves(1,2)
      by (auto simp: send_provider_unknown_ack_def split: sum.splits)
  qed (use u in simp)
  then have "find_attachment db1 i = Some row" "distinct (map a_id (db_attachments db1))"
    using assms(1,2) by (simp_all add: find_attachment_def)
  then have "moves X db1 db'"
    using assms(3) unfolding db'
    by (intro set_state_moves) (auto simp: recv_edge_def is_terminal_def TERMINAL_STATES_def)
  then show ?thesis
    using n by (simp add: moves_def)
next
  case (Some p)
  show ?thesis
  proof (cases "rx_network C")
    case True
    then show ?thesis
      using assms(1-4) Some consent_moves(1) [of db i row X now auto] by (fastforce simp: resolve_provider_or_wait_def bind_res_eq_Inr)
  next
    case False
    then show ?thesis
      using assms(1-4) Some
      by (auto simp: resolve_provider_or_wait_def recv_edge_def is_terminal_def TERMINAL_STATES_def intro!: set_state_moves)
  qed
qed


section \<open>Steps\<close>

definition rows_ok :: "ext \<Rightarrow> mca_db \<Rightarrow> bool" where
  "rows_ok X db \<longleftrightarrow> distinct (map a_id (db_attachments db))
     \<and> (\<forall>a \<in> set (db_attachments db). a_direction a = Received \<longrightarrow> row_ok X a)"

lemma rows_okD:
  assumes "rows_ok X db" and "find_attachment db i = Some row"
  shows "distinct (map a_id (db_attachments db))" and "a_direction row = Received \<Longrightarrow> row_ok X row" and "a_id row = i"
  using assms find_attachment_id [of db i row] by (auto simp: rows_ok_def)

lemma decode_offer_verified:
  "decode_offer X raw (Some pk) = Inr f \<Longrightarrow> decode_offer X raw None = Inr f"
  by (auto simp: decode_offer_def bind_res_eq_Inr verify_if_key_def)

lemma row_move_comp:
  assumes "row_move X a b" and "a_state b = a_state a" and "row_move X b c"
  shows "row_move X a c"
  using assms att_coreD [of b a] unfolding row_move_def by metis

lemma moves_comp:
  assumes "moves X db db1" and "list_all2 (\<lambda>a b. a_state b = a_state a) (db_attachments db) (db_attachments db1)" and "moves X db1 db'"
  shows "moves X db db'"
proof -
  have "list_all2 (\<lambda>a b. row_move X a b \<and> a_state b = a_state a) (db_attachments db) (db_attachments db1)"
    using assms(1,2) by (simp add: moves_def list_all2_conv_all_nth)
  moreover have "list_all2 (row_move X) (db_attachments db1) (db_attachments db')"
    using assms(3) by (simp add: moves_def)
  ultimately have "list_all2 (row_move X) (db_attachments db) (db_attachments db')"
    by (rule list_all2_trans [rotated]) (metis row_move_comp)
  then show ?thesis
    using assms(1,3) by (simp add: moves_def)
qed

lemma finish_moves:
  "(\<And>db r. res = Inr (db, r) \<Longrightarrow> moves X (w_db W) db) \<Longrightarrow> moves X (w_db W) (w_db (fst (finish W res)))"
  by (cases res) (auto simp: finish_def)

text \<open>Pinning the sender of a parked offer.\<close>

lemma pin_moves:
  assumes ok: "rows_ok X db" and row: "find_attachment db i = Some row" and st: "a_state row = WAITING_KEY"
    and pend: "a_pending_offer_cbor row = Some raw" and dec: "decode_offer X raw (Some pk) = Inr f"
    and db1: "db1 = update_attachment i (\<lambda>a. a\<lparr>a_sender_principal_id := p, a_sender_public_identity := Some pk, a_pending_offer_cbor := None\<rparr>) db"
    and res: "resolve_provider_or_wait C db1 i ptext now (Some (send_provider_unknown_ack C i tid now)) auto = Inr (db', r)"
  shows "moves X db db'"
proof -
  let ?pin = "\<lambda>a. a\<lparr>a_sender_principal_id := p, a_sender_public_identity := Some pk, a_pending_offer_cbor := None\<rparr>"
  note r = rows_okD [OF ok row]
  have core: "att_core (?pin a) = att_core a" for a
    by (simp only: att_core_updates)
  have ver: "verified_row X (?pin row)" if "a_direction row = Received"
    using r(2) [OF that] pend dec decode_offer_verified [OF dec] offer_of_core [OF core [of row]]
    by (auto simp: row_ok_def verified_row_def)
  then have "row_move X row (?pin row)"
    unfolding row_move_def using core [of row] by (auto simp: st is_terminal_def TERMINAL_STATES_def row_ok_def)
  then have m: "moves X db db1"
    unfolding db1 by (rule update_moves [OF r(1) row])
  have "find_attachment db1 i = Some (?pin row)" "distinct (map a_id (db_attachments db1))"
    using row r(1) by (simp_all add: db1 find_update_attachment) (simp add: update_attachment_def)
  then have "moves X db1 db'"
    using res ver st by (intro resolve_moves [of db1 i "?pin row"]) auto
  moreover have "list_all2 (\<lambda>a b. a_state b = a_state a) (db_attachments db) (db_attachments db1)"
    by (simp add: db1 update_attachment_def update_where_def list_all2_map2 list_all2_same)
  ultimately show ?thesis
    using m moves_comp by blast
qed

lemma step_waiting_key_moves:
  assumes ok: "rows_ok (env_X (rx_env C)) (w_db W)" and row: "find_attachment (w_db W) i = Some row" and st: "a_state row = WAITING_KEY"
  shows "moves (env_X (rx_env C)) (w_db W) (w_db (fst (step_waiting_key C W row now auto)))"
proof -
  let ?X = "env_X (rx_env C)" and ?db = "w_db W"
  note r = rows_okD [OF ok row]
  have fail: "moves ?X ?db (update_attachment i (\<lambda>a. a\<lparr>a_pending_offer_cbor := None\<rparr>) (set_state ?db i FAILED e))" for e
  proof -
    let ?row = "row\<lparr>a_state := FAILED, a_error_code := e, a_pending_offer_cbor := None\<rparr>"
    have core: "att_core ?row = att_core row"
      by (simp only: att_core_updates)
    have "row_ok ?X ?row" if "row_ok ?X row"
      by (rule row_okI [OF that core]) (simp_all add: past_key_def)
    then have "row_move ?X row ?row"
      by (intro row_moveI core) (simp_all add: st recv_edge_def is_terminal_def TERMINAL_STATES_def)
    moreover have "update_attachment i (\<lambda>a. a\<lparr>a_pending_offer_cbor := None\<rparr>) (set_state ?db i FAILED e)
        = update_attachment i (\<lambda>a. a\<lparr>a_state := FAILED, a_error_code := e, a_pending_offer_cbor := None\<rparr>) ?db"
      by (simp add: set_state_def update_attachment_def update_where_def)
    ultimately show ?thesis
      using update_moves [OF r(1) row, of ?X "\<lambda>a. a\<lparr>a_state := FAILED, a_error_code := e, a_pending_offer_cbor := None\<rparr>"] by simp
  qed
  show ?thesis
    using r(3) fail pin_moves [OF ok row st]
    by (auto simp: step_waiting_key_def Let_def bind_res_eq_Inr split: option.splits sum.splits intro!: finish_moves)
qed


lemma step_waiting_provider_moves:
  assumes ok: "rows_ok X (w_db W)" and row: "find_attachment (w_db W) i = Some row" and st: "a_state row = WAITING_PROVIDER"
  shows "moves X (w_db W) (w_db (fst (step_waiting_provider C W row now auto)))"
proof -
  note r = rows_okD [OF ok row]
  have v: "a_direction row = Received \<Longrightarrow> verified_row X row"
    using r(2) by (simp add: row_ok_def st past_key_def)
  have "moves X (w_db W) db" if "resolve_provider_or_wait C (w_db W) i p now (Some (send_provider_unknown_ack C i tid now)) auto = Inr (db, x)"
    for p tid db x
    using v st that by (intro resolve_moves [OF r(1) row, of X C p now]) auto
  then show ?thesis
    using r(3) by (auto simp: step_waiting_provider_def split: option.splits intro!: finish_moves)
qed

lemma step_waiting_network_moves:
  assumes ok: "rows_ok X (w_db W)" and row: "find_attachment (w_db W) i = Some row" and st: "a_state row = WAITING_NETWORK"
  shows "moves X (w_db W) (w_db (fst (step_waiting_network C W row now auto)))"
proof -
  note r = rows_okD [OF ok row]
  have v: "a_direction row = Received \<Longrightarrow> verified_row X row"
    using r(2) by (simp add: row_ok_def st past_key_def)
  show ?thesis
    using consent_moves(1) [OF r(1) row, of X] v st r(3)
    by (auto simp: step_waiting_network_def bind_res_eq_Inr intro!: finish_moves)
qed

text \<open>A download: whatever happens, the row of a verified offer leaves \<open>DOWNLOADING\<close> only along the diagram.\<close>

lemma downloading_moves:
  assumes ok: "rows_ok X (w_db W)" and row: "find_attachment (w_db W) i = Some row" and st: "a_state row \<in> {DOWNLOADING, VERIFYING}"
  shows "t \<in> {WAITING_NETWORK, WAITING_CONSENT, FAILED} \<Longrightarrow> moves X (w_db W) (set_state (w_db W) i t e)"
    and "moves X (w_db W) (w_db (fst (save_download C client W row tid secret header content now)))"
proof -
  note r = rows_okD [OF ok row]
  have v: "a_direction row = Received \<Longrightarrow> verified_row X row"
    using r(2) st by (auto simp: row_ok_def past_key_def)
  show "moves X (w_db W) (set_state (w_db W) i t e)" if "t \<in> {WAITING_NETWORK, WAITING_CONSENT, FAILED}" for t e
    using that v st by (intro set_state_moves [OF r(1) row]) (auto simp: recv_edge_def is_terminal_def TERMINAL_STATES_def)
  let ?f = "\<lambda>path a. a\<lparr>a_state := AVAILABLE, a_error_code := None, a_file_name := Some (mh_file_name header),
      a_mime_type := Some (mh_mime_type header), a_plain_size := Some (mh_plain_size header),
      a_plain_sha256 := Some (hex_of (mh_plain_sha256 header)), a_saved_path := Some (path_text C path),
      a_draft_comment := clean_received_comment (mh_comment header)\<rparr>"
  have m: "moves X (w_db W) (update_attachment i (?f path) (w_db W))" for path
  proof (rule update_moves [OF r(1) row], rule row_moveI)
    show core: "att_core (?f path row) = att_core row"
      by (simp only: att_core_updates)
    show "row_ok X (?f path row)" if "row_ok X row" "a_direction row = Received"
      by (rule row_okI [OF that(1) core]) (use v that(2) in simp_all)
  qed (use st in \<open>auto simp: recv_edge_def is_terminal_def TERMINAL_STATES_def\<close>)
  show "moves X (w_db W) (w_db (fst (save_download C client W row tid secret header content now)))"
    using m enqueue_moves(3) r(3)
    by (auto simp: save_download_def Let_def split: sum.splits option.splits)
qed

lemma w_db_quarantine [simp]: "w_db (quarantine W t c) = w_db W"
  by (simp add: quarantine_def)

lemma fail_moves:
  "moves X db (set_state (w_db W) i FAILED (Some code)) \<Longrightarrow> moves X db (w_db (fst (fail W i code)))"
  by (simp add: fail_def)

lemma download_object_moves:
  assumes ok: "rows_ok X (w_db W)" and row: "find_attachment (w_db W) i = Some row" and st: "a_state row \<in> {DOWNLOADING, VERIFYING}"
  shows "moves X (w_db W) (w_db (fst (download_object C client W row tid d now)))"
proof -
  have i: "a_id row = i"
    using rows_okD [OF ok row] by simp
  note m = downloading_moves [OF assms]
  have fl: "moves X (w_db W) (w_db (fst (fail W' (a_id row) code)))" if "w_db W' = w_db W" for W' code
    using m(1) by (intro fail_moves) (simp add: that i)
  have wt: "moves X (w_db W) (w_db (fst (wait_network W (a_id row))))"
    using m(1) by (simp add: wait_network_def i)
  show ?thesis
    using m(2) [of C client tid] m(1) fl wt unfolding download_object_def Let_def i
    by (auto simp: i split: sum.splits manifest_error.splits prod.splits chunks_end.splits option.splits)
qed

lemma step_downloading_moves:
  assumes ok: "rows_ok X (w_db W)" and row: "find_attachment (w_db W) i = Some row" and st: "a_state row \<in> {DOWNLOADING, VERIFYING}"
  shows "moves X (w_db W) (w_db (fst (step_downloading C W row client now)))"
proof -
  have i: "a_id row = i"
    using rows_okD [OF ok row] by simp
  show ?thesis
    using downloading_moves(1) [OF assms] download_object_moves [OF assms]
    by (auto simp: step_downloading_def i wait_network_def Let_def split: option.splits sum.splits relay_error.splits intro!: fail_moves)
qed

lemma run_step_moves:
  assumes "rows_ok (env_X (rx_env C)) (w_db W)"
  shows "moves (env_X (rx_env C)) (w_db W) (w_db (fst (run_step C W i client now auto)))"
proof (cases "find_attachment (w_db W) i")
  case (Some row)
  show ?thesis
    using step_waiting_key_moves [OF assms Some] step_waiting_provider_moves [OF assms Some]
      step_waiting_network_moves [OF assms Some] step_downloading_moves [OF assms Some]
    by (simp add: run_step_def Some split: att_state.split)
qed (simp add: run_step_def)


section \<open>Admission\<close>

text \<open>\<open>admits X ws db db1 a\<close>: \<open>db1\<close> is \<open>db\<close> with the admitted row \<open>a\<close> appended.\<close>

definition admits :: "mca_env \<Rightarrow> mca_db \<Rightarrow> mca_db \<Rightarrow> attachment \<Rightarrow> bool" where
  "admits E db db1 a \<longleftrightarrow> db_attachments db1 = db_attachments db @ [a] \<and> db_next db < db_next db1
     \<and> a_id a = env_uuid E (db_next db) \<and> a_direction a = Received \<and> a_state a = OFFER_RECEIVED \<and> row_ok (env_X E) a
     \<and> (\<forall>b \<in> set (db_attachments db). (a_workspace_id b, a_transfer_id b) \<noteq> (a_workspace_id a, a_transfer_id a))
     \<and> \<not> would_exceed_inbound_admission_limit db (a_workspace_id a) (a_reply_route_id a)"

lemma provider_text_Inr: "provider_text raw = Inr t \<longleftrightarrow> length raw = 8 \<and> t = b64url_nopad raw"
  by (auto simp: provider_text_def encode_provider_id_def split: sum.splits if_splits)

lemma new_received_simps [simp]:
  "a_id (new_received E i raw f t b src route now) = i"
  "a_workspace_id (new_received E i raw f t b src route now) = mp_workspace_id (env_principal E)"
  "a_transfer_id (new_received E i raw f t b src route now) = hex_of (o_transfer_id f)"
  "a_direction (new_received E i raw f t b src route now) = Received"
  "a_state (new_received E i raw f t b src route now) = OFFER_RECEIVED"
  "a_reply_route_id (new_received E i raw f t b src route now) = src"
  "a_sender_public_identity (new_received E i raw f t b src route now) = map_option b_public_identity b"
  "a_pending_offer_cbor (new_received E i raw f t b src route now) = (if b = None then Some raw else None)"
  "offer_of (new_received E i raw f t b src route now) f \<longleftrightarrow> t = b64url_nopad (o_provider_id f)"
  by (simp_all add: new_received_def offer_of_def)

lemma admit_offer_admits:
  assumes "admit_offer C db raw f b now src route held = Inr (db1, i, replies)"
    and "\<not> would_exceed_inbound_admission_limit db (rx_workspace C) src" and "decode_offer (env_X (rx_env C)) raw None = Inr f"
  shows "\<exists>a. admits (rx_env C) db db1 a \<and> a_id a = i
    \<and> (\<forall>x. b = Some x \<longrightarrow> decode_offer (env_X (rx_env C)) raw (Some (b_public_identity x)) = Inr f \<longrightarrow> verified_row (env_X (rx_env C)) a)"
proof -
  let ?E = "rx_env C"
  obtain t where t: "t = b64url_nopad (o_provider_id f)" "provider_text (o_provider_id f) = Inr t"
    using assms(1) by (auto simp: admit_offer_def Let_def bind_res_eq_Inr provider_text_Inr)
  let ?a = "new_received ?E (env_uuid ?E (db_next db)) raw f t b src route now"
  have db1: "db_attachments db1 = db_attachments db @ [?a]" "db_next db < db_next db1" "i = env_uuid ?E (db_next db)"
    and u: "\<forall>x \<in> set (db_attachments db). \<not> (a_workspace_id x = rx_workspace C \<and> a_transfer_id x = hex_of (o_transfer_id f))"
    using assms(1) enqueue_moves(1,2) t(2)
    by (auto simp: admit_offer_def Let_def split: if_splits sum.splits; fastforce)+
  have o: "offer_of ?a f"
    by (simp add: t(1))
  have "row_ok (env_X ?E) ?a"
    using o assms(3) by (simp add: row_ok_def past_key_def)
  then have "admits ?E db db1 ?a"
    unfolding admits_def using db1 u assms(2) by simp
  moreover have "verified_row (env_X ?E) ?a" if "b = Some x" "decode_offer (env_X ?E) raw (Some (b_public_identity x)) = Inr f" for x
    unfolding verified_row_def using that o by (intro exI [of _ raw] exI [of _ f] exI [of _ "b_public_identity x"]) simp
  ultimately show ?thesis
    using db1(3) by (intro exI [of _ ?a]) simp
qed

lemma route_offer_moves:
  assumes d: "distinct (map a_id (db_attachments (w_db W)))" and row: "find_attachment (w_db W) i = Some a" and st: "a_state a = OFFER_RECEIVED"
    and v: "ready \<Longrightarrow> verified_row X a"
  shows "moves X (w_db W) (w_db (fst (route_offer C W i replies f ready now held)))"
proof (cases ready)
  case True
  have "moves X (w_db W) db" if "resolve_provider_or_wait C (w_db W) i p now
      (if held then None else Some (send_provider_unknown_ack C i (o_transfer_id f) now)) auto = Inr (db, r)" for p auto db r
    using v [OF True] st that by (intro resolve_moves [OF d row, of X C p now]) (auto split: if_splits)
  then show ?thesis
    using True by (auto simp: route_offer_def bind_res_eq_Inr intro!: finish_moves)
next
  case False
  have "moves X (w_db W) (set_state (w_db W) i WAITING_KEY None)"
    using st by (intro set_state_moves [OF d row]) (auto simp: recv_edge_def is_terminal_def TERMINAL_STATES_def past_key_def)
  then show ?thesis
    using False by (simp add: route_offer_def)
qed

lemma refused_first: "fst (if c then (W, e) else y) \<noteq> W \<longleftrightarrow> \<not> c \<and> fst y \<noteq> W"
  by simp

lemma handle_offer_new:
  assumes "fst (handle_offer C W raw now src route held) \<noteq> W"
    and "\<And>i auto. fst (handle_offer C W raw now src route held) \<noteq> fst (run_step C W i None now auto)"
  obtains f b db1 i replies ready where "decode_offer (env_X (rx_env C)) raw None = Inr f"
    and "ready \<Longrightarrow> \<exists>x. b = Some x \<and> decode_offer (env_X (rx_env C)) raw (Some (b_public_identity x)) = Inr f"
    and "\<not> would_exceed_inbound_admission_limit (w_db W) (rx_workspace C) (effective_source src route)"
    and "admit_offer C (w_db W) raw f b now (effective_source src route) route held = Inr (db1, i, replies)"
    and "handle_offer C W raw now src route held = route_offer C (W\<lparr>w_db := db1\<rparr>) i replies f ready now held"
proof -
  let ?X = "env_X (rx_env C)"
  obtain f where f: "decode_offer ?X raw None = Inr f"
    using assms(1) by (cases "decode_offer ?X raw None") (auto simp: handle_offer_def)
  have none: "find_by_transfer_id (w_db W) (rx_workspace C) (hex_of (o_transfer_id f)) = None"
  proof (rule ccontr)
    assume "find_by_transfer_id (w_db W) (rx_workspace C) (hex_of (o_transfer_id f)) \<noteq> None"
    then obtain e where "find_by_transfer_id (w_db W) (rx_workspace C) (hex_of (o_transfer_id f)) = Some e"
      by blast
    then show False
      using assms(1) assms(2) [of "a_id e" "rx_auto_accept C"] f
      by (cases "is_terminal (a_state e)") (simp_all add: handle_offer_def)
  qed
  define b where "b = get_binding_by_key_id (rx_config C) (rx_keys C) (hex_of (o_sender_key_id f))"
  let ?b = "if binding_ready b then b else None"
  note h = handle_offer_def [of C W raw now src route held, unfolded Let_def f none sum.case option.case, folded b_def]
  note g = assms(1) [unfolded h refused_first]
  have ready: "\<exists>x. b = Some x \<and> decode_offer ?X raw (Some (b_public_identity x)) = Inr f" if rb: "binding_ready b"
  proof -
    obtain x where x: "b = Some x"
      using rb by (auto simp: binding_ready_def split: option.splits)
    obtain y where y: "decode_offer ?X raw (Some (b_public_identity x)) = Inr y"
      using g rb x by (cases "decode_offer ?X raw (Some (b_public_identity x))") simp_all
    then show ?thesis
      using decode_offer_verified [OF y] f x by simp
  qed
  obtain db1 i replies where adm: "admit_offer C (w_db W) raw f ?b now (effective_source src route) route held = Inr (db1, i, replies)"
    using g by (cases "admit_offer C (w_db W) raw f ?b now (effective_source src route) route held") auto
  then have "handle_offer C W raw now src route held = route_offer C (W\<lparr>w_db := db1\<rparr>) i replies f (binding_ready b) now held"
    using g unfolding h by (simp only: if_not_P if_False sum.case prod.case)
  then show thesis
    using that [of f "binding_ready b" ?b db1 i replies] f ready adm g by auto
qed

text \<open>An OFFER either moves rows along the diagram or admits exactly one new row, which then moves.\<close>

lemma handle_offer_cases:
  assumes ok: "rows_ok (env_X (rx_env C)) (w_db W)" and ids: "env_uuid (rx_env C) (db_next (w_db W)) \<notin> a_id ` set (db_attachments (w_db W))"
  shows "moves (env_X (rx_env C)) (w_db W) (w_db (fst (handle_offer C W raw now src route held)))
    \<or> (\<exists>a db1. admits (rx_env C) (w_db W) db1 a \<and> moves (env_X (rx_env C)) db1 (w_db (fst (handle_offer C W raw now src route held))))"
proof (rule disjCI)
  let ?X = "env_X (rx_env C)" and ?out = "handle_offer C W raw now src route held"
  assume new: "\<not> (\<exists>a db1. admits (rx_env C) (w_db W) db1 a \<and> moves ?X db1 (w_db (fst ?out)))"
  show "moves ?X (w_db W) (w_db (fst ?out))"
  proof (cases "fst ?out = W \<or> (\<exists>i auto. fst ?out = fst (run_step C W i None now auto))")
    case True
    then show ?thesis
      using run_step_moves [OF ok] by auto
  next
    case False
    then obtain f b db1 i replies ready where dec: "decode_offer ?X raw None = Inr f"
      and b: "ready \<Longrightarrow> \<exists>x. b = Some x \<and> decode_offer ?X raw (Some (b_public_identity x)) = Inr f"
      and lim: "\<not> would_exceed_inbound_admission_limit (w_db W) (rx_workspace C) (effective_source src route)"
      and adm: "admit_offer C (w_db W) raw f b now (effective_source src route) route held = Inr (db1, i, replies)"
      and out: "?out = route_offer C (W\<lparr>w_db := db1\<rparr>) i replies f ready now held"
      using handle_offer_new [of C W raw now src route held] by metis
    obtain a where a: "admits (rx_env C) (w_db W) db1 a" "a_id a = i" "ready \<Longrightarrow> verified_row ?X a"
      using admit_offer_admits [OF adm lim dec] b by blast
    have rows: "db_attachments db1 = db_attachments (w_db W) @ [a]" "a_id a \<notin> a_id ` set (db_attachments (w_db W))"
      using a(1) ids by (simp_all add: admits_def)
    then have "distinct (map a_id (db_attachments db1))" "find_attachment db1 i = Some a"
      using ok a(2) find_by_None [of a_id i "db_attachments (w_db W)"] by (auto simp: rows_ok_def find_attachment_def find_by_append)
    then have "moves ?X db1 (w_db (fst ?out))"
      using route_offer_moves [of "W\<lparr>w_db := db1\<rparr>" i a ready ?X C] a by (simp add: out admits_def)
    then show ?thesis
      using a(1) new by blast
  qed
qed


section \<open>The whole machine\<close>

text \<open>One step of anything that touches received attachments, for the identity \<open>E\<close>; bindings, providers, the network and the
  Relay may differ at every step.\<close>

inductive recv_step :: "mca_env \<Rightarrow> recv_world \<Rightarrow> recv_world \<Rightarrow> bool" for E where
  offer: "rx_env C = E \<Longrightarrow> recv_step E W (fst (handle_offer C W raw now src route held))"
| step: "rx_env C = E \<Longrightarrow> recv_step E W (fst (run_step C W i client now auto))"
| begin_dl: "begin_download (w_db W) i now = Inr db \<Longrightarrow> recv_step E W (W\<lparr>w_db := db\<rparr>)"
| rejecting: "reject (w_db W) i now = Inr db \<Longrightarrow> recv_step E W (W\<lparr>w_db := db\<rparr>)"
| expiring: "expire E (w_db W) i now = Inr (db, s) \<Longrightarrow> recv_step E W (W\<lparr>w_db := db\<rparr>)"
| cancelling: "apply_cancelled (w_db W) i now = Inr (db, s) \<Longrightarrow> recv_step E W (W\<lparr>w_db := db\<rparr>)"
| acks: "enqueue_missing_acks E (w_db W) now limit = Inr (db, k) \<Longrightarrow> recv_step E W (W\<lparr>w_db := db\<rparr>)"
| dispatch: "recv_step E W (W\<lparr>w_db := fst (dispatch_outgoing_replies A (w_db W) ws now)\<rparr>)"

inductive recv_reachable :: "mca_env \<Rightarrow> recv_world \<Rightarrow> bool" for E where
  start: "db_attachments (w_db W) = [] \<Longrightarrow> recv_reachable E W"
| more: "recv_reachable E W \<Longrightarrow> recv_step E W W' \<Longrightarrow> recv_reachable E W'"

lemma user_action_moves:
  assumes "rows_ok X db"
  shows "begin_download db i now = Inr db' \<Longrightarrow> moves X db db'" and "reject db i now = Inr db' \<Longrightarrow> moves X db db'"
    and "expire E db i now = Inr (db', s) \<Longrightarrow> moves X db db'" and "apply_cancelled db i now = Inr (db', s) \<Longrightarrow> moves X db db'"
proof -
  have m: "moves X db (set_state db i t e)"
    if row: "find_attachment db i = Some row" and "recv_edge (a_state row) t" "\<not> is_terminal (a_state row)" "past_key t \<longrightarrow> past_key (a_state row)" for row t e
    using that rows_okD [OF assms row] by (intro set_state_moves [of db i row]) (auto simp: row_ok_def)
  show "begin_download db i now = Inr db' \<Longrightarrow> moves X db db'"
    by (auto simp: begin_download_def recv_edge_def is_terminal_def TERMINAL_STATES_def past_key_def split: option.splits if_splits intro!: m)
  show "reject db i now = Inr db' \<Longrightarrow> moves X db db'"
    by (auto simp: reject_def recv_edge_def is_terminal_def TERMINAL_STATES_def past_key_def split: option.splits if_splits intro!: m)
  show "expire E db i now = Inr (db', s) \<Longrightarrow> moves X db db'"
    by (auto simp: expire_def bind_res_eq_Inr recv_edge_def EXPIRABLE_STATES_def is_terminal_def TERMINAL_STATES_def past_key_def
        split: option.splits if_splits elim!: enqueue_moves(3) intro!: m)
  show "apply_cancelled db i now = Inr (db', s) \<Longrightarrow> moves X db db'"
    by (auto simp: apply_cancelled_def recv_edge_def past_key_def split: option.splits if_splits intro!: m)
qed

lemma enqueue_acks_moves: "enqueue_acks E rows now db k = Inr (db', k') \<Longrightarrow> db_attachments db' = db_attachments db \<and> db_next db \<le> db_next db'"
proof (induction rows arbitrary: db k)
  case (Cons row rows)
  show ?case
  proof (cases "fromhex (a_transfer_id row)")
    case None
    then show ?thesis
      using Cons by simp
  next
    case (Some tid)
    then obtain db1 ack k1 where e: "enqueue_control_message E db (a_id row) tid ACK_RECEIVED EVENT_ACK_RECEIVED_SENT now DERIVE_REPLY_ROUTE = Inr (db1, ack)"
      "enqueue_acks E rows now db1 k1 = Inr (db', k')"
      using Cons.prems by (auto simp: bind_res_eq_Inr)
    show ?thesis
      using Cons.IH [OF e(2)] enqueue_moves(1,2) [OF e(1)] by simp
  qed
qed simp

lemma dispatch_attachments: "db_attachments (fst (dispatch_outgoing_replies A db ws now)) = db_attachments db"
proof (cases A)
  case (Some a)
  have "db_attachments (fst (fold (dispatch_reply a ws now) rs acc)) = db_attachments (fst acc)" for rs acc
    by (induction rs arbitrary: acc) (simp_all add: dispatch_reply_touches)
  then show ?thesis
    by (simp add: dispatch_outgoing_replies_def Some)
qed (simp add: dispatch_outgoing_replies_def)

lemma recv_step_cases:
  assumes "recv_step E W W'" and "rows_ok (env_X E) (w_db W)" and "env_uuid E (db_next (w_db W)) \<notin> a_id ` set (db_attachments (w_db W))"
  shows "moves (env_X E) (w_db W) (w_db W') \<or> (\<exists>a db1. admits E (w_db W) db1 a \<and> moves (env_X E) db1 (w_db W'))"
  using assms
proof (induction rule: recv_step.induct)
  case (offer C W raw now src route held)
  then show ?case
    using handle_offer_cases by blast
next
  case (step C W i client now auto)
  then show ?case
    using run_step_moves by blast
next
  case (acks W now limit db k)
  then show ?case
    using enqueue_acks_moves by (fastforce simp: enqueue_missing_acks_def moves_def list_all2_same)
next
  case (dispatch W A ws now)
  have "db_next (fst (dispatch_outgoing_replies A (w_db W) ws now)) = db_next (w_db W)"
    using dispatch_touches by blast
  then show ?case
    by (simp add: moves_def dispatch_attachments list_all2_same)
qed (simp_all add: user_action_moves)


section \<open>The invariant\<close>

definition live_from :: "string \<Rightarrow> string \<Rightarrow> attachment \<Rightarrow> bool" where
  "live_from ws src a \<longleftrightarrow> live_received ws a \<and> a_reply_route_id a = Some src"

definition bounded :: "attachment list \<Rightarrow> bool" where
  "bounded rows \<longleftrightarrow> (\<forall>ws. length (filter (live_received ws) rows) \<le> MAX_PENDING_RECEIVED_GLOBAL
     \<and> (\<forall>src. length (filter (live_from ws src) rows) \<le> MAX_PENDING_RECEIVED_PER_SOURCE))"

definition recv_inv :: "mca_env \<Rightarrow> mca_db \<Rightarrow> bool" where
  "recv_inv E db \<longleftrightarrow> rows_ok (env_X E) db \<and> a_id ` set (db_attachments db) \<subseteq> env_uuid E ` {..<db_next db}
     \<and> distinct (map (\<lambda>a. (a_workspace_id a, a_transfer_id a)) (db_attachments db)) \<and> bounded (db_attachments db)"

lemma filter_shrinks:
  "list_all2 R xs ys \<Longrightarrow> (\<And>x y. R x y \<Longrightarrow> P y \<Longrightarrow> P x) \<Longrightarrow> length (filter P ys) \<le> length (filter P xs)"
proof (induction rule: list_all2_induct)
  case (Cons x xs y ys)
  have "P y \<Longrightarrow> P x"
    using Cons.prems Cons.hyps(1) by blast
  then show ?case
    using Cons.IH Cons.prems by auto
qed simp

lemma row_moveD:
  assumes "row_move X a b"
  shows "att_core b = att_core a" and "a_direction a = Received \<Longrightarrow> is_terminal (a_state a) \<Longrightarrow> b = a"
    and "a_direction a = Received \<Longrightarrow> row_ok X a \<Longrightarrow> row_ok X b"
  using assms unfolding row_move_def by simp_all

lemma row_move_live: "row_move X a b \<Longrightarrow> live_received ws b \<Longrightarrow> live_received ws a"
  unfolding live_received_def by (metis att_coreD row_moveD(1,2))

lemma row_move_live_from: "row_move X a b \<Longrightarrow> live_from ws src b \<Longrightarrow> live_from ws src a"
  unfolding live_from_def by (metis att_coreD row_moveD(1) row_move_live)

lemma moves_map: "list_all2 (row_move X) xs ys \<Longrightarrow> (\<And>a b. att_core b = att_core a \<Longrightarrow> col b = col a) \<Longrightarrow> map col ys = map col xs"
proof (induction rule: list_all2_induct)
  case (Cons a xs b ys)
  have "col b = col a"
    using Cons.prems row_moveD(1) [OF Cons.hyps(1)] by blast
  then show ?case
    using Cons.IH [OF Cons.prems] by simp
qed simp

lemma moves_inv:
  assumes "recv_inv E db" and "moves (env_X E) db db'"
  shows "recv_inv E db'"
proof -
  have m: "list_all2 (row_move (env_X E)) (db_attachments db) (db_attachments db')" and n: "db_next db \<le> db_next db'"
    using assms(2) by (simp_all add: moves_def)
  have ids: "map a_id (db_attachments db') = map a_id (db_attachments db)"
    and keys: "map (\<lambda>a. (a_workspace_id a, a_transfer_id a)) (db_attachments db') = map (\<lambda>a. (a_workspace_id a, a_transfer_id a)) (db_attachments db)"
    by (rule moves_map [OF m]; use att_coreD in blast)+
  have "row_ok (env_X E) b" if b: "b \<in> set (db_attachments db')" "a_direction b = Received" for b
  proof -
    obtain a where a: "a \<in> set (db_attachments db)" "row_move (env_X E) a b"
      using m b(1) by (metis in_set_conv_nth list_all2_conv_all_nth)
    then have "a_direction a = Received"
      using b(2) att_coreD [OF row_moveD(1) [OF a(2)]] by simp
    then show ?thesis
      using a(1) row_moveD(3) [OF a(2)] assms(1) by (simp add: recv_inv_def rows_ok_def)
  qed
  moreover have "bounded (db_attachments db')"
    unfolding bounded_def
  proof (intro allI conjI)
    fix ws src
    have "bounded (db_attachments db)"
      using assms(1) by (simp add: recv_inv_def)
    then have b: "length (filter (live_received ws) (db_attachments db)) \<le> MAX_PENDING_RECEIVED_GLOBAL"
      "length (filter (live_from ws src) (db_attachments db)) \<le> MAX_PENDING_RECEIVED_PER_SOURCE"
      by (simp_all add: bounded_def)
    show "length (filter (live_received ws) (db_attachments db')) \<le> MAX_PENDING_RECEIVED_GLOBAL"
      by (rule le_trans [OF filter_shrinks [OF m] b(1)]) (rule row_move_live)
    show "length (filter (live_from ws src) (db_attachments db')) \<le> MAX_PENDING_RECEIVED_PER_SOURCE"
      by (rule le_trans [OF filter_shrinks [OF m] b(2)]) (rule row_move_live_from)
  qed
  moreover have "a_id ` set (db_attachments db') = a_id ` set (db_attachments db)"
    using ids by (metis list.set_map)
  moreover have "env_uuid E ` {..<db_next db} \<subseteq> env_uuid E ` {..<db_next db'}"
    using n by (intro image_mono) auto
  ultimately show ?thesis
    using assms(1) ids keys unfolding recv_inv_def rows_ok_def by (metis (no_types, lifting) subset_trans)
qed

lemma fresh_id:
  assumes "inj (env_uuid E)" and "recv_inv E db"
  shows "env_uuid E (db_next db) \<notin> a_id ` set (db_attachments db)"
  using assms by (auto simp: recv_inv_def dest: injD)

lemma admits_inv:
  assumes inj: "inj (env_uuid E)" and inv: "recv_inv E db" and adm: "admits E db db1 a"
  shows "recv_inv E db1"
proof -
  note f = fresh_id [OF inj inv]
  have lim: "length (filter (live_received (a_workspace_id a)) (db_attachments db)) < MAX_PENDING_RECEIVED_GLOBAL"
    and src: "a_reply_route_id a = Some s \<Longrightarrow> length (filter (live_from (a_workspace_id a) s) (db_attachments db)) < MAX_PENDING_RECEIVED_PER_SOURCE" for s
    using adm by (auto simp: admits_def would_exceed_inbound_admission_limit_def Let_def live_from_def [abs_def] filter_filter not_le conj_commute)
  have "bounded (db_attachments db @ [a])"
    unfolding bounded_def
  proof (intro allI conjI)
    fix ws s
    show "length (filter (live_received ws) (db_attachments db @ [a])) \<le> MAX_PENDING_RECEIVED_GLOBAL"
      using inv lim by (auto simp: recv_inv_def bounded_def live_received_def)
    show "length (filter (live_from ws s) (db_attachments db @ [a])) \<le> MAX_PENDING_RECEIVED_PER_SOURCE"
      using inv src [of s] by (auto simp: recv_inv_def bounded_def live_from_def live_received_def)
  qed
  then show ?thesis
    using inv adm f unfolding recv_inv_def rows_ok_def admits_def by auto
qed

lemma recv_step_inv:
  assumes "inj (env_uuid E)" and "recv_inv E (w_db W)" and "recv_step E W W'"
  shows "recv_inv E (w_db W')"
proof -
  have "rows_ok (env_X E) (w_db W)"
    using assms(2) by (simp add: recv_inv_def)
  from recv_step_cases [OF assms(3) this fresh_id [OF assms(1,2)]] show ?thesis
    using moves_inv [OF assms(2)] moves_inv [OF admits_inv [OF assms(1,2)]] by blast
qed

lemma reachable_inv: "recv_reachable E W \<Longrightarrow> inj (env_uuid E) \<Longrightarrow> recv_inv E (w_db W)"
proof (induction rule: recv_reachable.induct)
  case (start W)
  then show ?case
    by (simp add: recv_inv_def rows_ok_def bounded_def)
qed (use recv_step_inv in blast)


section \<open>A sample run\<close>

definition sample_binding :: binding_row where
  "sample_binding = \<lparr>b_id = ''b'', b_workspace_id = ''w'', b_adapter_id = ''mesh'', b_transport_address = ''!0000000a'',
     b_principal_id = ''s'', b_sender_key_id = hex_of (replicate 8 2), b_public_identity = replicate 32 4, b_key_epoch = 0,
     b_bound_at = 0, b_tofu_confirmed_at = Some 1, b_pending_public_identity = None, b_pending_key_epoch = None,
     b_pending_detected_at = None\<rparr>"

definition sample_provider :: provider_row where
  "sample_provider = \<lparr>pv_provider_id = b64url_nopad (replicate 8 7), pv_workspace_id = ''w'', pv_origin = ''https://r'',
     pv_service_public_key = replicate 32 5, pv_upload_allowed = True, pv_enabled = True, pv_max_ciphertext_bytes = 5242880,
     pv_min_ttl_seconds = None, pv_max_ttl_seconds = None\<rparr>"

definition offline_client :: relay_client where
  "offline_client = \<lparr>rc_get_descriptor = (\<lambda>_. Inl RelayUnavailableError), rc_get_chunk = (\<lambda>_ _. Inl RelayUnavailableError),
     rc_complete = (\<lambda>_ _. Inl RelayUnavailableError)\<rparr>"

definition sample_ctx :: recv_ctx where
  "sample_ctx = \<lparr>rx_env = sample_env, rx_config = sample_config, rx_keys = empty_ke\<lparr>ke_bindings := [sample_binding]\<rparr>,
     rx_providers = [sample_provider], rx_network = True, rx_auto_accept = False, rx_new_client = (\<lambda>_. offline_client), rx_mca_dir = ''/mca''\<rparr>"

definition empty_world :: recv_world where
  "empty_world = \<lparr>w_db = empty_db, w_files = [], w_quarantine = [], w_receipts = []\<rparr>"

lemma ready_sample: "get_binding_by_key_id sample_config (empty_ke\<lparr>ke_bindings := [sample_binding]\<rparr>) (hex_of (replicate 8 2)) = Some sample_binding"
  "binding_status sample_binding = MCA_READY" "b_public_identity sample_binding = replicate 32 4"
  by (simp_all add: get_binding_by_key_id_def addr_key_def sample_config_def sample_principal_def sample_binding_def row_to_binding_def
      binding_status_def)

lemma sample_offer_decodes:
  "\<exists>raw s. decode_offer ref_ext raw None = Inr (sample_offer\<lparr>o_signature := Some s\<rparr>)
     \<and> decode_offer ref_ext raw (Some (replicate 32 4)) = Inr (sample_offer\<lparr>o_signature := Some s\<rparr>)"
proof -
  obtain raw where raw: "encode_offer ref_ext sample_offer (replicate 32 4) = Inr raw"
    using sample_offer_encodes by blast
  have "ed_public ref_ext (replicate 32 4) = replicate 32 4"
    by (simp add: ref_ext_def)
  then obtain s where s: "decode_offer ref_ext raw (Some (replicate 32 4)) = Inr (sample_offer\<lparr>o_signature := Some s\<rparr>)"
    using offer.roundtrip [OF _ _ raw, of "Some (replicate 32 4)"] by auto
  then show ?thesis
    using decode_offer_verified [OF s] by blast
qed

lemma sample_admission:
  "\<exists>raw a. handle_offer sample_ctx empty_world raw 5 (Some ''!0000000a'') None True
      = (empty_world\<lparr>w_db := w_db (fst (handle_offer sample_ctx empty_world raw 5 (Some ''!0000000a'') None True))\<rparr>,
         Inr (result [] WAITING_CONSENT []))
     \<and> db_attachments (w_db (fst (handle_offer sample_ctx empty_world raw 5 (Some ''!0000000a'') None True))) = [a]
     \<and> a_state a = WAITING_CONSENT \<and> a_direction a = Received \<and> a_id a = [] \<and> a_transfer_id a = hex_of (replicate 16 1)
     \<and> a_hard_expires_at a = 1750000000"
proof -
  obtain raw sig where d: "decode_offer ref_ext raw None = Inr (sample_offer\<lparr>o_signature := Some sig\<rparr>)"
    "decode_offer ref_ext raw (Some (replicate 32 4)) = Inr (sample_offer\<lparr>o_signature := Some sig\<rparr>)"
    using sample_offer_decodes by blast
  have fs: "o_transfer_id sample_offer = replicate 16 1" "o_sender_key_id sample_offer = replicate 8 2" "o_provider_id sample_offer = replicate 8 7"
    "o_hard_expires_at sample_offer = 1750000000"
    by (simp_all add: sample_offer_def)
  have "resolve [sample_provider] ''w'' (b64url_nopad (replicate 8 7)) = Some sample_provider"
    by (simp add: resolve_def sample_provider_def)
  then show ?thesis
    by (intro exI [of _ raw])
      (simp add: handle_offer_def sample_ctx_def empty_world_def sample_env_def d fs find_by_transfer_id_def empty_db_def ready_sample
        binding_ready_def effective_source_def would_exceed_inbound_admission_limit_def MAX_PENDING_RECEIVED_GLOBAL_def
        MAX_PENDING_RECEIVED_PER_SOURCE_def admit_offer_def provider_text_Inr Let_def route_offer_def resolve_provider_or_wait_def
        consent_or_auto_accept_def finish_def set_state_def update_attachment_def result_def new_received_def
        provider_text_def encode_provider_id_def record_event_def)
qed


lemma sample_world:
  "\<exists>W a. recv_reachable sample_env W \<and> db_attachments (w_db W) = [a] \<and> a_state a = WAITING_CONSENT \<and> a_direction a = Received
     \<and> a_id a = [] \<and> a_transfer_id a = hex_of (replicate 16 1) \<and> a_hard_expires_at a = 1750000000"
proof -
  obtain raw a where ad: "db_attachments (w_db (fst (handle_offer sample_ctx empty_world raw 5 (Some ''!0000000a'') None True))) = [a]"
    "a_state a = WAITING_CONSENT" "a_direction a = Received" "a_id a = []" "a_transfer_id a = hex_of (replicate 16 1)" "a_hard_expires_at a = 1750000000"
    using sample_admission by blast
  have "recv_reachable sample_env (fst (handle_offer sample_ctx empty_world raw 5 (Some ''!0000000a'') None True))"
    by (rule recv_reachable.more [OF recv_reachable.start recv_step.offer]) (simp_all add: empty_world_def empty_db_def sample_ctx_def)
  then show ?thesis
    using ad by blast
qed

lemma sample_env_simps [simp]: "inj (env_uuid sample_env)" "env_X sample_env = ref_ext"
  by (simp_all add: sample_env_def inj_def)

section \<open>Properties\<close>

text \<open>C2. The receiver's state diagram: in any reachable state, any further step - an OFFER, an automatic step with any Relay
  behaviour, a user action, expiry, cancellation, outbox work - keeps every received row with its identity, provider,
  deadline and reply route, moves its state only along an edge of the diagram, and leaves a row in a terminal state
  exactly as it is.\<close>

theorem receiver_transitions:
  assumes "inj (env_uuid E)" and "recv_reachable E W" and "recv_step E W W'" and "a \<in> set (db_attachments (w_db W))" and "a_direction a = Received"
  shows "\<exists>a' \<in> set (db_attachments (w_db W')). att_core a' = att_core a
    \<and> (a_state a' = a_state a \<or> recv_edge (a_state a) (a_state a')) \<and> (is_terminal (a_state a) \<longrightarrow> a' = a)"
proof -
  have inv: "recv_inv E (w_db W)"
    using reachable_inv assms(1,2) by blast
  have go: "\<exists>a' \<in> set (db_attachments db'). row_move (env_X E) a a'" if "moves (env_X E) db db'" "a \<in> set (db_attachments db)" for db db'
    using that unfolding moves_def by (metis in_set_conv_nth list_all2_conv_all_nth)
  have "rows_ok (env_X E) (w_db W)"
    using inv by (simp add: recv_inv_def)
  from recv_step_cases [OF assms(3) this fresh_id [OF assms(1) inv]]
  have "\<exists>a' \<in> set (db_attachments (w_db W')). row_move (env_X E) a a'"
    using go assms(4) by (fastforce simp: admits_def)
  then show ?thesis
    using assms(5) unfolding row_move_def by blast
qed

theorem receiver_transitions_witness:
  "\<exists>W W' a a'. recv_step sample_env W W' \<and> db_attachments (w_db W) = [a] \<and> a_state a = WAITING_CONSENT
     \<and> a' \<in> set (db_attachments (w_db W')) \<and> att_core a' = att_core a"
proof -
  obtain W a where w: "recv_reachable sample_env W" "db_attachments (w_db W) = [a]" "a_state a = WAITING_CONSENT" "a_direction a = Received" "a_id a = []"
    using sample_world by blast
  obtain db where "begin_download (w_db W) [] 6 = Inr db"
    using w by (simp add: begin_download_def find_attachment_def)
  then have st: "recv_step sample_env W (W\<lparr>w_db := db\<rparr>)"
    by (rule recv_step.begin_dl)
  obtain a' where "a' \<in> set (db_attachments (w_db (W\<lparr>w_db := db\<rparr>)))" "att_core a' = att_core a"
    using receiver_transitions [OF _ w(1) st, of a] w(2,4) by auto
  then show ?thesis
    using st w(2,3) by blast
qed

text \<open>C3. Only a trusted key admits a file: in every reachable state a received row that got past \<open>WAITING_KEY\<close> - including
  every available file - carries the public key it was admitted under, and an OFFER for exactly this transfer, provider
  and deadline verified under that key. Row ids and transfer ids are unique.\<close>

theorem trusted_sender_only:
  assumes "inj (env_uuid E)" and "recv_reachable E W"
  shows "distinct (map a_id (db_attachments (w_db W)))
    \<and> distinct (map (\<lambda>a. (a_workspace_id a, a_transfer_id a)) (db_attachments (w_db W)))
    \<and> (\<forall>a \<in> set (db_attachments (w_db W)). a_direction a = Received \<longrightarrow> past_key (a_state a) \<longrightarrow>
         (\<exists>raw f pk. a_sender_public_identity a = Some pk \<and> decode_offer (env_X E) raw (Some pk) = Inr f
            \<and> a_transfer_id a = hex_of (o_transfer_id f) \<and> a_provider_id a = Some (b64url_nopad (o_provider_id f))
            \<and> a_hard_expires_at a = o_hard_expires_at f))"
  using reachable_inv [OF assms(2,1)] by (simp add: recv_inv_def rows_ok_def row_ok_def verified_row_def offer_of_def)

theorem trusted_sender_only_witness:
  "\<exists>W a raw f pk. recv_reachable sample_env W \<and> a \<in> set (db_attachments (w_db W)) \<and> past_key (a_state a)
     \<and> a_sender_public_identity a = Some pk \<and> decode_offer ref_ext raw (Some pk) = Inr f"
proof -
  obtain W a where w: "recv_reachable sample_env W" "db_attachments (w_db W) = [a]" "a_state a = WAITING_CONSENT" "a_direction a = Received"
    using sample_world by blast
  then have p: "past_key (a_state a)" "a \<in> set (db_attachments (w_db W))"
    by (simp_all add: past_key_def)
  obtain raw f pk where "a_sender_public_identity a = Some pk" "decode_offer ref_ext raw (Some pk) = Inr f"
    using trusted_sender_only [OF _ w(1)] w(4) p by auto
  then show ?thesis
    using w(1) p by blast
qed

text \<open>C17. A flood of OFFERs is bounded: whatever arrives, in every reachable state a workspace has at most 200 received
  attachments that are not finished, and at most 20 of them from any one source address.\<close>

theorem admission_bounded:
  assumes "inj (env_uuid E)" and "recv_reachable E W"
  shows "length (filter (live_received ws) (db_attachments (w_db W))) \<le> 200
    \<and> length (filter (\<lambda>a. live_received ws a \<and> a_reply_route_id a = Some src) (db_attachments (w_db W))) \<le> 20"
  using reachable_inv [OF assms(2,1)]
  by (simp add: recv_inv_def bounded_def live_from_def [abs_def] MAX_PENDING_RECEIVED_GLOBAL_def MAX_PENDING_RECEIVED_PER_SOURCE_def)

theorem admission_bounded_witness:
  "\<exists>W. recv_reachable sample_env W \<and> db_attachments (w_db W) \<noteq> [] \<and> length (filter (live_received ''w'') (db_attachments (w_db W))) \<le> 200"
proof -
  obtain W a where w: "recv_reachable sample_env W" "db_attachments (w_db W) = [a]"
    using sample_world by blast
  then show ?thesis
    using admission_bounded [OF _ w(1)] by (intro exI [of _ W]) simp
qed


text \<open>The key gate on a parked OFFER: a step takes a \<open>WAITING_KEY\<close> row anywhere but to \<open>WAITING_KEY\<close> or \<open>FAILED\<close> only if the
  sender's key id is bound to a key the user has confirmed, with no key change pending, and the parked OFFER verifies
  under that key; and if such a binding exists but the OFFER does not verify under it, the row fails with
  \<open>pending_offer_signature_invalid\<close> and the parked bytes are dropped.\<close>

theorem parked_offer_gate:
  assumes row: "find_attachment (w_db W) i = Some row" "a_state row = WAITING_KEY" "a_pending_offer_cbor row = Some raw"
    and dec: "decode_offer (env_X (rx_env C)) raw None = Inr f"
  shows "(\<forall>W' r. run_step C W i client now auto = (W', Inr r) \<longrightarrow> rcv_state r \<notin> {WAITING_KEY, FAILED} \<longrightarrow>
      (\<exists>b. get_binding_by_key_id (rx_config C) (rx_keys C) (hex_of (o_sender_key_id f)) = Some b \<and> binding_status b = MCA_READY
           \<and> decode_offer (env_X (rx_env C)) raw (Some (b_public_identity b)) = Inr f))
    \<and> (\<forall>b. get_binding_by_key_id (rx_config C) (rx_keys C) (hex_of (o_sender_key_id f)) = Some b \<longrightarrow> binding_status b = MCA_READY
        \<longrightarrow> length (b_public_identity b) = 32 \<longrightarrow> isl (decode_offer (env_X (rx_env C)) raw (Some (b_public_identity b))) \<longrightarrow>
        (\<exists>a. find_attachment (w_db (fst (run_step C W i client now auto))) i = Some a \<and> a_state a = FAILED
           \<and> a_error_code a = Some ''pending_offer_signature_invalid'' \<and> a_pending_offer_cbor a = None))"
proof (intro conjI allI impI)
  let ?X = "env_X (rx_env C)"
  have i: "a_id row = i"
    using find_attachment_id [OF row(1)] by simp
  have st: "run_step C W i client now auto = step_waiting_key C W row now auto"
    by (simp add: run_step_def row)
  note step = step_waiting_key_def [of C W row now auto, unfolded row(3) i Let_def option.case dec sum.case]
  fix W' r
  assume run: "run_step C W i client now auto = (W', Inr r)" and out: "rcv_state r \<notin> {WAITING_KEY, FAILED}"
  show "\<exists>b. get_binding_by_key_id (rx_config C) (rx_keys C) (hex_of (o_sender_key_id f)) = Some b \<and> binding_status b = MCA_READY
      \<and> decode_offer ?X raw (Some (b_public_identity b)) = Inr f"
  proof (cases "get_binding_by_key_id (rx_config C) (rx_keys C) (hex_of (o_sender_key_id f))")
    case None
    then show ?thesis
      using run out unfolding st step by (auto simp: result_def)
  next
    case (Some b)
    have "binding_status b = MCA_READY"
      using run out unfolding st step Some by (auto simp: result_def split: if_splits)
    moreover obtain g where "decode_offer ?X raw (Some (b_public_identity b)) = Inr g"
      using run out unfolding st step Some
      by (cases "decode_offer ?X raw (Some (b_public_identity b))") (auto simp: result_def split: if_splits)
    ultimately show ?thesis
      using Some decode_offer_verified dec by fastforce
  qed
next
  let ?X = "env_X (rx_env C)"
  have i: "a_id row = i"
    using find_attachment_id [OF row(1)] by simp
  fix b
  assume b: "get_binding_by_key_id (rx_config C) (rx_keys C) (hex_of (o_sender_key_id f)) = Some b" "binding_status b = MCA_READY"
    "length (b_public_identity b) = 32" "isl (decode_offer ?X raw (Some (b_public_identity b)))"
  obtain e where "decode_offer ?X raw (Some (b_public_identity b)) = Inl e"
    using b(4) by (auto simp: isl_def)
  then show "\<exists>a. find_attachment (w_db (fst (run_step C W i client now auto))) i = Some a \<and> a_state a = FAILED
      \<and> a_error_code a = Some ''pending_offer_signature_invalid'' \<and> a_pending_offer_cbor a = None"
    using b row i by (simp add: run_step_def step_waiting_key_def dec set_state_def find_update_attachment)
qed

theorem parked_offer_gate_witness:
  "\<exists>W W' r. run_step sample_ctx W ''att'' None 9 False = (W', Inr r) \<and> rcv_state r = WAITING_CONSENT
     \<and> (\<exists>b. get_binding_by_key_id (rx_config sample_ctx) (rx_keys sample_ctx) (hex_of (replicate 8 2)) = Some b \<and> binding_status b = MCA_READY)"
proof -
  obtain raw s where d: "decode_offer ref_ext raw None = Inr (sample_offer\<lparr>o_signature := Some s\<rparr>)"
    "decode_offer ref_ext raw (Some (replicate 32 4)) = Inr (sample_offer\<lparr>o_signature := Some s\<rparr>)"
    using sample_offer_decodes by blast
  define a where "a = sample_attachment\<lparr>a_state := WAITING_KEY, a_pending_offer_cbor := Some raw\<rparr>"
  have a: "a_id a = ''att''" "a_state a = WAITING_KEY" "a_pending_offer_cbor a = Some raw"
    by (simp_all add: a_def sample_attachment_def)
  let ?W = "empty_world\<lparr>w_db := empty_db\<lparr>db_attachments := [a]\<rparr>\<rparr>"
  have row: "find_attachment (w_db ?W) ''att'' = Some a"
    using a by (simp add: find_attachment_def)
  have fs: "o_sender_key_id sample_offer = replicate 8 2" "o_provider_id sample_offer = replicate 8 7"
    by (simp_all add: sample_offer_def)
  have "resolve [sample_provider] ''w'' (b64url_nopad (replicate 8 7)) = Some sample_provider"
    by (simp add: resolve_def sample_provider_def)
  then obtain W' where run: "run_step sample_ctx ?W ''att'' None 9 False = (W', Inr (result ''att'' WAITING_CONSENT []))"
    using row a d fs
    by (simp add: run_step_def step_waiting_key_def sample_ctx_def ready_sample Let_def provider_text_def encode_provider_id_def
        resolve_provider_or_wait_def consent_or_auto_accept_def finish_def) (simp add: sample_env_def consent_or_auto_accept_def)
  have "rcv_state (result ''att'' WAITING_CONSENT []) \<notin> {WAITING_KEY, FAILED}"
    by (simp add: result_def)
  then show ?thesis
    using parked_offer_gate [OF row a(2,3), of sample_ctx "sample_offer\<lparr>o_signature := Some s\<rparr>" None 9 False] run d(1) fs
    by (fastforce simp: result_def sample_ctx_def)
qed


lemma enqueue_enqueued:
  "enqueue_control_message E db i tid mt ev now route = Inr (db', frame) \<Longrightarrow> control_already_enqueued db' i ev"
  by (auto simp: enqueue_control_message_def control_already_enqueued_def new_reply_def case_sum_eq_Inr split: if_splits)

text \<open>Expiry is exact and happens once: a received row that waits (and is not downloading) expires exactly when it has a
  positive deadline and that deadline has passed; then the signed EXPIRED message is in the outbox and asking again, at any
  time, changes nothing. In every other case the call changes nothing and reports the current state.\<close>

theorem expiry_once:
  assumes "find_attachment db i = Some row" and "expire E db i now = Inr (db', s)"
  shows "if a_state row \<in> set EXPIRABLE_STATES \<and> 0 < a_hard_expires_at row \<and> of_int (a_hard_expires_at row) \<le> now
    then s = ST_EXPIRED \<and> state_of db' i = Some ST_EXPIRED \<and> control_already_enqueued db' i EVENT_EXPIRED_SENT
      \<and> (\<forall>now'. expire E db' i now' = Inr (db', ST_EXPIRED))
    else db' = db \<and> s = a_state row"
proof (cases "a_state row \<in> set EXPIRABLE_STATES \<and> 0 < a_hard_expires_at row \<and> of_int (a_hard_expires_at row) \<le> now")
  case True
  let ?db = "record_event (set_state db i ST_EXPIRED None) i now ''expired''"
  obtain tid frame where q: "enqueue_control_message E ?db i tid EXPIRED EVENT_EXPIRED_SENT now DERIVE_REPLY_ROUTE = Inr (db', frame)" and s: "s = ST_EXPIRED"
    using assms True by (auto simp: expire_def bind_res_eq_Inr split: option.splits if_splits)
  have "find_attachment db' i = find_attachment ?db i"
    using enqueue_moves(1) [OF q] by (simp add: find_attachment_def)
  then have f: "find_attachment db' i = Some (row\<lparr>a_state := ST_EXPIRED, a_error_code := None\<rparr>)"
    using assms(1) by (simp add: set_state_def find_update_attachment)
  then have "\<forall>now'. expire E db' i now' = Inr (db', ST_EXPIRED)"
    by (simp add: expire_def EXPIRABLE_STATES_def)
  then show ?thesis
    using True s f enqueue_enqueued [OF q] by (simp add: state_of_def)
next
  case False
  then have "expire E db i now = Inr (db, a_state row)"
    using assms(1) by (auto simp: expire_def)
  then show ?thesis
    using False assms(2) by auto
qed

theorem expiry_once_witness:
  "\<exists>db'. expire sample_env (empty_db\<lparr>db_attachments := [sample_attachment]\<rparr>) ''att'' 100 = Inr (db', ST_EXPIRED)
     \<and> expire sample_env db' ''att'' 200 = Inr (db', ST_EXPIRED)"
proof -
  let ?db = "empty_db\<lparr>db_attachments := [sample_attachment]\<rparr>"
  have f: "find_attachment ?db ''att'' = Some sample_attachment"
    by (simp add: find_attachment_def sample_attachment_def)
  obtain db' where e: "expire sample_env ?db ''att'' 100 = Inr (db', ST_EXPIRED)"
    using f by (simp add: expire_def sample_attachment_def EXPIRABLE_STATES_def enqueue_control_message_def control_already_enqueued_def
        empty_db_def record_event_def set_state_def update_attachment_def sample_env_def load_signing_key_def ref_ext_def
        encode_simple_ack_def simple_ack_type_def sign_message_def domain_label_def Let_def)
  then show ?thesis
    using expiry_once [OF f e] by (simp add: sample_attachment_def EXPIRABLE_STATES_def)
qed

end
