(* ===== verification/Delivery.thy ===== *)
theory Delivery
  imports Key_Exchange Signed_Codec Py_Text
begin

text \<open>
  The Meshtastic delivery adapter, \<open>src/meshsrv/attachments/delivery/meshtastic.py\<close>, over the contract of
  \<open>src/meshsrv/attachments/delivery/base.py\<close>: how a logical message becomes a text message on the radio and how a
  received text becomes a logical message. The radio is the field \<open>ta_send_text_checked\<close>, what
  \<open>RadioTransport.send_text_checked\<close> returns or raises for a message.
\<close>

section \<open>Routes, errors, receipts\<close>

record route =
  rt_route_type :: route_type
  rt_route_id :: string
  rt_destination_address :: "string option"

text \<open>\<open>RouteType(text)\<close>; \<open>None\<close> is its \<open>ValueError\<close>.\<close>

definition route_type_of :: "string \<Rightarrow> route_type option" where
  "route_type_of text = map_of [(''DIRECT'', DIRECT), (''CHANNEL'', CHANNEL), (''CHAT'', CHAT), (''MANUAL'', MANUAL)] text"

datatype delivery_error = PayloadTooLargeError nat nat | UnsupportedRouteError | ConnectorUnavailableError | MalformedPayload

text \<open>\<open>encode\<close> and \<open>send\<close> may also raise what is not a \<open>DeliveryError\<close>.\<close>

datatype delivery_exc = DeliveryError delivery_error | EncodeCodecError codec_error | UnicodeDecodeError

record delivery_receipt =
  dr_sent :: bool
  dr_idempotency_key :: string
  dr_external_message_id :: "string option"
  dr_sent_at :: timestamp

section \<open>The adapter\<close>

record outgoing_message =
  om_text :: string
  om_destination_id :: string
  om_channel_index :: int

datatype transport_result = TransportError | Refused | Accepted "int option"

datatype connection_state = CONNECTED | CONNECTING | DISCONNECTED | CONN_ERROR
datatype connection_type = SERIAL | BLUETOOTH | TCP
datatype connector_state = READY | DEGRADED | UNAVAILABLE
datatype ack_semantics = BEST_EFFORT | CONFIRMED

record text_adapter =
  ta_send_text_checked :: "outgoing_message \<Rightarrow> transport_result"
  ta_connection_state :: connection_state
  ta_connection_type :: "connection_type option"
  ta_max_payload_bytes :: nat
  ta_control_channel_index :: "int option"

definition MESHTASTIC_TEXT_MAX_PAYLOAD_BYTES :: nat where "MESHTASTIC_TEXT_MAX_PAYLOAD_BYTES = 180"
definition meshtastic_adapter_id :: string where "meshtastic_adapter_id = ''meshtastic''"
definition meshtastic_connector_profile_id :: string where "meshtastic_connector_profile_id = ''meshtastic''"

record delivery_capabilities =
  dcap_max_payload_bytes :: nat
  dcap_supports_direct :: bool
  dcap_supports_channel :: bool
  dcap_supports_incoming :: bool
  dcap_ack_semantics :: ack_semantics
  dcap_connector_state :: connector_state

definition capabilities :: "text_adapter \<Rightarrow> delivery_capabilities" where
  "capabilities A =
     \<lparr>dcap_max_payload_bytes = ta_max_payload_bytes A, dcap_supports_direct = True, dcap_supports_channel = False,
      dcap_supports_incoming = True,
      dcap_ack_semantics = (if ta_connection_type A \<in> {Some BLUETOOTH, Some TCP} then BEST_EFFORT else CONFIRMED),
      dcap_connector_state = (if ta_connection_state A = CONNECTED then READY
                              else if ta_connection_state A = CONNECTING then DEGRADED else UNAVAILABLE)\<rparr>"

definition resolve_route :: "string option \<Rightarrow> delivery_error + route" where
  "resolve_route node_id =
     (case node_id of
        None \<Rightarrow> Inl UnsupportedRouteError
      | Some n \<Rightarrow> if n = [] \<or> \<not> startswith n ''!'' then Inl UnsupportedRouteError
                  else Inr \<lparr>rt_route_type = DIRECT, rt_route_id = n, rt_destination_address = Some n\<rparr>)"

definition adapter_encode :: "text_adapter \<Rightarrow> bytes \<Rightarrow> route \<Rightarrow> delivery_exc + bytes" where
  "adapter_encode A logical_message route =
     (if rt_route_type route \<noteq> DIRECT then Inl (DeliveryError UnsupportedRouteError)
      else case to_text logical_message of
        Inl e \<Rightarrow> Inl (EncodeCodecError e)
      | Inr text \<Rightarrow>
          (let wire_payload = ascii_bytes text in
           if ta_max_payload_bytes A < length wire_payload
           then Inl (DeliveryError (PayloadTooLargeError (length wire_payload) (ta_max_payload_bytes A)))
           else Inr wire_payload))"

text \<open>\<open>wire_payload.decode("ascii")\<close>.\<close>

definition ascii_decode :: "bytes \<Rightarrow> string option" where
  "ascii_decode bs = (if list_all (\<lambda>b. unat b < 128) bs then Some (map (\<lambda>b. char_of (unat b)) bs) else None)"

definition adapter_send :: "text_adapter \<Rightarrow> bytes \<Rightarrow> route \<Rightarrow> string \<Rightarrow> timestamp \<Rightarrow> delivery_exc + delivery_receipt" where
  "adapter_send A wire_payload route idempotency_key now =
     (case rt_destination_address route of
        None \<Rightarrow> Inl (DeliveryError UnsupportedRouteError)
      | Some destination \<Rightarrow>
          (case ta_control_channel_index A of
             None \<Rightarrow> Inl (DeliveryError ConnectorUnavailableError)
           | Some index \<Rightarrow>
               if \<not> (0 \<le> index \<and> index \<le> 7) then Inl (DeliveryError ConnectorUnavailableError)
               else case ascii_decode wire_payload of
                 None \<Rightarrow> Inl UnicodeDecodeError
               | Some text \<Rightarrow>
                   (case ta_send_text_checked A \<lparr>om_text = text, om_destination_id = destination, om_channel_index = index\<rparr> of
                      TransportError \<Rightarrow> Inl (DeliveryError ConnectorUnavailableError)
                    | Refused \<Rightarrow> Inl (DeliveryError ConnectorUnavailableError)
                    | Accepted packet_id \<Rightarrow>
                        Inr \<lparr>dr_sent = True, dr_idempotency_key = idempotency_key,
                             dr_external_message_id = map_option dec_of_int packet_id, dr_sent_at = now\<rparr>)))"

record transport_event =
  te_text :: "string option"
  te_source_address :: "string option"
  te_packet_id :: "string option"
  te_received_at :: "timestamp option"
  te_channel_index :: "int option"
  te_connector_profile_id :: "string option"

record inbound_envelope =
  ie_logical_message :: bytes
  ie_adapter_id :: string
  ie_connector_profile_id :: string
  ie_route_type :: route_type
  ie_route_id :: string
  ie_source_address :: "string option"
  ie_external_message_id :: "string option"
  ie_received_at :: timestamp
  ie_channel_index :: "int option"

text \<open>\<open>ingest\<close>: \<open>None\<close> for an event that is not MCA traffic (the argument is \<open>None\<close> when the event is not a dict).\<close>

definition ingest :: "transport_event option \<Rightarrow> timestamp \<Rightarrow> delivery_error + inbound_envelope option" where
  "ingest transport_event now =
     (case transport_event of
        None \<Rightarrow> Inr None
      | Some ev \<Rightarrow>
          (case te_text ev of
             None \<Rightarrow> Inr None
           | Some text \<Rightarrow>
               if \<not> startswith text TEXT_PREFIX then Inr None
               else case from_text text of
                 Inl _ \<Rightarrow> Inl MalformedPayload
               | Inr logical_message \<Rightarrow>
                   Inr (Some
                     \<lparr>ie_logical_message = logical_message, ie_adapter_id = meshtastic_adapter_id,
                      ie_connector_profile_id = (case te_connector_profile_id ev of None \<Rightarrow> meshtastic_connector_profile_id | Some c \<Rightarrow> c),
                      ie_route_type = DIRECT,
                      ie_route_id = (case te_source_address ev of None \<Rightarrow> [] | Some s \<Rightarrow> s),
                      ie_source_address = te_source_address ev, ie_external_message_id = te_packet_id ev,
                      ie_received_at = (case te_received_at ev of None \<Rightarrow> now | Some t \<Rightarrow> t),
                      ie_channel_index = te_channel_index ev\<rparr>)))"

section \<open>Lemmas\<close>

lemma b64url_nopad_ascii: "list_all is_ascii (b64url_nopad bs)"
proof -
  have "list_all is_ascii (urlsafe_b64encode bs)"
    unfolding urlsafe_b64encode_def by (rule list_all_b64encode) (simp add: list_all_iff)
  then show ?thesis
    by (metis b64url_nopad_padding list_all_append)
qed

lemma to_text_ascii: "to_text m = Inr t \<Longrightarrow> list_all is_ascii t"
proof -
  assume "to_text m = Inr t"
  then have "t = TEXT_PREFIX @ b64url_nopad m"
    by (auto simp: to_text_def split: if_splits)
  moreover have "list_all is_ascii TEXT_PREFIX"
    by (simp add: TEXT_PREFIX_def is_ascii_def)
  ultimately show ?thesis
    by (simp add: b64url_nopad_ascii)
qed

lemma unat_of_char [simp]: "unat (of_char c :: byte) = of_char c"
proof -
  have "(of_char c :: byte) = of_nat (of_char c)"
    by (simp add: of_nat_of_char)
  then show ?thesis by (simp add: unat_of_nat take_bit_eq_mod)
qed

lemma ascii_decode_bytes: "list_all is_ascii t \<Longrightarrow> ascii_decode (ascii_bytes t) = Some t"
  by (auto simp: ascii_decode_def ascii_bytes_def list_all_iff is_ascii_def intro: map_idI)

lemma from_to_text:
  assumes "to_text m = Inr t" and "length t \<le> MAX_MESSAGE_RAW_BYTES"
  shows "from_text t = Inr m" and "startswith t TEXT_PREFIX"
  using assms by (auto simp: to_text_def from_text_def split: if_splits)

section \<open>Properties\<close>

text \<open>The radio leg of a control message: whatever the adapter encodes and the radio accepts went to the route's
  own node as one direct text of at most the payload limit, on the configured control channel, an index from 0 to 7
  (with no configured channel nothing is transmitted), and the text that arrives is taken in as the very same message,
  from the sending node, on a DIRECT route.\<close>

theorem radio_roundtrip:
  assumes "adapter_encode A m rt = Inr w" and "adapter_send A w rt key now = Inr receipt"
    and "ta_max_payload_bytes A \<le> MAX_MESSAGE_RAW_BYTES"
  shows "\<exists>msg dest i packet_id. rt_route_type rt = DIRECT \<and> rt_destination_address rt = Some dest
    \<and> ta_control_channel_index A = Some i \<and> 0 \<le> i \<and> i \<le> 7 \<and> length msg \<le> ta_max_payload_bytes A
    \<and> ta_send_text_checked A \<lparr>om_text = msg, om_destination_id = dest, om_channel_index = i\<rparr> = Accepted packet_id
    \<and> (\<forall>ev now'. te_text ev = Some msg \<longrightarrow>
         (\<exists>env. ingest (Some ev) now' = Inr (Some env) \<and> ie_logical_message env = m \<and> ie_route_type env = DIRECT
            \<and> ie_source_address env = te_source_address ev))"
proof -
  obtain msg where t: "to_text m = Inr msg" "w = ascii_bytes msg" "length msg \<le> ta_max_payload_bytes A" "rt_route_type rt = DIRECT"
    using assms(1) by (auto simp: adapter_encode_def Let_def ascii_bytes_def split: if_splits sum.splits)
  then have dec: "ascii_decode w = Some msg"
    by (simp add: ascii_decode_bytes to_text_ascii)
  note bk = from_to_text [OF t(1) order_trans [OF t(3) assms(3)]]
  show ?thesis
    using assms(2) t bk dec
    by (auto simp: adapter_send_def ingest_def split: option.splits if_splits transport_result.splits)
qed

definition sample_text_adapter :: text_adapter where
  "sample_text_adapter = \<lparr>ta_send_text_checked = (\<lambda>m. Accepted (Some 17)), ta_connection_state = CONNECTED, ta_connection_type = Some SERIAL,
     ta_max_payload_bytes = MESHTASTIC_TEXT_MAX_PAYLOAD_BYTES, ta_control_channel_index = Some 1\<rparr>"

definition sample_text_route :: route where
  "sample_text_route = \<lparr>rt_route_type = DIRECT, rt_route_id = ''!a1b2c3d4'', rt_destination_address = Some ''!a1b2c3d4''\<rparr>"

theorem radio_roundtrip_witness:
  "\<exists>w receipt msg. adapter_encode sample_text_adapter [1, 2, 3] sample_text_route = Inr w
     \<and> adapter_send sample_text_adapter w sample_text_route ''k'' 0 = Inr receipt \<and> length msg \<le> MESHTASTIC_TEXT_MAX_PAYLOAD_BYTES
     \<and> (\<forall>ev. te_text ev = Some msg \<longrightarrow> (\<exists>env. ingest (Some ev) 0 = Inr (Some env) \<and> ie_logical_message env = [1, 2, 3]))"
proof -
  obtain t where t: "to_text [1, 2, 3] = Inr t" "length t = 9"
    by (simp add: to_text_def TEXT_PREFIX_def length_b64url_nopad)
  have e: "adapter_encode sample_text_adapter [1, 2, 3] sample_text_route = Inr (ascii_bytes t)"
    using t by (simp add: adapter_encode_def sample_text_adapter_def sample_text_route_def Let_def ascii_bytes_def MESHTASTIC_TEXT_MAX_PAYLOAD_BYTES_def)
  have "ascii_decode (ascii_bytes t) = Some t"
    using t by (simp add: ascii_decode_bytes to_text_ascii)
  then obtain receipt where r: "adapter_send sample_text_adapter (ascii_bytes t) sample_text_route ''k'' 0 = Inr receipt"
    by (simp add: adapter_send_def sample_text_adapter_def sample_text_route_def)
  have "ta_max_payload_bytes sample_text_adapter \<le> MAX_MESSAGE_RAW_BYTES"
    by (simp add: sample_text_adapter_def MESHTASTIC_TEXT_MAX_PAYLOAD_BYTES_def MAX_MESSAGE_RAW_BYTES_def)
  from radio_roundtrip [OF e r this] e r show ?thesis
    by (fastforce simp: sample_text_adapter_def)
qed

end
