(* ===== verification/Sender.thy ===== *)
theory Sender
  imports Outbox Manifest Relay Workspace Delivery
begin

text \<open>
  The sender state machine, \<open>src/meshsrv/attachments/sender.py\<close>: drafts, the steps from \<open>DRAFT\<close> to \<open>SENT\<close>, the inbound
  acknowledgements, cancellation and revocation. Its world is the database, the Relay it uploads to, and
  what went to the radio. The Relay is the
  argument \<open>R\<close>, one function per request on a state of any type; a request returns the new Relay state together with its
  answer or the exception it raises. Random bytes and uuids are drawn from the supplies in the context, indexed by
  \<open>db_next\<close>. An operation that raises leaves the database at its last commit; where the code commits inside a step
  (after \<open>create_upload\<close>) the model keeps that commit. The vault is off.
\<close>

section \<open>Parameters and world\<close>

record send_ctx =
  sc_env :: mca_env
  sc_content :: "string \<Rightarrow> bytes option"
  sc_disk_usage :: "nat \<times> nat"
  sc_urandom :: "nat \<Rightarrow> nat \<Rightarrow> bytes"
  sc_fromisoformat :: "string \<Rightarrow> int option"

abbreviation sc_X :: "send_ctx \<Rightarrow> ext" where "sc_X C \<equiv> env_X (sc_env C)"

text \<open>\<open>sc_content\<close> reads a file by path, \<open>sc_urandom k n\<close> is the \<open>n\<close> bytes of draw \<open>k\<close>, and \<open>sc_fromisoformat\<close> is
  \<open>int(datetime.fromisoformat(text).timestamp())\<close>, which depends on the machine's time zone for texts without one.\<close>

record chunk_declaration =
  cd_size :: int
  cd_sha256 :: bytes

record upload_request =
  uq_transfer_id :: bytes
  uq_total_size :: int
  uq_ciphertext_sha256 :: bytes
  uq_manifest_size :: int
  uq_manifest_sha256 :: bytes
  uq_chunks :: "chunk_declaration list"
  uq_receipt_hashes :: "bytes list"
  uq_hard_ttl_seconds :: "int option"
  uq_download_grace_seconds :: "int option"

record upload_session =
  us_upload_id :: string
  us_upload_token :: string
  us_revoke_token :: "string option"

record chunk_status =
  cs_index :: int
  cs_uploaded :: bool

record upload_status =
  up_manifest_uploaded :: bool
  up_chunks :: "chunk_status list"

record 'r upload_relay =
  ur_create_upload :: "'r \<Rightarrow> upload_request \<Rightarrow> 'r \<times> (relay_error + upload_session)"
  ur_get_upload_status :: "'r \<Rightarrow> string \<Rightarrow> string \<Rightarrow> 'r \<times> (relay_error + upload_status)"
  ur_upload_chunk :: "'r \<Rightarrow> string \<Rightarrow> string \<Rightarrow> int \<Rightarrow> bytes \<Rightarrow> 'r \<times> (relay_error + unit)"
  ur_upload_manifest :: "'r \<Rightarrow> string \<Rightarrow> string \<Rightarrow> bytes \<Rightarrow> 'r \<times> (relay_error + unit)"
  ur_commit :: "'r \<Rightarrow> string \<Rightarrow> string \<Rightarrow> 'r \<times> (relay_error + object_descriptor)"

text \<open>\<open>sw_radio\<close> lists what was handed to the delivery adapter's \<open>send\<close>: payload, route and idempotency key.\<close>

record 'r send_world =
  sw_db :: mca_db
  sw_relay :: 'r
  sw_radio :: "(bytes \<times> route \<times> string) list"

text \<open>The delivery adapter the code is given.\<close>

record send_adapter =
  sa_encode :: "bytes \<Rightarrow> route \<Rightarrow> delivery_exc + bytes"
  sa_send :: "bytes \<Rightarrow> route \<Rightarrow> string \<Rightarrow> delivery_exc + delivery_receipt"

datatype send_error =
    SenderError
  | S_Codec codec_error
  | S_Identity identity_error
  | S_Crypto crypto_error
  | S_Manifest manifest_error
  | S_Workspace workspace_error
  | S_Registry registry_error
  | S_Delivery delivery_exc
  | S_Relay relay_error
  | S_ValueError
  | S_TypeError
  | S_IntegrityError
  | S_FileNotFound

text \<open>An exception of another module that no handler catches.\<close>

definition escape :: "('e \<Rightarrow> send_error) \<Rightarrow> 'e + 'a \<Rightarrow> send_error + 'a" where
  "escape wrap r = (case r of Inl e \<Rightarrow> Inl (wrap e) | Inr x \<Rightarrow> Inr x)"

definition hex_bytes :: "string \<Rightarrow> send_error + bytes" where
  "hex_bytes s = (case fromhex s of None \<Rightarrow> Inl S_ValueError | Some b \<Rightarrow> Inr b)"

definition required :: "'a option \<Rightarrow> send_error + 'a" where
  "required v = (case v of None \<Rightarrow> Inl S_TypeError | Some x \<Rightarrow> Inr x)"

section \<open>Constants and helpers\<close>

definition SENDER_TERMINAL_STATES :: "att_state list" where
  "SENDER_TERMINAL_STATES =
     [DOWNLOADED, ST_EXPIRED, REVOKED, CANCELLED, ST_REJECTED, FAILED_VALIDATION, FAILED_UPLOAD, FAILED_RADIO]"

definition AUTOMATIC_STATES :: "att_state list" where
  "AUTOMATIC_STATES = [DRAFT, VALIDATING, ENCRYPTING, QUEUED_UPLOAD, UPLOADING, READY_TO_SEND]"

definition DEFAULT_HARD_TTL_SECONDS :: int where "DEFAULT_HARD_TTL_SECONDS = 72 * 3600"
definition SENDER_DOWNLOAD_GRACE_SECONDS :: int where "SENDER_DOWNLOAD_GRACE_SECONDS = 3600"
definition PROVIDER_UNKNOWN_ERROR :: string where "PROVIDER_UNKNOWN_ERROR = ''recipient_provider_unknown''"
definition CANCEL_EVENT_TYPE :: string where "CANCEL_EVENT_TYPE = ''cancel_sent''"
definition KIND_GENERIC :: int where "KIND_GENERIC = 0"
definition MAX_COMMENT_BYTES :: nat where "MAX_COMMENT_BYTES = 1000"

text \<open>\<open>int(x)\<close> truncates towards zero; the column holds its decimal text.\<close>

definition revoke_state_ts :: "timestamp \<Rightarrow> int" where
  "revoke_state_ts unix_seconds = (if unix_seconds < 0 then - \<lfloor>- unix_seconds\<rfloor> else \<lfloor>unix_seconds\<rfloor>)"

definition revoke_delete_after :: "int \<Rightarrow> int \<Rightarrow> timestamp \<Rightarrow> timestamp" where
  "revoke_delete_after hard_expires_at download_grace_seconds now =
     (if 0 < hard_expires_at then of_int hard_expires_at else now + of_int DEFAULT_HARD_TTL_SECONDS)
     + of_int (if download_grace_seconds = 0 then SENDER_DOWNLOAD_GRACE_SECONDS else download_grace_seconds)"

definition normalize_comment :: "string option \<Rightarrow> send_error + string option" where
  "normalize_comment comment =
     (case comment of
        None \<Rightarrow> Inr None
      | Some c \<Rightarrow>
          (let stripped = strip_of text_space c in
           if stripped = [] then Inr None
           else if CHR 0x00 \<in> set stripped then Inl SenderError
           else if MAX_COMMENT_BYTES < length (utf8_encode stripped) then Inl SenderError
           else Inr (Some stripped)))"

definition SIZE_BUCKET_THRESHOLDS :: "int list" where
  "SIZE_BUCKET_THRESHOLDS =
     [64 * 1024, 256 * 1024, 1024 * 1024, 4 * 1024 * 1024, 16 * 1024 * 1024, 64 * 1024 * 1024]"

definition size_bucket_for :: "int \<Rightarrow> int" where
  "size_bucket_for plain_size = int (length (takeWhile (\<lambda>threshold. threshold < plain_size) SIZE_BUCKET_THRESHOLDS))"

definition sender_is_terminal :: "att_state \<Rightarrow> bool" where
  "sender_is_terminal state \<longleftrightarrow> state \<in> set SENDER_TERMINAL_STATES"

text \<open>\<open>_set_state\<close>, without the extra columns some callers write in the same statement.\<close>

definition sender_set_state :: "mca_db \<Rightarrow> string \<Rightarrow> att_state \<Rightarrow> timestamp \<Rightarrow> string option \<Rightarrow> mca_db" where
  "sender_set_state db attachment_id new_state now error_code =
     record_event (update_attachment attachment_id (\<lambda>a. a\<lparr>a_state := new_state, a_error_code := error_code\<rparr>) db)
       attachment_id now ''state_changed''"

definition recipients_for :: "mca_db \<Rightarrow> string \<Rightarrow> recipient_row list" where
  "recipients_for db attachment_id = sort_key rc_id (filter (\<lambda>r. rc_attachment_id r = attachment_id) (db_recipients db))"

definition delivery_for :: "mca_db \<Rightarrow> string \<Rightarrow> send_error + delivery_row" where
  "delivery_for db attachment_id =
     (case sort_key dl_id (filter (\<lambda>d. dl_attachment_id d = attachment_id) (db_deliveries db)) of
        [] \<Rightarrow> Inl SenderError
      | d # _ \<Rightarrow> Inr d)"

definition get_sender_state :: "mca_db \<Rightarrow> string \<Rightarrow> sender_state option" where
  "get_sender_state db attachment_id = find_by ss_attachment_id attachment_id (db_sender_state db)"

definition drop_sender_state :: "string \<Rightarrow> mca_db \<Rightarrow> mca_db" where
  "drop_sender_state attachment_id db =
     db\<lparr>db_sender_state := filter (\<lambda>s. ss_attachment_id s \<noteq> attachment_id) (db_sender_state db)\<rparr>"

definition drop_revoke_state :: "string \<Rightarrow> mca_db \<Rightarrow> mca_db" where
  "drop_revoke_state attachment_id db =
     db\<lparr>db_revoke_state := filter (\<lambda>s. rv_attachment_id s \<noteq> attachment_id) (db_revoke_state db)\<rparr>"

section \<open>Drafts\<close>

record recipient_target =
  rt_public_identity :: bytes
  rt_key_id :: string

record draft_args =
  da_workspace_id :: string
  da_source_path :: string
  da_file_name :: string
  da_mime_type :: string
  da_recipients :: "recipient_target list"
  da_adapter_id :: string
  da_connector_profile_id :: string
  da_route_type :: string
  da_route_id :: string
  da_provider_id :: bytes
  da_comment :: "string option"
  da_hard_ttl_seconds :: int
  da_download_grace_seconds :: int
  da_attachment_id :: "string option"
  da_client_request_id :: "string option"
  da_canonical_hash :: "string option"

definition check_recipient :: "ext \<Rightarrow> recipient_target \<Rightarrow> send_error + unit" where
  "check_recipient X r =
     (if length (rt_public_identity r) \<noteq> 32 then Inl SenderError
      else if compute_key_id X (rt_public_identity r) \<noteq> Inr (rt_key_id r) then Inl SenderError
      else Inr ())"

definition new_sent :: "send_ctx \<Rightarrow> draft_args \<Rightarrow> string \<Rightarrow> bytes \<Rightarrow> string \<Rightarrow> string option \<Rightarrow> timestamp \<Rightarrow> attachment" where
  "new_sent C args attachment_id transfer_id provider_text comment now =
     \<lparr>a_id = attachment_id, a_workspace_id = da_workspace_id args, a_transfer_id = hex_of transfer_id, a_direction = Sent,
      a_principal_id = mp_principal_id (env_principal (sc_env C)), a_sender_principal_id = None, a_sender_public_identity = None,
      a_provider_id = Some provider_text, a_state = DRAFT, a_file_name = Some (da_file_name args), a_mime_type = Some (da_mime_type args),
      a_plain_size = None, a_cipher_size = None, a_plain_sha256 = None, a_created_at = now, a_hard_expires_at = 0,
      a_download_grace_seconds = da_download_grace_seconds args, a_saved_path = Some (da_source_path args), a_error_code = None,
      a_draft_comment = comment, a_pending_offer_cbor = None, a_reply_route_type = None, a_reply_route_id = None,
      a_reply_adapter_id = None, a_reply_connector_profile_id = None, a_reply_destination_address = None,
      a_client_request_id = da_client_request_id args, a_canonical_hash = da_canonical_hash args\<rparr>"

definition draft_conflict :: "mca_db \<Rightarrow> draft_args \<Rightarrow> string \<Rightarrow> string \<Rightarrow> bool" where
  "draft_conflict db args attachment_id transfer_id_hex \<longleftrightarrow>
     list_ex (\<lambda>a. a_id a = attachment_id
       \<or> a_workspace_id a = da_workspace_id args
         \<and> (a_transfer_id a = transfer_id_hex
            \<or> (da_client_request_id args \<noteq> None \<and> a_client_request_id a = da_client_request_id args))) (db_attachments db)"

text \<open>The draws of one call: the attachment id (when the caller gives none), the transfer id, one id per recipient and one
  for the delivery.\<close>

definition create_draft :: "send_ctx \<Rightarrow> mca_db \<Rightarrow> draft_args \<Rightarrow> timestamp \<Rightarrow> send_error + mca_db \<times> string" where
  "create_draft C db args now =
     (let n = db_next db; uuid = env_uuid (sc_env C) in
      if da_recipients args = [] then Inl SenderError
      else if length (da_recipients args) \<noteq> 1 then Inl SenderError
      else if length (da_provider_id args) \<noteq> 8 then Inl SenderError
      else bind_res (traverse_res (check_recipient (sc_X C)) (da_recipients args)) (\<lambda>_.
        bind_res (normalize_comment (da_comment args)) (\<lambda>comment.
        let attachment_id = (case da_attachment_id args of None \<Rightarrow> uuid n | Some i \<Rightarrow> i);
            transfer_id = sc_urandom C (Suc n) 16;
            k = length (da_recipients args) in
        bind_res (escape S_Registry (encode_provider_id (da_provider_id args))) (\<lambda>provider_text.
        if draft_conflict db args attachment_id (hex_of transfer_id) then Inl S_IntegrityError
        else
          Inr (record_event
                 (db\<lparr>db_attachments := db_attachments db @ [new_sent C args attachment_id transfer_id provider_text comment now],
                     db_recipients := db_recipients db @
                       map (\<lambda>(j, r). \<lparr>rc_id = uuid (n + 2 + j), rc_attachment_id = attachment_id, rc_envelope_id = rt_key_id r,
                             rc_recipient_principal_id = Some (rt_key_id r), rc_recipient_public_identity = Some (rt_public_identity r),
                             rc_receipt_secret_hash = None, rc_received_at = None, rc_downloaded_at = None\<rparr>)
                         (enumerate 0 (da_recipients args)),
                     db_deliveries := db_deliveries db @
                       [\<lparr>dl_id = uuid (n + 2 + k), dl_attachment_id = attachment_id, dl_adapter_id = da_adapter_id args,
                         dl_connector_profile_id = da_connector_profile_id args, dl_route_type = da_route_type args,
                         dl_route_id = da_route_id args, dl_idempotency_key = attachment_id, dl_state = D_PENDING,
                         dl_sent_at = None, dl_ack_at = None, dl_external_message_id = None, dl_error_code = None\<rparr>],
                     db_next := n + 3 + k\<rparr>)
                 attachment_id now ''created'',
               attachment_id)))))"

definition fail_recipients_not_trusted :: "mca_db \<Rightarrow> string \<Rightarrow> timestamp \<Rightarrow> mca_db \<times> att_state" where
  "fail_recipients_not_trusted db attachment_id now =
     (sender_set_state db attachment_id FAILED_VALIDATION now (Some ''recipient_not_trusted''), FAILED_VALIDATION)"

section \<open>Validating\<close>

definition step_draft :: "mca_db \<Rightarrow> string \<Rightarrow> timestamp \<Rightarrow> mca_db \<times> att_state" where
  "step_draft db attachment_id now = (sender_set_state db attachment_id VALIDATING now None, VALIDATING)"

definition fail_validation :: "mca_db \<Rightarrow> string \<Rightarrow> timestamp \<Rightarrow> string \<Rightarrow> send_error + mca_db \<times> att_state" where
  "fail_validation db attachment_id now code =
     Inr (sender_set_state db attachment_id FAILED_VALIDATION now (Some code), FAILED_VALIDATION)"

definition step_validating :: "send_ctx \<Rightarrow> mca_db \<Rightarrow> attachment \<Rightarrow> timestamp \<Rightarrow> send_error + mca_db \<times> att_state" where
  "step_validating C db row now =
     (let i = a_id row in
      if recipients_for db i = [] then fail_validation db i now ''no_recipients''
      else case Option.bind (a_saved_path row) (\<lambda>path. if path = [] then None else sc_content C path) of
        None \<Rightarrow> fail_validation db i now ''source_file_missing''
      | Some content \<Rightarrow>
          if strip_of text_space (case a_mime_type row of None \<Rightarrow> [] | Some m \<Rightarrow> m) = [] then fail_validation db i now ''invalid_payload''
          else bind_res (escape S_Workspace (low_disk_level_of (sc_disk_usage C) (a_principal_id row))) (\<lambda>level.
            if level = DISK_BLOCK then fail_validation db i now ''disk_low_block''
            else Inr (sender_set_state (update_attachment i (\<lambda>a. a\<lparr>a_plain_size := Some (int (length content)),
                        a_plain_sha256 := Some (hex_of (sha256 (sc_X C) content))\<rparr>) db) i ENCRYPTING now None, ENCRYPTING)))"

section \<open>Encrypting\<close>

definition public_identity_for :: "recipient_row \<Rightarrow> (string \<rightharpoonup> bytes) \<Rightarrow> send_error + bytes" where
  "public_identity_for recipient_row recipient_identities =
     (case recipient_identities (rc_envelope_id recipient_row) of None \<Rightarrow> Inl SenderError | Some pk \<Rightarrow> Inr pk)"

text \<open>One recipient's envelope and the hash of its receipt secret. The two draws are the receipt secret and the ephemeral
  randomness of the sealed box.\<close>

definition seal_for ::
  "send_ctx \<Rightarrow> bytes \<Rightarrow> bytes \<Rightarrow> int \<Rightarrow> (string \<rightharpoonup> bytes) \<Rightarrow> nat \<Rightarrow> recipient_row \<Rightarrow> send_error + recipient_envelope \<times> bytes" where
  "seal_for C data_key nonce_prefix chunk_count recipient_identities k recipient_row =
     (let receipt_secret = sc_urandom C k 32 in
      bind_res (public_identity_for recipient_row recipient_identities) (\<lambda>public_identity.
      bind_res (escape S_Manifest (seal_recipient_secret (sc_X C)
        \<lparr>rs_data_key = data_key, rs_nonce_prefix = nonce_prefix, rs_receipt_secret = receipt_secret, rs_chunk_count = chunk_count\<rparr>
        public_identity (sc_urandom C (Suc k) 32))) (\<lambda>sealed.
      bind_res (hex_bytes (rc_envelope_id recipient_row)) (\<lambda>key_id_bytes.
      Inr (\<lparr>re_recipient_key_id = key_id_bytes, re_sealed_envelope = sealed\<rparr>, sha256 (sc_X C) receipt_secret)))))"

definition header_of :: "attachment \<Rightarrow> int \<Rightarrow> bytes \<Rightarrow> int \<Rightarrow> manifest_header" where
  "header_of row plain_size plain_sha256 chunk_count =
     \<lparr>mh_file_name = (case a_file_name row of None \<Rightarrow> [] | Some f \<Rightarrow> f),
      mh_mime_type = (case a_mime_type row of None \<Rightarrow> ''application/octet-stream'' | Some m \<Rightarrow> if m = [] then ''application/octet-stream'' else m),
      mh_plain_size = plain_size, mh_plain_sha256 = plain_sha256, mh_chunk_count = chunk_count, mh_comment = a_draft_comment row\<rparr>"

definition save_sender_state :: "mca_db \<Rightarrow> sender_state option \<Rightarrow> string \<Rightarrow> bytes \<Rightarrow> bytes \<Rightarrow> bytes \<Rightarrow> bytes \<Rightarrow> timestamp \<Rightarrow> mca_db" where
  "save_sender_state db existing attachment_id data_key nonce_prefix manifest_blob manifest_sha256 now =
     (case existing of
        None \<Rightarrow> db\<lparr>db_sender_state := db_sender_state db @
          [\<lparr>ss_attachment_id = attachment_id, ss_data_key = data_key, ss_nonce_prefix = nonce_prefix, ss_manifest_blob = manifest_blob,
            ss_manifest_sha256 = manifest_sha256, ss_upload_id = None, ss_upload_token = None, ss_revoke_token = None,
            ss_created_at = now, ss_updated_at = now\<rparr>]\<rparr>
      | Some _ \<Rightarrow> db\<lparr>db_sender_state := update_where (\<lambda>s. ss_attachment_id s = attachment_id)
          (\<lambda>s. s\<lparr>ss_manifest_blob := manifest_blob, ss_manifest_sha256 := manifest_sha256, ss_updated_at := now\<rparr>) (db_sender_state db)\<rparr>)"

definition save_receipt_hash :: "string \<Rightarrow> bytes \<Rightarrow> mca_db \<Rightarrow> mca_db" where
  "save_receipt_hash recipient_id receipt_hash db =
     db\<lparr>db_recipients := update_where (\<lambda>r. rc_id r = recipient_id)
          (\<lambda>r. r\<lparr>rc_receipt_secret_hash := Some (hex_of receipt_hash)\<rparr>) (db_recipients db)\<rparr>"

definition step_encrypting ::
  "send_ctx \<Rightarrow> mca_db \<Rightarrow> attachment \<Rightarrow> timestamp \<Rightarrow> (string \<rightharpoonup> bytes) \<Rightarrow> send_error + mca_db \<times> att_state" where
  "step_encrypting C db row now recipient_identities =
     (let i = a_id row; X = sc_X C; n = db_next db; recipients = recipients_for db i; existing = get_sender_state db i;
          data_key = (case existing of None \<Rightarrow> sc_urandom C n DATA_KEY_BYTES | Some s \<Rightarrow> ss_data_key s);
          nonce_prefix = (case existing of None \<Rightarrow> sc_urandom C (n + 1) NONCE_PREFIX_BYTES | Some s \<Rightarrow> ss_nonce_prefix s) in
      bind_res (hex_bytes (a_transfer_id row)) (\<lambda>transfer_id.
      bind_res (bind_res (required (a_plain_sha256 row)) hex_bytes) (\<lambda>plain_sha256.
      bind_res (required (a_plain_size row)) (\<lambda>plain_size.
      bind_res (escape S_Crypto (for_size plain_size CHUNK_SIZE_BYTES)) (\<lambda>plan.
      bind_res (case Option.bind (a_saved_path row) (sc_content C) of None \<Rightarrow> Inl S_FileNotFound | Some c \<Rightarrow> Inr c) (\<lambda>content.
      bind_res (escape S_Crypto (encrypt_chunks X data_key nonce_prefix transfer_id plain_size content)) (\<lambda>ciphertexts.
      bind_res (traverse_res (\<lambda>(j, r). seal_for C data_key nonce_prefix (cp_chunk_count plan) recipient_identities (n + 2 + 2 * j) r)
                 (enumerate 0 recipients)) (\<lambda>sealed.
      bind_res (escape S_Manifest (build_manifest_blob X transfer_id data_key nonce_prefix
                 (header_of row plain_size plain_sha256 (cp_chunk_count plan)) (map fst sealed))) (\<lambda>manifest_blob.
      let db1 = save_sender_state db existing i data_key nonce_prefix manifest_blob (sha256 X manifest_blob) now;
          db2 = fold (\<lambda>(r, h). save_receipt_hash (rc_id r) h) (zip recipients (map snd sealed)) db1;
          db3 = update_attachment i (\<lambda>a. a\<lparr>a_cipher_size := Some (int (sum_list (map length ciphertexts)))\<rparr>)
                  (db2\<lparr>db_next := n + 2 + 2 * length recipients\<rparr>) in
      Inr (sender_set_state db3 i QUEUED_UPLOAD now None, QUEUED_UPLOAD))))))))))"

section \<open>Uploading\<close>

definition step_queued_upload :: "mca_db \<Rightarrow> attachment \<Rightarrow> timestamp \<Rightarrow> bool \<Rightarrow> mca_db \<times> att_state" where
  "step_queued_upload db row now network_available =
     (if \<not> network_available then (db, QUEUED_UPLOAD)
      else (sender_set_state db (a_id row) UPLOADING now None, UPLOADING))"

definition ensure_revoke_state :: "mca_db \<Rightarrow> string \<Rightarrow> string \<Rightarrow> int \<Rightarrow> int \<Rightarrow> timestamp \<Rightarrow> mca_db" where
  "ensure_revoke_state db attachment_id revoke_token hard_expires_at download_grace_seconds now =
     (let delete_after = revoke_state_ts (revoke_delete_after hard_expires_at download_grace_seconds now); ts = revoke_state_ts now in
      db\<lparr>db_revoke_state := upsert rv_attachment_id
            \<lparr>rv_attachment_id = attachment_id, rv_revoke_token = revoke_token, rv_delete_after = delete_after,
             rv_created_at = ts, rv_updated_at = ts\<rparr>
            (\<lambda>r. r\<lparr>rv_revoke_token := revoke_token, rv_delete_after := delete_after, rv_updated_at := ts\<rparr>) (db_revoke_state db)\<rparr>)"

definition abandon_transfer_id_and_restart ::
  "send_ctx \<Rightarrow> mca_db \<Rightarrow> attachment \<Rightarrow> timestamp \<Rightarrow> string \<Rightarrow> send_error + mca_db \<times> att_state" where
  "abandon_transfer_id_and_restart C db row now reason =
     (let i = a_id row; new_transfer_id = hex_of (sc_urandom C (db_next db) 16);
          tomb = \<lparr>tb_transfer_id = a_transfer_id row, tb_workspace_id = a_workspace_id row, tb_reason = reason,
                  tb_tombstoned_at = now, tb_purge_after = now + 7 * 86400\<rparr> in
      if list_ex (\<lambda>a. a_id a \<noteq> i \<and> a_workspace_id a = a_workspace_id row \<and> a_transfer_id a = new_transfer_id) (db_attachments db)
      then Inl S_IntegrityError
      else Inr (sender_set_state (update_attachment i (\<lambda>a. a\<lparr>a_transfer_id := new_transfer_id\<rparr>)
             (drop_sender_state i (db\<lparr>db_tombstones := filter (\<lambda>t. tb_transfer_id t \<noteq> a_transfer_id row) (db_tombstones db) @ [tomb],
                db_next := Suc (db_next db)\<rparr>))) i ENCRYPTING now (Some reason), ENCRYPTING))"

definition recompute_chunk_declarations ::
  "send_ctx \<Rightarrow> attachment \<Rightarrow> bytes \<Rightarrow> bytes \<Rightarrow> bytes \<Rightarrow> int \<Rightarrow> send_error + chunk_declaration list \<times> bytes" where
  "recompute_chunk_declarations C row data_key nonce_prefix transfer_id plain_size =
     bind_res (case Option.bind (a_saved_path row) (sc_content C) of None \<Rightarrow> Inl S_FileNotFound | Some c \<Rightarrow> Inr c) (\<lambda>content.
     bind_res (escape S_Crypto (encrypt_chunks (sc_X C) data_key nonce_prefix transfer_id plain_size content)) (\<lambda>ciphertexts.
     Inr (map (\<lambda>c. \<lparr>cd_size = int (length c), cd_sha256 = sha256 (sc_X C) c\<rparr>) ciphertexts, sha256 (sc_X C) (concat ciphertexts))))"

definition parse_relay_timestamp :: "send_ctx \<Rightarrow> relay_time \<Rightarrow> send_error + int" where
  "parse_relay_timestamp C t =
     (case t of
        TimeNull \<Rightarrow> Inr 0
      | TimeNum n \<Rightarrow> Inr n
      | TimeText s \<Rightarrow>
          (case sc_fromisoformat C (concat (map (\<lambda>c. if c = CHR ''Z'' then ''+00:00'' else [c]) s)) of
             None \<Rightarrow> Inl S_ValueError | Some n \<Rightarrow> Inr n))"

text \<open>What ends an upload early: a Relay exception, which the step catches in part, or one that escapes.\<close>

datatype upload_stop = StopRelay relay_error | StopOther send_error

definition relay_call :: "'r \<times> (relay_error + 'a) \<Rightarrow> 'r \<times> (upload_stop + 'a)" where
  "relay_call p = (fst p, case snd p of Inl e \<Rightarrow> Inl (StopRelay e) | Inr x \<Rightarrow> Inr x)"

fun upload_missing_chunks ::
  "send_ctx \<Rightarrow> 'r upload_relay \<Rightarrow> string \<Rightarrow> string \<Rightarrow> bytes \<Rightarrow> bytes \<Rightarrow> bytes \<Rightarrow> chunk_plan \<Rightarrow> bytes \<Rightarrow> int list \<Rightarrow> int list \<Rightarrow> 'r
     \<Rightarrow> 'r \<times> (upload_stop + unit)" where
  "upload_missing_chunks C R uid utok data_key nonce_prefix transfer_id plan content uploaded [] r = (r, Inr ())"
| "upload_missing_chunks C R uid utok data_key nonce_prefix transfer_id plan content uploaded (index # rest) r =
     (if index \<in> set uploaded
      then upload_missing_chunks C R uid utok data_key nonce_prefix transfer_id plan content uploaded rest r
      else case bind_res (bounds plan index CHUNK_SIZE_BYTES) (\<lambda>(start, stop).
                  encrypt_chunk (sc_X C) data_key nonce_prefix transfer_id index (cp_chunk_count plan) (cp_plain_size plan)
                    (chunk_slice content start stop)) of
        Inl e \<Rightarrow> (r, Inl (StopOther (S_Crypto e)))
      | Inr ciphertext \<Rightarrow>
          (case ur_upload_chunk R r uid utok index ciphertext of
             (r1, Inl e) \<Rightarrow> (r1, Inl (StopRelay e))
           | (r1, Inr _) \<Rightarrow> upload_missing_chunks C R uid utok data_key nonce_prefix transfer_id plan content uploaded rest r1))"

text \<open>The \<open>try\<close> block: status, missing chunks, manifest, commit.\<close>

definition upload_object ::
  "send_ctx \<Rightarrow> 'r upload_relay \<Rightarrow> string \<Rightarrow> string \<Rightarrow> sender_state \<Rightarrow> bytes \<Rightarrow> chunk_plan \<Rightarrow> attachment \<Rightarrow> 'r \<Rightarrow> 'r \<times> (upload_stop + object_descriptor)" where
  "upload_object C R uid utok state transfer_id plan row r =
     (case ur_get_upload_status R r uid utok of
        (r1, Inl e) \<Rightarrow> (r1, Inl (StopRelay e))
      | (r1, Inr status) \<Rightarrow>
          (case Option.bind (a_saved_path row) (sc_content C) of
             None \<Rightarrow> (r1, Inl (StopOther S_FileNotFound))
           | Some content \<Rightarrow>
               (case upload_missing_chunks C R uid utok (ss_data_key state) (ss_nonce_prefix state) transfer_id plan content
                       (map cs_index (filter cs_uploaded (up_chunks status))) [0..cp_chunk_count plan - 1] r1 of
                  (r2, Inl e) \<Rightarrow> (r2, Inl e)
                | (r2, Inr _) \<Rightarrow>
                    (case (if up_manifest_uploaded status then (r2, Inr ())
                           else ur_upload_manifest R r2 uid utok (ss_manifest_blob state)) of
                       (r3, Inl e) \<Rightarrow> (r3, Inl (StopRelay e))
                     | (r3, Inr _) \<Rightarrow> relay_call (ur_commit R r3 uid utok)))))"

definition upload_request_of ::
  "send_ctx \<Rightarrow> mca_db \<Rightarrow> attachment \<Rightarrow> sender_state \<Rightarrow> bytes \<Rightarrow> int \<Rightarrow> send_error + upload_request" where
  "upload_request_of C db row state transfer_id plain_size =
     bind_res (traverse_res (\<lambda>r. bind_res (required (rc_receipt_secret_hash r)) hex_bytes) (recipients_for db (a_id row))) (\<lambda>receipt_hashes.
     bind_res (recompute_chunk_declarations C row (ss_data_key state) (ss_nonce_prefix state) transfer_id plain_size) (\<lambda>(chunks, ciphertext_sha256).
     Inr \<lparr>uq_transfer_id = transfer_id, uq_total_size = sum_list (map cd_size chunks), uq_ciphertext_sha256 = ciphertext_sha256,
          uq_manifest_size = int (length (ss_manifest_blob state)), uq_manifest_sha256 = ss_manifest_sha256 state,
          uq_chunks = chunks, uq_receipt_hashes = receipt_hashes, uq_hard_ttl_seconds = Some DEFAULT_HARD_TTL_SECONDS,
          uq_download_grace_seconds = Some (if a_download_grace_seconds row = 0 then SENDER_DOWNLOAD_GRACE_SECONDS
                                            else a_download_grace_seconds row)\<rparr>))"

definition save_upload_session :: "string \<Rightarrow> upload_session \<Rightarrow> timestamp \<Rightarrow> mca_db \<Rightarrow> mca_db" where
  "save_upload_session attachment_id session now db =
     db\<lparr>db_sender_state := update_where (\<lambda>s. ss_attachment_id s = attachment_id)
          (\<lambda>s. s\<lparr>ss_upload_id := Some (us_upload_id session), ss_upload_token := Some (us_upload_token session),
                 ss_revoke_token := us_revoke_token session, ss_updated_at := now\<rparr>) (db_sender_state db)\<rparr>"

definition park :: "'r send_world \<Rightarrow> 'r \<Rightarrow> string \<Rightarrow> att_state \<Rightarrow> timestamp \<Rightarrow> string \<Rightarrow> 'r send_world \<times> (send_error + att_state)" where
  "park W r attachment_id state now code =
     (W\<lparr>sw_db := sender_set_state (sw_db W) attachment_id state now (Some code), sw_relay := r\<rparr>, Inr state)"

definition upload_and_commit ::
  "send_ctx \<Rightarrow> 'r upload_relay \<Rightarrow> 'r send_world \<Rightarrow> attachment \<Rightarrow> sender_state \<Rightarrow> bytes \<Rightarrow> chunk_plan \<Rightarrow> string \<Rightarrow> string \<Rightarrow> string option
    \<Rightarrow> timestamp \<Rightarrow> 'r send_world \<times> (send_error + att_state)" where
  "upload_and_commit C R W row state transfer_id plan uid utok revoke_token now =
     (let i = a_id row in
      case upload_object C R uid utok state transfer_id plan row (sw_relay W) of
        (r, Inl (StopRelay RelayUnavailableError)) \<Rightarrow> park W r i QUEUED_UPLOAD now ''relay_unavailable''
      | (r, Inl (StopRelay (RelayHTTPError status code))) \<Rightarrow>
          park W r i FAILED_UPLOAD now (''relay_http_'' @ dec_of_int status @ ''_'' @ code)
      | (r, Inl (StopRelay e)) \<Rightarrow> (W\<lparr>sw_relay := r\<rparr>, Inl (S_Relay e))
      | (r, Inl (StopOther e)) \<Rightarrow> (W\<lparr>sw_relay := r\<rparr>, Inl e)
      | (r, Inr descriptor) \<Rightarrow>
          (case parse_relay_timestamp C (d_hard_expires_at descriptor) of
             Inl e \<Rightarrow> (W\<lparr>sw_relay := r\<rparr>, Inl e)
           | Inr hard_expires_at \<Rightarrow>
               (let db1 = (case revoke_token of None \<Rightarrow> sw_db W
                           | Some t \<Rightarrow> ensure_revoke_state (sw_db W) i t hard_expires_at (a_download_grace_seconds row) now);
                    db2 = update_attachment i (\<lambda>a. a\<lparr>a_hard_expires_at := hard_expires_at\<rparr>) db1 in
                (W\<lparr>sw_db := sender_set_state db2 i READY_TO_SEND now None, sw_relay := r\<rparr>, Inr READY_TO_SEND))))"

text \<open>The upload token is written together with the upload id, so it is there whenever the id is.\<close>

definition step_uploading ::
  "send_ctx \<Rightarrow> 'r upload_relay \<Rightarrow> 'r send_world \<Rightarrow> attachment \<Rightarrow> timestamp \<Rightarrow> 'r send_world \<times> (send_error + att_state)" where
  "step_uploading C R W row now =
     (let db = sw_db W; i = a_id row in
      case bind_res (hex_bytes (a_transfer_id row)) (\<lambda>transfer_id.
           bind_res (case get_sender_state db i of None \<Rightarrow> Inl SenderError | Some s \<Rightarrow> Inr s) (\<lambda>state.
           bind_res (required (a_plain_size row)) (\<lambda>plain_size.
           bind_res (escape S_Crypto (for_size plain_size CHUNK_SIZE_BYTES)) (\<lambda>plan.
           Inr (transfer_id, state, plan))))) of
        Inl e \<Rightarrow> (W, Inl e)
      | Inr (transfer_id, state, plan) \<Rightarrow>
          (case ss_upload_id state of
             Some uid \<Rightarrow> upload_and_commit C R W row state transfer_id plan uid
                            (case ss_upload_token state of None \<Rightarrow> [] | Some t \<Rightarrow> t) (ss_revoke_token state) now
           | None \<Rightarrow>
               (case upload_request_of C db row state transfer_id (cp_plain_size plan) of
                  Inl e \<Rightarrow> (W, Inl e)
                | Inr request \<Rightarrow>
                    (case ur_create_upload R (sw_relay W) request of
                       (r, Inl (RelayHTTPError status code)) \<Rightarrow>
                         if code = ''transfer_exists''
                         then (case abandon_transfer_id_and_restart C db row now ''orphaned_upload_session'' of
                                 Inl e \<Rightarrow> (W\<lparr>sw_relay := r\<rparr>, Inl e)
                               | Inr (db', st) \<Rightarrow> (W\<lparr>sw_db := db', sw_relay := r\<rparr>, Inr st))
                         else park W r i FAILED_UPLOAD now (''create_upload_http_'' @ dec_of_int status @ ''_'' @ code)
                     | (r, Inl RelayUnavailableError) \<Rightarrow> park W r i QUEUED_UPLOAD now ''relay_unavailable''
                     | (r, Inl e) \<Rightarrow> (W\<lparr>sw_relay := r\<rparr>, Inl (S_Relay e))
                     | (r, Inr session) \<Rightarrow>
                         upload_and_commit C R (W\<lparr>sw_db := save_upload_session i session now db, sw_relay := r\<rparr>) row state
                           transfer_id plan (us_upload_id session) (us_upload_token session) (us_revoke_token session) now))))"

section \<open>Sending the OFFER\<close>

fun delivery_error_name :: "delivery_error \<Rightarrow> string" where
  "delivery_error_name (PayloadTooLargeError n m) = ''PayloadTooLargeError''"
| "delivery_error_name UnsupportedRouteError = ''UnsupportedRouteError''"
| "delivery_error_name ConnectorUnavailableError = ''ConnectorUnavailableError''"
| "delivery_error_name MalformedPayload = ''DeliveryError''"

definition update_delivery :: "string \<Rightarrow> (delivery_row \<Rightarrow> delivery_row) \<Rightarrow> mca_db \<Rightarrow> mca_db" where
  "update_delivery delivery_id f db = db\<lparr>db_deliveries := update_where (\<lambda>d. dl_id d = delivery_id) f (db_deliveries db)\<rparr>"

definition offer_for :: "send_ctx \<Rightarrow> attachment \<Rightarrow> send_error + offer_fields" where
  "offer_for C row =
     bind_res (bind_res (required (a_provider_id row)) (\<lambda>t. escape S_Registry (decode_provider_id t))) (\<lambda>provider_id.
     bind_res (hex_bytes (a_transfer_id row)) (\<lambda>transfer_id.
     bind_res (hex_bytes (mp_key_id (env_principal (sc_env C)))) (\<lambda>sender_key_id.
     Inr \<lparr>o_provider_id = provider_id, o_transfer_id = transfer_id, o_sender_key_id = sender_key_id, o_kind = KIND_GENERIC,
          o_size_bucket = size_bucket_for (case a_plain_size row of None \<Rightarrow> 0 | Some n \<Rightarrow> n),
          o_hard_expires_at = a_hard_expires_at row, o_flags = 0, o_signature = None\<rparr>)))"

definition step_ready_to_send ::
  "send_ctx \<Rightarrow> bytes \<Rightarrow> send_adapter \<Rightarrow> 'r send_world \<Rightarrow> attachment \<Rightarrow> timestamp \<Rightarrow> 'r send_world \<times> (send_error + att_state)" where
  "step_ready_to_send C signing_key A W row now =
     (let db = sw_db W; i = a_id row in
      case bind_res (delivery_for db i) (\<lambda>delivery.
           bind_res (case route_type_of (dl_route_type delivery) of None \<Rightarrow> Inl S_ValueError | Some t \<Rightarrow> Inr t) (\<lambda>t.
           let route = \<lparr>rt_route_type = t, rt_route_id = dl_route_id delivery, rt_destination_address = Some (dl_route_id delivery)\<rparr> in
           bind_res (offer_for C row) (\<lambda>fields.
           bind_res (escape S_Codec (encode_offer (sc_X C) fields signing_key)) (\<lambda>logical_message.
           bind_res (escape S_Delivery (sa_encode A logical_message route)) (\<lambda>wire_payload.
           Inr (delivery, route, wire_payload)))))) of
        Inl e \<Rightarrow> (W, Inl e)
      | Inr (delivery, route, wire_payload) \<Rightarrow>
          (let W1 = W\<lparr>sw_radio := sw_radio W @ [(wire_payload, route, i)]\<rparr> in
           case sa_send A wire_payload route i of
             Inl (DeliveryError e) \<Rightarrow>
               (W1\<lparr>sw_db := sender_set_state (update_delivery (dl_id delivery)
                     (\<lambda>d. d\<lparr>dl_state := D_FAILED, dl_error_code := Some (delivery_error_name e)\<rparr>) db) i READY_TO_SEND now (Some ''radio_send_failed'')\<rparr>,
                Inr READY_TO_SEND)
           | Inl e \<Rightarrow> (W1, Inl (S_Delivery e))
           | Inr receipt \<Rightarrow>
               if \<not> dr_sent receipt
               then (W1\<lparr>sw_db := sender_set_state db i READY_TO_SEND now (Some ''radio_send_not_confirmed'')\<rparr>, Inr READY_TO_SEND)
               else (W1\<lparr>sw_db := sender_set_state (update_delivery (dl_id delivery)
                       (\<lambda>d. d\<lparr>dl_state := D_SENT, dl_sent_at := Some now, dl_external_message_id := dr_external_message_id receipt\<rparr>) db) i SENT now None\<rparr>,
                     Inr SENT)))"

section \<open>Inbound acknowledgements\<close>

definition coalesce :: "'a option \<Rightarrow> 'a \<Rightarrow> 'a option" where
  "coalesce v x = (case v of None \<Rightarrow> Some x | Some y \<Rightarrow> Some y)"

text \<open>The update of every recipient row of an attachment, one \<open>UPDATE ... WHERE id = ?\<close> each.\<close>

definition update_recipients :: "string \<Rightarrow> (recipient_row \<Rightarrow> recipient_row) \<Rightarrow> mca_db \<Rightarrow> mca_db" where
  "update_recipients attachment_id f db =
     fold (\<lambda>r d. d\<lparr>db_recipients := update_where (\<lambda>x. rc_id x = rc_id r) f (db_recipients d)\<rparr>) (recipients_for db attachment_id) db"

definition delete_transient_sender_state_keeping_revoke :: "mca_db \<Rightarrow> attachment \<Rightarrow> timestamp \<Rightarrow> mca_db" where
  "delete_transient_sender_state_keeping_revoke db row now =
     (let i = a_id row;
          db1 = (case Option.bind (get_sender_state db i) ss_revoke_token of
                   None \<Rightarrow> db
                 | Some t \<Rightarrow> ensure_revoke_state db i t (a_hard_expires_at row) (a_download_grace_seconds row) now) in
      drop_sender_state i db1)"

definition move_clear :: "mca_db \<Rightarrow> string \<Rightarrow> att_state \<Rightarrow> timestamp \<Rightarrow> string \<Rightarrow> mca_db" where
  "move_clear db attachment_id state now event_type =
     record_event (update_attachment attachment_id (\<lambda>a. a\<lparr>a_state := state, a_error_code := None\<rparr>) db) attachment_id now event_type"

definition apply_ack_received :: "mca_db \<Rightarrow> attachment \<Rightarrow> timestamp \<Rightarrow> send_error + mca_db \<times> att_state" where
  "apply_ack_received db row now =
     (let i = a_id row; state = a_state row in
      if state \<in> set [RECEIVED, DOWNLOADED] then Inr (db, state)
      else if state \<noteq> SENT then Inr (db, state)
      else bind_res (delivery_for db i) (\<lambda>delivery.
        Inr (move_clear (update_delivery (dl_id delivery)
               (\<lambda>d. d\<lparr>dl_state := D_RECEIVED, dl_ack_at := coalesce (dl_ack_at d) now, dl_error_code := None\<rparr>)
               (update_recipients i (\<lambda>r. r\<lparr>rc_received_at := coalesce (rc_received_at r) now\<rparr>) db)) i RECEIVED now ''ack_received'',
             RECEIVED)))"

definition apply_ack_downloaded :: "mca_db \<Rightarrow> attachment \<Rightarrow> timestamp \<Rightarrow> send_error + mca_db \<times> att_state" where
  "apply_ack_downloaded db row now =
     (let i = a_id row; state = a_state row in
      if state = DOWNLOADED then Inr (db, state)
      else if state \<notin> set [SENT, RECEIVED] then Inr (db, state)
      else bind_res (delivery_for db i) (\<lambda>delivery.
        Inr (delete_transient_sender_state_keeping_revoke
               (move_clear (update_delivery (dl_id delivery)
                  (\<lambda>d. d\<lparr>dl_state := D_DOWNLOADED, dl_ack_at := coalesce (dl_ack_at d) now, dl_error_code := None\<rparr>)
                  (update_recipients i (\<lambda>r. r\<lparr>rc_received_at := coalesce (rc_received_at r) now,
                                               rc_downloaded_at := coalesce (rc_downloaded_at r) now\<rparr>) db)) i DOWNLOADED now ''ack_downloaded'')
               row now,
             DOWNLOADED)))"

definition apply_ack_provider_unknown :: "mca_db \<Rightarrow> attachment \<Rightarrow> timestamp \<Rightarrow> send_error + mca_db \<times> att_state" where
  "apply_ack_provider_unknown db row now =
     (let i = a_id row; state = a_state row in
      if state \<in> set [RECEIVED, DOWNLOADED] then Inr (db, state)
      else if state \<noteq> SENT then Inr (db, state)
      else bind_res (delivery_for db i) (\<lambda>delivery.
        if dl_state delivery = D_PROVIDER_UNKNOWN then Inr (db, state)
        else Inr (record_event (update_delivery (dl_id delivery)
               (\<lambda>d. d\<lparr>dl_state := D_PROVIDER_UNKNOWN, dl_ack_at := coalesce (dl_ack_at d) now, dl_error_code := Some PROVIDER_UNKNOWN_ERROR\<rparr>)
               (update_attachment i (\<lambda>a. a\<lparr>a_error_code := Some PROVIDER_UNKNOWN_ERROR\<rparr>) db)) i now ''ack_provider_unknown'',
             SENT)))"

definition with_row :: "mca_db \<Rightarrow> string \<Rightarrow> (attachment \<Rightarrow> send_error + 'a) \<Rightarrow> send_error + 'a" where
  "with_row db attachment_id f = (case find_attachment db attachment_id of None \<Rightarrow> Inl SenderError | Some row \<Rightarrow> f row)"

definition apply_ack :: "mca_db \<Rightarrow> string \<Rightarrow> message_type \<Rightarrow> timestamp \<Rightarrow> send_error + mca_db \<times> att_state" where
  "apply_ack db attachment_id message_type now =
     with_row db attachment_id (\<lambda>row.
       case message_type of
         ACK_RECEIVED \<Rightarrow> apply_ack_received db row now
       | ACK_DOWNLOADED \<Rightarrow> apply_ack_downloaded db row now
       | ACK_PROVIDER_UNKNOWN \<Rightarrow> apply_ack_provider_unknown db row now
       | _ \<Rightarrow> Inl SenderError)"

definition apply_rejected :: "mca_db \<Rightarrow> string \<Rightarrow> timestamp \<Rightarrow> send_error + mca_db \<times> att_state" where
  "apply_rejected db attachment_id now =
     with_row db attachment_id (\<lambda>row.
       if sender_is_terminal (a_state row) then Inr (db, a_state row)
       else if a_state row \<notin> set [SENT, RECEIVED] then Inr (db, a_state row)
       else Inr (delete_transient_sender_state_keeping_revoke (move_clear db attachment_id ST_REJECTED now ''rejected'') row now, ST_REJECTED))"

definition apply_expired :: "mca_db \<Rightarrow> string \<Rightarrow> timestamp \<Rightarrow> send_error + mca_db \<times> att_state" where
  "apply_expired db attachment_id now =
     with_row db attachment_id (\<lambda>row.
       if sender_is_terminal (a_state row) then Inr (db, a_state row)
       else if a_state row \<notin> set [SENT, RECEIVED] then Inr (db, a_state row)
       else if a_hard_expires_at row \<le> 0 then Inr (db, a_state row)
       else if now < of_int (a_hard_expires_at row) then Inr (db, a_state row)
       else Inr (delete_transient_sender_state_keeping_revoke (move_clear db attachment_id ST_EXPIRED now ''expired'') row now, ST_EXPIRED))"

section \<open>Cancel and revoke\<close>

definition cancel :: "mca_db \<Rightarrow> string \<Rightarrow> timestamp \<Rightarrow> send_error + mca_db \<times> att_state" where
  "cancel db attachment_id now =
     with_row db attachment_id (\<lambda>row.
       if sender_is_terminal (a_state row) \<or> a_state row \<in> set [SENT, RECEIVED, DOWNLOADED] then Inl SenderError
       else Inr (drop_revoke_state attachment_id (drop_sender_state attachment_id
                   (sender_set_state db attachment_id CANCELLED now None)), CANCELLED))"

definition revoke :: "mca_db \<Rightarrow> string \<Rightarrow> timestamp \<Rightarrow> send_error + mca_db \<times> att_state" where
  "revoke db attachment_id now =
     with_row db attachment_id (\<lambda>row.
       if a_state row \<notin> set [SENT, RECEIVED, DOWNLOADED] then Inl SenderError
       else Inr (drop_revoke_state attachment_id (drop_sender_state attachment_id
                   (sender_set_state db attachment_id REVOKED now None)), REVOKED))"

section \<open>The step dispatcher\<close>

definition commit_db :: "'r send_world \<Rightarrow> send_error + mca_db \<times> att_state \<Rightarrow> 'r send_world \<times> (send_error + att_state)" where
  "commit_db W r = (case r of Inl e \<Rightarrow> (W, Inl e) | Inr (db, st) \<Rightarrow> (W\<lparr>sw_db := db\<rparr>, Inr st))"

definition sender_run_step ::
  "send_ctx \<Rightarrow> (string \<rightharpoonup> bytes) option \<Rightarrow> 'r upload_relay option \<Rightarrow> send_adapter option \<Rightarrow> bool \<Rightarrow> 'r send_world \<Rightarrow> string \<Rightarrow> timestamp
    \<Rightarrow> 'r send_world \<times> (send_error + att_state)" where
  "sender_run_step C recipient_identities relay_client adapter network_available W attachment_id now =
     (case find_attachment (sw_db W) attachment_id of
        None \<Rightarrow> (W, Inl SenderError)
      | Some row \<Rightarrow>
          (case a_state row of
             DRAFT \<Rightarrow> commit_db W (Inr (step_draft (sw_db W) attachment_id now))
           | VALIDATING \<Rightarrow> commit_db W (step_validating C (sw_db W) row now)
           | ENCRYPTING \<Rightarrow>
               (case recipient_identities of
                  None \<Rightarrow> (W, Inl SenderError)
                | Some ids \<Rightarrow> commit_db W (step_encrypting C (sw_db W) row now ids))
           | QUEUED_UPLOAD \<Rightarrow> commit_db W (Inr (step_queued_upload (sw_db W) row now network_available))
           | UPLOADING \<Rightarrow>
               (case relay_client of
                  None \<Rightarrow> (W, Inl SenderError)
                | Some R \<Rightarrow> step_uploading C R W row now)
           | READY_TO_SEND \<Rightarrow>
               (case adapter of
                  None \<Rightarrow> (W, Inl SenderError)
                | Some A \<Rightarrow>
                    (case load_signing_key (sc_X C) (env_ids (sc_env C)) (env_principal (sc_env C)) of
                       Inl e \<Rightarrow> (W, Inl (S_Identity e))
                     | Inr signing_key \<Rightarrow> step_ready_to_send C signing_key A W row now))
           | state \<Rightarrow> (W, Inr state)))"

text \<open>\<open>resume_pending\<close>: the inner loop runs at most \<open>max_steps_per_attachment\<close> times; \<open>clock i k\<close> is the time read with
  \<open>k\<close> iterations left. An exception ends the whole call.\<close>

fun drive ::
  "send_ctx \<Rightarrow> (string \<rightharpoonup> bytes) option \<Rightarrow> 'r upload_relay option \<Rightarrow> send_adapter option \<Rightarrow> bool \<Rightarrow> (string \<Rightarrow> nat \<Rightarrow> timestamp)
    \<Rightarrow> string \<Rightarrow> nat \<Rightarrow> 'r send_world \<Rightarrow> 'r send_world \<times> (send_error + unit)" where
  "drive C ids R A net clock i 0 W = (W, Inr ())"
| "drive C ids R A net clock i (Suc k) W =
     (case state_of (sw_db W) i of
        None \<Rightarrow> (W, Inl SenderError)
      | Some state \<Rightarrow>
          if state \<notin> set AUTOMATIC_STATES then (W, Inr ())
          else if state = QUEUED_UPLOAD \<and> \<not> net then (W, Inr ())
          else case sender_run_step C ids R A net W i (clock i k) of
            (W', Inl e) \<Rightarrow> (W', Inl e)
          | (W', Inr new_state) \<Rightarrow> if new_state = state then (W', Inr ()) else drive C ids R A net clock i k W')"

fun resume_rows ::
  "send_ctx \<Rightarrow> (string \<Rightarrow> (string \<rightharpoonup> bytes) option) \<Rightarrow> 'r upload_relay option \<Rightarrow> send_adapter option \<Rightarrow> bool \<Rightarrow> (string \<Rightarrow> nat \<Rightarrow> timestamp)
    \<Rightarrow> nat \<Rightarrow> attachment list \<Rightarrow> string list \<Rightarrow> 'r send_world \<Rightarrow> 'r send_world \<times> (send_error + string list)" where
  "resume_rows C ids R A net clock max_steps [] touched W = (W, Inr touched)"
| "resume_rows C ids R A net clock max_steps (row # rest) touched W =
     (if a_state row \<notin> set AUTOMATIC_STATES then resume_rows C ids R A net clock max_steps rest touched W
      else case drive C (ids (a_id row)) R A net clock (a_id row) max_steps W of
        (W', Inl e) \<Rightarrow> (W', Inl e)
      | (W', Inr _) \<Rightarrow> resume_rows C ids R A net clock max_steps rest (touched @ [a_id row]) W')"

definition resume_pending ::
  "send_ctx \<Rightarrow> (string \<Rightarrow> (string \<rightharpoonup> bytes) option) \<Rightarrow> 'r upload_relay option \<Rightarrow> send_adapter option \<Rightarrow> bool \<Rightarrow> (string \<Rightarrow> nat \<Rightarrow> timestamp)
    \<Rightarrow> nat \<Rightarrow> 'r send_world \<Rightarrow> 'r send_world \<times> (send_error + string list)" where
  "resume_pending C ids R A net clock max_steps W =
     resume_rows C ids R A net clock max_steps (filter (\<lambda>a. a_direction a = Sent) (db_attachments (sw_db W))) [] W"

end
