(* ===== verification/Sender_Properties.thy ===== *)
theory Sender_Properties
  imports Sender Outbox_Properties
begin

text \<open>
  What the sender promises over every interleaving of drafts, steps with any Relay and radio behaviour, inbound
  acknowledgements, cancellation and revocation: rows move only along the state diagram, acknowledgements converge
  whatever their order, and a committed Relay object stays revocable.
\<close>

section \<open>What an operation leaves of a row\<close>

text \<open>The three records kept of one attachment: its row, the transient sender state, the retained revoke capability.\<close>

definition revoke_of :: "mca_db \<Rightarrow> string \<Rightarrow> revoke_state option" where
  "revoke_of db attachment_id = find_by rv_attachment_id attachment_id (db_revoke_state db)"

lemma find_by_filter_key:
  "find_by key k (filter (\<lambda>r. key r \<noteq> i) rows) = (if k = i then None else find_by key k rows)"
  by (induction rows) auto

lemma find_attachment_frame [simp]:
  "find_attachment (db\<lparr>db_recipients := v1\<rparr>) j = find_attachment db j"
  "find_attachment (db\<lparr>db_deliveries := v2\<rparr>) j = find_attachment db j"
  "find_attachment (db\<lparr>db_sender_state := v3\<rparr>) j = find_attachment db j"
  "find_attachment (db\<lparr>db_revoke_state := v4\<rparr>) j = find_attachment db j"
  "find_attachment (db\<lparr>db_tombstones := v5\<rparr>) j = find_attachment db j"
  "find_attachment (db\<lparr>db_next := v6\<rparr>) j = find_attachment db j"
  "find_attachment (drop_sender_state i db) j = find_attachment db j"
  "find_attachment (drop_revoke_state i db) j = find_attachment db j"
  "find_attachment (update_delivery d g db) j = find_attachment db j"
  "find_attachment (save_upload_session i s t db) j = find_attachment db j"
  "find_attachment (save_receipt_hash q h db) j = find_attachment db j"
  "find_attachment (ensure_revoke_state db i tok hx gx now) j = find_attachment db j"
  "find_attachment (save_sender_state db ex i dk np mb ms now) j = find_attachment db j"
  by (simp_all add: find_attachment_def drop_sender_state_def drop_revoke_state_def update_delivery_def save_upload_session_def
      save_receipt_hash_def ensure_revoke_state_def save_sender_state_def Let_def split: option.splits)

lemma get_sender_state_frame [simp]:
  "get_sender_state (db\<lparr>db_recipients := v1\<rparr>) j = get_sender_state db j"
  "get_sender_state (db\<lparr>db_deliveries := v2\<rparr>) j = get_sender_state db j"
  "get_sender_state (db\<lparr>db_revoke_state := v4\<rparr>) j = get_sender_state db j"
  "get_sender_state (db\<lparr>db_tombstones := v5\<rparr>) j = get_sender_state db j"
  "get_sender_state (db\<lparr>db_next := v6\<rparr>) j = get_sender_state db j"
  "get_sender_state (drop_sender_state i db) j = (if j = i then None else get_sender_state db j)"
  "get_sender_state (drop_revoke_state i db) j = get_sender_state db j"
  "get_sender_state (update_delivery d g db) j = get_sender_state db j"
  "get_sender_state (update_attachment i f db) j = get_sender_state db j"
  "get_sender_state (record_event db i t e) j = get_sender_state db j"
  "get_sender_state (save_receipt_hash q h db) j = get_sender_state db j"
  "get_sender_state (ensure_revoke_state db i tok hx gx now) j = get_sender_state db j"
  by (simp_all add: get_sender_state_def drop_sender_state_def drop_revoke_state_def update_delivery_def
      save_receipt_hash_def ensure_revoke_state_def Let_def find_by_filter_key)

lemma revoke_of_frame [simp]:
  "revoke_of (db\<lparr>db_recipients := v1\<rparr>) j = revoke_of db j"
  "revoke_of (db\<lparr>db_deliveries := v2\<rparr>) j = revoke_of db j"
  "revoke_of (db\<lparr>db_sender_state := v3\<rparr>) j = revoke_of db j"
  "revoke_of (db\<lparr>db_tombstones := v5\<rparr>) j = revoke_of db j"
  "revoke_of (db\<lparr>db_next := v6\<rparr>) j = revoke_of db j"
  "revoke_of (drop_sender_state i db) j = revoke_of db j"
  "revoke_of (drop_revoke_state i db) j = (if j = i then None else revoke_of db j)"
  "revoke_of (update_delivery d g db) j = revoke_of db j"
  "revoke_of (update_attachment i f db) j = revoke_of db j"
  "revoke_of (record_event db i t e) j = revoke_of db j"
  "revoke_of (save_upload_session i s t db) j = revoke_of db j"
  "revoke_of (save_receipt_hash q h db) j = revoke_of db j"
  "revoke_of (save_sender_state db ex i dk np mb ms now) j = revoke_of db j"
  by (simp_all add: revoke_of_def drop_sender_state_def drop_revoke_state_def update_delivery_def save_upload_session_def
      save_receipt_hash_def save_sender_state_def Let_def find_by_filter_key split: option.splits)

lemma revoke_of_ensure:
  "revoke_of (ensure_revoke_state db i tok h g now) j =
     (if j = i then Some (case revoke_of db j of
          None \<Rightarrow> \<lparr>rv_attachment_id = i, rv_revoke_token = tok, rv_delete_after = revoke_state_ts (revoke_delete_after h g now),
                   rv_created_at = revoke_state_ts now, rv_updated_at = revoke_state_ts now\<rparr>
        | Some r \<Rightarrow> r\<lparr>rv_revoke_token := tok, rv_delete_after := revoke_state_ts (revoke_delete_after h g now), rv_updated_at := revoke_state_ts now\<rparr>)
      else revoke_of db j)"
  by (simp add: revoke_of_def ensure_revoke_state_def Let_def find_by_upsert)

lemma get_sender_state_session:
  "get_sender_state (save_upload_session i s now db) j =
     (if j = i then map_option (\<lambda>x. x\<lparr>ss_upload_id := Some (us_upload_id s), ss_upload_token := Some (us_upload_token s),
        ss_revoke_token := us_revoke_token s, ss_updated_at := now\<rparr>) (get_sender_state db j)
      else get_sender_state db j)"
  by (simp add: get_sender_state_def save_upload_session_def find_by_update_same find_by_update_other)

lemma get_sender_state_save:
  assumes "existing = get_sender_state db i"
  shows "get_sender_state (save_sender_state db existing i dk np mb ms now) j =
    (if j = i then Some (case existing of
       None \<Rightarrow> \<lparr>ss_attachment_id = i, ss_data_key = dk, ss_nonce_prefix = np, ss_manifest_blob = mb, ss_manifest_sha256 = ms,
                ss_upload_id = None, ss_upload_token = None, ss_revoke_token = None, ss_created_at = now, ss_updated_at = now\<rparr>
     | Some s \<Rightarrow> s\<lparr>ss_manifest_blob := mb, ss_manifest_sha256 := ms, ss_updated_at := now\<rparr>)
     else get_sender_state db j)"
  using assms by (auto simp: get_sender_state_def save_sender_state_def find_by_append find_by_update_same find_by_update_other
      split: option.splits)

text \<open>The two loops over recipient rows touch nothing else.\<close>

lemma fold_frame:
  assumes "\<And>x d. P (g x d) = P d"
  shows "P (fold g xs db) = P db"
  using assms by (induction xs arbitrary: db) simp_all

lemma update_recipients_frame [simp]:
  "find_attachment (update_recipients i f db) j = find_attachment db j"
  "get_sender_state (update_recipients i f db) j = get_sender_state db j"
  "revoke_of (update_recipients i f db) j = revoke_of db j"
  unfolding update_recipients_def by (rule fold_frame, simp)+

lemma save_receipt_hashes_frame [simp]:
  "find_attachment (fold (\<lambda>(r, h). save_receipt_hash (k r) h) xs db) j = find_attachment db j"
  "get_sender_state (fold (\<lambda>(r, h). save_receipt_hash (k r) h) xs db) j = get_sender_state db j"
  "revoke_of (fold (\<lambda>(r, h). save_receipt_hash (k r) h) xs db) j = revoke_of db j"
  by (rule fold_frame, simp add: case_prod_beta)+

lemma find_sender_set_state:
  "find_attachment (sender_set_state db i s now e) j =
     (if i = j then map_option (\<lambda>a. a\<lparr>a_state := s, a_error_code := e\<rparr>) (find_attachment db j) else find_attachment db j)"
  by (simp add: sender_set_state_def find_update_attachment)

lemma sender_set_state_frame [simp]:
  "get_sender_state (sender_set_state db i s now e) j = get_sender_state db j"
  "revoke_of (sender_set_state db i s now e) j = revoke_of db j"
  by (simp_all add: sender_set_state_def)

lemma find_move_clear:
  "find_attachment (move_clear db i s now e) j =
     (if i = j then map_option (\<lambda>a. a\<lparr>a_state := s, a_error_code := None\<rparr>) (find_attachment db j) else find_attachment db j)"
  by (simp add: move_clear_def find_update_attachment)

lemma move_clear_frame [simp]:
  "get_sender_state (move_clear db i s now e) j = get_sender_state db j"
  "revoke_of (move_clear db i s now e) j = revoke_of db j"
  by (simp_all add: move_clear_def)

lemmas find_moves = find_sender_set_state find_move_clear find_update_attachment

section \<open>The state diagram\<close>

definition sender_edge :: "att_state \<Rightarrow> att_state \<Rightarrow> bool" where
  "sender_edge s t \<longleftrightarrow>
     s = DRAFT \<and> t = VALIDATING
   \<or> s = VALIDATING \<and> t \<in> {ENCRYPTING, FAILED_VALIDATION}
   \<or> s = ENCRYPTING \<and> t \<in> {QUEUED_UPLOAD, FAILED_VALIDATION}
   \<or> s = QUEUED_UPLOAD \<and> t = UPLOADING
   \<or> s = UPLOADING \<and> t \<in> {QUEUED_UPLOAD, FAILED_UPLOAD, ENCRYPTING, READY_TO_SEND}
   \<or> s = READY_TO_SEND \<and> t = SENT
   \<or> s = SENT \<and> t \<in> {RECEIVED, DOWNLOADED, ST_REJECTED, ST_EXPIRED, REVOKED}
   \<or> s = RECEIVED \<and> t \<in> {DOWNLOADED, ST_REJECTED, ST_EXPIRED, REVOKED}
   \<or> s = DOWNLOADED \<and> t = REVOKED
   \<or> s \<in> set AUTOMATIC_STATES \<and> t = CANCELLED"

text \<open>The columns a step may write, blanked out.\<close>

definition sent_core :: "attachment \<Rightarrow> attachment" where
  "sent_core a = a\<lparr>a_state := DRAFT, a_error_code := None, a_transfer_id := [], a_plain_size := None, a_cipher_size := None,
     a_plain_sha256 := None, a_hard_expires_at := 0\<rparr>"

definition sent_move :: "attachment \<Rightarrow> attachment \<Rightarrow> bool" where
  "sent_move a a' \<longleftrightarrow> sent_core a' = sent_core a
     \<and> (a_state a' = a_state a \<or> sender_edge (a_state a) (a_state a'))
     \<and> (a_transfer_id a' = a_transfer_id a \<or> a_state a = UPLOADING \<and> a_state a' = ENCRYPTING)
     \<and> (sender_is_terminal (a_state a) \<longrightarrow> a' = a \<or> a_state a = DOWNLOADED \<and> a' = a\<lparr>a_state := REVOKED, a_error_code := None\<rparr>)"

lemma sent_move_refl [simp]: "sent_move a a"
  by (simp add: sent_move_def)

definition sent_moves :: "mca_db \<Rightarrow> mca_db \<Rightarrow> bool" where
  "sent_moves db db' \<longleftrightarrow> (\<forall>j a. find_attachment db j = Some a \<longrightarrow> (\<exists>a'. find_attachment db' j = Some a' \<and> sent_move a a'))"

lemma sent_moves_refl [simp]: "sent_moves db db"
  by (simp add: sent_moves_def)

lemma sent_movesI:
  assumes "find_attachment db i = Some row" and "find_attachment db' i = Some row'" and "sent_move row row'"
    and "\<And>j. j \<noteq> i \<Longrightarrow> find_attachment db' j = find_attachment db j"
  shows "sent_moves db db'"
  using assms unfolding sent_moves_def by (metis option.inject sent_move_refl)

section \<open>The revoke capability\<close>

text \<open>The states a row can be in while its committed object may still exist on the Relay.\<close>

definition committed_states :: "att_state set" where
  "committed_states = {READY_TO_SEND, SENT, RECEIVED, DOWNLOADED, ST_EXPIRED, ST_REJECTED}"

definition grace_of :: "attachment \<Rightarrow> int" where
  "grace_of a = (if a_download_grace_seconds a = 0 then SENDER_DOWNLOAD_GRACE_SECONDS else a_download_grace_seconds a)"

definition revocable :: "attachment \<Rightarrow> revoke_state option \<Rightarrow> bool" where
  "revocable a rv \<longleftrightarrow> (a_state a \<in> committed_states \<longrightarrow>
     (\<exists>v. rv = Some v \<and> (0 < a_hard_expires_at a \<longrightarrow> rv_delete_after v = a_hard_expires_at a + grace_of a)))"

definition session_ok :: "sender_state option \<Rightarrow> bool" where
  "session_ok ss \<longleftrightarrow> (\<forall>s. ss = Some s \<longrightarrow> ss_upload_id s \<noteq> None \<longrightarrow> ss_revoke_token s \<noteq> None)"

definition kept :: "mca_db \<Rightarrow> bool" where
  "kept db \<longleftrightarrow> (\<forall>j. session_ok (get_sender_state db j) \<and>
     (\<forall>a. find_attachment db j = Some a \<longrightarrow> a_direction a = Sent \<longrightarrow> revocable a (revoke_of db j)))"

lemma keptI:
  assumes "kept db" and "\<And>j. j \<noteq> i \<Longrightarrow> find_attachment db' j = find_attachment db j"
    and "\<And>j. j \<noteq> i \<Longrightarrow> get_sender_state db' j = get_sender_state db j"
    and "\<And>j. j \<noteq> i \<Longrightarrow> revoke_of db' j = revoke_of db j"
    and "session_ok (get_sender_state db' i)" and "find_attachment db' i = Some row'" and "revocable row' (revoke_of db' i)"
  shows "kept db'"
  using assms unfolding kept_def by (metis option.inject)

lemma revoke_state_ts_of_int [simp]: "revoke_state_ts (of_int n) = n"
  by (simp add: revoke_state_ts_def)

lemma revoke_delete_after_int:
  "0 < h \<Longrightarrow> revoke_delete_after h g now = of_int (h + (if g = 0 then SENDER_DOWNLOAD_GRACE_SECONDS else g))"
  by (simp add: revoke_delete_after_def)

text \<open>Effect of one operation on its own row and none on the others.\<close>

definition effect :: "mca_db \<Rightarrow> mca_db \<Rightarrow> string \<Rightarrow> attachment \<Rightarrow> attachment \<Rightarrow> bool" where
  "effect db db' i row row' \<longleftrightarrow> find_attachment db' i = Some row' \<and> sent_move row row'
     \<and> (\<forall>j. j \<noteq> i \<longrightarrow> find_attachment db' j = find_attachment db j \<and> get_sender_state db' j = get_sender_state db j \<and> revoke_of db' j = revoke_of db j)
     \<and> (session_ok (get_sender_state db i) \<longrightarrow> revocable row (revoke_of db i) \<longrightarrow>
          session_ok (get_sender_state db' i) \<and> revocable row' (revoke_of db' i))"

lemma effect_refl: "find_attachment db i = Some row \<Longrightarrow> effect db db i row row"
  by (simp add: effect_def)

lemma effectD:
  assumes "effect db db' i row row'" and "find_attachment db i = Some row" and "a_direction row = Sent"
  shows "sent_moves db db' \<and> (kept db \<longrightarrow> kept db')"
proof -
  have "kept db'" if k: "kept db"
    using assms(1) k assms(2,3) unfolding effect_def by (intro keptI [OF k, of i]) (auto simp: kept_def)
  moreover have "sent_moves db db'"
    using assms(1) unfolding effect_def by (intro sent_movesI [OF assms(2)]) auto
  ultimately show ?thesis by blast
qed

section \<open>The operations\<close>

lemmas sent_defs = sent_move_def sent_core_def sender_edge_def sender_is_terminal_def SENDER_TERMINAL_STATES_def AUTOMATIC_STATES_def

lemma effect_set_state:
  assumes "find_attachment db i = Some row" and "sent_move row (row\<lparr>a_state := s, a_error_code := e\<rparr>)" and "s \<notin> committed_states"
  shows "effect db (sender_set_state db i s now e) i row (row\<lparr>a_state := s, a_error_code := e\<rparr>)"
  using assms by (auto simp: effect_def find_moves revocable_def)

lemma step_validating_effect:
  assumes "step_validating C db row now = Inr (db', st)" and "find_attachment db i = Some row" and "a_state row = VALIDATING"
  shows "\<exists>row'. effect db db' i row row'"
proof -
  have i: "a_id row = i"
    using assms(2) find_attachment_id by blast
  have "\<exists>row'. effect db (sender_set_state db i FAILED_VALIDATION now (Some c)) i row row'" for c
    using effect_set_state [OF assms(2), where s = FAILED_VALIDATION and e = "Some c" and now = now] assms(3)
    by (auto simp: sent_defs committed_states_def)
  then show ?thesis
    using assms i by (auto simp: step_validating_def fail_validation_def Let_def bind_res_eq_Inr effect_def find_moves revocable_def
        committed_states_def sent_defs split: option.splits if_splits)
qed

lemma step_encrypting_effect:
  assumes "step_encrypting C db row now ids = Inr (db', st)" and "find_attachment db i = Some row" and "a_state row = ENCRYPTING"
  shows "\<exists>row'. effect db db' i row row'"
proof -
  have i: "a_id row = i"
    using assms(2) find_attachment_id by blast
  show ?thesis
    using assms(1) unfolding step_encrypting_def Let_def bind_res_eq_Inr
    using assms(2,3) i
    by (auto simp: effect_def find_moves get_sender_state_save revocable_def session_ok_def
        committed_states_def sent_defs split: option.splits)
qed

lemma abandon_effect:
  assumes "abandon_transfer_id_and_restart C db row now r = Inr (db', st)" and "find_attachment db i = Some row" and "a_state row = UPLOADING"
  shows "\<exists>row'. effect db db' i row row'"
proof -
  have i: "a_id row = i"
    using assms(2) find_attachment_id by blast
  show ?thesis
    using assms i by (auto simp: abandon_transfer_id_and_restart_def Let_def effect_def find_moves revocable_def session_ok_def
        committed_states_def sent_defs split: if_splits)
qed

lemma park_effect:
  assumes "park W r i s now c = (W', res)" and "find_attachment (sw_db W) i = Some row" and "a_state row = UPLOADING"
    and "s \<in> {QUEUED_UPLOAD, FAILED_UPLOAD}"
  shows "\<exists>row'. effect (sw_db W) (sw_db W') i row row'"
  using effect_set_state [OF assms(2), where s = s and e = "Some c" and now = now] assms
  by (auto simp: park_def sent_defs committed_states_def)

text \<open>The Relay hands out a revoke token with every upload session (\<open>UploadSession.revoke_token: str\<close>).\<close>

definition tokens_given :: "'r upload_relay \<Rightarrow> bool" where
  "tokens_given R \<longleftrightarrow> (\<forall>r q r' u. ur_create_upload R r q = (r', Inr u) \<longrightarrow> us_revoke_token u \<noteq> None)"

lemma upload_and_commit_effect:
  assumes "upload_and_commit C R W row state tid plan uid utok tok now = (W', res)"
    and "find_attachment (sw_db W) i = Some row" and "a_state row = UPLOADING"
    and "session_ok (get_sender_state (sw_db W) i) \<Longrightarrow> tok \<noteq> None"
  shows "\<exists>row'. effect (sw_db W) (sw_db W') i row row'"
proof -
  have i: "a_id row = i"
    using assms(2) find_attachment_id by blast
  obtain r u where u: "upload_object C R uid utok state tid plan row (sw_relay W) = (r, u)"
    by fastforce
  note p = park_effect [OF _ assms(2,3)]
  show ?thesis
  proof (cases u)
    case (Inl e)
    then show ?thesis
      using assms(1) u i p [of r _ now] effect_refl [OF assms(2)]
      by (cases e) (auto simp: upload_and_commit_def Let_def split: relay_error.splits)
  next
    case (Inr d)
    show ?thesis
    proof (cases "parse_relay_timestamp C (d_hard_expires_at d)")
      case (Inl e)
      then show ?thesis
        using assms(1) u Inr effect_refl [OF assms(2)] by (auto simp: upload_and_commit_def Let_def)
    next
      case (Inr h)
      let ?row' = "row\<lparr>a_hard_expires_at := h, a_state := READY_TO_SEND, a_error_code := None\<rparr>"
      have "effect (sw_db W) (sw_db W') i row ?row'"
        using assms u i \<open>u = Inr d\<close> Inr
        by (auto simp: upload_and_commit_def Let_def effect_def find_moves revocable_def grace_of_def revoke_of_ensure
            revoke_delete_after_int sent_defs simp del: of_int_add split: option.splits)
      then show ?thesis by blast
    qed
  qed
qed

lemma effect_after_session:
  assumes "effect (save_upload_session i u now db) db' i row row'" and "us_revoke_token u \<noteq> None"
  shows "effect db db' i row row'"
proof -
  have "session_ok (get_sender_state (save_upload_session i u now db) i)"
    using assms(2) by (auto simp: session_ok_def get_sender_state_session)
  with assms(1) show ?thesis
    by (simp add: effect_def get_sender_state_session)
qed

lemma step_uploading_effect:
  assumes "step_uploading C R W row now = (W', res)" and "find_attachment (sw_db W) i = Some row" and "a_state row = UPLOADING"
    and "tokens_given R"
  shows "\<exists>row'. effect (sw_db W) (sw_db W') i row row'"
proof -
  have i: "a_id row = i"
    using assms(2) find_attachment_id by blast
  note same = effect_refl [OF assms(2)] and p = park_effect [OF _ assms(2,3)]
  show ?thesis
  proof (cases "\<exists>tid st plan. hex_bytes (a_transfer_id row) = Inr tid \<and> get_sender_state (sw_db W) i = Some st
      \<and> bind_res (required (a_plain_size row)) (\<lambda>n. escape S_Crypto (for_size n CHUNK_SIZE_BYTES)) = Inr plan")
    case False
    then have "W' = W"
      using assms(1) i by (cases "hex_bytes (a_transfer_id row)"; cases "get_sender_state (sw_db W) i"; cases "required (a_plain_size row)")
        (auto simp: step_uploading_def Let_def bind_res_def split: sum.splits)
    with same show ?thesis by blast
  next
    case True
    then obtain tid st plan where h: "hex_bytes (a_transfer_id row) = Inr tid" "get_sender_state (sw_db W) i = Some st"
      and n: "bind_res (required (a_plain_size row)) (\<lambda>n. escape S_Crypto (for_size n CHUNK_SIZE_BYTES)) = Inr plan"
      by blast
    obtain n where n': "required (a_plain_size row) = Inr n" "escape S_Crypto (for_size n CHUNK_SIZE_BYTES) = Inr plan"
      using n by (auto simp: bind_res_eq_Inr)
    show ?thesis
    proof (cases "ss_upload_id st")
      case (Some uid)
      then have "upload_and_commit C R W row st tid plan uid (case ss_upload_token st of None \<Rightarrow> [] | Some t \<Rightarrow> t) (ss_revoke_token st) now = (W', res)"
        using assms(1) h n' i by (simp add: step_uploading_def Let_def)
      then show ?thesis
        by (rule upload_and_commit_effect [OF _ assms(2,3)]) (use h(2) Some in \<open>simp add: session_ok_def\<close>)
    next
      case None
      show ?thesis
      proof (cases "upload_request_of C (sw_db W) row st tid (cp_plain_size plan)")
        case (Inl e)
        then show ?thesis
          using assms(1) h n' None i same by (auto simp: step_uploading_def Let_def)
      next
        case (Inr q)
        obtain r u where u: "ur_create_upload R (sw_relay W) q = (r, u)"
          by fastforce
        show ?thesis
        proof (cases u)
          case (Inr session)
          let ?W = "W\<lparr>sw_db := save_upload_session i session now (sw_db W), sw_relay := r\<rparr>"
          have tok: "us_revoke_token session \<noteq> None"
            using assms(4) u Inr by (auto simp: tokens_given_def)
          have "upload_and_commit C R ?W row st tid plan (us_upload_id session) (us_upload_token session) (us_revoke_token session) now = (W', res)"
            using assms(1) h n' None \<open>upload_request_of _ _ _ _ _ _ = Inr q\<close> u Inr i by (simp add: step_uploading_def Let_def)
          then have "\<exists>row'. effect (sw_db ?W) (sw_db W') i row row'"
            by (rule upload_and_commit_effect) (use assms(2,3) tok in simp_all)
          with tok show ?thesis
            using effect_after_session by fastforce
        next
          case (Inl e)
          note eq = assms(1) [unfolded step_uploading_def Let_def]
          show ?thesis
            using eq h n' None \<open>upload_request_of _ _ _ _ _ _ = Inr q\<close> u Inl i same p [of r _ now]
              abandon_effect [OF _ assms(2,3), of C now]
            by (cases e) (auto split: if_splits sum.splits)
        qed
      qed
    qed
  qed
qed

lemma step_ready_to_send_effect:
  assumes "step_ready_to_send C sk A W row now = (W', res)" and "find_attachment (sw_db W) i = Some row" and "a_state row = READY_TO_SEND"
  shows "\<exists>row'. effect (sw_db W) (sw_db W') i row row'"
proof -
  have i: "a_id row = i"
    using assms(2) find_attachment_id by blast
  have go: "\<exists>row'. effect (sw_db W) (sender_set_state (update_delivery d g (sw_db W)) i s now e) i row row'"
    "\<exists>row'. effect (sw_db W) (sender_set_state (sw_db W) i s now e) i row row'"
    if "s \<in> {READY_TO_SEND, SENT}" for d g s e
    using that assms(2,3) by (auto simp: effect_def find_moves revocable_def committed_states_def grace_of_def sent_defs)
  show ?thesis
    using assms(1) i effect_refl [OF assms(2)] go
    unfolding step_ready_to_send_def Let_def
    by (fastforce split: sum.splits prod.splits delivery_exc.splits if_splits)
qed

lemma sender_run_step_effect:
  assumes "sender_run_step C ids R A net W i now = (W', res)" and "find_attachment (sw_db W) i = Some row"
    and "\<And>R'. R = Some R' \<Longrightarrow> tokens_given R'"
  shows "\<exists>row'. effect (sw_db W) (sw_db W') i row row'"
proof -
  note same = effect_refl [OF assms(2)] and set = effect_set_state [OF assms(2)]
  have i: "a_id row = i"
    using assms(2) find_attachment_id by blast
  note run = assms(1) [unfolded sender_run_step_def assms(2) option.case commit_db_def]
  show ?thesis
  proof (cases "a_state row")
    case DRAFT
    then show ?thesis
      using run set [where s = VALIDATING and e = None and now = now]
      by (auto simp: step_draft_def sent_defs committed_states_def)
  next
    case VALIDATING
    then show ?thesis
      using run same step_validating_effect [OF _ assms(2)] by (auto split: sum.splits prod.splits)
  next
    case ENCRYPTING
    then show ?thesis
      using run same step_encrypting_effect [OF _ assms(2)] by (auto split: sum.splits prod.splits option.splits)
  next
    case QUEUED_UPLOAD
    then show ?thesis
      using run i same set [where s = UPLOADING and e = None and now = now]
      by (auto simp: step_queued_upload_def sent_defs committed_states_def split: if_splits)
  next
    case UPLOADING
    then show ?thesis
      using run same step_uploading_effect [OF _ assms(2)] assms(3) by (auto split: option.splits)
  next
    case READY_TO_SEND
    then show ?thesis
      using run same step_ready_to_send_effect [OF _ assms(2)] by (auto split: option.splits sum.splits)
  qed (use run same in auto)
qed

text \<open>The row that moves on with its transient state dropped keeps its capability.\<close>

lemma drop_keeping_revoke_effect:
  assumes "find_attachment db0 i = Some row" and "find_attachment db i = Some row'" and "sent_move row row'"
    and frame: "\<And>j. j \<noteq> i \<Longrightarrow> find_attachment db j = find_attachment db0 j"
      "\<And>j. get_sender_state db j = get_sender_state db0 j" "\<And>j. revoke_of db j = revoke_of db0 j"
    and "a_state row \<in> committed_states" and "a_hard_expires_at row' = a_hard_expires_at row" "a_download_grace_seconds row' = a_download_grace_seconds row"
  shows "effect db0 (delete_transient_sender_state_keeping_revoke db row now) i row row'"
proof -
  have "a_id row = i"
    using assms(1) find_attachment_id by blast
  with assms show ?thesis
    by (auto simp: effect_def delete_transient_sender_state_keeping_revoke_def Let_def revocable_def grace_of_def session_ok_def
        revoke_of_ensure revoke_delete_after_int simp del: of_int_add split: option.splits)
qed

lemma apply_ack_effect:
  assumes "apply_ack db i t now = Inr (db', st)" and "find_attachment db i = Some row"
  shows "\<exists>row'. effect db db' i row row'"
proof -
  have i: "a_id row = i"
    using assms(2) find_attachment_id by blast
  have dn: "\<exists>row'. effect db (delete_transient_sender_state_keeping_revoke (move_clear (update_delivery d g (update_recipients i f db)) i DOWNLOADED now e) row now) i row row'"
    if "a_state row \<in> {SENT, RECEIVED}" for d g f e
    using that assms(2)
    by (intro exI [of _ "row\<lparr>a_state := DOWNLOADED, a_error_code := None\<rparr>"] drop_keeping_revoke_effect)
      (auto simp: find_moves sent_defs committed_states_def)
  have rc: "\<exists>row'. effect db (move_clear (update_delivery d g (update_recipients i f db)) i RECEIVED now e) i row row'" if "a_state row = SENT" for d g f e
    using that assms(2)
    by (intro exI [of _ "row\<lparr>a_state := RECEIVED, a_error_code := None\<rparr>"])
      (auto simp: effect_def find_moves revocable_def grace_of_def committed_states_def sent_defs)
  have pu: "\<exists>row'. effect db (record_event (update_delivery d g (update_attachment i (\<lambda>a. a\<lparr>a_error_code := c\<rparr>) db)) i now e) i row row'"
    if "a_state row = SENT" for d g c e
    using that assms(2)
    by (intro exI [of _ "row\<lparr>a_error_code := c\<rparr>"])
      (auto simp: effect_def find_moves revocable_def grace_of_def committed_states_def sent_defs)
  consider "t = ACK_RECEIVED" "apply_ack_received db row now = Inr (db', st)"
    | "t = ACK_DOWNLOADED" "apply_ack_downloaded db row now = Inr (db', st)"
    | "t = ACK_PROVIDER_UNKNOWN" "apply_ack_provider_unknown db row now = Inr (db', st)"
    using assms by (auto simp: apply_ack_def with_row_def split: message_type.splits)
  then show ?thesis
  proof cases
    case 1
    then show ?thesis
      using i effect_refl [OF assms(2)] rc
      by (auto simp: apply_ack_received_def Let_def bind_res_eq_Inr split: if_splits)
  next
    case 2
    then show ?thesis
      using i effect_refl [OF assms(2)] dn
      by (auto simp: apply_ack_downloaded_def Let_def bind_res_eq_Inr split: if_splits)
  next
    case 3
    then show ?thesis
      using i effect_refl [OF assms(2)] pu
      by (auto simp: apply_ack_provider_unknown_def Let_def bind_res_eq_Inr split: if_splits)
  qed
qed

lemma apply_final_effect:
  assumes "find_attachment db i = Some row" and "a_state row \<in> {SENT, RECEIVED}" and "s \<in> {ST_REJECTED, ST_EXPIRED}"
  shows "\<exists>row'. effect db (delete_transient_sender_state_keeping_revoke (move_clear db i s now e) row now) i row row'"
  using assms
  by (intro exI [of _ "row\<lparr>a_state := s, a_error_code := None\<rparr>"] drop_keeping_revoke_effect)
    (auto simp: find_moves sent_defs committed_states_def)

lemma apply_rejected_effect:
  assumes "apply_rejected db i now = Inr (db', st)" and "find_attachment db i = Some row"
  shows "\<exists>row'. effect db db' i row row'"
  using assms effect_refl [OF assms(2)] apply_final_effect [OF assms(2), of ST_REJECTED now]
  by (auto simp: apply_rejected_def with_row_def split: if_splits)

lemma apply_expired_effect:
  assumes "apply_expired db i now = Inr (db', st)" and "find_attachment db i = Some row"
  shows "\<exists>row'. effect db db' i row row'"
  using assms effect_refl [OF assms(2)] apply_final_effect [OF assms(2), of ST_EXPIRED now]
  by (auto simp: apply_expired_def with_row_def split: if_splits)

lemma cancel_effect:
  assumes "cancel db i now = Inr (db', st)" and "find_attachment db i = Some row" and "a_state row \<in> set AUTOMATIC_STATES"
  shows "\<exists>row'. effect db db' i row row'"
  using assms by (auto simp: cancel_def with_row_def effect_def find_moves revocable_def session_ok_def committed_states_def sent_defs split: if_splits)

lemma revoke_effect:
  assumes "revoke db i now = Inr (db', st)" and "find_attachment db i = Some row"
  shows "\<exists>row'. effect db db' i row row'"
  using assms by (auto simp: revoke_def with_row_def effect_def find_moves revocable_def session_ok_def committed_states_def sent_defs split: if_splits)

section \<open>Steps and reachable states\<close>

text \<open>One step of the world: a new draft, a step of the dispatcher with any Relay, radio, network and recipient keys, the
  service's refusal of an untrusted recipient, an inbound message, a user action, or any change on the Relay's side. The
  service calls these on \<open>sent\<close> rows only, \<open>fail_recipients_not_trusted\<close> in \<open>ENCRYPTING\<close> and \<open>cancel\<close> in the automatic states.\<close>

inductive send_step :: "send_ctx \<Rightarrow> 'r send_world \<Rightarrow> 'r send_world \<Rightarrow> bool" for C where
  draft: "create_draft C (sw_db W) args now = Inr (db', i) \<Longrightarrow> send_step C W (W\<lparr>sw_db := db'\<rparr>)"
| run: "find_attachment (sw_db W) i = Some row \<Longrightarrow> a_direction row = Sent \<Longrightarrow> (\<And>R'. R = Some R' \<Longrightarrow> tokens_given R')
    \<Longrightarrow> sender_run_step C ids R A net W i now = (W', res) \<Longrightarrow> send_step C W W'"
| untrusted: "find_attachment (sw_db W) i = Some row \<Longrightarrow> a_direction row = Sent \<Longrightarrow> a_state row = ENCRYPTING
    \<Longrightarrow> fail_recipients_not_trusted (sw_db W) i now = (db', st) \<Longrightarrow> send_step C W (W\<lparr>sw_db := db'\<rparr>)"
| ack: "find_attachment (sw_db W) i = Some row \<Longrightarrow> a_direction row = Sent
    \<Longrightarrow> apply_ack (sw_db W) i t now = Inr (db', st) \<Longrightarrow> send_step C W (W\<lparr>sw_db := db'\<rparr>)"
| rejected: "find_attachment (sw_db W) i = Some row \<Longrightarrow> a_direction row = Sent
    \<Longrightarrow> apply_rejected (sw_db W) i now = Inr (db', st) \<Longrightarrow> send_step C W (W\<lparr>sw_db := db'\<rparr>)"
| expired: "find_attachment (sw_db W) i = Some row \<Longrightarrow> a_direction row = Sent
    \<Longrightarrow> apply_expired (sw_db W) i now = Inr (db', st) \<Longrightarrow> send_step C W (W\<lparr>sw_db := db'\<rparr>)"
| cancel: "find_attachment (sw_db W) i = Some row \<Longrightarrow> a_direction row = Sent \<Longrightarrow> a_state row \<in> set AUTOMATIC_STATES
    \<Longrightarrow> cancel (sw_db W) i now = Inr (db', st) \<Longrightarrow> send_step C W (W\<lparr>sw_db := db'\<rparr>)"
| revoke: "find_attachment (sw_db W) i = Some row \<Longrightarrow> a_direction row = Sent
    \<Longrightarrow> revoke (sw_db W) i now = Inr (db', st) \<Longrightarrow> send_step C W (W\<lparr>sw_db := db'\<rparr>)"
| relay: "send_step C W (W\<lparr>sw_relay := r\<rparr>)"

lemma create_draft_moves:
  assumes "create_draft C db args now = Inr (db', i)"
  shows "sent_moves db db' \<and> (kept db \<longrightarrow> kept db')"
proof -
  obtain row where row: "find_attachment db' j = (case find_attachment db j of None \<Rightarrow> if j = i then Some row else None | Some a \<Rightarrow> Some a)"
    "a_state row = DRAFT" "get_sender_state db' j = get_sender_state db j" "revoke_of db' j = revoke_of db j" for j
  proof -
    obtain row where "db_attachments db' = db_attachments db @ [row]" "a_state row = DRAFT" "a_id row = i"
      "db_sender_state db' = db_sender_state db" "db_revoke_state db' = db_revoke_state db"
      using assms by (auto simp: create_draft_def Let_def bind_res_eq_Inr new_sent_def split: if_splits)
    then have "find_attachment db' j = (case find_attachment db j of None \<Rightarrow> if j = i then Some row else None | Some a \<Rightarrow> Some a)"
      "get_sender_state db' j = get_sender_state db j" "revoke_of db' j = revoke_of db j" for j
      by (auto simp: find_attachment_def get_sender_state_def revoke_of_def find_by_append split: option.splits)
    then show thesis
      using \<open>a_state row = DRAFT\<close> by (intro that [of row]) blast+
  qed
  have "sent_moves db db'"
    unfolding sent_moves_def by (simp add: row(1))
  moreover have "kept db'" if "kept db"
    using that row by (auto simp: kept_def revocable_def committed_states_def split: option.splits if_splits)
  ultimately show ?thesis by blast
qed

lemma send_step_moves:
  assumes "send_step C W W'"
  shows "sent_moves (sw_db W) (sw_db W') \<and> (kept (sw_db W) \<longrightarrow> kept (sw_db W'))"
  using assms
proof cases
  case (draft args now db' i)
  then show ?thesis using create_draft_moves by fastforce
next
  case (run i row R ids A net now res)
  then show ?thesis using sender_run_step_effect [OF run(4,1,3)] effectD by blast
next
  case (untrusted i row now db' st)
  then have "\<exists>row'. effect (sw_db W) db' i row row'"
    using effect_set_state [where s = FAILED_VALIDATION and e = "Some ''recipient_not_trusted''" and now = now, OF untrusted(2)]
    by (auto simp: fail_recipients_not_trusted_def sent_defs committed_states_def)
  then show ?thesis using untrusted effectD by fastforce
next
  case (ack i row t now db' st)
  then show ?thesis using apply_ack_effect effectD by fastforce
next
  case (rejected i row now db' st)
  then show ?thesis using apply_rejected_effect effectD by fastforce
next
  case (expired i row now db' st)
  then show ?thesis using apply_expired_effect effectD by fastforce
next
  case (cancel i row now db' st)
  then show ?thesis using cancel_effect effectD by fastforce
next
  case (revoke i row now db' st)
  then show ?thesis using revoke_effect effectD by fastforce
next
  case (relay r)
  then show ?thesis by simp
qed

text \<open>Reachable worlds: from an empty database.\<close>

inductive send_reachable :: "send_ctx \<Rightarrow> 'r send_world \<Rightarrow> bool" for C where
  init: "send_reachable C \<lparr>sw_db = empty_db, sw_relay = r, sw_radio = []\<rparr>"
| step: "send_reachable C W \<Longrightarrow> send_step C W W' \<Longrightarrow> send_reachable C W'"

lemma send_reachable_kept: "send_reachable C W \<Longrightarrow> kept (sw_db W)"
proof (induction rule: send_reachable.induct)
  case (init r)
  show ?case by (simp add: kept_def session_ok_def get_sender_state_def find_attachment_def empty_db_def)
next
  case (step W W')
  then show ?case using send_step_moves by blast
qed

text \<open>\<open>resume_pending\<close> only composes such steps.\<close>

lemma drive_steps:
  assumes "drive C ids R A net clock i n W = (W', res)" and "find_attachment (sw_db W) i = Some row" and "a_direction row = Sent"
    and "\<And>R'. R = Some R' \<Longrightarrow> tokens_given R'"
  shows "(send_step C)\<^sup>*\<^sup>* W W'"
  using assms
proof (induction n arbitrary: W row)
  case (Suc n)
  obtain W1 r1 where r1: "sender_run_step C ids R A net W i (clock i n) = (W1, r1)"
    by fastforce
  then have step: "send_step C W W1"
    using Suc.prems(2-4) send_step.run by blast
  obtain row1 where row1: "effect (sw_db W) (sw_db W1) i row row1"
    using sender_run_step_effect [OF r1 Suc.prems(2)] Suc.prems(4) by blast
  then have "find_attachment (sw_db W1) i = Some row1" "a_direction row1 = Sent"
    using Suc.prems(3) by (auto simp: effect_def sent_move_def sent_core_def dest: arg_cong [of _ _ a_direction])
  then show ?case
    using Suc.prems r1 step Suc.IH [of W1 row1]
    by (auto simp: state_of_def split: if_splits sum.splits intro: converse_rtranclp_into_rtranclp)
qed simp

section \<open>Acknowledgements\<close>

text \<open>A sequence of inbound acknowledgements, each with its arrival time.\<close>

fun apply_acks :: "mca_db \<Rightarrow> string \<Rightarrow> (message_type \<times> timestamp) list \<Rightarrow> send_error + mca_db" where
  "apply_acks db i [] = Inr db"
| "apply_acks db i ((t, now) # acks) = bind_res (apply_ack db i t now) (\<lambda>(db', _). apply_acks db' i acks)"

lemma sort_key_map:
  assumes "\<And>x. k (h x) = k x"
  shows "sort_key k (map h xs) = map h (sort_key k xs)"
proof -
  have "insort_key k (h x) (map h ys) = map h (insort_key k x ys)" for x ys
    using assms by (induction ys) simp_all
  then show ?thesis
    by (induction xs) simp_all
qed

lemma delivery_for_update:
  assumes "delivery_for db i = Inr d" and g: "\<And>x. dl_id (g x) = dl_id x" "\<And>x. dl_attachment_id (g x) = dl_attachment_id x"
  shows "delivery_for (update_delivery (dl_id d) g db) i = Inr (g d)"
proof -
  let ?h = "\<lambda>x. if dl_id x = dl_id d then g x else x"
  have "filter (\<lambda>x. dl_attachment_id x = i) (map ?h (db_deliveries db)) = map ?h (filter (\<lambda>x. dl_attachment_id x = i) (db_deliveries db))"
    using g by (simp add: filter_map comp_def if_distrib cong: if_cong)
  moreover have "sort_key dl_id (map ?h xs) = map ?h (sort_key dl_id xs)" for xs
    by (rule sort_key_map) (use g in auto)
  ultimately show ?thesis
    using assms(1) by (auto simp: delivery_for_def update_delivery_def update_where_def split: list.splits)
qed

lemma delivery_for_frame [simp]:
  "delivery_for (record_event db j t e) i = delivery_for db i"
  "delivery_for (update_attachment j f db) i = delivery_for db i"
  "delivery_for (drop_sender_state j db) i = delivery_for db i"
  "delivery_for (ensure_revoke_state db j tok hx gx now) i = delivery_for db i"
  "delivery_for (move_clear db j s now ev) i = delivery_for db i"
  by (simp_all add: delivery_for_def drop_sender_state_def ensure_revoke_state_def move_clear_def Let_def)

lemma update_recipients_deliveries [simp]: "db_deliveries (update_recipients i f db) = db_deliveries db"
  unfolding update_recipients_def by (rule fold_frame) simp

lemma delivery_for_update_recipients:
  assumes "\<And>x. dl_id (g x) = dl_id x" "\<And>x. dl_attachment_id (g x) = dl_attachment_id x" and "delivery_for db i = Inr d"
  shows "delivery_for (update_delivery (dl_id d) g (update_recipients i f db)) i = Inr (g d)"
proof -
  have "delivery_for (update_recipients i f db) i = Inr d"
    using assms(3) by (simp add: delivery_for_def)
  then show ?thesis
    using assms(1,2) by (rule delivery_for_update)
qed

definition ack_state :: "message_type set \<Rightarrow> att_state" where
  "ack_state seen = (if ACK_DOWNLOADED \<in> seen then DOWNLOADED else if ACK_RECEIVED \<in> seen then RECEIVED else SENT)"

definition ack_types :: "message_type set" where
  "ack_types = {ACK_RECEIVED, ACK_DOWNLOADED, ACK_PROVIDER_UNKNOWN}"

text \<open>The state after the acknowledgements seen so far.\<close>

definition acked :: "mca_db \<Rightarrow> string \<Rightarrow> message_type set \<Rightarrow> bool" where
  "acked db i seen \<longleftrightarrow> (\<exists>row d. find_attachment db i = Some row \<and> a_state row = ack_state seen \<and> delivery_for db i = Inr d
     \<and> (ack_state seen = SENT \<longrightarrow> ACK_PROVIDER_UNKNOWN \<in> seen \<longrightarrow> dl_state d = D_PROVIDER_UNKNOWN))"

lemma delivery_for_drop_keeping:
  "delivery_for (delete_transient_sender_state_keeping_revoke db row now) i = delivery_for db i"
  by (simp add: delete_transient_sender_state_keeping_revoke_def Let_def split: option.splits)

lemma find_drop_keeping [simp]:
  "find_attachment (delete_transient_sender_state_keeping_revoke db row now) i = find_attachment db i"
  by (simp add: delete_transient_sender_state_keeping_revoke_def Let_def split: option.splits)

lemma acked_step:
  assumes "acked db i seen" and "seen \<subseteq> ack_types" and "t \<in> ack_types"
  shows "\<exists>db'. apply_ack db i t now = Inr (db', ack_state (insert t seen)) \<and> acked db' i (insert t seen) \<and> (t \<in> seen \<longrightarrow> db' = db)"
proof -
  obtain row d where row: "find_attachment db i = Some row" "a_state row = ack_state seen" and d: "delivery_for db i = Inr d"
    and pu: "ack_state seen = SENT \<Longrightarrow> ACK_PROVIDER_UNKNOWN \<in> seen \<Longrightarrow> dl_state d = D_PROVIDER_UNKNOWN"
    using assms(1) by (auto simp: acked_def)
  have i: "a_id row = i"
    using row find_attachment_id by blast
  from assms(3) consider "t = ACK_RECEIVED" | "t = ACK_DOWNLOADED" | "t = ACK_PROVIDER_UNKNOWN"
    by (auto simp: ack_types_def)
  then show ?thesis
  proof cases
    case 1
    then show ?thesis
      using row i d pu
      by (cases "ACK_DOWNLOADED \<in> seen"; cases "ACK_RECEIVED \<in> seen")
        (auto simp: apply_ack_def with_row_def apply_ack_received_def ack_state_def Let_def acked_def find_moves delivery_for_update_recipients)
  next
    case 2
    then show ?thesis
      using row i d pu
      by (cases "ACK_DOWNLOADED \<in> seen"; cases "ACK_RECEIVED \<in> seen")
        (auto simp: apply_ack_def with_row_def apply_ack_downloaded_def ack_state_def Let_def acked_def find_moves delivery_for_drop_keeping
          delivery_for_update_recipients)
  next
    case 3
    have u: "delivery_for (update_delivery (dl_id d) (\<lambda>d. d\<lparr>dl_state := D_PROVIDER_UNKNOWN, dl_ack_at := coalesce (dl_ack_at d) now, dl_error_code := c\<rparr>)
        (update_attachment i f db)) i
      = Inr (d\<lparr>dl_state := D_PROVIDER_UNKNOWN, dl_ack_at := coalesce (dl_ack_at d) now, dl_error_code := c\<rparr>)" for c f
      by (rule delivery_for_update) (use d in simp_all)
    show ?thesis
      using 3 row i d pu
      by (cases "ACK_DOWNLOADED \<in> seen"; cases "ACK_RECEIVED \<in> seen"; cases "dl_state d = D_PROVIDER_UNKNOWN")
        (auto simp: apply_ack_def with_row_def apply_ack_provider_unknown_def ack_state_def Let_def acked_def find_moves u)
  qed
qed

lemma acked_steps:
  assumes "acked db i seen" and "seen \<subseteq> ack_types" and "fst ` set acks \<subseteq> ack_types"
  shows "\<exists>db'. apply_acks db i acks = Inr db' \<and> acked db' i (seen \<union> fst ` set acks)"
  using assms
proof (induction acks arbitrary: db seen)
  case (Cons x acks)
  obtain t now where x: "x = (t, now)" by fastforce
  obtain db1 where db1: "apply_ack db i t now = Inr (db1, ack_state (insert t seen))" "acked db1 i (insert t seen)"
    using acked_step [OF Cons.prems(1,2)] Cons.prems(3) x by fastforce
  then show ?case
    using Cons.IH [OF db1(2)] Cons.prems x by auto
qed simp

section \<open>A sample draft\<close>

definition sample_send_ctx :: send_ctx where
  "sample_send_ctx = \<lparr>sc_env = sample_env, sc_content = [''/spool/f'' \<mapsto> [104, 105]], sc_disk_usage = (100, 50),
     sc_urandom = (\<lambda>k n. replicate n (of_nat k)), sc_fromisoformat = (\<lambda>_. None)\<rparr>"

definition sample_args :: draft_args where
  "sample_args = \<lparr>da_workspace_id = ''w'', da_source_path = ''/spool/f'', da_file_name = ''f.txt'', da_mime_type = ''text/plain'',
     da_recipients = [\<lparr>rt_public_identity = replicate 32 4, rt_key_id = hex_of (replicate 8 4)\<rparr>], da_adapter_id = ''meshtastic'',
     da_connector_profile_id = ''meshtastic'', da_route_type = ''DIRECT'', da_route_id = ''!0000000a'', da_provider_id = replicate 8 7,
     da_comment = None, da_hard_ttl_seconds = 7200, da_download_grace_seconds = 3600, da_attachment_id = Some ''a'',
     da_client_request_id = None, da_canonical_hash = None\<rparr>"

lemma sample_draft:
  "\<exists>db row d. create_draft sample_send_ctx empty_db sample_args 1 = Inr (db, ''a'') \<and> find_attachment db ''a'' = Some row
     \<and> a_state row = DRAFT \<and> a_direction row = Sent \<and> delivery_for db ''a'' = Inr d"
  by (simp add: create_draft_def sample_send_ctx_def sample_args_def sample_env_def empty_db_def check_recipient_def compute_key_id_def
      ref_ext_def normalize_comment_def encode_provider_id_def escape_def draft_conflict_def Let_def find_attachment_def new_sent_def
      delivery_for_def record_event_def)

lemma sample_sent:
  "\<exists>db row d. find_attachment db ''a'' = Some row \<and> a_state row = SENT \<and> delivery_for db ''a'' = Inr d"
proof -
  obtain db row d where d: "find_attachment db ''a'' = Some row" "delivery_for db ''a'' = Inr d"
    using sample_draft by blast
  then show ?thesis
    by (intro exI [of _ "update_attachment ''a'' (\<lambda>a. a\<lparr>a_state := SENT\<rparr>) db"]) (simp add: find_update_attachment)
qed

definition sample_row :: attachment where
  "sample_row = new_sent sample_send_ctx sample_args ''a'' (replicate 16 1) ''p'' None 1"

definition sample_upload_state :: sender_state where
  "sample_upload_state = \<lparr>ss_attachment_id = ''a'', ss_data_key = replicate 32 1, ss_nonce_prefix = replicate 16 2, ss_manifest_blob = [7],
     ss_manifest_sha256 = replicate 32 7, ss_upload_id = None, ss_upload_token = None, ss_revoke_token = None,
     ss_created_at = 1, ss_updated_at = 1\<rparr>"

lemma sample_request_of:
  "db_recipients db = [] \<Longrightarrow> a_saved_path row = Some ''/spool/f'' \<Longrightarrow> \<exists>q. upload_request_of sample_send_ctx db row sample_upload_state (replicate 16 1) 2 = Inr q"
  by (simp add: upload_request_of_def recipients_for_def recompute_chunk_declarations_def sample_send_ctx_def 
      sample_upload_state_def escape_def encrypt_chunks_def for_size_def CHUNK_SIZE_BYTES_def bounds_def encrypt_chunk_def chunk_nonce_def
      sample_env_def chunk_slice_def require_length_def aad_def DATA_KEY_BYTES_def NONCE_PREFIX_BYTES_def Let_def)

section \<open>Properties\<close>

text \<open>C23. The sender's state diagram: whatever happens - a draft, a step with any Relay or radio behaviour, an inbound
  acknowledgement, a user action - every attachment row stays, keeps its identity, owner, provider, file name, comment
  and route columns, moves its state only along an edge of the diagram, gets a new transfer id only when it returns from
  \<open>UPLOADING\<close> to \<open>ENCRYPTING\<close>, and in a terminal state is never touched again, except that a downloaded transfer may
  still be revoked.\<close>

theorem sender_transitions:
  assumes "send_step C W W'" and "find_attachment (sw_db W) j = Some a"
  shows "\<exists>a'. find_attachment (sw_db W') j = Some a' \<and> sent_core a' = sent_core a
    \<and> (a_state a' = a_state a \<or> sender_edge (a_state a) (a_state a'))
    \<and> (a_transfer_id a' = a_transfer_id a \<or> a_state a = UPLOADING \<and> a_state a' = ENCRYPTING)
    \<and> (sender_is_terminal (a_state a) \<longrightarrow> a' = a \<or> a_state a = DOWNLOADED \<and> a' = a\<lparr>a_state := REVOKED, a_error_code := None\<rparr>)"
  using send_step_moves [OF assms(1)] assms(2) unfolding sent_moves_def sent_move_def by blast

theorem sender_transitions_witness:
  "\<exists>(W :: unit send_world) W' a a'. send_step sample_send_ctx W W' \<and> find_attachment (sw_db W) ''a'' = Some a \<and> a_state a = DRAFT
     \<and> find_attachment (sw_db W') ''a'' = Some a' \<and> sent_core a' = sent_core a \<and> a_state a' = VALIDATING"
proof -
  obtain db row where d: "find_attachment db ''a'' = Some row" "a_state row = DRAFT" "a_direction row = Sent"
    using sample_draft by blast
  let ?W = "\<lparr>sw_db = db, sw_relay = (), sw_radio = []\<rparr>"
  let ?W' = "?W\<lparr>sw_db := sender_set_state db ''a'' VALIDATING 2 None\<rparr>"
  have "sender_run_step sample_send_ctx None None None True ?W ''a'' 2 = (?W', Inr VALIDATING)"
    using d by (simp add: sender_run_step_def commit_db_def step_draft_def)
  then have step: "send_step sample_send_ctx ?W ?W'"
    using d by (intro send_step.run [where R = None]) auto
  then obtain a' where "find_attachment (sw_db ?W') ''a'' = Some a'" "sent_core a' = sent_core row"
    using sender_transitions [OF step, of "''a''" row] d by auto
  then show ?thesis
    using step d
    by (intro exI [of _ ?W] exI [of _ ?W'] exI [of _ row] exI [of _ a']) (auto simp: find_moves)
qed

text \<open>C24. A committed object stays revocable: with a Relay that hands out a revoke token with every session, in every
  reachable state each sent attachment that is ready to send, sent, received, downloaded, expired or rejected has a
  retained revoke token, whose \<open>delete_after\<close> is the object's deadline plus its download grace when the deadline is
  known.\<close>

theorem committed_stays_revocable:
  assumes "send_reachable C W" and "find_attachment (sw_db W) j = Some a" and "a_direction a = Sent"
    and "a_state a \<in> {READY_TO_SEND, SENT, RECEIVED, DOWNLOADED, ST_EXPIRED, ST_REJECTED}"
  shows "\<exists>v. find_by rv_attachment_id j (db_revoke_state (sw_db W)) = Some v
    \<and> (0 < a_hard_expires_at a \<longrightarrow> rv_delete_after v = a_hard_expires_at a +
         (if a_download_grace_seconds a = 0 then SENDER_DOWNLOAD_GRACE_SECONDS else a_download_grace_seconds a))"
  using send_reachable_kept [OF assms(1)] assms(2-)
  unfolding kept_def revocable_def committed_states_def revoke_of_def grace_of_def by blast

text \<open>Acknowledgements converge: whatever acknowledgements arrive for a sent transfer, in any order and any number of
  times, none raises, the final state is \<open>DOWNLOADED\<close> if one of them said so, else \<open>RECEIVED\<close> if one said that, else still
  \<open>SENT\<close>, and a further acknowledgement of a kind already seen changes nothing in the database.\<close>

theorem acks_converge:
  assumes "find_attachment db i = Some row" and "a_state row = SENT" and "delivery_for db i = Inr d"
    and "fst ` set acks \<subseteq> {ACK_RECEIVED, ACK_DOWNLOADED, ACK_PROVIDER_UNKNOWN}"
  shows "\<exists>db'. apply_acks db i acks = Inr db'
    \<and> state_of db' i = Some (if ACK_DOWNLOADED \<in> fst ` set acks then DOWNLOADED else if ACK_RECEIVED \<in> fst ` set acks then RECEIVED else SENT)
    \<and> (\<forall>t \<in> fst ` set acks. \<forall>now. \<exists>st. apply_ack db' i t now = Inr (db', st))"
proof -
  have "acked db i {}"
    using assms(1-3) by (simp add: acked_def ack_state_def)
  then obtain db' where db': "apply_acks db i acks = Inr db'" "acked db' i (fst ` set acks)"
    using acked_steps [of db i "{}" acks] assms(4) by (auto simp: ack_types_def)
  have "\<exists>st. apply_ack db' i t now = Inr (db', st)" if "t \<in> fst ` set acks" for t now
    using acked_step [OF db'(2), of t now] that assms(4) unfolding ack_types_def by blast
  then show ?thesis
    using db' by (auto simp: acked_def ack_state_def state_of_def)
qed

theorem acks_converge_witness:
  "\<exists>db db'. state_of db ''a'' = Some SENT
     \<and> apply_acks db ''a'' [(ACK_DOWNLOADED, 9), (ACK_RECEIVED, 8), (ACK_DOWNLOADED, 10)] = Inr db' \<and> state_of db' ''a'' = Some DOWNLOADED"
proof -
  obtain db row d where "find_attachment db ''a'' = Some row" "a_state row = SENT" "delivery_for db ''a'' = Inr d"
    using sample_sent by blast
  with acks_converge [OF this, of "[(ACK_DOWNLOADED, 9), (ACK_RECEIVED, 8), (ACK_DOWNLOADED, 10)]"] show ?thesis
    by (auto simp: state_of_def)
qed

text \<open>The requested lifetime is ignored: \<open>create_draft\<close> accepts \<open>hard_ttl_seconds\<close> but two drafts that differ only in
  it leave the same database, and whatever the draft asked for, every upload the sender announces asks the Relay for
  the default of 72 hours.\<close>

theorem requested_ttl_ignored:
  "create_draft C db (args\<lparr>da_hard_ttl_seconds := ttl\<rparr>) now = create_draft C db args now
   \<and> (\<forall>row state tid n q. upload_request_of C db row state tid n = Inr q \<longrightarrow> uq_hard_ttl_seconds q = Some (72 * 3600))"
proof -
  have "draft_conflict db (args\<lparr>da_hard_ttl_seconds := ttl\<rparr>) = draft_conflict db args"
    by (simp add: draft_conflict_def fun_eq_iff)
  moreover have "new_sent C (args\<lparr>da_hard_ttl_seconds := ttl\<rparr>) = new_sent C args"
    by (simp add: new_sent_def fun_eq_iff)
  ultimately have "create_draft C db (args\<lparr>da_hard_ttl_seconds := ttl\<rparr>) now = create_draft C db args now"
    by (simp add: create_draft_def Let_def cong: if_cong)
  then show ?thesis
    by (auto simp: upload_request_of_def bind_res_eq_Inr DEFAULT_HARD_TTL_SECONDS_def)
qed

theorem requested_ttl_ignored_witness:
  "\<exists>q. create_draft sample_send_ctx empty_db (sample_args\<lparr>da_hard_ttl_seconds := 60\<rparr>) 1 = create_draft sample_send_ctx empty_db sample_args 1
     \<and> upload_request_of sample_send_ctx empty_db sample_row sample_upload_state (replicate 16 1) 2 = Inr q \<and> uq_hard_ttl_seconds q = Some 259200"
proof -
  obtain q where "upload_request_of sample_send_ctx empty_db sample_row sample_upload_state (replicate 16 1) 2 = Inr q"
    using sample_request_of [of empty_db sample_row] by (auto simp: empty_db_def sample_row_def new_sent_def sample_args_def)
  with requested_ttl_ignored [where C = sample_send_ctx and db = empty_db and args = sample_args and ttl = 60 and now = 1] show ?thesis
    by fastforce
qed

end
