(* ===== verification/Relay_Store.thy ===== *)
theory Relay_Store
  imports Sender
begin

text \<open>
  The Relay's object model and state machine as the repository has it in Python, \<open>MockRelayStore\<close> of
  \<open>src/meshsrv/attachments/relay/mock_server.py\<close>: upload sessions, commit, signed descriptors, download, receipts,
  expiry and revocation. The clock reads whole seconds. A rejected operation is \<open>RelayValidationError\<close> with its code and
  HTTP status. The dictionaries are lists of rows in insertion order; the chunk dictionary, whose keys are
  \<open>0, ..., n - 1\<close>, is the list of its values. The last section is the view of the store the two transfer state machines
  have through \<open>RelayClient\<close>: none of the statuses the store answers with is one the client retries, so every rejection
  reaches the caller as \<open>RelayHTTPError\<close>.
\<close>

section \<open>State\<close>

record relay_limits =
  lim_max_ciphertext_bytes :: int
  lim_max_manifest_bytes :: int
  lim_max_chunk_bytes :: int
  lim_max_chunks :: nat
  lim_max_receipts :: nat
  lim_min_hard_ttl_seconds :: int
  lim_default_hard_ttl_seconds :: int
  lim_max_hard_ttl_seconds :: int
  lim_default_grace_seconds :: int
  lim_max_grace_seconds :: int
  lim_upload_session_seconds :: int
  lim_max_storage_bytes :: int

definition default_limits :: relay_limits where
  "default_limits =
     \<lparr>lim_max_ciphertext_bytes = 6 * 1024 * 1024, lim_max_manifest_bytes = 256 * 1024, lim_max_chunk_bytes = 300000,
      lim_max_chunks = 64, lim_max_receipts = 32, lim_min_hard_ttl_seconds = 3600, lim_default_hard_ttl_seconds = 259200,
      lim_max_hard_ttl_seconds = 259200, lim_default_grace_seconds = 3600, lim_max_grace_seconds = 86400,
      lim_upload_session_seconds = 21600, lim_max_storage_bytes = 10 * 1024 * 1024 * 1024\<rparr>"

record relay_chunk =
  k_expected_size :: int
  k_expected_sha256 :: bytes
  k_uploaded :: bool
  k_data :: bytes

datatype transfer_state = Staging | Committed | Revoked | Expired

record transfer =
  t_upload_id :: string
  t_transfer_id :: bytes
  t_upload_token_hash :: bytes
  t_revoke_token_hash :: bytes
  t_total_size :: int
  t_ciphertext_sha256 :: bytes
  t_manifest_size :: int
  t_manifest_sha256 :: bytes
  t_hard_ttl_seconds :: int
  t_grace_seconds :: int
  t_session_expires_at :: int
  t_created_at :: int
  t_chunks :: "relay_chunk list"
  t_receipts :: "(bytes \<times> int option) list"
  t_manifest_uploaded :: bool
  t_manifest_data :: bytes
  t_state :: transfer_state
  t_hard_expires_at :: "int option"
  t_delete_after :: "int option"
  t_committed_at :: "int option"

record relay_store =
  st_base_url :: string
  st_limits :: relay_limits
  st_signing_key :: bytes
  st_upload_access_token :: string
  st_transfers :: "transfer list"
  st_upload_ids :: "(bytes \<times> string) list"

datatype validation_error = RelayValidationError string int

definition reject_with :: "string \<Rightarrow> int \<Rightarrow> validation_error + 'a" where
  "reject_with code status = Inl (RelayValidationError code status)"

definition store_provider_id :: "ext \<Rightarrow> relay_store \<Rightarrow> string" where
  "store_provider_id X S =
     b64url_nopad (take 8 (sha256 X (utf8_encode (lower (rstrip_char CHR ''/'' (st_base_url S))) @ [10] @ ed_public X (st_signing_key S))))"

definition total_committed_bytes :: "relay_store \<Rightarrow> int" where
  "total_committed_bytes S =
     sum_list (map (\<lambda>t. t_total_size t + t_manifest_size t) (filter (\<lambda>t. t_state t \<in> set [Staging, Committed]) (st_transfers S)))"

section \<open>Sessions\<close>

definition check_upload_access_token :: "ext \<Rightarrow> relay_store \<Rightarrow> string option \<Rightarrow> validation_error + unit" where
  "check_upload_access_token X S token =
     (case token of
        None \<Rightarrow> reject_with ''invalid_token'' 401
      | Some t \<Rightarrow> if sha256 X (ascii_bytes t) \<noteq> sha256 X (ascii_bytes (st_upload_access_token S)) then reject_with ''invalid_token'' 401 else Inr ())"

definition check_session_token :: "ext \<Rightarrow> bytes \<Rightarrow> string \<Rightarrow> validation_error + unit" where
  "check_session_token X expected token =
     (if sha256 X (ascii_bytes token) \<noteq> expected then reject_with ''invalid_token'' 401 else Inr ())"

definition clamp :: "int option \<Rightarrow> int \<Rightarrow> int \<Rightarrow> int \<Rightarrow> string \<Rightarrow> validation_error + int" where
  "clamp v default_value minimum maximum field_name =
     (case v of
        None \<Rightarrow> Inr default_value
      | Some n \<Rightarrow> if n < minimum \<or> maximum < n then reject_with (''invalid_'' @ field_name) 422 else Inr n)"

text \<open>The loop over the declared chunks, with the running total.\<close>

fun validate_chunks :: "relay_limits \<Rightarrow> int \<Rightarrow> int \<Rightarrow> chunk_declaration list \<Rightarrow> validation_error + relay_chunk list \<times> int" where
  "validate_chunks L total_size running_total [] = Inr ([], running_total)"
| "validate_chunks L total_size running_total (c # cs) =
     (if cd_size c < 1 \<or> lim_max_chunk_bytes L < cd_size c then reject_with ''invalid_size'' 422
      else if total_size < running_total + cd_size c then reject_with ''invalid_chunks'' 422
      else bind_res (validate_chunks L total_size (running_total + cd_size c) cs) (\<lambda>(ks, total).
        Inr (\<lparr>k_expected_size = cd_size c, k_expected_sha256 = cd_sha256 c, k_uploaded = False, k_data = []\<rparr> # ks, total)))"

definition upload_id_for :: "ext \<Rightarrow> bytes \<Rightarrow> int \<Rightarrow> string" where
  "upload_id_for X transfer_id now = b64url_nopad (sha256 X (transfer_id @ ascii_bytes (dec_of_int now)) @ take 1 transfer_id)"

definition upload_token_for :: "ext \<Rightarrow> string \<Rightarrow> string" where
  "upload_token_for X upload_id = ''mca_us_'' @ b64url_nopad (sha256 X (ascii_bytes upload_id @ ascii_bytes ''tok'') @ replicate 8 0)"

definition revoke_token_for :: "ext \<Rightarrow> string \<Rightarrow> string" where
  "revoke_token_for X upload_id = ''mca_rv_'' @ b64url_nopad (sha256 X (ascii_bytes upload_id @ ascii_bytes ''rev'') @ replicate 8 0)"

definition new_transfer :: "ext \<Rightarrow> relay_limits \<Rightarrow> upload_request \<Rightarrow> relay_chunk list \<Rightarrow> int \<Rightarrow> int \<Rightarrow> int \<Rightarrow> transfer" where
  "new_transfer X L q chunks hard_ttl grace now =
     (let upload_id = upload_id_for X (uq_transfer_id q) now in
      \<lparr>t_upload_id = upload_id, t_transfer_id = uq_transfer_id q,
       t_upload_token_hash = sha256 X (ascii_bytes (upload_token_for X upload_id)),
       t_revoke_token_hash = sha256 X (ascii_bytes (revoke_token_for X upload_id)),
       t_total_size = uq_total_size q, t_ciphertext_sha256 = uq_ciphertext_sha256 q, t_manifest_size = uq_manifest_size q,
       t_manifest_sha256 = uq_manifest_sha256 q, t_hard_ttl_seconds = hard_ttl, t_grace_seconds = grace,
       t_session_expires_at = now + lim_upload_session_seconds L, t_created_at = now, t_chunks = chunks,
       t_receipts = map (\<lambda>h. (h, None)) (uq_receipt_hashes q), t_manifest_uploaded = False, t_manifest_data = [],
       t_state = Staging, t_hard_expires_at = None, t_delete_after = None, t_committed_at = None\<rparr>)"

definition store_create_upload :: "ext \<Rightarrow> relay_store \<Rightarrow> upload_request \<Rightarrow> int \<Rightarrow> validation_error + relay_store \<times> transfer" where
  "store_create_upload X S q now =
     (let L = st_limits S in
      if uq_transfer_id q \<in> fst ` set (st_upload_ids S) then reject_with ''transfer_exists'' 409
      else if uq_total_size q < 1 \<or> lim_max_ciphertext_bytes L < uq_total_size q then reject_with ''invalid_total_size'' 422
      else if uq_manifest_size q < 1 \<or> lim_max_manifest_bytes L < uq_manifest_size q then reject_with ''invalid_manifest_size'' 422
      else if uq_chunks q = [] \<or> lim_max_chunks L < length (uq_chunks q) then reject_with ''invalid_chunks'' 422
      else bind_res (validate_chunks L (uq_total_size q) 0 (uq_chunks q)) (\<lambda>(chunks, running_total).
        if running_total \<noteq> uq_total_size q then reject_with ''invalid_chunks'' 422
        else if uq_receipt_hashes q = [] \<or> lim_max_receipts L < length (uq_receipt_hashes q) then reject_with ''invalid_receipts'' 422
        else if \<not> distinct (uq_receipt_hashes q) then reject_with ''invalid_receipts'' 422
        else bind_res (clamp (uq_hard_ttl_seconds q) (lim_default_hard_ttl_seconds L) (lim_min_hard_ttl_seconds L)
                         (lim_max_hard_ttl_seconds L) ''hard_ttl_seconds'') (\<lambda>hard_ttl.
          bind_res (clamp (uq_download_grace_seconds q) (lim_default_grace_seconds L) 60 (lim_max_grace_seconds L)
                      ''download_grace_seconds'') (\<lambda>grace.
          if lim_max_storage_bytes L < total_committed_bytes S + uq_total_size q + uq_manifest_size q
          then reject_with ''relay_quota_exceeded'' 507
          else let t = new_transfer X L q chunks hard_ttl grace now in
            Inr (S\<lparr>st_transfers := upsert t_upload_id t (\<lambda>_. t) (st_transfers S),
                   st_upload_ids := st_upload_ids S @ [(uq_transfer_id q, t_upload_id t)]\<rparr>, t)))))"

definition get_upload :: "relay_store \<Rightarrow> string \<Rightarrow> validation_error + transfer" where
  "get_upload S upload_id =
     (case find_by t_upload_id upload_id (st_transfers S) of None \<Rightarrow> reject_with ''upload_not_found'' 404 | Some t \<Rightarrow> Inr t)"

definition require_staging :: "transfer \<Rightarrow> int \<Rightarrow> validation_error + unit" where
  "require_staging t now =
     (if t_state t \<noteq> Staging then reject_with ''upload_not_staging'' 409
      else if t_session_expires_at t \<le> now then reject_with ''upload_expired'' 410
      else Inr ())"

definition update_transfer :: "string \<Rightarrow> (transfer \<Rightarrow> transfer) \<Rightarrow> relay_store \<Rightarrow> relay_store" where
  "update_transfer upload_id f S = S\<lparr>st_transfers := update_where (\<lambda>t. t_upload_id t = upload_id) f (st_transfers S)\<rparr>"

definition store_get_upload_status :: "ext \<Rightarrow> relay_store \<Rightarrow> string \<Rightarrow> string \<Rightarrow> validation_error + transfer" where
  "store_get_upload_status X S upload_id upload_token =
     bind_res (get_upload S upload_id) (\<lambda>t.
     bind_res (check_session_token X (t_upload_token_hash t) upload_token) (\<lambda>_. Inr t))"

definition store_upload_chunk :: "ext \<Rightarrow> relay_store \<Rightarrow> string \<Rightarrow> string \<Rightarrow> int \<Rightarrow> bytes \<Rightarrow> int \<Rightarrow> validation_error + relay_store" where
  "store_upload_chunk X S upload_id upload_token index data now =
     bind_res (get_upload S upload_id) (\<lambda>t.
     bind_res (check_session_token X (t_upload_token_hash t) upload_token) (\<lambda>_.
     bind_res (require_staging t now) (\<lambda>_.
     if index < 0 \<or> int (length (t_chunks t)) \<le> index then reject_with ''chunk_not_declared'' 404
     else let chunk = t_chunks t ! nat index in
       if int (length data) \<noteq> k_expected_size chunk then reject_with ''size_mismatch'' 422
       else if sha256 X data \<noteq> k_expected_sha256 chunk then reject_with ''digest_mismatch'' 422
       else Inr (update_transfer upload_id (\<lambda>t. t\<lparr>t_chunks := (t_chunks t)[nat index := chunk\<lparr>k_uploaded := True, k_data := data\<rparr>]\<rparr>) S))))"

definition store_upload_manifest :: "ext \<Rightarrow> relay_store \<Rightarrow> string \<Rightarrow> string \<Rightarrow> bytes \<Rightarrow> int \<Rightarrow> validation_error + relay_store" where
  "store_upload_manifest X S upload_id upload_token data now =
     bind_res (get_upload S upload_id) (\<lambda>t.
     bind_res (check_session_token X (t_upload_token_hash t) upload_token) (\<lambda>_.
     bind_res (require_staging t now) (\<lambda>_.
     if int (length data) \<noteq> t_manifest_size t then reject_with ''size_mismatch'' 422
     else if sha256 X data \<noteq> t_manifest_sha256 t then reject_with ''digest_mismatch'' 422
     else Inr (update_transfer upload_id (\<lambda>t. t\<lparr>t_manifest_uploaded := True, t_manifest_data := data\<rparr>) S))))"

definition store_commit :: "ext \<Rightarrow> relay_store \<Rightarrow> string \<Rightarrow> string \<Rightarrow> int \<Rightarrow> validation_error + relay_store \<times> transfer" where
  "store_commit X S upload_id upload_token now =
     bind_res (get_upload S upload_id) (\<lambda>t.
     bind_res (check_session_token X (t_upload_token_hash t) upload_token) (\<lambda>_.
     if t_state t = Committed then Inr (S, t)
     else bind_res (require_staging t now) (\<lambda>_.
       if \<not> t_manifest_uploaded t then reject_with ''manifest_missing'' 409
       else if \<not> list_all k_uploaded (t_chunks t) then reject_with ''chunk_missing'' 409
       else let ordered = concat (map k_data (t_chunks t)) in
         if int (length ordered) \<noteq> t_total_size t \<or> sha256 X ordered \<noteq> t_ciphertext_sha256 t then reject_with ''ciphertext_invalid'' 409
         else let t' = t\<lparr>t_state := Committed, t_committed_at := Some now, t_hard_expires_at := Some (now + t_hard_ttl_seconds t)\<rparr> in
           Inr (update_transfer upload_id (\<lambda>_. t') S, t'))))"

section \<open>Objects\<close>

text \<open>A lookup may move the transfer to \<open>expired\<close> and then rejects; the store it leaves is the first component.\<close>

definition due :: "int option \<Rightarrow> int \<Rightarrow> bool" where
  "due deadline now \<longleftrightarrow> (case deadline of None \<Rightarrow> False | Some d \<Rightarrow> d \<le> now)"

definition object_of :: "relay_store \<Rightarrow> bytes \<Rightarrow> transfer option" where
  "object_of S transfer_id =
     Option.bind (map_option snd (find_by fst transfer_id (st_upload_ids S))) (\<lambda>uid. find_by t_upload_id uid (st_transfers S))"

definition fetch_object :: "relay_store \<Rightarrow> bytes \<Rightarrow> int \<Rightarrow> relay_store \<times> (validation_error + transfer)" where
  "fetch_object S transfer_id now =
     (case object_of S transfer_id of
        None \<Rightarrow> (S, reject_with ''object_not_found'' 404)
      | Some t \<Rightarrow>
          if t_state t = Staging then (S, reject_with ''object_not_found'' 404)
          else if t_state t \<in> set [Expired, Revoked] then (S, reject_with ''object_unavailable'' 410)
          else if due (t_hard_expires_at t) now \<or> due (t_delete_after t) now
          then (update_transfer (t_upload_id t) (\<lambda>t. t\<lparr>t_state := Expired\<rparr>) S, reject_with ''object_expired'' 410)
          else (S, Inr t))"

definition time_of :: "int option \<Rightarrow> relay_time" where
  "time_of v = (case v of None \<Rightarrow> TimeNull | Some n \<Rightarrow> TimeNum n)"

definition unsigned_descriptor :: "ext \<Rightarrow> relay_store \<Rightarrow> transfer \<Rightarrow> object_descriptor" where
  "unsigned_descriptor X S t =
     \<lparr>d_provider_id = store_provider_id X S, d_transfer_id = t_transfer_id t, d_total_size = t_total_size t,
      d_ciphertext_sha256 = t_ciphertext_sha256 t, d_manifest_size = t_manifest_size t, d_manifest_sha256 = t_manifest_sha256 t,
      d_chunks = map (\<lambda>(i, k). \<lparr>dc_index = int i, dc_size = k_expected_size k, dc_sha256 = k_expected_sha256 k\<rparr>) (enumerate 0 (t_chunks t)),
      d_committed_at = time_of (t_committed_at t), d_hard_expires_at = time_of (t_hard_expires_at t),
      d_delete_after = time_of (t_delete_after t), d_encrypted_manifest = t_manifest_data t, d_service_signature = []\<rparr>"

definition descriptor_payload :: "ext \<Rightarrow> relay_store \<Rightarrow> transfer \<Rightarrow> object_descriptor" where
  "descriptor_payload X S t =
     (let d = unsigned_descriptor X S t in d\<lparr>d_service_signature := ed_sign X (st_signing_key S) (descriptor_message d)\<rparr>)"

definition store_get_descriptor :: "ext \<Rightarrow> relay_store \<Rightarrow> bytes \<Rightarrow> int \<Rightarrow> relay_store \<times> (validation_error + object_descriptor)" where
  "store_get_descriptor X S transfer_id now =
     (case fetch_object S transfer_id now of
        (S', Inl e) \<Rightarrow> (S', Inl e)
      | (S', Inr t) \<Rightarrow> (S', Inr (descriptor_payload X S' t)))"

definition store_get_chunk :: "relay_store \<Rightarrow> bytes \<Rightarrow> int \<Rightarrow> int \<Rightarrow> relay_store \<times> (validation_error + bytes)" where
  "store_get_chunk S transfer_id index now =
     (case fetch_object S transfer_id now of
        (S', Inl e) \<Rightarrow> (S', Inl e)
      | (S', Inr t) \<Rightarrow>
          if index < 0 \<or> int (length (t_chunks t)) \<le> index \<or> \<not> k_uploaded (t_chunks t ! nat index)
          then (S', reject_with ''chunk_not_found'' 404)
          else (S', Inr (k_data (t_chunks t ! nat index))))"

definition record_receipt :: "bytes \<Rightarrow> int \<Rightarrow> transfer \<Rightarrow> transfer" where
  "record_receipt receipt_hash now t =
     (let receipts = update_where (\<lambda>r. fst r = receipt_hash \<and> snd r = None) (\<lambda>r. (fst r, Some now)) (t_receipts t);
          candidate = (case t_hard_expires_at t of None \<Rightarrow> now + t_grace_seconds t | Some h \<Rightarrow> min (now + t_grace_seconds t) h) in
      t\<lparr>t_receipts := receipts,
        t_delete_after :=
          (if list_all (\<lambda>r. snd r \<noteq> None) receipts
           then (case t_delete_after t of None \<Rightarrow> Some candidate | Some d \<Rightarrow> if candidate < d then Some candidate else Some d)
           else t_delete_after t)\<rparr>)"

definition store_complete :: "ext \<Rightarrow> relay_store \<Rightarrow> bytes \<Rightarrow> bytes \<Rightarrow> int \<Rightarrow> relay_store \<times> (validation_error + unit)" where
  "store_complete X S transfer_id receipt_secret now =
     (case fetch_object S transfer_id now of
        (S', Inl e) \<Rightarrow> (S', Inl e)
      | (S', Inr t) \<Rightarrow>
          (let receipt_hash = sha256 X receipt_secret in
           if receipt_hash \<notin> fst ` set (t_receipts t) then (S', reject_with ''invalid_receipt'' 403)
           else (update_transfer (t_upload_id t) (record_receipt receipt_hash now) S', Inr ())))"

definition store_revoke :: "ext \<Rightarrow> relay_store \<Rightarrow> bytes \<Rightarrow> string \<Rightarrow> validation_error + relay_store" where
  "store_revoke X S transfer_id revoke_token =
     (case object_of S transfer_id of
        None \<Rightarrow> reject_with ''object_not_found'' 404
      | Some t \<Rightarrow>
          bind_res (check_session_token X (t_revoke_token_hash t) revoke_token) (\<lambda>_.
          Inr (update_transfer (t_upload_id t) (\<lambda>t. t\<lparr>t_state := Revoked\<rparr>) S)))"

end
