(* ===== verification/Relay_Client.thy ===== *)
theory Relay_Client
  imports Relay_Store
begin

text \<open>
  The HTTP client of the Relay, \<open>RelayClient\<close> of \<open>src/meshsrv/attachments/relay_client.py\<close>: the retry loop \<open>_request\<close>,
  \<open>_raise_for_error\<close>, and the upload and download calls over them. A session is a function from the Relay's state to its
  new state and a response; the body of a response is the value its JSON is parsed into (the Base64URL and hex codings
  of the fields invert each other, \<open>Py_Base64\<close>, \<open>MC_Prelude\<close>). \<open>store_http\<close> answers the requests with the store of
  \<open>Relay_Store\<close>, as the Flask application of \<open>src/meshsrv/attachments/relay/mock_server.py\<close> does.
\<close>

section \<open>Requests and retries\<close>

text \<open>\<open>rp_error\<close> is the \<open>error\<close> member of a JSON error body, \<open>None\<close> when there is none or the body does not parse.\<close>

record 'b response =
  rp_status :: int
  rp_retry_after :: "rat option"
  rp_error :: "string option"
  rp_body :: "'b option"

definition DEFAULT_MAX_RETRIES :: nat where "DEFAULT_MAX_RETRIES = 3"
definition DEFAULT_RETRY_BACKOFF_SECONDS :: rat where "DEFAULT_RETRY_BACKOFF_SECONDS = 2 / 10"
definition RETRYABLE_STATUS_CODES :: "int list" where "RETRYABLE_STATUS_CODES = [429, 500, 502, 503, 504]"

text \<open>The \<open>while True\<close> loop from its iteration number \<open>attempt\<close> on, with the delays it sleeps.\<close>

function request ::
  "nat \<Rightarrow> bool \<Rightarrow> ('s \<Rightarrow> 's \<times> 'b response) \<Rightarrow> nat \<Rightarrow> 's \<Rightarrow> rat list \<Rightarrow> 's \<times> rat list \<times> (relay_error + 'b response)" where
  "request max_retries retryable session attempt s slept =
     (let (s', response) = session s in
      if retryable \<and> rp_status response \<in> set RETRYABLE_STATUS_CODES then
        if max_retries < attempt then (s', slept, Inl RelayUnavailableError)
        else request max_retries retryable session (Suc attempt) s'
               (slept @ [case rp_retry_after response of None \<Rightarrow> DEFAULT_RETRY_BACKOFF_SECONDS * 2 ^ (attempt - 1) | Some d \<Rightarrow> d])
      else (s', slept, Inr response))"
  by pat_completeness auto
termination
  by (relation "measure (\<lambda>(max_retries, _, _, attempt, _, _). Suc max_retries - attempt)") auto

declare request.simps [simp del]

definition raise_for_error :: "'b response \<Rightarrow> int \<Rightarrow> relay_error + unit" where
  "raise_for_error response expected =
     (if rp_status response = expected then Inr ()
      else Inl (RelayHTTPError (rp_status response) (case rp_error response of None \<Rightarrow> ''unknown'' | Some c \<Rightarrow> c)))"

text \<open>One client call. A body that lacks a member the parser reads raises \<open>KeyError\<close>, which is no \<open>RelayError\<close>.\<close>

definition client_call :: "bool \<Rightarrow> int \<Rightarrow> ('s \<Rightarrow> 's \<times> 'b response) \<Rightarrow> 's \<Rightarrow> 's \<times> (relay_error + 'b)" where
  "client_call retryable expected session s =
     (case request DEFAULT_MAX_RETRIES retryable session 1 s [] of
        (s', _, Inl e) \<Rightarrow> (s', Inl e)
      | (s', _, Inr response) \<Rightarrow>
          (s', bind_res (raise_for_error response expected) (\<lambda>_.
               case rp_body response of None \<Rightarrow> Inl NotARelayError | Some b \<Rightarrow> Inr b)))"

section \<open>The calls\<close>

record 's relay_http =
  h_create_upload :: "'s \<Rightarrow> string option \<Rightarrow> upload_request \<Rightarrow> 's \<times> upload_session response"
  h_get_upload_status :: "'s \<Rightarrow> string \<Rightarrow> string \<Rightarrow> 's \<times> upload_status response"
  h_upload_chunk :: "'s \<Rightarrow> string \<Rightarrow> string \<Rightarrow> int \<Rightarrow> bytes \<Rightarrow> 's \<times> unit response"
  h_upload_manifest :: "'s \<Rightarrow> string \<Rightarrow> string \<Rightarrow> bytes \<Rightarrow> 's \<times> unit response"
  h_commit :: "'s \<Rightarrow> string \<Rightarrow> string \<Rightarrow> 's \<times> object_descriptor response"
  h_get_descriptor :: "'s \<Rightarrow> bytes \<Rightarrow> 's \<times> object_descriptor response"
  h_get_chunk :: "'s \<Rightarrow> bytes \<Rightarrow> int \<Rightarrow> 's \<times> bytes response"
  h_complete :: "'s \<Rightarrow> bytes \<Rightarrow> bytes \<Rightarrow> 's \<times> unit response"
  h_revoke :: "'s \<Rightarrow> bytes \<Rightarrow> string \<Rightarrow> 's \<times> unit response"

definition client_create_upload :: "string option \<Rightarrow> 's relay_http \<Rightarrow> 's \<Rightarrow> upload_request \<Rightarrow> 's \<times> (relay_error + upload_session)" where
  "client_create_upload upload_access_token H s q =
     (if upload_access_token = None then (s, Inl OtherRelayError)
      else client_call False 201 (\<lambda>s. h_create_upload H s upload_access_token q) s)"

definition client_get_upload_status :: "'s relay_http \<Rightarrow> 's \<Rightarrow> string \<Rightarrow> string \<Rightarrow> 's \<times> (relay_error + upload_status)" where
  "client_get_upload_status H s upload_id upload_token =
     client_call True 200 (\<lambda>s. h_get_upload_status H s upload_id upload_token) s"

definition client_upload_chunk :: "'s relay_http \<Rightarrow> 's \<Rightarrow> string \<Rightarrow> string \<Rightarrow> int \<Rightarrow> bytes \<Rightarrow> 's \<times> (relay_error + unit)" where
  "client_upload_chunk H s upload_id upload_token index data =
     client_call False 200 (\<lambda>s. h_upload_chunk H s upload_id upload_token index data) s"

definition client_upload_manifest :: "'s relay_http \<Rightarrow> 's \<Rightarrow> string \<Rightarrow> string \<Rightarrow> bytes \<Rightarrow> 's \<times> (relay_error + unit)" where
  "client_upload_manifest H s upload_id upload_token data =
     client_call False 200 (\<lambda>s. h_upload_manifest H s upload_id upload_token data) s"

definition client_commit :: "'s relay_http \<Rightarrow> 's \<Rightarrow> string \<Rightarrow> string \<Rightarrow> 's \<times> (relay_error + object_descriptor)" where
  "client_commit H s upload_id upload_token = client_call True 200 (\<lambda>s. h_commit H s upload_id upload_token) s"

definition client_get_descriptor :: "'s relay_http \<Rightarrow> 's \<Rightarrow> bytes \<Rightarrow> 's \<times> (relay_error + object_descriptor)" where
  "client_get_descriptor H s transfer_id = client_call True 200 (\<lambda>s. h_get_descriptor H s transfer_id) s"

definition client_get_chunk :: "'s relay_http \<Rightarrow> 's \<Rightarrow> bytes \<Rightarrow> int \<Rightarrow> 's \<times> (relay_error + bytes)" where
  "client_get_chunk H s transfer_id index = client_call True 200 (\<lambda>s. h_get_chunk H s transfer_id index) s"

definition client_complete :: "'s relay_http \<Rightarrow> 's \<Rightarrow> bytes \<Rightarrow> bytes \<Rightarrow> 's \<times> (relay_error + unit)" where
  "client_complete H s transfer_id receipt_secret = client_call True 200 (\<lambda>s. h_complete H s transfer_id receipt_secret) s"

definition client_revoke :: "'s relay_http \<Rightarrow> 's \<Rightarrow> bytes \<Rightarrow> string \<Rightarrow> 's \<times> (relay_error + unit)" where
  "client_revoke H s transfer_id revoke_token = client_call False 200 (\<lambda>s. h_revoke H s transfer_id revoke_token) s"

text \<open>The client as the sender sees it, and as the receiver sees it while the Relay is in state \<open>s\<close>.\<close>

definition uploader :: "string option \<Rightarrow> 's relay_http \<Rightarrow> 's upload_relay" where
  "uploader upload_access_token H =
     \<lparr>ur_create_upload = client_create_upload upload_access_token H, ur_get_upload_status = client_get_upload_status H,
      ur_upload_chunk = client_upload_chunk H, ur_upload_manifest = client_upload_manifest H, ur_commit = client_commit H\<rparr>"

definition downloader :: "'s relay_http \<Rightarrow> 's \<Rightarrow> relay_client" where
  "downloader H s =
     \<lparr>rc_get_descriptor = (\<lambda>transfer_id. snd (client_get_descriptor H s transfer_id)),
      rc_get_chunk = (\<lambda>transfer_id index. snd (client_get_chunk H s transfer_id index)),
      rc_complete = (\<lambda>transfer_id receipt_secret. snd (client_complete H s transfer_id receipt_secret))\<rparr>"

section \<open>The store behind HTTP\<close>

definition answer :: "int \<Rightarrow> validation_error + 'b \<Rightarrow> 'b response" where
  "answer ok r =
     (case r of
        Inl (RelayValidationError code status) \<Rightarrow> \<lparr>rp_status = status, rp_retry_after = None, rp_error = Some code, rp_body = None\<rparr>
      | Inr b \<Rightarrow> \<lparr>rp_status = ok, rp_retry_after = None, rp_error = None, rp_body = Some b\<rparr>)"

text \<open>A mutating request: the store changes only when it is accepted.\<close>

definition accepted :: "'s \<Rightarrow> (validation_error + 's \<times> 'a) \<Rightarrow> 's \<times> (validation_error + 'a)" where
  "accepted s r = (case r of Inl e \<Rightarrow> (s, Inl e) | Inr (s', x) \<Rightarrow> (s', Inr x))"

definition session_of :: "ext \<Rightarrow> transfer \<Rightarrow> upload_session" where
  "session_of X t = \<lparr>us_upload_id = t_upload_id t, us_upload_token = upload_token_for X (t_upload_id t),
     us_revoke_token = Some (revoke_token_for X (t_upload_id t))\<rparr>"

definition status_of :: "transfer \<Rightarrow> upload_status" where
  "status_of t = \<lparr>up_manifest_uploaded = t_manifest_uploaded t,
     up_chunks = map (\<lambda>(i, k). \<lparr>cs_index = int i, cs_uploaded = k_uploaded k\<rparr>) (enumerate 0 (t_chunks t))\<rparr>"

definition store_http :: "ext \<Rightarrow> int \<Rightarrow> relay_store relay_http" where
  "store_http X now =
     \<lparr>h_create_upload = (\<lambda>S token q.
        (let (S', r) = accepted S (bind_res (check_upload_access_token X S token) (\<lambda>_. store_create_upload X S q now)) in
         (S', answer 201 (map_sum id (session_of X) r)))),
      h_get_upload_status = (\<lambda>S uid tok. (S, answer 200 (map_sum id status_of (store_get_upload_status X S uid tok)))),
      h_upload_chunk = (\<lambda>S uid tok i data.
        (let (S', r) = accepted S (map_sum id (\<lambda>S'. (S', ())) (store_upload_chunk X S uid tok i data now)) in (S', answer 200 r))),
      h_upload_manifest = (\<lambda>S uid tok data.
        (let (S', r) = accepted S (map_sum id (\<lambda>S'. (S', ())) (store_upload_manifest X S uid tok data now)) in (S', answer 200 r))),
      h_commit = (\<lambda>S uid tok.
        (let (S', r) = accepted S (store_commit X S uid tok now) in (S', answer 200 (map_sum id (descriptor_payload X S') r)))),
      h_get_descriptor = (\<lambda>S tid. map_prod id (answer 200) (store_get_descriptor X S tid now)),
      h_get_chunk = (\<lambda>S tid i. map_prod id (answer 200) (store_get_chunk S tid i now)),
      h_complete = (\<lambda>S tid secret. map_prod id (answer 200) (store_complete X S tid secret now)),
      h_revoke = (\<lambda>S tid tok.
        (let (S', r) = accepted S (map_sum id (\<lambda>S'. (S', ())) (store_revoke X S tid tok)) in (S', answer 200 r)))\<rparr>"

section \<open>Lemmas\<close>

lemma request_not_retryable: "request n False session k s slept = (fst (session s), slept, Inr (snd (session s)))"
  by (simp add: request.simps [of n False] split_def Let_def)

lemma request_settled:
  "rp_status (snd (session s)) \<notin> set RETRYABLE_STATUS_CODES \<Longrightarrow>
   request n retryable session k s slept = (fst (session s), slept, Inr (snd (session s)))"
  by (simp add: request.simps [of n retryable] split_def Let_def)

end
