(* ===== verification/Relay_Properties.thy ===== *)
theory Relay_Properties
  imports Relay_Client Sender_Properties
begin

text \<open>
  Properties of the Relay client and of the Relay's object store: bounded retries, what the client makes of transient
  errors, integrity of everything the store serves, bounded storage, and object lifetime.
\<close>

section \<open>Retries\<close>

text \<open>The state before the \<open>k\<close>-th further request, and the response to it.\<close>

definition state_after :: "('s \<Rightarrow> 's \<times> 'b) \<Rightarrow> nat \<Rightarrow> 's \<Rightarrow> 's" where
  "state_after session k s = ((\<lambda>s. fst (session s)) ^^ k) s"

definition transient_reply :: "('s \<Rightarrow> 's \<times> 'b response) \<Rightarrow> 's \<Rightarrow> nat \<Rightarrow> bool" where
  "transient_reply session s k \<longleftrightarrow> rp_status (snd (session (state_after session k s))) \<in> set RETRYABLE_STATUS_CODES"

lemma state_after_Suc: "state_after session k (fst (session s)) = state_after session (Suc k) s"
  using funpow_swap1 [of "\<lambda>s. fst (session s)" k s] by (simp add: state_after_def)

lemma transient_reply_Suc: "transient_reply session (fst (session s)) k = transient_reply session s (Suc k)"
  by (simp add: transient_reply_def state_after_Suc)

lemma state_after_0 [simp]: "state_after session 0 s = s"
  by (simp add: state_after_def)

lemma request_run:
  assumes "request n retryable session k s slept = (s', slept', r)" and "k \<le> Suc n"
  shows "\<exists>m. length slept' = length slept + m \<and> m + k \<le> Suc n \<and> s' = state_after session (Suc m) s
    \<and> (\<forall>j < m. retryable \<and> transient_reply session s j)
    \<and> (r = Inl RelayUnavailableError \<and> m + k = Suc n \<and> retryable \<and> transient_reply session s m
       \<or> r = Inr (snd (session (state_after session m s))) \<and> \<not> (retryable \<and> transient_reply session s m))"
  using assms
proof (induction n retryable session k s slept arbitrary: s' slept' r rule: request.induct)
  case (1 n retryable session k s slept)
  note IH = "1.IH" [OF refl surjective_pairing [symmetric]]
  show ?case
  proof (cases "retryable \<and> transient_reply session s 0")
    case False
    then show ?thesis
      using "1.prems" by (intro exI [of _ 0]) (auto simp: request.simps [of n _ session k] transient_reply_def state_after_def split_def Let_def)
  next
    case True
    then have t: "retryable \<and> rp_status (snd (session s)) \<in> set RETRYABLE_STATUS_CODES"
      by (simp add: transient_reply_def)
    show ?thesis
    proof (cases "n < k")
      case le: True
      then show ?thesis
        using "1.prems" True t by (intro exI [of _ 0]) (auto simp: request.simps [of n _ session k] state_after_def split_def Let_def)
    next
      case False
      obtain d where "request n retryable session (Suc k) (fst (session s)) (slept @ [d]) = (s', slept', r)"
        "d = (case rp_retry_after (snd (session s)) of None \<Rightarrow> DEFAULT_RETRY_BACKOFF_SECONDS * 2 ^ (k - 1) | Some d \<Rightarrow> d)"
        using "1.prems"(1) t False by (simp add: request.simps [of n _ session k] split_def Let_def)
      then obtain m where m: "length slept' = length slept + Suc m" "m + Suc k \<le> Suc n" "s' = state_after session (Suc (Suc m)) s"
        "\<forall>j < m. transient_reply session s (Suc j)"
        "r = Inl RelayUnavailableError \<and> m + Suc k = Suc n \<and> retryable \<and> transient_reply session s (Suc m)
         \<or> r = Inr (snd (session (state_after session (Suc m) s))) \<and> \<not> (retryable \<and> transient_reply session s (Suc m))"
        using IH t False by (fastforce simp: state_after_Suc transient_reply_Suc)
      have "retryable \<and> transient_reply session s j" if "j < Suc m" for j
        using that True m(4) by (cases j) auto
      then show ?thesis
        using m by (intro exI [of _ "Suc m"]) auto
    qed
  qed
qed

text \<open>The client's retry loop: a request is sent at most four times; it is repeated only for a call marked retryable
  and only while the Relay answers 429 or 5xx; \<open>RelayUnavailableError\<close> is raised exactly when all four answers were such,
  and otherwise the call returns the first other answer. Calls that are not retryable never raise it.\<close>

theorem retries_bounded:
  assumes "request DEFAULT_MAX_RETRIES retryable session 1 s [] = (s', slept, r)"
  shows "length slept \<le> 3 \<and> s' = state_after session (Suc (length slept)) s
    \<and> (\<forall>j < length slept. retryable \<and> transient_reply session s j)
    \<and> (r = Inl RelayUnavailableError \<longleftrightarrow> retryable \<and> (\<forall>j \<le> 3. transient_reply session s j))
    \<and> (r \<noteq> Inl RelayUnavailableError \<longrightarrow> r = Inr (snd (session (state_after session (length slept) s)))
         \<and> \<not> (retryable \<and> transient_reply session s (length slept)))"
proof -
  obtain m where m: "length slept = m" "m + 1 \<le> Suc DEFAULT_MAX_RETRIES" "s' = state_after session (Suc m) s"
    "\<forall>j < m. retryable \<and> transient_reply session s j"
    "r = Inl RelayUnavailableError \<and> m + 1 = Suc DEFAULT_MAX_RETRIES \<and> retryable \<and> transient_reply session s m
       \<or> r = Inr (snd (session (state_after session m s))) \<and> \<not> (retryable \<and> transient_reply session s m)"
    using request_run [OF assms] by fastforce
  have "\<forall>j \<le> 3. transient_reply session s j" if "m = 3" "transient_reply session s m"
    using that m(4) le_neq_implies_less by blast
  then show ?thesis
    using m by (auto simp: DEFAULT_MAX_RETRIES_def)
qed

definition busy_session :: "nat \<Rightarrow> nat \<times> unit response" where
  "busy_session n = (Suc n, \<lparr>rp_status = (if n < 2 then 503 else 200), rp_retry_after = None, rp_error = None, rp_body = Some ()\<rparr>)"

theorem retries_bounded_witness:
  "\<exists>s' slept r. request DEFAULT_MAX_RETRIES True busy_session 1 0 [] = (s', slept, Inr r) \<and> rp_status r = 200 \<and> length slept \<le> 3"
proof -
  obtain s' slept r where q: "request DEFAULT_MAX_RETRIES True busy_session 1 0 [] = (s', slept, r)"
    by (metis prod_cases3)
  have t: "\<not> transient_reply busy_session 0 2"
    by (simp add: transient_reply_def state_after_def busy_session_def RETRYABLE_STATUS_CODES_def numeral_2_eq_2)
  have st: "rp_status (snd (busy_session (state_after busy_session k 0))) \<in> {503, 200}" for k
    by (simp add: busy_session_def)
  have "r \<noteq> Inl RelayUnavailableError"
    using retries_bounded [OF q] t by (auto dest: spec [of _ 2])
  with retries_bounded [OF q] have "length slept \<le> 3" "r = Inr (snd (busy_session (state_after busy_session (length slept) 0)))"
    "\<not> transient_reply busy_session 0 (length slept)"
    by auto
  with q st [of "length slept"] show ?thesis
    by (auto simp: transient_reply_def RETRYABLE_STATUS_CODES_def)
qed

section \<open>Transient errors during an upload\<close>

lemma client_call_once:
  assumes "session s = (s', resp)" and "rp_status resp \<noteq> expected"
  shows "client_call False expected session s = (s', Inl (RelayHTTPError (rp_status resp) (case rp_error resp of None \<Rightarrow> ''unknown'' | Some c \<Rightarrow> c)))"
  using assms by (simp add: client_call_def request_not_retryable raise_for_error_def)

definition busy_response :: "'b response" where
  "busy_response = \<lparr>rp_status = 503, rp_retry_after = None, rp_error = None, rp_body = None\<rparr>"

text \<open>A transient answer to \<open>create_upload\<close> ends the transfer for good: with the client the service builds, a
  Relay that answers the request with 429 or a retryable 5xx (overloaded, restarting) makes the step move the row to
  the terminal \<open>FAILED_UPLOAD\<close>, because the call is not retried and its error is no \<open>RelayUnavailableError\<close>. The module's
  description has such a row return to \<open>QUEUED_UPLOAD\<close>.\<close>

theorem transient_create_failure_is_terminal:
  assumes "find_attachment (sw_db W) i = Some row" and "a_state row = UPLOADING" and "fromhex (a_transfer_id row) = Some tid"
    and "get_sender_state (sw_db W) i = Some st" and "ss_upload_id st = None" and "a_plain_size row = Some n" and "0 \<le> n"
    and "upload_request_of C (sw_db W) row st tid n = Inr q"
    and "h_create_upload H (sw_relay W) (Some tok) q = (r, resp)" and "rp_status resp \<in> set RETRYABLE_STATUS_CODES"
    and "rp_error resp \<noteq> Some ''transfer_exists''"
  shows "\<exists>W'. sender_run_step C ids (Some (uploader (Some tok) H)) A net W i now = (W', Inr FAILED_UPLOAD)
    \<and> state_of (sw_db W') i = Some FAILED_UPLOAD"
proof -
  have i: "a_id row = i"
    using assms(1) find_attachment_id by blast
  obtain plan where plan: "for_size n CHUNK_SIZE_BYTES = Inr plan" "cp_plain_size plan = n"
    using assms(7) by (simp add: for_size_def CHUNK_SIZE_BYTES_def)
  have "rp_status resp \<noteq> 201"
    using assms(10) by (auto simp: RETRYABLE_STATUS_CODES_def)
  then have c: "ur_create_upload (uploader (Some tok) H) (sw_relay W) q
      = (r, Inl (RelayHTTPError (rp_status resp) (case rp_error resp of None \<Rightarrow> ''unknown'' | Some c \<Rightarrow> c)))"
    using assms(9) by (simp add: uploader_def client_create_upload_def client_call_once)
  have code: "(case rp_error resp of None \<Rightarrow> ''unknown'' | Some c \<Rightarrow> c) \<noteq> ''transfer_exists''"
    using assms(11) by (auto split: option.splits)
  show ?thesis
    using assms(1-6,8) i plan c code
    by (simp add: sender_run_step_def step_uploading_def hex_bytes_def required_def escape_def park_def state_of_def find_moves)
qed

theorem transient_create_failure_is_terminal_witness:
  "\<exists>(H :: unit relay_http) db W'. state_of db ''a'' = Some UPLOADING
     \<and> sender_run_step sample_send_ctx None (Some (uploader (Some ''tok'') H)) None True \<lparr>sw_db = db, sw_relay = (), sw_radio = []\<rparr> ''a'' 2
         = (W', Inr FAILED_UPLOAD) \<and> state_of (sw_db W') ''a'' = Some FAILED_UPLOAD"
proof -
  define row where "row = sample_row\<lparr>a_state := UPLOADING, a_plain_size := Some 2\<rparr>"
  define db where "db = empty_db\<lparr>db_attachments := [row], db_sender_state := [sample_upload_state]\<rparr>"
  define H :: "unit relay_http" where "H = \<lparr>h_create_upload = (\<lambda>_ _ _. ((), busy_response)), h_get_upload_status = (\<lambda>_ _ _. ((), busy_response)),
    h_upload_chunk = (\<lambda>_ _ _ _ _. ((), busy_response)), h_upload_manifest = (\<lambda>_ _ _ _. ((), busy_response)), h_commit = (\<lambda>_ _ _. ((), busy_response)),
    h_get_descriptor = (\<lambda>_ _. ((), busy_response)), h_get_chunk = (\<lambda>_ _ _. ((), busy_response)), h_complete = (\<lambda>_ _ _. ((), busy_response)),
    h_revoke = (\<lambda>_ _ _. ((), busy_response))\<rparr>"
  let ?W = "\<lparr>sw_db = db, sw_relay = (), sw_radio = []\<rparr>"
  have row: "find_attachment db ''a'' = Some row" "a_state row = UPLOADING" "fromhex (a_transfer_id row) = Some (replicate 16 1)"
    "get_sender_state db ''a'' = Some sample_upload_state" "ss_upload_id sample_upload_state = None" "a_plain_size row = Some 2"
    "a_saved_path row = Some ''/spool/f''" "db_recipients db = []"
    by (simp_all add: db_def row_def sample_row_def new_sent_def sample_args_def find_attachment_def get_sender_state_def sample_upload_state_def empty_db_def)
  obtain q where q: "upload_request_of sample_send_ctx db row sample_upload_state (replicate 16 1) 2 = Inr q"
    using sample_request_of row by blast
  have "\<exists>W'. sender_run_step sample_send_ctx None (Some (uploader (Some ''tok'') H)) None True ?W ''a'' 2 = (W', Inr FAILED_UPLOAD)
      \<and> state_of (sw_db W') ''a'' = Some FAILED_UPLOAD"
    using row q by (intro transient_create_failure_is_terminal [where row = row and tid = "replicate 16 1" and st = sample_upload_state and n = 2 and q = q and resp = busy_response])
      (simp_all add: H_def busy_response_def RETRYABLE_STATUS_CODES_def)
  then show ?thesis
    using row by (intro exI [of _ H] exI [of _ db]) (auto simp: state_of_def)
qed

section \<open>The store\<close>

inductive store_step :: "ext \<Rightarrow> relay_store \<Rightarrow> relay_store \<Rightarrow> bool" for X where
  create: "store_create_upload X S q now = Inr (S', t) \<Longrightarrow> store_step X S S'"
| chunk: "store_upload_chunk X S uid tok i data now = Inr S' \<Longrightarrow> store_step X S S'"
| manifest: "store_upload_manifest X S uid tok data now = Inr S' \<Longrightarrow> store_step X S S'"
| commit: "store_commit X S uid tok now = Inr (S', t) \<Longrightarrow> store_step X S S'"
| fetch: "fetch_object S tid now = (S', r) \<Longrightarrow> store_step X S S'"
| complete: "store_complete X S tid secret now = (S', r') \<Longrightarrow> store_step X S S'"
| revoke: "store_revoke X S tid tok = Inr S' \<Longrightarrow> store_step X S S'"

definition chunk_ok :: "ext \<Rightarrow> relay_chunk \<Rightarrow> bool" where
  "chunk_ok X k \<longleftrightarrow> (k_uploaded k \<longrightarrow> int (length (k_data k)) = k_expected_size k \<and> sha256 X (k_data k) = k_expected_sha256 k)"

definition transfer_ok :: "ext \<Rightarrow> transfer \<Rightarrow> bool" where
  "transfer_ok X t \<longleftrightarrow> (\<forall>k \<in> set (t_chunks t). chunk_ok X k)
     \<and> (t_manifest_uploaded t \<longrightarrow> int (length (t_manifest_data t)) = t_manifest_size t \<and> sha256 X (t_manifest_data t) = t_manifest_sha256 t)
     \<and> 0 \<le> t_total_size t + t_manifest_size t
     \<and> (t_state t = Staging \<longrightarrow> t_committed_at t = None \<and> t_delete_after t = None)
     \<and> (t_state t = Committed \<longrightarrow> t_committed_at t \<noteq> None)
     \<and> (\<forall>c. t_committed_at t = Some c \<longrightarrow> t_manifest_uploaded t \<and> list_all k_uploaded (t_chunks t)
          \<and> int (length (concat (map k_data (t_chunks t)))) = t_total_size t
          \<and> sha256 X (concat (map k_data (t_chunks t))) = t_ciphertext_sha256 t
          \<and> t_hard_expires_at t = Some (c + t_hard_ttl_seconds t))
     \<and> (\<forall>d. t_delete_after t = Some d \<longrightarrow> list_all (\<lambda>r. snd r \<noteq> None) (t_receipts t) \<and> (\<exists>h. t_hard_expires_at t = Some h \<and> d \<le> h))"

definition store_ok :: "ext \<Rightarrow> relay_store \<Rightarrow> bool" where
  "store_ok X S \<longleftrightarrow> (\<forall>t \<in> set (st_transfers S). transfer_ok X t) \<and> distinct (map t_upload_id (st_transfers S))
     \<and> total_committed_bytes S \<le> lim_max_storage_bytes (st_limits S)"

definition live_bytes :: "transfer \<Rightarrow> int" where
  "live_bytes t = (if t_state t \<in> set [Staging, Committed] then t_total_size t + t_manifest_size t else 0)"

lemma total_committed_bytes_sum: "total_committed_bytes S = sum_list (map live_bytes (st_transfers S))"
  unfolding total_committed_bytes_def live_bytes_def [abs_def] by (rule sum_list_map_filter')

text \<open>An update of one transfer that keeps it well formed and its live bytes no larger.\<close>

lemma sum_list_update_where:
  assumes "\<And>t. t \<in> set ts \<Longrightarrow> p t \<Longrightarrow> live_bytes (f t) \<le> live_bytes t"
  shows "sum_list (map live_bytes (update_where p f ts)) \<le> sum_list (map live_bytes ts)"
  using assms by (induction ts) (auto intro: add_mono)

lemma store_ok_update:
  assumes "store_ok X S" and "find_by t_upload_id uid (st_transfers S) = Some t"
    and "t_upload_id (f t) = uid" and "transfer_ok X t \<Longrightarrow> transfer_ok X (f t)" and "transfer_ok X t \<Longrightarrow> live_bytes (f t) \<le> live_bytes t"
  shows "store_ok X (update_transfer uid f S)"
proof -
  have t: "t \<in> set (st_transfers S)" "t_upload_id t = uid"
    using find_by_Some [OF assms(2)] by auto
  have u: "x = t" if "x \<in> set (st_transfers S)" "t_upload_id x = uid" for x
    using that assms(1,2) find_by_unique [of t_upload_id "st_transfers S" x] by (simp add: store_ok_def)
  have ok: "transfer_ok X t"
    using assms(1) t by (simp add: store_ok_def)
  have "map t_upload_id (update_where (\<lambda>x. t_upload_id x = uid) f (st_transfers S)) = map t_upload_id (st_transfers S)"
    unfolding update_where_def using u assms(3) by auto
  moreover have "sum_list (map live_bytes (update_where (\<lambda>x. t_upload_id x = uid) f (st_transfers S))) \<le> sum_list (map live_bytes (st_transfers S))"
    by (rule sum_list_update_where) (use u assms(5) ok in auto)
  ultimately show ?thesis
    using assms(1,4) ok u unfolding store_ok_def total_committed_bytes_sum
    by (auto simp: update_transfer_def set_update_where)
qed

lemma get_upload_Inr: "get_upload S uid = Inr t \<longleftrightarrow> find_by t_upload_id uid (st_transfers S) = Some t"
  by (auto simp: get_upload_def reject_with_def split: option.splits)

lemma validate_chunks_fresh:
  "validate_chunks L tot run cs = Inr (ks, run') \<Longrightarrow> \<forall>k \<in> set ks. chunk_ok X k"
  by (induction L tot run cs arbitrary: ks rule: validate_chunks.induct)
    (auto simp: bind_res_eq_Inr reject_with_def chunk_ok_def split: if_splits prod.splits)

lemma create_ok:
  assumes "store_ok X S" and "store_create_upload X S q now = Inr (S', t)"
  shows "store_ok X S'"
proof -
  obtain chunks run hard grace where c: "validate_chunks (st_limits S) (uq_total_size q) 0 (uq_chunks q) = Inr (chunks, run)"
    and t: "t = new_transfer X (st_limits S) q chunks hard grace now"
    and S': "S' = S\<lparr>st_transfers := upsert t_upload_id t (\<lambda>_. t) (st_transfers S), st_upload_ids := st_upload_ids S @ [(uq_transfer_id q, t_upload_id t)]\<rparr>"
    and size: "1 \<le> uq_total_size q" "1 \<le> uq_manifest_size q"
      "total_committed_bytes S + uq_total_size q + uq_manifest_size q \<le> lim_max_storage_bytes (st_limits S)"
    using assms(2) unfolding store_create_upload_def Let_def
    by (auto simp: bind_res_eq_Inr reject_with_def not_less split: if_splits prod.splits)
  have fresh: "transfer_ok X t" "live_bytes t = uq_total_size q + uq_manifest_size q"
    using validate_chunks_fresh [OF c] size by (simp_all add: t new_transfer_def Let_def transfer_ok_def live_bytes_def)
  have "sum_list (map live_bytes (upsert t_upload_id t (\<lambda>_. t) (st_transfers S))) \<le> sum_list (map live_bytes (st_transfers S)) + live_bytes t"
  proof (cases "find_by t_upload_id (t_upload_id t) (st_transfers S)")
    case None
    then show ?thesis by (simp add: upsert_def)
  next
    case (Some u)
    have nonneg: "0 \<le> live_bytes x" if "x \<in> set (st_transfers S)" for x
      using assms(1) that by (auto simp: store_ok_def transfer_ok_def live_bytes_def)
    have "sum_list (map live_bytes (update_where (\<lambda>x. t_upload_id x = t_upload_id t) (\<lambda>_. t) ts)) \<le> sum_list (map live_bytes ts) + live_bytes t"
      if "distinct (map t_upload_id ts)" "\<forall>x \<in> set ts. 0 \<le> live_bytes x" for ts
      using that
    proof (induction ts)
      case (Cons x ts)
      show ?case
      proof (cases "t_upload_id x = t_upload_id t")
        case True
        then have "update_where (\<lambda>x. t_upload_id x = t_upload_id t) (\<lambda>_. t) ts = ts"
          using Cons.prems by (auto simp: update_where_def image_iff intro!: map_idI)
        then show ?thesis using Cons.prems True by simp
      qed (use Cons in simp)
    qed (use fresh size in simp)
    then show ?thesis
      using Some nonneg assms(1) by (simp add: upsert_def store_ok_def)
  qed
  moreover have "distinct (map t_upload_id (upsert t_upload_id t (\<lambda>_. t) (st_transfers S)))"
  proof -
    have "map t_upload_id (update_where (\<lambda>x. t_upload_id x = t_upload_id t) (\<lambda>_. t) ts) = map t_upload_id ts" for ts
      by (simp add: update_where_def)
    then show ?thesis
      using assms(1) by (auto simp: upsert_def store_ok_def find_by_None image_iff)
  qed
  moreover have "\<forall>x \<in> set (upsert t_upload_id t (\<lambda>_. t) (st_transfers S)). transfer_ok X x"
    using assms(1) fresh(1) set_upsert [of t_upload_id t "\<lambda>_. t" "st_transfers S"] unfolding store_ok_def by blast
  ultimately show ?thesis
    using fresh(2) size unfolding store_ok_def total_committed_bytes_sum S' by simp
qed

lemma check_session_token_Inr: "check_session_token X h tok = Inr u \<longleftrightarrow> sha256 X (ascii_bytes tok) = h"
  by (auto simp: check_session_token_def reject_with_def)

lemma require_staging_Inr: "require_staging t now = Inr u \<longleftrightarrow> t_state t = Staging \<and> now < t_session_expires_at t"
  by (auto simp: require_staging_def reject_with_def)

lemma find_upload_id: "find_by t_upload_id uid ts = Some t \<Longrightarrow> t_upload_id t = uid"
  using find_by_Some [of t_upload_id uid ts t] by blast

lemma upload_chunk_ok:
  assumes "store_ok X S" and "store_upload_chunk X S uid tok i data now = Inr S'"
  shows "store_ok X S'"
proof -
  obtain t where t: "find_by t_upload_id uid (st_transfers S) = Some t" "t_state t = Staging"
    and i: "0 \<le> i" "i < int (length (t_chunks t))"
    and d: "int (length data) = k_expected_size (t_chunks t ! nat i)" "sha256 X data = k_expected_sha256 (t_chunks t ! nat i)"
    and S': "S' = update_transfer uid (\<lambda>u. u\<lparr>t_chunks := (t_chunks u)[nat i := (t_chunks t ! nat i)\<lparr>k_uploaded := True, k_data := data\<rparr>]\<rparr>) S"
    using assms(2) unfolding store_upload_chunk_def Let_def
    by (auto simp: bind_res_eq_Inr get_upload_Inr check_session_token_Inr require_staging_Inr reject_with_def split: if_splits)
  let ?k = "(t_chunks t ! nat i)\<lparr>k_uploaded := True, k_data := data\<rparr>"
  have "chunk_ok X ?k"
    using d by (simp add: chunk_ok_def)
  then have "\<forall>k \<in> set ((t_chunks t)[nat i := ?k]). chunk_ok X k" if "\<forall>k \<in> set (t_chunks t). chunk_ok X k"
    using that set_update_subset_insert [of "t_chunks t" "nat i" ?k] by blast
  then show ?thesis
    unfolding S' using t by (intro store_ok_update [OF assms(1) t(1)]) (simp_all add: transfer_ok_def live_bytes_def find_upload_id)
qed

lemma upload_manifest_ok:
  assumes "store_ok X S" and "store_upload_manifest X S uid tok data now = Inr S'"
  shows "store_ok X S'"
proof -
  obtain t where t: "find_by t_upload_id uid (st_transfers S) = Some t" "t_state t = Staging"
    and d: "int (length data) = t_manifest_size t" "sha256 X data = t_manifest_sha256 t"
    and S': "S' = update_transfer uid (\<lambda>u. u\<lparr>t_manifest_uploaded := True, t_manifest_data := data\<rparr>) S"
    using assms(2) unfolding store_upload_manifest_def
    by (auto simp: bind_res_eq_Inr get_upload_Inr check_session_token_Inr require_staging_Inr reject_with_def split: if_splits)
  show ?thesis
    unfolding S' using t d by (intro store_ok_update [OF assms(1) t(1)]) (simp_all add: transfer_ok_def live_bytes_def find_upload_id)
qed

lemma commit_ok:
  assumes "store_ok X S" and "store_commit X S uid tok now = Inr (S', t')"
  shows "store_ok X S'"
proof -
  obtain t where t: "find_by t_upload_id uid (st_transfers S) = Some t"
    and c: "S' = S \<or> t_state t = Staging \<and> t_manifest_uploaded t \<and> list_all k_uploaded (t_chunks t)
       \<and> int (length (concat (map k_data (t_chunks t)))) = t_total_size t \<and> sha256 X (concat (map k_data (t_chunks t))) = t_ciphertext_sha256 t
       \<and> S' = update_transfer uid (\<lambda>_. t\<lparr>t_state := Committed, t_committed_at := Some now, t_hard_expires_at := Some (now + t_hard_ttl_seconds t)\<rparr>) S"
    using assms(2) unfolding store_commit_def Let_def
    by (auto simp: bind_res_eq_Inr get_upload_Inr check_session_token_Inr require_staging_Inr reject_with_def split: if_splits)
  show ?thesis
  proof (cases "S' = S")
    case False
    with c have S': "S' = update_transfer uid (\<lambda>_. t\<lparr>t_state := Committed, t_committed_at := Some now, t_hard_expires_at := Some (now + t_hard_ttl_seconds t)\<rparr>) S"
      by blast
    show ?thesis
      unfolding S' using False c t by (intro store_ok_update [OF assms(1) t(1)]) (auto simp: transfer_ok_def live_bytes_def find_upload_id)
  qed (use assms(1) in simp)
qed

lemma object_of_Some: "object_of S tid = Some t \<Longrightarrow> find_by t_upload_id (t_upload_id t) (st_transfers S) = Some t"
  by (auto simp: object_of_def bind_eq_Some_iff dest: find_upload_id)

lemma close_ok:
  assumes "store_ok X S" and "object_of S tid = Some t" and "s \<in> {Expired, Revoked}"
  shows "store_ok X (update_transfer (t_upload_id t) (\<lambda>t. t\<lparr>t_state := s\<rparr>) S)"
  using assms(3) by (intro store_ok_update [OF assms(1) object_of_Some [OF assms(2)]]) (auto simp: transfer_ok_def live_bytes_def)

lemma fetch_ok:
  assumes "store_ok X S" and "fetch_object S tid now = (S', r)"
  shows "store_ok X S'" and "\<And>t. r = Inr t \<Longrightarrow> S' = S \<and> object_of S tid = Some t \<and> t_state t = Committed
    \<and> \<not> due (t_hard_expires_at t) now \<and> \<not> due (t_delete_after t) now"
  using assms(2) assms(1) close_ok [OF assms(1), of tid]
  by (auto simp: fetch_object_def reject_with_def split: option.splits if_splits) (metis transfer_state.exhaust)+

definition all_receipts :: "(bytes \<times> int option) list \<Rightarrow> bool" where
  "all_receipts rs \<longleftrightarrow> list_all (\<lambda>r. snd r \<noteq> None) rs"

lemma record_receipt_cases:
  "\<exists>rs da. record_receipt h now t = t\<lparr>t_receipts := rs, t_delete_after := da\<rparr> \<and> (all_receipts (t_receipts t) \<longrightarrow> all_receipts rs)
     \<and> (da = t_delete_after t \<or> all_receipts rs \<and> (\<exists>c. da = Some c \<and> (\<forall>x. t_hard_expires_at t = Some x \<longrightarrow> c \<le> x)))"
proof -
  let ?rs = "update_where (\<lambda>r. fst r = h \<and> snd r = None) (\<lambda>r. (fst r, Some now)) (t_receipts t)"
  let ?c = "case t_hard_expires_at t of None \<Rightarrow> now + t_grace_seconds t | Some h \<Rightarrow> min (now + t_grace_seconds t) h"
  let ?da = "if all_receipts ?rs then (case t_delete_after t of None \<Rightarrow> Some ?c | Some d \<Rightarrow> if ?c < d then Some ?c else Some d) else t_delete_after t"
  have "all_receipts (t_receipts t) \<longrightarrow> all_receipts ?rs"
    by (auto simp: all_receipts_def list_all_iff set_update_where)
  moreover have "?da = t_delete_after t \<or> all_receipts ?rs \<and> (\<exists>c. ?da = Some c \<and> (\<forall>x. t_hard_expires_at t = Some x \<longrightarrow> c \<le> x))"
    by (auto split: option.splits)
  moreover have "record_receipt h now t = t\<lparr>t_receipts := ?rs, t_delete_after := ?da\<rparr>"
    by (simp add: record_receipt_def all_receipts_def Let_def)
  ultimately show ?thesis by blast
qed

lemma record_receipt_ok:
  assumes "transfer_ok X t" and "t_state t = Committed"
  shows "transfer_ok X (record_receipt h now t)" and "live_bytes (record_receipt h now t) = live_bytes t"
    and "t_upload_id (record_receipt h now t) = t_upload_id t"
proof -
  obtain rs da where r: "record_receipt h now t = t\<lparr>t_receipts := rs, t_delete_after := da\<rparr>"
    and a: "all_receipts (t_receipts t) \<Longrightarrow> all_receipts rs"
      "da = t_delete_after t \<or> all_receipts rs \<and> (\<exists>c. da = Some c \<and> (\<forall>x. t_hard_expires_at t = Some x \<longrightarrow> c \<le> x))"
    using record_receipt_cases [of h now t] by blast
  obtain c where c: "t_committed_at t = Some c" "t_hard_expires_at t = Some (c + t_hard_ttl_seconds t)"
    using assms by (auto simp: transfer_ok_def)
  have da: "all_receipts rs \<and> (\<exists>x. t_hard_expires_at t = Some x \<and> d \<le> x)" if "da = Some d" for d
    using a c that assms(1) unfolding transfer_ok_def all_receipts_def by fastforce
  show "transfer_ok X (record_receipt h now t)"
    using assms da unfolding r transfer_ok_def all_receipts_def by simp
  show "live_bytes (record_receipt h now t) = live_bytes t" "t_upload_id (record_receipt h now t) = t_upload_id t"
    unfolding r live_bytes_def by simp_all
qed

lemma complete_ok:
  assumes "store_ok X S" and "store_complete X S tid secret now = (S', r)"
  shows "store_ok X S'"
proof -
  obtain S1 q where f: "fetch_object S tid now = (S1, q)"
    by fastforce
  show ?thesis
  proof (cases q)
    case (Inl e)
    then show ?thesis using assms(2) f fetch_ok(1) [OF assms(1) f] by (simp add: store_complete_def)
  next
    case (Inr t)
    note t = fetch_ok(2) [OF assms(1) f Inr]
    have "store_ok X (update_transfer (t_upload_id t) (record_receipt h now) S)" for h
    proof -
      have "transfer_ok X t"
        using assms(1) t find_by_Some [OF object_of_Some] unfolding store_ok_def by blast
      then show ?thesis
        using t by (intro store_ok_update [OF assms(1) object_of_Some [of _ tid]]) (simp_all add: record_receipt_ok)
    qed
    then show ?thesis
      using assms f Inr t by (auto simp: store_complete_def Let_def split: if_splits)
  qed
qed

lemma store_step_ok: "store_step X S S' \<Longrightarrow> store_ok X S \<Longrightarrow> store_ok X S'"
proof (induction rule: store_step.induct)
  case (create S q now S' t)
  then show ?case by (blast intro: create_ok)
next
  case (chunk S uid tok i data now S')
  then show ?case by (blast intro: upload_chunk_ok)
next
  case (manifest S uid tok data now S')
  then show ?case by (blast intro: upload_manifest_ok)
next
  case (commit S uid tok now S' t)
  then show ?case by (blast intro: commit_ok)
next
  case (fetch S tid now S' r)
  then show ?case by (blast intro: fetch_ok(1))
next
  case (complete S tid secret now S' r)
  then show ?case by (blast intro: complete_ok)
next
  case (revoke S tid tok S')
  then show ?case
    by (auto simp: store_revoke_def bind_res_eq_Inr reject_with_def split: option.splits intro: close_ok)
qed

inductive store_reachable :: "ext \<Rightarrow> relay_store \<Rightarrow> bool" for X where
  start: "st_transfers S = [] \<Longrightarrow> 0 \<le> lim_max_storage_bytes (st_limits S) \<Longrightarrow> store_reachable X S"
| more: "store_reachable X S \<Longrightarrow> store_step X S S' \<Longrightarrow> store_reachable X S'"

lemma store_reachable_ok: "store_reachable X S \<Longrightarrow> store_ok X S"
proof (induction rule: store_reachable.induct)
  case (start S)
  then show ?case by (simp add: store_ok_def total_committed_bytes_def)
qed (rule store_step_ok)

section \<open>A sample store\<close>

definition sample_store :: relay_store where
  "sample_store = \<lparr>st_base_url = ''https://r'', st_limits = default_limits, st_signing_key = replicate 32 5,
     st_upload_access_token = ''tok'', st_transfers = [], st_upload_ids = []\<rparr>"

definition sample_request :: upload_request where
  "sample_request = \<lparr>uq_transfer_id = replicate 16 1, uq_total_size = 2, uq_ciphertext_sha256 = sha256 ref_ext [8, 9],
     uq_manifest_size = 1, uq_manifest_sha256 = sha256 ref_ext [7], uq_chunks = [\<lparr>cd_size = 2, cd_sha256 = sha256 ref_ext [8, 9]\<rparr>],
     uq_receipt_hashes = [sha256 ref_ext (replicate 32 3)], uq_hard_ttl_seconds = None, uq_download_grace_seconds = None\<rparr>"

text \<open>A session from creation to commit, at time 10.\<close>

lemma sample_committed:
  "\<exists>S t. store_reachable ref_ext S \<and> object_of S (replicate 16 1) = Some t \<and> t_state t = Committed \<and> st_signing_key S = replicate 32 5
     \<and> t_hard_expires_at t = Some 259210 \<and> t_delete_after t = None \<and> t_chunks t \<noteq> []"
proof -
  let ?uid = "upload_id_for ref_ext (replicate 16 1) 10"
  obtain t0 S1 where S1: "store_create_upload ref_ext sample_store sample_request 10 = Inr (S1, t0)"
    and t0: "t_upload_id t0 = ?uid" "t_upload_token_hash t0 = sha256 ref_ext (ascii_bytes (upload_token_for ref_ext ?uid))" "t_state t0 = Staging"
      "t_session_expires_at t0 = 21610" "t_chunks t0 = [\<lparr>k_expected_size = 2, k_expected_sha256 = sha256 ref_ext [8, 9], k_uploaded = False, k_data = []\<rparr>]"
      "t_manifest_size t0 = 1" "t_manifest_sha256 t0 = sha256 ref_ext [7]" "t_total_size t0 = 2" "t_ciphertext_sha256 t0 = sha256 ref_ext [8, 9]"
      "t_hard_ttl_seconds t0 = 259200" "t_manifest_uploaded t0 = False" "t_delete_after t0 = None"
    and s1: "st_transfers S1 = [t0]" "st_upload_ids S1 = [(replicate 16 1, ?uid)]" "st_signing_key S1 = replicate 32 5"
    by (simp add: store_create_upload_def sample_store_def sample_request_def default_limits_def clamp_def total_committed_bytes_def
        new_transfer_def Let_def upsert_def)
  define t1 where "t1 = t0\<lparr>t_chunks := [\<lparr>k_expected_size = 2, k_expected_sha256 = sha256 ref_ext [8, 9], k_uploaded = True, k_data = [8, 9]\<rparr>]\<rparr>"
  define S2 where "S2 = update_transfer ?uid (\<lambda>t. t\<lparr>t_chunks := (t_chunks t)[nat 0 := (t_chunks t0 ! nat 0)\<lparr>k_uploaded := True, k_data := [8, 9]\<rparr>]\<rparr>) S1"
  have S2: "store_upload_chunk ref_ext S1 ?uid (upload_token_for ref_ext ?uid) 0 [8, 9] 10 = Inr S2"
    using t0 s1 by (simp add: store_upload_chunk_def get_upload_def check_session_token_def require_staging_def Let_def S2_def)
  have s2: "st_transfers S2 = [t1]" "st_upload_ids S2 = st_upload_ids S1" "st_signing_key S2 = replicate 32 5"
    using t0 s1 by (simp_all add: S2_def t1_def update_transfer_def)
  define t2 where "t2 = t1\<lparr>t_manifest_uploaded := True, t_manifest_data := [7]\<rparr>"
  define S3 where "S3 = update_transfer ?uid (\<lambda>t. t\<lparr>t_manifest_uploaded := True, t_manifest_data := [7]\<rparr>) S2"
  have S3: "store_upload_manifest ref_ext S2 ?uid (upload_token_for ref_ext ?uid) [7] 10 = Inr S3"
    using t0 s2 by (simp add: store_upload_manifest_def get_upload_def check_session_token_def require_staging_def t1_def S3_def)
  have s3: "st_transfers S3 = [t2]" "st_upload_ids S3 = st_upload_ids S1" "st_signing_key S3 = replicate 32 5"
    using t0 s2 by (simp_all add: S3_def t2_def t1_def update_transfer_def)
  define t3 where "t3 = t2\<lparr>t_state := Committed, t_committed_at := Some 10, t_hard_expires_at := Some 259210\<rparr>"
  define S4 where "S4 = update_transfer ?uid (\<lambda>_. t3) S3"
  have S4: "store_commit ref_ext S3 ?uid (upload_token_for ref_ext ?uid) 10 = Inr (S4, t3)"
    using t0 s3 by (simp add: store_commit_def get_upload_def check_session_token_def require_staging_def t1_def t2_def t3_def Let_def S4_def)
  have "store_reachable ref_ext sample_store"
    by (rule store_reachable.start) (simp_all add: sample_store_def default_limits_def)
  then have "store_reachable ref_ext S4"
    using S1 S2 S3 S4 store_step.create store_step.chunk store_step.manifest store_step.commit store_reachable.more by metis
  moreover have "object_of S4 (replicate 16 1) = Some t3" "st_signing_key S4 = replicate 32 5"
    using t0 s1 s3 by (simp_all add: object_of_def S4_def update_transfer_def t2_def t1_def t3_def)
  ultimately show ?thesis
    using t0 by (intro exI [of _ S4] exI [of _ t3]) (simp add: t3_def t2_def t1_def)
qed

section \<open>Properties of the store\<close>

lemma descriptor_message_signature [simp]: "descriptor_message (d\<lparr>d_service_signature := s\<rparr>) = descriptor_message d"
  by (simp add: descriptor_message_def signed_descriptor_def)

text \<open>C26. What the Relay serves is what was committed: in every reachable store, a descriptor it hands out verifies under the
  service key, every chunk it lists is served with exactly the listed size and digest, the chunks together have the
  descriptor's total size and ciphertext digest, and the manifest in it has the announced size and digest.\<close>

theorem relay_serves_committed:
  assumes "store_reachable X S" and "sign_contract X" and "length (ed_public X (st_signing_key S)) = 32"
    and "store_get_descriptor X S tid now = (S', Inr d)"
  shows "S' = S \<and> verify_descriptor_signature X d (ed_public X (st_signing_key S))
    \<and> (\<exists>datas. map (\<lambda>i. store_get_chunk S tid (int i) now) [0..<length (d_chunks d)] = map (\<lambda>b. (S, Inr b)) datas
         \<and> map (\<lambda>b. (int (length b), sha256 X b)) datas = map (\<lambda>c. (dc_size c, dc_sha256 c)) (d_chunks d)
         \<and> int (length (concat datas)) = d_total_size d \<and> sha256 X (concat datas) = d_ciphertext_sha256 d)
    \<and> int (length (d_encrypted_manifest d)) = d_manifest_size d \<and> sha256 X (d_encrypted_manifest d) = d_manifest_sha256 d"
proof -
  obtain t where f: "fetch_object S tid now = (S', Inr t)" and d: "d = descriptor_payload X S' t"
    using assms(4) by (auto simp: store_get_descriptor_def split: sum.splits prod.splits)
  note ok = store_reachable_ok [OF assms(1)]
  have t: "S' = S" "object_of S tid = Some t" "t_state t = Committed"
    using fetch_ok(2) [OF ok f refl] by auto
  then have tok: "transfer_ok X t"
    using find_by_Some [OF object_of_Some] ok unfolding store_ok_def by blast
  then have c: "t_manifest_uploaded t" "list_all k_uploaded (t_chunks t)" "\<forall>k \<in> set (t_chunks t). chunk_ok X k"
    "int (length (concat (map k_data (t_chunks t)))) = t_total_size t" "sha256 X (concat (map k_data (t_chunks t))) = t_ciphertext_sha256 t"
    "int (length (t_manifest_data t)) = t_manifest_size t" "sha256 X (t_manifest_data t) = t_manifest_sha256 t"
    using t(3) by (auto simp: transfer_ok_def)
  let ?datas = "map k_data (t_chunks t)"
  have len: "length (d_chunks d) = length (t_chunks t)"
    by (simp add: d descriptor_payload_def unsigned_descriptor_def Let_def)
  have "map (\<lambda>i. store_get_chunk S tid (int i) now) [0..<length (d_chunks d)] = map (\<lambda>b. (S, Inr b)) ?datas"
    unfolding len using c(2) f t(1)
    by (intro nth_equalityI) (auto simp: store_get_chunk_def list_all_length)
  moreover have "map (\<lambda>b. (int (length b), sha256 X b)) ?datas = map (\<lambda>c. (dc_size c, dc_sha256 c)) (d_chunks d)"
    using c(2,3) by (intro nth_equalityI) (auto simp: d descriptor_payload_def unsigned_descriptor_def Let_def list_all_length chunk_ok_def nth_enumerate_eq)
  moreover have "verify_descriptor_signature X d (ed_public X (st_signing_key S))"
    using assms(2,3) t(1) by (simp add: verify_descriptor_signature_def d descriptor_payload_def Let_def sign_contractD)
  moreover have "int (length (concat ?datas)) = d_total_size d" "sha256 X (concat ?datas) = d_ciphertext_sha256 d"
    "int (length (d_encrypted_manifest d)) = d_manifest_size d" "sha256 X (d_encrypted_manifest d) = d_manifest_sha256 d"
    using c(4-7) by (simp_all add: d descriptor_payload_def unsigned_descriptor_def Let_def)
  ultimately show ?thesis
    using t(1) by blast
qed

theorem relay_serves_committed_witness:
  "\<exists>S d datas. store_get_descriptor ref_ext S (replicate 16 1) 20 = (S, Inr d) \<and> d_chunks d \<noteq> []
     \<and> map (\<lambda>i. store_get_chunk S (replicate 16 1) (int i) 20) [0..<length (d_chunks d)] = map (\<lambda>b. (S, Inr b)) datas
     \<and> sha256 ref_ext (concat datas) = d_ciphertext_sha256 d"
proof -
  obtain S t where s: "store_reachable ref_ext S" "object_of S (replicate 16 1) = Some t" "t_state t = Committed"
    "st_signing_key S = replicate 32 5" "t_hard_expires_at t = Some 259210" "t_delete_after t = None" "t_chunks t \<noteq> []"
    using sample_committed by blast
  have g: "store_get_descriptor ref_ext S (replicate 16 1) 20 = (S, Inr (descriptor_payload ref_ext S t))"
    using s by (simp add: store_get_descriptor_def fetch_object_def due_def)
  have "length (ed_public ref_ext (st_signing_key S)) = 32"
    by (simp add: ref_ext_def)
  from relay_serves_committed [OF s(1) _ this g] show ?thesis
    using s(7) g by (fastforce simp: descriptor_payload_def unsigned_descriptor_def Let_def)
qed

text \<open>Lifetime and storage: in every reachable store the bytes of staged and committed objects never exceed the storage
  limit; a committed object is served exactly while neither its hard deadline nor its \<open>delete_after\<close> has passed; and
  \<open>delete_after\<close> is set only once every recipient's receipt is recorded and never lies after the hard deadline.\<close>

theorem relay_lifetime:
  assumes "store_reachable X S" and "object_of S tid = Some t" and "t_state t = Committed"
  shows "total_committed_bytes S \<le> lim_max_storage_bytes (st_limits S)
    \<and> (\<exists>h. t_hard_expires_at t = Some h
         \<and> ((\<exists>d. store_get_descriptor X S tid now = (S, Inr d)) \<longleftrightarrow> now < h \<and> (\<forall>d. t_delete_after t = Some d \<longrightarrow> now < d))
         \<and> (\<forall>d. t_delete_after t = Some d \<longrightarrow> d \<le> h \<and> (\<forall>r \<in> set (t_receipts t). snd r \<noteq> None)))"
proof -
  note ok = store_reachable_ok [OF assms(1)]
  have tok: "transfer_ok X t"
    using find_by_Some [OF object_of_Some [OF assms(2)]] ok unfolding store_ok_def by blast
  then obtain h where h: "t_hard_expires_at t = Some h" "\<forall>d. t_delete_after t = Some d \<longrightarrow> d \<le> h \<and> (\<forall>r \<in> set (t_receipts t). snd r \<noteq> None)"
    using assms(3) unfolding transfer_ok_def list_all_iff by fastforce
  moreover have "(\<exists>d. store_get_descriptor X S tid now = (S, Inr d)) \<longleftrightarrow> now < h \<and> (\<forall>d. t_delete_after t = Some d \<longrightarrow> now < d)"
    using assms(2,3) h(1) by (auto simp: store_get_descriptor_def fetch_object_def reject_with_def due_def not_le split: option.splits)
  ultimately show ?thesis
    using ok unfolding store_ok_def by blast
qed

theorem relay_lifetime_witness:
  "\<exists>S t d. object_of S (replicate 16 1) = Some t \<and> t_state t = Committed \<and> store_get_descriptor ref_ext S (replicate 16 1) 259209 = (S, Inr d)
     \<and> \<not> (\<exists>d. store_get_descriptor ref_ext S (replicate 16 1) 259210 = (S, Inr d))"
proof -
  obtain S t where s: "store_reachable ref_ext S" "object_of S (replicate 16 1) = Some t" "t_state t = Committed"
    "t_hard_expires_at t = Some 259210" "t_delete_after t = None"
    using sample_committed by blast
  then show ?thesis
    using relay_lifetime [OF s(1-3), of 259209] relay_lifetime [OF s(1-3), of 259210] by auto
qed

end
