(* ===== verification/Receiver_Download.thy ===== *)
theory Receiver_Download
  imports Receiver_Properties
begin

text \<open>
  What a download must pass before it leaves a trace, \<open>_step_downloading\<close> of \<open>src/meshsrv/attachments/receiver.py\<close>: for
  any Relay behaviour, a file and a receipt appear only together and only after every check succeeded.
\<close>

text \<open>Every check of a download, with the values that passed it.\<close>

definition checked_download ::
  "recv_ctx \<Rightarrow> relay_client \<Rightarrow> provider_row \<Rightarrow> bytes \<Rightarrow> object_descriptor \<Rightarrow> recipient_secret \<Rightarrow> manifest_header \<Rightarrow> bytes \<Rightarrow> bool" where
  "checked_download C client provider tid d secret header content \<longleftrightarrow>
     (let X = env_X (rx_env C); n = int (length (d_chunks d)); sz = sum_list (map dc_size (d_chunks d)) - n * TAG_BYTES in
      rc_get_descriptor client tid = Inr d \<and> verify_descriptor_signature X d (pv_service_public_key provider)
      \<and> open_manifest C d n sz = Inr (secret, header) \<and> mh_chunk_count header = n \<and> mh_plain_size header = sz
      \<and> sha256 X content = mh_plain_sha256 header
      \<and> (\<exists>ps. content = concat ps \<and> length ps = length (d_chunks d)
           \<and> (\<forall>i < length ps. \<exists>ct. rc_get_chunk client tid (int i) = Inr ct \<and> sha256 X ct = dc_sha256 (d_chunks d ! i)
                \<and> decrypt_chunk X (rs_data_key secret) (rs_nonce_prefix secret) tid (int i) n sz ct = Inr (ps ! i))))"

lemma fetch_chunks_Assembled:
  assumes "fetch_chunks X client tid secret n sz i cs acc = Assembled out"
  shows "\<exists>ps. out = acc @ concat ps \<and> length ps = length cs \<and> (\<forall>j < length ps. \<exists>ct. rc_get_chunk client tid (i + int j) = Inr ct
    \<and> sha256 X ct = dc_sha256 (cs ! j)
    \<and> decrypt_chunk X (rs_data_key secret) (rs_nonce_prefix secret) tid (i + int j) n sz ct = Inr (ps ! j))"
  using assms
proof (induction cs arbitrary: i acc)
  case (Cons c cs)
  obtain ct p where ct: "rc_get_chunk client tid i = Inr ct" "sha256 X ct = dc_sha256 c"
    "decrypt_chunk X (rs_data_key secret) (rs_nonce_prefix secret) tid i n sz ct = Inr p"
    and rest: "fetch_chunks X client tid secret n sz (i + 1) cs (acc @ p) = Assembled out"
    using Cons.prems by (auto split: sum.splits relay_error.splits if_splits)
  obtain ps where ps: "out = (acc @ p) @ concat ps" "length ps = length cs"
    "\<forall>j < length ps. \<exists>ct. rc_get_chunk client tid (i + 1 + int j) = Inr ct \<and> sha256 X ct = dc_sha256 (cs ! j)
      \<and> decrypt_chunk X (rs_data_key secret) (rs_nonce_prefix secret) tid (i + 1 + int j) n sz ct = Inr (ps ! j)"
    using Cons.IH [OF rest] by blast
  have "\<exists>x. rc_get_chunk client tid (i + int j) = Inr x \<and> sha256 X x = dc_sha256 ((c # cs) ! j)
      \<and> decrypt_chunk X (rs_data_key secret) (rs_nonce_prefix secret) tid (i + int j) n sz x = Inr ((p # ps) ! j)" if "j < length (p # ps)" for j
    using that ct ps(3) by (cases j) (auto simp: add.assoc)
  then show ?case
    using ps(1,2) by (intro exI [of _ "p # ps"]) simp
qed simp

lemma unique_file_name_free:
  assumes "unique_file_name existing p f = Inr (Some path)"
  shows "snd path \<notin> set existing"
proof -
  obtain dir name where r: "resolve_saved_path p f = Inr (dir, name)"
    using assms by (auto simp: unique_file_name_def bind_res_eq_Inr)
  show ?thesis
    using assms r next_free_name_returns [of 2 existing name] by (auto simp: unique_file_name_def split: if_splits)
qed

text \<open>A step that writes no file and sends no receipt.\<close>

definition no_trace :: "recv_world \<Rightarrow> recv_world \<times> (receive_error + receive_result) \<Rightarrow> bool" where
  "no_trace W p \<longleftrightarrow> w_files (fst p) = w_files W \<and> w_receipts (fst p) = w_receipts W \<and> (\<forall>r. snd p = Inr r \<longrightarrow> rcv_state r \<noteq> AVAILABLE)"

lemma no_trace_quarantine [simp]: "no_trace (quarantine W t c) p = no_trace W p"
  by (simp add: no_trace_def quarantine_def)

lemma no_trace_ends [simp]: "no_trace W (fail W i code)" "no_trace W (wait_network W i)" "no_trace W (W, Inl e)" "no_trace W (fail (quarantine W t c) i code)"
  using no_trace_quarantine [of W t c "fail (quarantine W t c) i code"]
  by (simp_all add: no_trace_def fail_def wait_network_def result_def quarantine_def)

lemma save_download_trace:
  assumes "save_download C client W row tid secret header content now = (W', res)"
  shows "no_trace W (W', res) \<or> (\<exists>name. name \<notin> fst ` set (w_files W) \<and> w_files W' = w_files W @ [(name, content)]
    \<and> w_receipts W' = w_receipts W @ [(tid, rs_receipt_secret secret)])"
proof -
  let ?u = "unique_file_name (map fst (w_files W)) (mp_principal_id (env_principal (rx_env C))) (safe_name (mh_file_name header))"
  show ?thesis
  proof (cases "\<exists>path. ?u = Inr (Some path)")
    case True
    then obtain path where u: "?u = Inr (Some path)" by blast
    then have "snd path \<notin> fst ` set (w_files W)"
      using unique_file_name_free [OF u] by simp
    moreover have "w_files W' = w_files W @ [(snd path, content)] \<and> w_receipts W' = w_receipts W @ [(tid, rs_receipt_secret secret)]"
      using assms u by (auto simp: save_download_def Let_def split: if_splits sum.splits prod.splits)
    ultimately show ?thesis by blast
  next
    case False
    then show ?thesis
      using assms by (auto simp: save_download_def split: sum.splits option.splits)
  qed
qed

lemma download_object_trace:
  assumes "\<not> no_trace W (download_object C client W row tid d now)"
    and "n = int (length (d_chunks d))" and "sz = sum_list (map dc_size (d_chunks d)) - n * TAG_BYTES"
  shows "\<exists>secret header content. open_manifest C d n sz = Inr (secret, header) \<and> mh_chunk_count header = n \<and> mh_plain_size header = sz
    \<and> fetch_chunks (env_X (rx_env C)) client tid secret n sz 0 (d_chunks d) [] = Assembled content
    \<and> sha256 (env_X (rx_env C)) content = mh_plain_sha256 header
    \<and> download_object C client W row tid d now = save_download C client W row tid secret header content now"
proof -
  note unf = download_object_def [of C client W row tid d now, unfolded Let_def, folded assms(2), folded assms(3)]
  show ?thesis
  proof (cases "open_manifest C d n sz")
  case (Inl e)
  then have "no_trace W (download_object C client W row tid d now)"
    by (cases e) (simp_all add: unf)
  then show ?thesis using assms(1) by blast
next
  case (Inr p)
  obtain secret header where p: "p = (secret, header)" by fastforce
  have held: "no_trace W (W\<lparr>w_db := db\<rparr>, Inr (result i WAITING_CONSENT rs))" for db i rs
    by (simp add: no_trace_def result_def)
  have ok: "mh_chunk_count header = n" "mh_plain_size header = sz" "\<not> over_byte_quota (w_db W) row sz now"
    using assms(1) Inr p held by (auto simp: unf split: if_splits)
  let ?f = "fetch_chunks (env_X (rx_env C)) client tid secret n sz 0 (d_chunks d) []"
  obtain content where f: "?f = Assembled content"
    using assms(1) Inr p ok by (cases ?f) (auto simp: unf split: option.splits)
  have "sha256 (env_X (rx_env C)) content = mh_plain_sha256 header" "\<not> type_mismatch header content"
    using assms(1) Inr p ok f by (auto simp: unf split: if_splits)
  then show ?thesis
    using Inr p ok f by (simp add: unf)
qed
qed

lemma step_downloading_trace:
  assumes "\<not> no_trace W (step_downloading C W row client_arg now)"
  obtains tid provider d where "fromhex (a_transfer_id row) = Some tid"
    "Option.bind (a_provider_id row) (resolve (rx_providers C) (rx_workspace C)) = Some provider"
    "rc_get_descriptor (case client_arg of Some c \<Rightarrow> c | None \<Rightarrow> rx_new_client C (pv_origin provider)) tid = Inr d"
    "verify_descriptor_signature (env_X (rx_env C)) d (pv_service_public_key provider)"
    "step_downloading C W row client_arg now
       = download_object C (case client_arg of Some c \<Rightarrow> c | None \<Rightarrow> rx_new_client C (pv_origin provider)) W row tid d now"
proof -
  note unf = step_downloading_def [of C W row client_arg now, unfolded Let_def]
  obtain tid where tid: "fromhex (a_transfer_id row) = Some tid"
    using assms by (cases "fromhex (a_transfer_id row)") (auto simp: unf)
  obtain provider where p: "Option.bind (a_provider_id row) (resolve (rx_providers C) (rx_workspace C)) = Some provider"
    using assms tid by (cases "Option.bind (a_provider_id row) (resolve (rx_providers C) (rx_workspace C))") (auto simp: unf)
  let ?c = "case client_arg of Some c \<Rightarrow> c | None \<Rightarrow> rx_new_client C (pv_origin provider)"
  obtain d where d: "rc_get_descriptor ?c tid = Inr d"
  proof (cases "rc_get_descriptor ?c tid")
    case (Inl e)
    then have "no_trace W (step_downloading C W row client_arg now)"
      using tid p by (cases e) (simp_all add: unf)
    then show thesis using assms by blast
  qed
  have "verify_descriptor_signature (env_X (rx_env C)) d (pv_service_public_key provider)"
  proof (rule ccontr)
    assume "\<not> verify_descriptor_signature (env_X (rx_env C)) d (pv_service_public_key provider)"
    then have "no_trace W (step_downloading C W row client_arg now)"
      using tid p d by (simp add: unf)
    then show False using assms by blast
  qed
  then show thesis
    using that tid p d by (simp add: unf)
qed

text \<open>C22. Nothing unverified is kept: whatever the Relay answers, a download step leaves the files and the sent receipts as
  they were and does not report \<open>AVAILABLE\<close>, unless the descriptor verifies under the service key pinned for the row's
  provider, the manifest opens for this recipient, every chunk has the digest the signed descriptor lists and decrypts at
  its own index, count and size, and the assembled file has the digest of the sealed header; then exactly one file is
  added, under a name no file has, with exactly these bytes, and exactly one receipt is sent, for this transfer.\<close>

theorem download_verified:
  assumes "step_downloading C W row client_arg now = (W', res)"
  shows "(w_files W' = w_files W \<and> w_receipts W' = w_receipts W \<and> (\<forall>r. res = Inr r \<longrightarrow> rcv_state r \<noteq> AVAILABLE))
    \<or> (\<exists>tid provider client d secret header content name.
         fromhex (a_transfer_id row) = Some tid
         \<and> Option.bind (a_provider_id row) (resolve (rx_providers C) (rx_workspace C)) = Some provider
         \<and> client = (case client_arg of Some c \<Rightarrow> c | None \<Rightarrow> rx_new_client C (pv_origin provider))
         \<and> checked_download C client provider tid d secret header content
         \<and> name \<notin> fst ` set (w_files W) \<and> w_files W' = w_files W @ [(name, content)]
         \<and> w_receipts W' = w_receipts W @ [(tid, rs_receipt_secret secret)])"
proof (cases "no_trace W (W', res)")
  case True
  then show ?thesis by (simp add: no_trace_def)
next
  case False
  let ?client = "\<lambda>provider. case client_arg of Some c \<Rightarrow> c | None \<Rightarrow> rx_new_client C (pv_origin provider)"
  have nt: "\<not> no_trace W (step_downloading C W row client_arg now)"
    using False assms by simp
  obtain tid provider d where a: "fromhex (a_transfer_id row) = Some tid"
    "Option.bind (a_provider_id row) (resolve (rx_providers C) (rx_workspace C)) = Some provider"
    "rc_get_descriptor (?client provider) tid = Inr d" "verify_descriptor_signature (env_X (rx_env C)) d (pv_service_public_key provider)"
    "step_downloading C W row client_arg now = download_object C (?client provider) W row tid d now"
    by (rule step_downloading_trace [OF nt])
  let ?n = "int (length (d_chunks d))" and ?sz = "sum_list (map dc_size (d_chunks d)) - int (length (d_chunks d)) * TAG_BYTES"
  obtain secret header content where b: "open_manifest C d ?n ?sz = Inr (secret, header)" "mh_chunk_count header = ?n" "mh_plain_size header = ?sz"
    "fetch_chunks (env_X (rx_env C)) (?client provider) tid secret ?n ?sz 0 (d_chunks d) [] = Assembled content"
    "sha256 (env_X (rx_env C)) content = mh_plain_sha256 header"
    "download_object C (?client provider) W row tid d now = save_download C (?client provider) W row tid secret header content now"
    using download_object_trace [OF nt [unfolded a(5)] refl refl] by blast
  have chk: "checked_download C (?client provider) provider tid d secret header content"
    using a(3,4) b(1-3,5) fetch_chunks_Assembled [OF b(4)] by (simp add: checked_download_def Let_def)
  have "save_download C (?client provider) W row tid secret header content now = (W', res)"
    using assms a(5) b(6) by simp
  from save_download_trace [OF this] False obtain name where "name \<notin> fst ` set (w_files W)" "w_files W' = w_files W @ [(name, content)]"
    "w_receipts W' = w_receipts W @ [(tid, rs_receipt_secret secret)]"
    by blast
  with a(1,2) chk show ?thesis
    by (intro disjI2 exI [of _ tid] exI [of _ provider] exI [of _ "?client provider"] exI [of _ d] exI [of _ secret] exI [of _ header] exI [of _ content]
        exI [of _ name]) simp
qed

theorem download_verified_witness:
  "\<exists>row W'. step_downloading sample_ctx empty_world row (Some offline_client) 9 = (W', Inr (result (a_id row) WAITING_NETWORK []))
     \<and> w_files W' = w_files empty_world \<and> w_receipts W' = w_receipts empty_world"
proof -
  obtain a :: attachment where "a_transfer_id a = hex_of (replicate 16 1)"
    using sample_world by blast
  define row where "row = a\<lparr>a_provider_id := Some (b64url_nopad (replicate 8 7))\<rparr>"
  have "step_downloading sample_ctx empty_world row (Some offline_client) 9 = wait_network empty_world (a_id row)"
    using \<open>a_transfer_id a = _\<close>
    by (simp add: step_downloading_def row_def sample_ctx_def resolve_def sample_provider_def sample_env_def offline_client_def)
  then have run: "step_downloading sample_ctx empty_world row (Some offline_client) 9
      = (fst (wait_network empty_world (a_id row)), Inr (result (a_id row) WAITING_NETWORK []))"
    by (simp add: wait_network_def)
  from download_verified [OF run] have "w_files (fst (wait_network empty_world (a_id row))) = w_files empty_world
      \<and> w_receipts (fst (wait_network empty_world (a_id row))) = w_receipts empty_world"
    by (auto simp: wait_network_def)
  with run show ?thesis by blast
qed

end
