(* ===== verification/Relay_Contract.thy ===== *)
theory Relay_Contract
  imports Relay_Client Receiver_Properties Sender_Properties Manifest_Properties
begin

text \<open>
  What the two transfer state machines rely on in a Relay, as a locale: a session accepts the declared chunks and the
  declared manifest, a complete session commits, and a committed object is served back byte for byte under a signed
  descriptor. Inside the locale the sender's upload (\<open>sender.py\<close>, \<open>_step_uploading\<close>) and the receiver's download
  (\<open>receiver.py\<close>, \<open>_step_downloading\<close>) are followed through to success, resumed uploads included. \<open>End_To_End\<close> interprets
  the locale on the Relay store and the HTTP client of the repository.
\<close>

section \<open>Requests and what they declare\<close>

definition declared :: "ext \<Rightarrow> bytes \<Rightarrow> chunk_declaration" where
  "declared X c = \<lparr>cd_size = int (length c), cd_sha256 = sha256 X c\<rparr>"

definition request_for :: "ext \<Rightarrow> upload_request \<Rightarrow> bytes \<Rightarrow> bytes list \<Rightarrow> bytes \<Rightarrow> bool" where
  "request_for X q tid cts blob \<longleftrightarrow> uq_transfer_id q = tid \<and> uq_chunks q = map (declared X) cts
     \<and> uq_total_size q = int (length (concat cts)) \<and> uq_ciphertext_sha256 q = sha256 X (concat cts)
     \<and> uq_manifest_size q = int (length blob) \<and> uq_manifest_sha256 q = sha256 X blob"

text \<open>The descriptor of an object with these chunks and this manifest.\<close>

definition describes :: "ext \<Rightarrow> object_descriptor \<Rightarrow> bytes list \<Rightarrow> bytes \<Rightarrow> bool" where
  "describes X d cts blob \<longleftrightarrow> map dc_size (d_chunks d) = map (\<lambda>c. int (length c)) cts
     \<and> map dc_sha256 (d_chunks d) = map (sha256 X) cts \<and> d_encrypted_manifest d = blob"

text \<open>An interrupted upload: the first chunks are there, and perhaps the manifest once all of them are.\<close>

definition resumable :: "bytes list \<Rightarrow> bytes \<Rightarrow> nat \<Rightarrow> bytes option \<Rightarrow> bool" where
  "resumable cts blob k m \<longleftrightarrow> k \<le> length cts \<and> (m = None \<or> m = Some blob \<and> k = length cts)"

lemma enqueue_total:
  assumes "load_signing_key (env_X E) (env_ids E) (env_principal E) = Inr sk" and "simple_ack_type mt" and "length tid = 16"
  shows "\<exists>db' ack. enqueue_control_message E db i tid mt ev now route = Inr (db', ack)"
  using assms by (cases mt) (simp_all add: enqueue_control_message_def encode_simple_ack_def simple_ack_type_def require_bytes_def sign_message_def
      domain_label_def Let_def)

text \<open>The ciphertexts of a file, chunk by chunk.\<close>

lemma encrypt_chunks_nth:
  assumes "for_size n CHUNK_SIZE_BYTES = Inr plan" and "encrypt_chunks X dk np tid n content = Inr cts"
  shows "length cts = nat (cp_chunk_count plan)"
    and "i < length cts \<Longrightarrow> bind_res (bounds plan (int i) CHUNK_SIZE_BYTES) (\<lambda>(start, stop).
      encrypt_chunk X dk np tid (int i) (cp_chunk_count plan) (cp_plain_size plan) (chunk_slice content start stop)) = Inr (cts ! i)"
proof -
  have t: "traverse_res (\<lambda>index. bind_res (bounds plan index CHUNK_SIZE_BYTES) (\<lambda>(start, stop).
      encrypt_chunk X dk np tid index (cp_chunk_count plan) n (chunk_slice content start stop))) [0..cp_chunk_count plan - 1] = Inr cts"
    using assms by (simp add: encrypt_chunks_def)
  then show l: "length cts = nat (cp_chunk_count plan)"
    using traverse_res_length [OF t] by simp
  show "bind_res (bounds plan (int i) CHUNK_SIZE_BYTES) (\<lambda>(start, stop).
      encrypt_chunk X dk np tid (int i) (cp_chunk_count plan) (cp_plain_size plan) (chunk_slice content start stop)) = Inr (cts ! i)" if "i < length cts"
    using traverse_res_nth [OF t, of i] that l for_size_count(1) [OF assms(1)] by (simp add: nth_upto)
qed

text \<open>The manifest the sender built, as the recipient opens it.\<close>

lemma open_manifest_built:
  assumes "cbor_contract X" and "aead_contract X" and "sealed_contract X" and "env_X (rx_env C) = X"
    and "load_signing_key X (env_ids (rx_env C)) (env_principal (rx_env C)) = Inr sk"
    and "fromhex (mp_key_id (env_principal (rx_env C))) = Some kid" and "header_plain h" and "uint64 (rs_chunk_count secret)"
    and "seal_recipient_secret X secret (mp_public_identity (env_principal (rx_env C))) r = Inr sealed"
    and "list_all envelope_plain rs" and "length rs < 2 ^ 64"
    and "find_by re_recipient_key_id kid rs = Some \<lparr>re_recipient_key_id = kid, re_sealed_envelope = sealed\<rparr>"
    and "build_manifest_blob X tid (rs_data_key secret) (rs_nonce_prefix secret) h rs = Inr (d_encrypted_manifest d)"
  shows "open_manifest C d (mh_chunk_count h) (mh_plain_size h) = Inr (secret, h)"
proof -
  have sk: "length sk = 32" "ed_public X sk = mp_public_identity (env_principal (rx_env C))"
    using assms(5) by (auto simp: load_signing_key_def split: option.splits if_splits)
  have "seal_recipient_secret X secret (ed_public X sk) r = Inr sealed"
    using assms(9) sk(2) by simp
  from manifest_opens [OF assms(1-3) sk(1) assms(7,8) this assms(10-13)] show ?thesis
    using assms(4-6) by (auto simp: open_manifest_def Let_def)
qed

section \<open>The contract\<close>

locale relay_contract =
  fixes X :: ext
    and R :: "'r upload_relay"
    and D :: "'r \<Rightarrow> relay_client"
    and service_key :: bytes
    and accepts :: "'r \<Rightarrow> upload_request \<Rightarrow> bool"
    and staged :: "'r \<Rightarrow> string \<Rightarrow> string \<Rightarrow> upload_request \<Rightarrow> bytes list \<Rightarrow> bytes option \<Rightarrow> bool"
    and committed :: "'r \<Rightarrow> bytes \<Rightarrow> bytes list \<Rightarrow> bytes \<Rightarrow> bool"
  assumes create: "accepts s q \<Longrightarrow> \<exists>s' session. ur_create_upload R s q = (s', Inr session)
        \<and> staged s' (us_upload_id session) (us_upload_token session) q [] None"
    and status: "staged s uid tok q cs m \<Longrightarrow> \<exists>st. ur_get_upload_status R s uid tok = (s, Inr st)
        \<and> set (map cs_index (filter cs_uploaded (up_chunks st))) = {0..<int (length cs)} \<and> up_manifest_uploaded st = (m \<noteq> None)"
    and chunk: "staged s uid tok q cs None \<Longrightarrow> length cs < length (uq_chunks q) \<Longrightarrow> uq_chunks q ! length cs = declared X c \<Longrightarrow>
        \<exists>s'. ur_upload_chunk R s uid tok (int (length cs)) c = (s', Inr ()) \<and> staged s' uid tok q (cs @ [c]) None"
    and manifest: "staged s uid tok q cs None \<Longrightarrow> uq_manifest_size q = int (length b) \<Longrightarrow> uq_manifest_sha256 q = sha256 X b \<Longrightarrow>
        \<exists>s'. ur_upload_manifest R s uid tok b = (s', Inr ()) \<and> staged s' uid tok q cs (Some b)"
    and commit: "staged s uid tok q cs (Some b) \<Longrightarrow> request_for X q tid cs b \<Longrightarrow>
        \<exists>s' d h. ur_commit R s uid tok = (s', Inr d) \<and> d_hard_expires_at d = TimeNum h \<and> committed s' tid cs b"
    and descriptor: "committed s tid cs b \<Longrightarrow>
        \<exists>d. rc_get_descriptor (D s) tid = Inr d \<and> verify_descriptor_signature X d service_key \<and> describes X d cs b"
    and get_chunk: "committed s tid cs b \<Longrightarrow> i < length cs \<Longrightarrow> rc_get_chunk (D s) tid (int i) = Inr (cs ! i)"
    and complete: "committed s tid cs b \<Longrightarrow> rc_complete (D s) tid secret \<noteq> Inl NotARelayError"
begin

subsection \<open>Uploading\<close>

lemma upload_rest:
  assumes "sc_X C = X" and "uq_chunks q = map (declared X) cts" and "length cts = nat (cp_chunk_count plan)"
    and "\<And>i. i < length cts \<Longrightarrow> bind_res (bounds plan (int i) CHUNK_SIZE_BYTES) (\<lambda>(start, stop).
           encrypt_chunk X dk np tid (int i) (cp_chunk_count plan) (cp_plain_size plan) (chunk_slice content start stop)) = Inr (cts ! i)"
    and "set uploaded = {0..<int k0}"
  shows "k0 \<le> k \<Longrightarrow> k \<le> length cts \<Longrightarrow> staged s uid tok q (take k cts) None \<Longrightarrow>
    \<exists>s'. upload_missing_chunks C R uid tok dk np tid plan content uploaded [int k..cp_chunk_count plan - 1] s = (s', Inr ())
       \<and> staged s' uid tok q cts None"
proof (induction "length cts - k" arbitrary: k s)
  case 0
  then have "k = length cts" by simp
  then have "[int k..cp_chunk_count plan - 1] = []"
    using assms(3) by simp
  with 0 \<open>k = length cts\<close> show ?case by simp
next
  case (Suc m)
  then have k: "k < length cts" by simp
  then have l: "[int k..cp_chunk_count plan - 1] = int k # [int (Suc k)..cp_chunk_count plan - 1]"
    using assms(3) upto_rec1 [of "int k" "cp_chunk_count plan - 1"] by (simp add: algebra_simps)
  have "int k \<notin> set uploaded"
    using assms(5) Suc.prems(1) by simp
  obtain s1 where s1: "ur_upload_chunk R s uid tok (int k) (cts ! k) = (s1, Inr ())" "staged s1 uid tok q (take (Suc k) cts) None"
    using chunk [OF Suc.prems(3), of "cts ! k"] k assms(2) by (auto simp: take_Suc_conv_app_nth)
  obtain s' where "upload_missing_chunks C R uid tok dk np tid plan content uploaded [int (Suc k)..cp_chunk_count plan - 1] s1 = (s', Inr ())"
    "staged s' uid tok q cts None"
  proof -
    have "m = length cts - Suc k"
      using Suc.hyps(2) by simp
    then show thesis
      using Suc.hyps(1) [of "Suc k" s1] Suc.prems(1) s1(2) k that by auto
  qed
  then show ?case
    using \<open>int k \<notin> set uploaded\<close> assms(1,4) k s1(1) unfolding l by simp
qed

lemma upload_skips:
  "set xs \<subseteq> set uploaded \<Longrightarrow>
   upload_missing_chunks C R uid tok dk np tid plan content uploaded (xs @ ys) s = upload_missing_chunks C R uid tok dk np tid plan content uploaded ys s"
  by (induction xs) simp_all

lemma upload_object_succeeds:
  assumes "sc_X C = X" and "for_size n CHUNK_SIZE_BYTES = Inr plan"
    and "Option.bind (a_saved_path row) (sc_content C) = Some content"
    and "encrypt_chunks X (ss_data_key st) (ss_nonce_prefix st) tid n content = Inr cts"
    and "request_for X q tid cts (ss_manifest_blob st)"
    and "resumable cts (ss_manifest_blob st) k m" and "staged s uid tok q (take k cts) m"
  shows "\<exists>s' d h. upload_object C R uid tok st tid plan row s = (s', Inr d) \<and> d_hard_expires_at d = TimeNum h
    \<and> committed s' tid cts (ss_manifest_blob st)"
proof -
  note nth = encrypt_chunks_nth [OF assms(2,4)]
  note len = nth(1)
  have k: "k \<le> length cts" "int k \<le> cp_chunk_count plan"
    using assms(6) len for_size_count(4) [OF assms(2)] by (auto simp: resumable_def)
  have q: "uq_chunks q = map (declared X) cts" "uq_manifest_size q = int (length (ss_manifest_blob st))"
    "uq_manifest_sha256 q = sha256 X (ss_manifest_blob st)"
    using assms(5) by (simp_all add: request_for_def)
  obtain us where us: "ur_get_upload_status R s uid tok = (s, Inr us)" "up_manifest_uploaded us = (m \<noteq> None)"
    and up: "set (map cs_index (filter cs_uploaded (up_chunks us))) = {0..<int k}"
    using status [OF assms(7)] k(1) by (auto simp: min_def)
  let ?up = "map cs_index (filter cs_uploaded (up_chunks us))"
  have split: "[0..cp_chunk_count plan - 1] = [0..int k - 1] @ [int k..cp_chunk_count plan - 1]"
    using upto_split1 [of 0 "int k" "cp_chunk_count plan - 1"] upto_split2 [of 0 "int k - 1" "cp_chunk_count plan - 1"] k(2)
    by (cases "k = 0") simp_all
  have "set [0..int k - 1] \<subseteq> set ?up"
    using up by auto
  then have skip: "upload_missing_chunks C R uid tok (ss_data_key st) (ss_nonce_prefix st) tid plan content ?up [0..cp_chunk_count plan - 1] s
      = upload_missing_chunks C R uid tok (ss_data_key st) (ss_nonce_prefix st) tid plan content ?up [int k..cp_chunk_count plan - 1] s"
    unfolding split by (rule upload_skips)
  obtain s1 where s1: "upload_missing_chunks C R uid tok (ss_data_key st) (ss_nonce_prefix st) tid plan content ?up [0..cp_chunk_count plan - 1] s = (s1, Inr ())"
    and st1: "staged s1 uid tok q cts m"
  proof (cases m)
    case None
    then show thesis
      using upload_rest [OF assms(1) q(1) len nth(2) up, of k s uid tok] k(1) assms(7) that skip by auto
  next
    case (Some b)
    then have "k = length cts" using assms(6) by (auto simp: resumable_def)
    then show thesis
      using len assms(7) Some that skip by simp
  qed
  obtain s2 where "(if up_manifest_uploaded us then (s1, Inr ()) else ur_upload_manifest R s1 uid tok (ss_manifest_blob st)) = (s2, Inr ())"
    and "staged s2 uid tok q cts (Some (ss_manifest_blob st))"
    using st1 us(2) assms(6) manifest [OF _ q(2,3), of s1 uid tok cts] by (cases m) (auto simp: resumable_def)
  then show ?thesis
    using commit [OF _ assms(5), of s2 uid tok] us(1) s1 assms(3) by (fastforce simp: upload_object_def relay_call_def)
qed

lemma upload_and_commit_succeeds:
  assumes "sc_X C = X" and "for_size n CHUNK_SIZE_BYTES = Inr plan"
    and "Option.bind (a_saved_path row) (sc_content C) = Some content"
    and "encrypt_chunks X (ss_data_key st) (ss_nonce_prefix st) tid n content = Inr cts"
    and "request_for X q tid cts (ss_manifest_blob st)"
    and "resumable cts (ss_manifest_blob st) k m" and "staged (sw_relay W) uid tok q (take k cts) m"
  shows "\<exists>W'. upload_and_commit C R W row st tid plan uid tok rv now = (W', Inr READY_TO_SEND) \<and> committed (sw_relay W') tid cts (ss_manifest_blob st)"
  using upload_object_succeeds [OF assms] by (auto simp: upload_and_commit_def parse_relay_timestamp_def Let_def)

text \<open>The step from \<open>UPLOADING\<close>, whether the session is new or left over from an interrupted run.\<close>

lemma step_uploading_succeeds:
  assumes "sc_X C = X" and "fromhex (a_transfer_id row) = Some tid" and "get_sender_state (sw_db W) (a_id row) = Some st"
    and "a_plain_size row = Some n" and "0 \<le> n" and "Option.bind (a_saved_path row) (sc_content C) = Some content"
    and "encrypt_chunks X (ss_data_key st) (ss_nonce_prefix st) tid n content = Inr cts"
    and "case ss_upload_id st of
        None \<Rightarrow> upload_request_of C (sw_db W) row st tid n = Inr q \<and> accepts (sw_relay W) q \<and> ss_manifest_sha256 st = sha256 X (ss_manifest_blob st)
      | Some uid \<Rightarrow> request_for X q tid cts (ss_manifest_blob st) \<and> (\<exists>tok k m. ss_upload_token st = Some tok
           \<and> resumable cts (ss_manifest_blob st) k m \<and> staged (sw_relay W) uid tok q (take k cts) m)"
  shows "\<exists>W'. step_uploading C R W row now = (W', Inr READY_TO_SEND) \<and> committed (sw_relay W') tid cts (ss_manifest_blob st)"
proof -
  obtain plan where plan: "for_size n CHUNK_SIZE_BYTES = Inr plan" "cp_plain_size plan = n"
    using assms(5) by (simp add: for_size_def CHUNK_SIZE_BYTES_def)
  show ?thesis
  proof (cases "ss_upload_id st")
    case None
    then have q: "upload_request_of C (sw_db W) row st tid n = Inr q" "accepts (sw_relay W) q" "ss_manifest_sha256 st = sha256 X (ss_manifest_blob st)"
      using assms(8) by simp_all
    then have rq: "request_for X q tid cts (ss_manifest_blob st)"
      using assms(1,6,7) by (auto simp: upload_request_of_def recompute_chunk_declarations_def escape_def bind_res_eq_Inr request_for_def
          declared_def comp_def length_concat sum_list_of_nat [symmetric])
    obtain s' session where c: "ur_create_upload R (sw_relay W) q = (s', Inr session)"
      "staged s' (us_upload_id session) (us_upload_token session) q (take 0 cts) None"
      using create [OF q(2)] by auto
    let ?W = "W\<lparr>sw_db := save_upload_session (a_id row) session now (sw_db W), sw_relay := s'\<rparr>"
    have "\<exists>W'. upload_and_commit C R ?W row st tid plan (us_upload_id session) (us_upload_token session) (us_revoke_token session) now
        = (W', Inr READY_TO_SEND) \<and> committed (sw_relay W') tid cts (ss_manifest_blob st)"
      by (rule upload_and_commit_succeeds [OF assms(1) plan(1) assms(6,7) rq, of 0 None]) (use c(2) in \<open>simp_all add: resumable_def\<close>)
    then show ?thesis
      using None assms(2-4) plan q(1) c(1) by (simp add: step_uploading_def hex_bytes_def required_def escape_def)
  next
    case (Some uid)
    then obtain tok k m where t: "ss_upload_token st = Some tok" "request_for X q tid cts (ss_manifest_blob st)"
      "resumable cts (ss_manifest_blob st) k m" "staged (sw_relay W) uid tok q (take k cts) m"
      using assms(8) by auto
    have "\<exists>W'. upload_and_commit C R W row st tid plan uid tok (ss_revoke_token st) now = (W', Inr READY_TO_SEND) \<and> committed (sw_relay W') tid cts (ss_manifest_blob st)"
      by (rule upload_and_commit_succeeds [OF assms(1) plan(1) assms(6,7) t(2-4)])
    then show ?thesis
      using Some assms(2-4) plan t(1) by (simp add: step_uploading_def hex_bytes_def required_def escape_def)
  qed
qed

subsection \<open>Downloading\<close>

lemma fetch_chunks_succeeds:
  assumes "committed s tid cts blob" and "map dc_sha256 cs = map (sha256 X) cts"
    and "length ps = length cts"
    and "\<And>i. i < length cts \<Longrightarrow> decrypt_chunk X (rs_data_key secret) (rs_nonce_prefix secret) tid (int i) n sz (cts ! i) = Inr (ps ! i)"
  shows "i \<le> length cts \<Longrightarrow> fetch_chunks X (D s) tid secret n sz (int i) (drop i cs) acc = Assembled (acc @ concat (drop i ps))"
proof (induction "length cts - i" arbitrary: i acc)
  case 0
  then show ?case
    using assms(3) map_eq_imp_length_eq [OF assms(2)] by simp
next
  case (Suc m)
  have i: "i < length cts" and len: "length cs = length cts"
    using Suc.hyps(2) map_eq_imp_length_eq [OF assms(2)] by simp_all
  then have d: "drop i cs = cs ! i # drop (Suc i) cs" "drop i ps = ps ! i # drop (Suc i) ps"
    using assms(3) by (simp_all add: Cons_nth_drop_Suc)
  have "dc_sha256 (cs ! i) = sha256 X (cts ! i)"
    using arg_cong [OF assms(2), of "\<lambda>xs. xs ! i"] i len by simp
  then show ?case
    using get_chunk [OF assms(1) i] assms(4) [OF i] Suc.hyps(1) [of "Suc i" "acc @ ps ! i"] Suc.hyps(2) i unfolding d
    by (simp add: add.commute)
qed

lemma download_reaches_save:
  assumes "env_X (rx_env C) = X" and "aead_contract X" and "committed s tid cts blob" and "describes X d cts blob"
    and "encrypt_chunks X (rs_data_key secret) (rs_nonce_prefix secret) tid (int (length content)) content = Inr cts"
    and "open_manifest C d (int (length cts)) (int (length content)) = Inr (secret, header)"
    and "mh_chunk_count header = int (length cts)" and "mh_plain_size header = int (length content)" and "mh_plain_sha256 header = sha256 X content"
    and "\<not> over_byte_quota (w_db W) row (int (length content)) now" and "\<not> type_mismatch header content"
  shows "download_object C (D s) W row tid d now = save_download C (D s) W row tid secret header content now"
proof -
  obtain plan where plan: "for_size (int (length content)) CHUNK_SIZE_BYTES = Inr plan"
    and ps: "concat (pieces content (cp_chunk_count plan)) = content" "length (pieces content (cp_chunk_count plan)) = nat (cp_chunk_count plan)"
    and len: "length cts = nat (cp_chunk_count plan)"
    and ct: "\<And>i. i < length cts \<Longrightarrow> encrypt_chunk X (rs_data_key secret) (rs_nonce_prefix secret) tid (int i) (cp_chunk_count plan) (int (length content))
           (pieces content (cp_chunk_count plan) ! i) = Inr (cts ! i)"
    using encrypt_chunks_Inr [OF assms(5)] by metis
  let ?ps = "pieces content (cp_chunk_count plan)"
  have count: "cp_chunk_count plan = int (length cts)"
    using len for_size_count(4) [OF plan] by simp
  have enc: "\<And>i. i < length cts \<Longrightarrow> length (cts ! i) = length (?ps ! i) + 16 \<and>
      decrypt_chunk X (rs_data_key secret) (rs_nonce_prefix secret) tid (int i) (int (length cts)) (int (length content)) (cts ! i) = Inr (?ps ! i)"
    using ct unfolding count by (auto simp: encrypt_chunk_Inr decrypt_chunk_Inr aead_contractD [OF assms(2)])
  have dc: "map dc_size (d_chunks d) = map (\<lambda>c. int (length c)) cts" "map dc_sha256 (d_chunks d) = map (sha256 X) cts"
    using assms(4) by (simp_all add: describes_def)
  have "length (d_chunks d) = length cts"
    using map_eq_imp_length_eq [OF dc(1)] .
  moreover have "sum_list (map dc_size (d_chunks d)) = int (length content) + int (length cts) * 16"
  proof -
    have "sum_list (map length cts) = length content + length cts * 16"
      using sum_lengths_offset [of cts ?ps 16] enc ps len by (simp flip: length_concat)
    then show ?thesis
      unfolding dc(1) by (metis (mono_tags, lifting) int_ops(5,7) map_map comp_apply map_cong of_nat_numeral sum_list_of_nat)
  qed
  moreover have "fetch_chunks X (D s) tid secret (int (length cts)) (int (length content)) 0 (d_chunks d) [] = Assembled content"
    using fetch_chunks_succeeds [OF assms(3) dc(2), of ?ps secret "int (length cts)" "int (length content)" 0 "[]"] enc ps len by simp
  ultimately show ?thesis
    using assms(1,6-11) by (simp add: download_object_def Let_def TAG_BYTES_def)
qed

lemma save_download_succeeds:
  assumes "committed s tid cts blob" and "find_attachment (w_db W) (a_id row) = Some row"
    and "unique_file_name (map fst (w_files W)) (mp_principal_id (env_principal (rx_env C))) (safe_name (mh_file_name header)) = Inr (Some path)"
    and "load_signing_key (env_X (rx_env C)) (env_ids (rx_env C)) (env_principal (rx_env C)) = Inr sk" and "length tid = 16"
  shows "\<exists>W' ack. save_download C (D s) W row tid secret header content now = (W', Inr (result (a_id row) AVAILABLE ack))
    \<and> w_files W' = w_files W @ [(snd path, content)] \<and> state_of (w_db W') (a_id row) = Some AVAILABLE
    \<and> w_receipts W' = w_receipts W @ [(tid, rs_receipt_secret secret)]
    \<and> control_already_enqueued (w_db W') (a_id row) EVENT_ACK_DOWNLOADED_SENT"
proof -
  let ?db = "update_attachment (a_id row) (\<lambda>a. a\<lparr>a_state := AVAILABLE, a_error_code := None,
                    a_file_name := Some (mh_file_name header), a_mime_type := Some (mh_mime_type header),
                    a_plain_size := Some (mh_plain_size header), a_plain_sha256 := Some (hex_of (mh_plain_sha256 header)),
                    a_saved_path := Some (path_text C path), a_draft_comment := clean_received_comment (mh_comment header)\<rparr>) (w_db W)"
  obtain db' ack where e: "enqueue_control_message (rx_env C) ?db (a_id row) tid ACK_DOWNLOADED EVENT_ACK_DOWNLOADED_SENT now DERIVE_REPLY_ROUTE = Inr (db', ack)"
    using enqueue_total [OF assms(4) _ assms(5), of ACK_DOWNLOADED ?db "a_id row" EVENT_ACK_DOWNLOADED_SENT now DERIVE_REPLY_ROUTE]
    unfolding simple_ack_type_def by fastforce
  have "find_attachment db' (a_id row) = find_attachment ?db (a_id row)"
    using enqueue_moves(1) [OF e] by (simp add: find_attachment_def)
  then have "state_of db' (a_id row) = Some AVAILABLE"
    using assms(2) by (simp add: state_of_def find_update_attachment)
  then show ?thesis
    using assms(3) complete [OF assms(1)] e enqueue_enqueued [OF e] by (simp add: save_download_def Let_def) blast
qed

lemma step_downloading_succeeds:
  assumes "env_X (rx_env C) = X" and "aead_contract X" and "committed s tid cts blob"
    and "fromhex (a_transfer_id row) = Some tid" and "length tid = 16" and "find_attachment (w_db W) (a_id row) = Some row"
    and "Option.bind (a_provider_id row) (resolve (rx_providers C) (rx_workspace C)) = Some provider" and "pv_service_public_key provider = service_key"
    and "load_signing_key X (env_ids (rx_env C)) (env_principal (rx_env C)) = Inr sk"
    and "encrypt_chunks X (rs_data_key secret) (rs_nonce_prefix secret) tid (int (length content)) content = Inr cts"
    and "\<And>d. d_encrypted_manifest d = blob \<Longrightarrow> open_manifest C d (int (length cts)) (int (length content)) = Inr (secret, header)"
    and "mh_chunk_count header = int (length cts)" and "mh_plain_size header = int (length content)" and "mh_plain_sha256 header = sha256 X content"
    and "\<not> over_byte_quota (w_db W) row (int (length content)) now" and "\<not> type_mismatch header content"
    and "unique_file_name (map fst (w_files W)) (mp_principal_id (env_principal (rx_env C))) (safe_name (mh_file_name header)) = Inr (Some path)"
  shows "\<exists>W' ack. step_downloading C W row (Some (D s)) now = (W', Inr (result (a_id row) AVAILABLE ack))
    \<and> w_files W' = w_files W @ [(snd path, content)] \<and> state_of (w_db W') (a_id row) = Some AVAILABLE
    \<and> w_receipts W' = w_receipts W @ [(tid, rs_receipt_secret secret)]
    \<and> control_already_enqueued (w_db W') (a_id row) EVENT_ACK_DOWNLOADED_SENT"
proof -
  obtain d where d: "rc_get_descriptor (D s) tid = Inr d" "verify_descriptor_signature X d service_key" "describes X d cts blob"
    using descriptor [OF assms(3)] by blast
  have "open_manifest C d (int (length cts)) (int (length content)) = Inr (secret, header)"
    using d(3) assms(11) by (simp add: describes_def)
  note save = download_reaches_save [OF assms(1-3) d(3) assms(10) this assms(12-16)]
  show ?thesis
    using save_download_succeeds [OF assms(3,6,17), of sk secret content now] assms(1,4,5,7-9) d(1,2) save
    by (simp add: step_downloading_def Let_def)
qed

end

end
