(* ===== verification/End_To_End.thy ===== *)
theory End_To_End
  imports Relay_Contract Relay_Properties
begin

text \<open>
  A whole transfer, from the sender's \<open>UPLOADING\<close> row through the Relay to the file in the receiver's directory: the
  Relay store of \<open>Relay_Store\<close> behind the HTTP client of \<open>Relay_Client\<close> satisfies the contract of \<open>Relay_Contract\<close>
  (the interpretation \<open>mock\<close>), so the upload and the download proved there compose.
\<close>

section \<open>One request to the store\<close>

lemma client_call_ok: "session s = (s', answer ok (Inr b)) \<Longrightarrow> ok \<notin> set RETRYABLE_STATUS_CODES \<Longrightarrow> client_call r ok session s = (s', Inr b)"
  by (simp add: client_call_def request_settled answer_def raise_for_error_def)

lemma client_call_rejected:
  "session s = (s', answer ok (Inl (RelayValidationError code st))) \<Longrightarrow> st \<notin> set RETRYABLE_STATUS_CODES \<Longrightarrow> st \<noteq> ok \<Longrightarrow>
   client_call r ok session s = (s', Inl (RelayHTTPError st code))"
  by (simp add: client_call_def request_settled answer_def raise_for_error_def)

lemma ok_not_retried [simp]: "(200 :: int) \<notin> set RETRYABLE_STATUS_CODES" "(201 :: int) \<notin> set RETRYABLE_STATUS_CODES" "(403 :: int) \<notin> set RETRYABLE_STATUS_CODES"
  by (simp_all add: RETRYABLE_STATUS_CODES_def)

section \<open>Sessions and objects of the store\<close>

definition chunk_row :: "chunk_declaration \<Rightarrow> bytes option \<Rightarrow> relay_chunk" where
  "chunk_row d v = \<lparr>k_expected_size = cd_size d, k_expected_sha256 = cd_sha256 d, k_uploaded = (v \<noteq> None),
     k_data = (case v of None \<Rightarrow> [] | Some b \<Rightarrow> b)\<rparr>"

definition chunk_rows :: "chunk_declaration list \<Rightarrow> bytes list \<Rightarrow> relay_chunk list" where
  "chunk_rows ds cs = map2 chunk_row ds (map Some cs @ replicate (length ds - length cs) None)"

lemma length_chunk_rows [simp]: "length cs \<le> length ds \<Longrightarrow> length (chunk_rows ds cs) = length ds"
  by (simp add: chunk_rows_def)

lemma nth_chunk_rows:
  "length cs \<le> length ds \<Longrightarrow> i < length ds \<Longrightarrow> chunk_rows ds cs ! i = chunk_row (ds ! i) (if i < length cs then Some (cs ! i) else None)"
  by (auto simp: chunk_rows_def nth_append)

lemma chunk_rows_upload:
  assumes "length cs < length ds"
  shows "(chunk_rows ds cs)[length cs := (chunk_rows ds cs ! length cs)\<lparr>k_uploaded := True, k_data := c\<rparr>] = chunk_rows ds (cs @ [c])"
  using assms by (intro nth_equalityI) (auto simp: nth_chunk_rows nth_list_update nth_append less_Suc_eq chunk_row_def)

lemma validate_chunks_rows: "validate_chunks L n run ds = Inr (ks, run') \<Longrightarrow> ks = chunk_rows ds []"
  by (induction L n run ds arbitrary: ks rule: validate_chunks.induct)
    (auto simp: bind_res_eq_Inr reject_with_def chunk_rows_def chunk_row_def split: if_splits prod.splits)

definition relay_signs :: "ext \<Rightarrow> bytes \<Rightarrow> relay_store \<Rightarrow> bool" where
  "relay_signs X pk S \<longleftrightarrow> sign_contract X \<and> length pk = 32 \<and> ed_public X (st_signing_key S) = pk"

definition store_accepts :: "ext \<Rightarrow> string \<Rightarrow> int \<Rightarrow> int \<Rightarrow> bytes \<Rightarrow> relay_store \<Rightarrow> upload_request \<Rightarrow> bool" where
  "store_accepts X tok now later pk S q \<longleftrightarrow> relay_signs X pk S \<and> check_upload_access_token X S (Some tok) = Inr ()
     \<and> (\<exists>S' t. store_create_upload X S q now = Inr (S', t) \<and> now < t_session_expires_at t \<and> later < now + t_hard_ttl_seconds t)"

definition staged_for :: "ext \<Rightarrow> int \<Rightarrow> int \<Rightarrow> upload_request \<Rightarrow> string \<Rightarrow> bytes list \<Rightarrow> bytes option \<Rightarrow> transfer \<Rightarrow> bool" where
  "staged_for X now later q tok cs m t \<longleftrightarrow> t_upload_token_hash t = sha256 X (ascii_bytes tok) \<and> t_state t = Staging
     \<and> now < t_session_expires_at t \<and> later < now + t_hard_ttl_seconds t \<and> t_delete_after t = None
     \<and> length cs \<le> length (uq_chunks q) \<and> t_chunks t = chunk_rows (uq_chunks q) cs
     \<and> t_total_size t = uq_total_size q \<and> t_ciphertext_sha256 t = uq_ciphertext_sha256 q
     \<and> t_manifest_size t = uq_manifest_size q \<and> t_manifest_sha256 t = uq_manifest_sha256 q
     \<and> t_manifest_uploaded t = (m \<noteq> None) \<and> (\<forall>b. m = Some b \<longrightarrow> t_manifest_data t = b)"

definition store_staged :: "ext \<Rightarrow> int \<Rightarrow> int \<Rightarrow> bytes \<Rightarrow> relay_store \<Rightarrow> string \<Rightarrow> string \<Rightarrow> upload_request \<Rightarrow> bytes list \<Rightarrow> bytes option \<Rightarrow> bool" where
  "store_staged X now later pk S uid tok q cs m \<longleftrightarrow> relay_signs X pk S
     \<and> find_by fst (uq_transfer_id q) (st_upload_ids S) = Some (uq_transfer_id q, uid)
     \<and> (\<exists>t. find_by t_upload_id uid (st_transfers S) = Some t \<and> staged_for X now later q tok cs m t)"

definition store_serves :: "ext \<Rightarrow> int \<Rightarrow> bytes \<Rightarrow> relay_store \<Rightarrow> bytes \<Rightarrow> bytes list \<Rightarrow> bytes \<Rightarrow> bool" where
  "store_serves X later pk S tid cs b \<longleftrightarrow> relay_signs X pk S
     \<and> (\<exists>t. fetch_object S tid later = (S, Inr t) \<and> t_chunks t = chunk_rows (map (declared X) cs) cs \<and> t_manifest_data t = b)"

text \<open>An update of the staged transfer.\<close>

lemma staged_update:
  assumes "store_staged X now later pk S uid tok q cs m"
    and "\<And>t. staged_for X now later q tok cs m t \<Longrightarrow> staged_for X now later q tok cs' m' (f t)" and "\<And>t. t_upload_id (f t) = t_upload_id t"
  shows "store_staged X now later pk (update_transfer uid f S) uid tok q cs' m'"
  using assms by (auto simp: store_staged_def relay_signs_def update_transfer_def find_by_update_same)

lemma find_by_update_const:
  "find_by key (key new) rows \<noteq> None \<Longrightarrow> find_by key (key new) (update_where (\<lambda>r. key r = key new) (\<lambda>_. new) rows) = Some new"
  by (induction rows) (auto split: if_splits)

lemma find_by_replace: "find_by key (key new) (upsert key new (\<lambda>_. new) rows) = Some new"
proof (cases "find_by key (key new) rows")
  case None
  then show ?thesis by (simp add: upsert_def find_by_append)
next
  case (Some r)
  then show ?thesis using find_by_update_const [of key new rows] by (simp add: upsert_def)
qed

lemma uploaded_indices:
  "set (map cs_index (filter cs_uploaded (up_chunks (status_of t)))) = int ` {i. i < length (t_chunks t) \<and> k_uploaded (t_chunks t ! i)}"
proof -
  have "up_chunks (status_of t) = map (\<lambda>i. \<lparr>cs_index = int i, cs_uploaded = k_uploaded (t_chunks t ! i)\<rparr>) [0..<length (t_chunks t)]"
    by (intro nth_equalityI) (auto simp: status_of_def nth_enumerate_eq)
  then show ?thesis
    by (auto simp: filter_map image_iff)
qed

lemma store_staged_create:
  assumes "store_accepts X tok now later pk S q"
  shows "\<exists>S' session. ur_create_upload (uploader (Some tok) (store_http X now)) S q = (S', Inr session)
    \<and> store_staged X now later pk S' (us_upload_id session) (us_upload_token session) q [] None"
proof -
  obtain S' t where c: "store_create_upload X S q now = Inr (S', t)" "now < t_session_expires_at t" "later < now + t_hard_ttl_seconds t"
    and k: "relay_signs X pk S" "check_upload_access_token X S (Some tok) = Inr ()"
    using assms by (auto simp: store_accepts_def)
  obtain chunks run hard grace where v: "validate_chunks (st_limits S) (uq_total_size q) 0 (uq_chunks q) = Inr (chunks, run)"
    and t: "t = new_transfer X (st_limits S) q chunks hard grace now"
    and S': "S' = S\<lparr>st_transfers := upsert t_upload_id t (\<lambda>_. t) (st_transfers S), st_upload_ids := st_upload_ids S @ [(uq_transfer_id q, t_upload_id t)]\<rparr>"
    and new: "uq_transfer_id q \<notin> fst ` set (st_upload_ids S)"
    using c(1) unfolding store_create_upload_def Let_def
    by (auto simp: bind_res_eq_Inr reject_with_def split: if_splits prod.splits)
  let ?s = "session_of X t"
  have "find_by t_upload_id (t_upload_id t) (upsert t_upload_id t (\<lambda>_. t) (st_transfers S)) = Some t"
    by (rule find_by_replace)
  moreover have "find_by fst (uq_transfer_id q) (st_upload_ids S') = Some (uq_transfer_id q, t_upload_id t)"
    using new by (simp add: S' find_by_append find_by_None [THEN iffD2])
  moreover have "staged_for X now later q (us_upload_token ?s) [] None t"
    using c(2,3) validate_chunks_rows [OF v] by (simp add: t staged_for_def new_transfer_def Let_def session_of_def)
  ultimately have "store_staged X now later pk S' (us_upload_id ?s) (us_upload_token ?s) q [] None"
    using k(1) by (auto simp: store_staged_def S' relay_signs_def session_of_def)
  moreover have "ur_create_upload (uploader (Some tok) (store_http X now)) S q = (S', Inr ?s)"
    using c(1) k(2) by (simp add: uploader_def client_create_upload_def store_http_def accepted_def client_call_ok)
  ultimately show ?thesis by blast
qed

lemma store_staged_status:
  assumes "store_staged X now later pk S uid tok q cs m"
  shows "\<exists>st. ur_get_upload_status (uploader atok (store_http X now)) S uid tok = (S, Inr st)
    \<and> set (map cs_index (filter cs_uploaded (up_chunks st))) = {0..<int (length cs)} \<and> up_manifest_uploaded st = (m \<noteq> None)"
proof -
  obtain t where t: "find_by t_upload_id uid (st_transfers S) = Some t" "staged_for X now later q tok cs m t"
    using assms by (auto simp: store_staged_def)
  have "set (map cs_index (filter cs_uploaded (up_chunks (status_of t)))) = int ` {i. i < length (uq_chunks q) \<and> k_uploaded (t_chunks t ! i)}"
    unfolding uploaded_indices using t(2) by (simp add: staged_for_def)
  also have "\<dots> = int ` {0..<length cs}"
    using t(2) by (auto simp: staged_for_def nth_chunk_rows chunk_row_def split: if_splits)
  also have "\<dots> = {0..<int (length cs)}"
    by (simp add: image_int_atLeastLessThan)
  finally show ?thesis
    using t by (simp add: uploader_def client_get_upload_status_def store_http_def store_get_upload_status_def get_upload_def
        check_session_token_def staged_for_def client_call_ok) (simp add: status_of_def)
qed

lemma store_staged_chunk:
  assumes "store_staged X now later pk S uid tok q cs None" and "length cs < length (uq_chunks q)" and "uq_chunks q ! length cs = declared X c"
  shows "\<exists>S'. ur_upload_chunk (uploader atok (store_http X now)) S uid tok (int (length cs)) c = (S', Inr ())
    \<and> store_staged X now later pk S' uid tok q (cs @ [c]) None"
proof -
  obtain t where t: "find_by t_upload_id uid (st_transfers S) = Some t" "staged_for X now later q tok cs None t"
    using assms(1) by (auto simp: store_staged_def)
  let ?f = "\<lambda>u. u\<lparr>t_chunks := (t_chunks u)[length cs := (t_chunks t ! length cs)\<lparr>k_uploaded := True, k_data := c\<rparr>]\<rparr>"
  have "t_chunks t ! length cs = chunk_row (declared X c) None"
    using t(2) assms(2,3) by (simp add: staged_for_def nth_chunk_rows)
  then have "store_upload_chunk X S uid tok (int (length cs)) c now = Inr (update_transfer uid ?f S)"
    using t assms(2) by (simp add: store_upload_chunk_def get_upload_def check_session_token_def require_staging_def staged_for_def
        Let_def chunk_row_def declared_def)
  then have "ur_upload_chunk (uploader atok (store_http X now)) S uid tok (int (length cs)) c = (update_transfer uid ?f S, Inr ())"
    by (simp add: uploader_def client_upload_chunk_def store_http_def accepted_def client_call_ok)
  moreover have "store_staged X now later pk (update_transfer uid ?f S) uid tok q (cs @ [c]) None"
    using t(2) assms(2) by (intro staged_update [OF assms(1)]) (simp_all add: staged_for_def chunk_rows_upload)
  ultimately show ?thesis by blast
qed

lemma store_staged_manifest:
  assumes "store_staged X now later pk S uid tok q cs None" and "uq_manifest_size q = int (length b)" and "uq_manifest_sha256 q = sha256 X b"
  shows "\<exists>S'. ur_upload_manifest (uploader atok (store_http X now)) S uid tok b = (S', Inr ())
    \<and> store_staged X now later pk S' uid tok q cs (Some b)"
proof -
  obtain t where t: "find_by t_upload_id uid (st_transfers S) = Some t" "staged_for X now later q tok cs None t"
    using assms(1) by (auto simp: store_staged_def)
  let ?f = "\<lambda>u. u\<lparr>t_manifest_uploaded := True, t_manifest_data := b\<rparr>"
  have "store_upload_manifest X S uid tok b now = Inr (update_transfer uid ?f S)"
    using t assms(2,3) by (simp add: store_upload_manifest_def get_upload_def check_session_token_def require_staging_def staged_for_def)
  then have "ur_upload_manifest (uploader atok (store_http X now)) S uid tok b = (update_transfer uid ?f S, Inr ())"
    by (simp add: uploader_def client_upload_manifest_def store_http_def accepted_def client_call_ok)
  moreover have "store_staged X now later pk (update_transfer uid ?f S) uid tok q cs (Some b)"
    by (intro staged_update [OF assms(1)]) (simp_all add: staged_for_def)
  ultimately show ?thesis by blast
qed

lemma store_staged_commit:
  assumes "store_staged X now later pk S uid tok q cs (Some b)" and "request_for X q tid cs b"
  shows "\<exists>S' d h. ur_commit (uploader atok (store_http X now)) S uid tok = (S', Inr d) \<and> d_hard_expires_at d = TimeNum h
    \<and> store_serves X later pk S' tid cs b"
proof -
  obtain t where t: "find_by t_upload_id uid (st_transfers S) = Some t" "staged_for X now later q tok cs (Some b) t"
    and ids: "find_by fst tid (st_upload_ids S) = Some (tid, uid)" and pk: "relay_signs X pk S"
    using assms by (auto simp: store_staged_def request_for_def)
  let ?t = "t\<lparr>t_state := Committed, t_committed_at := Some now, t_hard_expires_at := Some (now + t_hard_ttl_seconds t)\<rparr>"
  let ?S = "update_transfer uid (\<lambda>_. ?t) S"
  have q: "uq_chunks q = map (declared X) cs"
    using assms(2) by (simp add: request_for_def)
  have rows: "map k_data (t_chunks t) = cs" "list_all k_uploaded (t_chunks t)"
    using t(2) unfolding staged_for_def q
    by (auto simp: nth_chunk_rows chunk_row_def list_all_length intro!: nth_equalityI)
  have commit: "store_commit X S uid tok now = Inr (?S, ?t)"
    using t rows assms(2) by (simp add: store_commit_def get_upload_def check_session_token_def require_staging_def staged_for_def Let_def request_for_def)
  have uid: "t_upload_id t = uid"
    using find_upload_id [OF t(1)] .
  have "find_by t_upload_id uid (st_transfers ?S) = Some ?t"
    using find_by_update_const [of t_upload_id ?t "st_transfers S"] t(1) uid by (simp add: update_transfer_def)
  then have "fetch_object ?S tid later = (?S, Inr ?t)"
    using ids t(2) by (simp add: fetch_object_def object_of_def update_transfer_def due_def staged_for_def)
  then have "store_serves X later pk ?S tid cs b"
    using t(2) pk unfolding store_serves_def staged_for_def q by (simp add: relay_signs_def update_transfer_def)
  moreover have "ur_commit (uploader atok (store_http X now)) S uid tok = (?S, Inr (descriptor_payload X ?S ?t))"
    using commit by (simp add: uploader_def client_commit_def store_http_def accepted_def client_call_ok)
  moreover have "d_hard_expires_at (descriptor_payload X ?S ?t) = TimeNum (now + t_hard_ttl_seconds t)"
    by (simp add: descriptor_payload_def unsigned_descriptor_def Let_def time_of_def)
  ultimately show ?thesis by blast
qed

lemma store_serves_descriptor:
  assumes "store_serves X later pk S tid cs b"
  shows "\<exists>d. rc_get_descriptor (downloader (store_http X later) S) tid = Inr d \<and> verify_descriptor_signature X d pk \<and> describes X d cs b"
proof -
  obtain t where t: "fetch_object S tid later = (S, Inr t)" "t_chunks t = chunk_rows (map (declared X) cs) cs" "t_manifest_data t = b"
    and pk: "relay_signs X pk S"
    using assms by (auto simp: store_serves_def)
  let ?d = "descriptor_payload X S t"
  have "rc_get_descriptor (downloader (store_http X later) S) tid = Inr ?d"
    using t(1) by (simp add: downloader_def client_get_descriptor_def store_http_def store_get_descriptor_def client_call_ok)
  moreover have "verify_descriptor_signature X ?d pk"
    using pk by (auto simp: relay_signs_def verify_descriptor_signature_def descriptor_payload_def Let_def sign_contractD)
  moreover have "describes X ?d cs b"
    using t(2,3) by (auto simp: describes_def descriptor_payload_def unsigned_descriptor_def Let_def nth_enumerate_eq nth_chunk_rows chunk_row_def
        declared_def intro!: nth_equalityI)
  ultimately show ?thesis by blast
qed

lemma store_serves_chunk:
  assumes "store_serves X later pk S tid cs b" and "i < length cs"
  shows "rc_get_chunk (downloader (store_http X later) S) tid (int i) = Inr (cs ! i)"
proof -
  obtain t where t: "fetch_object S tid later = (S, Inr t)" "t_chunks t = chunk_rows (map (declared X) cs) cs"
    using assms by (auto simp: store_serves_def)
  then have "store_get_chunk S tid (int i) later = (S, Inr (cs ! i))"
    using assms(2) by (simp add: store_get_chunk_def nth_chunk_rows chunk_row_def)
  then show ?thesis
    by (simp add: downloader_def client_get_chunk_def store_http_def client_call_ok)
qed

lemma store_serves_complete:
  assumes "store_serves X later pk S tid cs b"
  shows "rc_complete (downloader (store_http X later) S) tid secret \<noteq> Inl NotARelayError"
proof -
  obtain t where t: "fetch_object S tid later = (S, Inr t)"
    using assms by (auto simp: store_serves_def)
  show ?thesis
  proof (cases "sha256 X secret \<in> fst ` set (t_receipts t)")
    case True
    then have "snd (store_complete X S tid secret later) = Inr ()"
      using t by (simp add: store_complete_def Let_def)
    then show ?thesis
      by (cases "store_complete X S tid secret later") (simp add: downloader_def client_complete_def store_http_def client_call_ok)
  next
    case False
    then have "store_complete X S tid secret later = (S, Inl (RelayValidationError ''invalid_receipt'' 403))"
      using t by (simp add: store_complete_def Let_def reject_with_def)
    then show ?thesis
      by (simp add: downloader_def client_complete_def store_http_def client_call_rejected)
  qed
qed

interpretation mock: relay_contract X "uploader (Some tok) (store_http X clock)" "downloader (store_http X lclock)" pk
    "store_accepts X tok clock lclock pk" "store_staged X clock lclock pk" "store_serves X lclock pk"
  for X tok clock lclock pk
  by unfold_locales
    (assumption | rule store_staged_create store_staged_status store_staged_chunk store_staged_manifest store_staged_commit
       store_serves_descriptor store_serves_chunk store_serves_complete)+

section \<open>What ENCRYPTING leaves behind\<close>

text \<open>libsodium's sealed box adds a key and a tag to its plaintext (\<open>crypto_box_SEALBYTES\<close>).\<close>

definition sealed_overhead :: "ext \<Rightarrow> bool" where
  "sealed_overhead X \<longleftrightarrow> (\<forall>pk p r. length (sealed_box X pk p r) \<le> length p + 48)"

lemma sealed_length:
  assumes "cbor_contract X" and "sealed_overhead X" and "uint64 (rs_chunk_count s)" and "seal_recipient_secret X s pk r = Inr sealed"
  shows "length sealed \<le> 248"
proof -
  obtain p x where p: "encode_recipient_secret X s = Inr p" "sealed = sealed_box X x p r"
    using assms(4) by (auto simp: seal_recipient_secret_def case_sum_eq_Inr bind_res_eq_Inr)
  then have e: "p = cbor_dumps X (PDict (secret_items s))" "length (rs_data_key s) = 32" "length (rs_nonce_prefix s) = 16" "length (rs_receipt_secret s) = 32"
    by (auto simp: encode_recipient_secret_def DATA_KEY_BYTES_def NONCE_PREFIX_BYTES_def split: if_splits)
  have "cbor_plain (PDict (secret_items s))"
    using assms(3) e by (simp add: secret_items_def uint64_def int_key_def)
  then have "length p = cbor_size (PDict (secret_items s))"
    using cbor_contractD(2) [OF assms(1)] e(1) by simp
  also have "\<dots> \<le> 200"
    using e(2-4) head_size_le [of "nat (rs_chunk_count s)"] by (simp add: secret_items_def head_size_def)
  finally have "length p \<le> 200" .
  then show ?thesis
    using assms(2) p(2) le_trans [of "length sealed" "length p + 48" 248] unfolding sealed_overhead_def by auto
qed

lemma ref_ext_overhead [simp]: "sealed_overhead ref_ext"
  by (simp add: sealed_overhead_def ref_ext_def)

lemma encrypting_writes:
  assumes "step_encrypting C db row now ids = Inr (db', st)" and "find_attachment db (a_id row) = Some row"
    and "get_sender_state db (a_id row) = None" and "recipients_for db (a_id row) = [r]" and "ids (rc_envelope_id r) = Some pk"
    and "Option.bind (a_saved_path row) (sc_content C) = Some content" and "a_plain_size row = Some n" and "a_plain_sha256 row = Some (hex_of h)"
  obtains sst secret cts kid tid sealed rnd where
    "find_attachment db' (a_id row) = Some (row\<lparr>a_cipher_size := Some (int (sum_list (map length cts))), a_state := QUEUED_UPLOAD, a_error_code := None\<rparr>)"
    "fromhex (a_transfer_id row) = Some tid"
    "get_sender_state db' (a_id row) = Some sst" "ss_upload_id sst = None" "ss_manifest_sha256 sst = sha256 (sc_X C) (ss_manifest_blob sst)"
    "rs_data_key secret = ss_data_key sst" "rs_nonce_prefix secret = ss_nonce_prefix sst" "rs_chunk_count secret = int (length cts)"
    "encrypt_chunks (sc_X C) (ss_data_key sst) (ss_nonce_prefix sst) tid n content = Inr cts"
    "seal_recipient_secret (sc_X C) secret pk rnd = Inr sealed" "fromhex (rc_envelope_id r) = Some kid"
    "build_manifest_blob (sc_X C) tid (rs_data_key secret) (rs_nonce_prefix secret) (header_of row n h (int (length cts)))
       [\<lparr>re_recipient_key_id = kid, re_sealed_envelope = sealed\<rparr>] = Inr (ss_manifest_blob sst)"
proof -
  let ?X = "sc_X C" and ?i = "a_id row" and ?n = "db_next db"
  define dk where "dk = sc_urandom C ?n DATA_KEY_BYTES"
  define np where "np = sc_urandom C (?n + 1) NONCE_PREFIX_BYTES"
  obtain tid plan cts sealed blob where tid: "fromhex (a_transfer_id row) = Some tid"
    and plan: "for_size n CHUNK_SIZE_BYTES = Inr plan" and cts: "encrypt_chunks ?X dk np tid n content = Inr cts"
    and sealed: "seal_for C dk np (cp_chunk_count plan) ids (?n + 2) r = Inr sealed"
    and blob: "build_manifest_blob ?X tid dk np (header_of row n h (cp_chunk_count plan)) [fst sealed] = Inr blob"
    and db': "db' = sender_set_state (update_attachment ?i (\<lambda>a. a\<lparr>a_cipher_size := Some (int (sum_list (map length cts)))\<rparr>)
        (fold (\<lambda>(r, h). save_receipt_hash (rc_id r) h) [(r, snd sealed)] (save_sender_state db None ?i dk np blob (sha256 ?X blob) now)
          \<lparr>db_next := ?n + 2 + 2 * 1\<rparr>)) ?i QUEUED_UPLOAD now None"
    using assms unfolding step_encrypting_def Let_def dk_def np_def
    by (auto simp: bind_res_eq_Inr escape_def case_sum_eq_Inr hex_bytes_def required_def split: option.splits sum.splits)
  have count: "cp_chunk_count plan = int (length cts)"
    using encrypt_chunks_nth(1) [OF plan cts] for_size_count(4) [OF plan] by simp
  obtain box kid where s: "seal_recipient_secret ?X \<lparr>rs_data_key = dk, rs_nonce_prefix = np, rs_receipt_secret = sc_urandom C (?n + 2) 32,
        rs_chunk_count = cp_chunk_count plan\<rparr> pk (sc_urandom C (Suc (?n + 2)) 32) = Inr box"
    and kid: "fromhex (rc_envelope_id r) = Some kid" and env: "fst sealed = \<lparr>re_recipient_key_id = kid, re_sealed_envelope = box\<rparr>"
    using sealed assms(5) unfolding seal_for_def Let_def public_identity_for_def
    by (auto simp: bind_res_eq_Inr escape_def case_sum_eq_Inr hex_bytes_def split: option.splits sum.splits)
  have "find_attachment db' ?i = Some (row\<lparr>a_cipher_size := Some (int (sum_list (map length cts))), a_state := QUEUED_UPLOAD, a_error_code := None\<rparr>)"
    using assms(2) by (simp add: db' find_moves save_sender_state_def save_receipt_hash_def)
  moreover have "get_sender_state db' ?i = Some \<lparr>ss_attachment_id = ?i, ss_data_key = dk, ss_nonce_prefix = np, ss_manifest_blob = blob,
      ss_manifest_sha256 = sha256 ?X blob, ss_upload_id = None, ss_upload_token = None, ss_revoke_token = None, ss_created_at = now, ss_updated_at = now\<rparr>"
    using assms(3) get_sender_state_save [of None db ?i] by (simp add: db' save_receipt_hash_def)
  ultimately show thesis
    using that [where secret = "\<lparr>rs_data_key = dk, rs_nonce_prefix = np, rs_receipt_secret = sc_urandom C (?n + 2) 32, rs_chunk_count = cp_chunk_count plan\<rparr>"]
      tid cts s kid blob env count by fastforce
qed

section \<open>A session that reached READY_TO_SEND\<close>

lemma uploading_created:
  assumes "step_uploading C R W row now = (W', Inr READY_TO_SEND)" and "fromhex (a_transfer_id row) = Some tid"
    and "get_sender_state (sw_db W) (a_id row) = Some st" and "ss_upload_id st = None" and "a_plain_size row = Some n"
  shows "\<exists>q r session. upload_request_of C (sw_db W) row st tid n = Inr q \<and> ur_create_upload R (sw_relay W) q = (r, Inr session)"
proof -
  obtain plan where plan: "for_size n CHUNK_SIZE_BYTES = Inr plan"
    using assms by (auto simp: step_uploading_def hex_bytes_def required_def escape_def split: sum.splits)
  obtain q where q: "upload_request_of C (sw_db W) row st tid n = Inr q"
    using assms plan for_size_count(1) [OF plan]
    by (cases "upload_request_of C (sw_db W) row st tid n") (auto simp: step_uploading_def hex_bytes_def required_def escape_def)
  obtain r res where c: "ur_create_upload R (sw_relay W) q = (r, res)"
    by fastforce
  show ?thesis
  proof (cases res)
    case (Inl e)
    have "abandon_transfer_id_and_restart C (sw_db W) row now reason = Inr (db, s) \<Longrightarrow> s = ENCRYPTING" for reason db s
      by (auto simp: abandon_transfer_id_and_restart_def Let_def split: if_splits)
    then show ?thesis
      using assms plan q c Inl for_size_count(1) [OF plan]
      by (cases e) (auto simp: step_uploading_def hex_bytes_def required_def escape_def park_def split: if_splits sum.splits)
  qed (use q c in blast)
qed

lemma upload_and_commit_ready:
  assumes "upload_and_commit C R W row st tid plan uid utok rv now = (W', Inr READY_TO_SEND)" and "find_attachment (sw_db W) (a_id row) = Some row"
  shows "\<exists>a. find_attachment (sw_db W') (a_id row) = Some a \<and> a_state a = READY_TO_SEND \<and> a_direction a = a_direction row"
proof -
  obtain r res where u: "upload_object C R uid utok st tid plan row (sw_relay W) = (r, res)"
    by fastforce
  show ?thesis
  proof (cases res)
    case (Inl e)
    then show ?thesis
      using assms u by (auto simp: upload_and_commit_def park_def Let_def split: upload_stop.splits relay_error.splits)
  next
    case (Inr d)
    then show ?thesis
      using assms u by (auto simp: upload_and_commit_def find_moves Let_def ensure_revoke_state_def split: sum.splits option.splits)
  qed
qed

lemma uploading_ready:
  assumes "step_uploading C R W row now = (W', Inr READY_TO_SEND)" and "find_attachment (sw_db W) (a_id row) = Some row"
    and "fromhex (a_transfer_id row) = Some tid" and "get_sender_state (sw_db W) (a_id row) = Some st" and "ss_upload_id st = None" and "a_plain_size row = Some n"
  shows "\<exists>a. find_attachment (sw_db W') (a_id row) = Some a \<and> a_state a = READY_TO_SEND \<and> a_direction a = a_direction row"
proof -
  obtain plan where plan: "for_size n CHUNK_SIZE_BYTES = Inr plan"
    using assms by (auto simp: step_uploading_def hex_bytes_def required_def escape_def split: sum.splits)
  obtain q r u where "upload_request_of C (sw_db W) row st tid n = Inr q" "ur_create_upload R (sw_relay W) q = (r, Inr u)"
    using uploading_created [OF assms(1,3-6)] by blast
  then have "upload_and_commit C R (W\<lparr>sw_db := save_upload_session (a_id row) u now (sw_db W), sw_relay := r\<rparr>) row st tid plan (us_upload_id u)
      (us_upload_token u) (us_revoke_token u) now = (W', Inr READY_TO_SEND)"
    using assms plan for_size_count(1) [OF plan] by (simp add: step_uploading_def hex_bytes_def required_def escape_def)
  then show ?thesis
    using upload_and_commit_ready [of C R _ row] assms(2) by (simp add: save_upload_session_def)
qed

lemma store_created:
  assumes "ur_create_upload (uploader (Some tok) (store_http X now)) S q = (S', Inr session)"
  shows "check_upload_access_token X S (Some tok) = Inr () \<and> (\<exists>S' t. store_create_upload X S q now = Inr (S', t))"
  using assms
  by (auto simp: uploader_def client_create_upload_def client_call_def request_not_retryable store_http_def accepted_def answer_def
      raise_for_error_def reject_with_def Let_def bind_res_def split: sum.splits prod.splits validation_error.splits if_splits)

lemma request_accepted:
  assumes "store_create_upload X S q now = Inr (S', t)" and "uq_hard_ttl_seconds q = Some ttl"
  shows "t_hard_ttl_seconds t = ttl" and "t_session_expires_at t = now + lim_upload_session_seconds (st_limits S)"
  using assms unfolding store_create_upload_def Let_def clamp_def
  by (auto simp: bind_res_eq_Inr reject_with_def new_transfer_def Let_def split: if_splits prod.splits)

lemma request_ttl: "upload_request_of C db row st tid n = Inr q \<Longrightarrow> uq_hard_ttl_seconds q = Some (72 * 3600)"
  by (auto simp: upload_request_of_def bind_res_eq_Inr DEFAULT_HARD_TTL_SECONDS_def)

text \<open>The chunk count of a file below \<open>2 ^ 64\<close> bytes.\<close>

lemma chunk_count_uint64:
  assumes "encrypt_chunks X dk np tid n content = Inr cts" and "uint64 n"
  shows "uint64 (int (length cts))"
proof -
  obtain plan where plan: "for_size n CHUNK_SIZE_BYTES = Inr plan"
    using assms(1) by (auto simp: encrypt_chunks_def bind_res_eq_Inr)
  have "int (length cts) = cp_chunk_count plan"
    using encrypt_chunks_nth(1) [OF plan assms(1)] for_size_count(4) [OF plan] by simp
  moreover have "cp_chunk_count plan \<le> max 1 n"
    using for_size_count(2,4,6,7) [OF plan] by (cases "n = 0") (auto simp: CHUNK_SIZE_BYTES_def)
  ultimately show ?thesis
    using assms(2) by (auto simp: uint64_def)
qed

lemma fromhex_length: "fromhex s = Some b \<Longrightarrow> length s = 2 * length b"
  by (induction s arbitrary: b rule: fromhex.induct) (auto split: option.splits)

section \<open>Properties\<close>

text \<open>C25. An interrupted upload is finished, not repeated: whatever prefix of the chunks (and perhaps the manifest) an earlier
  run had already stored in its session, one step from \<open>UPLOADING\<close> with the store behind the HTTP client uploads the rest,
  commits, reaches \<open>READY_TO_SEND\<close>, and the Relay then serves exactly the ciphertexts and the manifest the sender holds.\<close>

theorem interrupted_upload_completes:
  assumes "find_attachment (sw_db W) i = Some row" and "a_state row = UPLOADING" and "sc_X C = X"
    and "fromhex (a_transfer_id row) = Some tid" and "get_sender_state (sw_db W) i = Some st"
    and "ss_upload_id st = Some uid" and "ss_upload_token st = Some utok"
    and "a_plain_size row = Some n" and "0 \<le> n" and "Option.bind (a_saved_path row) (sc_content C) = Some content"
    and "encrypt_chunks X (ss_data_key st) (ss_nonce_prefix st) tid n content = Inr cts"
    and "request_for X q tid cts (ss_manifest_blob st)" and "resumable cts (ss_manifest_blob st) k m"
    and "store_staged X now later pk (sw_relay W) uid utok q (take k cts) m"
  shows "\<exists>W'. sender_run_step C ids (Some (uploader (Some tok) (store_http X now))) A net W i t = (W', Inr READY_TO_SEND)
    \<and> store_serves X later pk (sw_relay W') tid cts (ss_manifest_blob st)"
proof -
  have i: "a_id row = i"
    using assms(1) find_attachment_id by blast
  show ?thesis
    using mock.step_uploading_succeeds [OF assms(3,4), where tok = tok and clock = now and lclock = later and pk = pk and W = W and q = q and st = st and n = n
        and content = content and cts = cts and now = t] assms(1,2,5-14) i
    by (auto simp: sender_run_step_def)
qed

text \<open>What the three sender steps leave in the Relay, and the secret the recipient's envelope holds.\<close>

lemma uploaded_object:
  assumes sender: "sc_X C = X" "find_attachment (sw_db W) i = Some row" "a_state row = ENCRYPTING" "get_sender_state (sw_db W) i = None"
      "Option.bind (a_saved_path row) (sc_content C) = Some content" "a_plain_size row = Some n" "a_plain_sha256 row = Some (hex_of h)"
    and recipient: "recipients_for (sw_db W) i = [r]" "ids (rc_envelope_id r) = Some rpk"
    and steps: "sender_run_step C (Some ids) (Some (uploader (Some tok) (store_http X now))) A True W i t1 = (W1, Inr QUEUED_UPLOAD)"
      "sender_run_step C (Some ids) (Some (uploader (Some tok) (store_http X now))) A True W1 i t2 = (W2, Inr UPLOADING)"
      "sender_run_step C (Some ids) (Some (uploader (Some tok) (store_http X now))) A True W2 i t3 = (W3, Inr READY_TO_SEND)"
    and relay: "sign_contract X" "length pk = 32" "ed_public X (st_signing_key (sw_relay W)) = pk" "0 < lim_upload_session_seconds (st_limits (sw_relay W))"
    and time: "later < now + 72 * 3600"
  obtains tid cts secret kid sealed rnd blob where "fromhex (a_transfer_id row) = Some tid" "length tid = 16"
    "store_serves X later pk (sw_relay W3) tid cts blob" "rs_chunk_count secret = int (length cts)"
    "encrypt_chunks X (rs_data_key secret) (rs_nonce_prefix secret) tid n content = Inr cts"
    "seal_recipient_secret X secret rpk rnd = Inr sealed" "fromhex (rc_envelope_id r) = Some kid"
    "build_manifest_blob X tid (rs_data_key secret) (rs_nonce_prefix secret) (header_of row n h (int (length cts)))
       [\<lparr>re_recipient_key_id = kid, re_sealed_envelope = sealed\<rparr>] = Inr blob"
proof -
  have i: "a_id row = i"
    using sender(2) find_attachment_id by blast
  obtain db1 where enc: "step_encrypting C (sw_db W) row t1 ids = Inr (db1, QUEUED_UPLOAD)" and W1: "W1 = W\<lparr>sw_db := db1\<rparr>"
    using steps(1) sender(2,3) by (auto simp: sender_run_step_def commit_db_def split: sum.splits)
  obtain sst secret cts kid tid sealed rnd where
    row1: "find_attachment db1 i = Some (row\<lparr>a_cipher_size := Some (int (sum_list (map length cts))), a_state := QUEUED_UPLOAD, a_error_code := None\<rparr>)"
    and tid: "fromhex (a_transfer_id row) = Some tid"
    and sst: "get_sender_state db1 i = Some sst" "ss_upload_id sst = None" "ss_manifest_sha256 sst = sha256 X (ss_manifest_blob sst)"
    and secret: "rs_data_key secret = ss_data_key sst" "rs_nonce_prefix secret = ss_nonce_prefix sst" "rs_chunk_count secret = int (length cts)"
    and cts: "encrypt_chunks X (ss_data_key sst) (ss_nonce_prefix sst) tid n content = Inr cts"
    and sealed: "seal_recipient_secret X secret rpk rnd = Inr sealed" "fromhex (rc_envelope_id r) = Some kid"
    and blob: "build_manifest_blob X tid (rs_data_key secret) (rs_nonce_prefix secret) (header_of row n h (int (length cts)))
       [\<lparr>re_recipient_key_id = kid, re_sealed_envelope = sealed\<rparr>] = Inr (ss_manifest_blob sst)"
    using encrypting_writes [OF enc, of r rpk content n h] sender recipient unfolding i sender(1) by metis
  define row2 where "row2 = row\<lparr>a_cipher_size := Some (int (sum_list (map length cts))), a_state := UPLOADING, a_error_code := None\<rparr>"
  have W2: "sw_relay W2 = sw_relay W" "find_attachment (sw_db W2) i = Some row2" "get_sender_state (sw_db W2) i = Some sst"
    using steps(2) row1 sst(1) i unfolding W1 by (auto simp: sender_run_step_def commit_db_def step_queued_upload_def find_moves row2_def)
  have row2: "a_state row2 = UPLOADING" "a_id row2 = i" "fromhex (a_transfer_id row2) = Some tid" "a_plain_size row2 = Some n"
    "Option.bind (a_saved_path row2) (sc_content C) = Some content"
    using i tid sender(5,6) by (simp_all add: row2_def)
  have up: "step_uploading C (uploader (Some tok) (store_http X now)) W2 row2 t3 = (W3, Inr READY_TO_SEND)"
    using steps(3) W2(2) row2(1) by (simp add: sender_run_step_def)
  obtain q where q: "upload_request_of C (sw_db W2) row2 sst tid n = Inr q" "store_accepts X tok now later pk (sw_relay W2) q"
    using uploading_created [OF up row2(3) _ sst(2) row2(4)] W2 row2(2) store_created request_accepted request_ttl relay time
    unfolding store_accepts_def relay_signs_def by (metis (no_types, lifting) less_add_same_cancel1)
  have n: "0 \<le> n" and t16: "length tid = 16"
    using cts blob by (auto simp: encrypt_chunks_def for_size_def build_manifest_blob_def bind_res_eq_Inr split: if_splits)
  have "store_serves X later pk (sw_relay W3) tid cts (ss_manifest_blob sst)"
    using mock.step_uploading_succeeds [OF sender(1) row2(3) _ row2(4) n row2(5) cts, where tok = tok and clock = now and lclock = later and pk = pk and W = W2 and q = q and now = t3] W2(3) row2(2) sst q up by auto
  then show thesis
    using that tid t16 secret cts sealed blob by metis
qed

text \<open>C1. A transfer delivers the file: when the sender's three steps take a freshly validated row from \<open>ENCRYPTING\<close> to
  \<open>READY_TO_SEND\<close> against a Relay store, then a download step of the recipient at any Relay time before the object's 72
  hours are over - with the Relay's key pinned, the identity the envelope was sealed for, no held quota and a mime type
  that agrees with the content - ends in \<open>AVAILABLE\<close>, with exactly the sender's bytes as one new file and with the
  \<open>ACK_DOWNLOADED\<close> in the outbox.\<close>

theorem transfer_delivers:
  assumes contracts: "cbor_contract X" "aead_contract X" "sealed_contract X" "sealed_overhead X" "sign_contract X"
    and relay: "length pk = 32" "ed_public X (st_signing_key (sw_relay W)) = pk" "0 < lim_upload_session_seconds (st_limits (sw_relay W))"
    and sender: "sc_X C = X" "find_attachment (sw_db W) i = Some row" "a_state row = ENCRYPTING" "get_sender_state (sw_db W) i = None"
      "Option.bind (a_saved_path row) (sc_content C) = Some content" "a_plain_size row = Some (int (length content))"
      "a_plain_sha256 row = Some (hex_of (sha256 X content))" "uint64 (int (length content))"
      "\<And>k. uint64 k \<Longrightarrow> header_plain (header_of row (int (length content)) (sha256 X content) k)"
    and recipient: "recipients_for (sw_db W) i = [r]" "ids (rc_envelope_id r) = Some (mp_public_identity (env_principal (rx_env C')))"
      "rc_envelope_id r = mp_key_id (env_principal (rx_env C'))" "length (rc_envelope_id r) < 2 ^ 64"
    and steps: "sender_run_step C (Some ids) (Some (uploader (Some tok) (store_http X now))) A True W i t1 = (W1, Inr QUEUED_UPLOAD)"
      "sender_run_step C (Some ids) (Some (uploader (Some tok) (store_http X now))) A True W1 i t2 = (W2, Inr UPLOADING)"
      "sender_run_step C (Some ids) (Some (uploader (Some tok) (store_http X now))) A True W2 i t3 = (W3, Inr READY_TO_SEND)"
    and receiver: "env_X (rx_env C') = X" "find_attachment (w_db V) j = Some rrow" "a_state rrow = DOWNLOADING" "a_transfer_id rrow = a_transfer_id row"
      "Option.bind (a_provider_id rrow) (resolve (rx_providers C') (rx_workspace C')) = Some provider" "pv_service_public_key provider = pk"
      "load_signing_key X (env_ids (rx_env C')) (env_principal (rx_env C')) = Inr sk"
      "\<not> over_byte_quota (w_db V) rrow (int (length content)) t4" "\<not> type_mismatch (header_of row (int (length content)) (sha256 X content) 0) content"
      "unique_file_name (map fst (w_files V)) (mp_principal_id (env_principal (rx_env C'))) (safe_name (case a_file_name row of None \<Rightarrow> [] | Some f \<Rightarrow> f)) = Inr (Some path)"
    and time: "later < now + 72 * 3600"
  shows "\<exists>V' ack. run_step C' V j (Some (downloader (store_http X later) (sw_relay W3))) t4 auto = (V', Inr (result j AVAILABLE ack))
    \<and> w_files V' = w_files V @ [(snd path, content)] \<and> state_of (w_db V') j = Some AVAILABLE
    \<and> control_already_enqueued (w_db V') j EVENT_ACK_DOWNLOADED_SENT"
proof -
  let ?n = "int (length content)" and ?h = "sha256 X content"
  obtain tid cts secret kid sealed rnd blob where o: "fromhex (a_transfer_id row) = Some tid" "length tid = 16" "store_serves X later pk (sw_relay W3) tid cts blob"
    "rs_chunk_count secret = int (length cts)" "encrypt_chunks X (rs_data_key secret) (rs_nonce_prefix secret) tid ?n content = Inr cts"
    "seal_recipient_secret X secret (mp_public_identity (env_principal (rx_env C'))) rnd = Inr sealed" "fromhex (rc_envelope_id r) = Some kid"
    "build_manifest_blob X tid (rs_data_key secret) (rs_nonce_prefix secret) (header_of row ?n ?h (int (length cts)))
       [\<lparr>re_recipient_key_id = kid, re_sealed_envelope = sealed\<rparr>] = Inr blob"
    by (rule uploaded_object [OF sender(1-7) recipient(1,2) steps contracts(5) relay time])
  let ?hd = "header_of row ?n ?h (int (length cts))"
  have count: "uint64 (int (length cts))"
    using chunk_count_uint64 [OF o(5) sender(8)] .
  then have plain: "header_plain ?hd" "uint64 (rs_chunk_count secret)"
    using sender(9) o(4) by simp_all
  have "length kid \<le> length (rc_envelope_id r)"
    using fromhex_length [OF o(7)] by simp
  then have env: "list_all envelope_plain [\<lparr>re_recipient_key_id = kid, re_sealed_envelope = sealed\<rparr>]"
    using sealed_length [OF contracts(1,4) plain(2) o(6)] recipient(4) by (simp add: envelope_plain_def)
  have opens: "open_manifest C' d (int (length cts)) ?n = Inr (secret, ?hd)" if "d_encrypted_manifest d = blob" for d
    using open_manifest_built [OF contracts(1-3) receiver(1,7) _ plain o(6) env, of kid tid d] o(7,8) recipient(3) that
    by (simp add: header_of_def)
  have j: "a_id rrow = j"
    using receiver(2) find_attachment_id by blast
  have hd: "\<not> type_mismatch ?hd content" "mh_file_name ?hd = (case a_file_name row of None \<Rightarrow> [] | Some f \<Rightarrow> f)"
    using receiver(9) by (simp_all add: type_mismatch_def header_of_def)
  have "\<exists>V' ack. step_downloading C' V rrow (Some (downloader (store_http X later) (sw_relay W3))) t4 = (V', Inr (result (a_id rrow) AVAILABLE ack))
      \<and> w_files V' = w_files V @ [(snd path, content)] \<and> state_of (w_db V') (a_id rrow) = Some AVAILABLE
      \<and> w_receipts V' = w_receipts V @ [(tid, rs_receipt_secret secret)]
      \<and> control_already_enqueued (w_db V') (a_id rrow) EVENT_ACK_DOWNLOADED_SENT"
    using receiver o(1,2) hd j opens
    by (intro mock.step_downloading_succeeds [OF receiver(1) contracts(2) o(3) _ o(2) _ receiver(5,6,7) o(5), where header = ?hd]) (simp_all add: header_of_def)
  then show ?thesis
    using receiver(2,3) j by (auto simp: run_step_def)
qed

end
