(* ===== verification/End_To_End_Example.thy ===== *)
theory End_To_End_Example
  imports End_To_End
begin

text \<open>
  A concrete transfer run: a draft for one recipient, driven by \<open>sender.run_step\<close> through every automatic state against the
  Relay store, and downloaded by that recipient. It shows that the hypotheses of the end-to-end properties of \<open>End_To_End\<close>
  and of the sender's invariant hold together.
\<close>

definition peer_env :: mca_env where
  "peer_env = sample_env\<lparr>env_principal := (env_principal sample_env)\<lparr>mp_principal_id := ''0123456789abcdef''\<rparr>,
     env_ids := \<lparr>is_rows = [], is_keys = [(''0123456789abcdef'', ''k'') \<mapsto> replicate 32 9]\<rparr>\<rparr>"

definition peer_send_ctx :: send_ctx where
  "peer_send_ctx = sample_send_ctx\<lparr>sc_env := peer_env\<rparr>"

definition peer_recv_ctx :: recv_ctx where
  "peer_recv_ctx = sample_ctx\<lparr>rx_env := peer_env\<rparr>"

definition peer_args :: draft_args where
  "peer_args = sample_args\<lparr>da_recipients := [\<lparr>rt_public_identity = replicate 32 9, rt_key_id = hex_of (replicate 8 9)\<rparr>]\<rparr>"

definition peer_ids :: "string \<rightharpoonup> bytes" where
  "peer_ids = [hex_of (replicate 8 9) \<mapsto> replicate 32 9]"

lemma peer_simps [simp]:
  "sc_X peer_send_ctx = ref_ext" "env_X (rx_env peer_recv_ctx) = ref_ext"
  "mp_public_identity (env_principal (rx_env peer_recv_ctx)) = replicate 32 9" "mp_key_id (env_principal (rx_env peer_recv_ctx)) = hex_of (replicate 8 9)"
  "load_signing_key ref_ext (env_ids (rx_env peer_recv_ctx)) (env_principal (rx_env peer_recv_ctx)) = Inr (replicate 32 9)"
  by (simp_all add: peer_send_ctx_def peer_recv_ctx_def peer_env_def sample_send_ctx_def sample_ctx_def sample_env_def load_signing_key_def ref_ext_def)

lemma ref_public [simp]: "ed_public ref_ext (replicate 32 b) = replicate 32 b"
  by (simp add: ref_ext_def)

text \<open>The draft, with what the later steps read of it.\<close>

definition peer_row :: attachment where
  "peer_row = new_sent peer_send_ctx peer_args ''a'' (sc_urandom peer_send_ctx 1 16) (b64url_nopad (replicate 8 7)) None 1"

definition peer_recipient :: recipient_row where
  "peer_recipient = \<lparr>rc_id = ''ii'', rc_attachment_id = ''a'', rc_envelope_id = hex_of (replicate 8 9),
     rc_recipient_principal_id = Some (hex_of (replicate 8 9)), rc_recipient_public_identity = Some (replicate 32 9),
     rc_receipt_secret_hash = None, rc_received_at = None, rc_downloaded_at = None\<rparr>"

lemma peer_draft:
  "\<exists>db. create_draft peer_send_ctx empty_db peer_args 1 = Inr (db, ''a'') \<and> find_attachment db ''a'' = Some peer_row
     \<and> recipients_for db ''a'' = [peer_recipient] \<and> get_sender_state db ''a'' = None \<and> db_next db = 4"
  by (simp add: create_draft_def peer_send_ctx_def peer_env_def sample_send_ctx_def peer_args_def sample_args_def sample_env_def empty_db_def
      check_recipient_def compute_key_id_def ref_ext_def normalize_comment_def encode_provider_id_def escape_def draft_conflict_def Let_def
      find_attachment_def peer_row_def new_sent_def record_event_def recipients_for_def get_sender_state_def peer_recipient_def)

lemma peer_row_simps [simp]:
  "a_id peer_row = ''a''" "a_state peer_row = DRAFT" "a_direction peer_row = Sent" "a_saved_path peer_row = Some ''/spool/f''"
  "a_mime_type peer_row = Some ''text/plain''" "a_file_name peer_row = Some ''f.txt''" "a_draft_comment peer_row = None"
  "a_principal_id peer_row = ''0123456789abcdef''" "a_transfer_id peer_row = hex_of (replicate 16 1)" "a_download_grace_seconds peer_row = 3600"
  by (simp_all add: peer_row_def new_sent_def peer_args_def sample_args_def peer_send_ctx_def peer_env_def sample_env_def sample_send_ctx_def)

lemma peer_urandom [simp]: "sc_urandom peer_send_ctx k n = replicate n (of_nat k)" "sc_content peer_send_ctx ''/spool/f'' = Some [104, 105]"
  by (simp_all add: peer_send_ctx_def sample_send_ctx_def)

lemma peer_disk: "low_disk_level_of (sc_disk_usage peer_send_ctx) ''0123456789abcdef'' = Inr DISK_OK"
  by (simp add: peer_send_ctx_def sample_send_ctx_def) code_simp

lemma peer_mime: "strip_of text_space ''text/plain'' \<noteq> []"
  by code_simp

definition validated :: attachment where
  "validated = peer_row\<lparr>a_plain_size := Some 2, a_plain_sha256 := Some (hex_of (sha256 ref_ext [104, 105])), a_state := ENCRYPTING, a_error_code := None\<rparr>"

lemma peer_validated:
  "\<exists>W. send_reachable peer_send_ctx W \<and> sw_relay W = sample_store \<and> find_attachment (sw_db W) ''a'' = Some validated
     \<and> recipients_for (sw_db W) ''a'' = [peer_recipient] \<and> get_sender_state (sw_db W) ''a'' = None"
proof -
  obtain db where db: "create_draft peer_send_ctx empty_db peer_args 1 = Inr (db, ''a'')" "find_attachment db ''a'' = Some peer_row"
    "recipients_for db ''a'' = [peer_recipient]" "get_sender_state db ''a'' = None"
    using peer_draft by blast
  define W0 where "W0 = \<lparr>sw_db = empty_db, sw_relay = sample_store, sw_radio = []\<rparr>"
  define W1 where "W1 = W0\<lparr>sw_db := db\<rparr>"
  define W2 where "W2 = W1\<lparr>sw_db := sender_set_state db ''a'' VALIDATING 2 None\<rparr>"
  have "send_step peer_send_ctx W0 W1"
    unfolding W1_def using db(1) by (intro send_step.draft) (simp add: W0_def)
  moreover have "send_step peer_send_ctx W1 W2"
  proof (rule send_step.run [where R = None])
    show "sender_run_step peer_send_ctx None None None True W1 ''a'' 2 = (W2, Inr VALIDATING)"
      using db(2) by (simp add: W2_def W1_def W0_def sender_run_step_def commit_db_def step_draft_def)
  next
    show "find_attachment (sw_db W1) ''a'' = Some peer_row" "a_direction peer_row = Sent"
      using db(2) by (simp_all add: W1_def)
  qed simp
  moreover have row2: "find_attachment (sw_db W2) ''a'' = Some (peer_row\<lparr>a_state := VALIDATING, a_error_code := None\<rparr>)"
    using db(2) by (simp add: W2_def find_moves)
  have rec2: "recipients_for (sw_db W2) ''a'' = [peer_recipient]" "get_sender_state (sw_db W2) ''a'' = None"
    using db(3,4) by (simp_all add: W2_def recipients_for_def get_sender_state_def sender_set_state_def record_event_def update_attachment_def)
  define W3 where "W3 = W2\<lparr>sw_db := sender_set_state (update_attachment ''a'' (\<lambda>a. a\<lparr>a_plain_size := Some 2,
     a_plain_sha256 := Some (hex_of (sha256 ref_ext [104, 105]))\<rparr>) (sw_db W2)) ''a'' ENCRYPTING 3 None\<rparr>"
  have "send_step peer_send_ctx W2 W3"
  proof (rule send_step.run [where R = None])
    show "sender_run_step peer_send_ctx None None None True W2 ''a'' 3 = (W3, Inr ENCRYPTING)"
      using row2 rec2 unfolding W3_def
      by (simp add: sender_run_step_def step_validating_def commit_db_def peer_disk peer_mime escape_def Let_def)
  next
    show "find_attachment (sw_db W2) ''a'' = Some (peer_row\<lparr>a_state := VALIDATING, a_error_code := None\<rparr>)"
        "a_direction (peer_row\<lparr>a_state := VALIDATING, a_error_code := None\<rparr>) = Sent"
      using row2 by simp_all
  qed simp
  ultimately have "send_reachable peer_send_ctx W3"
    using send_reachable.init [of peer_send_ctx sample_store] unfolding W0_def by (meson send_reachable.step)
  moreover have "find_attachment (sw_db W3) ''a'' = Some validated"
    using row2 by (simp add: W3_def find_moves validated_def)
  moreover have "recipients_for (sw_db W3) ''a'' = [peer_recipient]" "get_sender_state (sw_db W3) ''a'' = None" "sw_relay W3 = sample_store"
    using rec2 by (simp_all add: W3_def recipients_for_def get_sender_state_def sender_set_state_def record_event_def update_attachment_def W2_def W1_def W0_def)
  ultimately show ?thesis by blast
qed

text \<open>The cryptographic calls of the run.\<close>

lemma peer_chunks:
  "length dk = 32 \<Longrightarrow> length np = 16 \<Longrightarrow> length tid = 16 \<Longrightarrow>
   encrypt_chunks ref_ext dk np tid 2 [104, 105] = Inr [[104, 105] @ replicate 16 0]"
  by (simp add: encrypt_chunks_def for_size_def CHUNK_SIZE_BYTES_def bounds_def encrypt_chunk_def chunk_nonce_def chunk_slice_def
      require_length_def aad_def DATA_KEY_BYTES_def NONCE_PREFIX_BYTES_def Let_def ref_ext_def)

lemma peer_seals:
  "length (rs_data_key s) = 32 \<Longrightarrow> length (rs_nonce_prefix s) = 16 \<Longrightarrow> length (rs_receipt_secret s) = 32 \<Longrightarrow>
   \<exists>sealed. seal_recipient_secret ref_ext s (replicate 32 9) r = Inr sealed"
  by (simp add: seal_recipient_secret_def derive_x25519_public_def encode_recipient_secret_def DATA_KEY_BYTES_def NONCE_PREFIX_BYTES_def ref_ext_def)

lemma peer_blob:
  "length tid = 16 \<Longrightarrow> length dk = 32 \<Longrightarrow> length np = 16 \<Longrightarrow> rs \<noteq> [] \<Longrightarrow> length (mh_plain_sha256 h) = 32 \<Longrightarrow>
   \<exists>blob. build_manifest_blob ref_ext tid dk np h rs = Inr blob"
  by (simp add: build_manifest_blob_def encode_header_def encrypt_header_def header_nonce_def require_length_def DATA_KEY_BYTES_def
      NONCE_PREFIX_BYTES_def aad_def)

lemma validated_simps [simp]:
  "a_id validated = ''a''" "a_state validated = ENCRYPTING" "a_saved_path validated = Some ''/spool/f''" "a_transfer_id validated = hex_of (replicate 16 1)"
  "a_plain_size validated = Some 2" "a_plain_sha256 validated = Some (hex_of (sha256 ref_ext [104, 105]))" "a_direction validated = Sent"
  "a_download_grace_seconds validated = 3600"
  by (simp_all add: validated_def)

lemma recipients_for_single:
  "recipients_for db i = [r] \<longleftrightarrow> filter (\<lambda>x. rc_attachment_id x = i) (db_recipients db) = [r]"
proof
  assume r: "recipients_for db i = [r]"
  have "length (recipients_for db i) = length (filter (\<lambda>x. rc_attachment_id x = i) (db_recipients db))"
    "set (recipients_for db i) = set (filter (\<lambda>x. rc_attachment_id x = i) (db_recipients db))"
    by (simp_all add: recipients_for_def)
  then show "filter (\<lambda>x. rc_attachment_id x = i) (db_recipients db) = [r]"
    unfolding r by (cases "filter (\<lambda>x. rc_attachment_id x = i) (db_recipients db)") auto
qed (simp add: recipients_for_def)

lemma recipients_for_receipt:
  assumes "recipients_for db i = [r]"
  shows "recipients_for (save_receipt_hash (rc_id r) h db) i = [r\<lparr>rc_receipt_secret_hash := Some (hex_of h)\<rparr>]"
proof -
  have "filter (\<lambda>x. rc_attachment_id x = i) (update_where (\<lambda>x. rc_id x = rc_id r) (\<lambda>x. x\<lparr>rc_receipt_secret_hash := Some (hex_of h)\<rparr>) rs)
      = update_where (\<lambda>x. rc_id x = rc_id r) (\<lambda>x. x\<lparr>rc_receipt_secret_hash := Some (hex_of h)\<rparr>) (filter (\<lambda>x. rc_attachment_id x = i) rs)" for rs :: "recipient_row list"
    by (induction rs) simp_all
  then show ?thesis
    using assms by (simp add: recipients_for_single save_receipt_hash_def)
qed

lemma recipients_for_frame [simp]:
  "recipients_for (sender_set_state db i s now e) j = recipients_for db j"
  "recipients_for (update_attachment i f db) j = recipients_for db j"
  "recipients_for (save_sender_state db ex i dk np mb ms now) j = recipients_for db j"
  "recipients_for (db\<lparr>db_next := k\<rparr>) j = recipients_for db j"
  by (simp_all add: recipients_for_def sender_set_state_def record_event_def update_attachment_def save_sender_state_def split: option.splits)

lemma peer_encrypts:
  assumes "recipients_for db ''a'' = [peer_recipient]" and "get_sender_state db ''a'' = None"
  shows "\<exists>db' h. step_encrypting peer_send_ctx db validated now peer_ids = Inr (db', QUEUED_UPLOAD)
    \<and> recipients_for db' ''a'' = [peer_recipient\<lparr>rc_receipt_secret_hash := Some (hex_of h)\<rparr>]"
proof -
  let ?n = "db_next db"
  let ?dk = "replicate DATA_KEY_BYTES (of_nat ?n) :: bytes" and ?np = "replicate NONCE_PREFIX_BYTES (of_nat (?n + 1)) :: bytes"
  obtain plan where plan: "for_size 2 CHUNK_SIZE_BYTES = Inr plan" "cp_chunk_count plan = 1"
    by (simp add: for_size_def CHUNK_SIZE_BYTES_def)
  obtain box where "seal_recipient_secret ref_ext \<lparr>rs_data_key = ?dk, rs_nonce_prefix = ?np, rs_receipt_secret = replicate 32 (of_nat (?n + 2)), rs_chunk_count = 1\<rparr>
      (replicate 32 9) (replicate 32 (of_nat (Suc (?n + 2)))) = Inr box"
    using peer_seals by (fastforce simp: DATA_KEY_BYTES_def NONCE_PREFIX_BYTES_def)
  then obtain sealed where sealed: "seal_for peer_send_ctx ?dk ?np 1 peer_ids (?n + 2) peer_recipient = Inr sealed"
    by (simp add: seal_for_def Let_def public_identity_for_def peer_ids_def peer_recipient_def escape_def hex_bytes_def)
  obtain blob where "build_manifest_blob ref_ext (replicate 16 1) ?dk ?np (header_of validated 2 (sha256 ref_ext [104, 105]) 1) [fst sealed] = Inr blob"
    using peer_blob [of "replicate 16 1" ?dk ?np "[fst sealed]" "header_of validated 2 (sha256 ref_ext [104, 105]) 1"]
    by (auto simp: header_of_def DATA_KEY_BYTES_def NONCE_PREFIX_BYTES_def ref_ext_def)
  then show ?thesis
    using assms plan sealed peer_chunks [of ?dk ?np "replicate 16 1"]
    by (simp add: step_encrypting_def Let_def hex_bytes_def required_def escape_def DATA_KEY_BYTES_def NONCE_PREFIX_BYTES_def recipients_for_receipt) blast
qed

text \<open>The manifest of the run is small enough for the Relay.\<close>

lemma peer_blob_size:
  assumes "build_manifest_blob ref_ext tid dk np h [\<lparr>re_recipient_key_id = kid, re_sealed_envelope = sealed\<rparr>] = Inr blob"
    and "header_plain h" and "mh_comment h = None" and "length (mh_file_name h) + length (mh_mime_type h) \<le> 100"
    and "length kid \<le> 100" and "length sealed \<le> 300"
  shows "1 \<le> length blob \<and> length blob \<le> 2000"
proof -
  obtain raw ct nonce where tid: "length tid = 16" and enc: "encode_header ref_ext h = Inr raw"
    and e: "encrypt_header ref_ext dk np tid (mh_chunk_count h) (mh_plain_size h) raw = Inr ct" "header_nonce np = Inr nonce"
    and blob: "blob = cbor_dumps ref_ext (PDict (blob_items tid nonce ct [\<lparr>re_recipient_key_id = kid, re_sealed_envelope = sealed\<rparr>]))"
    using assms(1) by (auto simp: build_manifest_blob_def bind_res_eq_Inr case_sum_eq_Inr split: if_splits)
  have raw: "raw = cbor_dumps ref_ext (PDict (header_items h))" "length (mh_plain_sha256 h) = 32"
    using enc by (auto simp: encode_header_def split: if_splits)
  have ct: "length ct = length raw + 16" and nonce: "length nonce = 24"
    using e by (auto simp: encrypt_header_Inr header_nonce_Inr aead_contractD [OF ref_ext_contracts(4)] HEADER_NONCE_SUFFIX_def
        NONCE_SUFFIX_BYTES_def NONCE_BYTES_def NONCE_PREFIX_BYTES_def)
  have "length raw \<le> 250"
    using raw assms(3,4) cbor_contractD(2) [OF ref_ext_contracts(1) header_items_plain [OF assms(2) raw(2)]]
      head_size_le [of "length (mh_file_name h)"] head_size_le [of "length (mh_mime_type h)"] head_size_le [of "nat (mh_plain_size h)"]
      head_size_le [of "nat (mh_chunk_count h)"]
    by (simp add: header_items_def head_size_def [of "numeral _"] head_size_def [of 0] head_size_def [of 1] head_size_def [of "Suc _"] del: head_size_le)
  moreover have "cbor_plain (PDict (blob_items tid nonce ct [\<lparr>re_recipient_key_id = kid, re_sealed_envelope = sealed\<rparr>]))"
    using tid ct nonce assms(5,6) \<open>length raw \<le> 250\<close> by (simp add: blob_items_def uint64_def int_key_def MANIFEST_VERSION_def)
  ultimately show ?thesis
    using tid ct nonce assms(5,6) cbor_contractD(2) [OF ref_ext_contracts(1)]
      head_size_le [of "length kid"] head_size_le [of "length sealed"] head_size_le [of "length ct"]
    by (simp add: blob blob_items_def head_size_def [of "numeral _"] head_size_def [of 0] head_size_def [of 1] head_size_def [of "Suc _"] MANIFEST_VERSION_def del: head_size_le)
qed

lemma store_gives_tokens: "tokens_given (uploader tok (store_http X now))"
  by (auto simp: tokens_given_def uploader_def client_create_upload_def client_call_def request_not_retryable store_http_def accepted_def answer_def
      raise_for_error_def session_of_def Let_def split: sum.splits prod.splits validation_error.splits if_splits option.splits)

text \<open>The Relay accepts the request of the run.\<close>

lemma peer_accepted:
  assumes "upload_request_of peer_send_ctx db row st (replicate 16 1) 2 = Inr q" and "a_id row = ''a''" and "a_saved_path row = Some ''/spool/f''"
    and "a_download_grace_seconds row = 3600"
    and "recipients_for db ''a'' = [peer_recipient\<lparr>rc_receipt_secret_hash := Some (hex_of h)\<rparr>]"
    and "encrypt_chunks ref_ext (ss_data_key st) (ss_nonce_prefix st) (replicate 16 1) 2 [104, 105] = Inr [ct]" and "length ct = 18"
    and "1 \<le> length (ss_manifest_blob st)" and "length (ss_manifest_blob st) \<le> 2000" and "later < 259210"
  shows "store_accepts ref_ext ''tok'' 10 later (replicate 32 5) sample_store q"
  using assms
  by (auto simp: upload_request_of_def recompute_chunk_declarations_def bind_res_eq_Inr required_def hex_bytes_def escape_def store_accepts_def
      relay_signs_def check_upload_access_token_def sample_store_def store_create_upload_def default_limits_def clamp_def
      total_committed_bytes_def Let_def new_transfer_def DEFAULT_HARD_TTL_SECONDS_def)

abbreviation peer_relay :: "relay_store upload_relay" where
  "peer_relay \<equiv> uploader (Some ''tok'') (store_http ref_ext 10)"

lemma peer_run:
  obtains W W1 W2 W3 a where "send_reachable peer_send_ctx W3"
    "find_attachment (sw_db W3) ''a'' = Some a" "a_state a = READY_TO_SEND" "a_direction a = Sent"
    "sw_relay W = sample_store" "find_attachment (sw_db W) ''a'' = Some validated"
    "recipients_for (sw_db W) ''a'' = [peer_recipient]" "get_sender_state (sw_db W) ''a'' = None"
    "sender_run_step peer_send_ctx (Some peer_ids) (Some peer_relay) None True W ''a'' 4 = (W1, Inr QUEUED_UPLOAD)"
    "sender_run_step peer_send_ctx (Some peer_ids) (Some peer_relay) None True W1 ''a'' 5 = (W2, Inr UPLOADING)"
    "sender_run_step peer_send_ctx (Some peer_ids) (Some peer_relay) None True W2 ''a'' 6 = (W3, Inr READY_TO_SEND)"
proof -
  let ?run = "sender_run_step peer_send_ctx (Some peer_ids) (Some peer_relay) None True"
  have reach: "send_reachable peer_send_ctx V'" if "send_reachable peer_send_ctx V" "find_attachment (sw_db V) ''a'' = Some a" "a_direction a = Sent"
      "?run V ''a'' t = (V', res)" for V V' a t res
    using send_reachable.step [OF that(1) send_step.run [OF that(2,3) _ that(4)]] store_gives_tokens by blast
  obtain W where W: "send_reachable peer_send_ctx W" "sw_relay W = sample_store" "find_attachment (sw_db W) ''a'' = Some validated"
    "recipients_for (sw_db W) ''a'' = [peer_recipient]" "get_sender_state (sw_db W) ''a'' = None"
    using peer_validated by blast
  obtain db1 h where enc: "step_encrypting peer_send_ctx (sw_db W) validated 4 peer_ids = Inr (db1, QUEUED_UPLOAD)"
    and rec1: "recipients_for db1 ''a'' = [peer_recipient\<lparr>rc_receipt_secret_hash := Some (hex_of h)\<rparr>]"
    using peer_encrypts [OF W(4,5)] by blast
  define W1 where "W1 = W\<lparr>sw_db := db1\<rparr>"
  have step1: "?run W ''a'' 4 = (W1, Inr QUEUED_UPLOAD)"
    using W(3) enc by (simp add: sender_run_step_def commit_db_def W1_def)
  have W3: "find_attachment (sw_db W) (a_id validated) = Some validated" "get_sender_state (sw_db W) (a_id validated) = None"
    "recipients_for (sw_db W) (a_id validated) = [peer_recipient]"
    using W by simp_all
  have more: "peer_ids (rc_envelope_id peer_recipient) = Some (replicate 32 9)" "Option.bind (a_saved_path validated) (sc_content peer_send_ctx) = Some [104, 105]"
    by (simp_all add: peer_ids_def peer_recipient_def)
  obtain sst secret cts kid tid sealed rnd where
    row1: "find_attachment db1 ''a'' = Some (validated\<lparr>a_cipher_size := Some (int (sum_list (map length cts))), a_state := QUEUED_UPLOAD, a_error_code := None\<rparr>)"
    and tid': "fromhex (a_transfer_id validated) = Some tid"
    and sst: "get_sender_state db1 ''a'' = Some sst" "ss_upload_id sst = None" "ss_manifest_sha256 sst = sha256 ref_ext (ss_manifest_blob sst)"
    and secret: "rs_data_key secret = ss_data_key sst" "rs_nonce_prefix secret = ss_nonce_prefix sst" "rs_chunk_count secret = int (length cts)"
    and cts: "encrypt_chunks ref_ext (ss_data_key sst) (ss_nonce_prefix sst) tid 2 [104, 105] = Inr cts"
    and sealed: "seal_recipient_secret ref_ext secret (replicate 32 9) rnd = Inr sealed" "fromhex (rc_envelope_id peer_recipient) = Some kid"
    and blob: "build_manifest_blob ref_ext tid (rs_data_key secret) (rs_nonce_prefix secret) (header_of validated 2 (sha256 ref_ext [104, 105]) (int (length cts)))
       [\<lparr>re_recipient_key_id = kid, re_sealed_envelope = sealed\<rparr>] = Inr (ss_manifest_blob sst)"
    using encrypting_writes [OF enc W3(1,2,3) more validated_simps(5,6)] unfolding peer_simps validated_simps(1) by metis
  have tid: "tid = replicate 16 1"
    using tid' by simp
  define row2 where "row2 = validated\<lparr>a_cipher_size := Some (int (sum_list (map length cts))), a_state := UPLOADING, a_error_code := None\<rparr>"
  define W2 where "W2 = W1\<lparr>sw_db := sender_set_state db1 ''a'' UPLOADING 5 None\<rparr>"
  have step2: "?run W1 ''a'' 5 = (W2, Inr UPLOADING)"
    using row1 by (simp add: sender_run_step_def commit_db_def W1_def W2_def step_queued_upload_def)
  have row2: "find_attachment (sw_db W2) ''a'' = Some row2" "a_id row2 = ''a''" "fromhex (a_transfer_id row2) = Some tid"
      "a_plain_size row2 = Some 2" "Option.bind (a_saved_path row2) (sc_content peer_send_ctx) = Some [104, 105]" "a_state row2 = UPLOADING"
      "a_direction row2 = Sent"
    and st2: "get_sender_state (sw_db W2) (a_id row2) = Some sst" and rel2: "sw_relay W2 = sample_store"
    using row1 sst(1) W(2) tid by (simp_all add: W2_def W1_def row2_def find_moves)
  have lens: "length (ss_data_key sst) = 32" "length (ss_nonce_prefix sst) = 16"
    using sealed(1) secret(1,2) by (auto simp: seal_recipient_secret_def encode_recipient_secret_def case_sum_eq_Inr bind_res_eq_Inr
        DATA_KEY_BYTES_def NONCE_PREFIX_BYTES_def split: if_splits)
  then have cts': "cts = [[104, 105] @ replicate 16 0]"
    using cts peer_chunks [of "ss_data_key sst" "ss_nonce_prefix sst" tid] tid by simp
  have "1 \<le> length (ss_manifest_blob sst) \<and> length (ss_manifest_blob sst) \<le> 2000"
  proof (rule peer_blob_size [OF blob])
    show "length sealed \<le> 300"
      using sealed_length [OF ref_ext_contracts(1) ref_ext_overhead _ sealed(1)] secret(3) cts' by (simp add: uint64_def)
  qed (use sealed(2) cts' in \<open>auto simp: header_of_def header_plain_def ascii_text_def uint64_def peer_recipient_def validated_def\<close>)
  moreover obtain q where q: "upload_request_of peer_send_ctx (sw_db W2) row2 sst tid 2 = Inr q"
    using rec1 cts lens row2(2,5) by (simp add: upload_request_of_def W2_def required_def hex_bytes_def recompute_chunk_declarations_def escape_def)
  ultimately have "store_accepts ref_ext ''tok'' 10 20 (replicate 32 5) (sw_relay W2) q"
    using peer_accepted [of "sw_db W2" row2 sst q h "[104, 105] @ replicate 16 0" 20] cts cts' tid rec1 rel2 row2
    by (auto simp: W2_def row2_def)
  then have "\<exists>W3. step_uploading peer_send_ctx peer_relay W2 row2 6 = (W3, Inr READY_TO_SEND)
      \<and> store_serves ref_ext 20 (replicate 32 5) (sw_relay W3) tid cts (ss_manifest_blob sst)"
    using q sst by (intro mock.step_uploading_succeeds [OF peer_simps(1) row2(3) st2 row2(4) _ row2(5) cts]) simp_all
  then obtain W3 where up: "step_uploading peer_send_ctx peer_relay W2 row2 6 = (W3, Inr READY_TO_SEND)"
    by blast
  then have step3: "?run W2 ''a'' 6 = (W3, Inr READY_TO_SEND)"
    using row2 by (auto simp: sender_run_step_def)
  obtain a where a: "find_attachment (sw_db W3) ''a'' = Some a" "a_state a = READY_TO_SEND" "a_direction a = Sent"
    using uploading_ready [OF up _ row2(3) st2 sst(2) row2(4)] row2(1,2,7) by auto
  have "send_reachable peer_send_ctx W1"
    using reach [OF W(1,3) _ step1] by simp
  then have "send_reachable peer_send_ctx W2"
    using reach [OF _ _ _ step2] row1 by (simp add: W1_def)
  then have "send_reachable peer_send_ctx W3"
    using reach [OF _ row2(1,7) step3] by simp
  then show thesis
    using that a W(2-5) step1 step2 step3 by blast
qed

lemma peer_sniff: "sniff_mime_type [104, 105] = Some ''text/plain''"
  by code_simp

lemma peer_path: "resolve_saved_path ''0123456789abcdef'' (safe_name ''f.txt'') = Inr (''0123456789abcdef'', ''f.txt'')"
  by code_simp

section \<open>Witnesses\<close>

theorem committed_stays_revocable_witness:
  "\<exists>(W :: relay_store send_world) a v. send_reachable peer_send_ctx W \<and> find_attachment (sw_db W) ''a'' = Some a \<and> a_state a = READY_TO_SEND
     \<and> find_by rv_attachment_id ''a'' (db_revoke_state (sw_db W)) = Some v"
proof -
  obtain W :: "relay_store send_world" and a where r: "send_reachable peer_send_ctx W" "find_attachment (sw_db W) ''a'' = Some a"
    "a_state a = READY_TO_SEND" "a_direction a = Sent"
    by (rule peer_run)
  then show ?thesis
    using committed_stays_revocable [OF r(1,2,4)] by blast
qed

theorem transfer_delivers_witness:
  "\<exists>(W3 :: relay_store send_world) V rrow path V' ack. find_attachment (w_db V) ''r'' = Some rrow \<and> a_state rrow = DOWNLOADING
     \<and> run_step peer_recv_ctx V ''r'' (Some (downloader (store_http ref_ext 20) (sw_relay W3))) 7 False = (V', Inr (result ''r'' AVAILABLE ack))
     \<and> w_files V = [] \<and> w_files V' = [(snd path, [104, 105])]"
proof -
  obtain W W1 W2 W3 :: "relay_store send_world" where r: "sw_relay W = sample_store" "find_attachment (sw_db W) ''a'' = Some validated"
    "recipients_for (sw_db W) ''a'' = [peer_recipient]" "get_sender_state (sw_db W) ''a'' = None"
    "sender_run_step peer_send_ctx (Some peer_ids) (Some peer_relay) None True W ''a'' 4 = (W1, Inr QUEUED_UPLOAD)"
    "sender_run_step peer_send_ctx (Some peer_ids) (Some peer_relay) None True W1 ''a'' 5 = (W2, Inr UPLOADING)"
    "sender_run_step peer_send_ctx (Some peer_ids) (Some peer_relay) None True W2 ''a'' 6 = (W3, Inr READY_TO_SEND)"
    by (rule peer_run)
  define rrow where "rrow = (new_received peer_env ''r'' [] sample_offer (b64url_nopad (replicate 8 7)) None (Some ''!0000000a'') None 5)
    \<lparr>a_state := DOWNLOADING, a_transfer_id := hex_of (replicate 16 1)\<rparr>"
  define V where "V = empty_world\<lparr>w_db := empty_db\<lparr>db_attachments := [rrow]\<rparr>\<rparr>"
  have rrow: "find_attachment (w_db V) ''r'' = Some rrow" "a_state rrow = DOWNLOADING" "a_transfer_id rrow = a_transfer_id validated"
    "w_files V = []" "\<not> over_byte_quota (w_db V) rrow (int (length [104, 105 :: byte])) 7"
    by (simp_all add: V_def rrow_def new_received_def find_attachment_def empty_world_def over_byte_quota_def is_auto_accepted_def empty_db_def)
  have prov: "Option.bind (a_provider_id rrow) (resolve (rx_providers peer_recv_ctx) (rx_workspace peer_recv_ctx)) = Some sample_provider"
    "pv_service_public_key sample_provider = replicate 32 5"
    by (simp_all add: rrow_def new_received_def resolve_def peer_recv_ctx_def sample_ctx_def sample_provider_def peer_env_def sample_env_def)
  have hp: "header_plain (header_of validated (int (length [104, 105 :: byte])) (sha256 ref_ext [104, 105]) k)" if "uint64 k" for k
    using that by (simp add: header_of_def header_plain_def ascii_text_def uint64_def validated_def)
  have tm: "\<not> type_mismatch (header_of validated (int (length [104, 105 :: byte])) (sha256 ref_ext [104, 105]) 0) [104, 105]"
    by (simp add: type_mismatch_def header_of_def validated_def peer_sniff Let_def startswith_def)
  obtain path where path: "unique_file_name (map fst (w_files V)) (mp_principal_id (env_principal (rx_env peer_recv_ctx)))
      (safe_name (case a_file_name validated of None \<Rightarrow> [] | Some f \<Rightarrow> f)) = Inr (Some path)"
    using peer_path by (auto simp: rrow(4) validated_def peer_recv_ctx_def peer_env_def unique_file_name_def)
  have "\<exists>V' ack. run_step peer_recv_ctx V ''r'' (Some (downloader (store_http ref_ext 20) (sw_relay W3))) 7 False = (V', Inr (result ''r'' AVAILABLE ack))
      \<and> w_files V' = w_files V @ [(snd path, [104, 105])] \<and> state_of (w_db V') ''r'' = Some AVAILABLE
      \<and> control_already_enqueued (w_db V') ''r'' EVENT_ACK_DOWNLOADED_SENT"
    using r rrow prov hp tm path
    by (intro transfer_delivers [OF ref_ext_contracts(1,4,5) ref_ext_overhead ref_ext_contracts(2) _ _ _ peer_simps(1) r(2) _ r(4) _ _ _ _ hp r(3) _ _ _ r(5-7)
          peer_simps(2) rrow(1-3) prov peer_simps(5) rrow(5) tm path])
      (simp_all add: sample_store_def default_limits_def peer_recipient_def peer_ids_def uint64_def)
  then show ?thesis
    using rrow by (intro exI [of _ W3] exI [of _ V] exI [of _ rrow] exI [of _ path]) auto
qed

text \<open>A session whose only chunk is stored and whose manifest is not.\<close>

lemma half_uploaded:
  "\<exists>S uid tok q. store_staged ref_ext 10 20 (replicate 32 5) S uid tok q [[104, 105] @ replicate 16 0] None
     \<and> request_for ref_ext q (replicate 16 1) [[104, 105] @ replicate 16 0] [7]"
proof -
  let ?ct = "[104, 105] @ replicate 16 0 :: bytes"
  define q where "q = \<lparr>uq_transfer_id = replicate 16 1, uq_total_size = 18, uq_ciphertext_sha256 = sha256 ref_ext ?ct, uq_manifest_size = 1,
    uq_manifest_sha256 = sha256 ref_ext [7], uq_chunks = [declared ref_ext ?ct], uq_receipt_hashes = [replicate 32 3],
    uq_hard_ttl_seconds = None, uq_download_grace_seconds = None\<rparr>"
  have "store_accepts ref_ext ''tok'' 10 20 (replicate 32 5) sample_store q"
    by (simp add: store_accepts_def relay_signs_def check_upload_access_token_def sample_store_def store_create_upload_def default_limits_def
        clamp_def total_committed_bytes_def Let_def new_transfer_def q_def declared_def)
  then obtain S and session :: upload_session where "store_staged ref_ext 10 20 (replicate 32 5) S (us_upload_id session) (us_upload_token session) q [] None"
    using store_staged_create by blast
  then obtain S' where "store_staged ref_ext 10 20 (replicate 32 5) S' (us_upload_id session) (us_upload_token session) q ([] @ [?ct]) None"
    using store_staged_chunk [where c = ?ct and cs = "[]"] by (fastforce simp: q_def)
  moreover have "request_for ref_ext q (replicate 16 1) [?ct] [7]"
    by (simp add: request_for_def q_def)
  ultimately show ?thesis by auto
qed

theorem interrupted_upload_completes_witness:
  "\<exists>(W :: relay_store send_world) W' cts. state_of (sw_db W) ''a'' = Some UPLOADING
     \<and> sender_run_step sample_send_ctx None (Some peer_relay) None True W ''a'' 6 = (W', Inr READY_TO_SEND)
     \<and> store_serves ref_ext 20 (replicate 32 5) (sw_relay W') (replicate 16 1) cts [7]"
proof -
  let ?ct = "[104, 105] @ replicate 16 0 :: bytes"
  obtain S uid tok q where s: "store_staged ref_ext 10 20 (replicate 32 5) S uid tok q (take 1 [?ct]) None"
    and q: "request_for ref_ext q (replicate 16 1) [?ct] [7]"
    using half_uploaded by auto
  define row where "row = sample_row\<lparr>a_state := UPLOADING, a_plain_size := Some 2\<rparr>"
  define st where "st = sample_upload_state\<lparr>ss_upload_id := Some uid, ss_upload_token := Some tok\<rparr>"
  define W where "W = \<lparr>sw_db = empty_db\<lparr>db_attachments := [row], db_sender_state := [st]\<rparr>, sw_relay = S, sw_radio = []\<rparr>"
  have row: "find_attachment (sw_db W) ''a'' = Some row" "a_state row = UPLOADING" "sc_X sample_send_ctx = ref_ext"
    "fromhex (a_transfer_id row) = Some (replicate 16 1)" "get_sender_state (sw_db W) ''a'' = Some st" "ss_upload_id st = Some uid" "ss_upload_token st = Some tok"
    "a_plain_size row = Some 2" "Option.bind (a_saved_path row) (sc_content sample_send_ctx) = Some [104, 105]"
    by (simp_all add: W_def row_def st_def sample_row_def new_sent_def sample_args_def find_attachment_def get_sender_state_def sample_upload_state_def
        sample_send_ctx_def)
  have ct: "encrypt_chunks ref_ext (ss_data_key st) (ss_nonce_prefix st) (replicate 16 1) 2 [104, 105] = Inr [?ct]" and blob: "ss_manifest_blob st = [7]"
    using peer_chunks [of "ss_data_key st" "ss_nonce_prefix st" "replicate 16 1"] by (simp_all add: st_def sample_upload_state_def)
  have "resumable [?ct] (ss_manifest_blob st) 1 None"
    by (simp add: resumable_def)
  then have "\<exists>W'. sender_run_step sample_send_ctx None (Some peer_relay) None True W ''a'' 6 = (W', Inr READY_TO_SEND)
      \<and> store_serves ref_ext 20 (replicate 32 5) (sw_relay W') (replicate 16 1) [?ct] (ss_manifest_blob st)"
    using interrupted_upload_completes [OF row(1-8) _ row(9) ct _ _, of q 1 None 10 20 "replicate 32 5"] q blob s by (simp add: W_def)
  then show ?thesis
    using row(1,2) blob by (auto simp: state_of_def)
qed

end
