(* ===== verification/Radio_Wire.thy ===== *)
theory Radio_Wire
  imports Py_Convert Py_Text
begin

text \<open>
  The values that cross the boundary between the core and the radio adapter process,
  \<open>src/meshsrv/ipc_protocol.py\<close>, with the models of \<open>src/meshsrv/radio_transport.py\<close> they carry: the functions that
  turn a model into a JSON object and back, the received events with the checks of their constructors, and the
  batch of events, in which a malformed event is counted and skipped.

  A JSON value is a \<open>wire\<close>. A Python float is \<open>NaN\<close>, an infinity or a rational number (\<open>-0.0\<close> is \<open>0.0\<close>); \<open>float(i)\<close> of an
  integer rounds to 53 significant bits and raises \<open>OverflowError\<close> from \<open>2 ^ 1024\<close> on. Fields the data classes do not
  check hold whatever value arrived.
\<close>

section \<open>Values\<close>

datatype pyfloat = FNum rat | FInf | FNegInf | FNaN

datatype wire =
    WNone
  | WBool bool
  | WInt int
  | WFloat pyfloat
  | WStr string
  | WList "wire list"
  | WObj "(string \<times> wire) list"

type_synonym wire_object = "(string \<times> wire) list"

datatype wire_exn = WKeyError | WTypeError | WValueError | WOverflowError | WAttributeError

text \<open>\<open>data.get(key)\<close>, and \<open>data[key]\<close> for the keys a constructor call reads.\<close>

definition obj_get :: "wire_object \<Rightarrow> string \<Rightarrow> wire" where
  "obj_get data k = (case map_of data k of None \<Rightarrow> WNone | Some v \<Rightarrow> v)"

definition obj_get_or :: "wire \<Rightarrow> wire_object \<Rightarrow> string \<Rightarrow> wire" where
  "obj_get_or dflt data k = (case map_of data k of None \<Rightarrow> dflt | Some v \<Rightarrow> v)"

definition required :: "wire_object \<Rightarrow> string list \<Rightarrow> wire_exn + unit" where
  "required data ks = (if list_all (\<lambda>k. map_of data k \<noteq> None) ks then Inr () else Inl WKeyError)"

definition wire_opt :: "('a \<Rightarrow> wire) \<Rightarrow> 'a option \<Rightarrow> wire" where
  "wire_opt f x = (case x of None \<Rightarrow> WNone | Some v \<Rightarrow> f v)"

text \<open>Truth of a value, as \<open>bool(v)\<close> and \<open>v or w\<close> see it.\<close>

fun truthy :: "wire \<Rightarrow> bool" where
  "truthy WNone = False"
| "truthy (WBool b) = b"
| "truthy (WInt i) = (i \<noteq> 0)"
| "truthy (WFloat f) = (f \<noteq> FNum 0)"
| "truthy (WStr s) = (s \<noteq> [])"
| "truthy (WList vs) = (vs \<noteq> [])"
| "truthy (WObj d) = (d \<noteq> [])"

text \<open>\<open>float(i)\<close> for an integer: round to nearest with 53 significant bits, ties to even.\<close>

fun bit_length :: "nat \<Rightarrow> nat" where
  "bit_length n = (if n = 0 then 0 else Suc (bit_length (n div 2)))"

declare bit_length.simps [simp del]

definition round_half_even :: "nat \<Rightarrow> nat \<Rightarrow> nat" where
  "round_half_even n d =
     (let q = n div d; r = n mod d in if 2 * r < d \<or> (2 * r = d \<and> even q) then q else q + 1)"

definition double_of_nat :: "nat \<Rightarrow> nat option" where
  "double_of_nat n =
     (let s = bit_length n - 53; m = round_half_even n (2 ^ s) * 2 ^ s
      in if m < 2 ^ 1024 then Some m else None)"

definition float_of_int :: "int \<Rightarrow> wire_exn + pyfloat" where
  "float_of_int i =
     (case double_of_nat (nat \<bar>i\<bar>) of
        None \<Rightarrow> Inl WOverflowError
      | Some m \<Rightarrow> Inr (FNum (of_int (sgn i * int m))))"

text \<open>
  \<open>str(v)\<close>, \<open>int(v)\<close> and \<open>float(v)\<close> on arbitrary values. \<open>repr_text\<close> is the text \<open>str\<close> gives a value that is not a
  string and \<open>float_of_text\<close> the number a string denotes; both belong to the interpreter.
\<close>

record interp =
  repr_text :: "wire \<Rightarrow> string"
  float_of_text :: "string \<Rightarrow> pyfloat option"

definition wire_str :: "interp \<Rightarrow> wire \<Rightarrow> string" where
  "wire_str R v = (case v of WStr s \<Rightarrow> s | _ \<Rightarrow> repr_text R v)"

definition wire_int :: "wire \<Rightarrow> wire_exn + int" where
  "wire_int v =
     (case v of
        WInt i \<Rightarrow> Inr i
      | WBool b \<Rightarrow> Inr (if b then 1 else 0)
      | WFloat (FNum q) \<Rightarrow> Inr (rat_trunc q)
      | WFloat FNaN \<Rightarrow> Inl WValueError
      | WFloat _ \<Rightarrow> Inl WOverflowError
      | WStr s \<Rightarrow> (case int_of_text s of Inl _ \<Rightarrow> Inl WValueError | Inr i \<Rightarrow> Inr i)
      | _ \<Rightarrow> Inl WTypeError)"

definition wire_float :: "interp \<Rightarrow> wire \<Rightarrow> wire_exn + pyfloat" where
  "wire_float R v =
     (case v of
        WFloat f \<Rightarrow> Inr f
      | WInt i \<Rightarrow> float_of_int i
      | WBool b \<Rightarrow> Inr (FNum (if b then 1 else 0))
      | WStr s \<Rightarrow> (case float_of_text R s of None \<Rightarrow> Inl WValueError | Some f \<Rightarrow> Inr f)
      | _ \<Rightarrow> Inl WTypeError)"

section \<open>Requests, results and errors\<close>

datatype conn_type = CT_SERIAL | CT_BLUETOOTH | CT_TCP
datatype conn_state = CN_DISCONNECTED | CN_CONNECTING | CN_CONNECTED | CN_ERROR

datatype error_code =
    NOT_CONNECTED | CONNECT_FAILED | IDENTITY_MISMATCH | TIMEOUT | BUSY | DEVICE_NOT_FOUND | PAYLOAD_TOO_LARGE
  | UNSUPPORTED | UNKNOWN | ADAPTER_UNAVAILABLE | ADAPTER_PROTOCOL_ERROR | PORT_CHECK_INCONCLUSIVE | DNS_ERROR
  | CONNECT_REFUSED | CONNECT_TIMEOUT | TCP_CONNECTED | PROTOCOL_SYNC_TIMEOUT | REMOTE_DISCONNECT | TCP_RADIO_BUSY

text \<open>The \<open>.value\<close> of the enumerations, and \<open>Enum(value)\<close> as a lookup in the members.\<close>

fun conn_type_value :: "conn_type \<Rightarrow> string" where
  "conn_type_value CT_SERIAL = ''serial''"
| "conn_type_value CT_BLUETOOTH = ''bluetooth''"
| "conn_type_value CT_TCP = ''tcp''"

fun conn_state_value :: "conn_state \<Rightarrow> string" where
  "conn_state_value CN_DISCONNECTED = ''disconnected''"
| "conn_state_value CN_CONNECTING = ''connecting''"
| "conn_state_value CN_CONNECTED = ''connected''"
| "conn_state_value CN_ERROR = ''error''"

fun error_code_value :: "error_code \<Rightarrow> string" where
  "error_code_value NOT_CONNECTED = ''not_connected''"
| "error_code_value CONNECT_FAILED = ''connect_failed''"
| "error_code_value IDENTITY_MISMATCH = ''identity_mismatch''"
| "error_code_value TIMEOUT = ''timeout''"
| "error_code_value BUSY = ''busy''"
| "error_code_value DEVICE_NOT_FOUND = ''device_not_found''"
| "error_code_value PAYLOAD_TOO_LARGE = ''payload_too_large''"
| "error_code_value UNSUPPORTED = ''unsupported''"
| "error_code_value UNKNOWN = ''unknown''"
| "error_code_value ADAPTER_UNAVAILABLE = ''adapter_unavailable''"
| "error_code_value ADAPTER_PROTOCOL_ERROR = ''adapter_protocol_error''"
| "error_code_value PORT_CHECK_INCONCLUSIVE = ''port_check_inconclusive''"
| "error_code_value DNS_ERROR = ''dns_error''"
| "error_code_value CONNECT_REFUSED = ''connect_refused''"
| "error_code_value CONNECT_TIMEOUT = ''connect_timeout''"
| "error_code_value TCP_CONNECTED = ''tcp_connected''"
| "error_code_value PROTOCOL_SYNC_TIMEOUT = ''protocol_sync_timeout''"
| "error_code_value REMOTE_DISCONNECT = ''remote_disconnect''"
| "error_code_value TCP_RADIO_BUSY = ''tcp_radio_busy''"

definition enum_of :: "('a \<Rightarrow> string) \<Rightarrow> 'a list \<Rightarrow> wire \<Rightarrow> 'a option" where
  "enum_of val members v = List.find (\<lambda>m. v = WStr (val m)) members"

definition conn_types :: "conn_type list" where "conn_types = [CT_SERIAL, CT_BLUETOOTH, CT_TCP]"
definition conn_states :: "conn_state list" where
  "conn_states = [CN_DISCONNECTED, CN_CONNECTING, CN_CONNECTED, CN_ERROR]"
definition error_codes :: "error_code list" where
  "error_codes =
     [NOT_CONNECTED, CONNECT_FAILED, IDENTITY_MISMATCH, TIMEOUT, BUSY, DEVICE_NOT_FOUND, PAYLOAD_TOO_LARGE,
      UNSUPPORTED, UNKNOWN, ADAPTER_UNAVAILABLE, ADAPTER_PROTOCOL_ERROR, PORT_CHECK_INCONCLUSIVE, DNS_ERROR,
      CONNECT_REFUSED, CONNECT_TIMEOUT, TCP_CONNECTED, PROTOCOL_SYNC_TIMEOUT, REMOTE_DISCONNECT, TCP_RADIO_BUSY]"

record transport_error =
  tr_code :: error_code
  tr_message :: string

record connection_descriptor =
  cd_type :: conn_type
  cd_address :: string
  cd_label :: string

record connection_info =
  ci_state :: conn_state
  ci_descriptor :: "connection_descriptor option"
  ci_node_id :: wire
  ci_connected_since :: wire
  ci_last_error :: "transport_error option"

record radio_message =
  rm_text :: string
  rm_destination_id :: string
  rm_channel_index :: int
  rm_want_ack :: bool
  rm_reply_id :: wire

record send_result =
  sr_accepted :: bool
  sr_packet_id :: wire
  sr_error :: "transport_error option"
  sr_ack_state :: wire
  sr_ack_error :: wire

record checked_send_result =
  cs_result :: send_result
  cs_channel_name :: string

record outgoing_waypoint =
  ow_name :: string
  ow_description :: string
  ow_latitude :: pyfloat
  ow_longitude :: pyfloat
  ow_expire_at :: int
  ow_icon :: int
  ow_waypoint_id :: wire
  ow_channel_index :: int
  ow_post_notification :: bool
  ow_notification_text :: string

record waypoint_result =
  wr_waypoint_id :: int
  wr_waypoint_packet_id :: wire
  wr_notification_packet_id :: wire

record node_user =
  nu_id :: string
  nu_long_name :: string
  nu_short_name :: string
  nu_hw_model :: string
  nu_is_licensed :: bool

record channel_info =
  ch_index :: int
  ch_name :: string
  ch_role :: string

definition error_to_dict :: "transport_error \<Rightarrow> wire" where
  "error_to_dict e = WObj [(''code'', WStr (error_code_value (tr_code e))), (''message'', WStr (tr_message e))]"

text \<open>An argument that is neither \<open>None\<close> nor a dict has no \<open>get\<close>: \<open>AttributeError\<close>.\<close>

definition error_from_dict :: "interp \<Rightarrow> wire \<Rightarrow> wire_exn + transport_error option" where
  "error_from_dict R data =
     (case data of
        WNone \<Rightarrow> Inr None
      | WObj d \<Rightarrow> Inr (Some
          \<lparr>tr_code = (case enum_of error_code_value error_codes (obj_get d ''code'') of None \<Rightarrow> UNKNOWN | Some c \<Rightarrow> c),
           tr_message = wire_str R (obj_get_or (WStr []) d ''message'')\<rparr>)
      | _ \<Rightarrow> Inl WAttributeError)"

definition descriptor_to_dict :: "connection_descriptor option \<Rightarrow> wire" where
  "descriptor_to_dict x =
     (case x of
        None \<Rightarrow> WNone
      | Some c \<Rightarrow> WObj [(''type'', WStr (conn_type_value (cd_type c))), (''address'', WStr (cd_address c)),
                        (''label'', WStr (cd_label c))])"

definition descriptor_from_dict :: "interp \<Rightarrow> wire \<Rightarrow> wire_exn + connection_descriptor option" where
  "descriptor_from_dict R data =
     (case data of
        WNone \<Rightarrow> Inr None
      | WObj d \<Rightarrow>
          (case enum_of conn_type_value conn_types (obj_get d ''type'') of
             None \<Rightarrow> Inl WValueError
           | Some t \<Rightarrow> Inr (Some \<lparr>cd_type = t, cd_address = wire_str R (obj_get_or (WStr []) d ''address''),
                                  cd_label = wire_str R (obj_get_or (WStr []) d ''label'')\<rparr>))
      | _ \<Rightarrow> Inl WAttributeError)"

definition connection_info_to_dict :: "connection_info \<Rightarrow> wire_object" where
  "connection_info_to_dict info =
     [(''state'', WStr (conn_state_value (ci_state info))),
      (''descriptor'', descriptor_to_dict (ci_descriptor info)),
      (''node_id'', ci_node_id info),
      (''connected_since'', ci_connected_since info),
      (''last_error'', wire_opt error_to_dict (ci_last_error info))]"

definition connection_info_from_dict :: "interp \<Rightarrow> wire_object \<Rightarrow> wire_exn + connection_info" where
  "connection_info_from_dict R data =
     (case enum_of conn_state_value conn_states (obj_get data ''state'') of
        None \<Rightarrow> Inl WValueError
      | Some st \<Rightarrow>
          bind_res (descriptor_from_dict R (obj_get data ''descriptor'')) (\<lambda>descriptor.
          bind_res (error_from_dict R (obj_get data ''last_error'')) (\<lambda>err.
          Inr \<lparr>ci_state = st, ci_descriptor = descriptor, ci_node_id = obj_get data ''node_id'',
               ci_connected_since = obj_get data ''connected_since'', ci_last_error = err\<rparr>)))"

definition outgoing_message_to_dict :: "radio_message \<Rightarrow> wire_object" where
  "outgoing_message_to_dict m =
     [(''text'', WStr (rm_text m)), (''destination_id'', WStr (rm_destination_id m)),
      (''channel_index'', WInt (rm_channel_index m)), (''want_ack'', WBool (rm_want_ack m)), (''reply_id'', rm_reply_id m)]"

definition outgoing_message_from_dict :: "interp \<Rightarrow> wire_object \<Rightarrow> wire_exn + radio_message" where
  "outgoing_message_from_dict R data =
     bind_res (wire_int (obj_get_or (WInt 0) data ''channel_index'')) (\<lambda>channel_index.
     Inr \<lparr>rm_text = wire_str R (obj_get_or (WStr []) data ''text''),
          rm_destination_id = wire_str R (obj_get_or (WStr []) data ''destination_id''),
          rm_channel_index = channel_index, rm_want_ack = truthy (obj_get_or (WBool False) data ''want_ack''),
          rm_reply_id = obj_get data ''reply_id''\<rparr>)"

definition send_result_to_dict :: "send_result \<Rightarrow> wire_object" where
  "send_result_to_dict r =
     [(''accepted'', WBool (sr_accepted r)), (''packet_id'', sr_packet_id r),
      (''error'', wire_opt error_to_dict (sr_error r)), (''ack_state'', sr_ack_state r), (''ack_error'', sr_ack_error r)]"

definition send_result_from_dict :: "interp \<Rightarrow> wire_object \<Rightarrow> wire_exn + send_result" where
  "send_result_from_dict R data =
     bind_res (error_from_dict R (obj_get data ''error'')) (\<lambda>err.
     Inr \<lparr>sr_accepted = truthy (obj_get_or (WBool False) data ''accepted''), sr_packet_id = obj_get data ''packet_id'',
          sr_error = err, sr_ack_state = obj_get data ''ack_state'', sr_ack_error = obj_get data ''ack_error''\<rparr>)"

definition checked_send_result_to_dict :: "checked_send_result \<Rightarrow> wire_object" where
  "checked_send_result_to_dict r =
     [(''accepted'', WBool (sr_accepted (cs_result r))), (''packet_id'', sr_packet_id (cs_result r)),
      (''error'', wire_opt error_to_dict (sr_error (cs_result r))), (''channel_name'', WStr (cs_channel_name r))]"

definition checked_send_result_from_dict :: "interp \<Rightarrow> wire_object \<Rightarrow> wire_exn + checked_send_result" where
  "checked_send_result_from_dict R data =
     bind_res (error_from_dict R (obj_get data ''error'')) (\<lambda>err.
     Inr \<lparr>cs_result = \<lparr>sr_accepted = truthy (obj_get_or (WBool False) data ''accepted''),
                       sr_packet_id = obj_get data ''packet_id'', sr_error = err, sr_ack_state = WNone, sr_ack_error = WNone\<rparr>,
          cs_channel_name = wire_str R (obj_get_or (WStr []) data ''channel_name'')\<rparr>)"

definition outgoing_waypoint_to_dict :: "outgoing_waypoint \<Rightarrow> wire_object" where
  "outgoing_waypoint_to_dict w =
     [(''name'', WStr (ow_name w)), (''description'', WStr (ow_description w)),
      (''latitude'', WFloat (ow_latitude w)), (''longitude'', WFloat (ow_longitude w)),
      (''expire_at'', WInt (ow_expire_at w)), (''icon'', WInt (ow_icon w)), (''waypoint_id'', ow_waypoint_id w),
      (''channel_index'', WInt (ow_channel_index w)), (''post_notification'', WBool (ow_post_notification w)),
      (''notification_text'', WStr (ow_notification_text w))]"

definition outgoing_waypoint_from_dict :: "interp \<Rightarrow> wire_object \<Rightarrow> wire_exn + outgoing_waypoint" where
  "outgoing_waypoint_from_dict R data =
     bind_res (wire_float R (obj_get_or (WFloat (FNum 0)) data ''latitude'')) (\<lambda>latitude.
     bind_res (wire_float R (obj_get_or (WFloat (FNum 0)) data ''longitude'')) (\<lambda>longitude.
     bind_res (wire_int (obj_get_or (WInt 0) data ''expire_at'')) (\<lambda>expire_at.
     bind_res (wire_int (obj_get_or (WInt 128205) data ''icon'')) (\<lambda>icon.
     bind_res (wire_int (obj_get_or (WInt 0) data ''channel_index'')) (\<lambda>channel_index.
     Inr \<lparr>ow_name = wire_str R (obj_get_or (WStr []) data ''name''),
          ow_description = wire_str R (obj_get_or (WStr []) data ''description''),
          ow_latitude = latitude, ow_longitude = longitude, ow_expire_at = expire_at, ow_icon = icon,
          ow_waypoint_id = obj_get data ''waypoint_id'', ow_channel_index = channel_index,
          ow_post_notification = truthy (obj_get_or (WBool True) data ''post_notification''),
          ow_notification_text = wire_str R (obj_get_or (WStr []) data ''notification_text'')\<rparr>)))))"

definition waypoint_result_to_dict :: "waypoint_result \<Rightarrow> wire_object" where
  "waypoint_result_to_dict r =
     [(''waypoint_id'', WInt (wr_waypoint_id r)), (''waypoint_packet_id'', wr_waypoint_packet_id r),
      (''notification_packet_id'', wr_notification_packet_id r)]"

definition waypoint_result_from_dict :: "wire_object \<Rightarrow> wire_exn + waypoint_result" where
  "waypoint_result_from_dict data =
     bind_res (wire_int (obj_get_or (WInt 0) data ''waypoint_id'')) (\<lambda>waypoint_id.
     Inr \<lparr>wr_waypoint_id = waypoint_id, wr_waypoint_packet_id = obj_get data ''waypoint_packet_id'',
          wr_notification_packet_id = obj_get data ''notification_packet_id''\<rparr>)"

definition node_user_to_dict :: "node_user option \<Rightarrow> wire" where
  "node_user_to_dict x =
     (case x of
        None \<Rightarrow> WNone
      | Some u \<Rightarrow> WObj [(''id'', WStr (nu_id u)), (''long_name'', WStr (nu_long_name u)),
                        (''short_name'', WStr (nu_short_name u)), (''hw_model'', WStr (nu_hw_model u)),
                        (''is_licensed'', WBool (nu_is_licensed u))])"

definition node_user_from_dict :: "interp \<Rightarrow> wire \<Rightarrow> wire_exn + node_user option" where
  "node_user_from_dict R data =
     (case data of
        WNone \<Rightarrow> Inr None
      | WObj d \<Rightarrow> Inr (Some
          \<lparr>nu_id = wire_str R (obj_get_or (WStr []) d ''id''),
           nu_long_name = wire_str R (obj_get_or (WStr []) d ''long_name''),
           nu_short_name = wire_str R (obj_get_or (WStr []) d ''short_name''),
           nu_hw_model = wire_str R (obj_get_or (WStr []) d ''hw_model''),
           nu_is_licensed = truthy (obj_get_or (WBool False) d ''is_licensed'')\<rparr>)
      | _ \<Rightarrow> Inl WAttributeError)"

definition channel_info_to_dict :: "channel_info \<Rightarrow> wire_object" where
  "channel_info_to_dict c = [(''index'', WInt (ch_index c)), (''name'', WStr (ch_name c)), (''role'', WStr (ch_role c))]"

definition channel_info_from_dict :: "interp \<Rightarrow> wire_object \<Rightarrow> wire_exn + channel_info" where
  "channel_info_from_dict R data =
     bind_res (wire_int (obj_get_or (WInt 0) data ''index'')) (\<lambda>index.
     Inr \<lparr>ch_index = index, ch_name = wire_str R (obj_get_or (WStr []) data ''name''),
          ch_role = wire_str R (obj_get_or (WStr []) data ''role'')\<rparr>)"

section \<open>Received events\<close>

text \<open>The checks of the event constructors, on the exact type of the value (\<open>bool\<close> is not an \<open>int\<close> here).\<close>

definition field_str :: "wire \<Rightarrow> wire_exn + string" where
  "field_str v = (case v of WStr s \<Rightarrow> Inr s | _ \<Rightarrow> Inl WTypeError)"

definition field_nonempty_str :: "wire \<Rightarrow> wire_exn + string" where
  "field_nonempty_str v = bind_res (field_str v) (\<lambda>s. if s = [] then Inl WValueError else Inr s)"

definition field_int :: "wire \<Rightarrow> wire_exn + int" where
  "field_int v = (case v of WInt i \<Rightarrow> Inr i | _ \<Rightarrow> Inl WTypeError)"

definition field_float :: "wire \<Rightarrow> wire_exn + pyfloat" where
  "field_float v = (case v of WInt i \<Rightarrow> float_of_int i | WFloat f \<Rightarrow> Inr f | _ \<Rightarrow> Inl WTypeError)"

definition field_bool :: "wire \<Rightarrow> wire_exn + bool" where
  "field_bool v = (case v of WBool b \<Rightarrow> Inr b | _ \<Rightarrow> Inl WTypeError)"

definition field_optional :: "(wire \<Rightarrow> wire_exn + 'a) \<Rightarrow> wire \<Rightarrow> wire_exn + 'a option" where
  "field_optional f v = (if v = WNone then Inr None else bind_res (f v) (\<lambda>x. Inr (Some x)))"

fun is_number :: "wire \<Rightarrow> bool" where
  "is_number (WInt i) = True"
| "is_number (WFloat f) = True"
| "is_number _ = False"

definition field_metrics :: "wire \<Rightarrow> wire_exn + wire_object" where
  "field_metrics v =
     (case v of
        WObj d \<Rightarrow> if list_all (\<lambda>(k, m). is_number m) d then Inr d else Inl WTypeError
      | _ \<Rightarrow> Inl WTypeError)"

definition TELEMETRY_KINDS :: "string list" where "TELEMETRY_KINDS = [''device'', ''environment'', ''power'']"

definition field_telemetry_kind :: "wire \<Rightarrow> wire_exn + string" where
  "field_telemetry_kind v =
     (case v of WStr s \<Rightarrow> if s \<in> set TELEMETRY_KINDS then Inr s else Inl WValueError | _ \<Rightarrow> Inl WValueError)"

subsection \<open>\<open>ReceivedTextEvent\<close>\<close>

record received_text =
  txt_from_node_id :: string
  txt_to_node_id :: string
  txt_text :: string
  txt_received_at :: pyfloat
  txt_local_radio_node_id :: string
  txt_packet_id :: "int option"
  txt_from_num :: "int option"
  txt_to_num :: "int option"
  txt_channel_index :: "int option"
  txt_reply_id :: "int option"
  txt_rx_time :: "int option"
  txt_rx_rssi :: "int option"
  txt_rx_snr :: "pyfloat option"
  txt_hop_limit :: "int option"
  txt_hop_start :: "int option"
  txt_relay_node :: "int option"

definition received_text_to_dict :: "received_text \<Rightarrow> wire" where
  "received_text_to_dict event = WObj
     [(''from_node_id'', WStr (txt_from_node_id event)),
      (''to_node_id'', WStr (txt_to_node_id event)),
      (''text'', WStr (txt_text event)),
      (''received_at'', WFloat (txt_received_at event)),
      (''local_radio_node_id'', WStr (txt_local_radio_node_id event)),
      (''packet_id'', wire_opt WInt (txt_packet_id event)),
      (''from_num'', wire_opt WInt (txt_from_num event)),
      (''to_num'', wire_opt WInt (txt_to_num event)),
      (''channel_index'', wire_opt WInt (txt_channel_index event)),
      (''reply_id'', wire_opt WInt (txt_reply_id event)),
      (''rx_time'', wire_opt WInt (txt_rx_time event)),
      (''rx_rssi'', wire_opt WInt (txt_rx_rssi event)),
      (''rx_snr'', wire_opt WFloat (txt_rx_snr event)),
      (''hop_limit'', wire_opt WInt (txt_hop_limit event)),
      (''hop_start'', wire_opt WInt (txt_hop_start event)),
      (''relay_node'', wire_opt WInt (txt_relay_node event))]"

definition received_text_from_dict :: "wire_object \<Rightarrow> wire_exn + received_text" where
  "received_text_from_dict data =
     bind_res (required data [''from_node_id'', ''to_node_id'', ''text'', ''received_at'', ''local_radio_node_id'']) (\<lambda>_.
     bind_res (field_str (obj_get data ''from_node_id'')) (\<lambda>v_from_node_id.
     bind_res (field_str (obj_get data ''to_node_id'')) (\<lambda>v_to_node_id.
     bind_res (field_str (obj_get data ''text'')) (\<lambda>v_text.
     bind_res (field_float (obj_get data ''received_at'')) (\<lambda>v_received_at.
     bind_res (field_nonempty_str (obj_get data ''local_radio_node_id'')) (\<lambda>v_local_radio_node_id.
     bind_res (field_optional field_int (obj_get data ''packet_id'')) (\<lambda>v_packet_id.
     bind_res (field_optional field_int (obj_get data ''from_num'')) (\<lambda>v_from_num.
     bind_res (field_optional field_int (obj_get data ''to_num'')) (\<lambda>v_to_num.
     bind_res (field_optional field_int (obj_get data ''channel_index'')) (\<lambda>v_channel_index.
     bind_res (field_optional field_int (obj_get data ''reply_id'')) (\<lambda>v_reply_id.
     bind_res (field_optional field_int (obj_get data ''rx_time'')) (\<lambda>v_rx_time.
     bind_res (field_optional field_int (obj_get data ''rx_rssi'')) (\<lambda>v_rx_rssi.
     bind_res (field_optional field_int (obj_get data ''hop_limit'')) (\<lambda>v_hop_limit.
     bind_res (field_optional field_int (obj_get data ''hop_start'')) (\<lambda>v_hop_start.
     bind_res (field_optional field_int (obj_get data ''relay_node'')) (\<lambda>v_relay_node.
     bind_res (field_optional field_float (obj_get data ''rx_snr'')) (\<lambda>v_rx_snr.
     Inr \<lparr>txt_from_node_id = v_from_node_id,
          txt_to_node_id = v_to_node_id,
          txt_text = v_text,
          txt_received_at = v_received_at,
          txt_local_radio_node_id = v_local_radio_node_id,
          txt_packet_id = v_packet_id,
          txt_from_num = v_from_num,
          txt_to_num = v_to_num,
          txt_channel_index = v_channel_index,
          txt_reply_id = v_reply_id,
          txt_rx_time = v_rx_time,
          txt_rx_rssi = v_rx_rssi,
          txt_rx_snr = v_rx_snr,
          txt_hop_limit = v_hop_limit,
          txt_hop_start = v_hop_start,
          txt_relay_node = v_relay_node\<rparr>)))))))))))))))))"

subsection \<open>\<open>ReceivedWaypointEvent\<close>\<close>

record received_waypoint =
  wpt_waypoint_id :: int
  wpt_sender_id :: string
  wpt_name :: string
  wpt_description :: string
  wpt_received_at :: pyfloat
  wpt_local_radio_node_id :: string
  wpt_packet_id :: "int option"
  wpt_latitude :: "pyfloat option"
  wpt_longitude :: "pyfloat option"
  wpt_icon :: "int option"
  wpt_expire_at :: "int option"
  wpt_channel_index :: "int option"

definition received_waypoint_to_dict :: "received_waypoint \<Rightarrow> wire" where
  "received_waypoint_to_dict event = WObj
     [(''waypoint_id'', WInt (wpt_waypoint_id event)),
      (''sender_id'', WStr (wpt_sender_id event)),
      (''name'', WStr (wpt_name event)),
      (''description'', WStr (wpt_description event)),
      (''received_at'', WFloat (wpt_received_at event)),
      (''local_radio_node_id'', WStr (wpt_local_radio_node_id event)),
      (''packet_id'', wire_opt WInt (wpt_packet_id event)),
      (''latitude'', wire_opt WFloat (wpt_latitude event)),
      (''longitude'', wire_opt WFloat (wpt_longitude event)),
      (''icon'', wire_opt WInt (wpt_icon event)),
      (''expire_at'', wire_opt WInt (wpt_expire_at event)),
      (''channel_index'', wire_opt WInt (wpt_channel_index event))]"

definition received_waypoint_from_dict :: "wire_object \<Rightarrow> wire_exn + received_waypoint" where
  "received_waypoint_from_dict data =
     bind_res (required data [''waypoint_id'', ''sender_id'', ''name'', ''description'', ''received_at'', ''local_radio_node_id'']) (\<lambda>_.
     bind_res (field_int (obj_get data ''waypoint_id'')) (\<lambda>v_waypoint_id.
     bind_res (field_str (obj_get data ''sender_id'')) (\<lambda>v_sender_id.
     bind_res (field_str (obj_get data ''name'')) (\<lambda>v_name.
     bind_res (field_str (obj_get data ''description'')) (\<lambda>v_description.
     bind_res (field_float (obj_get data ''received_at'')) (\<lambda>v_received_at.
     bind_res (field_nonempty_str (obj_get data ''local_radio_node_id'')) (\<lambda>v_local_radio_node_id.
     bind_res (field_optional field_int (obj_get data ''packet_id'')) (\<lambda>v_packet_id.
     bind_res (field_optional field_int (obj_get data ''icon'')) (\<lambda>v_icon.
     bind_res (field_optional field_int (obj_get data ''expire_at'')) (\<lambda>v_expire_at.
     bind_res (field_optional field_int (obj_get data ''channel_index'')) (\<lambda>v_channel_index.
     bind_res (field_optional field_float (obj_get data ''latitude'')) (\<lambda>v_latitude.
     bind_res (field_optional field_float (obj_get data ''longitude'')) (\<lambda>v_longitude.
     Inr \<lparr>wpt_waypoint_id = v_waypoint_id,
          wpt_sender_id = v_sender_id,
          wpt_name = v_name,
          wpt_description = v_description,
          wpt_received_at = v_received_at,
          wpt_local_radio_node_id = v_local_radio_node_id,
          wpt_packet_id = v_packet_id,
          wpt_latitude = v_latitude,
          wpt_longitude = v_longitude,
          wpt_icon = v_icon,
          wpt_expire_at = v_expire_at,
          wpt_channel_index = v_channel_index\<rparr>)))))))))))))"

subsection \<open>\<open>ReceivedNodeInfoEvent\<close>\<close>

record received_nodeinfo =
  nod_node_id :: string
  nod_sender_id :: string
  nod_received_at :: pyfloat
  nod_local_radio_node_id :: string
  nod_packet_id :: "int option"
  nod_long_name :: "string option"
  nod_short_name :: "string option"
  nod_hw_model :: "string option"
  nod_role :: "string option"
  nod_is_licensed :: "bool option"
  nod_channel_index :: "int option"
  nod_rx_time :: "int option"
  nod_rx_rssi :: "int option"
  nod_rx_snr :: "pyfloat option"
  nod_hop_limit :: "int option"
  nod_hop_start :: "int option"
  nod_relay_node :: "int option"

definition received_nodeinfo_to_dict :: "received_nodeinfo \<Rightarrow> wire" where
  "received_nodeinfo_to_dict event = WObj
     [(''node_id'', WStr (nod_node_id event)),
      (''sender_id'', WStr (nod_sender_id event)),
      (''received_at'', WFloat (nod_received_at event)),
      (''local_radio_node_id'', WStr (nod_local_radio_node_id event)),
      (''packet_id'', wire_opt WInt (nod_packet_id event)),
      (''long_name'', wire_opt WStr (nod_long_name event)),
      (''short_name'', wire_opt WStr (nod_short_name event)),
      (''hw_model'', wire_opt WStr (nod_hw_model event)),
      (''role'', wire_opt WStr (nod_role event)),
      (''is_licensed'', wire_opt WBool (nod_is_licensed event)),
      (''channel_index'', wire_opt WInt (nod_channel_index event)),
      (''rx_time'', wire_opt WInt (nod_rx_time event)),
      (''rx_rssi'', wire_opt WInt (nod_rx_rssi event)),
      (''rx_snr'', wire_opt WFloat (nod_rx_snr event)),
      (''hop_limit'', wire_opt WInt (nod_hop_limit event)),
      (''hop_start'', wire_opt WInt (nod_hop_start event)),
      (''relay_node'', wire_opt WInt (nod_relay_node event))]"

definition received_nodeinfo_from_dict :: "wire_object \<Rightarrow> wire_exn + received_nodeinfo" where
  "received_nodeinfo_from_dict data =
     bind_res (required data [''node_id'', ''sender_id'', ''received_at'', ''local_radio_node_id'']) (\<lambda>_.
     bind_res (field_str (obj_get data ''node_id'')) (\<lambda>v_node_id.
     bind_res (field_str (obj_get data ''sender_id'')) (\<lambda>v_sender_id.
     bind_res (field_float (obj_get data ''received_at'')) (\<lambda>v_received_at.
     bind_res (field_nonempty_str (obj_get data ''local_radio_node_id'')) (\<lambda>v_local_radio_node_id.
     bind_res (field_optional field_str (obj_get data ''long_name'')) (\<lambda>v_long_name.
     bind_res (field_optional field_str (obj_get data ''short_name'')) (\<lambda>v_short_name.
     bind_res (field_optional field_str (obj_get data ''hw_model'')) (\<lambda>v_hw_model.
     bind_res (field_optional field_str (obj_get data ''role'')) (\<lambda>v_role.
     bind_res (field_optional field_bool (obj_get data ''is_licensed'')) (\<lambda>v_is_licensed.
     bind_res (field_optional field_int (obj_get data ''packet_id'')) (\<lambda>v_packet_id.
     bind_res (field_optional field_int (obj_get data ''channel_index'')) (\<lambda>v_channel_index.
     bind_res (field_optional field_int (obj_get data ''rx_time'')) (\<lambda>v_rx_time.
     bind_res (field_optional field_int (obj_get data ''rx_rssi'')) (\<lambda>v_rx_rssi.
     bind_res (field_optional field_int (obj_get data ''hop_limit'')) (\<lambda>v_hop_limit.
     bind_res (field_optional field_int (obj_get data ''hop_start'')) (\<lambda>v_hop_start.
     bind_res (field_optional field_int (obj_get data ''relay_node'')) (\<lambda>v_relay_node.
     bind_res (field_optional field_float (obj_get data ''rx_snr'')) (\<lambda>v_rx_snr.
     Inr \<lparr>nod_node_id = v_node_id,
          nod_sender_id = v_sender_id,
          nod_received_at = v_received_at,
          nod_local_radio_node_id = v_local_radio_node_id,
          nod_packet_id = v_packet_id,
          nod_long_name = v_long_name,
          nod_short_name = v_short_name,
          nod_hw_model = v_hw_model,
          nod_role = v_role,
          nod_is_licensed = v_is_licensed,
          nod_channel_index = v_channel_index,
          nod_rx_time = v_rx_time,
          nod_rx_rssi = v_rx_rssi,
          nod_rx_snr = v_rx_snr,
          nod_hop_limit = v_hop_limit,
          nod_hop_start = v_hop_start,
          nod_relay_node = v_relay_node\<rparr>))))))))))))))))))"

subsection \<open>\<open>ReceivedPositionEvent\<close>\<close>

record received_position =
  pos_sender_id :: string
  pos_received_at :: pyfloat
  pos_local_radio_node_id :: string
  pos_packet_id :: "int option"
  pos_latitude :: "pyfloat option"
  pos_longitude :: "pyfloat option"
  pos_altitude :: "int option"
  pos_ground_speed :: "int option"
  pos_sats_in_view :: "int option"
  pos_position_time :: "int option"
  pos_channel_index :: "int option"
  pos_rx_time :: "int option"
  pos_rx_rssi :: "int option"
  pos_rx_snr :: "pyfloat option"
  pos_hop_limit :: "int option"
  pos_hop_start :: "int option"
  pos_relay_node :: "int option"

definition received_position_to_dict :: "received_position \<Rightarrow> wire" where
  "received_position_to_dict event = WObj
     [(''sender_id'', WStr (pos_sender_id event)),
      (''received_at'', WFloat (pos_received_at event)),
      (''local_radio_node_id'', WStr (pos_local_radio_node_id event)),
      (''packet_id'', wire_opt WInt (pos_packet_id event)),
      (''latitude'', wire_opt WFloat (pos_latitude event)),
      (''longitude'', wire_opt WFloat (pos_longitude event)),
      (''altitude'', wire_opt WInt (pos_altitude event)),
      (''ground_speed'', wire_opt WInt (pos_ground_speed event)),
      (''sats_in_view'', wire_opt WInt (pos_sats_in_view event)),
      (''position_time'', wire_opt WInt (pos_position_time event)),
      (''channel_index'', wire_opt WInt (pos_channel_index event)),
      (''rx_time'', wire_opt WInt (pos_rx_time event)),
      (''rx_rssi'', wire_opt WInt (pos_rx_rssi event)),
      (''rx_snr'', wire_opt WFloat (pos_rx_snr event)),
      (''hop_limit'', wire_opt WInt (pos_hop_limit event)),
      (''hop_start'', wire_opt WInt (pos_hop_start event)),
      (''relay_node'', wire_opt WInt (pos_relay_node event))]"

definition received_position_from_dict :: "wire_object \<Rightarrow> wire_exn + received_position" where
  "received_position_from_dict data =
     bind_res (required data [''sender_id'', ''received_at'', ''local_radio_node_id'']) (\<lambda>_.
     bind_res (field_str (obj_get data ''sender_id'')) (\<lambda>v_sender_id.
     bind_res (field_float (obj_get data ''received_at'')) (\<lambda>v_received_at.
     bind_res (field_nonempty_str (obj_get data ''local_radio_node_id'')) (\<lambda>v_local_radio_node_id.
     bind_res (field_optional field_float (obj_get data ''latitude'')) (\<lambda>v_latitude.
     bind_res (field_optional field_float (obj_get data ''longitude'')) (\<lambda>v_longitude.
     bind_res (field_optional field_int (obj_get data ''packet_id'')) (\<lambda>v_packet_id.
     bind_res (field_optional field_int (obj_get data ''altitude'')) (\<lambda>v_altitude.
     bind_res (field_optional field_int (obj_get data ''ground_speed'')) (\<lambda>v_ground_speed.
     bind_res (field_optional field_int (obj_get data ''sats_in_view'')) (\<lambda>v_sats_in_view.
     bind_res (field_optional field_int (obj_get data ''position_time'')) (\<lambda>v_position_time.
     bind_res (field_optional field_int (obj_get data ''channel_index'')) (\<lambda>v_channel_index.
     bind_res (field_optional field_int (obj_get data ''rx_time'')) (\<lambda>v_rx_time.
     bind_res (field_optional field_int (obj_get data ''rx_rssi'')) (\<lambda>v_rx_rssi.
     bind_res (field_optional field_int (obj_get data ''hop_limit'')) (\<lambda>v_hop_limit.
     bind_res (field_optional field_int (obj_get data ''hop_start'')) (\<lambda>v_hop_start.
     bind_res (field_optional field_int (obj_get data ''relay_node'')) (\<lambda>v_relay_node.
     bind_res (field_optional field_float (obj_get data ''rx_snr'')) (\<lambda>v_rx_snr.
     Inr \<lparr>pos_sender_id = v_sender_id,
          pos_received_at = v_received_at,
          pos_local_radio_node_id = v_local_radio_node_id,
          pos_packet_id = v_packet_id,
          pos_latitude = v_latitude,
          pos_longitude = v_longitude,
          pos_altitude = v_altitude,
          pos_ground_speed = v_ground_speed,
          pos_sats_in_view = v_sats_in_view,
          pos_position_time = v_position_time,
          pos_channel_index = v_channel_index,
          pos_rx_time = v_rx_time,
          pos_rx_rssi = v_rx_rssi,
          pos_rx_snr = v_rx_snr,
          pos_hop_limit = v_hop_limit,
          pos_hop_start = v_hop_start,
          pos_relay_node = v_relay_node\<rparr>))))))))))))))))))"

subsection \<open>\<open>ReceivedTelemetryEvent\<close>\<close>

record received_telemetry =
  tel_sender_id :: string
  tel_kind :: string
  tel_metrics :: "(string \<times> wire) list"
  tel_received_at :: pyfloat
  tel_local_radio_node_id :: string
  tel_packet_id :: "int option"
  tel_telemetry_time :: "int option"
  tel_channel_index :: "int option"
  tel_rx_time :: "int option"
  tel_rx_rssi :: "int option"
  tel_rx_snr :: "pyfloat option"
  tel_hop_limit :: "int option"
  tel_hop_start :: "int option"
  tel_relay_node :: "int option"

definition received_telemetry_to_dict :: "received_telemetry \<Rightarrow> wire" where
  "received_telemetry_to_dict event = WObj
     [(''sender_id'', WStr (tel_sender_id event)),
      (''kind'', WStr (tel_kind event)),
      (''metrics'', WObj (tel_metrics event)),
      (''received_at'', WFloat (tel_received_at event)),
      (''local_radio_node_id'', WStr (tel_local_radio_node_id event)),
      (''packet_id'', wire_opt WInt (tel_packet_id event)),
      (''telemetry_time'', wire_opt WInt (tel_telemetry_time event)),
      (''channel_index'', wire_opt WInt (tel_channel_index event)),
      (''rx_time'', wire_opt WInt (tel_rx_time event)),
      (''rx_rssi'', wire_opt WInt (tel_rx_rssi event)),
      (''rx_snr'', wire_opt WFloat (tel_rx_snr event)),
      (''hop_limit'', wire_opt WInt (tel_hop_limit event)),
      (''hop_start'', wire_opt WInt (tel_hop_start event)),
      (''relay_node'', wire_opt WInt (tel_relay_node event))]"

definition received_telemetry_from_dict :: "wire_object \<Rightarrow> wire_exn + received_telemetry" where
  "received_telemetry_from_dict data =
     bind_res (required data [''sender_id'', ''kind'', ''metrics'', ''received_at'', ''local_radio_node_id'']) (\<lambda>_.
     bind_res (field_str (obj_get data ''sender_id'')) (\<lambda>v_sender_id.
     bind_res (field_telemetry_kind (obj_get data ''kind'')) (\<lambda>v_kind.
     bind_res (field_metrics (obj_get data ''metrics'')) (\<lambda>v_metrics.
     bind_res (field_float (obj_get data ''received_at'')) (\<lambda>v_received_at.
     bind_res (field_nonempty_str (obj_get data ''local_radio_node_id'')) (\<lambda>v_local_radio_node_id.
     bind_res (field_optional field_int (obj_get data ''packet_id'')) (\<lambda>v_packet_id.
     bind_res (field_optional field_int (obj_get data ''telemetry_time'')) (\<lambda>v_telemetry_time.
     bind_res (field_optional field_int (obj_get data ''channel_index'')) (\<lambda>v_channel_index.
     bind_res (field_optional field_int (obj_get data ''rx_time'')) (\<lambda>v_rx_time.
     bind_res (field_optional field_int (obj_get data ''rx_rssi'')) (\<lambda>v_rx_rssi.
     bind_res (field_optional field_int (obj_get data ''hop_limit'')) (\<lambda>v_hop_limit.
     bind_res (field_optional field_int (obj_get data ''hop_start'')) (\<lambda>v_hop_start.
     bind_res (field_optional field_int (obj_get data ''relay_node'')) (\<lambda>v_relay_node.
     bind_res (field_optional field_float (obj_get data ''rx_snr'')) (\<lambda>v_rx_snr.
     Inr \<lparr>tel_sender_id = v_sender_id,
          tel_kind = v_kind,
          tel_metrics = v_metrics,
          tel_received_at = v_received_at,
          tel_local_radio_node_id = v_local_radio_node_id,
          tel_packet_id = v_packet_id,
          tel_telemetry_time = v_telemetry_time,
          tel_channel_index = v_channel_index,
          tel_rx_time = v_rx_time,
          tel_rx_rssi = v_rx_rssi,
          tel_rx_snr = v_rx_snr,
          tel_hop_limit = v_hop_limit,
          tel_hop_start = v_hop_start,
          tel_relay_node = v_relay_node\<rparr>)))))))))))))))"

subsection \<open>\<open>ReceivedRoutingEvent\<close>\<close>

record received_routing =
  rou_request_id :: int
  rou_error_reason :: string
  rou_from_num :: int
  rou_received_at :: pyfloat
  rou_local_radio_node_id :: string
  rou_to_num :: "int option"
  rou_packet_id :: "int option"

definition received_routing_to_dict :: "received_routing \<Rightarrow> wire" where
  "received_routing_to_dict event = WObj
     [(''request_id'', WInt (rou_request_id event)),
      (''error_reason'', WStr (rou_error_reason event)),
      (''from_num'', WInt (rou_from_num event)),
      (''received_at'', WFloat (rou_received_at event)),
      (''local_radio_node_id'', WStr (rou_local_radio_node_id event)),
      (''to_num'', wire_opt WInt (rou_to_num event)),
      (''packet_id'', wire_opt WInt (rou_packet_id event))]"

definition received_routing_from_dict :: "wire_object \<Rightarrow> wire_exn + received_routing" where
  "received_routing_from_dict data =
     bind_res (required data [''request_id'', ''error_reason'', ''from_num'', ''received_at'', ''local_radio_node_id'']) (\<lambda>_.
     bind_res (field_int (obj_get data ''request_id'')) (\<lambda>v_request_id.
     bind_res (field_str (obj_get data ''error_reason'')) (\<lambda>v_error_reason.
     bind_res (field_int (obj_get data ''from_num'')) (\<lambda>v_from_num.
     bind_res (field_float (obj_get data ''received_at'')) (\<lambda>v_received_at.
     bind_res (field_nonempty_str (obj_get data ''local_radio_node_id'')) (\<lambda>v_local_radio_node_id.
     bind_res (field_optional field_int (obj_get data ''to_num'')) (\<lambda>v_to_num.
     bind_res (field_optional field_int (obj_get data ''packet_id'')) (\<lambda>v_packet_id.
     Inr \<lparr>rou_request_id = v_request_id,
          rou_error_reason = v_error_reason,
          rou_from_num = v_from_num,
          rou_received_at = v_received_at,
          rou_local_radio_node_id = v_local_radio_node_id,
          rou_to_num = v_to_num,
          rou_packet_id = v_packet_id\<rparr>))))))))"

subsection \<open>The envelope and the batch\<close>

datatype received_event =
    TextEvent received_text
  | WaypointEvent received_waypoint
  | NodeInfoEvent received_nodeinfo
  | PositionEvent received_position
  | TelemetryEvent received_telemetry
  | RoutingEvent received_routing

record received_batch =
  rb_events :: "received_event list"
  rb_dropped :: int
  rb_malformed :: int
  rb_connection_generation :: "int option"

definition envelope :: "string \<Rightarrow> wire \<Rightarrow> wire" where
  "envelope kind body = WObj [(''kind'', WStr kind), (kind, body)]"

fun received_event_to_dict :: "received_event \<Rightarrow> wire" where
  "received_event_to_dict (TextEvent e) = envelope ''text'' (received_text_to_dict e)"
| "received_event_to_dict (WaypointEvent e) = envelope ''waypoint'' (received_waypoint_to_dict e)"
| "received_event_to_dict (NodeInfoEvent e) = envelope ''nodeinfo'' (received_nodeinfo_to_dict e)"
| "received_event_to_dict (PositionEvent e) = envelope ''position'' (received_position_to_dict e)"
| "received_event_to_dict (TelemetryEvent e) = envelope ''telemetry'' (received_telemetry_to_dict e)"
| "received_event_to_dict (RoutingEvent e) = envelope ''routing'' (received_routing_to_dict e)"

definition map_res :: "('a \<Rightarrow> 'b) \<Rightarrow> 'e + 'a \<Rightarrow> 'e + 'b" where
  "map_res f m = bind_res m (\<lambda>x. Inr (f x))"

definition received_from_dict :: "(string \<times> (wire_object \<Rightarrow> wire_exn + received_event)) list" where
  "received_from_dict =
     [(''text'', map_res TextEvent \<circ> received_text_from_dict),
      (''waypoint'', map_res WaypointEvent \<circ> received_waypoint_from_dict),
      (''nodeinfo'', map_res NodeInfoEvent \<circ> received_nodeinfo_from_dict),
      (''position'', map_res PositionEvent \<circ> received_position_from_dict),
      (''telemetry'', map_res TelemetryEvent \<circ> received_telemetry_from_dict),
      (''routing'', map_res RoutingEvent \<circ> received_routing_from_dict)]"

text \<open>A \<open>kind\<close> that is a list or a dict cannot be looked up in a dict: \<open>TypeError\<close>.\<close>

definition received_event_from_dict :: "wire \<Rightarrow> wire_exn + received_event" where
  "received_event_from_dict data =
     (case data of
        WObj d \<Rightarrow>
          (case obj_get d ''kind'' of
             WStr kind \<Rightarrow>
               (case map_of received_from_dict kind of
                  None \<Rightarrow> Inl WValueError
                | Some from_dict \<Rightarrow> (case obj_get d kind of WObj body \<Rightarrow> from_dict body | _ \<Rightarrow> Inl WValueError))
           | WList _ \<Rightarrow> Inl WTypeError
           | WObj _ \<Rightarrow> Inl WTypeError
           | _ \<Rightarrow> Inl WValueError)
      | _ \<Rightarrow> Inl WValueError)"

definition received_batch_to_dict :: "received_batch \<Rightarrow> wire" where
  "received_batch_to_dict batch = WObj
     [(''events'', WList (map received_event_to_dict (rb_events batch))),
      (''dropped'', WInt (rb_dropped batch)),
      (''malformed'', WInt (rb_malformed batch)),
      (''connection_generation'', wire_opt WInt (rb_connection_generation batch))]"

text \<open>The loop over the items: \<open>KeyError\<close>, \<open>TypeError\<close> and \<open>ValueError\<close> are counted, anything else propagates.\<close>

definition counted :: "wire_exn \<Rightarrow> bool" where
  "counted e \<longleftrightarrow> e \<in> {WKeyError, WTypeError, WValueError}"

fun decode_events :: "wire list \<Rightarrow> wire_exn + received_event list \<times> int" where
  "decode_events [] = Inr ([], 0)"
| "decode_events (item # items) =
     (case received_event_from_dict item of
        Inr event \<Rightarrow> bind_res (decode_events items) (\<lambda>(events, malformed). Inr (event # events, malformed))
      | Inl e \<Rightarrow> if counted e then bind_res (decode_events items) (\<lambda>(events, malformed). Inr (events, malformed + 1))
                 else Inl e)"

text \<open>\<open>data.get(k) or 0\<close>, and the sum with the count of this side: \<open>bool\<close> adds as an integer, a float stays a float.\<close>

definition or_zero :: "wire \<Rightarrow> wire" where
  "or_zero v = (if truthy v then v else WInt 0)"

definition add_count :: "wire \<Rightarrow> int \<Rightarrow> wire_exn + int" where
  "add_count v n =
     (case v of WInt i \<Rightarrow> Inr (i + n) | WBool b \<Rightarrow> Inr ((if b then 1 else 0) + n) | _ \<Rightarrow> Inl WTypeError)"

definition received_batch_from_dict :: "wire \<Rightarrow> wire_exn + received_batch" where
  "received_batch_from_dict data =
     (case data of
        WObj d \<Rightarrow>
          (case obj_get d ''events'' of
             WList items \<Rightarrow>
               bind_res (decode_events items) (\<lambda>(events, malformed).
               bind_res (add_count (or_zero (obj_get d ''malformed'')) malformed) (\<lambda>malformed_sum.
               bind_res (field_int (or_zero (obj_get d ''dropped''))) (\<lambda>dropped.
               bind_res (field_optional field_int (obj_get d ''connection_generation'')) (\<lambda>generation.
               Inr \<lparr>rb_events = events, rb_dropped = dropped, rb_malformed = malformed_sum,
                    rb_connection_generation = generation\<rparr>))))
           | _ \<Rightarrow> Inl WValueError)
      | _ \<Rightarrow> Inl WValueError)"

section \<open>Request and response frames\<close>

definition IPC_PROTOCOL_VERSION :: int where "IPC_PROTOCOL_VERSION = 1"

definition make_request :: "string \<Rightarrow> wire_object \<Rightarrow> pyfloat \<Rightarrow> wire_object" where
  "make_request operation params tmo =
     [(''protocol_version'', WInt IPC_PROTOCOL_VERSION), (''operation'', WStr operation), (''params'', WObj params),
      (''timeout'', WFloat tmo)]"

definition make_ok_response :: "wire \<Rightarrow> wire_object" where
  "make_ok_response result =
     [(''protocol_version'', WInt IPC_PROTOCOL_VERSION), (''ok'', WBool True), (''result'', result)]"

definition make_error_response :: "transport_error \<Rightarrow> wire_object" where
  "make_error_response e =
     [(''protocol_version'', WInt IPC_PROTOCOL_VERSION), (''ok'', WBool False), (''error'', error_to_dict e)]"

end
