(* ===== verification/Radio_Wire_Properties.thy ===== *)
theory Radio_Wire_Properties
  imports Radio_Wire
begin

text \<open>
  Properties of the boundary to the radio adapter: what is written is read back, a batch loses exactly the items that
  do not decode, and the one exception that still costs the whole batch.
\<close>

section \<open>Numbers\<close>

lemma bit_length_le: "n < 2 ^ k \<Longrightarrow> bit_length n \<le> k"
proof (induction k arbitrary: n)
  case 0
  then show ?case by (simp add: bit_length.simps)
next
  case (Suc k)
  show ?case
  proof (cases "n = 0")
    case True
    then show ?thesis by (simp add: bit_length.simps)
  next
    case False
    have "n div 2 < 2 ^ k" using Suc.prems by (simp add: less_mult_imp_div_less mult.commute)
    then show ?thesis
      using Suc.IH False by (subst bit_length.simps) simp
  qed
qed

lemma bit_length_lower: "0 < n \<Longrightarrow> 2 ^ (bit_length n - 1) \<le> n"
proof (induction n rule: bit_length.induct)
  case (1 n)
  show ?case
  proof (cases "n div 2 = 0")
    case True
    with 1(2) have "n = 1" by linarith
    then show ?thesis by (simp add: bit_length.simps)
  next
    case False
    then have "2 ^ (bit_length (n div 2) - 1) \<le> n div 2" and pos: "0 < bit_length (n div 2)"
      using 1 by (auto simp: bit_length.simps [of "n div 2"])
    then have "2 * 2 ^ (bit_length (n div 2) - 1) \<le> n" by linarith
    moreover have "bit_length n - 1 = Suc (bit_length (n div 2) - 1)"
      using 1(2) pos by (subst bit_length.simps) simp
    ultimately show ?thesis by simp
  qed
qed

lemma round_half_even_ge: "n div d \<le> round_half_even n d"
  by (simp add: round_half_even_def Let_def)

lemma round_half_even_one [simp]: "round_half_even n (Suc 0) = n"
  by (simp add: round_half_even_def)

lemma float_of_int_exact:
  assumes "\<bar>i\<bar> < 2 ^ 53"
  shows "float_of_int i = Inr (FNum (of_int i))"
proof -
  have "nat \<bar>i\<bar> < 2 ^ 53" using assms by (simp add: nat_less_iff)
  then have s: "bit_length (nat \<bar>i\<bar>) - 53 = 0" using bit_length_le [of "nat \<bar>i\<bar>" 53] by simp
  have "nat \<bar>i\<bar> < 2 ^ 1024"
    using \<open>nat \<bar>i\<bar> < 2 ^ 53\<close> by (rule order.strict_trans2) (simp add: power_increasing)
  then have "double_of_nat (nat \<bar>i\<bar>) = Some (nat \<bar>i\<bar>)"
    unfolding double_of_nat_def s Let_def by simp
  then show ?thesis
    by (simp add: float_of_int_def sgn_mult_abs)
qed

lemma double_of_nat_overflow:
  assumes "2 ^ 1024 \<le> n"
  shows "double_of_nat n = None"
proof -
  define s where "s = bit_length n - 53"
  have n: "0 < n" using assms by (metis less_le_trans zero_less_numeral zero_less_power)
  have "2 ^ 1024 \<le> n div 2 ^ s * 2 ^ s"
  proof (cases "s \<le> 1024")
    case True
    then have "(2::nat) ^ 1024 = 2 ^ (1024 - s) * 2 ^ s" by (simp flip: power_add)
    then have "2 ^ (1024 - s) \<le> n div 2 ^ s"
      using assms by (simp add: less_eq_div_iff_mult_less_eq)
    then have "2 ^ (1024 - s) * 2 ^ s \<le> n div 2 ^ s * 2 ^ s" by (rule mult_le_mono1)
    with \<open>2 ^ 1024 = 2 ^ (1024 - s) * 2 ^ s\<close> show ?thesis by simp
  next
    case False
    then have "s \<le> bit_length n - 1" by (simp add: s_def)
    then have "(2::nat) ^ s \<le> n"
      using bit_length_lower [OF n] by (meson order.trans power_increasing_iff one_less_numeral_iff semiring_norm(76))
    then have "1 \<le> n div 2 ^ s" by (simp add: less_eq_div_iff_mult_less_eq)
    then have "2 ^ s \<le> n div 2 ^ s * 2 ^ s" by simp
    moreover have "(2::nat) ^ 1024 \<le> 2 ^ s" using False by (intro power_increasing) simp_all
    ultimately show ?thesis by linarith
  qed
  then have "2 ^ 1024 \<le> round_half_even n (2 ^ s) * 2 ^ s"
    by (meson mult_le_mono1 order.trans round_half_even_ge)
  then show ?thesis
    unfolding double_of_nat_def Let_def s_def [symmetric] by simp
qed

lemma float_of_int_overflow: "2 ^ 1024 \<le> i \<Longrightarrow> float_of_int i = Inl WOverflowError"
  by (subst float_of_int_def, subst double_of_nat_overflow) (simp_all add: le_nat_iff)

section \<open>Round trips\<close>

lemma obj_get_simps [simp]:
  "obj_get [] k = WNone"
  "obj_get ((k', v) # d) k = (if k = k' then v else obj_get d k)"
  "obj_get_or w [] k = w"
  "obj_get_or w ((k', v) # d) k = (if k = k' then v else obj_get_or w d k)"
  by (simp_all add: obj_get_def obj_get_or_def)

lemma required_simps [simp]:
  "required d [] = Inr ()"
  "required ((k', v) # d) (k # ks) =
     (if k = k' \<or> map_of d k \<noteq> None then required ((k', v) # d) ks else Inl WKeyError)"
  by (auto simp: required_def)

lemma field_simps_wire [simp]:
  "field_str (WStr s) = Inr s"
  "field_int (WInt i) = Inr i"
  "field_float (WFloat f) = Inr f"
  "field_nonempty_str (WStr s) = (if s = [] then Inl WValueError else Inr s)"
  "wire_str R (WStr s) = s"
  "wire_int (WInt i) = Inr i"
  "wire_float R (WFloat f) = Inr f"
  by (simp_all add: field_str_def field_int_def field_float_def field_nonempty_str_def wire_str_def wire_int_def wire_float_def)

lemma field_optional_wire_opt [simp]:
  "field_optional field_int (wire_opt WInt x) = Inr x"
  "field_optional field_float (wire_opt WFloat y) = Inr y"
  "field_optional field_str (wire_opt WStr z) = Inr z"
  "field_optional field_bool (wire_opt WBool b) = Inr b"
  by (cases x; cases y; cases z; cases b; simp add: field_optional_def wire_opt_def field_bool_def)+

lemma enum_of_members [simp]:
  "enum_of error_code_value error_codes (WStr (error_code_value c)) = Some c"
  "enum_of conn_type_value conn_types (WStr (conn_type_value t)) = Some t"
  "enum_of conn_state_value conn_states (WStr (conn_state_value s)) = Some s"
    apply (cases c; simp add: enum_of_def error_codes_def)
   apply (cases t; simp add: enum_of_def conn_types_def)
  apply (cases s; simp add: enum_of_def conn_states_def)
  done

lemma error_dict_roundtrip [simp]: "error_from_dict R (wire_opt error_to_dict e) = Inr e"
  by (cases e) (simp_all add: wire_opt_def error_from_dict_def error_to_dict_def)

lemma descriptor_dict_roundtrip [simp]: "descriptor_from_dict R (descriptor_to_dict c) = Inr c"
  by (cases c) (simp_all add: descriptor_from_dict_def descriptor_to_dict_def)

text \<open>What the constructors of the events require beyond the types of the fields.\<close>

fun event_ok :: "received_event \<Rightarrow> bool" where
  "event_ok (TextEvent e) = (txt_local_radio_node_id e \<noteq> [])"
| "event_ok (WaypointEvent e) = (wpt_local_radio_node_id e \<noteq> [])"
| "event_ok (NodeInfoEvent e) = (nod_local_radio_node_id e \<noteq> [])"
| "event_ok (PositionEvent e) = (pos_local_radio_node_id e \<noteq> [])"
| "event_ok (TelemetryEvent e) =
     (tel_local_radio_node_id e \<noteq> [] \<and> tel_kind e \<in> set TELEMETRY_KINDS \<and> list_all (\<lambda>(k, m). is_number m) (tel_metrics e))"
| "event_ok (RoutingEvent e) = (rou_local_radio_node_id e \<noteq> [])"

lemma text_event_roundtrip:
  "txt_local_radio_node_id e \<noteq> [] \<Longrightarrow> received_event_from_dict (received_event_to_dict (TextEvent e)) = Inr (TextEvent e)"
  by (simp add: received_event_from_dict_def envelope_def received_text_to_dict_def received_text_from_dict_def
      received_from_dict_def map_res_def)

lemma waypoint_roundtrip:
  "wpt_local_radio_node_id e \<noteq> [] \<Longrightarrow>
     received_event_from_dict (received_event_to_dict (WaypointEvent e)) = Inr (WaypointEvent e)"
  by (simp add: received_event_from_dict_def envelope_def received_waypoint_to_dict_def received_waypoint_from_dict_def
      received_from_dict_def map_res_def)

lemma nodeinfo_roundtrip:
  "nod_local_radio_node_id e \<noteq> [] \<Longrightarrow>
     received_event_from_dict (received_event_to_dict (NodeInfoEvent e)) = Inr (NodeInfoEvent e)"
  by (simp add: received_event_from_dict_def envelope_def received_nodeinfo_to_dict_def received_nodeinfo_from_dict_def
      received_from_dict_def map_res_def)

lemma position_roundtrip:
  "pos_local_radio_node_id e \<noteq> [] \<Longrightarrow>
     received_event_from_dict (received_event_to_dict (PositionEvent e)) = Inr (PositionEvent e)"
  by (simp add: received_event_from_dict_def envelope_def received_position_to_dict_def received_position_from_dict_def
      received_from_dict_def map_res_def)

lemma telemetry_roundtrip:
  "event_ok (TelemetryEvent e) \<Longrightarrow>
     received_event_from_dict (received_event_to_dict (TelemetryEvent e)) = Inr (TelemetryEvent e)"
  by (simp add: received_event_from_dict_def envelope_def received_telemetry_to_dict_def received_telemetry_from_dict_def
      received_from_dict_def map_res_def field_metrics_def field_telemetry_kind_def)

lemma routing_roundtrip:
  "rou_local_radio_node_id e \<noteq> [] \<Longrightarrow>
     received_event_from_dict (received_event_to_dict (RoutingEvent e)) = Inr (RoutingEvent e)"
  by (simp add: received_event_from_dict_def envelope_def received_routing_to_dict_def received_routing_from_dict_def
      received_from_dict_def map_res_def)

lemma event_roundtrip: "event_ok e \<Longrightarrow> received_event_from_dict (received_event_to_dict e) = Inr e"
  using text_event_roundtrip waypoint_roundtrip nodeinfo_roundtrip position_roundtrip telemetry_roundtrip routing_roundtrip
  by (cases e) (simp_all del: received_event_to_dict.simps)


definition batch_ok :: "received_batch \<Rightarrow> bool" where
  "batch_ok batch \<longleftrightarrow> list_all event_ok (rb_events batch)"

lemma decode_events_roundtrip:
  "list_all event_ok es \<Longrightarrow> decode_events (map received_event_to_dict es) = Inr (es, 0)"
  by (induction es) (simp_all add: event_roundtrip)

text \<open>What the adapter writes the core reads back: every received batch whose events the constructors accept
  survives \<open>received_batch_to_dict\<close> and \<open>received_batch_from_dict\<close> unchanged, counters included.\<close>

theorem received_batch_roundtrip:
  assumes "batch_ok batch"
  shows "received_batch_from_dict (received_batch_to_dict batch) = Inr batch"
  using assms
  by (simp add: received_batch_from_dict_def received_batch_to_dict_def batch_ok_def decode_events_roundtrip
      or_zero_def add_count_def)

definition sample_text :: received_text where
  "sample_text = \<lparr>txt_from_node_id = ''!a1'', txt_to_node_id = ''^all'', txt_text = ''hi'',
     txt_received_at = FNum (3 / 2), txt_local_radio_node_id = ''!b2'', txt_packet_id = Some 7, txt_from_num = None,
     txt_to_num = None, txt_channel_index = Some 0, txt_reply_id = None, txt_rx_time = None, txt_rx_rssi = Some (- 80),
     txt_rx_snr = Some (FNum 6), txt_hop_limit = None, txt_hop_start = None, txt_relay_node = None\<rparr>"

definition sample_batch :: received_batch where
  "sample_batch = \<lparr>rb_events = [TextEvent sample_text], rb_dropped = 1, rb_malformed = 2, rb_connection_generation = Some 3\<rparr>"

theorem received_batch_roundtrip_witness:
  "received_batch_from_dict (received_batch_to_dict sample_batch) = Inr sample_batch"
  by (rule received_batch_roundtrip) (simp add: batch_ok_def sample_batch_def sample_text_def)

text \<open>The other models of the boundary. The checked send result carries no acknowledgement fields.\<close>

theorem wire_models_roundtrip:
  "connection_info_from_dict R (connection_info_to_dict info) = Inr info"
  "outgoing_message_from_dict R (outgoing_message_to_dict msg) = Inr msg"
  "send_result_from_dict R (send_result_to_dict res) = Inr res"
  "checked_send_result_from_dict R (checked_send_result_to_dict chk) =
     Inr (chk\<lparr>cs_result := (cs_result chk)\<lparr>sr_ack_state := WNone, sr_ack_error := WNone\<rparr>\<rparr>)"
  "outgoing_waypoint_from_dict R (outgoing_waypoint_to_dict wpt) = Inr wpt"
  "waypoint_result_from_dict (waypoint_result_to_dict wres) = Inr wres"
  "node_user_from_dict R (node_user_to_dict usr) = Inr usr"
  "channel_info_from_dict R (channel_info_to_dict chn) = Inr chn"
  by (simp_all add: connection_info_from_dict_def connection_info_to_dict_def outgoing_message_from_dict_def
      outgoing_message_to_dict_def send_result_from_dict_def send_result_to_dict_def checked_send_result_from_dict_def
      checked_send_result_to_dict_def outgoing_waypoint_from_dict_def outgoing_waypoint_to_dict_def
      waypoint_result_from_dict_def waypoint_result_to_dict_def node_user_from_dict_def node_user_to_dict_def
      channel_info_from_dict_def channel_info_to_dict_def split: option.splits)

section \<open>Malformed items\<close>

text \<open>A decoder that raises only what the batch loop counts, or \<open>OverflowError\<close>.\<close>

definition raises_counted :: "wire_exn + 'a \<Rightarrow> bool" where
  "raises_counted m \<longleftrightarrow> (\<forall>e. m = Inl e \<longrightarrow> counted e \<or> e = WOverflowError)"

lemma raises_counted_simps [simp]:
  "raises_counted (Inr x)"
  "raises_counted (Inl e) \<longleftrightarrow> counted e \<or> e = WOverflowError"
  by (simp_all add: raises_counted_def)

lemma raises_counted_bind [intro]:
  "raises_counted m \<Longrightarrow> (\<And>x. raises_counted (f x)) \<Longrightarrow> raises_counted (bind_res m f)"
  by (cases m) simp_all

lemma counted_simps [simp]:
  "counted WKeyError" "counted WTypeError" "counted WValueError" "\<not> counted WOverflowError" "\<not> counted WAttributeError"
  by (simp_all add: counted_def)

lemma raises_counted_float [simp]: "raises_counted (float_of_int i)"
  by (simp add: float_of_int_def split: option.splits)

lemma raises_counted_fields [simp]:
  "raises_counted (field_str v)"
  "raises_counted (field_int v)"
  "raises_counted (field_float v)"
  "raises_counted (field_bool v)"
  "raises_counted (field_metrics v)"
  "raises_counted (field_telemetry_kind v)"
  "raises_counted (required d ks)"
  by (simp_all add: field_str_def field_int_def field_float_def field_bool_def field_metrics_def
      field_telemetry_kind_def required_def split: wire.splits)

lemma raises_counted_nonempty [simp]: "raises_counted (field_nonempty_str v)"
  unfolding field_nonempty_str_def by (rule raises_counted_bind) simp_all

lemma raises_counted_optional [simp]:
  "raises_counted (field_optional field_str v)"
  "raises_counted (field_optional field_int v)"
  "raises_counted (field_optional field_float v)"
  "raises_counted (field_optional field_bool v)"
  by (auto simp: field_optional_def)

lemmas event_decoder_defs =
  received_text_from_dict_def received_waypoint_from_dict_def received_nodeinfo_from_dict_def
  received_position_from_dict_def received_telemetry_from_dict_def received_routing_from_dict_def

lemma raises_counted_events:
  "raises_counted (received_text_from_dict d)"
  "raises_counted (received_waypoint_from_dict d)"
  "raises_counted (received_nodeinfo_from_dict d)"
  "raises_counted (received_position_from_dict d)"
  "raises_counted (received_telemetry_from_dict d)"
  "raises_counted (received_routing_from_dict d)"
  unfolding event_decoder_defs by (intro raises_counted_bind; simp)+

lemma raises_counted_map [simp]: "raises_counted (map_res f m) \<longleftrightarrow> raises_counted m"
  by (cases m) (simp_all add: map_res_def)

lemma received_decoder_raises:
  "map_of received_from_dict kind = Some from_dict \<Longrightarrow> raises_counted (from_dict body)"
  by (auto simp: received_from_dict_def raises_counted_events split: if_splits)

lemma raises_counted_event: "raises_counted (received_event_from_dict item)"
  by (simp add: received_event_from_dict_def received_decoder_raises split: wire.split option.split)

lemma event_decoder_raises:
  "received_event_from_dict item = Inl e \<Longrightarrow> counted e \<or> e = WOverflowError"
  using raises_counted_event [of item] by (simp add: raises_counted_def)

lemma nonempty_field: "field_nonempty_str v = Inr s \<Longrightarrow> s \<noteq> []"
  by (auto simp: field_nonempty_str_def bind_res_eq_Inr split: if_splits)

lemma kind_field: "field_telemetry_kind v = Inr s \<Longrightarrow> s \<in> set TELEMETRY_KINDS"
  by (auto simp: field_telemetry_kind_def split: wire.splits if_splits)

lemma metrics_field: "field_metrics v = Inr d \<Longrightarrow> list_all (\<lambda>(k, m). is_number m) d"
  by (auto simp: field_metrics_def split: wire.splits if_splits)

lemma decoded_parts_ok:
  "received_text_from_dict d = Inr a \<Longrightarrow> event_ok (TextEvent a)"
  "received_waypoint_from_dict d = Inr b \<Longrightarrow> event_ok (WaypointEvent b)"
  "received_nodeinfo_from_dict d = Inr c \<Longrightarrow> event_ok (NodeInfoEvent c)"
  "received_position_from_dict d = Inr p \<Longrightarrow> event_ok (PositionEvent p)"
  "received_telemetry_from_dict d = Inr t \<Longrightarrow> event_ok (TelemetryEvent t)"
  "received_routing_from_dict d = Inr r \<Longrightarrow> event_ok (RoutingEvent r)"
  unfolding event_decoder_defs
  by (auto simp: bind_res_eq_Inr dest!: nonempty_field kind_field metrics_field)

lemma received_decoder_ok:
  "map_of received_from_dict kind = Some from_dict \<Longrightarrow> from_dict body = Inr e \<Longrightarrow> event_ok e"
  by (auto simp: received_from_dict_def map_res_def bind_res_eq_Inr decoded_parts_ok
      simp del: event_ok.simps split: if_splits)

lemma decoded_event_ok: "received_event_from_dict item = Inr e \<Longrightarrow> event_ok e"
  by (auto simp: received_event_from_dict_def split: wire.splits option.splits dest: received_decoder_ok)

definition decoded_events :: "wire list \<Rightarrow> received_event list" where
  "decoded_events items =
     concat (map (\<lambda>item. case received_event_from_dict item of Inr e \<Rightarrow> [e] | Inl _ \<Rightarrow> []) items)"

lemma length_decoded_events: "length (decoded_events items) \<le> length items"
  by (induction items) (simp_all add: decoded_events_def split: sum.splits)

definition overflows :: "wire \<Rightarrow> bool" where
  "overflows item \<longleftrightarrow> received_event_from_dict item = Inl WOverflowError"

lemma decode_events_eq:
  "decode_events items =
     (if list_ex overflows items then Inl WOverflowError
      else Inr (decoded_events items, int (length items - length (decoded_events items))))"
proof (induction items)
  case (Cons item items)
  have "length (decoded_events items) \<le> length items" by (rule length_decoded_events)
  then show ?case
    using Cons event_decoder_raises [of item]
    by (auto simp: overflows_def decoded_events_def of_nat_diff Suc_diff_le split: sum.splits)
qed (simp add: decoded_events_def)

lemma decoded_events_ok: "set (decoded_events items) \<subseteq> Collect event_ok"
  by (auto simp: decoded_events_def split: sum.splits dest!: sym [of "Inr _"] dest: decoded_event_ok)

text \<open>The same batch without events: what its own counters and generation make of it.\<close>

definition without_events :: "wire_object \<Rightarrow> wire_object" where
  "without_events d = (''events'', WList []) # d"

lemma without_events_get: "obj_get (without_events d) k = (if k = ''events'' then WList [] else obj_get d k)"
  by (simp add: without_events_def obj_get_def)

text \<open>C33. A batch is decoded item by item, for every object with a list of events. Unless some item raises
  \<open>OverflowError\<close>, the items decide nothing but the events and the count: the batch fails, with \<open>TypeError\<close>, exactly if the same batch
  without events fails, that is if one of its own counters is no integer; otherwise the events returned are those of the items
  that decode, in their order, each acceptable to its constructor, and every other item is added to the reported count. With
  an item that raises \<open>OverflowError\<close> the whole batch raises it.\<close>

theorem batch_isolates_malformed:
  assumes "obj_get d ''events'' = WList items"
  shows "received_batch_from_dict (WObj d) =
     (if list_ex overflows items then Inl WOverflowError
      else case received_batch_from_dict (WObj (without_events d)) of
             Inl e \<Rightarrow> Inl WTypeError
           | Inr b \<Rightarrow> Inr (b\<lparr>rb_events := decoded_events items, rb_malformed := rb_malformed b + int (length items - length (decoded_events items))\<rparr>))
   \<and> set (decoded_events items) \<subseteq> Collect event_ok"
proof
  let ?m = "or_zero (obj_get d ''malformed'')" and ?d = "or_zero (obj_get d ''dropped'')" and ?g = "obj_get d ''connection_generation''"
  have m: "add_count ?m n = (case add_count ?m 0 of Inl e \<Rightarrow> Inl WTypeError | Inr k \<Rightarrow> Inr (k + n))" for n
    by (simp add: add_count_def split: wire.splits)
  have e: "add_count ?m n = Inl x \<Longrightarrow> x = WTypeError" "field_int v = Inl x \<Longrightarrow> x = WTypeError" "field_optional field_int v = Inl x \<Longrightarrow> x = WTypeError" for n v x
    by (auto simp: add_count_def field_int_def field_optional_def bind_res_eq_Inl split: wire.splits if_splits)
  show "received_batch_from_dict (WObj d) =
     (if list_ex overflows items then Inl WOverflowError
      else case received_batch_from_dict (WObj (without_events d)) of
             Inl e \<Rightarrow> Inl WTypeError
           | Inr b \<Rightarrow> Inr (b\<lparr>rb_events := decoded_events items, rb_malformed := rb_malformed b + int (length items - length (decoded_events items))\<rparr>))"
    using e(1) [of 0] e(2) [of ?d] e(3) [of ?g]
    by (auto simp: received_batch_from_dict_def assms without_events_get decode_events_eq m [of "int _"]
        split: sum.splits) (auto simp: bind_res_def split: sum.splits)
qed (rule decoded_events_ok)

definition text_item :: "wire \<Rightarrow> string \<Rightarrow> string \<Rightarrow> wire" where
  "text_item received_at txt radio = envelope ''text'' (WObj
     [(''from_node_id'', WStr ''!a1''), (''to_node_id'', WStr ''^all''), (''text'', WStr txt),
      (''received_at'', received_at), (''local_radio_node_id'', WStr radio)])"

theorem batch_isolates_malformed_witness:
  "received_batch_from_dict (WObj [(''events'', WList [WInt 3, text_item (WFloat (FNum 1)) ''a'' ''!b2'']), (''dropped'', WInt 0), (''malformed'', WInt 2),
     (''connection_generation'', WInt 5)])
     = Inr \<lparr>rb_events = decoded_events [WInt 3, text_item (WFloat (FNum 1)) ''a'' ''!b2''], rb_dropped = 0, rb_malformed = 3, rb_connection_generation = Some 5\<rparr>
   \<and> length (decoded_events [WInt 3, text_item (WFloat (FNum 1)) ''a'' ''!b2'']) = 1"
proof -
  let ?items = "[WInt 3, text_item (WFloat (FNum 1)) ''a'' ''!b2'']"
  let ?d = "[(''events'', WList ?items), (''dropped'', WInt 0), (''malformed'', WInt 2), (''connection_generation'', WInt 5)]"
  have events: "decoded_events ?items \<noteq> []" "map overflows ?items = [False, False]" "decoded_events [WInt 3] = []"
    by code_simp+
  then have n: "length (decoded_events ?items) = 1" "\<not> list_ex overflows ?items"
    by (auto simp: decoded_events_def split: sum.splits if_splits)
  moreover have "received_batch_from_dict (WObj (without_events ?d)) = Inr \<lparr>rb_events = [], rb_dropped = 0, rb_malformed = 2, rb_connection_generation = Some 5\<rparr>"
    by code_simp
  ultimately show ?thesis
    using batch_isolates_malformed [of ?d ?items] by (simp add: obj_get_def)
qed

text \<open>A single text event whose \<open>received_at\<close> is an integer of \<open>2 ^ 1024\<close> or more makes the decoding of the whole
  batch raise \<open>OverflowError\<close>, whatever events surround it: \<open>float\<close> of such an integer raises an exception that
  the loop does not catch.\<close>

theorem huge_timestamp_loses_batch:
  assumes "2 ^ 1024 \<le> i"
  shows "received_batch_from_dict (WObj ((''events'', WList (before @ [text_item (WInt i) txt radio] @ after)) # rest)) =
           Inl WOverflowError"
proof -
  have "overflows (text_item (WInt i) txt radio)"
    using float_of_int_overflow [OF assms]
    by (simp add: overflows_def text_item_def received_event_from_dict_def envelope_def received_from_dict_def map_res_def
        received_text_from_dict_def field_float_def)
  then show ?thesis
    by (simp add: received_batch_from_dict_def decode_events_eq)
qed

theorem huge_timestamp_loses_batch_witness:
  "received_batch_from_dict (WObj [(''events'', WList ([text_item (WFloat (FNum 1)) ''a'' ''!b2''] @
     [text_item (WInt (2 ^ 1024)) ''b'' ''!b2''] @ [text_item (WFloat (FNum 2)) ''c'' ''!b2'']))]) = Inl WOverflowError"
  by (rule huge_timestamp_loses_batch) simp

end
