(* ===== verification/Command_Registry.thy ===== *)
theory Command_Registry
  imports Radio_Wire
begin

text \<open>
  The commands of the attachments service and the store of their results:
  \<open>src/meshsrv/attachments/commands.py\<close>, \<open>src/meshsrv/attachments/command_registry.py\<close> and the outcome of a handler,
  \<open>src/meshsrv/attachments/dispatch.py\<close>. A Python dict keyed by command id is the list of its values in insertion
  order, the ordered dict of the terminal ids the list of its keys, least recently used first. Every method reads the
  clock once; the reading is its argument \<open>now\<close>.
\<close>

section \<open>Commands\<close>

definition COMMAND_QUEUE_MAXSIZE :: nat where "COMMAND_QUEUE_MAXSIZE = 64"
definition MAX_COMMANDS_PER_TICK :: nat where "MAX_COMMANDS_PER_TICK = 16"

definition COMMAND_KINDS :: "string list" where
  "COMMAND_KINDS =
     [''attachment_create'', ''attachment_retry'', ''attachment_download'', ''attachment_save'', ''attachment_reject'',
      ''attachment_cancel'', ''attachment_revoke'', ''attachment_delete_local_content'',
      ''attachment_purge_received_cache'', ''vault_enable'', ''vault_disable'', ''vault_resume'', ''attachment_import'',
      ''attachment_copy_code'', ''attachment_add_delivery'', ''contact_request_key'', ''contact_cancel_key_request'',
      ''contact_confirm'', ''contact_accept_key_change'', ''contact_reject_key_change'', ''provider_probe'',
      ''provider_register'', ''provider_update'', ''provider_set_default'', ''provider_remove'',
      ''provider_set_upload_token'', ''provider_clear_upload_token'', ''provider_check'']"

record command =
  cmd_id :: string
  cmd_kind :: string
  cmd_payload :: wire_object
  cmd_created_at :: timestamp

text \<open>\<open>Command(...)\<close>: an unknown kind is a \<open>ValueError\<close>, here \<open>None\<close>.\<close>

definition make_command :: "string \<Rightarrow> string \<Rightarrow> wire_object \<Rightarrow> timestamp \<Rightarrow> command option" where
  "make_command cid kind payload created =
     (if kind \<in> set COMMAND_KINDS
      then Some \<lparr>cmd_id = cid, cmd_kind = kind, cmd_payload = payload, cmd_created_at = created\<rparr> else None)"

text \<open>The bounded queue; \<open>put_nowait\<close> on a full queue raises \<open>CommandQueueFull\<close>, \<open>get_nowait\<close> on an empty one
  \<open>queue.Empty\<close>.\<close>

record command_queue =
  cq_items :: "command list"
  cq_maxsize :: nat

definition queue_put :: "command \<Rightarrow> command_queue \<Rightarrow> command_queue option" where
  "queue_put c q = (if length (cq_items q) < cq_maxsize q then Some (q\<lparr>cq_items := cq_items q @ [c]\<rparr>) else None)"

definition queue_get :: "command_queue \<Rightarrow> (command \<times> command_queue) option" where
  "queue_get q = (case cq_items q of [] \<Rightarrow> None | c # cs \<Rightarrow> Some (c, q\<lparr>cq_items := cs\<rparr>))"

section \<open>Result payloads\<close>

text \<open>What a handler puts into \<open>result\<close>: an object of JSON values, or one that holds something else (bytes, a path).\<close>

datatype payload = JsonPayload wire_object | OpaquePayload

text \<open>
  \<open>json.dumps(result, separators=(',', ':'), allow_nan=False)\<close>: characters outside the printable ASCII range are
  escaped; infinities and \<open>NaN\<close> are a \<open>ValueError\<close>, here \<open>None\<close>. The digits of a float are the parameter \<open>F\<close>.
\<close>

definition ascii_char :: "char \<Rightarrow> string" where
  "ascii_char c =
     (if c = CHR 0x22 then [CHR 0x5C, CHR 0x22]
      else if c = CHR 0x5C then [CHR 0x5C, CHR 0x5C]
      else if ord c = 8 then [CHR 0x5C, CHR ''b'']
      else if ord c = 9 then [CHR 0x5C, CHR ''t'']
      else if ord c = 10 then [CHR 0x5C, CHR ''n'']
      else if ord c = 12 then [CHR 0x5C, CHR ''f'']
      else if ord c = 13 then [CHR 0x5C, CHR ''r'']
      else if ord c < 32 \<or> 126 < ord c
        then [CHR 0x5C, CHR ''u'', CHR ''0'', CHR ''0'', hex_digit (ord c div 16), hex_digit (ord c mod 16)]
      else [c])"

definition ascii_string :: "string \<Rightarrow> string" where
  "ascii_string s = CHR 0x22 # concat (map ascii_char s) @ [CHR 0x22]"

fun joined :: "string list \<Rightarrow> string" where
  "joined [] = []"
| "joined [x] = x"
| "joined (x # y # xs) = x @ '','' @ joined (y # xs)"

fun wire_dumps :: "(rat \<Rightarrow> string) \<Rightarrow> wire \<Rightarrow> string option" where
  "wire_dumps F WNone = Some ''null''"
| "wire_dumps F (WBool b) = Some (if b then ''true'' else ''false'')"
| "wire_dumps F (WInt i) = Some (dec_of_int i)"
| "wire_dumps F (WFloat f) = (case f of FNum q \<Rightarrow> Some (F q) | _ \<Rightarrow> None)"
| "wire_dumps F (WStr s) = Some (ascii_string s)"
| "wire_dumps F (WList vs) = map_option (\<lambda>ts. ''['' @ joined ts @ '']'') (those (map (wire_dumps F) vs))"
| "wire_dumps F (WObj kvs) =
     map_option (\<lambda>ts. ''{'' @ joined ts @ ''}'')
       (those (map (\<lambda>(k, v). map_option (\<lambda>t. ascii_string k @ '':'' @ t) (wire_dumps F v)) kvs))"

definition result_payload_error :: "(rat \<Rightarrow> string) \<Rightarrow> payload option \<Rightarrow> nat \<Rightarrow> string option" where
  "result_payload_error F result max_payload_bytes =
     (case result of
        None \<Rightarrow> None
      | Some OpaquePayload \<Rightarrow> Some ''result_payload_not_serializable''
      | Some (JsonPayload d) \<Rightarrow>
          (case wire_dumps F (WObj d) of
             None \<Rightarrow> Some ''result_payload_not_serializable''
           | Some encoded \<Rightarrow>
               if length (utf8_encode encoded) > max_payload_bytes then Some ''result_payload_too_large'' else None))"

section \<open>The registry\<close>

datatype cmd_status = ST_QUEUED | ST_RUNNING | ST_SUCCEEDED | ST_FAILED

definition terminal_status :: "cmd_status \<Rightarrow> bool" where
  "terminal_status st \<longleftrightarrow> st = ST_SUCCEEDED \<or> st = ST_FAILED"

fun allowed_transition :: "cmd_status \<Rightarrow> cmd_status \<Rightarrow> bool" where
  "allowed_transition ST_QUEUED st = (st = ST_RUNNING)"
| "allowed_transition ST_RUNNING st = (st = ST_SUCCEEDED \<or> st = ST_FAILED)"
| "allowed_transition _ st = False"

record command_result =
  cr_command_id :: string
  cr_kind :: string
  cr_status :: cmd_status
  cr_created_at :: timestamp
  cr_updated_at :: timestamp
  cr_resource_id :: "string option"
  cr_result :: "payload option"
  cr_error_code :: "string option"

record command_registry =
  reg_entries :: "command_result list"
  reg_lru :: "string list"
  reg_max_entries :: nat
  reg_ttl :: timestamp
  reg_max_payload :: nat
  reg_float_text :: "rat \<Rightarrow> string"

datatype registry_exn = DuplicateCommand | UnknownCommand | IllegalTransition | LruKeyError

definition COMMAND_RESULT_MAX_ENTRIES :: nat where "COMMAND_RESULT_MAX_ENTRIES = 256"
definition COMMAND_RESULT_TTL_SECONDS :: timestamp where "COMMAND_RESULT_TTL_SECONDS = 3600"
definition COMMAND_RESULT_MAX_PAYLOAD_BYTES :: nat where "COMMAND_RESULT_MAX_PAYLOAD_BYTES = 4 * 1024"

definition new_registry :: "(rat \<Rightarrow> string) \<Rightarrow> command_registry" where
  "new_registry F = \<lparr>reg_entries = [], reg_lru = [], reg_max_entries = COMMAND_RESULT_MAX_ENTRIES,
     reg_ttl = COMMAND_RESULT_TTL_SECONDS, reg_max_payload = COMMAND_RESULT_MAX_PAYLOAD_BYTES, reg_float_text = F\<rparr>"

definition reg_entry :: "command_registry \<Rightarrow> string \<Rightarrow> command_result option" where
  "reg_entry reg cid = find_by cr_command_id cid (reg_entries reg)"

definition set_entry :: "command_result \<Rightarrow> command_registry \<Rightarrow> command_registry" where
  "set_entry e reg = reg\<lparr>reg_entries := upsert cr_command_id e (\<lambda>_. e) (reg_entries reg)\<rparr>"

definition drop_entry :: "string \<Rightarrow> command_registry \<Rightarrow> command_registry" where
  "drop_entry cid reg = reg\<lparr>reg_entries := filter (\<lambda>e. cr_command_id e \<noteq> cid) (reg_entries reg)\<rparr>"

definition drop_lru :: "string \<Rightarrow> command_registry \<Rightarrow> command_registry" where
  "drop_lru cid reg = reg\<lparr>reg_lru := filter (\<lambda>k. k \<noteq> cid) (reg_lru reg)\<rparr>"

text \<open>\<open>lru[id] = None; lru.move_to_end(id)\<close>.\<close>

definition touch_lru :: "string \<Rightarrow> command_registry \<Rightarrow> command_registry" where
  "touch_lru cid reg = reg\<lparr>reg_lru := filter (\<lambda>k. k \<noteq> cid) (reg_lru reg) @ [cid]\<rparr>"

subsection \<open>Eviction\<close>

definition evict_expired_one :: "timestamp \<Rightarrow> string \<Rightarrow> command_registry \<Rightarrow> command_registry" where
  "evict_expired_one now cid reg =
     (case reg_entry reg cid of
        None \<Rightarrow> drop_lru cid reg
      | Some e \<Rightarrow> if now - cr_updated_at e > reg_ttl reg then drop_lru cid (drop_entry cid reg) else reg)"

function evict_over :: "command_registry \<Rightarrow> command_registry" where
  "evict_over reg =
     (if length (reg_lru reg) > reg_max_entries reg
      then (case reg_lru reg of
              [] \<Rightarrow> reg
            | lru_id # others \<Rightarrow> evict_over (drop_entry lru_id (reg\<lparr>reg_lru := others\<rparr>)))
      else reg)"
  by pat_completeness auto

termination evict_over
  by (relation "measure (\<lambda>reg. length (reg_lru reg))") (simp_all add: drop_entry_def)

declare evict_over.simps [simp del]

definition evict_locked :: "timestamp \<Rightarrow> command_registry \<Rightarrow> command_registry" where
  "evict_locked now reg = evict_over (fold (evict_expired_one now) (reg_lru reg) reg)"

subsection \<open>Operations\<close>

definition register_command :: "timestamp \<Rightarrow> command \<Rightarrow> command_registry \<Rightarrow> (registry_exn + unit) \<times> command_registry" where
  "register_command now c reg0 =
     (let reg = evict_locked now reg0 in
      if reg_entry reg (cmd_id c) \<noteq> None then (Inl DuplicateCommand, reg)
      else (Inr (), set_entry
        \<lparr>cr_command_id = cmd_id c, cr_kind = cmd_kind c, cr_status = ST_QUEUED, cr_created_at = cmd_created_at c,
         cr_updated_at = now, cr_resource_id = None, cr_result = None, cr_error_code = None\<rparr> reg))"

definition discard_queued :: "string \<Rightarrow> command_registry \<Rightarrow> command_registry" where
  "discard_queued cid reg =
     (case reg_entry reg cid of
        None \<Rightarrow> reg
      | Some e \<Rightarrow> if cr_status e \<noteq> ST_QUEUED then reg else drop_entry cid reg)"

definition transition_locked ::
  "string \<Rightarrow> cmd_status \<Rightarrow> timestamp \<Rightarrow> string option \<Rightarrow> payload option \<Rightarrow> string option \<Rightarrow> command_registry
     \<Rightarrow> (registry_exn + unit) \<times> command_registry" where
  "transition_locked cid st now resource_id result error_code reg =
     (case reg_entry reg cid of
        None \<Rightarrow> (Inl UnknownCommand, reg)
      | Some current \<Rightarrow>
          if \<not> allowed_transition (cr_status current) st then (Inl IllegalTransition, reg)
          else
            let e = \<lparr>cr_command_id = cid, cr_kind = cr_kind current, cr_status = st,
                     cr_created_at = cr_created_at current, cr_updated_at = now,
                     cr_resource_id = (if resource_id \<noteq> None then resource_id else cr_resource_id current),
                     cr_result = (if result \<noteq> None then result else cr_result current),
                     cr_error_code = (if error_code \<noteq> None then error_code else cr_error_code current)\<rparr>;
                reg' = set_entry e reg
            in (Inr (), if terminal_status st then evict_locked now (touch_lru cid reg') else reg'))"

definition mark_running :: "timestamp \<Rightarrow> string \<Rightarrow> command_registry \<Rightarrow> (registry_exn + unit) \<times> command_registry" where
  "mark_running now cid reg = transition_locked cid ST_RUNNING now None None None reg"

definition mark_failed :: "timestamp \<Rightarrow> string \<Rightarrow> string \<Rightarrow> command_registry \<Rightarrow> (registry_exn + unit) \<times> command_registry" where
  "mark_failed now cid error_code reg = transition_locked cid ST_FAILED now None None (Some error_code) reg"

definition mark_succeeded ::
  "timestamp \<Rightarrow> string \<Rightarrow> string option \<Rightarrow> payload option \<Rightarrow> command_registry \<Rightarrow> (registry_exn + unit) \<times> command_registry" where
  "mark_succeeded now cid resource_id result reg =
     (case result_payload_error (reg_float_text reg) result (reg_max_payload reg) of
        Some error_code \<Rightarrow> transition_locked cid ST_FAILED now None None (Some error_code) reg
      | None \<Rightarrow> transition_locked cid ST_SUCCEEDED now resource_id result None reg)"

definition record_internal_failure :: "timestamp \<Rightarrow> command \<Rightarrow> command_registry \<Rightarrow> command_registry" where
  "record_internal_failure now c reg0 =
     (let reg = evict_locked now reg0;
          entry = reg_entry reg (cmd_id c)
      in if (case entry of None \<Rightarrow> False | Some e \<Rightarrow> terminal_status (cr_status e)) then reg
         else evict_locked now (touch_lru (cmd_id c) (set_entry
           \<lparr>cr_command_id = cmd_id c,
            cr_kind = (case entry of None \<Rightarrow> cmd_kind c | Some e \<Rightarrow> cr_kind e), cr_status = ST_FAILED,
            cr_created_at = (case entry of None \<Rightarrow> cmd_created_at c | Some e \<Rightarrow> cr_created_at e), cr_updated_at = now,
            cr_resource_id = None, cr_result = None, cr_error_code = Some ''command_execution_failed''\<rparr> reg)))"

text \<open>\<open>get\<close>: \<open>move_to_end\<close> of a key that is not in the ordered dict raises \<open>KeyError\<close>.\<close>

definition get_command :: "timestamp \<Rightarrow> string \<Rightarrow> command_registry \<Rightarrow> (registry_exn + command_result option) \<times> command_registry" where
  "get_command now cid reg0 =
     (let reg = evict_locked now reg0 in
      case reg_entry reg cid of
        None \<Rightarrow> (Inr None, reg)
      | Some e \<Rightarrow>
          if terminal_status (cr_status e)
          then (if cid \<in> set (reg_lru reg) then (Inr (Some e), touch_lru cid reg) else (Inl LruKeyError, reg))
          else (Inr (Some e), reg))"

section \<open>Outcomes of handlers\<close>

record command_outcome =
  co_resource_id :: "string option"
  co_result :: "payload option"
  co_error_code :: "string option"

text \<open>\<open>re.match('^[a-z][a-z0-9_]*$', code)\<close>; \<open>$\<close> also matches before a trailing newline.\<close>

definition code_head :: "char \<Rightarrow> bool" where "code_head c \<longleftrightarrow> 97 \<le> ord c \<and> ord c \<le> 122"
definition code_char :: "char \<Rightarrow> bool" where
  "code_char c \<longleftrightarrow> code_head c \<or> (48 \<le> ord c \<and> ord c \<le> 57) \<or> c = CHR ''_''"

definition stable_error_code :: "string \<Rightarrow> bool" where
  "stable_error_code s =
     (let body = (if s \<noteq> [] \<and> last s = CHR 0x0A then butlast s else s)
      in case body of [] \<Rightarrow> False | c # cs \<Rightarrow> code_head c \<and> list_all code_char cs)"

text \<open>\<open>CommandOutcome(...)\<close>; \<open>None\<close> is the \<open>ValueError\<close> of its checks.\<close>

definition make_outcome :: "string option \<Rightarrow> payload option \<Rightarrow> string option \<Rightarrow> command_outcome option" where
  "make_outcome resource_id result error_code =
     (if error_code = None \<or> (stable_error_code (the error_code) \<and> resource_id = None \<and> result = None)
      then Some \<lparr>co_resource_id = resource_id, co_result = result, co_error_code = error_code\<rparr> else None)"

definition outcome_failed :: "string \<Rightarrow> command_outcome" where
  "outcome_failed error_code = \<lparr>co_resource_id = None, co_result = None, co_error_code = Some error_code\<rparr>"

end
