(* ===== verification/Command_Registry_Properties.thy ===== *)
theory Command_Registry_Properties
  imports Command_Registry
begin

text \<open>
  The registry of command results: its invariant, what eviction removes, and the life cycle of a command.
\<close>

section \<open>Eviction as one removal\<close>

definition remove_ids :: "string set \<Rightarrow> command_registry \<Rightarrow> command_registry" where
  "remove_ids K reg = reg\<lparr>reg_entries := filter (\<lambda>e. cr_command_id e \<notin> K) (reg_entries reg),
                          reg_lru := filter (\<lambda>k. k \<notin> K) (reg_lru reg)\<rparr>"

lemma remove_ids_simps [simp]:
  "reg_entries (remove_ids K reg) = filter (\<lambda>e. cr_command_id e \<notin> K) (reg_entries reg)"
  "reg_lru (remove_ids K reg) = filter (\<lambda>k. k \<notin> K) (reg_lru reg)"
  "reg_max_entries (remove_ids K reg) = reg_max_entries reg"
  "reg_ttl (remove_ids K reg) = reg_ttl reg"
  "reg_max_payload (remove_ids K reg) = reg_max_payload reg"
  "reg_float_text (remove_ids K reg) = reg_float_text reg"
  "remove_ids {} reg = reg"
  by (simp_all add: remove_ids_def)

lemma remove_ids_twice [simp]: "remove_ids K (remove_ids L reg) = remove_ids (K \<union> L) reg"
  by (simp add: remove_ids_def conj_ac)

lemma find_by_without:
  "find_by key k (filter (\<lambda>r. key r \<notin> K) rows) = (if k \<in> K then None else find_by key k rows)"
  by (induction rows) auto

lemma reg_entry_remove_ids [simp]:
  "reg_entry (remove_ids K reg) cid = (if cid \<in> K then None else reg_entry reg cid)"
  by (simp add: reg_entry_def find_by_without)

definition expired :: "timestamp \<Rightarrow> command_registry \<Rightarrow> string \<Rightarrow> bool" where
  "expired now reg cid =
     (case reg_entry reg cid of None \<Rightarrow> True | Some e \<Rightarrow> now - cr_updated_at e > reg_ttl reg)"

lemma drop_both_eq: "drop_lru cid (drop_entry cid reg) = remove_ids {cid} reg"
  by (simp add: drop_lru_def drop_entry_def remove_ids_def)

lemma drop_lru_eq: "reg_entry reg cid = None \<Longrightarrow> drop_lru cid reg = remove_ids {cid} reg"
proof -
  assume "reg_entry reg cid = None"
  then have "filter (\<lambda>e. cr_command_id e \<noteq> cid) (reg_entries reg) = reg_entries reg"
    by (auto simp: reg_entry_def find_by_None filter_id_conv)
  then show ?thesis by (simp add: drop_lru_def remove_ids_def)
qed

lemma evict_expired_one_eq:
  "evict_expired_one now cid reg = (if expired now reg cid then remove_ids {cid} reg else reg)"
  by (simp add: evict_expired_one_def expired_def drop_both_eq drop_lru_eq split: option.split)

lemma expired_remove_ids: "cid \<notin> K \<Longrightarrow> expired now (remove_ids K reg) cid = expired now reg cid"
  by (simp add: expired_def split: option.split)

lemma fold_evict_expired:
  "distinct ids \<Longrightarrow>
     fold (evict_expired_one now) ids reg = remove_ids {k \<in> set ids. expired now reg k} reg"
proof (induction ids arbitrary: reg)
  case (Cons k ids)
  show ?case
  proof (cases "expired now reg k")
    case True
    have "expired now (remove_ids {k} reg) x = expired now reg x" if "x \<in> set ids" for x
      using that Cons.prems by (auto intro!: expired_remove_ids)
    then have "{x \<in> set ids. expired now (remove_ids {k} reg) x} \<union> {k} = {x \<in> set (k # ids). expired now reg x}"
      using True by auto
    with Cons True show ?thesis by (simp add: evict_expired_one_eq)
  next
    case False
    then have "{x \<in> set ids. expired now reg x} = {x \<in> set (k # ids). expired now reg x}" by auto
    with Cons False show ?thesis by (simp add: evict_expired_one_eq)
  qed
qed simp

lemma evict_over_eq:
  "distinct (reg_lru reg) \<Longrightarrow>
     evict_over reg = remove_ids (set (take (length (reg_lru reg) - reg_max_entries reg) (reg_lru reg))) reg"
proof (induction reg rule: evict_over.induct)
  case (1 reg)
  show ?case
  proof (cases "length (reg_lru reg) > reg_max_entries reg")
    case False
    then show ?thesis by (subst evict_over.simps) simp
  next
    case True
    then obtain x xs where lru: "reg_lru reg = x # xs" by (cases "reg_lru reg") simp_all
    have x: "x \<notin> set xs" and xs: "filter (\<lambda>k. k \<noteq> x) xs = xs"
      using "1.prems" by (auto simp: lru filter_id_conv)
    have drop: "drop_entry x (reg\<lparr>reg_lru := xs\<rparr>) = remove_ids {x} reg"
      using xs by (simp add: drop_entry_def remove_ids_def lru)
    have "evict_over reg = evict_over (drop_entry x (reg\<lparr>reg_lru := xs\<rparr>))"
      using True by (subst evict_over.simps) (simp add: lru)
    also have "\<dots> = remove_ids (set (take (length xs - reg_max_entries reg) xs)) (remove_ids {x} reg)"
      using "1.IH" [OF True lru] "1.prems" drop lru xs by simp
    finally show ?thesis
      using True by (simp add: lru Suc_diff_le insert_commute)
  qed
qed

definition survivors :: "timestamp \<Rightarrow> command_registry \<Rightarrow> string list" where
  "survivors now reg = filter (\<lambda>k. \<not> expired now reg k) (reg_lru reg)"

definition evicted :: "timestamp \<Rightarrow> command_registry \<Rightarrow> string set" where
  "evicted now reg =
     {k \<in> set (reg_lru reg). expired now reg k}
     \<union> set (take (length (survivors now reg) - reg_max_entries reg) (survivors now reg))"

lemma evict_locked_eq:
  assumes "distinct (reg_lru reg)"
  shows "evict_locked now reg = remove_ids (evicted now reg) reg"
proof -
  let ?E = "{k \<in> set (reg_lru reg). expired now reg k}"
  have s: "reg_lru (remove_ids ?E reg) = survivors now reg"
    unfolding survivors_def remove_ids_simps by (rule filter_cong) simp_all
  moreover have "distinct (survivors now reg)" using assms by (simp add: survivors_def)
  ultimately have "evict_over (remove_ids ?E reg) =
      remove_ids (set (take (length (survivors now reg) - reg_max_entries reg) (survivors now reg))) (remove_ids ?E reg)"
    using evict_over_eq [of "remove_ids ?E reg"] by (simp only: s remove_ids_simps)
  then show ?thesis
    by (simp add: evict_locked_def fold_evict_expired [OF assms] evicted_def Un_commute)
qed

lemma evicted_subset: "evicted now reg \<subseteq> set (reg_lru reg)"
  by (auto simp: evicted_def survivors_def dest: in_set_takeD)

lemma evict_keeps_config [simp]:
  "distinct (reg_lru reg) \<Longrightarrow> reg_max_entries (evict_locked now reg) = reg_max_entries reg"
  "distinct (reg_lru reg) \<Longrightarrow> reg_ttl (evict_locked now reg) = reg_ttl reg"
  by (simp_all add: evict_locked_eq)

lemma evict_lru_eq:
  assumes "distinct (reg_lru reg)"
  shows "reg_lru (evict_locked now reg) =
           drop (length (survivors now reg) - reg_max_entries reg) (survivors now reg)"
proof -
  let ?s = "survivors now reg" let ?n = "length ?s - reg_max_entries reg"
  have d: "distinct ?s" using assms by (simp add: survivors_def)
  have "reg_lru (evict_locked now reg) = filter (\<lambda>k. k \<notin> set (take ?n ?s)) ?s"
    using assms by (auto simp: evict_locked_eq evicted_def survivors_def filter_filter intro!: filter_cong)
  also have "\<dots> = filter (\<lambda>k. k \<notin> set (take ?n ?s)) (take ?n ?s @ drop ?n ?s)" by simp
  also have "\<dots> = drop ?n ?s"
  proof -
    have "set (take ?n ?s) \<inter> set (drop ?n ?s) = {}"
      using d by (metis append_take_drop_id distinct_append)
    then show ?thesis by (simp add: filter_id_conv del: append_take_drop_id) blast
  qed
  finally show ?thesis .
qed

section \<open>The invariant\<close>

text \<open>Ids are unique and the ordered dict tracks exactly the terminal entries.\<close>

definition terminal_ids :: "command_registry \<Rightarrow> string set" where
  "terminal_ids reg = {cid. \<exists>e. reg_entry reg cid = Some e \<and> terminal_status (cr_status e)}"

definition reg_wf :: "command_registry \<Rightarrow> bool" where
  "reg_wf reg \<longleftrightarrow>
     distinct (map cr_command_id (reg_entries reg)) \<and> distinct (reg_lru reg) \<and> set (reg_lru reg) = terminal_ids reg"

definition reg_ok :: "command_registry \<Rightarrow> bool" where
  "reg_ok reg \<longleftrightarrow>
     reg_wf reg \<and> length (reg_lru reg) \<le> reg_max_entries reg \<and> 1 \<le> reg_max_entries reg \<and> 0 \<le> reg_ttl reg"

lemma reg_entry_id: "reg_entry reg cid = Some e \<Longrightarrow> cr_command_id e = cid"
  by (simp add: reg_entry_def) (metis find_by_Some)

lemma reg_entry_set_entry [simp]:
  "reg_entry (set_entry e reg) cid = (if cid = cr_command_id e then Some e else reg_entry reg cid)"
proof (cases "find_by cr_command_id (cr_command_id e) (reg_entries reg)")
  case None
  then show ?thesis
    by (auto simp: reg_entry_def set_entry_def upsert_def find_by_append split: option.split)
next
  case (Some x)
  have "find_by cr_command_id cid (update_where (\<lambda>r. cr_command_id r = cr_command_id e) (\<lambda>_. e) rows) =
      (if cid = cr_command_id e then map_option (\<lambda>_. e) (find_by cr_command_id cid rows) else find_by cr_command_id cid rows)"
    for rows by (induction rows) auto
  with Some show ?thesis by (simp add: reg_entry_def set_entry_def upsert_def)
qed

lemma reg_fields [simp]:
  "reg_lru (set_entry e reg) = reg_lru reg"
  "reg_max_entries (set_entry e reg) = reg_max_entries reg"
  "reg_ttl (set_entry e reg) = reg_ttl reg"
  "reg_entry (touch_lru cid reg) k = reg_entry reg k"
  "reg_lru (touch_lru cid reg) = filter (\<lambda>x. x \<noteq> cid) (reg_lru reg) @ [cid]"
  "reg_entries (touch_lru cid reg) = reg_entries reg"
  "reg_max_entries (touch_lru cid reg) = reg_max_entries reg"
  "reg_ttl (touch_lru cid reg) = reg_ttl reg"
  "reg_lru (drop_entry cid reg) = reg_lru reg"
  "reg_max_entries (drop_entry cid reg) = reg_max_entries reg"
  "reg_ttl (drop_entry cid reg) = reg_ttl reg"
  by (simp_all add: set_entry_def touch_lru_def drop_entry_def reg_entry_def)

lemma reg_entry_drop_entry [simp]:
  "reg_entry (drop_entry cid reg) k = (if k = cid then None else reg_entry reg k)"
  using find_by_without [of cr_command_id k "{cid}" "reg_entries reg"]
  by (simp add: reg_entry_def drop_entry_def)

lemma distinct_set_entry:
  assumes "distinct (map cr_command_id (reg_entries reg))"
  shows "distinct (map cr_command_id (reg_entries (set_entry e reg)))"
proof -
  have "map cr_command_id (update_where (\<lambda>r. cr_command_id r = cr_command_id e) (\<lambda>_. e) rows) = map cr_command_id rows"
    for rows by (induction rows) simp_all
  with assms show ?thesis
    using find_by_None [of cr_command_id "cr_command_id e" "reg_entries reg"]
    by (auto simp: set_entry_def upsert_def image_iff)
qed

lemma distinct_drop_entry:
  "distinct (map cr_command_id (reg_entries reg)) \<Longrightarrow> distinct (map cr_command_id (reg_entries (drop_entry cid reg)))"
  by (simp add: drop_entry_def distinct_map_filter)

lemma reg_wf_remove_ids: "reg_wf reg \<Longrightarrow> reg_wf (remove_ids K reg)"
  by (auto simp: reg_wf_def terminal_ids_def distinct_map_filter)

lemma reg_wf_open: "reg_wf reg \<Longrightarrow> cr_command_id e \<notin> terminal_ids reg \<Longrightarrow> \<not> terminal_status (cr_status e) \<Longrightarrow> reg_wf (set_entry e reg)"
  by (auto simp: reg_wf_def terminal_ids_def distinct_set_entry)

lemma reg_wf_close:
  "reg_wf reg \<Longrightarrow> terminal_status (cr_status e) \<Longrightarrow> reg_wf (touch_lru (cr_command_id e) (set_entry e reg))"
  by (auto simp: reg_wf_def terminal_ids_def distinct_set_entry)

lemma reg_wf_touch: "reg_wf reg \<Longrightarrow> cid \<in> set (reg_lru reg) \<Longrightarrow> reg_wf (touch_lru cid reg)"
  by (auto simp: reg_wf_def terminal_ids_def)

lemma reg_wf_drop_open: "reg_wf reg \<Longrightarrow> cid \<notin> terminal_ids reg \<Longrightarrow> reg_wf (drop_entry cid reg)"
  by (auto simp: reg_wf_def terminal_ids_def distinct_drop_entry)

lemma evict_wf:
  assumes "reg_wf reg" and "1 \<le> reg_max_entries reg" and "0 \<le> reg_ttl reg"
  shows "reg_wf (evict_locked now reg)" and "reg_ok (evict_locked now reg)"
proof -
  have d: "distinct (reg_lru reg)" using assms by (simp add: reg_wf_def)
  show wf: "reg_wf (evict_locked now reg)"
    using reg_wf_remove_ids [OF assms(1)] by (simp add: evict_locked_eq [OF d])
  have "length (reg_lru (evict_locked now reg)) \<le> reg_max_entries reg"
    unfolding evict_lru_eq [OF d] by simp
  with wf d assms show "reg_ok (evict_locked now reg)" by (simp add: reg_ok_def)
qed

lemma evict_entry:
  assumes "reg_wf reg"
  obtains K where "K \<subseteq> terminal_ids reg" "evict_locked now reg = remove_ids K reg"
proof -
  have "distinct (reg_lru reg)" "set (reg_lru reg) = terminal_ids reg" using assms by (simp_all add: reg_wf_def)
  then show thesis using that [of "evicted now reg"] evicted_subset [of now reg] by (simp add: evict_locked_eq)
qed

text \<open>The most recently used entry, just written, survives.\<close>

lemma last_not_evicted:
  assumes "distinct (reg_lru reg)" and "reg_lru reg = xs @ [cid]" and "reg_entry reg cid = Some e"
    and "cr_updated_at e = now" and "0 \<le> reg_ttl reg" and "1 \<le> reg_max_entries reg"
  shows "cid \<notin> evicted now reg"
proof -
  have fresh: "\<not> expired now reg cid" using assms(3-5) by (simp add: expired_def)
  then have s: "survivors now reg = filter (\<lambda>k. \<not> expired now reg k) xs @ [cid]"
    by (simp add: survivors_def assms(2))
  have "cid \<notin> set xs" using assms(1,2) by simp
  moreover have "take (length (survivors now reg) - reg_max_entries reg) (survivors now reg)
      = take (length (survivors now reg) - reg_max_entries reg) (filter (\<lambda>k. \<not> expired now reg k) xs)"
    using assms(6) by (simp add: s)
  ultimately show ?thesis
    using fresh by (auto simp: evicted_def dest: in_set_takeD)
qed

section \<open>Life cycle\<close>

text \<open>What one operation may do to the entry of one command id: appear as queued (or, by the fail-safe, as failed),
  stay, move along a legal transition keeping kind and creation time, be failed by the fail-safe, be discarded while
  queued, or be evicted once terminal, after which the id counts as unknown. A terminal result that is not evicted does
  not change.\<close>

definition failed_by_safeguard :: "command_result \<Rightarrow> bool" where
  "failed_by_safeguard e \<longleftrightarrow> cr_status e = ST_FAILED \<and> cr_error_code e = Some ''command_execution_failed''"

fun entry_change :: "command_result option \<Rightarrow> command_result option \<Rightarrow> bool" where
  "entry_change None None = True"
| "entry_change None (Some e) = (cr_status e = ST_QUEUED \<or> failed_by_safeguard e)"
| "entry_change (Some e) None = (cr_status e \<noteq> ST_RUNNING)"
| "entry_change (Some e) (Some e') =
     (e' = e
      \<or> (cr_kind e' = cr_kind e \<and> cr_created_at e' = cr_created_at e
         \<and> (allowed_transition (cr_status e) (cr_status e')
            \<or> (\<not> terminal_status (cr_status e) \<and> failed_by_safeguard e'))))"

definition lifecycle :: "command_result option \<Rightarrow> command_result option \<Rightarrow> bool" where
  "lifecycle x y \<longleftrightarrow>
     entry_change x y \<or> ((\<exists>e. x = Some e \<and> terminal_status (cr_status e)) \<and> entry_change None y)"

lemma entry_change_refl [simp]: "entry_change x x"
  by (cases x) simp_all

lemma lifecycle_refl [simp]: "lifecycle x x"
  by (simp add: lifecycle_def)

inductive reg_step :: "command_registry \<Rightarrow> command_registry \<Rightarrow> bool" where
  step_register: "reg_step reg (snd (register_command now c reg))"
| step_discard: "reg_step reg (discard_queued cid reg)"
| step_running: "reg_step reg (snd (mark_running now cid reg))"
| step_succeeded: "reg_step reg (snd (mark_succeeded now cid resource_id result reg))"
| step_failed: "reg_step reg (snd (mark_failed now cid error_code reg))"
| step_internal: "reg_step reg (record_internal_failure now c reg)"
| step_get: "reg_step reg (snd (get_command now cid reg))"


definition good_step :: "command_registry \<Rightarrow> command_registry \<Rightarrow> bool" where
  "good_step reg reg' \<longleftrightarrow>
     reg_ok reg' \<and> reg_max_entries reg' = reg_max_entries reg \<and> reg_ttl reg' = reg_ttl reg
     \<and> (\<forall>cid. lifecycle (reg_entry reg cid) (reg_entry reg' cid))"

lemma reg_ok_wf [simp]: "reg_ok reg \<Longrightarrow> reg_wf reg"
  by (simp add: reg_ok_def)

lemma lifecycle_evicted:
  assumes "reg_wf reg" and "K \<subseteq> terminal_ids reg" and "entry_change (reg_entry (remove_ids K reg) cid) y"
  shows "lifecycle (reg_entry reg cid) y"
  using assms by (auto simp: lifecycle_def terminal_ids_def split: if_splits)

text \<open>An operation that evicts first and then changes the registry.\<close>

lemma evict_then:
  assumes ok: "reg_ok reg"
    and f: "\<And>K. reg_ok (remove_ids K reg) \<Longrightarrow>
           reg_ok (f (remove_ids K reg)) \<and> reg_max_entries (f (remove_ids K reg)) = reg_max_entries reg
           \<and> reg_ttl (f (remove_ids K reg)) = reg_ttl reg
           \<and> (\<forall>cid. entry_change (reg_entry (remove_ids K reg) cid) (reg_entry (f (remove_ids K reg)) cid))"
  shows "good_step reg (f (evict_locked now reg))"
proof -
  have wf: "reg_wf reg" using ok by simp
  obtain K where K: "K \<subseteq> terminal_ids reg" "evict_locked now reg = remove_ids K reg"
    using evict_entry [OF wf] by metis
  have "reg_ok (remove_ids K reg)" using evict_wf [OF wf, of now] ok K(2) by (simp add: reg_ok_def)
  from f [OF this] show ?thesis
    unfolding good_step_def K(2) using lifecycle_evicted [OF wf K(1)] by blast
qed

text \<open>An operation that makes an entry terminal and evicts: the entry is there afterwards.\<close>

lemma close_entry:
  fixes e :: command_result
  assumes ok: "reg_wf reg" "1 \<le> reg_max_entries reg" "0 \<le> reg_ttl reg"
    and e: "terminal_status (cr_status e)" "cr_updated_at e = now"
  defines "r \<equiv> touch_lru (cr_command_id e) (set_entry e reg)"
  obtains K where "K \<subseteq> terminal_ids reg" "cr_command_id e \<notin> K" "evict_locked now r = remove_ids K r" "reg_ok (remove_ids K r)"
proof -
  have wf': "reg_wf r" unfolding r_def using reg_wf_close [OF ok(1) e(1)] .
  then have d: "distinct (reg_lru r)" "set (reg_lru r) = terminal_ids r" by (simp_all add: reg_wf_def)
  let ?K = "evicted now r"
  have nK: "cr_command_id e \<notin> ?K"
    using d e ok by (intro last_not_evicted [where xs = "filter (\<lambda>x. x \<noteq> cr_command_id e) (reg_lru reg)" and e = e])
      (simp_all add: r_def)
  have "?K \<subseteq> terminal_ids r" using evicted_subset [of now r] d by simp
  with nK have "?K \<subseteq> terminal_ids reg" by (auto simp: terminal_ids_def r_def split: if_splits)
  moreover have "evict_locked now r = remove_ids ?K r" using evict_locked_eq [OF d(1)] .
  moreover have "reg_ok (remove_ids ?K r)"
    using evict_wf [OF wf', of now] ok calculation(2) by (simp add: r_def)
  ultimately show thesis using that nK by blast
qed

lemma close_step:
  assumes ok: "reg_wf reg" "1 \<le> reg_max_entries reg" "0 \<le> reg_ttl reg"
    and e: "terminal_status (cr_status e)" "cr_updated_at e = now" "entry_change (reg_entry reg (cr_command_id e)) (Some e)"
  shows "good_step reg (evict_locked now (touch_lru (cr_command_id e) (set_entry e reg)))"
    and "reg_entry (evict_locked now (touch_lru (cr_command_id e) (set_entry e reg))) (cr_command_id e) = Some e"
proof -
  obtain K where K: "K \<subseteq> terminal_ids reg" "cr_command_id e \<notin> K"
      "evict_locked now (touch_lru (cr_command_id e) (set_entry e reg)) = remove_ids K (touch_lru (cr_command_id e) (set_entry e reg))"
      "reg_ok (remove_ids K (touch_lru (cr_command_id e) (set_entry e reg)))"
    using close_entry [OF ok e(1,2)] by metis
  have "lifecycle (reg_entry reg cid) (reg_entry (remove_ids K (touch_lru (cr_command_id e) (set_entry e reg))) cid)" for cid
    using K(1,2) e(3) by (auto simp: lifecycle_def terminal_ids_def)
  then show "good_step reg (evict_locked now (touch_lru (cr_command_id e) (set_entry e reg)))"
    using K(3,4) by (simp add: good_step_def)
  show "reg_entry (evict_locked now (touch_lru (cr_command_id e) (set_entry e reg))) (cr_command_id e) = Some e"
    using K(2,3) by simp
qed

lemma good_register:
  assumes "reg_ok reg"
  shows "good_step reg (snd (register_command now c reg))"
proof -
  let ?e = "\<lparr>cr_command_id = cmd_id c, cr_kind = cmd_kind c, cr_status = ST_QUEUED, cr_created_at = cmd_created_at c,
         cr_updated_at = now, cr_resource_id = None, cr_result = None, cr_error_code = None\<rparr>"
  let ?f = "\<lambda>r. if reg_entry r (cmd_id c) \<noteq> None then r else set_entry ?e r"
  have eq: "snd (register_command now c reg) = ?f (evict_locked now reg)"
    by (simp add: register_command_def Let_def)
  show ?thesis
    unfolding eq
  proof (rule evict_then)
    fix K assume "reg_ok (remove_ids K reg)"
    then show "reg_ok (?f (remove_ids K reg)) \<and> reg_max_entries (?f (remove_ids K reg)) = reg_max_entries reg
        \<and> reg_ttl (?f (remove_ids K reg)) = reg_ttl reg
        \<and> (\<forall>cid. entry_change (reg_entry (remove_ids K reg) cid) (reg_entry (?f (remove_ids K reg)) cid))"
      using reg_wf_open [of "remove_ids K reg" ?e]
      by (auto simp: reg_ok_def terminal_ids_def terminal_status_def)
  qed (use assms in simp)
qed

lemma good_discard:
  assumes "reg_ok reg"
  shows "good_step reg (discard_queued cid reg)"
proof (cases "reg_entry reg cid")
  case None
  then show ?thesis using assms by (simp add: discard_queued_def good_step_def)
next
  case (Some e)
  have "reg_wf (drop_entry cid reg)" if "cr_status e = ST_QUEUED"
    using assms Some that by (intro reg_wf_drop_open) (simp_all add: terminal_ids_def terminal_status_def)
  then show ?thesis
    using assms Some by (auto simp: discard_queued_def good_step_def lifecycle_def reg_ok_def)
qed

lemma good_transition:
  assumes "reg_ok reg"
  shows "good_step reg (snd (transition_locked cid st now resource_id result error_code reg))"
proof (cases "\<exists>current. reg_entry reg cid = Some current \<and> allowed_transition (cr_status current) st")
  case False
  then show ?thesis
    using assms by (auto simp: transition_locked_def good_step_def split: option.split)
next
  case True
  then obtain current where cur: "reg_entry reg cid = Some current" "allowed_transition (cr_status current) st" by blast
  let ?e = "\<lparr>cr_command_id = cid, cr_kind = cr_kind current, cr_status = st, cr_created_at = cr_created_at current,
             cr_updated_at = now, cr_resource_id = (if resource_id \<noteq> None then resource_id else cr_resource_id current),
             cr_result = (if result \<noteq> None then result else cr_result current),
             cr_error_code = (if error_code \<noteq> None then error_code else cr_error_code current)\<rparr>"
  have nt: "\<not> terminal_status (cr_status current)"
    using cur(2) by (cases "cr_status current") (simp_all add: terminal_status_def)
  show ?thesis
  proof (cases "terminal_status st")
    case t: True
    then have "snd (transition_locked cid st now resource_id result error_code reg)
        = evict_locked now (touch_lru (cr_command_id ?e) (set_entry ?e reg))"
      using cur by (simp add: transition_locked_def Let_def)
    then show ?thesis
      using close_step(1) [of reg ?e now] assms t cur by (simp add: reg_ok_def)
  next
    case f: False
    have wf: "reg_wf (set_entry ?e reg)"
      using assms f cur(1) nt by (intro reg_wf_open) (auto simp: terminal_ids_def)
    have eq: "snd (transition_locked cid st now resource_id result error_code reg) = set_entry ?e reg"
      using cur f by (simp add: transition_locked_def Let_def)
    have lc: "lifecycle (reg_entry reg k) (reg_entry (set_entry ?e reg) k)" for k
      using cur by (cases "k = cid") (simp_all add: lifecycle_def)
    have "reg_ok (set_entry ?e reg)"
      using assms unfolding reg_ok_def reg_fields by (intro conjI wf) simp_all
    then show ?thesis
      unfolding eq good_step_def by (intro conjI allI lc) simp_all
  qed
qed

definition safeguard_entry :: "timestamp \<Rightarrow> command \<Rightarrow> command_result option \<Rightarrow> command_result" where
  "safeguard_entry now c entry =
     \<lparr>cr_command_id = cmd_id c, cr_kind = (case entry of None \<Rightarrow> cmd_kind c | Some e \<Rightarrow> cr_kind e), cr_status = ST_FAILED,
      cr_created_at = (case entry of None \<Rightarrow> cmd_created_at c | Some e \<Rightarrow> cr_created_at e), cr_updated_at = now,
      cr_resource_id = None, cr_result = None, cr_error_code = Some ''command_execution_failed''\<rparr>"

lemma record_internal_failure_eq:
  "record_internal_failure now c reg0 =
     (let reg = evict_locked now reg0; e = safeguard_entry now c (reg_entry reg (cmd_id c))
      in if cmd_id c \<in> terminal_ids reg then reg else evict_locked now (touch_lru (cr_command_id e) (set_entry e reg)))"
  by (auto simp: record_internal_failure_def safeguard_entry_def terminal_ids_def Let_def split: option.splits)

lemma good_step_evict_trans:
  assumes "reg_wf reg" "K \<subseteq> terminal_ids reg" "good_step (remove_ids K reg) reg'"
    and "\<And>cid. entry_change (reg_entry (remove_ids K reg) cid) (reg_entry reg' cid)"
  shows "good_step reg reg'"
  using assms lifecycle_evicted [OF assms(1,2)] by (simp add: good_step_def)

lemma internal_cases:
  assumes ok: "reg_ok reg"
  obtains (kept) K where "K \<subseteq> terminal_ids reg" "record_internal_failure now c reg = remove_ids K reg"
      "reg_ok (remove_ids K reg)" "cmd_id c \<in> terminal_ids (remove_ids K reg)"
  | (failed) K where "K \<subseteq> terminal_ids reg" "reg_ok (remove_ids K reg)" "cmd_id c \<notin> terminal_ids (remove_ids K reg)"
      "record_internal_failure now c reg =
         (let e = safeguard_entry now c (reg_entry (remove_ids K reg) (cmd_id c))
          in evict_locked now (touch_lru (cr_command_id e) (set_entry e (remove_ids K reg))))"
proof -
  have wf: "reg_wf reg" using ok by simp
  obtain K where K: "K \<subseteq> terminal_ids reg" "evict_locked now reg = remove_ids K reg"
    using evict_entry [OF wf] by metis
  have "reg_ok (remove_ids K reg)" using evict_wf [OF wf, of now] ok K(2) by (simp add: reg_ok_def)
  then show thesis
    using that K by (cases "cmd_id c \<in> terminal_ids (remove_ids K reg)") (simp_all add: record_internal_failure_eq)
qed

lemma safeguard_change:
  assumes "cid \<notin> terminal_ids reg"
  shows "entry_change (reg_entry reg cid) (Some (safeguard_entry now c (reg_entry reg cid)))"
  using assms
  by (cases "reg_entry reg cid") (simp_all add: safeguard_entry_def failed_by_safeguard_def terminal_ids_def)

lemma good_internal:
  assumes ok: "reg_ok reg"
  shows "good_step reg (record_internal_failure now c reg)"
  using ok
proof (cases rule: internal_cases [where now = now and c = c])
  case (kept K)
  then show ?thesis
    using lifecycle_evicted [of reg K] ok by (simp add: good_step_def)
next
  case (failed K)
  let ?r = "remove_ids K reg" let ?e = "safeguard_entry now c (reg_entry ?r (cmd_id c))"
  have e: "cr_command_id ?e = cmd_id c" "terminal_status (cr_status ?e)" "cr_updated_at ?e = now"
    by (simp_all add: safeguard_entry_def terminal_status_def)
  obtain L where L: "L \<subseteq> terminal_ids ?r" "cmd_id c \<notin> L"
      "record_internal_failure now c reg = remove_ids L (touch_lru (cmd_id c) (set_entry ?e ?r))"
      "reg_ok (record_internal_failure now c reg)"
    using close_entry [of ?r ?e now] failed e unfolding reg_ok_def Let_def by metis
  have "lifecycle (reg_entry reg k) (reg_entry (record_internal_failure now c reg) k)" for k
  proof (cases "k = cmd_id c")
    case True
    then show ?thesis
      using lifecycle_evicted [of reg K k] safeguard_change [OF failed(3)] ok failed(1) L(2,3) e(1) by simp
  next
    case False
    then show ?thesis
      using failed(1) L(1,3) e(1) by (auto simp: lifecycle_def terminal_ids_def terminal_status_def)
  qed
  with L(3,4) show ?thesis by (simp add: good_step_def)
qed

lemma good_get:
  assumes "reg_ok reg"
  shows "good_step reg (snd (get_command now cid reg))"
proof -
  let ?f = "\<lambda>r. case reg_entry r cid of None \<Rightarrow> r | Some e \<Rightarrow>
      if terminal_status (cr_status e) \<and> cid \<in> set (reg_lru r) then touch_lru cid r else r"
  have eq: "snd (get_command now cid reg) = ?f (evict_locked now reg)"
    by (simp add: get_command_def Let_def split: option.split)
  show ?thesis
    unfolding eq
  proof (rule evict_then)
    fix K assume ok: "reg_ok (remove_ids K reg)"
    have "length (filter (\<lambda>x. x \<noteq> cid) (reg_lru r)) < length (reg_lru r)" if "cid \<in> set (reg_lru r)" for r
      using that by (simp add: length_filter_less)
    then have "length (reg_lru (touch_lru cid r)) \<le> length (reg_lru r)" if "cid \<in> set (reg_lru r)" for r
      using that by (simp add: Suc_le_eq)
    then have "reg_ok (touch_lru cid r)" if "cid \<in> set (reg_lru r)" "reg_ok r" for r
      using that reg_wf_touch [of r cid] order.trans unfolding reg_ok_def reg_fields(7,8) by blast
    from this [OF _ ok]
    show "reg_ok (?f (remove_ids K reg)) \<and> reg_max_entries (?f (remove_ids K reg)) = reg_max_entries reg
        \<and> reg_ttl (?f (remove_ids K reg)) = reg_ttl reg
        \<and> (\<forall>k. entry_change (reg_entry (remove_ids K reg) k) (reg_entry (?f (remove_ids K reg)) k))"
      using ok by (simp split: option.split)
  qed (use assms in simp)
qed


lemma reg_step_good: "reg_step reg reg' \<Longrightarrow> reg_ok reg \<Longrightarrow> good_step reg reg'"
  by (induction rule: reg_step.induct)
    (auto simp: mark_running_def mark_succeeded_def mark_failed_def split: option.split
      intro: good_register good_discard good_transition good_internal good_get)

lemma reg_ok_new: "reg_ok (new_registry F)"
  by (simp add: reg_ok_def reg_wf_def new_registry_def terminal_ids_def reg_entry_def
      COMMAND_RESULT_MAX_ENTRIES_def COMMAND_RESULT_TTL_SECONDS_def)

lemma reachable_reg_ok:
  "reg_step\<^sup>*\<^sup>* (new_registry F) reg \<Longrightarrow>
     reg_ok reg \<and> reg_max_entries reg = COMMAND_RESULT_MAX_ENTRIES \<and> reg_ttl reg = COMMAND_RESULT_TTL_SECONDS"
proof (induction rule: rtranclp_induct)
  case base
  then show ?case using reg_ok_new [of F] by (simp add: new_registry_def)
next
  case (step r r')
  then show ?case using reg_step_good [of r r'] by (simp add: good_step_def)
qed

lemma terminal_count:
  assumes "reg_wf reg"
  shows "length (filter (\<lambda>e. terminal_status (cr_status e)) (reg_entries reg)) = length (reg_lru reg)"
proof -
  let ?es = "filter (\<lambda>e. terminal_status (cr_status e)) (reg_entries reg)"
  have d: "distinct (map cr_command_id (reg_entries reg))" and l: "distinct (reg_lru reg)"
    using assms by (simp_all add: reg_wf_def)
  have "reg_entry reg (cr_command_id e) = Some e" if "e \<in> set (reg_entries reg)" for e
    using find_by_unique [OF d that] by (simp add: reg_entry_def)
  moreover have "e \<in> set (reg_entries reg) \<and> cr_command_id e = cid" if "reg_entry reg cid = Some e" for e cid
    using that find_by_Some by (fastforce simp: reg_entry_def)
  ultimately have "set (map cr_command_id ?es) = terminal_ids reg"
    by (force simp: terminal_ids_def)
  then have "card (set (map cr_command_id ?es)) = card (set (reg_lru reg))"
    using assms by (simp add: reg_wf_def)
  then show ?thesis
    using distinct_card [OF l] distinct_card [of "map cr_command_id ?es"] d by (simp add: distinct_map_filter)
qed

lemma get_never_raises:
  assumes "reg_ok reg"
  shows "\<exists>r. fst (get_command now cid reg) = Inr r"
proof -
  have "reg_wf (evict_locked now reg)" using evict_wf assms by (simp add: reg_ok_def)
  then have "set (reg_lru (evict_locked now reg)) = terminal_ids (evict_locked now reg)" by (simp add: reg_wf_def)
  then show ?thesis by (auto simp: get_command_def Let_def terminal_ids_def split: option.split)
qed

lemma get_fresh:
  assumes "reg_ok reg" and "fst (get_command now cid reg) = Inr (Some e)" and "terminal_status (cr_status e)"
  shows "now - cr_updated_at e \<le> reg_ttl reg"
proof -
  have d: "distinct (reg_lru reg)" "set (reg_lru reg) = terminal_ids reg" using assms(1) by (simp_all add: reg_ok_def reg_wf_def)
  have e: "reg_entry (evict_locked now reg) cid = Some e"
    using assms(2,3) by (auto simp: get_command_def Let_def split: option.splits if_splits)
  then have ev: "cid \<notin> evicted now reg" "reg_entry reg cid = Some e"
    by (auto simp: evict_locked_eq [OF d(1)] split: if_splits)
  then have "cid \<in> set (reg_lru reg)" using assms(3) d(2) by (simp add: terminal_ids_def)
  with ev show ?thesis by (simp add: evicted_def expired_def)
qed

text \<open>Whatever sequence of operations ran on the command registry, at most 256 results are terminal, polling never
  raises and never returns a terminal result older than an hour, and one more operation changes each command only
  along its life cycle: a terminal result is kept as it is or evicted, a running command is neither discarded nor
  evicted.\<close>

theorem registry_lifecycle:
  assumes "reg_step\<^sup>*\<^sup>* (new_registry F) reg"
  shows "length (filter (\<lambda>e. terminal_status (cr_status e)) (reg_entries reg)) \<le> 256
    \<and> (\<exists>r. fst (get_command now cid reg) = Inr r)
    \<and> (fst (get_command now cid reg) = Inr (Some e) \<longrightarrow> terminal_status (cr_status e) \<longrightarrow> now - cr_updated_at e \<le> 3600)
    \<and> (reg_step reg reg' \<longrightarrow> lifecycle (reg_entry reg cid) (reg_entry reg' cid))"
proof -
  have ok: "reg_ok reg" "reg_max_entries reg = 256" "reg_ttl reg = 3600"
    using reachable_reg_ok [OF assms] by (simp_all add: COMMAND_RESULT_MAX_ENTRIES_def COMMAND_RESULT_TTL_SECONDS_def)
  have "length (filter (\<lambda>e. terminal_status (cr_status e)) (reg_entries reg)) \<le> 256"
    using ok terminal_count [of reg] by (simp add: reg_ok_def)
  moreover have "fst (get_command now cid reg) = Inr (Some e) \<longrightarrow> terminal_status (cr_status e) \<longrightarrow> now - cr_updated_at e \<le> 3600"
    using get_fresh [OF ok(1)] ok(3) by simp
  moreover have "reg_step reg reg' \<longrightarrow> lifecycle (reg_entry reg cid) (reg_entry reg' cid)"
    using reg_step_good [OF _ ok(1)] by (simp add: good_step_def)
  ultimately show ?thesis using get_never_raises [OF ok(1)] by blast
qed

definition sample_command :: command where
  "sample_command = \<lparr>cmd_id = ''c1'', cmd_kind = ''provider_check'', cmd_payload = [], cmd_created_at = 0\<rparr>"

definition sample_registry :: command_registry where
  "sample_registry = snd (mark_running 1 ''c1'' (snd (register_command 0 sample_command (new_registry (\<lambda>_. [])))))"

lemma sample_registry_reachable: "reg_step\<^sup>*\<^sup>* (new_registry (\<lambda>_. [])) sample_registry"
  unfolding sample_registry_def
  by (meson converse_rtranclp_into_rtranclp r_into_rtranclp step_register step_running)

lemma sample_registry_entry: "reg_entry sample_registry ''c1'' \<noteq> None"
  by (simp add: sample_registry_def register_command_def mark_running_def transition_locked_def new_registry_def
      sample_command_def evict_locked_def evict_over.simps reg_entry_def set_entry_def upsert_def terminal_status_def)

theorem registry_lifecycle_witness:
  "length (filter (\<lambda>e. terminal_status (cr_status e)) (reg_entries sample_registry)) \<le> 256
   \<and> lifecycle (reg_entry sample_registry ''c1'') (reg_entry (snd (mark_failed 2 ''c1'' ''x'' sample_registry)) ''c1'')
   \<and> reg_entry sample_registry ''c1'' \<noteq> None"
  using registry_lifecycle [OF sample_registry_reachable] step_failed sample_registry_entry by blast

end
