(* ===== verification/Idempotency.thy ===== *)
theory Idempotency
  imports Relay
begin

text \<open>
  Idempotent creation of attachments, \<open>src/meshsrv/attachments/idempotency.py\<close>: the canonical form and hash of a create
  request, and the map of reservations that decides whether a request with a known \<open>client_request_id\<close> is a replay or
  a conflict. Each operation of the map runs under its lock and is one step.
\<close>

section \<open>Canonical hash\<close>

definition id_char :: "char \<Rightarrow> bool" where
  "id_char c \<longleftrightarrow> (65 \<le> ord c \<and> ord c \<le> 90) \<or> (97 \<le> ord c \<and> ord c \<le> 122) \<or> (48 \<le> ord c \<and> ord c \<le> 57)
     \<or> c = CHR ''_'' \<or> c = CHR ''-''"

definition validate_client_request_id :: "string \<Rightarrow> bool" where
  "validate_client_request_id s \<longleftrightarrow> list_all id_char s \<and> 1 \<le> length s \<and> length s \<le> 64"

definition validate_canonical_hash :: "string \<Rightarrow> bool" where
  "validate_canonical_hash s \<longleftrightarrow>
     length s = 64 \<and> list_all (\<lambda>c. (48 \<le> ord c \<and> ord c \<le> 57) \<or> (97 \<le> ord c \<and> ord c \<le> 102)) s"

record create_request =
  rq_source_address :: string
  rq_adapter_id :: string
  rq_connector_profile_id :: string
  rq_route_type :: string
  rq_route_id :: string
  rq_provider_id :: string
  rq_comment :: "string option"
  rq_hard_ttl_seconds :: int
  rq_download_grace_seconds :: int
  rq_source_name :: string
  rq_mime_type :: string

definition request_payload :: "create_request \<Rightarrow> json" where
  "request_payload r = JObj
     [(''recipient'', JObj [(''source_address'', JStr (rq_source_address r))]),
      (''adapter_id'', JStr (rq_adapter_id r)),
      (''connector_profile_id'', JStr (rq_connector_profile_id r)),
      (''route_type'', JStr (rq_route_type r)),
      (''route_id'', JStr (rq_route_id r)),
      (''provider_id'', JStr (rq_provider_id r)),
      (''comment'', (case rq_comment r of None \<Rightarrow> JNull | Some c \<Rightarrow> JStr c)),
      (''hard_ttl_seconds'', JInt (rq_hard_ttl_seconds r)),
      (''download_grace_seconds'', JInt (rq_download_grace_seconds r)),
      (''source_name'', JStr (rq_source_name r)),
      (''mime_type'', JStr (rq_mime_type r))]"

definition build_canonical_json :: "create_request \<Rightarrow> bytes" where
  "build_canonical_json r = utf8_encode (json_dumps (normalize_json (request_payload r)))"

definition HASH_VERSION_PREFIX :: bytes where
  "HASH_VERSION_PREFIX = map (\<lambda>c. of_nat (ord c)) ''MCA-IDEMPOTENCY-v1'' @ [0]"

text \<open>The caller passes the lower-case hex digest of the staged file, which is ASCII.\<close>

definition compute_canonical_hash :: "ext \<Rightarrow> string \<Rightarrow> bytes \<Rightarrow> string" where
  "compute_canonical_hash X file_sha256_ascii canonical_json_bytes =
     hex_of (sha256 X (HASH_VERSION_PREFIX @ map (\<lambda>c. of_nat (ord c)) file_sha256_ascii @ canonical_json_bytes))"

section \<open>Reservations\<close>

record pending_reservation =
  pr_canonical_hash :: string
  pr_attachment_id :: string
  pr_command_id :: string

record idempotency_entry =
  ix_attachment_id :: string
  ix_canonical_hash :: string
  ix_created_at :: timestamp

datatype reservation_outcome =
    Fresh pending_reservation
  | ReplayPending pending_reservation
  | ReplayCommitted idempotency_entry
  | Conflict string

type_synonym pending_map = "string \<Rightarrow> pending_reservation option"
type_synonym committed_index = "string \<Rightarrow> idempotency_entry option"

definition reserve :: "string \<Rightarrow> pending_reservation \<Rightarrow> committed_index \<Rightarrow> pending_map \<Rightarrow> reservation_outcome \<times> pending_map" where
  "reserve client_request_id reservation committed_entries pending =
     (case pending client_request_id of
        Some existing \<Rightarrow>
          (if pr_canonical_hash existing = pr_canonical_hash reservation then ReplayPending existing
           else Conflict (pr_canonical_hash existing), pending)
      | None \<Rightarrow>
          (case committed_entries client_request_id of
             Some committed \<Rightarrow>
               (if ix_canonical_hash committed = pr_canonical_hash reservation then ReplayCommitted committed
                else Conflict (ix_canonical_hash committed), pending)
           | None \<Rightarrow> (Fresh reservation, pending(client_request_id \<mapsto> reservation))))"

definition remove_reservation :: "string \<Rightarrow> pending_map \<Rightarrow> pending_map" where
  "remove_reservation client_request_id pending = pending(client_request_id := None)"

definition remove_if_matches :: "string \<Rightarrow> pending_reservation \<Rightarrow> pending_map \<Rightarrow> bool \<times> pending_map" where
  "remove_if_matches client_request_id reservation pending =
     (case pending client_request_id of
        Some current \<Rightarrow>
          if pr_command_id current = pr_command_id reservation then (True, pending(client_request_id := None))
          else (False, pending)
      | None \<Rightarrow> (False, pending))"

definition replace_reservation :: "string \<Rightarrow> pending_reservation \<Rightarrow> pending_map \<Rightarrow> pending_map" where
  "replace_reservation client_request_id reservation pending = pending(client_request_id \<mapsto> reservation)"

end
