(* ===== verification/Command_Pipeline.thy ===== *)
theory Command_Pipeline
  imports Command_Registry_Properties Idempotency Key_Exchange
begin

text \<open>
  How a mutation travels from a request thread to the worker: the facade's \<open>submit\<close> and \<open>submit_create\<close>
  (\<open>src/meshsrv/attachments/facade.py\<close>), the dispatcher (\<open>src/meshsrv/attachments/dispatch.py\<close>), the markers of queued
  key requests (\<open>src/meshsrv/attachments/key_request_snapshot.py\<close>), and the worker's drain of the command queue
  (\<open>_drain_commands\<close> and \<open>_execute_command\<close> of \<open>src/meshsrv/attachments/service.py\<close>). The handlers are a table from kinds to
  functions on the worker's own state, as in the code.
\<close>

section \<open>The facade\<close>

record facade =
  fc_queue :: command_queue
  fc_registry :: command_registry
  fc_pending :: pending_map
  fc_committed :: committed_index
  fc_ready :: bool
  fc_wake :: bool
  fc_markers :: "string \<Rightarrow> string option"

datatype facade_exn = FacadeNotReady | CommandQueueFull | RegistryRaised registry_exn

definition mark_queued :: "string \<Rightarrow> string \<Rightarrow> facade \<Rightarrow> facade" where
  "mark_queued command_id contact_id f = f\<lparr>fc_markers := (fc_markers f)(command_id \<mapsto> contact_id)\<rparr>"

definition mark_drained :: "string \<Rightarrow> facade \<Rightarrow> facade" where
  "mark_drained command_id f = f\<lparr>fc_markers := (fc_markers f)(command_id := None)\<rparr>"

text \<open>The address of a key request: a non-empty string under \<open>contact_id\<close>.\<close>

definition key_request_contact :: "command \<Rightarrow> string option" where
  "key_request_contact c =
     (if cmd_kind c \<noteq> ''contact_request_key'' then None
      else case obj_get (cmd_payload c) ''contact_id'' of
             WStr s \<Rightarrow> if s = [] then None else Some s
           | _ \<Rightarrow> None)"

definition note_key_request_queued :: "command \<Rightarrow> facade \<Rightarrow> facade" where
  "note_key_request_queued c f =
     (case key_request_contact c of None \<Rightarrow> f | Some contact_id \<Rightarrow> mark_queued (cmd_id c) contact_id f)"

definition note_key_request_not_queued :: "command \<Rightarrow> facade \<Rightarrow> facade" where
  "note_key_request_not_queued c f =
     (case key_request_contact c of None \<Rightarrow> f | Some contact_id \<Rightarrow> mark_drained (cmd_id c) f)"

definition submit :: "timestamp \<Rightarrow> command \<Rightarrow> facade \<Rightarrow> (facade_exn + string) \<times> facade" where
  "submit now c f =
     (if \<not> fc_ready f then (Inl FacadeNotReady, f)
      else case register_command now c (fc_registry f) of
        (Inl e, reg) \<Rightarrow> (Inl (RegistryRaised e), f\<lparr>fc_registry := reg\<rparr>)
      | (Inr _, reg) \<Rightarrow>
          let g = note_key_request_queued c (f\<lparr>fc_registry := reg\<rparr>) in
          (case queue_put c (fc_queue g) of
             None \<Rightarrow> (Inl CommandQueueFull,
                      note_key_request_not_queued c (g\<lparr>fc_registry := discard_queued (cmd_id c) (fc_registry g)\<rparr>))
           | Some q \<Rightarrow> (Inr (cmd_id c), g\<lparr>fc_queue := q, fc_wake := True\<rparr>)))"

text \<open>
  \<open>submit_create\<close> reads the published index first (\<open>committed_idempotency()\<close>) and decides later under the lock of the pending
  map, so \<open>committed\<close> is the index as it was at the read; by then the worker may have published another one and released
  a reservation.
\<close>

definition submit_create ::
  "timestamp \<Rightarrow> command \<Rightarrow> string \<Rightarrow> pending_reservation \<Rightarrow> committed_index \<Rightarrow> facade \<Rightarrow> (facade_exn + reservation_outcome) \<times> facade" where
  "submit_create now c client_request_id reservation committed f =
     (if \<not> fc_ready f then (Inl FacadeNotReady, f)
      else case reserve client_request_id reservation committed (fc_pending f) of
        (Fresh r, pending) \<Rightarrow>
          (let g = f\<lparr>fc_pending := pending\<rparr>;
               unreserve = (\<lambda>h. h\<lparr>fc_pending := snd (remove_if_matches client_request_id reservation (fc_pending h))\<rparr>)
           in case register_command now c (fc_registry g) of
                (Inl e, reg) \<Rightarrow> (Inl (RegistryRaised e), unreserve (g\<lparr>fc_registry := reg\<rparr>))
              | (Inr _, reg) \<Rightarrow>
                  (case queue_put c (fc_queue g) of
                     None \<Rightarrow> (Inl CommandQueueFull, unreserve (g\<lparr>fc_registry := discard_queued (cmd_id c) reg\<rparr>))
                   | Some q \<Rightarrow> (Inr (Fresh r), g\<lparr>fc_registry := reg, fc_queue := q, fc_wake := True\<rparr>)))
      | (outcome, pending) \<Rightarrow> (Inr outcome, f\<lparr>fc_pending := pending\<rparr>))"

section \<open>The worker\<close>

datatype 'w handler_end = Returned command_outcome 'w | ReturnedOther 'w | Raised 'w

record 'w worker =
  wk_handlers :: "string \<Rightarrow> (command \<Rightarrow> 'w \<Rightarrow> 'w handler_end) option"
  wk_vault_locked :: "'w \<Rightarrow> bool"
  wk_rollback :: "'w \<Rightarrow> 'w"

definition UNSUPPORTED_COMMAND_KIND :: string where "UNSUPPORTED_COMMAND_KIND = ''unsupported_command_kind''"
definition COMMAND_EXECUTION_FAILED :: string where "COMMAND_EXECUTION_FAILED = ''command_execution_failed''"

definition dispatch :: "'w worker \<Rightarrow> command \<Rightarrow> 'w \<Rightarrow> 'w handler_end" where
  "dispatch K c w =
     (case wk_handlers K (cmd_kind c) of
        None \<Rightarrow> Returned (outcome_failed UNSUPPORTED_COMMAND_KIND) w
      | Some handler \<Rightarrow> handler c w)"

definition VAULT_REQUIRED_COMMAND_KINDS :: "string list" where
  "VAULT_REQUIRED_COMMAND_KINDS =
     [''attachment_create'', ''attachment_retry'', ''attachment_download'', ''attachment_save'', ''attachment_reject'',
      ''attachment_cancel'', ''attachment_revoke'', ''contact_request_key'', ''contact_confirm'',
      ''contact_accept_key_change'', ''contact_reject_key_change'', ''provider_set_upload_token'']"

text \<open>A registry call that raises is recovered by the fail-safe; \<open>t\<close> is the clock of the call and \<open>t'\<close> that of the
  recovery.\<close>

definition or_recover :: "timestamp \<Rightarrow> command \<Rightarrow> (registry_exn + unit) \<times> command_registry \<Rightarrow> command_registry" where
  "or_recover t' c result =
     (case result of (Inr _, reg) \<Rightarrow> reg | (Inl _, reg) \<Rightarrow> record_internal_failure t' c reg)"

definition record_succeeded :: "timestamp \<Rightarrow> timestamp \<Rightarrow> command \<Rightarrow> command_outcome \<Rightarrow> command_registry \<Rightarrow> command_registry" where
  "record_succeeded t t' c outcome reg =
     or_recover t' c (mark_succeeded t (cmd_id c) (co_resource_id outcome) (co_result outcome) reg)"

definition record_failed :: "timestamp \<Rightarrow> timestamp \<Rightarrow> command \<Rightarrow> string \<Rightarrow> command_registry \<Rightarrow> command_registry" where
  "record_failed t t' c error_code reg = or_recover t' c (mark_failed t (cmd_id c) error_code reg)"

text \<open>What follows \<open>mark_running\<close>: the handler and the record of its outcome.\<close>

definition run_handler :: "'w worker \<Rightarrow> timestamp \<Rightarrow> timestamp \<Rightarrow> command \<Rightarrow> command_registry \<times> 'w \<Rightarrow> command_registry \<times> 'w" where
  "run_handler K t t' c s =
     (case s of (reg, w) \<Rightarrow>
        if cmd_kind c \<in> set VAULT_REQUIRED_COMMAND_KINDS \<and> wk_vault_locked K w
        then (record_failed t t' c ''vault_locked'' reg, w)
        else case dispatch K c w of
               Raised w' \<Rightarrow> (record_failed t t' c COMMAND_EXECUTION_FAILED reg, wk_rollback K w')
             | ReturnedOther w' \<Rightarrow> (record_failed t t' c COMMAND_EXECUTION_FAILED reg, w')
             | Returned outcome w' \<Rightarrow>
                 (case co_error_code outcome of
                    None \<Rightarrow> (record_succeeded t t' c outcome reg, w')
                  | Some code \<Rightarrow> (record_failed t t' c code reg, w')))"

definition execute_command :: "'w worker \<Rightarrow> (nat \<Rightarrow> timestamp) \<Rightarrow> command \<Rightarrow> command_registry \<times> 'w \<Rightarrow> command_registry \<times> 'w" where
  "execute_command K clk c s =
     (case s of (reg, w) \<Rightarrow>
        case mark_running (clk 0) (cmd_id c) reg of
          (Inl _, reg') \<Rightarrow> (record_internal_failure (clk 1) c reg', w)
        | (Inr _, reg') \<Rightarrow> run_handler K (clk 2) (clk 3) c (reg', w))"

definition note_key_request_drained :: "command \<Rightarrow> facade \<Rightarrow> facade" where
  "note_key_request_drained c f =
     (if cmd_kind c \<noteq> ''contact_request_key'' then f else mark_drained (cmd_id c) f)"

fun drain_loop :: "nat \<Rightarrow> 'w worker \<Rightarrow> (nat \<Rightarrow> nat \<Rightarrow> timestamp) \<Rightarrow> facade \<times> 'w \<Rightarrow> facade \<times> 'w" where
  "drain_loop 0 K clk s = s"
| "drain_loop (Suc n) K clk (f, w) =
     (case queue_get (fc_queue f) of
        None \<Rightarrow> (f, w)
      | Some (c, q) \<Rightarrow>
          (case execute_command K (clk n) c (fc_registry f, w) of (reg, w') \<Rightarrow>
             drain_loop n K clk (note_key_request_drained c (f\<lparr>fc_queue := q, fc_registry := reg\<rparr>), w')))"

definition drain_commands :: "'w worker \<Rightarrow> (nat \<Rightarrow> nat \<Rightarrow> timestamp) \<Rightarrow> facade \<times> 'w \<Rightarrow> facade \<times> 'w" where
  "drain_commands K clk s = drain_loop MAX_COMMANDS_PER_TICK K clk s"

section \<open>The state of key requests\<close>

text \<open>\<open>idle\<close> is the state of an address that the snapshot does not list.\<close>

datatype key_request_state = KR_QUEUED | KR_WAITING_RESPONSE | KR_RETRY_AVAILABLE | KR_NO_ANSWER

record key_request_capability =
  krc_state :: key_request_state
  krc_can_request_key :: bool
  krc_retry_attempt :: int
  krc_retry_max :: int
  krc_retry_due_at :: "timestamp option"

definition retry_in_s :: "key_request_capability \<Rightarrow> timestamp \<Rightarrow> int option" where
  "retry_in_s c now = seconds_until_next (krc_retry_due_at c) now"

definition list_key_request_sent_at :: "ke_config \<Rightarrow> ke_state \<Rightarrow> (string \<times> timestamp) list" where
  "list_key_request_sent_at K st =
     List.map_filter (\<lambda>c. case c_last_request_sent_at c of
         Some t \<Rightarrow> if c_key c = addr_key K (c_source_address c) then Some (c_source_address c, t) else None
       | None \<Rightarrow> None) (ke_contacts st)"

text \<open>One address of \<open>KeyRequestStatePublisher.refresh\<close>; \<open>None\<close> leaves it out of the snapshot.\<close>

definition key_request_base ::
  "timestamp \<Rightarrow> timestamp \<Rightarrow> timestamp option \<Rightarrow> (int \<times> timestamp option) option \<Rightarrow> bool \<Rightarrow> key_request_capability option" where
  "key_request_base min_gap now sent_at series bound =
     (case (if bound then (0, None) else case series of None \<Rightarrow> (0, None) | Some s \<Rightarrow> s) of (attempts, next_retry_at) \<Rightarrow>
        if is_running attempts next_retry_at
        then Some \<lparr>krc_state = KR_WAITING_RESPONSE, krc_can_request_key = False, krc_retry_attempt = attempts,
                   krc_retry_max = MAX_ATTEMPTS, krc_retry_due_at = next_retry_at\<rparr>
        else if is_no_answer attempts next_retry_at
        then Some \<lparr>krc_state = KR_NO_ANSWER, krc_can_request_key = True, krc_retry_attempt = attempts,
                   krc_retry_max = MAX_ATTEMPTS, krc_retry_due_at = None\<rparr>
        else case sent_at of
               None \<Rightarrow> None
             | Some t \<Rightarrow>
                 if now - t < min_gap
                 then Some \<lparr>krc_state = KR_WAITING_RESPONSE, krc_can_request_key = False, krc_retry_attempt = 0,
                            krc_retry_max = 0, krc_retry_due_at = None\<rparr>
                 else Some \<lparr>krc_state = KR_RETRY_AVAILABLE, krc_can_request_key = \<not> bound, krc_retry_attempt = 0,
                            krc_retry_max = 0, krc_retry_due_at = None\<rparr>)"

definition refresh_key_requests :: "ke_config \<Rightarrow> timestamp \<Rightarrow> ke_state \<Rightarrow> string \<Rightarrow> key_request_capability option" where
  "refresh_key_requests K now st address =
     key_request_base MIN_SECONDS_BETWEEN_KEY_REQUESTS_TO_SAME_ADDRESS now (map_of (list_key_request_sent_at K st) address)
       (map_of (list_key_request_series K st) address) (get_binding K st address \<noteq> None)"

text \<open>\<open>KeyRequestStatePublisher.snapshot\<close>: the published states, with every address that has a marker as \<open>queued\<close>.\<close>

definition queued_capability :: key_request_capability where
  "queued_capability = \<lparr>krc_state = KR_QUEUED, krc_can_request_key = False, krc_retry_attempt = 0, krc_retry_max = 0,
     krc_retry_due_at = None\<rparr>"

definition key_request_snapshot ::
  "(string \<Rightarrow> key_request_capability option) \<Rightarrow> facade \<Rightarrow> string \<Rightarrow> key_request_capability option" where
  "key_request_snapshot published f address =
     (if address \<in> ran (fc_markers f) then Some queued_capability else published address)"

end
