(* ===== verification/Provider_Registry.thy ===== *)
theory Provider_Registry
  imports Relay Command_Pipeline
begin

text \<open>
  The administration of Relay profiles: the table of \<open>src/meshsrv/attachments/provider_registry.py\<close>, the single-use
  probes of \<open>src/meshsrv/attachments/probe_registry.py\<close> and the worker's provider commands
  (\<open>_command_provider_\<dots>\<close> of \<open>src/meshsrv/attachments/service.py\<close>). A row of \<open>mca_provider_profiles\<close> extends the row
  that the transfer code reads by the administrative columns; the files with upload tokens are a map from file names of
  the principal's \<open>keys\<close> directory to their text. The answer of a Relay to \<open>GET /v1/info\<close> is an argument of the probe.
\<close>

section \<open>Origins\<close>

text \<open>
  \<open>urllib.parse.urlsplit\<close> of a string without a character beyond Latin-1: leading control characters and blanks are
  stripped and tabs and line ends removed; a scheme is a letter followed by letters, digits, \<open>+\<close>, \<open>-\<close> and \<open>.\<close>; \<open>None\<close>
  is the \<open>ValueError\<close> for unbalanced brackets or a bracketed host that is not an address, where \<open>ip_ok\<close> stands for the
  standard library's check of the bracketed text.
\<close>

record url_parts =
  u_scheme :: string
  u_netloc :: string
  u_path :: string
  u_query :: string
  u_fragment :: string

definition ascii_alpha :: "char \<Rightarrow> bool" where
  "ascii_alpha c \<longleftrightarrow> (65 \<le> ord c \<and> ord c \<le> 90) \<or> (97 \<le> ord c \<and> ord c \<le> 122)"

definition scheme_char :: "char \<Rightarrow> bool" where
  "scheme_char c \<longleftrightarrow> ascii_alpha c \<or> (48 \<le> ord c \<and> ord c \<le> 57) \<or> c \<in> set ''+-.''"

text \<open>\<open>s.partition(c)\<close> without the separator; \<open>rpartition\<close> keeps the whole string as last part when \<open>c\<close> is absent.\<close>

definition after_first :: "char \<Rightarrow> string \<Rightarrow> string" where
  "after_first c s = tl (dropWhile (\<lambda>x. x \<noteq> c) s)"

definition split_scheme :: "string \<Rightarrow> string \<times> string" where
  "split_scheme url =
     (let s = before_first CHR '':'' url in
      if CHR '':'' \<in> set url \<and> s \<noteq> [] \<and> ascii_alpha (hd s) \<and> list_all scheme_char s
      then (lower s, after_first CHR '':'' url) else ([], url))"

definition bracketed :: "string \<Rightarrow> string" where
  "bracketed netloc = before_first CHR '']'' (after_first CHR ''['' netloc)"

definition urlsplit :: "(string \<Rightarrow> bool) \<Rightarrow> string \<Rightarrow> url_parts option" where
  "urlsplit ip_ok text =
     (let cleaned = filter (\<lambda>c. c \<notin> {CHR 0x09, CHR 0x0A, CHR 0x0D}) (lstrip_of (\<lambda>c. ord c \<le> 32) text);
          (scheme, url) = split_scheme cleaned;
          (netloc, url') = (if startswith url ''//'' then
                              (takeWhile (\<lambda>c. c \<notin> set ''/?#'') (drop 2 url), dropWhile (\<lambda>c. c \<notin> set ''/?#'') (drop 2 url))
                            else ([], url));
          fragment = after_first CHR ''#'' url'; url2 = before_first CHR ''#'' url';
          query = after_first CHR ''?'' url2; path = before_first CHR ''?'' url2
      in if (CHR ''['' \<in> set netloc) \<noteq> (CHR '']'' \<in> set netloc) \<or> (CHR ''['' \<in> set netloc \<and> \<not> ip_ok (bracketed netloc)) then None
         else Some \<lparr>u_scheme = scheme, u_netloc = netloc, u_path = path, u_query = query, u_fragment = fragment\<rparr>)"

text \<open>\<open>parts.hostname\<close>, \<open>parts.username\<close> and \<open>parts.password\<close>; the empty string counts as absent wherever they are read.\<close>

definition userinfo :: "string \<Rightarrow> string" where
  "userinfo netloc =
     (if CHR ''@'' \<in> set netloc then take (length netloc - length (after_last CHR ''@'' netloc) - 1) netloc else [])"

definition hostname :: "string \<Rightarrow> string" where
  "hostname netloc =
     (let hostinfo = after_last CHR ''@'' netloc in
      if CHR ''['' \<in> set hostinfo then lower (bracketed hostinfo) else lower (before_first CHR '':'' hostinfo))"

definition username :: "string \<Rightarrow> string" where "username netloc = before_first CHR '':'' (userinfo netloc)"
definition password :: "string \<Rightarrow> string" where "password netloc = after_first CHR '':'' (userinfo netloc)"

text \<open>A \<open>ProviderRegistryError\<close> with its optional code, or an exception that the callers do not catch as one.\<close>

datatype provider_exn = ProviderRegistryError "string option" | UncaughtError

definition normalize_origin :: "(string \<Rightarrow> bool) \<Rightarrow> string \<Rightarrow> provider_exn + string" where
  "normalize_origin ip_ok base_url =
     (let raw = strip_of text_space base_url in
      case urlsplit ip_ok raw of
        None \<Rightarrow> Inl UncaughtError
      | Some parts \<Rightarrow>
          if lower (u_scheme parts) \<noteq> ''https'' then Inl (ProviderRegistryError None)
          else if hostname (u_netloc parts) = [] then Inl (ProviderRegistryError None)
          else if username (u_netloc parts) \<noteq> [] \<or> password (u_netloc parts) \<noteq> [] then Inl (ProviderRegistryError None)
          else if u_path parts \<notin> {[], ''/''} \<or> u_query parts \<noteq> [] \<or> u_fragment parts \<noteq> [] then Inl (ProviderRegistryError None)
          else Inr (lower (rstrip_char CHR ''/'' raw)))"

section \<open>Profiles\<close>

definition MAX_PROVIDER_PROFILES :: nat where "MAX_PROVIDER_PROFILES = 8"
definition MAX_UPLOAD_TOKEN_BYTES :: nat where "MAX_UPLOAD_TOKEN_BYTES = 4096"

record profile = provider_row +
  pf_display_name :: string
  pf_tls_required :: bool
  pf_download_allowed :: bool
  pf_is_default :: bool
  pf_added_at :: timestamp
  pf_kind :: string
  pf_protocol_version :: "string option"
  pf_upload_token_file :: "string option"
  pf_last_checked_at :: "timestamp option"
  pf_last_check_result :: "string option"
  pf_last_latency_ms :: "int option"
  pf_last_error_code :: "string option"
  pf_relay_max_bytes :: "int option"
  pf_relay_min_ttl :: "int option"
  pf_relay_max_ttl :: "int option"
  pf_user_max_bytes :: "int option"
  pf_user_min_ttl :: "int option"
  pf_user_max_ttl :: "int option"

record provider_state =
  ps_rows :: "profile list"
  ps_token_files :: "string \<Rightarrow> string option"

definition upload_token_configured :: "profile \<Rightarrow> bool" where
  "upload_token_configured p \<longleftrightarrow> pf_upload_token_file p \<noteq> None"

subsection \<open>Limits\<close>

definition smallest :: "int option \<Rightarrow> int option \<Rightarrow> int option" where
  "smallest a b = (case (a, b) of (Some x, Some y) \<Rightarrow> Some (min x y) | (None, y) \<Rightarrow> y | (x, None) \<Rightarrow> x)"

definition largest :: "int option \<Rightarrow> int option \<Rightarrow> int option" where
  "largest a b = (case (a, b) of (Some x, Some y) \<Rightarrow> Some (max x y) | (None, y) \<Rightarrow> y | (x, None) \<Rightarrow> x)"

definition exceeds :: "int option \<Rightarrow> int option \<Rightarrow> bool" where
  "exceeds a b = (case (a, b) of (Some x, Some y) \<Rightarrow> x > y | _ \<Rightarrow> False)"

definition effective_limits ::
  "int option \<Rightarrow> int option \<Rightarrow> int option \<Rightarrow> int option \<Rightarrow> int option \<Rightarrow> int option \<Rightarrow> int option \<times> int option \<times> int option" where
  "effective_limits relay_max_bytes relay_min_ttl relay_max_ttl user_max_bytes user_min_ttl user_max_ttl =
     (let max_bytes = smallest relay_max_bytes user_max_bytes;
          max_ttl = smallest relay_max_ttl user_max_ttl;
          min_ttl = largest relay_min_ttl user_min_ttl
      in (max_bytes, if exceeds min_ttl max_ttl then None else min_ttl, max_ttl))"

subsection \<open>Validation\<close>

definition VALID_KINDS :: "string list" where "VALID_KINDS = [''own'', ''third_party'']"

text \<open>A display name that is not a string has no \<open>strip\<close>.\<close>

definition validate_display_name :: "wire \<Rightarrow> provider_exn + string" where
  "validate_display_name display_name =
     (if \<not> truthy display_name then Inl (ProviderRegistryError None)
      else case display_name of
             WStr s \<Rightarrow> if strip_of text_space s = [] then Inl (ProviderRegistryError None) else Inr s
           | _ \<Rightarrow> Inl UncaughtError)"

definition check :: "bool \<Rightarrow> provider_exn + unit" where
  "check b = (if b then Inr () else Inl (ProviderRegistryError None))"

definition validate_ttl_pair :: "int option \<Rightarrow> int option \<Rightarrow> provider_exn + unit" where
  "validate_ttl_pair min_ttl max_ttl =
     check ((case min_ttl of None \<Rightarrow> True | Some m \<Rightarrow> 0 < m) \<and> (case max_ttl of None \<Rightarrow> True | Some m \<Rightarrow> 0 < m)
            \<and> \<not> exceeds min_ttl max_ttl)"

definition validate_protocol_version :: "string option \<Rightarrow> provider_exn + unit" where
  "validate_protocol_version v = check (case v of None \<Rightarrow> True | Some s \<Rightarrow> strip_of text_space s \<noteq> [])"

subsection \<open>Lookups\<close>

definition profile_key :: "profile \<Rightarrow> string \<times> string" where
  "profile_key p = (pv_provider_id p, pv_workspace_id p)"

definition resolve_profile :: "string \<Rightarrow> provider_state \<Rightarrow> string \<Rightarrow> profile option" where
  "resolve_profile ws st provider_id = find_by profile_key (provider_id, ws) (ps_rows st)"

definition list_providers :: "string \<Rightarrow> provider_state \<Rightarrow> profile list" where
  "list_providers ws st = sort_key pf_added_at (filter (\<lambda>p. pv_workspace_id p = ws) (ps_rows st))"

definition get_default :: "string \<Rightarrow> provider_state \<Rightarrow> profile option" where
  "get_default ws st = List.find (\<lambda>p. pv_workspace_id p = ws \<and> pf_is_default p) (ps_rows st)"

definition list_enabled :: "string \<Rightarrow> provider_state \<Rightarrow> profile list" where
  "list_enabled ws st = filter pv_enabled (list_providers ws st)"

definition get_upload_candidates :: "string \<Rightarrow> provider_state \<Rightarrow> profile list" where
  "get_upload_candidates ws st = filter (\<lambda>p. pv_upload_allowed p \<and> upload_token_configured p) (list_enabled ws st)"

definition update_rows :: "string \<Rightarrow> string \<Rightarrow> (profile \<Rightarrow> profile) \<Rightarrow> provider_state \<Rightarrow> provider_state" where
  "update_rows ws provider_id f st = st\<lparr>ps_rows := update_where (\<lambda>p. profile_key p = (provider_id, ws)) f (ps_rows st)\<rparr>"

subsection \<open>Changes\<close>

type_synonym 'a provider_result = "(provider_exn + 'a) \<times> provider_state"

text \<open>\<open>set_default\<close> runs in a transaction: an unknown id rolls the clearing of the old default back.\<close>

definition set_default :: "string \<Rightarrow> string \<Rightarrow> provider_state \<Rightarrow> profile option provider_result" where
  "set_default ws provider_id st =
     (if resolve_profile ws st provider_id = None then (Inl (ProviderRegistryError None), st)
      else let st' = update_rows ws provider_id (\<lambda>p. p\<lparr>pf_is_default := True\<rparr>)
                       (st\<lparr>ps_rows := update_where (\<lambda>p. pv_workspace_id p = ws \<and> pf_is_default p) (\<lambda>p. p\<lparr>pf_is_default := False\<rparr>) (ps_rows st)\<rparr>)
           in (Inr (resolve_profile ws st' provider_id), st'))"

record registration =
  rg_display_name :: wire
  rg_base_url :: string
  rg_service_public_key :: bytes
  rg_max_ciphertext_bytes :: int
  rg_upload_allowed :: bool
  rg_download_allowed :: bool
  rg_is_default :: bool
  rg_kind :: string
  rg_min_ttl :: "int option"
  rg_max_ttl :: "int option"
  rg_protocol_version :: "string option"
  rg_now :: timestamp
  rg_relay_max_bytes :: "int option"

definition lift_registry :: "registry_error + 'a \<Rightarrow> provider_exn + 'a" where
  "lift_registry = map_sum (\<lambda>_. ProviderRegistryError None) id"

definition validate_registration :: "ext \<Rightarrow> (string \<Rightarrow> bool) \<Rightarrow> registration \<Rightarrow> provider_exn + (string \<times> string \<times> string)" where
  "validate_registration X ip_ok r =
     bind_res (normalize_origin ip_ok (rg_base_url r)) (\<lambda>origin.
     bind_res (check (length (rg_service_public_key r) = 32)) (\<lambda>_.
     bind_res (validate_display_name (rg_display_name r)) (\<lambda>name.
     bind_res (check (rg_kind r \<in> set VALID_KINDS)) (\<lambda>_.
     bind_res (check (0 < rg_max_ciphertext_bytes r)) (\<lambda>_.
     bind_res (validate_ttl_pair (rg_min_ttl r) (rg_max_ttl r)) (\<lambda>_.
     bind_res (validate_protocol_version (rg_protocol_version r)) (\<lambda>_.
     bind_res (lift_registry (compute_provider_id X origin (rg_service_public_key r))) (\<lambda>provider_id.
     Inr (provider_id, origin, name)))))))))"

definition relay_bytes :: "registration \<Rightarrow> int" where
  "relay_bytes r = (case rg_relay_max_bytes r of Some b \<Rightarrow> b | None \<Rightarrow> rg_max_ciphertext_bytes r)"

text \<open>The columns that both the \<open>INSERT\<close> and the \<open>ON CONFLICT\<close> update write.\<close>

definition registered_columns :: "registration \<Rightarrow> string \<Rightarrow> profile \<Rightarrow> profile" where
  "registered_columns r name p = p\<lparr>
     pf_display_name := name, pv_max_ciphertext_bytes := rg_max_ciphertext_bytes r, pv_upload_allowed := rg_upload_allowed r,
     pf_download_allowed := rg_download_allowed r, pf_kind := rg_kind r, pv_min_ttl_seconds := rg_min_ttl r,
     pv_max_ttl_seconds := rg_max_ttl r, pf_protocol_version := rg_protocol_version r,
     pf_relay_max_bytes := Some (relay_bytes r), pf_relay_min_ttl := rg_min_ttl r, pf_relay_max_ttl := rg_max_ttl r,
     pf_user_max_bytes := (if rg_max_ciphertext_bytes r < relay_bytes r then Some (rg_max_ciphertext_bytes r) else None),
     pf_user_min_ttl := None, pf_user_max_ttl := None\<rparr>"

definition new_profile :: "string \<Rightarrow> string \<Rightarrow> string \<Rightarrow> string \<Rightarrow> registration \<Rightarrow> profile" where
  "new_profile ws provider_id origin name r = registered_columns r name
     \<lparr>pv_provider_id = provider_id, pv_workspace_id = ws, pv_origin = origin, pv_service_public_key = rg_service_public_key r,
      pv_upload_allowed = True, pv_enabled = True, pv_max_ciphertext_bytes = 0, pv_min_ttl_seconds = None,
      pv_max_ttl_seconds = None, pf_display_name = name, pf_tls_required = True, pf_download_allowed = True,
      pf_is_default = False, pf_added_at = rg_now r, pf_kind = ''own'', pf_protocol_version = None,
      pf_upload_token_file = None, pf_last_checked_at = None, pf_last_check_result = None, pf_last_latency_ms = None,
      pf_last_error_code = None, pf_relay_max_bytes = None, pf_relay_min_ttl = None, pf_relay_max_ttl = None,
      pf_user_max_bytes = None, pf_user_min_ttl = None, pf_user_max_ttl = None\<rparr>"

text \<open>\<open>register\<close>; the primary key is the provider id alone, so the conflict clause also finds a row of another
  workspace.\<close>

definition register_provider :: "ext \<Rightarrow> (string \<Rightarrow> bool) \<Rightarrow> string \<Rightarrow> registration \<Rightarrow> provider_state \<Rightarrow> profile option provider_result" where
  "register_provider X ip_ok ws r st =
     (case validate_registration X ip_ok r of
        Inl e \<Rightarrow> (Inl e, st)
      | Inr (provider_id, origin, name) \<Rightarrow>
          if resolve_profile ws st provider_id = None
             \<and> MAX_PROVIDER_PROFILES \<le> length (filter (\<lambda>p. pv_workspace_id p = ws) (ps_rows st))
          then (Inl (ProviderRegistryError (Some ''provider_limit_reached'')), st)
          else let st' = st\<lparr>ps_rows := upsert pv_provider_id (new_profile ws provider_id origin name r)
                                         (registered_columns r name) (ps_rows st)\<rparr>
               in if rg_is_default r then set_default ws provider_id st'
                  else (Inr (resolve_profile ws st' provider_id), st'))"

text \<open>\<open>None\<close> keeps the value, \<open>CLEAR\<close> makes it absent.\<close>

datatype 'a edit = Keep | Clear | Put 'a

fun resolve_edit :: "'a edit \<Rightarrow> 'a option \<Rightarrow> 'a option" where
  "resolve_edit Keep current = current"
| "resolve_edit Clear current = None"
| "resolve_edit (Put v) current = Some v"

record profile_edit =
  ed_display_name :: wire
  ed_enabled :: "bool option"
  ed_upload_allowed :: "bool option"
  ed_download_allowed :: "bool option"
  ed_min_ttl :: "int edit"
  ed_max_ttl :: "int edit"
  ed_protocol_version :: "string edit"

definition coalesce :: "'a option \<Rightarrow> 'a \<Rightarrow> 'a" where
  "coalesce v current = (case v of None \<Rightarrow> current | Some x \<Rightarrow> x)"

definition edit_name :: "wire \<Rightarrow> provider_exn + string option" where
  "edit_name v = (if v = WNone then Inr None else map_sum id Some (validate_display_name v))"

definition edited_limits :: "profile_edit \<Rightarrow> profile \<Rightarrow> int option \<times> int option \<times> int option" where
  "edited_limits e p = effective_limits (pf_relay_max_bytes p) (pf_relay_min_ttl p) (pf_relay_max_ttl p) (pf_user_max_bytes p)
     (resolve_edit (ed_min_ttl e) (pf_user_min_ttl p)) (resolve_edit (ed_max_ttl e) (pf_user_max_ttl p))"

definition edited_columns :: "profile_edit \<Rightarrow> string option \<Rightarrow> profile \<Rightarrow> profile \<Rightarrow> profile" where
  "edited_columns e name p q = q\<lparr>
     pf_display_name := coalesce name (pf_display_name q), pv_enabled := coalesce (ed_enabled e) (pv_enabled q),
     pv_upload_allowed := coalesce (ed_upload_allowed e) (pv_upload_allowed q),
     pf_download_allowed := coalesce (ed_download_allowed e) (pf_download_allowed q),
     pv_min_ttl_seconds := fst (snd (edited_limits e p)), pv_max_ttl_seconds := snd (snd (edited_limits e p)),
     pf_user_min_ttl := resolve_edit (ed_min_ttl e) (pf_user_min_ttl p),
     pf_user_max_ttl := resolve_edit (ed_max_ttl e) (pf_user_max_ttl p),
     pf_protocol_version := resolve_edit (ed_protocol_version e) (pf_protocol_version p)\<rparr>"

definition validate_edit :: "profile_edit \<Rightarrow> profile \<Rightarrow> provider_exn + string option" where
  "validate_edit e p =
     (let user_min = resolve_edit (ed_min_ttl e) (pf_user_min_ttl p); user_max = resolve_edit (ed_max_ttl e) (pf_user_max_ttl p) in
      bind_res (edit_name (ed_display_name e)) (\<lambda>name.
      bind_res (validate_ttl_pair user_min user_max) (\<lambda>_.
      bind_res (validate_protocol_version (resolve_edit (ed_protocol_version e) (pf_protocol_version p))) (\<lambda>_.
      bind_res (validate_ttl_pair (largest (pf_relay_min_ttl p) user_min) (snd (snd (edited_limits e p)))) (\<lambda>_.
      Inr name)))))"

definition update_profile :: "string \<Rightarrow> string \<Rightarrow> profile_edit \<Rightarrow> provider_state \<Rightarrow> profile option provider_result" where
  "update_profile ws provider_id e st =
     (case resolve_profile ws st provider_id of
        None \<Rightarrow> (Inl (ProviderRegistryError None), st)
      | Some p \<Rightarrow>
          (case validate_edit e p of
             Inl x \<Rightarrow> (Inl x, st)
           | Inr name \<Rightarrow>
               let st' = update_rows ws provider_id (edited_columns e name p) st
               in (Inr (resolve_profile ws st' provider_id), st')))"

definition positive :: "wire \<Rightarrow> int option" where
  "positive v = (case v of WInt i \<Rightarrow> if 0 < i then Some i else None | _ \<Rightarrow> None)"

definition or_stored :: "'a option \<Rightarrow> 'a option \<Rightarrow> 'a option" where
  "or_stored v stored = (if v \<noteq> None then v else stored)"

definition refreshed_columns :: "wire \<Rightarrow> wire \<Rightarrow> wire \<Rightarrow> profile \<Rightarrow> profile" where
  "refreshed_columns max_bytes min_ttl max_ttl p =
     (let bytes = or_stored (positive max_bytes) (pf_relay_max_bytes p);
          lmax = or_stored (positive max_ttl) (pf_relay_max_ttl p);
          lmin = or_stored (positive min_ttl) (pf_relay_min_ttl p);
          (new_bytes, new_min, new_max) = effective_limits bytes lmin lmax (pf_user_max_bytes p) (pf_user_min_ttl p) (pf_user_max_ttl p)
      in p\<lparr>pf_relay_max_bytes := bytes, pf_relay_min_ttl := lmin, pf_relay_max_ttl := lmax,
           pv_max_ciphertext_bytes := (case new_bytes of None \<Rightarrow> pv_max_ciphertext_bytes p | Some b \<Rightarrow> b),
           pv_min_ttl_seconds := new_min, pv_max_ttl_seconds := new_max\<rparr>)"

definition refresh_limits :: "string \<Rightarrow> string \<Rightarrow> wire \<Rightarrow> wire \<Rightarrow> wire \<Rightarrow> provider_state \<Rightarrow> bool \<times> provider_state" where
  "refresh_limits ws provider_id max_bytes min_ttl max_ttl st =
     (case resolve_profile ws st provider_id of
        None \<Rightarrow> (False, st)
      | Some p \<Rightarrow>
          if refreshed_columns max_bytes min_ttl max_ttl p = p then (False, st)
          else (True, update_rows ws provider_id (refreshed_columns max_bytes min_ttl max_ttl) st))"

definition record_check_result ::
  "string \<Rightarrow> string \<Rightarrow> string \<Rightarrow> int option \<Rightarrow> string option \<Rightarrow> timestamp \<Rightarrow> provider_state \<Rightarrow> provider_state" where
  "record_check_result ws provider_id result latency_ms error_code now st =
     update_rows ws provider_id (\<lambda>p. p\<lparr>pf_last_checked_at := Some now, pf_last_check_result := Some result,
       pf_last_latency_ms := latency_ms, pf_last_error_code := error_code\<rparr>) st"

subsection \<open>Upload tokens\<close>

definition upload_token_name :: "string \<Rightarrow> string" where
  "upload_token_name provider_id = ''relay_upload_token_'' @ provider_id @ ''.secret''"

definition set_upload_token :: "string \<Rightarrow> string \<Rightarrow> string \<Rightarrow> provider_state \<Rightarrow> unit provider_result" where
  "set_upload_token ws provider_id token st =
     (if resolve_profile ws st provider_id = None then (Inl (ProviderRegistryError None), st)
      else if strip_of text_space token = [] then (Inl (ProviderRegistryError None), st)
      else if length (utf8_encode token) > MAX_UPLOAD_TOKEN_BYTES then (Inl (ProviderRegistryError (Some ''upload_token_too_long'')), st)
      else let name = upload_token_name provider_id in
           (Inr (), update_rows ws provider_id (\<lambda>p. p\<lparr>pf_upload_token_file := Some name\<rparr>)
                      (st\<lparr>ps_token_files := (ps_token_files st)(name \<mapsto> token)\<rparr>)))"

definition get_upload_token :: "string \<Rightarrow> string \<Rightarrow> provider_state \<Rightarrow> string option" where
  "get_upload_token ws provider_id st =
     Option.bind (resolve_profile ws st provider_id) (\<lambda>p. Option.bind (pf_upload_token_file p) (ps_token_files st))"

text \<open>The name is checked before the unlink; \<open>keys\<close> holds no symbolic links.\<close>

definition unsafe_token_name :: "string \<Rightarrow> bool" where
  "unsafe_token_name name \<longleftrightarrow> name = [] \<or> CHR 0x00 \<in> set name \<or> CHR ''/'' \<in> set name \<or> CHR 0x5C \<in> set name
     \<or> name = ''.'' \<or> name = ''..''"

definition unlink_upload_token_file :: "string \<Rightarrow> provider_state \<Rightarrow> unit provider_result" where
  "unlink_upload_token_file name st =
     (if unsafe_token_name name then (Inl (ProviderRegistryError None), st)
      else (Inr (), st\<lparr>ps_token_files := (ps_token_files st)(name := None)\<rparr>))"

definition delete_upload_token_file :: "string \<Rightarrow> string \<Rightarrow> provider_state \<Rightarrow> unit provider_result" where
  "delete_upload_token_file ws provider_id st =
     (case Option.bind (resolve_profile ws st provider_id) pf_upload_token_file of
        None \<Rightarrow> (Inr (), st)
      | Some name \<Rightarrow> unlink_upload_token_file name st)"

definition clear_upload_token :: "string \<Rightarrow> string \<Rightarrow> provider_state \<Rightarrow> unit provider_result" where
  "clear_upload_token ws provider_id st =
     (if resolve_profile ws st provider_id = None then (Inl (ProviderRegistryError None), st)
      else case delete_upload_token_file ws provider_id st of
             (Inl e, st') \<Rightarrow> (Inl e, st')
           | (Inr _, st') \<Rightarrow> (Inr (), update_rows ws provider_id (\<lambda>p. p\<lparr>pf_upload_token_file := None\<rparr>) st'))"

subsection \<open>Removal\<close>

datatype removal = Deleted | Disabled

definition no_edit :: profile_edit where
  "no_edit = \<lparr>ed_display_name = WNone, ed_enabled = None, ed_upload_allowed = None, ed_download_allowed = None,
     ed_min_ttl = Keep, ed_max_ttl = Keep, ed_protocol_version = Keep\<rparr>"

text \<open>\<open>in_use\<close>: an attachment of the workspace refers to the provider.\<close>

definition remove_or_disable :: "bool \<Rightarrow> string \<Rightarrow> string \<Rightarrow> provider_state \<Rightarrow> removal provider_result" where
  "remove_or_disable in_use ws provider_id st =
     (if in_use
      then (case update_profile ws provider_id (no_edit\<lparr>ed_enabled := Some False\<rparr>) st of
              (Inl e, st') \<Rightarrow> (Inl e, st')
            | (Inr _, st') \<Rightarrow> (Inr Disabled, st'))
      else (case delete_upload_token_file ws provider_id st of
              (Inl e, st') \<Rightarrow> (Inl e, st')
            | (Inr _, st') \<Rightarrow> (Inr Deleted, st'\<lparr>ps_rows := filter (\<lambda>p. profile_key p \<noteq> (provider_id, ws)) (ps_rows st')\<rparr>)))"

section \<open>Probes\<close>

definition PROBE_MAX_ENTRIES :: nat where "PROBE_MAX_ENTRIES = 64"
definition PROBE_TTL_SECONDS :: timestamp where "PROBE_TTL_SECONDS = 300"

record probe_record =
  pb_probe_id :: string
  pb_origin :: string
  pb_provider_id :: string
  pb_service_public_key :: bytes
  pb_service_key_fingerprint :: string
  pb_protocol_version :: "string option"
  pb_max_ciphertext_bytes :: int
  pb_min_ttl_seconds :: "int option"
  pb_max_ttl_seconds :: "int option"
  pb_expires_at :: timestamp

text \<open>The ordered dict of the records, oldest insertion first.\<close>

type_synonym probe_registry = "probe_record list"

definition probe_evict :: "timestamp \<Rightarrow> probe_registry \<Rightarrow> probe_registry" where
  "probe_evict now records = filter (\<lambda>r. now < pb_expires_at r) records"

definition probe_add :: "timestamp \<Rightarrow> probe_record \<Rightarrow> probe_registry \<Rightarrow> probe_registry option" where
  "probe_add now r records =
     (let capped = (if now + PROBE_TTL_SECONDS < pb_expires_at r then r\<lparr>pb_expires_at := now + PROBE_TTL_SECONDS\<rparr> else r);
          live = probe_evict now records
      in if find_by pb_probe_id (pb_probe_id r) live \<noteq> None then None
         else Some (drop (length (live @ [capped]) - PROBE_MAX_ENTRIES) (live @ [capped])))"

definition probe_consume :: "timestamp \<Rightarrow> string \<Rightarrow> probe_registry \<Rightarrow> probe_record option \<times> probe_registry" where
  "probe_consume now probe_id records =
     (let live = probe_evict now records
      in (find_by pb_probe_id probe_id live, filter (\<lambda>r. pb_probe_id r \<noteq> probe_id) live))"

definition probe_get :: "timestamp \<Rightarrow> string \<Rightarrow> probe_registry \<Rightarrow> probe_record option \<times> probe_registry" where
  "probe_get now probe_id records = (find_by pb_probe_id probe_id (probe_evict now records), probe_evict now records)"

definition wire_int :: "int option \<Rightarrow> wire" where "wire_int v = (case v of None \<Rightarrow> WNone | Some i \<Rightarrow> WInt i)"

definition serialize_probe_record :: "probe_record \<Rightarrow> wire_object" where
  "serialize_probe_record r =
     [(''probe_id'', WStr (pb_probe_id r)), (''provider_id'', WStr (pb_provider_id r)), (''origin'', WStr (pb_origin r)),
      (''service_key_fingerprint'', WStr (pb_service_key_fingerprint r)),
      (''protocol_version'', (case pb_protocol_version r of None \<Rightarrow> WNone | Some v \<Rightarrow> WStr v)),
      (''max_ciphertext_bytes'', WInt (pb_max_ciphertext_bytes r)), (''min_ttl_seconds'', wire_int (pb_min_ttl_seconds r)),
      (''max_ttl_seconds'', wire_int (pb_max_ttl_seconds r)), (''expires_at'', WFloat (FNum (pb_expires_at r)))]"

section \<open>The worker's provider commands\<close>

record provider_admin =
  ad_providers :: provider_state
  ad_probes :: probe_registry

text \<open>What building a client for an origin and asking it for \<open>/v1/info\<close> gives: a \<open>RelayNetworkError\<close> with its code,
  another failure, or the Relay's answer.\<close>

record relay_info =
  ri_provider_id :: string
  ri_service_public_key :: bytes
  ri_max_ciphertext_bytes :: int
  ri_min_hard_ttl_seconds :: "int option"
  ri_max_hard_ttl_seconds :: int

datatype info_answer = InfoNetworkError string | InfoUnreachable | InfoAnswer relay_info

record admin_env =
  ae_ext :: ext
  ae_ip_ok :: "string \<Rightarrow> bool"
  ae_workspace :: string
  ae_info :: "string \<Rightarrow> info_answer"
  ae_in_use :: "string \<Rightarrow> bool"
  ae_now :: timestamp
  ae_probe_id :: string

definition fails :: "string \<Rightarrow> provider_admin \<Rightarrow> provider_admin handler_end" where
  "fails code a = Returned (outcome_failed code) a"

definition succeeds :: "string \<Rightarrow> wire_object \<Rightarrow> provider_admin \<Rightarrow> provider_admin handler_end" where
  "succeeds rid result a = Returned \<lparr>co_resource_id = Some rid, co_result = Some (JsonPayload result), co_error_code = None\<rparr> a"

definition fingerprint_of :: "ext \<Rightarrow> bytes \<Rightarrow> string" where
  "fingerprint_of X key = hex_of (sha256 X key)"

definition probe_of :: "admin_env \<Rightarrow> string \<Rightarrow> string \<Rightarrow> relay_info \<Rightarrow> probe_record" where
  "probe_of E origin provider_id info =
     \<lparr>pb_probe_id = ae_probe_id E, pb_origin = origin, pb_provider_id = provider_id,
      pb_service_public_key = ri_service_public_key info,
      pb_service_key_fingerprint = fingerprint_of (ae_ext E) (ri_service_public_key info), pb_protocol_version = None,
      pb_max_ciphertext_bytes = ri_max_ciphertext_bytes info, pb_min_ttl_seconds = ri_min_hard_ttl_seconds info,
      pb_max_ttl_seconds = Some (ri_max_hard_ttl_seconds info), pb_expires_at = ae_now E + PROBE_TTL_SECONDS\<rparr>"

definition command_provider_probe :: "admin_env \<Rightarrow> command \<Rightarrow> provider_admin \<Rightarrow> provider_admin handler_end" where
  "command_provider_probe E c a =
     (case obj_get (cmd_payload c) ''base_url'' of
        WStr base_url \<Rightarrow>
          if strip_of text_space base_url = [] then fails ''invalid_origin'' a
          else (case normalize_origin (ae_ip_ok E) base_url of
                  Inl (ProviderRegistryError _) \<Rightarrow> fails ''invalid_origin'' a
                | Inl UncaughtError \<Rightarrow> Raised a
                | Inr origin \<Rightarrow>
                    (case ae_info E origin of
                       InfoNetworkError code \<Rightarrow> fails code a
                     | InfoUnreachable \<Rightarrow> fails ''relay_unreachable'' a
                     | InfoAnswer info \<Rightarrow>
                         (case compute_provider_id (ae_ext E) origin (ri_service_public_key info) of
                            Inl _ \<Rightarrow> Raised a
                          | Inr provider_id \<Rightarrow>
                              if provider_id \<noteq> ri_provider_id info then fails ''relay_identity_mismatch'' a
                              else (let r = probe_of E origin provider_id info in
                                    case probe_add (ae_now E) r (ad_probes a) of
                                      None \<Rightarrow> Raised a
                                    | Some probes \<Rightarrow>
                                        succeeds (pb_probe_id r) (serialize_probe_record r) (a\<lparr>ad_probes := probes\<rparr>)))))
      | _ \<Rightarrow> fails ''invalid_origin'' a)"

text \<open>The policy the browser chose: kind, the two permissions and the size limit, each checked against its type and the
  probe.\<close>

definition policy_limit :: "wire_object \<Rightarrow> int \<Rightarrow> int option" where
  "policy_limit policy probed =
     (case obj_get policy ''max_ciphertext_bytes'' of
        WNone \<Rightarrow> Some probed
      | WInt i \<Rightarrow> if i \<le> 0 \<or> probed < i then None else Some i
      | _ \<Rightarrow> None)"

definition registration_of :: "admin_env \<Rightarrow> probe_record \<Rightarrow> wire_object \<Rightarrow> registration option" where
  "registration_of E r payload =
     (let policy = (case obj_get payload ''policy'' of WObj d \<Rightarrow> d | _ \<Rightarrow> []) in
      case (obj_get_or (WStr ''own'') policy ''kind'', obj_get_or (WBool True) policy ''upload_allowed'',
            obj_get_or (WBool True) policy ''download_allowed'', policy_limit policy (pb_max_ciphertext_bytes r)) of
        (WStr kind, WBool upload, WBool download, Some limit) \<Rightarrow>
          Some \<lparr>rg_display_name = obj_get payload ''display_name'', rg_base_url = pb_origin r,
                rg_service_public_key = pb_service_public_key r, rg_max_ciphertext_bytes = limit, rg_upload_allowed = upload,
                rg_download_allowed = download, rg_is_default = False, rg_kind = kind, rg_min_ttl = pb_min_ttl_seconds r,
                rg_max_ttl = pb_max_ttl_seconds r, rg_protocol_version = pb_protocol_version r, rg_now = ae_now E,
                rg_relay_max_bytes = Some (pb_max_ciphertext_bytes r)\<rparr>
      | _ \<Rightarrow> None)"

definition provider_id_result :: "string \<Rightarrow> wire_object" where
  "provider_id_result provider_id = [(''provider_id'', WStr provider_id)]"

definition error_or_invalid :: "string option \<Rightarrow> string" where
  "error_or_invalid code = (case code of None \<Rightarrow> ''invalid_metadata'' | Some x \<Rightarrow> if x = [] then ''invalid_metadata'' else x)"

definition register_probed :: "admin_env \<Rightarrow> registration \<Rightarrow> provider_admin \<Rightarrow> provider_admin handler_end" where
  "register_probed E g a =
     (case register_provider (ae_ext E) (ae_ip_ok E) (ae_workspace E) g (ad_providers a) of
        (Inl (ProviderRegistryError code), st) \<Rightarrow> fails (error_or_invalid code) (a\<lparr>ad_providers := st\<rparr>)
      | (Inl UncaughtError, st) \<Rightarrow> Raised (a\<lparr>ad_providers := st\<rparr>)
      | (Inr profile, st) \<Rightarrow>
          if get_default (ae_workspace E) st = None
          then (case profile of
                  None \<Rightarrow> Raised (a\<lparr>ad_providers := st\<rparr>)
                | Some p \<Rightarrow>
                    (case set_default (ae_workspace E) (pv_provider_id p) st of
                       (Inl _, st') \<Rightarrow> Raised (a\<lparr>ad_providers := st'\<rparr>)
                     | (Inr _, st') \<Rightarrow> succeeds (pv_provider_id p) (provider_id_result (pv_provider_id p)) (a\<lparr>ad_providers := st'\<rparr>)))
          else (case profile of
                  None \<Rightarrow> Raised (a\<lparr>ad_providers := st\<rparr>)
                | Some p \<Rightarrow> succeeds (pv_provider_id p) (provider_id_result (pv_provider_id p)) (a\<lparr>ad_providers := st\<rparr>)))"

definition command_provider_register :: "admin_env \<Rightarrow> command \<Rightarrow> provider_admin \<Rightarrow> provider_admin handler_end" where
  "command_provider_register E c a =
     (case obj_get (cmd_payload c) ''probe_id'' of
        WStr probe_id \<Rightarrow>
          if probe_id = [] then fails ''probe_id_not_found'' a
          else (case probe_consume (ae_now E) probe_id (ad_probes a) of (found, probes) \<Rightarrow>
                  let b = a\<lparr>ad_probes := probes\<rparr> in
                  case found of
                    None \<Rightarrow> fails ''probe_id_used'' b
                  | Some r \<Rightarrow>
                      if obj_get (cmd_payload c) ''fingerprint_confirmation'' \<noteq> WStr (pb_service_key_fingerprint r)
                      then fails ''provider_id_mismatch'' b
                      else (case registration_of E r (cmd_payload c) of
                              None \<Rightarrow> fails ''invalid_metadata'' b
                            | Some g \<Rightarrow> register_probed E g b))
      | _ \<Rightarrow> fails ''probe_id_not_found'' a)"

text \<open>The commands on one profile check the id first: a non-empty string that the registry knows.\<close>

definition with_provider ::
  "admin_env \<Rightarrow> command \<Rightarrow> provider_admin \<Rightarrow> (string \<Rightarrow> provider_admin handler_end) \<Rightarrow> provider_admin handler_end" where
  "with_provider E c a f =
     (case obj_get (cmd_payload c) ''provider_id'' of
        WStr provider_id \<Rightarrow>
          if provider_id = [] then fails ''invalid_provider_id'' a
          else if resolve_profile (ae_workspace E) (ad_providers a) provider_id = None then fails ''provider_not_found'' a
          else f provider_id
      | _ \<Rightarrow> fails ''invalid_provider_id'' a)"

definition provider_call ::
  "provider_admin \<Rightarrow> 'a provider_result \<Rightarrow> (string option \<Rightarrow> string) \<Rightarrow> ('a \<Rightarrow> provider_admin \<Rightarrow> provider_admin handler_end) \<Rightarrow> provider_admin handler_end" where
  "provider_call a result code f =
     (case result of
        (Inl (ProviderRegistryError e), st) \<Rightarrow> fails (code e) (a\<lparr>ad_providers := st\<rparr>)
      | (Inl UncaughtError, st) \<Rightarrow> Raised (a\<lparr>ad_providers := st\<rparr>)
      | (Inr v, st) \<Rightarrow> f v (a\<lparr>ad_providers := st\<rparr>))"

definition optional_bool :: "wire \<Rightarrow> bool option option" where
  "optional_bool v = (case v of WNone \<Rightarrow> Some None | WBool b \<Rightarrow> Some (Some b) | _ \<Rightarrow> None)"

text \<open>The time limits and the protocol version come as edits; the request handler has checked their types.\<close>

definition command_provider_update ::
  "admin_env \<Rightarrow> command \<Rightarrow> int edit \<Rightarrow> int edit \<Rightarrow> string edit \<Rightarrow> provider_admin \<Rightarrow> provider_admin handler_end" where
  "command_provider_update E c min_ttl max_ttl protocol_version a =
     with_provider E c a (\<lambda>provider_id.
       case (optional_bool (obj_get (cmd_payload c) ''enabled''), optional_bool (obj_get (cmd_payload c) ''upload_allowed''),
             optional_bool (obj_get (cmd_payload c) ''download_allowed'')) of
         (Some enabled, Some upload, Some download) \<Rightarrow>
           provider_call a
             (update_profile (ae_workspace E) provider_id
                \<lparr>ed_display_name = obj_get (cmd_payload c) ''display_name'', ed_enabled = enabled, ed_upload_allowed = upload,
                 ed_download_allowed = download, ed_min_ttl = min_ttl, ed_max_ttl = max_ttl,
                 ed_protocol_version = protocol_version\<rparr> (ad_providers a))
             (\<lambda>_. ''invalid_metadata'') (\<lambda>_. succeeds provider_id (provider_id_result provider_id))
       | _ \<Rightarrow> fails ''invalid_metadata'' a)"

definition command_provider_set_default :: "admin_env \<Rightarrow> command \<Rightarrow> provider_admin \<Rightarrow> provider_admin handler_end" where
  "command_provider_set_default E c a =
     (case obj_get (cmd_payload c) ''provider_id'' of
        WStr provider_id \<Rightarrow>
          if provider_id = [] then fails ''invalid_provider_id'' a
          else provider_call a (set_default (ae_workspace E) provider_id (ad_providers a)) (\<lambda>_. ''provider_not_found'')
                 (\<lambda>_. succeeds provider_id (provider_id_result provider_id))
      | _ \<Rightarrow> fails ''invalid_provider_id'' a)"

definition removal_text :: "removal \<Rightarrow> string" where
  "removal_text r = (case r of Deleted \<Rightarrow> ''deleted'' | Disabled \<Rightarrow> ''disabled'')"

definition command_provider_remove :: "admin_env \<Rightarrow> command \<Rightarrow> provider_admin \<Rightarrow> provider_admin handler_end" where
  "command_provider_remove E c a =
     with_provider E c a (\<lambda>provider_id.
       provider_call a (remove_or_disable (ae_in_use E provider_id) (ae_workspace E) provider_id (ad_providers a))
         (\<lambda>_. ''provider_not_found'') (\<lambda>r. succeeds provider_id [(''action'', WStr (removal_text r))]))"

definition token_result :: "string \<Rightarrow> bool \<Rightarrow> wire_object" where
  "token_result provider_id configured = [(''provider_id'', WStr provider_id), (''upload_token_configured'', WBool configured)]"

definition command_provider_set_upload_token :: "admin_env \<Rightarrow> command \<Rightarrow> provider_admin \<Rightarrow> provider_admin handler_end" where
  "command_provider_set_upload_token E c a =
     with_provider E c a (\<lambda>provider_id.
       case obj_get (cmd_payload c) ''upload_token'' of
         WStr token \<Rightarrow>
           if strip_of text_space token = [] then fails ''invalid_metadata'' a
           else provider_call a (set_upload_token (ae_workspace E) provider_id token (ad_providers a)) error_or_invalid
                  (\<lambda>_. succeeds provider_id (token_result provider_id True))
       | _ \<Rightarrow> fails ''invalid_metadata'' a)"

definition command_provider_clear_upload_token :: "admin_env \<Rightarrow> command \<Rightarrow> provider_admin \<Rightarrow> provider_admin handler_end" where
  "command_provider_clear_upload_token E c a =
     with_provider E c a (\<lambda>provider_id.
       provider_call a (clear_upload_token (ae_workspace E) provider_id (ad_providers a)) (\<lambda>_. ''provider_not_found'')
         (\<lambda>_. succeeds provider_id (token_result provider_id False)))"

end
