(* ===== verification/Provider_Registry_Properties.thy ===== *)
theory Provider_Registry_Properties
  imports Provider_Registry
begin

text \<open>
  The profile table: its invariant under every command of the worker and every check of the monitor, where a profile can
  come from, and that a probe is good for one registration.
\<close>

section \<open>Limits\<close>

lemma smallest_None [simp]: "smallest x None = x"
  by (simp add: smallest_def split: option.split)

lemma smallest_Some [simp]: "smallest (Some a) (Some b) = Some (min a b)"
  by (simp add: smallest_def)

lemma smallest_eq_None [simp]: "smallest a b = None \<longleftrightarrow> a = None \<and> b = None"
  by (simp add: smallest_def split: option.split)

lemma largest_None [simp]: "largest x None = x"
  by (simp add: largest_def split: option.split)

lemma exceeds_None [simp]: "\<not> exceeds None x" "\<not> exceeds x None"
  by (simp_all add: exceeds_def split: option.split)

lemma effective_limits_eq:
  "effective_limits a b c d e f =
     (smallest a d, if exceeds (largest b e) (smallest c f) then None else largest b e, smallest c f)"
  by (simp add: effective_limits_def Let_def)

text \<open>The columns every consumer reads are the stricter of the Relay's and the user's limits, and consistent.\<close>

definition limits_ok :: "profile \<Rightarrow> bool" where
  "limits_ok p \<longleftrightarrow>
     (Some (pv_max_ciphertext_bytes p), pv_min_ttl_seconds p, pv_max_ttl_seconds p) =
       effective_limits (pf_relay_max_bytes p) (pf_relay_min_ttl p) (pf_relay_max_ttl p)
         (pf_user_max_bytes p) (pf_user_min_ttl p) (pf_user_max_ttl p)"

lemma limits_ok_consistent:
  assumes "limits_ok p"
  shows "\<not> exceeds (pv_min_ttl_seconds p) (pv_max_ttl_seconds p)"
    and "pf_relay_max_bytes p = Some r \<Longrightarrow> pv_max_ciphertext_bytes p \<le> r"
    and "pf_user_max_bytes p = Some u \<Longrightarrow> pv_max_ciphertext_bytes p \<le> u"
    and "pf_relay_max_ttl p = Some t \<Longrightarrow> \<exists>m. pv_max_ttl_seconds p = Some m \<and> m \<le> t"
    and "pf_user_max_ttl p = Some t \<Longrightarrow> \<exists>m. pv_max_ttl_seconds p = Some m \<and> m \<le> t"
    and "pf_relay_min_ttl p = Some t \<or> pf_user_min_ttl p = Some t \<Longrightarrow> (\<exists>m. pv_min_ttl_seconds p = Some m \<and> t \<le> m)
      \<or> pv_min_ttl_seconds p = None \<and> exceeds (largest (pf_relay_min_ttl p) (pf_user_min_ttl p)) (pv_max_ttl_seconds p)"
  using assms
  by (auto simp: limits_ok_def effective_limits_eq smallest_def largest_def split: option.splits if_splits)

lemma limits_refreshed:
  assumes "limits_ok p"
  shows "limits_ok (refreshed_columns a b c p)"
proof -
  have "pf_relay_max_bytes p \<noteq> None \<or> pf_user_max_bytes p \<noteq> None"
    using assms smallest_eq_None [of "pf_relay_max_bytes p" "pf_user_max_bytes p"]
    unfolding limits_ok_def effective_limits_eq by (metis option.distinct(1) prod.inject)
  then have "smallest (or_stored x (pf_relay_max_bytes p)) (pf_user_max_bytes p) \<noteq> None" for x
    by (auto simp: or_stored_def)
  then show ?thesis
    by (auto simp: limits_ok_def refreshed_columns_def Let_def effective_limits_eq split: option.split)
qed

lemma limits_edited:
  assumes "limits_ok p"
  shows "limits_ok (edited_columns e name p p)"
  using assms by (simp add: limits_ok_def edited_columns_def edited_limits_def effective_limits_eq)

lemma limits_registered:
  assumes "rg_relay_max_bytes r = Some b" "rg_max_ciphertext_bytes r \<le> b" "\<not> exceeds (rg_min_ttl r) (rg_max_ttl r)"
  shows "limits_ok (registered_columns r name p)"
  using assms by (auto simp: limits_ok_def registered_columns_def relay_bytes_def effective_limits_eq min_def)

section \<open>The table\<close>

definition row_ok :: "ext \<Rightarrow> string \<Rightarrow> profile \<Rightarrow> bool" where
  "row_ok X ws p \<longleftrightarrow>
     pv_workspace_id p = ws \<and> compute_provider_id X (pv_origin p) (pv_service_public_key p) = Inr (pv_provider_id p)
     \<and> limits_ok p \<and> (\<forall>f. pf_upload_token_file p = Some f \<longrightarrow> f = upload_token_name (pv_provider_id p))"

definition tokens_ok :: "provider_state \<Rightarrow> bool" where
  "tokens_ok st \<longleftrightarrow>
     (\<forall>p \<in> set (ps_rows st). \<forall>f. pf_upload_token_file p = Some f \<longrightarrow> ps_token_files st f \<noteq> None)
     \<and> (\<forall>f t. ps_token_files st f = Some t \<longrightarrow>
          length (utf8_encode t) \<le> 4096 \<and> strip_of text_space t \<noteq> []
          \<and> (\<exists>p \<in> set (ps_rows st). pf_upload_token_file p = Some f))"

definition provider_ok :: "ext \<Rightarrow> string \<Rightarrow> provider_state \<Rightarrow> bool" where
  "provider_ok X ws st \<longleftrightarrow>
     distinct (map pv_provider_id (ps_rows st)) \<and> length (ps_rows st) \<le> 8
     \<and> (\<forall>p \<in> set (ps_rows st). \<forall>q \<in> set (ps_rows st). pf_is_default p \<longrightarrow> pf_is_default q \<longrightarrow> pv_provider_id p = pv_provider_id q)
     \<and> (\<forall>p \<in> set (ps_rows st). row_ok X ws p) \<and> tokens_ok st"

lemma provider_okD:
  assumes "provider_ok X ws st"
  shows "distinct (map pv_provider_id (ps_rows st))" and "length (ps_rows st) \<le> 8"
    and "p \<in> set (ps_rows st) \<Longrightarrow> row_ok X ws p" and "tokens_ok st"
    and "p \<in> set (ps_rows st) \<Longrightarrow> q \<in> set (ps_rows st) \<Longrightarrow> pf_is_default p \<Longrightarrow> pf_is_default q \<Longrightarrow> pv_provider_id p = pv_provider_id q"
  using assms unfolding provider_ok_def by blast+

lemma provider_okI:
  assumes "distinct (map pv_provider_id (ps_rows st))" and "length (ps_rows st) \<le> 8"
    and "\<And>p q. p \<in> set (ps_rows st) \<Longrightarrow> q \<in> set (ps_rows st) \<Longrightarrow> pf_is_default p \<Longrightarrow> pf_is_default q \<Longrightarrow> pv_provider_id p = pv_provider_id q"
    and "\<And>p. p \<in> set (ps_rows st) \<Longrightarrow> row_ok X ws p" and "tokens_ok st"
  shows "provider_ok X ws st"
  using assms unfolding provider_ok_def by blast

lemma resolve_profile_Some:
  "resolve_profile ws st pid = Some p \<Longrightarrow> p \<in> set (ps_rows st) \<and> pv_provider_id p = pid \<and> pv_workspace_id p = ws"
  unfolding resolve_profile_def by (drule find_by_Some) (simp add: profile_key_def)

lemma resolve_profile_iff:
  assumes "provider_ok X ws st"
  shows "resolve_profile ws st pid = Some p \<longleftrightarrow> p \<in> set (ps_rows st) \<and> pv_provider_id p = pid"
proof -
  have "pv_workspace_id q = ws" if "q \<in> set (ps_rows st)" for q using provider_okD(3) [OF assms that] by (simp add: row_ok_def)
  moreover have "distinct (map profile_key (ps_rows st))"
    using provider_okD(1) [OF assms] by (simp add: distinct_map inj_on_def profile_key_def)
  ultimately show ?thesis
    using resolve_profile_Some find_by_unique [of profile_key "ps_rows st" p]
    by (auto simp: resolve_profile_def profile_key_def)
qed

text \<open>The lookup of the transfer code, on the columns it reads, is the registry's.\<close>

lemma resolve_truncate:
  "resolve (map provider_row.truncate (ps_rows st)) ws pid = map_option provider_row.truncate (resolve_profile ws st pid)"
proof -
  have "find_by (\<lambda>p. (pv_provider_id p, pv_workspace_id p)) k (map provider_row.truncate rows)
      = map_option provider_row.truncate (find_by profile_key k rows)" for k and rows :: "profile list"
    by (induction rows) (auto simp: profile_key_def provider_row.truncate_def)
  then show ?thesis by (simp add: resolve_def resolve_profile_def)
qed

text \<open>A change row by row that keeps the ids and makes no profile the default.\<close>

lemma map_rows_ok:
  assumes ok: "provider_ok X ws st" and rows: "ps_rows st' = map g (ps_rows st)"
    and g: "\<And>p. pv_provider_id (g p) = pv_provider_id p" "\<And>p. pf_is_default (g p) \<Longrightarrow> pf_is_default p"
    and row: "\<And>p. p \<in> set (ps_rows st) \<Longrightarrow> row_ok X ws (g p)" and tokens: "tokens_ok st'"
  shows "provider_ok X ws st'"
proof (rule provider_okI)
  show "distinct (map pv_provider_id (ps_rows st'))" using provider_okD(1) [OF ok] by (simp add: rows comp_def g(1))
  show "pv_provider_id p = pv_provider_id q"
    if pq: "p \<in> set (ps_rows st')" "q \<in> set (ps_rows st')" "pf_is_default p" "pf_is_default q" for p q
  proof -
    obtain p' q' where "p' \<in> set (ps_rows st)" "q' \<in> set (ps_rows st)" "p = g p'" "q = g q'" using pq(1,2) by (auto simp: rows)
    then show ?thesis using pq(3,4) g(2) provider_okD(5) [OF ok, of p' q'] by (simp add: g(1))
  qed
qed (use provider_okD(2) [OF ok] row tokens in \<open>auto simp: rows\<close>)

text \<open>An update of one profile that keeps its identity, its default mark and its token.\<close>

lemma update_rows_ok:
  assumes ok: "provider_ok X ws st"
    and keeps: "\<And>p. pv_provider_id (f p) = pv_provider_id p" "\<And>p. pv_workspace_id (f p) = pv_workspace_id p"
      "\<And>p. pv_origin (f p) = pv_origin p" "\<And>p. pv_service_public_key (f p) = pv_service_public_key p"
      "\<And>p. pf_is_default (f p) = pf_is_default p" "\<And>p. pf_upload_token_file (f p) = pf_upload_token_file p"
    and limits: "\<And>p. resolve_profile ws st pid = Some p \<Longrightarrow> limits_ok (f p)"
  shows "provider_ok X ws (update_rows ws pid f st)"
proof -
  define g where "g = (\<lambda>p. if profile_key p = (pid, ws) then f p else p)"
  have rows: "ps_rows (update_rows ws pid f st) = map g (ps_rows st)"
    and files: "ps_token_files (update_rows ws pid f st) = ps_token_files st"
    by (simp_all add: update_rows_def update_where_def g_def)
  have g: "pf_upload_token_file (g p) = pf_upload_token_file p" "pf_is_default (g p) = pf_is_default p"
      "pv_provider_id (g p) = pv_provider_id p" for p
    by (simp_all add: keeps g_def)
  have lim: "limits_ok (g p)" if "p \<in> set (ps_rows st)" for p
    using that limits resolve_profile_iff [OF ok, of pid p] provider_okD(3) [OF ok that]
    by (auto simp: profile_key_def row_ok_def g_def)
  have row: "row_ok X ws (g p)" if "p \<in> set (ps_rows st)" for p
    using provider_okD(3) [OF ok that] lim [OF that] by (auto simp: row_ok_def keeps g_def)
  have "tokens_ok (update_rows ws pid f st)"
    using provider_okD(4) [OF ok] by (simp add: tokens_ok_def rows files g)
  then show ?thesis using map_rows_ok [OF ok rows g(3) _ row] g(2) by simp
qed

definition mark_default :: "string \<Rightarrow> profile \<Rightarrow> profile" where
  "mark_default pid p = p\<lparr>pf_is_default := (pv_provider_id p = pid)\<rparr>"

lemma mark_default_simps [simp]:
  "pf_upload_token_file (mark_default pid p) = pf_upload_token_file p"
  "pv_provider_id (mark_default pid p) = pv_provider_id p"
  "row_ok X ws (mark_default pid p) = row_ok X ws p"
  "pf_is_default (mark_default pid p) \<longleftrightarrow> pv_provider_id p = pid"
  "pv_workspace_id (mark_default pid p) = pv_workspace_id p"
  by (simp_all add: mark_default_def row_ok_def limits_ok_def)

lemma set_default_eq:
  assumes "provider_ok X ws st" and "resolve_profile ws st pid \<noteq> None"
  shows "snd (set_default ws pid st) = st\<lparr>ps_rows := map (mark_default pid) (ps_rows st)\<rparr>"
proof -
  have "pv_workspace_id p = ws" if "p \<in> set (ps_rows st)" for p
    using provider_okD(3) [OF assms(1) that] by (simp add: row_ok_def)
  then show ?thesis
    using assms(2) by (auto simp: set_default_def Let_def update_rows_def update_where_def mark_default_def profile_key_def)
qed

lemma set_default_ok:
  assumes ok: "provider_ok X ws st"
  shows "provider_ok X ws (snd (set_default ws pid st))"
proof (cases "resolve_profile ws st pid = None")
  case True
  then show ?thesis using ok by (simp add: set_default_def)
next
  case False
  show ?thesis
    unfolding set_default_eq [OF ok False]
  proof (rule provider_okI)
    show "tokens_ok (st\<lparr>ps_rows := map (mark_default pid) (ps_rows st)\<rparr>)"
      using provider_okD(4) [OF ok] by (simp add: tokens_ok_def)
    show "distinct (map pv_provider_id (ps_rows (st\<lparr>ps_rows := map (mark_default pid) (ps_rows st)\<rparr>)))"
      using provider_okD(1) [OF ok] by (simp add: comp_def)
  qed (use provider_okD(2,3) [OF ok] in auto)
qed

text \<open>After \<open>set_default\<close> the profile is the one default.\<close>

lemma set_default_result:
  assumes ok: "provider_ok X ws st" and p: "resolve_profile ws st pid = Some p"
  shows "\<exists>q. get_default ws (snd (set_default ws pid st)) = Some q \<and> pv_provider_id q = pid"
proof -
  let ?rows = "map (mark_default pid) (ps_rows st)"
  have rows: "ps_rows (snd (set_default ws pid st)) = ?rows" using set_default_eq [OF ok] p by simp
  have mem: "p \<in> set (ps_rows st)" "pv_workspace_id p = ws" "pv_provider_id p = pid"
    using resolve_profile_Some [OF p] by auto
  have "get_default ws (snd (set_default ws pid st)) \<noteq> None"
    using mem by (auto simp: get_default_def rows find_None_iff)
  then obtain q where q: "get_default ws (snd (set_default ws pid st)) = Some q" by blast
  then have "q \<in> set ?rows" "pf_is_default q" unfolding get_default_def rows by (auto simp: find_Some_iff)
  then have "pv_provider_id q = pid" by auto
  with q show ?thesis by blast
qed

lemma registered_keeps [simp]:
  "pv_provider_id (registered_columns r name p) = pv_provider_id p"
  "pv_workspace_id (registered_columns r name p) = pv_workspace_id p"
  "pv_origin (registered_columns r name p) = pv_origin p"
  "pv_service_public_key (registered_columns r name p) = pv_service_public_key p"
  "pf_is_default (registered_columns r name p) = pf_is_default p"
  "pf_upload_token_file (registered_columns r name p) = pf_upload_token_file p"
  by (simp_all add: registered_columns_def)

lemma new_profile_simps [simp]:
  "pv_provider_id (new_profile ws pid origin name r) = pid"
  "pv_workspace_id (new_profile ws pid origin name r) = ws"
  "pv_origin (new_profile ws pid origin name r) = origin"
  "pv_service_public_key (new_profile ws pid origin name r) = rg_service_public_key r"
  "pf_is_default (new_profile ws pid origin name r) = False"
  "pf_upload_token_file (new_profile ws pid origin name r) = None"
  by (simp_all add: new_profile_def)

lemma validate_registration_Inr:
  assumes "validate_registration X ip_ok r = Inr (pid, origin, name)"
  shows "normalize_origin ip_ok (rg_base_url r) = Inr origin" and "compute_provider_id X origin (rg_service_public_key r) = Inr pid"
    and "\<not> exceeds (rg_min_ttl r) (rg_max_ttl r)" and "0 < rg_max_ciphertext_bytes r"
  using assms
  by (auto simp: validate_registration_def bind_res_eq_Inr check_def validate_ttl_pair_def lift_registry_def
      split: if_splits sum.splits) (auto simp: map_sum_def split: sum.splits)

text \<open>A registration that respects the limit the Relay published.\<close>

definition within_relay :: "registration \<Rightarrow> bool" where
  "within_relay r \<longleftrightarrow> (\<exists>b. rg_relay_max_bytes r = Some b \<and> rg_max_ciphertext_bytes r \<le> b)"

lemma insert_profile_ok:
  assumes ok: "provider_ok X ws st" and v: "validate_registration X ip_ok r = Inr (pid, origin, name)" and w: "within_relay r"
    and room: "resolve_profile ws st pid = None \<Longrightarrow> length (ps_rows st) < 8"
  shows "provider_ok X ws (st\<lparr>ps_rows := upsert pv_provider_id (new_profile ws pid origin name r) (registered_columns r name) (ps_rows st)\<rparr>)"
    (is "provider_ok X ws ?st")
proof (cases "resolve_profile ws st pid")
  case None
  then have new: "pid \<notin> pv_provider_id ` set (ps_rows st)"
    using resolve_profile_iff [OF ok, of pid] by fastforce
  then have rows: "ps_rows ?st = ps_rows st @ [new_profile ws pid origin name r]"
    by (auto simp: upsert_def find_by_None)
  have row: "row_ok X ws (new_profile ws pid origin name r)"
    using validate_registration_Inr [OF v] limits_registered w
    by (auto simp: row_ok_def within_relay_def new_profile_def)
  show ?thesis
  proof (rule provider_okI)
    show "distinct (map pv_provider_id (ps_rows ?st))" using provider_okD(1) [OF ok] new by (simp only: rows) simp
    show "length (ps_rows ?st) \<le> 8" using room None by (simp only: rows) simp
    show "row_ok X ws p" if "p \<in> set (ps_rows ?st)" for p
      using that row provider_okD(3) [OF ok] unfolding rows by auto
    show "tokens_ok ?st" using provider_okD(4) [OF ok] unfolding tokens_ok_def rows by (simp add: bex_Un ball_Un)
    show "pv_provider_id p = pv_provider_id q"
      if "p \<in> set (ps_rows ?st)" "q \<in> set (ps_rows ?st)" "pf_is_default p" "pf_is_default q" for p q
    proof -
      have "p \<in> set (ps_rows st)" "q \<in> set (ps_rows st)" using that unfolding rows by auto
      then show ?thesis using that(3,4) provider_okD(5) [OF ok] by blast
    qed
  qed
next
  case (Some p)
  then have "pv_provider_id p = pid" "p \<in> set (ps_rows st)" using resolve_profile_Some by blast+
  then have "?st = update_rows ws pid (registered_columns r name) st"
    using provider_okD(3) [OF ok] find_by_None [of pv_provider_id pid "ps_rows st"]
    by (auto simp: upsert_def update_rows_def update_where_def profile_key_def row_ok_def)
  moreover have "limits_ok (registered_columns r name q)" for q
    using validate_registration_Inr(3) [OF v] limits_registered w by (auto simp: within_relay_def)
  ultimately show ?thesis using update_rows_ok [OF ok, of "registered_columns r name" pid] by simp
qed

lemma register_provider_ok:
  assumes ok: "provider_ok X ws st" and w: "within_relay r"
  shows "provider_ok X ws (snd (register_provider X ip_ok ws r st))"
proof (cases "validate_registration X ip_ok r")
  case (Inl e)
  then show ?thesis using ok by (simp add: register_provider_def)
next
  case (Inr v)
  obtain pid origin name where v: "v = (pid, origin, name)" by (cases v) auto
  have all: "filter (\<lambda>p. pv_workspace_id p = ws) (ps_rows st) = ps_rows st"
    using provider_okD(3) [OF ok] by (auto simp: filter_id_conv row_ok_def)
  show ?thesis
    using ok insert_profile_ok [OF ok Inr [unfolded v] w] set_default_ok
    by (auto simp: register_provider_def Inr v Let_def all MAX_PROVIDER_PROFILES_def)
qed

lemma update_profile_ok:
  assumes ok: "provider_ok X ws st"
  shows "provider_ok X ws (snd (update_profile ws pid e st))"
proof (cases "resolve_profile ws st pid")
  case (Some p)
  have "limits_ok (edited_columns e name p p)" for name
    using limits_edited provider_okD(3) [OF ok] resolve_profile_Some [OF Some] by (simp add: row_ok_def)
  then have "provider_ok X ws (update_rows ws pid (edited_columns e name p) st)" for name
    using Some by (intro update_rows_ok [OF ok]) (auto simp: edited_columns_def)
  then show ?thesis using ok Some by (auto simp: update_profile_def Let_def split: sum.split)
qed (use ok in \<open>simp add: update_profile_def\<close>)

lemma refresh_limits_ok:
  assumes ok: "provider_ok X ws st"
  shows "provider_ok X ws (snd (refresh_limits ws pid a b c st))"
proof -
  have "limits_ok (refreshed_columns a b c p)" if "resolve_profile ws st pid = Some p" for p
    using limits_refreshed provider_okD(3) [OF ok] resolve_profile_Some [OF that] by (simp add: row_ok_def)
  then have "provider_ok X ws (update_rows ws pid (refreshed_columns a b c) st)"
    by (intro update_rows_ok [OF ok]) (auto simp: refreshed_columns_def Let_def effective_limits_eq)
  then show ?thesis using ok by (simp add: refresh_limits_def split: option.split)
qed

lemma record_check_result_ok:
  assumes ok: "provider_ok X ws st"
  shows "provider_ok X ws (record_check_result ws pid result latency code now st)"
  unfolding record_check_result_def
  using provider_okD(3) [OF ok] resolve_profile_Some
  by (intro update_rows_ok [OF ok]) (auto simp: row_ok_def limits_ok_def)

lemma upload_token_name_inj [simp]: "upload_token_name a = upload_token_name b \<longleftrightarrow> a = b"
  by (simp add: upload_token_name_def)

text \<open>A file exists exactly for a profile with a configured token.\<close>

lemma token_file_iff:
  assumes ok: "provider_ok X ws st"
  shows "ps_token_files st f \<noteq> None \<longleftrightarrow>
    (\<exists>p \<in> set (ps_rows st). pf_upload_token_file p = Some f \<and> f = upload_token_name (pv_provider_id p))"
  using provider_okD(3,4) [OF ok] unfolding tokens_ok_def row_ok_def by fast

lemma set_upload_token_ok:
  assumes ok: "provider_ok X ws st"
  shows "provider_ok X ws (snd (set_upload_token ws pid token st))"
proof (cases "fst (set_upload_token ws pid token st)")
  case (Inl e)
  then show ?thesis using ok by (auto simp: set_upload_token_def Let_def split: if_splits)
next
  case (Inr u)
  define f where "f = upload_token_name pid"
  define g where "g = (\<lambda>p :: profile. if profile_key p = (pid, ws) then p\<lparr>pf_upload_token_file := Some f\<rparr> else p)"
  have ws: "pv_workspace_id p = ws" if "p \<in> set (ps_rows st)" for p
    using provider_okD(3) [OF ok that] by (simp add: row_ok_def)
  obtain p0 where p0: "p0 \<in> set (ps_rows st)" "profile_key p0 = (pid, ws)"
    using Inr resolve_profile_Some by (fastforce simp: set_upload_token_def profile_key_def split: if_splits)
  have st: "snd (set_upload_token ws pid token st)
      = st\<lparr>ps_rows := map g (ps_rows st), ps_token_files := (ps_token_files st)(f \<mapsto> token)\<rparr>" (is "_ = ?st")
    and token: "length (utf8_encode token) \<le> 4096" "strip_of text_space token \<noteq> []"
    using Inr by (auto simp: set_upload_token_def update_rows_def update_where_def g_def f_def MAX_UPLOAD_TOKEN_BYTES_def Let_def split: if_splits)
  have g: "pv_provider_id (g p) = pv_provider_id p" "pf_is_default (g p) = pf_is_default p" for p by (simp_all add: g_def)
  have tok: "pf_upload_token_file (g p) = (if pv_provider_id p = pid then Some f else pf_upload_token_file p)" if "p \<in> set (ps_rows st)" for p
    using ws [OF that] by (simp add: g_def profile_key_def)
  have row: "row_ok X ws (g p)" if "p \<in> set (ps_rows st)" for p
    using provider_okD(3) [OF ok that] by (auto simp: g_def row_ok_def limits_ok_def f_def profile_key_def)
  have "tokens_ok ?st"
    unfolding tokens_ok_def
  proof (intro conjI ballI allI impI)
    fix p h assume p: "p \<in> set (ps_rows ?st)" "pf_upload_token_file p = Some h"
    then obtain q where "q \<in> set (ps_rows st)" "p = g q" by auto
    then show "ps_token_files ?st h \<noteq> None"
      using p(2) tok [of q] provider_okD(4) [OF ok] by (auto simp: tokens_ok_def split: if_splits)
  next
    fix h t assume t: "ps_token_files ?st h = Some t"
    then show "length (utf8_encode t) \<le> 4096" "strip_of text_space t \<noteq> []"
      using token provider_okD(4) [OF ok] by (auto simp: tokens_ok_def split: if_splits)
    have "ps_token_files st h \<noteq> None" if "h \<noteq> f" using t that by simp
    then show "\<exists>p \<in> set (ps_rows ?st). pf_upload_token_file p = Some h"
      using token_file_iff [OF ok, of h] tok p0 by (cases "h = f") (fastforce simp: f_def profile_key_def)+
  qed
  then show ?thesis unfolding st using map_rows_ok [OF ok _ g(1) _ row] g(2) by simp
qed

lemma forget_token_ok:
  assumes ok: "provider_ok X ws st"
  shows "provider_ok X ws (update_rows ws pid (\<lambda>p. p\<lparr>pf_upload_token_file := None\<rparr>)
           (st\<lparr>ps_token_files := (ps_token_files st)(upload_token_name pid := None)\<rparr>))" (is "provider_ok X ws ?st")
proof -
  define g where "g = (\<lambda>p :: profile. if profile_key p = (pid, ws) then p\<lparr>pf_upload_token_file := None\<rparr> else p)"
  have rows: "ps_rows ?st = map g (ps_rows st)" and files: "ps_token_files ?st = (ps_token_files st)(upload_token_name pid := None)"
    by (simp_all add: update_rows_def update_where_def g_def)
  have g: "pv_provider_id (g p) = pv_provider_id p" "pf_is_default (g p) = pf_is_default p" for p by (simp_all add: g_def)
  have tok: "pf_upload_token_file (g p) = (if pv_provider_id p = pid then None else pf_upload_token_file p)" if "p \<in> set (ps_rows st)" for p
    using provider_okD(3) [OF ok that] by (simp add: g_def profile_key_def row_ok_def)
  have row: "row_ok X ws (g p)" if "p \<in> set (ps_rows st)" for p
    using provider_okD(3) [OF ok that] by (auto simp: g_def row_ok_def limits_ok_def)
  have "tokens_ok ?st"
    unfolding tokens_ok_def rows files
  proof (intro conjI ballI allI impI)
    fix p h assume p: "p \<in> set (map g (ps_rows st))" "pf_upload_token_file p = Some h"
    then obtain q where q: "q \<in> set (ps_rows st)" "p = g q" by auto
    then have "pf_upload_token_file q = Some h" "pv_provider_id q \<noteq> pid" using p(2) tok [of q] by (auto split: if_splits)
    moreover from this have "h = upload_token_name (pv_provider_id q)" "ps_token_files st h \<noteq> None"
      using provider_okD(3) [OF ok q(1)] provider_okD(4) [OF ok] q(1) by (simp_all add: tokens_ok_def row_ok_def)
    ultimately show "((ps_token_files st)(upload_token_name pid := None)) h \<noteq> None" by simp
  next
    fix h t assume "((ps_token_files st)(upload_token_name pid := None)) h = Some t"
    then have h: "ps_token_files st h = Some t" "h \<noteq> upload_token_name pid" by (auto split: if_splits)
    then show "length (utf8_encode t) \<le> 4096" "strip_of text_space t \<noteq> []"
      using provider_okD(4) [OF ok] by (auto simp: tokens_ok_def)
    obtain p where "p \<in> set (ps_rows st)" "pf_upload_token_file p = Some h" "h = upload_token_name (pv_provider_id p)"
      using token_file_iff [OF ok, of h] h(1) by auto
    then show "\<exists>p \<in> set (map g (ps_rows st)). pf_upload_token_file p = Some h"
      using tok [of p] h(2) by (auto intro!: bexI [of _ p])
  qed
  then show ?thesis using map_rows_ok [OF ok rows g(1) _ row] g(2) by simp
qed

text \<open>The token file of a profile is gone after a deletion that did not raise.\<close>

lemma delete_token_file_cases:
  assumes ok: "provider_ok X ws st" and p: "resolve_profile ws st pid = Some p"
  shows "(\<exists>e. delete_upload_token_file ws pid st = (Inl e, st))
    \<or> delete_upload_token_file ws pid st = (Inr (), st\<lparr>ps_token_files := (ps_token_files st)(upload_token_name pid := None)\<rparr>)"
proof (cases "pf_upload_token_file p")
  case None
  have "ps_token_files st (upload_token_name pid) = None"
  proof (rule ccontr)
    assume "ps_token_files st (upload_token_name pid) \<noteq> None"
    then obtain q where "q \<in> set (ps_rows st)" "pf_upload_token_file q = Some (upload_token_name pid)" "pv_provider_id q = pid"
      using token_file_iff [OF ok, of "upload_token_name pid"] by auto
    then show False using resolve_profile_iff [OF ok, of pid q] p None by simp
  qed
  then have "st\<lparr>ps_token_files := (ps_token_files st)(upload_token_name pid := None)\<rparr> = st" by (simp add: fun_upd_idem)
  then show ?thesis using p None by (simp add: delete_upload_token_file_def)
next
  case (Some f)
  then have "f = upload_token_name pid"
    using provider_okD(3) [OF ok] resolve_profile_Some [OF p] by (auto simp: row_ok_def)
  then show ?thesis using p Some by (simp add: delete_upload_token_file_def unlink_upload_token_file_def)
qed

lemma clear_upload_token_ok:
  assumes ok: "provider_ok X ws st"
  shows "provider_ok X ws (snd (clear_upload_token ws pid st))"
proof (cases "resolve_profile ws st pid")
  case (Some p)
  then show ?thesis
    using delete_token_file_cases [OF ok Some] ok forget_token_ok [OF ok, of pid] by (auto simp: clear_upload_token_def)
qed (use ok in \<open>simp add: clear_upload_token_def\<close>)

lemma delete_row_ok:
  assumes ok: "provider_ok X ws st"
  shows "provider_ok X ws (st\<lparr>ps_token_files := (ps_token_files st)(upload_token_name pid := None),
           ps_rows := filter (\<lambda>p. profile_key p \<noteq> (pid, ws)) (ps_rows st)\<rparr>)" (is "provider_ok X ws ?st")
proof -
  have keep: "p \<in> set (ps_rows ?st) \<longleftrightarrow> p \<in> set (ps_rows st) \<and> pv_provider_id p \<noteq> pid" for p
    using provider_okD(3) [OF ok, of p] by (auto simp: profile_key_def row_ok_def)
  have "tokens_ok ?st"
    unfolding tokens_ok_def
  proof (intro conjI ballI allI impI)
    fix p h assume "p \<in> set (ps_rows ?st)" "pf_upload_token_file p = Some h"
    then have p: "p \<in> set (ps_rows st)" "pv_provider_id p \<noteq> pid" "pf_upload_token_file p = Some h" unfolding keep by simp_all
    then have "h = upload_token_name (pv_provider_id p)" "ps_token_files st h \<noteq> None"
      using provider_okD(3) [OF ok p(1)] provider_okD(4) [OF ok] by (simp_all add: tokens_ok_def row_ok_def)
    with p(2) show "ps_token_files ?st h \<noteq> None" by simp
  next
    fix h t assume "ps_token_files ?st h = Some t"
    then have h: "ps_token_files st h = Some t" "h \<noteq> upload_token_name pid" by (auto split: if_splits)
    then show "length (utf8_encode t) \<le> 4096" "strip_of text_space t \<noteq> []"
      using provider_okD(4) [OF ok] by (auto simp: tokens_ok_def)
    show "\<exists>p \<in> set (ps_rows ?st). pf_upload_token_file p = Some h"
      using token_file_iff [OF ok, of h] h keep by auto
  qed
  moreover have "distinct (map pv_provider_id (ps_rows ?st))" using provider_okD(1) [OF ok] by (simp add: distinct_map_filter)
  moreover have "length (ps_rows ?st) \<le> 8" using provider_okD(2) [OF ok] by (simp add: le_trans [OF length_filter_le])
  ultimately show ?thesis
    using provider_okD(3,5) [OF ok] keep by (intro provider_okI) blast+
qed

lemma remove_or_disable_ok:
  assumes ok: "provider_ok X ws st" and p: "resolve_profile ws st pid \<noteq> None"
  shows "provider_ok X ws (snd (remove_or_disable used ws pid st))"
proof -
  obtain p where p: "resolve_profile ws st pid = Some p" using p by blast
  have "provider_ok X ws (snd (update_profile ws pid e st))" for e using update_profile_ok [OF ok] .
  then show ?thesis
    using delete_token_file_cases [OF ok p] ok delete_row_ok [OF ok, of pid]
    by (auto simp: remove_or_disable_def split: prod.split sum.split) (metis snd_conv)+
qed

section \<open>Commands\<close>

fun end_state :: "'w handler_end \<Rightarrow> 'w" where
  "end_state (Returned _ w) = w"
| "end_state (ReturnedOther w) = w"
| "end_state (Raised w) = w"

lemma end_state_simps [simp]:
  "end_state (fails code a) = a" "end_state (succeeds rid result a) = a"
  by (simp_all add: fails_def succeeds_def)

text \<open>The worker's commands, the monitor's updates and the request threads' looks at a probe, in any order, at any time and
  with any answer of the Relays. The external functions and the workspace stay the same.\<close>

definition env_of :: "ext \<Rightarrow> (string \<Rightarrow> bool) \<Rightarrow> string \<Rightarrow> admin_env \<Rightarrow> bool" where
  "env_of X ip_ok ws E \<longleftrightarrow> ae_ext E = X \<and> ae_ip_ok E = ip_ok \<and> ae_workspace E = ws"

inductive admin_step :: "ext \<Rightarrow> (string \<Rightarrow> bool) \<Rightarrow> string \<Rightarrow> provider_admin \<Rightarrow> provider_admin \<Rightarrow> bool" for X ip_ok ws where
  admin_probe: "env_of X ip_ok ws E \<Longrightarrow> admin_step X ip_ok ws a (end_state (command_provider_probe E c a))"
| admin_register: "env_of X ip_ok ws E \<Longrightarrow> admin_step X ip_ok ws a (end_state (command_provider_register E c a))"
| admin_update: "env_of X ip_ok ws E \<Longrightarrow> admin_step X ip_ok ws a (end_state (command_provider_update E c min_ttl max_ttl version a))"
| admin_default: "env_of X ip_ok ws E \<Longrightarrow> admin_step X ip_ok ws a (end_state (command_provider_set_default E c a))"
| admin_remove: "env_of X ip_ok ws E \<Longrightarrow> admin_step X ip_ok ws a (end_state (command_provider_remove E c a))"
| admin_token: "env_of X ip_ok ws E \<Longrightarrow> admin_step X ip_ok ws a (end_state (command_provider_set_upload_token E c a))"
| admin_clear: "env_of X ip_ok ws E \<Longrightarrow> admin_step X ip_ok ws a (end_state (command_provider_clear_upload_token E c a))"
| admin_refresh: "admin_step X ip_ok ws a (a\<lparr>ad_providers := snd (refresh_limits ws pid bytes lmin lmax (ad_providers a))\<rparr>)"
| admin_check: "admin_step X ip_ok ws a (a\<lparr>ad_providers := record_check_result ws pid result latency code now (ad_providers a)\<rparr>)"
| admin_look: "admin_step X ip_ok ws a (a\<lparr>ad_probes := snd (probe_get now probe_id (ad_probes a))\<rparr>)"

definition probes_ok :: "ext \<Rightarrow> probe_registry \<Rightarrow> bool" where
  "probes_ok X records \<longleftrightarrow>
     distinct (map pb_probe_id records) \<and> length records \<le> 64
     \<and> (\<forall>r \<in> set records. compute_provider_id X (pb_origin r) (pb_service_public_key r) = Inr (pb_provider_id r)
          \<and> pb_service_key_fingerprint r = fingerprint_of X (pb_service_public_key r))"

lemma probes_ok_sub:
  assumes "probes_ok X records" and "set r' \<subseteq> set records" "length r' \<le> length records" "distinct (map pb_probe_id r')"
  shows "probes_ok X r'"
  using assms by (auto simp: probes_ok_def)

lemma probe_evict_ok: "probes_ok X records \<Longrightarrow> probes_ok X (probe_evict now records)"
  by (rule probes_ok_sub [of X records]) (auto simp: probe_evict_def distinct_map_filter probes_ok_def)

lemma probe_consume_ok:
  assumes "probes_ok X records" and "probe_consume now probe_id records = (found, records')"
  shows "probes_ok X records'"
    and "found = Some r \<Longrightarrow> r \<in> set records \<and> now < pb_expires_at r \<and> pb_probe_id r = probe_id"
    and "find_by pb_probe_id probe_id records' = None"
proof -
  have e: "probes_ok X (probe_evict now records)" using probe_evict_ok [OF assms(1)] .
  have r: "records' = filter (\<lambda>r. pb_probe_id r \<noteq> probe_id) (probe_evict now records)" "found = find_by pb_probe_id probe_id (probe_evict now records)"
    using assms(2) by (auto simp: probe_consume_def Let_def)
  show "probes_ok X records'"
    using e unfolding r by (rule probes_ok_sub) (use e in \<open>auto simp: distinct_map_filter probes_ok_def\<close>)
  show "found = Some r \<Longrightarrow> r \<in> set records \<and> now < pb_expires_at r \<and> pb_probe_id r = probe_id"
    unfolding r by (drule find_by_Some) (auto simp: probe_evict_def)
  show "find_by pb_probe_id probe_id records' = None" by (auto simp: r find_by_None)
qed

lemma probe_add_ok:
  assumes ok: "probes_ok X records" and add: "probe_add now r records = Some records'"
    and r: "compute_provider_id X (pb_origin r) (pb_service_public_key r) = Inr (pb_provider_id r)"
      "pb_service_key_fingerprint r = fingerprint_of X (pb_service_public_key r)"
  shows "probes_ok X records'"
proof -
  define capped where "capped = (if now + PROBE_TTL_SECONDS < pb_expires_at r then r\<lparr>pb_expires_at := now + PROBE_TTL_SECONDS\<rparr> else r)"
  define all where "all = probe_evict now records @ [capped]"
  have records': "records' = drop (length all - 64) all" "pb_probe_id r \<notin> pb_probe_id ` set (probe_evict now records)"
    using add by (auto simp: probe_add_def Let_def all_def capped_def PROBE_MAX_ENTRIES_def find_by_None split: if_splits)
  have capped: "pb_probe_id capped = pb_probe_id r" "pb_origin capped = pb_origin r" "pb_provider_id capped = pb_provider_id r"
      "pb_service_public_key capped = pb_service_public_key r" "pb_service_key_fingerprint capped = pb_service_key_fingerprint r"
    by (simp_all add: capped_def)
  have d: "distinct (map pb_probe_id all)"
    using records'(2) probe_evict_ok [OF ok, of now] by (auto simp: all_def capped probes_ok_def)
  have "\<forall>x \<in> set all. compute_provider_id X (pb_origin x) (pb_service_public_key x) = Inr (pb_provider_id x)
      \<and> pb_service_key_fingerprint x = fingerprint_of X (pb_service_public_key x)"
    using r probe_evict_ok [OF ok, of now] by (auto simp: all_def capped probes_ok_def)
  then show ?thesis
    unfolding probes_ok_def records'(1) using d by (auto simp: drop_map [symmetric] distinct_drop dest: in_set_dropD)
qed

text \<open>What identifies a profile; no change of the table but a registration brings a new one.\<close>

definition ident :: "profile \<Rightarrow> string \<times> string \<times> bytes" where
  "ident p = (pv_provider_id p, pv_origin p, pv_service_public_key p)"

definition idents :: "provider_state \<Rightarrow> (string \<times> string \<times> bytes) set" where
  "idents st = set (map ident (ps_rows st))"

lemma idents_update_rows: "(\<And>p. ident (f p) = ident p) \<Longrightarrow> idents (update_rows ws pid f st) = idents st"
  by (simp add: idents_def update_rows_def del: set_map)

lemma idents_set_default: "idents (snd (set_default ws pid st)) = idents st"
proof -
  have e: "ident (p\<lparr>pf_is_default := b\<rparr>) = ident p" for p b by (simp add: ident_def)
  then have "idents (st\<lparr>ps_rows := update_where P (\<lambda>p. p\<lparr>pf_is_default := b\<rparr>) (ps_rows st)\<rparr>) = idents st" for P b st
    by (simp add: idents_def del: set_map)
  then show ?thesis by (simp add: set_default_def Let_def idents_update_rows [OF e])
qed

lemma idents_register:
  "idents (snd (register_provider X ip_ok ws r st)) \<subseteq> idents st \<union>
     {(pid, origin, rg_service_public_key r) | pid origin name. validate_registration X ip_ok r = Inr (pid, origin, name)}"
proof (cases "validate_registration X ip_ok r")
  case (Inr v)
  obtain pid origin name where v: "v = (pid, origin, name)" by (cases v) auto
  have "ident (registered_columns r name p) = ident p" for p by (simp add: ident_def)
  moreover have "ident (new_profile ws pid origin name r) = (pid, origin, rg_service_public_key r)" by (simp add: ident_def)
  ultimately have "idents (st\<lparr>ps_rows := upsert pv_provider_id (new_profile ws pid origin name r) (registered_columns r name) (ps_rows st)\<rparr>)
      \<subseteq> insert (pid, origin, rg_service_public_key r) (idents st)"
    by (auto simp: idents_def upsert_def set_update_where)
  then show ?thesis by (auto simp: register_provider_def Inr v Let_def idents_set_default)
qed (simp add: register_provider_def)

lemma ident_columns [simp]:
  "ident (edited_columns e name p q) = ident q" "ident (refreshed_columns a b c p) = ident p"
  by (simp_all add: ident_def edited_columns_def refreshed_columns_def Let_def effective_limits_eq)

lemma idents_update_profile: "idents (snd (update_profile ws pid e st)) = idents st"
  by (auto simp: update_profile_def Let_def idents_update_rows split: option.split sum.split)

lemma idents_refresh: "idents (snd (refresh_limits ws pid a b c st)) = idents st"
  by (auto simp: refresh_limits_def idents_update_rows split: option.split)

lemma idents_check: "idents (record_check_result ws pid result latency code now st) = idents st"
  by (simp add: record_check_result_def idents_update_rows ident_def)

lemma idents_files [simp]: "idents (st\<lparr>ps_token_files := m\<rparr>) = idents st"
  by (simp add: idents_def)

lemma idents_tokens:
  "idents (snd (set_upload_token ws pid token st)) = idents st" "idents (snd (clear_upload_token ws pid st)) = idents st"
  "idents (snd (delete_upload_token_file ws pid st)) = idents st"
proof -
  have e: "ident (p\<lparr>pf_upload_token_file := x\<rparr>) = ident p" for p x by (simp add: ident_def)
  show "idents (snd (set_upload_token ws pid token st)) = idents st"
    by (simp add: set_upload_token_def Let_def idents_update_rows [OF e])
  show d: "idents (snd (delete_upload_token_file ws pid st)) = idents st"
    by (simp add: delete_upload_token_file_def unlink_upload_token_file_def split: option.split)
  show "idents (snd (clear_upload_token ws pid st)) = idents st"
    using d by (cases "delete_upload_token_file ws pid st"; cases "fst (delete_upload_token_file ws pid st)")
      (simp_all add: clear_upload_token_def idents_update_rows [OF e])
qed

lemma idents_remove: "idents (snd (remove_or_disable used ws pid st)) \<subseteq> idents st"
proof -
  have f: "idents (st\<lparr>ps_rows := filter P (ps_rows st)\<rparr>) \<subseteq> idents st" for st P by (auto simp: idents_def)
  show ?thesis
    using idents_update_profile [of ws pid "no_edit\<lparr>ed_enabled := Some False\<rparr>" st] idents_tokens(3) [of ws pid st]
      f [of _ "snd (delete_upload_token_file ws pid st)"]
    by (cases "update_profile ws pid (no_edit\<lparr>ed_enabled := Some False\<rparr>) st"; cases "delete_upload_token_file ws pid st")
      (simp add: remove_or_disable_def split: sum.split)
qed

section \<open>Invariant\<close>

definition admin_ok :: "ext \<Rightarrow> string \<Rightarrow> provider_admin \<Rightarrow> bool" where
  "admin_ok X ws a \<longleftrightarrow> provider_ok X ws (ad_providers a) \<and> probes_ok X (ad_probes a)"

lemma with_provider_inv:
  assumes "P a" and "\<And>pid. resolve_profile (ae_workspace E) (ad_providers a) pid \<noteq> None \<Longrightarrow> P (end_state (f pid))"
  shows "P (end_state (with_provider E c a f))"
  using assms by (auto simp: with_provider_def split: wire.split)

lemma provider_call_end [simp]:
  "end_state (provider_call a r code (\<lambda>v. succeeds (x v) (y v))) = a\<lparr>ad_providers := snd r\<rparr>"
  by (cases r) (auto simp: provider_call_def split: sum.split provider_exn.split)

lemma probe_end:
  obtains "end_state (command_provider_probe E c a) = a"
  | origin info probes where "ae_info E origin = InfoAnswer info"
      "compute_provider_id (ae_ext E) origin (ri_service_public_key info) = Inr (ri_provider_id info)"
      "probe_add (ae_now E) (probe_of E origin (ri_provider_id info) info) (ad_probes a) = Some probes"
      "end_state (command_provider_probe E c a) = a\<lparr>ad_probes := probes\<rparr>"
proof (cases "end_state (command_provider_probe E c a) = a")
  case False
  then show thesis
    using that(2)
    by (auto simp: command_provider_probe_def Let_def split: wire.splits if_splits sum.splits provider_exn.splits info_answer.splits option.splits)
qed (rule that(1))

lemma probe_step_ok:
  assumes "admin_ok X ws a" and "env_of X ip_ok ws E"
  shows "admin_ok X ws (end_state (command_provider_probe E c a))"
proof (cases rule: probe_end [of E c a])
  case (2 origin info probes)
  then show ?thesis
    using assms probe_add_ok [of X "ad_probes a" "ae_now E" "probe_of E origin (ri_provider_id info) info" probes]
    by (simp add: admin_ok_def env_of_def probe_of_def)
qed (use assms in simp)

lemma registration_within: "registration_of E r payload = Some g \<Longrightarrow> within_relay g"
  by (auto simp: registration_of_def Let_def within_relay_def policy_limit_def split: wire.splits option.splits if_splits)

lemma registration_key: "registration_of E r payload = Some g \<Longrightarrow> rg_service_public_key g = pb_service_public_key r \<and> rg_base_url g = pb_origin r"
  by (auto simp: registration_of_def Let_def split: wire.splits option.splits)

lemma register_probed_end:
  obtains "end_state (register_probed E g a) = a\<lparr>ad_providers := snd (register_provider (ae_ext E) (ae_ip_ok E) (ae_workspace E) g (ad_providers a))\<rparr>"
  | pid where "end_state (register_probed E g a) = a\<lparr>ad_providers :=
      snd (set_default (ae_workspace E) pid (snd (register_provider (ae_ext E) (ae_ip_ok E) (ae_workspace E) g (ad_providers a))))\<rparr>"
proof -
  obtain x st where r: "register_provider (ae_ext E) (ae_ip_ok E) (ae_workspace E) g (ad_providers a) = (x, st)" by fastforce
  show thesis
    using that
    by (cases "end_state (register_probed E g a) = a\<lparr>ad_providers := st\<rparr>")
      (auto simp: register_probed_def r split: sum.splits provider_exn.splits option.splits if_splits prod.splits, (metis snd_conv)+)
qed

lemma register_end:
  obtains probes where "end_state (command_provider_register E c a) = a\<lparr>ad_probes := probes\<rparr>" "probes = ad_probes a \<or>
      (\<exists>probe_id. probes = snd (probe_consume (ae_now E) probe_id (ad_probes a)))"
  | probe_id r g probes where "obj_get (cmd_payload c) ''probe_id'' = WStr probe_id"
      "probe_consume (ae_now E) probe_id (ad_probes a) = (Some r, probes)"
      "obj_get (cmd_payload c) ''fingerprint_confirmation'' = WStr (pb_service_key_fingerprint r)"
      "registration_of E r (cmd_payload c) = Some g"
      "end_state (command_provider_register E c a) = end_state (register_probed E g (a\<lparr>ad_probes := probes\<rparr>))"
proof (cases "\<exists>probes. end_state (command_provider_register E c a) = a\<lparr>ad_probes := probes\<rparr> \<and> (probes = ad_probes a \<or>
      (\<exists>probe_id. probes = snd (probe_consume (ae_now E) probe_id (ad_probes a))))")
  case True
  then show thesis using that(1) by blast
next
  case False
  have self: "a = a\<lparr>ad_probes := ad_probes a\<rparr>" by simp
  obtain probe_id where id: "obj_get (cmd_payload c) ''probe_id'' = WStr probe_id" "probe_id \<noteq> []"
    using False self by (force simp: command_provider_register_def split: wire.splits if_splits)
  obtain found probes where con: "probe_consume (ae_now E) probe_id (ad_probes a) = (found, probes)" by fastforce
  then have probes: "probes = snd (probe_consume (ae_now E) probe_id (ad_probes a))" by simp
  have fin: "end_state (command_provider_register E c a) = (case found of
      None \<Rightarrow> a\<lparr>ad_probes := probes\<rparr>
    | Some r \<Rightarrow> if obj_get (cmd_payload c) ''fingerprint_confirmation'' \<noteq> WStr (pb_service_key_fingerprint r) then a\<lparr>ad_probes := probes\<rparr>
        else (case registration_of E r (cmd_payload c) of None \<Rightarrow> a\<lparr>ad_probes := probes\<rparr>
              | Some g \<Rightarrow> end_state (register_probed E g (a\<lparr>ad_probes := probes\<rparr>))))"
    by (simp add: command_provider_register_def id con Let_def split: option.split)
  have "end_state (command_provider_register E c a) \<noteq> a\<lparr>ad_probes := probes\<rparr>" using False probes by blast
  then show thesis
    using that(2) [OF id(1)] con fin by (auto split: option.splits if_splits)
qed

lemma register_step_ok:
  assumes a: "admin_ok X ws a" and E: "env_of X ip_ok ws E"
  shows "admin_ok X ws (end_state (command_provider_register E c a))"
proof (cases rule: register_end [of E c a])
  case (1 probes)
  have "probes_ok X probes"
    using 1(2) a probe_consume_ok(1) [of X "ad_probes a"] by (metis admin_ok_def prod.collapse)
  then show ?thesis using a 1(1) by (simp add: admin_ok_def)
next
  case (2 probe_id r g probes)
  let ?a = "a\<lparr>ad_probes := probes\<rparr>"
  have probes: "probes_ok X probes" using a 2(2) probe_consume_ok(1) by (auto simp: admin_ok_def)
  have "provider_ok X ws (snd (register_provider X ip_ok ws g (ad_providers a)))"
    using a register_provider_ok registration_within [OF 2(4)] by (simp add: admin_ok_def)
  then show ?thesis
    using E probes set_default_ok unfolding 2(5)
    by (cases rule: register_probed_end [of E g ?a]) (simp_all add: admin_ok_def env_of_def)
qed

lemma admin_step_ok:
  assumes "admin_step X ip_ok ws a a'" and "admin_ok X ws a"
  shows "admin_ok X ws a'"
  using assms
proof (induction rule: admin_step.induct)
  case (admin_probe E a c)
  then show ?case using probe_step_ok by blast
next
  case (admin_register E a c)
  then show ?case using register_step_ok by blast
next
  case (admin_update E a c min_ttl max_ttl version)
  then show ?case
    unfolding command_provider_update_def
    by (rule_tac P = "admin_ok X ws" in with_provider_inv) (auto simp: admin_ok_def env_of_def update_profile_ok split: option.split)
next
  case (admin_default E a c)
  then show ?case
    by (auto simp: command_provider_set_default_def env_of_def admin_ok_def set_default_ok split: wire.split)
next
  case (admin_remove E a c)
  then show ?case
    unfolding command_provider_remove_def
    by (rule_tac P = "admin_ok X ws" in with_provider_inv) (auto simp: admin_ok_def env_of_def remove_or_disable_ok)
next
  case (admin_token E a c)
  then show ?case
    unfolding command_provider_set_upload_token_def
    by (rule_tac P = "admin_ok X ws" in with_provider_inv) (auto simp: admin_ok_def env_of_def set_upload_token_ok split: wire.split)
next
  case (admin_clear E a c)
  then show ?case
    unfolding command_provider_clear_upload_token_def
    by (rule_tac P = "admin_ok X ws" in with_provider_inv) (auto simp: admin_ok_def env_of_def clear_upload_token_ok)
qed (auto simp: admin_ok_def refresh_limits_ok record_check_result_ok probe_evict_ok probe_get_def)

text \<open>Only a registration brings an identity that was not there.\<close>

lemma step_idents:
  assumes "admin_step X ip_ok ws a a'"
  shows "idents (ad_providers a') \<subseteq> idents (ad_providers a)
    \<or> (\<exists>E c. env_of X ip_ok ws E \<and> a' = end_state (command_provider_register E c a))"
  using assms
proof (induction rule: admin_step.induct)
  case (admin_probe E a c)
  show ?case by (cases rule: probe_end [of E c a]) simp_all
next
  case (admin_register E a c)
  then show ?case by blast
next
  case (admin_update E a c min_ttl max_ttl version)
  have "idents (ad_providers (end_state (command_provider_update E c min_ttl max_ttl version a))) \<subseteq> idents (ad_providers a)"
    unfolding command_provider_update_def by (rule with_provider_inv) (auto simp: idents_update_profile split: option.split)
  then show ?case by blast
next
  case (admin_default E a c)
  have "idents (ad_providers (end_state (command_provider_set_default E c a))) \<subseteq> idents (ad_providers a)"
    by (auto simp: command_provider_set_default_def idents_set_default split: wire.split)
  then show ?case by blast
next
  case (admin_remove E a c)
  have "idents (ad_providers (end_state (command_provider_remove E c a))) \<subseteq> idents (ad_providers a)"
    unfolding command_provider_remove_def by (rule with_provider_inv) (use idents_remove in auto)
  then show ?case by blast
next
  case (admin_token E a c)
  have "idents (ad_providers (end_state (command_provider_set_upload_token E c a))) \<subseteq> idents (ad_providers a)"
    unfolding command_provider_set_upload_token_def by (rule with_provider_inv) (auto simp: idents_tokens split: wire.split)
  then show ?case by blast
next
  case (admin_clear E a c)
  have "idents (ad_providers (end_state (command_provider_clear_upload_token E c a))) \<subseteq> idents (ad_providers a)"
    unfolding command_provider_clear_upload_token_def by (rule with_provider_inv) (auto simp: idents_tokens)
  then show ?case by blast
qed (simp_all add: idents_refresh idents_check)

definition empty_admin :: provider_admin where
  "empty_admin = \<lparr>ad_providers = \<lparr>ps_rows = [], ps_token_files = (\<lambda>_. None)\<rparr>, ad_probes = []\<rparr>"

lemma reachable_admin_ok: "(admin_step X ip_ok ws)\<^sup>*\<^sup>* empty_admin a \<Longrightarrow> admin_ok X ws a"
proof (induction rule: rtranclp_induct)
  case base
  then show ?case by (simp add: empty_admin_def admin_ok_def provider_ok_def tokens_ok_def probes_ok_def)
qed (rule admin_step_ok)

text \<open>An example: a Relay is probed and registered.\<close>

definition sample_key :: bytes where "sample_key = replicate 32 7"

definition admin_sample_env :: admin_env where
  "admin_sample_env = \<lparr>ae_ext = ref_ext, ae_ip_ok = (\<lambda>_. False), ae_workspace = ''w'',
     ae_info = (\<lambda>o'. InfoAnswer \<lparr>ri_provider_id = b64url_nopad (take 8 (sha256 ref_ext (utf8_encode o' @ [10] @ sample_key))),
        ri_service_public_key = sample_key, ri_max_ciphertext_bytes = 1000, ri_min_hard_ttl_seconds = None, ri_max_hard_ttl_seconds = 600\<rparr>),
     ae_in_use = (\<lambda>_. False), ae_now = 100, ae_probe_id = ''pb''\<rparr>"

definition probe_command :: command where
  "probe_command = \<lparr>cmd_id = ''c1'', cmd_kind = ''provider_probe'', cmd_payload = [(''base_url'', WStr ''https://Relay.example/'')], cmd_created_at = 0\<rparr>"

definition register_provider_command :: command where
  "register_provider_command = \<lparr>cmd_id = ''c2'', cmd_kind = ''provider_register'',
     cmd_payload = [(''probe_id'', WStr ''pb''), (''fingerprint_confirmation'', WStr (fingerprint_of ref_ext sample_key)), (''display_name'', WStr ''Relay'')], cmd_created_at = 0\<rparr>"

definition probed_admin :: provider_admin where
  "probed_admin = end_state (command_provider_probe admin_sample_env probe_command empty_admin)"

definition registered_admin :: provider_admin where
  "registered_admin = end_state (command_provider_register admin_sample_env register_provider_command probed_admin)"

lemma registered_rows:
  "map pb_probe_id (ad_probes probed_admin) = [''pb''] \<and> map pf_is_default (ps_rows (ad_providers registered_admin)) = [True]
   \<and> ps_rows (ad_providers probed_admin) = []"
  by code_simp

lemma sample_env_of: "env_of ref_ext (\<lambda>_. False) ''w'' admin_sample_env"
  by (simp add: env_of_def admin_sample_env_def)

lemma probed_reachable: "(admin_step ref_ext (\<lambda>_. False) ''w'')\<^sup>*\<^sup>* empty_admin probed_admin"
  unfolding probed_admin_def using admin_probe [OF sample_env_of] by blast

lemma registered_step: "admin_step ref_ext (\<lambda>_. False) ''w'' probed_admin registered_admin"
  unfolding registered_admin_def using admin_register [OF sample_env_of] .

text \<open>C31. Whatever commands, checks and Relay answers came, a workspace has at most eight Relay profiles with different ids and
  at most one default; each id is derived from the profile's origin and key; the limits in force are at least as strict
  as the Relay's and the user's: no larger maximum of bytes and lifetime, no smaller minimum lifetime, except that the minimum
  is dropped when the larger of the two minima exceeds the maximum in force; and there is a token file exactly for the
  profiles with a configured token, of at most 4096 bytes and not blank.\<close>

theorem provider_table_invariant:
  assumes "(admin_step X ip_ok ws)\<^sup>*\<^sup>* empty_admin a"
  shows "(let st = ad_providers a in
      length (ps_rows st) \<le> 8 \<and> distinct (map pv_provider_id (ps_rows st))
      \<and> length (filter pf_is_default (ps_rows st)) \<le> 1
      \<and> (\<forall>p \<in> set (ps_rows st).
           compute_provider_id X (pv_origin p) (pv_service_public_key p) = Inr (pv_provider_id p)
           \<and> \<not> exceeds (pv_min_ttl_seconds p) (pv_max_ttl_seconds p)
           \<and> (\<forall>b. pf_relay_max_bytes p = Some b \<or> pf_user_max_bytes p = Some b \<longrightarrow> pv_max_ciphertext_bytes p \<le> b)
           \<and> (\<forall>t. pf_relay_max_ttl p = Some t \<or> pf_user_max_ttl p = Some t \<longrightarrow> (\<exists>m. pv_max_ttl_seconds p = Some m \<and> m \<le> t))
           \<and> (\<forall>t. pf_relay_min_ttl p = Some t \<or> pf_user_min_ttl p = Some t \<longrightarrow> (\<exists>m. pv_min_ttl_seconds p = Some m \<and> t \<le> m)
                \<or> pv_min_ttl_seconds p = None \<and> exceeds (largest (pf_relay_min_ttl p) (pf_user_min_ttl p)) (pv_max_ttl_seconds p)))
      \<and> (\<forall>f. ps_token_files st f \<noteq> None \<longleftrightarrow> (\<exists>p \<in> set (ps_rows st). pf_upload_token_file p = Some f))
      \<and> (\<forall>f t. ps_token_files st f = Some t \<longrightarrow> length (utf8_encode t) \<le> 4096 \<and> strip_of text_space t \<noteq> []))"
proof -
  have ok: "provider_ok X ws (ad_providers a)" using reachable_admin_ok [OF assms] by (simp add: admin_ok_def)
  let ?rows = "ps_rows (ad_providers a)"
  have one: "length (filter pf_is_default ?rows) \<le> 1"
  proof -
    let ?ids = "map pv_provider_id (filter pf_is_default ?rows)"
    have "x = y" if "x \<in> set ?ids" "y \<in> set ?ids" for x y using that provider_okD(5) [OF ok] by auto
    then have "card (set ?ids) \<le> 1" by (metis card_le_Suc0_iff_eq finite_set One_nat_def)
    moreover have "distinct ?ids" using provider_okD(1) [OF ok] by (simp add: distinct_map_filter)
    ultimately show ?thesis using distinct_card [of ?ids] by simp
  qed
  have row: "compute_provider_id X (pv_origin p) (pv_service_public_key p) = Inr (pv_provider_id p)" "limits_ok p"
    if "p \<in> set ?rows" for p using provider_okD(3) [OF ok that] by (simp_all add: row_ok_def)
  have tok: "ps_token_files (ad_providers a) f \<noteq> None \<longleftrightarrow> (\<exists>p \<in> set ?rows. pf_upload_token_file p = Some f)" for f
    using provider_okD(4) [OF ok] unfolding tokens_ok_def by fast
  have size: "length (utf8_encode t) \<le> 4096 \<and> strip_of text_space t \<noteq> []" if "ps_token_files (ad_providers a) f = Some t" for f t
    using that provider_okD(4) [OF ok] unfolding tokens_ok_def by blast
  show ?thesis
    unfolding Let_def
    using provider_okD(1,2) [OF ok] one row tok size limits_ok_consistent [OF row(2)] by blast
qed

theorem provider_table_invariant_witness:
  "length (ps_rows (ad_providers registered_admin)) \<le> 8 \<and> length (filter pf_is_default (ps_rows (ad_providers registered_admin))) \<le> 1
   \<and> ps_rows (ad_providers registered_admin) \<noteq> []"
  using provider_table_invariant [OF rtranclp.rtrancl_into_rtrancl [OF probed_reachable registered_step]] registered_rows
  unfolding Let_def by fastforce

text \<open>C32. A profile enters the table only by registration from a probe that is in the store and has not expired, for the key
  whose fingerprint the user confirmed, at the probed origin, and the probe is used up by that; every other step leaves
  the identities of the profiles as they are.\<close>

theorem provider_trust_bootstrap:
  assumes "(admin_step X ip_ok ws)\<^sup>*\<^sup>* empty_admin a" and "admin_step X ip_ok ws a a'" and "p \<in> set (ps_rows (ad_providers a'))"
  shows "(\<exists>q \<in> set (ps_rows (ad_providers a)). pv_provider_id q = pv_provider_id p \<and> pv_origin q = pv_origin p
            \<and> pv_service_public_key q = pv_service_public_key p)
    \<or> (\<exists>E c r. a' = end_state (command_provider_register E c a) \<and> r \<in> set (ad_probes a) \<and> ae_now E < pb_expires_at r
         \<and> obj_get (cmd_payload c) ''probe_id'' = WStr (pb_probe_id r)
         \<and> obj_get (cmd_payload c) ''fingerprint_confirmation'' = WStr (fingerprint_of X (pv_service_public_key p))
         \<and> pv_service_public_key p = pb_service_public_key r \<and> normalize_origin ip_ok (pb_origin r) = Inr (pv_origin p)
         \<and> find_by pb_probe_id (pb_probe_id r) (ad_probes a') = None)"
proof -
  have old: ?thesis if "ident p \<in> idents (ad_providers a)" using that by (auto simp: idents_def ident_def)
  have p: "ident p \<in> idents (ad_providers a')" using assms(3) by (simp add: idents_def)
  consider "idents (ad_providers a') \<subseteq> idents (ad_providers a)"
    | E c where "env_of X ip_ok ws E" "a' = end_state (command_provider_register E c a)"
    using step_idents [OF assms(2)] by blast
  then show ?thesis
  proof cases
    case 1
    then show ?thesis using old p by blast
  next
    case (2 E c)
    from 2(1) have env: "ae_ext E = X" "ae_ip_ok E = ip_ok" "ae_workspace E = ws" by (simp_all add: env_of_def)
    show ?thesis
    proof (cases rule: register_end [of E c a])
      case (1 probes)
      then show ?thesis using old p 2(2) by simp
    next
      case con: (2 probe_id r g probes)
      have ok: "probes_ok X (ad_probes a)" using reachable_admin_ok [OF assms(1)] by (simp add: admin_ok_def)
      have r: "r \<in> set (ad_probes a)" "ae_now E < pb_expires_at r" "pb_probe_id r = probe_id" "find_by pb_probe_id probe_id probes = None"
        using probe_consume_ok(2,3) [OF ok con(2)] by blast+
      have fp: "pb_service_key_fingerprint r = fingerprint_of X (pb_service_public_key r)" using ok r(1) by (simp add: probes_ok_def)
      have a': "idents (ad_providers a') \<subseteq> idents (ad_providers a) \<union> {(pid, origin, rg_service_public_key g) | pid origin name.
          validate_registration X ip_ok g = Inr (pid, origin, name)}" and pr: "ad_probes a' = probes"
        using idents_register [of X ip_ok ws g "ad_providers a"] unfolding 2(2) con(5)
        by (cases rule: register_probed_end [of E g "a\<lparr>ad_probes := probes\<rparr>"]; simp add: env idents_set_default)+
      show ?thesis
      proof (cases "ident p \<in> idents (ad_providers a)")
        case False
        then obtain name where "validate_registration X ip_ok g = Inr (pv_provider_id p, pv_origin p, name)"
            "pv_service_public_key p = rg_service_public_key g"
          using a' p by (auto simp: ident_def)
        then have "normalize_origin ip_ok (pb_origin r) = Inr (pv_origin p)" "pv_service_public_key p = pb_service_public_key r"
          using validate_registration_Inr(1) registration_key [OF con(4)] by fastforce+
        then show ?thesis
          using r fp con(1,3) pr 2(2) by (intro disjI2 exI [of _ E] exI [of _ c] exI [of _ r] conjI) simp_all
      qed (rule old)
    qed
  qed
qed

theorem provider_trust_bootstrap_witness:
  "\<exists>p E c r. ps_rows (ad_providers registered_admin) = [p] \<and> registered_admin = end_state (command_provider_register E c probed_admin)
     \<and> r \<in> set (ad_probes probed_admin) \<and> obj_get (cmd_payload c) ''fingerprint_confirmation'' = WStr (fingerprint_of ref_ext (pv_service_public_key p))"
proof -
  obtain p where p: "ps_rows (ad_providers registered_admin) = [p]" using registered_rows by auto
  moreover have "ps_rows (ad_providers probed_admin) = []" using registered_rows by simp
  ultimately show ?thesis
    using provider_trust_bootstrap [OF probed_reachable registered_step, of p] by fastforce
qed

end
