(* ===== verification/Command_Pipeline_Properties.thy ===== *)
theory Command_Pipeline_Properties
  imports Command_Pipeline
begin

text \<open>
  The way of a command through the facade, the queue, the registry and the worker, with request threads and the worker
  interleaved at every lock: each accepted command runs once, in the order of acceptance, its result is never missing
  when the worker looks for it, and the markers of key requests are exactly those of the requests in flight.
\<close>

section \<open>The open entries of the registry\<close>

definition open_status :: "command_registry \<Rightarrow> string \<Rightarrow> cmd_status option" where
  "open_status reg cid =
     (case reg_entry reg cid of
        None \<Rightarrow> None
      | Some e \<Rightarrow> if terminal_status (cr_status e) then None else Some (cr_status e))"

lemma open_remove_ids [simp]: "K \<subseteq> terminal_ids reg \<Longrightarrow> open_status (remove_ids K reg) = open_status reg"
  by (auto simp: open_status_def terminal_ids_def fun_eq_iff split: option.split)

lemma open_set_entry [simp]:
  "open_status (set_entry e reg) =
     (open_status reg)(cr_command_id e := if terminal_status (cr_status e) then None else Some (cr_status e))"
  by (auto simp: open_status_def fun_eq_iff)

lemma open_touch_lru [simp]: "open_status (touch_lru cid reg) = open_status reg"
  by (simp add: open_status_def fun_eq_iff)

lemma open_drop_entry [simp]: "open_status (drop_entry cid reg) = (open_status reg)(cid := None)"
  by (auto simp: open_status_def fun_eq_iff)

lemma open_evict [simp]: "reg_wf reg \<Longrightarrow> open_status (evict_locked now reg) = open_status reg"
  using evict_entry by (metis open_remove_ids)

lemma evict_entry_cases: "reg_wf reg \<Longrightarrow> reg_entry (evict_locked now reg) cid \<in> {None, reg_entry reg cid}"
  using evict_entry [of reg now] by (metis insertCI reg_entry_remove_ids)

lemma open_queued_entry:
  "open_status reg cid = Some st \<longleftrightarrow> (\<exists>e. reg_entry reg cid = Some e \<and> cr_status e = st \<and> \<not> terminal_status st)"
  by (auto simp: open_status_def split: option.split)

text \<open>What each operation does to the open entries, and that it writes no entry but that of its command.\<close>

definition frame :: "string \<Rightarrow> command_registry \<Rightarrow> command_registry \<Rightarrow> bool" where
  "frame cid reg reg' \<longleftrightarrow> (\<forall>k. k \<noteq> cid \<longrightarrow> reg_entry reg' k \<in> {None, reg_entry reg k})"

lemma register_fresh:
  assumes "reg_ok reg" and "reg_entry reg (cmd_id c) = None"
  shows "register_command now c reg = (Inr (), snd (register_command now c reg))"
    and "open_status (snd (register_command now c reg)) = (open_status reg)(cmd_id c \<mapsto> ST_QUEUED)"
    and "frame (cmd_id c) reg (snd (register_command now c reg))"
proof -
  have wf: "reg_wf reg" using assms(1) by simp
  have none: "reg_entry (evict_locked now reg) (cmd_id c) = None"
    using evict_entry_cases [OF wf, of now "cmd_id c"] assms(2) by auto
  then show "register_command now c reg = (Inr (), snd (register_command now c reg))"
    by (simp add: register_command_def Let_def)
  show "open_status (snd (register_command now c reg)) = (open_status reg)(cmd_id c \<mapsto> ST_QUEUED)"
    using none wf by (simp add: register_command_def Let_def terminal_status_def)
  show "frame (cmd_id c) reg (snd (register_command now c reg))"
    using none evict_entry_cases [OF wf, of now] by (auto simp: register_command_def Let_def frame_def)
qed

lemma discard_open:
  assumes "open_status reg cid = Some ST_QUEUED"
  shows "open_status (discard_queued cid reg) = (open_status reg)(cid := None)" and "frame cid reg (discard_queued cid reg)"
  using assms by (auto simp: discard_queued_def open_queued_entry frame_def)

lemma running_open:
  assumes "open_status reg cid = Some ST_QUEUED"
  shows "mark_running now cid reg = (Inr (), snd (mark_running now cid reg))"
    and "open_status (snd (mark_running now cid reg)) = (open_status reg)(cid \<mapsto> ST_RUNNING)"
    and "frame cid reg (snd (mark_running now cid reg))"
  using assms by (auto simp: mark_running_def transition_locked_def open_queued_entry Let_def terminal_status_def frame_def)

lemma get_open: "reg_ok reg \<Longrightarrow> open_status (snd (get_command now cid reg)) = open_status reg"
  by (simp add: get_command_def Let_def split: option.split)

lemma get_frame: "reg_ok reg \<Longrightarrow> reg_entry (snd (get_command now cid reg)) k \<in> {None, reg_entry reg k}"
  using evict_entry_cases [of reg now k] by (simp add: get_command_def Let_def split: option.split)

text \<open>A running command is closed with the outcome it is given.\<close>

lemma close_open:
  fixes now :: timestamp and resource_id error_code :: "string option" and result :: "payload option"
  assumes ok: "reg_ok reg" and cur: "reg_entry reg cid = Some cur" "cr_status cur = ST_RUNNING" and t: "terminal_status st"
  defines "res \<equiv> transition_locked cid st now resource_id result error_code reg"
  shows "fst res = Inr ()" and "open_status (snd res) = (open_status reg)(cid := None)" and "frame cid reg (snd res)"
    and "\<exists>e. reg_entry (snd res) cid = Some e \<and> cr_status e = st \<and> cr_kind e = cr_kind cur
        \<and> (error_code \<noteq> None \<longrightarrow> cr_error_code e = error_code)
        \<and> (result \<noteq> None \<longrightarrow> cr_result e = result) \<and> (resource_id \<noteq> None \<longrightarrow> cr_resource_id e = resource_id)"
proof -
  define e where "e = \<lparr>cr_command_id = cid, cr_kind = cr_kind cur, cr_status = st, cr_created_at = cr_created_at cur,
             cr_updated_at = now, cr_resource_id = (if resource_id \<noteq> None then resource_id else cr_resource_id cur),
             cr_result = (if result \<noteq> None then result else cr_result cur),
             cr_error_code = (if error_code \<noteq> None then error_code else cr_error_code cur)\<rparr>"
  have e: "cr_command_id e = cid" "cr_status e = st" "cr_updated_at e = now" "cr_kind e = cr_kind cur"
      "error_code \<noteq> None \<longrightarrow> cr_error_code e = error_code" "result \<noteq> None \<longrightarrow> cr_result e = result"
      "resource_id \<noteq> None \<longrightarrow> cr_resource_id e = resource_id"
    by (simp_all add: e_def)
  have allowed: "allowed_transition (cr_status cur) st" using cur(2) t by (simp add: terminal_status_def)
  have res: "res = (Inr (), evict_locked now (touch_lru cid (set_entry e reg)))"
    using cur(1) allowed t by (simp add: res_def transition_locked_def Let_def e_def)
  have te: "terminal_status (cr_status e)" using t e(2) by simp
  obtain K where K: "K \<subseteq> terminal_ids reg" "cid \<notin> K"
      "evict_locked now (touch_lru cid (set_entry e reg)) = remove_ids K (touch_lru cid (set_entry e reg))"
    using close_entry [of reg e now] ok te e(1,3) unfolding reg_ok_def by metis
  have K': "K \<subseteq> terminal_ids (touch_lru cid (set_entry e reg))" using K(1,2) e(1) by (auto simp: terminal_ids_def)
  show "fst res = Inr ()" by (simp add: res)
  show "open_status (snd res) = (open_status reg)(cid := None)"
    using K' te e(1) by (simp add: res K(3))
  show "frame cid reg (snd res)" using K(1,2) e(1) by (auto simp: res K(3) frame_def)
  show "\<exists>e. reg_entry (snd res) cid = Some e \<and> cr_status e = st \<and> cr_kind e = cr_kind cur
        \<and> (error_code \<noteq> None \<longrightarrow> cr_error_code e = error_code)
        \<and> (result \<noteq> None \<longrightarrow> cr_result e = result) \<and> (resource_id \<noteq> None \<longrightarrow> cr_resource_id e = resource_id)"
    using K(2) e by (simp add: res K(3))
qed

section \<open>One command\<close>

text \<open>How a command ends: the status and error code its entry gets, and the state its handler leaves.\<close>

definition command_end :: "'w worker \<Rightarrow> command_registry \<Rightarrow> command \<Rightarrow> 'w \<Rightarrow> cmd_status \<times> string option" where
  "command_end K reg c w =
     (if cmd_kind c \<in> set VAULT_REQUIRED_COMMAND_KINDS \<and> wk_vault_locked K w then (ST_FAILED, Some ''vault_locked'')
      else case dispatch K c w of
             Returned outcome _ \<Rightarrow>
               (case co_error_code outcome of
                  Some code \<Rightarrow> (ST_FAILED, Some code)
                | None \<Rightarrow>
                    (case result_payload_error (reg_float_text reg) (co_result outcome) (reg_max_payload reg) of
                       Some code \<Rightarrow> (ST_FAILED, Some code)
                     | None \<Rightarrow> (ST_SUCCEEDED, None)))
           | _ \<Rightarrow> (ST_FAILED, Some COMMAND_EXECUTION_FAILED))"

definition world_after :: "'w worker \<Rightarrow> command \<Rightarrow> 'w \<Rightarrow> 'w" where
  "world_after K c w =
     (if cmd_kind c \<in> set VAULT_REQUIRED_COMMAND_KINDS \<and> wk_vault_locked K w then w
      else case dispatch K c w of
             Returned _ w' \<Rightarrow> w' | ReturnedOther w' \<Rightarrow> w' | Raised w' \<Rightarrow> wk_rollback K w')"

definition ended :: "cmd_status \<times> string option \<Rightarrow> command_result \<Rightarrow> bool" where
  "ended r e \<longleftrightarrow> cr_status e = fst r \<and> (\<forall>code. snd r = Some code \<longrightarrow> cr_error_code e = Some code)"

definition closed_as :: "string \<Rightarrow> cmd_status \<times> string option \<Rightarrow> command_registry \<Rightarrow> command_registry \<Rightarrow> bool" where
  "closed_as cid r reg reg' \<longleftrightarrow>
     reg_ok reg' \<and> open_status reg' = (open_status reg)(cid := None) \<and> frame cid reg reg'
     \<and> (\<exists>e. reg_entry reg' cid = Some e \<and> ended r e)"

lemma close_open_ended:
  fixes now :: timestamp and resource_id error_code :: "string option" and result :: "payload option"
  assumes "reg_ok reg" and "open_status reg cid = Some ST_RUNNING" and "terminal_status st"
  defines "res \<equiv> transition_locked cid st now resource_id result error_code reg"
  shows "fst res = Inr () \<and> closed_as cid (st, error_code) reg (snd res)"
proof -
  obtain cur where cur: "reg_entry reg cid = Some cur" "cr_status cur = ST_RUNNING"
    using assms(2) by (auto simp: open_queued_entry)
  show ?thesis
    using close_open [OF assms(1) cur assms(3), of now resource_id result error_code] good_transition [OF assms(1)]
    unfolding res_def closed_as_def ended_def by (fastforce simp: good_step_def)
qed

lemma or_recover_Inr: "fst res = Inr () \<Longrightarrow> or_recover t c res = snd res"
  by (cases res) (simp add: or_recover_def)

lemma record_failed_closes:
  assumes "reg_ok reg" and "open_status reg (cmd_id c) = Some ST_RUNNING"
  shows "closed_as (cmd_id c) (ST_FAILED, Some code) reg (record_failed t t' c code reg)"
  using close_open_ended [OF assms, of ST_FAILED t None None "Some code"]
  by (simp add: record_failed_def mark_failed_def or_recover_Inr terminal_status_def)

lemma record_succeeded_closes:
  assumes "reg_ok reg" and "open_status reg (cmd_id c) = Some ST_RUNNING"
  shows "closed_as (cmd_id c)
     (case result_payload_error (reg_float_text reg) (co_result outcome) (reg_max_payload reg) of
        Some code \<Rightarrow> (ST_FAILED, Some code) | None \<Rightarrow> (ST_SUCCEEDED, None)) reg (record_succeeded t t' c outcome reg)"
  using close_open_ended [OF assms, of ST_FAILED t None None] close_open_ended [OF assms, of ST_SUCCEEDED t _ _ None]
  by (simp add: record_succeeded_def mark_succeeded_def or_recover_Inr terminal_status_def split: option.split)

lemma run_handler_closes:
  assumes "reg_ok reg" and "open_status reg (cmd_id c) = Some ST_RUNNING"
  shows "closed_as (cmd_id c) (command_end K reg c w) reg (fst (run_handler K t t' c (reg, w)))"
    and "snd (run_handler K t t' c (reg, w)) = world_after K c w"
  using record_failed_closes [OF assms] record_succeeded_closes [OF assms]
  by (simp_all add: run_handler_def command_end_def world_after_def split: handler_end.split option.split)

lemma running_ok: "reg_ok reg \<Longrightarrow> reg_ok (snd (mark_running now cid reg))"
  using good_transition [of reg cid ST_RUNNING now None None None] by (simp add: mark_running_def good_step_def)

lemma running_config:
  "reg_float_text (snd (mark_running now cid reg)) = reg_float_text reg"
  "reg_max_payload (snd (mark_running now cid reg)) = reg_max_payload reg"
  by (simp_all add: mark_running_def transition_locked_def set_entry_def Let_def terminal_status_def split: option.split)

lemma frame_trans: "frame cid a b \<Longrightarrow> frame cid b c \<Longrightarrow> frame cid a c"
  unfolding frame_def by (metis empty_iff insert_iff)

lemma execute_command_closes:
  assumes ok: "reg_ok reg" and q: "open_status reg (cmd_id c) = Some ST_QUEUED"
  shows "closed_as (cmd_id c) (command_end K reg c w) reg (fst (execute_command K clk c (reg, w)))"
    and "snd (execute_command K clk c (reg, w)) = world_after K c w"
proof -
  let ?r = "snd (mark_running (clk 0) (cmd_id c) reg)"
  note r = running_open [OF q, of "clk 0"]
  have "execute_command K clk c (reg, w) = run_handler K (clk 2) (clk 3) c (?r, w)"
    using r(1) by (cases "mark_running (clk 0) (cmd_id c) reg") (simp add: execute_command_def)
  moreover have "command_end K ?r c w = command_end K reg c w"
    unfolding command_end_def running_config ..
  moreover have run: "open_status ?r (cmd_id c) = Some ST_RUNNING" using r(2) by simp
  moreover note run_handler_closes(1) [OF running_ok [OF ok] run, of K w "clk 2" "clk 3"]
    run_handler_closes(2) [OF running_ok [OF ok] run, of K "clk 2" "clk 3" w]
  ultimately show "closed_as (cmd_id c) (command_end K reg c w) reg (fst (execute_command K clk c (reg, w)))"
      "snd (execute_command K clk c (reg, w)) = world_after K c w"
    using frame_trans [OF r(3)] r(2) by (simp_all add: closed_as_def)
qed

section \<open>One pass of the worker\<close>

definition pipeline_ok :: "facade \<Rightarrow> bool" where
  "pipeline_ok f \<longleftrightarrow>
     reg_ok (fc_registry f) \<and> distinct (map cmd_id (cq_items (fc_queue f)))
     \<and> (\<forall>c \<in> set (cq_items (fc_queue f)). open_status (fc_registry f) (cmd_id c) = Some ST_QUEUED)"

lemma note_drained_fields [simp]:
  "fc_queue (note_key_request_drained c f) = fc_queue f"
  "fc_registry (note_key_request_drained c f) = fc_registry f"
  "fc_markers (note_key_request_drained c f) =
     (if cmd_kind c = ''contact_request_key'' then (fc_markers f)(cmd_id c := None) else fc_markers f)"
  by (simp_all add: note_key_request_drained_def mark_drained_def)

definition drained :: "'w worker \<Rightarrow> command list \<Rightarrow> facade \<times> 'w \<Rightarrow> facade \<times> 'w \<Rightarrow> bool" where
  "drained K cs s s' \<longleftrightarrow>
     pipeline_ok (fst s') \<and> cq_items (fc_queue (fst s)) = cs @ cq_items (fc_queue (fst s'))
     \<and> snd s' = fold (world_after K) cs (snd s)
     \<and> (\<forall>cid. open_status (fc_registry (fst s')) cid =
              (if cid \<in> cmd_id ` set cs then None else open_status (fc_registry (fst s)) cid))
     \<and> (\<forall>cid. fc_markers (fst s') cid =
              (if \<exists>c \<in> set cs. cmd_id c = cid \<and> cmd_kind c = ''contact_request_key'' then None else fc_markers (fst s) cid))"

lemma drain_loop_drained:
  "pipeline_ok f \<Longrightarrow> drained K (take n (cq_items (fc_queue f))) (f, w) (drain_loop n K clk (f, w))"
proof (induction n arbitrary: f w)
  case 0
  then show ?case by (simp add: drained_def)
next
  case (Suc n)
  show ?case
  proof (cases "cq_items (fc_queue f)")
    case Nil
    then show ?thesis using Suc.prems by (simp add: drained_def queue_get_def)
  next
    case (Cons c cs)
    let ?reg = "fst (execute_command K (clk n) c (fc_registry f, w))"
    let ?f = "note_key_request_drained c (f\<lparr>fc_queue := (fc_queue f)\<lparr>cq_items := cs\<rparr>, fc_registry := ?reg\<rparr>)"
    have c: "reg_ok (fc_registry f)" "open_status (fc_registry f) (cmd_id c) = Some ST_QUEUED" "cmd_id c \<notin> cmd_id ` set cs"
      using Suc.prems Cons by (simp_all add: pipeline_ok_def)
    note ex = execute_command_closes [OF c(1,2), where K = K and w = w and clk = "clk n"]
    have step: "drain_loop (Suc n) K clk (f, w) = drain_loop n K clk (?f, world_after K c w)"
      using ex(2) by (simp add: queue_get_def Cons split: prod.split) (metis fst_conv snd_conv)
    have "open_status ?reg = (open_status (fc_registry f))(cmd_id c := None)" "reg_ok ?reg"
      using ex(1) by (simp_all add: closed_as_def)
    then have "pipeline_ok ?f"
      using Suc.prems Cons c(3) by (auto simp: pipeline_ok_def image_iff)
    from Suc.IH [OF this, of "world_after K c w"]
    show ?thesis
      using ex(1) unfolding step by (auto simp: drained_def Cons closed_as_def)
  qed
qed

section \<open>Request threads and worker, interleaved\<close>

text \<open>
  Where a command is. \<open>Registered\<close> to \<open>Discarded\<close> are the points of \<open>submit\<close> between two locks, \<open>Enqueued\<close> is the
  queue, \<open>Fetched\<close> to \<open>Recorded\<close> the points of the worker's loop. A command of the facade has a new id (a UUID), so the
  threads' program counters are a map from ids. The last two fields log which commands were accepted into the queue and
  which ran.
\<close>

datatype stage = Registered | Marked | QueueFull | Discarded | Enqueued | Fetched | Running | Recorded

record 'w pipeline =
  pl_facade :: facade
  pl_world :: 'w
  pl_at :: "string \<Rightarrow> (stage \<times> command) option"
  pl_hand :: "command option"
  pl_used :: "string set"
  pl_accepted :: "command list"
  pl_executed :: "command list"

definition with_reg :: "command_registry \<Rightarrow> 'w pipeline \<Rightarrow> 'w pipeline" where
  "with_reg reg s = s\<lparr>pl_facade := (pl_facade s)\<lparr>fc_registry := reg\<rparr>\<rparr>"

definition move :: "command \<Rightarrow> stage \<Rightarrow> 'w pipeline \<Rightarrow> 'w pipeline" where
  "move c st s = s\<lparr>pl_at := (pl_at s)(cmd_id c \<mapsto> (st, c))\<rparr>"

definition leave :: "command \<Rightarrow> 'w pipeline \<Rightarrow> 'w pipeline" where
  "leave c s = s\<lparr>pl_at := (pl_at s)(cmd_id c := None)\<rparr>"

abbreviation pl_reg :: "'w pipeline \<Rightarrow> command_registry" where "pl_reg s \<equiv> fc_registry (pl_facade s)"
abbreviation pl_queue :: "'w pipeline \<Rightarrow> command list" where "pl_queue s \<equiv> cq_items (fc_queue (pl_facade s))"

inductive pl_step :: "'w worker \<Rightarrow> 'w pipeline \<Rightarrow> 'w pipeline \<Rightarrow> bool" for K where
  pl_register: "\<lbrakk>fc_ready (pl_facade s); cmd_id c \<notin> pl_used s; register_command now c (pl_reg s) = (Inr u, reg)\<rbrakk> \<Longrightarrow>
     pl_step K s (move c Registered (with_reg reg (s\<lparr>pl_used := insert (cmd_id c) (pl_used s)\<rparr>)))"
| pl_mark: "pl_at s (cmd_id c) = Some (Registered, c) \<Longrightarrow>
     pl_step K s (move c Marked (s\<lparr>pl_facade := note_key_request_queued c (pl_facade s)\<rparr>))"
| pl_enqueue: "\<lbrakk>pl_at s (cmd_id c) = Some (Marked, c); queue_put c (fc_queue (pl_facade s)) = Some q\<rbrakk> \<Longrightarrow>
     pl_step K s (move c Enqueued (s\<lparr>pl_facade := (pl_facade s)\<lparr>fc_queue := q\<rparr>, pl_accepted := pl_accepted s @ [c]\<rparr>))"
| pl_full: "\<lbrakk>pl_at s (cmd_id c) = Some (Marked, c); queue_put c (fc_queue (pl_facade s)) = None\<rbrakk> \<Longrightarrow>
     pl_step K s (move c QueueFull s)"
| pl_discard: "pl_at s (cmd_id c) = Some (QueueFull, c) \<Longrightarrow>
     pl_step K s (move c Discarded (with_reg (discard_queued (cmd_id c) (pl_reg s)) s))"
| pl_unmark: "pl_at s (cmd_id c) = Some (Discarded, c) \<Longrightarrow>
     pl_step K s (leave c (s\<lparr>pl_facade := note_key_request_not_queued c (pl_facade s)\<rparr>))"
| pl_fetch: "\<lbrakk>pl_hand s = None; queue_get (fc_queue (pl_facade s)) = Some (c, q)\<rbrakk> \<Longrightarrow>
     pl_step K s (move c Fetched (s\<lparr>pl_facade := (pl_facade s)\<lparr>fc_queue := q\<rparr>, pl_hand := Some c\<rparr>))"
| pl_run: "\<lbrakk>pl_hand s = Some c; pl_at s (cmd_id c) = Some (Fetched, c); mark_running now (cmd_id c) (pl_reg s) = (Inr u, reg)\<rbrakk> \<Longrightarrow>
     pl_step K s (move c Running (with_reg reg s))"
| pl_run_raises: "\<lbrakk>pl_hand s = Some c; pl_at s (cmd_id c) = Some (Fetched, c); mark_running now (cmd_id c) (pl_reg s) = (Inl e, reg)\<rbrakk> \<Longrightarrow>
     pl_step K s (move c Recorded (with_reg (record_internal_failure now' c reg) s))"
| pl_handle: "\<lbrakk>pl_hand s = Some c; pl_at s (cmd_id c) = Some (Running, c); run_handler K t t' c (pl_reg s, pl_world s) = (reg, w)\<rbrakk> \<Longrightarrow>
     pl_step K s (move c Recorded (with_reg reg (s\<lparr>pl_world := w, pl_executed := pl_executed s @ [c]\<rparr>)))"
| pl_drain: "\<lbrakk>pl_hand s = Some c; pl_at s (cmd_id c) = Some (Recorded, c)\<rbrakk> \<Longrightarrow>
     pl_step K s (leave c (s\<lparr>pl_facade := note_key_request_drained c (pl_facade s), pl_hand := None\<rparr>))"
| pl_poll: "pl_step K s (with_reg (snd (get_command now cid (pl_reg s))) s)"
| pl_events: "pl_step K s (s\<lparr>pl_facade := (pl_facade s)\<lparr>fc_ready := ready, fc_wake := wake\<rparr>\<rparr>)"

fun stage_status :: "stage \<Rightarrow> cmd_status option" where
  "stage_status Running = Some ST_RUNNING"
| "stage_status Discarded = None"
| "stage_status Recorded = None"
| "stage_status _ = Some ST_QUEUED"

definition task_status :: "(stage \<times> command) option \<Rightarrow> cmd_status option" where
  "task_status x = (case x of None \<Rightarrow> None | Some (st, c) \<Rightarrow> stage_status st)"

definition task_marker :: "(stage \<times> command) option \<Rightarrow> string option" where
  "task_marker x =
     (case x of None \<Rightarrow> None | Some (st, c) \<Rightarrow> if st = Registered then None else key_request_contact c)"

lemma task_marker_Some:
  "task_marker x = Some a \<longleftrightarrow> (\<exists>st c. x = Some (st, c) \<and> st \<noteq> Registered \<and> key_request_contact c = Some a)"
  by (cases x) (auto simp: task_marker_def split: if_splits)

text \<open>The commands in the worker's hand that did not run yet.\<close>

definition in_hand :: "'w pipeline \<Rightarrow> command list" where
  "in_hand s =
     (case pl_hand s of
        None \<Rightarrow> []
      | Some c \<Rightarrow> if pl_at s (cmd_id c) = Some (Recorded, c) then [] else [c])"

definition view_inv :: "'w pipeline \<Rightarrow> bool" where
  "view_inv s \<longleftrightarrow>
     reg_ok (pl_reg s)
     \<and> (\<forall>cid. open_status (pl_reg s) cid = task_status (pl_at s cid))
     \<and> (\<forall>cid. fc_markers (pl_facade s) cid = task_marker (pl_at s cid))
     \<and> (\<forall>cid st c. pl_at s cid = Some (st, c) \<longrightarrow> cmd_id c = cid \<and> cid \<in> pl_used s)
     \<and> (\<forall>cid. cid \<notin> pl_used s \<longrightarrow> reg_entry (pl_reg s) cid = None)"

definition flow_inv :: "'w pipeline \<Rightarrow> bool" where
  "flow_inv s \<longleftrightarrow>
     distinct (map cmd_id (pl_queue s))
     \<and> (\<forall>c. c \<in> set (pl_queue s) \<longleftrightarrow> pl_at s (cmd_id c) = Some (Enqueued, c))
     \<and> (\<forall>c. pl_hand s = Some c \<longleftrightarrow> (\<exists>st \<in> {Fetched, Running, Recorded}. pl_at s (cmd_id c) = Some (st, c)))
     \<and> pl_accepted s = pl_executed s @ in_hand s @ pl_queue s"

lemma move_simps [simp]:
  "pl_facade (move c st s) = pl_facade s" "pl_world (move c st s) = pl_world s"
  "pl_at (move c st s) = (pl_at s)(cmd_id c \<mapsto> (st, c))" "pl_hand (move c st s) = pl_hand s"
  "pl_used (move c st s) = pl_used s" "pl_accepted (move c st s) = pl_accepted s" "pl_executed (move c st s) = pl_executed s"
  by (simp_all add: move_def)

lemma leave_simps [simp]:
  "pl_facade (leave c s) = pl_facade s" "pl_world (leave c s) = pl_world s"
  "pl_at (leave c s) = (pl_at s)(cmd_id c := None)" "pl_hand (leave c s) = pl_hand s"
  "pl_used (leave c s) = pl_used s" "pl_accepted (leave c s) = pl_accepted s" "pl_executed (leave c s) = pl_executed s"
  by (simp_all add: leave_def)

lemma with_reg_simps [simp]:
  "pl_facade (with_reg reg s) = (pl_facade s)\<lparr>fc_registry := reg\<rparr>" "pl_world (with_reg reg s) = pl_world s"
  "pl_at (with_reg reg s) = pl_at s" "pl_hand (with_reg reg s) = pl_hand s"
  "pl_used (with_reg reg s) = pl_used s" "pl_accepted (with_reg reg s) = pl_accepted s" "pl_executed (with_reg reg s) = pl_executed s"
  by (simp_all add: with_reg_def)

lemma note_queued_fields [simp]:
  "fc_queue (note_key_request_queued c f) = fc_queue f" "fc_registry (note_key_request_queued c f) = fc_registry f"
  "fc_queue (note_key_request_not_queued c f) = fc_queue f" "fc_registry (note_key_request_not_queued c f) = fc_registry f"
  by (simp_all add: note_key_request_queued_def note_key_request_not_queued_def mark_queued_def mark_drained_def
      split: option.split)

lemma frame_refl: "frame cid reg reg"
  by (simp add: frame_def)

text \<open>A step that moves one command: the registry and the markers follow its stage.\<close>

lemma view_advance:
  assumes inv: "view_inv s" and at: "pl_at s' = (pl_at s)(cmd_id c := y)" and y: "y = None \<or> (\<exists>st. y = Some (st, c))"
    and reg: "reg_ok (pl_reg s')" "open_status (pl_reg s') = (open_status (pl_reg s))(cmd_id c := task_status y)"
      "frame (cmd_id c) (pl_reg s) (pl_reg s')"
    and mark: "fc_markers (pl_facade s') = (fc_markers (pl_facade s))(cmd_id c := task_marker y)"
    and used: "pl_used s' = insert (cmd_id c) (pl_used s)"
  shows "view_inv s'"
proof -
  have "reg_entry (pl_reg s') cid = None" if "cid \<notin> pl_used s'" for cid
    using that inv reg(3) by (auto simp: view_inv_def frame_def used)
  moreover have "cmd_id d = cid \<and> cid \<in> pl_used s'" if "pl_at s' cid = Some (st, d)" for cid st d
    using that inv y by (auto simp: view_inv_def at used split: if_splits)
  moreover have "open_status (pl_reg s') cid = task_status (pl_at s' cid)"
      "fc_markers (pl_facade s') cid = task_marker (pl_at s' cid)" for cid
    using inv by (auto simp: view_inv_def at reg(2) mark)
  ultimately show ?thesis using reg(1) unfolding view_inv_def by blast
qed

text \<open>A command outside the queue and the worker's hand moves.\<close>

lemma flow_outside:
  assumes inv: "flow_inv s" and at: "pl_at s' = (pl_at s)(cmd_id c := y)"
    and y: "\<And>st d. y = Some (st, d) \<Longrightarrow> st \<in> {Registered, Marked, QueueFull, Discarded}"
    and x: "\<And>st d. pl_at s (cmd_id c) = Some (st, d) \<Longrightarrow> st \<in> {Registered, Marked, QueueFull, Discarded}"
    and same: "pl_queue s' = pl_queue s" "pl_hand s' = pl_hand s" "pl_accepted s' = pl_accepted s" "pl_executed s' = pl_executed s"
  shows "flow_inv s'"
proof -
  have eq: "pl_at s' (cmd_id d) = Some (st, d) \<longleftrightarrow> pl_at s (cmd_id d) = Some (st, d)" if "st \<in> {Enqueued, Fetched, Running, Recorded}" for d st
    using that x [of st d] y [of st d] by (auto simp: at)
  then have "in_hand s' = in_hand s" by (simp add: in_hand_def same split: option.split)
  with inv show ?thesis by (simp add: flow_inv_def same eq)
qed

lemma view_ok: "view_inv s \<Longrightarrow> reg_ok (pl_reg s)"
  by (simp add: view_inv_def)

lemma view_eqs:
  "view_inv s \<Longrightarrow> open_status (pl_reg s) cid = task_status (pl_at s cid)"
  "view_inv s \<Longrightarrow> fc_markers (pl_facade s) cid = task_marker (pl_at s cid)"
  by (simp_all add: view_inv_def)

lemma view_unused: "view_inv s \<Longrightarrow> cid \<notin> pl_used s \<Longrightarrow> pl_at s cid = None \<and> reg_entry (pl_reg s) cid = None"
  unfolding view_inv_def by (metis not_Some_eq surj_pair)

lemma view_at:
  assumes "view_inv s" and "pl_at s (cmd_id c) = Some (st, d)"
  shows "open_status (pl_reg s) (cmd_id c) = stage_status st" and "insert (cmd_id c) (pl_used s) = pl_used s"
    and "fc_markers (pl_facade s) (cmd_id c) = (if st = Registered then None else key_request_contact d)"
  using assms by (auto simp: view_inv_def task_status_def task_marker_def)

lemma view_register:
  assumes inv: "view_inv s" and fresh: "cmd_id c \<notin> pl_used s" and r: "register_command now c (pl_reg s) = (Inr u, reg)"
  shows "view_inv (move c Registered (with_reg reg (s\<lparr>pl_used := insert (cmd_id c) (pl_used s)\<rparr>)))"
proof (rule view_advance [OF inv, of _ c "Some (Registered, c)"])
  have ok: "reg_ok (pl_reg s)" "reg_entry (pl_reg s) (cmd_id c) = None" using inv fresh by (simp_all add: view_inv_def)
  have reg: "reg = snd (register_command now c (pl_reg s))" using r by simp
  have "pl_at s (cmd_id c) = None" using view_unused [OF inv fresh] ..
  then have "fc_markers (pl_facade s) (cmd_id c) = None" using inv by (simp add: view_inv_def task_marker_def)
  then show "fc_markers (pl_facade (move c Registered (with_reg reg (s\<lparr>pl_used := insert (cmd_id c) (pl_used s)\<rparr>))))
      = (fc_markers (pl_facade s))(cmd_id c := task_marker (Some (Registered, c)))"
    by (auto simp: task_marker_def fun_eq_iff)
qed (use register_fresh(2,3) [of "pl_reg s" c now] good_register [of "pl_reg s" now c] view_unused [OF inv fresh]
       view_ok [OF inv] r in \<open>auto simp: good_step_def task_status_def\<close>)

lemma view_mark:
  assumes inv: "view_inv s" and at: "pl_at s (cmd_id c) = Some (Registered, c)"
  shows "view_inv (move c Marked (s\<lparr>pl_facade := note_key_request_queued c (pl_facade s)\<rparr>))"
proof (rule view_advance [OF inv, of _ c "Some (Marked, c)"])
  show "fc_markers (pl_facade (move c Marked (s\<lparr>pl_facade := note_key_request_queued c (pl_facade s)\<rparr>)))
      = (fc_markers (pl_facade s))(cmd_id c := task_marker (Some (Marked, c)))"
    using view_at(3) [OF inv at]
    by (auto simp: note_key_request_queued_def mark_queued_def task_marker_def fun_eq_iff split: option.split)
qed (use view_ok [OF inv] view_at [OF inv at] in \<open>auto simp: task_status_def frame_refl fun_upd_idem\<close>)

text \<open>Steps that keep the status and the marker of their command.\<close>

lemma view_same:
  assumes inv: "view_inv s" and at: "pl_at s (cmd_id c) = Some (st, c)" and "st \<noteq> Registered" "st' \<noteq> Registered"
    and "stage_status st' = stage_status st" and "pl_at s' = (pl_at s)(cmd_id c \<mapsto> (st', c))" and "pl_used s' = pl_used s"
    and "pl_reg s' = pl_reg s" and "fc_markers (pl_facade s') = fc_markers (pl_facade s)"
  shows "view_inv s'"
  by (rule view_advance [OF inv, of _ c "Some (st', c)"])
    (use assms view_ok [OF inv] view_at [OF inv at] in \<open>auto simp: task_status_def task_marker_def frame_refl fun_upd_idem\<close>)

text \<open>Steps that keep the marker and change the registry.\<close>

lemma view_reg:
  assumes inv: "view_inv s" and at: "pl_at s (cmd_id c) = Some (st, c)" and "st \<noteq> Registered" "st' \<noteq> Registered"
    and "pl_at s' = (pl_at s)(cmd_id c \<mapsto> (st', c))" and "pl_used s' = pl_used s"
    and "reg_ok (pl_reg s')" "open_status (pl_reg s') = (open_status (pl_reg s))(cmd_id c := stage_status st')"
      "frame (cmd_id c) (pl_reg s) (pl_reg s')"
    and "fc_markers (pl_facade s') = fc_markers (pl_facade s)"
  shows "view_inv s'"
  by (rule view_advance [OF inv, of _ c "Some (st', c)"])
    (use assms view_at [OF inv at] in \<open>auto simp: task_status_def task_marker_def fun_upd_idem\<close>)

lemma view_leave:
  assumes inv: "view_inv s" and at: "pl_at s (cmd_id c) = Some (st, c)" and "stage_status st = None"
    and "pl_at s' = (pl_at s)(cmd_id c := None)" and "pl_used s' = pl_used s" and "pl_reg s' = pl_reg s"
    and "fc_markers (pl_facade s') = (fc_markers (pl_facade s))(cmd_id c := None)"
  shows "view_inv s'"
  by (rule view_advance [OF inv, of _ c None])
    (use assms view_ok [OF inv] view_at [OF inv at] in \<open>auto simp: task_status_def task_marker_def frame_refl fun_upd_idem\<close>)

lemma markers_not_queued:
  assumes "fc_markers f (cmd_id c) = key_request_contact c"
  shows "fc_markers (note_key_request_not_queued c f) = (fc_markers f)(cmd_id c := None)"
    and "fc_markers (note_key_request_drained c f) = (fc_markers f)(cmd_id c := None)"
  using assms
  by (auto simp: note_key_request_not_queued_def mark_drained_def fun_eq_iff key_request_contact_def split: option.split)

lemma view_poll:
  assumes "view_inv s"
  shows "view_inv (with_reg (snd (get_command now cid (pl_reg s))) s)"
  using assms good_get [of "pl_reg s" now cid] get_open [of "pl_reg s" now cid] get_frame [of "pl_reg s" now cid]
  by (fastforce simp: view_inv_def good_step_def)

lemma flow_queue: "flow_inv s \<Longrightarrow> c \<in> set (pl_queue s) \<longleftrightarrow> pl_at s (cmd_id c) = Some (Enqueued, c)"
  by (simp add: flow_inv_def)

lemma flow_hand:
  "flow_inv s \<Longrightarrow> pl_hand s = Some c \<longleftrightarrow> (\<exists>st \<in> {Fetched, Running, Recorded}. pl_at s (cmd_id c) = Some (st, c))"
  by (simp add: flow_inv_def)

lemma flow_log: "flow_inv s \<Longrightarrow> pl_accepted s = pl_executed s @ in_hand s @ pl_queue s"
  by (simp add: flow_inv_def)

lemma flow_distinct: "flow_inv s \<Longrightarrow> distinct (map cmd_id (pl_queue s))"
  by (simp add: flow_inv_def)

lemma flow_enqueue:
  assumes inv: "flow_inv s" and at: "pl_at s (cmd_id c) = Some (Marked, c)"
    and q: "queue_put c (fc_queue (pl_facade s)) = Some q"
  shows "flow_inv (move c Enqueued (s\<lparr>pl_facade := (pl_facade s)\<lparr>fc_queue := q\<rparr>, pl_accepted := pl_accepted s @ [c]\<rparr>))"
    (is "flow_inv ?s")
proof -
  have items: "cq_items q = pl_queue s @ [c]" using q by (auto simp: queue_put_def split: if_splits)
  have new: "cmd_id d \<noteq> cmd_id c" if "d \<in> set (pl_queue s)" for d
    using that flow_queue [OF inv, of d] at by auto
  have hand: "cmd_id d \<noteq> cmd_id c" if "pl_hand s = Some d" for d
    using that flow_hand [OF inv, of d] at by auto
  have "in_hand ?s = in_hand s" using hand by (simp add: in_hand_def split: option.split)
  then have log: "pl_accepted ?s = pl_executed ?s @ in_hand ?s @ pl_queue ?s" by (simp add: flow_log [OF inv] items)
  have "d \<in> set (pl_queue ?s) \<longleftrightarrow> pl_at ?s (cmd_id d) = Some (Enqueued, d)" for d
    using flow_queue [OF inv, of d] new [of d] by (auto simp: items)
  moreover have "pl_hand ?s = Some d \<longleftrightarrow> (\<exists>st \<in> {Fetched, Running, Recorded}. pl_at ?s (cmd_id d) = Some (st, d))" for d
    using flow_hand [OF inv, of d] hand [of d] by auto
  moreover have "distinct (map cmd_id (pl_queue ?s))"
    using flow_distinct [OF inv] new by (simp add: items) (metis imageE)
  ultimately show ?thesis using log unfolding flow_inv_def by blast
qed

lemma flow_fetch:
  assumes inv: "flow_inv s" and free: "pl_hand s = None" and q: "queue_get (fc_queue (pl_facade s)) = Some (c, q)"
  shows "flow_inv (move c Fetched (s\<lparr>pl_facade := (pl_facade s)\<lparr>fc_queue := q\<rparr>, pl_hand := Some c\<rparr>))" (is "flow_inv ?s")
    and "pl_at s (cmd_id c) = Some (Enqueued, c)"
proof -
  have items: "pl_queue s = c # cq_items q" using q by (auto simp: queue_get_def split: list.splits)
  show "pl_at s (cmd_id c) = Some (Enqueued, c)" using flow_queue [OF inv, of c] items by simp
  have new: "cmd_id d \<noteq> cmd_id c" if "d \<in> set (cq_items q)" for d
    using that flow_distinct [OF inv] by (auto simp: items image_iff)
  have log: "pl_accepted ?s = pl_executed ?s @ in_hand ?s @ pl_queue ?s"
    using flow_log [OF inv] by (simp add: in_hand_def free items)
  have "d \<in> set (pl_queue ?s) \<longleftrightarrow> pl_at ?s (cmd_id d) = Some (Enqueued, d)" for d
    using flow_queue [OF inv, of d] new [of d] flow_queue [OF inv, of c] by (auto simp: items)
  moreover have "pl_hand ?s = Some d \<longleftrightarrow> (\<exists>st \<in> {Fetched, Running, Recorded}. pl_at ?s (cmd_id d) = Some (st, d))" for d
    using flow_hand [OF inv, of d] free by auto
  moreover have "distinct (map cmd_id (pl_queue ?s))"
    using flow_distinct [OF inv] by (simp add: items)
  ultimately show "flow_inv ?s" using log unfolding flow_inv_def by blast
qed

text \<open>The command in the worker's hand moves.\<close>

lemma flow_in_hand:
  assumes inv: "flow_inv s" and h: "pl_hand s = Some c" and at: "pl_at s (cmd_id c) = Some (st, c)"
    and st': "st' \<in> {Running, Recorded}" and s': "pl_at s' = (pl_at s)(cmd_id c \<mapsto> (st', c))"
    and same: "pl_queue s' = pl_queue s" "pl_hand s' = pl_hand s" "pl_accepted s' = pl_accepted s"
    and ex: "pl_executed s' @ in_hand s' = pl_executed s @ in_hand s"
  shows "flow_inv s'"
proof -
  have st: "st \<noteq> Enqueued" using flow_hand [OF inv, of c] h at by auto
  have "d \<in> set (pl_queue s') \<longleftrightarrow> pl_at s' (cmd_id d) = Some (Enqueued, d)" for d
    using flow_queue [OF inv, of d] at st st' by (auto simp: s' same)
  moreover have "pl_hand s' = Some d \<longleftrightarrow> (\<exists>st \<in> {Fetched, Running, Recorded}. pl_at s' (cmd_id d) = Some (st, d))" for d
    using flow_hand [OF inv, of d] h at st' by (cases "cmd_id d = cmd_id c") (auto simp: s' same)
  moreover have "pl_accepted s' = pl_executed s' @ in_hand s' @ pl_queue s'"
    using flow_log [OF inv] ex by (simp add: same)
  ultimately show ?thesis using flow_distinct [OF inv] unfolding flow_inv_def same by blast
qed

lemma flow_drain:
  assumes inv: "flow_inv s" and h: "pl_hand s = Some c" and at: "pl_at s (cmd_id c) = Some (Recorded, c)"
    and s': "pl_at s' = (pl_at s)(cmd_id c := None)" "pl_hand s' = None"
    and same: "pl_queue s' = pl_queue s" "pl_accepted s' = pl_accepted s" "pl_executed s' = pl_executed s"
  shows "flow_inv s'"
proof -
  have "d \<in> set (pl_queue s') \<longleftrightarrow> pl_at s' (cmd_id d) = Some (Enqueued, d)" for d
    using flow_queue [OF inv, of d] at by (auto simp: s' same)
  moreover have "pl_hand s' = Some d \<longleftrightarrow> (\<exists>st \<in> {Fetched, Running, Recorded}. pl_at s' (cmd_id d) = Some (st, d))" for d
    using flow_hand [OF inv, of d] h by (auto simp: s')
  moreover have "pl_accepted s' = pl_executed s' @ in_hand s' @ pl_queue s'"
    using flow_log [OF inv] h at by (simp add: same in_hand_def s')
  ultimately show ?thesis using flow_distinct [OF inv] unfolding flow_inv_def same by blast
qed

lemma flow_same:
  assumes "flow_inv s" and "pl_at s' = pl_at s" "pl_queue s' = pl_queue s" "pl_hand s' = pl_hand s"
    "pl_accepted s' = pl_accepted s" "pl_executed s' = pl_executed s"
  shows "flow_inv s'"
  using assms by (simp add: flow_inv_def in_hand_def cong: option.case_cong)

lemma pl_step_flow:
  assumes "pl_step K s s'" and "view_inv s" and "flow_inv s"
  shows "flow_inv s'"
  using assms
proof (induction rule: pl_step.induct)
  case (pl_register s c now u reg)
  then have "pl_at s (cmd_id c) = None" using view_unused by blast
  with pl_register show ?case by (rule_tac flow_outside [where s = s and c = c and y = "Some (Registered, c)"]) simp_all
next
  case (pl_mark s c)
  then show ?case by (rule_tac flow_outside [where s = s and c = c and y = "Some (Marked, c)"]) simp_all
next
  case (pl_full s c)
  then show ?case by (rule_tac flow_outside [where s = s and c = c and y = "Some (QueueFull, c)"]) simp_all
next
  case (pl_discard s c)
  then show ?case by (rule_tac flow_outside [where s = s and c = c and y = "Some (Discarded, c)"]) simp_all
next
  case (pl_unmark s c)
  then show ?case by (rule_tac flow_outside [where s = s and c = c and y = None]) simp_all
next
  case (pl_run s c now u reg)
  then show ?case by (rule_tac flow_in_hand [where s = s and c = c and st' = Running]) (simp_all add: in_hand_def)
next
  case (pl_run_raises s c now e reg now')
  then have "open_status (pl_reg s) (cmd_id c) = Some ST_QUEUED" using view_at(1) by fastforce
  with pl_run_raises show ?case using running_open(1) [of "pl_reg s" "cmd_id c" now] by simp
next
  case (pl_handle s c t t' reg w)
  then show ?case by (rule_tac flow_in_hand [where s = s and c = c and st' = Recorded]) (simp_all add: in_hand_def)
next
  case (pl_drain s c)
  then show ?case by (rule_tac flow_drain [where s = s and c = c]) simp_all
next
  case (pl_poll s now cid)
  then show ?case by (rule_tac flow_same [where s = s]) simp_all
next
  case (pl_events s ready wake)
  then show ?case by (rule_tac flow_same [where s = s]) simp_all
qed (simp_all add: flow_enqueue flow_fetch(1))

lemma pl_step_view:
  assumes "pl_step K s s'" and "view_inv s" and "flow_inv s"
  shows "view_inv s'"
  using assms
proof (induction rule: pl_step.induct)
  case (pl_enqueue s c q)
  then show ?case by (rule_tac view_same [where s = s and c = c and st = Marked and st' = Enqueued]) simp_all
next
  case (pl_full s c)
  then show ?case by (rule_tac view_same [where s = s and c = c and st = Marked and st' = QueueFull]) simp_all
next
  case (pl_discard s c)
  then have "open_status (pl_reg s) (cmd_id c) = Some ST_QUEUED" using view_at(1) by fastforce
  with pl_discard show ?case
    using discard_open good_discard [OF view_ok, of s "cmd_id c"]
    by (rule_tac view_reg [where s = s and c = c and st = QueueFull and st' = Discarded]) (simp_all add: good_step_def)
next
  case (pl_unmark s c)
  then show ?case
    using markers_not_queued(1) [of "pl_facade s" c] view_at(3) [OF pl_unmark(2,1)]
    by (rule_tac view_leave [where s = s and c = c and st = Discarded]) simp_all
next
  case (pl_fetch s c q)
  then show ?case
    using flow_fetch(2) by (rule_tac view_same [where s = s and c = c and st = Enqueued and st' = Fetched]) simp_all
next
  case (pl_run s c now u reg)
  then have "open_status (pl_reg s) (cmd_id c) = Some ST_QUEUED" using view_at(1) by fastforce
  with pl_run show ?case
    using running_open [of "pl_reg s" "cmd_id c" now] running_ok [OF view_ok, of s now "cmd_id c"]
    by (rule_tac view_reg [where s = s and c = c and st = Fetched and st' = Running]) simp_all
next
  case (pl_run_raises s c now e reg now')
  then have "open_status (pl_reg s) (cmd_id c) = Some ST_QUEUED" using view_at(1) by fastforce
  with pl_run_raises show ?case using running_open(1) [of "pl_reg s" "cmd_id c" now] by simp
next
  case (pl_handle s c t t' reg w)
  then have "open_status (pl_reg s) (cmd_id c) = Some ST_RUNNING" using view_at(1) by fastforce
  with pl_handle show ?case
    using run_handler_closes(1) [OF view_ok, of s c K "pl_world s" t t']
    by (rule_tac view_reg [where s = s and c = c and st = Running and st' = Recorded]) (simp_all add: closed_as_def)
next
  case (pl_drain s c)
  then show ?case
    using markers_not_queued(2) [of "pl_facade s" c] view_at(3) [OF pl_drain(3,2)]
    by (rule_tac view_leave [where s = s and c = c and st = Recorded]) simp_all
qed (simp_all add: view_register view_mark view_poll, simp add: view_inv_def)

text \<open>The log: no id is accepted twice and the state of the handlers is that of the executed commands in order.\<close>

definition log_inv :: "'w worker \<Rightarrow> 'w \<Rightarrow> 'w pipeline \<Rightarrow> bool" where
  "log_inv K w0 s \<longleftrightarrow>
     distinct (map cmd_id (pl_accepted s)) \<and> cmd_id ` set (pl_accepted s) \<subseteq> pl_used s
     \<and> (\<forall>cid c. pl_at s cid \<in> {Some (Registered, c), Some (Marked, c)} \<longrightarrow> cid \<notin> cmd_id ` set (pl_accepted s))
     \<and> pl_world s = fold (world_after K) (pl_executed s) w0"

lemma pl_step_log:
  assumes "pl_step K s s'" and "view_inv s" and "log_inv K w0 s"
  shows "log_inv K w0 s'"
  using assms
proof (induction rule: pl_step.induct)
  case (pl_enqueue s c q)
  then have "cmd_id c \<notin> cmd_id ` set (pl_accepted s)" by (auto simp: log_inv_def)
  with pl_enqueue view_at(2) [OF pl_enqueue(3,1)] show ?case by (auto simp: log_inv_def)
next
  case (pl_handle s c t t' reg w)
  then have "open_status (pl_reg s) (cmd_id c) = Some ST_RUNNING" using view_at(1) by fastforce
  from run_handler_closes(2) [OF view_ok this, of K t t' "pl_world s"] pl_handle
  have "w = world_after K c (pl_world s)" by simp
  with pl_handle show ?case by (auto simp: log_inv_def)
qed (auto simp: log_inv_def)

definition new_pipeline :: "(rat \<Rightarrow> string) \<Rightarrow> 'w \<Rightarrow> 'w pipeline" where
  "new_pipeline F w =
     \<lparr>pl_facade = \<lparr>fc_queue = \<lparr>cq_items = [], cq_maxsize = COMMAND_QUEUE_MAXSIZE\<rparr>, fc_registry = new_registry F,
                   fc_pending = (\<lambda>_. None), fc_committed = (\<lambda>_. None), fc_ready = False, fc_wake = False,
                   fc_markers = (\<lambda>_. None)\<rparr>,
      pl_world = w, pl_at = (\<lambda>_. None), pl_hand = None, pl_used = {}, pl_accepted = [], pl_executed = []\<rparr>"

lemma new_pipeline_inv:
  "view_inv (new_pipeline F w)" "flow_inv (new_pipeline F w)" "log_inv K w (new_pipeline F w)"
proof -
  have "reg_entry (new_registry F) cid = None" for cid by (simp add: new_registry_def reg_entry_def)
  then show "view_inv (new_pipeline F w)"
    by (simp add: view_inv_def new_pipeline_def reg_ok_new open_status_def task_status_def task_marker_def)
qed (simp_all add: flow_inv_def log_inv_def new_pipeline_def in_hand_def)

lemma reachable_pipeline:
  "(pl_step K)\<^sup>*\<^sup>* (new_pipeline F w) s \<Longrightarrow> view_inv s \<and> flow_inv s \<and> log_inv K w s"
  by (induction rule: rtranclp_induct) (auto simp: new_pipeline_inv intro: pl_step_view pl_step_flow pl_step_log)

lemmas pipeline_invs = reachable_pipeline [THEN conjunct1] reachable_pipeline [THEN conjunct2, THEN conjunct1]
  reachable_pipeline [THEN conjunct2, THEN conjunct2]

section \<open>The code as one of the interleavings\<close>

lemma steps_one: "pl_step K s s' \<Longrightarrow> (pl_step K)\<^sup>*\<^sup>* s s'"
  by (rule r_into_rtranclp)

text \<open>A worker's iteration without interruption: fetch, run, handle, drain.\<close>

definition worker_turn :: "'w worker \<Rightarrow> (nat \<Rightarrow> timestamp) \<Rightarrow> command \<Rightarrow> command_queue \<Rightarrow> 'w pipeline \<Rightarrow> 'w pipeline" where
  "worker_turn K clk c q s =
     (let x = execute_command K clk c (pl_reg s, pl_world s) in
      s\<lparr>pl_facade := note_key_request_drained c ((pl_facade s)\<lparr>fc_queue := q, fc_registry := fst x\<rparr>), pl_world := snd x,
        pl_at := (pl_at s)(cmd_id c := None), pl_hand := None, pl_executed := pl_executed s @ [c]\<rparr>)"

lemma worker_turn_steps:
  assumes inv: "view_inv s" "flow_inv s" and free: "pl_hand s = None" and q: "queue_get (fc_queue (pl_facade s)) = Some (c, q)"
  shows "(pl_step K)\<^sup>*\<^sup>* s (worker_turn K clk c q s)"
proof -
  define s1 where "s1 = move c Fetched (s\<lparr>pl_facade := (pl_facade s)\<lparr>fc_queue := q\<rparr>, pl_hand := Some c\<rparr>)"
  define r where "r = snd (mark_running (clk 0) (cmd_id c) (pl_reg s))"
  define s2 where "s2 = move c Running (with_reg r s1)"
  define x where "x = run_handler K (clk 2) (clk 3) c (r, pl_world s)"
  define s3 where "s3 = move c Recorded (with_reg (fst x) (s2\<lparr>pl_world := snd x, pl_executed := pl_executed s @ [c]\<rparr>))"
  define s4 where "s4 = leave c (s3\<lparr>pl_facade := note_key_request_drained c (pl_facade s3), pl_hand := None\<rparr>)"
  have "open_status (pl_reg s) (cmd_id c) = Some ST_QUEUED"
    using view_at(1) [OF inv(1) flow_fetch(2) [OF inv(2) free q]] by simp
  from running_open(1) [OF this, of "clk 0"]
  have run: "mark_running (clk 0) (cmd_id c) (pl_reg s) = (Inr (), r)" by (simp add: r_def)
  have "pl_step K s s1" unfolding s1_def using free q by (rule pl_fetch)
  moreover have "pl_step K s1 s2"
    unfolding s2_def by (rule pl_run [where now = "clk 0" and u = "()"]) (use run in \<open>simp_all add: s1_def\<close>)
  moreover have "pl_step K s2 s3"
    unfolding s3_def using pl_handle [of s2 c K "clk 2" "clk 3" "fst x" "snd x"]
    by (simp add: s2_def s1_def x_def)
  moreover have "pl_step K s3 s4"
    unfolding s4_def by (rule pl_drain) (simp_all add: s3_def s2_def s1_def)
  moreover have "execute_command K clk c (pl_reg s, pl_world s) = x"
    by (simp add: execute_command_def run x_def)
  then have "s4 = worker_turn K clk c q s"
    by (simp add: worker_turn_def s4_def s3_def s2_def s1_def move_def leave_def with_reg_def note_key_request_drained_def
        mark_drained_def Let_def)
  ultimately show ?thesis by (meson converse_rtranclp_into_rtranclp rtranclp.rtrancl_refl)
qed

lemma steps_inv:
  "(pl_step K)\<^sup>*\<^sup>* s s' \<Longrightarrow> view_inv s \<Longrightarrow> flow_inv s \<Longrightarrow> view_inv s' \<and> flow_inv s'"
  by (induction rule: rtranclp_induct) (auto intro: pl_step_view pl_step_flow)

lemma drain_loop_steps:
  "view_inv s \<Longrightarrow> flow_inv s \<Longrightarrow> pl_hand s = None \<Longrightarrow>
     \<exists>s'. (pl_step K)\<^sup>*\<^sup>* s s' \<and> pl_hand s' = None
       \<and> drain_loop n K clk (pl_facade s, pl_world s) = (pl_facade s', pl_world s')"
proof (induction n arbitrary: s)
  case (Suc n)
  show ?case
  proof (cases "queue_get (fc_queue (pl_facade s))")
    case None
    then show ?thesis using Suc.prems by (intro exI [of _ s]) simp
  next
    case (Some cq)
    obtain c q where cq: "cq = (c, q)" by (cases cq)
    let ?t = "worker_turn K (clk n) c q s"
    have steps: "(pl_step K)\<^sup>*\<^sup>* s ?t" using worker_turn_steps Suc.prems Some cq by blast
    have "drain_loop (Suc n) K clk (pl_facade s, pl_world s) = drain_loop n K clk (pl_facade ?t, pl_world ?t)"
      using Some cq by (simp add: worker_turn_def Let_def split: prod.split)
    moreover have "pl_hand ?t = None" by (simp add: worker_turn_def Let_def)
    ultimately show ?thesis
      using Suc.IH [of ?t] steps_inv [OF steps Suc.prems(1,2)] rtranclp_trans [OF steps] by metis
  qed
qed auto

lemma step_wake: "pl_step K s (s\<lparr>pl_facade := (pl_facade s)\<lparr>fc_wake := True\<rparr>\<rparr>)"
  using pl_events [where ready = "fc_ready (pl_facade s)" and wake = True and s = s] by simp

lemma submit_steps:
  assumes inv: "view_inv s" and ready: "fc_ready (pl_facade s)" and fresh: "cmd_id c \<notin> pl_used s"
  shows "\<exists>s'. (pl_step K)\<^sup>*\<^sup>* s s' \<and> pl_facade s' = snd (submit now c (pl_facade s)) \<and> pl_hand s' = pl_hand s
    \<and> (\<forall>r. fst (submit now c (pl_facade s)) = Inr r \<longrightarrow> r = cmd_id c \<and> pl_accepted s' = pl_accepted s @ [c])
    \<and> (\<forall>e. fst (submit now c (pl_facade s)) = Inl e \<longrightarrow> e = CommandQueueFull \<and> pl_accepted s' = pl_accepted s)"
proof -
  define reg where "reg = snd (register_command now c (pl_reg s))"
  define s1 where "s1 = move c Registered (with_reg reg (s\<lparr>pl_used := insert (cmd_id c) (pl_used s)\<rparr>))"
  define s2 where "s2 = move c Marked (s1\<lparr>pl_facade := note_key_request_queued c (pl_facade s1)\<rparr>)"
  have reg: "register_command now c (pl_reg s) = (Inr (), reg)"
    using register_fresh(1) view_ok [OF inv] view_unused [OF inv fresh] by (simp add: reg_def)
  have "pl_step K s s1" unfolding s1_def using ready fresh reg by (rule pl_register)
  moreover have "pl_step K s1 s2" unfolding s2_def by (rule pl_mark) (simp add: s1_def)
  ultimately have s2: "(pl_step K)\<^sup>*\<^sup>* s s2" by (meson converse_rtranclp_into_rtranclp rtranclp.rtrancl_refl)
  have f2: "pl_facade s2 = note_key_request_queued c ((pl_facade s)\<lparr>fc_registry := reg\<rparr>)" by (simp add: s2_def s1_def)
  have at2: "pl_at s2 (cmd_id c) = Some (Marked, c)" "pl_accepted s2 = pl_accepted s" "pl_hand s2 = pl_hand s" by (simp_all add: s2_def s1_def)
  show ?thesis
  proof (cases "queue_put c (fc_queue (pl_facade s2))")
    case (Some q)
    define s3 where "s3 = move c Enqueued (s2\<lparr>pl_facade := (pl_facade s2)\<lparr>fc_queue := q\<rparr>, pl_accepted := pl_accepted s2 @ [c]\<rparr>)"
    have "pl_step K s2 s3" unfolding s3_def using at2(1) Some by (rule pl_enqueue)
    with s2 have "(pl_step K)\<^sup>*\<^sup>* s (s3\<lparr>pl_facade := (pl_facade s3)\<lparr>fc_wake := True\<rparr>\<rparr>)"
      using step_wake [of K s3] by (meson rtranclp.rtrancl_into_rtrancl)
    then show ?thesis
      using Some ready reg f2 at2(2,3) by (intro exI [of _ "s3\<lparr>pl_facade := (pl_facade s3)\<lparr>fc_wake := True\<rparr>\<rparr>"] conjI)
          (auto simp: submit_def Let_def s3_def)
  next
    case None
    define s3 where "s3 = move c QueueFull s2"
    define s4 where "s4 = move c Discarded (with_reg (discard_queued (cmd_id c) (pl_reg s3)) s3)"
    define s5 where "s5 = leave c (s4\<lparr>pl_facade := note_key_request_not_queued c (pl_facade s4)\<rparr>)"
    have "pl_step K s2 s3" unfolding s3_def using at2(1) None by (rule pl_full)
    moreover have "pl_step K s3 s4" unfolding s4_def by (rule pl_discard) (simp add: s3_def)
    moreover have "pl_step K s4 s5" unfolding s5_def by (rule pl_unmark) (simp add: s4_def)
    ultimately have "(pl_step K)\<^sup>*\<^sup>* s s5" using s2 by (meson rtranclp.rtrancl_into_rtrancl)
    then show ?thesis
      using None ready reg f2 at2(2,3) by (intro exI [of _ s5] conjI) (auto simp: submit_def Let_def s3_def s4_def s5_def)
  qed
qed

section \<open>Properties\<close>

text \<open>C27. However request threads, the worker and polls interleave, no command is accepted into the queue twice, the
  commands that ran are the first ones accepted, each once and in that order, and the state of the handlers is the
  result of exactly these runs; what was accepted and did not run is in the worker's hand or in the queue. Once every
  thread has finished, everything accepted has run, no result is left open and no key request is shown as queued.\<close>

theorem pipeline_runs_once:
  assumes "(pl_step K)\<^sup>*\<^sup>* (new_pipeline F w) s"
  shows "distinct (map cmd_id (pl_accepted s))
    \<and> pl_accepted s = pl_executed s @ in_hand s @ pl_queue s \<and> length (in_hand s) \<le> 1
    \<and> pl_world s = fold (world_after K) (pl_executed s) w
    \<and> ((\<forall>cid. pl_at s cid = None) \<longrightarrow>
         pl_executed s = pl_accepted s \<and> (\<forall>cid. open_status (pl_reg s) cid = None \<and> fc_markers (pl_facade s) cid = None))"
proof -
  note inv = pipeline_invs [OF assms]
  have "pl_executed s = pl_accepted s" if idle: "\<forall>cid. pl_at s cid = None"
  proof -
    have "pl_queue s = []" using idle flow_queue [OF inv(2), of "hd (pl_queue s)"] by (cases "pl_queue s") simp_all
    moreover have "pl_hand s = None" using idle flow_hand [OF inv(2), of "the (pl_hand s)"] by (cases "pl_hand s") simp_all
    ultimately show ?thesis using flow_log [OF inv(2)] by (simp add: in_hand_def)
  qed
  moreover have "open_status (pl_reg s) cid = None \<and> fc_markers (pl_facade s) cid = None" if "\<forall>cid. pl_at s cid = None" for cid
    using that view_eqs [OF inv(1)] by (simp add: task_status_def task_marker_def)
  moreover have "length (in_hand s) \<le> 1" by (simp add: in_hand_def split: option.split)
  ultimately show ?thesis
    using inv(3) flow_log [OF inv(2)] by (auto simp: log_inv_def)
qed

definition idle_worker :: "nat worker" where
  "idle_worker = \<lparr>wk_handlers = (\<lambda>_. Some (\<lambda>c n. Returned \<lparr>co_resource_id = None, co_result = None, co_error_code = None\<rparr> (n + 1))),
     wk_vault_locked = (\<lambda>_. False), wk_rollback = id\<rparr>"

lemma idle_worker_after: "world_after idle_worker c n = n + 1"
  by (simp add: world_after_def idle_worker_def dispatch_def)

text \<open>A request thread submits a command and the worker runs it.\<close>

definition ready_pipeline :: "nat pipeline" where
  "ready_pipeline = (new_pipeline (\<lambda>_. []) 0)\<lparr>pl_facade := (pl_facade (new_pipeline (\<lambda>_. []) (0::nat)))\<lparr>fc_ready := True\<rparr>\<rparr>"

lemma ready_pipeline_reachable: "(pl_step K)\<^sup>*\<^sup>* (new_pipeline (\<lambda>_. []) 0) ready_pipeline"
  unfolding ready_pipeline_def
  using pl_events [where ready = True and wake = False and s = "new_pipeline (\<lambda>_. []) (0::nat)"]
  by (intro r_into_rtranclp) (simp add: new_pipeline_def)

lemma sample_submit:
  "fst (submit 0 sample_command (pl_facade ready_pipeline)) = Inr ''c1''"
  "cq_items (fc_queue (snd (submit 0 sample_command (pl_facade ready_pipeline)))) = [sample_command]"
  by (simp_all add: submit_def ready_pipeline_def new_pipeline_def register_command_def new_registry_def evict_locked_def
      evict_over.simps reg_entry_def note_key_request_queued_def key_request_contact_def sample_command_def queue_put_def
      COMMAND_QUEUE_MAXSIZE_def Let_def)

lemma sample_pipeline_exists:
  obtains s where "(pl_step idle_worker)\<^sup>*\<^sup>* (new_pipeline (\<lambda>_. []) 0) s" "pl_accepted s = [sample_command]"
    "pl_facade s = snd (submit 0 sample_command (pl_facade ready_pipeline))" "pl_hand s = None"
proof -
  have "view_inv ready_pipeline" using pipeline_invs(1) [OF ready_pipeline_reachable] .
  moreover have "fc_ready (pl_facade ready_pipeline)" "cmd_id sample_command \<notin> pl_used ready_pipeline" "pl_accepted ready_pipeline = []"
      "pl_hand ready_pipeline = None"
    by (simp_all add: ready_pipeline_def new_pipeline_def)
  ultimately show thesis
    using submit_steps [of ready_pipeline sample_command idle_worker 0] sample_submit(1)
      rtranclp_trans [OF ready_pipeline_reachable [of idle_worker]] that
    by (metis append_Nil)
qed

theorem pipeline_runs_once_witness:
  "\<exists>s. pl_accepted s = [sample_command] \<and> pl_accepted s = pl_executed s @ in_hand s @ pl_queue s
     \<and> pl_world s = fold (world_after idle_worker) (pl_executed s) 0"
  using sample_pipeline_exists pipeline_runs_once by metis

text \<open>C29. In every reachable state a poll for a command in flight finds its result with the status of its stage, the
  worker can always mark the command it took from the queue as running, and an address is shown as having a queued key
  request exactly while a key request to it is between its marking and its removal; other addresses keep the published
  state.\<close>

theorem pipeline_visible:
  assumes "(pl_step K)\<^sup>*\<^sup>* (new_pipeline F w) s"
  shows "(\<forall>cid st c. pl_at s cid = Some (st, c) \<longrightarrow> st \<notin> {Discarded, Recorded} \<longrightarrow>
            (\<exists>e. fst (get_command now cid (pl_reg s)) = Inr (Some e) \<and> Some (cr_status e) = stage_status st))
    \<and> (\<forall>c. pl_at s (cmd_id c) = Some (Fetched, c) \<longrightarrow> fst (mark_running now (cmd_id c) (pl_reg s)) = Inr ())
    \<and> key_request_snapshot published (pl_facade s) address =
        (if \<exists>cid st c. pl_at s cid = Some (st, c) \<and> st \<noteq> Registered \<and> key_request_contact c = Some address
         then Some queued_capability else published address)"
proof -
  note inv = pipeline_invs(1) [OF assms]
  have poll: "\<exists>e. fst (get_command now cid (pl_reg s)) = Inr (Some e) \<and> Some (cr_status e) = stage_status st"
    if at: "pl_at s cid = Some (st, c)" and st: "st \<notin> {Discarded, Recorded}" for cid st c
  proof -
    have "open_status (pl_reg s) cid = stage_status st" using view_eqs(1) [OF inv, of cid] at by (simp add: task_status_def)
    then have o: "open_status (evict_locked now (pl_reg s)) cid = stage_status st" using view_ok [OF inv] by simp
    obtain x where x: "stage_status st = Some x" using st by (cases st) simp_all
    obtain e where "reg_entry (evict_locked now (pl_reg s)) cid = Some e" "cr_status e = x" "\<not> terminal_status x"
      using o unfolding x open_queued_entry by blast
    then show ?thesis using x by (simp add: get_command_def Let_def)
  qed
  have run: "fst (mark_running now (cmd_id c) (pl_reg s)) = Inr ()" if "pl_at s (cmd_id c) = Some (Fetched, c)" for c
    using running_open(1) [of "pl_reg s" "cmd_id c" now] view_eqs(1) [OF inv, of "cmd_id c"] that
    by (simp add: task_status_def) (metis fst_conv)
  have "address \<in> ran (fc_markers (pl_facade s)) \<longleftrightarrow> (\<exists>cid. task_marker (pl_at s cid) = Some address)"
    using view_eqs(2) [OF inv] by (simp add: ran_def)
  also have "\<dots> \<longleftrightarrow> (\<exists>cid st c. pl_at s cid = Some (st, c) \<and> st \<noteq> Registered \<and> key_request_contact c = Some address)"
    by (simp add: task_marker_Some)
  finally show ?thesis using poll run by (auto simp: key_request_snapshot_def)
qed

theorem pipeline_visible_witness:
  "\<exists>s :: nat pipeline. pl_accepted s = [sample_command] \<and> key_request_snapshot (\<lambda>_. None) (pl_facade s) ''a'' =
        (if \<exists>cid st c. pl_at s cid = Some (st, c) \<and> st \<noteq> Registered \<and> key_request_contact c = Some ''a''
         then Some queued_capability else None)"
proof -
  obtain s where s: "(pl_step idle_worker)\<^sup>*\<^sup>* (new_pipeline (\<lambda>_. []) 0) s" "pl_accepted s = [sample_command]"
    by (rule sample_pipeline_exists)
  then show ?thesis
    using pipeline_visible [OF s(1), of 0 "\<lambda>_. None" "''a''"] by (intro exI [of _ s] conjI) simp_all
qed

lemma queue_bounded:
  "(pl_step K)\<^sup>*\<^sup>* (new_pipeline F w) s \<Longrightarrow>
     cq_maxsize (fc_queue (pl_facade s)) = COMMAND_QUEUE_MAXSIZE \<and> length (pl_queue s) \<le> COMMAND_QUEUE_MAXSIZE"
proof (induction rule: rtranclp_induct)
  case (step s s')
  from step(2,3) show ?case
    by (induction rule: pl_step.induct) (auto simp: queue_put_def queue_get_def split: if_splits list.splits)
qed (simp add: new_pipeline_def)

lemma reachable_pipeline_ok:
  assumes "(pl_step K)\<^sup>*\<^sup>* (new_pipeline F w) s"
  shows "pipeline_ok (pl_facade s)"
proof -
  note inv = pipeline_invs [OF assms]
  have "open_status (pl_reg s) (cmd_id c) = Some ST_QUEUED" if "c \<in> set (pl_queue s)" for c
    using that flow_queue [OF inv(2), of c] view_eqs(1) [OF inv(1), of "cmd_id c"] by (simp add: task_status_def)
  then show ?thesis using view_ok [OF inv(1)] flow_distinct [OF inv(2)] by (simp add: pipeline_ok_def)
qed

definition passes :: "'w worker \<Rightarrow> (nat \<Rightarrow> nat \<Rightarrow> timestamp) list \<Rightarrow> facade \<times> 'w \<Rightarrow> facade \<times> 'w" where
  "passes K clks x = fold (drain_commands K) clks x"

lemma drained_trans:
  assumes "drained K cs x y" and "drained K ds y z"
  shows "drained K (cs @ ds) x z"
proof -
  have "fc_markers (fst z) cid =
      (if \<exists>c \<in> set (cs @ ds). cmd_id c = cid \<and> cmd_kind c = ''contact_request_key'' then None else fc_markers (fst x) cid)" for cid
  proof -
    have "fc_markers (fst y) cid =
        (if \<exists>c \<in> set cs. cmd_id c = cid \<and> cmd_kind c = ''contact_request_key'' then None else fc_markers (fst x) cid)"
      using assms(1) unfolding drained_def by blast
    moreover have "fc_markers (fst z) cid =
        (if \<exists>c \<in> set ds. cmd_id c = cid \<and> cmd_kind c = ''contact_request_key'' then None else fc_markers (fst y) cid)"
      using assms(2) unfolding drained_def by blast
    ultimately show ?thesis by (simp add: bex_Un) blast
  qed
  moreover have "open_status (fc_registry (fst z)) cid =
      (if cid \<in> cmd_id ` set (cs @ ds) then None else open_status (fc_registry (fst x)) cid)" for cid
    using assms unfolding drained_def by (simp add: image_Un)
  moreover have "pipeline_ok (fst z)" "cq_items (fc_queue (fst x)) = (cs @ ds) @ cq_items (fc_queue (fst z))"
      "snd z = fold (world_after K) (cs @ ds) (snd x)"
    using assms unfolding drained_def by simp_all
  ultimately show ?thesis unfolding drained_def by blast
qed

lemma passes_drained:
  "pipeline_ok f \<Longrightarrow> drained K (take (length clks * 16) (cq_items (fc_queue f))) (f, w) (passes K clks (f, w))"
proof (induction clks arbitrary: f w)
  case Nil
  then show ?case by (simp add: drained_def passes_def)
next
  case (Cons clk clks)
  obtain f' w' where x: "drain_commands K clk (f, w) = (f', w')" by fastforce
  have d: "drained K (take 16 (cq_items (fc_queue f))) (f, w) (f', w')"
    using drain_loop_drained [OF Cons.prems, of K 16 w clk] x by (simp add: drain_commands_def MAX_COMMANDS_PER_TICK_def)
  then have q: "cq_items (fc_queue f') = drop 16 (cq_items (fc_queue f))" and ok: "pipeline_ok f'"
    by (auto simp: drained_def) (metis append_take_drop_id same_append_eq)
  have t: "take (16 + m) xs = take 16 xs @ take m (drop 16 xs)" for m and xs :: "command list"
    by (simp add: take_add)
  have "drained K (take (length clks * 16) (cq_items (fc_queue f'))) (f', w') (passes K (clk # clks) (f, w))"
    using Cons.IH [OF ok, of w'] by (simp add: passes_def x)
  from drained_trans [OF d this] show ?case by (simp add: q t add.commute)
qed

text \<open>C28. From every reachable state in which the worker is between commands, each uninterrupted pass of the worker is
  one of the interleavings, and it removes exactly the next 16 commands, runs each once in order, closes its result and
  its marker and leaves the rest queued; since the queue holds at most 64, four passes leave it empty with every queued
  command run.\<close>

theorem drain_completes:
  assumes "(pl_step K)\<^sup>*\<^sup>* (new_pipeline F w) s" and "pl_hand s = None"
  shows "(\<exists>s'. (pl_step K)\<^sup>*\<^sup>* s s' \<and> drain_commands K clk (pl_facade s, pl_world s) = (pl_facade s', pl_world s'))
    \<and> drained K (take 16 (pl_queue s)) (pl_facade s, pl_world s) (drain_commands K clk (pl_facade s, pl_world s))
    \<and> (length clks = 4 \<longrightarrow>
         drained K (pl_queue s) (pl_facade s, pl_world s) (passes K clks (pl_facade s, pl_world s))
         \<and> cq_items (fc_queue (fst (passes K clks (pl_facade s, pl_world s)))) = [])"
proof -
  note inv = pipeline_invs [OF assms(1)] and ok = reachable_pipeline_ok [OF assms(1)]
  have "\<exists>s'. (pl_step K)\<^sup>*\<^sup>* s s' \<and> drain_commands K clk (pl_facade s, pl_world s) = (pl_facade s', pl_world s')"
    using drain_loop_steps [OF inv(1,2) assms(2)] unfolding drain_commands_def by metis
  moreover have "drained K (take 16 (pl_queue s)) (pl_facade s, pl_world s) (drain_commands K clk (pl_facade s, pl_world s))"
    using drain_loop_drained [OF ok, of K 16 "pl_world s" clk] by (simp add: drain_commands_def MAX_COMMANDS_PER_TICK_def)
  moreover have "drained K (pl_queue s) (pl_facade s, pl_world s) (passes K clks (pl_facade s, pl_world s))" if "length clks = 4"
    using passes_drained [OF ok, of K clks "pl_world s"] queue_bounded [OF assms(1)] that
    by (simp add: COMMAND_QUEUE_MAXSIZE_def)
  ultimately show ?thesis by (auto simp: drained_def)
qed

theorem drain_completes_witness:
  "\<exists>s :: nat pipeline. pl_queue s = [sample_command]
     \<and> (let (f, n) = drain_commands idle_worker (\<lambda>_ _. 0) (pl_facade s, 0)
        in cq_items (fc_queue f) = [] \<and> n = 1 \<and> open_status (fc_registry f) ''c1'' = None)"
proof -
  obtain s where s: "(pl_step idle_worker)\<^sup>*\<^sup>* (new_pipeline (\<lambda>_. []) 0) s" "pl_accepted s = [sample_command]"
      "pl_facade s = snd (submit 0 sample_command (pl_facade ready_pipeline))" "pl_hand s = None"
    by (rule sample_pipeline_exists)
  have q: "pl_queue s = [sample_command]" by (simp add: s(3) sample_submit(2))
  then have "pl_executed s = []" using flow_log [OF pipeline_invs(2) [OF s(1)]] s(2) by simp
  then have "pl_world s = 0" using pipeline_invs(3) [OF s(1)] by (simp add: log_inv_def)
  with drain_completes [OF s(1,4), of "\<lambda>_ _. 0" "[]"] q show ?thesis
    by (intro exI [of _ s]) (auto simp: drained_def idle_worker_after sample_command_def split: prod.split)
qed

section \<open>Idempotent creation\<close>

lemma register_result:
  assumes "reg_ok reg"
  obtains (new) reg' where "register_command now c reg = (Inr (), reg')" "open_status reg (cmd_id c) = None"
      "open_status reg' = (open_status reg)(cmd_id c \<mapsto> ST_QUEUED)"
  | (duplicate) reg' where "register_command now c reg = (Inl DuplicateCommand, reg')" "open_status reg' = open_status reg"
proof (cases "reg_entry (evict_locked now reg) (cmd_id c) = None")
  case True
  have "open_status (evict_locked now reg) (cmd_id c) = None" using True by (simp add: open_status_def)
  with True show thesis
    using new assms by (simp add: register_command_def Let_def terminal_status_def)
next
  case False
  then show thesis using duplicate assms by (simp add: register_command_def Let_def)
qed

fun create_effect ::
  "string \<Rightarrow> command \<Rightarrow> pending_reservation \<Rightarrow> committed_index \<Rightarrow> facade \<Rightarrow> (facade_exn + reservation_outcome) \<Rightarrow> facade \<Rightarrow> bool" where
  "create_effect rid c r committed f (Inr (Fresh r')) f' \<longleftrightarrow>
     r' = r \<and> fc_pending f rid = None \<and> committed rid = None \<and> fc_pending f' = (fc_pending f)(rid \<mapsto> r)
     \<and> cq_items (fc_queue f') = cq_items (fc_queue f) @ [c]
     \<and> open_status (fc_registry f') = (open_status (fc_registry f))(cmd_id c \<mapsto> ST_QUEUED)"
| "create_effect rid c r committed f (Inr (ReplayPending e)) f' \<longleftrightarrow>
     f' = f \<and> fc_pending f rid = Some e \<and> pr_canonical_hash e = pr_canonical_hash r"
| "create_effect rid c r committed f (Inr (ReplayCommitted e)) f' \<longleftrightarrow>
     f' = f \<and> fc_pending f rid = None \<and> committed rid = Some e \<and> ix_canonical_hash e = pr_canonical_hash r"
| "create_effect rid c r committed f (Inr (Conflict h)) f' \<longleftrightarrow>
     f' = f \<and> h \<noteq> pr_canonical_hash r
     \<and> h \<in> pr_canonical_hash ` set_option (fc_pending f rid) \<union> ix_canonical_hash ` set_option (committed rid)"
| "create_effect rid c r committed f (Inl _) f' \<longleftrightarrow>
     fc_pending f' = fc_pending f \<and> fc_queue f' = fc_queue f \<and> open_status (fc_registry f') = open_status (fc_registry f)"

lemma unreserve: "p rid = None \<Longrightarrow> snd (remove_if_matches rid r (p(rid \<mapsto> r))) = p"
  by (auto simp: remove_if_matches_def)

lemma create_fresh:
  assumes ok: "reg_ok (fc_registry f)" and none: "fc_pending f rid = None" "committed rid = None" and ready: "fc_ready f"
  shows "create_effect rid c r committed f (fst (submit_create now c rid r committed f)) (snd (submit_create now c rid r committed f))"
  using ok
proof (cases rule: register_result [where now = now and c = c])
  case (new reg')
  have "open_status (discard_queued (cmd_id c) reg') = open_status (fc_registry f)"
    using discard_open(1) [of reg' "cmd_id c"] new(2,3) by (simp add: fun_upd_idem)
  then show ?thesis
    using new none ready unreserve [of "fc_pending f" rid r]
    by (cases "queue_put c (fc_queue f)") (auto simp: submit_create_def reserve_def Let_def queue_put_def split: if_splits)
next
  case (duplicate reg')
  then show ?thesis
    using none ready unreserve [of "fc_pending f" rid r] by (simp add: submit_create_def reserve_def Let_def)
qed

text \<open>C30. What a create request does, given the published index it read, which may be out of date by the time the request takes
  the lock of the reservations: it is enqueued only if no reservation has its id at that moment and the index it read does
  not list the id; a replay or a conflict is answered from the reservation or, without one, from that index, and leaves no
  trace; every failure leaves reservations, queue and open results as they were. As long as the reservation of an accepted
  request is there, every request with the same id, with whatever index, is answered as a replay or a conflict without a
  trace.\<close>

theorem create_once:
  assumes "reg_ok (fc_registry f)" and "fc_ready f"
  shows "create_effect rid c r committed f (fst (submit_create now c rid r committed f)) (snd (submit_create now c rid r committed f))
    \<and> (fst (submit_create now c rid r committed f) = Inr (Fresh r) \<longrightarrow> fc_pending (snd (submit_create now c rid r committed f)) rid = Some r)
    \<and> (fc_pending g rid = Some r \<longrightarrow> fc_ready g \<longrightarrow>
         submit_create later d rid q index g =
           (Inr (if pr_canonical_hash q = pr_canonical_hash r then ReplayPending r else Conflict (pr_canonical_hash r)), g))"
proof -
  have effect: "create_effect rid c r committed f (fst (submit_create now c rid r committed f)) (snd (submit_create now c rid r committed f))"
  proof (cases "fc_pending f rid = None \<and> committed rid = None")
    case True
    then show ?thesis using create_fresh assms by blast
  next
    case False
    then show ?thesis
      using assms(2) by (cases "fc_pending f rid"; cases "committed rid") (simp_all add: submit_create_def reserve_def)
  qed
  moreover have "fc_pending (snd (submit_create now c rid r committed f)) rid = Some r" if "fst (submit_create now c rid r committed f) = Inr (Fresh r)"
    using effect that by simp
  moreover have "submit_create later d rid q index g =
      (Inr (if pr_canonical_hash q = pr_canonical_hash r then ReplayPending r else Conflict (pr_canonical_hash r)), g)"
    if "fc_pending g rid = Some r" and "fc_ready g"
    using that by (simp add: submit_create_def reserve_def)
  ultimately show ?thesis by blast
qed

theorem create_once_witness:
  "let r = \<lparr>pr_canonical_hash = ''h'', pr_attachment_id = ''a'', pr_command_id = ''c1''\<rparr>;
       x = submit_create 0 sample_command ''req'' r (\<lambda>_. None) (pl_facade ready_pipeline)
   in fst x = Inr (Fresh r) \<and> fc_pending (snd x) ''req'' = Some r
      \<and> submit_create 5 sample_command ''req'' (r\<lparr>pr_canonical_hash := ''other''\<rparr>) (\<lambda>_. None) (snd x) = (Inr (Conflict ''h''), snd x)"
proof -
  let ?r = "\<lparr>pr_canonical_hash = ''h'', pr_attachment_id = ''a'', pr_command_id = ''c1''\<rparr>"
  let ?x = "submit_create 0 sample_command ''req'' ?r (\<lambda>_. None) (pl_facade ready_pipeline)"
  have start: "fst ?x = Inr (Fresh ?r)" "fc_ready (snd ?x)"
    "reg_ok (fc_registry (pl_facade ready_pipeline))" "fc_ready (pl_facade ready_pipeline)"
    using reg_ok_new [of "\<lambda>_. []"]
    by (simp_all add: submit_create_def reserve_def ready_pipeline_def new_pipeline_def register_command_def new_registry_def
        evict_locked_def evict_over.simps reg_entry_def queue_put_def COMMAND_QUEUE_MAXSIZE_def Let_def)
  have "fc_pending (snd ?x) ''req'' = Some ?r"
    using create_once [OF start(3,4), of "''req''" sample_command ?r "\<lambda>_. None" 0] start(1) by simp
  moreover from this have "submit_create 5 sample_command ''req'' (?r\<lparr>pr_canonical_hash := ''other''\<rparr>) (\<lambda>_. None) (snd ?x) = (Inr (Conflict ''h''), snd ?x)"
    using create_once [OF start(3,4), of "''req''" sample_command ?r "\<lambda>_. None" 0 "snd ?x" 5 sample_command "?r\<lparr>pr_canonical_hash := ''other''\<rparr>" "\<lambda>_. None"]
      start(2) by simp
  ultimately show ?thesis using start(1) by (simp add: Let_def)
qed

end
