(* ===== verification/Json_Text.thy ===== *)
theory Json_Text
  imports Idempotency
begin

text \<open>
  The compact JSON text the sources sign and hash determines the value: \<open>json_dumps\<close> is injective, so the canonical
  form of a create request and the signed form of a Relay descriptor determine every field in them.
\<close>

section \<open>Strings\<close>

text \<open>The character an escape sequence stands for, and the rest of the text.\<close>

definition unescape :: "string \<Rightarrow> char \<times> string" where
  "unescape s =
     (case s of
        c # d # r \<Rightarrow>
          if c \<noteq> CHR 0x5C then (c, d # r)
          else if d = CHR ''b'' then (CHR 0x08, r)
          else if d = CHR ''t'' then (CHR 0x09, r)
          else if d = CHR ''n'' then (CHR 0x0A, r)
          else if d = CHR ''f'' then (CHR 0x0C, r)
          else if d = CHR ''r'' then (CHR 0x0D, r)
          else if d = CHR ''u'' then (char_of (16 * the (hex_value (r ! 2)) + the (hex_value (r ! 3))), drop 4 r)
          else (d, r)
      | [c] \<Rightarrow> (c, [])
      | [] \<Rightarrow> undefined)"

lemma char_eq_ord: "c = d \<longleftrightarrow> ord c = ord d"
  by (simp add: ord_def)

lemma ord_control: "ord (CHR 0x08) = 8" "ord (CHR 0x09) = 9" "ord (CHR 0x0A) = 10" "ord (CHR 0x0C) = 12" "ord (CHR 0x0D) = 13"
  by (simp_all add: ord_def)

lemma unescape_json_char: "unescape (json_char c @ x) = (c, x)"
proof -
  consider (ctrl) "ord c < 32" "ord c \<notin> {8, 9, 10, 12, 13}" | (other) "\<not> (ord c < 32 \<and> ord c \<notin> {8, 9, 10, 12, 13})"
    by blast
  then show ?thesis
  proof cases
    case ctrl
    then have "c \<noteq> CHR 0x22" "c \<noteq> CHR 0x5C" by (auto simp: ord_def)
    moreover have "ord c div 16 < 16" "ord c mod 16 < 16" "16 * (ord c div 16) + ord c mod 16 = ord c" using ctrl by auto
    ultimately show ?thesis
      using ctrl by (simp add: json_char_def unescape_def) (simp add: ord_def)
  next
    case other
    consider "c = CHR 0x22" | "c = CHR 0x5C" | "c \<noteq> CHR 0x22" "c \<noteq> CHR 0x5C" by blast
    then show ?thesis
    proof cases
      case 3
      show ?thesis
      proof (cases "ord c < 32")
        case True
        then have "ord c \<in> {8, 9, 10, 12, 13}" using other by blast
        then have "c = CHR 0x08 \<or> c = CHR 0x09 \<or> c = CHR 0x0A \<or> c = CHR 0x0C \<or> c = CHR 0x0D"
          unfolding char_eq_ord ord_control by blast
        then show ?thesis by (auto simp: json_char_def unescape_def ord_def)
      next
        case False
        then show ?thesis using 3 by (cases x) (auto simp: json_char_def unescape_def)
      qed
    qed (simp_all add: json_char_def unescape_def)
  qed
qed

lemma json_char_delim: "json_char c @ x = json_char d @ y \<Longrightarrow> c = d \<and> x = y"
  by (metis unescape_json_char prod.inject)

lemma json_char_not_quote: "json_char c @ x \<noteq> CHR 0x22 # y" "CHR 0x22 # y \<noteq> json_char c @ x"
  by (auto simp: json_char_def)

lemma json_string_delim: "json_string s @ x = json_string t @ y \<Longrightarrow> s = t \<and> x = y"
proof (induction s arbitrary: t)
  case Nil
  then show ?case
    using json_char_not_quote(2) by (cases t) (auto simp: json_string_def)
next
  case (Cons c s)
  show ?case
  proof (cases t)
    case Nil
    then show ?thesis
      using Cons.prems json_char_not_quote(1) [of c] by (simp add: json_string_def)
  next
    case t: (Cons d t')
    then have "json_char c @ (concat (map json_char s) @ [CHR 0x22] @ x)
        = json_char d @ (concat (map json_char t') @ [CHR 0x22] @ y)"
      using Cons.prems by (simp add: json_string_def)
    then have "c = d" "json_string s @ x = json_string t' @ y"
      using json_char_delim by (auto simp: json_string_def)
    with Cons.IH t show ?thesis by blast
  qed
qed

section \<open>Values\<close>

text \<open>What may follow a value inside a text.\<close>

definition delim :: "string \<Rightarrow> bool" where
  "delim x \<longleftrightarrow> x = [] \<or> hd x \<in> {CHR '','', CHR '']'', CHR ''}''}"

lemma delim_simps [simp]: "delim []" "delim (CHR '','' # x)" "delim (CHR '']'' # x)" "delim (CHR ''}'' # x)"
  by (simp_all add: delim_def)

definition number_char :: "char \<Rightarrow> bool" where
  "number_char c \<longleftrightarrow> c = CHR ''-'' \<or> (48 \<le> ord c \<and> ord c \<le> 57)"

lemma dec_of_int_chars: "list_all number_char (dec_of_int i)" and dec_of_int_nonempty: "dec_of_int i \<noteq> []"
  by (auto simp: dec_of_int_def number_char_def list_all_iff dest: dec_of_digits)

lemma dec_of_no_minus: "dec_of m \<noteq> CHR ''-'' # s"
  using dec_of_digits [of "CHR ''-''" m] by (auto simp: ord_def)

lemma dec_of_int_inj:
  assumes "dec_of_int i = dec_of_int j"
  shows "i = j"
proof (cases "i < 0")
  case True
  then have "j < 0" using assms dec_of_no_minus [of "nat j", symmetric] by (auto simp: dec_of_int_def split: if_splits)
  then have "nat (- i) = nat (- j)" using assms True dec_of_inj by (simp add: dec_of_int_def)
  then show ?thesis using True \<open>j < 0\<close> by simp
next
  case False
  then have "\<not> j < 0" using assms dec_of_no_minus [of "nat i"] by (auto simp: dec_of_int_def split: if_splits)
  then have "nat i = nat j" using assms False dec_of_inj by (simp add: dec_of_int_def)
  then show ?thesis using False \<open>\<not> j < 0\<close> by simp
qed

lemma takeWhile_number: "delim x \<Longrightarrow> takeWhile number_char (dec_of_int i @ x) = dec_of_int i"
proof -
  assume "delim x"
  then have "takeWhile number_char x = []" by (cases x) (auto simp: delim_def number_char_def ord_def)
  then show ?thesis using dec_of_int_chars [of i] by (simp add: takeWhile_append list_all_iff)
qed

lemma dec_of_int_delim:
  assumes "delim x" "delim y" "dec_of_int i @ x = dec_of_int j @ y"
  shows "i = j \<and> x = y"
proof -
  have "dec_of_int i = dec_of_int j"
    using assms(3) takeWhile_number [OF assms(1)] takeWhile_number [OF assms(2)] by metis
  then show ?thesis using dec_of_int_inj assms(3) by auto
qed

definition opens :: "string \<Rightarrow> bool" where
  "opens s \<longleftrightarrow> s \<noteq> [] \<and> \<not> delim s"

lemma opens_not_delim: "opens s \<Longrightarrow> \<not> delim (s @ t)"
  by (cases s) (auto simp: opens_def delim_def)

lemma comma_separated_Cons:
  "comma_separated (x # xs) @ y = x @ (if xs = [] then y else CHR '','' # comma_separated xs @ y)"
  by (cases xs) simp_all

lemma comma_separated_delim:
  assumes "\<And>v w x y. v \<in> set vs \<Longrightarrow> delim x \<Longrightarrow> delim y \<Longrightarrow> f v @ x = f w @ y \<Longrightarrow> v = w \<and> x = y"
    and opens: "\<And>w. opens (f w)"
    and c: "c = CHR '']'' \<or> c = CHR ''}''"
    and "comma_separated (map f vs) @ c # x = comma_separated (map f ws) @ c # y"
  shows "vs = ws \<and> x = y"
  using assms(1,4)
proof (induction vs arbitrary: ws)
  case Nil
  show ?case
  proof (cases ws)
    case (Cons w ws')
    have "f w @ (if ws' = [] then c # y else CHR '','' # comma_separated (map f ws') @ c # y) = c # x"
      using Nil.prems(2) by (simp add: Cons comma_separated_Cons)
    moreover have "delim (c # x)" using c by auto
    ultimately show ?thesis using opens_not_delim [OF opens [of w]] by metis
  qed (use Nil in simp)
next
  case (Cons v vs)
  let ?x = "if vs = [] then c # x else CHR '','' # comma_separated (map f vs) @ c # x"
  show ?case
  proof (cases ws)
    case Nil
    then have "f v @ ?x = c # y" using Cons.prems(2) by (simp add: comma_separated_Cons)
    moreover have "delim (c # y)" using c by auto
    ultimately show ?thesis using opens_not_delim [OF opens [of v]] by metis
  next
    case ws: (Cons w ws')
    let ?y = "if ws' = [] then c # y else CHR '','' # comma_separated (map f ws') @ c # y"
    have "f v @ ?x = f w @ ?y" using Cons.prems(2) by (simp add: ws comma_separated_Cons)
    moreover have "delim ?x" "delim ?y" using c by auto
    ultimately have "v = w" "?x = ?y" using Cons.prems(1) [of v] by auto
    moreover have "c \<noteq> CHR '',''" using c by auto
    ultimately have "comma_separated (map f vs) @ c # x = comma_separated (map f ws') @ c # y"
      by (auto split: if_splits)
    then have "vs = ws' \<and> x = y" using Cons.IH Cons.prems(1) by (meson list.set_intros(2))
    with \<open>v = w\<close> ws show ?thesis by simp
  qed
qed

text \<open>The first character tells the kind of a value.\<close>

definition head_kind :: "char \<Rightarrow> nat" where
  "head_kind c = (if c = CHR ''n'' then 0 else if number_char c then 1 else if c = CHR 0x22 then 2 else if c = CHR ''['' then 3 else 4)"

fun value_kind :: "json \<Rightarrow> nat" where
  "value_kind JNull = 0"
| "value_kind (JInt i) = 1"
| "value_kind (JStr s) = 2"
| "value_kind (JList vs) = 3"
| "value_kind (JObj kvs) = 4"

lemma not_number:
  "\<not> number_char (CHR ''n'')" "\<not> number_char (CHR 0x22)" "\<not> number_char (CHR ''['')" "\<not> number_char (CHR ''{'')"
  "\<not> number_char (CHR '','')" "\<not> number_char (CHR '']'')" "\<not> number_char (CHR ''}'')"
  by (simp_all add: number_char_def ord_def)

lemma number_head: "\<exists>c s. dec_of_int i = c # s \<and> number_char c"
  using dec_of_int_chars [of i] dec_of_int_nonempty [of i] by (cases "dec_of_int i") simp_all

lemma dumps_head: "\<exists>c s. json_dumps v = c # s \<and> head_kind c = value_kind v \<and> c \<notin> {CHR '','', CHR '']'', CHR ''}''}"
proof (cases v)
  case (JInt i)
  obtain c s where c: "dec_of_int i = c # s" "number_char c" using number_head by blast
  then have "c \<noteq> CHR ''n''" "c \<noteq> CHR '',''" "c \<noteq> CHR '']''" "c \<noteq> CHR ''}''" using not_number by metis+
  with c JInt show ?thesis by (simp add: head_kind_def)
qed (simp_all add: head_kind_def json_string_def not_number)

lemma opens_dumps: "opens (json_dumps v)"
  using dumps_head [of v] by (auto simp: opens_def delim_def)

lemma dumps_same_kind:
  assumes "json_dumps v @ x = json_dumps w @ y"
  shows "value_kind v = value_kind w"
proof -
  obtain c s d t where "json_dumps v = c # s" "head_kind c = value_kind v" "json_dumps w = d # t" "head_kind d = value_kind w"
    using dumps_head by blast
  with assms show ?thesis by simp
qed

text \<open>One member of an object.\<close>

definition member_text :: "string \<times> json \<Rightarrow> string" where
  "member_text kv = json_string (fst kv) @ '':'' @ json_dumps (snd kv)"

lemma dumps_obj: "json_dumps (JObj kvs) = ''{'' @ comma_separated (map member_text kvs) @ ''}''"
  by (simp add: member_text_def [abs_def] case_prod_beta' comp_def)

lemma opens_member: "opens (member_text kv)"
  by (simp add: member_text_def opens_def delim_def json_string_def)

lemma json_dumps_delim:
  "delim x \<Longrightarrow> delim y \<Longrightarrow> json_dumps v @ x = json_dumps w @ y \<Longrightarrow> v = w \<and> x = y"
proof (induction v arbitrary: w x y)
  case JNull
  then show ?case using dumps_same_kind [OF JNull(3)] by (cases w) simp_all
next
  case (JInt i)
  then show ?case using dumps_same_kind [OF JInt(3)] dec_of_int_delim [of x y i] by (cases w) simp_all
next
  case (JStr s)
  then show ?case using dumps_same_kind [OF JStr(3)] json_string_delim [of s x _ y] by (cases w) simp_all
next
  case (JList vs)
  obtain ws where w: "w = JList ws" using dumps_same_kind [OF JList.prems(3)] by (cases w) simp_all
  have "comma_separated (map json_dumps vs) @ CHR '']'' # x = comma_separated (map json_dumps ws) @ CHR '']'' # y"
    using JList.prems(3) by (simp add: w)
  then have "vs = ws \<and> x = y"
    using comma_separated_delim [of vs json_dumps] JList.IH opens_dumps by blast
  with w show ?case by simp
next
  case (JObj kvs)
  obtain kws where w: "w = JObj kws" using dumps_same_kind [OF JObj.prems(3)] by (cases w) simp_all
  have mem: "p = q \<and> x' = y'"
    if "p \<in> set kvs" "delim x'" "delim y'" "member_text p @ x' = member_text q @ y'" for p q x' y'
  proof -
    have "fst p = fst q" "json_dumps (snd p) @ x' = json_dumps (snd q) @ y'"
      using json_string_delim [of "fst p" "'':'' @ json_dumps (snd p) @ x'" "fst q"] that(4)
      by (simp_all add: member_text_def)
    moreover have "snd p \<in> Basic_BNFs.snds p" by (cases p) simp
    ultimately show ?thesis using JObj.IH [OF that(1)] that(2,3) by (metis prod.expand)
  qed
  have "comma_separated (map member_text kvs) @ CHR ''}'' # x = comma_separated (map member_text kws) @ CHR ''}'' # y"
    using JObj.prems(3) unfolding w dumps_obj by simp
  then have "kvs = kws \<and> x = y"
    using comma_separated_delim [of kvs member_text "CHR ''}''"] mem opens_member by blast
  with w show ?case by simp
qed

lemma json_dumps_inj: "json_dumps v = json_dumps w \<Longrightarrow> v = w"
  using json_dumps_delim [of "[]" "[]"] by simp

section \<open>UTF-8\<close>

lemma unat_of_nat_small: "n < 256 \<Longrightarrow> unat (of_nat n :: byte) = n"
  by (simp add: unat_of_nat take_bit_eq_mod)

lemma ord_less: "ord c < 256"
  by (simp add: ord_def)

lemma utf8_char_delim: "utf8_char c @ x = utf8_char d @ y \<Longrightarrow> c = d \<and> x = y"
proof -
  assume eq: "utf8_char c @ x = utf8_char d @ y"
  have b: "192 + ord e div 64 < 256" "128 + ord e mod 64 < 256" for e
    using ord_less [of e] by (simp_all add: less_mult_imp_div_less)
  have hd: "unat (hd (utf8_char e @ z)) = (if ord e < 128 then ord e else 192 + ord e div 64)" for e z
    using b [of e] ord_less [of e] unat_of_nat_small [of "ord e"] unat_of_nat_small [of "192 + ord e div 64"]
    by (simp add: utf8_char_def)
  have same: "(ord c < 128) = (ord d < 128)"
    using hd [of c x] hd [of d y] eq by (auto split: if_splits)
  show ?thesis
  proof (cases "ord c < 128")
    case True
    then have "(of_nat (ord c) :: byte) = of_nat (ord d)" "x = y" using eq same by (simp_all add: utf8_char_def)
    then have "ord c = ord d"
      using unat_of_nat_small [OF ord_less [of c]] unat_of_nat_small [OF ord_less [of d]] by metis
    with \<open>x = y\<close> show ?thesis by (simp add: char_eq_ord)
  next
    case False
    then have "(of_nat (192 + ord c div 64) :: byte) = of_nat (192 + ord d div 64)"
        "(of_nat (128 + ord c mod 64) :: byte) = of_nat (128 + ord d mod 64)" and xy: "x = y"
      using eq same by (simp_all add: utf8_char_def)
    then have "192 + ord c div 64 = 192 + ord d div 64" "128 + ord c mod 64 = 128 + ord d mod 64"
      using unat_of_nat_small b by metis+
    then have "ord c = ord d" by (metis add_left_cancel div_mult_mod_eq)
    with xy show ?thesis by (simp add: char_eq_ord)
  qed
qed

lemma utf8_encode_inj: "utf8_encode s = utf8_encode t \<Longrightarrow> s = t"
proof (induction s arbitrary: t)
  case Nil
  then show ?case by (cases t) (auto simp: utf8_encode_def utf8_char_def split: if_splits)
next
  case (Cons c s)
  then obtain d t' where t: "t = d # t'" by (cases t) (auto simp: utf8_encode_def utf8_char_def split: if_splits)
  with Cons utf8_char_delim [of c "utf8_encode s" d "utf8_encode t'"] show ?case by (simp add: utf8_encode_def)
qed


section \<open>Canonical forms\<close>

lemma canonical_json_inj: "utf8_encode (json_dumps v) = utf8_encode (json_dumps w) \<Longrightarrow> v = w"
  using utf8_encode_inj json_dumps_inj by blast

lemma normalize_obj_members:
  assumes "normalize_json (JObj kvs) = normalize_json (JObj kws)"
  shows "(\<lambda>(k, v). (k, normalize_json v)) ` set kvs = (\<lambda>(k, v). (k, normalize_json v)) ` set kws"
proof -
  have "sort_key fst (map (\<lambda>(k, v). (k, normalize_json v)) kvs) = sort_key fst (map (\<lambda>(k, v). (k, normalize_json v)) kws)"
    using assms by simp
  then have "set (map (\<lambda>(k, v). (k, normalize_json v)) kvs) = set (map (\<lambda>(k, v). (k, normalize_json v)) kws)"
    by (metis set_sort)
  then show ?thesis by simp
qed

lemma normalize_obj_lookup:
  assumes "normalize_json (JObj kvs) = normalize_json (JObj kws)" and "(k, v) \<in> set kvs"
    and "distinct (map fst kws)" and "map_of kws k = Some w"
  shows "normalize_json v = normalize_json w"
proof -
  obtain w' where "(k, w') \<in> set kws" "normalize_json v = normalize_json w'"
    using normalize_obj_members [OF assms(1)] assms(2) by force
  moreover have "w' = w" using calculation(1) assms(3,4) by (simp add: map_of_eq_Some_iff)
  ultimately show ?thesis by simp
qed

lemma request_payload_inj:
  assumes "normalize_json (request_payload r) = normalize_json (request_payload q)"
  shows "r = (q :: create_request)"
proof -
  note look = normalize_obj_lookup [OF assms [unfolded request_payload_def]]
  have "rq_adapter_id r = rq_adapter_id q" using look [of "''adapter_id''" "JStr (rq_adapter_id r)"] by simp
  moreover have "rq_connector_profile_id r = rq_connector_profile_id q"
    using look [of "''connector_profile_id''" "JStr (rq_connector_profile_id r)"] by simp
  moreover have "rq_route_type r = rq_route_type q" using look [of "''route_type''" "JStr (rq_route_type r)"] by simp
  moreover have "rq_route_id r = rq_route_id q" using look [of "''route_id''" "JStr (rq_route_id r)"] by simp
  moreover have "rq_provider_id r = rq_provider_id q" using look [of "''provider_id''" "JStr (rq_provider_id r)"] by simp
  moreover have "rq_source_name r = rq_source_name q" using look [of "''source_name''" "JStr (rq_source_name r)"] by simp
  moreover have "rq_mime_type r = rq_mime_type q" using look [of "''mime_type''" "JStr (rq_mime_type r)"] by simp
  moreover have "rq_hard_ttl_seconds r = rq_hard_ttl_seconds q"
    using look [of "''hard_ttl_seconds''" "JInt (rq_hard_ttl_seconds r)"] by simp
  moreover have "rq_download_grace_seconds r = rq_download_grace_seconds q"
    using look [of "''download_grace_seconds''" "JInt (rq_download_grace_seconds r)"] by simp
  moreover have "rq_comment r = rq_comment q"
    using look [of "''comment''" "case rq_comment r of None \<Rightarrow> JNull | Some c \<Rightarrow> JStr c"]
    by (simp split: option.splits)
  moreover have "rq_source_address r = rq_source_address q"
    using look [of "''recipient''" "JObj [(''source_address'', JStr (rq_source_address r))]"] by simp
  ultimately show ?thesis by simp
qed

definition ascii_of :: "string \<Rightarrow> bytes" where
  "ascii_of s = map (\<lambda>c. of_nat (ord c)) s"

lemma ascii_of_inj: "map (\<lambda>c. of_nat (ord c) :: byte) s = map (\<lambda>c. of_nat (ord c)) t \<Longrightarrow> s = t"
proof (rule map_injective)
  show "inj (\<lambda>c. of_nat (ord c) :: byte)"
  proof (rule injI)
    fix c d assume "(of_nat (ord c) :: byte) = of_nat (ord d)"
    then have "ord c = ord d"
      using unat_of_nat_small [OF ord_less [of c]] unat_of_nat_small [OF ord_less [of d]] by metis
    then show "c = d" by (simp add: char_eq_ord)
  qed
qed

definition no_collision :: "ext \<Rightarrow> bytes \<Rightarrow> bytes \<Rightarrow> bool" where
  "no_collision X m n \<longleftrightarrow> (sha256 X m = sha256 X n \<longrightarrow> m = n)"

definition hash_input :: "string \<Rightarrow> create_request \<Rightarrow> bytes" where
  "hash_input f r = HASH_VERSION_PREFIX @ ascii_of f @ build_canonical_json r"

text \<open>The idempotency hash covers the whole request: if SHA-256 does not collide on the two inputs, requests with the
  same hash are for the same staged file and agree in every field.\<close>

theorem create_hash_binds:
  assumes "compute_canonical_hash X f (build_canonical_json r) = compute_canonical_hash X g (build_canonical_json q)"
    and "length f = length g" and "no_collision X (hash_input f r) (hash_input g q)"
  shows "f = g \<and> r = q"
proof -
  have "hash_input f r = hash_input g q"
    using assms(1,3) by (simp add: compute_canonical_hash_def hash_input_def ascii_of_def no_collision_def)
  then have "ascii_of f = ascii_of g" "build_canonical_json r = build_canonical_json q"
    using assms(2) by (simp_all add: hash_input_def ascii_of_def)
  then show ?thesis
    using ascii_of_inj request_payload_inj canonical_json_inj
    by (auto simp: ascii_of_def build_canonical_json_def)
qed

definition sample_create :: create_request where
  "sample_create = \<lparr>rq_source_address = ''!a1'', rq_adapter_id = ''meshtastic'', rq_connector_profile_id = ''meshtastic'',
     rq_route_type = ''DIRECT'', rq_route_id = ''!a1'', rq_provider_id = ''p'', rq_comment = None,
     rq_hard_ttl_seconds = 3600, rq_download_grace_seconds = 60, rq_source_name = ''a.txt'', rq_mime_type = ''text/plain''\<rparr>"

definition other_create :: create_request where
  "other_create = sample_create\<lparr>rq_comment := Some ''x''\<rparr>"

theorem create_hash_binds_witness:
  "compute_canonical_hash (ref_ext\<lparr>sha256 := \<lambda>m. m\<rparr>) ''00'' (build_canonical_json sample_create)
   \<noteq> compute_canonical_hash (ref_ext\<lparr>sha256 := \<lambda>m. m\<rparr>) ''00'' (build_canonical_json other_create)"
proof
  assume "compute_canonical_hash (ref_ext\<lparr>sha256 := \<lambda>m. m\<rparr>) ''00'' (build_canonical_json sample_create)
    = compute_canonical_hash (ref_ext\<lparr>sha256 := \<lambda>m. m\<rparr>) ''00'' (build_canonical_json other_create)"
  then have "sample_create = other_create"
    using create_hash_binds by (simp add: no_collision_def)
  then show False by (simp add: other_create_def sample_create_def)
qed

text \<open>The fields of a descriptor that the Relay signs: all but the manifest itself, which is covered by its digest.\<close>

definition signed_part :: "object_descriptor \<Rightarrow> object_descriptor" where
  "signed_part d = d\<lparr>d_encrypted_manifest := [], d_service_signature := []\<rparr>"

definition chunk_json :: "descriptor_chunk \<Rightarrow> json" where
  "chunk_json c = JObj [(''index'', JInt (dc_index c)), (''size'', JInt (dc_size c)), (''sha256'', JStr (hex_of (dc_sha256 c)))]"

lemma chunk_json_inj: "normalize_json (chunk_json c) = normalize_json (chunk_json e) \<Longrightarrow> c = (e :: descriptor_chunk)"
proof -
  assume eq: "normalize_json (chunk_json c) = normalize_json (chunk_json e)"
  note look = normalize_obj_lookup [OF eq [unfolded chunk_json_def]]
  have "dc_index c = dc_index e" using look [of "''index''" "JInt (dc_index c)"] by simp
  moreover have "dc_size c = dc_size e" using look [of "''size''" "JInt (dc_size c)"] by simp
  moreover have "dc_sha256 c = dc_sha256 e" using look [of "''sha256''" "JStr (hex_of (dc_sha256 c))"] by simp
  ultimately show ?thesis by simp
qed

lemma json_time_inj: "normalize_json (json_time s) = normalize_json (json_time t) \<Longrightarrow> s = t"
  by (cases s; cases t) simp_all

lemma descriptor_message_signed_part: "descriptor_message (signed_part d) = descriptor_message d"
  by (simp add: descriptor_message_def signed_descriptor_def signed_part_def)

text \<open>The Relay's signature covers every field of a descriptor except the manifest bytes: two descriptors have the
  same signed message exactly if they agree in provider, transfer, sizes, digests, the chunk list and all times.\<close>

theorem descriptor_signature_binds:
  "descriptor_message d = descriptor_message e \<longleftrightarrow> signed_part d = signed_part e"
proof
  assume "signed_part d = signed_part e"
  then show "descriptor_message d = descriptor_message e" by (metis descriptor_message_signed_part)
next
  assume assms: "descriptor_message d = descriptor_message e"
  have eq: "normalize_json (signed_descriptor d) = normalize_json (signed_descriptor e)"
    using assms canonical_json_inj by (auto simp: descriptor_message_def canonical_json_def)
  note look = normalize_obj_lookup [OF eq [unfolded signed_descriptor_def chunk_json_def [symmetric]]]
  have "d_provider_id d = d_provider_id e" using look [of "''provider_id''" "JStr (d_provider_id d)"] by simp
  moreover have "d_transfer_id d = d_transfer_id e"
    using look [of "''transfer_id''" "JStr (b64url_nopad (d_transfer_id d))"] by simp
  moreover have "d_total_size d = d_total_size e" using look [of "''total_size''" "JInt (d_total_size d)"] by simp
  moreover have "d_ciphertext_sha256 d = d_ciphertext_sha256 e"
    using look [of "''ciphertext_sha256''" "JStr (hex_of (d_ciphertext_sha256 d))"] by simp
  moreover have "d_manifest_size d = d_manifest_size e" using look [of "''manifest_size''" "JInt (d_manifest_size d)"] by simp
  moreover have "d_manifest_sha256 d = d_manifest_sha256 e"
    using look [of "''manifest_sha256''" "JStr (hex_of (d_manifest_sha256 d))"] by simp
  moreover have "d_chunks d = d_chunks e"
  proof -
    have "map (normalize_json \<circ> chunk_json) (d_chunks d) = map (normalize_json \<circ> chunk_json) (d_chunks e)"
      using look [of "''chunks''" "JList (map chunk_json (d_chunks d))"] by simp
    then show ?thesis using chunk_json_inj by (auto dest!: map_inj_on intro!: inj_onI)
  qed
  moreover have "d_committed_at d = d_committed_at e"
    using look [of "''committed_at''" "json_time (d_committed_at d)"] json_time_inj by simp
  moreover have "d_hard_expires_at d = d_hard_expires_at e"
    using look [of "''hard_expires_at''" "json_time (d_hard_expires_at d)"] json_time_inj by simp
  moreover have "d_delete_after d = d_delete_after e"
    using look [of "''delete_after''" "json_time (d_delete_after d)"] json_time_inj by simp
  ultimately show "signed_part d = signed_part e" by (simp add: signed_part_def)
qed

end
