(* ===== verification/Service_Inbound.thy ===== *)
theory Service_Inbound
  imports Receiver Sender Delivery
begin

text \<open>
  What the worker does with a text message from the radio, \<open>src/meshsrv/attachments/service.py\<close>: the bounded queue the radio
  listener fills (\<open>enqueue_inbound\<close>), its drain with the frames a locked vault puts off, and \<open>_process_one_inbound_event\<close>
  with its three branches for acknowledgements, cancellations and offers, and the key exchange. The worker reads the
  clock several times per event; only the reading inside the handler is kept in a table, and it is the argument \<open>now\<close>.
\<close>

section \<open>Events, state, configuration\<close>

record inbound_event =
  ib_text :: string
  ib_source_address :: string
  ib_packet_id :: "string option"
  ib_received_at :: timestamp
  ib_channel_index :: "int option"

text \<open>The tables behind the worker's connection, and the key replies handed to the radio (address and message).\<close>

record service_state =
  sv_world :: recv_world
  sv_keys :: ke_state
  sv_acks_deferred :: bool
  sv_replied :: "(string \<times> bytes) list"

text \<open>\<open>sf_recv\<close> holds identity, providers and settings; its bindings and its network flag are filled in per call.\<close>

record service_cfg =
  sf_recv :: recv_ctx
  sf_adapter :: "text_adapter option"
  sf_can_attempt_relay :: "string \<Rightarrow> bool"
  sf_control_channel_index :: "int option"

abbreviation sf_X :: "service_cfg \<Rightarrow> ext" where "sf_X S \<equiv> env_X (rx_env (sf_recv S))"
abbreviation sf_workspace :: "service_cfg \<Rightarrow> string" where "sf_workspace S \<equiv> rx_workspace (sf_recv S)"
abbreviation sv_db :: "service_state \<Rightarrow> mca_db" where "sv_db st \<equiv> w_db (sv_world st)"

definition with_db :: "mca_db \<Rightarrow> service_state \<Rightarrow> service_state" where
  "with_db db st = st\<lparr>sv_world := (sv_world st)\<lparr>w_db := db\<rparr>\<rparr>"

section \<open>Outcomes\<close>

datatype drop_reason =
    NotWellFormed | TombstonedTransfer | UnknownTransfer | Cardinality | SourceRouteMismatch
  | PinnedKeyMissing | PinnedKeyMismatch | SenderKeyMissing | SenderKeyMismatch | SignatureInvalid

fun drop_token :: "drop_reason \<Rightarrow> string" where
  "drop_token NotWellFormed = ''not_well_formed''"
| "drop_token TombstonedTransfer = ''tombstoned_transfer''"
| "drop_token UnknownTransfer = ''unknown_transfer''"
| "drop_token Cardinality = ''cardinality''"
| "drop_token SourceRouteMismatch = ''source_route_mismatch''"
| "drop_token PinnedKeyMissing = ''pinned_key_missing''"
| "drop_token PinnedKeyMismatch = ''pinned_key_mismatch''"
| "drop_token SenderKeyMissing = ''sender_key_missing''"
| "drop_token SenderKeyMismatch = ''sender_key_mismatch''"
| "drop_token SignatureInvalid = ''signature_invalid''"

text \<open>How one event ends: a plain return with what it did, or an exception that reaches the drain.\<close>

datatype inbound_end =
    Ignored
  | RejectedSource
  | MalformedMessage
  | DroppedAck drop_reason
  | AppliedTo string att_state
  | OfferRejected
  | OfferHandled receive_result
  | KeyRateLimited
  | KeyHandled "bytes option"
  | EscapedException

definition INBOUND_ACK_TYPES :: "message_type list" where
  "INBOUND_ACK_TYPES = [ACK_RECEIVED, ACK_DOWNLOADED, ACK_PROVIDER_UNKNOWN, REJECTED, EXPIRED]"

section \<open>Acknowledgements of a sent attachment\<close>

definition is_tombstoned :: "mca_db \<Rightarrow> string \<Rightarrow> bool" where
  "is_tombstoned db transfer_id \<longleftrightarrow> list_ex (\<lambda>t. tb_transfer_id t = transfer_id) (db_tombstones db)"

definition find_transfer :: "mca_db \<Rightarrow> string \<Rightarrow> string \<Rightarrow> direction \<Rightarrow> attachment option" where
  "find_transfer db workspace_id transfer_id_hex d =
     find_by (\<lambda>a. (a_workspace_id a, a_transfer_id a, a_direction a)) (workspace_id, transfer_id_hex, d) (db_attachments db)"

definition missing_transfer :: "mca_db \<Rightarrow> string \<Rightarrow> drop_reason" where
  "missing_transfer db transfer_id_hex = (if is_tombstoned db transfer_id_hex then TombstonedTransfer else UnknownTransfer)"

text \<open>The key pinned on a transfer: 32 bytes whose key id is the principal recorded with it.\<close>

definition check_pinned_key ::
  "ext \<Rightarrow> bytes option \<Rightarrow> string option \<Rightarrow> drop_reason \<Rightarrow> drop_reason \<Rightarrow> drop_reason + bytes" where
  "check_pinned_key X pinned principal_id missing mismatch =
     (case pinned of
        None \<Rightarrow> Inl missing
      | Some key \<Rightarrow>
          if length key \<noteq> 32 then Inl missing
          else if map_option Inr principal_id \<noteq> Some (compute_key_id X key) then Inl mismatch
          else Inr key)"

definition delivery_route_matches :: "delivery_row \<Rightarrow> inbound_envelope \<Rightarrow> bool" where
  "delivery_route_matches d env \<longleftrightarrow>
     dl_route_type d = ''DIRECT'' \<and> dl_adapter_id d = ie_adapter_id env
     \<and> dl_connector_profile_id d = ie_connector_profile_id env \<and> dl_route_id d = ie_route_id env"

text \<open>Everything before the state machine is called: the attachment the message may act on, or why it is dropped.\<close>

definition verify_inbound_ack :: "service_cfg \<Rightarrow> mca_db \<Rightarrow> inbound_envelope \<Rightarrow> message_type \<Rightarrow> drop_reason + string" where
  "verify_inbound_ack S db env message_type =
     (let raw = ie_logical_message env in
      case decode_simple_ack (sf_X S) raw message_type None of
        Inl _ \<Rightarrow> Inl NotWellFormed
      | Inr unverified \<Rightarrow>
          (let transfer_id_hex = hex_of (sa_transfer_id unverified) in
           case find_transfer db (sf_workspace S) transfer_id_hex Sent of
             None \<Rightarrow> Inl (missing_transfer db transfer_id_hex)
           | Some att \<Rightarrow>
               (case (filter (\<lambda>r. rc_attachment_id r = a_id att) (db_recipients db),
                      filter (\<lambda>d. dl_attachment_id d = a_id att) (db_deliveries db)) of
                  ([recipient], [delivery]) \<Rightarrow>
                    if \<not> delivery_route_matches delivery env then Inl SourceRouteMismatch
                    else bind_res (check_pinned_key (sf_X S) (rc_recipient_public_identity recipient)
                           (rc_recipient_principal_id recipient) PinnedKeyMissing PinnedKeyMismatch) (\<lambda>key.
                         case decode_simple_ack (sf_X S) raw message_type (Some key) of
                           Inl _ \<Rightarrow> Inl SignatureInvalid
                         | Inr _ \<Rightarrow> Inr (a_id att))
                | _ \<Rightarrow> Inl Cardinality)))"

definition apply_inbound_ack :: "mca_db \<Rightarrow> string \<Rightarrow> message_type \<Rightarrow> timestamp \<Rightarrow> send_error + mca_db \<times> att_state" where
  "apply_inbound_ack db attachment_id message_type now =
     (if message_type = REJECTED then apply_rejected db attachment_id now
      else if message_type = EXPIRED then apply_expired db attachment_id now
      else apply_ack db attachment_id message_type now)"

definition process_inbound_ack ::
  "service_cfg \<Rightarrow> service_state \<Rightarrow> inbound_envelope \<Rightarrow> message_type \<Rightarrow> timestamp \<Rightarrow> service_state \<times> inbound_end" where
  "process_inbound_ack S st env message_type now =
     (case verify_inbound_ack S (sv_db st) env message_type of
        Inl reason \<Rightarrow> (st, DroppedAck reason)
      | Inr attachment_id \<Rightarrow>
          (case apply_inbound_ack (sv_db st) attachment_id message_type now of
             Inl _ \<Rightarrow> (st, EscapedException)
           | Inr (db, state) \<Rightarrow> (with_db db st, AppliedTo attachment_id state)))"

section \<open>Cancellation of a received attachment\<close>

definition reply_route_matches :: "attachment \<Rightarrow> inbound_envelope \<Rightarrow> bool" where
  "reply_route_matches a env \<longleftrightarrow>
     a_reply_route_type a = Some ''DIRECT'' \<and> a_reply_adapter_id a = Some (ie_adapter_id env)
     \<and> a_reply_connector_profile_id a = Some (ie_connector_profile_id env) \<and> a_reply_route_id a = Some (ie_route_id env)"

definition verify_inbound_cancel :: "service_cfg \<Rightarrow> mca_db \<Rightarrow> inbound_envelope \<Rightarrow> drop_reason + string" where
  "verify_inbound_cancel S db env =
     (let raw = ie_logical_message env in
      case decode_simple_ack (sf_X S) raw CANCEL None of
        Inl _ \<Rightarrow> Inl NotWellFormed
      | Inr unverified \<Rightarrow>
          (let transfer_id_hex = hex_of (sa_transfer_id unverified) in
           case find_transfer db (sf_workspace S) transfer_id_hex Received of
             None \<Rightarrow> Inl (missing_transfer db transfer_id_hex)
           | Some att \<Rightarrow>
               if \<not> reply_route_matches att env then Inl SourceRouteMismatch
               else bind_res (check_pinned_key (sf_X S) (a_sender_public_identity att) (a_sender_principal_id att)
                      SenderKeyMissing SenderKeyMismatch) (\<lambda>key.
                    case decode_simple_ack (sf_X S) raw CANCEL (Some key) of
                      Inl _ \<Rightarrow> Inl SignatureInvalid
                    | Inr _ \<Rightarrow> Inr (a_id att))))"

definition process_inbound_cancel ::
  "service_cfg \<Rightarrow> service_state \<Rightarrow> inbound_envelope \<Rightarrow> timestamp \<Rightarrow> service_state \<times> inbound_end" where
  "process_inbound_cancel S st env now =
     (case verify_inbound_cancel S (sv_db st) env of
        Inl reason \<Rightarrow> (st, DroppedAck reason)
      | Inr attachment_id \<Rightarrow>
          (case apply_cancelled (sv_db st) attachment_id now of
             Inl _ \<Rightarrow> (st, EscapedException)
           | Inr (db, state) \<Rightarrow> (with_db db st, AppliedTo attachment_id state)))"

section \<open>Offers\<close>

definition recv_for :: "service_cfg \<Rightarrow> service_state \<Rightarrow> string \<Rightarrow> recv_ctx" where
  "recv_for S st provider_id_text =
     (sf_recv S)\<lparr>rx_keys := sv_keys st, rx_network := sf_can_attempt_relay S provider_id_text\<rparr>"

fun route_type_value :: "route_type \<Rightarrow> string" where
  "route_type_value DIRECT = ''DIRECT''"
| "route_type_value CHANNEL = ''CHANNEL''"
| "route_type_value CHAT = ''CHAT''"
| "route_type_value MANUAL = ''MANUAL''"

definition envelope_reply_route :: "inbound_envelope \<Rightarrow> reply_route" where
  "envelope_reply_route env =
     \<lparr>rr_adapter_id = ie_adapter_id env, rr_connector_profile_id = ie_connector_profile_id env,
      rr_route_type = route_type_value (ie_route_type env), rr_route_id = ie_route_id env, rr_destination_address = ie_route_id env\<rparr>"

definition process_inbound_offer ::
  "service_cfg \<Rightarrow> service_state \<Rightarrow> inbound_envelope \<Rightarrow> string \<Rightarrow> bool \<Rightarrow> timestamp \<Rightarrow> service_state \<times> inbound_end" where
  "process_inbound_offer S st env source_address defer_replies now =
     (case decode_offer (sf_X S) (ie_logical_message env) None of
        Inl _ \<Rightarrow> (st, OfferRejected)
      | Inr unverified \<Rightarrow>
          (case encode_provider_id (o_provider_id unverified) of
             Inl _ \<Rightarrow> (st, EscapedException)
           | Inr provider_id_text \<Rightarrow>
               (case handle_offer (recv_for S st provider_id_text) (sv_world st) (ie_logical_message env) now
                       (Some source_address) (Some (envelope_reply_route env)) defer_replies of
                  (W, Inl (Raised ReceiverError)) \<Rightarrow> (st\<lparr>sv_world := W\<rparr>, OfferRejected)
                | (W, Inl _) \<Rightarrow> (st\<lparr>sv_world := W\<rparr>, EscapedException)
                | (W, Inr r) \<Rightarrow>
                    (st\<lparr>sv_world := W, sv_acks_deferred := (sv_acks_deferred st \<or> defer_replies)\<rparr>, OfferHandled r))))"

section \<open>Key exchange\<close>

text \<open>Best effort: whatever \<open>encode\<close> or \<open>send\<close> raises is logged.\<close>

definition send_reply_now :: "service_cfg \<Rightarrow> bytes \<Rightarrow> string \<Rightarrow> string \<Rightarrow> timestamp \<Rightarrow> service_state \<Rightarrow> service_state" where
  "send_reply_now S reply_logical source_address idempotency_key now st =
     (case sf_adapter S of
        None \<Rightarrow> st
      | Some A \<Rightarrow>
          (let route = \<lparr>rt_route_type = DIRECT, rt_route_id = source_address, rt_destination_address = Some source_address\<rparr> in
           case adapter_encode A reply_logical route of
             Inl _ \<Rightarrow> st
           | Inr wire_payload \<Rightarrow>
               (case adapter_send A wire_payload route idempotency_key now of
                  Inl _ \<Rightarrow> st
                | Inr _ \<Rightarrow> st\<lparr>sv_replied := sv_replied st @ [(source_address, reply_logical)]\<rparr>)))"

definition key_envelope :: "inbound_envelope \<Rightarrow> delivery_envelope" where
  "key_envelope env =
     \<lparr>e_logical_message = ie_logical_message env, e_route_type = ie_route_type env, e_source_address = ie_source_address env\<rparr>"

definition reply_key :: "inbound_event \<Rightarrow> string" where
  "reply_key ev = ''mca-reply-'' @ (case ib_packet_id ev of None \<Rightarrow> ib_source_address ev
     | Some p \<Rightarrow> if p = [] then ib_source_address ev else p)"

definition process_key_message ::
  "service_cfg \<Rightarrow> service_state \<Rightarrow> inbound_event \<Rightarrow> inbound_envelope \<Rightarrow> timestamp \<Rightarrow> service_state \<times> inbound_end" where
  "process_key_message S st ev env now =
     (case handle_incoming (sf_X S) (rx_config (sf_recv S)) (sv_keys st) (key_envelope env) now of
        (keys, answer) \<Rightarrow>
          (let st1 = st\<lparr>sv_keys := keys\<rparr> in
           case answer of
             Inl RateLimited \<Rightarrow> (st1, KeyRateLimited)
           | Inl _ \<Rightarrow> (st1, EscapedException)
           | Inr None \<Rightarrow> (st1, KeyHandled None)
           | Inr (Some reply) \<Rightarrow>
               (send_reply_now S reply (ib_source_address ev) (reply_key ev) now st1, KeyHandled (Some reply))))"

section \<open>One event\<close>

datatype match_status = Unconfigured | UnknownChannel | Match | Mismatch

definition inbound_channel_status :: "int option \<Rightarrow> int option \<Rightarrow> match_status" where
  "inbound_channel_status configured received =
     (if configured = None then Unconfigured
      else if received = None then UnknownChannel
      else if configured = received then Match else Mismatch)"

definition transport_event_of :: "inbound_event \<Rightarrow> transport_event" where
  "transport_event_of ev =
     \<lparr>te_text = Some (ib_text ev), te_source_address = Some (ib_source_address ev), te_packet_id = ib_packet_id ev,
      te_received_at = None, te_channel_index = ib_channel_index ev, te_connector_profile_id = None\<rparr>"

definition canonical_source :: "inbound_event \<Rightarrow> inbound_envelope \<Rightarrow> bool" where
  "canonical_source ev env \<longleftrightarrow>
     is_contact_id (ib_source_address ev)
     \<and> (case ie_source_address env of None \<Rightarrow> False | Some s \<Rightarrow> is_contact_id s \<and> ib_source_address ev = s \<and> s = ie_route_id env)
     \<and> is_contact_id (ie_route_id env)"

definition process_one_inbound_event ::
  "service_cfg \<Rightarrow> bool \<Rightarrow> timestamp \<Rightarrow> inbound_event \<Rightarrow> service_state \<Rightarrow> service_state \<times> inbound_end" where
  "process_one_inbound_event S defer_replies now ev st =
     (if sf_adapter S = None then (st, Ignored)
      else case ingest (Some (transport_event_of ev)) now of
        Inl _ \<Rightarrow> (st, EscapedException)
      | Inr None \<Rightarrow> (st, Ignored)
      | Inr (Some env) \<Rightarrow>
          if \<not> canonical_source ev env then (st, RejectedSource)
          else case peek_message_type (sf_X S) (ie_logical_message env) of
            Inl _ \<Rightarrow> (st, MalformedMessage)
          | Inr message_type \<Rightarrow>
              if message_type \<in> set INBOUND_ACK_TYPES then process_inbound_ack S st env message_type now
              else if message_type = CANCEL then process_inbound_cancel S st env now
              else if message_type = OFFER then process_inbound_offer S st env (ib_source_address ev) defer_replies now
              else process_key_message S st ev env now)"

section \<open>The queue of events\<close>

text \<open>Events wait in a bounded queue; while the vault is locked, the frames whose answer needs the seed wait in a bounded
  deque that drops its oldest element. \<open>ibf_dropped\<close> counts what the deque dropped since the last report.\<close>

definition INBOUND_QUEUE_MAXSIZE :: nat where "INBOUND_QUEUE_MAXSIZE = 256"
definition MAX_INBOUND_EVENTS_PER_TICK :: nat where "MAX_INBOUND_EVENTS_PER_TICK = 16"
definition VAULT_DEFERRED_INBOUND_MAX :: nat where "VAULT_DEFERRED_INBOUND_MAX = 256"

record inbound_buffers =
  ibf_queue :: "inbound_event list"
  ibf_deferred :: "inbound_event list"
  ibf_dropped :: nat

definition enqueue_inbound :: "inbound_event \<Rightarrow> inbound_buffers \<Rightarrow> inbound_buffers \<times> bool" where
  "enqueue_inbound ev b =
     (if length (ibf_queue b) < INBOUND_QUEUE_MAXSIZE then (b\<lparr>ibf_queue := ibf_queue b @ [ev]\<rparr>, True) else (b, False))"

definition inbound_is_offer :: "ext \<Rightarrow> inbound_event \<Rightarrow> bool" where
  "inbound_is_offer X ev =
     (case bind_res (from_text (ib_text ev)) (peek_message_type X) of Inl _ \<Rightarrow> True | Inr t \<Rightarrow> t = OFFER)"

definition defer_inbound :: "inbound_event \<Rightarrow> inbound_buffers \<Rightarrow> inbound_buffers" where
  "defer_inbound ev b =
     (if length (ibf_deferred b) = VAULT_DEFERRED_INBOUND_MAX
      then b\<lparr>ibf_dropped := Suc (ibf_dropped b), ibf_deferred := tl (ibf_deferred b) @ [ev]\<rparr>
      else b\<lparr>ibf_deferred := ibf_deferred b @ [ev]\<rparr>)"

text \<open>The two loops call \<open>_process_one_inbound_event\<close>, the parameter \<open>P\<close>, with the number of iterations left (from which the
  clock of the call is taken) and \<open>defer_replies\<close>; an exception of the call is caught inside the loop.\<close>

type_synonym 's inbound_handler = "nat \<Rightarrow> bool \<Rightarrow> inbound_event \<Rightarrow> 's \<Rightarrow> 's"

fun replay_deferred_inbound :: "nat \<Rightarrow> 's inbound_handler \<Rightarrow> inbound_buffers \<times> 's \<Rightarrow> inbound_buffers \<times> 's" where
  "replay_deferred_inbound 0 P (b, s) = (b, s)"
| "replay_deferred_inbound (Suc n) P (b, s) =
     (case ibf_deferred b of
        [] \<Rightarrow> (b, s)
      | ev # rest \<Rightarrow> replay_deferred_inbound n P (b\<lparr>ibf_deferred := rest\<rparr>, P (MAX_INBOUND_EVENTS_PER_TICK + n) False ev s))"

fun drain_inbound_queue ::
  "ext \<Rightarrow> nat \<Rightarrow> bool \<Rightarrow> 's inbound_handler \<Rightarrow> inbound_buffers \<times> 's \<Rightarrow> inbound_buffers \<times> 's" where
  "drain_inbound_queue X 0 locked P (b, s) = (b, s)"
| "drain_inbound_queue X (Suc n) locked P (b, s) =
     (case ibf_queue b of
        [] \<Rightarrow> (b, s)
      | ev # rest \<Rightarrow>
          let b1 = b\<lparr>ibf_queue := rest\<rparr> in
          if locked \<and> \<not> inbound_is_offer X ev then drain_inbound_queue X n locked P (defer_inbound ev b1, s)
          else drain_inbound_queue X n locked P (b1, P n locked ev s))"

definition drain_inbound_events ::
  "ext \<Rightarrow> bool \<Rightarrow> 's inbound_handler \<Rightarrow> inbound_buffers \<times> 's \<Rightarrow> inbound_buffers \<times> 's \<times> nat" where
  "drain_inbound_events X locked P bs =
     (case drain_inbound_queue X MAX_INBOUND_EVENTS_PER_TICK locked P
             (if locked then bs else replay_deferred_inbound MAX_INBOUND_EVENTS_PER_TICK P bs) of
        (b, s) \<Rightarrow> (b\<lparr>ibf_dropped := 0\<rparr>, s, ibf_dropped b))"

text \<open>The drain of an unlocked service.\<close>

definition service_handler :: "service_cfg \<Rightarrow> (nat \<Rightarrow> timestamp) \<Rightarrow> service_state inbound_handler" where
  "service_handler S clk n defer_replies ev st = fst (process_one_inbound_event S defer_replies (clk n) ev st)"

text \<open>The acknowledgements of the offers recorded while locked; an exception leaves the flag set for the next tick.\<close>

definition catch_up_after_unlock :: "service_cfg \<Rightarrow> bool \<Rightarrow> timestamp \<Rightarrow> service_state \<Rightarrow> service_state" where
  "catch_up_after_unlock S locked now st =
     (if \<not> sv_acks_deferred st \<or> locked then st
      else case enqueue_missing_acks (rx_env (sf_recv S)) (sv_db st) now 50 of
        Inl _ \<Rightarrow> st
      | Inr (db, _) \<Rightarrow> (with_db db st)\<lparr>sv_acks_deferred := False\<rparr>)"

end
