(* ===== verification/Service_Inbound_Properties.thy ===== *)
theory Service_Inbound_Properties
  imports Service_Inbound Sender_Properties Receiver_Properties "HOL-Library.Multiset"
begin

text \<open>
  What reaches the tables through the radio. An acknowledgement or a cancellation acts on a transfer only when it came in on
  the route and under the key pinned to that transfer; every other event leaves the tables alone. A genuine
  acknowledgement is applied. No frame is lost without being counted.
\<close>

section \<open>Authenticity\<close>

definition signed_by :: "ext \<Rightarrow> bytes \<Rightarrow> message_type \<Rightarrow> bytes \<Rightarrow> bool" where
  "signed_by X key t transfer_id \<longleftrightarrow>
     (\<exists>label sig. domain_label t = Some label \<and> length sig = 64
        \<and> ed_verify X key (label @ cbor_dumps X (PDict (simple_ack_items t transfer_id))) sig)"

definition ack_authentic :: "service_cfg \<Rightarrow> mca_db \<Rightarrow> string \<Rightarrow> message_type \<Rightarrow> attachment \<Rightarrow> bool" where
  "ack_authentic S db source t a \<longleftrightarrow>
     (\<exists>transfer_id key key_id recipient delivery.
        a \<in> set (db_attachments db) \<and> a_workspace_id a = sf_workspace S \<and> a_direction a = Sent
        \<and> a_transfer_id a = hex_of transfer_id
        \<and> filter (\<lambda>r. rc_attachment_id r = a_id a) (db_recipients db) = [recipient]
        \<and> filter (\<lambda>d. dl_attachment_id d = a_id a) (db_deliveries db) = [delivery]
        \<and> dl_route_type delivery = ''DIRECT'' \<and> dl_route_id delivery = source
        \<and> rc_recipient_public_identity recipient = Some key \<and> length key = 32
        \<and> compute_key_id (sf_X S) key = Inr key_id \<and> rc_recipient_principal_id recipient = Some key_id
        \<and> signed_by (sf_X S) key t transfer_id)"

definition cancel_authentic :: "service_cfg \<Rightarrow> mca_db \<Rightarrow> string \<Rightarrow> attachment \<Rightarrow> bool" where
  "cancel_authentic S db source a \<longleftrightarrow>
     (\<exists>transfer_id key key_id.
        a \<in> set (db_attachments db) \<and> a_workspace_id a = sf_workspace S \<and> a_direction a = Received
        \<and> a_transfer_id a = hex_of transfer_id
        \<and> a_reply_route_type a = Some ''DIRECT'' \<and> a_reply_route_id a = Some source
        \<and> a_sender_public_identity a = Some key \<and> length key = 32
        \<and> compute_key_id (sf_X S) key = Inr key_id \<and> a_sender_principal_id a = Some key_id
        \<and> signed_by (sf_X S) key CANCEL transfer_id)"

lemma decode_simple_ack_cases:
  assumes "decode_simple_ack X raw t key = Inr f"
  obtains sig where "sa_message_type f = t" "simple_ack_type t" "length (sa_transfer_id f) = 16" "length sig = 64"
    "verify_if_key X key t (PDict (simple_ack_items t (sa_transfer_id f))) sig = Inr ()"
proof -
  have d: "decode_ack_fields X raw (t, key) = Inr f"
    using assms by (simp add: decode_ack_fields_def)
  from simple_ack.dec_sound [OF d] obtain s where "simple_ack_valid f" "t = sa_message_type f" "length s = 64"
    "verify_if_key X key (sa_message_type f) (PDict (items_of_simple_ack f)) s = Inr ()"
    by auto
  then show ?thesis
    by (intro that [of s]) (simp_all add: simple_ack_valid_def items_of_simple_ack_def)
qed

text \<open>The transfer id does not depend on the key, so the checked message is the one the row was looked up with.\<close>

lemma decode_simple_ack_same_id:
  assumes "decode_simple_ack X raw t key = Inr f" and "decode_simple_ack X raw t key' = Inr f'"
  shows "sa_transfer_id f = sa_transfer_id f'"
  using assms by (auto simp: decode_simple_ack_def bind_res_def split: if_splits sum.splits)

lemma decode_signed_by:
  assumes "decode_simple_ack X raw t (Some key) = Inr f"
  shows "signed_by X key t (sa_transfer_id f)"
proof -
  obtain sig where sig: "simple_ack_type t" "length sig = 64"
    "verify_if_key X (Some key) t (PDict (simple_ack_items t (sa_transfer_id f))) sig = Inr ()"
    using assms by (rule decode_simple_ack_cases)
  then obtain l where "domain_label t = Some l" using simple_ack_label by blast
  with sig show ?thesis by (auto simp: signed_by_def verify_if_key_Inr)
qed

lemma check_pinned_key_Inr:
  assumes "check_pinned_key X pinned pid e e' = Inr key"
  shows "pinned = Some key" "length key = 32" "\<exists>key_id. compute_key_id X key = Inr key_id \<and> pid = Some key_id"
  using assms by (auto simp: check_pinned_key_def split: option.splits if_splits)

lemma find_transfer_Some:
  assumes "find_transfer db ws tid d = Some a"
  shows "a \<in> set (db_attachments db) \<and> a_workspace_id a = ws \<and> a_transfer_id a = tid \<and> a_direction a = d"
  using find_by_Some [OF assms [unfolded find_transfer_def]] by simp

lemma verify_inbound_ack_sound:
  assumes "verify_inbound_ack S db env t = Inr i" and "ie_route_id env = source"
  shows "\<exists>a. ack_authentic S db source t a \<and> a_id a = i"
proof -
  obtain f a r d key f' where
    f: "decode_simple_ack (sf_X S) (ie_logical_message env) t None = Inr f"
    and a: "find_transfer db (sf_workspace S) (hex_of (sa_transfer_id f)) Sent = Some a" "a_id a = i"
    and rd: "filter (\<lambda>r. rc_attachment_id r = a_id a) (db_recipients db) = [r]"
      "filter (\<lambda>d. dl_attachment_id d = a_id a) (db_deliveries db) = [d]" "delivery_route_matches d env"
    and key: "check_pinned_key (sf_X S) (rc_recipient_public_identity r) (rc_recipient_principal_id r)
      PinnedKeyMissing PinnedKeyMismatch = Inr key"
    and f': "decode_simple_ack (sf_X S) (ie_logical_message env) t (Some key) = Inr f'"
    using assms(1) by (auto simp: verify_inbound_ack_def Let_def bind_res_def
      split: sum.splits option.splits list.splits if_splits prod.splits)
  have "signed_by (sf_X S) key t (sa_transfer_id f)"
    using decode_signed_by [OF f'] decode_simple_ack_same_id [OF f f'] by simp
  then show ?thesis
    using find_transfer_Some [OF a(1)] a(2) rd check_pinned_key_Inr [OF key] assms(2)
    unfolding ack_authentic_def delivery_route_matches_def by blast
qed

lemma verify_inbound_cancel_sound:
  assumes "verify_inbound_cancel S db env = Inr i" and "ie_route_id env = source"
  shows "\<exists>a. cancel_authentic S db source a \<and> a_id a = i"
proof -
  obtain f a key f' where
    f: "decode_simple_ack (sf_X S) (ie_logical_message env) CANCEL None = Inr f"
    and a: "find_transfer db (sf_workspace S) (hex_of (sa_transfer_id f)) Received = Some a" "a_id a = i"
    and r: "reply_route_matches a env"
    and key: "check_pinned_key (sf_X S) (a_sender_public_identity a) (a_sender_principal_id a)
      SenderKeyMissing SenderKeyMismatch = Inr key"
    and f': "decode_simple_ack (sf_X S) (ie_logical_message env) CANCEL (Some key) = Inr f'"
    using assms(1) by (auto simp: verify_inbound_cancel_def Let_def bind_res_def
      split: sum.splits option.splits if_splits)
  have "signed_by (sf_X S) key CANCEL (sa_transfer_id f)"
    using decode_signed_by [OF f'] decode_simple_ack_same_id [OF f f'] by simp
  then show ?thesis
    using find_transfer_Some [OF a(1)] a(2) r check_pinned_key_Inr [OF key] assms(2)
    unfolding cancel_authentic_def reply_route_matches_def by blast
qed

section \<open>What one event may change\<close>

lemma with_db_simps [simp]:
  "sv_keys (with_db db st) = sv_keys st" "sv_replied (with_db db st) = sv_replied st" "sv_db (with_db db st) = db"
  "sv_acks_deferred (with_db db st) = sv_acks_deferred st"
  by (simp_all add: with_db_def)

text \<open>The effect of an event on the tables of the attachments.\<close>

inductive attachment_effect :: "service_cfg \<Rightarrow> timestamp \<Rightarrow> inbound_event \<Rightarrow> service_state \<Rightarrow> service_state \<Rightarrow> inbound_end \<Rightarrow> bool"
  for S :: service_cfg and now :: timestamp and ev :: inbound_event and st :: service_state where
  untouched: "sv_world st' = sv_world st \<Longrightarrow> attachment_effect S now ev st st' e"
| acknowledged: "t \<in> set INBOUND_ACK_TYPES \<Longrightarrow> ack_authentic S (sv_db st) (ib_source_address ev) t a \<Longrightarrow>
    apply_inbound_ack (sv_db st) (a_id a) t now = Inr (db, state) \<Longrightarrow>
    attachment_effect S now ev st (with_db db st) (AppliedTo (a_id a) state)"
| cancelled: "cancel_authentic S (sv_db st) (ib_source_address ev) a \<Longrightarrow>
    apply_cancelled (sv_db st) (a_id a) now = Inr (db, state) \<Longrightarrow>
    attachment_effect S now ev st (with_db db st) (AppliedTo (a_id a) state)"
| offered: "from_text (ib_text ev) = Inr raw \<Longrightarrow> decode_offer (sf_X S) raw None = Inr f \<Longrightarrow>
    is_contact_id (ib_source_address ev) \<Longrightarrow>
    handle_offer (recv_for S st p) (sv_world st) raw now (Some (ib_source_address ev)) (Some rr) defer_replies = (W, r) \<Longrightarrow>
    rr_route_type rr = ''DIRECT'' \<Longrightarrow> rr_route_id rr = ib_source_address ev \<Longrightarrow>
    rr_destination_address rr = ib_source_address ev \<Longrightarrow>
    sv_world st' = W \<Longrightarrow> attachment_effect S now ev st st' e"

inductive_cases attachment_effectE: "attachment_effect S now ev st st' e"

lemma ingest_envelope:
  assumes "ingest (Some (transport_event_of ev)) now = Inr (Some env)"
  shows "from_text (ib_text ev) = Inr (ie_logical_message env)" "ie_route_id env = ib_source_address ev"
    "ie_source_address env = Some (ib_source_address ev)" "ie_route_type env = DIRECT"
  using assms by (auto simp: ingest_def transport_event_of_def split: if_splits sum.splits)

lemma process_inbound_ack_effect:
  assumes "process_inbound_ack S st env t now = (st', e)" and "ie_route_id env = ib_source_address ev"
    and "t \<in> set INBOUND_ACK_TYPES"
  shows "attachment_effect S now ev st st' e \<and> sv_keys st' = sv_keys st \<and> sv_replied st' = sv_replied st"
proof (cases "verify_inbound_ack S (sv_db st) env t")
  case (Inr i)
  obtain a where a: "ack_authentic S (sv_db st) (ib_source_address ev) t a" "a_id a = i"
    using verify_inbound_ack_sound [OF Inr assms(2)] by blast
  show ?thesis
  proof (cases "apply_inbound_ack (sv_db st) i t now")
    case (Inl x)
    then show ?thesis using assms(1) Inr by (auto simp: process_inbound_ack_def intro: attachment_effect.untouched)
  next
    case (Inr r)
    then show ?thesis
      using assms(1) \<open>verify_inbound_ack S (sv_db st) env t = Inr i\<close> a attachment_effect.acknowledged [OF assms(3) a(1)]
      by (cases r) (auto simp: process_inbound_ack_def)
  qed
qed (use assms(1) in \<open>auto simp: process_inbound_ack_def intro: attachment_effect.untouched\<close>)

lemma process_inbound_cancel_effect:
  assumes "process_inbound_cancel S st env now = (st', e)" and "ie_route_id env = ib_source_address ev"
  shows "attachment_effect S now ev st st' e \<and> sv_keys st' = sv_keys st \<and> sv_replied st' = sv_replied st"
proof (cases "verify_inbound_cancel S (sv_db st) env")
  case (Inr i)
  obtain a where a: "cancel_authentic S (sv_db st) (ib_source_address ev) a" "a_id a = i"
    using verify_inbound_cancel_sound [OF Inr assms(2)] by blast
  show ?thesis
  proof (cases "apply_cancelled (sv_db st) i now")
    case (Inl x)
    then show ?thesis using assms(1) Inr by (auto simp: process_inbound_cancel_def intro: attachment_effect.untouched)
  next
    case (Inr r)
    then show ?thesis
      using assms(1) \<open>verify_inbound_cancel S (sv_db st) env = Inr i\<close> a attachment_effect.cancelled [OF a(1)]
      by (cases r) (auto simp: process_inbound_cancel_def)
  qed
qed (use assms(1) in \<open>auto simp: process_inbound_cancel_def intro: attachment_effect.untouched\<close>)

lemma process_inbound_offer_effect:
  assumes "process_inbound_offer S st env (ib_source_address ev) d now = (st', e)"
    and "from_text (ib_text ev) = Inr (ie_logical_message env)" "ie_route_id env = ib_source_address ev"
    and "ie_route_type env = DIRECT" "is_contact_id (ib_source_address ev)"
  shows "attachment_effect S now ev st st' e \<and> sv_keys st' = sv_keys st \<and> sv_replied st' = sv_replied st"
proof (cases "sv_world st' = sv_world st")
  case True
  then show ?thesis
    using assms(1) by (auto simp: process_inbound_offer_def intro: attachment_effect.untouched
      split: sum.splits prod.splits receive_error.splits mca_error.splits)
next
  case False
  then obtain f p W r where
    f: "decode_offer (sf_X S) (ie_logical_message env) None = Inr f"
    and h: "handle_offer (recv_for S st p) (sv_world st) (ie_logical_message env) now (Some (ib_source_address ev))
      (Some (envelope_reply_route env)) d = (W, r)"
    and st': "sv_world st' = W" "sv_keys st' = sv_keys st" "sv_replied st' = sv_replied st"
    using assms(1) by (auto simp: process_inbound_offer_def
      split: sum.splits prod.splits receive_error.splits mca_error.splits)
  show ?thesis
    using attachment_effect.offered [OF assms(2) f assms(5) h _ _ _ st'(1)] assms(3,4) st'(2,3)
    by (simp add: envelope_reply_route_def)
qed

lemma send_reply_now_simps [simp]:
  "sv_world (send_reply_now S m a k t st) = sv_world st" "sv_keys (send_reply_now S m a k t st) = sv_keys st"
  by (auto simp: send_reply_now_def Let_def split: option.splits sum.splits)

lemma send_reply_now_replied:
  "sv_replied (send_reply_now S m a k t st) = sv_replied st
   \<or> sv_replied (send_reply_now S m a k t st) = sv_replied st @ [(a, m)]"
  by (auto simp: send_reply_now_def Let_def split: option.splits sum.splits)

definition key_type :: "message_type \<Rightarrow> bool" where
  "key_type t \<longleftrightarrow> t \<in> {KEY_REQUEST, KEY_ANNOUNCE, KEY_ACK}"

lemma handle_incoming_key_type:
  assumes "handle_incoming X K st env now = (st', r)" and "peek_message_type X (e_logical_message env) = Inr t"
    and "st' \<noteq> st \<or> r \<noteq> Inr None"
  shows "key_type t"
  using assms by (auto simp: handle_incoming_def key_type_def split: if_splits)

lemma process_key_message_effect:
  assumes "process_key_message S st ev env now = (st', e)" and "peek_message_type (sf_X S) (ie_logical_message env) = Inr t"
  shows "sv_world st' = sv_world st \<and> (sv_keys st' = sv_keys st \<or> key_type t)
    \<and> (sv_replied st' = sv_replied st \<or> key_type t \<and> (\<exists>reply. sv_replied st' = sv_replied st @ [(ib_source_address ev, reply)]))"
proof -
  obtain keys r where h: "handle_incoming (sf_X S) (rx_config (sf_recv S)) (sv_keys st) (key_envelope env) now = (keys, r)"
    by fastforce
  have k: "keys \<noteq> sv_keys st \<or> r \<noteq> Inr None \<Longrightarrow> key_type t"
    using handle_incoming_key_type [OF h, of t] assms(2) by (simp add: key_envelope_def)
  define st1 where "st1 = st\<lparr>sv_keys := keys\<rparr>"
  have st1: "sv_world st1 = sv_world st" "sv_keys st1 = keys" "sv_replied st1 = sv_replied st"
    by (simp_all add: st1_def)
  have "st' = st1 \<or> (\<exists>reply. r = Inr (Some reply)
      \<and> st' = send_reply_now S reply (ib_source_address ev) (reply_key ev) now st1)"
    using assms(1) h by (auto simp: process_key_message_def st1_def Let_def split: sum.splits option.splits ke_error.splits)
  then show ?thesis
  proof (elim disjE exE conjE)
    assume "st' = st1"
    then show ?thesis using k st1 by auto
  next
    fix reply assume "r = Inr (Some reply)" and e: "st' = send_reply_now S reply (ib_source_address ev) (reply_key ev) now st1"
    then have "key_type t" using k by simp
    then show ?thesis
      using e st1 send_reply_now_replied [of S reply "ib_source_address ev" "reply_key ev" now st1] by auto
  qed
qed

text \<open>C7. What the radio can change. Whatever text arrives, the attachment tables change only by an acknowledgement of a sent
  transfer that came in on the DIRECT route the offer went out on and whose signature verifies under the key pinned on that
  transfer, by a cancellation that matches the pinned route and key of a received transfer in the same way, or by an offer
  handled with the sender's own address as its reply route; the change is then exactly the one of the state machine. The key
  tables change only for key messages, and then the attachments do not. At most one reply is sent, to the source, and only
  for a key message. An event whose source is not a canonical node id changes nothing.\<close>

theorem inbound_effects_authentic:
  assumes "process_one_inbound_event S d now ev st = (st', e)"
  shows "attachment_effect S now ev st st' e
    \<and> (sv_keys st' = sv_keys st \<or> sv_world st' = sv_world st
        \<and> (\<exists>raw t. from_text (ib_text ev) = Inr raw \<and> peek_message_type (sf_X S) raw = Inr t \<and> key_type t))
    \<and> (sv_replied st' = sv_replied st \<or> (\<exists>reply. sv_replied st' = sv_replied st @ [(ib_source_address ev, reply)])
        \<and> (\<exists>raw t. from_text (ib_text ev) = Inr raw \<and> peek_message_type (sf_X S) raw = Inr t \<and> key_type t))
    \<and> (is_contact_id (ib_source_address ev) \<or> st' = st)"
proof (cases "st' = st")
  case True
  then show ?thesis by (simp add: attachment_effect.untouched)
next
  case False
  then obtain env t where i: "ingest (Some (transport_event_of ev)) now = Inr (Some env)"
    and c: "canonical_source ev env" and t: "peek_message_type (sf_X S) (ie_logical_message env) = Inr t"
    and p: "(if t \<in> set INBOUND_ACK_TYPES then process_inbound_ack S st env t now
      else if t = CANCEL then process_inbound_cancel S st env now
      else if t = OFFER then process_inbound_offer S st env (ib_source_address ev) d now
      else process_key_message S st ev env now) = (st', e)"
    using assms by (auto simp: process_one_inbound_event_def split: if_splits sum.splits option.splits)
  note env = ingest_envelope [OF i]
  have src: "is_contact_id (ib_source_address ev)"
    using c by (simp add: canonical_source_def)
  consider (ack) "t \<in> set INBOUND_ACK_TYPES" | (cancel) "t \<notin> set INBOUND_ACK_TYPES" "t = CANCEL"
    | (offer) "t \<notin> set INBOUND_ACK_TYPES" "t = OFFER" | (key) "t \<notin> set INBOUND_ACK_TYPES" "t \<noteq> CANCEL" "t \<noteq> OFFER"
    by blast
  then show ?thesis
  proof cases
    case ack
    then show ?thesis using process_inbound_ack_effect [of S st env t now st' e ev] p env(2) src by simp
  next
    case cancel
    then show ?thesis using process_inbound_cancel_effect [of S st env now st' e ev] p env(2) src by simp
  next
    case offer
    then show ?thesis using process_inbound_offer_effect [of S st env ev d now st' e] p env src by simp
  next
    case key
    then have "process_key_message S st ev env now = (st', e)" using p by simp
    from process_key_message_effect [OF this t] show ?thesis
      using env(1) t src by (auto intro: attachment_effect.untouched)
  qed
qed

section \<open>A genuine acknowledgement is applied\<close>

lemma verify_inbound_ack_complete:
  assumes "cbor_contract (sf_X S)" "sign_contract (sf_X S)"
    and enc: "encode_simple_ack (sf_X S) t transfer_id sk = Inr (ie_logical_message env)"
    and a: "find_transfer db (sf_workspace S) (hex_of transfer_id) Sent = Some a"
    and r: "filter (\<lambda>r. rc_attachment_id r = a_id a) (db_recipients db) = [r]"
    and d: "filter (\<lambda>d. dl_attachment_id d = a_id a) (db_deliveries db) = [d]" "delivery_route_matches d env"
    and key: "rc_recipient_public_identity r = Some (ed_public (sf_X S) sk)" "length (ed_public (sf_X S) sk) = 32"
      "compute_key_id (sf_X S) (ed_public (sf_X S) sk) = Inr key_id" "rc_recipient_principal_id r = Some key_id"
  shows "verify_inbound_ack S db env t = Inr (a_id a)"
proof -
  let ?f = "\<lparr>sa_message_type = t, sa_transfer_id = transfer_id, sa_signature = None\<rparr>"
  have e: "encode_ack_fields (sf_X S) ?f sk = Inr (ie_logical_message env)"
    using enc by (simp add: encode_ack_fields_def)
  have dec: "\<exists>s. decode_simple_ack (sf_X S) (ie_logical_message env) t k = Inr (?f\<lparr>sa_signature := Some s\<rparr>)"
    if "k = None \<or> k = Some (ed_public (sf_X S) sk)" for k
    using simple_ack.roundtrip [OF assms(1,2) e, of "(t, k)"] that by (auto simp: decode_ack_fields_def)
  have pin: "check_pinned_key (sf_X S) (rc_recipient_public_identity r) (rc_recipient_principal_id r)
      PinnedKeyMissing PinnedKeyMismatch = Inr (ed_public (sf_X S) sk)"
    using key by (simp add: check_pinned_key_def)
  obtain s s' where "decode_simple_ack (sf_X S) (ie_logical_message env) t None = Inr (?f\<lparr>sa_signature := Some s\<rparr>)"
    "decode_simple_ack (sf_X S) (ie_logical_message env) t (Some (ed_public (sf_X S) sk)) = Inr (?f\<lparr>sa_signature := Some s'\<rparr>)"
    using dec by blast
  then show ?thesis
    using a r d pin by (simp add: verify_inbound_ack_def Let_def)
qed

text \<open>C8. An acknowledgement crosses. What a receiver puts into its outbox for a transfer, once it arrives as text from the
  node the offer was sent to, passes every check of the sender - if the key pinned at the offer is the receiver's - and is
  applied to exactly that transfer by the sender's state machine.\<close>

theorem acknowledgement_crosses:
  assumes "cbor_contract (sf_X S)" "sign_contract (sf_X S)" "env_X E = sf_X S"
    and "enqueue_control_message E rdb i transfer_id t event_type rnow route = Inr (rdb', Some frame)"
    and "load_signing_key (sf_X S) (env_ids E) (env_principal E) = Inr sk" "t \<in> set INBOUND_ACK_TYPES"
    and "to_text frame = Inr (ib_text ev)" "is_contact_id (ib_source_address ev)" "sf_adapter S \<noteq> None"
    and "find_transfer (sv_db st) (sf_workspace S) (hex_of transfer_id) Sent = Some a"
    and "filter (\<lambda>r. rc_attachment_id r = a_id a) (db_recipients (sv_db st)) = [r]"
    and "filter (\<lambda>d. dl_attachment_id d = a_id a) (db_deliveries (sv_db st)) = [d]"
    and "dl_route_type d = ''DIRECT''" "dl_adapter_id d = meshtastic_adapter_id" "dl_route_id d = ib_source_address ev"
      "dl_connector_profile_id d = meshtastic_connector_profile_id"
    and "rc_recipient_public_identity r = Some (ed_public (sf_X S) sk)" "length (ed_public (sf_X S) sk) = 32"
      "compute_key_id (sf_X S) (ed_public (sf_X S) sk) = Inr key_id" "rc_recipient_principal_id r = Some key_id"
    and "apply_inbound_ack (sv_db st) (a_id a) t now = Inr (db, state)"
  shows "process_one_inbound_event S defer_replies now ev st = (with_db db st, AppliedTo (a_id a) state)"
proof -
  have enc: "encode_simple_ack (sf_X S) t transfer_id sk = Inr frame"
    using assms(3,4,5) by (auto simp: enqueue_control_message_def split: if_splits sum.splits)
  let ?f = "\<lparr>sa_message_type = t, sa_transfer_id = transfer_id, sa_signature = None\<rparr>"
  have e: "encode_ack_fields (sf_X S) ?f sk = Inr frame"
    using enc by (simp add: encode_ack_fields_def)
  have arrives: "from_text (ib_text ev) = Inr frame" "startswith (ib_text ev) TEXT_PREFIX"
    using simple_ack.text_roundtrip [OF assms(1,2) e] assms(7) by (auto simp: from_text_def split: if_splits)
  have peek: "peek_message_type (sf_X S) frame = Inr t"
    using simple_ack.peek [OF assms(1,2) e] by simp
  obtain env where env: "ingest (Some (transport_event_of ev)) now = Inr (Some env)" "ie_logical_message env = frame"
    "ie_adapter_id env = meshtastic_adapter_id" "ie_connector_profile_id env = meshtastic_connector_profile_id"
    using arrives by (simp add: ingest_def transport_event_of_def)
  note env' = ingest_envelope [OF env(1)]
  have v: "verify_inbound_ack S (sv_db st) env t = Inr (a_id a)"
    using assms enc env env' by (intro verify_inbound_ack_complete) (simp_all add: delivery_route_matches_def)
  have "canonical_source ev env"
    using assms(8) env' by (simp add: canonical_source_def)
  moreover have "process_inbound_ack S st env t now = (with_db db st, AppliedTo (a_id a) state)"
    using v assms by (simp add: process_inbound_ack_def)
  ultimately show ?thesis
    using assms(6,9) env(1,2) peek by (simp add: process_one_inbound_event_def)
qed

section \<open>The buffers\<close>

text \<open>The order in which events are handled, seen by a handler that only records them.\<close>

definition record_frame :: "inbound_event list inbound_handler" where
  "record_frame n defer_replies ev handled = handled @ [ev]"

text \<open>Conservation of frames between two states; the lost frames are those the deque dropped.\<close>

definition frames :: "inbound_buffers \<times> inbound_event list \<Rightarrow> inbound_event multiset" where
  "frames bs = mset (snd bs) + mset (ibf_queue (fst bs)) + mset (ibf_deferred (fst bs))"

definition conserves :: "inbound_buffers \<times> inbound_event list \<Rightarrow> inbound_buffers \<times> inbound_event list \<Rightarrow> bool" where
  "conserves bs bs' \<longleftrightarrow>
     (\<exists>lost. frames bs = frames bs' + mset lost \<and> ibf_dropped (fst bs') = ibf_dropped (fst bs) + length lost)
     \<and> length (ibf_queue (fst bs')) \<le> length (ibf_queue (fst bs))
     \<and> (length (ibf_deferred (fst bs)) \<le> VAULT_DEFERRED_INBOUND_MAX \<longrightarrow> length (ibf_deferred (fst bs')) \<le> VAULT_DEFERRED_INBOUND_MAX)"

lemma conserves_refl: "conserves bs bs"
  by (auto simp: conserves_def intro: exI [of _ "[]"])

lemma conserves_trans:
  assumes "conserves b1 b2" and "conserves b2 b3"
  shows "conserves b1 b3"
proof -
  obtain l1 l2 where l: "frames b1 = frames b2 + mset l1" "ibf_dropped (fst b2) = ibf_dropped (fst b1) + length l1"
    "frames b2 = frames b3 + mset l2" "ibf_dropped (fst b3) = ibf_dropped (fst b2) + length l2"
    using assms by (auto simp: conserves_def)
  have "frames b1 = frames b3 + mset (l1 @ l2)" "ibf_dropped (fst b3) = ibf_dropped (fst b1) + length (l1 @ l2)"
    using l by (simp_all add: ac_simps)
  with assms show ?thesis unfolding conserves_def by (meson order_trans)
qed

lemma conserves_replay: "conserves bs (replay_deferred_inbound n record_frame bs)"
proof (induction n record_frame bs rule: replay_deferred_inbound.induct)
  case (2 n b s)
  show ?case
  proof (cases "ibf_deferred b")
    case (Cons ev rest)
    have "conserves (b, s) (b\<lparr>ibf_deferred := rest\<rparr>, s @ [ev])"
      using Cons by (auto simp: conserves_def frames_def intro: exI [of _ "[]"])
    with Cons 2 show ?thesis by (auto simp: record_frame_def intro: conserves_trans)
  qed (simp add: conserves_refl)
qed (simp add: conserves_refl)

lemma conserves_defer: "ibf_queue b = ev # rest \<Longrightarrow> conserves (b, s) (defer_inbound ev (b\<lparr>ibf_queue := rest\<rparr>), s)"
proof (cases "ibf_deferred b")
  case (Cons x xs)
  assume "ibf_queue b = ev # rest"
  with Cons show ?thesis
    by (auto simp: conserves_def frames_def defer_inbound_def VAULT_DEFERRED_INBOUND_MAX_def intro: exI [of _ "[x]"] exI [of _ "[]"])
qed (auto simp: conserves_def frames_def defer_inbound_def VAULT_DEFERRED_INBOUND_MAX_def intro: exI [of _ "[]"])

lemma conserves_drain: "conserves bs (drain_inbound_queue X n locked record_frame bs)"
proof (induction X n locked record_frame bs rule: drain_inbound_queue.induct)
  case (2 X n locked b s)
  show ?case
  proof (cases "ibf_queue b")
    case (Cons ev rest)
    have "conserves (b, s) (b\<lparr>ibf_queue := rest\<rparr>, s @ [ev])"
      using Cons by (auto simp: conserves_def frames_def intro: exI [of _ "[]"])
    moreover note conserves_defer [OF Cons, of s]
    ultimately show ?thesis
      using Cons 2 by (auto simp: record_frame_def Let_def intro: conserves_trans)
  qed (simp add: conserves_refl)
qed (simp add: conserves_refl)

text \<open>The buffers do not depend on what the handler does with its state.\<close>

lemma replay_buffers: "fst (replay_deferred_inbound n P (b, s)) = fst (replay_deferred_inbound n Q (b, t))"
  by (induction n arbitrary: b s t) (auto split: list.split)

lemma drain_buffers: "fst (drain_inbound_queue X n locked P (b, s)) = fst (drain_inbound_queue X n locked Q (b, t))"
  by (induction n arbitrary: b s t) (auto simp: Let_def split: list.split)

text \<open>Without a locked vault nothing is put off and the order of arrival is kept.\<close>

lemma drain_unlocked_order:
  assumes "drain_inbound_queue X n False record_frame (b, handled) = (b', handled')"
  shows "ibf_deferred b' = ibf_deferred b \<and> handled' @ ibf_queue b' = handled @ ibf_queue b"
  using assms
  by (induction n arbitrary: b handled) (auto simp: record_frame_def Let_def split: list.splits)

text \<open>A history of the buffers: arrivals from the radio listener and drains by the worker, with the vault locked or not. The
  state also holds the events handled, the events the queue accepted and the losses reported so far.\<close>

datatype inbound_action = Arrive inbound_event | DrainTick bool

type_synonym inbound_ledger = "inbound_buffers \<times> inbound_event list \<times> inbound_event list \<times> nat"

fun inbound_act :: "ext \<Rightarrow> inbound_action \<Rightarrow> inbound_ledger \<Rightarrow> inbound_ledger" where
  "inbound_act X (Arrive ev) (b, handled, accepted, reported) =
     (case enqueue_inbound ev b of (b', ok) \<Rightarrow> (b', handled, if ok then accepted @ [ev] else accepted, reported))"
| "inbound_act X (DrainTick locked) (b, handled, accepted, reported) =
     (case drain_inbound_events X locked record_frame (b, handled) of (b', handled', n) \<Rightarrow> (b', handled', accepted, reported + n))"

definition empty_ledger :: inbound_ledger where
  "empty_ledger = (\<lparr>ibf_queue = [], ibf_deferred = [], ibf_dropped = 0\<rparr>, [], [], 0)"

fun ledger_ok :: "inbound_ledger \<Rightarrow> bool" where
  "ledger_ok (b, handled, accepted, reported) \<longleftrightarrow>
     (\<exists>lost. mset accepted = frames (b, handled) + mset lost \<and> length lost = reported) \<and> ibf_dropped b = 0
     \<and> length (ibf_queue b) \<le> INBOUND_QUEUE_MAXSIZE \<and> length (ibf_deferred b) \<le> VAULT_DEFERRED_INBOUND_MAX"

lemma drain_conserves:
  assumes "drain_inbound_events X locked record_frame (b, handled) = (b', handled', n)"
  obtains b1 where "conserves (b, handled) (b1, handled')" "b' = b1\<lparr>ibf_dropped := 0\<rparr>" "n = ibf_dropped b1"
proof -
  let ?r = "if locked then (b, handled) else replay_deferred_inbound MAX_INBOUND_EVENTS_PER_TICK record_frame (b, handled)"
  let ?d = "drain_inbound_queue X MAX_INBOUND_EVENTS_PER_TICK locked record_frame ?r"
  have "conserves (b, handled) ?r"
    by (simp add: conserves_replay conserves_refl)
  then have "conserves (b, handled) ?d"
    using conserves_drain by (rule conserves_trans)
  moreover have "?d = (fst ?d, handled')" "b' = (fst ?d)\<lparr>ibf_dropped := 0\<rparr>" "n = ibf_dropped (fst ?d)"
    using assms by (auto simp: drain_inbound_events_def split: prod.splits)
  ultimately show ?thesis using that by metis
qed

lemma inbound_act_ok: "ledger_ok l \<Longrightarrow> ledger_ok (inbound_act X act l)"
proof (cases l)
  case (fields b handled accepted reported)
  assume ok: "ledger_ok l"
  then obtain lost where lost: "mset accepted = frames (b, handled) + mset lost" "length lost = reported"
    unfolding fields by auto
  show ?thesis
  proof (cases act)
    case (Arrive ev)
    have "mset (accepted @ [ev]) = frames (b\<lparr>ibf_queue := ibf_queue b @ [ev]\<rparr>, handled) + mset lost"
      using lost(1) by (simp add: frames_def)
    then show ?thesis
      using ok lost(2) unfolding fields Arrive by (auto simp: enqueue_inbound_def)
  next
    case (DrainTick locked)
    obtain b' handled' n where d: "drain_inbound_events X locked record_frame (b, handled) = (b', handled', n)"
      by (cases "drain_inbound_events X locked record_frame (b, handled)")
    obtain b1 where c: "conserves (b, handled) (b1, handled')" "b' = b1\<lparr>ibf_dropped := 0\<rparr>" "n = ibf_dropped b1"
      using d by (rule drain_conserves)
    obtain more where more: "frames (b, handled) = frames (b1, handled') + mset more" "n = length more"
      using c ok unfolding fields by (auto simp: conserves_def)
    have "mset accepted = frames (b', handled') + mset (more @ lost)"
      using lost(1) more(1) c(2) by (simp add: frames_def ac_simps)
    moreover have "length (more @ lost) = reported + n"
      using lost(2) more(2) by simp
    moreover have "ibf_dropped b' = 0" "length (ibf_queue b') \<le> INBOUND_QUEUE_MAXSIZE"
      "length (ibf_deferred b') \<le> VAULT_DEFERRED_INBOUND_MAX"
      using c(1,2) ok fields by (auto simp: conserves_def)
    ultimately have "ledger_ok (b', handled', accepted, reported + n)"
      unfolding ledger_ok.simps by blast
    then show ?thesis
      by (simp add: fields DrainTick d)
  qed
qed

fun in_order :: "inbound_ledger \<Rightarrow> bool" where
  "in_order (b, handled, accepted, reported) \<longleftrightarrow> ibf_deferred b = [] \<and> accepted = handled @ ibf_queue b"

lemma replay_nothing: "ibf_deferred b = [] \<Longrightarrow> replay_deferred_inbound n P (b, s) = (b, s)"
  by (cases n) simp_all

lemma inbound_act_in_order: "in_order l \<Longrightarrow> act \<noteq> DrainTick True \<Longrightarrow> in_order (inbound_act X act l)"
proof (cases l)
  case (fields b handled accepted reported)
  assume o: "in_order l" and a: "act \<noteq> DrainTick True"
  show ?thesis
  proof (cases act)
    case (Arrive ev)
    then show ?thesis using o fields by (auto simp: enqueue_inbound_def)
  next
    case (DrainTick locked)
    then have u: "\<not> locked" using a by simp
    obtain b1 h1 where d: "drain_inbound_queue X MAX_INBOUND_EVENTS_PER_TICK False record_frame (b, handled) = (b1, h1)"
      by fastforce
    from drain_unlocked_order [OF d] o fields have "ibf_deferred b1 = []" "h1 @ ibf_queue b1 = accepted"
      by simp_all
    then show ?thesis
      using o fields DrainTick u d by (simp add: drain_inbound_events_def replay_nothing)
  qed
qed

text \<open>C9. No frame disappears unnoticed. Over any history of arrivals and drains, with the vault locked and unlocked in between,
  every frame the queue accepted has been handled, is still waiting, or is one of the losses that were reported, each frame
  exactly once; both buffers keep their bounds; and as long as the vault is never locked, frames are handled in the order of
  arrival and none is lost.\<close>

theorem inbound_frames_accounted:
  assumes "fold (inbound_act X) acts empty_ledger = (b, handled, accepted, reported)"
  shows "(\<exists>lost. mset accepted = mset handled + mset (ibf_queue b) + mset (ibf_deferred b) + mset lost \<and> length lost = reported)
    \<and> length (ibf_queue b) \<le> INBOUND_QUEUE_MAXSIZE \<and> length (ibf_deferred b) \<le> VAULT_DEFERRED_INBOUND_MAX
    \<and> (DrainTick True \<notin> set acts \<longrightarrow> accepted = handled @ ibf_queue b \<and> ibf_deferred b = [])"
proof -
  have "ledger_ok empty_ledger" "in_order empty_ledger"
    by (simp_all add: empty_ledger_def frames_def)
  then have "ledger_ok (fold (inbound_act X) acts empty_ledger)"
    and o: "DrainTick True \<notin> set acts \<Longrightarrow> in_order (fold (inbound_act X) acts empty_ledger)"
    by (induction acts arbitrary: rule: rev_induct) (auto intro: inbound_act_ok inbound_act_in_order simp del: ledger_ok.simps in_order.simps)
  then show ?thesis
    unfolding assms by (auto simp: frames_def)
qed

section \<open>The acknowledgements a locked vault put off\<close>

lemma enqueue_acks_only:
  assumes "enqueue_acks E rows now db n = Inr (db', m)" and "control_already_enqueued db' i EVENT_ACK_RECEIVED_SENT"
  shows "control_already_enqueued db i EVENT_ACK_RECEIVED_SENT \<or> i \<in> a_id ` set rows"
  using assms
proof (induction E rows now db n rule: enqueue_acks.induct)
  case (2 E row rows now db n)
  show ?case
  proof (cases "fromhex (a_transfer_id row)")
    case None
    with 2 show ?thesis by auto
  next
    case (Some tid)
    with 2(3) obtain db1 ack where q: "enqueue_control_message E db (a_id row) tid ACK_RECEIVED EVENT_ACK_RECEIVED_SENT now DERIVE_REPLY_ROUTE
        = Inr (db1, ack)" "enqueue_acks E rows now db1 (if ack = None then n else Suc n) = Inr (db', m)"
      by (auto simp: bind_res_def split: sum.splits)
    from 2(2) [OF Some q(2) 2(4)] have "control_already_enqueued db1 i EVENT_ACK_RECEIVED_SENT \<or> i \<in> a_id ` set rows" .
    moreover have "control_already_enqueued db1 i EVENT_ACK_RECEIVED_SENT \<Longrightarrow>
        control_already_enqueued db i EVENT_ACK_RECEIVED_SENT \<or> i = a_id row"
      using q(1) by (cases rule: enqueue_Inr) (auto simp: control_already_enqueued_def new_reply_def)
    ultimately show ?thesis by auto
  qed
qed simp

definition unacknowledged :: "mca_db \<Rightarrow> string \<Rightarrow> attachment list" where
  "unacknowledged db workspace_id =
     filter (\<lambda>a. a_workspace_id a = workspace_id \<and> a_direction a = Received
       \<and> \<not> control_already_enqueued db (a_id a) EVENT_ACK_RECEIVED_SENT) (db_attachments db)"

text \<open>The catch-up after an unlock stops after one batch. When more than fifty offers were recorded while the vault was
  locked, the first catch-up that succeeds acknowledges fifty of them, clears the flag, and every later catch-up does
  nothing: at least one offer recorded is never acknowledged.\<close>

theorem deferred_acks_beyond_batch:
  assumes "distinct (map a_id (db_attachments (sv_db st)))" and "50 < length (unacknowledged (sv_db st) (sf_workspace S))"
    and "sv_acks_deferred st" "enqueue_missing_acks (rx_env (sf_recv S)) (sv_db st) now 50 = Inr (db, n)"
    and "catch_up_after_unlock S False now st = st'"
  shows "(\<exists>a \<in> set (unacknowledged (sv_db st) (sf_workspace S)). \<not> control_already_enqueued (sv_db st') (a_id a) EVENT_ACK_RECEIVED_SENT)
    \<and> (\<forall>later. catch_up_after_unlock S False later st' = st')"
proof -
  let ?E = "rx_env (sf_recv S)"
  let ?un = "unacknowledged (sv_db st) (sf_workspace S)"
  let ?rows = "missing_ack_rows (sv_db st) (sf_workspace S) 50"
  have st': "sv_db st' = db" "\<not> sv_acks_deferred st'"
    using assms(3,4,5) by (auto simp: catch_up_after_unlock_def)
  have rows: "set ?rows \<subseteq> set ?un" "length ?rows \<le> 50"
    by (auto simp: missing_ack_rows_def unacknowledged_def dest: in_set_takeD)
  have d: "distinct (map a_id ?un)"
    using assms(1) by (simp add: unacknowledged_def distinct_map_filter)
  have few: "card (a_id ` set ?rows) \<le> 50"
    using card_image_le [of "set ?rows" a_id] card_length [of ?rows] rows(2) by simp
  have many: "card (a_id ` set ?un) = length ?un"
    using distinct_card [OF d] by simp
  have "\<not> a_id ` set ?un \<subseteq> a_id ` set ?rows"
  proof
    assume "a_id ` set ?un \<subseteq> a_id ` set ?rows"
    from card_mono [OF _ this] few many assms(2) show False by simp
  qed
  then obtain a where a: "a \<in> set ?un" "a_id a \<notin> a_id ` set ?rows" by blast
  have "\<not> control_already_enqueued db (a_id a) EVENT_ACK_RECEIVED_SENT"
    using enqueue_acks_only [of ?E ?rows now "sv_db st" 0 db n "a_id a"] assms(4) a
    by (auto simp: enqueue_missing_acks_def unacknowledged_def)
  with a(1) st' show ?thesis
    by (auto simp: catch_up_after_unlock_def)
qed

section \<open>Concrete runs\<close>

definition sample_service :: service_cfg where
  "sample_service = \<lparr>sf_recv = sample_ctx, sf_adapter = Some sample_text_adapter, sf_can_attempt_relay = (\<lambda>_. True),
     sf_control_channel_index = Some 1\<rparr>"

definition sample_delivery :: delivery_row where
  "sample_delivery = \<lparr>dl_id = ''d'', dl_attachment_id = ''a'', dl_adapter_id = meshtastic_adapter_id,
     dl_connector_profile_id = meshtastic_connector_profile_id, dl_route_type = ''DIRECT'', dl_route_id = ''!0000000a'',
     dl_idempotency_key = ''k'', dl_state = D_SENT, dl_sent_at = Some 2, dl_ack_at = None, dl_external_message_id = None, dl_error_code = None\<rparr>"

definition sample_recipient :: recipient_row where
  "sample_recipient = \<lparr>rc_id = ''r'', rc_attachment_id = ''a'', rc_envelope_id = ''e'',
     rc_recipient_principal_id = Some (hex_of (replicate 8 9)), rc_recipient_public_identity = Some (replicate 32 9),
     rc_receipt_secret_hash = None, rc_received_at = None, rc_downloaded_at = None\<rparr>"

definition sample_service_state :: service_state where
  "sample_service_state = \<lparr>sv_world = empty_world\<lparr>w_db := empty_db\<lparr>db_attachments := [sample_row\<lparr>a_state := SENT\<rparr>],
     db_recipients := [sample_recipient], db_deliveries := [sample_delivery]\<rparr>\<rparr>, sv_keys = empty_ke, sv_acks_deferred = False, sv_replied = []\<rparr>"

definition sample_event :: "string \<Rightarrow> string \<Rightarrow> inbound_event" where
  "sample_event msg source = \<lparr>ib_text = msg, ib_source_address = source, ib_packet_id = None, ib_received_at = 5, ib_channel_index = Some 1\<rparr>"

lemma sample_service_X [simp]: "sf_X sample_service = ref_ext" "sf_workspace sample_service = ''w''"
  by (simp_all add: sample_service_def sample_ctx_def sample_env_def)

lemma sample_apply:
  "\<exists>db. apply_inbound_ack (sv_db sample_service_state) ''a'' ACK_DOWNLOADED 7 = Inr (db, DOWNLOADED)"
  by (simp add: apply_inbound_ack_def apply_ack_def with_row_def find_attachment_def sample_service_state_def empty_world_def empty_db_def
      sample_row_def new_sent_def apply_ack_downloaded_def delivery_for_def sample_delivery_def bind_res_def Let_def)

lemma sample_key:
  "ed_public ref_ext (replicate 32 9) = replicate 32 9" "compute_key_id ref_ext (replicate 32 9) = Inr (hex_of (replicate 8 9))"
  "load_signing_key ref_ext (env_ids sample_env) (env_principal sample_env) = Inr (replicate 32 9)"
  by (simp_all add: ref_ext_def compute_key_id_def sample_env_def load_signing_key_def)

lemma sample_lookup:
  "find_transfer (sv_db sample_service_state) ''w'' (hex_of (replicate 16 1)) Sent = Some (sample_row\<lparr>a_state := SENT\<rparr>)"
  "db_recipients (sv_db sample_service_state) = [sample_recipient]" "db_deliveries (sv_db sample_service_state) = [sample_delivery]"
  "a_id (sample_row\<lparr>a_state := SENT\<rparr>) = ''a''" "sf_adapter sample_service = Some sample_text_adapter" "env_X sample_env = ref_ext"
  by (simp_all add: find_transfer_def sample_service_state_def empty_world_def empty_db_def sample_row_def new_sent_def sample_args_def
      sample_service_def sample_env_def)

theorem acknowledgement_crosses_witness:
  "\<exists>rdb frame msg db. enqueue_control_message sample_env empty_db ''x'' (replicate 16 1) ACK_DOWNLOADED ''ack_downloaded_sent'' 5 DERIVE_REPLY_ROUTE
       = Inr (rdb, Some frame) \<and> to_text frame = Inr msg
     \<and> process_one_inbound_event sample_service False 7 (sample_event msg ''!0000000a'') sample_service_state
       = (with_db db sample_service_state, AppliedTo ''a'' DOWNLOADED)"
proof -
  obtain rdb frame where q: "enqueue_control_message sample_env empty_db ''x'' (replicate 16 1) ACK_DOWNLOADED ''ack_downloaded_sent'' 5
      DERIVE_REPLY_ROUTE = Inr (rdb, Some frame)" "encode_simple_ack ref_ext ACK_DOWNLOADED (replicate 16 1) (replicate 32 9) = Inr frame"
    by (simp add: enqueue_control_message_def control_already_enqueued_def empty_db_def sample_env_def load_signing_key_def
        ref_ext_def encode_simple_ack_def simple_ack_type_def sign_message_def domain_label_def Let_def)
  obtain msg where msg: "to_text frame = Inr msg"
    using simple_ack.text_roundtrip [of ref_ext "\<lparr>sa_message_type = ACK_DOWNLOADED, sa_transfer_id = replicate 16 1, sa_signature = None\<rparr>"
      "replicate 32 9" frame] q(2) by (auto simp: encode_ack_fields_def)
  obtain db where db: "apply_inbound_ack (sv_db sample_service_state) ''a'' ACK_DOWNLOADED 7 = Inr (db, DOWNLOADED)"
    using sample_apply by blast
  have "process_one_inbound_event sample_service False 7 (sample_event msg ''!0000000a'') sample_service_state
      = (with_db db sample_service_state, AppliedTo (a_id (sample_row\<lparr>a_state := SENT\<rparr>)) DOWNLOADED)"
    by (rule acknowledgement_crosses [where E = sample_env and sk = "replicate 32 9" and r = sample_recipient and d = sample_delivery
          and key_id = "hex_of (replicate 8 9)"])
      (use q msg db sample_lookup in \<open>simp_all add: sample_key sample_recipient_def sample_delivery_def sample_event_def is_contact_id_def
        INBOUND_ACK_TYPES_def\<close>)
  with q msg show ?thesis by (auto simp: sample_lookup)
qed

theorem inbound_effects_authentic_witness:
  "\<exists>st' e. process_one_inbound_event sample_service False 7 (sample_event ''MCA1:AAAA'' ''intruder'') sample_service_state = (st', e)
     \<and> attachment_effect sample_service 7 (sample_event ''MCA1:AAAA'' ''intruder'') sample_service_state st' e \<and> st' = sample_service_state"
proof -
  obtain st' e where p: "process_one_inbound_event sample_service False 7 (sample_event ''MCA1:AAAA'' ''intruder'') sample_service_state = (st', e)"
    by fastforce
  from inbound_effects_authentic [OF p] p show ?thesis
    by (auto simp: sample_event_def is_contact_id_def)
qed

theorem inbound_frames_accounted_witness:
  "\<exists>b. fold (inbound_act ref_ext) [Arrive (sample_event ''x'' ''!0000000a''), Arrive (sample_event ''y'' ''!0000000a''), DrainTick False] empty_ledger
       = (b, [sample_event ''x'' ''!0000000a'', sample_event ''y'' ''!0000000a''], [sample_event ''x'' ''!0000000a'', sample_event ''y'' ''!0000000a''], 0)
     \<and> ibf_queue b = [] \<and> ibf_deferred b = []"
proof -
  define b where "b = \<lparr>ibf_queue = [], ibf_deferred = [], ibf_dropped = 0\<rparr>"
  have "fold (inbound_act ref_ext) [Arrive (sample_event ''x'' ''!0000000a''), Arrive (sample_event ''y'' ''!0000000a''), DrainTick False] empty_ledger
      = (b, [sample_event ''x'' ''!0000000a'', sample_event ''y'' ''!0000000a''], [sample_event ''x'' ''!0000000a'', sample_event ''y'' ''!0000000a''], 0)"
    by (simp add: empty_ledger_def enqueue_inbound_def INBOUND_QUEUE_MAXSIZE_def drain_inbound_events_def MAX_INBOUND_EVENTS_PER_TICK_def
        replay_nothing eval_nat_numeral record_frame_def b_def)
  with inbound_frames_accounted [OF this] show ?thesis by simp
qed

end
