(* ===== verification/Service_Commands.thy ===== *)
theory Service_Commands
  imports Service_Inbound Command_Pipeline
begin

text \<open>
  The worker's handlers for attachment and contact commands, \<open>src/meshsrv/attachments/service.py\<close>: create, retry, download,
  reject, cancel, revoke, and the key commands of a contact, as entries of the dispatch table of \<open>Command_Pipeline\<close>. A
  command's \<open>attachment_id\<close> is a string, as the request handlers submit it. The vault is off, the connection is clean
  when a handler starts, and the read-only snapshots a handler republishes are not part of the state.
\<close>

section \<open>The worker\<close>

text \<open>What \<open>relay_client_factory\<close> returns for a provider, by the calls the handlers make on it.\<close>

record 'r relay_handle =
  rh_upload :: "'r upload_relay"
  rh_download :: relay_client
  rh_revoke :: "'r \<Rightarrow> bytes \<Rightarrow> string \<Rightarrow> 'r \<times> (relay_error + unit)"

record committed_handoff =
  ch_attachment_id :: string
  ch_canonical_hash :: string

text \<open>\<open>ww_spool\<close> holds the files of \<open>spool/outgoing/\<close> by name; \<open>ww_backlog\<close> the ids whose removal is retried.\<close>

record 'r worker_world =
  ww_service :: service_state
  ww_relay :: 'r
  ww_radio :: "(bytes \<times> route \<times> string) list"
  ww_spool :: "(string \<times> bytes) list"
  ww_pending :: pending_map
  ww_handoffs :: "string \<Rightarrow> committed_handoff option"
  ww_backlog :: "string list"

record 'r worker_env =
  we_service :: service_cfg
  we_relay :: "string \<Rightarrow> 'r relay_handle option"
  we_token_configured :: "string \<Rightarrow> bool"
  we_unlink_ok :: "string \<Rightarrow> bool"
  we_disk_usage :: "nat \<times> nat"
  we_urandom :: "nat \<Rightarrow> nat \<Rightarrow> bytes"
  we_fromisoformat :: "string \<Rightarrow> int option"
  we_spool_dir :: string
  we_adapter :: "send_adapter option"
  we_now :: timestamp

abbreviation we_env :: "'r worker_env \<Rightarrow> mca_env" where "we_env E \<equiv> rx_env (sf_recv (we_service E))"
abbreviation we_workspace :: "'r worker_env \<Rightarrow> string" where "we_workspace E \<equiv> sf_workspace (we_service E)"
abbreviation we_config :: "'r worker_env \<Rightarrow> ke_config" where "we_config E \<equiv> rx_config (sf_recv (we_service E))"
abbreviation we_providers :: "'r worker_env \<Rightarrow> provider_row list" where "we_providers E \<equiv> rx_providers (sf_recv (we_service E))"
abbreviation ww_db :: "'r worker_world \<Rightarrow> mca_db" where "ww_db w \<equiv> sv_db (ww_service w)"
abbreviation ww_keys :: "'r worker_world \<Rightarrow> ke_state" where "ww_keys w \<equiv> sv_keys (ww_service w)"

definition put_db :: "mca_db \<Rightarrow> 'r worker_world \<Rightarrow> 'r worker_world" where
  "put_db db w = w\<lparr>ww_service := with_db db (ww_service w)\<rparr>"

definition put_keys :: "ke_state \<Rightarrow> 'r worker_world \<Rightarrow> 'r worker_world" where
  "put_keys keys w = w\<lparr>ww_service := (ww_service w)\<lparr>sv_keys := keys\<rparr>\<rparr>"

section \<open>Outcomes\<close>

definition cmd_fails :: "string \<Rightarrow> 'w \<Rightarrow> 'w handler_end" where
  "cmd_fails code w = Returned (outcome_failed code) w"

definition cmd_succeeds :: "string \<Rightarrow> wire_object \<Rightarrow> 'w \<Rightarrow> 'w handler_end" where
  "cmd_succeeds rid answer w =
     Returned \<lparr>co_resource_id = Some rid, co_result = Some (JsonPayload answer), co_error_code = None\<rparr> w"

text \<open>The \<open>state\<close> column as text; sender and receiver share the names of the last three.\<close>

fun state_name :: "att_state \<Rightarrow> string" where
  "state_name DRAFT = ''DRAFT''" | "state_name VALIDATING = ''VALIDATING''" | "state_name ENCRYPTING = ''ENCRYPTING''"
| "state_name QUEUED_UPLOAD = ''QUEUED_UPLOAD''" | "state_name UPLOADING = ''UPLOADING''" | "state_name READY_TO_SEND = ''READY_TO_SEND''"
| "state_name SENT = ''SENT''" | "state_name RECEIVED = ''RECEIVED''" | "state_name DOWNLOADED = ''DOWNLOADED''"
| "state_name REVOKED = ''REVOKED''" | "state_name FAILED_VALIDATION = ''FAILED_VALIDATION''" | "state_name FAILED_UPLOAD = ''FAILED_UPLOAD''"
| "state_name FAILED_RADIO = ''FAILED_RADIO''" | "state_name OFFER_RECEIVED = ''OFFER_RECEIVED''" | "state_name WAITING_KEY = ''WAITING_KEY''"
| "state_name WAITING_PROVIDER = ''WAITING_PROVIDER''" | "state_name WAITING_NETWORK = ''WAITING_NETWORK''"
| "state_name WAITING_CONSENT = ''WAITING_CONSENT''" | "state_name DOWNLOADING = ''DOWNLOADING''" | "state_name VERIFYING = ''VERIFYING''"
| "state_name AVAILABLE = ''AVAILABLE''" | "state_name FAILED = ''FAILED''" | "state_name ST_EXPIRED = ''EXPIRED''"
| "state_name ST_REJECTED = ''REJECTED''" | "state_name CANCELLED = ''CANCELLED''"

definition state_result :: "string \<Rightarrow> att_state \<Rightarrow> 'r worker_world \<Rightarrow> 'r worker_world handler_end" where
  "state_result attachment_id state w =
     cmd_succeeds attachment_id [(''attachment_id'', WStr attachment_id), (''state'', WStr (state_name state))] w"

section \<open>Rows\<close>

definition payload_text :: "command \<Rightarrow> string \<Rightarrow> string option" where
  "payload_text c k = (case obj_get (cmd_payload c) k of WStr s \<Rightarrow> Some s | _ \<Rightarrow> None)"

definition attachment_row :: "'r worker_env \<Rightarrow> mca_db \<Rightarrow> string \<Rightarrow> attachment option" where
  "attachment_row E db attachment_id =
     (case find_attachment db attachment_id of
        None \<Rightarrow> None
      | Some a \<Rightarrow> if a_workspace_id a = we_workspace E then Some a else None)"

text \<open>Every attachment command starts with the row its payload names.\<close>

definition with_attachment ::
  "'r worker_env \<Rightarrow> command \<Rightarrow> 'r worker_world \<Rightarrow> (attachment \<Rightarrow> 'r worker_world handler_end) \<Rightarrow> 'r worker_world handler_end" where
  "with_attachment E c w f =
     (case Option.bind (payload_text c ''attachment_id'') (attachment_row E (ww_db w)) of
        None \<Rightarrow> cmd_fails ''attachment_not_found'' w
      | Some row \<Rightarrow> f row)"

text \<open>\<open>provider_id_column or None\<close>.\<close>

definition provider_id_text :: "attachment \<Rightarrow> string option" where
  "provider_id_text row = (case a_provider_id row of None \<Rightarrow> None | Some p \<Rightarrow> if p = [] then None else Some p)"

definition can_attempt :: "'r worker_env \<Rightarrow> string option \<Rightarrow> bool" where
  "can_attempt E p = (case p of None \<Rightarrow> False | Some t \<Rightarrow> sf_can_attempt_relay (we_service E) t)"

section \<open>Advancing one attachment\<close>

text \<open>The distinct recipient principals of an attachment, in row order.\<close>

definition recipient_principals :: "mca_db \<Rightarrow> string \<Rightarrow> string option list" where
  "recipient_principals db attachment_id =
     remdups (map rc_recipient_principal_id (filter (\<lambda>r. rc_attachment_id r = attachment_id) (db_recipients db)))"

definition first_delivery :: "mca_db \<Rightarrow> string \<Rightarrow> delivery_row option" where
  "first_delivery db attachment_id =
     (case sort_key dl_id (filter (\<lambda>d. dl_attachment_id d = attachment_id) (db_deliveries db)) of [] \<Rightarrow> None | d # _ \<Rightarrow> Some d)"

definition recipient_identity :: "'r worker_env \<Rightarrow> ke_state \<Rightarrow> delivery_row \<Rightarrow> string option \<Rightarrow> (string \<times> bytes) option" where
  "recipient_identity E keys d principal_id =
     (case principal_id of
        None \<Rightarrow> None
      | Some key_id \<Rightarrow>
          if key_id = [] then None
          else case get_binding_by_key_id (we_config E) keys key_id of
            None \<Rightarrow> None
          | Some b \<Rightarrow>
              if binding_status b \<noteq> MCA_READY \<or> b_adapter_id b \<noteq> dl_adapter_id d \<or> b_transport_address b \<noteq> dl_route_id d
              then None else Some (key_id, b_public_identity b))"

definition resolve_recipient_identities :: "'r worker_env \<Rightarrow> mca_db \<Rightarrow> ke_state \<Rightarrow> string \<Rightarrow> string \<rightharpoonup> bytes" where
  "resolve_recipient_identities E db keys attachment_id =
     (case first_delivery db attachment_id of
        None \<Rightarrow> Map.empty
      | Some d \<Rightarrow>
          if dl_route_type d \<noteq> ''DIRECT'' then Map.empty
          else if sf_adapter (we_service E) = None \<or> dl_adapter_id d \<noteq> meshtastic_adapter_id then Map.empty
          else map_of (List.map_filter (recipient_identity E keys d) (recipient_principals db attachment_id)))"

definition required_recipient_key_ids :: "mca_db \<Rightarrow> string \<Rightarrow> string list" where
  "required_recipient_key_ids db attachment_id =
     List.map_filter (\<lambda>p. case p of None \<Rightarrow> None | Some k \<Rightarrow> if k = [] then None else Some k) (recipient_principals db attachment_id)"

definition spool_contents :: "'r worker_env \<Rightarrow> 'r worker_world \<Rightarrow> string \<rightharpoonup> bytes" where
  "spool_contents E w = map_of (map (\<lambda>(name, content). (we_spool_dir E @ ''/'' @ name, content)) (ww_spool w))"

definition send_ctx_of :: "'r worker_env \<Rightarrow> 'r worker_world \<Rightarrow> send_ctx" where
  "send_ctx_of E w =
     \<lparr>sc_env = we_env E, sc_content = spool_contents E w, sc_disk_usage = we_disk_usage E, sc_urandom = we_urandom E,
      sc_fromisoformat = we_fromisoformat E\<rparr>"

definition run_sender :: "'r worker_env \<Rightarrow> attachment \<Rightarrow> (string \<rightharpoonup> bytes) option \<Rightarrow> 'r worker_world \<Rightarrow> 'r worker_world \<times> (send_error + att_state)" where
  "run_sender E row ids w =
     (let p = provider_id_text row in
      case sender_run_step (send_ctx_of E w) ids (map_option rh_upload (Option.bind p (we_relay E))) (we_adapter E) (can_attempt E p)
             \<lparr>sw_db = ww_db w, sw_relay = ww_relay w, sw_radio = ww_radio w\<rparr> (a_id row) (we_now E) of
        (W, r) \<Rightarrow> (put_db (sw_db W) w\<lparr>ww_relay := sw_relay W, ww_radio := sw_radio W\<rparr>, r))"

definition step_sent :: "'r worker_env \<Rightarrow> attachment \<Rightarrow> 'r worker_world \<Rightarrow> 'r worker_world \<times> (send_error + unit)" where
  "step_sent E row w =
     (let i = a_id row; db = ww_db w in
      case state_of db i of
        None \<Rightarrow> (w, Inl SenderError)
      | Some state \<Rightarrow>
          if state = ENCRYPTING then
            (let ids = resolve_recipient_identities E db (ww_keys w) i in
             if list_ex (\<lambda>k. ids k = None) (required_recipient_key_ids db i)
             then (put_db (fst (fail_recipients_not_trusted db i (we_now E))) w, Inr ())
             else (case run_sender E row (Some ids) w of (w', r) \<Rightarrow> (w', map_sum id (\<lambda>_. ()) r)))
          else (case run_sender E row None w of (w', r) \<Rightarrow> (w', map_sum id (\<lambda>_. ()) r)))"

definition step_received :: "'r worker_env \<Rightarrow> attachment \<Rightarrow> 'r worker_world \<Rightarrow> 'r worker_world \<times> (receive_error + unit)" where
  "step_received E row w =
     (let p = provider_id_text row;
          C = (sf_recv (we_service E))\<lparr>rx_keys := ww_keys w, rx_network := can_attempt E p\<rparr> in
      case run_step C (sv_world (ww_service w)) (a_id row) (map_option rh_download (Option.bind p (we_relay E))) (we_now E)
             (rx_auto_accept (sf_recv (we_service E))) of
        (W, r) \<Rightarrow> (w\<lparr>ww_service := (ww_service w)\<lparr>sv_world := W\<rparr>\<rparr>, map_sum id (\<lambda>_. ()) r))"

definition RECEIVER_AUTOMATIC_STATES :: "att_state list" where
  "RECEIVER_AUTOMATIC_STATES = [WAITING_KEY, WAITING_PROVIDER, WAITING_NETWORK, DOWNLOADING]"

section \<open>Retry, download, reject\<close>

definition report_state :: "string \<Rightarrow> 'r worker_world \<Rightarrow> 'r worker_world handler_end" where
  "report_state attachment_id w =
     (case state_of (ww_db w) attachment_id of
        None \<Rightarrow> handler_end.Raised w
      | Some state \<Rightarrow> state_result attachment_id state w)"

definition command_retry :: "'r worker_env \<Rightarrow> command \<Rightarrow> 'r worker_world \<Rightarrow> 'r worker_world handler_end" where
  "command_retry E c w = with_attachment E c w (\<lambda>row.
     case a_direction row of
       Sent \<Rightarrow>
         if a_state row \<notin> set AUTOMATIC_STATES then cmd_fails ''invalid_state_transition'' w
         else (case step_sent E row w of (w', Inl _) \<Rightarrow> handler_end.Raised w' | (w', Inr _) \<Rightarrow> report_state (a_id row) w')
     | Received \<Rightarrow>
         if a_state row \<notin> set RECEIVER_AUTOMATIC_STATES then cmd_fails ''invalid_state_transition'' w
         else (case step_received E row w of (w', Inl _) \<Rightarrow> handler_end.Raised w' | (w', Inr _) \<Rightarrow> report_state (a_id row) w'))"

definition command_download :: "'r worker_env \<Rightarrow> command \<Rightarrow> 'r worker_world \<Rightarrow> 'r worker_world handler_end" where
  "command_download E c w = with_attachment E c w (\<lambda>row.
     if a_direction row \<noteq> Received \<or> a_state row \<noteq> WAITING_CONSENT then cmd_fails ''invalid_state_transition'' w
     else case begin_download (ww_db w) (a_id row) (we_now E) of
       Inl ReceiverError \<Rightarrow> cmd_fails ''invalid_state_transition'' w
     | Inl _ \<Rightarrow> handler_end.Raised w
     | Inr db \<Rightarrow> state_result (a_id row) DOWNLOADING (put_db db w))"

definition EVENT_REJECTED_SENT :: string where "EVENT_REJECTED_SENT = ''rejected_sent''"

text \<open>\<open>_atomic\<close>: the block commits as a whole, or its writes are rolled back.\<close>

definition reject_and_enqueue :: "'r worker_env \<Rightarrow> mca_db \<Rightarrow> attachment \<Rightarrow> mca_error + mca_db" where
  "reject_and_enqueue E db row =
     bind_res (reject db (a_id row) (we_now E)) (\<lambda>db1.
     case fromhex (a_transfer_id row) of
       None \<Rightarrow> Inl ValueError
     | Some transfer_id \<Rightarrow>
         map_sum id fst (enqueue_control_message (we_env E) db1 (a_id row) transfer_id REJECTED EVENT_REJECTED_SENT (we_now E) DERIVE_REPLY_ROUTE))"

text \<open>\<open>CodecError\<close> is a \<open>ValueError\<close>, so it is reported like one.\<close>

fun is_value_error :: "mca_error \<Rightarrow> bool" where
  "is_value_error ValueError = True"
| "is_value_error (FromCodec CodecError) = True"
| "is_value_error _ = False"

definition reject_row :: "'r worker_env \<Rightarrow> 'r worker_world \<Rightarrow> attachment \<Rightarrow> 'r worker_world handler_end" where
  "reject_row E w row =
    (if a_direction row \<noteq> Received \<or> a_state row \<noteq> WAITING_CONSENT then cmd_fails ''invalid_state_transition'' w
     else case reject_and_enqueue E (ww_db w) row of
       Inl e \<Rightarrow> cmd_fails (if e = ReceiverError \<or> is_value_error e then ''invalid_state_transition'' else COMMAND_EXECUTION_FAILED) w
     | Inr db \<Rightarrow> state_result (a_id row) ST_REJECTED (put_db db w))"

definition command_reject :: "'r worker_env \<Rightarrow> command \<Rightarrow> 'r worker_world \<Rightarrow> 'r worker_world handler_end" where
  "command_reject E c w = with_attachment E c w (reject_row E w)"

section \<open>Cancel and revoke\<close>

text \<open>The remote half both commands run first: the provider pinned on the row, then \<open>RelayClient.revoke\<close>, whose 404 is
  confirmed absence. The flag says whether the object is known to be gone; \<open>None\<close> is an exception that is not a \<open>RelayError\<close>.\<close>

definition revoke_remote :: "'r worker_env \<Rightarrow> attachment \<Rightarrow> string \<Rightarrow> 'r worker_world \<Rightarrow> 'r worker_world \<times> bool option" where
  "revoke_remote E row revoke_token w =
     (case provider_id_text row of
        None \<Rightarrow> (w, Some False)
      | Some p \<Rightarrow>
          (case resolve (we_providers E) (we_workspace E) p of
             None \<Rightarrow> (w, Some False)
           | Some profile \<Rightarrow>
               if \<not> pv_enabled profile then (w, Some False)
               else case we_relay E p of
                 None \<Rightarrow> (w, Some False)
               | Some H \<Rightarrow>
                   (case fromhex (a_transfer_id row) of
                      None \<Rightarrow> (w, None)
                    | Some transfer_id \<Rightarrow>
                        (case rh_revoke H (ww_relay w) transfer_id revoke_token of
                           (R, r) \<Rightarrow>
                             (w\<lparr>ww_relay := R\<rparr>,
                              (case r of
                                 Inr _ \<Rightarrow> Some True
                               | Inl (RelayHTTPError code _) \<Rightarrow> Some (code = 404)
                               | Inl NotARelayError \<Rightarrow> None
                               | Inl _ \<Rightarrow> Some False))))))"

definition hex32 :: "string \<Rightarrow> bool" where
  "hex32 s \<longleftrightarrow> length s = 32 \<and> list_all (\<lambda>c. (48 \<le> ord c \<and> ord c \<le> 57) \<or> (97 \<le> ord c \<and> ord c \<le> 102)) s"

text \<open>\<open>codec.unlink_content\<close>: the plain file, then the encrypted form; the flag is false for an \<open>OSError\<close>.\<close>

definition unlink_content :: "'r worker_env \<Rightarrow> string \<Rightarrow> (string \<times> bytes) list \<Rightarrow> (string \<times> bytes) list \<times> bool" where
  "unlink_content E name spool =
     (if \<not> we_unlink_ok E name then (spool, False)
      else let spool1 = filter (\<lambda>f. fst f \<noteq> name) spool in
        if \<not> we_unlink_ok E (name @ ''.mcv'') then (spool1, False)
        else (filter (\<lambda>f. fst f \<noteq> name @ ''.mcv'') spool1, True))"

text \<open>The removal of a staged file by its attachment id; an id that is not 32 hex digits names no file.\<close>

definition remove_spool :: "'r worker_env \<Rightarrow> string \<Rightarrow> 'r worker_world \<Rightarrow> 'r worker_world \<times> bool" where
  "remove_spool E attachment_id w =
     (if \<not> hex32 attachment_id then (w, True)
      else case unlink_content E attachment_id (ww_spool w) of (spool, ok) \<Rightarrow> (w\<lparr>ww_spool := spool\<rparr>, ok))"

definition cancel_local :: "'r worker_env \<Rightarrow> attachment \<Rightarrow> 'r worker_world \<Rightarrow> 'r worker_world handler_end" where
  "cancel_local E row w =
     (case remove_spool E (a_id row) w of
        (w1, False) \<Rightarrow> cmd_fails ''spool_cleanup_failed'' w1
      | (w1, True) \<Rightarrow>
          (case cancel (update_attachment (a_id row) (\<lambda>a. a\<lparr>a_saved_path := None\<rparr>) (ww_db w1)) (a_id row) (we_now E) of
             Inl SenderError \<Rightarrow> cmd_fails ''invalid_state_transition'' w1
           | Inl _ \<Rightarrow> handler_end.Raised w1
           | Inr (db, _) \<Rightarrow> state_result (a_id row) CANCELLED (put_db db w1)))"

definition cancel_row :: "'r worker_env \<Rightarrow> 'r worker_world \<Rightarrow> attachment \<Rightarrow> 'r worker_world handler_end" where
  "cancel_row E w row =
    (if a_direction row \<noteq> Sent \<or> a_state row \<notin> set AUTOMATIC_STATES then cmd_fails ''invalid_state_transition'' w
     else (let s = get_sender_state (ww_db w) (a_id row);
               upload_id = Option.bind s ss_upload_id; revoke_token = Option.bind s ss_revoke_token in
       if upload_id = None \<and> revoke_token = None then cancel_local E row w
       else case revoke_token of
         None \<Rightarrow> cmd_fails ''relay_unreachable'' w
       | Some token \<Rightarrow>
           (case revoke_remote E row token w of
              (w1, None) \<Rightarrow> handler_end.Raised w1
            | (w1, Some False) \<Rightarrow> cmd_fails ''relay_unreachable'' w1
            | (w1, Some True) \<Rightarrow> cancel_local E row w1)))"

definition command_cancel :: "'r worker_env \<Rightarrow> command \<Rightarrow> 'r worker_world \<Rightarrow> 'r worker_world handler_end" where
  "command_cancel E c w = with_attachment E c w (cancel_row E w)"

definition get_revoke_state :: "mca_db \<Rightarrow> string \<Rightarrow> revoke_state option" where
  "get_revoke_state db attachment_id = find_by rv_attachment_id attachment_id (db_revoke_state db)"

definition stored_revoke_token :: "mca_db \<Rightarrow> string \<Rightarrow> string option" where
  "stored_revoke_token db attachment_id =
     (case get_revoke_state db attachment_id of
        Some s \<Rightarrow> Some (rv_revoke_token s)
      | None \<Rightarrow> Option.bind (get_sender_state db attachment_id) ss_revoke_token)"

definition cancel_route_for :: "mca_db \<Rightarrow> string \<Rightarrow> route_arg" where
  "cancel_route_for db attachment_id =
     (case first_delivery db attachment_id of
        None \<Rightarrow> NoRoute
      | Some d \<Rightarrow> GivenRoute \<lparr>rr_adapter_id = dl_adapter_id d, rr_connector_profile_id = dl_connector_profile_id d,
                    rr_route_type = dl_route_type d, rr_route_id = dl_route_id d, rr_destination_address = dl_route_id d\<rparr>)"

datatype revoke_error = RevokeSender send_error | RevokeOutbox mca_error

definition revoke_and_enqueue :: "'r worker_env \<Rightarrow> mca_db \<Rightarrow> attachment \<Rightarrow> revoke_error + mca_db" where
  "revoke_and_enqueue E db row =
     (case revoke db (a_id row) (we_now E) of
        Inl e \<Rightarrow> Inl (RevokeSender e)
      | Inr (db1, _) \<Rightarrow>
          if a_state row \<notin> set [SENT, RECEIVED] then Inr db1
          else case fromhex (a_transfer_id row) of
            None \<Rightarrow> Inl (RevokeOutbox ValueError)
          | Some transfer_id \<Rightarrow>
              map_sum RevokeOutbox fst (enqueue_control_message (we_env E) db1 (a_id row) transfer_id CANCEL CANCEL_EVENT_TYPE (we_now E)
                (cancel_route_for db (a_id row))))"

fun revoke_error_code :: "revoke_error \<Rightarrow> string" where
  "revoke_error_code (RevokeSender SenderError) = ''invalid_state_transition''"
| "revoke_error_code (RevokeOutbox e) = (if is_value_error e then ''invalid_state_transition'' else COMMAND_EXECUTION_FAILED)"
| "revoke_error_code (RevokeSender e) = COMMAND_EXECUTION_FAILED"

definition revoke_row :: "'r worker_env \<Rightarrow> 'r worker_world \<Rightarrow> attachment \<Rightarrow> 'r worker_world handler_end" where
  "revoke_row E w row =
    (if a_direction row \<noteq> Sent \<or> a_state row \<notin> set [SENT, RECEIVED, DOWNLOADED] then cmd_fails ''invalid_state_transition'' w
     else case stored_revoke_token (ww_db w) (a_id row) of
       None \<Rightarrow> cmd_fails ''relay_unreachable'' w
     | Some token \<Rightarrow>
         (case revoke_remote E row token w of
            (w1, None) \<Rightarrow> handler_end.Raised w1
          | (w1, Some False) \<Rightarrow> cmd_fails ''relay_unreachable'' w1
          | (w1, Some True) \<Rightarrow>
              (case revoke_and_enqueue E (ww_db w1) row of
                 Inl e \<Rightarrow> cmd_fails (revoke_error_code e) w1
               | Inr db \<Rightarrow> state_result (a_id row) REVOKED (put_db db w1))))"

definition command_revoke :: "'r worker_env \<Rightarrow> command \<Rightarrow> 'r worker_world \<Rightarrow> 'r worker_world handler_end" where
  "command_revoke E c w = with_attachment E c w (revoke_row E w)"

section \<open>Create\<close>

record create_payload =
  pl_attachment_id :: string
  pl_client_request_id :: string
  pl_canonical_hash :: string
  pl_source_address :: string
  pl_source_name :: string
  pl_mime_type :: string
  pl_provider_id :: string
  pl_comment :: "string option"
  pl_hard_ttl_seconds :: int
  pl_download_grace_seconds :: int

definition bounded_text :: "wire \<Rightarrow> nat \<Rightarrow> bool \<Rightarrow> string option" where
  "bounded_text v max_len allow_empty =
     (case v of
        WStr s \<Rightarrow> if max_len < length s \<or> (\<not> allow_empty \<and> s = []) \<or> CHR 0x00 \<in> set s then None else Some s
      | _ \<Rightarrow> None)"

definition checked_text :: "wire \<Rightarrow> (string \<Rightarrow> bool) \<Rightarrow> string option" where
  "checked_text v ok = (case v of WStr s \<Rightarrow> if ok s then Some s else None | _ \<Rightarrow> None)"

definition canonical_provider_id :: "string \<Rightarrow> bool" where
  "canonical_provider_id t \<longleftrightarrow> bind_res (decode_provider_id t) encode_provider_id = Inr t"

definition optional_comment :: "wire \<Rightarrow> string option option" where
  "optional_comment v =
     (case v of
        WNone \<Rightarrow> Some None
      | WStr s \<Rightarrow> if CHR 0x00 \<in> set s \<or> MAX_COMMENT_BYTES < length (utf8_encode s) then None else Some (Some s)
      | _ \<Rightarrow> None)"

definition positive_int :: "wire \<Rightarrow> int option" where
  "positive_int v = (case v of WInt i \<Rightarrow> if 0 < i then Some i else None | _ \<Rightarrow> None)"

definition validated_create_payload :: "command \<Rightarrow> create_payload option" where
  "validated_create_payload c =
     (let field = obj_get (cmd_payload c) in
      if cmd_kind c \<noteq> ''attachment_create'' then None
      else Option.bind (checked_text (field ''attachment_id'') hex32) (\<lambda>attachment_id.
        Option.bind (checked_text (field ''client_request_id'') validate_client_request_id) (\<lambda>client_request_id.
        Option.bind (checked_text (field ''canonical_hash'') validate_canonical_hash) (\<lambda>canonical_hash.
        Option.bind (bounded_text (field ''source_address'') 64 False) (\<lambda>source_address.
        Option.bind (bounded_text (field ''source_name'') 255 False) (\<lambda>source_name.
        Option.bind (bounded_text (field ''mime_type'') 128 False) (\<lambda>mime_type.
        Option.bind (checked_text (field ''provider_id'') canonical_provider_id) (\<lambda>provider_id.
        Option.bind (optional_comment (field ''comment'')) (\<lambda>comment.
        Option.bind (positive_int (field ''hard_ttl_seconds'')) (\<lambda>hard_ttl_seconds.
        Option.bind (positive_int (field ''download_grace_seconds'')) (\<lambda>download_grace_seconds.
        Some \<lparr>pl_attachment_id = attachment_id, pl_client_request_id = client_request_id, pl_canonical_hash = canonical_hash,
              pl_source_address = source_address, pl_source_name = source_name, pl_mime_type = mime_type, pl_provider_id = provider_id,
              pl_comment = comment, pl_hard_ttl_seconds = hard_ttl_seconds,
              pl_download_grace_seconds = download_grace_seconds\<rparr>)))))))))))"

definition SPOOL_CLEANUP_BACKLOG_MAXSIZE :: nat where "SPOOL_CLEANUP_BACKLOG_MAXSIZE = 256"

definition request_spool_cleanup :: "string \<Rightarrow> 'r worker_world \<Rightarrow> 'r worker_world" where
  "request_spool_cleanup attachment_id w =
     (if length (ww_backlog w) < SPOOL_CLEANUP_BACKLOG_MAXSIZE then w\<lparr>ww_backlog := List.insert attachment_id (ww_backlog w)\<rparr> else w)"

definition remove_unreferenced_spool :: "'r worker_env \<Rightarrow> string \<Rightarrow> 'r worker_world \<Rightarrow> 'r worker_world \<times> bool" where
  "remove_unreferenced_spool E attachment_id w =
     (case remove_spool E attachment_id w of
        (w1, True) \<Rightarrow> (w1, True)
      | (w1, False) \<Rightarrow> (request_spool_cleanup attachment_id w1, False))"

definition drop_reservation :: "string \<Rightarrow> 'r worker_world \<Rightarrow> 'r worker_world" where
  "drop_reservation client_request_id w = w\<lparr>ww_pending := remove_reservation client_request_id (ww_pending w)\<rparr>"

text \<open>Both payload values are used only when they are strings.\<close>

definition create_failure_cleanup :: "'r worker_env \<Rightarrow> command \<Rightarrow> 'r worker_world \<Rightarrow> 'r worker_world" where
  "create_failure_cleanup E c w =
     (let w1 = (case payload_text c ''client_request_id'' of None \<Rightarrow> w | Some r \<Rightarrow> drop_reservation r w) in
      case payload_text c ''attachment_id'' of None \<Rightarrow> w1 | Some i \<Rightarrow> fst (remove_unreferenced_spool E i w1))"

definition create_fails :: "'r worker_env \<Rightarrow> command \<Rightarrow> string \<Rightarrow> 'r worker_world \<Rightarrow> 'r worker_world handler_end" where
  "create_fails E c code w = cmd_fails code (create_failure_cleanup E c w)"

definition record_committed_handoff :: "string \<Rightarrow> string \<Rightarrow> string \<Rightarrow> 'r worker_world \<Rightarrow> 'r worker_world" where
  "record_committed_handoff client_request_id attachment_id canonical_hash w =
     w\<lparr>ww_handoffs := (ww_handoffs w)(client_request_id \<mapsto> \<lparr>ch_attachment_id = attachment_id, ch_canonical_hash = canonical_hash\<rparr>)\<rparr>"

definition promote_duplicate_reservation :: "command \<Rightarrow> string \<Rightarrow> string \<Rightarrow> string \<Rightarrow> 'r worker_world \<Rightarrow> 'r worker_world" where
  "promote_duplicate_reservation c client_request_id original_id canonical_hash w =
     record_committed_handoff client_request_id original_id canonical_hash
       (w\<lparr>ww_pending := replace_reservation client_request_id
            \<lparr>pr_canonical_hash = canonical_hash, pr_attachment_id = original_id, pr_command_id = cmd_id c\<rparr> (ww_pending w)\<rparr>)"

text \<open>Everything local that can refuse a create before the recipient is looked up.\<close>

definition create_refusal :: "'r worker_env \<Rightarrow> create_payload \<Rightarrow> 'r worker_world \<Rightarrow> string option" where
  "create_refusal E p w =
     (case resolve (we_providers E) (we_workspace E) (pl_provider_id p) of
        None \<Rightarrow> Some ''provider_not_found''
      | Some provider \<Rightarrow>
          if \<not> pv_enabled provider then Some ''provider_disabled''
          else if \<not> pv_upload_allowed provider then Some ''upload_not_allowed''
          else if \<not> we_token_configured E (pl_provider_id p) then Some ''upload_token_missing''
          else if (case map_of (ww_spool w) (pl_attachment_id p) of
                     None \<Rightarrow> False
                   | Some content \<Rightarrow>
                       (case ciphertext_size (int (length content)) of Inl _ \<Rightarrow> False | Inr n \<Rightarrow> pv_max_ciphertext_bytes provider < n))
          then Some ''ciphertext_too_large'' else None)"

definition create_args :: "'r worker_env \<Rightarrow> create_payload \<Rightarrow> binding_row \<Rightarrow> bytes \<Rightarrow> draft_args" where
  "create_args E p b provider_id =
     \<lparr>da_workspace_id = we_workspace E, da_source_path = we_spool_dir E @ ''/'' @ pl_attachment_id p, da_file_name = pl_source_name p,
      da_mime_type = pl_mime_type p,
      da_recipients = [\<lparr>rt_public_identity = b_public_identity b, rt_key_id = b_sender_key_id b\<rparr>], da_adapter_id = ''meshtastic'',
      da_connector_profile_id = ''meshtastic'', da_route_type = ''DIRECT'', da_route_id = pl_source_address p,
      da_provider_id = provider_id, da_comment = pl_comment p, da_hard_ttl_seconds = pl_hard_ttl_seconds p,
      da_download_grace_seconds = pl_download_grace_seconds p, da_attachment_id = Some (pl_attachment_id p),
      da_client_request_id = Some (pl_client_request_id p), da_canonical_hash = Some (pl_canonical_hash p)\<rparr>"

text \<open>The INSERT violated a constraint: a repeat of a committed request, a conflicting one, or something else.\<close>

definition create_duplicate :: "'r worker_env \<Rightarrow> command \<Rightarrow> create_payload \<Rightarrow> 'r worker_world \<Rightarrow> 'r worker_world handler_end" where
  "create_duplicate E c p w =
     (case remove_unreferenced_spool E (pl_attachment_id p) w of
        (w1, removed) \<Rightarrow>
          (case find_by (\<lambda>a. (a_workspace_id a, a_client_request_id a)) (we_workspace E, Some (pl_client_request_id p))
                  (db_attachments (ww_db w1)) of
             None \<Rightarrow> handler_end.Raised (drop_reservation (pl_client_request_id p) w1)
           | Some row \<Rightarrow>
               if a_canonical_hash row = Some (pl_canonical_hash p) then
                 (if \<not> removed then cmd_fails ''spool_cleanup_failed'' (drop_reservation (pl_client_request_id p) w1)
                  else state_result (a_id row) (a_state row)
                         (promote_duplicate_reservation c (pl_client_request_id p) (a_id row) (pl_canonical_hash p) w1))
               else cmd_fails ''idempotency_conflict'' (drop_reservation (pl_client_request_id p) w1)))"

definition create_commit :: "'r worker_env \<Rightarrow> command \<Rightarrow> create_payload \<Rightarrow> binding_row \<Rightarrow> 'r worker_world \<Rightarrow> 'r worker_world handler_end" where
  "create_commit E c p b w =
     (case decode_provider_id (pl_provider_id p) of
        Inl _ \<Rightarrow> handler_end.Raised (create_failure_cleanup E c w)
      | Inr provider_id \<Rightarrow>
          (case create_draft (send_ctx_of E w) (ww_db w) (create_args E p b provider_id) (we_now E) of
             Inl S_IntegrityError \<Rightarrow> create_duplicate E c p w
           | Inl _ \<Rightarrow> handler_end.Raised (create_failure_cleanup E c w)
           | Inr (db, _) \<Rightarrow>
               state_result (pl_attachment_id p) DRAFT
                 (record_committed_handoff (pl_client_request_id p) (pl_attachment_id p) (pl_canonical_hash p) (put_db db w))))"

definition command_create :: "'r worker_env \<Rightarrow> command \<Rightarrow> 'r worker_world \<Rightarrow> 'r worker_world handler_end" where
  "command_create E c w =
     (case validated_create_payload c of
        None \<Rightarrow> create_fails E c ''invalid_payload'' w
      | Some p \<Rightarrow>
          (case create_refusal E p w of
             Some code \<Rightarrow> create_fails E c code w
           | None \<Rightarrow>
               (case get_binding (we_config E) (ww_keys w) (pl_source_address p) of
                  None \<Rightarrow> create_fails E c ''recipient_not_found'' w
                | Some b \<Rightarrow>
                    if binding_status b \<noteq> MCA_READY then create_fails E c ''recipient_not_trusted'' w
                    else create_commit E c p b w)))"

section \<open>Contacts\<close>

definition contact_outcome :: "string \<Rightarrow> string \<Rightarrow> 'r worker_world \<Rightarrow> 'r worker_world handler_end" where
  "contact_outcome contact_id status w =
     cmd_succeeds contact_id [(''contact_id'', WStr contact_id), (''status'', WStr status)] w"

text \<open>The checks on the address: a canonical node id, and the one adapter there is.\<close>

definition with_contact :: "command \<Rightarrow> 'r worker_world \<Rightarrow> (string \<Rightarrow> 'r worker_world handler_end) \<Rightarrow> 'r worker_world handler_end" where
  "with_contact c w f =
     (case payload_text c ''contact_id'' of
        None \<Rightarrow> cmd_fails ''invalid_contact_id'' w
      | Some contact_id \<Rightarrow>
          if \<not> is_contact_id contact_id \<or> payload_text c ''adapter_id'' \<noteq> Some ''meshtastic'' then cmd_fails ''invalid_contact_id'' w
          else f contact_id)"

definition direct_route :: "string \<Rightarrow> route" where
  "direct_route address = \<lparr>rt_route_type = DIRECT, rt_route_id = address, rt_destination_address = Some address\<rparr>"

definition send_key_request :: "'r worker_env \<Rightarrow> command \<Rightarrow> string \<Rightarrow> text_adapter \<Rightarrow> bytes \<Rightarrow> 'r worker_world \<Rightarrow> 'r worker_world handler_end" where
  "send_key_request E c contact_id A key_request w =
     (case adapter_encode A key_request (direct_route contact_id) of
        Inl (DeliveryError _) \<Rightarrow> cmd_fails ''radio_unavailable'' w
      | Inl _ \<Rightarrow> handler_end.Raised w
      | Inr wire_payload \<Rightarrow>
          (case adapter_send A wire_payload (direct_route contact_id) (cmd_id c) (we_now E) of
             Inl (DeliveryError _) \<Rightarrow> cmd_fails ''radio_unavailable'' w
           | Inl _ \<Rightarrow> handler_end.Raised w
           | Inr receipt \<Rightarrow>
               if \<not> dr_sent receipt then cmd_fails ''radio_unavailable'' w
               else contact_outcome contact_id ''requested''
                      (put_keys (start_key_request_series (we_config E)
                         (record_key_request_sent (we_config E) (ww_keys w) contact_id (we_now E)) contact_id (we_now E))
                       (w\<lparr>ww_radio := ww_radio w @ [(wire_payload, direct_route contact_id, cmd_id c)]\<rparr>))))"

definition command_request_key :: "'r worker_env \<Rightarrow> command \<Rightarrow> 'r worker_world \<Rightarrow> 'r worker_world handler_end" where
  "command_request_key E c w = with_contact c w (\<lambda>contact_id.
     if payload_text c ''route_id'' \<noteq> Some contact_id then cmd_fails ''invalid_contact_id'' w
     else if get_status (we_config E) (ww_keys w) contact_id = MCA_READY then cmd_fails ''key_already_known'' w
     else case check_key_request_rate_limit (we_config E) (ww_keys w) contact_id (we_now E) of
       Inl RateLimited \<Rightarrow> cmd_fails ''rate_limited'' w
     | Inl _ \<Rightarrow> handler_end.Raised w
     | Inr _ \<Rightarrow>
         (case sf_adapter (we_service E) of
            None \<Rightarrow> cmd_fails ''radio_unavailable'' w
          | Some A \<Rightarrow>
              (case build_key_request (env_X (we_env E)) (we_config E) (ww_keys w) of
                 Inl _ \<Rightarrow> handler_end.Raised w
               | Inr key_request \<Rightarrow> send_key_request E c contact_id A key_request w)))"

definition command_cancel_key_request :: "'r worker_env \<Rightarrow> command \<Rightarrow> 'r worker_world \<Rightarrow> 'r worker_world handler_end" where
  "command_cancel_key_request E c w =
     (case payload_text c ''contact_id'' of
        None \<Rightarrow> cmd_fails ''invalid_contact_id'' w
      | Some contact_id \<Rightarrow>
          if \<not> is_contact_id contact_id then cmd_fails ''invalid_contact_id'' w
          else contact_outcome contact_id ''cancelled'' (put_keys (end_key_request_series (we_config E) (ww_keys w) contact_id) w))"

text \<open>The three trust commands re-read the binding and act only from one status; \<open>caught\<close> says whether the handler catches
  \<open>ContactError\<close>.\<close>

definition trust_command ::
  "'r worker_env \<Rightarrow> command \<Rightarrow> 'r worker_world \<Rightarrow> address_status \<Rightarrow> bool \<Rightarrow> (string \<Rightarrow> ke_state \<times> (contact_error + unit)) \<Rightarrow> string
    \<Rightarrow> 'r worker_world handler_end" where
  "trust_command E c w required_status caught act status = with_contact c w (\<lambda>contact_id.
     case get_binding (we_config E) (ww_keys w) contact_id of
       None \<Rightarrow> cmd_fails ''contact_not_found'' w
     | Some b \<Rightarrow>
         if binding_status b \<noteq> required_status then cmd_fails ''invalid_state_transition'' w
         else (case act contact_id of
                 (keys, Inr _) \<Rightarrow> contact_outcome contact_id status (put_keys keys w)
               | (keys, Inl e) \<Rightarrow>
                   if caught \<and> e = ContactError then cmd_fails ''invalid_state_transition'' (put_keys keys w)
                   else handler_end.Raised (put_keys keys w)))"

definition command_confirm :: "'r worker_env \<Rightarrow> command \<Rightarrow> 'r worker_world \<Rightarrow> 'r worker_world handler_end" where
  "command_confirm E c w = trust_command E c w KEY_UNVERIFIED False (\<lambda>i. confirm_binding (we_config E) (ww_keys w) i (we_now E)) ''trusted''"

definition command_accept_key_change :: "'r worker_env \<Rightarrow> command \<Rightarrow> 'r worker_world \<Rightarrow> 'r worker_world handler_end" where
  "command_accept_key_change E c w =
     trust_command E c w KEY_CHANGED True (\<lambda>i. accept_key_change (env_X (we_env E)) (we_config E) (ww_keys w) i (we_now E)) ''confirmation_required''"

definition command_reject_key_change :: "'r worker_env \<Rightarrow> command \<Rightarrow> 'r worker_world \<Rightarrow> 'r worker_world handler_end" where
  "command_reject_key_change E c w =
     trust_command E c w KEY_CHANGED True (\<lambda>i. reject_key_change (we_config E) (ww_keys w) i) ''trusted''"

end
