(* ===== verification/Service_Commands_Properties.thy ===== *)
theory Service_Commands_Properties
  imports Service_Commands Service_Inbound_Properties End_To_End_Example
begin

text \<open>
  What the attachment commands promise: a create commits one draft for a trusted recipient or nothing, a rejection and its
  message are one transaction, a cancel or revoke changes the row only after the Relay has confirmed that the object is gone,
  and a file is sealed only for the key confirmed at the address it is sent to.
\<close>

section \<open>Worlds\<close>

fun end_world :: "'w handler_end \<Rightarrow> 'w" where
  "end_world (Returned outcome w) = w"
| "end_world (ReturnedOther w) = w"
| "end_world (handler_end.Raised w) = w"

text \<open>The error code a handler reports; \<open>None\<close> for success. An exception is recorded as \<open>command_execution_failed\<close>.\<close>

fun end_error :: "'w handler_end \<Rightarrow> string option" where
  "end_error (Returned outcome w) = co_error_code outcome"
| "end_error (ReturnedOther w) = Some COMMAND_EXECUTION_FAILED"
| "end_error (handler_end.Raised w) = Some COMMAND_EXECUTION_FAILED"

lemma ends [simp]:
  "end_world (cmd_fails code w) = w" "end_error (cmd_fails code w) = Some code"
  "end_world (cmd_succeeds rid v w) = w" "end_error (cmd_succeeds rid v w) = None"
  by (simp_all add: cmd_fails_def cmd_succeeds_def outcome_failed_def)

lemma state_result_ends [simp]: "end_world (state_result i st w) = w" "end_error (state_result i st w) = None"
  by (simp_all add: state_result_def)

lemma put_db_simps [simp]:
  "ww_db (put_db db w) = db" "ww_keys (put_db db w) = ww_keys w" "ww_relay (put_db db w) = ww_relay w"
  "ww_spool (put_db db w) = ww_spool w" "ww_pending (put_db db w) = ww_pending w" "ww_handoffs (put_db db w) = ww_handoffs w"
  "ww_backlog (put_db db w) = ww_backlog w" "ww_radio (put_db db w) = ww_radio w"
  by (simp_all add: put_db_def)

lemma attachment_row_Some:
  assumes "attachment_row E db i = Some row"
  shows "find_attachment db i = Some row" "a_id row = i" "a_workspace_id row = we_workspace E"
  using assms find_attachment_id [of db i row] by (auto simp: attachment_row_def split: option.splits if_splits)

lemma with_attachment_cases:
  obtains (missing) "with_attachment E c w f = cmd_fails ''attachment_not_found'' w"
  | (found) row i where "payload_text c ''attachment_id'' = Some i" "attachment_row E (ww_db w) i = Some row" "a_id row = i"
      "find_attachment (ww_db w) i = Some row" "with_attachment E c w f = f row"
proof (cases "Option.bind (payload_text c ''attachment_id'') (attachment_row E (ww_db w))")
  case None
  then show ?thesis by (intro missing) (simp add: with_attachment_def)
next
  case (Some row)
  then obtain i where "payload_text c ''attachment_id'' = Some i" "attachment_row E (ww_db w) i = Some row"
    by (auto simp: bind_eq_Some_conv)
  with attachment_row_Some [OF this(2)] Some show ?thesis by (intro found [of i row]) (simp_all add: with_attachment_def)
qed

section \<open>Revoke and cancel\<close>

text \<open>The Relay answered that the object of a transfer is gone.\<close>

definition relay_confirms_gone :: "'r worker_env \<Rightarrow> attachment \<Rightarrow> string \<Rightarrow> 'r \<Rightarrow> 'r \<Rightarrow> bool" where
  "relay_confirms_gone E row token R R' \<longleftrightarrow>
     (\<exists>p profile H transfer_id r.
        a_provider_id row = Some p \<and> resolve (we_providers E) (we_workspace E) p = Some profile \<and> pv_enabled profile
        \<and> we_relay E p = Some H \<and> fromhex (a_transfer_id row) = Some transfer_id
        \<and> rh_revoke H R transfer_id token = (R', r) \<and> (r = Inr () \<or> (\<exists>code. r = Inl (RelayHTTPError 404 code))))"

lemma revoke_remote_keeps:
  assumes "revoke_remote E row token w = (w', gone)"
  shows "w' = w\<lparr>ww_relay := ww_relay w'\<rparr>"
  using assms by (auto simp: revoke_remote_def split: option.splits if_splits prod.splits)

lemma revoke_remote_gone:
  assumes "revoke_remote E row token w = (w', Some True)"
  shows "relay_confirms_gone E row token (ww_relay w) (ww_relay w')"
proof -
  obtain p profile H tid r where *: "provider_id_text row = Some p" "resolve (we_providers E) (we_workspace E) p = Some profile"
    "pv_enabled profile" "we_relay E p = Some H" "fromhex (a_transfer_id row) = Some tid"
    "rh_revoke H (ww_relay w) tid token = (ww_relay w', r)"
    "(case r of Inr _ \<Rightarrow> Some True | Inl (RelayHTTPError code _) \<Rightarrow> Some (code = 404) | Inl NotARelayError \<Rightarrow> None | Inl _ \<Rightarrow> Some False) = Some True"
    using assms by (auto simp: revoke_remote_def split: option.splits if_splits prod.splits)
  have "a_provider_id row = Some p"
    using *(1) by (auto simp: provider_id_text_def split: option.splits if_splits)
  moreover have "r = Inr () \<or> (\<exists>code. r = Inl (RelayHTTPError 404 code))"
    using *(7) by (auto split: sum.splits relay_error.splits)
  ultimately show ?thesis
    using * unfolding relay_confirms_gone_def by blast
qed

lemma remove_spool_keeps:
  assumes "remove_spool E i w = (w', ok)"
  shows "w' = w\<lparr>ww_spool := ww_spool w'\<rparr>"
  using assms by (auto simp: remove_spool_def split: if_splits prod.splits)

lemma revoke_remote_db: "revoke_remote E row t w = (w1, g) \<Longrightarrow> ww_service w1 = ww_service w"
  by (drule revoke_remote_keeps) (metis worker_world.select_convs(1) worker_world.update_convs(2) worker_world.surjective)

lemma revoke_row_cases:
  assumes "ww_db (end_world (revoke_row E w row)) \<noteq> ww_db w \<or> end_error (revoke_row E w row) = None"
  obtains token w1 db where "a_direction row = Sent" "a_state row \<in> {SENT, RECEIVED, DOWNLOADED}"
    "stored_revoke_token (ww_db w) (a_id row) = Some token" "revoke_remote E row token w = (w1, Some True)"
    "revoke_and_enqueue E (ww_db w) row = Inr db" "revoke_row E w row = state_result (a_id row) REVOKED (put_db db w1)"
  using assms revoke_remote_db [of E row]
  by (auto simp: revoke_row_def split: if_splits option.splits prod.splits bool.splits sum.splits intro!: that)

text \<open>The database a confirmed revocation leaves: the row is REVOKED and its capabilities are dropped, and, unless the
  recipient has the file already, one CANCEL to the node the offer was sent to is queued with it.\<close>

definition revoked_db :: "'r worker_env \<Rightarrow> mca_db \<Rightarrow> attachment \<Rightarrow> mca_db \<Rightarrow> bool" where
  "revoked_db E db row db' \<longleftrightarrow>
     state_of db' (a_id row) = Some REVOKED \<and> get_sender_state db' (a_id row) = None \<and> get_revoke_state db' (a_id row) = None
     \<and> (a_state row = DOWNLOADED \<longrightarrow> db_replies db' = db_replies db)
     \<and> (a_state row \<noteq> DOWNLOADED \<longrightarrow> control_already_enqueued db' (a_id row) CANCEL_EVENT_TYPE
        \<and> (\<exists>rs. db_replies db' = db_replies db @ rs
             \<and> (\<forall>r \<in> set rs. r_attachment_id r = a_id row \<and> r_event_type r = CANCEL_EVENT_TYPE \<and> r_state r = PENDING
                  \<and> (\<forall>d. first_delivery db (a_id row) = Some d \<longrightarrow>
                       r_route_type r = Some (dl_route_type d) \<and> r_route_id r = Some (dl_route_id d)))))"

lemma find_by_dropped: "find_by key k (filter (\<lambda>r. key r \<noteq> k) rows) = None"
  by (auto simp: find_by_None)

lemma revoke_Inr:
  assumes "revoke db i now = Inr (db1, st)"
  shows "state_of db1 i = Some REVOKED" "get_sender_state db1 i = None" "get_revoke_state db1 i = None" "db_replies db1 = db_replies db"
proof -
  obtain row where row: "find_attachment db i = Some row"
    and db1: "db1 = drop_revoke_state i (drop_sender_state i (sender_set_state db i REVOKED now None))"
    using assms by (auto simp: revoke_def with_row_def split: option.splits if_splits)
  show "state_of db1 i = Some REVOKED"
    using row by (simp add: db1 state_of_def find_moves)
  show "get_sender_state db1 i = None" "get_revoke_state db1 i = None" "db_replies db1 = db_replies db"
    by (simp_all add: db1 get_sender_state_def get_revoke_state_def drop_revoke_state_def drop_sender_state_def find_by_dropped sender_set_state_def)
qed

lemma enqueue_keeps:
  assumes "enqueue_control_message E db i tid t evt now route = Inr (db', frame)"
  shows "state_of db' j = state_of db j" "get_sender_state db' j = get_sender_state db j" "get_revoke_state db' j = get_revoke_state db j"
    "control_already_enqueued db' i evt"
  using assms
  by (cases rule: enqueue_Inr;
      auto simp: state_of_def find_attachment_def get_sender_state_def get_revoke_state_def control_already_enqueued_def new_reply_def)+

lemma revoke_and_enqueue_ok:
  assumes "revoke_and_enqueue E db row = Inr db'" and "a_state row \<in> {SENT, RECEIVED, DOWNLOADED}"
  shows "revoked_db E db row db'"
proof -
  obtain db1 st where r: "revoke db (a_id row) (we_now E) = Inr (db1, st)"
    using assms(1) by (auto simp: revoke_and_enqueue_def split: sum.splits)
  note r1 = revoke_Inr [OF r]
  show ?thesis
  proof (cases "a_state row = DOWNLOADED")
    case True
    then show ?thesis
      using assms(1) r r1 by (simp add: revoke_and_enqueue_def revoked_db_def)
  next
    case False
    then obtain tid frame where q: "enqueue_control_message (we_env E) db1 (a_id row) tid CANCEL CANCEL_EVENT_TYPE (we_now E)
        (cancel_route_for db (a_id row)) = Inr (db', frame)"
      using assms r by (auto simp: revoke_and_enqueue_def map_sum_def split: option.splits sum.splits)
    have "\<exists>rs. db_replies db' = db_replies db @ rs \<and> (\<forall>r \<in> set rs. r_attachment_id r = a_id row \<and> r_event_type r = CANCEL_EVENT_TYPE
        \<and> r_state r = PENDING \<and> (\<forall>d. first_delivery db (a_id row) = Some d \<longrightarrow>
             r_route_type r = Some (dl_route_type d) \<and> r_route_id r = Some (dl_route_id d)))"
      using q r1(4)
      by (cases rule: enqueue_Inr) (auto simp: new_reply_def snapshot_of_def cancel_route_for_def)
    then show ?thesis
      using False r1 enqueue_keeps [OF q] by (simp add: revoked_db_def)
  qed
qed

text \<open>C12. Revocation is confirmed by the Relay first. Whatever the command, if it reports success or the database changes at all,
  the row was a sent one in SENT, RECEIVED or DOWNLOADED, the Relay of the provider pinned on the row has answered for this
  transfer, with the token kept for it, that the object is revoked or not there, and the change is the whole revocation with
  its CANCEL in one transaction; in every other case the database is exactly what it was.\<close>

theorem revoke_confirmed_first:
  assumes "ww_db (end_world (command_revoke E c w)) \<noteq> ww_db w \<or> end_error (command_revoke E c w) = None"
  shows "\<exists>row token. find_attachment (ww_db w) (a_id row) = Some row \<and> payload_text c ''attachment_id'' = Some (a_id row)
    \<and> a_direction row = Sent \<and> a_state row \<in> {SENT, RECEIVED, DOWNLOADED}
    \<and> stored_revoke_token (ww_db w) (a_id row) = Some token
    \<and> relay_confirms_gone E row token (ww_relay w) (ww_relay (end_world (command_revoke E c w)))
    \<and> revoked_db E (ww_db w) row (ww_db (end_world (command_revoke E c w)))"
proof (cases rule: with_attachment_cases [of E c w "revoke_row E w"])
  case missing
  with assms show ?thesis by (simp add: command_revoke_def)
next
  case (found row i)
  have run: "command_revoke E c w = revoke_row E w row"
    using found(5) by (simp add: command_revoke_def)
  obtain token w1 db where r: "a_direction row = Sent" "a_state row \<in> {SENT, RECEIVED, DOWNLOADED}"
    "stored_revoke_token (ww_db w) (a_id row) = Some token" "revoke_remote E row token w = (w1, Some True)"
    "revoke_and_enqueue E (ww_db w) row = Inr db" "revoke_row E w row = state_result (a_id row) REVOKED (put_db db w1)"
    using assms unfolding run by (rule revoke_row_cases)
  have "revoked_db E (ww_db w) row db"
    using r(5,2) by (rule revoke_and_enqueue_ok)
  then show ?thesis
    using found r revoke_remote_gone [OF r(4)] unfolding run
    by (intro exI [of _ row] exI [of _ token]) simp
qed

section \<open>Reject\<close>

text \<open>A rejection and its message are one transaction. The command succeeds only for a received row waiting for consent, and
  then the row is REJECTED and the signed REJECTED to the offer's sender is in the outbox; in every other case, an exception
  between the two writes included, nothing at all has changed.\<close>

theorem reject_atomic:
  shows "end_error (command_reject E c w) = None \<and>
      (\<exists>row. find_attachment (ww_db w) (a_id row) = Some row \<and> payload_text c ''attachment_id'' = Some (a_id row)
         \<and> a_direction row = Received \<and> a_state row = WAITING_CONSENT
         \<and> state_of (ww_db (end_world (command_reject E c w))) (a_id row) = Some ST_REJECTED
         \<and> control_already_enqueued (ww_db (end_world (command_reject E c w))) (a_id row) EVENT_REJECTED_SENT
         \<and> (\<exists>rs. db_replies (ww_db (end_world (command_reject E c w))) = db_replies (ww_db w) @ rs \<and> length rs \<le> 1
              \<and> (\<forall>r \<in> set rs. r_route_id r = a_reply_route_id row \<and> r_state r = PENDING)))
    \<or> end_error (command_reject E c w) \<noteq> None \<and> end_world (command_reject E c w) = w"
proof (cases rule: with_attachment_cases [of E c w "reject_row E w"])
  case missing
  then show ?thesis by (simp add: command_reject_def)
next
  case (found row i)
  have run: "command_reject E c w = reject_row E w row"
    using found(5) by (simp add: command_reject_def)
  show ?thesis
  proof (cases "end_error (reject_row E w row) = None")
    case False
    then show ?thesis
      unfolding run by (auto simp: reject_row_def split: if_splits sum.splits)
  next
    case True
    then obtain db where g: "a_direction row = Received" "a_state row = WAITING_CONSENT"
      and q: "reject_and_enqueue E (ww_db w) row = Inr db"
      and e: "reject_row E w row = state_result (a_id row) ST_REJECTED (put_db db w)"
      by (auto simp: reject_row_def split: if_splits sum.splits)
    have "reject (ww_db w) (a_id row) (we_now E) = Inr (set_state (ww_db w) (a_id row) ST_REJECTED None)"
      using found g by (simp add: reject_def)
    then obtain tid frame where m: "enqueue_control_message (we_env E) (set_state (ww_db w) (a_id row) ST_REJECTED None) (a_id row) tid REJECTED
        EVENT_REJECTED_SENT (we_now E) DERIVE_REPLY_ROUTE = Inr (db, frame)"
      using q by (auto simp: reject_and_enqueue_def map_sum_def split: option.splits sum.splits)
    have st: "state_of (set_state (ww_db w) (a_id row) ST_REJECTED None) (a_id row) = Some ST_REJECTED"
      using found by (simp add: set_state_def state_of_def find_update_attachment)
    have rs: "\<exists>rs. db_replies db = db_replies (ww_db w) @ rs \<and> length rs \<le> 1
        \<and> (\<forall>r \<in> set rs. r_route_id r = a_reply_route_id row \<and> r_state r = PENDING)"
      using m found by (cases rule: enqueue_Inr)
        (auto simp: set_state_def new_reply_def snapshot_of_def reply_route_snapshot_def find_update_attachment)
    show ?thesis
      unfolding run e using found g st rs enqueue_keeps [OF m]
      by (intro disjI1 conjI exI [of _ row]) simp_all
  qed
qed

section \<open>Sealing\<close>

lemma resolved_identity:
  assumes "resolve_recipient_identities E db keys i k = Some pk"
  shows "\<exists>d b. first_delivery db i = Some d \<and> dl_route_type d = ''DIRECT'' \<and> get_binding_by_key_id (we_config E) keys k = Some b
    \<and> binding_status b = MCA_READY \<and> b_transport_address b = dl_route_id d \<and> b_adapter_id b = dl_adapter_id d \<and> pk = b_public_identity b"
proof -
  obtain d where d: "first_delivery db i = Some d" "dl_route_type d = ''DIRECT''"
    and m: "map_of (List.map_filter (recipient_identity E keys d) (recipient_principals db i)) k = Some pk"
    using assms by (auto simp: resolve_recipient_identities_def split: option.splits if_splits)
  from map_of_SomeD [OF m] obtain p where "recipient_identity E keys d p = Some (k, pk)"
    by (auto simp: List.map_filter_def)
  with d show ?thesis
    by (auto simp: recipient_identity_def split: option.splits if_splits)
qed

text \<open>An envelope of the manifest: the key and nonce prefix of this transfer, sealed to a public identity and labelled with the
  key id the recipient row names.\<close>

definition sealed_to :: "ext \<Rightarrow> sender_state \<Rightarrow> bytes \<Rightarrow> recipient_row \<Rightarrow> recipient_envelope \<Rightarrow> bool" where
  "sealed_to X s pk rc env \<longleftrightarrow>
     (\<exists>secret rnd. rs_data_key secret = ss_data_key s \<and> rs_nonce_prefix secret = ss_nonce_prefix s
        \<and> seal_recipient_secret X secret pk rnd = Inr (re_sealed_envelope env))
     \<and> fromhex (rc_envelope_id rc) = Some (re_recipient_key_id env)"

lemma seal_for_to:
  assumes "seal_for C dk np n ids k rc = Inr y" and "ss_data_key s = dk" "ss_nonce_prefix s = np"
  shows "\<exists>pk. ids (rc_envelope_id rc) = Some pk \<and> sealed_to (sc_X C) s pk rc (fst y)"
proof -
  let ?secret = "\<lparr>rs_data_key = dk, rs_nonce_prefix = np, rs_receipt_secret = sc_urandom C k 32, rs_chunk_count = n\<rparr>"
  obtain pk box kid where "ids (rc_envelope_id rc) = Some pk" "fromhex (rc_envelope_id rc) = Some kid"
    "seal_recipient_secret (sc_X C) ?secret pk (sc_urandom C (Suc k) 32) = Inr box"
    "fst y = \<lparr>re_recipient_key_id = kid, re_sealed_envelope = box\<rparr>"
    using assms(1) unfolding seal_for_def Let_def public_identity_for_def
    by (auto simp: bind_res_eq_Inr escape_def case_sum_eq_Inr hex_bytes_def split: option.splits sum.splits)
  then show ?thesis
    using assms(2,3) unfolding sealed_to_def
    by (intro exI [of _ pk] conjI exI [of _ ?secret] exI [of _ "sc_urandom C (Suc k) 32"]) simp_all
qed

lemma step_encrypting_writes:
  assumes "step_encrypting C db row now ids = Inr (db', st)"
  obtains s tid header envs where "get_sender_state db' (a_id row) = Some s" "fromhex (a_transfer_id row) = Some tid"
    "build_manifest_blob (sc_X C) tid (ss_data_key s) (ss_nonce_prefix s) header envs = Inr (ss_manifest_blob s)"
    "list_all2 (\<lambda>rc env. \<exists>pk. ids (rc_envelope_id rc) = Some pk \<and> sealed_to (sc_X C) s pk rc env) (recipients_for db (a_id row)) envs"
proof -
  define ex where "ex = get_sender_state db (a_id row)"
  define dk where "dk = (case ex of None \<Rightarrow> sc_urandom C (db_next db) DATA_KEY_BYTES | Some s \<Rightarrow> ss_data_key s)"
  define np where "np = (case ex of None \<Rightarrow> sc_urandom C (db_next db + 1) NONCE_PREFIX_BYTES | Some s \<Rightarrow> ss_nonce_prefix s)"
  let ?i = "a_id row" and ?rcs = "recipients_for db (a_id row)"
  obtain tid n k header sealed blob g ts where tid: "hex_bytes (a_transfer_id row) = Inr tid"
    and t: "traverse_res (\<lambda>(j, r). seal_for C dk np n ids (k + 2 * j) r) (enumerate 0 ?rcs) = Inr sealed"
    and blob: "escape S_Manifest (build_manifest_blob (sc_X C) tid dk np header (map fst sealed)) = Inr blob"
    and db': "db' = sender_set_state (update_attachment ?i g (fold (\<lambda>(r, h). save_receipt_hash (rc_id r) h) (zip ?rcs (map snd sealed))
        (save_sender_state db ex ?i dk np blob (sha256 (sc_X C) blob) now)\<lparr>db_next := ts\<rparr>)) ?i QUEUED_UPLOAD now None"
    using assms unfolding step_encrypting_def Let_def bind_res_eq_Inr Inr_inject prod.inject ex_def [symmetric] dk_def [symmetric] np_def [symmetric]
    by blast
  obtain s where s: "get_sender_state db' ?i = Some s" "ss_data_key s = dk" "ss_nonce_prefix s = np" "ss_manifest_blob s = blob"
    using get_sender_state_save [OF ex_def, of dk np blob "sha256 (sc_X C) blob" now ?i]
    by (cases ex) (auto simp: db' sender_set_state_def dk_def np_def fold_frame [of "\<lambda>d. get_sender_state d ?i"] split: prod.splits)
  have len: "length sealed = length ?rcs"
    using traverse_res_length [OF t] by simp
  have "list_all2 (\<lambda>rc env. \<exists>pk. ids (rc_envelope_id rc) = Some pk \<and> sealed_to (sc_X C) s pk rc env) ?rcs (map fst sealed)"
    unfolding list_all2_conv_all_nth
  proof (intro conjI allI impI)
    fix j assume "j < length ?rcs"
    then have "seal_for C dk np n ids (k + 2 * j) (?rcs ! j) = Inr (sealed ! j)"
      using traverse_res_nth [OF t, of j] by (simp add: nth_enumerate_eq)
    from seal_for_to [OF this s(2,3)] \<open>j < length ?rcs\<close> len
    show "\<exists>pk. ids (rc_envelope_id (?rcs ! j)) = Some pk \<and> sealed_to (sc_X C) s pk (?rcs ! j) (map fst sealed ! j)"
      by simp
  qed (simp add: len)
  then show thesis
    using that [of s tid header "map fst sealed"] s tid blob by (auto simp: escape_def hex_bytes_def split: option.splits sum.splits)
qed

lemma step_encrypting_state:
  assumes "step_encrypting C db row now ids = Inr (db', st)"
  shows "\<exists>db3. db' = sender_set_state db3 (a_id row) QUEUED_UPLOAD now None"
  using assms unfolding step_encrypting_def Let_def bind_res_eq_Inr Inr_inject prod.inject by blast

lemma step_encrypting_queued:
  assumes "step_encrypting C db row now ids = Inr (db', st)" and "find_attachment db (a_id row) = Some row" and "a_state row = ENCRYPTING"
  shows "state_of db' (a_id row) = Some QUEUED_UPLOAD"
proof -
  obtain x' where "effect db db' (a_id row) row x'"
    using step_encrypting_effect [OF assms] by blast
  moreover obtain db3 where "db' = sender_set_state db3 (a_id row) QUEUED_UPLOAD now None"
    using step_encrypting_state [OF assms(1)] by blast
  ultimately show ?thesis
    by (auto simp: effect_def state_of_def find_moves)
qed

lemma run_sender_encrypting:
  assumes "run_sender E row (Some ids) w = (w', r)" and "find_attachment (ww_db w) (a_id row) = Some x" "a_state x = ENCRYPTING"
  obtains (sealed) st where "step_encrypting (send_ctx_of E w) (ww_db w) x (we_now E) ids = Inr (ww_db w', st)"
  | (raised) "ww_db w' = ww_db w"
  using assms
  by (cases "step_encrypting (send_ctx_of E w) (ww_db w) x (we_now E) ids")
    (auto simp: run_sender_def Let_def sender_run_step_def commit_db_def)

text \<open>The envelope of one recipient is sealed to the identity confirmed at the address of the attachment's DIRECT delivery: the
  binding of the key id the row names is confirmed, unchanged and at that adapter and node.\<close>

definition sealed_to_address :: "'r worker_env \<Rightarrow> 'r worker_world \<Rightarrow> string \<Rightarrow> sender_state \<Rightarrow> recipient_row \<Rightarrow> recipient_envelope \<Rightarrow> bool" where
  "sealed_to_address E w i s rc env \<longleftrightarrow>
     (\<exists>d b. first_delivery (ww_db w) i = Some d \<and> dl_route_type d = ''DIRECT''
        \<and> get_binding_by_key_id (we_config E) (ww_keys w) (rc_envelope_id rc) = Some b \<and> binding_status b = MCA_READY
        \<and> b_transport_address b = dl_route_id d \<and> b_adapter_id b = dl_adapter_id d
        \<and> sealed_to (env_X (we_env E)) s (b_public_identity b) rc env)"

text \<open>C11. A file is sealed only for the key confirmed at the address it is sent to. When the worker takes an attachment out of
  ENCRYPTING towards the upload, the manifest it stores for the upload is built from exactly one envelope per recipient row, in
  order, and each envelope holds the key of this transfer sealed to the public identity of a binding that is confirmed and
  unchanged and belongs to the very adapter and node of the attachment's DIRECT delivery, under the key id the row names;
  otherwise the attachment fails validation or stays where it is.\<close>

theorem sealed_for_confirmed_address:
  assumes "step_sent E row w = (w', r)" and "find_attachment (ww_db w) (a_id row) = Some x" and "a_state x = ENCRYPTING"
  shows "state_of (ww_db w') (a_id row) \<in> {Some ENCRYPTING, Some FAILED_VALIDATION}
    \<or> state_of (ww_db w') (a_id row) = Some QUEUED_UPLOAD
      \<and> (\<exists>s tid header envs. get_sender_state (ww_db w') (a_id row) = Some s \<and> fromhex (a_transfer_id x) = Some tid
           \<and> build_manifest_blob (env_X (we_env E)) tid (ss_data_key s) (ss_nonce_prefix s) header envs = Inr (ss_manifest_blob s)
           \<and> list_all2 (sealed_to_address E w (a_id row) s) (recipients_for (ww_db w) (a_id row)) envs)"
proof -
  let ?ids = "resolve_recipient_identities E (ww_db w) (ww_keys w) (a_id row)"
  have st: "state_of (ww_db w) (a_id row) = Some ENCRYPTING"
    using assms(2,3) by (simp add: state_of_def)
  have xid: "a_id x = a_id row"
    using assms(2) find_attachment_id by blast
  show ?thesis
  proof (cases "list_ex (\<lambda>k. ?ids k = None) (required_recipient_key_ids (ww_db w) (a_id row))")
    case True
    then have "w' = put_db (fst (fail_recipients_not_trusted (ww_db w) (a_id row) (we_now E))) w"
      using assms(1) st by (simp add: step_sent_def Let_def)
    then show ?thesis
      using assms(2) by (simp add: fail_recipients_not_trusted_def state_of_def find_moves)
  next
    case False
    then obtain r' where run: "run_sender E row (Some ?ids) w = (w', r')"
      using assms(1) st by (auto simp: step_sent_def Let_def split: prod.splits)
    from run assms(2,3) show ?thesis
    proof (cases rule: run_sender_encrypting)
      case (sealed st')
      obtain s tid header envs where m: "get_sender_state (ww_db w') (a_id x) = Some s" "fromhex (a_transfer_id x) = Some tid"
        "build_manifest_blob (sc_X (send_ctx_of E w)) tid (ss_data_key s) (ss_nonce_prefix s) header envs = Inr (ss_manifest_blob s)"
        and envs: "list_all2 (\<lambda>rc env. \<exists>pk. ?ids (rc_envelope_id rc) = Some pk \<and> sealed_to (sc_X (send_ctx_of E w)) s pk rc env)
          (recipients_for (ww_db w) (a_id x)) envs"
        using sealed by (rule step_encrypting_writes)
      have X: "sc_X (send_ctx_of E w) = env_X (we_env E)"
        by (simp add: send_ctx_of_def)
      have "sealed_to_address E w (a_id row) s rc env" if "?ids (rc_envelope_id rc) = Some pk" "sealed_to (env_X (we_env E)) s pk rc env" for rc env pk
        using resolved_identity [OF that(1)] that(2) unfolding sealed_to_address_def by blast
      then have "list_all2 (sealed_to_address E w (a_id row) s) (recipients_for (ww_db w) (a_id row)) envs"
        using envs unfolding X xid by (blast intro: list_all2_mono)
      moreover have "state_of (ww_db w') (a_id row) = Some QUEUED_UPLOAD"
        using step_encrypting_queued [OF sealed] assms(2,3) xid by simp
      ultimately show ?thesis
        using m unfolding X xid by blast
    next
      case raised
      then show ?thesis using st by simp
    qed
  qed
qed

section \<open>Create\<close>

text \<open>What becomes of the staged file of an id. An id that is not 32 hex digits never named a staged file, and nothing changes.
  Otherwise the file is gone in both of its forms; or an unlink raised, every other staged file is still there, and the id is in
  the backlog for another try - unless the backlog was full already, when the file is left to the orphan sweep of the tick.\<close>

definition staged_cleaned :: "'r worker_env \<Rightarrow> string \<Rightarrow> 'r worker_world \<Rightarrow> 'r worker_world \<Rightarrow> bool" where
  "staged_cleaned E i w w' \<longleftrightarrow>
     (if \<not> hex32 i then ww_spool w' = ww_spool w \<and> ww_backlog w' = ww_backlog w
      else if we_unlink_ok E i \<and> we_unlink_ok E (i @ ''.mcv'')
      then ww_spool w' = filter (\<lambda>f. fst f \<noteq> i \<and> fst f \<noteq> i @ ''.mcv'') (ww_spool w) \<and> ww_backlog w' = ww_backlog w
      else filter (\<lambda>f. fst f \<noteq> i) (ww_spool w') = filter (\<lambda>f. fst f \<noteq> i) (ww_spool w)
        \<and> (if length (ww_backlog w) < SPOOL_CLEANUP_BACKLOG_MAXSIZE then i \<in> set (ww_backlog w') \<and> set (ww_backlog w) \<subseteq> set (ww_backlog w')
           else ww_backlog w' = ww_backlog w))"

lemma remove_unreferenced_spool_frame:
  assumes "remove_unreferenced_spool E i w = (w', ok)"
  shows "ww_service w' = ww_service w" "ww_pending w' = ww_pending w" "ww_handoffs w' = ww_handoffs w" "staged_cleaned E i w w'"
  using assms
  by (auto simp: remove_unreferenced_spool_def remove_spool_def unlink_content_def request_spool_cleanup_def staged_cleaned_def Let_def conj_commute
      split: prod.splits bool.splits if_splits)

lemma drop_reservation_simps [simp]:
  "ww_service (drop_reservation r w) = ww_service w" "ww_handoffs (drop_reservation r w) = ww_handoffs w"
  "ww_pending (drop_reservation r w) = (ww_pending w)(r := None)"
  "ww_spool (drop_reservation r w) = ww_spool w" "ww_backlog (drop_reservation r w) = ww_backlog w"
  "staged_cleaned E i w' (drop_reservation r w) = staged_cleaned E i w' w"
  by (simp_all add: drop_reservation_def remove_reservation_def staged_cleaned_def)

text \<open>A failed create: nothing in the database, no reservation, no handoff, the staged file cleaned up.\<close>

definition create_undone :: "'r worker_env \<Rightarrow> command \<Rightarrow> 'r worker_world \<Rightarrow> 'r worker_world \<Rightarrow> bool" where
  "create_undone E c w w' \<longleftrightarrow>
     ww_service w' = ww_service w \<and> ww_handoffs w' = ww_handoffs w
     \<and> (\<forall>r. ww_pending w' r = (if payload_text c ''client_request_id'' = Some r then None else ww_pending w r))
     \<and> (case payload_text c ''attachment_id'' of
          None \<Rightarrow> ww_spool w' = ww_spool w \<and> ww_backlog w' = ww_backlog w
        | Some i \<Rightarrow> staged_cleaned E i w w')"

lemma create_failure_cleanup_undone: "create_undone E c w (create_failure_cleanup E c w)"
proof -
  define w1 where "w1 = (case payload_text c ''client_request_id'' of None \<Rightarrow> w | Some r \<Rightarrow> drop_reservation r w)"
  have w1: "ww_service w1 = ww_service w" "ww_handoffs w1 = ww_handoffs w"
    "\<And>r. ww_pending w1 r = (if payload_text c ''client_request_id'' = Some r then None else ww_pending w r)"
    "ww_spool w1 = ww_spool w" "ww_backlog w1 = ww_backlog w" "staged_cleaned E i w1 = staged_cleaned E i w" for i
    by (auto simp: w1_def staged_cleaned_def fun_eq_iff split: option.splits)
  show ?thesis
  proof (cases "payload_text c ''attachment_id''")
    case None
    then show ?thesis using w1 by (simp add: create_undone_def create_failure_cleanup_def w1_def [symmetric])
  next
    case (Some i)
    obtain w2 ok where "remove_unreferenced_spool E i w1 = (w2, ok)" by fastforce
    with remove_unreferenced_spool_frame [OF this] Some w1 show ?thesis
      by (simp add: create_undone_def create_failure_cleanup_def w1_def [symmetric])
  qed
qed

lemma validated_ids:
  assumes "validated_create_payload c = Some p"
  shows "payload_text c ''attachment_id'' = Some (pl_attachment_id p)" "payload_text c ''client_request_id'' = Some (pl_client_request_id p)"
  using assms
  by (auto simp: validated_create_payload_def Let_def bind_eq_Some_conv checked_text_def payload_text_def split: if_splits wire.splits)

lemma undone_duplicate:
  assumes "validated_create_payload c = Some p" and "remove_unreferenced_spool E (pl_attachment_id p) w = (w1, ok)"
  shows "create_undone E c w (drop_reservation (pl_client_request_id p) w1)"
  using remove_unreferenced_spool_frame [OF assms(2)] validated_ids [OF assms(1)] by (simp add: create_undone_def)

text \<open>A repeat of a committed request: the original row answers for it.\<close>

definition create_replayed :: "'r worker_env \<Rightarrow> create_payload \<Rightarrow> 'r worker_world \<Rightarrow> 'r worker_world \<Rightarrow> bool" where
  "create_replayed E p w w' \<longleftrightarrow>
     ww_db w' = ww_db w
     \<and> (\<exists>row \<in> set (db_attachments (ww_db w)). a_workspace_id row = we_workspace E \<and> a_client_request_id row = Some (pl_client_request_id p)
          \<and> a_canonical_hash row = Some (pl_canonical_hash p)
          \<and> ww_handoffs w' (pl_client_request_id p) = Some \<lparr>ch_attachment_id = a_id row, ch_canonical_hash = pl_canonical_hash p\<rparr>
          \<and> map_option pr_attachment_id (ww_pending w' (pl_client_request_id p)) = Some (a_id row))
     \<and> pl_attachment_id p \<notin> fst ` set (ww_spool w')"

lemma remove_unreferenced_spool_True:
  assumes "remove_unreferenced_spool E i w = (w', True)" and "hex32 i"
  shows "i \<notin> fst ` set (ww_spool w')"
  using assms
  by (auto simp: remove_unreferenced_spool_def remove_spool_def unlink_content_def Let_def split: prod.splits bool.splits if_splits)

lemma create_duplicate_cases:
  assumes "validated_create_payload c = Some p" "hex32 (pl_attachment_id p)"
  shows "end_error (create_duplicate E c p w) = None \<and> create_replayed E p w (end_world (create_duplicate E c p w))
    \<or> end_error (create_duplicate E c p w) \<noteq> None \<and> create_undone E c w (end_world (create_duplicate E c p w))"
proof -
  obtain w1 removed where r: "remove_unreferenced_spool E (pl_attachment_id p) w = (w1, removed)" by fastforce
  note f = remove_unreferenced_spool_frame [OF r] and u = undone_duplicate [OF assms(1) r]
  let ?find = "find_by (\<lambda>a. (a_workspace_id a, a_client_request_id a)) (we_workspace E, Some (pl_client_request_id p)) (db_attachments (ww_db w1))"
  show ?thesis
  proof (cases "\<exists>row. ?find = Some row \<and> a_canonical_hash row = Some (pl_canonical_hash p) \<and> removed")
    case False
    then show ?thesis
      using u r by (cases ?find) (auto simp: create_duplicate_def)
  next
    case True
    then obtain row where row: "?find = Some row" "a_canonical_hash row = Some (pl_canonical_hash p)" "removed" by blast
    have "row \<in> set (db_attachments (ww_db w))" "a_workspace_id row = we_workspace E" "a_client_request_id row = Some (pl_client_request_id p)"
      using find_by_Some [OF row(1)] f(1) by simp_all
    moreover have "pl_attachment_id p \<notin> fst ` set (ww_spool w1)"
      using remove_unreferenced_spool_True [of E "pl_attachment_id p" w w1] r row(3) assms(2) by simp
    ultimately have "create_replayed E p w (promote_duplicate_reservation c (pl_client_request_id p) (a_id row) (pl_canonical_hash p) w1)"
      unfolding create_replayed_def using f(1) row(2)
      by (auto simp: promote_duplicate_reservation_def record_committed_handoff_def replace_reservation_def)
    then show ?thesis
      using r row by (simp add: create_duplicate_def)
  qed
qed

text \<open>A new draft: one row in DRAFT, for the key confirmed at the address of the request.\<close>

definition create_committed :: "'r worker_env \<Rightarrow> create_payload \<Rightarrow> 'r worker_world \<Rightarrow> 'r worker_world \<Rightarrow> bool" where
  "create_committed E p w w' \<longleftrightarrow>
     (\<exists>b row rc d.
        get_binding (we_config E) (ww_keys w) (pl_source_address p) = Some b \<and> binding_status b = MCA_READY
        \<and> find_attachment (ww_db w) (pl_attachment_id p) = None
        \<and> find_attachment (ww_db w') (pl_attachment_id p) = Some row \<and> a_state row = DRAFT \<and> a_direction row = Sent
        \<and> a_client_request_id row = Some (pl_client_request_id p) \<and> a_canonical_hash row = Some (pl_canonical_hash p)
        \<and> db_attachments (ww_db w') = db_attachments (ww_db w) @ [row]
        \<and> db_recipients (ww_db w') = db_recipients (ww_db w) @ [rc] \<and> rc_attachment_id rc = pl_attachment_id p
        \<and> rc_recipient_public_identity rc = Some (b_public_identity b)
        \<and> db_deliveries (ww_db w') = db_deliveries (ww_db w) @ [d] \<and> dl_attachment_id d = pl_attachment_id p
        \<and> dl_route_type d = ''DIRECT'' \<and> dl_route_id d = pl_source_address p)
     \<and> ww_pending w' = ww_pending w \<and> ww_spool w' = ww_spool w
     \<and> ww_handoffs w' (pl_client_request_id p) = Some \<lparr>ch_attachment_id = pl_attachment_id p, ch_canonical_hash = pl_canonical_hash p\<rparr>"

lemma create_draft_one:
  assumes "create_draft C db args now = Inr (db', i)" and "da_recipients args = [t]" "da_attachment_id args = Some j"
  obtains row rc d where "find_attachment db j = None" "db_attachments db' = db_attachments db @ [row]" "a_id row = j" "a_state row = DRAFT"
    "a_direction row = Sent" "a_client_request_id row = da_client_request_id args" "a_canonical_hash row = da_canonical_hash args"
    "db_recipients db' = db_recipients db @ [rc]" "rc_attachment_id rc = j" "rc_recipient_public_identity rc = Some (rt_public_identity t)"
    "db_deliveries db' = db_deliveries db @ [d]" "dl_attachment_id d = j" "dl_route_type d = da_route_type args" "dl_route_id d = da_route_id args"
proof -
  have "find_attachment db j = None" if "\<not> draft_conflict db args j x" for x
    using that by (auto simp: draft_conflict_def find_attachment_def find_by_None list_ex_iff)
  then show ?thesis
    using assms that by (auto simp: create_draft_def Let_def bind_res_eq_Inr new_sent_def enumerate_simps split: if_splits)
qed

lemma create_commit_cases:
  assumes "validated_create_payload c = Some p" "hex32 (pl_attachment_id p)"
    and "get_binding (we_config E) (ww_keys w) (pl_source_address p) = Some b" "binding_status b = MCA_READY"
  shows "end_error (create_commit E c p b w) = None
      \<and> (create_committed E p w (end_world (create_commit E c p b w)) \<or> create_replayed E p w (end_world (create_commit E c p b w)))
    \<or> end_error (create_commit E c p b w) \<noteq> None \<and> create_undone E c w (end_world (create_commit E c p b w))"
proof (cases "decode_provider_id (pl_provider_id p)")
  case (Inl e)
  then show ?thesis by (simp add: create_commit_def create_failure_cleanup_undone)
next
  case (Inr provider_id)
  show ?thesis
  proof (cases "create_draft (send_ctx_of E w) (ww_db w) (create_args E p b provider_id) (we_now E)")
    case (Inl e)
    show ?thesis
    proof (cases "e = S_IntegrityError")
      case True
      then show ?thesis
        using create_duplicate_cases [OF assms(1,2), of E w] Inl Inr by (auto simp: create_commit_def)
    next
      case False
      then show ?thesis
        using Inl Inr by (cases e) (simp_all add: create_commit_def create_failure_cleanup_undone)
    qed
  next
    case (Inr r)
    obtain db j where r: "r = (db, j)" by fastforce
    have run: "create_commit E c p b w = state_result (pl_attachment_id p) DRAFT
        (record_committed_handoff (pl_client_request_id p) (pl_attachment_id p) (pl_canonical_hash p) (put_db db w))"
      using Inr r \<open>decode_provider_id (pl_provider_id p) = Inr provider_id\<close> by (simp add: create_commit_def)
    have "create_committed E p w (record_committed_handoff (pl_client_request_id p) (pl_attachment_id p) (pl_canonical_hash p) (put_db db w))"
      using Inr [unfolded r]
    proof (rule create_draft_one)
      fix row rc d
      assume "find_attachment (ww_db w) (pl_attachment_id p) = None" "db_attachments db = db_attachments (ww_db w) @ [row]"
        "a_id row = pl_attachment_id p" "a_state row = DRAFT" "a_direction row = Sent"
        "a_client_request_id row = da_client_request_id (create_args E p b provider_id)"
        "a_canonical_hash row = da_canonical_hash (create_args E p b provider_id)"
        "db_recipients db = db_recipients (ww_db w) @ [rc]" "rc_attachment_id rc = pl_attachment_id p"
        "rc_recipient_public_identity rc = Some (rt_public_identity \<lparr>rt_public_identity = b_public_identity b, rt_key_id = b_sender_key_id b\<rparr>)"
        "db_deliveries db = db_deliveries (ww_db w) @ [d]" "dl_attachment_id d = pl_attachment_id p"
        "dl_route_type d = da_route_type (create_args E p b provider_id)" "dl_route_id d = da_route_id (create_args E p b provider_id)"
      then show ?thesis
        unfolding create_committed_def using assms(3,4)
        by (intro conjI exI [of _ b] exI [of _ row] exI [of _ rc] exI [of _ d])
          (simp_all add: record_committed_handoff_def create_args_def find_attachment_def find_by_append)
    qed (simp_all add: create_args_def)
    then show ?thesis unfolding run by simp
  qed
qed

lemma validated_hex32: "validated_create_payload c = Some p \<Longrightarrow> hex32 (pl_attachment_id p)"
  by (auto simp: validated_create_payload_def Let_def bind_eq_Some_conv checked_text_def split: if_splits wire.splits)

text \<open>C10. A create commits once or leaves nothing behind. The command succeeds only with a payload that validates, and then either
  the database has gained exactly one DRAFT row with one recipient - the key confirmed at the address of the request - and one
  DIRECT delivery to that address, or an earlier row of the same request id and the same content hash answers for it, with the
  database unchanged and the second copy of the file gone. In every other case, exceptions included, the database is
  unchanged, the reservation of the request id is released, and the staged file is cleaned up: both of its forms are gone, or, if an
  unlink raised, its id is in the backlog for another try; only when 256 ids wait there already is the file left to the orphan
  sweep. A payload without an id, or with one that is not 32 hex digits, never named a staged file, and the spool and the
  backlog stay as they are.\<close>

theorem create_commits_or_cleans:
  shows "end_error (command_create E c w) = None
      \<and> (\<exists>p. validated_create_payload c = Some p
           \<and> (create_committed E p w (end_world (command_create E c w)) \<or> create_replayed E p w (end_world (command_create E c w))))
    \<or> end_error (command_create E c w) \<noteq> None \<and> create_undone E c w (end_world (command_create E c w))"
proof (cases "\<exists>p b. validated_create_payload c = Some p \<and> create_refusal E p w = None
    \<and> get_binding (we_config E) (ww_keys w) (pl_source_address p) = Some b \<and> binding_status b = MCA_READY")
  case True
  then obtain p b where p: "validated_create_payload c = Some p" and rest: "create_refusal E p w = None"
    "get_binding (we_config E) (ww_keys w) (pl_source_address p) = Some b" "binding_status b = MCA_READY" by blast
  have "command_create E c w = create_commit E c p b w"
    using p rest by (simp add: command_create_def)
  then show ?thesis
    using create_commit_cases [OF p validated_hex32 [OF p] rest(2,3)] p by auto
next
  case False
  then have "\<exists>code. command_create E c w = create_fails E c code w"
    by (auto simp: command_create_def split: option.splits)
  then show ?thesis
    by (auto simp: create_fails_def create_failure_cleanup_undone)
qed

section \<open>Concrete runs\<close>

text \<open>A worker with one staged file, one confirmed contact and the Relay store.\<close>

definition worker_service :: service_cfg where
  "worker_service = sample_service\<lparr>sf_recv := peer_recv_ctx\<lparr>rx_config := sample_config\<lparr>kc_adapter_id := meshtastic_adapter_id\<rparr>\<rparr>\<rparr>"

definition worker :: "relay_store worker_env" where
  "worker = \<lparr>we_service = worker_service,
     we_relay = [b64url_nopad (replicate 8 7) \<mapsto>
       \<lparr>rh_upload = peer_relay, rh_download = downloader (store_http ref_ext 10) sample_store, rh_revoke = client_revoke (store_http ref_ext 10)\<rparr>],
     we_token_configured = (\<lambda>_. True), we_unlink_ok = (\<lambda>_. True), we_disk_usage = sc_disk_usage peer_send_ctx,
     we_urandom = sc_urandom peer_send_ctx, we_fromisoformat = (\<lambda>_. None), we_spool_dir = ''/spool'', we_adapter = None, we_now = 4\<rparr>"

definition worker_db :: "attachment \<Rightarrow> mca_db" where
  "worker_db row = empty_db\<lparr>db_attachments := [row], db_recipients := [peer_recipient], db_deliveries := [sample_delivery],
     db_revoke_state := [\<lparr>rv_attachment_id = ''a'', rv_revoke_token = ''t'', rv_delete_after = 100, rv_created_at = 1, rv_updated_at = 1\<rparr>]\<rparr>"

definition peer_binding :: binding_row where
  "peer_binding = sample_binding\<lparr>b_adapter_id := meshtastic_adapter_id, b_sender_key_id := hex_of (replicate 8 9), b_public_identity := replicate 32 9\<rparr>"

definition worker_state :: "attachment \<Rightarrow> relay_store worker_world" where
  "worker_state row = \<lparr>ww_service = sample_service_state\<lparr>sv_world := empty_world\<lparr>w_db := worker_db row\<rparr>,
       sv_keys := empty_ke\<lparr>ke_bindings := [peer_binding]\<rparr>\<rparr>,
     ww_relay = sample_store, ww_radio = [], ww_spool = [(''f'', [104, 105])], ww_pending = Map.empty, ww_handoffs = Map.empty, ww_backlog = []\<rparr>"

lemma worker_state_db [simp]: "ww_db (worker_state row) = worker_db row" "ww_relay (worker_state row) = sample_store"
  by (simp_all add: worker_state_def)

lemma worker_db_simps [simp]:
  "recipients_for (worker_db row) ''a'' = [peer_recipient]" "get_sender_state (worker_db row) ''a'' = None"
  "first_delivery (worker_db row) ''a'' = Some sample_delivery" "recipient_principals (worker_db row) ''a'' = [Some (hex_of (replicate 8 9))]"
  "a_id row = ''a'' \<Longrightarrow> find_attachment (worker_db row) ''a'' = Some row"
  by (simp_all add: worker_db_def empty_db_def recipients_for_def get_sender_state_def first_delivery_def recipient_principals_def
      peer_recipient_def sample_delivery_def find_attachment_def)

lemma worker_ctx [simp]: "send_ctx_of worker (worker_state row) = peer_send_ctx"
  by (simp add: send_ctx_of_def worker_def worker_service_def peer_recv_ctx_def peer_send_ctx_def sample_send_ctx_def spool_contents_def
      worker_state_def fun_eq_iff)

lemma worker_now [simp]: "we_now worker = 4"
  by (simp add: worker_def)

lemma peer_key_id [simp]: "hex_of (replicate 8 9) \<noteq> []"
  by (metis length_hex_of length_replicate list.size(3) mult_eq_0_iff zero_neq_numeral)

lemma worker_required [simp]: "required_recipient_key_ids (worker_db row) ''a'' = [hex_of (replicate 8 9)]"
  by (simp add: required_recipient_key_ids_def List.map_filter_def)

lemma peer_ids_known [simp]: "peer_ids (hex_of (replicate 8 9)) = Some (replicate 32 9)"
  by (simp add: peer_ids_def)

lemma worker_ids: "resolve_recipient_identities worker (worker_db row) (ww_keys (worker_state row)) ''a'' = peer_ids"
  by (simp add: resolve_recipient_identities_def sample_delivery_def worker_def worker_service_def sample_service_def recipient_identity_def
      worker_state_def get_binding_by_key_id_def addr_key_def peer_recv_ctx_def sample_ctx_def sample_config_def sample_principal_def peer_binding_def
      sample_binding_def row_to_binding_def binding_status_def empty_ke_def peer_ids_def List.map_filter_def)

lemma worker_seals:
  "\<exists>w' r. step_sent worker validated (worker_state validated) = (w', r) \<and> state_of (ww_db w') ''a'' = Some QUEUED_UPLOAD"
proof -
  obtain w' r where run: "step_sent worker validated (worker_state validated) = (w', r)" by fastforce
  obtain db where enc: "step_encrypting peer_send_ctx (worker_db validated) validated 4 peer_ids = Inr (db, QUEUED_UPLOAD)"
    using peer_encrypts [of "worker_db validated" 4] by auto
  have "ww_db w' = db"
    using run enc by (auto simp: step_sent_def state_of_def worker_ids [of validated] run_sender_def Let_def sender_run_step_def commit_db_def)
  with step_encrypting_queued [OF enc] run show ?thesis
    by simp
qed

theorem sealed_for_confirmed_address_witness:
  "\<exists>w' r s env. step_sent worker validated (worker_state validated) = (w', r) \<and> state_of (ww_db w') ''a'' = Some QUEUED_UPLOAD
     \<and> get_sender_state (ww_db w') ''a'' = Some s \<and> sealed_to_address worker (worker_state validated) ''a'' s peer_recipient env"
proof -
  obtain w' r where run: "step_sent worker validated (worker_state validated) = (w', r)" and queued: "state_of (ww_db w') ''a'' = Some QUEUED_UPLOAD"
    using worker_seals by blast
  with sealed_for_confirmed_address [OF run, of validated] show ?thesis
    by (auto simp: list_all2_Cons1)
qed

definition revoke_request :: command where
  "revoke_request = \<lparr>cmd_id = ''c'', cmd_kind = ''attachment_revoke'', cmd_payload = [(''attachment_id'', WStr ''a'')], cmd_created_at = 3\<rparr>"

definition delivered :: attachment where
  "delivered = validated\<lparr>a_state := SENT\<rparr>"

lemma delivered_simps [simp]:
  "a_id delivered = ''a''" "a_state delivered = SENT" "a_direction delivered = Sent" "a_workspace_id delivered = ''w''"
  "a_transfer_id delivered = hex_of (replicate 16 1)" "a_provider_id delivered = Some (b64url_nopad (replicate 8 7))"
  by (simp_all add: delivered_def validated_def peer_row_def new_sent_def peer_args_def sample_args_def)

lemma provider_text [simp]: "b64url_nopad (replicate 8 7) \<noteq> []"
  by code_simp

lemma worker_provider [simp]:
  "resolve (we_providers worker) ''w'' (b64url_nopad (replicate 8 7)) = Some sample_provider"
  "pv_enabled sample_provider" "mp_workspace_id (env_principal peer_env) = ''w''" "we_env worker = peer_env"
  by (simp_all add: worker_def worker_service_def peer_recv_ctx_def sample_ctx_def resolve_def sample_provider_def peer_env_def sample_env_def)

lemma worker_revokes:
  "\<exists>H R. we_relay worker (b64url_nopad (replicate 8 7)) = Some H
     \<and> rh_revoke H sample_store (replicate 16 1) ''t'' = (R, Inl (RelayHTTPError 404 ''object_not_found''))"
  by (simp add: worker_def client_revoke_def client_call_def request_not_retryable store_http_def accepted_def answer_def store_revoke_def
      object_of_def sample_store_def reject_with_def raise_for_error_def)

lemma worker_enqueues: "\<exists>db. revoke_and_enqueue worker (worker_db delivered) delivered = Inr db"
  by (simp add: revoke_and_enqueue_def revoke_def with_row_def enqueue_control_message_def control_already_enqueued_def worker_db_def empty_db_def
      find_attachment_def peer_env_def sample_env_def load_signing_key_def ref_ext_def encode_simple_ack_def simple_ack_type_def sign_message_def
      domain_label_def Let_def sender_set_state_def record_event_def drop_revoke_state_def drop_sender_state_def update_attachment_def)

theorem revoke_confirmed_first_witness:
  "end_error (command_revoke worker revoke_request (worker_state delivered)) = None
   \<and> state_of (ww_db (end_world (command_revoke worker revoke_request (worker_state delivered)))) ''a'' = Some REVOKED"
proof -
  obtain H R where H: "we_relay worker (b64url_nopad (replicate 8 7)) = Some H"
    "rh_revoke H sample_store (replicate 16 1) ''t'' = (R, Inl (RelayHTTPError 404 ''object_not_found''))"
    using worker_revokes by blast
  obtain db where db: "revoke_and_enqueue worker (worker_db delivered) delivered = Inr db"
    using worker_enqueues by blast
  have token: "stored_revoke_token (worker_db delivered) ''a'' = Some ''t''"
    by (simp add: stored_revoke_token_def get_revoke_state_def worker_db_def empty_db_def)
  have gone: "revoke_remote worker delivered ''t'' (worker_state delivered) = ((worker_state delivered)\<lparr>ww_relay := R\<rparr>, Some True)"
    using H by (simp add: revoke_remote_def provider_id_text_def)
  have "end_error (command_revoke worker revoke_request (worker_state delivered)) = None"
    using gone token db
    by (simp add: command_revoke_def with_attachment_def payload_text_def revoke_request_def obj_get_def attachment_row_def revoke_row_def)
  with revoke_confirmed_first [of worker revoke_request "worker_state delivered"] show ?thesis
    by (auto simp: revoked_db_def payload_text_def revoke_request_def obj_get_def)
qed

definition offered :: attachment where
  "offered = delivered\<lparr>a_direction := Received, a_state := WAITING_CONSENT\<rparr>"

lemma offered_simps [simp]:
  "a_id offered = ''a''" "a_state offered = WAITING_CONSENT" "a_direction offered = Received" "a_workspace_id offered = ''w''"
  "a_transfer_id offered = hex_of (replicate 16 1)"
  by (simp_all add: offered_def)

lemma worker_rejects: "\<exists>db. reject_and_enqueue worker (worker_db offered) offered = Inr db"
  by (simp add: reject_and_enqueue_def reject_def enqueue_control_message_def control_already_enqueued_def worker_db_def empty_db_def
      find_attachment_def peer_env_def sample_env_def load_signing_key_def ref_ext_def encode_simple_ack_def simple_ack_type_def sign_message_def
      domain_label_def Let_def set_state_def update_attachment_def)

theorem reject_atomic_witness:
  "end_error (command_reject worker revoke_request (worker_state offered)) = None
   \<and> state_of (ww_db (end_world (command_reject worker revoke_request (worker_state offered)))) ''a'' = Some ST_REJECTED"
proof -
  obtain db where "reject_and_enqueue worker (worker_db offered) offered = Inr db"
    using worker_rejects by blast
  then have "end_error (command_reject worker revoke_request (worker_state offered)) = None"
    by (simp add: command_reject_def with_attachment_def payload_text_def revoke_request_def obj_get_def attachment_row_def reject_row_def)
  with reject_atomic [of worker revoke_request "worker_state offered"] show ?thesis
    by (auto simp: payload_text_def revoke_request_def obj_get_def)
qed

end
