(* ===== verification/Service_Tick.thy ===== *)
theory Service_Tick
  imports Service_Commands
begin

text \<open>
  The periodic work of the worker, \<open>_tick_locked\<close> in \<open>src/meshsrv/attachments/service.py\<close>: the scan over the rows that can
  advance by themselves, the automatic key requests, the expiry sweep, and the clean-up of sender copies, reservations,
  retained revoke tokens and staged files. The vault is off and unlocked. A row order the query leaves open is table order.
\<close>

section \<open>The row scan\<close>

definition MAX_ATTACHMENTS_PER_TICK :: nat where "MAX_ATTACHMENTS_PER_TICK = 8"

definition row_due :: "'r worker_env \<Rightarrow> attachment \<Rightarrow> bool" where
  "row_due E a \<longleftrightarrow> a_workspace_id a = we_workspace E
     \<and> (case a_direction a of Sent \<Rightarrow> a_state a \<in> set AUTOMATIC_STATES | Received \<Rightarrow> a_state a \<in> set RECEIVER_AUTOMATIC_STATES)"

definition due_rows :: "'r worker_env \<Rightarrow> nat \<Rightarrow> mca_db \<Rightarrow> attachment list" where
  "due_rows E max_per_tick db = take max_per_tick (sort_key a_created_at (filter (row_due E) (db_attachments db)))"

text \<open>One row. An exception is logged and rolled back to what the step had committed; the scan goes on.\<close>

definition scan_row :: "'r worker_env \<Rightarrow> attachment \<Rightarrow> 'r worker_world \<Rightarrow> 'r worker_world" where
  "scan_row E row w = (case a_direction row of Sent \<Rightarrow> fst (step_sent E row w) | Received \<Rightarrow> fst (step_received E row w))"

definition row_scan :: "'r worker_env \<Rightarrow> nat \<Rightarrow> 'r worker_world \<Rightarrow> 'r worker_world \<times> nat" where
  "row_scan E max_per_tick w =
     (let rows = due_rows E max_per_tick (ww_db w) in (fold (scan_row E) rows w, length rows))"

section \<open>Automatic key requests\<close>

definition MAX_AUTO_KEY_REQUESTS_PER_TICK :: nat where "MAX_AUTO_KEY_REQUESTS_PER_TICK = 8"

datatype auto_outcome = AutoSkipped | AutoSent | AutoQuotaExhausted | AutoRaised

definition auto_route_ok :: "attachment \<Rightarrow> string \<Rightarrow> bool" where
  "auto_route_ok row route_id \<longleftrightarrow>
     a_reply_route_type row = Some ''DIRECT'' \<and> is_contact_id route_id \<and> a_reply_destination_address row = Some route_id
     \<and> a_reply_adapter_id row = Some meshtastic_adapter_id \<and> a_reply_connector_profile_id row = Some meshtastic_connector_profile_id"

text \<open>The send itself: a delivery failure or an unsent receipt uses up nothing.\<close>

definition auto_send :: "'r worker_env \<Rightarrow> attachment \<Rightarrow> string \<Rightarrow> text_adapter \<Rightarrow> bytes \<Rightarrow> 'r worker_world \<Rightarrow> 'r worker_world \<times> auto_outcome" where
  "auto_send E row route_id A key_request w =
     (case adapter_encode A key_request (direct_route route_id) of
        Inl (DeliveryError _) \<Rightarrow> (w, AutoSkipped)
      | Inl _ \<Rightarrow> (w, AutoRaised)
      | Inr wire_payload \<Rightarrow>
          (case adapter_send A wire_payload (direct_route route_id) (''auto-key-request-'' @ a_id row) (we_now E) of
             Inl (DeliveryError _) \<Rightarrow> (w, AutoSkipped)
           | Inl _ \<Rightarrow> (w, AutoRaised)
           | Inr receipt \<Rightarrow>
               if \<not> dr_sent receipt then (w, AutoSkipped)
               else (put_keys (record_auto_key_request_sent (we_config E)
                        (record_key_request_sent (we_config E) (ww_keys w) route_id (we_now E)) (we_now E))
                      (w\<lparr>ww_radio := ww_radio w @ [(wire_payload, direct_route route_id, ''auto-key-request-'' @ a_id row)]\<rparr>),
                     AutoSent)))"

text \<open>A row whose address is new in this tick: the offer, the two limits, then the send.\<close>

definition auto_request_fresh :: "'r worker_env \<Rightarrow> attachment \<Rightarrow> string \<Rightarrow> bytes \<Rightarrow> text_adapter \<Rightarrow> 'r worker_world \<Rightarrow> 'r worker_world \<times> auto_outcome" where
  "auto_request_fresh E row route_id pending_raw A w =
     (case decode_offer (env_X (we_env E)) pending_raw None of
        Inl CodecError \<Rightarrow> (w, AutoSkipped)
      | Inl _ \<Rightarrow> (w, AutoRaised)
      | Inr unverified \<Rightarrow>
          if get_binding_by_key_id (we_config E) (ww_keys w) (hex_of (o_sender_key_id unverified)) \<noteq> None then (w, AutoSkipped)
          else (case check_key_request_rate_limit (we_config E) (ww_keys w) route_id (we_now E) of
              Inl RateLimited \<Rightarrow> (w, AutoSkipped)
            | Inl _ \<Rightarrow> (w, AutoRaised)
            | Inr _ \<Rightarrow>
                (case check_auto_key_request_quota (we_config E) (ww_keys w) (we_now E) of
                   Inl RateLimited \<Rightarrow> (w, AutoQuotaExhausted)
                 | Inl _ \<Rightarrow> (w, AutoRaised)
                 | Inr _ \<Rightarrow>
                     (case build_key_request (env_X (we_env E)) (we_config E) (ww_keys w) of
                        Inl _ \<Rightarrow> (w, AutoRaised)
                      | Inr key_request \<Rightarrow> auto_send E row route_id A key_request w))))"

text \<open>The addresses already tried are threaded through the scan.\<close>

definition auto_request_key_for_row ::
  "'r worker_env \<Rightarrow> text_adapter \<Rightarrow> attachment \<Rightarrow> string list \<Rightarrow> 'r worker_world \<Rightarrow> 'r worker_world \<times> string list \<times> auto_outcome" where
  "auto_request_key_for_row E A row attempted w =
     (case (a_reply_route_id row, a_pending_offer_cbor row) of
        (Some route_id, Some pending_raw) \<Rightarrow>
          if route_id = [] then (w, attempted, AutoSkipped)
          else if of_int (a_hard_expires_at row) \<le> we_now E then (w, attempted, AutoSkipped)
          else if \<not> auto_route_ok row route_id then (w, attempted, AutoSkipped)
          else if route_id \<in> set attempted then (w, attempted, AutoSkipped)
          else (case auto_request_fresh E row route_id pending_raw A w of (w', out) \<Rightarrow> (w', route_id # attempted, out))
      | _ \<Rightarrow> (w, attempted, AutoSkipped))"

fun auto_request_loop :: "'r worker_env \<Rightarrow> text_adapter \<Rightarrow> nat \<Rightarrow> attachment list \<Rightarrow> string list \<Rightarrow> 'r worker_world \<Rightarrow> 'r worker_world" where
  "auto_request_loop E A sent [] attempted w = w"
| "auto_request_loop E A sent (row # rows) attempted w =
     (if MAX_AUTO_KEY_REQUESTS_PER_TICK \<le> sent then w
      else case auto_request_key_for_row E A row attempted w of
        (w', attempted', AutoQuotaExhausted) \<Rightarrow> w'
      | (w', attempted', AutoSent) \<Rightarrow> auto_request_loop E A (Suc sent) rows attempted' w'
      | (w', attempted', _) \<Rightarrow> auto_request_loop E A sent rows attempted' w')"

definition waiting_key_rows :: "'r worker_env \<Rightarrow> mca_db \<Rightarrow> attachment list" where
  "waiting_key_rows E db =
     sort_key a_created_at (filter (\<lambda>a. a_workspace_id a = we_workspace E \<and> a_direction a = Received \<and> a_state a = WAITING_KEY) (db_attachments db))"

definition auto_request_missing_keys :: "'r worker_env \<Rightarrow> 'r worker_world \<Rightarrow> 'r worker_world" where
  "auto_request_missing_keys E w =
     (case sf_adapter (we_service E) of
        None \<Rightarrow> w
      | Some A \<Rightarrow> auto_request_loop E A 0 (waiting_key_rows E (ww_db w)) [] w)"

section \<open>Expiry\<close>

definition MAX_RECEIVER_EXPIRY_PER_TICK :: nat where "MAX_RECEIVER_EXPIRY_PER_TICK = 8"

definition expired_rows :: "'r worker_env \<Rightarrow> mca_db \<Rightarrow> attachment list" where
  "expired_rows E db =
     take MAX_RECEIVER_EXPIRY_PER_TICK (sort_key a_created_at (filter (\<lambda>a. a_workspace_id a = we_workspace E \<and> a_direction a = Received
       \<and> a_state a \<in> set EXPIRABLE_STATES \<and> 0 < a_hard_expires_at a \<and> of_int (a_hard_expires_at a) \<le> we_now E) (db_attachments db)))"

text \<open>Each row in its own savepoint.\<close>

definition expire_row :: "'r worker_env \<Rightarrow> attachment \<Rightarrow> mca_db \<Rightarrow> mca_db" where
  "expire_row E row db = (case expire (we_env E) db (a_id row) (we_now E) of Inl _ \<Rightarrow> db | Inr (db', _) \<Rightarrow> db')"

definition reconcile_receiver_expiry :: "'r worker_env \<Rightarrow> 'r worker_world \<Rightarrow> 'r worker_world" where
  "reconcile_receiver_expiry E w = put_db (fold (expire_row E) (expired_rows E (ww_db w)) (ww_db w)) w"

section \<open>Sender copies\<close>

definition SENT_COPY_DELETE_STATES :: "att_state list" where
  "SENT_COPY_DELETE_STATES = [DOWNLOADED, ST_EXPIRED, CANCELLED, REVOKED, ST_REJECTED]"

definition SENT_COPY_SWEEP_BATCH :: nat where "SENT_COPY_SWEEP_BATCH = 20"

definition finished_sent_rows :: "'r worker_env \<Rightarrow> mca_db \<Rightarrow> attachment list" where
  "finished_sent_rows E db =
     take SENT_COPY_SWEEP_BATCH (filter (\<lambda>a. a_workspace_id a = we_workspace E \<and> a_direction a = Sent \<and> a_saved_path a \<noteq> None
       \<and> a_state a \<in> set SENT_COPY_DELETE_STATES) (db_attachments db))"

text \<open>\<open>os.path.realpath\<close> is a parameter, \<open>None\<close> when it raises.\<close>

definition sweep_sent_copy :: "'r worker_env \<Rightarrow> (string \<Rightarrow> string option) \<Rightarrow> attachment \<Rightarrow> 'r worker_world \<Rightarrow> 'r worker_world" where
  "sweep_sent_copy E realpath row w =
     (case a_saved_path row of
        None \<Rightarrow> w
      | Some saved_path \<Rightarrow>
          if \<not> hex32 (a_id row) then w
          else if realpath (we_spool_dir E @ ''/'' @ a_id row) = None \<or> realpath (we_spool_dir E @ ''/'' @ a_id row) \<noteq> realpath saved_path then w
          else (case remove_spool E (a_id row) w of
                  (w1, False) \<Rightarrow> w1
                | (w1, True) \<Rightarrow>
                    put_db (update_attachment (a_id row)
                      (\<lambda>a. if a_saved_path a = Some saved_path then a\<lparr>a_saved_path := None\<rparr> else a) (ww_db w1)) w1))"

definition sweep_sent_copies :: "'r worker_env \<Rightarrow> (string \<Rightarrow> string option) \<Rightarrow> 'r worker_world \<Rightarrow> 'r worker_world" where
  "sweep_sent_copies E realpath w = fold (sweep_sent_copy E realpath) (finished_sent_rows E (ww_db w)) w"

section \<open>Reservations, staged files, revoke tokens\<close>

text \<open>\<open>published\<close> is the idempotency index of the published snapshot, \<open>None\<close> before the first publish.\<close>

definition handoff_published :: "committed_index \<Rightarrow> string \<Rightarrow> committed_handoff \<Rightarrow> bool" where
  "handoff_published published client_request_id h \<longleftrightarrow>
     (case published client_request_id of
        None \<Rightarrow> False
      | Some entry \<Rightarrow> ix_attachment_id entry = ch_attachment_id h \<and> ix_canonical_hash entry = ch_canonical_hash h)"

definition released :: "committed_index \<Rightarrow> 'r worker_world \<Rightarrow> string \<Rightarrow> bool" where
  "released published w r \<longleftrightarrow> (case ww_handoffs w r of None \<Rightarrow> False | Some h \<Rightarrow> handoff_published published r h)"

definition cleanup_committed_reservations :: "committed_index option \<Rightarrow> 'r worker_world \<Rightarrow> 'r worker_world" where
  "cleanup_committed_reservations published w =
     (case published of
        None \<Rightarrow> w
      | Some index \<Rightarrow>
          w\<lparr>ww_handoffs := (\<lambda>r. if released index w r then None else ww_handoffs w r),
            ww_pending := (\<lambda>r. if released index w r then None else ww_pending w r)\<rparr>)"

definition MAX_SPOOL_CLEANUP_PER_TICK :: nat where "MAX_SPOOL_CLEANUP_PER_TICK = 8"

text \<open>\<open>set.pop()\<close> takes an element of its own choice, \<open>pick\<close>.\<close>

fun drain_spool_loop :: "'r worker_env \<Rightarrow> (string list \<Rightarrow> string) \<Rightarrow> nat \<Rightarrow> 'r worker_world \<Rightarrow> 'r worker_world" where
  "drain_spool_loop E pick 0 w = w"
| "drain_spool_loop E pick (Suc n) w =
     (if ww_backlog w = [] then w
      else let attachment_id = pick (ww_backlog w); w1 = w\<lparr>ww_backlog := removeAll attachment_id (ww_backlog w)\<rparr> in
        drain_spool_loop E pick n (fst (remove_unreferenced_spool E attachment_id w1)))"

definition drain_spool_cleanup :: "'r worker_env \<Rightarrow> (string list \<Rightarrow> string) \<Rightarrow> 'r worker_world \<Rightarrow> 'r worker_world" where
  "drain_spool_cleanup E pick w = drain_spool_loop E pick MAX_SPOOL_CLEANUP_PER_TICK w"

definition MAX_REVOKE_STATE_CLEANUP_PER_TICK :: nat where "MAX_REVOKE_STATE_CLEANUP_PER_TICK = 100"

definition cleanup_expired_revoke_state :: "timestamp \<Rightarrow> mca_db \<Rightarrow> mca_db" where
  "cleanup_expired_revoke_state now db =
     (let gone = map rv_attachment_id (take MAX_REVOKE_STATE_CLEANUP_PER_TICK
                   (filter (\<lambda>r. rv_delete_after r \<le> rat_trunc now) (db_revoke_state db))) in
      db\<lparr>db_revoke_state := filter (\<lambda>r. rv_attachment_id r \<notin> set gone) (db_revoke_state db)\<rparr>)"

section \<open>Orphaned staged files\<close>

datatype spool_kind = CommittedFile | TempFile

definition hex32_prefix :: "string \<Rightarrow> string \<Rightarrow> bool" where
  "hex32_prefix suffix name \<longleftrightarrow> endswith name suffix \<and> hex32 (take (length name - length suffix) name)"

definition classify_spool_name :: "string \<Rightarrow> spool_kind option" where
  "classify_spool_name name =
     (if hex32 name then Some CommittedFile
      else if hex32_prefix ''.mcv'' name then Some CommittedFile
      else if startswith name ''.'' \<and> endswith name ''.tmp'' then Some TempFile
      else if hex32_prefix ''.mcv.part'' name then Some TempFile
      else None)"

text \<open>A directory entry: \<open>None\<close> where the call raises \<open>OSError\<close>.\<close>

record spool_entry =
  se_name :: string
  se_is_file :: "bool option"
  se_mtime :: "timestamp option"

definition referenced_attachment_ids :: "'r worker_env \<Rightarrow> command list \<Rightarrow> 'r worker_world \<Rightarrow> string set" where
  "referenced_attachment_ids E queued w =
     set (map a_id (filter (\<lambda>a. a_workspace_id a = we_workspace E) (db_attachments (ww_db w))))
     \<union> pr_attachment_id ` ran (ww_pending w)
     \<union> set (List.map_filter (\<lambda>c. payload_text c ''attachment_id'') queued)"

definition ORPHAN_RECOVERY_CADENCE_SECONDS :: timestamp where "ORPHAN_RECOVERY_CADENCE_SECONDS = 300"
definition ORPHAN_SPOOL_MIN_AGE_SECONDS :: timestamp where "ORPHAN_SPOOL_MIN_AGE_SECONDS = 3600"
definition MAX_ORPHAN_SCAN_PER_TICK :: nat where "MAX_ORPHAN_SCAN_PER_TICK = 100"
definition MAX_ORPHAN_DELETE_PER_TICK :: nat where "MAX_ORPHAN_DELETE_PER_TICK = 20"

definition should_run_orphan_recovery :: "timestamp option \<Rightarrow> timestamp \<Rightarrow> timestamp option \<times> bool" where
  "should_run_orphan_recovery last_run now =
     (case last_run of
        Some t \<Rightarrow> if now - t < ORPHAN_RECOVERY_CADENCE_SECONDS then (last_run, False) else (Some now, True)
      | None \<Rightarrow> (Some now, True))"

definition spool_attachment_id :: "string \<Rightarrow> string" where
  "spool_attachment_id name = (if endswith name ''.mcv'' then take (length name - 4) name else name)"

definition is_orphan :: "string set \<Rightarrow> timestamp \<Rightarrow> spool_entry \<Rightarrow> bool" where
  "is_orphan referenced now e \<longleftrightarrow>
     se_is_file e = Some True
     \<and> (case (classify_spool_name (se_name e), se_mtime e) of
          (Some kind, Some mtime) \<Rightarrow>
            ORPHAN_SPOOL_MIN_AGE_SECONDS \<le> now - mtime \<and> \<not> (kind = CommittedFile \<and> spool_attachment_id (se_name e) \<in> referenced)
        | _ \<Rightarrow> False)"

text \<open>The scan over the entries; the result is the names it has unlinked.\<close>

fun orphan_scan :: "string set \<Rightarrow> timestamp \<Rightarrow> (string \<Rightarrow> bool) \<Rightarrow> nat \<Rightarrow> nat \<Rightarrow> spool_entry list \<Rightarrow> string list" where
  "orphan_scan referenced now unlink_ok examined deleted [] = []"
| "orphan_scan referenced now unlink_ok examined deleted (e # entries) =
     (if MAX_ORPHAN_SCAN_PER_TICK \<le> examined \<or> MAX_ORPHAN_DELETE_PER_TICK \<le> deleted then []
      else if is_orphan referenced now e \<and> unlink_ok (se_name e)
      then se_name e # orphan_scan referenced now unlink_ok (Suc examined) (Suc deleted) entries
      else orphan_scan referenced now unlink_ok (Suc examined) deleted entries)"

definition recover_orphaned_spool :: "'r worker_env \<Rightarrow> command list \<Rightarrow> spool_entry list option \<Rightarrow> 'r worker_world \<Rightarrow> 'r worker_world" where
  "recover_orphaned_spool E queued entries w =
     (case entries of
        None \<Rightarrow> w
      | Some es \<Rightarrow>
          let gone = orphan_scan (referenced_attachment_ids E queued w) (we_now E) (we_unlink_ok E) 0 0 es in
          w\<lparr>ww_spool := filter (\<lambda>f. fst f \<notin> set gone) (ww_spool w)\<rparr>)"

end
