(* ===== verification/Service_Tick_Properties.thy ===== *)
theory Service_Tick_Properties
  imports Service_Tick Service_Commands_Properties
begin

text \<open>
  What the periodic work promises: the orphan sweep deletes no file that a row, a reservation or a queued command refers to
  and no fresh one, the automatic key requests are few and go to one validated address each, expiry is atomic per row. And
  what the row scan does not promise: rows that wait for a key can hold up every younger row for good.
\<close>

section \<open>The orphan sweep\<close>

lemma orphan_scan_sound:
  assumes "n \<in> set (orphan_scan refs now ok x d es)"
  shows "\<exists>e \<in> set es. se_name e = n \<and> is_orphan refs now e"
  using assms by (induction refs now ok x d es rule: orphan_scan.induct) (auto split: if_splits)

lemma orphan_scan_bound: "length (orphan_scan refs now ok x d es) \<le> MAX_ORPHAN_DELETE_PER_TICK - d"
  by (induction refs now ok x d es rule: orphan_scan.induct) auto

lemma endswith_iff: "endswith xs p \<longleftrightarrow> (\<exists>ys. xs = ys @ p)"
proof
  assume "endswith xs p"
  then obtain ys where "rev xs = rev p @ ys" by (auto simp: endswith_def startswith_iff)
  then have "xs = rev ys @ p" by (metis rev_append rev_rev_ident)
  then show "\<exists>ys. xs = ys @ p" ..
qed (auto simp: endswith_def)

lemma hex32_not_suffixed: "hex32 n \<Longrightarrow> \<not> endswith n ''.mcv''"
  by (auto simp: endswith_iff hex32_def ord_def)

lemma referenced_not_orphan:
  assumes "i \<in> refs" and "hex32 i" and "is_orphan refs now e"
  shows "se_name e \<noteq> i \<and> se_name e \<noteq> i @ ''.mcv''"
proof -
  have own: "classify_spool_name i = Some CommittedFile" "spool_attachment_id i = i"
    using assms(2) by (simp_all add: classify_spool_name_def spool_attachment_id_def hex32_not_suffixed)
  have "\<not> hex32 (i @ ''.mcv'')"
    using assms(2) by (simp add: hex32_def)
  then have enc: "classify_spool_name (i @ ''.mcv'') = Some CommittedFile" "spool_attachment_id (i @ ''.mcv'') = i"
    using assms(2) by (auto simp: classify_spool_name_def hex32_prefix_def spool_attachment_id_def endswith_iff)
  show ?thesis
    using assms(1,3) own enc by (auto simp: is_orphan_def split: option.splits)
qed

text \<open>C38. The orphan sweep deletes only what nobody needs. Whatever the directory listing says, the pass changes nothing but the
  spool, removes at most 20 names, and each of them was listed as a plain file under one of the known names, was at least
  an hour old, and is neither the plain nor the encrypted copy of an attachment that a row of the workspace, a pending
  reservation or a queued command refers to.\<close>

theorem orphan_recovery_safe:
  "\<exists>gone. recover_orphaned_spool E queued entries w = w\<lparr>ww_spool := filter (\<lambda>f. fst f \<notin> set gone) (ww_spool w)\<rparr>
     \<and> length gone \<le> 20
     \<and> (\<forall>n \<in> set gone. (\<exists>es e mtime. entries = Some es \<and> e \<in> set es \<and> se_name e = n \<and> se_is_file e = Some True
            \<and> classify_spool_name n \<noteq> None \<and> se_mtime e = Some mtime \<and> mtime + 3600 \<le> we_now E)
          \<and> (\<forall>i \<in> referenced_attachment_ids E queued w. hex32 i \<longrightarrow> n \<noteq> i \<and> n \<noteq> i @ ''.mcv''))"
proof (cases entries)
  case None
  then show ?thesis by (intro exI [of _ "[]"]) (simp add: recover_orphaned_spool_def)
next
  case (Some es)
  define gone where "gone = orphan_scan (referenced_attachment_ids E queued w) (we_now E) (we_unlink_ok E) 0 0 es"
  have "\<forall>n \<in> set gone. (\<exists>es' e mtime. entries = Some es' \<and> e \<in> set es' \<and> se_name e = n \<and> se_is_file e = Some True
            \<and> classify_spool_name n \<noteq> None \<and> se_mtime e = Some mtime \<and> mtime + 3600 \<le> we_now E)
          \<and> (\<forall>i \<in> referenced_attachment_ids E queued w. hex32 i \<longrightarrow> n \<noteq> i \<and> n \<noteq> i @ ''.mcv'')"
  proof
    fix n
    assume "n \<in> set gone"
    then obtain e where e: "e \<in> set es" "se_name e = n" and o: "is_orphan (referenced_attachment_ids E queued w) (we_now E) e"
      using orphan_scan_sound unfolding gone_def by blast
    from o have "classify_spool_name n \<noteq> None" "se_is_file e = Some True" "\<exists>mtime. se_mtime e = Some mtime \<and> mtime + 3600 \<le> we_now E"
      by (auto simp: is_orphan_def ORPHAN_SPOOL_MIN_AGE_SECONDS_def e split: option.splits)
    then obtain mtime where m: "classify_spool_name n \<noteq> None" "se_is_file e = Some True" "se_mtime e = Some mtime" "mtime + 3600 \<le> we_now E"
      by blast
    have "\<forall>i \<in> referenced_attachment_ids E queued w. hex32 i \<longrightarrow> n \<noteq> i \<and> n \<noteq> i @ ''.mcv''"
      using referenced_not_orphan [OF _ _ o] e(2) by blast
    then show "(\<exists>es' e mtime. entries = Some es' \<and> e \<in> set es' \<and> se_name e = n \<and> se_is_file e = Some True
            \<and> classify_spool_name n \<noteq> None \<and> se_mtime e = Some mtime \<and> mtime + 3600 \<le> we_now E)
          \<and> (\<forall>i \<in> referenced_attachment_ids E queued w. hex32 i \<longrightarrow> n \<noteq> i \<and> n \<noteq> i @ ''.mcv'')"
      by (intro conjI exI [of _ es] exI [of _ e] exI [of _ mtime]) (rule Some e m)+
  qed
  moreover have "length gone \<le> 20"
    using orphan_scan_bound [of _ _ _ 0 0 es] unfolding gone_def MAX_ORPHAN_DELETE_PER_TICK_def by simp
  moreover have "recover_orphaned_spool E queued entries w = w\<lparr>ww_spool := filter (\<lambda>f. fst f \<notin> set gone) (ww_spool w)\<rparr>"
    using Some by (simp add: recover_orphaned_spool_def gone_def Let_def)
  ultimately show ?thesis by (intro exI [of _ gone] conjI)
qed

section \<open>Automatic key requests\<close>

text \<open>What must hold of a row and an address before the worker asks that address for a key.\<close>

definition may_ask :: "'r worker_env \<Rightarrow> 'r worker_world \<Rightarrow> attachment \<Rightarrow> string \<Rightarrow> bool" where
  "may_ask E w a r \<longleftrightarrow>
     a_reply_route_id a = Some r \<and> auto_route_ok a r \<and> we_now E < of_int (a_hard_expires_at a)
     \<and> check_key_request_rate_limit (we_config E) (ww_keys w) r (we_now E) = Inr ()
     \<and> (\<exists>raw f. a_pending_offer_cbor a = Some raw \<and> decode_offer (env_X (we_env E)) raw None = Inr f
          \<and> get_binding_by_key_id (we_config E) (ww_keys w) (hex_of (o_sender_key_id f)) = None)"

text \<open>The world after one request.\<close>

definition asked :: "'r worker_env \<Rightarrow> attachment \<Rightarrow> string \<Rightarrow> bytes \<Rightarrow> 'r worker_world \<Rightarrow> 'r worker_world" where
  "asked E a r payload w =
     put_keys (record_auto_key_request_sent (we_config E) (record_key_request_sent (we_config E) (ww_keys w) r (we_now E)) (we_now E))
       (w\<lparr>ww_radio := ww_radio w @ [(payload, direct_route r, ''auto-key-request-'' @ a_id a)]\<rparr>)"

lemma asked_simps [simp]:
  "ww_radio (asked E a r p w) = ww_radio w @ [(p, direct_route r, ''auto-key-request-'' @ a_id a)]"
  "put_keys k (asked E a r p w) = put_keys k (w\<lparr>ww_radio := ww_radio (asked E a r p w)\<rparr>)"
  by (simp_all add: asked_def put_keys_def)

lemma may_ask_other:
  assumes "r \<noteq> r'"
  shows "may_ask E (asked E a' r' p w) a r = may_ask E w a r"
proof -
  have "find_by c_key (addr_key K r) (upsert c_key ((new_contact K r')\<lparr>c_last_request_sent_at := Some t\<rparr>)
      (\<lambda>c. c\<lparr>c_last_request_sent_at := Some t\<rparr>) cs) = find_by c_key (addr_key K r) cs" for K t cs
    using assms by (subst find_by_upsert) (auto simp: c_key_def addr_key_def new_contact_def)
  then show ?thesis
    by (simp add: may_ask_def asked_def put_keys_def check_key_request_rate_limit_def record_auto_key_request_sent_def
        record_key_request_sent_def get_binding_by_key_id_def)
qed

lemma auto_send_cases:
  assumes "auto_send E a r A k w = (w', out)"
  obtains (kept) "out \<noteq> AutoSent" "out \<noteq> AutoQuotaExhausted" "w' = w" | (sent) p where "out = AutoSent" "w' = asked E a r p w"
  using assms by (auto simp: auto_send_def asked_def split: sum.splits delivery_exc.splits if_splits)

lemma auto_request_key_for_row_cases:
  assumes "auto_request_key_for_row E A a attempted w = (w', attempted', out)"
  obtains (kept) "out \<noteq> AutoSent" "w' = w" "set attempted \<subseteq> set attempted'"
  | (sent) r p where "out = AutoSent" "w' = asked E a r p w" "r \<notin> set attempted" "attempted' = r # attempted" "may_ask E w a r"
      "check_auto_key_request_quota (we_config E) (ww_keys w) (we_now E) = Inr ()"
proof (cases "out = AutoSent")
  case False
  with assms show ?thesis
    by (intro kept) (auto simp: auto_request_key_for_row_def auto_request_fresh_def
        split: option.splits if_splits sum.splits prod.splits codec_error.splits ke_error.splits elim!: auto_send_cases)
next
  case True
  obtain r raw f k where *: "a_reply_route_id a = Some r" "a_pending_offer_cbor a = Some raw" "we_now E < of_int (a_hard_expires_at a)"
    "auto_route_ok a r" "r \<notin> set attempted" "attempted' = r # attempted" "decode_offer (env_X (we_env E)) raw None = Inr f"
    "get_binding_by_key_id (we_config E) (ww_keys w) (hex_of (o_sender_key_id f)) = None"
    "check_key_request_rate_limit (we_config E) (ww_keys w) r (we_now E) = Inr ()"
    "check_auto_key_request_quota (we_config E) (ww_keys w) (we_now E) = Inr ()" "auto_send E a r A k w = (w', out)"
    using assms True
    by (auto simp: auto_request_key_for_row_def auto_request_fresh_def not_le
        split: option.splits if_splits sum.splits prod.splits codec_error.splits ke_error.splits)
  from *(11) True obtain p where "w' = asked E a r p w"
    by (auto elim: auto_send_cases)
  with * True show ?thesis
    by (intro sent [of r p]) (auto simp: may_ask_def)
qed

lemma auto_request_loop_bounded:
  "\<exists>sent. auto_request_loop E A k rows attempted w = put_keys (ww_keys (auto_request_loop E A k rows attempted w)) (w\<lparr>ww_radio := ww_radio w @ sent\<rparr>)
     \<and> length sent \<le> MAX_AUTO_KEY_REQUESTS_PER_TICK - k \<and> distinct (map (rt_route_id \<circ> fst \<circ> snd) sent)
     \<and> (\<forall>m \<in> set sent. \<exists>r a. fst (snd m) = direct_route r \<and> r \<notin> set attempted \<and> a \<in> set rows \<and> may_ask E w a r)
     \<and> (sent \<noteq> [] \<longrightarrow> check_auto_key_request_quota (we_config E) (ww_keys w) (we_now E) = Inr ())"
proof (induction rows arbitrary: k attempted w)
  case Nil
  show ?case by (intro exI [of _ "[]"]) (simp add: put_keys_def)
next
  case (Cons a rows)
  obtain w' attempted' out where r: "auto_request_key_for_row E A a attempted w = (w', attempted', out)"
    by (metis prod_cases3)
  show ?case
  proof (cases "MAX_AUTO_KEY_REQUESTS_PER_TICK \<le> k")
    case True
    then show ?thesis by (intro exI [of _ "[]"]) (simp add: put_keys_def)
  next
    case small: False
    from r show ?thesis
    proof (cases rule: auto_request_key_for_row_cases)
      case kept
      show ?thesis
      proof (cases "out = AutoQuotaExhausted")
        case True
        then show ?thesis
          using small r kept by (intro exI [of _ "[]"]) (simp add: put_keys_def)
      next
        case False
        then have run: "auto_request_loop E A k (a # rows) attempted w = auto_request_loop E A k rows attempted' w"
          using small r kept by (cases out) simp_all
        obtain ms where ms: "auto_request_loop E A k rows attempted' w = put_keys (ww_keys (auto_request_loop E A k rows attempted' w))
              (w\<lparr>ww_radio := ww_radio w @ ms\<rparr>)"
            "length ms \<le> MAX_AUTO_KEY_REQUESTS_PER_TICK - k" "distinct (map (rt_route_id \<circ> fst \<circ> snd) ms)"
            "ms \<noteq> [] \<longrightarrow> check_auto_key_request_quota (we_config E) (ww_keys w) (we_now E) = Inr ()"
            "\<forall>m \<in> set ms. \<exists>r a'. fst (snd m) = direct_route r \<and> r \<notin> set attempted' \<and> a' \<in> set rows \<and> may_ask E w a' r"
          using Cons.IH [of k attempted' w] by blast
        from ms(5) kept(3) have "\<forall>m \<in> set ms. \<exists>r a'. fst (snd m) = direct_route r \<and> r \<notin> set attempted \<and> a' \<in> set (a # rows) \<and> may_ask E w a' r"
          by (meson list.set_intros(2) subset_iff)
        with ms(1-4) show ?thesis
          unfolding run by blast
      qed
    next
      case (sent r' p)
      then have run: "auto_request_loop E A k (a # rows) attempted w = auto_request_loop E A (Suc k) rows (r' # attempted) (asked E a r' p w)"
        using small r by simp
      let ?m = "(p, direct_route r', ''auto-key-request-'' @ a_id a)"
      obtain ms where ms: "auto_request_loop E A (Suc k) rows (r' # attempted) (asked E a r' p w)
            = put_keys (ww_keys (auto_request_loop E A (Suc k) rows (r' # attempted) (asked E a r' p w)))
                ((asked E a r' p w)\<lparr>ww_radio := ww_radio (asked E a r' p w) @ ms\<rparr>)"
        "length ms \<le> MAX_AUTO_KEY_REQUESTS_PER_TICK - Suc k" "distinct (map (rt_route_id \<circ> fst \<circ> snd) ms)"
        "\<forall>m \<in> set ms. \<exists>r a'. fst (snd m) = direct_route r \<and> r \<notin> set (r' # attempted) \<and> a' \<in> set rows \<and> may_ask E (asked E a r' p w) a' r"
        using Cons.IH [of "Suc k" "r' # attempted" "asked E a r' p w"] by blast
      have "put_keys K ((asked E a r' p w)\<lparr>ww_radio := ww_radio (asked E a r' p w) @ ms\<rparr>) = put_keys K (w\<lparr>ww_radio := ww_radio w @ ?m # ms\<rparr>)" for K
        by (simp add: asked_def put_keys_def)
      note ms(1) [unfolded this]
      moreover have "rt_route_id (fst (snd m)) \<noteq> r'" if "m \<in> set ms" for m
        using ms(4) that by (fastforce simp: direct_route_def)
      then have "distinct (map (rt_route_id \<circ> fst \<circ> snd) (?m # ms))"
        using ms(3) by (auto simp: direct_route_def)
      moreover have "\<forall>m \<in> set (?m # ms). \<exists>r a'. fst (snd m) = direct_route r \<and> r \<notin> set attempted \<and> a' \<in> set (a # rows) \<and> may_ask E w a' r"
        using ms(4) sent(3,5) may_ask_other by fastforce
      moreover have "length (?m # ms) \<le> MAX_AUTO_KEY_REQUESTS_PER_TICK - k"
        using ms(2) small by simp
      ultimately show ?thesis
        unfolding run using sent(6) by blast
    qed
  qed
qed

text \<open>C39. Automatic key requests stay few and aimed. One pass changes nothing but the radio and the request bookkeeping, hands at
  most eight messages to the radio and none when the hourly budget is used up, each to a different address; and for each
  there is a received row waiting for a key, not past its deadline, with a complete validated DIRECT reply route to exactly
  that address, whose offer names a signer without a binding and whose address the rate limit lets be asked.\<close>

theorem auto_requests_bounded:
  "\<exists>sent. auto_request_missing_keys E w = put_keys (ww_keys (auto_request_missing_keys E w)) (w\<lparr>ww_radio := ww_radio w @ sent\<rparr>)
     \<and> length sent \<le> 8 \<and> distinct (map (rt_route_id \<circ> fst \<circ> snd) sent)
     \<and> (\<forall>m \<in> set sent. \<exists>r a. fst (snd m) = direct_route r \<and> a \<in> set (db_attachments (ww_db w)) \<and> a_workspace_id a = we_workspace E
          \<and> a_direction a = Received \<and> a_state a = WAITING_KEY \<and> may_ask E w a r)
     \<and> (sent \<noteq> [] \<longrightarrow> check_auto_key_request_quota (we_config E) (ww_keys w) (we_now E) = Inr ())"
proof (cases "sf_adapter (we_service E)")
  case None
  then show ?thesis by (intro exI [of _ "[]"]) (simp add: auto_request_missing_keys_def put_keys_def)
next
  case (Some A)
  then have run: "auto_request_missing_keys E w = auto_request_loop E A 0 (waiting_key_rows E (ww_db w)) [] w"
    by (simp add: auto_request_missing_keys_def)
  show ?thesis
    using auto_request_loop_bounded [of E A 0 "waiting_key_rows E (ww_db w)" "[]" w] unfolding run
    by (auto simp: waiting_key_rows_def MAX_AUTO_KEY_REQUESTS_PER_TICK_def)
qed

section \<open>The row scan\<close>

text \<open>A received row parked for the key of a signer nobody has announced.\<close>

definition waits_for_unknown_key :: "'r worker_env \<Rightarrow> 'r worker_world \<Rightarrow> attachment \<Rightarrow> bool" where
  "waits_for_unknown_key E w a \<longleftrightarrow>
     a_direction a = Received \<and> a_state a = WAITING_KEY \<and> find_attachment (ww_db w) (a_id a) = Some a
     \<and> (\<exists>raw f. a_pending_offer_cbor a = Some raw \<and> decode_offer (env_X (we_env E)) raw None = Inr f
          \<and> get_binding_by_key_id (we_config E) (ww_keys w) (hex_of (o_sender_key_id f)) = None)"

lemma parked_row_stays:
  assumes "waits_for_unknown_key E w a"
  shows "scan_row E a w = w"
  using assms
  by (auto simp: waits_for_unknown_key_def scan_row_def step_received_def Let_def run_step_def step_waiting_key_def split: prod.splits)

lemma fold_id: "(\<And>x. x \<in> set xs \<Longrightarrow> f x s = s) \<Longrightarrow> fold f xs s = s"
  by (induction xs) simp_all

lemma enqueue_find:
  assumes "enqueue_control_message E db i tid t evt now route = Inr (db', frame)"
  shows "find_attachment db' j = find_attachment db j"
  using assms by (cases rule: enqueue_Inr) (simp_all add: find_attachment_def)

lemma expire_cases:
  obtains (kept) "expire_row E row db = db"
  | (expired) x where "find_attachment db (a_id row) = Some x" "a_state x \<in> set EXPIRABLE_STATES" "0 < a_hard_expires_at x"
      "of_int (a_hard_expires_at x) \<le> we_now E"
      "\<And>j. find_attachment (expire_row E row db) j = (if j = a_id row then Some (x\<lparr>a_state := ST_EXPIRED, a_error_code := None\<rparr>) else find_attachment db j)"
      "control_already_enqueued (expire_row E row db) (a_id row) EVENT_EXPIRED_SENT"
proof (cases "\<exists>db' st. expire (we_env E) db (a_id row) (we_now E) = Inr (db', st) \<and> db' \<noteq> db")
  case False
  then show ?thesis by (intro kept) (auto simp: expire_row_def split: sum.splits)
next
  case True
  then obtain db' st where e: "expire (we_env E) db (a_id row) (we_now E) = Inr (db', st)" "db' \<noteq> db" by blast
  then obtain x tid frame where x: "find_attachment db (a_id row) = Some x" "a_state x \<in> set EXPIRABLE_STATES" "0 < a_hard_expires_at x"
    "of_int (a_hard_expires_at x) \<le> we_now E"
    and q: "enqueue_control_message (we_env E) (record_event (set_state db (a_id row) ST_EXPIRED None) (a_id row) (we_now E) ''expired'')
       (a_id row) tid EXPIRED EVENT_EXPIRED_SENT (we_now E) DERIVE_REPLY_ROUTE = Inr (db', frame)"
    by (auto simp: expire_def bind_res_eq_Inr not_le not_less split: option.splits if_splits)
  have "find_attachment db' j = (if j = a_id row then Some (x\<lparr>a_state := ST_EXPIRED, a_error_code := None\<rparr>) else find_attachment db j)" for j
    using x(1) enqueue_find [OF q, of j] by (simp add: set_state_def find_update_attachment find_moves)
  then show ?thesis
    using x enqueue_keeps(4) [OF q] e(1) by (intro expired [of x]) (simp_all add: expire_row_def)
qed

lemma expire_other: "j \<noteq> a_id row \<Longrightarrow> find_attachment (expire_row E row db) j = find_attachment db j"
  by (cases rule: expire_cases [of E row db]) simp_all

lemma expire_fold_other:
  "j \<notin> a_id ` set rows \<Longrightarrow> find_attachment (fold (expire_row E) rows db) j = find_attachment db j"
  by (induction rows arbitrary: db) (simp_all add: expire_other)

lemma expire_fold_undated:
  "find_attachment db j = Some a \<Longrightarrow> a_hard_expires_at a \<le> 0 \<Longrightarrow> find_attachment (fold (expire_row E) rows db) j = Some a"
proof (induction rows arbitrary: db)
  case (Cons row rows)
  have "find_attachment (expire_row E row db) j = Some a"
    using Cons.prems by (cases rule: expire_cases [of E row db]) auto
  with Cons show ?case by simp
qed simp

lemma expire_row_enqueued: "control_already_enqueued db j t \<Longrightarrow> control_already_enqueued (expire_row E row db) j t"
proof (cases "expire (we_env E) db (a_id row) (we_now E)")
  case (Inr r)
  assume old: "control_already_enqueued db j t"
  obtain db' st where r: "r = (db', st)" by fastforce
  have "\<exists>rs. db_replies db' = db_replies db @ rs"
    using Inr unfolding r
    by (auto simp: expire_def bind_res_eq_Inr set_state_def record_event_def update_attachment_def split: option.splits if_splits elim!: enqueue_Inr)
  with old Inr r show ?thesis
    by (auto simp: expire_row_def control_already_enqueued_def)
qed (simp add: expire_row_def)

lemma expire_fold_enqueued: "control_already_enqueued db j t \<Longrightarrow> control_already_enqueued (fold (expire_row E) rows db) j t"
  by (induction rows arbitrary: db) (simp_all add: expire_row_enqueued)

text \<open>What the expiry sweep may do to one row.\<close>

definition expired_from :: "'r worker_env \<Rightarrow> mca_db \<Rightarrow> mca_db \<Rightarrow> string \<Rightarrow> bool" where
  "expired_from E db db' j \<longleftrightarrow>
     (\<exists>x. find_attachment db j = Some x \<and> a_state x \<in> set EXPIRABLE_STATES \<and> 0 < a_hard_expires_at x \<and> of_int (a_hard_expires_at x) \<le> we_now E
        \<and> find_attachment db' j = Some (x\<lparr>a_state := ST_EXPIRED, a_error_code := None\<rparr>) \<and> control_already_enqueued db' j EVENT_EXPIRED_SENT)"

lemma expire_fold_each:
  "find_attachment (fold (expire_row E) rows db) j = find_attachment db j \<or> expired_from E db (fold (expire_row E) rows db) j"
proof (induction rows arbitrary: db)
  case (Cons row rows)
  let ?db1 = "expire_row E row db"
  from Cons.IH [of ?db1] show ?case
  proof (cases rule: expire_cases [of E row db])
    case kept
    then show ?thesis using Cons.IH [of db] by simp
  next
    case (expired x)
    show ?thesis
    proof (cases "j = a_id row")
      case True
      have "\<not> expired_from E ?db1 db' j" for db'
        using expired(5) [of j] True by (simp add: expired_from_def EXPIRABLE_STATES_def)
      with Cons.IH [of ?db1] have "find_attachment (fold (expire_row E) rows ?db1) j = find_attachment ?db1 j" by blast
      with expired True expire_fold_enqueued [OF expired(6), of E rows] show ?thesis
        by (auto simp: expired_from_def)
    next
      case False
      then show ?thesis
        using Cons.IH [of ?db1] expired(5) [of j] by (simp add: expired_from_def)
    qed
  qed
qed simp

text \<open>Expiry is exact, atomic per row and bounded. One sweep changes at most eight rows; a row it changes was in a
  state that waits, with a positive deadline that has passed, and it becomes EXPIRED together with the signed EXPIRED in the
  outbox, with nothing else of it touched; every other row is what it was, whatever rows before it failed.\<close>

theorem expiry_sweep_atomic:
  "\<exists>ids. length ids \<le> 8
     \<and> (\<forall>j. if j \<in> set ids
          then find_attachment (ww_db (reconcile_receiver_expiry E w)) j = find_attachment (ww_db w) j
               \<or> expired_from E (ww_db w) (ww_db (reconcile_receiver_expiry E w)) j
          else find_attachment (ww_db (reconcile_receiver_expiry E w)) j = find_attachment (ww_db w) j)"
proof (intro exI [of _ "map a_id (expired_rows E (ww_db w))"] conjI allI)
  show "length (map a_id (expired_rows E (ww_db w))) \<le> 8"
    by (simp add: expired_rows_def MAX_RECEIVER_EXPIRY_PER_TICK_def)
qed (use expire_fold_each [of E "expired_rows E (ww_db w)" "ww_db w"] expire_fold_other [of _ "expired_rows E (ww_db w)" E "ww_db w"] in
    \<open>simp add: reconcile_receiver_expiry_def\<close>)

text \<open>The head of a sorted selection: when enough elements of a kind come before every other one, they fill it.\<close>

lemma take_sort_key_kind:
  fixes f :: "'a \<Rightarrow> 'b :: linorder"
  assumes "n \<le> length (filter P xs)" and older: "\<And>x y. x \<in> set xs \<Longrightarrow> y \<in> set xs \<Longrightarrow> P x \<Longrightarrow> \<not> P y \<Longrightarrow> f x < f y"
  shows "set (take n (sort_key f xs)) \<subseteq> Collect P" "length (take n (sort_key f xs)) = n"
proof -
  let ?s = "sort_key f xs"
  have len: "length (filter P ?s) = length (filter P xs)"
    by (simp add: filter_sort)
  show "set (take n ?s) \<subseteq> Collect P"
  proof (rule ccontr)
    assume "\<not> ?thesis"
    then obtain x where "x \<in> set (take n ?s)" "\<not> P x" by blast
    then obtain i where i: "i < n" "i < length ?s" "\<not> P (?s ! i)"
      unfolding in_set_conv_nth by auto
    have "\<not> P y" if y: "y \<in> set (drop i ?s)" for y
    proof -
      obtain k where k: "k < length ?s - i" "y = drop i ?s ! k"
        using y unfolding in_set_conv_nth by auto
      define j where "j = i + k"
      then have "i \<le> j" "j < length ?s" "y = ?s ! j"
        using i(2) k by simp_all
      then have "f (?s ! i) \<le> f y"
        using sorted_nth_mono [OF sorted_sort_key, of i j f xs] by simp
      then show ?thesis
        using older [of y "?s ! i"] i \<open>j < length ?s\<close> \<open>y = ?s ! j\<close> by (metis leD nth_mem set_sort)
    qed
    then have "length (filter P ?s) = length (filter P (take i ?s))"
      by (metis append_self_conv append_take_drop_id filter_append filter_False)
    also have "\<dots> \<le> i"
      using le_trans [OF length_filter_le, of "take i ?s" i P] by simp
    finally show False
      using i(1) len assms(1) by simp
  qed
  show "length (take n ?s) = n"
    using assms(1) le_trans [OF assms(1) length_filter_le] by simp
qed

text \<open>An offer of the workspace parked for an unknown key that no deadline will ever take away.\<close>

definition parked_for_good :: "'r worker_env \<Rightarrow> 'r worker_world \<Rightarrow> attachment \<Rightarrow> bool" where
  "parked_for_good E w a \<longleftrightarrow> waits_for_unknown_key E w a \<and> a_workspace_id a = we_workspace E \<and> a_hard_expires_at a \<le> 0"

lemma parked_for_good_due: "parked_for_good E w a \<Longrightarrow> row_due E a"
  by (auto simp: parked_for_good_def waits_for_unknown_key_def row_due_def RECEIVER_AUTOMATIC_STATES_def)

text \<open>C40. Eight offers that wait for a key stop the row scan. When eight offers without a deadline are parked for signers nobody has
  announced, and they are older than the other rows that are due, then every scan of the default size spends its eight rows on
  them: a scan counts eight rows, selects none of the other due rows however ready they are, and no number of scans changes
  anything at all; and the expiry sweep does not take the parked rows out of the way either.\<close>

theorem parked_offers_block_scan:
  assumes "MAX_ATTACHMENTS_PER_TICK \<le> length (filter (parked_for_good E w) (db_attachments (ww_db w)))"
    and "\<And>a row. a \<in> set (db_attachments (ww_db w)) \<Longrightarrow> parked_for_good E w a \<Longrightarrow> row \<in> set (db_attachments (ww_db w)) \<Longrightarrow> row_due E row
      \<Longrightarrow> \<not> parked_for_good E w row \<Longrightarrow> a_created_at a < a_created_at row"
  shows "((\<lambda>w. fst (row_scan E MAX_ATTACHMENTS_PER_TICK w)) ^^ n) w = w \<and> snd (row_scan E MAX_ATTACHMENTS_PER_TICK w) = 8
    \<and> (\<forall>row \<in> set (db_attachments (ww_db w)). row_due E row \<and> \<not> parked_for_good E w row \<longrightarrow>
         row \<notin> set (due_rows E MAX_ATTACHMENTS_PER_TICK (ww_db w)))
    \<and> (\<forall>a \<in> set (db_attachments (ww_db w)). parked_for_good E w a \<longrightarrow>
         find_attachment (ww_db (reconcile_receiver_expiry E w)) (a_id a) = Some a)"
proof -
  let ?due = "filter (row_due E) (db_attachments (ww_db w))" and ?rows = "due_rows E MAX_ATTACHMENTS_PER_TICK (ww_db w)"
  have "filter (parked_for_good E w) ?due = filter (parked_for_good E w) (db_attachments (ww_db w))"
    by (auto simp: parked_for_good_due intro!: filter_cong)
  with assms(1) have enough: "MAX_ATTACHMENTS_PER_TICK \<le> length (filter (parked_for_good E w) ?due)" by simp
  have rows: "set ?rows \<subseteq> Collect (parked_for_good E w)" "length ?rows = MAX_ATTACHMENTS_PER_TICK"
    unfolding due_rows_def using take_sort_key_kind [OF enough, of a_created_at] assms(2) by auto
  then have "fst (row_scan E MAX_ATTACHMENTS_PER_TICK w) = w"
    unfolding row_scan_def Let_def fst_conv by (intro fold_id parked_row_stays) (auto simp: parked_for_good_def)
  then have "((\<lambda>w. fst (row_scan E MAX_ATTACHMENTS_PER_TICK w)) ^^ n) w = w"
    by (induction n) simp_all
  moreover have "find_attachment (ww_db (reconcile_receiver_expiry E w)) (a_id a) = Some a" if "parked_for_good E w a" for a
    using that by (simp add: parked_for_good_def waits_for_unknown_key_def reconcile_receiver_expiry_def expire_fold_undated)
  ultimately show ?thesis
    using rows by (auto simp: row_scan_def Let_def MAX_ATTACHMENTS_PER_TICK_def)
qed

section \<open>Sender copies, reservations, revoke tokens\<close>

lemma unsaved_state: "map_option a_state (map_option (\<lambda>a. if P a then a\<lparr>a_saved_path := None\<rparr> else a) o') = map_option a_state o'"
  by (cases o') simp_all

lemma sweep_sent_copy_effect:
  "(\<forall>f \<in> set (ww_spool w). f \<notin> set (ww_spool (sweep_sent_copy E rp row w)) \<longrightarrow> fst f = a_id row \<or> fst f = a_id row @ ''.mcv'')
   \<and> set (ww_spool (sweep_sent_copy E rp row w)) \<subseteq> set (ww_spool w)
   \<and> (\<forall>j. state_of (ww_db (sweep_sent_copy E rp row w)) j = state_of (ww_db w) j)"
  by (auto simp: sweep_sent_copy_def remove_spool_def unlink_content_def Let_def state_of_def find_update_attachment unsaved_state
      split: option.splits if_splits prod.splits bool.splits)

text \<open>The sweep of sender copies moves no row and removes only files named after a finished sent row.\<close>

lemma sweep_sent_copies_safe:
  "(\<forall>f \<in> set (ww_spool w). f \<notin> set (ww_spool (sweep_sent_copies E rp w)) \<longrightarrow>
      (\<exists>row \<in> set (finished_sent_rows E (ww_db w)). fst f = a_id row \<or> fst f = a_id row @ ''.mcv''))
   \<and> (\<forall>j. state_of (ww_db (sweep_sent_copies E rp w)) j = state_of (ww_db w) j)"
proof -
  have "(\<forall>f \<in> set (ww_spool w). f \<notin> set (ww_spool (fold (sweep_sent_copy E rp) rows w)) \<longrightarrow>
      (\<exists>row \<in> set rows. fst f = a_id row \<or> fst f = a_id row @ ''.mcv''))
   \<and> (\<forall>j. state_of (ww_db (fold (sweep_sent_copy E rp) rows w)) j = state_of (ww_db w) j)" for rows
  proof (induction rows arbitrary: w)
    case (Cons row rows)
    from Cons.IH [of "sweep_sent_copy E rp row w"] sweep_sent_copy_effect [of w E rp row] show ?case
      by simp blast
  qed simp
  then show ?thesis by (simp add: sweep_sent_copies_def)
qed

text \<open>A reservation is released only when the published index answers for the same request with the same row and hash.\<close>

lemma reservation_released_published:
  assumes "ww_pending (cleanup_committed_reservations published w) r \<noteq> ww_pending w r"
  shows "\<exists>index entry h. published = Some index \<and> index r = Some entry \<and> ww_handoffs w r = Some h
    \<and> ix_attachment_id entry = ch_attachment_id h \<and> ix_canonical_hash entry = ch_canonical_hash h"
  using assms by (auto simp: cleanup_committed_reservations_def released_def handoff_published_def split: option.splits if_splits)

text \<open>No revoke token goes before its deadline.\<close>

lemma revoke_cleanup_keeps:
  assumes "r \<in> set (db_revoke_state db)" and "rat_trunc now < rv_delete_after r" and "distinct (map rv_attachment_id (db_revoke_state db))"
  shows "r \<in> set (db_revoke_state (cleanup_expired_revoke_state now db))"
proof -
  have "rv_attachment_id r \<noteq> rv_attachment_id x" if "x \<in> set (take n (filter (\<lambda>r. rv_delete_after r \<le> rat_trunc now) (db_revoke_state db)))" for x n
  proof
    assume same: "rv_attachment_id r = rv_attachment_id x"
    have "x \<in> set (db_revoke_state db)" "rv_delete_after x \<le> rat_trunc now"
      using in_set_takeD [OF that] by simp_all
    with same assms show False
      by (metis find_by_unique option.inject linorder_not_less)
  qed
  with assms(1) show ?thesis
    by (force simp: cleanup_expired_revoke_state_def Let_def)
qed

section \<open>Concrete runs\<close>

definition undated_offer :: offer_fields where
  "undated_offer = sample_offer\<lparr>o_hard_expires_at := 0\<rparr>"

lemma undated_offer_decodes: "\<exists>raw s. decode_offer ref_ext raw None = Inr (undated_offer\<lparr>o_signature := Some s\<rparr>)"
proof -
  obtain raw where raw: "encode_offer ref_ext undated_offer (replicate 32 4) = Inr raw"
    using offer.enc_succeeds_iff [of ref_ext undated_offer "replicate 32 4"] by (auto simp: offer_valid_def undated_offer_def sample_offer_def)
  then obtain s where "decode_offer ref_ext raw (Some (ed_public ref_ext (replicate 32 4))) = Inr (undated_offer\<lparr>o_signature := Some s\<rparr>)"
    using offer.roundtrip [OF _ _ raw, of "Some (ed_public ref_ext (replicate 32 4))"] by auto
  then show ?thesis
    using decode_offer_verified by blast
qed

definition parked :: "bytes \<Rightarrow> nat \<Rightarrow> attachment" where
  "parked raw k = delivered\<lparr>a_id := replicate (k + 2) CHR ''x'', a_direction := Received, a_state := WAITING_KEY, a_created_at := 0,
     a_hard_expires_at := 0, a_pending_offer_cbor := Some raw\<rparr>"

definition crowded :: "bytes \<Rightarrow> relay_store worker_world" where
  "crowded raw = put_db ((worker_db validated)\<lparr>db_attachments := map (parked raw) [0..<8] @ [validated]\<rparr>) (worker_state validated)"

lemma parked_simps [simp]:
  "a_id (parked raw k) = replicate (k + 2) CHR ''x''" "a_direction (parked raw k) = Received" "a_state (parked raw k) = WAITING_KEY"
  "a_created_at (parked raw k) = 0" "a_hard_expires_at (parked raw k) = 0" "a_pending_offer_cbor (parked raw k) = Some raw"
  "a_workspace_id (parked raw k) = ''w''"
  by (simp_all add: parked_def)

lemma sort_key_sorted: "sorted (map f xs) \<Longrightarrow> sort_key f xs = xs"
  by (induction xs) (simp_all add: insort_is_Cons)

lemma validated_created [simp]: "a_created_at validated = 1" "a_workspace_id validated = ''w''"
  by (simp_all add: validated_def peer_row_def new_sent_def peer_args_def sample_args_def)

lemma crowded_parked:
  assumes "decode_offer ref_ext raw None = Inr (undated_offer\<lparr>o_signature := Some s\<rparr>)" and "k < 8"
  shows "waits_for_unknown_key worker (crowded raw) (parked raw k)"
proof -
  have "distinct (map a_id (map (parked raw) [0..<8] @ [validated]))"
    by (auto simp: distinct_map inj_on_def comp_def dest: arg_cong [where f = length])
  then have "find_attachment (ww_db (crowded raw)) (a_id (parked raw k)) = Some (parked raw k)"
    using assms(2) find_by_unique [of a_id "map (parked raw) [0..<8] @ [validated]" "parked raw k"]
    by (simp add: crowded_def find_attachment_def)
  moreover have "get_binding_by_key_id (we_config worker) (ww_keys (crowded raw)) (hex_of (replicate 8 2)) = None"
    by (simp add: crowded_def worker_state_def get_binding_by_key_id_def addr_key_def peer_binding_def put_db_def with_db_def)
  ultimately show ?thesis
    using assms(1) by (auto simp: waits_for_unknown_key_def peer_env_def sample_env_def undated_offer_def sample_offer_def)
qed

text \<open>The same row does advance when the parked ones are not there.\<close>

lemma uncrowded_scan: "state_of (ww_db (fst (row_scan worker MAX_ATTACHMENTS_PER_TICK (worker_state validated)))) ''a'' = Some QUEUED_UPLOAD"
proof -
  have "due_rows worker MAX_ATTACHMENTS_PER_TICK (worker_db validated) = [validated]"
    by (simp add: due_rows_def worker_db_def row_due_def AUTOMATIC_STATES_def MAX_ATTACHMENTS_PER_TICK_def)
  then show ?thesis
    using worker_seals by (auto simp: row_scan_def Let_def scan_row_def)
qed

theorem parked_offers_block_scan_witness:
  "\<exists>raw. ((\<lambda>w. fst (row_scan worker MAX_ATTACHMENTS_PER_TICK w)) ^^ 1000) (crowded raw) = crowded raw
     \<and> validated \<notin> set (due_rows worker MAX_ATTACHMENTS_PER_TICK (ww_db (crowded raw)))
     \<and> find_attachment (ww_db (crowded raw)) ''a'' = Some validated
     \<and> state_of (ww_db (fst (row_scan worker MAX_ATTACHMENTS_PER_TICK (worker_state validated)))) ''a'' = Some QUEUED_UPLOAD"
proof -
  obtain raw s where raw: "decode_offer ref_ext raw None = Inr (undated_offer\<lparr>o_signature := Some s\<rparr>)"
    using undated_offer_decodes by blast
  have rows: "db_attachments (ww_db (crowded raw)) = map (parked raw) [0..<8] @ [validated]"
    by (simp add: crowded_def)
  have good: "parked_for_good worker (crowded raw) a" if "a \<in> set (map (parked raw) [0..<8])" for a
    using that crowded_parked [OF raw] by (auto simp: parked_for_good_def)
  have ready: "\<not> parked_for_good worker (crowded raw) validated" "row_due worker validated"
    by (simp_all add: parked_for_good_def waits_for_unknown_key_def row_due_def AUTOMATIC_STATES_def)
  have "filter (parked_for_good worker (crowded raw)) (db_attachments (ww_db (crowded raw))) = map (parked raw) [0..<8]"
    unfolding rows filter_append using filter_True [of "map (parked raw) [0..<8]", OF ballI, OF good] ready(1)
    by (simp only: filter.simps if_False append_Nil2)
  then have "MAX_ATTACHMENTS_PER_TICK \<le> length (filter (parked_for_good worker (crowded raw)) (db_attachments (ww_db (crowded raw))))"
    by (simp add: MAX_ATTACHMENTS_PER_TICK_def)
  moreover have "a_created_at a < a_created_at row" if "a \<in> set (db_attachments (ww_db (crowded raw)))" "parked_for_good worker (crowded raw) a"
    "row \<in> set (db_attachments (ww_db (crowded raw)))" "\<not> parked_for_good worker (crowded raw) row" for a row
    using that good ready unfolding rows by auto
  ultimately have "((\<lambda>w. fst (row_scan worker MAX_ATTACHMENTS_PER_TICK w)) ^^ 1000) (crowded raw) = crowded raw
      \<and> validated \<notin> set (due_rows worker MAX_ATTACHMENTS_PER_TICK (ww_db (crowded raw)))"
    using parked_offers_block_scan [of worker "crowded raw" 1000] ready rows by simp
  moreover have "find_attachment (ww_db (crowded raw)) ''a'' = Some validated"
    by (simp add: crowded_def find_attachment_def find_by_append find_by_None [THEN iffD2] image_iff split: option.splits)
  ultimately show ?thesis
    using uncrowded_scan by blast
qed

definition staged_name :: "char \<Rightarrow> string" where "staged_name c = replicate 32 c"

definition staged_entry :: "char \<Rightarrow> spool_entry" where
  "staged_entry c = \<lparr>se_name = staged_name c, se_is_file = Some True, se_mtime = Some (- 4000)\<rparr>"

definition staged_state :: "relay_store worker_world" where
  "staged_state = (worker_state validated)\<lparr>ww_spool := [(staged_name CHR ''0'', []), (staged_name CHR ''1'', [])]\<rparr>"

definition staged_command :: command where
  "staged_command = \<lparr>cmd_id = ''c'', cmd_kind = ''attachment_create'', cmd_payload = [(''attachment_id'', WStr (staged_name CHR ''1''))], cmd_created_at = 3\<rparr>"

lemma staged_classified [simp]:
  "classify_spool_name (staged_name CHR ''0'') = Some CommittedFile" "classify_spool_name (staged_name CHR ''1'') = Some CommittedFile"
  "spool_attachment_id (staged_name CHR ''0'') = staged_name CHR ''0''" "staged_name CHR ''0'' \<noteq> staged_name CHR ''1''" "staged_name CHR ''0'' \<noteq> ''a''"
  "spool_attachment_id (staged_name CHR ''1'') = staged_name CHR ''1''" "hex32 (staged_name CHR ''1'')"
  by code_simp+

lemma worker_unlinks [simp]: "we_unlink_ok worker n"
  by (simp add: worker_def)

lemma staged_referenced: "referenced_attachment_ids worker [staged_command] staged_state = {''a'', staged_name CHR ''1''}"
  by (auto simp: referenced_attachment_ids_def staged_state_def worker_state_def worker_db_def staged_command_def payload_text_def obj_get_def
      List.map_filter_def empty_world_def ran_def)

theorem orphan_recovery_safe_witness:
  "\<exists>gone. recover_orphaned_spool worker [staged_command] (Some (map staged_entry ''01'')) staged_state
       = staged_state\<lparr>ww_spool := filter (\<lambda>f. fst f \<notin> set gone) (ww_spool staged_state)\<rparr>
     \<and> length gone \<le> 20 \<and> staged_name CHR ''1'' \<notin> set gone
     \<and> ww_spool (recover_orphaned_spool worker [staged_command] (Some (map staged_entry ''01'')) staged_state) = [(staged_name CHR ''1'', [])]"
proof -
  have "ww_spool (recover_orphaned_spool worker [staged_command] (Some (map staged_entry ''01'')) staged_state) = [(staged_name CHR ''1'', [])]"
    by (simp add: recover_orphaned_spool_def Let_def staged_referenced MAX_ORPHAN_SCAN_PER_TICK_def MAX_ORPHAN_DELETE_PER_TICK_def is_orphan_def
        staged_entry_def ORPHAN_SPOOL_MIN_AGE_SECONDS_def) (simp add: staged_state_def staged_classified(4) [symmetric])
  moreover obtain gone where "recover_orphaned_spool worker [staged_command] (Some (map staged_entry ''01'')) staged_state
       = staged_state\<lparr>ww_spool := filter (\<lambda>f. fst f \<notin> set gone) (ww_spool staged_state)\<rparr>" "length gone \<le> 20"
    "staged_name CHR ''1'' \<notin> set gone"
    using orphan_recovery_safe [of worker "[staged_command]" "Some (map staged_entry ''01'')" staged_state] by (fastforce simp: staged_referenced)
  ultimately show ?thesis by blast
qed

definition unknown_sender :: "bytes \<Rightarrow> attachment" where
  "unknown_sender raw = (parked raw 0)\<lparr>a_hard_expires_at := 100, a_reply_route_type := Some ''DIRECT'', a_reply_route_id := Some ''!0000000b'',
     a_reply_destination_address := Some ''!0000000b'', a_reply_adapter_id := Some meshtastic_adapter_id,
     a_reply_connector_profile_id := Some meshtastic_connector_profile_id\<rparr>"

lemma key_request_text:
  assumes "encode_key_request ref_ext f sk = Inr m"
  shows "\<exists>t. to_text m = Inr t \<and> length t \<le> 180"
proof -
  obtain s where s: "key_request_valid f" "length s = 64" "length m = cbor_size (PDict (items_of_key_request f @ [(PInt 3, PBytes s)]))"
    using key_request.enc_output [OF _ _ assms] by auto
  then have "0 < length m" "length m \<le> 120"
    by (simp_all add: items_of_key_request_def key_request_items_def key_request_valid_def head_size_def [of "numeral _"] head_size_def [of 0]
        head_size_def [of "Suc _"])
  then show ?thesis
    using to_text_succeeds [of m] length_to_text [of m] by fastforce
qed

lemma worker_sends:
  assumes "to_text m = Inr t" and "length t \<le> 180"
  shows "\<exists>receipt. adapter_encode sample_text_adapter m (direct_route r) = Inr (ascii_bytes t)
    \<and> adapter_send sample_text_adapter (ascii_bytes t) (direct_route r) k now = Inr receipt \<and> dr_sent receipt"
  using assms ascii_decode_bytes [OF to_text_ascii [OF assms(1)]]
  by (simp add: adapter_encode_def adapter_send_def sample_text_adapter_def direct_route_def Let_def ascii_bytes_def MESHTASTIC_TEXT_MAX_PAYLOAD_BYTES_def)

lemma unknown_sender_asked:
  assumes "decode_offer ref_ext raw None = Inr (undated_offer\<lparr>o_signature := Some s\<rparr>)"
  shows "\<exists>m. ww_radio (auto_request_missing_keys worker (worker_state (unknown_sender raw))) = [m]"
proof -
  let ?row = "unknown_sender raw" and ?w = "worker_state (unknown_sender raw)"
  obtain m where m: "build_key_request ref_ext (we_config worker) (ww_keys ?w) = Inr m"
    "encode_key_request ref_ext \<lparr>kr_sender_key_id = replicate 8 9, kr_signature = None\<rparr> (replicate 32 9) = Inr m"
    by (simp add: build_key_request_def worker_def worker_service_def peer_recv_ctx_def sample_ctx_def sample_config_def sample_principal_def
        worker_state_def empty_ke_def load_signing_key_def ref_ext_def encode_key_request_def sign_message_def domain_label_def Let_def)
  obtain t where t: "to_text m = Inr t" "length t \<le> 180"
    using key_request_text [OF m(2)] by blast
  obtain receipt where r: "adapter_encode sample_text_adapter m (direct_route ''!0000000b'') = Inr (ascii_bytes t)"
    "adapter_send sample_text_adapter (ascii_bytes t) (direct_route ''!0000000b'') (''auto-key-request-'' @ a_id ?row) 4 = Inr receipt" "dr_sent receipt"
    using worker_sends [OF t] by blast
  have limits: "check_key_request_rate_limit (we_config worker) (ww_keys ?w) ''!0000000b'' 4 = Inr ()"
    "check_auto_key_request_quota (we_config worker) (ww_keys ?w) 4 = Inr ()"
    "get_binding_by_key_id (we_config worker) (ww_keys ?w) (hex_of (replicate 8 2)) = None"
    by (simp_all add: worker_state_def check_key_request_rate_limit_def check_auto_key_request_quota_def empty_ke_def quota_full_def
        get_binding_by_key_id_def addr_key_def peer_binding_def)
  have "auto_send worker ?row ''!0000000b'' sample_text_adapter m ?w = (asked worker ?row ''!0000000b'' (ascii_bytes t) ?w, AutoSent)"
    using r by (simp add: auto_send_def asked_def)
  then have "auto_request_fresh worker ?row ''!0000000b'' raw sample_text_adapter ?w = (asked worker ?row ''!0000000b'' (ascii_bytes t) ?w, AutoSent)"
    using assms limits m(1) by (simp add: auto_request_fresh_def peer_env_def sample_env_def undated_offer_def sample_offer_def)
  moreover have "auto_route_ok ?row ''!0000000b''" "a_reply_route_id ?row = Some ''!0000000b''" "a_pending_offer_cbor ?row = Some raw"
    "a_hard_expires_at ?row = 100" "waiting_key_rows worker (worker_db ?row) = [?row]"
    by (simp_all add: waiting_key_rows_def worker_db_def unknown_sender_def auto_route_ok_def is_contact_id_def)
  moreover have "sf_adapter (we_service worker) = Some sample_text_adapter"
    by (simp add: worker_def worker_service_def sample_service_def)
  moreover have "ww_radio ?w = []"
    by (simp add: worker_state_def)
  ultimately show ?thesis
    by (simp add: auto_request_missing_keys_def auto_request_key_for_row_def MAX_AUTO_KEY_REQUESTS_PER_TICK_def)
qed

theorem auto_requests_bounded_witness:
  "\<exists>raw m r a. ww_radio (auto_request_missing_keys worker (worker_state (unknown_sender raw))) = [m] \<and> fst (snd m) = direct_route r
     \<and> a \<in> set (db_attachments (worker_db (unknown_sender raw))) \<and> may_ask worker (worker_state (unknown_sender raw)) a r"
proof -
  obtain raw s where "decode_offer ref_ext raw None = Inr (undated_offer\<lparr>o_signature := Some s\<rparr>)"
    using undated_offer_decodes by blast
  from unknown_sender_asked [OF this] obtain m where m: "ww_radio (auto_request_missing_keys worker (worker_state (unknown_sender raw))) = [m]"
    by blast
  obtain sent where sent: "auto_request_missing_keys worker (worker_state (unknown_sender raw))
      = put_keys (ww_keys (auto_request_missing_keys worker (worker_state (unknown_sender raw))))
          ((worker_state (unknown_sender raw))\<lparr>ww_radio := ww_radio (worker_state (unknown_sender raw)) @ sent\<rparr>)"
    "\<forall>m \<in> set sent. \<exists>r a. fst (snd m) = direct_route r \<and> a \<in> set (db_attachments (ww_db (worker_state (unknown_sender raw))))
       \<and> a_workspace_id a = we_workspace worker \<and> a_direction a = Received \<and> a_state a = WAITING_KEY \<and> may_ask worker (worker_state (unknown_sender raw)) a r"
    using auto_requests_bounded [of worker "worker_state (unknown_sender raw)"] by blast
  from arg_cong [OF sent(1), of ww_radio] m have "sent = [m]"
    by (simp add: put_keys_def worker_state_def)
  with sent(2) obtain r a where "fst (snd m) = direct_route r" "a \<in> set (db_attachments (worker_db (unknown_sender raw)))"
    "may_ask worker (worker_state (unknown_sender raw)) a r" by auto
  with m show ?thesis by blast
qed

end
