(* ===== verification/Service_Content.thy ===== *)
theory Service_Content
  imports Service_Commands
begin

text \<open>
  Where the content of a received attachment may live and the commands that move or delete it: \<open>validate_locator\<close>,
  \<open>make_locator\<close>, \<open>resolve_locator\<close> of \<open>src/meshsrv/attachments/snapshots.py\<close>, and save, delete and purge of
  \<open>src/meshsrv/attachments/service.py\<close>. A POSIX path is the list of its components. What links the file system holds is the
  parameter \<open>ce_resolve\<close>, \<open>Path.resolve\<close>, which is total. The vault is off.
\<close>

section \<open>Paths\<close>

type_synonym path = "string list"

text \<open>\<open>str.split(sep)\<close> for a one-character separator, and \<open>sep.join\<close>.\<close>

fun split_char :: "char \<Rightarrow> string \<Rightarrow> string list" where
  "split_char c [] = [[]]"
| "split_char c (x # xs) =
     (if x = c then [] # split_char c xs else (case split_char c xs of [] \<Rightarrow> [[x]] | p # ps \<Rightarrow> (x # p) # ps))"

fun join_char :: "char \<Rightarrow> string list \<Rightarrow> string" where
  "join_char c [] = []"
| "join_char c [p] = p"
| "join_char c (p # q # ps) = p @ c # join_char c (q # ps)"

text \<open>The components of an absolute path, \<open>None\<close> for any other. Exactly two leading slashes are another root than \<open>/\<close>.\<close>

definition absolute_parts :: "string \<Rightarrow> path option" where
  "absolute_parts raw =
     (if startswith raw ''/'' \<and> (startswith raw ''//'' \<longrightarrow> startswith raw ''///'')
      then Some (filter (\<lambda>p. p \<noteq> [] \<and> p \<noteq> ''.'') (split_char CHR ''/'' raw)) else None)"

definition posix_text :: "path \<Rightarrow> string" where
  "posix_text p = CHR ''/'' # join_char CHR ''/'' p"

text \<open>\<open>Path.relative_to\<close>, and \<open>directory == candidate or directory in candidate.parents\<close>.\<close>

definition relative_to :: "path \<Rightarrow> path \<Rightarrow> path option" where
  "relative_to p base = (if take (length base) p = base then Some (drop (length base) p) else None)"

definition inside_dir :: "path \<Rightarrow> path \<Rightarrow> bool" where
  "inside_dir directory p \<longleftrightarrow> take (length directory) p = directory"

record content_env =
  ce_workspace :: string
  ce_principal_id :: string
  ce_root :: path
  ce_resolve :: "path \<Rightarrow> path"
  ce_unlink_ok :: "path \<Rightarrow> bool"
  ce_replace_ok :: bool
  ce_now :: timestamp

definition files_dir :: "content_env \<Rightarrow> path" where "files_dir C = ce_root C @ [''files'']"
definition cache_dir :: "content_env \<Rightarrow> path" where "cache_dir C = ce_root C @ [''cache'', ''incoming'']"

section \<open>Locators\<close>

definition validate_locator :: "string \<Rightarrow> bool" where
  "validate_locator locator \<longleftrightarrow>
     locator \<noteq> [] \<and> CHR 0x00 \<notin> set locator \<and> CHR 0x5C \<notin> set locator
     \<and> \<not> (startswith locator ''/'' \<or> (2 \<le> length locator \<and> locator ! 1 = CHR '':''))
     \<and> \<not> endswith locator ''/''
     \<and> list_all (\<lambda>s. s \<notin> set ['''', ''.'', ''..'']) (split_char CHR ''/'' locator)"

definition make_locator :: "content_env \<Rightarrow> string option \<Rightarrow> string option" where
  "make_locator C saved_path =
     (case Option.bind (Option.bind saved_path absolute_parts) (\<lambda>p. relative_to p (ce_root C)) of
        None \<Rightarrow> None
      | Some parts \<Rightarrow>
          let locator = join_char CHR ''/'' parts in
          if (if take 1 parts = [''files''] then 2 \<le> length parts
              else take 2 parts = [''cache'', ''incoming''] \<and> 3 \<le> length parts) \<and> validate_locator locator
          then Some locator else None)"

definition resolve_locator :: "content_env \<Rightarrow> string \<Rightarrow> path option" where
  "resolve_locator C locator =
     (if \<not> validate_locator locator then None
      else let candidate = ce_resolve C (ce_root C @ split_char CHR ''/'' locator) in
        if inside_dir (ce_resolve C (files_dir C)) candidate \<or> inside_dir (ce_resolve C (cache_dir C)) candidate then Some candidate else None)"

definition is_inside_files :: "content_env \<Rightarrow> string option \<Rightarrow> bool" where
  "is_inside_files C saved_path =
     (case Option.bind (Option.bind saved_path absolute_parts) (\<lambda>p. relative_to p (files_dir C)) of
        None \<Rightarrow> False
      | Some parts \<Rightarrow> 1 \<le> length parts)"

definition resolve_content_path :: "content_env \<Rightarrow> string option \<Rightarrow> path option" where
  "resolve_content_path C saved_path = Option.bind (make_locator C saved_path) (resolve_locator C)"

section \<open>Content commands\<close>

text \<open>The regular files by resolved path.\<close>

record content_world =
  cw_db :: mca_db
  cw_files :: "(path \<times> bytes) list"

definition is_file :: "path \<Rightarrow> content_world \<Rightarrow> bool" where
  "is_file p w \<longleftrightarrow> p \<in> fst ` set (cw_files w)"

definition unlink :: "path \<Rightarrow> content_world \<Rightarrow> content_world" where
  "unlink p w = w\<lparr>cw_files := filter (\<lambda>f. fst f \<noteq> p) (cw_files w)\<rparr>"

definition set_saved_path :: "string \<Rightarrow> string option \<Rightarrow> content_world \<Rightarrow> content_world" where
  "set_saved_path attachment_id saved_path w =
     w\<lparr>cw_db := update_attachment attachment_id (\<lambda>a. a\<lparr>a_saved_path := saved_path\<rparr>) (cw_db w)\<rparr>"

definition with_content_row ::
  "content_env \<Rightarrow> command \<Rightarrow> content_world \<Rightarrow> (attachment \<Rightarrow> content_world handler_end) \<Rightarrow> content_world handler_end" where
  "with_content_row C c w f =
     (case Option.bind (payload_text c ''attachment_id'') (find_attachment (cw_db w)) of
        None \<Rightarrow> cmd_fails ''attachment_not_found'' w
      | Some row \<Rightarrow> if a_workspace_id row = ce_workspace C then f row else cmd_fails ''attachment_not_found'' w)"

definition saved_result :: "attachment \<Rightarrow> content_world \<Rightarrow> content_world handler_end" where
  "saved_result row w =
     cmd_succeeds (a_id row) [(''attachment_id'', WStr (a_id row)), (''saved'', WBool True),
       (''file_name'', (case a_file_name row of None \<Rightarrow> WNone | Some n \<Rightarrow> WStr n))] w"

definition library_name :: "attachment \<Rightarrow> string" where
  "library_name row =
     (let n = strip_of (\<lambda>c. c = CHR ''.'')
                (take MAX_SOURCE_NAME_CODE_POINTS (case a_file_name row of None \<Rightarrow> ''attachment'' | Some f \<Rightarrow> sanitize_display_name f)) in
      if n = [] then ''attachment'' else n)"

text \<open>The names in \<open>files/\<close>, which \<open>unique_file_name\<close> avoids.\<close>

definition library_names :: "content_env \<Rightarrow> content_world \<Rightarrow> string list" where
  "library_names C w = map last (filter (\<lambda>p. p \<noteq> [] \<and> butlast p = files_dir C) (map fst (cw_files w)))"

text \<open>\<open>source.replace(dest)\<close>.\<close>

definition replace_file :: "path \<Rightarrow> path \<Rightarrow> content_world \<Rightarrow> content_world" where
  "replace_file source dest w =
     w\<lparr>cw_files := map (\<lambda>f. if fst f = source then (dest, snd f) else f) (filter (\<lambda>f. fst f \<noteq> dest) (cw_files w))\<rparr>"

definition save_to_library :: "content_env \<Rightarrow> attachment \<Rightarrow> path \<Rightarrow> content_world \<Rightarrow> content_world handler_end" where
  "save_to_library C row source w =
     (if endswith (last source) ''.mcv'' then cmd_fails ''vault_not_available'' w
      else case unique_file_name (library_names C w) (ce_principal_id C) (library_name row) of
        Inr (Some (_, name)) \<Rightarrow>
          if \<not> ce_replace_ok C then handler_end.Raised w
          else let dest = files_dir C @ [name] in
            saved_result row (set_saved_path (a_id row) (Some (posix_text dest)) (replace_file source dest w))
      | _ \<Rightarrow> handler_end.Raised w)"

definition save_row :: "content_env \<Rightarrow> content_world \<Rightarrow> attachment \<Rightarrow> content_world handler_end" where
  "save_row C w row =
     (if a_direction row \<noteq> Received \<or> a_state row \<noteq> AVAILABLE then cmd_fails ''invalid_state_transition'' w
      else case resolve_content_path C (a_saved_path row) of
        None \<Rightarrow> cmd_fails ''content_missing'' w
      | Some source \<Rightarrow>
          if \<not> is_file source w then cmd_fails ''content_missing'' w
          else if make_locator C (a_saved_path row) \<noteq> None \<and> is_inside_files C (a_saved_path row) then saved_result row w
          else save_to_library C row source w)"

definition command_save :: "content_env \<Rightarrow> command \<Rightarrow> content_world \<Rightarrow> content_world handler_end" where
  "command_save C c w = with_content_row C c w (save_row C w)"

definition delete_row :: "content_env \<Rightarrow> content_world \<Rightarrow> attachment \<Rightarrow> content_world handler_end" where
  "delete_row C w row =
     (if a_direction row \<noteq> Received then cmd_fails ''invalid_state_transition'' w
      else if make_locator C (a_saved_path row) = None then cmd_fails ''not_saved'' w
      else (let result = (\<lambda>w. cmd_succeeds (a_id row) [(''attachment_id'', WStr (a_id row)), (''saved'', WBool False)]
                                (set_saved_path (a_id row) None w)) in
        case resolve_content_path C (a_saved_path row) of
          None \<Rightarrow> result w
        | Some p \<Rightarrow> if ce_unlink_ok C p then result (unlink p w) else cmd_fails ''content_missing'' w))"

definition command_delete_local_content :: "content_env \<Rightarrow> command \<Rightarrow> content_world \<Rightarrow> content_world handler_end" where
  "command_delete_local_content C c w = with_content_row C c w (delete_row C w)"

section \<open>Clean up\<close>

definition older_than_days :: "command \<Rightarrow> int option" where
  "older_than_days c = (case obj_get (cmd_payload c) ''older_than_days'' of WInt d \<Rightarrow> if 1 \<le> d \<and> d \<le> 3650 then Some d else None | _ \<Rightarrow> None)"

definition purge_rows :: "content_env \<Rightarrow> int \<Rightarrow> mca_db \<Rightarrow> attachment list" where
  "purge_rows C days db =
     filter (\<lambda>a. a_workspace_id a = ce_workspace C \<and> a_direction a = Received \<and> a_saved_path a \<noteq> None
       \<and> a_created_at a < ce_now C - of_int (days * 86400)) (db_attachments db)"

definition file_size :: "path \<Rightarrow> content_world \<Rightarrow> nat" where
  "file_size p w = (case map_of (cw_files w) p of None \<Rightarrow> 0 | Some content \<Rightarrow> length content)"

definition purge_row :: "content_env \<Rightarrow> attachment \<Rightarrow> content_world \<times> nat \<times> nat \<Rightarrow> content_world \<times> nat \<times> nat" where
  "purge_row C row acc =
     (case acc of (w, deleted, freed) \<Rightarrow>
        case resolve_content_path C (a_saved_path row) of
          None \<Rightarrow> acc
        | Some p \<Rightarrow>
            if butlast p \<noteq> ce_resolve C (cache_dir C) \<and> butlast p \<noteq> ce_resolve C (files_dir C) then acc
            else if \<not> ce_unlink_ok C p then acc
            else (set_saved_path (a_id row) None (unlink p w), Suc deleted, freed + file_size p w))"

definition command_purge_received_cache :: "content_env \<Rightarrow> command \<Rightarrow> content_world \<Rightarrow> content_world handler_end" where
  "command_purge_received_cache C c w =
     (case older_than_days c of
        None \<Rightarrow> cmd_fails ''invalid_older_than_days'' w
      | Some days \<Rightarrow>
          (case fold (purge_row C) (purge_rows C days (cw_db w)) (w, 0, 0) of
             (w', deleted, freed) \<Rightarrow>
               cmd_succeeds ''received_cache''
                 [(''deleted'', WInt (int deleted)), (''bytes'', WInt (int freed)), (''older_than_days'', WInt days)] w'))"

end
