(* ===== verification/Service_Content_Properties.thy ===== *)
theory Service_Content_Properties
  imports Service_Content Service_Commands_Properties Receiver_Download
begin

text \<open>
  Content stays where it belongs: a locator never leaves the two content folders, whatever path a row holds and whatever
  links the file system has; delete and purge remove only such files and clear a row only with its file; save moves the
  bytes to a free name in \<open>files/\<close>.
\<close>

section \<open>Locators\<close>

lemma split_char_ne [simp]: "split_char c s \<noteq> []"
  by (induction s) (auto split: list.splits)

lemma split_char_free: "p \<in> set (split_char c s) \<Longrightarrow> c \<notin> set p"
  by (induction s arbitrary: p) (auto split: list.splits if_splits)

lemma split_char_word: "c \<notin> set p \<Longrightarrow> split_char c p = [p]"
  by (induction p) auto

lemma split_char_append: "c \<notin> set p \<Longrightarrow> split_char c (p @ c # s) = p # split_char c s"
  by (induction p) auto

lemma split_join: "ps \<noteq> [] \<Longrightarrow> (\<And>p. p \<in> set ps \<Longrightarrow> c \<notin> set p) \<Longrightarrow> split_char c (join_char c ps) = ps"
  by (induction c ps rule: join_char.induct) (simp_all add: split_char_word split_char_append)

lemma absolute_parts_clean:
  "absolute_parts raw = Some ps \<Longrightarrow> p \<in> set ps \<Longrightarrow> CHR ''/'' \<notin> set p \<and> p \<noteq> [] \<and> p \<noteq> ''.''"
  using split_char_free by (fastforce simp: absolute_parts_def split: if_splits)

lemma make_locator_Some:
  assumes "make_locator C s = Some locator"
  obtains raw rel where "s = Some raw" "absolute_parts raw = Some (ce_root C @ rel)" "split_char CHR ''/'' locator = rel"
    "(\<exists>n ns. rel = ''files'' # n # ns) \<or> (\<exists>n ns. rel = ''cache'' # ''incoming'' # n # ns)"
    "validate_locator locator" "\<And>p. p \<in> set rel \<Longrightarrow> p \<notin> {'''', ''.'', ''..''}"
proof -
  obtain raw ps rel where s: "s = Some raw" "absolute_parts raw = Some ps" "relative_to ps (ce_root C) = Some rel"
    and l: "locator = join_char CHR ''/'' rel" "validate_locator locator"
    and shape: "if take 1 rel = [''files''] then 2 \<le> length rel else take 2 rel = [''cache'', ''incoming''] \<and> 3 \<le> length rel"
    using assms by (auto simp: make_locator_def bind_eq_Some_conv Let_def split: option.splits if_splits)
  have ps: "ps = ce_root C @ rel"
    using s(3) by (auto simp: relative_to_def split: if_splits) (metis append_take_drop_id)
  have "rel \<noteq> []" using shape by (auto split: if_splits)
  then have split: "split_char CHR ''/'' locator = rel"
    unfolding l(1) using absolute_parts_clean [OF s(2)] by (intro split_join) (auto simp: ps)
  have "(\<exists>n ns. rel = ''files'' # n # ns) \<or> (\<exists>n ns. rel = ''cache'' # ''incoming'' # n # ns)"
    using shape by (cases rel rule: remdups_adj.cases; cases "tl (tl rel)") (auto split: if_splits)
  then show ?thesis
    using that [OF s(1) _ split] s(2) ps l(2) split by (auto simp: validate_locator_def list_all_iff)
qed

text \<open>The two folders content may be in, as the file system sees them.\<close>

definition content_area :: "content_env \<Rightarrow> path \<Rightarrow> bool" where
  "content_area C p \<longleftrightarrow> inside_dir (ce_resolve C (files_dir C)) p \<or> inside_dir (ce_resolve C (cache_dir C)) p"

lemma resolve_content_path_area: "resolve_content_path C s = Some p \<Longrightarrow> content_area C p"
  by (auto simp: resolve_content_path_def resolve_locator_def content_area_def bind_eq_Some_conv Let_def split: if_splits)

section \<open>Deleting\<close>

lemma with_content_row_cases:
  obtains (missing) "with_content_row C c w f = cmd_fails ''attachment_not_found'' w"
  | (found) row where "payload_text c ''attachment_id'' = Some (a_id row)" "find_attachment (cw_db w) (a_id row) = Some row"
      "a_workspace_id row = ce_workspace C" "with_content_row C c w f = f row"
proof (cases "Option.bind (payload_text c ''attachment_id'') (find_attachment (cw_db w))")
  case None
  then show ?thesis by (intro missing) (simp add: with_content_row_def)
next
  case (Some row)
  then have "payload_text c ''attachment_id'' = Some (a_id row)" "find_attachment (cw_db w) (a_id row) = Some row"
    using find_attachment_id by (fastforce simp: bind_eq_Some_conv)+
  then show ?thesis
    using Some missing found [of row] by (cases "a_workspace_id row = ce_workspace C") (simp_all add: with_content_row_def)
qed

text \<open>What deleting the content of chosen rows may do: the files that go are the resolved content of received rows of the workspace
  among the chosen ones, and a row that changes is one of those, loses nothing but its path, and has its file gone.\<close>

definition content_removed :: "(attachment \<Rightarrow> bool) \<Rightarrow> content_env \<Rightarrow> content_world \<Rightarrow> content_world \<Rightarrow> bool" where
  "content_removed chosen C w w' \<longleftrightarrow>
     set (cw_files w') \<subseteq> set (cw_files w)
     \<and> (\<forall>f \<in> set (cw_files w) - set (cw_files w'). \<exists>row \<in> set (db_attachments (cw_db w)). chosen row \<and> a_workspace_id row = ce_workspace C
          \<and> a_direction row = Received \<and> resolve_content_path C (a_saved_path row) = Some (fst f) \<and> content_area C (fst f))
     \<and> (\<forall>j. find_attachment (cw_db w') j = find_attachment (cw_db w) j
          \<or> (\<exists>x. find_attachment (cw_db w) j = Some x \<and> chosen x \<and> a_direction x = Received \<and> a_workspace_id x = ce_workspace C
               \<and> find_attachment (cw_db w') j = Some (x\<lparr>a_saved_path := None\<rparr>)
               \<and> (\<forall>p. resolve_content_path C (a_saved_path x) = Some p \<longrightarrow> \<not> is_file p w')))"

text \<open>The row a delete names, and the rows a purge is asked for: those created more than the given number of days ago.\<close>

definition named_row :: "command \<Rightarrow> attachment \<Rightarrow> bool" where
  "named_row c row \<longleftrightarrow> payload_text c ''attachment_id'' = Some (a_id row)"

definition outdated_row :: "content_env \<Rightarrow> command \<Rightarrow> attachment \<Rightarrow> bool" where
  "outdated_row C c row \<longleftrightarrow>
     (\<exists>days. obj_get (cmd_payload c) ''older_than_days'' = WInt days \<and> 1 \<le> days \<and> days \<le> 3650
        \<and> a_created_at row + of_int (days * 86400) < ce_now C)"

lemma content_removed_refl: "content_removed R C w w"
  by (simp add: content_removed_def)

lemma unlink_simps [simp]:
  "cw_db (unlink p w) = cw_db w" "set (cw_files (unlink p w)) = {f \<in> set (cw_files w). fst f \<noteq> p}"
  "is_file q (unlink p w) \<longleftrightarrow> is_file q w \<and> q \<noteq> p"
  by (auto simp: unlink_def is_file_def)

lemma set_saved_path_simps [simp]:
  "cw_files (set_saved_path i s w) = cw_files w" "is_file p (set_saved_path i s w) = is_file p w"
  "find_attachment (cw_db (set_saved_path i s w)) j
     = (if i = j then map_option (\<lambda>a. a\<lparr>a_saved_path := s\<rparr>) (find_attachment (cw_db w) j) else find_attachment (cw_db w) j)"
  by (simp_all add: set_saved_path_def is_file_def find_update_attachment)

lemma find_attachment_in: "find_attachment db i = Some row \<Longrightarrow> row \<in> set (db_attachments db)"
  by (auto simp: find_attachment_def dest: find_by_Some)

lemma delete_row_removed:
  assumes "R row" and "find_attachment (cw_db w) (a_id row) = Some row" and "a_workspace_id row = ce_workspace C"
  shows "content_removed R C w (end_world (delete_row C w row))"
proof (cases "a_direction row = Received \<and> make_locator C (a_saved_path row) \<noteq> None")
  case False
  then show ?thesis by (auto simp: delete_row_def content_removed_refl)
next
  case True
  show ?thesis
  proof (cases "resolve_content_path C (a_saved_path row)")
    case None
    then show ?thesis
      using True assms by (auto simp: delete_row_def content_removed_def)
  next
    case (Some p)
    then show ?thesis
      using True assms resolve_content_path_area [OF Some] find_attachment_in [OF assms(2)]
      by (auto simp: delete_row_def content_removed_def)
  qed
qed

lemma purge_rows_chosen:
  "row \<in> set (purge_rows C days db) \<Longrightarrow> older_than_days c = Some days \<Longrightarrow>
     outdated_row C c row \<and> a_workspace_id row = ce_workspace C \<and> a_direction row = Received"
  by (auto simp: purge_rows_def outdated_row_def older_than_days_def algebra_simps split: wire.splits if_splits)

lemma find_purged:
  "distinct (map a_id (db_attachments db)) \<Longrightarrow> row \<in> set (purge_rows C days db) \<Longrightarrow> find_attachment db (a_id row) = Some row"
  by (auto simp: purge_rows_def find_attachment_def intro!: find_by_unique)

text \<open>A purge keeps the frame of a deletion row by row: rows not yet reached are as they were.\<close>

lemma purge_row_removed:
  assumes "content_removed R C w0 w" and "find_attachment (cw_db w0) (a_id row) = Some row" and "a_workspace_id row = ce_workspace C"
    and "a_direction row = Received" and "find_attachment (cw_db w) (a_id row) = Some row" and "R row"
  shows "content_removed R C w0 (fst (purge_row C row (w, n, m)))"
proof (cases "resolve_content_path C (a_saved_path row)")
  case None
  then show ?thesis using assms by (simp add: purge_row_def)
next
  case (Some p)
  define w1 where "w1 = set_saved_path (a_id row) None (unlink p w)"
  have files: "set (cw_files w1) = {f \<in> set (cw_files w). fst f \<noteq> p}" and gone: "is_file q w1 \<longleftrightarrow> is_file q w \<and> q \<noteq> p" for q
    by (simp_all add: w1_def)
  have rows: "find_attachment (cw_db w1) j = (if j = a_id row then Some (row\<lparr>a_saved_path := None\<rparr>) else find_attachment (cw_db w) j)" for j
    using assms(5) by (simp add: w1_def)
  have "content_removed R C w0 w1"
    unfolding content_removed_def
  proof (intro conjI ballI allI)
    show "set (cw_files w1) \<subseteq> set (cw_files w0)"
      using assms(1) files by (auto simp: content_removed_def)
  next
    fix f
    assume f: "f \<in> set (cw_files w0) - set (cw_files w1)"
    show "\<exists>row \<in> set (db_attachments (cw_db w0)). R row \<and> a_workspace_id row = ce_workspace C \<and> a_direction row = Received
        \<and> resolve_content_path C (a_saved_path row) = Some (fst f) \<and> content_area C (fst f)"
    proof (cases "f \<in> set (cw_files w)")
      case True
      with f files have "fst f = p" by auto
      then show ?thesis
        using assms(3,4,6) Some resolve_content_path_area [OF Some] find_attachment_in [OF assms(2)] by blast
    next
      case False
      with f assms(1) show ?thesis by (auto simp: content_removed_def)
    qed
  next
    fix j
    show "find_attachment (cw_db w1) j = find_attachment (cw_db w0) j
          \<or> (\<exists>x. find_attachment (cw_db w0) j = Some x \<and> R x \<and> a_direction x = Received \<and> a_workspace_id x = ce_workspace C
               \<and> find_attachment (cw_db w1) j = Some (x\<lparr>a_saved_path := None\<rparr>)
               \<and> (\<forall>p. resolve_content_path C (a_saved_path x) = Some p \<longrightarrow> \<not> is_file p w1))"
    proof (cases "j = a_id row")
      case True
      then show ?thesis using assms(2-4,6) rows Some gone by simp
    next
      case False
      with assms(1) rows gone show ?thesis unfolding content_removed_def by metis
    qed
  qed
  then show ?thesis
    using Some assms(1) by (simp add: purge_row_def w1_def)
qed

lemma purge_row_other:
  "j \<noteq> a_id row \<Longrightarrow> find_attachment (cw_db (fst (purge_row C row acc))) j = find_attachment (cw_db (fst acc)) j"
  by (auto simp: purge_row_def split: prod.splits option.splits)

lemma purge_rows_removed:
  assumes "content_removed R C w0 (fst acc)" and "distinct (map a_id rows)"
    and "\<And>row. row \<in> set rows \<Longrightarrow> find_attachment (cw_db w0) (a_id row) = Some row \<and> a_workspace_id row = ce_workspace C
       \<and> a_direction row = Received \<and> find_attachment (cw_db (fst acc)) (a_id row) = Some row \<and> R row"
  shows "content_removed R C w0 (fst (fold (purge_row C) rows acc))"
  using assms
proof (induction rows arbitrary: acc)
  case (Cons row rows)
  have "content_removed R C w0 (fst (purge_row C row acc))"
    using purge_row_removed [of R C w0 "fst acc" row "fst (snd acc)" "snd (snd acc)"] Cons.prems(1,3) by simp
  moreover have "find_attachment (cw_db (fst (purge_row C row acc))) (a_id r) = Some r" if "r \<in> set rows" for r
  proof -
    have "a_id r \<noteq> a_id row" using that Cons.prems(2) by (metis distinct.simps(2) imageI list.set_map list.simps(9))
    then show ?thesis using that Cons.prems(3) by (simp add: purge_row_other)
  qed
  ultimately show ?case
    using Cons.prems(2,3) by (simp add: Cons.IH)
qed simp

text \<open>Every row the purge can reach is cleared: one whose content lies directly in a content folder and can be unlinked.\<close>

lemma purge_rows_cleared:
  assumes "distinct (map a_id rows)" and "row \<in> set rows" and "find_attachment (cw_db (fst acc)) (a_id row) = Some row"
    and "resolve_content_path C (a_saved_path row) = Some p" and "butlast p \<in> {ce_resolve C (cache_dir C), ce_resolve C (files_dir C)}"
    and "ce_unlink_ok C p"
  shows "find_attachment (cw_db (fst (fold (purge_row C) rows acc))) (a_id row) = Some (row\<lparr>a_saved_path := None\<rparr>)"
  using assms(1-3)
proof (induction rows arbitrary: acc)
  case Nil
  from Nil(2) show ?case by simp
next
  case (Cons r rows)
  have keep: "find_attachment (cw_db (fst (fold (purge_row C) rs acc))) j = find_attachment (cw_db (fst acc)) j"
    if "j \<notin> a_id ` set rs" for rs acc j
    using that by (induction rs arbitrary: acc) (simp_all add: purge_row_other)
  show ?case
  proof (cases "r = row")
    case True
    have "find_attachment (cw_db (fst (purge_row C row acc))) (a_id row) = Some (row\<lparr>a_saved_path := None\<rparr>)"
      using assms(4-6) Cons.prems(3) by (auto simp: purge_row_def split: prod.splits)
    then show ?thesis
      using True Cons.prems(1) keep [of "a_id row" rows "purge_row C row acc"] by simp
  next
    case False
    then have in_rows: "row \<in> set rows"
      using Cons.prems(2) by simp
    then have "a_id row \<noteq> a_id r"
      using Cons.prems(1) by (metis distinct.simps(2) imageI list.set_map list.simps(9))
    with in_rows show ?thesis
      using Cons.IH [of "purge_row C r acc"] Cons.prems(1,3) by (simp add: purge_row_other)
  qed
qed

text \<open>C36. Deleting content reaches only what the command names, and never outside the content folders. Whatever paths the rows
  hold - crafted, relative, with \<open>..\<close> - and whatever links the file system has, the delete command removes only the file of the
  received row of the workspace whose id it carries, and the purge command only files of received rows of the workspace created
  more than \<open>older_than_days\<close> days (1 to 3650) ago, in both cases only inside the resolved \<open>files/\<close> and \<open>cache/incoming/\<close>
  folders; every other row is as it was, and a row that changed lost only its path, and only with its file gone. A delete that
  succeeds has cleared its row, and a purge that succeeds has cleared every such row whose file lies directly in one of the two
  folders and could be unlinked.\<close>

theorem content_deletion_contained:
  assumes "distinct (map a_id (db_attachments (cw_db w)))"
  shows "content_removed (named_row c) C w (end_world (command_delete_local_content C c w))
    \<and> content_removed (outdated_row C c) C w (end_world (command_purge_received_cache C c w))
    \<and> (end_error (command_delete_local_content C c w) = None \<longrightarrow>
         (\<exists>row. named_row c row \<and> find_attachment (cw_db w) (a_id row) = Some row
            \<and> find_attachment (cw_db (end_world (command_delete_local_content C c w))) (a_id row) = Some (row\<lparr>a_saved_path := None\<rparr>)))
    \<and> (end_error (command_purge_received_cache C c w) = None \<longrightarrow>
         (\<forall>row \<in> set (db_attachments (cw_db w)). \<forall>p. outdated_row C c row \<and> a_workspace_id row = ce_workspace C \<and> a_direction row = Received
            \<and> resolve_content_path C (a_saved_path row) = Some p \<and> butlast p \<in> {ce_resolve C (cache_dir C), ce_resolve C (files_dir C)}
            \<and> ce_unlink_ok C p \<longrightarrow>
            find_attachment (cw_db (end_world (command_purge_received_cache C c w))) (a_id row) = Some (row\<lparr>a_saved_path := None\<rparr>)))"
proof (intro conjI impI ballI allI)
  show "content_removed (named_row c) C w (end_world (command_delete_local_content C c w))"
    by (cases rule: with_content_row_cases [of C c w "delete_row C w"])
      (simp_all add: command_delete_local_content_def content_removed_refl delete_row_removed named_row_def)
next
  have "content_removed (outdated_row C c) C w (fst (fold (purge_row C) (purge_rows C days (cw_db w)) (w, 0, 0)))"
    if "older_than_days c = Some days" for days
  proof (rule purge_rows_removed)
    fix row
    assume "row \<in> set (purge_rows C days (cw_db w))"
    then show "find_attachment (cw_db w) (a_id row) = Some row \<and> a_workspace_id row = ce_workspace C \<and> a_direction row = Received
        \<and> find_attachment (cw_db (fst (w, 0, 0))) (a_id row) = Some row \<and> outdated_row C c row"
      using assms that purge_rows_chosen [of row C days "cw_db w" c] find_purged [of "cw_db w" row C days] by auto
  qed (use assms in \<open>simp_all add: content_removed_refl purge_rows_def distinct_map_filter\<close>)
  then show "content_removed (outdated_row C c) C w (end_world (command_purge_received_cache C c w))"
    by (auto simp: command_purge_received_cache_def content_removed_refl split: option.splits prod.splits)
next
  assume "end_error (command_delete_local_content C c w) = None"
  then show "\<exists>row. named_row c row \<and> find_attachment (cw_db w) (a_id row) = Some row
      \<and> find_attachment (cw_db (end_world (command_delete_local_content C c w))) (a_id row) = Some (row\<lparr>a_saved_path := None\<rparr>)"
    by (cases rule: with_content_row_cases [of C c w "delete_row C w"])
      (auto simp: command_delete_local_content_def delete_row_def named_row_def Let_def split: if_splits option.splits intro!: exI)
next
  fix row p
  assume ok: "end_error (command_purge_received_cache C c w) = None" and row: "row \<in> set (db_attachments (cw_db w))"
    and h: "outdated_row C c row \<and> a_workspace_id row = ce_workspace C \<and> a_direction row = Received
      \<and> resolve_content_path C (a_saved_path row) = Some p \<and> butlast p \<in> {ce_resolve C (cache_dir C), ce_resolve C (files_dir C)}
      \<and> ce_unlink_ok C p"
  obtain days where days: "older_than_days c = Some days"
    using ok by (auto simp: command_purge_received_cache_def split: option.splits)
  obtain d where d: "obj_get (cmd_payload c) ''older_than_days'' = WInt d" "a_created_at row + of_int (d * 86400) < ce_now C"
    using h by (auto simp: outdated_row_def)
  then have "d = days"
    using days by (simp add: older_than_days_def split: if_splits)
  moreover have "a_saved_path row \<noteq> None"
    using h by (cases "a_saved_path row") (simp_all add: resolve_content_path_def make_locator_def)
  ultimately have "row \<in> set (purge_rows C days (cw_db w))"
    using row h d(2) by (simp add: purge_rows_def algebra_simps)
  with assms h have "find_attachment (cw_db (fst (fold (purge_row C) (purge_rows C days (cw_db w)) (w, 0, 0)))) (a_id row) = Some (row\<lparr>a_saved_path := None\<rparr>)"
    by (intro purge_rows_cleared [of _ row _ C p]) (auto simp: find_purged purge_rows_def distinct_map_filter)
  then show "find_attachment (cw_db (end_world (command_purge_received_cache C c w))) (a_id row) = Some (row\<lparr>a_saved_path := None\<rparr>)"
    using days by (auto simp: command_purge_received_cache_def split: prod.splits)
qed

section \<open>Saving\<close>

lemma replace_file_set:
  assumes "distinct (map fst (cw_files w))" and "(source, content) \<in> set (cw_files w)" and "\<not> is_file dest w"
  shows "set (cw_files (replace_file source dest w)) = insert (dest, content) (set (cw_files w) - {(source, content)})"
proof -
  let ?S = "set (cw_files w)"
  have same: "f = (source, content)" if "f \<in> ?S" "fst f = source" for f
    using assms(1,2) that by (metis eq_key_imp_eq_value prod.collapse)
  have keep: "filter (\<lambda>f. fst f \<noteq> dest) (cw_files w) = cw_files w"
    using assms(3) by (auto simp: is_file_def intro!: filter_True)
  have "cw_files (replace_file source dest w) = map (\<lambda>f. if fst f = source then (dest, snd f) else f) (cw_files w)"
    by (simp add: replace_file_def keep)
  also have "set \<dots> = (\<lambda>f. if f = (source, content) then (dest, content) else f) ` ?S"
    unfolding set_map
  proof (rule image_cong [OF refl])
    fix f
    assume "f \<in> ?S"
    from same [OF this] show "(if fst f = source then (dest, snd f) else f) = (if f = (source, content) then (dest, content) else f)"
      by (cases f) auto
  qed
  also have "\<dots> = insert (dest, content) (?S - {(source, content)})"
    using assms(2) by (auto simp: image_iff)
  finally show ?thesis .
qed

lemma library_name_free:
  assumes "unique_file_name (library_names C w) p n = Inr (Some (dir, name))"
  shows "\<not> is_file (files_dir C @ [name]) w"
  using unique_file_name_free [OF assms] by (force simp: is_file_def library_names_def)

text \<open>A saved row: one that is in \<open>files/\<close> already stays as it is, with its file there; any other is moved to a free name in
  \<open>files/\<close> with the very bytes it had.\<close>

definition content_saved :: "content_env \<Rightarrow> attachment \<Rightarrow> content_world \<Rightarrow> content_world \<Rightarrow> bool" where
  "content_saved C row w w' \<longleftrightarrow>
     (if is_inside_files C (a_saved_path row)
      then w' = w \<and> (\<exists>p. resolve_content_path C (a_saved_path row) = Some p \<and> is_file p w)
      else \<exists>source content name. resolve_content_path C (a_saved_path row) = Some source \<and> (source, content) \<in> set (cw_files w)
        \<and> \<not> is_file (files_dir C @ [name]) w
        \<and> set (cw_files w') = insert (files_dir C @ [name], content) (set (cw_files w) - {(source, content)})
        \<and> (\<forall>j. find_attachment (cw_db w') j = (if j = a_id row then Some (row\<lparr>a_saved_path := Some (posix_text (files_dir C @ [name]))\<rparr>)
              else find_attachment (cw_db w) j)))"

lemma save_to_library_saved:
  assumes "distinct (map fst (cw_files w))" and "find_attachment (cw_db w) (a_id row) = Some row"
    and "resolve_content_path C (a_saved_path row) = Some source" and "is_file source w"
    and "end_error (save_to_library C row source w) = None" and "\<not> is_inside_files C (a_saved_path row)"
  shows "content_saved C row w (end_world (save_to_library C row source w))"
proof -
  obtain dir name where u: "unique_file_name (library_names C w) (ce_principal_id C) (library_name row) = Inr (Some (dir, name))"
    and run: "save_to_library C row source w
      = saved_result row (set_saved_path (a_id row) (Some (posix_text (files_dir C @ [name]))) (replace_file source (files_dir C @ [name]) w))"
    using assms(5) by (auto simp: save_to_library_def Let_def split: if_splits sum.splits option.splits)
  obtain content where content: "(source, content) \<in> set (cw_files w)"
    using assms(4) by (auto simp: is_file_def)
  have "cw_db (replace_file source dest w) = cw_db w" for dest
    by (simp add: replace_file_def)
  then show ?thesis
    unfolding content_saved_def run
    using assms(2,3,6) content library_name_free [OF u] replace_file_set [OF assms(1) content library_name_free [OF u]]
    by (simp only: if_False, intro exI [of _ source] exI [of _ content] exI [of _ name]) (simp add: saved_result_def)
qed

text \<open>C37. Saving moves the bytes and nothing else. The command succeeds only for the row it names, which is an available received
  one of the workspace. If that row points into \<open>files/\<close> already, its file is there and nothing changes; otherwise its content
  is now, byte for byte, the one new file under a free name in \<open>files/\<close>, gone from its old place, with no other file and no
  other row touched. In every other case nothing changed at all.\<close>

theorem save_moves_content:
  assumes "distinct (map fst (cw_files w))"
  shows "end_error (command_save C c w) = None
      \<and> (\<exists>row. payload_text c ''attachment_id'' = Some (a_id row) \<and> find_attachment (cw_db w) (a_id row) = Some row
           \<and> a_workspace_id row = ce_workspace C \<and> a_direction row = Received \<and> a_state row = AVAILABLE
           \<and> content_saved C row w (end_world (command_save C c w)))
    \<or> end_error (command_save C c w) \<noteq> None \<and> end_world (command_save C c w) = w"
proof (cases rule: with_content_row_cases [of C c w "save_row C w"])
  case missing
  then show ?thesis by (simp add: command_save_def)
next
  case (found row)
  have run: "command_save C c w = save_row C w row"
    using found(4) by (simp add: command_save_def)
  show ?thesis
  proof (cases "end_error (save_row C w row) = None")
    case False
    then show ?thesis
      unfolding run by (auto simp: save_row_def save_to_library_def saved_result_def Let_def split: if_splits option.splits sum.splits)
  next
    case True
    then obtain source where g: "a_direction row = Received" "a_state row = AVAILABLE" "resolve_content_path C (a_saved_path row) = Some source"
      "is_file source w" and branch: "is_inside_files C (a_saved_path row) \<and> save_row C w row = saved_result row w
        \<or> \<not> is_inside_files C (a_saved_path row) \<and> save_row C w row = save_to_library C row source w"
      by (auto simp: save_row_def resolve_content_path_def bind_eq_Some_conv split: if_splits option.splits)
    have "content_saved C row w (end_world (save_row C w row))"
      using branch
    proof
      assume "is_inside_files C (a_saved_path row) \<and> save_row C w row = saved_result row w"
      then show ?thesis using g(3,4) by (simp add: content_saved_def saved_result_def)
    next
      assume "\<not> is_inside_files C (a_saved_path row) \<and> save_row C w row = save_to_library C row source w"
      then show ?thesis using save_to_library_saved [OF assms found(2) g(3,4)] True by simp
    qed
    with found g(1,2) True show ?thesis unfolding run by blast
  qed
qed

section \<open>Concrete runs\<close>

definition content_sample :: content_env where
  "content_sample = \<lparr>ce_workspace = ''w'', ce_principal_id = ''0123456789abcdef'', ce_root = [''mca''], ce_resolve = id, ce_unlink_ok = (\<lambda>_. True),
     ce_replace_ok = True, ce_now = 10\<rparr>"

definition cached :: "string \<Rightarrow> attachment" where
  "cached saved_path = offered\<lparr>a_state := AVAILABLE, a_file_name := Some ''f.txt'', a_saved_path := Some saved_path\<rparr>"

definition content_state :: "string \<Rightarrow> content_world" where
  "content_state saved_path = \<lparr>cw_db = worker_db (cached saved_path),
     cw_files = [([''mca'', ''cache'', ''incoming'', ''x''], [1]), ([''mca'', ''keys'', ''seed''], [2])]\<rparr>"

definition content_request :: "string \<Rightarrow> command" where
  "content_request kind = \<lparr>cmd_id = ''c'', cmd_kind = kind, cmd_payload = [(''attachment_id'', WStr ''a'')], cmd_created_at = 3\<rparr>"

lemma cached_simps [simp]: "a_id (cached s) = ''a''" "a_direction (cached s) = Received" "a_state (cached s) = AVAILABLE" "a_saved_path (cached s) = Some s"
  "a_workspace_id (cached s) = ''w''" "a_file_name (cached s) = Some ''f.txt''"
  by (simp_all add: cached_def)

lemma content_state_row [simp]: "payload_text (content_request k) ''attachment_id'' = Some ''a''" "find_attachment (cw_db (content_state s)) ''a'' = Some (cached s)"
  by (simp_all add: payload_text_def content_request_def obj_get_def content_state_def)

lemma sample_content_paths:
  "make_locator content_sample (Some ''/mca/cache/incoming/x'') = Some ''cache/incoming/x''"
  "make_locator content_sample (Some ''/mca/files/../keys/seed'') = None" 
  "resolve_content_path content_sample (Some ''/mca/cache/incoming/x'') = Some [''mca'', ''cache'', ''incoming'', ''x'']"
  "is_inside_files content_sample (Some ''/mca/cache/incoming/x'') = False"
  by code_simp+

lemma content_sample_simps [simp]: "ce_workspace content_sample = ''w''" "ce_unlink_ok content_sample p" "ce_replace_ok content_sample"
  by (simp_all add: content_sample_def)

theorem content_deletion_contained_witness:
  "content_removed (named_row (content_request ''d'')) content_sample (content_state ''/mca/cache/incoming/x'')
       (end_world (command_delete_local_content content_sample (content_request ''d'') (content_state ''/mca/cache/incoming/x'')))
   \<and> cw_files (end_world (command_delete_local_content content_sample (content_request ''d'') (content_state ''/mca/cache/incoming/x'')))
       = [([''mca'', ''keys'', ''seed''], [2])]
   \<and> end_world (command_delete_local_content content_sample (content_request ''d'') (content_state ''/mca/files/../keys/seed''))
       = content_state ''/mca/files/../keys/seed''"
proof (intro conjI)
  have "distinct (map a_id (db_attachments (cw_db (content_state ''/mca/cache/incoming/x''))))"
    by (simp add: content_state_def worker_db_def)
  from content_deletion_contained [OF this]
  show "content_removed (named_row (content_request ''d'')) content_sample (content_state ''/mca/cache/incoming/x'')
       (end_world (command_delete_local_content content_sample (content_request ''d'') (content_state ''/mca/cache/incoming/x'')))" by blast
qed (simp_all add: command_delete_local_content_def with_content_row_def delete_row_def sample_content_paths unlink_def, simp add: content_state_def)

theorem save_moves_content_witness:
  "end_error (command_save content_sample (content_request ''s'') (content_state ''/mca/cache/incoming/x'')) = None
   \<and> content_saved content_sample (cached ''/mca/cache/incoming/x'') (content_state ''/mca/cache/incoming/x'')
        (end_world (command_save content_sample (content_request ''s'') (content_state ''/mca/cache/incoming/x'')))"
proof -
  have "library_name (cached s) = ''f.txt''" for s
    unfolding library_name_def cached_simps by code_simp
  moreover have "library_names content_sample (content_state s) = []" "endswith ''x'' ''.mcv'' = False" for s
    by (simp_all add: library_names_def content_state_def files_dir_def content_sample_def endswith_def startswith_def)
  moreover have "unique_file_name [] (ce_principal_id content_sample) ''f.txt'' = Inr (Some (''0123456789abcdef'', ''f.txt''))"
    unfolding content_sample_def content_env.select_convs by code_simp
  moreover have "is_file [''mca'', ''cache'', ''incoming'', ''x''] (content_state s)" for s
    by (simp add: is_file_def content_state_def)
  ultimately have "end_error (command_save content_sample (content_request ''s'') (content_state ''/mca/cache/incoming/x'')) = None"
    by (auto simp: command_save_def with_content_row_def save_row_def sample_content_paths save_to_library_def saved_result_def Let_def)
  moreover have "distinct (map fst (cw_files (content_state s)))" for s
    by (simp add: content_state_def)
  ultimately show ?thesis
    using save_moves_content [of "content_state ''/mca/cache/incoming/x''" content_sample "content_request ''s''"]
    by (simp add: eq_commute [of "''a''"], metis content_state_row(2) option.inject)
qed

end
