(* ===== verification/Storage_Merge.thy ===== *)
theory Storage_Merge
  imports Service_Content "HOL-Library.AList"
begin

text \<open>
  The one-time move of received copies from \<open>cache/incoming/\<close> into \<open>files/\<close>, \<open>merge_received_cache\<close> of
  \<open>src/meshsrv/attachments/storage_merge.py\<close>, as a machine whose steps are its durable effects: a journal line, an atomic
  \<open>os.replace\<close> on one file system, a committed UPDATE. Between any two of them the process may stop, and it may stop in the
  middle of a journal write; the next start reads the journal and resumes. A write that is cut leaves a fragment that
  \<open>read_journal\<close> ignores, and the next line is appended to the fragment and lost with it; a write cut exactly before its newline,
  which is still read once, is left out. No path is a symbolic link and the vault is off. An \<open>os.replace\<close> that fails ends the
  run: the copy to another file system is left out. \<open>Path(str(p))\<close> is \<open>p\<close> for the paths the journal holds, so it holds the
  paths themselves; of the other fields of a line, which no run reads, nothing is kept.
\<close>

section \<open>The journal\<close>

datatype journal_op = Start | Plan string path path | Done string | Skip string | Complete

definition read_op :: "journal_op \<Rightarrow> (string \<times> path \<times> path) list \<Rightarrow> (string \<times> path \<times> path) list" where
  "read_op record pending =
     (case record of
        Plan i source dest \<Rightarrow> AList.update i (source, dest) pending
      | Done i \<Rightarrow> AList.delete i pending
      | Skip i \<Rightarrow> AList.delete i pending
      | _ \<Rightarrow> pending)"

definition pending_from_journal :: "journal_op list \<Rightarrow> (string \<times> path \<times> path) list" where
  "pending_from_journal records = fold read_op records []"

text \<open>The readable lines, and whether a fragment without a newline ends the file.\<close>

record merge_state =
  mg_world :: content_world
  mg_journal :: "journal_op list"
  mg_torn :: bool

text \<open>\<open>_append\<close>: on a fragment, the line continues it and cannot be read; its newline ends the fragment.\<close>

definition log_op :: "journal_op \<Rightarrow> merge_state \<Rightarrow> merge_state" where
  "log_op record st =
     (if mg_torn st then st\<lparr>mg_torn := False\<rparr> else st\<lparr>mg_journal := mg_journal st @ [record]\<rparr>)"

section \<open>The steps\<close>

text \<open>What is left to do, and where in a move the run is. The flags are the local variables of the run: \<open>noted\<close>, whether a file was
  moved or skipped, and \<open>started\<close>.\<close>

datatype merge_todo = Resume bool "(string \<times> path \<times> path) list" | Scan bool bool "attachment list"

datatype merge_pc =
    At merge_todo
  | Started string path path "attachment list"
  | Planned string path path merge_todo
  | Moved string path path merge_todo
  | Pointed string merge_todo
  | Finished
  | Aborted

text \<open>\<open>UPDATE attachments SET saved_path = ? WHERE id = ? AND saved_path = ?\<close>.\<close>

definition point_row :: "string \<Rightarrow> path \<Rightarrow> path \<Rightarrow> content_world \<Rightarrow> content_world" where
  "point_row i source dest w =
     w\<lparr>cw_db := update_attachment i (\<lambda>a. if a_saved_path a = Some (posix_text source) then a\<lparr>a_saved_path := Some (posix_text dest)\<rparr> else a) (cw_db w)\<rparr>"

definition received_copies :: "content_env \<Rightarrow> mca_db \<Rightarrow> attachment list" where
  "received_copies C db =
     filter (\<lambda>a. a_workspace_id a = ce_workspace C \<and> a_direction a = Received \<and> a_saved_path a \<noteq> None) (db_attachments db)"

text \<open>A row of the scan: a copy in the cache that is there gets a planned move, the first one of a run after the line \<open>start\<close>;
  every other row is passed over.\<close>

definition scan_copy :: "content_env \<Rightarrow> bool \<Rightarrow> bool \<Rightarrow> attachment \<Rightarrow> attachment list \<Rightarrow> merge_state \<Rightarrow> merge_pc \<times> merge_state" where
  "scan_copy C noted started row rows st =
     (case Option.bind (a_saved_path row) absolute_parts of
        None \<Rightarrow> (At (Scan noted started rows), st)
      | Some source \<Rightarrow>
          if butlast source \<noteq> cache_dir C \<or> \<not> is_file source (mg_world st) then (At (Scan noted started rows), st)
          else if endswith (last source) ''.mcv'' then (At (Scan True started rows), st)
          else case unique_file_name (library_names C (mg_world st)) (ce_principal_id C) (library_name row) of
            Inr (Some (_, name)) \<Rightarrow>
              let dest = files_dir C @ [name] in
              if is_file dest (mg_world st) then (At (Scan True started rows), st)
              else if \<not> started then (Started (a_id row) source dest rows, log_op Start st)
              else (Planned (a_id row) source dest (Scan True True rows), log_op (Plan (a_id row) source dest) st)
          | _ \<Rightarrow> (Aborted, st))"

definition resume_move :: "string \<Rightarrow> path \<Rightarrow> path \<Rightarrow> (string \<times> path \<times> path) list \<Rightarrow> merge_state \<Rightarrow> merge_pc \<times> merge_state" where
  "resume_move i source dest rest st =
     (let w = mg_world st in
      if find_attachment (cw_db w) i = None then (At (Resume True rest), log_op (Skip i) st)
      else if is_file source w \<and> \<not> is_file dest w then (Planned i source dest (Resume True rest), st)
      else if is_file dest w \<and> \<not> is_file source w then (Moved i source dest (Resume True rest), st)
      else (At (Resume True rest), log_op (Skip i) st))"

fun merge_step :: "content_env \<Rightarrow> merge_pc \<times> merge_state \<Rightarrow> merge_pc \<times> merge_state" where
  "merge_step C (At (Resume noted []), st) = (At (Scan noted False (received_copies C (cw_db (mg_world st)))), st)"
| "merge_step C (At (Resume noted ((i, source, dest) # rest)), st) = resume_move i source dest rest st"
| "merge_step C (At (Scan noted started []), st) = (Finished, if started \<or> noted then log_op Complete st else st)"
| "merge_step C (At (Scan noted started (row # rows)), st) = scan_copy C noted started row rows st"
| "merge_step C (Started i source dest rows, st) = (Planned i source dest (Scan True True rows), log_op (Plan i source dest) st)"
| "merge_step C (Planned i source dest todo, st) =
     (if ce_replace_ok C then (Moved i source dest todo, st\<lparr>mg_world := replace_file source dest (mg_world st)\<rparr>) else (Aborted, st))"
| "merge_step C (Moved i source dest todo, st) = (Pointed i todo, st\<lparr>mg_world := point_row i source dest (mg_world st)\<rparr>)"
| "merge_step C (Pointed i todo, st) = (At todo, log_op (Done i) st)"
| "merge_step C (Finished, st) = (Finished, st)"
| "merge_step C (Aborted, st) = (Aborted, st)"

text \<open>
  Any number of runs, each stopped anywhere, also in the middle of writing a line, or going to its end. Between two runs
  (\<open>None\<close>) files may appear outside the cache folder; the rows stay as they are.
\<close>

inductive merge_run :: "content_env \<Rightarrow> content_world \<Rightarrow> merge_pc option \<Rightarrow> merge_state \<Rightarrow> bool" for C w0 where
  fresh: "merge_run C w0 None \<lparr>mg_world = w0, mg_journal = [], mg_torn = False\<rparr>"
| start: "merge_run C w0 None st \<Longrightarrow> merge_run C w0 (Some (At (Resume False (pending_from_journal (mg_journal st))))) st"
| run: "merge_run C w0 (Some pc) st \<Longrightarrow> merge_step C (pc, st) = (pc', st') \<Longrightarrow> merge_run C w0 (Some pc') st'"
| stop: "merge_run C w0 (Some pc) st \<Longrightarrow> merge_run C w0 None st"
| tear: "merge_run C w0 (Some pc) st \<Longrightarrow> merge_step C (pc, st) = (pc', log_op r st) \<Longrightarrow> merge_run C w0 None (st\<lparr>mg_torn := True\<rparr>)"
| arrive: "merge_run C w0 None st \<Longrightarrow> \<not> is_file p (mg_world st) \<Longrightarrow> butlast p \<noteq> cache_dir C
    \<Longrightarrow> merge_run C w0 None (st\<lparr>mg_world := (mg_world st)\<lparr>cw_files := cw_files (mg_world st) @ [(p, content)]\<rparr>\<rparr>)"

end
