(* ===== verification/Storage_Merge_Properties.thy ===== *)
theory Storage_Merge_Properties
  imports Storage_Merge Service_Content_Properties
begin

text \<open>
  The storage merge across crashes: wherever it is stopped and however often, no received file is lost or overwritten, and a
  run that is left alone ends with every file in \<open>files/\<close> and its row pointing to it.
\<close>

section \<open>Paths and files\<close>

definition clean_path :: "path \<Rightarrow> bool" where
  "clean_path p \<longleftrightarrow> p \<noteq> [] \<and> (\<forall>x \<in> set p. CHR ''/'' \<notin> set x \<and> x \<noteq> [] \<and> x \<noteq> ''.'')"

lemma join_char_hd: "x \<noteq> [] \<Longrightarrow> take 1 (join_char c (x # xs)) = take 1 x"
  by (cases xs; cases x) auto

lemma absolute_parts_posix:
  assumes "clean_path p"
  shows "absolute_parts (posix_text p) = Some p"
proof -
  from assms obtain x xs where p: "p = x # xs" "x \<noteq> []" "CHR ''/'' \<notin> set x"
    by (cases p) (auto simp: clean_path_def)
  then obtain c cs where x: "x = c # cs" "c \<noteq> CHR ''/''" by (cases x) auto
  have "take 1 (join_char CHR ''/'' p) = [c]"
    using join_char_hd [of x _ xs] by (simp add: p x)
  then obtain ys where ys: "join_char CHR ''/'' p = c # ys" by (cases "join_char CHR ''/'' p") auto
  have "split_char CHR ''/'' (join_char CHR ''/'' p) = p"
    using assms by (intro split_join) (auto simp: clean_path_def)
  moreover have "filter (\<lambda>p. p \<noteq> [] \<and> p \<noteq> ''.'') p = p"
    using assms by (auto simp: clean_path_def intro!: filter_True)
  ultimately show ?thesis
    using x(2) by (simp add: absolute_parts_def posix_text_def ys startswith_def)
qed

lemma map_of_rename:
  assumes "dest \<notin> fst ` set fs"
  shows "map_of (map (\<lambda>f. if fst f = source then (dest, snd f) else f) fs) = (map_of fs)(source := None, dest := map_of fs source)"
  using assms by (induction fs) (auto simp: fun_eq_iff)

lemma map_of_replace_file:
  assumes "\<not> is_file dest w" "source \<noteq> dest"
  shows "map_of (cw_files (replace_file source dest w)) = (map_of (cw_files w))(source := None, dest := map_of (cw_files w) source)"
proof -
  have "filter (\<lambda>f. fst f \<noteq> dest) (cw_files w) = cw_files w"
    using assms by (auto simp: is_file_def intro!: filter_True)
  then show ?thesis
    using assms map_of_rename [of dest "cw_files w" source] by (simp add: replace_file_def is_file_def)
qed

lemma is_file_map_of: "is_file p w \<longleftrightarrow> map_of (cw_files w) p \<noteq> None"
  by (simp add: is_file_def map_of_eq_None_iff)

lemma library_file_clean:
  assumes "unique_file_name existing p n = Inr (Some (dir, name))" "clean_path (ce_root C)"
  shows "clean_path (files_dir C @ [name])"
proof -
  obtain d n' where r: "resolve_saved_path p n = Inr (d, n')"
    using assms(1) by (auto simp: unique_file_name_def bind_res_eq_Inr)
  obtain k where k: "next_free_name existing n' 2 = Some (renamed n' k)"
    using next_free_name_returns [of 2 existing n'] by blast
  have "name = n' \<or> name = renamed n' k"
    using assms(1) r k by (auto simp: unique_file_name_def split: if_splits)
  then have "CHR ''/'' \<notin> set name \<and> name \<noteq> [] \<and> name \<noteq> ''.''"
    using resolve_saved_path_safe [OF r] renamed_safe [of n' k] by auto
  with assms(2) show ?thesis
    by (auto simp: clean_path_def files_dir_def)
qed

section \<open>The invariant\<close>

text \<open>A received copy in the cache: its row, where it is and what it holds when the merge first starts.\<close>

definition cache_copy :: "content_env \<Rightarrow> content_world \<Rightarrow> attachment \<Rightarrow> path \<Rightarrow> bytes \<Rightarrow> bool" where
  "cache_copy C w a source content \<longleftrightarrow>
     a \<in> set (received_copies C (cw_db w)) \<and> Option.bind (a_saved_path a) absolute_parts = Some source \<and> butlast source = cache_dir C
     \<and> map_of (cw_files w) source = Some content"

text \<open>
  What the rows look like before the merge: ids are unique, the recorded cache paths are the text of a path (as \<open>str(Path)\<close>
  writes them) and no two rows share one.
\<close>

definition merge_ready :: "content_env \<Rightarrow> content_world \<Rightarrow> bool" where
  "merge_ready C w \<longleftrightarrow>
     clean_path (ce_root C) \<and> distinct (map a_id (db_attachments (cw_db w)))
     \<and> (\<forall>a \<in> set (db_attachments (cw_db w)). \<forall>s p. a_saved_path a = Some s \<longrightarrow> absolute_parts s = Some p \<longrightarrow> butlast p = cache_dir C \<longrightarrow> s = posix_text p)
     \<and> inj_on a_saved_path {a \<in> set (db_attachments (cw_db w)). \<exists>p. Option.bind (a_saved_path a) absolute_parts = Some p \<and> butlast p = cache_dir C}"

text \<open>
  The history of a run is summed up by \<open>f\<close>, where each file that was moved is now, and \<open>m\<close>, the rows that were pointed there.
\<close>

definition pointed_row :: "(string \<rightharpoonup> path) \<Rightarrow> string set \<Rightarrow> attachment \<Rightarrow> attachment" where
  "pointed_row f m a = (if a_id a \<in> m then a\<lparr>a_saved_path := map_option posix_text (f (a_id a))\<rparr> else a)"

definition pending :: "merge_state \<Rightarrow> string \<rightharpoonup> path \<times> path" where
  "pending st = map_of (pending_from_journal (mg_journal st))"

definition stored :: "merge_state \<Rightarrow> path \<rightharpoonup> bytes" where
  "stored st = map_of (cw_files (mg_world st))"

definition library_path :: "content_env \<Rightarrow> path \<Rightarrow> bool" where
  "library_path C p \<longleftrightarrow> clean_path p \<and> butlast p = files_dir C"

definition copies_kept :: "content_env \<Rightarrow> content_world \<Rightarrow> (string \<rightharpoonup> path) \<Rightarrow> merge_state \<Rightarrow> bool" where
  "copies_kept C w0 f st \<longleftrightarrow> (\<forall>a source content. cache_copy C w0 a source content \<longrightarrow>
     (case f (a_id a) of None \<Rightarrow> stored st source = Some content | Some p \<Rightarrow> stored st source = None \<and> stored st p = Some content))"

definition moves_known :: "content_env \<Rightarrow> content_world \<Rightarrow> (string \<rightharpoonup> path) \<Rightarrow> string set \<Rightarrow> merge_state \<Rightarrow> bool" where
  "moves_known C w0 f m st \<longleftrightarrow> (\<forall>i p. f i = Some p \<longrightarrow> library_path C p \<and> (\<exists>a source content. cache_copy C w0 a source content \<and> a_id a = i
     \<and> (i \<notin> m \<longrightarrow> pending st i = Some (source, p))))"

definition plans_known :: "content_env \<Rightarrow> content_world \<Rightarrow> (string \<rightharpoonup> path) \<Rightarrow> merge_state \<Rightarrow> bool" where
  "plans_known C w0 f st \<longleftrightarrow> (\<forall>i source p. pending st i = Some (source, p) \<longrightarrow>
     library_path C p \<and> (\<exists>a content. cache_copy C w0 a source content \<and> a_id a = i) \<and> (f i = None \<or> f i = Some p))"

definition others_kept :: "content_env \<Rightarrow> content_world \<Rightarrow> merge_state \<Rightarrow> bool" where
  "others_kept C w0 st \<longleftrightarrow>
     (\<forall>p content. map_of (cw_files w0) p = Some content \<longrightarrow> butlast p \<noteq> cache_dir C \<longrightarrow> stored st p = Some content)
   \<and> (\<forall>p content. stored st p = Some content \<longrightarrow> butlast p = cache_dir C \<longrightarrow> map_of (cw_files w0) p = Some content)"

definition merge_inv :: "content_env \<Rightarrow> content_world \<Rightarrow> (string \<rightharpoonup> path) \<Rightarrow> string set \<Rightarrow> merge_state \<Rightarrow> bool" where
  "merge_inv C w0 f m st \<longleftrightarrow>
     m \<subseteq> dom f \<and> inj_on f (dom f)
     \<and> db_attachments (cw_db (mg_world st)) = map (pointed_row f m) (db_attachments (cw_db w0))
     \<and> copies_kept C w0 f st \<and> moves_known C w0 f m st \<and> plans_known C w0 f st \<and> others_kept C w0 st"

lemma merge_invD:
  assumes "merge_inv C w0 f m st"
  shows "m \<subseteq> dom f" "inj_on f (dom f)" "db_attachments (cw_db (mg_world st)) = map (pointed_row f m) (db_attachments (cw_db w0))"
    "copies_kept C w0 f st" "moves_known C w0 f m st" "plans_known C w0 f st" "others_kept C w0 st"
  using assms by (simp_all add: merge_inv_def)

lemma copies_keptD:
  assumes "copies_kept C w0 f st" "cache_copy C w0 a source content"
  shows "f (a_id a) = None \<Longrightarrow> stored st source = Some content"
    and "f (a_id a) = Some p \<Longrightarrow> stored st source = None \<and> stored st p = Some content"
  using assms(1) [unfolded copies_kept_def, rule_format, OF assms(2)] by simp_all

lemma moves_knownE:
  assumes "moves_known C w0 f m st" "f i = Some p"
  obtains a source content where "library_path C p" "cache_copy C w0 a source content" "a_id a = i" "i \<notin> m \<longrightarrow> pending st i = Some (source, p)"
  using assms(1) [unfolded moves_known_def, rule_format, OF assms(2)] by blast

lemma plans_knownE:
  assumes "plans_known C w0 f st" "pending st i = Some (source, p)"
  obtains a content where "library_path C p" "cache_copy C w0 a source content" "a_id a = i" "f i = None \<or> f i = Some p"
  using assms(1) [unfolded plans_known_def, rule_format, OF assms(2)] by blast

lemma others_keptD:
  assumes "others_kept C w0 st"
  shows "map_of (cw_files w0) p = Some content \<Longrightarrow> butlast p \<noteq> cache_dir C \<Longrightarrow> stored st p = Some content"
    and "stored st p = Some content \<Longrightarrow> butlast p = cache_dir C \<Longrightarrow> map_of (cw_files w0) p = Some content"
  using assms unfolding others_kept_def by blast+

lemma moves_knownI:
  assumes "\<And>i p. f i = Some p \<Longrightarrow> library_path C p \<and> (\<exists>a source content. cache_copy C w0 a source content \<and> a_id a = i
     \<and> (i \<notin> m \<longrightarrow> pending st i = Some (source, p)))"
  shows "moves_known C w0 f m st"
  using assms by (simp add: moves_known_def)

lemma plans_knownI:
  assumes "\<And>i source p. pending st i = Some (source, p) \<Longrightarrow>
     library_path C p \<and> (\<exists>a content. cache_copy C w0 a source content \<and> a_id a = i) \<and> (f i = None \<or> f i = Some p)"
  shows "plans_known C w0 f st"
  using assms by (simp add: plans_known_def)

lemma kept_cong:
  assumes "stored st' = stored st"
  shows "copies_kept C w0 f st' = copies_kept C w0 f st" "others_kept C w0 st' = others_kept C w0 st"
  unfolding copies_kept_def others_kept_def assms by (rule refl)+

definition scan_covers :: "content_env \<Rightarrow> content_world \<Rightarrow> (string \<rightharpoonup> path) \<Rightarrow> string set \<Rightarrow> bool" where
  "scan_covers C w0 f ids \<longleftrightarrow> (\<forall>a source content. cache_copy C w0 a source content \<longrightarrow> \<not> endswith (last source) ''.mcv'' \<longrightarrow> f (a_id a) = None
     \<longrightarrow> a_id a \<in> ids)"

lemma scan_coversI:
  assumes "\<And>a s c. cache_copy C w0 a s c \<Longrightarrow> \<not> endswith (last s) ''.mcv'' \<Longrightarrow> f (a_id a) = None \<Longrightarrow> a_id a \<in> ids"
  shows "scan_covers C w0 f ids"
  using assms unfolding scan_covers_def by blast

lemma scan_coversD:
  assumes "scan_covers C w0 f ids" "cache_copy C w0 a s c" "\<not> endswith (last s) ''.mcv''" "f (a_id a) = None"
  shows "a_id a \<in> ids"
  using assms unfolding scan_covers_def by blast

lemma scan_covers_mono:
  assumes "scan_covers C w0 f A" and "\<And>j. f' j = None \<Longrightarrow> f j = None" and "\<And>j. j \<in> A \<Longrightarrow> f' j = None \<Longrightarrow> j \<in> B"
  shows "scan_covers C w0 f' B"
proof (rule scan_coversI)
  fix a s c
  assume a: "cache_copy C w0 a s c" "\<not> endswith (last s) ''.mcv''" "f' (a_id a) = None"
  from scan_coversD [OF assms(1) a(1,2) assms(2) [OF a(3)]] a(3) show "a_id a \<in> B" by (rule assms(3))
qed

text \<open>What is left to do covers every file that is not where it belongs, apart from those in \<open>X\<close>, the move in hand.\<close>

fun todo_ok :: "content_env \<Rightarrow> content_world \<Rightarrow> (string \<rightharpoonup> path) \<Rightarrow> string set \<Rightarrow> merge_state \<Rightarrow> string set \<Rightarrow> merge_todo \<Rightarrow> bool" where
  "todo_ok C w0 f m st X (Resume noted rest) \<longleftrightarrow>
     distinct (map fst rest) \<and> map_of rest \<subseteq>\<^sub>m pending st \<and> X \<inter> fst ` set rest = {} \<and> dom f - m \<subseteq> X \<union> fst ` set rest"
| "todo_ok C w0 f m st X (Scan noted started rows) \<longleftrightarrow> (started \<longrightarrow> \<not> mg_torn st) \<and>
     distinct (map a_id rows) \<and> set rows \<subseteq> set (received_copies C (cw_db (mg_world st))) \<and> X \<inter> a_id ` set rows = {} \<and> dom f - m \<subseteq> X
     \<and> scan_covers C w0 f (X \<union> a_id ` set rows)"

fun pc_ok :: "content_env \<Rightarrow> content_world \<Rightarrow> (string \<rightharpoonup> path) \<Rightarrow> string set \<Rightarrow> merge_state \<Rightarrow> merge_pc \<Rightarrow> bool" where
  "pc_ok C w0 f m st (At todo) \<longleftrightarrow> todo_ok C w0 f m st {} todo"
| "pc_ok C w0 f m st (Started i s d rows) \<longleftrightarrow>
     (\<exists>a c. cache_copy C w0 a s c \<and> a_id a = i) \<and> library_path C d \<and> f i = None \<and> stored st s \<noteq> None \<and> stored st d = None
     \<and> todo_ok C w0 f m st {i} (Scan True True rows)"
| "pc_ok C w0 f m st (Planned i s d todo) \<longleftrightarrow>
     pending st i = Some (s, d) \<and> f i = None \<and> stored st s \<noteq> None \<and> stored st d = None \<and> todo_ok C w0 f m st {i} todo"
| "pc_ok C w0 f m st (Moved i s d todo) \<longleftrightarrow> pending st i = Some (s, d) \<and> f i = Some d \<and> todo_ok C w0 f m st {i} todo"
| "pc_ok C w0 f m st (Pointed i todo) \<longleftrightarrow> i \<in> m \<and> todo_ok C w0 f m st {i} todo"
| "pc_ok C w0 f m st Finished \<longleftrightarrow> todo_ok C w0 f m st {} (Scan False False [])"
| "pc_ok C w0 f m st Aborted \<longleftrightarrow> True"

lemma pending_log_op [simp]:
  "\<not> mg_torn st \<Longrightarrow> pending (log_op (Plan i s d) st) = (pending st)(i \<mapsto> (s, d))"
  "pending (log_op (Done i) st) = (if mg_torn st then pending st else (pending st)(i := None))"
  "pending (log_op (Skip i) st) = (if mg_torn st then pending st else (pending st)(i := None))"
  "pending (log_op Start st) = pending st" "pending (log_op Complete st) = pending st"
  by (simp_all add: pending_def log_op_def pending_from_journal_def read_op_def update_conv' delete_conv')

lemma pending_distinct: "distinct (map fst (pending_from_journal js))"
  by (induction js rule: rev_induct)
    (auto simp: pending_from_journal_def read_op_def distinct_update distinct_delete split: journal_op.splits)

lemma log_op_simps [simp]: "mg_world (log_op r st) = mg_world st" "stored (log_op r st) = stored st" "\<not> mg_torn (log_op r st)"
  by (simp_all add: log_op_def stored_def)

lemma stored_file: "is_file p (mg_world st) \<longleftrightarrow> stored st p \<noteq> None"
  by (simp add: stored_def is_file_map_of)

lemma pointed_row_simps [simp]: "a_id (pointed_row f m a) = a_id a" "a_direction (pointed_row f m a) = a_direction a"
  "a_workspace_id (pointed_row f m a) = a_workspace_id a" "a_file_name (pointed_row f m a) = a_file_name a"
  by (simp_all add: pointed_row_def)


section \<open>Every step keeps it\<close>

lemma library_not_cache: "library_path C p \<Longrightarrow> butlast p \<noteq> cache_dir C"
  by (auto simp: library_path_def files_dir_def cache_dir_def)

lemma cache_copyD:
  assumes "merge_ready C w0" "cache_copy C w0 a source content"
  shows "a \<in> set (db_attachments (cw_db w0))" "a_saved_path a = Some (posix_text source)" "butlast source = cache_dir C"
  using assms by (auto simp: cache_copy_def received_copies_def merge_ready_def bind_eq_Some_conv)

lemma cache_copy_unique:
  assumes "merge_ready C w0" "cache_copy C w0 a s c" "cache_copy C w0 a' s' c'"
  shows "a_id a = a_id a' \<Longrightarrow> a = a' \<and> s = s' \<and> c = c'" and "s = s' \<Longrightarrow> a = a'"
proof -
  note a = cache_copyD [OF assms(1,2)] and a' = cache_copyD [OF assms(1,3)]
  show "a = a' \<and> s = s' \<and> c = c'" if "a_id a = a_id a'"
  proof -
    have "a = a'"
      using that a(1) a'(1) assms(1) by (auto simp: merge_ready_def distinct_map dest: inj_onD)
    then show ?thesis
      using assms(2,3) by (auto simp: cache_copy_def)
  qed
  show "a = a'" if "s = s'"
  proof (rule inj_onD)
    show "inj_on a_saved_path {a \<in> set (db_attachments (cw_db w0)). \<exists>p. Option.bind (a_saved_path a) absolute_parts = Some p \<and> butlast p = cache_dir C}"
      using assms(1) by (simp add: merge_ready_def)
  qed (use that assms(2,3) a a' in \<open>simp_all add: cache_copy_def\<close>)
qed

lemma copies_kept_move:
  assumes ready: "merge_ready C w0" and kept: "copies_kept C w0 f st" and moves: "moves_known C w0 f m st"
    and a: "cache_copy C w0 a s c" "f (a_id a) = None" and d: "library_path C d" "stored st d = None"
    and st': "stored st' = (stored st)(s := None, d := stored st s)"
  shows "copies_kept C w0 (f(a_id a \<mapsto> d)) st'"
  unfolding copies_kept_def
proof (intro allI impI)
  fix b t e
  assume b: "cache_copy C w0 b t e"
  have "t \<noteq> d" "s \<noteq> d"
    using library_not_cache [OF d(1)] cache_copyD(3) [OF ready b] cache_copyD(3) [OF ready a(1)] by auto
  show "case (f(a_id a \<mapsto> d)) (a_id b) of None \<Rightarrow> stored st' t = Some e | Some p \<Rightarrow> stored st' t = None \<and> stored st' p = Some e"
  proof (cases "a_id b = a_id a")
    case True
    then show ?thesis
      using cache_copy_unique(1) [OF ready a(1) b] copies_keptD(1) [OF kept a] \<open>s \<noteq> d\<close> by (simp add: st')
  next
    case False
    then have "t \<noteq> s" using cache_copy_unique(2) [OF ready a(1) b] by auto
    show ?thesis
    proof (cases "f (a_id b)")
      case None
      then show ?thesis
        using False \<open>t \<noteq> s\<close> \<open>t \<noteq> d\<close> copies_keptD(1) [OF kept b] by (simp add: st')
    next
      case (Some q)
      with copies_keptD(2) [OF kept b Some] have "q \<noteq> d" using d(2) by auto
      moreover have "q \<noteq> s"
        using moves_knownE [OF moves Some] library_not_cache cache_copyD(3) [OF ready a(1)] by metis
      ultimately show ?thesis
        using False Some \<open>t \<noteq> d\<close> copies_keptD(2) [OF kept b Some] by (simp add: st')
    qed
  qed
qed

lemma others_kept_update:
  assumes "others_kept C w0 st" "stored st' = (stored st)(s := None, d := v)" "butlast s = cache_dir C" "butlast d \<noteq> cache_dir C" "stored st d = None"
  shows "others_kept C w0 st'"
  unfolding others_kept_def
proof (intro conjI allI impI)
  fix p content
  assume p: "map_of (cw_files w0) p = Some content" "butlast p \<noteq> cache_dir C"
  then have "stored st p = Some content" by (rule others_keptD(1) [OF assms(1)])
  moreover from this have "p \<noteq> d" using assms(5) by force
  moreover have "p \<noteq> s" using assms(3) p(2) by blast
  ultimately show "stored st' p = Some content" by (simp add: assms(2))
next
  fix p content
  assume p: "stored st' p = Some content" "butlast p = cache_dir C"
  then have "p \<noteq> d" "p \<noteq> s" using assms(2-4) by (auto split: if_splits)
  then have "stored st p = Some content" using p(1) by (simp add: assms(2))
  then show "map_of (cw_files w0) p = Some content" using p(2) by (rule others_keptD(2) [OF assms(1)])
qed

lemma merge_inv_move:
  assumes ready: "merge_ready C w0" and inv: "merge_inv C w0 f m st" and pend: "pending st i = Some (s, d)" and i: "f i = None" and free: "stored st d = None"
  shows "merge_inv C w0 (f(i \<mapsto> d)) m (st\<lparr>mg_world := replace_file s d (mg_world st)\<rparr>)"
proof -
  let ?st = "st\<lparr>mg_world := replace_file s d (mg_world st)\<rparr>"
  note old = merge_invD [OF inv]
  obtain a c where d: "library_path C d" and a: "cache_copy C w0 a s c" "a_id a = i"
    using plans_knownE [OF old(6) pend] by metis
  have sd: "s \<noteq> d" "butlast s = cache_dir C"
    using library_not_cache [OF d] cache_copyD(3) [OF ready a(1)] by auto
  have st: "stored ?st = (stored st)(s := None, d := stored st s)" "pending ?st = pending st"
    using map_of_replace_file [of d "mg_world st" s] free sd(1) by (simp_all add: stored_def pending_def is_file_map_of)
  have new: "f j \<noteq> Some d" for j
  proof
    assume j: "f j = Some d"
    then obtain b t e where b: "cache_copy C w0 b t e" "a_id b = j" using moves_knownE [OF old(5)] by metis
    with copies_keptD(2) [OF old(4) b(1)] j free show False by simp
  qed
  have "copies_kept C w0 (f(i \<mapsto> d)) ?st"
    using copies_kept_move [OF ready old(4,5) a(1) _ d free st(1)] i a(2) by simp
  moreover have "moves_known C w0 (f(i \<mapsto> d)) m ?st"
    using old(5) a d pend by (auto simp: moves_known_def st)
  moreover have "plans_known C w0 (f(i \<mapsto> d)) ?st"
    using old(6) pend by (auto simp: plans_known_def st)
  moreover have "others_kept C w0 ?st"
    using others_kept_update [OF old(7) st(1) sd(2) library_not_cache [OF d] free] .
  moreover have "inj_on (f(i \<mapsto> d)) (dom (f(i \<mapsto> d)))"
    using old(2) new i by (auto simp: inj_on_def dom_def split: if_splits)
  moreover have "db_attachments (cw_db (mg_world ?st)) = map (pointed_row (f(i \<mapsto> d)) m) (db_attachments (cw_db w0))"
    using old(1,3) i by (auto simp: replace_file_def pointed_row_def)
  ultimately show ?thesis
    using old(1) by (simp add: merge_inv_def subset_insertI2)
qed


lemma merge_inv_point:
  assumes ready: "merge_ready C w0" and inv: "merge_inv C w0 f m st" and pend: "pending st i = Some (s, d)" and i: "f i = Some d"
  shows "merge_inv C w0 f (insert i m) (st\<lparr>mg_world := point_row i s d (mg_world st)\<rparr>)"
proof -
  let ?st = "st\<lparr>mg_world := point_row i s d (mg_world st)\<rparr>"
  note old = merge_invD [OF inv]
  obtain a c where a: "cache_copy C w0 a s c" "a_id a = i"
    using plans_knownE [OF old(6) pend] by metis
  note row = cache_copyD [OF ready a(1)]
  have st: "stored ?st = stored st" "pending ?st = pending st"
    by (simp_all add: stored_def pending_def point_row_def)
  have only: "b = a" if "b \<in> set (db_attachments (cw_db w0))" "a_id b = i" for b
    using that ready row(1) a(2) by (auto simp: merge_ready_def distinct_map dest: inj_onD)
  have "db_attachments (cw_db (mg_world ?st)) = map (pointed_row f (insert i m)) (db_attachments (cw_db w0))"
  proof -
    have "(if a_id (pointed_row f m b) = i
           then (if a_saved_path (pointed_row f m b) = Some (posix_text s) then (pointed_row f m b)\<lparr>a_saved_path := Some (posix_text d)\<rparr>
                 else pointed_row f m b)
           else pointed_row f m b) = pointed_row f (insert i m) b" if "b \<in> set (db_attachments (cw_db w0))" for b
    proof (cases "a_id b = i")
      case True
      with only [OF that] show ?thesis using row(2) i by (simp add: pointed_row_def)
    next
      case False
      then show ?thesis by (simp add: pointed_row_def)
    qed
    then show ?thesis by (simp add: point_row_def update_attachment_def update_where_def old(3))
  qed
  moreover have "moves_known C w0 f (insert i m) ?st"
  proof (rule moves_knownI)
    fix j p
    assume "f j = Some p"
    from moves_knownE [OF old(5) this] show "library_path C p \<and> (\<exists>a source content. cache_copy C w0 a source content \<and> a_id a = j
       \<and> (j \<notin> insert i m \<longrightarrow> pending ?st j = Some (source, p)))" unfolding st by (metis insert_iff)
  qed
  moreover have "plans_known C w0 f ?st"
    using old(6) unfolding plans_known_def st .
  ultimately show ?thesis
    using old(1,2,4,7) i kept_cong [OF st(1)] by (simp add: merge_inv_def domI)
qed

text \<open>A journal line for one id: the plan of a copy that has not moved, or the end of a plan that is no longer needed.\<close>

lemma merge_inv_plan:
  assumes whole: "\<not> mg_torn st" and inv: "merge_inv C w0 f m st" and i: "f i = None" and "library_path C d" "cache_copy C w0 a s c" "a_id a = i"
  shows "merge_inv C w0 f m (log_op (Plan i s d) st)"
proof -
  note old = merge_invD [OF inv]
  have "moves_known C w0 f m (log_op (Plan i s d) st)"
  proof (rule moves_knownI)
    fix j p
    assume j: "f j = Some p"
    with i have "j \<noteq> i" by auto
    with moves_knownE [OF old(5) j] show "library_path C p \<and> (\<exists>a source content. cache_copy C w0 a source content \<and> a_id a = j
       \<and> (j \<notin> m \<longrightarrow> pending (log_op (Plan i s d) st) j = Some (source, p)))" using whole by (metis fun_upd_other pending_log_op(1))
  qed
  moreover have "plans_known C w0 f (log_op (Plan i s d) st)"
  proof (rule plans_knownI)
    fix j source p
    assume j: "pending (log_op (Plan i s d) st) j = Some (source, p)"
    show "library_path C p \<and> (\<exists>a content. cache_copy C w0 a source content \<and> a_id a = j) \<and> (f j = None \<or> f j = Some p)"
    proof (cases "j = i")
      case True
      then show ?thesis using j i whole assms(4-6) by auto
    next
      case False
      then have "pending st j = Some (source, p)" using j whole by simp
      from plans_knownE [OF old(6) this] show ?thesis by metis
    qed
  qed
  ultimately show ?thesis
    using old kept_cong [of "log_op (Plan i s d) st" st] by (simp add: merge_inv_def)
qed

lemma merge_inv_close:
  assumes inv: "merge_inv C w0 f m st" and i: "f i = None \<or> i \<in> m" and r: "r = Done i \<or> r = Skip i"
  shows "merge_inv C w0 f m (log_op r st)"
proof -
  note old = merge_invD [OF inv]
  have p: "pending (log_op r st) = pending st \<or> pending (log_op r st) = (pending st)(i := None)" using r by auto
  then have other: "pending (log_op r st) j = pending st j" if "j \<noteq> i" for j
    using that by auto
  have "moves_known C w0 f m (log_op r st)"
  proof (rule moves_knownI)
    fix j q
    assume j: "f j = Some q"
    then have "j \<notin> m \<longrightarrow> j \<noteq> i" using i by auto
    with moves_knownE [OF old(5) j] show "library_path C q \<and> (\<exists>a source content. cache_copy C w0 a source content \<and> a_id a = j
       \<and> (j \<notin> m \<longrightarrow> pending (log_op r st) j = Some (source, q)))" by (metis other)
  qed
  moreover have "plans_known C w0 f (log_op r st)"
  proof (rule plans_knownI)
    fix j source q
    assume "pending (log_op r st) j = Some (source, q)"
    then have "pending st j = Some (source, q)" using p by (auto split: if_splits)
    from plans_knownE [OF old(6) this] show "library_path C q \<and> (\<exists>a content. cache_copy C w0 a source content \<and> a_id a = j) \<and> (f j = None \<or> f j = Some q)"
      by metis
  qed
  ultimately show ?thesis
    using old kept_cong [of "log_op r st" st] by (simp add: merge_inv_def)
qed

text \<open>Nothing of the invariant depends on a line no run reads, or on a fragment at the end of the journal.\<close>

lemma merge_inv_cong:
  assumes "merge_inv C w0 f m st" "mg_world st' = mg_world st" "pending st' = pending st"
  shows "merge_inv C w0 f m st'"
proof -
  have kept: "stored st' = stored st" by (simp add: stored_def assms(2))
  have "moves_known C w0 f m st' = moves_known C w0 f m st" "plans_known C w0 f st' = plans_known C w0 f st"
    unfolding moves_known_def plans_known_def assms(3) by (rule refl)+
  then show ?thesis
    using assms(1) unfolding merge_inv_def kept_cong [OF kept] assms(2) by blast
qed

lemma todo_ok_move:
  assumes "todo_ok C w0 f m st {i} todo"
  shows "todo_ok C w0 (f(i \<mapsto> d)) m (st\<lparr>mg_world := replace_file s d (mg_world st)\<rparr>) {i} todo"
proof -
  have st: "pending (st\<lparr>mg_world := replace_file s d (mg_world st)\<rparr>) = pending st" "cw_db (replace_file s d (mg_world st)) = cw_db (mg_world st)"
    by (simp_all add: pending_def replace_file_def)
  have "scan_covers C w0 f A \<Longrightarrow> scan_covers C w0 (f(i \<mapsto> d)) A" for A
    by (erule scan_covers_mono) (simp_all split: if_splits)
  then show ?thesis
    using assms by (cases todo) (auto simp: st)
qed

lemma todo_ok_point:
  assumes "todo_ok C w0 f m st {i} todo"
  shows "todo_ok C w0 f (insert i m) (st\<lparr>mg_world := point_row i s d (mg_world st)\<rparr>) {i} todo"
proof -
  have st: "pending (st\<lparr>mg_world := point_row i s d (mg_world st)\<rparr>) = pending st"
    by (simp add: pending_def)
  have keep: "a \<in> set (received_copies C (cw_db (point_row i s d (mg_world st))))"
    if "a \<in> set (received_copies C (cw_db (mg_world st)))" "a_id a \<noteq> i" for a
    using that by (force simp: received_copies_def point_row_def update_attachment_def update_where_def image_iff)
  show ?thesis
    using assms keep by (cases todo) (auto simp: st)
qed

lemma todo_ok_done:
  assumes "todo_ok C w0 f m st {i} todo" "i \<in> m" "m \<subseteq> dom f"
  shows "todo_ok C w0 f m (log_op (Done i) st) {} todo"
proof (cases todo)
  case (Resume noted rest)
  then have "map_of rest \<subseteq>\<^sub>m pending st" "i \<notin> dom (map_of rest)"
    using assms(1) by (auto simp: dom_map_of_conv_image_fst)
  then have "map_of rest \<subseteq>\<^sub>m (pending st)(i := None)"
    by (auto simp: map_le_def)
  then show ?thesis
    using assms Resume by auto
next
  case (Scan noted started rows)
  have "scan_covers C w0 f (insert i (a_id ` set rows))" using assms(1) Scan by simp
  then have "scan_covers C w0 f (a_id ` set rows)"
    by (rule scan_covers_mono) (use assms(2,3) in auto)
  then show ?thesis
    using assms Scan by auto
qed

text \<open>The rows of the scan that were not moved yet are the rows as they were; those that were point into \<open>files/\<close>.\<close>

lemma scan_row_copy:
  assumes ready: "merge_ready C w0" and inv: "merge_inv C w0 f m st" and row: "row \<in> set (received_copies C (cw_db (mg_world st)))"
    and src: "Option.bind (a_saved_path row) absolute_parts = Some source" "butlast source = cache_dir C" and here: "stored st source = Some c"
  shows "cache_copy C w0 row source c" "f (a_id row) = None"
proof -
  note old = merge_invD [OF inv]
  from row old(3) obtain a where a: "a \<in> set (db_attachments (cw_db w0))" "row = pointed_row f m a" "a_workspace_id a = ce_workspace C" "a_direction a = Received"
    "a_saved_path row \<noteq> None" by (auto simp: received_copies_def)
  have "a_id a \<notin> m"
  proof
    assume m: "a_id a \<in> m"
    then obtain p where p: "f (a_id a) = Some p" using old(1) by blast
    then have lib: "library_path C p" using moves_knownE [OF old(5)] by metis
    have "a_saved_path row = Some (posix_text p)" using a(2) m p by (simp add: pointed_row_def)
    then have "source = p" using src(1) absolute_parts_posix [of p] lib by (simp add: library_path_def)
    with library_not_cache [OF lib] src(2) show False by simp
  qed
  then have same: "row = a" using a(2) by (simp add: pointed_row_def)
  then show copy: "cache_copy C w0 row source c"
    using a src others_keptD(2) [OF old(7) here src(2)] by (auto simp: cache_copy_def received_copies_def)
  show "f (a_id row) = None"
    using copies_keptD(2) [OF old(4) copy] here by (cases "f (a_id row)") auto
qed

lemma unmoved_row_same:
  assumes ready: "merge_ready C w0" and inv: "merge_inv C w0 f m st" and copy: "cache_copy C w0 a s c" "f (a_id a) = None"
    and row: "row \<in> set (received_copies C (cw_db (mg_world st)))" "a_id row = a_id a"
  shows "row = a"
proof -
  note old = merge_invD [OF inv]
  obtain b where b: "b \<in> set (db_attachments (cw_db w0))" "row = pointed_row f m b"
    using row(1) old(3) by (auto simp: received_copies_def)
  then have "b = a"
    using row(2) ready cache_copyD(1) [OF ready copy(1)] by (auto simp: merge_ready_def distinct_map dest: inj_onD)
  then show ?thesis
    using b(2) old(1) copy(2) by (auto simp: pointed_row_def)
qed

lemma scan_skip_ok:
  assumes ready: "merge_ready C w0" and inv: "merge_inv C w0 f m st" and todo: "todo_ok C w0 f m st {} (Scan noted started (row # rows))"
    and skip: "\<And>s. Option.bind (a_saved_path row) absolute_parts = Some s \<Longrightarrow> butlast s = cache_dir C \<Longrightarrow> stored st s \<noteq> None \<Longrightarrow> endswith (last s) ''.mcv''"
  shows "todo_ok C w0 f m st {} (Scan noted' started rows)"
proof -
  have "a_id a \<noteq> a_id row" if a: "cache_copy C w0 a s c" "\<not> endswith (last s) ''.mcv''" "f (a_id a) = None" for a s c
  proof
    assume "a_id a = a_id row"
    then have "row = a" using unmoved_row_same [OF ready inv a(1,3)] todo by simp
    then show False
      using skip [of s] a copies_keptD(1) [OF merge_invD(4) [OF inv] a(1,3)] by (simp add: cache_copy_def)
  qed
  moreover have "scan_covers C w0 f (insert (a_id row) (a_id ` set rows))" using todo by simp
  ultimately have "scan_covers C w0 f (a_id ` set rows)"
    by (intro scan_coversI) (metis insertE scan_coversD)
  then show ?thesis
    using todo by simp
qed

lemma scan_copy_ok:
  assumes ready: "merge_ready C w0" and inv: "merge_inv C w0 f m st" and todo: "todo_ok C w0 f m st {} (Scan noted started (row # rows))"
    and step: "scan_copy C noted started row rows st = (pc', st')"
  shows "merge_inv C w0 f m st' \<and> pc_ok C w0 f m st' pc'"
proof (cases "\<exists>s. Option.bind (a_saved_path row) absolute_parts = Some s \<and> butlast s = cache_dir C \<and> stored st s \<noteq> None \<and> \<not> endswith (last s) ''.mcv''")
  case False
  then obtain noted' where "pc' = At (Scan noted' started rows) \<and> st' = st"
    using step by (auto simp: scan_copy_def stored_file split: option.splits if_splits)
  moreover have "todo_ok C w0 f m st {} (Scan noted' started rows)"
    using scan_skip_ok [OF ready inv todo] False by blast
  ultimately show ?thesis using inv by simp
next
  case True
  then obtain s c where s: "Option.bind (a_saved_path row) absolute_parts = Some s" "butlast s = cache_dir C" "stored st s = Some c" "\<not> endswith (last s) ''.mcv''"
    by auto
  have row: "row \<in> set (received_copies C (cw_db (mg_world st)))" using todo by simp
  note copy = scan_row_copy [OF ready inv row s(1-3)]
  show ?thesis
  proof (cases "\<exists>dir name. unique_file_name (library_names C (mg_world st)) (ce_principal_id C) (library_name row) = Inr (Some (dir, name))")
    case False
    then have "pc' = Aborted \<and> st' = st"
      using step s by (auto simp: scan_copy_def stored_file split: sum.splits option.splits prod.splits)
    then show ?thesis using inv by simp
  next
    case True
    then obtain dir name where name: "unique_file_name (library_names C (mg_world st)) (ce_principal_id C) (library_name row) = Inr (Some (dir, name))" by blast
    let ?d = "files_dir C @ [name]"
    have free: "stored st ?d = None" using library_name_free [OF name] by (simp add: stored_file)
    have lib: "library_path C ?d"
      using library_file_clean [OF name] ready by (simp add: library_path_def merge_ready_def)
    have rest: "todo_ok C w0 f m st' {a_id row} (Scan True True rows)" if "mg_world st' = mg_world st" "\<not> mg_torn st'"
      using todo that by auto
    show ?thesis
    proof (cases started)
      case True
      then have "pc' = Planned (a_id row) s ?d (Scan True True rows) \<and> st' = log_op (Plan (a_id row) s ?d) st" "\<not> mg_torn st"
        using step s name free todo by (simp_all add: scan_copy_def stored_file Let_def)
      then show ?thesis
        using merge_inv_plan [OF _ inv copy(2) lib copy(1)] copy(2) s(3) free rest by simp
    next
      case False
      then have "pc' = Started (a_id row) s ?d rows \<and> st' = log_op Start st"
        using step s name free by (simp add: scan_copy_def stored_file Let_def)
      then show ?thesis
        using merge_inv_cong [OF inv, of "log_op Start st"] copy s(3) free lib rest by auto
    qed
  qed
qed

lemma resume_move_ok:
  assumes inv: "merge_inv C w0 f m st" and todo: "todo_ok C w0 f m st {} (Resume noted ((i, s, d) # rest))"
    and step: "resume_move i s d rest st = (pc', st')"
  shows "merge_inv C w0 f m st' \<and> pc_ok C w0 f m st' pc'"
proof -
  note old = merge_invD [OF inv]
  have i: "pending st i = Some (s, d)" and rest: "i \<notin> fst ` set rest" "distinct (map fst rest)" "map_of rest \<subseteq>\<^sub>m pending st"
    "dom f - m \<subseteq> insert i (fst ` set rest)"
    using todo by (auto simp: map_le_def dom_map_of_conv_image_fst split: if_splits)
  obtain a c where a: "cache_copy C w0 a s c" "a_id a = i" "f i = None \<or> f i = Some d"
    using plans_knownE [OF old(6) i] by metis
  have row: "find_attachment (cw_db (mg_world st)) i \<noteq> None"
    using a by (auto simp: find_attachment_def find_by_None old(3) cache_copy_def received_copies_def image_iff)
  have rest': "todo_ok C w0 f m st {i} (Resume True rest)"
    using rest by auto
  show ?thesis
  proof (cases "f i")
    case None
    then have s: "stored st s \<noteq> None" using copies_keptD(1) [OF old(4) a(1)] a(2) by simp
    show ?thesis
    proof (cases "stored st d = None")
      case True
      then have "pc' = Planned i s d (Resume True rest) \<and> st' = st"
        using step s row by (simp add: resume_move_def stored_file Let_def)
      then show ?thesis using inv i None s True rest' by simp
    next
      case False
      then have eq: "pc' = At (Resume True rest) \<and> st' = log_op (Skip i) st"
        using step s row by (auto simp: resume_move_def stored_file Let_def)
      have "map_of rest \<subseteq>\<^sub>m (pending st)(i := None)"
        using rest(1,3) by (auto simp: map_le_def dom_map_of_conv_image_fst)
      then have "todo_ok C w0 f m (log_op (Skip i) st) {} (Resume True rest)"
        using rest None by auto
      then show ?thesis
        using eq merge_inv_close [OF inv, of i "Skip i"] None by simp
    qed
  next
    case (Some p)
    then have "stored st s = None \<and> stored st d \<noteq> None" using copies_keptD(2) [OF old(4) a(1)] a(2,3) by simp
    then have "pc' = Moved i s d (Resume True rest) \<and> st' = st"
      using step row by (simp add: resume_move_def stored_file Let_def)
    then show ?thesis using inv i Some a(3) rest' by simp
  qed
qed

lemma scan_start_ok:
  assumes ready: "merge_ready C w0" and inv: "merge_inv C w0 f m st" and "dom f \<subseteq> m"
  shows "todo_ok C w0 f m st {} (Scan noted False (received_copies C (cw_db (mg_world st))))"
proof -
  note old = merge_invD [OF inv]
  have "a_id a \<in> a_id ` set (received_copies C (cw_db (mg_world st)))" if a: "cache_copy C w0 a s c" "f (a_id a) = None" for a s c
  proof -
    have "a \<in> set (received_copies C (cw_db w0))" using a(1) by (simp add: cache_copy_def)
    moreover have "pointed_row f m a = a" using a(2) old(1) by (auto simp: pointed_row_def)
    ultimately have "a \<in> set (received_copies C (cw_db (mg_world st)))"
      by (force simp: received_copies_def old(3) image_iff)
    then show ?thesis by simp
  qed
  moreover have "distinct (map a_id (received_copies C (cw_db (mg_world st))))"
    using ready by (auto simp: received_copies_def old(3) merge_ready_def comp_def intro!: distinct_map_filter)
  ultimately show ?thesis
    using assms(3) by (auto intro: scan_coversI)
qed

lemma merge_step_ok:
  assumes ready: "merge_ready C w0" and inv: "merge_inv C w0 f m st" and pc: "pc_ok C w0 f m st pc" and step: "merge_step C (pc, st) = (pc', st')"
  shows "\<exists>f' m'. merge_inv C w0 f' m' st' \<and> pc_ok C w0 f' m' st' pc'"
  using pc step
proof (cases "(C, (pc, st))" rule: merge_step.cases)
  case (1 _ noted)
  then show ?thesis using pc step inv scan_start_ok [OF ready inv] by (intro exI [of _ f] exI [of _ m]) auto
next
  case (2 _ noted i s d rest)
  then show ?thesis using pc step resume_move_ok [OF inv, of noted i s d rest pc' st'] by auto
next
  case (3 _ noted started)
  then show ?thesis using pc step inv merge_inv_cong [OF inv, of "log_op Complete st"] by (intro exI [of _ f] exI [of _ m]) auto
next
  case (4 _ noted started row rows)
  then show ?thesis using pc step scan_copy_ok [OF ready inv, of noted started row rows pc' st'] by auto
next
  case (5 _ i s d rows)
  then have "\<not> mg_torn st" "f i = None" and lib: "library_path C d" and st': "pc' = Planned i s d (Scan True True rows)" "st' = log_op (Plan i s d) st"
    using pc step by auto
  obtain a c where a: "cache_copy C w0 a s c" "a_id a = i" using 5 pc by auto
  show ?thesis
    using merge_inv_plan [OF \<open>\<not> mg_torn st\<close> inv \<open>f i = None\<close> lib a] \<open>\<not> mg_torn st\<close> pc 5 st' by (intro exI [of _ f] exI [of _ m]) auto
next
  case (6 _ i s d todo)
  show ?thesis
  proof (cases "ce_replace_ok C")
    case True
    let ?st = "st\<lparr>mg_world := replace_file s d (mg_world st)\<rparr>"
    have eq: "pc' = Moved i s d todo" "st' = ?st" using 6 True step by auto
    have "pending st i = Some (s, d)" "f i = None" "stored st d = None" "todo_ok C w0 f m st {i} todo" "pending ?st = pending st"
      using 6 pc by (auto simp: pending_def)
    then show ?thesis
      unfolding eq using merge_inv_move [OF ready inv, of i s d] todo_ok_move [of C w0 f m st i todo d s]
      by (intro exI [of _ "f(i \<mapsto> d)"] exI [of _ m]) simp
  next
    case False
    then show ?thesis using 6 step inv by (intro exI [of _ f] exI [of _ m]) auto
  qed
next
  case (7 _ i s d todo)
  then show ?thesis
    using pc step merge_inv_point [OF ready inv, of i s d] todo_ok_point [of C w0 f m st i todo s d]
    by (intro exI [of _ f] exI [of _ "insert i m"]) auto
next
  case (8 _ i todo)
  then show ?thesis
    using pc step merge_inv_close [OF inv, of i "Done i"] todo_ok_done [of C w0 f m st i todo] merge_invD(1) [OF inv]
    by (intro exI [of _ f] exI [of _ m]) auto
next
  case 9
  then show ?thesis using pc step inv by (intro exI [of _ f] exI [of _ m]) auto
next
  case 10
  then show ?thesis using pc step inv by (intro exI [of _ f] exI [of _ m]) auto
qed

lemma merge_inv_fresh: "merge_inv C w0 Map.empty {} \<lparr>mg_world = w0, mg_journal = [], mg_torn = False\<rparr>"
proof -
  have "pending \<lparr>mg_world = w0, mg_journal = [], mg_torn = False\<rparr> = Map.empty" "stored \<lparr>mg_world = w0, mg_journal = [], mg_torn = False\<rparr> = map_of (cw_files w0)"
    by (simp_all add: pending_def pending_from_journal_def stored_def)
  moreover have "pointed_row Map.empty {} = id"
    by (simp add: pointed_row_def fun_eq_iff)
  ultimately show ?thesis
    by (simp add: merge_inv_def copies_kept_def moves_known_def plans_known_def others_kept_def cache_copy_def)
qed

lemma merge_inv_arrive:
  assumes ready: "merge_ready C w0" and inv: "merge_inv C w0 f m st" and new: "\<not> is_file p (mg_world st)" "butlast p \<noteq> cache_dir C"
  shows "merge_inv C w0 f m (st\<lparr>mg_world := (mg_world st)\<lparr>cw_files := cw_files (mg_world st) @ [(p, content)]\<rparr>\<rparr>)" (is "merge_inv _ _ _ _ ?st")
proof -
  note old = merge_invD [OF inv]
  have free: "stored st p = None" using new(1) by (simp add: stored_file)
  have st: "stored ?st = (stored st)(p \<mapsto> content)" "pending ?st = pending st"
    using free by (auto simp: stored_def pending_def map_add_def fun_eq_iff split: option.splits)
  have kept: "stored ?st q = Some c" if "stored st q = Some c" for q c
    using that free by (auto simp: st)
  have "copies_kept C w0 f ?st"
    unfolding copies_kept_def
  proof (intro allI impI)
    fix a s c
    assume a: "cache_copy C w0 a s c"
    then have "s \<noteq> p" using cache_copyD(3) [OF ready a] new(2) by auto
    then show "case f (a_id a) of None \<Rightarrow> stored ?st s = Some c | Some q \<Rightarrow> stored ?st s = None \<and> stored ?st q = Some c"
      using copies_keptD [OF old(4) a] kept by (cases "f (a_id a)") (simp_all add: st)
  qed
  moreover have "others_kept C w0 ?st"
    unfolding others_kept_def
  proof (intro conjI allI impI)
    fix q c
    show "stored ?st q = Some c" if "map_of (cw_files w0) q = Some c" "butlast q \<noteq> cache_dir C"
      using kept [OF others_keptD(1) [OF old(7) that]] .
    show "map_of (cw_files w0) q = Some c" if q: "stored ?st q = Some c" "butlast q = cache_dir C"
    proof -
      have "q \<noteq> p" using q(2) new(2) by auto
      then have "stored st q = Some c" using q(1) by (simp add: st)
      then show ?thesis using q(2) by (rule others_keptD(2) [OF old(7)])
    qed
  qed
  moreover have "moves_known C w0 f m ?st" "plans_known C w0 f ?st"
    using old(5,6) by (simp_all only: moves_known_def plans_known_def st)
  ultimately show ?thesis
    using old(1-3) by (simp add: merge_inv_def)
qed

lemma resume_start_ok:
  assumes "merge_inv C w0 f m st"
  shows "todo_ok C w0 f m st {} (Resume noted (pending_from_journal (mg_journal st)))"
proof -
  have "i \<in> fst ` set (pending_from_journal (mg_journal st))" if i: "f i = Some p" "i \<notin> m" for i p
  proof -
    obtain s where "pending st i = Some (s, p)" using moves_knownE [OF merge_invD(5) [OF assms] i(1)] i(2) by metis
    then show ?thesis by (force simp: pending_def dest: map_of_SomeD)
  qed
  then show ?thesis
    by (auto simp: pending_distinct pending_def map_le_def dom_def)
qed

lemma merge_run_inv:
  assumes "merge_ready C w0" "merge_run C w0 pc st"
  shows "\<exists>f m. merge_inv C w0 f m st \<and> (case pc of None \<Rightarrow> True | Some p \<Rightarrow> pc_ok C w0 f m st p)"
  using assms(2)
proof (induction rule: merge_run.induct)
  case fresh
  then show ?case using merge_inv_fresh by (intro exI conjI) simp_all
next
  case (start st)
  then obtain f m where inv: "merge_inv C w0 f m st" by auto
  from inv resume_start_ok [OF inv] show ?case by (intro exI [of _ f] exI [of _ m]) simp
next
  case (run pc st pc' st')
  then show ?case using merge_step_ok [OF assms(1)] by fastforce
next
  case (stop pc st)
  then show ?case by auto
next
  case (tear pc st pc' r)
  then obtain f m where "merge_inv C w0 f m st" by auto
  from merge_inv_cong [OF this, of "st\<lparr>mg_torn := True\<rparr>"] show ?case by (auto simp: pending_def)
next
  case (arrive st p content)
  then show ?case using merge_inv_arrive [OF assms(1)] by (metis option.case(1))
qed

section \<open>Nothing is lost\<close>

text \<open>A copy is safe at \<open>p\<close>: its bytes are there, and its row points there or the journal holds the move that brought it there.\<close>

definition copy_safe :: "merge_state \<Rightarrow> attachment \<Rightarrow> path \<Rightarrow> path \<Rightarrow> bytes \<Rightarrow> bool" where
  "copy_safe st a source p content \<longleftrightarrow>
     map_of (cw_files (mg_world st)) p = Some content
     \<and> (find_attachment (cw_db (mg_world st)) (a_id a) = Some (a\<lparr>a_saved_path := Some (posix_text p)\<rparr>)
        \<or> find_attachment (cw_db (mg_world st)) (a_id a) = Some a \<and> map_of (pending_from_journal (mg_journal st)) (a_id a) = Some (source, p))"

definition copy_merged :: "content_env \<Rightarrow> merge_state \<Rightarrow> attachment \<Rightarrow> path \<Rightarrow> bytes \<Rightarrow> bool" where
  "copy_merged C st a p content \<longleftrightarrow>
     butlast p = files_dir C \<and> map_of (cw_files (mg_world st)) p = Some content
     \<and> find_attachment (cw_db (mg_world st)) (a_id a) = Some (a\<lparr>a_saved_path := Some (posix_text p)\<rparr>)"

definition place :: "(string \<rightharpoonup> path) \<Rightarrow> attachment \<Rightarrow> path" where
  "place f a = (case f (a_id a) of None \<Rightarrow> the (Option.bind (a_saved_path a) absolute_parts) | Some p \<Rightarrow> p)"

lemma find_pointed:
  assumes "merge_ready C w0" "merge_inv C w0 f m st" "cache_copy C w0 a s c"
  shows "find_attachment (cw_db (mg_world st)) (a_id a) = Some (pointed_row f m a)"
proof -
  have "map a_id (map (pointed_row f m) (db_attachments (cw_db w0))) = map a_id (db_attachments (cw_db w0))"
    by simp
  then have "distinct (map a_id (map (pointed_row f m) (db_attachments (cw_db w0))))"
    using assms(1) unfolding merge_ready_def by metis
  from find_by_unique [OF this, of "pointed_row f m a"] show ?thesis
    using cache_copyD(1) [OF assms(1,3)] by (simp add: find_attachment_def merge_invD(3) [OF assms(2)])
qed

lemma place_safe:
  assumes ready: "merge_ready C w0" and inv: "merge_inv C w0 f m st" and a: "cache_copy C w0 a s c"
  shows "copy_safe st a s (place f a) c" and "a_id a \<in> m \<Longrightarrow> copy_merged C st a (place f a) c"
proof -
  note old = merge_invD [OF inv] and row = find_pointed [OF assms] and src = cache_copyD [OF ready a]
  have parts: "Option.bind (a_saved_path a) absolute_parts = Some s" using a by (simp add: cache_copy_def)
  show "copy_merged C st a (place f a) c" if m: "a_id a \<in> m"
  proof -
    obtain p where p: "f (a_id a) = Some p" using old(1) m by blast
    have "library_path C p" using moves_knownE [OF old(5) p] by metis
    then show ?thesis
      using copies_keptD(2) [OF old(4) a p] row p m by (simp add: copy_merged_def place_def pointed_row_def library_path_def stored_def)
  qed
  show "copy_safe st a s (place f a) c"
  proof (cases "f (a_id a)")
    case None
    then have "pointed_row f m a = a" using old(1) by (auto simp: pointed_row_def)
    moreover have "a\<lparr>a_saved_path := Some (posix_text s)\<rparr> = a" using src(2) by simp
    ultimately show ?thesis
      using None copies_keptD(1) [OF old(4) a] row parts by (simp add: copy_safe_def place_def stored_def)
  next
    case (Some p)
    from moves_knownE [OF old(5) Some] obtain b t e where b: "cache_copy C w0 b t e" "a_id b = a_id a" "a_id a \<notin> m \<longrightarrow> pending st (a_id a) = Some (t, p)"
      by metis
    then have "t = s" using cache_copy_unique(1) [OF ready b(1) a] by simp
    then show ?thesis
      using Some copies_keptD(2) [OF old(4) a Some] row b(3) by (auto simp: copy_safe_def place_def stored_def pointed_row_def pending_def)
  qed
qed

lemma place_inj:
  assumes ready: "merge_ready C w0" and inv: "merge_inv C w0 f m st"
  shows "inj_on (place f) {a. \<exists>s c. cache_copy C w0 a s c}"
proof (rule inj_onI)
  fix a b
  assume "a \<in> {a. \<exists>s c. cache_copy C w0 a s c}" "b \<in> {a. \<exists>s c. cache_copy C w0 a s c}" and eq: "place f a = place f b"
  then obtain s c t e where ab: "cache_copy C w0 a s c" "cache_copy C w0 b t e" by blast
  note old = merge_invD [OF inv]
  have lib: "butlast p \<noteq> cache_dir C" if "f i = Some p" for i p
    using moves_knownE [OF old(5) that] library_not_cache by metis
  have parts: "Option.bind (a_saved_path a) absolute_parts = Some s" "Option.bind (a_saved_path b) absolute_parts = Some t"
    using ab by (simp_all add: cache_copy_def)
  note src = cache_copyD(3) [OF ready ab(1)] cache_copyD(3) [OF ready ab(2)]
  show "a = b"
  proof (cases "f (a_id a)"; cases "f (a_id b)")
    assume "f (a_id a) = None" "f (a_id b) = None"
    then show ?thesis using eq parts cache_copy_unique(2) [OF ready ab] by (simp add: place_def)
  next
    fix p
    assume "f (a_id a) = None" "f (a_id b) = Some p"
    then show ?thesis using eq parts lib src by (auto simp: place_def)
  next
    fix p
    assume "f (a_id a) = Some p" "f (a_id b) = None"
    then show ?thesis using eq parts lib src by (auto simp: place_def)
  next
    fix p q
    assume "f (a_id a) = Some p" "f (a_id b) = Some q"
    then have "a_id a = a_id b" using eq old(2) by (auto simp: place_def inj_on_def dom_def)
    then show ?thesis using cache_copy_unique(1) [OF ready ab] by simp
  qed
qed

lemma finished_merged:
  assumes ready: "merge_ready C w0" and inv: "merge_inv C w0 f m st" and "pc_ok C w0 f m st Finished"
    and a: "cache_copy C w0 a s c" "\<not> endswith (last s) ''.mcv''"
  shows "copy_merged C st a (place f a) c"
proof (rule place_safe(2) [OF ready inv a(1)])
  have cov: "scan_covers C w0 f {}" "dom f \<subseteq> m" using assms(3) by auto
  then have "f (a_id a) \<noteq> None" using scan_coversD [OF cov(1) a] by blast
  then show "a_id a \<in> m" using cov(2) by blast
qed

text \<open>A file outside the cache that is there is still there after a step, whenever it came.\<close>

lemma merge_step_keeps:
  assumes "merge_ready C w0" "merge_run C w0 (Some pc) st" "merge_step C (pc, st) = (pc', st')"
    and "map_of (cw_files (mg_world st)) p = Some c" "butlast p \<noteq> cache_dir C"
  shows "map_of (cw_files (mg_world st')) p = Some c"
proof -
  obtain f m where inv: "merge_inv C w0 f m st" and pc: "pc_ok C w0 f m st pc"
    using merge_run_inv [OF assms(1,2)] by auto
  from assms(3) show ?thesis
  proof (cases "(C, (pc, st))" rule: merge_step.cases)
    case (6 _ i s d todo)
    show ?thesis
    proof (cases "ce_replace_ok C")
      case True
      have pend: "pending st i = Some (s, d)" and free: "stored st d = None" using 6 pc by auto
      obtain a e where a: "cache_copy C w0 a s e" "library_path C d" using plans_knownE [OF merge_invD(6) [OF inv] pend] by metis
      have "butlast s = cache_dir C" using cache_copyD(3) [OF assms(1) a(1)] .
      then have "s \<noteq> p" "s \<noteq> d" "d \<noteq> p"
        using assms(4,5) free library_not_cache [OF a(2)] by (auto simp: stored_def)
      moreover have "st' = st\<lparr>mg_world := replace_file s d (mg_world st)\<rparr>" using 6 True assms(3) by auto
      ultimately show ?thesis
        using assms(4) free map_of_replace_file [of d "mg_world st" s] by (simp add: stored_def is_file_map_of)
    qed (use 6 assms in auto)
  qed (use assms in \<open>auto simp: resume_move_def scan_copy_def point_row_def Let_def split: if_splits option.splits sum.splits prod.splits\<close>)
qed

text \<open>C34. The storage merge is safe against crashes. Wherever it is stopped, also in the middle of writing a journal line, and
  however often it is started again, every received copy that was in the cache is still stored, with its own bytes and in a place
  of its own; its row points there, or the row is untouched and the journal holds the move that brought it there. No file
  outside the cache is ever overwritten: one that was there at the beginning is still there, and one that appeared later - under
  the very name a planned move has, too - survives every step. When a run ends, every copy that is not encrypted is in \<open>files/\<close>
  and its row points to it.\<close>

theorem merge_crash_safe:
  assumes "merge_ready C w0" "merge_run C w0 pc st"
  shows "(\<exists>home. inj_on home {a. \<exists>s c. cache_copy C w0 a s c}
      \<and> (\<forall>a s c. cache_copy C w0 a s c \<longrightarrow> copy_safe st a s (home a) c
           \<and> (pc = Some Finished \<longrightarrow> \<not> endswith (last s) ''.mcv'' \<longrightarrow> copy_merged C st a (home a) c)))
    \<and> (\<forall>p c. map_of (cw_files w0) p = Some c \<longrightarrow> butlast p \<noteq> cache_dir C \<longrightarrow> map_of (cw_files (mg_world st)) p = Some c)
    \<and> (\<forall>pc1 pc' st' p c. pc = Some pc1 \<longrightarrow> merge_step C (pc1, st) = (pc', st') \<longrightarrow> map_of (cw_files (mg_world st)) p = Some c \<longrightarrow>
         butlast p \<noteq> cache_dir C \<longrightarrow> map_of (cw_files (mg_world st')) p = Some c)"
proof -
  obtain f m where inv: "merge_inv C w0 f m st" and pc: "case pc of None \<Rightarrow> True | Some p \<Rightarrow> pc_ok C w0 f m st p"
    using merge_run_inv [OF assms] by blast
  have merged: "copy_merged C st a (place f a) c" if "cache_copy C w0 a s c" "pc = Some Finished" "\<not> endswith (last s) ''.mcv''" for a s c
    using finished_merged [OF assms(1) inv _ that(1,3)] pc that(2) by simp
  have "\<forall>pc1 pc' st' p c. pc = Some pc1 \<longrightarrow> merge_step C (pc1, st) = (pc', st') \<longrightarrow> map_of (cw_files (mg_world st)) p = Some c \<longrightarrow>
      butlast p \<noteq> cache_dir C \<longrightarrow> map_of (cw_files (mg_world st')) p = Some c"
    using merge_step_keeps [OF assms(1)] assms(2) by blast
  then show ?thesis
    using place_inj [OF assms(1) inv] place_safe(1) [OF assms(1) inv] merged others_keptD(1) [OF merge_invD(7) [OF inv]]
    by (intro conjI exI [of _ "place f"] allI impI) (simp_all add: stored_def)
qed

section \<open>A run ends\<close>

text \<open>What a run has left to do, as a number that every step lowers; \<open>n\<close> is the number of rows.\<close>

fun todo_size :: "nat \<Rightarrow> merge_todo \<Rightarrow> nat" where
  "todo_size n (Resume noted rest) = 4 * length rest + 4 * n + 3"
| "todo_size n (Scan noted started rows) = 4 * length rows + (if started then 1 else 2)"

fun pc_size :: "nat \<Rightarrow> merge_pc \<Rightarrow> nat" where
  "pc_size n (At todo) = todo_size n todo"
| "pc_size n (Started i s d rows) = 4 * length rows + 5"
| "pc_size n (Planned i s d todo) = todo_size n todo + 3"
| "pc_size n (Moved i s d todo) = todo_size n todo + 2"
| "pc_size n (Pointed i todo) = todo_size n todo + 1"
| "pc_size n Finished = 0"
| "pc_size n Aborted = 0"

lemma merge_step_rows: "merge_step C (pc, st) = (pc', st') \<Longrightarrow> length (db_attachments (cw_db (mg_world st'))) = length (db_attachments (cw_db (mg_world st)))"
  by (cases "(C, (pc, st))" rule: merge_step.cases)
    (auto simp: resume_move_def scan_copy_def Let_def replace_file_def point_row_def update_attachment_def update_where_def
      split: if_splits option.splits sum.splits prod.splits)

lemma merge_step_smaller:
  assumes "merge_step C (pc, st) = (pc', st')" "length (db_attachments (cw_db (mg_world st))) = n" "pc \<noteq> Finished" "pc \<noteq> Aborted"
  shows "pc_size n pc' < pc_size n pc"
proof -
  have "length (received_copies C (cw_db (mg_world st))) \<le> n"
    unfolding received_copies_def using assms(2) length_filter_le by blast
  then show ?thesis
    using assms by (cases "(C, (pc, st))" rule: merge_step.cases)
      (auto simp: resume_move_def scan_copy_def Let_def split: if_splits option.splits sum.splits prod.splits)
qed

lemma merge_run_power:
  "merge_run C w0 (Some pc) st \<Longrightarrow> (merge_step C ^^ k) (pc, st) = (pc', st') \<Longrightarrow> merge_run C w0 (Some pc') st'"
proof (induction k arbitrary: pc' st')
  case (Suc k)
  obtain pc1 st1 where k: "(merge_step C ^^ k) (pc, st) = (pc1, st1)" by (cases "(merge_step C ^^ k) (pc, st)")
  with Suc show ?case by (auto intro: merge_run.run)
qed simp

lemma merge_terminates:
  assumes "length (db_attachments (cw_db (mg_world st))) = n"
  shows "\<exists>k \<le> pc_size n pc. fst ((merge_step C ^^ k) (pc, st)) \<in> {Finished, Aborted}"
  using assms
proof (induction "pc_size n pc" arbitrary: pc st rule: less_induct)
  case less
  show ?case
  proof (cases "pc \<in> {Finished, Aborted}")
    case True
    then show ?thesis by (intro exI [of _ 0]) auto
  next
    case False
    obtain pc' st' where step: "merge_step C (pc, st) = (pc', st')" by (cases "merge_step C (pc, st)")
    have small: "pc_size n pc' < pc_size n pc"
      using merge_step_smaller [OF step less.prems] False by simp
    moreover have "length (db_attachments (cw_db (mg_world st'))) = n"
      using merge_step_rows [OF step] less.prems by simp
    ultimately obtain k where k: "k \<le> pc_size n pc'" "fst ((merge_step C ^^ k) (pc', st')) \<in> {Finished, Aborted}"
      using less.hyps by blast
    then show ?thesis
      using small step by (intro exI [of _ "Suc k"]) (simp add: funpow_swap1)
  qed
qed

text \<open>Only a failing \<open>os.replace\<close> or a display name that is refused as a file name stops a run early.\<close>

definition names_accepted :: "content_env \<Rightarrow> content_world \<Rightarrow> bool" where
  "names_accepted C w \<longleftrightarrow> (\<forall>a \<in> set (db_attachments (cw_db w)). \<exists>p. resolve_saved_path (ce_principal_id C) (library_name a) = Inr p)"

lemma unique_name_exists:
  assumes "resolve_saved_path q n = Inr p"
  shows "\<exists>dir name. unique_file_name existing q n = Inr (Some (dir, name))"
  using assms next_free_name_returns [of 2 existing "snd p"] by (cases p) (auto simp: unique_file_name_def)

lemma merge_step_not_aborted:
  assumes ready: "merge_ready C w0" and inv: "merge_inv C w0 f m st" and pc: "pc_ok C w0 f m st pc" and step: "merge_step C (pc, st) = (pc', st')"
    and ok: "ce_replace_ok C" "names_accepted C w0" and "pc \<noteq> Aborted"
  shows "pc' \<noteq> Aborted"
  using step pc
proof (cases "(C, (pc, st))" rule: merge_step.cases)
  case (4 _ noted started row rows)
  then have "row \<in> set (received_copies C (cw_db (mg_world st)))" using pc by simp
  then obtain a where a: "a \<in> set (db_attachments (cw_db w0))" "row = pointed_row f m a"
    using merge_invD(3) [OF inv] by (auto simp: received_copies_def)
  then have "library_name row = library_name a" by (simp add: library_name_def)
  then obtain dir name where "unique_file_name (library_names C (mg_world st)) (ce_principal_id C) (library_name row) = Inr (Some (dir, name))"
    using ok(2) a(1) unique_name_exists unfolding names_accepted_def by metis
  then show ?thesis
    using 4 step by (auto simp: scan_copy_def Let_def split: option.splits if_splits)
qed (use ok assms(7) in \<open>auto simp: resume_move_def Let_def split: if_splits\<close>)

lemma merge_power_ok:
  assumes "merge_ready C w0" "merge_inv C w0 f m st" "pc_ok C w0 f m st pc" "ce_replace_ok C" "names_accepted C w0" "pc \<noteq> Aborted"
    and "(merge_step C ^^ k) (pc, st) = (pc', st')"
  shows "pc' \<noteq> Aborted \<and> (\<exists>f m. merge_inv C w0 f m st' \<and> pc_ok C w0 f m st' pc')"
  using assms(7)
proof (induction k arbitrary: pc' st')
  case 0
  then show ?case using assms(2,3,6) by auto
next
  case (Suc k)
  obtain pc1 st1 where k: "(merge_step C ^^ k) (pc, st) = (pc1, st1)" by (cases "(merge_step C ^^ k) (pc, st)")
  with Suc obtain f m where "pc1 \<noteq> Aborted" "merge_inv C w0 f m st1" "pc_ok C w0 f m st1 pc1" by blast
  moreover have "merge_step C (pc1, st1) = (pc', st')" using Suc.prems k by simp
  ultimately show ?case
    using merge_step_ok [OF assms(1)] merge_step_not_aborted [OF assms(1)] assms(4,5) by metis
qed

text \<open>C35. A merge that is left alone completes. After any number of interrupted runs, a run that nothing stops, where
  \<open>os.replace\<close> works and the display names can be file names, ends after at most \<open>4 * (planned moves + rows) + 3\<close> steps with
  every received copy that is not encrypted in \<open>files/\<close>, its row pointing to it.\<close>

theorem merge_completes:
  assumes "merge_ready C w0" "merge_run C w0 None st" "ce_replace_ok C" "names_accepted C w0"
  shows "\<exists>k st'. (merge_step C ^^ k) (At (Resume False (pending_from_journal (mg_journal st))), st) = (Finished, st')
     \<and> k \<le> 4 * (length (pending_from_journal (mg_journal st)) + length (db_attachments (cw_db (mg_world st)))) + 3
     \<and> (\<forall>a s c. cache_copy C w0 a s c \<longrightarrow> \<not> endswith (last s) ''.mcv'' \<longrightarrow> (\<exists>p. copy_merged C st' a p c))"
proof -
  let ?pc = "At (Resume False (pending_from_journal (mg_journal st)))"
  obtain f m where inv: "merge_inv C w0 f m st" using merge_run_inv [OF assms(1,2)] by auto
  have pc: "pc_ok C w0 f m st ?pc" using resume_start_ok [OF inv] by simp
  obtain k pc' st' where k: "k \<le> pc_size (length (db_attachments (cw_db (mg_world st)))) ?pc" "(merge_step C ^^ k) (?pc, st) = (pc', st')"
    "pc' \<in> {Finished, Aborted}" using merge_terminates [OF refl, where C = C and pc = ?pc and st = st] by (metis prod.collapse)
  from merge_power_ok [OF assms(1) inv pc assms(3,4) _ k(2)] obtain f' m' where final: "pc' \<noteq> Aborted" "merge_inv C w0 f' m' st'" "pc_ok C w0 f' m' st' pc'"
    by auto
  then have "pc' = Finished" using k(3) by simp
  with k final finished_merged [OF assms(1) final(2)] show ?thesis
    by (intro exI [of _ k] exI [of _ st']) auto
qed

section \<open>A concrete run\<close>

definition merge_sample :: content_world where
  "merge_sample = content_state ''/mca/cache/incoming/x''"

abbreviation sample_source :: path where
  "sample_source \<equiv> [''mca'', ''cache'', ''incoming'', ''x'']"

lemma merge_sample_simps [simp]:
  "cw_files merge_sample = [(sample_source, [1]), ([''mca'', ''keys'', ''seed''], [2])]"
  "db_attachments (cw_db merge_sample) = [cached ''/mca/cache/incoming/x'']"
  "absolute_parts ''/mca/cache/incoming/x'' = Some sample_source" "cache_dir content_sample = [''mca'', ''cache'', ''incoming'']"
  "posix_text sample_source = ''/mca/cache/incoming/x''"
  by (simp_all add: merge_sample_def content_state_def worker_db_def cache_dir_def content_sample_def) (code_simp)+

lemma merge_sample_ready: "merge_ready content_sample merge_sample"
  by (simp add: merge_ready_def inj_on_def) (simp add: content_sample_def clean_path_def)

lemma merge_sample_copy: "cache_copy content_sample merge_sample (cached ''/mca/cache/incoming/x'') sample_source [1]"
  by (simp add: cache_copy_def received_copies_def)

lemma merge_sample_names: "names_accepted content_sample merge_sample"
proof -
  have "resolve_saved_path (ce_principal_id content_sample) (library_name (cached ''/mca/cache/incoming/x'')) = Inr (''0123456789abcdef'', ''f.txt'')"
    unfolding library_name_def cached_simps content_sample_def content_env.select_convs by code_simp
  then show ?thesis by (simp add: names_accepted_def)
qed

text \<open>The process stops after the file was moved and before its row follows.\<close>

definition crashed :: merge_state where
  "crashed = \<lparr>mg_world = replace_file sample_source [''mca'', ''files'', ''f.txt''] merge_sample,
     mg_journal = [Start, Plan ''a'' sample_source [''mca'', ''files'', ''f.txt'']], mg_torn = False\<rparr>"

lemma crashed_reachable: "merge_run content_sample merge_sample None crashed"
proof -
  let ?st = "\<lambda>js. \<lparr>mg_world = merge_sample, mg_journal = js, mg_torn = False\<rparr>" and ?row = "cached ''/mca/cache/incoming/x''"
  let ?started = "Started ''a'' sample_source [''mca'', ''files'', ''f.txt''] []"
  let ?move = "Planned ''a'' sample_source [''mca'', ''files'', ''f.txt''] (Scan True True [])"
  have "merge_run content_sample merge_sample (Some (At (Resume False []))) (?st [])"
    using merge_run.start [OF merge_run.fresh] by (simp add: pending_from_journal_def)
  then have scan: "merge_run content_sample merge_sample (Some (At (Scan False False [?row]))) (?st [])"
    by (rule merge_run.run) (simp add: received_copies_def)
  have "library_name ?row = ''f.txt''"
    unfolding library_name_def cached_simps by code_simp
  moreover have "library_names content_sample merge_sample = []" "endswith ''x'' ''.mcv'' = False" "files_dir content_sample = [''mca'', ''files'']"
    by (simp_all add: library_names_def files_dir_def content_sample_def endswith_def startswith_def)
  moreover have "unique_file_name [] (ce_principal_id content_sample) ''f.txt'' = Inr (Some (''0123456789abcdef'', ''f.txt''))"
    unfolding content_sample_def content_env.select_convs by code_simp
  moreover have "is_file sample_source merge_sample" "\<not> is_file [''mca'', ''files'', ''f.txt''] merge_sample"
    by (simp_all add: is_file_def)
  ultimately have "merge_step content_sample (At (Scan False False [?row]), ?st []) = (?started, ?st [Start])"
    by (simp add: scan_copy_def log_op_def)
  from merge_run.run [OF scan this] have "merge_run content_sample merge_sample (Some ?started) (?st [Start])" .
  then have "merge_run content_sample merge_sample (Some ?move) (?st (mg_journal crashed))"
    by (rule merge_run.run) (simp add: log_op_def crashed_def)
  then have "merge_run content_sample merge_sample (Some (Moved ''a'' sample_source [''mca'', ''files'', ''f.txt''] (Scan True True []))) crashed"
    by (rule merge_run.run) (simp add: crashed_def)
  then show ?thesis by (rule merge_run.stop)
qed

theorem merge_crash_safe_witness:
  "\<not> is_file sample_source (mg_world crashed)
   \<and> (\<exists>p. copy_safe crashed (cached ''/mca/cache/incoming/x'') sample_source p [1])
   \<and> map_of (cw_files (mg_world crashed)) [''mca'', ''keys'', ''seed''] = Some [2]"
proof (intro conjI)
  note safe = merge_crash_safe [OF merge_sample_ready crashed_reachable]
  show "\<exists>p. copy_safe crashed (cached ''/mca/cache/incoming/x'') sample_source p [1]"
    using conjunct1 [OF safe] merge_sample_copy by blast
  show "map_of (cw_files (mg_world crashed)) [''mca'', ''keys'', ''seed''] = Some [2]"
    by (rule conjunct1 [OF conjunct2 [OF safe], rule_format]) simp_all
  show "\<not> is_file sample_source (mg_world crashed)"
    by (simp add: crashed_def replace_file_def is_file_def)
qed

theorem merge_completes_witness:
  "\<exists>k st' p. (merge_step content_sample ^^ k) (At (Resume False [(''a'', sample_source, [''mca'', ''files'', ''f.txt''])]), crashed) = (Finished, st')
     \<and> k \<le> 11 \<and> copy_merged content_sample st' (cached ''/mca/cache/incoming/x'') p [1]"
proof -
  have start: "pending_from_journal (mg_journal crashed) = [(''a'', sample_source, [''mca'', ''files'', ''f.txt''])]"
    "length (db_attachments (cw_db (mg_world crashed))) = 1" "\<not> endswith (last sample_source) ''.mcv''"
    by (simp_all add: crashed_def pending_from_journal_def read_op_def replace_file_def endswith_def startswith_def)
  obtain k st' where k: "(merge_step content_sample ^^ k) (At (Resume False (pending_from_journal (mg_journal crashed))), crashed) = (Finished, st')"
    "k \<le> 4 * (length (pending_from_journal (mg_journal crashed)) + length (db_attachments (cw_db (mg_world crashed)))) + 3"
    "\<forall>a s c. cache_copy content_sample merge_sample a s c \<longrightarrow> \<not> endswith (last s) ''.mcv'' \<longrightarrow> (\<exists>p. copy_merged content_sample st' a p c)"
    using merge_completes [OF merge_sample_ready crashed_reachable _ merge_sample_names] by auto
  obtain p where "copy_merged content_sample st' (cached ''/mca/cache/incoming/x'') p [1]"
    using k(3) merge_sample_copy start(3) by blast
  with k(1,2) start(1,2) show ?thesis
    by (intro exI [of _ k] exI [of _ st'] exI [of _ p]) simp
qed

end
