(* ===== verification/Spec2Isabelle.thy ===== *)
theory Spec2Isabelle
  imports Codec_Properties Crypto_Properties Identity Manifest_Properties Key_Exchange_Properties Outbox_Properties
    Mime_Allowlist Workspace Receiver_Properties Sender_Properties Relay_Properties Receiver_Download End_To_End_Example
    Radio_Wire_Properties Provider_Registry_Properties Command_Pipeline_Properties Json_Text Service_Inbound_Properties Service_Commands_Properties Service_Tick_Properties Service_Content_Properties
    Storage_Merge_Properties
begin

text \<open>
  MeshCenter: the encrypted attachment protocol MCA/1, \<open>src/meshsrv/attachments/\<close>.

  \<^bold>\<open>The program.\<close> A MeshCenter node sends a file to the owner of another node over a mesh radio that carries messages of
  fewer than 200 bytes. The file itself goes over HTTPS: the sender encrypts it in chunks, uploads the ciphertexts and an
  encrypted manifest to a Relay, and sends a small signed OFFER over the radio. The receiver checks the OFFER against the
  key it has confirmed for that sender, asks its user, downloads and verifies the object, and answers with signed
  acknowledgements through a rate-limited outbox. Keys are exchanged over the radio and trusted on first use after a
  confirmation by the user.

  \<^bold>\<open>Theories and sources.\<close>
  \<^item> \<open>MC_Prelude\<close>: results (\<open>bind_res\<close>, \<open>traverse_res\<close>), table operations (a SQL table is a list of rows, \<open>find_by\<close>,
    \<open>update_where\<close>, \<open>upsert\<close>), hexadecimal and big-endian bytes, the collections \<open>mc_defs\<close> and \<open>mc_table\<close>. \<open>Py_Base64\<close>,
    \<open>Py_Text\<close>, \<open>Py_Convert\<close>: what the code uses of Python's \<open>base64\<close>, \<open>str\<close> and conversions. \<open>Cbor\<close>: decoded CBOR values;
    \<open>Cbor_RFC\<close>: an encoder and decoder after RFC 8949, the concrete instance of the \<open>cbor2\<close> contract. \<open>External\<close>: the
    third-party functions (\<open>cbor2\<close>, PyNaCl, SHA-256) as the record \<open>ext\<close> with the documented laws the properties assume,
    and \<open>ref_ext\<close>, which satisfies all of them; the record also says what \<open>int\<close>, \<open>bytes\<close> and subscripting make of the objects
    \<open>cbor2\<close> builds from tags, any exception included, and for which sizes there is memory.
  \<^item> \<open>Codec\<close>, \<open>Signed_Codec\<close>, \<open>Codec_Properties\<close>: \<open>codec.py\<close>, the signed messages. The locale \<open>signed_codec\<close> states once what
    an encoder and its decoder owe each other and is interpreted for all five message families.
  \<^item> \<open>Crypto\<close>, \<open>Crypto_Properties\<close>: \<open>crypto.py\<close>. \<open>Manifest\<close>, \<open>Manifest_Properties\<close>: \<open>manifest.py\<close>. \<open>Identity\<close>: \<open>identity.py\<close>.
  \<^item> \<open>Fixed_Window\<close>: the locales \<open>gated\<close>, \<open>min_interval\<close>, \<open>fixed_window\<close> for rate limits, with the bound on any time interval
    proved once. \<open>Key_Request_Retry\<close>, \<open>Key_Exchange\<close>, \<open>Key_Exchange_Properties\<close>: \<open>key_request_retry.py\<close>, \<open>key_exchange.py\<close>,
    \<open>contacts.py\<close> and the retry tick of \<open>service.py\<close>; four interpretations of the limits.
  \<^item> \<open>MCA_DB\<close>: the tables of \<open>db/migrations.py\<close> the state machines use. \<open>Outbox\<close>, \<open>Outbox_Properties\<close>: outgoing replies, their
    quotas (two interpretations of \<open>fixed_window\<close>) and their dispatch (\<open>receiver.py\<close>, \<open>service.py\<close>).
  \<^item> \<open>Radio_Wire\<close>, \<open>Radio_Wire_Properties\<close>: \<open>meshsrv/ipc_protocol.py\<close> and \<open>meshsrv/radio_transport.py\<close>, the values that cross the
    boundary to the radio adapter process and their JSON form. \<open>Json_Text\<close>: the canonical
    JSON text of \<open>json.dumps\<close> with sorted keys, and what a signature or hash over it binds.
  \<^item> \<open>Command_Registry\<close>, \<open>Command_Registry_Properties\<close>: \<open>command_registry.py\<close>, the bounded queue of commands with their
    states and reservations. \<open>Idempotency\<close>: \<open>idempotency.py\<close>. \<open>Command_Pipeline\<close>, \<open>Command_Pipeline_Properties\<close>: how the
    facade, its client markers, the dispatcher and the worker of \<open>service.py\<close> and \<open>facade.py\<close> use them, as one step relation
    in which client calls and worker steps interleave. A create request gets the published index it read as an argument,
    which may be out of date when the reservation is made.
  \<^item> \<open>Provider_Registry\<close>, \<open>Provider_Registry_Properties\<close>: the profile table of \<open>provider_registry.py\<close> (origins, limits, tokens,
    removal), the probes and the provider commands of the worker.
  \<^item> \<open>Mime_Allowlist\<close>: \<open>mime_allowlist.py\<close>. \<open>Workspace\<close>: \<open>workspace.py\<close> (names, paths, disk levels).
  \<^item> \<open>Relay\<close>: provider rows and identifiers (\<open>provider_registry.py\<close>), descriptors and their signature (\<open>relay_client.py\<close>).
    \<open>Relay_Store\<close>: \<open>MockRelayStore\<close> of \<open>relay/mock_server.py\<close>. \<open>Relay_Client\<close>: the retry loop and the calls of
    \<open>relay_client.py\<close>. \<open>Relay_Properties\<close>: invariants of the store, bounds of the retry loop.
  \<^item> \<open>Delivery\<close>: \<open>delivery/base.py\<close> and \<open>delivery/meshtastic.py\<close>.
  \<^item> \<open>Receiver\<close>, \<open>Receiver_Properties\<close>, \<open>Receiver_Download\<close>: \<open>receiver.py\<close>. \<open>Sender\<close>, \<open>Sender_Properties\<close>: \<open>sender.py\<close>.
  \<^item> \<open>Relay_Contract\<close>: the locale \<open>relay_contract\<close>, what sender and receiver rely on in a Relay, with the upload and the
    download followed to success inside it. \<open>End_To_End\<close>: its interpretation \<open>mock\<close> on the store behind the client, and the
    properties of a whole transfer; \<open>End_To_End_Example\<close>: a concrete run.
  \<^item> \<open>Service_Inbound\<close>, \<open>Service_Inbound_Properties\<close>: the inbound queue of \<open>service.py\<close>, its drain with the vault locked or not,
    and \<open>_process_one_inbound_event\<close> with the handlers of acknowledgements, cancellations, offers and key messages.
  \<^item> \<open>Service_Commands\<close>, \<open>Service_Commands_Properties\<close>: the worker's handlers of the attachment and contact commands and the
    step of one attachment (\<open>_step_sent\<close>, \<open>_step_received\<close>), as handlers of the dispatcher of \<open>Command_Pipeline\<close>.
  \<^item> \<open>Service_Tick\<close>, \<open>Service_Tick_Properties\<close>: the periodic work of \<open>_tick_locked\<close> in \<open>service.py\<close>: the scan over rows that advance
    by themselves, automatic key requests, the expiry sweep and the clean-up passes.
  \<^item> \<open>Service_Content\<close>, \<open>Service_Content_Properties\<close>: content locators of \<open>snapshots.py\<close> and the save, delete and clean-up commands
    of \<open>service.py\<close>. \<open>Storage_Merge\<close>, \<open>Storage_Merge_Properties\<close>: \<open>storage_merge.py\<close>, the journaled move of received files, as a
    step machine that may stop between any two durable effects and in the middle of a journal line.

  \<^bold>\<open>How code becomes definitions.\<close> A function of the source is a definition of the same name (with a prefix where two
  modules share a name: \<open>sender_run_step\<close>, \<open>store_commit\<close>). A database is the record \<open>mca_db\<close>; an operation returns the
  committed database. An exception is a value of a sum type; a rollback is the unchanged input state. The clock, random
  bytes and uuids are arguments or supplies indexed by a counter. Files are association lists of names and contents.
  Times are rationals, since the code stores Python floats; whole-second columns are integers. Integers are unbounded as in
  Python; bytes are \<open>8 word\<close>.

  \<^bold>\<open>What the lemmas show.\<close> Codec: round trips, only verified messages are returned, signed bytes of different types never
  coincide, sizes. Crypto and manifest: round trips, unique nonces, what the associated data binds, which exceptions escape.
  Key exchange: the binding invariant over all reachable states, no message moves trust, the key-change workflow, bounds
  on automatic traffic. Receiver and sender: state diagrams over inductive step relations, trust and admission invariants,
  exactly-once outbox, converging acknowledgements, retained revoke tokens. Relay: what is served is what was committed,
  lifetimes, storage bound, bounded retries. Commands: an accepted command runs once, in order, its outcome is visible to the
  client that sent it, and a drain completes everything that was queued; a repeated create is answered by its reservation, and
  by the worker's check of the request id when the reservation is gone. Providers: the
  table invariant, and which probe results may establish trust. Service: whatever text arrives, an attachment changes only by
  a message from the pinned route under the pinned key; every frame is handled, waiting or counted as lost; every envelope
  of a manifest is sealed for the key confirmed at its destination; revoke and reject are atomic, a create commits or cleans
  up; content commands and sweeps delete only what they name or own; the storage merge loses and overwrites nothing in a crash
  and completes when left alone. Together: an interrupted upload completes, and a transfer delivers the file.
  Some theorems state that the code does something it does not mean to do; they are named in the manifest's findings.

  \<^bold>\<open>Bounds and fuel.\<close> No definition takes fuel that the code does not have. \<open>unique_file_name\<close>'s renaming loop is a
  \<open>partial_function\<close> proved to return (\<open>unique_file_name_safe\<close>); the client's \<open>while True\<close> loop is a \<open>function\<close> with a
  termination measure on the attempts left; \<open>drive\<close> has the code's own limit of steps per attachment. Some round trips
  assume ASCII text where the CBOR text form is involved, since the model's strings hold one character per byte.

  \<^bold>\<open>Not modelled.\<close> The vault (at-rest encryption; every model has it switched off), threads below the granularity of the
  steps above, the read-only snapshots of the facade, HTTP transport (DNS, TLS, sockets: a session here answers and does
  not raise), thumbnails, the radio transports and their processes, the web server and REST API, schedules, camera and
  other devices: input/output, threads or third-party code around the protocol. The PHP Relay server and the JavaScript
  frontend are other languages. Of \<open>storage_merge.py\<close>, the copy between two file systems and a journal line cut exactly
  before its newline are left out. What the operating system keeps of a completed write is taken as durable.
\<close>

end
